(* ===== verification/Epc_Prelude.thy ===== *)
theory Epc_Prelude
  imports Main "HOL-Library.Word"
begin

section \<open>Prelude: results, bytes, decimal strings, tables\<close>

text \<open>
  What every component of the packet core shares.
  \<^item> Machine integers by their C++ names, and \<open>res\<close>: a value, or the reason why the process does
    not go on. \<open>Exit\<close> is \<open>Utils::handle_type1_error\<close> (print and \<open>exit(EXIT_FAILURE)\<close>),
    \<open>Undefined\<close> is behaviour the C++ standard leaves undefined (a \<open>memmove\<close> outside a buffer,
    a \<open>bool\<close> object holding neither 0 nor 1), \<open>Uncaught\<close> is a standard exception that nothing
    catches, \<open>Blocked\<close> a call that waits for input that does not come.
  \<^item> Buffers as byte lists with checked block reads and writes.
  \<^item> Little-endian integers, decimal strings (\<open>to_string\<close>, \<open>stoull\<close>, \<open>substr\<close>).
  \<^item> \<open>unordered_map\<close> as a partial function; \<open>operator[]\<close> inserts a default first.
\<close>

type_synonym u8 = "8 word"
type_synonym u16 = "16 word"
type_synonym u32 = "32 word"
type_synonym u64 = "64 word"

datatype epc_error =
    Exit string
  | Undefined string
  | Uncaught string
  | Blocked

type_synonym 'a res = "epc_error + 'a"

named_theorems pkt_simps \<open>symbolic execution of packet code\<close>
named_theorems tab_simps \<open>tables indexed by identifiers\<close>

subsection \<open>Sequencing of operations that may stop\<close>

definition bindE :: "'a res \<Rightarrow> ('a \<Rightarrow> 'b res) \<Rightarrow> 'b res" where
  "bindE m f = (case m of Inl e \<Rightarrow> Inl e | Inr x \<Rightarrow> f x)"

lemma bindE_Inr [simp, pkt_simps]: "bindE (Inr x) f = f x"
  by (simp add: bindE_def)

lemma bindE_Inl [simp, pkt_simps]: "bindE (Inl e) f = Inl e"
  by (simp add: bindE_def)

lemma bindE_eq_Inr: "bindE m f = Inr y \<longleftrightarrow> (\<exists>x. m = Inr x \<and> f x = Inr y)"
  by (cases m) auto

lemma bindE_eq_Inl: "bindE m f = Inl e \<longleftrightarrow> m = Inl e \<or> (\<exists>x. m = Inr x \<and> f x = Inl e)"
  by (cases m) auto

lemma bindE_assoc: "bindE (bindE m f) g = bindE m (\<lambda>x. bindE (f x) g)"
  by (cases m) auto

lemma bindE_cong [fundef_cong]:
  "m = m' \<Longrightarrow> (\<And>x. m' = Inr x \<Longrightarrow> f x = f' x) \<Longrightarrow> bindE m f = bindE m' f'"
  by (cases m') auto

subsection \<open>Buffers\<close>

text \<open>
  A buffer is the list of its bytes. \<open>buf_read d p n\<close> and \<open>buf_write d p bs\<close> are
  \<open>memmove\<close> from and to offset \<open>p\<close>; out of range they are undefined. A negative length
  converts to a huge \<open>size_t\<close>, which is out of range as well.
\<close>

definition buf_read :: "u8 list \<Rightarrow> int \<Rightarrow> int \<Rightarrow> u8 list res" where
  "buf_read d p n =
     (if 0 \<le> p \<and> 0 \<le> n \<and> p + n \<le> int (length d) then Inr (take (nat n) (drop (nat p) d))
      else Inl (Undefined ''memmove: read out of range''))"

definition buf_write :: "u8 list \<Rightarrow> int \<Rightarrow> u8 list \<Rightarrow> u8 list res" where
  "buf_write d p bs =
     (if 0 \<le> p \<and> p + int (length bs) \<le> int (length d)
      then Inr (take (nat p) d @ bs @ drop (nat p + length bs) d)
      else Inl (Undefined ''memmove: write out of range''))"

lemma buf_write_length: "buf_write d p bs = Inr d' \<Longrightarrow> length d' = length d"
  by (auto simp: buf_write_def split: if_splits)

lemma buf_read_length: "buf_read d p n = Inr bs \<Longrightarrow> int (length bs) = n"
  by (auto simp: buf_read_def split: if_splits)

lemma buf_read_after_write:
  "buf_write d p bs = Inr d' \<Longrightarrow> buf_read d' p (int (length bs)) = Inr bs"
  by (auto simp: buf_write_def buf_read_def split: if_splits)

subsection \<open>Little-endian integers\<close>

fun le_bytes :: "nat \<Rightarrow> nat \<Rightarrow> u8 list" where
  "le_bytes 0 v = []"
| "le_bytes (Suc n) v = of_nat (v mod 256) # le_bytes n (v div 256)"

fun le_val :: "u8 list \<Rightarrow> nat" where
  "le_val [] = 0"
| "le_val (b # bs) = unat b + 256 * le_val bs"

lemma length_le_bytes [simp, pkt_simps]: "length (le_bytes n v) = n"
  by (induction n arbitrary: v) auto

lemma unat_u8_less: "unat (b :: u8) < 256"
  using unsigned_less [where w = b and 'a = nat] by simp

lemma unat_of_nat_u8: "unat (of_nat n :: u8) = n mod 256"
  by (simp add: unat_of_nat)

lemma le_val_le_bytes [simp]: "le_val (le_bytes n v) = v mod 256 ^ n"
proof (induction n arbitrary: v)
  case 0
  then show ?case by simp
next
  case (Suc n)
  have "le_val (le_bytes (Suc n) v) = v mod 256 + 256 * ((v div 256) mod 256 ^ n)"
    by (simp add: Suc unat_of_nat_u8)
  also have "\<dots> = v mod 256 ^ Suc n"
    by (simp add: mod_mult2_eq)
  finally show ?case .
qed

lemma le_val_bound: "le_val bs < 256 ^ length bs"
proof (induction bs)
  case Nil
  then show ?case by simp
next
  case (Cons b bs)
  have "unat b < 256"
    by (rule unat_u8_less)
  with Cons show ?case by simp
qed

lemma le_bytes_le_val [simp]: "le_bytes (length bs) (le_val bs) = bs"
proof (induction bs)
  case Nil
  then show ?case by simp
next
  case (Cons b bs)
  have b: "unat b < 256"
    by (rule unat_u8_less)
  then have "(unat b + 256 * le_val bs) mod 256 = unat b"
    by (simp add: mod_mult_self2)
  moreover from b have "(unat b + 256 * le_val bs) div 256 = le_val bs"
    by simp
  ultimately show ?case
    using Cons by simp
qed

declare le_bytes.simps [simp del]

text \<open>An \<open>n\<close>-byte unsigned integer of the host, x86-64, as it lies in memory.\<close>

definition le_word :: "nat \<Rightarrow> 'a::len word \<Rightarrow> u8 list" where
  "le_word n w = le_bytes n (unat w)"

definition word_le :: "u8 list \<Rightarrow> 'a::len word" where
  "word_le bs = of_nat (le_val bs)"

lemma length_le_word [simp, pkt_simps]: "length (le_word n w) = n"
  by (simp add: le_word_def)

lemma word_le_word [simp]:
  fixes w :: "'a::len word"
  assumes "LENGTH('a) = 8 * n"
  shows "word_le (le_word n w) = w"
proof -
  have "unat w < 2 ^ LENGTH('a)"
    using unsigned_less [where w = w and 'a = nat] by simp
  with assms have "unat w < 256 ^ n"
    by (simp add: power_mult)
  then show ?thesis
    by (simp add: word_le_def le_word_def)
qed

lemma le_word_le:
  assumes "LENGTH('a::len) = 8 * length bs"
  shows "le_word (length bs) (word_le bs :: 'a word) = bs"
proof -
  have "le_val bs < 2 ^ LENGTH('a)"
    using le_val_bound [of bs] assms by (simp add: power_mult)
  then show ?thesis
    by (simp add: word_le_def le_word_def unat_of_nat)
qed

lemma word_le_u16 [simp, pkt_simps]: "word_le (le_word 2 w) = (w :: u16)"
  by simp

lemma word_le_u32 [simp, pkt_simps]: "word_le (le_word 4 w) = (w :: u32)"
  by simp

lemma word_le_u64 [simp, pkt_simps]: "word_le (le_word 8 w) = (w :: u64)"
  by simp

text \<open>The signed 32-bit \<open>int\<close>.\<close>

definition le_int :: "int \<Rightarrow> u8 list" where
  "le_int v = le_word 4 (word_of_int v :: u32)"

definition int_le :: "u8 list \<Rightarrow> int" where
  "int_le bs = sint (word_le bs :: u32)"

lemma length_le_int [simp, pkt_simps]: "length (le_int v) = 4"
  by (simp add: le_int_def)

lemma le_int_nonempty [simp]: "le_int v \<noteq> []"
  by (metis length_le_int list.size(3) zero_neq_numeral)

lemma int_le_int [simp, pkt_simps]: "- (2 ^ 31) \<le> v \<Longrightarrow> v < 2 ^ 31 \<Longrightarrow> int_le (le_int v) = v"
  by (simp add: int_le_def le_int_def signed_of_int signed_take_bit_int_eq_self)

subsection \<open>Decimal strings\<close>

text \<open>
  \<open>to_string\<close> is \<open>std::to_string\<close> on the unsigned types. \<open>stoull\<close> follows \<open>strtoull\<close> in
  base 10: white space, an optional sign, digits, the rest ignored; no digits throws
  \<open>invalid_argument\<close>, a value above \<open>2^64 - 1\<close> throws \<open>out_of_range\<close>. \<open>substr_from\<close> is
  \<open>substr(pos, npos)\<close>, which throws when \<open>pos\<close> is past the end.
\<close>

definition digit_char :: "nat \<Rightarrow> char" where
  "digit_char d = char_of (48 + d)"

definition is_digit :: "char \<Rightarrow> bool" where
  "is_digit c \<longleftrightarrow> (48::nat) \<le> of_char c \<and> of_char c \<le> (57::nat)"

definition digit_val :: "char \<Rightarrow> nat" where
  "digit_val c = of_char c - 48"

fun to_string :: "nat \<Rightarrow> string" where
  "to_string n = (if n < 10 then [digit_char n] else to_string (n div 10) @ [digit_char (n mod 10)])"

declare to_string.simps [simp del]

definition dec_val :: "string \<Rightarrow> nat" where
  "dec_val s = foldl (\<lambda>a c. 10 * a + digit_val c) 0 s"

definition is_space :: "char \<Rightarrow> bool" where
  "is_space c \<longleftrightarrow> of_char c \<in> {9, 10, 11, 12, 13, 32::nat}"

definition stoull :: "string \<Rightarrow> u64 res" where
  "stoull s =
     (let t = dropWhile is_space s;
          neg = (t \<noteq> [] \<and> hd t = CHR ''-'');
          u = (if t \<noteq> [] \<and> (hd t = CHR ''-'' \<or> hd t = CHR ''+'') then tl t else t);
          ds = takeWhile is_digit u
      in if ds = [] then Inl (Uncaught ''std::invalid_argument: stoull'')
         else if 2 ^ 64 \<le> dec_val ds then Inl (Uncaught ''std::out_of_range: stoull'')
         else Inr (if neg then - of_nat (dec_val ds) else of_nat (dec_val ds)))"

text \<open>\<open>std::stoi\<close>, as \<open>strtol\<close> in base 10.\<close>

definition stoi :: "string \<Rightarrow> int res" where
  "stoi s =
     (let t = dropWhile is_space s;
          neg = (t \<noteq> [] \<and> hd t = CHR ''-'');
          u = (if t \<noteq> [] \<and> (hd t = CHR ''-'' \<or> hd t = CHR ''+'') then tl t else t);
          ds = takeWhile is_digit u;
          v = (if neg then - int (dec_val ds) else int (dec_val ds))
      in if ds = [] then Inl (Uncaught ''std::invalid_argument: stoi'')
         else if v < - (2 ^ 31) \<or> 2 ^ 31 \<le> v then Inl (Uncaught ''std::out_of_range: stoi'')
         else Inr v)"

definition substr_from :: "nat \<Rightarrow> string \<Rightarrow> string res" where
  "substr_from pos s =
     (if length s < pos then Inl (Uncaught ''std::out_of_range: substr'') else Inr (drop pos s))"

lemma of_char_digit_char: "d < 10 \<Longrightarrow> of_char (digit_char d) = 48 + d"
  by (simp add: digit_char_def)

lemma digit_val_digit_char [simp]: "d < 10 \<Longrightarrow> digit_val (digit_char d) = d"
  by (simp add: digit_val_def of_char_digit_char)

lemma is_digit_digit_char [simp]: "d < 10 \<Longrightarrow> is_digit (digit_char d)"
  by (simp add: is_digit_def of_char_digit_char)

lemma digit_char_digit_val [simp]: "is_digit c \<Longrightarrow> digit_char (digit_val c) = c"
  by (simp add: is_digit_def digit_char_def digit_val_def)

lemma digit_val_less: "is_digit c \<Longrightarrow> digit_val c < 10"
  by (auto simp: is_digit_def digit_val_def)

lemma is_digit_not_space: "is_digit c \<Longrightarrow> \<not> is_space c"
  by (auto simp: is_digit_def is_space_def)

lemma is_digit_not_sign: "is_digit c \<Longrightarrow> c \<noteq> CHR ''-'' \<and> c \<noteq> CHR ''+''"
  by (auto simp: is_digit_def)

lemma to_string_nonempty [simp]: "to_string n \<noteq> []"
  by (subst to_string.simps) simp

lemma to_string_digits: "\<forall>c \<in> set (to_string n). is_digit c"
proof (induction n rule: to_string.induct)
  case (1 n)
  then show ?case
    by (cases "n < 10") (simp_all add: to_string.simps [of n])
qed

lemma foldl_dec: "foldl (\<lambda>a c. 10 * a + digit_val c) x s = x * 10 ^ length s + dec_val s"
proof (induction s arbitrary: x)
  case Nil
  then show ?case by (simp add: dec_val_def)
next
  case (Cons c s)
  have "foldl (\<lambda>a c. 10 * a + digit_val c) x (c # s) = (10 * x + digit_val c) * 10 ^ length s + dec_val s"
    using Cons [of "10 * x + digit_val c"] by simp
  moreover have "dec_val (c # s) = digit_val c * 10 ^ length s + dec_val s"
    using Cons [of "digit_val c"] by (simp add: dec_val_def)
  ultimately show ?case by (simp add: algebra_simps)
qed

lemma dec_val_append: "dec_val (s @ t) = dec_val s * 10 ^ length t + dec_val t"
  using foldl_dec [of "dec_val s" t] by (simp add: dec_val_def)

lemma dec_val_single [simp]: "dec_val [c] = digit_val c"
  by (simp add: dec_val_def)

lemma dec_val_to_string [simp]: "dec_val (to_string n) = n"
proof (induction n rule: to_string.induct)
  case (1 n)
  then show ?case
    by (cases "n < 10") (simp_all add: to_string.simps [of n] dec_val_append)
qed

lemma to_string_inject [simp]: "to_string a = to_string b \<longleftrightarrow> a = b"
  by (metis dec_val_to_string)

lemma dec_val_bound: "\<forall>c \<in> set s. is_digit c \<Longrightarrow> dec_val s < 10 ^ length s"
proof (induction s rule: rev_induct)
  case Nil
  then show ?case by (simp add: dec_val_def)
next
  case (snoc c s)
  then have "dec_val s < 10 ^ length s" and "digit_val c < 10"
    by (auto intro: digit_val_less)
  then show ?case by (simp add: dec_val_append)
qed

lemma dec_val_drop:
  assumes "\<forall>c \<in> set s. is_digit c"
  shows "dec_val (drop i s) = dec_val s mod 10 ^ (length s - i)"
proof -
  have "dec_val s = dec_val (take i s) * 10 ^ length (drop i s) + dec_val (drop i s)"
    by (metis append_take_drop_id dec_val_append)
  moreover have "dec_val (drop i s) < 10 ^ length (drop i s)"
    using assms by (intro dec_val_bound) (auto dest: in_set_dropD)
  ultimately show ?thesis by simp
qed

lemma length_to_string: "10 ^ k \<le> n \<Longrightarrow> n < 10 ^ Suc k \<Longrightarrow> length (to_string n) = Suc k"
proof (induction k arbitrary: n)
  case 0
  then show ?case by (simp add: to_string.simps [of n])
next
  case (Suc k)
  have "(10::nat) \<le> 10 ^ Suc k"
    by simp
  with Suc.prems have "\<not> n < 10"
    by linarith
  moreover from Suc.prems have "10 ^ k \<le> n div 10" and "n div 10 < 10 ^ Suc k"
    by (auto simp: less_eq_div_iff_mult_less_eq div_less_iff_less_mult)
  ultimately show ?case
    using Suc.IH [of "n div 10"] by (simp add: to_string.simps [of n])
qed

lemma stoull_digits:
  assumes "s \<noteq> []" and "\<forall>c \<in> set s. is_digit c" and "dec_val s < 2 ^ 64"
  shows "stoull s = Inr (of_nat (dec_val s))"
proof -
  from assms obtain c t where s: "s = c # t"
    by (cases s) auto
  with assms have "is_digit c"
    by simp
  then have "dropWhile is_space s = s" and "hd s \<noteq> CHR ''-''" and "hd s \<noteq> CHR ''+''"
    using s by (auto dest: is_digit_not_space is_digit_not_sign)
  moreover have "takeWhile is_digit s = s"
    using assms(2) by (simp add: takeWhile_eq_all_conv)
  ultimately show ?thesis
    using assms by (simp add: stoull_def Let_def del: takeWhile_eq_all_conv)
qed

lemma stoull_to_string: "n < 2 ^ 64 \<Longrightarrow> stoull (to_string n) = Inr (of_nat n)"
  using stoull_digits [of "to_string n"] by (simp add: to_string_digits)

lemma length_to_string_le: "n < 10 ^ k \<Longrightarrow> 0 < k \<Longrightarrow> length (to_string n) \<le> k"
proof (induction k arbitrary: n)
  case (Suc k)
  show ?case
  proof (cases "n < 10")
    case True
    then show ?thesis by (simp add: to_string.simps [of n])
  next
    case False
    then have "0 < k"
      using Suc.prems(1) by (cases k) auto
    moreover have "n div 10 < 10 ^ k"
      using Suc.prems(1) by (simp add: div_less_iff_less_mult mult.commute)
    ultimately have "length (to_string (n div 10)) \<le> k"
      using Suc.IH by blast
    then show ?thesis
      using False by (simp add: to_string.simps [of n])
  qed
qed simp

lemma stoi_to_string: "n < 2 ^ 31 \<Longrightarrow> stoi (to_string n) = Inr (int n)"
proof -
  assume n: "n < 2 ^ 31"
  obtain c s where c: "to_string n = c # s"
    by (cases "to_string n") (simp_all add: to_string.simps [of n] split: if_splits)
  have d: "\<forall>c \<in> set (to_string n). is_digit c"
    by (simp add: to_string_digits)
  then have "is_digit c"
    by (simp add: c)
  then have "\<not> is_space c" and "c \<noteq> CHR ''-''" and "c \<noteq> CHR ''+''"
    using is_digit_not_space by (auto simp: is_digit_def)
  moreover have "takeWhile is_digit (to_string n) = to_string n"
    using d by (simp add: takeWhile_eq_all_conv)
  ultimately show ?thesis
    using n dec_val_to_string [of n] by (simp add: stoi_def c)
qed

lemma stoull_to_string_append:
  assumes "a * 10 ^ length (to_string b) + b < 2 ^ 64"
  shows "stoull (to_string a @ to_string b) = Inr (of_nat (a * 10 ^ length (to_string b) + b))"
  using stoull_digits [of "to_string a @ to_string b"] assms to_string_digits [of a]
    to_string_digits [of b]
  by (simp add: dec_val_append ball_Un)

subsection \<open>Tables\<close>

text \<open>
  An \<open>unordered_map<K, V>\<close> is a partial function. \<open>m[k]\<close> on an absent key inserts a default
  value first: \<open>op_idx d m k\<close> is the table after a read through \<open>operator[]\<close>, \<open>at_or d m k\<close> the
  value it reads, and \<open>modify_at d m k f\<close> the table after an update through it.
\<close>

definition at_or :: "'v \<Rightarrow> ('k \<rightharpoonup> 'v) \<Rightarrow> 'k \<Rightarrow> 'v" where
  "at_or d m k = (case m k of None \<Rightarrow> d | Some v \<Rightarrow> v)"

definition op_idx :: "'v \<Rightarrow> ('k \<rightharpoonup> 'v) \<Rightarrow> 'k \<Rightarrow> ('k \<rightharpoonup> 'v)" where
  "op_idx d m k = m(k \<mapsto> at_or d m k)"

definition modify_at :: "'v \<Rightarrow> ('k \<rightharpoonup> 'v) \<Rightarrow> 'k \<Rightarrow> ('v \<Rightarrow> 'v) \<Rightarrow> ('k \<rightharpoonup> 'v)" where
  "modify_at d m k f = m(k \<mapsto> f (at_or d m k))"

lemma at_or_Some [simp, tab_simps]: "m k = Some v \<Longrightarrow> at_or d m k = v"
  by (simp add: at_or_def)

lemma at_or_None [simp, tab_simps]: "m k = None \<Longrightarrow> at_or d m k = d"
  by (simp add: at_or_def)

lemma op_idx_present [simp, tab_simps]: "m k = Some v \<Longrightarrow> op_idx d m k = m"
  by (auto simp: op_idx_def)

lemma op_idx_same [simp, tab_simps]: "op_idx d m k k = Some (at_or d m k)"
  by (simp add: op_idx_def)

lemma op_idx_other [simp, tab_simps]: "k' \<noteq> k \<Longrightarrow> op_idx d m k k' = m k'"
  by (simp add: op_idx_def)

lemma at_or_op_idx [simp, tab_simps]: "at_or d (op_idx d m k) k' = at_or d m k'"
  by (cases "k' = k") (auto simp: op_idx_def at_or_def)

lemma modify_at_same [simp, tab_simps]: "modify_at d m k f k = Some (f (at_or d m k))"
  by (simp add: modify_at_def)

lemma modify_at_other [simp, tab_simps]: "k' \<noteq> k \<Longrightarrow> modify_at d m k f k' = m k'"
  by (simp add: modify_at_def)

lemma at_or_modify_at [simp, tab_simps]:
  "at_or d (modify_at d m k f) k' = (if k' = k then f (at_or d m k) else at_or d m k')"
  by (auto simp: modify_at_def at_or_def)

lemma modify_at_twice [simp, tab_simps]:
  "modify_at d (modify_at d m k f) k g = modify_at d m k (\<lambda>v. g (f v))"
  by (simp add: modify_at_def)

lemma modify_at_op_idx [simp, tab_simps]: "modify_at d (op_idx d m k) k f = modify_at d m k f"
  by (simp add: modify_at_def op_idx_def)

lemma dom_op_idx [simp]: "dom (op_idx d m k) = insert k (dom m)"
  by (auto simp: op_idx_def)

lemma dom_modify_at [simp]: "dom (modify_at d m k f) = insert k (dom m)"
  by (auto simp: modify_at_def)

subsection \<open>The contract of an identification table\<close>

text \<open>
  MME, SGW and PGW keep tables from an interface identifier (an S1AP id, a tunnel endpoint id, an
  IP address) to a subscriber, behind three operations: update, get (0 when absent) and remove.
  Every one of them satisfies this contract.
\<close>

locale id_table =
  fixes upd :: "'k \<Rightarrow> 'v::zero \<Rightarrow> 's \<Rightarrow> 's res"
    and get :: "'k \<Rightarrow> 's \<Rightarrow> 'v res"
    and del :: "'k \<Rightarrow> 's \<Rightarrow> 's res"
  assumes upd_total: "\<exists>s'. upd k v s = Inr s'"
    and del_total: "\<exists>s'. del k s = Inr s'"
    and get_upd: "upd k v s = Inr s' \<Longrightarrow> get k' s' = (if k' = k then Inr v else get k' s)"
    and get_del: "del k s = Inr s' \<Longrightarrow> get k' s' = (if k' = k then Inr 0 else get k' s)"
begin

lemma registered: "bindE (upd k v s) (get k) = Inr v"
  using upd_total [of k v s] get_upd by fastforce

lemma removed: "bindE (del k s) (get k) = Inr 0"
  using del_total [of k s] get_del by fastforce

lemma latest_wins: "bindE (upd k v s) (\<lambda>s. bindE (upd k w s) (get k)) = Inr w"
  using upd_total [of k v s] registered by fastforce

lemma isolated: "k' \<noteq> k \<Longrightarrow> bindE (upd k v s) (get k') = get k' s"
  using upd_total [of k v s] get_upd by fastforce

lemma remove_isolated: "k' \<noteq> k \<Longrightarrow> bindE (del k s) (get k') = get k' s"
  using del_total [of k s] get_del by fastforce

lemma session_lifecycle:
  "bindE (upd k v s) (\<lambda>s. bindE (del k s) (get k')) = (if k' = k then Inr 0 else get k' s)"
proof -
  obtain s1 s2 where "upd k v s = Inr s1" and "del k s1 = Inr s2"
    using upd_total del_total by blast
  then show ?thesis
    using get_del [of k s1 s2 k'] get_upd [of k v s s1 k'] by simp
qed

end

end
