(* ===== verification/Epc_Utils.thy ===== *)
theory Epc_Utils
  imports Epc_Prelude
begin

section \<open>Utilities (utils.cpp)\<close>

text \<open>
  \<open>Utils\<close> of \<open>src/NFV_LTE_EPC-1.0/src/utils.cpp\<close>: the two error handlers, buffer allocation and
  \<open>max_ele\<close>. \<open>malloc\<close> is taken to succeed. \<open>handle_type2_error\<close> only prints; its model says
  whether it does.
\<close>

definition handle_type1_error :: "int \<Rightarrow> string \<Rightarrow> unit res" where
  "handle_type1_error arg msg = (if arg < 0 then Inl (Exit msg) else Inr ())"

definition handle_type2_error :: "int \<Rightarrow> string \<Rightarrow> string option" where
  "handle_type2_error arg msg = (if arg < 0 then Some msg else None)"

definition allocate_str_mem :: "int \<Rightarrow> u8 list res" where
  "allocate_str_mem n =
     (if n \<le> 0 then Inl (Exit ''Memory length error: utils_allocatestrmem'')
      else Inr (replicate (nat n) 0))"

definition allocate_uint8_mem :: "int \<Rightarrow> u8 list res" where
  "allocate_uint8_mem n =
     (if n \<le> 0 then Inl (Exit ''Memory length error: utils_allocateuint8mem'')
      else Inr (replicate (nat n) 0))"

text \<open>The loop of \<open>max_ele\<close>, with its running maximum \<open>ans\<close> as an accumulator.\<close>

fun max_ele_loop :: "int \<Rightarrow> int list \<Rightarrow> int" where
  "max_ele_loop ans [] = ans"
| "max_ele_loop ans (x # xs) = max_ele_loop (max ans x) xs"

definition max_ele :: "int list \<Rightarrow> int" where
  "max_ele inp = max_ele_loop 0 inp"

lemma handle_type1_error_neg [simp, pkt_simps]: "handle_type1_error (-1) msg = Inl (Exit msg)"
  by (simp add: handle_type1_error_def)

lemma allocate_uint8_mem_length: "allocate_uint8_mem n = Inr b \<Longrightarrow> int (length b) = n"
  by (auto simp: allocate_uint8_mem_def split: if_splits)

lemma max_ele_loop_ge: "ans \<le> max_ele_loop ans xs"
  by (induction xs arbitrary: ans) (auto intro: order_trans [OF max.cobounded1])

lemma max_ele_loop_upper: "x \<in> set xs \<Longrightarrow> x \<le> max_ele_loop ans xs"
  by (induction xs arbitrary: ans) (auto intro: order_trans [OF max.cobounded2 max_ele_loop_ge])

lemma max_ele_loop_attained: "max_ele_loop ans xs \<in> insert ans (set xs)"
proof (induction xs arbitrary: ans)
  case Nil
  then show ?case by simp
next
  case (Cons x xs)
  show ?case
    using Cons [of "max ans x"] by (auto simp: max_def split: if_splits)
qed

lemma max_ele_upper: "x \<in> set xs \<Longrightarrow> x \<le> max_ele xs"
  by (simp add: max_ele_def max_ele_loop_upper)

lemma max_ele_attained: "max_ele xs \<in> insert 0 (set xs)"
  unfolding max_ele_def by (rule max_ele_loop_attained)

end
