(* ===== verification/Epc_Headers.thy ===== *)
theory Epc_Headers
  imports Epc_Utils
begin

section \<open>Protocol headers (gtp.cpp, s1ap.cpp, diameter.cpp)\<close>

text \<open>
  The three header classes as records and their memory images. \<open>Packet\<close> copies a header object
  byte by byte (\<open>memmove(&gtp_hdr, ...)\<close>), so the image is the object's layout on x86-64: fields
  in declaration order, each at a multiple of its size, with padding. Padding bytes travel with the
  object; they are fields here (\<open>pad1_g\<close>, \<open>pad2_g\<close>, \<open>pad_s\<close>, \<open>pad_d\<close>). The constructors leave most
  fields uninitialised, so a fresh header is an argument of the code that makes a packet, never a
  constant of the model. \<open>sizeof(Gtp)\<close> is 16, \<open>sizeof(S1ap)\<close> 12, \<open>sizeof(Diameter)\<close> 4.
\<close>

record gtp =
  flags_g :: u8
  pad1_g :: u8
  msg_len_g :: u16
  field_1 :: u16
  field_2 :: u16
  field_3 :: u8
  msg_type_g :: u8
  pad2_g :: u16
  teid :: u32

record s1ap =
  msg_len_s :: u16
  msg_type_s :: u8
  pad_s :: u8
  enodeb_s1ap_ue_id :: u32
  mme_s1ap_ue_id :: u32

record diameter =
  msg_len_d :: u16
  msg_type_d :: u8
  pad_d :: u8

definition GTP_HDR_LEN :: int where
  "GTP_HDR_LEN = 16"

definition S1AP_HDR_LEN :: int where
  "S1AP_HDR_LEN = 12"

definition DIAMETER_HDR_LEN :: int where
  "DIAMETER_HDR_LEN = 4"

subsection \<open>Initialisation\<close>

definition gtp_init :: "u8 \<Rightarrow> u8 \<Rightarrow> u16 \<Rightarrow> u32 \<Rightarrow> gtp \<Rightarrow> gtp res" where
  "gtp_init protocol arg_msg_type arg_msg_len arg_teid h =
     (let h = h\<lparr>msg_type_g := arg_msg_type, msg_len_g := arg_msg_len, teid := arg_teid\<rparr>
      in if protocol = 1 then Inr (h\<lparr>flags_g := 48\<rparr>)
         else if protocol = 2 then Inr (h\<lparr>flags_g := (if 0 < arg_teid then 72 else 64)\<rparr>)
         else Inl (Exit ''gtp protocol error: gtp_init''))"

definition s1ap_init :: "u8 \<Rightarrow> u16 \<Rightarrow> u32 \<Rightarrow> u32 \<Rightarrow> s1ap \<Rightarrow> s1ap" where
  "s1ap_init arg_msg_type arg_msg_len arg_enodeb arg_mme h =
     h\<lparr>msg_type_s := arg_msg_type, msg_len_s := arg_msg_len,
       enodeb_s1ap_ue_id := arg_enodeb, mme_s1ap_ue_id := arg_mme\<rparr>"

definition diameter_init :: "u8 \<Rightarrow> u16 \<Rightarrow> diameter \<Rightarrow> diameter" where
  "diameter_init arg_msg_type arg_msg_len h =
     h\<lparr>msg_type_d := arg_msg_type, msg_len_d := arg_msg_len\<rparr>"

subsection \<open>Memory images\<close>

definition gtp_bytes :: "gtp \<Rightarrow> u8 list" where
  "gtp_bytes h =
     [flags_g h, pad1_g h] @ le_word 2 (msg_len_g h) @ le_word 2 (field_1 h) @
     le_word 2 (field_2 h) @ [field_3 h, msg_type_g h] @ le_word 2 (pad2_g h) @ le_word 4 (teid h)"

definition gtp_of_bytes :: "u8 list \<Rightarrow> gtp" where
  "gtp_of_bytes b =
     \<lparr>flags_g = b ! 0, pad1_g = b ! 1, msg_len_g = word_le (take 2 (drop 2 b)),
      field_1 = word_le (take 2 (drop 4 b)), field_2 = word_le (take 2 (drop 6 b)),
      field_3 = b ! 8, msg_type_g = b ! 9, pad2_g = word_le (take 2 (drop 10 b)),
      teid = word_le (take 4 (drop 12 b))\<rparr>"

definition s1ap_bytes :: "s1ap \<Rightarrow> u8 list" where
  "s1ap_bytes h =
     le_word 2 (msg_len_s h) @ [msg_type_s h, pad_s h] @
     le_word 4 (enodeb_s1ap_ue_id h) @ le_word 4 (mme_s1ap_ue_id h)"

definition s1ap_of_bytes :: "u8 list \<Rightarrow> s1ap" where
  "s1ap_of_bytes b =
     \<lparr>msg_len_s = word_le (take 2 b), msg_type_s = b ! 2, pad_s = b ! 3,
      enodeb_s1ap_ue_id = word_le (take 4 (drop 4 b)),
      mme_s1ap_ue_id = word_le (take 4 (drop 8 b))\<rparr>"

definition diameter_bytes :: "diameter \<Rightarrow> u8 list" where
  "diameter_bytes h = le_word 2 (msg_len_d h) @ [msg_type_d h, pad_d h]"

definition diameter_of_bytes :: "u8 list \<Rightarrow> diameter" where
  "diameter_of_bytes b =
     \<lparr>msg_len_d = word_le (take 2 b), msg_type_d = b ! 2, pad_d = b ! 3\<rparr>"

lemma length_gtp_bytes [simp, pkt_simps]: "length (gtp_bytes h) = 16"
  by (simp add: gtp_bytes_def)

lemma length_s1ap_bytes [simp, pkt_simps]: "length (s1ap_bytes h) = 12"
  by (simp add: s1ap_bytes_def)

lemma length_diameter_bytes [simp, pkt_simps]: "length (diameter_bytes h) = 4"
  by (simp add: diameter_bytes_def)

lemma gtp_of_bytes_bytes [simp, pkt_simps]: "gtp_of_bytes (gtp_bytes h) = h"
  by (simp add: gtp_bytes_def gtp_of_bytes_def nth_append)

lemma s1ap_of_bytes_bytes [simp, pkt_simps]: "s1ap_of_bytes (s1ap_bytes h) = h"
  by (simp add: s1ap_bytes_def s1ap_of_bytes_def nth_append)

lemma diameter_of_bytes_bytes [simp, pkt_simps]: "diameter_of_bytes (diameter_bytes h) = h"
  by (simp add: diameter_bytes_def diameter_of_bytes_def nth_append)

subsection \<open>What initialisation promises\<close>

lemma gtp_init_fields:
  "gtp_init p t l i h = Inr h' \<Longrightarrow> msg_type_g h' = t \<and> msg_len_g h' = l \<and> teid h' = i"
  by (auto simp: gtp_init_def Let_def split: if_splits)

text \<open>The version is the top three bits of the flags, the TEID flag of GTPv2 is bit 3.\<close>

lemma gtp_init_version:
  "gtp_init p t l i h = Inr h' \<Longrightarrow> unat (flags_g h') div 32 = unat p"
  by (auto simp: gtp_init_def Let_def split: if_splits)

lemma gtp_init_teid_flag:
  "gtp_init 2 t l i h = Inr h' \<Longrightarrow> (unat (flags_g h') div 8) mod 2 = (if i = 0 then 0 else 1)"
  by (auto simp: gtp_init_def Let_def word_greater_zero_iff split: if_splits)

lemma gtp_init_error_iff: "(\<exists>e. gtp_init p t l i h = Inl e) \<longleftrightarrow> p \<noteq> 1 \<and> p \<noteq> 2"
  by (simp add: gtp_init_def Let_def)

text \<open>The header that a successful \<open>gtp_init\<close> leaves.\<close>

definition gtp_with :: "u8 \<Rightarrow> u8 \<Rightarrow> u16 \<Rightarrow> u32 \<Rightarrow> gtp \<Rightarrow> gtp" where
  "gtp_with p t l i h =
     h\<lparr>msg_type_g := t, msg_len_g := l, teid := i,
       flags_g := (if p = 1 then 48 else if 0 < i then 72 else 64)\<rparr>"

lemma gtp_init_with [simp, pkt_simps]:
  "gtp_init 1 t l i h = Inr (gtp_with 1 t l i h)" "gtp_init 2 t l i h = Inr (gtp_with 2 t l i h)"
  by (simp_all add: gtp_init_def gtp_with_def Let_def)

lemma gtp_with_fields [simp, pkt_simps]:
  "msg_type_g (gtp_with p t l i h) = t" "msg_len_g (gtp_with p t l i h) = l"
  "teid (gtp_with p t l i h) = i"
  by (simp_all add: gtp_with_def)

lemma s1ap_init_fields [simp, pkt_simps]:
  "msg_type_s (s1ap_init t l e m h) = t" "msg_len_s (s1ap_init t l e m h) = l"
  "enodeb_s1ap_ue_id (s1ap_init t l e m h) = e" "mme_s1ap_ue_id (s1ap_init t l e m h) = m"
  by (simp_all add: s1ap_init_def)

lemma diameter_init_fields [simp, pkt_simps]:
  "msg_type_d (diameter_init t l h) = t" "msg_len_d (diameter_init t l h) = l"
  by (simp_all add: diameter_init_def)

end
