(* ===== verification/Epc_Packet.thy ===== *)
theory Epc_Packet
  imports Epc_Headers
begin

section \<open>Packets (packet.h, packet.cpp)\<close>

text \<open>
  Class \<open>Packet\<close>: three header objects, a buffer of \<open>BUF_SIZE\<close> bytes, a cursor \<open>data_ptr\<close> and a
  length \<open>len\<close>. Every operation of \<open>packet.cpp\<close> is here; none of them checks a bound, so a
  \<open>memmove\<close> past the buffer is \<open>Undefined\<close>. A \<open>Packet\<close> owns its buffer (the copy constructor
  duplicates it), so packets are values. \<open>append_*\<close> writes at the cursor, \<open>prepend_*\<close> shifts the
  first \<open>len\<close> bytes right, \<open>extract_*\<close> reads at the cursor, \<open>truncate\<close> drops what was read.

  \<open>view g s d a r\<close> is the packet whose message is \<open>a @ r\<close> with the cursor between \<open>a\<close> and \<open>r\<close>
  and zeros after it. On views the operations are list operations; these equations, collected in
  \<open>pkt_simps\<close>, are how every handler is executed symbolically. The locale \<open>item_codec\<close> is the
  contract of one kind of item: append it, extract it again.
\<close>

record packet =
  gtp_hdr :: gtp
  s1ap_hdr :: s1ap
  diameter_hdr :: diameter
  data :: "u8 list"
  data_ptr :: int
  len :: int

definition BUF_SIZE :: int where
  "BUF_SIZE = 1024"

definition zeros :: "u8 list" where
  "zeros = replicate 1024 0"

lemma length_zeros [simp]: "length zeros = 1024"
  by (simp add: zeros_def)

subsection \<open>Construction, copy, assignment\<close>

definition new_packet :: "gtp \<Rightarrow> s1ap \<Rightarrow> diameter \<Rightarrow> packet res" where
  "new_packet g s d =
     bindE (allocate_uint8_mem BUF_SIZE) (\<lambda>b.
     Inr \<lparr>gtp_hdr = g, s1ap_hdr = s, diameter_hdr = d, data = b, data_ptr = 0, len = 0\<rparr>)"

definition copy_pkt :: "packet \<Rightarrow> packet res" where
  "copy_pkt src =
     bindE (allocate_uint8_mem BUF_SIZE) (\<lambda>b.
     bindE (buf_read (data src) 0 (len src)) (\<lambda>m.
     bindE (buf_write b 0 m) (\<lambda>b.
     Inr \<lparr>gtp_hdr = gtp_hdr src, s1ap_hdr = s1ap_hdr src, diameter_hdr = diameter_hdr src,
          data = b, data_ptr = data_ptr src, len = len src\<rparr>)))"

definition swap_pkt :: "packet \<Rightarrow> packet \<Rightarrow> packet \<times> packet" where
  "swap_pkt a b =
     (a\<lparr>gtp_hdr := gtp_hdr b, s1ap_hdr := s1ap_hdr b, diameter_hdr := diameter_hdr b,
        data := data b, data_ptr := data_ptr b, len := len b\<rparr>,
      b\<lparr>gtp_hdr := gtp_hdr a, s1ap_hdr := s1ap_hdr a, diameter_hdr := diameter_hdr a,
        data := data a, data_ptr := data_ptr a, len := len a\<rparr>)"

definition assign_pkt :: "packet \<Rightarrow> packet \<Rightarrow> packet res" where
  "assign_pkt dst src = bindE (copy_pkt src) (\<lambda>tmp. Inr (fst (swap_pkt dst tmp)))"

subsection \<open>Appending items\<close>

definition append_raw :: "u8 list \<Rightarrow> packet \<Rightarrow> packet res" where
  "append_raw bs p =
     bindE (buf_write (data p) (data_ptr p) bs) (\<lambda>b.
     Inr (p\<lparr>data := b, data_ptr := data_ptr p + int (length bs), len := len p + int (length bs)\<rparr>))"

definition bool_bytes :: "bool \<Rightarrow> u8 list" where
  "bool_bytes v = [if v then 1 else 0]"

definition u8_bytes :: "u8 \<Rightarrow> u8 list" where
  "u8_bytes v = [v]"

definition append_bool :: "bool \<Rightarrow> packet \<Rightarrow> packet res" where
  "append_bool item p = append_raw (bool_bytes item) p"

definition append_int :: "int \<Rightarrow> packet \<Rightarrow> packet res" where
  "append_int item p = append_raw (le_int item) p"

definition append_u8 :: "u8 \<Rightarrow> packet \<Rightarrow> packet res" where
  "append_u8 item p = append_raw (u8_bytes item) p"

definition append_u16 :: "u16 \<Rightarrow> packet \<Rightarrow> packet res" where
  "append_u16 item p = append_raw (le_word 2 item) p"

definition append_u32 :: "u32 \<Rightarrow> packet \<Rightarrow> packet res" where
  "append_u32 item p = append_raw (le_word 4 item) p"

definition append_u64 :: "u64 \<Rightarrow> packet \<Rightarrow> packet res" where
  "append_u64 item p = append_raw (le_word 8 item) p"

fun append_u64s :: "u64 list \<Rightarrow> packet \<Rightarrow> packet res" where
  "append_u64s [] p = Inr p"
| "append_u64s (x # xs) p = bindE (append_raw (le_word 8 x) p) (append_u64s xs)"

definition append_bytes :: "u8 list \<Rightarrow> int \<Rightarrow> packet \<Rightarrow> packet res" where
  "append_bytes item item_len p = bindE (buf_read item 0 item_len) (\<lambda>bs. append_raw bs p)"

text \<open>A \<open>std::string\<close> is a list of characters; \<open>c_str\<close> ends at the first NUL.\<close>

definition c_str :: "string \<Rightarrow> string" where
  "c_str s = takeWhile (\<lambda>c. c \<noteq> CHR 0x00) s"

definition char_bytes :: "string \<Rightarrow> u8 list" where
  "char_bytes s = map (\<lambda>c. of_nat (of_char c)) s"

definition bytes_char :: "u8 list \<Rightarrow> string" where
  "bytes_char bs = map (\<lambda>b. char_of (unat b)) bs"

definition append_cstr :: "string \<Rightarrow> packet \<Rightarrow> packet res" where
  "append_cstr s p = append_raw (char_bytes (c_str s)) p"

definition append_string :: "string \<Rightarrow> packet \<Rightarrow> packet res" where
  "append_string item p =
     bindE (append_int (int (length (c_str item))) p) (append_cstr item)"

subsection \<open>Prepending\<close>

text \<open>The block is put in front of the first \<open>len\<close> bytes, in a fresh zeroed buffer.\<close>

definition prepend_raw :: "u8 list \<Rightarrow> packet \<Rightarrow> packet res" where
  "prepend_raw bs p =
     bindE (allocate_uint8_mem BUF_SIZE) (\<lambda>b.
     bindE (buf_write b 0 bs) (\<lambda>b.
     bindE (buf_read (data p) 0 (len p)) (\<lambda>m.
     bindE (buf_write b (int (length bs)) m) (\<lambda>b.
     Inr (p\<lparr>data := b, data_ptr := data_ptr p + int (length bs), len := len p + int (length bs)\<rparr>)))))"

definition prepend_item :: "u8 list \<Rightarrow> int \<Rightarrow> packet \<Rightarrow> packet res" where
  "prepend_item item item_len p = bindE (buf_read item 0 item_len) (\<lambda>bs. prepend_raw bs p)"

definition prepend_gtp_hdr :: "u8 \<Rightarrow> u8 \<Rightarrow> u16 \<Rightarrow> u32 \<Rightarrow> packet \<Rightarrow> packet res" where
  "prepend_gtp_hdr protocol msg_type msg_len tid p =
     bindE (gtp_init protocol msg_type msg_len tid (gtp_hdr p)) (\<lambda>h.
     prepend_raw (gtp_bytes h) (p\<lparr>gtp_hdr := h\<rparr>))"

definition prepend_s1ap_hdr :: "u8 \<Rightarrow> u16 \<Rightarrow> u32 \<Rightarrow> u32 \<Rightarrow> packet \<Rightarrow> packet res" where
  "prepend_s1ap_hdr msg_type msg_len enb mme p =
     (let h = s1ap_init msg_type msg_len enb mme (s1ap_hdr p)
      in prepend_raw (s1ap_bytes h) (p\<lparr>s1ap_hdr := h\<rparr>))"

definition prepend_diameter_hdr :: "u8 \<Rightarrow> u16 \<Rightarrow> packet \<Rightarrow> packet res" where
  "prepend_diameter_hdr msg_type msg_len p =
     (let h = diameter_init msg_type msg_len (diameter_hdr p)
      in prepend_raw (diameter_bytes h) (p\<lparr>diameter_hdr := h\<rparr>))"

definition prepend_len :: "packet \<Rightarrow> packet res" where
  "prepend_len p = prepend_raw (le_int (len p)) p"

text \<open>The headers carry \<open>pkt.len\<close>, converted from \<open>int\<close> to \<open>uint16_t\<close>.\<close>

definition len16 :: "packet \<Rightarrow> u16" where
  "len16 p = word_of_int (len p)"

subsection \<open>Extracting items\<close>

definition extract_raw :: "int \<Rightarrow> packet \<Rightarrow> (u8 list \<times> packet) res" where
  "extract_raw n p =
     bindE (buf_read (data p) (data_ptr p) n) (\<lambda>bs. Inr (bs, p\<lparr>data_ptr := data_ptr p + n\<rparr>))"

definition extract_bool :: "packet \<Rightarrow> (bool \<times> packet) res" where
  "extract_bool p =
     bindE (extract_raw 1 p) (\<lambda>(bs, p).
     if hd bs = 0 then Inr (False, p) else if hd bs = 1 then Inr (True, p)
     else Inl (Undefined ''bool object that is neither 0 nor 1''))"

definition extract_int :: "packet \<Rightarrow> (int \<times> packet) res" where
  "extract_int p = bindE (extract_raw 4 p) (\<lambda>(bs, p). Inr (int_le bs, p))"

definition extract_u8 :: "packet \<Rightarrow> (u8 \<times> packet) res" where
  "extract_u8 p = bindE (extract_raw 1 p) (\<lambda>(bs, p). Inr (hd bs, p))"

definition extract_u16 :: "packet \<Rightarrow> (u16 \<times> packet) res" where
  "extract_u16 p = bindE (extract_raw 2 p) (\<lambda>(bs, p). Inr (word_le bs, p))"

definition extract_u32 :: "packet \<Rightarrow> (u32 \<times> packet) res" where
  "extract_u32 p = bindE (extract_raw 4 p) (\<lambda>(bs, p). Inr (word_le bs, p))"

definition extract_u64 :: "packet \<Rightarrow> (u64 \<times> packet) res" where
  "extract_u64 p = bindE (extract_raw 8 p) (\<lambda>(bs, p). Inr (word_le bs, p))"

text \<open>\<open>for (i = 0; i < item_size; i++)\<close>: nothing for a size that is not positive.\<close>

fun extract_u64s_loop :: "nat \<Rightarrow> packet \<Rightarrow> (u64 list \<times> packet) res" where
  "extract_u64s_loop 0 p = Inr ([], p)"
| "extract_u64s_loop (Suc n) p =
     bindE (extract_raw 8 p) (\<lambda>(bs, p).
     bindE (extract_u64s_loop n p) (\<lambda>(xs, p). Inr (word_le bs # xs, p)))"

definition extract_u64s :: "int \<Rightarrow> packet \<Rightarrow> (u64 list \<times> packet) res" where
  "extract_u64s item_size p = extract_u64s_loop (nat item_size) p"

definition extract_bytes :: "int \<Rightarrow> packet \<Rightarrow> (u8 list \<times> packet) res" where
  "extract_bytes item_len p = extract_raw item_len p"

definition extract_string :: "packet \<Rightarrow> (string \<times> packet) res" where
  "extract_string p =
     bindE (extract_int p) (\<lambda>(item_len, p).
     bindE (allocate_str_mem (item_len + 1)) (\<lambda>_.
     bindE (extract_raw item_len p) (\<lambda>(bs, p).
     Inr (c_str (bytes_char bs), p))))"

definition extract_gtp_hdr :: "packet \<Rightarrow> packet res" where
  "extract_gtp_hdr p =
     bindE (extract_raw GTP_HDR_LEN p) (\<lambda>(bs, p). Inr (p\<lparr>gtp_hdr := gtp_of_bytes bs\<rparr>))"

definition extract_s1ap_hdr :: "packet \<Rightarrow> packet res" where
  "extract_s1ap_hdr p =
     bindE (extract_raw S1AP_HDR_LEN p) (\<lambda>(bs, p). Inr (p\<lparr>s1ap_hdr := s1ap_of_bytes bs\<rparr>))"

definition extract_diameter_hdr :: "packet \<Rightarrow> packet res" where
  "extract_diameter_hdr p =
     bindE (extract_raw DIAMETER_HDR_LEN p) (\<lambda>(bs, p). Inr (p\<lparr>diameter_hdr := diameter_of_bytes bs\<rparr>))"

subsection \<open>Truncating and clearing\<close>

definition truncate_pkt :: "packet \<Rightarrow> packet res" where
  "truncate_pkt p =
     bindE (allocate_uint8_mem BUF_SIZE) (\<lambda>b.
     bindE (buf_read (data p) (data_ptr p) (len p - data_ptr p)) (\<lambda>m.
     bindE (buf_write b 0 m) (\<lambda>b.
     Inr (p\<lparr>data := b, data_ptr := 0, len := len p - data_ptr p\<rparr>))))"

definition clear_pkt :: "packet \<Rightarrow> packet" where
  "clear_pkt p = p\<lparr>data := zeros, data_ptr := 0, len := 0\<rparr>"

definition allocate_ip_hdr_mem :: "int \<Rightarrow> u8 list res" where
  "allocate_ip_hdr_mem n =
     (if n \<le> 0 then Inl (Exit ''Memory length error: packet_allocateiphdrmem'')
      else Inr (replicate (nat n) 0))"

text \<open>The bytes a socket call sends: \<open>pkt.data\<close> up to \<open>pkt.len\<close>.\<close>

definition pkt_wire :: "packet \<Rightarrow> u8 list res" where
  "pkt_wire p = buf_read (data p) 0 (len p)"

subsection \<open>Packets as lists of bytes\<close>

definition view :: "gtp \<Rightarrow> s1ap \<Rightarrow> diameter \<Rightarrow> u8 list \<Rightarrow> u8 list \<Rightarrow> packet" where
  "view g s d a r =
     \<lparr>gtp_hdr = g, s1ap_hdr = s, diameter_hdr = d,
      data = (a @ r) @ replicate (1024 - length (a @ r)) 0,
      data_ptr = int (length a), len = int (length (a @ r))\<rparr>"

lemma view_sel [simp, pkt_simps]:
  "gtp_hdr (view g s d a r) = g" "s1ap_hdr (view g s d a r) = s"
  "diameter_hdr (view g s d a r) = d" "len (view g s d a r) = int (length a + length r)"
  "data_ptr (view g s d a r) = int (length a)"
  by (simp_all add: view_def)

lemma len16_view [simp, pkt_simps]: "len16 (view g s d a r) = of_nat (length a + length r)"
  by (simp add: len16_def)

lemma alloc_buf [simp, pkt_simps]: "allocate_uint8_mem BUF_SIZE = Inr zeros"
  by (simp add: allocate_uint8_mem_def BUF_SIZE_def zeros_def)

lemma buf_write_zeros:
  "length bs \<le> 1024 \<Longrightarrow> buf_write zeros 0 bs = Inr (bs @ replicate (1024 - length bs) 0)"
  by (simp add: buf_write_def zeros_def)

lemma buf_read_prefix: "buf_read (bs @ t) 0 (int (length bs)) = Inr bs"
  by (simp add: buf_read_def)

lemma view_message: "buf_read (data (view g s d a r)) 0 (int (length a + length r)) = Inr (a @ r)"
  using buf_read_prefix [of "a @ r"] by (simp add: view_def)

lemma view_with_data:
  "length m \<le> 1024 \<Longrightarrow>
   view g s d a r\<lparr>data := m @ replicate (1024 - length m) 0, data_ptr := 0, len := int (length m)\<rparr> =
   view g s d [] m"
  by (simp add: view_def)

lemma new_packet_view [simp, pkt_simps]: "new_packet g s d = Inr (view g s d [] [])"
  by (simp add: new_packet_def view_def zeros_def)

lemma clear_pkt_view [simp, pkt_simps]:
  "clear_pkt p = view (gtp_hdr p) (s1ap_hdr p) (diameter_hdr p) [] []"
  by (simp add: clear_pkt_def view_def zeros_def)

lemma copy_pkt_view [simp, pkt_simps]:
  assumes "length a + length r \<le> 1024"
  shows "copy_pkt (view g s d a r) = Inr (view g s d a r)"
proof -
  have "buf_read (data (view g s d a r)) 0 (len (view g s d a r)) = Inr (a @ r)"
    using buf_read_prefix [of "a @ r"] by (simp add: view_def)
  with assms show ?thesis
    by (simp add: copy_pkt_def buf_write_zeros view_def)
qed

lemma pkt_wire_view [simp, pkt_simps]: "pkt_wire (view g s d a r) = Inr (a @ r)"
  using buf_read_prefix [of "a @ r"] by (simp add: pkt_wire_def view_def)

lemma append_raw_view [simp, pkt_simps]:
  "length a + length bs \<le> 1024 \<Longrightarrow> append_raw bs (view g s d a []) = Inr (view g s d (a @ bs) [])"
  by (simp add: append_raw_def view_def buf_write_def)

lemma append_raw_overflow:
  "1024 < length a + length bs \<Longrightarrow> length a \<le> 1024 \<Longrightarrow>
   append_raw bs (view g s d a []) = Inl (Undefined ''memmove: write out of range'')"
  by (simp add: append_raw_def view_def buf_write_def)

lemma prepend_raw_view [simp, pkt_simps]:
  assumes "length bs + (length a + length r) \<le> 1024"
  shows "prepend_raw bs (view g s d a r) = Inr (view g s d (bs @ a) r)"
proof -
  have "buf_read (data (view g s d a r)) 0 (len (view g s d a r)) = Inr (a @ r)"
    using buf_read_prefix [of "a @ r"] by (simp add: view_def)
  moreover have "buf_write (bs @ replicate (1024 - length bs) 0) (int (length bs)) (a @ r) =
      Inr (bs @ (a @ r) @ replicate (1024 - length (bs @ a @ r)) 0)"
    using assms by (simp add: buf_write_def diff_diff_eq algebra_simps)
  ultimately show ?thesis
    using assms by (simp add: prepend_raw_def buf_write_zeros) (simp add: view_def)
qed

lemma prepend_raw_overflow:
  assumes "1024 < length bs + (length a + length r)" and "length bs \<le> 1024"
  shows "prepend_raw bs (view g s d a r) = Inl (Undefined ''memmove: write out of range'')"
proof -
  have "buf_read (data (view g s d a r)) 0 (len (view g s d a r)) = Inr (a @ r)"
    using buf_read_prefix [of "a @ r"] by (simp add: view_def)
  with assms show ?thesis
    by (simp add: prepend_raw_def buf_write_zeros) (simp add: buf_write_def)
qed

lemma extract_raw_view:
  assumes "n = int (length v)" and "length a + length v + length r \<le> 1024"
  shows "extract_raw n (view g s d a (v @ r)) = Inr (v, view g s d (a @ v) r)"
  using assms by (simp add: extract_raw_def view_def buf_read_def)

lemma extract_one_view:
  "length a + length r < 1024 \<Longrightarrow>
   extract_raw 1 (view g s d a (v # r)) = Inr ([v], view g s d (a @ [v]) r)"
  using extract_raw_view [of 1 "[v]" a r] by simp

lemma truncate_view [simp, pkt_simps]:
  assumes "length a + length r \<le> 1024"
  shows "truncate_pkt (view g s d a r) = Inr (view g s d [] r)"
proof -
  have "buf_read (data (view g s d a r)) (data_ptr (view g s d a r))
      (len (view g s d a r) - data_ptr (view g s d a r)) = Inr r"
    by (simp add: view_def buf_read_def)
  with assms show ?thesis
    by (simp add: truncate_pkt_def buf_write_zeros) (simp add: view_def)
qed

lemma gtp_hdr_update_view [simp, pkt_simps]: "view g s d a r\<lparr>gtp_hdr := g'\<rparr> = view g' s d a r"
  by (simp add: view_def)

lemma s1ap_hdr_update_view [simp, pkt_simps]: "view g s d a r\<lparr>s1ap_hdr := s'\<rparr> = view g s' d a r"
  by (simp add: view_def)

lemma diameter_hdr_update_view [simp, pkt_simps]:
  "view g s d a r\<lparr>diameter_hdr := d'\<rparr> = view g s d' a r"
  by (simp add: view_def)

subsection \<open>Headers on views\<close>

lemma prepend_s1ap_view [simp, pkt_simps]:
  "length a + length r \<le> 1012 \<Longrightarrow>
   prepend_s1ap_hdr t l e m (view g s d a r) =
     Inr (view g (s1ap_init t l e m s) d (s1ap_bytes (s1ap_init t l e m s) @ a) r)"
  by (simp add: prepend_s1ap_hdr_def Let_def)

lemma prepend_diameter_view [simp, pkt_simps]:
  "length a + length r \<le> 1020 \<Longrightarrow>
   prepend_diameter_hdr t l (view g s d a r) =
     Inr (view g s (diameter_init t l d) (diameter_bytes (diameter_init t l d) @ a) r)"
  by (simp add: prepend_diameter_hdr_def Let_def)

lemma prepend_gtp_view [simp, pkt_simps]:
  assumes "length a + length r \<le> 1008"
  shows "prepend_gtp_hdr 1 t l i (view g s d a r) =
           Inr (view (gtp_with 1 t l i g) s d (gtp_bytes (gtp_with 1 t l i g) @ a) r)"
    and "prepend_gtp_hdr 2 t l i (view g s d a r) =
           Inr (view (gtp_with 2 t l i g) s d (gtp_bytes (gtp_with 2 t l i g) @ a) r)"
  using assms by (simp_all add: prepend_gtp_hdr_def)

lemma extract_gtp_view [simp, pkt_simps]:
  "length a + length r \<le> 1008 \<Longrightarrow>
   extract_gtp_hdr (view g s d a (gtp_bytes h @ r)) = Inr (view h s d (a @ gtp_bytes h) r)"
  by (simp add: extract_gtp_hdr_def GTP_HDR_LEN_def extract_raw_view)

lemma extract_s1ap_view [simp, pkt_simps]:
  "length a + length r \<le> 1012 \<Longrightarrow>
   extract_s1ap_hdr (view g s d a (s1ap_bytes h @ r)) = Inr (view g h d (a @ s1ap_bytes h) r)"
  by (simp add: extract_s1ap_hdr_def S1AP_HDR_LEN_def extract_raw_view)

lemma extract_diameter_view [simp, pkt_simps]:
  "length a + length r \<le> 1020 \<Longrightarrow>
   extract_diameter_hdr (view g s d a (diameter_bytes h @ r)) =
     Inr (view g s h (a @ diameter_bytes h) r)"
  by (simp add: extract_diameter_hdr_def DIAMETER_HDR_LEN_def extract_raw_view)

subsection \<open>The contract of an item\<close>

text \<open>
  \<open>enc v\<close> are the bytes of the item \<open>v\<close>, \<open>ok v\<close> says that \<open>v\<close> survives the trip (a string without
  NUL, an \<open>int\<close> in range). Appending writes \<open>enc v\<close>, and extracting where \<open>enc v\<close> lies yields \<open>v\<close>.
\<close>

locale item_codec =
  fixes enc :: "'a \<Rightarrow> u8 list"
    and app :: "'a \<Rightarrow> packet \<Rightarrow> packet res"
    and ext :: "packet \<Rightarrow> ('a \<times> packet) res"
    and ok :: "'a \<Rightarrow> bool"
  assumes app_view: "length a + length (enc v) \<le> 1024 \<Longrightarrow>
      app v (view g s d a []) = Inr (view g s d (a @ enc v) [])"
    and app_over: "length a \<le> 1024 \<Longrightarrow> 1024 < length a + length (enc v) \<Longrightarrow>
      app v (view g s d a []) = Inl (Undefined ''memmove: write out of range'')"
    and ext_view: "ok v \<Longrightarrow> length a + (length (enc v) + length r) \<le> 1024 \<Longrightarrow>
      ext (view g s d a (enc v @ r)) = Inr (v, view g s d (a @ enc v) r)"
begin

lemma ext_last:
  "ok v \<Longrightarrow> length a + length (enc v) \<le> 1024 \<Longrightarrow>
   ext (view g s d a (enc v)) = Inr (v, view g s d (a @ enc v) [])"
  using ext_view [of v a "[]"] by simp

lemma app_defined_iff:
  "length a \<le> 1024 \<Longrightarrow>
   (\<exists>p. app v (view g s d a []) = Inr p) \<longleftrightarrow> length a + length (enc v) \<le> 1024"
  using app_view [of a v] app_over [of a v] by (cases "length a + length (enc v) \<le> 1024") auto

lemma app_then_ext:
  assumes "ok v" and "length a + length (enc v) \<le> 1024"
  shows "bindE (app v (view g s d a [])) (\<lambda>p.
         bindE (pkt_wire p) (\<lambda>m. ext (view g' s' d' a (drop (length a) m)))) =
         Inr (v, view g' s' d' (a @ enc v) [])"
  using assms app_view ext_last by simp

text \<open>Two items appended one after the other are read back in the same order.\<close>

lemma app_app_then_ext_ext:
  assumes "ok v" and "ok w" and "length (enc v) + length (enc w) \<le> 1024"
  shows "bindE (bindE (app v (view g s d [] [])) (app w)) (\<lambda>p.
         bindE (pkt_wire p) (\<lambda>m.
         bindE (ext (view g' s' d' [] m)) (\<lambda>(x, p). bindE (ext p) (\<lambda>(y, p). Inr (x, y))))) =
         Inr (v, w)"
  using assms app_view ext_view [of v "[]" "enc w"] ext_last [of w "enc v"] by simp

end

definition nul_free :: "string \<Rightarrow> bool" where
  "nul_free s \<longleftrightarrow> CHR 0x00 \<notin> set s"

definition string_bytes :: "string \<Rightarrow> u8 list" where
  "string_bytes s = le_int (int (length (c_str s))) @ char_bytes (c_str s)"

lemma c_str_nul_free [simp]: "nul_free s \<Longrightarrow> c_str s = s"
  by (auto simp: c_str_def nul_free_def takeWhile_eq_all_conv)

lemma bytes_char_bytes [simp]: "bytes_char (char_bytes s) = s"
  by (induction s) (simp_all add: bytes_char_def char_bytes_def unat_of_nat_u8)

lemma length_char_bytes [simp]: "length (char_bytes s) = length s"
  by (simp add: char_bytes_def)

lemma length_string_bytes [simp, pkt_simps]:
  "nul_free s \<Longrightarrow> length (string_bytes s) = 4 + length s"
  by (simp add: string_bytes_def)

lemma length_small_bytes [simp, pkt_simps]: "length (bool_bytes b) = 1" "length (u8_bytes v) = 1"
  by (simp_all add: bool_bytes_def u8_bytes_def)

lemma allocate_str_mem_ok [simp]: "0 < n \<Longrightarrow> allocate_str_mem n = Inr (replicate (nat n) 0)"
  by (simp add: allocate_str_mem_def)

interpretation bool_codec: item_codec bool_bytes append_bool extract_bool "\<lambda>_. True"
  by unfold_locales
    (auto simp: append_bool_def append_raw_overflow extract_bool_def extract_one_view bool_bytes_def)

interpretation int_codec: item_codec le_int append_int extract_int
  "\<lambda>v. - (2 ^ 31) \<le> v \<and> v < 2 ^ 31"
  by unfold_locales
    (auto simp: append_int_def append_raw_overflow extract_int_def extract_raw_view)

interpretation u8_codec: item_codec u8_bytes append_u8 extract_u8 "\<lambda>_. True"
  by unfold_locales
    (auto simp: append_u8_def append_raw_overflow extract_u8_def extract_one_view u8_bytes_def)

interpretation u16_codec: item_codec "le_word 2" append_u16 extract_u16 "\<lambda>_. True"
  by unfold_locales
    (auto simp: append_u16_def append_raw_overflow extract_u16_def extract_raw_view)

interpretation u32_codec: item_codec "le_word 4" append_u32 extract_u32 "\<lambda>_. True"
  by unfold_locales
    (auto simp: append_u32_def append_raw_overflow extract_u32_def extract_raw_view)

interpretation u64_codec: item_codec "le_word 8" append_u64 extract_u64 "\<lambda>_. True"
  by unfold_locales
    (auto simp: append_u64_def append_raw_overflow extract_u64_def extract_raw_view)

lemma append_string_view:
  assumes "length a + length (string_bytes v) \<le> 1024"
  shows "append_string v (view g s d a []) = Inr (view g s d (a @ string_bytes v) [])"
  using assms int_codec.app_view [of a "int (length (c_str v))"]
  by (simp add: append_string_def append_cstr_def string_bytes_def)

lemma append_string_over:
  assumes "length a \<le> 1024" and "1024 < length a + length (string_bytes v)"
  shows "append_string v (view g s d a []) = Inl (Undefined ''memmove: write out of range'')"
proof (cases "length a + 4 \<le> 1024")
  case True
  with assms show ?thesis
    using int_codec.app_view [of a "int (length (c_str v))"]
    by (simp add: append_string_def append_cstr_def string_bytes_def append_raw_overflow)
next
  case False
  with assms show ?thesis
    using int_codec.app_over [of a "int (length (c_str v))"]
    by (simp add: append_string_def)
qed

lemma extract_string_view:
  assumes "nul_free v" and "length a + (length (string_bytes v) + length r) \<le> 1024"
  shows "extract_string (view g s d a (string_bytes v @ r)) = Inr (v, view g s d (a @ string_bytes v) r)"
proof -
  have "extract_int (view g s d a (le_int (int (length v)) @ (char_bytes v @ r))) =
      Inr (int (length v), view g s d (a @ le_int (int (length v))) (char_bytes v @ r))"
    using assms by (intro int_codec.ext_view) auto
  with assms show ?thesis
    by (simp add: extract_string_def string_bytes_def extract_raw_view)
qed

interpretation string_codec: item_codec string_bytes append_string extract_string nul_free
  by unfold_locales (auto intro: append_string_view append_string_over extract_string_view)

subsection \<open>Vectors\<close>

definition u64s_bytes :: "u64 list \<Rightarrow> u8 list" where
  "u64s_bytes xs = concat (map (le_word 8) xs)"

lemma length_u64s_bytes [simp, pkt_simps]: "length (u64s_bytes xs) = 8 * length xs"
  by (induction xs) (simp_all add: u64s_bytes_def)

lemma append_u64s_view [simp, pkt_simps]:
  "length a + length (u64s_bytes xs) \<le> 1024 \<Longrightarrow>
   append_u64s xs (view g s d a []) = Inr (view g s d (a @ u64s_bytes xs) [])"
  by (induction xs arbitrary: a) (simp_all add: u64s_bytes_def)

lemma extract_u64s_loop_view:
  "length a + (length (u64s_bytes xs) + length r) \<le> 1024 \<Longrightarrow>
   extract_u64s_loop (length xs) (view g s d a (u64s_bytes xs @ r)) =
     Inr (xs, view g s d (a @ u64s_bytes xs) r)"
proof (induction xs arbitrary: a)
  case Nil
  then show ?case by (simp add: u64s_bytes_def)
next
  case (Cons x xs)
  have "extract_raw 8 (view g s d a (le_word 8 x @ (u64s_bytes xs @ r))) =
      Inr (le_word 8 x, view g s d (a @ le_word 8 x) (u64s_bytes xs @ r))"
    using Cons.prems by (intro extract_raw_view) simp_all
  with Cons show ?case by (simp add: u64s_bytes_def)
qed

lemma extract_u64s_view [pkt_simps]:
  "n = int (length xs) \<Longrightarrow> length a + (length (u64s_bytes xs) + length r) \<le> 1024 \<Longrightarrow>
   extract_u64s n (view g s d a (u64s_bytes xs @ r)) = Inr (xs, view g s d (a @ u64s_bytes xs) r)"
  by (simp only: extract_u64s_def nat_int extract_u64s_loop_view)

subsection \<open>Packets between processes\<close>

text \<open>
  The laws used to execute handlers: what an item writes, and what it reads when more items follow
  and when it is the last one.
\<close>

lemmas item_app_view [pkt_simps] =
  bool_codec.app_view int_codec.app_view u8_codec.app_view u16_codec.app_view
  u32_codec.app_view u64_codec.app_view append_string_view

lemmas item_ext_view [pkt_simps] =
  bool_codec.ext_view [OF TrueI] bool_codec.ext_last [OF TrueI]
  int_codec.ext_view [OF conjI] int_codec.ext_last [OF conjI]
  u8_codec.ext_view [OF TrueI] u8_codec.ext_last [OF TrueI]
  u16_codec.ext_view [OF TrueI] u16_codec.ext_last [OF TrueI]
  u32_codec.ext_view [OF TrueI] u32_codec.ext_last [OF TrueI]
  u64_codec.ext_view [OF TrueI] u64_codec.ext_last [OF TrueI]
  extract_string_view extract_string_view [where r = "[]", simplified]

lemma extract_hdr_last [simp, pkt_simps]:
  "length a \<le> 1008 \<Longrightarrow>
   extract_gtp_hdr (view g s d a (gtp_bytes h)) = Inr (view h s d (a @ gtp_bytes h) [])"
  "length a \<le> 1012 \<Longrightarrow>
   extract_s1ap_hdr (view g s d a (s1ap_bytes h')) = Inr (view g h' d (a @ s1ap_bytes h') [])"
  "length a \<le> 1020 \<Longrightarrow>
   extract_diameter_hdr (view g s d a (diameter_bytes h'')) =
     Inr (view g s h'' (a @ diameter_bytes h'') [])"
  using extract_gtp_view [of a "[]"] extract_s1ap_view [of a "[]"] extract_diameter_view [of a "[]"]
  by simp_all

end
