(* ===== verification/Epc_Telecom.thy ===== *)
theory Epc_Telecom
  imports Epc_Packet
begin

section \<open>Identifiers (telecom.cpp)\<close>

text \<open>
  Class \<open>Telecom\<close>: every identifier is the decimal concatenation of its parts, read back with
  \<open>stoull\<close> and converted to the width of the result. Under the bound that keeps \<open>stoull\<close> in range
  concatenation is multiplication by a power of ten, which gives the closed forms of the
  identifiers of this network: PLMN 11, MMEI 11, GUMMEI 1111, a GUTI of 16 digits per 12-digit IMSI.
\<close>

lemma unat_of_nat_u64: "n < 2 ^ 64 \<Longrightarrow> unat (of_nat n :: u64) = n"
  by (simp add: unat_of_nat)

definition concat_ids :: "nat \<Rightarrow> nat \<Rightarrow> u64 res" where
  "concat_ids a b = stoull (to_string a @ to_string b)"

definition get_plmn_id :: "u16 \<Rightarrow> u16 \<Rightarrow> u16 res" where
  "get_plmn_id mcc mnc = bindE (concat_ids (unat mcc) (unat mnc)) (\<lambda>v. Inr (ucast v))"

definition get_mmei :: "u16 \<Rightarrow> u8 \<Rightarrow> u32 res" where
  "get_mmei mmegi mmec = bindE (concat_ids (unat mmegi) (unat mmec)) (\<lambda>v. Inr (ucast v))"

definition get_gummei :: "u16 \<Rightarrow> u32 \<Rightarrow> u64 res" where
  "get_gummei plmn_id mmei = concat_ids (unat plmn_id) (unat mmei)"

definition get_imsi :: "u16 \<Rightarrow> u64 \<Rightarrow> u64 res" where
  "get_imsi plmn_id msisdn = concat_ids (unat plmn_id) (unat msisdn)"

definition get_guti :: "u64 \<Rightarrow> u64 \<Rightarrow> u64 res" where
  "get_guti gummei m_tmsi = concat_ids (unat gummei) (unat m_tmsi)"

lemma concat_ids_eq:
  assumes "10 ^ k \<le> b" and "b < 10 ^ Suc k" and "a * 10 ^ Suc k + b < 2 ^ 64"
  shows "concat_ids a b = Inr (of_nat (a * 10 ^ Suc k + b))"
  using stoull_to_string_append [of a b] assms length_to_string [OF assms(1,2)]
  by (simp add: concat_ids_def)

lemma concat_ids_digit:
  assumes "b < 10" and "a * 10 + b < 2 ^ 64"
  shows "concat_ids a b = Inr (of_nat (a * 10 + b))"
  using stoull_to_string_append [of a b] assms by (simp add: concat_ids_def to_string.simps [of b])

text \<open>Concatenations of numbers with equally many digits in the second part are distinct.\<close>

lemma concat_ids_inject:
  assumes "10 ^ k \<le> b" "b < 10 ^ Suc k" "a * 10 ^ Suc k + b < 2 ^ 64"
    and "10 ^ k \<le> b'" "b' < 10 ^ Suc k" "a * 10 ^ Suc k + b' < 2 ^ 64"
    and "concat_ids a b = concat_ids a b'"
  shows "b = b'"
proof -
  define m n where "m = a * 10 ^ Suc k + b" and "n = a * 10 ^ Suc k + b'"
  have "(of_nat m :: u64) = of_nat n"
    using assms concat_ids_eq unfolding m_def n_def by fastforce
  moreover have "m < 2 ^ 64" and "n < 2 ^ 64"
    using assms(3,6) by (simp_all add: m_def n_def)
  ultimately have "m = n"
    by (metis unat_of_nat_u64)
  then show ?thesis by (simp add: m_def n_def)
qed

lemma get_plmn_id_1_1: "get_plmn_id 1 1 = Inr 11"
  by (simp add: get_plmn_id_def concat_ids_digit)

lemma get_mmei_1_1: "get_mmei 1 1 = Inr 11"
  by (simp add: get_mmei_def concat_ids_digit)

lemma get_gummei_11_11: "get_gummei 11 11 = Inr 1111"
  using concat_ids_eq [of 1 11 11] by (simp add: get_gummei_def)

text \<open>A 12-digit IMSI.\<close>

definition imsi12 :: "u64 \<Rightarrow> bool" where
  "imsi12 imsi \<longleftrightarrow> 10 ^ 11 \<le> unat imsi \<and> unat imsi < 10 ^ 12"

lemma get_guti_1111:
  assumes "imsi12 imsi"
  shows "get_guti 1111 imsi = Inr (1111 * 10 ^ 12 + imsi)"
proof -
  have "get_guti 1111 imsi = Inr (of_nat (1111 * 10 ^ 12 + unat imsi))"
    using assms concat_ids_eq [of 11 "unat imsi" 1111] by (simp add: get_guti_def imsi12_def)
  then show ?thesis by simp
qed

lemma unat_guti_1111:
  "imsi12 imsi \<Longrightarrow> unat (1111 * 10 ^ 12 + imsi :: u64) = 1111 * 10 ^ 12 + unat imsi"
  by (simp add: imsi12_def unat_word_ariths)

lemma get_imsi_11:
  assumes "9 * 10 ^ 9 \<le> unat msisdn" and "unat msisdn < 10 ^ 10"
  shows "get_imsi 11 msisdn = Inr (11 * 10 ^ 10 + msisdn)"
proof -
  have "get_imsi 11 msisdn = Inr (of_nat (11 * 10 ^ 10 + unat msisdn))"
    using assms concat_ids_eq [of 9 "unat msisdn" 11] by (simp add: get_imsi_def)
  then show ?thesis by simp
qed

end
