(* ===== verification/Epc_Extern.thy ===== *)
theory Epc_Extern
  imports Epc_Packet
begin

section \<open>Library functions outside the repository\<close>

text \<open>
  OpenSSL and the address functions of libc are not part of the repository. They are the fields of
  \<open>ext_lib\<close>, and every definition that calls one takes an \<open>ext_lib\<close> argument.
  \<^item> \<open>aes_enc X key iv m\<close> and \<open>aes_dec X key iv c\<close>: one pass of \<open>EVP_aes_256_cbc\<close> with padding;
    \<open>None\<close> is a failing call.
  \<^item> \<open>hmac_sha1 X key m\<close>: \<open>HMAC\<close> with \<open>EVP_sha1\<close>.
  \<^item> \<open>inet_aton X s\<close>: the four address bytes, \<open>None\<close> when it returns 0.
  \<^item> \<open>inet_ntop X b\<close>: the text of a four-byte address.

  What the code relies on is \<open>crypto_ok\<close> (decryption undoes encryption, CBC with padding makes
  \<open>16 * (n div 16 + 1)\<close> bytes of \<open>n\<close>, a SHA-1 MAC has 20) and \<open>inet_ok\<close> (dotted decimals). The
  functions of \<open>sample_lib\<close> satisfy both; witnesses use them.
\<close>

record ext_lib =
  aes_enc :: "u8 list \<Rightarrow> u8 list \<Rightarrow> u8 list \<Rightarrow> u8 list"
  aes_dec :: "u8 list \<Rightarrow> u8 list \<Rightarrow> u8 list \<Rightarrow> u8 list option"
  hmac_sha1 :: "u8 list \<Rightarrow> u8 list \<Rightarrow> u8 list"
  inet_aton :: "string \<Rightarrow> u8 list option"
  inet_ntop :: "u8 list \<Rightarrow> string"

definition crypto_ok :: "ext_lib \<Rightarrow> bool" where
  "crypto_ok X \<longleftrightarrow>
     (\<forall>key iv m. aes_dec X key iv (aes_enc X key iv m) = Some m \<and>
                 length (aes_enc X key iv m) = 16 * (length m div 16 + 1)) \<and>
     (\<forall>key m. length (hmac_sha1 X key m) = 20)"

definition dotted :: "u8 list \<Rightarrow> string" where
  "dotted b = to_string (unat (b ! 0)) @ ''.'' @ to_string (unat (b ! 1)) @ ''.'' @
              to_string (unat (b ! 2)) @ ''.'' @ to_string (unat (b ! 3))"

definition inet_ok :: "ext_lib \<Rightarrow> bool" where
  "inet_ok X \<longleftrightarrow> (\<forall>b. length b = 4 \<longrightarrow> inet_ntop X b = dotted b \<and> inet_aton X (dotted b) = Some b)"

subsection \<open>A concrete library\<close>

text \<open>PKCS padding around the identity, a constant-length digest, and a dotted-decimal parser.\<close>

definition pad16 :: "u8 list \<Rightarrow> u8 list" where
  "pad16 m = m @ replicate (16 - length m mod 16) (of_nat (16 - length m mod 16))"

definition unpad16 :: "u8 list \<Rightarrow> u8 list option" where
  "unpad16 c = (if c = [] then None else Some (take (length c - unat (last c)) c))"

definition digest20 :: "u8 list \<Rightarrow> u8 list \<Rightarrow> u8 list" where
  "digest20 k m = replicate 20 (sum_list k + sum_list m)"

fun split_dots :: "string \<Rightarrow> string \<Rightarrow> string list" where
  "split_dots acc [] = [acc]"
| "split_dots acc (c # cs) = (if c = CHR ''.'' then acc # split_dots [] cs else split_dots (acc @ [c]) cs)"

definition parse_dotted :: "string \<Rightarrow> u8 list option" where
  "parse_dotted s =
     (let ps = split_dots [] s
      in if length ps = 4 \<and> list_all (\<lambda>p. p \<noteq> [] \<and> list_all is_digit p \<and> dec_val p < 256) ps
         then Some (map (\<lambda>p. of_nat (dec_val p)) ps) else None)"

definition sample_lib :: ext_lib where
  "sample_lib =
     \<lparr>aes_enc = (\<lambda>k iv. pad16), aes_dec = (\<lambda>k iv. unpad16), hmac_sha1 = digest20,
      inet_aton = parse_dotted, inet_ntop = dotted\<rparr>"

lemma unpad_pad: "unpad16 (pad16 m) = Some m"
proof -
  define n where "n = 16 - length m mod 16"
  have "0 < n" and "n \<le> 16"
    by (auto simp: n_def)
  then have "unat (of_nat n :: u8) = n"
    by (simp add: unat_of_nat)
  with \<open>0 < n\<close> show ?thesis
    by (simp add: unpad16_def pad16_def n_def [symmetric] last_append)
qed

lemma length_pad: "length (pad16 m) = 16 * (length m div 16 + 1)"
  unfolding pad16_def length_append length_replicate by presburger

lemma crypto_ok_sample: "crypto_ok sample_lib"
  by (simp add: crypto_ok_def sample_lib_def unpad_pad length_pad digest20_def)

lemma split_dots_digits:
  "\<forall>c \<in> set s. is_digit c \<Longrightarrow> split_dots acc (s @ CHR ''.'' # t) = (acc @ s) # split_dots [] t"
  by (induction s arbitrary: acc) (auto simp: is_digit_def)

lemma split_dots_last: "\<forall>c \<in> set s. is_digit c \<Longrightarrow> split_dots acc s = [acc @ s]"
  by (induction s arbitrary: acc) (auto simp: is_digit_def)

lemma parse_dotted_dotted:
  assumes "length b = 4"
  shows "parse_dotted (dotted b) = Some b"
proof -
  obtain b0 b1 b2 b3 where b: "b = [b0, b1, b2, b3]"
    using assms by (auto simp: numeral_eq_Suc length_Suc_conv)
  have "split_dots [] (dotted b) = map (\<lambda>x. to_string (unat x)) b"
    using split_dots_digits [OF to_string_digits] split_dots_last [OF to_string_digits]
    by (simp add: b dotted_def)
  then show ?thesis
    by (simp add: parse_dotted_def b list_all_iff to_string_digits unat_u8_less)
qed

lemma inet_ok_sample: "inet_ok sample_lib"
  by (simp add: inet_ok_def sample_lib_def parse_dotted_dotted)

end
