(* ===== verification/Epc_Security.thy ===== *)
theory Epc_Security
  imports Epc_Extern
begin

section \<open>NAS protection (security.h, security.cpp)\<close>

text \<open>
  Classes \<open>Crypt\<close> and \<open>Integrity\<close> over the library functions of \<open>ext_lib\<close>. \<open>HMAC_ON\<close> and
  \<open>ENC_ON\<close> are 1, so the callers always take both steps. The cipher and MAC keys are the constants
  of the constructors; the \<open>k_nas_enc\<close> and \<open>k_nas_int\<close> arguments are carried as in the code, which
  does not read them. A failing OpenSSL call ends in \<open>handle_crypt_error\<close>, which exits.
\<close>

definition crypt_key :: "u8 list" where
  "crypt_key = char_bytes ''01234567890123456789012345678901''"

definition crypt_iv :: "u8 list" where
  "crypt_iv = char_bytes ''01234567890123456''"

definition integrity_key :: "u8 list" where
  "integrity_key = char_bytes ''012345678''"

definition HMAC_LEN :: int where
  "HMAC_LEN = 20"

definition handle_crypt_error :: "'a res" where
  "handle_crypt_error = Inl (Exit ''Crypt error: security_handlecrypterror'')"

subsection \<open>Crypt\<close>

definition enc_data :: "ext_lib \<Rightarrow> u8 list \<Rightarrow> u64 \<Rightarrow> u8 list res" where
  "enc_data X plain_text k_nas_enc = Inr (aes_enc X crypt_key crypt_iv plain_text)"

definition dec_data :: "ext_lib \<Rightarrow> u8 list \<Rightarrow> u64 \<Rightarrow> u8 list res" where
  "dec_data X cipher_text k_nas_enc =
     (case aes_dec X crypt_key crypt_iv cipher_text of
        None \<Rightarrow> handle_crypt_error
      | Some m \<Rightarrow> Inr m)"

definition crypt_enc :: "ext_lib \<Rightarrow> u64 \<Rightarrow> packet \<Rightarrow> packet res" where
  "crypt_enc X k_nas_enc p =
     bindE (allocate_uint8_mem BUF_SIZE) (\<lambda>tem.
     bindE (buf_read (data p) 0 (len p)) (\<lambda>m.
     bindE (enc_data X m k_nas_enc) (\<lambda>c.
     bindE (buf_write tem 0 c) (\<lambda>tem.
     Inr (p\<lparr>data := tem, data_ptr := 0, len := int (length c)\<rparr>)))))"

definition crypt_dec :: "ext_lib \<Rightarrow> u64 \<Rightarrow> packet \<Rightarrow> packet res" where
  "crypt_dec X k_nas_enc p =
     bindE (allocate_uint8_mem BUF_SIZE) (\<lambda>tem.
     bindE (truncate_pkt p) (\<lambda>p.
     bindE (buf_read (data p) 0 (len p)) (\<lambda>c.
     bindE (dec_data X c k_nas_enc) (\<lambda>m.
     bindE (buf_write tem 0 m) (\<lambda>tem.
     Inr (p\<lparr>data := tem, data_ptr := 0, len := int (length m)\<rparr>))))))"

subsection \<open>Integrity\<close>

definition get_hmac :: "ext_lib \<Rightarrow> u8 list \<Rightarrow> int \<Rightarrow> u64 \<Rightarrow> u8 list res" where
  "get_hmac X d data_len k_nas_int =
     bindE (buf_read d 0 data_len) (\<lambda>m. Inr (hmac_sha1 X integrity_key m))"

definition add_hmac :: "ext_lib \<Rightarrow> u64 \<Rightarrow> packet \<Rightarrow> packet res" where
  "add_hmac X k_nas_int p =
     bindE (get_hmac X (data p) (len p) k_nas_int) (\<lambda>hmac. prepend_item hmac HMAC_LEN p)"

definition rem_hmac :: "packet \<Rightarrow> (u8 list \<times> packet) res" where
  "rem_hmac p =
     bindE (extract_bytes HMAC_LEN p) (\<lambda>(hmac, p).
     bindE (truncate_pkt p) (\<lambda>p. Inr (hmac, p)))"

text \<open>The comparison loop, from index \<open>i\<close> to \<open>HMAC_LEN\<close>, stopping at the first difference.\<close>

function cmp_hmacs_loop :: "nat \<Rightarrow> u8 list \<Rightarrow> u8 list \<Rightarrow> bool" where
  "cmp_hmacs_loop i hmac1 hmac2 =
     (if i < 20 then (if hmac1 ! i \<noteq> hmac2 ! i then False else cmp_hmacs_loop (Suc i) hmac1 hmac2)
      else True)"
  by pat_completeness auto
termination
  by (relation "measure (\<lambda>(i, _, _). 20 - i)") auto

declare cmp_hmacs_loop.simps [simp del]

definition cmp_hmacs :: "u8 list \<Rightarrow> u8 list \<Rightarrow> bool" where
  "cmp_hmacs hmac1 hmac2 = cmp_hmacs_loop 0 hmac1 hmac2"

definition hmac_check :: "ext_lib \<Rightarrow> u64 \<Rightarrow> packet \<Rightarrow> (bool \<times> packet) res" where
  "hmac_check X k_nas_int p =
     bindE (rem_hmac p) (\<lambda>(hmac_xres, p).
     bindE (get_hmac X (data p) (len p) k_nas_int) (\<lambda>hmac_res.
     Inr (cmp_hmacs hmac_res hmac_xres, p)))"

subsection \<open>The comparison decides equality\<close>

lemma cmp_hmacs_loop_iff:
  "cmp_hmacs_loop i a b \<longleftrightarrow> (\<forall>j. i \<le> j \<and> j < 20 \<longrightarrow> a ! j = b ! j)"
proof (induction i a b rule: cmp_hmacs_loop.induct)
  case (1 i a b)
  show ?case
  proof (cases "i < 20")
    case True
    have "(\<forall>j. i \<le> j \<and> j < 20 \<longrightarrow> a ! j = b ! j) \<longleftrightarrow>
        a ! i = b ! i \<and> (\<forall>j. Suc i \<le> j \<and> j < 20 \<longrightarrow> a ! j = b ! j)"
      using True by (metis Suc_le_eq le_neq_implies_less order_refl less_imp_le)
    with 1 True show ?thesis
      by (simp add: cmp_hmacs_loop.simps [of i a b])
  next
    case False
    then show ?thesis by (auto simp: cmp_hmacs_loop.simps [of i a b])
  qed
qed

lemma cmp_hmacs_iff: "length a = 20 \<Longrightarrow> length b = 20 \<Longrightarrow> cmp_hmacs a b \<longleftrightarrow> a = b"
  by (simp add: cmp_hmacs_def cmp_hmacs_loop_iff list_eq_iff_nth_eq)

lemma cmp_hmacs_refl [simp]: "cmp_hmacs a a"
  by (simp add: cmp_hmacs_def cmp_hmacs_loop_iff)

subsection \<open>Protection on packets\<close>

definition cipher :: "ext_lib \<Rightarrow> u8 list \<Rightarrow> u8 list" where
  "cipher X m = aes_enc X crypt_key crypt_iv m"

definition mac :: "ext_lib \<Rightarrow> u8 list \<Rightarrow> u8 list" where
  "mac X m = hmac_sha1 X integrity_key m"

lemma length_cipher [simp, pkt_simps]:
  "crypto_ok X \<Longrightarrow> length (cipher X m) = 16 * (length m div 16 + 1)"
  by (simp add: cipher_def crypto_ok_def)

lemma length_mac [simp, pkt_simps]: "crypto_ok X \<Longrightarrow> length (mac X m) = 20"
  by (simp add: mac_def crypto_ok_def)

lemma crypt_enc_view [simp, pkt_simps]:
  assumes "crypto_ok X" and "length a + length r < 1008"
  shows "crypt_enc X k (view g s d a r) = Inr (view g s d [] (cipher X (a @ r)))"
proof -
  have "length (cipher X (a @ r)) \<le> 1024"
    using assms by simp
  then show ?thesis
    using view_message [of g s d a r] buf_write_zeros [of "cipher X (a @ r)"]
      view_with_data [of "cipher X (a @ r)" g s d a r]
    by (simp add: crypt_enc_def enc_data_def cipher_def)
qed

lemma crypt_dec_view [simp, pkt_simps]:
  assumes "crypto_ok X" and "length a + length (cipher X m) \<le> 1024"
  shows "crypt_dec X k (view g s d a (cipher X m)) = Inr (view g s d [] m)"
proof -
  have "length m \<le> 1024"
    using assms by simp
  moreover have "aes_dec X crypt_key crypt_iv (cipher X m) = Some m"
    using assms(1) by (simp add: cipher_def crypto_ok_def)
  moreover have "truncate_pkt (view g s d a (cipher X m)) = Inr (view g s d [] (cipher X m))"
    using assms(2) by (rule truncate_view)
  ultimately show ?thesis
    using view_message [of g s d "[]" "cipher X m"] buf_write_zeros [of m]
      view_with_data [of m g s d "[]" "cipher X m"]
    by (simp add: crypt_dec_def dec_data_def del: truncate_view length_cipher)
qed

lemma crypt_dec_failure:
  assumes "aes_dec X crypt_key crypt_iv r = None" and "length a + length r \<le> 1024"
  shows "crypt_dec X k (view g s d a r) = Inl (Exit ''Crypt error: security_handlecrypterror'')"
  using assms view_message [of g s d "[]" r]
  by (simp add: crypt_dec_def dec_data_def handle_crypt_error_def)

lemma add_hmac_view [simp, pkt_simps]:
  assumes "crypto_ok X" and "length a + length r \<le> 1004"
  shows "add_hmac X k (view g s d a r) = Inr (view g s d (mac X (a @ r) @ a) r)"
proof -
  have "prepend_item (mac X (a @ r)) HMAC_LEN (view g s d a r) =
      prepend_raw (mac X (a @ r)) (view g s d a r)"
    using assms(1) by (simp add: prepend_item_def HMAC_LEN_def buf_read_def)
  moreover have "get_hmac X (data (view g s d a r)) (len (view g s d a r)) k = Inr (mac X (a @ r))"
    using view_message [of g s d a r] by (simp add: get_hmac_def mac_def)
  moreover have "prepend_raw (mac X (a @ r)) (view g s d a r) =
      Inr (view g s d (mac X (a @ r) @ a) r)"
    using assms by simp
  ultimately show ?thesis
    by (simp only: add_hmac_def bindE_Inr)
qed

lemma get_hmac_view [simp, pkt_simps]:
  "n = int (length m) \<Longrightarrow> get_hmac X (data (view g s d m [])) n k = Inr (mac X m)"
  using view_message [of g s d m "[]"] by (simp add: get_hmac_def mac_def)

lemma rem_hmac_view [pkt_simps]:
  assumes "length h = 20" and "length a + (length h + length m) \<le> 1024"
  shows "rem_hmac (view g s d a (h @ m)) = Inr (h, view g s d [] m)"
  using assms extract_raw_view [of 20 h a m]
  by (simp add: rem_hmac_def extract_bytes_def HMAC_LEN_def)

lemma hmac_check_view:
  assumes "crypto_ok X" and "length h = 20" and "length a + (length h + length m) \<le> 1024"
  shows "hmac_check X k (view g s d a (h @ m)) = Inr (h = mac X m, view g s d [] m)"
proof -
  have "cmp_hmacs (mac X m) h \<longleftrightarrow> h = mac X m"
    using assms by (auto simp: cmp_hmacs_iff)
  then show ?thesis
    using assms view_message [of g s d "[]" m]
    by (simp add: hmac_check_def rem_hmac_view get_hmac_def mac_def)
qed

lemma hmac_check_mac [simp, pkt_simps]:
  "crypto_ok X \<Longrightarrow> length a + length m \<le> 1004 \<Longrightarrow>
   hmac_check X k (view g s d a (mac X m @ m)) = Inr (True, view g s d [] m)"
  by (simp add: hmac_check_view)

text \<open>
  The sender's order, encrypt then authenticate, and the receiver's, check then decrypt, whatever
  keys the two sides hold: neither step reads its key.
\<close>

definition protect :: "ext_lib \<Rightarrow> u64 \<Rightarrow> u64 \<Rightarrow> packet \<Rightarrow> packet res" where
  "protect X k_enc k_int p = bindE (crypt_enc X k_enc p) (add_hmac X k_int)"

definition unprotect :: "ext_lib \<Rightarrow> u64 \<Rightarrow> u64 \<Rightarrow> packet \<Rightarrow> (bool \<times> packet) res" where
  "unprotect X k_enc k_int p =
     bindE (hmac_check X k_int p) (\<lambda>(ok, p).
     if ok then bindE (crypt_dec X k_enc p) (\<lambda>p. Inr (True, p)) else Inr (False, p))"

lemma protect_view:
  assumes "crypto_ok X" and "length m \<le> 950"
  shows "protect X ke ki (view g s d m []) =
    Inr (view g s d (mac X (cipher X m)) (cipher X m))"
  using assms by (simp add: protect_def)

lemma unprotect_view:
  assumes "crypto_ok X" and "length m \<le> 950" and "length a \<le> 20"
  shows "unprotect X ke ki (view g s d a (mac X (cipher X m) @ cipher X m)) =
    Inr (True, view g s d [] m)"
proof -
  have "length (cipher X m) \<le> 984"
    using assms by simp
  with assms show ?thesis
    by (simp add: unprotect_def del: length_cipher)
qed

end
