(* ===== verification/Epc_Config.thy ===== *)
theory Epc_Config
  imports Epc_Prelude
begin

section \<open>Addresses, ports and limits\<close>

text \<open>
  The configuration constants. The components are separate programs and several of them define the
  same name; the values agree, so each stands here once.
\<close>

definition g_trafmon_ip_addr :: string where
  "g_trafmon_ip_addr = ''10.129.26.169''"

definition g_mme_ip_addr :: string where
  "g_mme_ip_addr = ''10.129.26.169''"

definition g_sgw_s11_ip_addr :: string where
  "g_sgw_s11_ip_addr = ''10.129.26.169''"

definition g_sgw_s1_ip_addr :: string where
  "g_sgw_s1_ip_addr = ''10.129.26.169''"

definition g_pgw_s5_ip_addr :: string where
  "g_pgw_s5_ip_addr = ''10.129.26.169''"

definition g_trafmon_port :: int where
  "g_trafmon_port = 4000"

definition g_sgw_s11_port :: int where
  "g_sgw_s11_port = 7000"

definition g_sgw_s1_port :: int where
  "g_sgw_s1_port = 7100"

definition g_pgw_s5_port :: int where
  "g_pgw_s5_port = 8000"

definition g_timer :: u64 where
  "g_timer = 100"

definition t_ran_ip_addr :: string where
  "t_ran_ip_addr = ''10.129.26.169''"

definition t_ran_port :: int where
  "t_ran_port = 4905"

definition s_ran_ip_addr :: string where
  "s_ran_ip_addr = ''10.129.26.169''"

definition s_ran_port :: int where
  "s_ran_port = 4905"

definition g_mme_port :: int where
  "g_mme_port = 5000"

definition g_sgw_s5_ip_addr :: string where
  "g_sgw_s5_ip_addr = ''10.129.26.169''"

definition g_sgw_s5_port :: int where
  "g_sgw_s5_port = 7200"

definition g_pgw_sgi_ip_addr :: string where
  "g_pgw_sgi_ip_addr = ''10.129.26.169''"

definition g_pgw_sgi_port :: int where
  "g_pgw_sgi_port = 8100"

definition g_sink_ip_addr :: string where
  "g_sink_ip_addr = ''10.129.26.169''"

definition g_sink_port :: int where
  "g_sink_port = 8500"

definition g_ran_ip_addr :: string where
  "g_ran_ip_addr = ''10.129.26.169''"

definition MAX_UE_COUNT :: nat where
  "MAX_UE_COUNT = 10000"

definition DATA_SIZE :: int where
  "DATA_SIZE = 800"

end
