(* ===== verification/Epc_Network.thy ===== *)
theory Epc_Network
  imports Epc_Extern Epc_Config
begin

section \<open>Sockets (network.cpp, udp_client.cpp, udp_server.cpp, sctp_client.cpp, sctp_server.cpp)\<close>

text \<open>
  \<open>read_stream\<close> and \<open>write_stream\<close> loop until every byte has moved. The operating system is the
  environment: a connection delivers a list of \<open>read_ev\<close> (a segment of bytes or a failing
  \<open>read\<close>; the end of the list is end of file), and a \<open>write\<close> accepts as many bytes as the next
  number of an oracle says. \<open>read_sctp_pkt\<close> and \<open>write_sctp_pkt\<close> frame a packet with its length.
  Above them a message is its bytes: \<open>sctp_snd\<close>, \<open>udp_snd\<close> give the bytes a call sends, and
  \<open>sctp_deliver\<close>, \<open>udp_client_rcv\<close>, \<open>udp_server_rcv\<close> what a receive call leaves in the packet for
  an outcome \<open>rx\<close>. The retry on \<open>EPERM\<close> is left out.
\<close>

subsection \<open>Addresses\<close>

type_synonym sock_addr = "u8 list \<times> u16"

definition set_inet_sock_addr :: "ext_lib \<Rightarrow> string \<Rightarrow> int \<Rightarrow> sock_addr res" where
  "set_inet_sock_addr X ip_addr port =
     (case inet_aton X ip_addr of
        None \<Rightarrow> Inl (Exit ''inet_aton error: network_setinetsockaddr'')
      | Some a \<Rightarrow> Inr (a, word_of_int port))"

definition g_freeport :: int where
  "g_freeport = 0"

definition sctp_client_init :: "ext_lib \<Rightarrow> string \<Rightarrow> int \<Rightarrow> sock_addr res" where
  "sctp_client_init X server_ip_addr server_port = set_inet_sock_addr X server_ip_addr server_port"

definition udp_client_init :: "ext_lib \<Rightarrow> string \<Rightarrow> string \<Rightarrow> int \<Rightarrow> (sock_addr \<times> sock_addr) res" where
  "udp_client_init X ip_addr server_ip_addr server_port =
     bindE (set_inet_sock_addr X ip_addr g_freeport) (\<lambda>sock_addr.
     bindE (set_inet_sock_addr X server_ip_addr server_port) (\<lambda>server_sock_addr.
     Inr (sock_addr, server_sock_addr)))"

definition set_client :: "ext_lib \<Rightarrow> string \<Rightarrow> sock_addr res" where
  "set_client X ip_addr = set_inet_sock_addr X ip_addr g_freeport"

definition set_server :: "ext_lib \<Rightarrow> string \<Rightarrow> int \<Rightarrow> sock_addr res" where
  "set_server X server_ip_addr server_port = set_inet_sock_addr X server_ip_addr server_port"

definition IP_HDR_LEN :: int where
  "IP_HDR_LEN = 20"

definition get_src_ip_addr :: "ext_lib \<Rightarrow> packet \<Rightarrow> string res" where
  "get_src_ip_addr X pkt =
     bindE (copy_pkt pkt) (\<lambda>pkt.
     bindE (allocate_ip_hdr_mem IP_HDR_LEN) (\<lambda>_.
     bindE (buf_read (data pkt) 0 IP_HDR_LEN) (\<lambda>ip_hdr.
     Inr (inet_ntop X (take 4 (drop 12 ip_hdr))))))"

definition get_dst_ip_addr :: "ext_lib \<Rightarrow> packet \<Rightarrow> string res" where
  "get_dst_ip_addr X pkt =
     bindE (copy_pkt pkt) (\<lambda>pkt.
     bindE (allocate_ip_hdr_mem IP_HDR_LEN) (\<lambda>_.
     bindE (buf_read (data pkt) 0 IP_HDR_LEN) (\<lambda>ip_hdr.
     Inr (inet_ntop X (take 4 (drop 16 ip_hdr))))))"

subsection \<open>Streams\<close>

datatype read_ev =
    Seg "u8 list"
  | Read_error

type_synonym stream = "read_ev list"

text \<open>One \<open>read(fd, buf, n)\<close>: its result, the bytes it moved, what is left.\<close>

fun sys_read :: "nat \<Rightarrow> stream \<Rightarrow> int \<times> u8 list \<times> stream" where
  "sys_read n [] = (0, [], [])"
| "sys_read n (Read_error # s) = (-1, [], s)"
| "sys_read n (Seg bs # s) =
     (if length bs \<le> n then (int (length bs), bs, s)
      else (int n, take n bs, Seg (drop n bs) # s))"

lemma sys_read_le: "sys_read n s = (k, bs, s') \<Longrightarrow> k \<le> int n"
  by (cases "(n, s)" rule: sys_read.cases) (auto split: if_splits)

function read_loop :: "u8 list \<Rightarrow> int \<Rightarrow> nat \<Rightarrow> int \<Rightarrow> stream \<Rightarrow> (int \<times> u8 list \<times> stream) res" where
  "read_loop buf ptr remaining_bytes n s =
     (let (read_bytes, bs, s') = sys_read remaining_bytes s
      in if read_bytes \<le> 0 then Inr (read_bytes, buf, s')
         else bindE (buf_write buf ptr bs) (\<lambda>buf.
           if remaining_bytes - nat read_bytes = 0 then Inr (n, buf, s')
           else read_loop buf (ptr + read_bytes) (remaining_bytes - nat read_bytes) n s'))"
  by pat_completeness auto
termination
  by (relation "measure (\<lambda>(_, _, remaining_bytes, _, _). remaining_bytes)") auto

declare read_loop.simps [simp del]

definition read_stream :: "int \<Rightarrow> u8 list \<Rightarrow> int \<Rightarrow> stream \<Rightarrow> (int \<times> u8 list \<times> stream) res" where
  "read_stream conn_fd buf n s =
     (if conn_fd < 0 \<or> n \<le> 0 then Inr (-1, buf, s) else read_loop buf 0 (nat n) n s)"

text \<open>
  One \<open>write(fd, buf, n)\<close>: the oracle says how many bytes it accepts (at most \<open>n\<close>; a number that is
  not positive is a failing call, an exhausted oracle accepts everything).
\<close>

fun sys_write :: "nat \<Rightarrow> int list \<Rightarrow> int \<times> int list" where
  "sys_write n [] = (int n, [])"
| "sys_write n (w # ws) = (min w (int n), ws)"

function write_loop :: "u8 list \<Rightarrow> int \<Rightarrow> int list \<Rightarrow> int \<times> u8 list" where
  "write_loop buf n ws =
     (let (written_bytes, ws') = sys_write (length buf) ws
      in if written_bytes \<le> 0 then (written_bytes, [])
         else if length buf - nat written_bytes = 0 then (n, take (nat written_bytes) buf)
         else let (retval, out) = write_loop (drop (nat written_bytes) buf) n ws'
              in (retval, take (nat written_bytes) buf @ out))"
  by pat_completeness auto
termination
  by (relation "measure (\<lambda>(buf, _, _). length buf)") auto

declare write_loop.simps [simp del]

definition write_stream :: "int \<Rightarrow> u8 list \<Rightarrow> int \<Rightarrow> int list \<Rightarrow> (int \<times> u8 list) res" where
  "write_stream conn_fd buf n ws =
     (if conn_fd < 0 \<or> n \<le> 0 then Inr (-1, [])
      else bindE (buf_read buf 0 n) (\<lambda>m. Inr (write_loop m n ws)))"

subsection \<open>Framed packets\<close>

definition read_sctp_pkt :: "int \<Rightarrow> packet \<Rightarrow> stream \<Rightarrow> (int \<times> packet \<times> stream) res" where
  "read_sctp_pkt conn_fd pkt s =
     (let pkt = clear_pkt pkt in
      bindE (read_stream conn_fd (data pkt) 4 s) (\<lambda>(retval, buf, s).
      if 0 < retval then
        bindE (buf_read buf 0 4) (\<lambda>b.
        let pkt_len = int_le b; pkt = clear_pkt pkt in
        bindE (read_stream conn_fd (data pkt) pkt_len s) (\<lambda>(retval, buf, s).
        Inr (retval, pkt\<lparr>data := buf, data_ptr := 0, len := retval\<rparr>, s)))
      else Inr (retval, pkt\<lparr>data := buf\<rparr>, s)))"

definition write_sctp_pkt :: "int \<Rightarrow> packet \<Rightarrow> int list \<Rightarrow> (int \<times> u8 list) res" where
  "write_sctp_pkt conn_fd pkt ws =
     bindE (copy_pkt pkt) (\<lambda>pkt.
     bindE (prepend_len pkt) (\<lambda>pkt.
     write_stream conn_fd (data pkt) (len pkt) ws))"

subsection \<open>Messages\<close>

text \<open>
  The outcome of a receive call: the message, or a failure with the bytes it left in the buffer and
  its result (0 for end of file, -1 for an error).
\<close>

datatype rx =
    Rx "u8 list"
  | Rx_fail "u8 list" int

definition sctp_snd :: "packet \<Rightarrow> u8 list res" where
  "sctp_snd pkt =
     bindE (copy_pkt pkt) (\<lambda>pkt. bindE (prepend_len pkt) (\<lambda>_. pkt_wire pkt))"

definition sctp_deliver :: "rx \<Rightarrow> packet \<Rightarrow> packet res" where
  "sctp_deliver r pkt =
     (let pkt = clear_pkt pkt in
      case r of
        Rx bs \<Rightarrow> bindE (buf_write (data pkt) 0 bs) (\<lambda>b.
          Inr (pkt\<lparr>data := b, data_ptr := 0, len := int (length bs)\<rparr>))
      | Rx_fail bs retval \<Rightarrow> bindE (buf_write (data pkt) 0 bs) (\<lambda>b.
          Inr (pkt\<lparr>data := b, data_ptr := 0, len := retval\<rparr>)))"

definition udp_snd :: "packet \<Rightarrow> u8 list res" where
  "udp_snd pkt = bindE (copy_pkt pkt) pkt_wire"

text \<open>\<open>recvfrom\<close> cuts a datagram to \<open>BUF_SIZE\<close>. A client reports an error and goes on.\<close>

definition udp_client_rcv :: "rx \<Rightarrow> packet \<Rightarrow> packet res" where
  "udp_client_rcv r pkt =
     (let pkt = clear_pkt pkt in
      case r of
        Rx bs \<Rightarrow> bindE (buf_write (data pkt) 0 (take 1024 bs)) (\<lambda>b.
          Inr (pkt\<lparr>data := b, data_ptr := 0, len := int (length (take 1024 bs))\<rparr>))
      | Rx_fail _ _ \<Rightarrow> Inr (pkt\<lparr>data_ptr := 0, len := -1\<rparr>))"

definition udp_server_rcv :: "rx \<Rightarrow> packet \<Rightarrow> packet res" where
  "udp_server_rcv r pkt =
     (let pkt = clear_pkt pkt in
      case r of
        Rx bs \<Rightarrow> bindE (buf_write (data pkt) 0 (take 1024 bs)) (\<lambda>b.
          Inr (pkt\<lparr>data := b, data_ptr := 0, len := int (length (take 1024 bs))\<rparr>))
      | Rx_fail _ _ \<Rightarrow> Inl (Exit ''Recvfrom error: udpserver_rcv''))"

text \<open>A datagram that leaves: the answer of a server to \<open>src_sock_addr\<close>, or one from a client.\<close>

datatype udp_out =
    Reply sock_addr "u8 list"
  | Forward sock_addr "u8 list"

text \<open>
  The \<open>while (1)\<close> loop of a server thread over the messages it receives, one turn per message; the
  list is a finite prefix of them.
\<close>

fun serve :: "('e \<Rightarrow> 's \<Rightarrow> ('o list \<times> 's) res) \<Rightarrow> 'e list \<Rightarrow> 's \<Rightarrow> ('o list \<times> 's) res" where
  "serve turn [] s = Inr ([], s)"
| "serve turn (e # es) s =
     bindE (turn e s) (\<lambda>(o1, s).
     bindE (serve turn es s) (\<lambda>(o2, s).
     Inr (o1 @ o2, s)))"

subsection \<open>Reading reassembles, writing completes\<close>

fun stream_bytes :: "stream \<Rightarrow> u8 list" where
  "stream_bytes [] = []"
| "stream_bytes (Seg bs # s) = bs @ stream_bytes s"
| "stream_bytes (Read_error # s) = stream_bytes s"

text \<open>No failing read, and no empty segment (TCP delivers none).\<close>

fun good_stream :: "stream \<Rightarrow> bool" where
  "good_stream [] = True"
| "good_stream (Seg bs # s) = (bs \<noteq> [] \<and> good_stream s)"
| "good_stream (Read_error # s) = False"

lemma sys_read_good:
  assumes "good_stream s" and "0 < n" and "stream_bytes s \<noteq> []"
  obtains k s' where "sys_read n s = (int k, take k (stream_bytes s), s')" "0 < k" "k \<le> n"
    "k \<le> length (stream_bytes s)" "stream_bytes s' = drop k (stream_bytes s)" "good_stream s'"
proof -
  from assms obtain bs t where s: "s = Seg bs # t" and "bs \<noteq> []" and "good_stream t"
    by (cases s rule: stream_bytes.cases) auto
  with assms show thesis
    by (cases "length bs \<le> n") (rule that [of "length bs" t], auto intro: that [of n "Seg (drop n bs) # t"])
qed

lemma read_loop_good:
  assumes "good_stream s" and "0 < n" and "n \<le> length (stream_bytes s)" and "p + n \<le> length buf"
  shows "\<exists>s'. read_loop buf (int p) n tot s =
           Inr (tot, take p buf @ take n (stream_bytes s) @ drop (p + n) buf, s') \<and>
         stream_bytes s' = drop n (stream_bytes s) \<and> good_stream s'"
  using assms
proof (induction n arbitrary: buf p s rule: less_induct)
  case (less n)
  then have "stream_bytes s \<noteq> []"
    by auto
  then obtain k s' where r: "sys_read n s = (int k, take k (stream_bytes s), s')" and k: "0 < k" "k \<le> n"
      "k \<le> length (stream_bytes s)" and s': "stream_bytes s' = drop k (stream_bytes s)" "good_stream s'"
    using sys_read_good less.prems by metis
  define buf' where "buf' = take p buf @ take k (stream_bytes s) @ drop (p + k) buf"
  have w: "buf_write buf (int p) (take k (stream_bytes s)) = Inr buf'"
    using less.prems k by (simp add: buf_write_def buf'_def min_absorb2)
  show ?case
  proof (cases "k = n")
    case True
    then show ?thesis
      using r w k s' by (simp add: read_loop.simps [of buf] buf'_def)
  next
    case False
    with k have "n - k < n" and "0 < n - k"
      by auto
    moreover have "n - k \<le> length (stream_bytes s')" and "(p + k) + (n - k) \<le> length buf'"
      using less.prems k s' by (auto simp: buf'_def min_absorb2)
    ultimately obtain s'' where IH: "read_loop buf' (int (p + k)) (n - k) tot s' =
        Inr (tot, take (p + k) buf' @ take (n - k) (stream_bytes s') @ drop (p + k + (n - k)) buf', s'')"
        "stream_bytes s'' = drop (n - k) (stream_bytes s')" "good_stream s''"
      using less.IH [of "n - k" s' "p + k" buf'] s'(2) by blast
    have "take (p + k) buf' = take p buf @ take k (stream_bytes s)"
      using less.prems k by (simp add: buf'_def min_absorb2)
    moreover have "drop (p + k + (n - k)) buf' = drop (p + n) buf"
      using less.prems k by (simp add: buf'_def min_absorb2 add.commute)
    moreover have "take k (stream_bytes s) @ take (n - k) (stream_bytes s') = take n (stream_bytes s)"
      using s' k by (metis le_add_diff_inverse take_add)
    ultimately have "take (p + k) buf' @ take (n - k) (stream_bytes s') @ drop (p + k + (n - k)) buf' =
        take p buf @ take n (stream_bytes s) @ drop (p + n) buf"
      by (metis append.assoc)
    moreover have "stream_bytes s'' = drop n (stream_bytes s)"
      using IH(2) s' k by simp
    ultimately show ?thesis
      using IH r w k False by (simp add: read_loop.simps [of buf])
  qed
qed

text \<open>A length that the stream can serve but the buffer cannot hold runs over the buffer.\<close>

lemma read_loop_overflow:
  assumes "good_stream s" and "n \<le> length (stream_bytes s)" and "length buf < p + n" and "p \<le> length buf"
  shows "read_loop buf (int p) n tot s = Inl (Undefined ''memmove: write out of range'')"
  using assms
proof (induction n arbitrary: buf p s rule: less_induct)
  case (less n)
  then have "0 < n" and "stream_bytes s \<noteq> []"
    by auto
  then obtain k s' where r: "sys_read n s = (int k, take k (stream_bytes s), s')" and k: "0 < k" "k \<le> n"
      "k \<le> length (stream_bytes s)" and s': "stream_bytes s' = drop k (stream_bytes s)" "good_stream s'"
    using sys_read_good less.prems by metis
  show ?case
  proof (cases "p + k \<le> length buf")
    case True
    define buf' where "buf' = take p buf @ take k (stream_bytes s) @ drop (p + k) buf"
    have w: "buf_write buf (int p) (take k (stream_bytes s)) = Inr buf'"
      using True k by (simp add: buf_write_def buf'_def min_absorb2)
    have "k < n" and l: "length buf' = length buf"
      using True less.prems k by (auto simp: buf'_def min_absorb2)
    then have "read_loop buf' (int (p + k)) (n - k) tot s' = Inl (Undefined ''memmove: write out of range'')"
      using less.IH [of "n - k" s' buf' "p + k"] less.prems k s' True by auto
    then show ?thesis
      using r w k \<open>k < n\<close> by (simp add: read_loop.simps [of buf])
  next
    case False
    then have "buf_write buf (int p) (take k (stream_bytes s)) = Inl (Undefined ''memmove: write out of range'')"
      using k by (simp add: buf_write_def min_absorb2)
    then show ?thesis
      using r k by (simp add: read_loop.simps [of buf])
  qed
qed

lemma write_loop_good:
  assumes "\<forall>w \<in> set ws. 0 < w" and "buf \<noteq> []"
  shows "write_loop buf n ws = (n, buf)"
  using assms
proof (induction buf n ws rule: write_loop.induct)
  case (1 buf n ws)
  obtain w ws' where w: "sys_write (length buf) ws = (w, ws')"
    by (cases "sys_write (length buf) ws")
  have wpos: "0 < w" "w \<le> int (length buf)" and ws': "\<forall>w \<in> set ws'. 0 < w"
    using 1(2,3) w by (cases ws; auto)+
  show ?case
  proof (cases "length buf - nat w = 0")
    case True
    then show ?thesis
      using w wpos by (simp add: write_loop.simps [of buf])
  next
    case False
    then have "write_loop (drop (nat w) buf) n ws' = (n, drop (nat w) buf)"
      using "1.IH" [of "(w, ws')" w ws'] w wpos ws' by simp
    then show ?thesis
      using w wpos False by (simp add: write_loop.simps [of buf])
  qed
qed

lemma serve_invariant:
  assumes "\<And>e s o1 s'. I s \<Longrightarrow> turn e s = Inr (o1, s') \<Longrightarrow> I s'"
    and "serve turn es s = Inr (os, s')" and "I s"
  shows "I s'"
  using assms(2,3)
proof (induction es arbitrary: s os)
  case (Cons e es)
  then obtain o1 s1 o2 where "turn e s = Inr (o1, s1)" and "serve turn es s1 = Inr (o2, s')"
    by (auto simp: bindE_eq_Inr)
  with assms(1) Cons show ?case
    by blast
qed simp

subsection \<open>Framing round trip\<close>

definition frame :: "u8 list \<Rightarrow> u8 list" where
  "frame m = le_int (int (length m)) @ m"

lemma write_sctp_pkt_view:
  assumes "0 \<le> fd" and "length a + length r \<le> 1020" and "\<forall>w \<in> set ws. 0 < w"
  shows "write_sctp_pkt fd (view g s d a r) ws =
    Inr (int (length (frame (a @ r))), frame (a @ r))"
proof -
  have "prepend_len (view g s d a r) = Inr (view g s d (le_int (int (length a + length r)) @ a) r)"
    using assms by (simp add: prepend_len_def)
  moreover have "write_loop (frame (a @ r)) (int (length (frame (a @ r)))) ws =
      (int (length (frame (a @ r))), frame (a @ r))"
    using assms(3) by (intro write_loop_good) (auto simp: frame_def)
  ultimately show ?thesis
    using assms view_message [of g s d "le_int (int (length a + length r)) @ a" r]
    by (simp add: write_sctp_pkt_def write_stream_def frame_def add.assoc [symmetric])
qed

lemma data_empty_view [simp]: "data (view g s d [] []) = zeros"
  by (simp add: view_def zeros_def)

lemma read_sctp_header:
  assumes "0 \<le> fd" and "good_stream s" and "stream_bytes s = le_int n @ m"
    and "- (2 ^ 31) \<le> n" and "n < 2 ^ 31"
  obtains s' where "stream_bytes s' = m" "good_stream s'"
    "read_sctp_pkt fd (view g h d a r) s =
       bindE (read_stream fd zeros n s') (\<lambda>(retval, buf, s).
       Inr (retval, view g h d [] []\<lparr>data := buf, data_ptr := 0, len := retval\<rparr>, s))"
proof -
  obtain s' where r: "read_loop zeros 0 4 4 s = Inr (4, le_int n @ drop 4 zeros, s')"
      and s': "stream_bytes s' = m" "good_stream s'"
    using read_loop_good [of s 4 0 zeros 4] assms by auto
  have "read_sctp_pkt fd (view g h d a r) s =
       bindE (read_stream fd zeros n s') (\<lambda>(retval, buf, s).
       Inr (retval, view g h d [] []\<lparr>data := buf, data_ptr := 0, len := retval\<rparr>, s))"
    using assms r by (simp add: read_sctp_pkt_def read_stream_def Let_def buf_read_def)
  with s' show thesis by (rule that)
qed

lemma read_sctp_pkt_frame:
  assumes "0 \<le> fd" and "good_stream s" and "stream_bytes s = frame m @ rest"
    and "m \<noteq> []" and "length m \<le> 1024"
  shows "\<exists>s'. read_sctp_pkt fd (view g h d a r) s = Inr (int (length m), view g h d [] m, s') \<and>
              stream_bytes s' = rest \<and> good_stream s'"
proof -
  obtain s1 where s1: "stream_bytes s1 = m @ rest" "good_stream s1"
    and eq: "read_sctp_pkt fd (view g h d a r) s =
       bindE (read_stream fd zeros (int (length m)) s1) (\<lambda>(retval, buf, s).
       Inr (retval, view g h d [] []\<lparr>data := buf, data_ptr := 0, len := retval\<rparr>, s))"
    using read_sctp_header [of fd s "int (length m)" "m @ rest" g h d a r] assms
    by (auto simp: frame_def)
  obtain s2 where "read_loop zeros 0 (length m) (int (length m)) s1 =
      Inr (int (length m), m @ drop (length m) zeros, s2)"
    and s2: "stream_bytes s2 = rest" "good_stream s2"
    using read_loop_good [of s1 "length m" 0 zeros "int (length m)"] assms s1 by auto
  then have "read_stream fd zeros (int (length m)) s1 =
      Inr (int (length m), m @ replicate (1024 - length m) 0, s2)"
    using assms by (simp add: read_stream_def zeros_def)
  then have "read_sctp_pkt fd (view g h d a r) s = Inr (int (length m), view g h d [] m, s2)"
    using eq assms view_with_data [of m g h d "[]" "[]"] by simp
  with s2 show ?thesis by blast
qed

lemma read_sctp_pkt_overflow:
  assumes "0 \<le> fd" and "good_stream s" and "stream_bytes s = le_int n @ m"
    and "1024 < n" and "n \<le> int (length m)" and "n < 2 ^ 31"
  shows "read_sctp_pkt fd (view g h d a r) s = Inl (Undefined ''memmove: write out of range'')"
proof -
  obtain s1 where s1: "stream_bytes s1 = m" "good_stream s1"
    and eq: "read_sctp_pkt fd (view g h d a r) s =
       bindE (read_stream fd zeros n s1) (\<lambda>(retval, buf, s).
       Inr (retval, view g h d [] []\<lparr>data := buf, data_ptr := 0, len := retval\<rparr>, s))"
    using read_sctp_header [of fd s n m g h d a r] assms by auto
  have "read_loop zeros (int 0) (nat n) n s1 = Inl (Undefined ''memmove: write out of range'')"
    using assms s1 by (intro read_loop_overflow) auto
  then show ?thesis
    using assms eq by (simp add: read_stream_def)
qed

subsection \<open>Messages on views\<close>

lemma sctp_snd_view [simp, pkt_simps]:
  "length a + length r \<le> 1020 \<Longrightarrow> sctp_snd (view g s d a r) = Inr (a @ r)"
  by (simp add: sctp_snd_def prepend_len_def)

lemma udp_snd_view [simp, pkt_simps]:
  "length a + length r \<le> 1024 \<Longrightarrow> udp_snd (view g s d a r) = Inr (a @ r)"
  by (simp add: udp_snd_def)

lemma sctp_deliver_view [simp, pkt_simps]:
  "length bs \<le> 1024 \<Longrightarrow> sctp_deliver (Rx bs) p = Inr (view (gtp_hdr p) (s1ap_hdr p) (diameter_hdr p) [] bs)"
  by (simp add: sctp_deliver_def Let_def buf_write_zeros view_with_data [of bs _ _ _ "[]" "[]"])

lemma sctp_deliver_eof [simp, pkt_simps]:
  "sctp_deliver (Rx_fail [] 0) p = Inr (view (gtp_hdr p) (s1ap_hdr p) (diameter_hdr p) [] [])"
  using buf_write_zeros [of "[]"] view_with_data [of "[]" _ _ _ "[]" "[]"]
  by (simp add: sctp_deliver_def Let_def)

lemma udp_client_rcv_view [simp, pkt_simps]:
  "length bs \<le> 1024 \<Longrightarrow> udp_client_rcv (Rx bs) p = Inr (view (gtp_hdr p) (s1ap_hdr p) (diameter_hdr p) [] bs)"
  by (simp add: udp_client_rcv_def Let_def buf_write_zeros view_with_data [of bs _ _ _ "[]" "[]"])

lemma udp_server_rcv_view [simp, pkt_simps]:
  "length bs \<le> 1024 \<Longrightarrow> udp_server_rcv (Rx bs) p = Inr (view (gtp_hdr p) (s1ap_hdr p) (diameter_hdr p) [] bs)"
  by (simp add: udp_server_rcv_def Let_def buf_write_zeros view_with_data [of bs _ _ _ "[]" "[]"])

text \<open>\<open>sctp_snd\<close> followed by \<open>sctp_deliver\<close> is what the framed stream does.\<close>

lemma stream_refines_messages:
  assumes "0 \<le> fd" and "length (a @ r) \<le> 1020" and "a @ r \<noteq> []" and "\<forall>w \<in> set ws. 0 < w"
    and "write_sctp_pkt fd (view g s d a r) ws = Inr (n, wire)"
    and "good_stream t" and "stream_bytes t = wire @ rest"
  shows "\<exists>m q t'. sctp_snd (view g s d a r) = Inr m \<and> sctp_deliver (Rx m) p = Inr q \<and>
    read_sctp_pkt fd (clear_pkt p) t = Inr (int (length m), q, t') \<and> stream_bytes t' = rest"
  using assms read_sctp_pkt_frame [of fd t "a @ r" rest "gtp_hdr p" "s1ap_hdr p" "diameter_hdr p" "[]" "[]"]
  by (auto simp: write_sctp_pkt_view)

end
