(* ===== verification/Epc_Hss.thy ===== *)
theory Epc_Hss
  imports Epc_Telecom Epc_Network
begin

section \<open>Home Subscriber Server (hss.cpp, hss_server.cpp, mysql.cpp)\<close>

text \<open>
  The HSS answers two Diameter requests of the MME from a MySQL database. MySQL is outside the
  repository: \<open>Q query db\<close> runs a query on a database of any type and gives the rows of the result
  and the new database, or \<open>None\<close> when \<open>mysql_query\<close> fails, and every definition takes it as an
  argument. \<open>hss_db_ok Q imsi key rand db\<close> says what the authentication query is documented to
  return for a provisioned subscriber. \<open>hss_handle_mme\<close> is one turn of a worker: receive, dispatch
  on the message type, reply. A local \<open>Packet\<close> starts with indeterminate headers, the argument
  \<open>fresh\<close>.
\<close>

type_synonym 'db mysql = "string \<Rightarrow> 'db \<Rightarrow> (string list list \<times> 'db) option"

type_synonym fresh_hdrs = "gtp \<times> s1ap \<times> diameter"

definition local_packet :: "fresh_hdrs \<Rightarrow> packet res" where
  "local_packet fresh = (case fresh of (g, s, d) \<Rightarrow> new_packet g s d)"

definition mysql_handle_query :: "'db mysql \<Rightarrow> string \<Rightarrow> 'db \<Rightarrow> (string list list \<times> 'db) res" where
  "mysql_handle_query Q query db =
     (case Q query db of
        None \<Rightarrow> Inl (Exit ''mysql error: mysql_handledberror'')
      | Some r \<Rightarrow> Inr r)"

subsection \<open>Authentication information\<close>

text \<open>The loop over the fields of the row: field 0 is the key, every later one the random number.\<close>

fun autn_fields :: "nat \<Rightarrow> string list \<Rightarrow> u64 \<times> u64 \<Rightarrow> (u64 \<times> u64) res" where
  "autn_fields i [] kr = Inr kr"
| "autn_fields i (f # fs) (key, rand_num) =
     bindE (stoull f) (\<lambda>v.
     autn_fields (Suc i) fs (if i = 0 then (v, rand_num) else (key, v)))"

definition hss_get_autn_info :: "'db mysql \<Rightarrow> u64 \<Rightarrow> u64 \<times> u64 \<Rightarrow> 'db \<Rightarrow> ((u64 \<times> u64) \<times> 'db) res" where
  "hss_get_autn_info Q imsi kr db =
     bindE (mysql_handle_query Q
       (''select key_id, rand_num from autn_info where imsi = '' @ to_string (unat imsi)) db) (\<lambda>(rows, db).
     case rows of
       [] \<Rightarrow> Inl (Exit ''mysql_fetch_row error: hss_getautninfo'')
     | row # _ \<Rightarrow> bindE (autn_fields 0 row kr) (\<lambda>kr. Inr (kr, db)))"

text \<open>The key material derived from a subscriber key: \<open>(autn_num, xres, k_asme)\<close>.\<close>

definition autn_vector :: "u64 \<Rightarrow> u64 \<Rightarrow> u16 \<Rightarrow> u64 \<times> u64 \<times> u64" where
  "autn_vector key rand_num plmn_id =
     (let sqn = rand_num + 1;
          xres = key + sqn + rand_num;
          autn_num = xres + 1;
          ck = xres + 2;
          ik = xres + 3;
          k_asme = ck + ik + sqn + ucast plmn_id
      in (autn_num, xres, k_asme))"

text \<open>\<open>kr\<close> is the indeterminate content of the locals \<open>key\<close> and \<open>rand_num\<close>.\<close>

definition hss_handle_autninfo_req ::
  "'db mysql \<Rightarrow> u64 \<times> u64 \<Rightarrow> packet \<Rightarrow> 'db \<Rightarrow> (u8 list \<times> 'db) res" where
  "hss_handle_autninfo_req Q kr pkt db =
     bindE (extract_u64 pkt) (\<lambda>(imsi, pkt).
     bindE (extract_u16 pkt) (\<lambda>(plmn_id, pkt).
     bindE (extract_u64 pkt) (\<lambda>(num_autn_vectors, pkt).
     bindE (extract_u16 pkt) (\<lambda>(nw_type, pkt).
     bindE (hss_get_autn_info Q imsi kr db) (\<lambda>((key, rand_num), db).
     let (autn_num, xres, k_asme) = autn_vector key rand_num plmn_id; pkt = clear_pkt pkt in
     bindE (append_u64 autn_num pkt) (\<lambda>pkt.
     bindE (append_u64 rand_num pkt) (\<lambda>pkt.
     bindE (append_u64 xres pkt) (\<lambda>pkt.
     bindE (append_u64 k_asme pkt) (\<lambda>pkt.
     bindE (prepend_diameter_hdr 1 (len16 pkt) pkt) (\<lambda>pkt.
     bindE (sctp_snd pkt) (\<lambda>m. Inr (m, db))))))))))))"

subsection \<open>Location update\<close>

definition hss_set_loc_info :: "'db mysql \<Rightarrow> u64 \<Rightarrow> u32 \<Rightarrow> 'db \<Rightarrow> 'db res" where
  "hss_set_loc_info Q imsi mmei db =
     bindE (mysql_handle_query Q
       (''delete from loc_info where imsi = '' @ to_string (unat imsi)) db) (\<lambda>(_, db).
     bindE (mysql_handle_query Q
       (''insert into loc_info values('' @ to_string (unat imsi) @ '', '' @ to_string (unat mmei) @ '')'') db)
       (\<lambda>(_, db). Inr db))"

definition hss_handle_location_update :: "'db mysql \<Rightarrow> packet \<Rightarrow> 'db \<Rightarrow> (u8 list \<times> 'db) res" where
  "hss_handle_location_update Q pkt db =
     bindE (extract_u64 pkt) (\<lambda>(imsi, pkt).
     bindE (extract_u32 pkt) (\<lambda>(mmei, pkt).
     bindE (hss_set_loc_info Q imsi mmei db) (\<lambda>db.
     bindE (append_u64 1 (clear_pkt pkt)) (\<lambda>pkt.
     bindE (prepend_diameter_hdr 2 (len16 pkt) pkt) (\<lambda>pkt.
     bindE (sctp_snd pkt) (\<lambda>m. Inr (m, db)))))))"

subsection \<open>The worker\<close>

text \<open>\<open>int handle_mme(int conn_fd, int worker_id)\<close>: the status, the reply if any, the database.\<close>

definition hss_handle_mme ::
  "'db mysql \<Rightarrow> fresh_hdrs \<Rightarrow> u64 \<times> u64 \<Rightarrow> rx \<Rightarrow> 'db \<Rightarrow> (int \<times> u8 list option \<times> 'db) res" where
  "hss_handle_mme Q fresh kr r db =
     bindE (local_packet fresh) (\<lambda>pkt.
     bindE (sctp_deliver r pkt) (\<lambda>pkt.
     if len pkt \<le> 0 then Inr (0, None, db)
     else bindE (extract_diameter_hdr pkt) (\<lambda>pkt.
       if msg_type_d (diameter_hdr pkt) = 1 then
         bindE (hss_handle_autninfo_req Q kr pkt db) (\<lambda>(m, db). Inr (1, Some m, db))
       else if msg_type_d (diameter_hdr pkt) = 2 then
         bindE (hss_handle_location_update Q pkt db) (\<lambda>(m, db). Inr (1, Some m, db))
       else Inr (1, None, db))))"

subsection \<open>What a provisioned subscriber gets\<close>

definition hss_db_ok :: "'db mysql \<Rightarrow> u64 \<Rightarrow> u64 \<Rightarrow> u64 \<Rightarrow> 'db \<Rightarrow> bool" where
  "hss_db_ok Q imsi key rand_num db \<longleftrightarrow>
     (\<exists>rows. Q (''select key_id, rand_num from autn_info where imsi = '' @ to_string (unat imsi)) db =
       Some ([to_string (unat key), to_string (unat rand_num)] # rows, db))"

lemma unat_u64_less: "unat (w :: u64) < 2 ^ 64"
  using unsigned_less [where w = w and 'a = nat] by simp

lemma stoull_u64 [simp]: "stoull (to_string (unat (w :: u64))) = Inr w"
  using stoull_to_string [OF unat_u64_less [of w]] by simp

lemma hss_get_autn_info_ok:
  "hss_db_ok Q imsi key rand_num db \<Longrightarrow>
   hss_get_autn_info Q imsi kr db = Inr ((key, rand_num), db)"
  by (cases kr) (auto simp: hss_db_ok_def hss_get_autn_info_def mysql_handle_query_def)

lemma hss_get_autn_info_unknown:
  "Q (''select key_id, rand_num from autn_info where imsi = '' @ to_string (unat imsi)) db = Some ([], db) \<Longrightarrow>
   hss_get_autn_info Q imsi kr db = Inl (Exit ''mysql_fetch_row error: hss_getautninfo'')"
  by (simp add: hss_get_autn_info_def mysql_handle_query_def)

text \<open>The request the MME sends and the reply it gets, as bytes.\<close>

definition autn_req_bytes :: "diameter \<Rightarrow> u64 \<Rightarrow> u16 \<Rightarrow> u64 \<Rightarrow> u16 \<Rightarrow> u8 list" where
  "autn_req_bytes h imsi plmn_id n nw_type =
     diameter_bytes h @ le_word 8 imsi @ le_word 2 plmn_id @ le_word 8 n @ le_word 2 nw_type"

definition autn_rsp_bytes :: "diameter \<Rightarrow> u64 \<Rightarrow> u64 \<Rightarrow> u64 \<Rightarrow> u64 \<Rightarrow> u8 list" where
  "autn_rsp_bytes h autn_num rand_num xres k_asme =
     diameter_bytes h @ le_word 8 autn_num @ le_word 8 rand_num @ le_word 8 xres @ le_word 8 k_asme"

lemma hss_autn_reply:
  assumes "hss_db_ok Q imsi key rand_num db" and "msg_type_d h = 1"
  shows "hss_handle_mme Q fresh kr (Rx (autn_req_bytes h imsi plmn_id n nw_type)) db =
    (case autn_vector key rand_num plmn_id of (autn_num, xres, k_asme) \<Rightarrow>
       Inr (1, Some (autn_rsp_bytes (diameter_init 1 32 h) autn_num rand_num xres k_asme), db))"
  using assms hss_get_autn_info_ok [OF assms(1), of kr]
  by (cases fresh)
    (simp add: hss_handle_mme_def local_packet_def autn_req_bytes_def autn_rsp_bytes_def
      hss_handle_autninfo_req_def item_ext_view item_app_view autn_vector_def Let_def)

lemma hss_unknown_subscriber_exits:
  assumes "Q (''select key_id, rand_num from autn_info where imsi = '' @ to_string (unat imsi)) db = Some ([], db)"
    and "msg_type_d h = 1"
  shows "hss_handle_mme Q fresh kr (Rx (autn_req_bytes h imsi plmn_id n nw_type)) db =
    Inl (Exit ''mysql_fetch_row error: hss_getautninfo'')"
  using assms hss_get_autn_info_unknown [of Q imsi db kr]
  by (cases fresh)
    (simp add: hss_handle_mme_def local_packet_def autn_req_bytes_def
      hss_handle_autninfo_req_def item_ext_view)

end
