(* ===== verification/Epc_Mme.thy ===== *)
theory Epc_Mme
  imports Epc_Telecom Epc_Security Epc_Network Epc_Hss
begin

section \<open>Mobility Management Entity (mme.h, mme.cpp)\<close>

text \<open>
  Class \<open>Mme\<close>: the counter \<open>ue_count\<close> that allocates MME S1AP ids, the table \<open>s1mme_id\<close> from such
  an id to a GUTI, the table \<open>ue_ctx\<close> from a GUTI to a \<open>UeContext\<close>, and the identifiers of the MME.
  Each handler takes the packet it is called with, executes the whole body and gives the new
  state. A remote procedure call (\<open>snd\<close> then \<open>rcv\<close> on a client socket) goes to a \<open>peer\<close>: a
  function from the message and the state \<open>w\<close> of the world outside to an outcome and a new world.
  Messages that leave without an answer are the \<open>out\<close> list. The mutexes make each table access
  atomic; a handler runs here as one step between its calls.

  \<open>ue_ctx[guti]\<close> inserts a fresh context for an absent key, on reads as well. The constructor does
  not initialise \<open>k_enodeb\<close>; it is 0 here, and no handler reads it before writing it.
\<close>

subsection \<open>State\<close>

record mme_ue =
  emm_state_m :: int
  ecm_state_m :: int
  imsi_m :: u64
  ip_addr_m :: string
  enodeb_s1ap_ue_id_m :: u32
  mme_s1ap_ue_id_m :: u32
  tai_m :: u64
  tai_list_m :: "u64 list"
  tau_timer_m :: u64
  ksi_asme_m :: u64
  k_asme_m :: u64
  k_enodeb_m :: u64
  k_nas_enc_m :: u64
  k_nas_int_m :: u64
  nas_enc_algo_m :: u64
  nas_int_algo_m :: u64
  count_m :: u64
  bearer_m :: u64
  dir_m :: u64
  default_apn_m :: u64
  apn_in_use_m :: u64
  eps_bearer_id_m :: u8
  e_rab_id_m :: u8
  s1_uteid_ul_m :: u32
  s1_uteid_dl_m :: u32
  s5_uteid_ul_m :: u32
  s5_uteid_dl_m :: u32
  xres_m :: u64
  nw_type_m :: u16
  nw_capability_m :: u16
  pgw_s5_ip_addr_m :: string
  pgw_s5_port_m :: int
  s11_cteid_mme_m :: u32
  s11_cteid_sgw_m :: u32

definition new_mme_ue :: mme_ue where
  "new_mme_ue =
     \<lparr>emm_state_m = 0, ecm_state_m = 0, imsi_m = 0, ip_addr_m = '''', enodeb_s1ap_ue_id_m = 0,
      mme_s1ap_ue_id_m = 0, tai_m = 0, tai_list_m = [], tau_timer_m = 0, ksi_asme_m = 0,
      k_asme_m = 0, k_enodeb_m = 0, k_nas_enc_m = 0, k_nas_int_m = 0, nas_enc_algo_m = 0,
      nas_int_algo_m = 0, count_m = 1, bearer_m = 0, dir_m = 1, default_apn_m = 0,
      apn_in_use_m = 0, eps_bearer_id_m = 0, e_rab_id_m = 0, s1_uteid_ul_m = 0,
      s1_uteid_dl_m = 0, s5_uteid_ul_m = 0, s5_uteid_dl_m = 0, xres_m = 0, nw_type_m = 0,
      nw_capability_m = 0, pgw_s5_ip_addr_m = '''', pgw_s5_port_m = 0, s11_cteid_mme_m = 0,
      s11_cteid_sgw_m = 0\<rparr>"

definition mme_ue_init :: "u64 \<Rightarrow> u32 \<Rightarrow> u32 \<Rightarrow> u64 \<Rightarrow> u16 \<Rightarrow> mme_ue \<Rightarrow> mme_ue" where
  "mme_ue_init imsi enb mme_id tai nw_capability c =
     c\<lparr>imsi_m := imsi, enodeb_s1ap_ue_id_m := enb, mme_s1ap_ue_id_m := mme_id, tai_m := tai,
       nw_capability_m := nw_capability\<rparr>"

record mme_ids =
  mcc :: u16
  mnc :: u16
  plmn_id :: u16
  mmegi :: u16
  mmec :: u8
  mmei :: u32
  gummei :: u64

definition new_mme_ids :: "mme_ids res" where
  "new_mme_ids =
     bindE (get_plmn_id 1 1) (\<lambda>plmn.
     bindE (get_mmei 1 1) (\<lambda>mmei.
     bindE (get_gummei plmn mmei) (\<lambda>gummei.
     Inr \<lparr>mcc = 1, mnc = 1, plmn_id = plmn, mmegi = 1, mmec = 1, mmei = mmei, gummei = gummei\<rparr>)))"

record mme =
  mme_ids_of :: mme_ids
  ue_count :: u64
  s1mme_id :: "u32 \<rightharpoonup> u64"
  ue_ctx_m :: "u64 \<rightharpoonup> mme_ue"

definition new_mme :: "mme res" where
  "new_mme =
     bindE new_mme_ids (\<lambda>ids.
     Inr \<lparr>mme_ids_of = ids, ue_count = 0, s1mme_id = Map.empty, ue_ctx_m = Map.empty\<rparr>)"

text \<open>\<open>ue_ctx[guti]\<close>: the context read, the table after a read, the table after a write.\<close>

definition ue_at :: "u64 \<Rightarrow> mme \<Rightarrow> mme_ue" where
  "ue_at guti m = at_or new_mme_ue (ue_ctx_m m) guti"

definition touch_ue :: "u64 \<Rightarrow> mme \<Rightarrow> mme" where
  "touch_ue guti m = m\<lparr>ue_ctx_m := op_idx new_mme_ue (ue_ctx_m m) guti\<rparr>"

definition upd_ue :: "u64 \<Rightarrow> (mme_ue \<Rightarrow> mme_ue) \<Rightarrow> mme \<Rightarrow> mme" where
  "upd_ue guti f m = m\<lparr>ue_ctx_m := modify_at new_mme_ue (ue_ctx_m m) guti f\<rparr>"

subsection \<open>Auxiliary operations\<close>

definition get_s11cteidmme :: "u64 \<Rightarrow> u32 res" where
  "get_s11cteidmme guti =
     bindE (substr_from 7 (to_string (unat guti))) (\<lambda>tem.
     bindE (stoull tem) (\<lambda>v. Inr (ucast v)))"

definition set_crypt_context :: "u64 \<Rightarrow> mme \<Rightarrow> mme" where
  "set_crypt_context guti =
     upd_ue guti (\<lambda>c. let c = c\<lparr>nas_enc_algo_m := 1\<rparr> in
       c\<lparr>k_nas_enc_m := k_asme_m c + nas_enc_algo_m c + count_m c + bearer_m c + dir_m c\<rparr>)"

definition set_integrity_context :: "u64 \<Rightarrow> mme \<Rightarrow> mme" where
  "set_integrity_context guti =
     upd_ue guti (\<lambda>c. let c = c\<lparr>nas_int_algo_m := 1\<rparr> in
       c\<lparr>k_nas_int_m := k_asme_m c + nas_int_algo_m c + count_m c + bearer_m c + dir_m c\<rparr>)"

definition set_pgw_info :: "u64 \<Rightarrow> mme \<Rightarrow> mme" where
  "set_pgw_info guti =
     upd_ue guti (\<lambda>c. c\<lparr>pgw_s5_port_m := g_pgw_s5_port, pgw_s5_ip_addr_m := g_pgw_s5_ip_addr\<rparr>)"

definition mme_get_guti :: "packet \<Rightarrow> mme \<Rightarrow> u64" where
  "mme_get_guti pkt m =
     (case s1mme_id m (mme_s1ap_ue_id (s1ap_hdr pkt)) of None \<Rightarrow> 0 | Some guti \<Rightarrow> guti)"

definition rem_itfid_m :: "u32 \<Rightarrow> mme \<Rightarrow> mme" where
  "rem_itfid_m mme_id m = m\<lparr>s1mme_id := (s1mme_id m)(mme_id := None)\<rparr>"

definition rem_uectx_m :: "u64 \<Rightarrow> mme \<Rightarrow> mme" where
  "rem_uectx_m guti m = m\<lparr>ue_ctx_m := (ue_ctx_m m)(guti := None)\<rparr>"

text \<open>The guard that most handlers start with.\<close>

definition guti_or_exit :: "string \<Rightarrow> packet \<Rightarrow> mme \<Rightarrow> u64 res" where
  "guti_or_exit who pkt m =
     (let guti = mme_get_guti pkt m
      in if guti = 0 then Inl (Exit (''Zero guti: '' @ who)) else Inr guti)"

type_synonym 'w peer = "u8 list \<Rightarrow> 'w \<Rightarrow> rx \<times> 'w"

datatype out =
    Snd_conn int "u8 list"
  | Snd_ran sock_addr "u8 list"

end
