(* ===== verification/Epc_Mme_Handlers.thy ===== *)
theory Epc_Mme_Handlers
  imports Epc_Mme
begin

section \<open>Handlers of the MME (mme.cpp)\<close>

text \<open>
  One definition per handler, in the order of \<open>mme.cpp\<close>: the attach sequence (initial attach,
  authentication, security mode, location update, session creation, attach complete, bearer
  modification), the handover sequence and detach. The \<open>vars\<close> a handler reads from a context under
  the lock are read here in the same place, so a context created by \<open>operator[]\<close> appears in the
  same state.
\<close>

subsection \<open>Attach\<close>

definition mme_handle_initial_attach ::
  "'w peer \<Rightarrow> int \<Rightarrow> packet \<Rightarrow> mme \<Rightarrow> 'w \<Rightarrow> (out list \<times> mme \<times> 'w) res" where
  "mme_handle_initial_attach hss conn_fd pkt m w =
     bindE (extract_u64 pkt) (\<lambda>(imsi, pkt).
     bindE (extract_u64 pkt) (\<lambda>(tai, pkt).
     bindE (extract_u64 pkt) (\<lambda>(ksi_asme, pkt).
     bindE (extract_u16 pkt) (\<lambda>(nw_capability, pkt).
     let enb = enodeb_s1ap_ue_id (s1ap_hdr pkt) in
     bindE (get_guti (gummei (mme_ids_of m)) imsi) (\<lambda>guti.
     let m = m\<lparr>ue_count := ue_count m + 1\<rparr>;
         mme_id = ucast (ue_count m);
         m = m\<lparr>s1mme_id := (s1mme_id m)(mme_id \<mapsto> guti)\<rparr>;
         m = upd_ue guti (mme_ue_init imsi enb mme_id tai nw_capability) m;
         nw_type = nw_type_m (ue_at guti m) in
     bindE (append_u64 imsi (clear_pkt pkt)) (\<lambda>pkt.
     bindE (append_u16 (plmn_id (mme_ids_of m)) pkt) (\<lambda>pkt.
     bindE (append_u64 1 pkt) (\<lambda>pkt.
     bindE (append_u16 nw_type pkt) (\<lambda>pkt.
     bindE (prepend_diameter_hdr 1 (len16 pkt) pkt) (\<lambda>pkt.
     bindE (sctp_snd pkt) (\<lambda>req.
     let (r, w) = hss req w in
     bindE (sctp_deliver r pkt) (\<lambda>pkt.
     bindE (extract_diameter_hdr pkt) (\<lambda>pkt.
     bindE (extract_u64 pkt) (\<lambda>(autn_num, pkt).
     bindE (extract_u64 pkt) (\<lambda>(rand_num, pkt).
     bindE (extract_u64 pkt) (\<lambda>(xres, pkt).
     bindE (extract_u64 pkt) (\<lambda>(k_asme, pkt).
     let m = upd_ue guti (\<lambda>c. c\<lparr>xres_m := xres, k_asme_m := k_asme, ksi_asme_m := 1\<rparr>) m;
         ksi_asme = ksi_asme_m (ue_at guti m) in
     bindE (append_u64 autn_num (clear_pkt pkt)) (\<lambda>pkt.
     bindE (append_u64 rand_num pkt) (\<lambda>pkt.
     bindE (append_u64 ksi_asme pkt) (\<lambda>pkt.
     bindE (prepend_s1ap_hdr 1 (len16 pkt) enb mme_id pkt) (\<lambda>pkt.
     bindE (sctp_snd pkt) (\<lambda>msg.
     Inr ([Snd_conn conn_fd msg], m, w)))))))))))))))))))))))"

definition mme_handle_autn :: "packet \<Rightarrow> mme \<Rightarrow> (bool \<times> mme) res" where
  "mme_handle_autn pkt m =
     bindE (guti_or_exit ''mme_handleautn'' pkt m) (\<lambda>guti.
     bindE (extract_u64 pkt) (\<lambda>(res, pkt).
     let xres = xres_m (ue_at guti m); m = touch_ue guti m in
     if res = xres then Inr (True, m)
     else Inr (False, rem_uectx_m guti (rem_itfid_m (mme_s1ap_ue_id (s1ap_hdr pkt)) m))))"

definition mme_handle_security_mode_cmd ::
  "ext_lib \<Rightarrow> int \<Rightarrow> packet \<Rightarrow> mme \<Rightarrow> (out list \<times> mme) res" where
  "mme_handle_security_mode_cmd X conn_fd pkt m =
     bindE (guti_or_exit ''mme_handlesecuritymodecmd'' pkt m) (\<lambda>guti.
     let m = set_integrity_context guti (set_crypt_context guti m); c = ue_at guti m in
     bindE (append_u64 (ksi_asme_m c) (clear_pkt pkt)) (\<lambda>pkt.
     bindE (append_u16 (nw_capability_m c) pkt) (\<lambda>pkt.
     bindE (append_u64 (nas_enc_algo_m c) pkt) (\<lambda>pkt.
     bindE (append_u64 (nas_int_algo_m c) pkt) (\<lambda>pkt.
     bindE (add_hmac X (k_nas_int_m c) pkt) (\<lambda>pkt.
     bindE (prepend_s1ap_hdr 2 (len16 pkt) (enodeb_s1ap_ue_id (s1ap_hdr pkt))
       (mme_s1ap_ue_id (s1ap_hdr pkt)) pkt) (\<lambda>pkt.
     bindE (sctp_snd pkt) (\<lambda>msg.
     Inr ([Snd_conn conn_fd msg], m)))))))))"

text \<open>Check the MAC, exit when it is wrong, decrypt: the start of the protected handlers.\<close>

definition open_or_exit :: "ext_lib \<Rightarrow> string \<Rightarrow> u64 \<Rightarrow> u64 \<Rightarrow> packet \<Rightarrow> packet res" where
  "open_or_exit X who k_nas_enc k_nas_int pkt =
     bindE (hmac_check X k_nas_int pkt) (\<lambda>(res, pkt).
     if \<not> res then Inl (Exit (''hmac failure: '' @ who)) else crypt_dec X k_nas_enc pkt)"

definition mme_handle_security_mode_complete :: "ext_lib \<Rightarrow> packet \<Rightarrow> mme \<Rightarrow> (bool \<times> mme) res" where
  "mme_handle_security_mode_complete X pkt m =
     bindE (guti_or_exit ''mme_handlesecuritymodecomplete'' pkt m) (\<lambda>guti.
     let c = ue_at guti m; m = touch_ue guti m in
     bindE (open_or_exit X ''mme_handlesecuritymodecomplete'' (k_nas_enc_m c) (k_nas_int_m c) pkt) (\<lambda>pkt.
     bindE (extract_bool pkt) (\<lambda>(res, pkt).
     Inr (res, m))))"

definition mme_handle_location_update :: "'w peer \<Rightarrow> packet \<Rightarrow> mme \<Rightarrow> 'w \<Rightarrow> (mme \<times> 'w) res" where
  "mme_handle_location_update hss pkt m w =
     bindE (guti_or_exit ''mme_handlelocationupdate'' pkt m) (\<lambda>guti.
     let imsi = imsi_m (ue_at guti m); m = touch_ue guti m in
     bindE (append_u64 imsi (clear_pkt pkt)) (\<lambda>pkt.
     bindE (append_u32 (mmei (mme_ids_of m)) pkt) (\<lambda>pkt.
     bindE (prepend_diameter_hdr 2 (len16 pkt) pkt) (\<lambda>pkt.
     bindE (sctp_snd pkt) (\<lambda>req.
     let (r, w) = hss req w in
     bindE (sctp_deliver r pkt) (\<lambda>pkt.
     bindE (extract_diameter_hdr pkt) (\<lambda>pkt.
     bindE (extract_u64 pkt) (\<lambda>(default_apn, pkt).
     Inr (upd_ue guti (\<lambda>c. c\<lparr>default_apn_m := default_apn, apn_in_use_m := default_apn\<rparr>) m, w)))))))))"

definition mme_handle_create_session ::
  "ext_lib \<Rightarrow> 'w peer \<Rightarrow> int \<Rightarrow> packet \<Rightarrow> mme \<Rightarrow> 'w \<Rightarrow> (out list \<times> mme \<times> 'w) res" where
  "mme_handle_create_session X sgw conn_fd pkt m w =
     bindE (guti_or_exit ''mme_handlecreatesession'' pkt m) (\<lambda>guti.
     let m = set_pgw_info guti m in
     bindE (get_s11cteidmme guti) (\<lambda>s11.
     let m = upd_ue guti (\<lambda>c. c\<lparr>s11_cteid_mme_m := s11, eps_bearer_id_m := 5\<rparr>) m;
         c = ue_at guti m in
     bindE (append_u32 (s11_cteid_mme_m c) (clear_pkt pkt)) (\<lambda>pkt.
     bindE (append_u64 (imsi_m c) pkt) (\<lambda>pkt.
     bindE (append_u8 (eps_bearer_id_m c) pkt) (\<lambda>pkt.
     bindE (append_string (pgw_s5_ip_addr_m c) pkt) (\<lambda>pkt.
     bindE (append_int (pgw_s5_port_m c) pkt) (\<lambda>pkt.
     bindE (append_u64 (apn_in_use_m c) pkt) (\<lambda>pkt.
     bindE (append_u64 (tai_m c) pkt) (\<lambda>pkt.
     bindE (prepend_gtp_hdr 2 1 (len16 pkt) 0 pkt) (\<lambda>pkt.
     bindE (udp_snd pkt) (\<lambda>req.
     let (r, w) = sgw req w in
     bindE (udp_client_rcv r pkt) (\<lambda>pkt.
     bindE (extract_gtp_hdr pkt) (\<lambda>pkt.
     bindE (extract_u32 pkt) (\<lambda>(s11_sgw, pkt).
     bindE (extract_string pkt) (\<lambda>(ue_ip_addr, pkt).
     bindE (extract_u32 pkt) (\<lambda>(s1_ul, pkt).
     bindE (extract_u32 pkt) (\<lambda>(s5_ul, pkt).
     bindE (extract_u32 pkt) (\<lambda>(s5_dl, pkt).
     let m = upd_ue guti (\<lambda>c. c\<lparr>ip_addr_m := ue_ip_addr, s11_cteid_sgw_m := s11_sgw,
               s1_uteid_ul_m := s1_ul, s5_uteid_ul_m := s5_ul, s5_uteid_dl_m := s5_dl,
               tai_list_m := [tai_m c], tau_timer_m := g_timer,
               e_rab_id_m := eps_bearer_id_m c, k_enodeb_m := k_asme_m c\<rparr>) m;
         c = ue_at guti m in
     bindE (append_u64 guti (clear_pkt pkt)) (\<lambda>pkt.
     bindE (append_u8 (eps_bearer_id_m c) pkt) (\<lambda>pkt.
     bindE (append_u8 (e_rab_id_m c) pkt) (\<lambda>pkt.
     bindE (append_u32 s1_ul pkt) (\<lambda>pkt.
     bindE (append_u64 (k_enodeb_m c) pkt) (\<lambda>pkt.
     bindE (append_u16 (nw_capability_m c) pkt) (\<lambda>pkt.
     bindE (append_int 1 pkt) (\<lambda>pkt.
     bindE (append_u64s (tai_list_m c) pkt) (\<lambda>pkt.
     bindE (append_u64 (tau_timer_m c) pkt) (\<lambda>pkt.
     bindE (append_string ue_ip_addr pkt) (\<lambda>pkt.
     bindE (append_string g_sgw_s1_ip_addr pkt) (\<lambda>pkt.
     bindE (append_int g_sgw_s1_port pkt) (\<lambda>pkt.
     bindE (append_bool True pkt) (\<lambda>pkt.
     bindE (crypt_enc X (k_nas_enc_m c) pkt) (\<lambda>pkt.
     bindE (add_hmac X (k_nas_int_m c) pkt) (\<lambda>pkt.
     bindE (prepend_s1ap_hdr 3 (len16 pkt) (enodeb_s1ap_ue_id (s1ap_hdr pkt))
       (mme_s1ap_ue_id (s1ap_hdr pkt)) pkt) (\<lambda>pkt.
     bindE (sctp_snd pkt) (\<lambda>msg.
     Inr ([Snd_conn conn_fd msg], m, w))))))))))))))))))))))))))))))))))))"

definition mme_handle_attach_complete :: "ext_lib \<Rightarrow> packet \<Rightarrow> mme \<Rightarrow> mme res" where
  "mme_handle_attach_complete X pkt m =
     bindE (guti_or_exit ''mme_handleattachcomplete'' pkt m) (\<lambda>guti.
     let c = ue_at guti m; m = touch_ue guti m in
     bindE (open_or_exit X ''mme_handleattachcomplete'' (k_nas_enc_m c) (k_nas_int_m c) pkt) (\<lambda>pkt.
     bindE (extract_u8 pkt) (\<lambda>(eps_bearer_id, pkt).
     bindE (extract_u32 pkt) (\<lambda>(s1_uteid_dl, pkt).
     Inr (upd_ue guti (\<lambda>c. c\<lparr>s1_uteid_dl_m := s1_uteid_dl, emm_state_m := 1\<rparr>) m)))))"

definition mme_handle_modify_bearer :: "'w peer \<Rightarrow> packet \<Rightarrow> mme \<Rightarrow> 'w \<Rightarrow> (mme \<times> 'w) res" where
  "mme_handle_modify_bearer sgw pkt m w =
     bindE (guti_or_exit ''mme_handlemodifybearer'' pkt m) (\<lambda>guti.
     let c = ue_at guti m; m = touch_ue guti m in
     bindE (append_u8 (eps_bearer_id_m c) (clear_pkt pkt)) (\<lambda>pkt.
     bindE (append_u32 (s1_uteid_dl_m c) pkt) (\<lambda>pkt.
     bindE (append_string g_trafmon_ip_addr pkt) (\<lambda>pkt.
     bindE (append_int g_trafmon_port pkt) (\<lambda>pkt.
     bindE (prepend_gtp_hdr 2 2 (len16 pkt) (s11_cteid_sgw_m c) pkt) (\<lambda>pkt.
     bindE (udp_snd pkt) (\<lambda>req.
     let (r, w) = sgw req w in
     bindE (udp_client_rcv r pkt) (\<lambda>pkt.
     bindE (extract_gtp_hdr pkt) (\<lambda>pkt.
     bindE (extract_bool pkt) (\<lambda>(res, pkt).
     if \<not> res then Inr (m, w) else Inr (upd_ue guti (\<lambda>c. c\<lparr>ecm_state_m := 1\<rparr>) m, w)))))))))))"

subsection \<open>Handover\<close>

definition mme_request_target_RAN :: "ext_lib \<Rightarrow> packet \<Rightarrow> mme \<Rightarrow> (out list \<times> mme) res" where
  "mme_request_target_RAN X pkt m =
     bindE (extract_int pkt) (\<lambda>(handover_type, pkt).
     bindE (extract_u16 pkt) (\<lambda>(s_enb, pkt).
     bindE (extract_u16 pkt) (\<lambda>(t_enb, pkt).
     bindE (extract_u32 pkt) (\<lambda>(enb, pkt).
     bindE (extract_u32 pkt) (\<lambda>(mme_id, pkt).
     let guti = mme_get_guti pkt m in
     bindE (append_u16 t_enb (clear_pkt pkt)) (\<lambda>pkt.
     bindE (append_u32 enb pkt) (\<lambda>pkt.
     bindE (append_u32 mme_id pkt) (\<lambda>pkt.
     let s1_ul = s1_uteid_ul_m (ue_at guti m); m = touch_ue guti m in
     bindE (append_u32 s1_ul pkt) (\<lambda>pkt.
     bindE (prepend_s1ap_hdr 7 (len16 pkt) (enodeb_s1ap_ue_id (s1ap_hdr pkt))
       (mme_s1ap_ue_id (s1ap_hdr pkt)) pkt) (\<lambda>pkt.
     bindE (sctp_client_init X t_ran_ip_addr t_ran_port) (\<lambda>ran.
     bindE (sctp_snd pkt) (\<lambda>msg.
     Inr ([Snd_ran ran msg], m)))))))))))))"

definition mme_handle_handover :: "ext_lib \<Rightarrow> packet \<Rightarrow> mme \<Rightarrow> (out list \<times> mme) res" where
  "mme_handle_handover X pkt m = mme_request_target_RAN X pkt m"

definition mme_setup_indirect_tunnel ::
  "ext_lib \<Rightarrow> 'w peer \<Rightarrow> packet \<Rightarrow> mme \<Rightarrow> 'w \<Rightarrow> (out list \<times> mme \<times> 'w) res" where
  "mme_setup_indirect_tunnel X sgw pkt m w =
     bindE (extract_u32 pkt) (\<lambda>(s1_uteid_dl_ho, pkt).
     bindE (udp_client_init X g_mme_ip_addr g_sgw_s11_ip_addr g_sgw_s11_port) (\<lambda>_.
     let guti = mme_get_guti pkt m; s11_sgw = s11_cteid_sgw_m (ue_at guti m); m = touch_ue guti m in
     bindE (append_u32 s1_uteid_dl_ho (clear_pkt pkt)) (\<lambda>pkt.
     bindE (prepend_gtp_hdr 2 4 (len16 pkt) s11_sgw pkt) (\<lambda>pkt.
     bindE (udp_snd pkt) (\<lambda>req.
     let (r, w) = sgw req w in
     bindE (udp_client_rcv r pkt) (\<lambda>pkt.
     bindE (extract_gtp_hdr pkt) (\<lambda>pkt.
     bindE (extract_bool pkt) (\<lambda>(res, pkt).
     bindE (extract_u32 pkt) (\<lambda>(s1_uteid_ul, pkt).
     bindE (sctp_client_init X s_ran_ip_addr s_ran_port) (\<lambda>ran.
     if \<not> res then Inr ([], m, w)
     else
       bindE (append_u32 s1_uteid_ul (clear_pkt pkt)) (\<lambda>pkt.
       bindE (prepend_s1ap_hdr 8 (len16 pkt) (enodeb_s1ap_ue_id (s1ap_hdr pkt))
         (mme_s1ap_ue_id (s1ap_hdr pkt)) pkt) (\<lambda>pkt.
       bindE (sctp_snd pkt) (\<lambda>msg.
       Inr ([Snd_ran ran msg], m, w))))))))))))))"

definition mme_handle_handover_completion ::
  "ext_lib \<Rightarrow> 'w peer \<Rightarrow> packet \<Rightarrow> mme \<Rightarrow> 'w \<Rightarrow> (out list \<times> mme \<times> 'w) res" where
  "mme_handle_handover_completion X sgw pkt m w =
     bindE (udp_client_init X g_mme_ip_addr g_sgw_s11_ip_addr g_sgw_s11_port) (\<lambda>_.
     let guti = mme_get_guti pkt m; s11_sgw = s11_cteid_sgw_m (ue_at guti m); m = touch_ue guti m in
     bindE (append_int 1 (clear_pkt pkt)) (\<lambda>pkt.
     bindE (prepend_gtp_hdr 2 5 (len16 pkt) s11_sgw pkt) (\<lambda>pkt.
     bindE (udp_snd pkt) (\<lambda>req.
     let (r, w) = sgw req w in
     bindE (udp_client_rcv r pkt) (\<lambda>pkt.
     bindE (extract_gtp_hdr pkt) (\<lambda>pkt.
     bindE (extract_bool pkt) (\<lambda>(res, pkt).
     bindE (sctp_client_init X s_ran_ip_addr s_ran_port) (\<lambda>ran.
     if \<not> res then Inr ([], m, w)
     else
       bindE (append_bool res (clear_pkt pkt)) (\<lambda>pkt.
       bindE (prepend_s1ap_hdr 9 (len16 pkt) (enodeb_s1ap_ue_id (s1ap_hdr pkt))
         (mme_s1ap_ue_id (s1ap_hdr pkt)) pkt) (\<lambda>pkt.
       bindE (sctp_snd pkt) (\<lambda>msg.
       Inr ([Snd_ran ran msg], m, w))))))))))))"

definition mme_teardown_indirect_tunnel ::
  "ext_lib \<Rightarrow> 'w peer \<Rightarrow> packet \<Rightarrow> mme \<Rightarrow> 'w \<Rightarrow> (mme \<times> 'w) res" where
  "mme_teardown_indirect_tunnel X sgw pkt m w =
     bindE (extract_u32 pkt) (\<lambda>(s1_uteid_ul_ho, pkt).
     bindE (udp_client_init X g_mme_ip_addr g_sgw_s11_ip_addr g_sgw_s11_port) (\<lambda>_.
     let guti = mme_get_guti pkt m; s11_sgw = s11_cteid_sgw_m (ue_at guti m); m = touch_ue guti m in
     bindE (append_u32 s1_uteid_ul_ho (clear_pkt pkt)) (\<lambda>pkt.
     bindE (prepend_gtp_hdr 2 6 (len16 pkt) s11_sgw pkt) (\<lambda>pkt.
     bindE (udp_snd pkt) (\<lambda>req.
     let (r, w) = sgw req w in
     bindE (udp_client_rcv r pkt) (\<lambda>pkt.
     bindE (extract_gtp_hdr pkt) (\<lambda>pkt.
     bindE (extract_bool pkt) (\<lambda>(res, pkt).
     Inr (m, w)))))))))"

subsection \<open>Detach\<close>

text \<open>The GUTI of the removed context is the one in the request, not the one of the S1AP id.\<close>

definition mme_handle_detach ::
  "ext_lib \<Rightarrow> 'w peer \<Rightarrow> int \<Rightarrow> packet \<Rightarrow> mme \<Rightarrow> 'w \<Rightarrow> (out list \<times> mme \<times> 'w) res" where
  "mme_handle_detach X sgw conn_fd pkt m w =
     bindE (guti_or_exit ''mme_handledetach'' pkt m) (\<lambda>guti.
     let c = ue_at guti m; m = touch_ue guti m in
     bindE (open_or_exit X ''mme_handledetach'' (k_nas_enc_m c) (k_nas_int_m c) pkt) (\<lambda>pkt.
     bindE (extract_u64 pkt) (\<lambda>(guti, pkt).
     bindE (extract_u64 pkt) (\<lambda>(ksi_asme, pkt).
     bindE (extract_u64 pkt) (\<lambda>(detach_type, pkt).
     bindE (append_u8 (eps_bearer_id_m c) (clear_pkt pkt)) (\<lambda>pkt.
     bindE (append_u64 (tai_m c) pkt) (\<lambda>pkt.
     bindE (prepend_gtp_hdr 2 3 (len16 pkt) (s11_cteid_sgw_m c) pkt) (\<lambda>pkt.
     bindE (udp_snd pkt) (\<lambda>req.
     let (r, w) = sgw req w in
     bindE (udp_client_rcv r pkt) (\<lambda>pkt.
     bindE (extract_gtp_hdr pkt) (\<lambda>pkt.
     bindE (extract_bool pkt) (\<lambda>(res, pkt).
     if \<not> res then Inr ([], m, w)
     else
       bindE (append_bool res (clear_pkt pkt)) (\<lambda>pkt.
       bindE (crypt_enc X (k_nas_enc_m c) pkt) (\<lambda>pkt.
       bindE (add_hmac X (k_nas_int_m c) pkt) (\<lambda>pkt.
       bindE (prepend_s1ap_hdr 5 (len16 pkt) (enodeb_s1ap_ue_id (s1ap_hdr pkt))
         (mme_s1ap_ue_id (s1ap_hdr pkt)) pkt) (\<lambda>pkt.
       bindE (sctp_snd pkt) (\<lambda>msg.
       Inr ([Snd_conn conn_fd msg],
            rem_uectx_m guti (rem_itfid_m (mme_s1ap_ue_id (s1ap_hdr pkt)) m), w))))))))))))))))))"

end
