(* ===== verification/Epc_Mme_Server.thy ===== *)
theory Epc_Mme_Server
  imports Epc_Mme_Handlers
begin

section \<open>The MME server (mme_server.cpp)\<close>

text \<open>
  \<open>handle_ue\<close>: one message of one connection. A UE without an MME id may only start an attach; with
  an id the message type selects the handler, and two of them run one after the other on copies
  of the packet for types 2, 3 and 4. The location update is commented out in the source. The
  result is the status that \<open>SctpServer::worker_func\<close> reads: 0 closes the connection.
\<close>

definition mme_handle_ue ::
  "ext_lib \<Rightarrow> fresh_hdrs \<Rightarrow> 'w peer \<Rightarrow> 'w peer \<Rightarrow> int \<Rightarrow> rx \<Rightarrow> mme \<Rightarrow> 'w \<Rightarrow> (int \<times> out list \<times> mme \<times> 'w) res" where
  "mme_handle_ue X fresh hss sgw conn_fd r m w =
     bindE (local_packet fresh) (\<lambda>pkt.
     bindE (sctp_deliver r pkt) (\<lambda>pkt.
     if len pkt \<le> 0 then Inr (0, [], m, w)
     else
       bindE (extract_s1ap_hdr pkt) (\<lambda>pkt.
       let mme_id = mme_s1ap_ue_id (s1ap_hdr pkt); msg_type = msg_type_s (s1ap_hdr pkt) in
       if mme_id = 0 then
         (if msg_type = 1 then
            bindE (copy_pkt pkt) (\<lambda>p.
            bindE (mme_handle_initial_attach hss conn_fd p m w) (\<lambda>(o1, m, w).
            Inr (1, o1, m, w)))
          else Inr (1, [], m, w))
       else if msg_type = 2 then
         bindE (copy_pkt pkt) (\<lambda>p.
         bindE (mme_handle_autn p m) (\<lambda>(res, m).
         if res then
           bindE (copy_pkt pkt) (\<lambda>p.
           bindE (mme_handle_security_mode_cmd X conn_fd p m) (\<lambda>(o1, m).
           Inr (1, o1, m, w)))
         else Inr (1, [], m, w)))
       else if msg_type = 3 then
         bindE (copy_pkt pkt) (\<lambda>p.
         bindE (mme_handle_security_mode_complete X p m) (\<lambda>(res, m).
         if res then
           bindE (copy_pkt pkt) (\<lambda>p.
           bindE (mme_handle_create_session X sgw conn_fd p m w) (\<lambda>(o1, m, w).
           Inr (1, o1, m, w)))
         else Inr (1, [], m, w)))
       else if msg_type = 4 then
         bindE (copy_pkt pkt) (\<lambda>p.
         bindE (mme_handle_attach_complete X p m) (\<lambda>m.
         bindE (copy_pkt pkt) (\<lambda>p.
         bindE (mme_handle_modify_bearer sgw p m w) (\<lambda>(m, w).
         Inr (1, [], m, w)))))
       else if msg_type = 5 then
         bindE (copy_pkt pkt) (\<lambda>p.
         bindE (mme_handle_detach X sgw conn_fd p m w) (\<lambda>(o1, m, w).
         Inr (1, o1, m, w)))
       else if msg_type = 7 then
         bindE (copy_pkt pkt) (\<lambda>p.
         bindE (mme_handle_handover X p m) (\<lambda>(o1, m).
         Inr (1, o1, m, w)))
       else if msg_type = 8 then
         bindE (copy_pkt pkt) (\<lambda>p.
         bindE (mme_setup_indirect_tunnel X sgw p m w) (\<lambda>(o1, m, w).
         Inr (1, o1, m, w)))
       else if msg_type = 9 then
         bindE (copy_pkt pkt) (\<lambda>p.
         bindE (mme_handle_handover_completion X sgw p m w) (\<lambda>(o1, m, w).
         Inr (1, o1, m, w)))
       else if msg_type = 10 then
         bindE (copy_pkt pkt) (\<lambda>p.
         bindE (mme_teardown_indirect_tunnel X sgw p m w) (\<lambda>(m, w).
         Inr (1, [], m, w)))
       else Inr (1, [], m, w))))"

end
