(* ===== verification/Epc_Mme_Safety.thy ===== *)
theory Epc_Mme_Safety
  imports Epc_Mme_Server
begin

section \<open>The MME under any message\<close>

text \<open>
  What a turn of the MME can change, whatever bytes arrive and whatever the HSS and the SGW answer:
  most handlers stay in a frame (tables, identities and EMM states as they were), attach adds one
  id, attach complete registers one UE and only with a valid MAC, and a failed authentication or a
  detach removes. By rule induction over the turns the identifiers stay consistent.
\<close>

subsection \<open>The frame\<close>

definition mme_frame :: "mme \<Rightarrow> mme \<Rightarrow> bool" where
  "mme_frame m m' \<longleftrightarrow>
     mme_ids_of m' = mme_ids_of m \<and> ue_count m' = ue_count m \<and> s1mme_id m' = s1mme_id m \<and>
     (\<forall>g. imsi_m (ue_at g m') = imsi_m (ue_at g m) \<and> emm_state_m (ue_at g m') = emm_state_m (ue_at g m))"

lemma mme_frame_refl [simp]: "mme_frame m m"
  by (simp add: mme_frame_def)

lemma mme_frame_trans: "mme_frame m m' \<Longrightarrow> mme_frame m' m'' \<Longrightarrow> mme_frame m m''"
  by (simp add: mme_frame_def)

lemma ue_at_touch [simp]: "ue_at g (touch_ue guti m) = ue_at g m"
  by (simp add: ue_at_def touch_ue_def)

lemma ue_at_upd [simp]: "ue_at g (upd_ue guti f m) = (if g = guti then f (ue_at guti m) else ue_at g m)"
  by (simp add: ue_at_def upd_ue_def modify_at_def at_or_def)

lemma mme_frame_touch [simp]: "mme_frame m (touch_ue guti m') \<longleftrightarrow> mme_frame m m'"
  by (simp add: mme_frame_def) (simp add: touch_ue_def)

lemma mme_frame_upd [simp]:
  assumes "\<And>c. imsi_m (f c) = imsi_m c" and "\<And>c. emm_state_m (f c) = emm_state_m c"
  shows "mme_frame m (upd_ue guti f m') \<longleftrightarrow> mme_frame m m'"
  using assms by (simp add: mme_frame_def) (auto simp: upd_ue_def)

lemma mme_frame_contexts [simp]:
  "mme_frame m (set_crypt_context guti m') \<longleftrightarrow> mme_frame m m'"
  "mme_frame m (set_integrity_context guti m') \<longleftrightarrow> mme_frame m m'"
  "mme_frame m (set_pgw_info guti m') \<longleftrightarrow> mme_frame m m'"
  by (simp_all add: set_crypt_context_def set_integrity_context_def set_pgw_info_def)

named_theorems run_simps

lemmas [run_simps] = bindE_eq_Inr Let_def

lemma smc_frame: "mme_handle_security_mode_cmd X fd p m = Inr (os, m') \<Longrightarrow> mme_frame m m'"
  by (auto simp: mme_handle_security_mode_cmd_def run_simps)

lemma smcomplete_frame: "mme_handle_security_mode_complete X p m = Inr (res, m') \<Longrightarrow> mme_frame m m'"
  by (auto simp: mme_handle_security_mode_complete_def run_simps)

lemma create_frame: "mme_handle_create_session X sgw fd p m w = Inr (os, m', w') \<Longrightarrow> mme_frame m m'"
  by (auto simp: mme_handle_create_session_def run_simps split_beta)

lemma modify_frame: "mme_handle_modify_bearer sgw p m w = Inr (m', w') \<Longrightarrow> mme_frame m m'"
  by (auto simp: mme_handle_modify_bearer_def run_simps split_beta split: if_splits)

lemma handover_frame: "mme_handle_handover X p m = Inr (os, m') \<Longrightarrow> mme_frame m m'"
  by (auto simp: mme_handle_handover_def mme_request_target_RAN_def run_simps)

lemma setup_frame: "mme_setup_indirect_tunnel X sgw p m w = Inr (os, m', w') \<Longrightarrow> mme_frame m m'"
  by (auto simp: mme_setup_indirect_tunnel_def run_simps split_beta split: if_splits)

lemma completion_frame: "mme_handle_handover_completion X sgw p m w = Inr (os, m', w') \<Longrightarrow> mme_frame m m'"
  by (auto simp: mme_handle_handover_completion_def run_simps split_beta split: if_splits)

lemma teardown_frame: "mme_teardown_indirect_tunnel X sgw p m w = Inr (m', w') \<Longrightarrow> mme_frame m m'"
  by (auto simp: mme_teardown_indirect_tunnel_def run_simps split_beta)

lemmas mme_frames = smc_frame smcomplete_frame create_frame modify_frame handover_frame setup_frame
  completion_frame teardown_frame

subsection \<open>The other handlers\<close>

definition mme_shrink :: "mme \<Rightarrow> mme \<Rightarrow> bool" where
  "mme_shrink m m' \<longleftrightarrow>
     mme_ids_of m' = mme_ids_of m \<and> ue_count m' = ue_count m \<and>
     (\<forall>i g. s1mme_id m' i = Some g \<longrightarrow> s1mme_id m i = Some g) \<and>
     (\<forall>g. imsi_m (ue_at g m') \<in> {imsi_m (ue_at g m), 0} \<and> emm_state_m (ue_at g m') \<in> {emm_state_m (ue_at g m), 0})"

definition mme_attached :: "u64 \<Rightarrow> u64 \<Rightarrow> mme \<Rightarrow> mme \<Rightarrow> bool" where
  "mme_attached imsi guti m m' \<longleftrightarrow>
     get_guti (gummei (mme_ids_of m)) imsi = Inr guti \<and>
     mme_ids_of m' = mme_ids_of m \<and> ue_count m' = ue_count m + 1 \<and>
     s1mme_id m' = (s1mme_id m)(ucast (ue_count m + 1) \<mapsto> guti) \<and>
     (\<forall>g. imsi_m (ue_at g m') = (if g = guti then imsi else imsi_m (ue_at g m)) \<and>
          emm_state_m (ue_at g m') = emm_state_m (ue_at g m))"

definition mme_registered :: "u64 \<Rightarrow> mme \<Rightarrow> mme \<Rightarrow> bool" where
  "mme_registered guti m m' \<longleftrightarrow>
     mme_ids_of m' = mme_ids_of m \<and> ue_count m' = ue_count m \<and> s1mme_id m' = s1mme_id m \<and>
     (\<forall>g. imsi_m (ue_at g m') = imsi_m (ue_at g m) \<and>
          emm_state_m (ue_at g m') = (if g = guti then 1 else emm_state_m (ue_at g m)))"

lemma frame_shrink: "mme_frame m m' \<Longrightarrow> mme_shrink m m'"
  by (simp add: mme_frame_def mme_shrink_def)

lemma ue_at_removed: "ue_at g (rem_uectx_m guti (rem_itfid_m i m)) = (if g = guti then new_mme_ue else ue_at g m)"
  by (simp add: ue_at_def rem_uectx_m_def rem_itfid_m_def at_or_def)

lemma removed_shrink: "mme_shrink m (rem_uectx_m guti (rem_itfid_m i (touch_ue g m)))"
  by (auto simp: mme_shrink_def ue_at_removed)
    (auto simp: rem_uectx_m_def rem_itfid_m_def touch_ue_def new_mme_ue_def split: if_splits)

lemma attach_effect:
  "mme_handle_initial_attach hss fd p m w = Inr (os, m', w') \<Longrightarrow> \<exists>imsi guti. mme_attached imsi guti m m'"
  by (auto simp: mme_handle_initial_attach_def run_simps split_beta)
    (auto simp: mme_attached_def upd_ue_def ue_at_def mme_ue_init_def modify_at_def at_or_def)

lemma autn_frame: "mme_handle_autn p m = Inr (res, m') \<Longrightarrow> res \<Longrightarrow> mme_frame m m'"
  and autn_shrink: "mme_handle_autn p m = Inr (res, m') \<Longrightarrow> \<not> res \<Longrightarrow> mme_shrink m m'"
  by (auto simp: mme_handle_autn_def guti_or_exit_def run_simps removed_shrink split: if_splits)

lemma complete_effect:
  "mme_handle_attach_complete X p m = Inr m' \<Longrightarrow>
   \<exists>guti q. mme_get_guti p m = guti \<and> guti \<noteq> 0 \<and> hmac_check X (k_nas_int_m (ue_at guti m)) p = Inr (True, q) \<and>
     mme_registered guti m m'"
  by (auto simp: mme_handle_attach_complete_def guti_or_exit_def open_or_exit_def run_simps split: if_splits)
    (auto simp: mme_registered_def, auto simp: upd_ue_def touch_ue_def)

lemma detach_effect:
  "mme_handle_detach X sgw fd p m w = Inr (os, m', w') \<Longrightarrow> mme_shrink m m'"
  by (auto simp: mme_handle_detach_def run_simps split_beta removed_shrink intro: frame_shrink split: if_splits)

subsection \<open>A turn\<close>

text \<open>The packet that the handlers of this turn get.\<close>

definition mme_received :: "fresh_hdrs \<Rightarrow> rx \<Rightarrow> packet res" where
  "mme_received fresh r =
     bindE (local_packet fresh) (\<lambda>pkt.
     bindE (sctp_deliver r pkt) (\<lambda>pkt.
     bindE (extract_s1ap_hdr pkt) copy_pkt))"

definition mme_effect :: "ext_lib \<Rightarrow> packet \<Rightarrow> mme \<Rightarrow> mme \<Rightarrow> bool" where
  "mme_effect X p m m' \<longleftrightarrow>
     mme_shrink m m' \<or> (\<exists>imsi guti. mme_attached imsi guti m m') \<or>
     (\<exists>guti q. mme_get_guti p m = guti \<and> guti \<noteq> 0 \<and> hmac_check X (k_nas_int_m (ue_at guti m)) p = Inr (True, q) \<and>
        mme_registered guti m m')"

lemma registered_frame: "mme_registered guti m m' \<Longrightarrow> mme_frame m' m'' \<Longrightarrow> mme_registered guti m m''"
  by (simp add: mme_registered_def mme_frame_def)

text \<open>The cases of \<open>handle_ue\<close>, in its order.\<close>

lemma branch_effects:
  "mme_handle_initial_attach hss fd p m w = Inr (os, m', w') \<Longrightarrow> mme_effect X p m m'"
  "mme_handle_autn p m = Inr (res, m1) \<Longrightarrow> res \<Longrightarrow> mme_handle_security_mode_cmd X fd p m1 = Inr (os, m') \<Longrightarrow>
   mme_effect X p m m'"
  "mme_handle_autn p m = Inr (res, m') \<Longrightarrow> \<not> res \<Longrightarrow> mme_effect X p m m'"
  "mme_handle_security_mode_complete X p m = Inr (res, m1) \<Longrightarrow>
   mme_handle_create_session X sgw fd p m1 w = Inr (os, m', w') \<Longrightarrow> mme_effect X p m m'"
  "mme_handle_security_mode_complete X p m = Inr (res, m') \<Longrightarrow> mme_effect X p m m'"
  "mme_handle_attach_complete X p m = Inr m1 \<Longrightarrow> mme_handle_modify_bearer sgw p m1 w = Inr (m', w') \<Longrightarrow>
   mme_effect X p m m'"
  "mme_handle_detach X sgw fd p m w = Inr (os, m', w') \<Longrightarrow> mme_effect X p m m'"
  "mme_handle_handover X p m = Inr (os, m') \<Longrightarrow> mme_effect X p m m'"
  "mme_setup_indirect_tunnel X sgw p m w = Inr (os, m', w') \<Longrightarrow> mme_effect X p m m'"
  "mme_handle_handover_completion X sgw p m w = Inr (os, m', w') \<Longrightarrow> mme_effect X p m m'"
  "mme_teardown_indirect_tunnel X sgw p m w = Inr (m', w') \<Longrightarrow> mme_effect X p m m'"
  unfolding mme_effect_def
  by (blast dest: attach_effect autn_frame autn_shrink complete_effect detach_effect mme_frames
      intro: frame_shrink mme_frame_trans registered_frame)+

lemma turn_effect:
  assumes "mme_handle_ue X fresh hss sgw fd r m w = Inr (status, os, m', w')"
  shows "m' = m \<or> (\<exists>p. mme_received fresh r = Inr p \<and> mme_effect X p m m')"
proof -
  from assms obtain pkt pkt1 where pkt: "local_packet fresh = Inr pkt" "sctp_deliver r pkt = Inr pkt1"
    by (auto simp: mme_handle_ue_def bindE_eq_Inr)
  from assms show ?thesis
    by (auto simp: pkt mme_handle_ue_def mme_received_def bindE_eq_Inr Let_def split: if_splits
        intro: branch_effects)
qed

subsection \<open>Every reachable MME\<close>

text \<open>
  Messages of any connection in any order; between two turns the processes behind the MME do
  whatever they do. The 32-bit identifiers wrap after \<open>2 ^ 32 - 1\<close> attaches, so only fewer count.
\<close>

inductive mme_reachable :: "ext_lib \<Rightarrow> 'w peer \<Rightarrow> 'w peer \<Rightarrow> mme \<Rightarrow> bool" for X hss sgw where
  start: "new_mme = Inr m \<Longrightarrow> mme_reachable X hss sgw m"
| turn: "mme_reachable X hss sgw m \<Longrightarrow> unat (ue_count m) + 1 < 2 ^ 32 \<Longrightarrow>
    mme_handle_ue X fresh hss sgw fd r m w = Inr (status, os, m', w') \<Longrightarrow> mme_reachable X hss sgw m'"

definition mme_inv :: "mme \<Rightarrow> bool" where
  "mme_inv m \<longleftrightarrow>
     (\<forall>i g. s1mme_id m i = Some g \<longrightarrow>
        i \<noteq> 0 \<and> unat i \<le> unat (ue_count m) \<and> (\<exists>imsi. get_guti (gummei (mme_ids_of m)) imsi = Inr g)) \<and>
     (\<forall>g. imsi_m (ue_at g m) \<noteq> 0 \<longrightarrow> get_guti (gummei (mme_ids_of m)) (imsi_m (ue_at g m)) = Inr g)"

lemma new_mme_inv: "new_mme = Inr m \<Longrightarrow> mme_inv m"
  by (auto simp: new_mme_def bindE_eq_Inr mme_inv_def ue_at_def at_or_def new_mme_ue_def)

lemma fresh_id:
  assumes "unat (ue_count m) + 1 < 2 ^ 32"
  shows "unat (ucast (ue_count m + 1) :: u32) = unat (ue_count m) + 1"
  using assms by (simp add: unsigned_ucast_eq unat_add_lem [THEN iffD1] take_bit_nat_eq_self)

lemma shrink_inv: "mme_inv m \<Longrightarrow> mme_shrink m m' \<Longrightarrow> mme_inv m'"
  by (simp add: mme_inv_def mme_shrink_def) metis

lemma registered_inv: "mme_inv m \<Longrightarrow> mme_registered guti m m' \<Longrightarrow> mme_inv m'"
  by (simp add: mme_inv_def mme_registered_def)

lemma attached_inv:
  assumes inv: "mme_inv m" and a: "mme_attached imsi guti m m'" and n: "unat (ue_count m) + 1 < 2 ^ 32"
  shows "mme_inv m'"
proof -
  let ?i = "ucast (ue_count m + 1) :: u32"
  note a = a [unfolded mme_attached_def]
  have i: "unat ?i = unat (ue_count m) + 1" and c: "unat (ue_count m') = unat (ue_count m) + 1"
    using fresh_id [OF n] a n by (simp_all add: unat_add_lem [THEN iffD1])
  then have "?i \<noteq> 0"
    by (metis unat_0 add_is_0 one_neq_zero)
  then have "j \<noteq> 0 \<and> unat j \<le> unat (ue_count m') \<and> (\<exists>imsi. get_guti (gummei (mme_ids_of m')) imsi = Inr g)"
    if "s1mme_id m' j = Some g" for j g
    using that a inv i c by (cases "j = ?i") (auto simp: mme_inv_def intro: le_SucI)
  moreover have "get_guti (gummei (mme_ids_of m')) (imsi_m (ue_at g m')) = Inr g" if "imsi_m (ue_at g m') \<noteq> 0" for g
    using that a inv by (cases "g = guti") (auto simp: mme_inv_def)
  ultimately show ?thesis
    unfolding mme_inv_def by blast
qed

lemma mme_reachable_inv: "mme_reachable X hss sgw m \<Longrightarrow> mme_inv m"
proof (induction rule: mme_reachable.induct)
  case (start m)
  then show ?case by (rule new_mme_inv)
next
  case (turn m fresh fd r w status os m' w')
  then show ?case
    using turn_effect [OF turn.hyps(3)] unfolding mme_effect_def
    by (blast intro: shrink_inv registered_inv attached_inv)
qed

text \<open>The id of a new attach is not in use.\<close>

lemma attach_id_unused:
  "mme_inv m \<Longrightarrow> unat (ue_count m) + 1 < 2 ^ 32 \<Longrightarrow> s1mme_id m (ucast (ue_count m + 1)) = None"
  using fresh_id [of m] unfolding mme_inv_def by (cases "s1mme_id m (ucast (ue_count m + 1))") fastforce+

text \<open>Only an attach complete with a valid MAC registers a UE.\<close>

lemma registration_needs_mac:
  assumes "mme_handle_ue X fresh hss sgw fd r m w = Inr (status, os, m', w')"
    and "emm_state_m (ue_at guti m) = 0" and "emm_state_m (ue_at guti m') \<noteq> 0"
  shows "\<exists>p q. mme_received fresh r = Inr p \<and> mme_get_guti p m = guti \<and> guti \<noteq> 0 \<and>
    hmac_check X (k_nas_int_m (ue_at guti m)) p = Inr (True, q)"
proof -
  obtain p where p: "mme_received fresh r = Inr p" "mme_effect X p m m'"
    using turn_effect [OF assms(1)] assms(2,3) by auto
  have "\<not> mme_shrink m m'" and "\<not> mme_attached imsi g m m'" for imsi g
    using assms(2,3) unfolding mme_shrink_def mme_attached_def by (metis insert_iff singletonD, metis)
  with p obtain q where "mme_get_guti p m \<noteq> 0" "hmac_check X (k_nas_int_m (ue_at (mme_get_guti p m) m)) p = Inr (True, q)"
      "mme_registered (mme_get_guti p m) m m'"
    unfolding mme_effect_def by blast
  moreover from this have "guti = mme_get_guti p m"
    using assms(2,3) by (auto simp: mme_registered_def split: if_splits)
  ultimately show ?thesis
    using p(1) by blast
qed

end

