(* ===== verification/Epc_Sctp_Server.thy ===== *)
theory Epc_Sctp_Server
  imports Epc_Network Epc_Hss
begin

section \<open>The connection server (sctp_server.cpp)\<close>

text \<open>
  One thread accepts connections and hands each to a worker through a pipe, in turn; each worker
  multiplexes its connections with \<open>select\<close>. A turn of a worker takes the result of \<open>select\<close> (its
  status, the descriptors that are ready), reads a new connection from the
  pipe, and serves the connections that were in the set before; the callback \<open>serve_client\<close> changes
  the state \<open>w\<close>, and a status 0 closes the connection.
\<close>

subsection \<open>Accepting\<close>

text \<open>\<open>accept_clients\<close> on the results of \<open>accept\<close>: which worker gets which message.\<close>

fun accept_clients_loop :: "nat \<Rightarrow> nat \<Rightarrow> packet \<Rightarrow> int list \<Rightarrow> (nat \<times> u8 list) list res" where
  "accept_clients_loop workers_count turn pkt [] = Inr []"
| "accept_clients_loop workers_count turn pkt (conn_fd # fds) =
     (if conn_fd < 0 then Inl (Exit ''Accept error: sctpserver_acceptclients'')
      else
        bindE (append_int conn_fd (clear_pkt pkt)) (\<lambda>pkt.
        if workers_count \<le> turn then Inl (Undefined ''pipe_fds: index out of range'')
        else
          bindE (sctp_snd pkt) (\<lambda>m.
          bindE (accept_clients_loop workers_count ((turn + 1) mod workers_count) pkt fds) (\<lambda>out.
          Inr ((turn, m) # out)))))"

definition accept_clients :: "fresh_hdrs \<Rightarrow> nat \<Rightarrow> int list \<Rightarrow> (nat \<times> u8 list) list res" where
  "accept_clients fresh workers_count fds =
     bindE (local_packet fresh) (\<lambda>pkt. accept_clients_loop workers_count 0 pkt fds)"

subsection \<open>A worker\<close>

record worker =
  conn_fds :: "int list"
  max_fd :: int
  pkt_w :: packet

type_synonym 'w callback = "int \<Rightarrow> 'w \<Rightarrow> (int \<times> 'w) res"

definition new_worker :: "fresh_hdrs \<Rightarrow> int \<Rightarrow> worker res" where
  "new_worker fresh pipe_fd =
     bindE (local_packet fresh) (\<lambda>pkt. Inr \<lparr>conn_fds = [], max_fd = pipe_fd, pkt_w = pkt\<rparr>)"

text \<open>The loop over the first \<open>sz\<close> connections, from index \<open>i\<close>; \<open>erase\<close> shortens the vector.\<close>

function serve_loop ::
  "'w callback \<Rightarrow> int \<Rightarrow> (int \<Rightarrow> bool) \<Rightarrow> nat \<Rightarrow> nat \<Rightarrow> worker \<Rightarrow> 'w \<Rightarrow> (worker \<times> 'w) res" where
  "serve_loop serve_client pipe_fd ready sz i k w =
     (if i < sz then
        bindE (if ready (conn_fds k ! i) then serve_client (conn_fds k ! i) w else Inr (1, w))
          (\<lambda>(status, w).
          if status = 0 then
            let fds = take i (conn_fds k) @ drop (Suc i) (conn_fds k) in
            serve_loop serve_client pipe_fd ready (sz - 1) i
              (k\<lparr>conn_fds := fds, max_fd := max pipe_fd (max_ele fds)\<rparr>) w
          else serve_loop serve_client pipe_fd ready sz (Suc i) k w)
      else Inr (k, w))"
  by pat_completeness auto
termination
  by (relation "measure (\<lambda>(_, _, _, sz, i, _, _). sz - i)") auto

declare serve_loop.simps [simp del]

text \<open>\<open>pipe\<close> is what the accepting thread wrote to the pipe and the worker has not read yet.\<close>

definition worker_turn ::
  "'w callback \<Rightarrow> int \<Rightarrow> int \<times> (int \<Rightarrow> bool) \<Rightarrow> worker \<times> stream \<times> 'w \<Rightarrow> (worker \<times> stream \<times> 'w) res" where
  "worker_turn serve_client pipe_fd ev st =
     (case ev of (status, ready) \<Rightarrow> case st of (k, pipe, w) \<Rightarrow>
     let sz = length (conn_fds k) in
     bindE (handle_type1_error status ''Select error: sctpserver_workerfunc'') (\<lambda>_.
     bindE (if ready pipe_fd then
              bindE (read_sctp_pkt pipe_fd (pkt_w k) pipe) (\<lambda>(status, pkt, pipe).
              bindE (handle_type1_error status ''Read connection fd error: sctpserver_workerfunc'') (\<lambda>_.
              bindE (extract_int pkt) (\<lambda>(new_conn_fd, pkt).
              Inr (k\<lparr>conn_fds := conn_fds k @ [new_conn_fd], max_fd := max (max_fd k) new_conn_fd,
                     pkt_w := pkt\<rparr>, pipe))))
            else Inr (k, pipe)) (\<lambda>(k, pipe).
     bindE (serve_loop serve_client pipe_fd ready sz 0 k w) (\<lambda>(k, w).
     Inr (k, pipe, w)))))"

fun worker_func ::
  "'w callback \<Rightarrow> int \<Rightarrow> (int \<times> (int \<Rightarrow> bool)) list \<Rightarrow> worker \<times> stream \<times> 'w \<Rightarrow>
   (worker \<times> stream \<times> 'w) res" where
  "worker_func serve_client pipe_fd [] st = Inr st"
| "worker_func serve_client pipe_fd (ev # evs) st =
     bindE (worker_turn serve_client pipe_fd ev st) (worker_func serve_client pipe_fd evs)"

subsection \<open>Round robin\<close>

lemma accept_clients_loop_view:
  assumes "turn < n" and "\<forall>fd \<in> set fds. 0 \<le> fd \<and> fd < 2 ^ 31"
  shows "accept_clients_loop n turn (view g s d a r) fds =
    Inr (map (\<lambda>i. ((turn + i) mod n, le_int (fds ! i))) [0..<length fds])"
  using assms
proof (induction fds arbitrary: turn a r)
  case Nil
  then show ?case by simp
next
  case (Cons fd fds)
  have "map (\<lambda>i. (((turn + 1) mod n + i) mod n, le_int (fds ! i))) [0..<length fds] =
      map (\<lambda>i. ((turn + Suc i) mod n, le_int ((fd # fds) ! Suc i))) [0..<length fds]"
    by (simp add: mod_add_left_eq)
  moreover have "[0..<length (fd # fds)] = 0 # map Suc [0..<length fds]"
    by (simp only: map_Suc_upt upt_conv_Cons length_Cons zero_less_Suc)
  ultimately show ?case
    using Cons by (simp add: item_app_view comp_def)
qed

subsection \<open>A worker watches all its connections\<close>

definition worker_ok :: "int \<Rightarrow> worker \<Rightarrow> bool" where
  "worker_ok pipe_fd k \<longleftrightarrow> pipe_fd \<le> max_fd k \<and> (\<forall>fd \<in> set (conn_fds k). fd \<le> max_fd k)"

lemma set_erase: "set (take i xs @ drop (Suc i) xs) \<subseteq> set xs"
  by (auto dest: in_set_takeD in_set_dropD)

lemma serve_loop_ok:
  assumes "worker_ok pipe_fd k" and "serve_loop sc pipe_fd ready sz i k w = Inr (k', w')"
  shows "worker_ok pipe_fd k'"
  using assms
proof (induction sc pipe_fd ready sz i k w rule: serve_loop.induct)
  case (1 sc pipe_fd ready sz i k w)
  show ?case
  proof (cases "i < sz")
    case True
    then obtain status v where st: "(if ready (conn_fds k ! i) then sc (conn_fds k ! i) w else Inr (1, w)) =
        Inr (status, v)"
      using "1.prems"(2) by (auto simp: serve_loop.simps [of _ _ _ sz i] bindE_eq_Inr)
    show ?thesis
    proof (cases "status = 0")
      case z: True
      define fds where "fds = take i (conn_fds k) @ drop (Suc i) (conn_fds k)"
      have "worker_ok pipe_fd (k\<lparr>conn_fds := fds, max_fd := max pipe_fd (max_ele fds)\<rparr>)"
        by (auto simp: worker_ok_def intro: max_ele_upper le_max_iff_disj [THEN iffD2])
      then show ?thesis
        using "1.IH"(1) [OF True st refl z refl] "1.prems" True st z
        by (simp add: serve_loop.simps [of _ _ _ sz i] fds_def Let_def)
    next
      case False
      then show ?thesis
        using "1.IH"(2) [OF True st refl False] "1.prems" True st
        by (simp add: serve_loop.simps [of _ _ _ sz i])
    qed
  next
    case False
    with "1.prems" show ?thesis
      by (simp add: serve_loop.simps [of _ _ _ sz i])
  qed
qed

lemma worker_turn_ok:
  assumes "worker_ok pipe_fd k" and "worker_turn sc pipe_fd ev (k, t, w) = Inr (k', t', w')"
  shows "worker_ok pipe_fd k'"
proof -
  obtain status ready where ev: "ev = (status, ready)"
    by (cases ev)
  have taken: "worker_ok pipe_fd (k\<lparr>conn_fds := conn_fds k @ [fd], max_fd := max (max_fd k) fd, pkt_w := q\<rparr>)" for fd q
    using assms(1) by (auto simp: worker_ok_def le_max_iff_disj)
  show ?thesis
    using assms taken unfolding ev worker_turn_def
    by (auto simp: bindE_eq_Inr Let_def split: if_splits dest: serve_loop_ok [rotated])
qed

lemma worker_func_ok:
  assumes "worker_ok pipe_fd k" and "worker_func sc pipe_fd evs (k, t, w) = Inr (k', t', w')"
  shows "worker_ok pipe_fd k'"
  using assms
proof (induction evs arbitrary: k t w)
  case (Cons ev evs)
  then obtain k1 t1 w1 where "worker_turn sc pipe_fd ev (k, t, w) = Inr (k1, t1, w1)"
    and "worker_func sc pipe_fd evs (k1, t1, w1) = Inr (k', t', w')"
    by (auto simp: bindE_eq_Inr)
  then show ?case
    by (intro Cons.IH [OF worker_turn_ok [OF Cons.prems(1)]])
qed simp

text \<open>A descriptor that the accepting thread wrote joins the worker's set.\<close>

lemma worker_takes:
  assumes "0 \<le> pipe_fd" and "good_stream t" and "stream_bytes t = frame (le_int fd) @ rest"
    and "0 \<le> fd" and "fd < 2 ^ 31" and "0 \<le> status" and "pkt_w k = view g s d a r"
    and "\<forall>c \<in> set (conn_fds k). \<not> ready c" and "ready pipe_fd"
  shows "\<exists>k' t'. worker_turn sc pipe_fd (status, ready) (k, t, w) = Inr (k', t', w) \<and>
    conn_fds k' = conn_fds k @ [fd] \<and> stream_bytes t' = rest"
proof -
  have idle: "serve_loop sc pipe_fd ready (length (conn_fds k)) i k1 w = Inr (k1, w)"
    if "conn_fds k1 = conn_fds k @ [fd]" for i k1
  proof (induction "length (conn_fds k) - i" arbitrary: i)
    case 0
    then show ?case by (simp add: serve_loop.simps [of _ _ _ _ i])
  next
    case (Suc n)
    then have "i < length (conn_fds k)"
      by simp
    then have "conn_fds k1 ! i \<in> set (conn_fds k)"
      using that by (simp add: nth_append)
    with Suc assms(8) show ?case
      by (simp add: serve_loop.simps [of _ _ _ _ i])
  qed
  obtain t' where "read_sctp_pkt pipe_fd (view g s d a r) t =
      Inr (int (length (le_int fd)), view g s d [] (le_int fd), t')" and "stream_bytes t' = rest"
    using read_sctp_pkt_frame [OF assms(1-3), of g s d a r] by auto
  with assms idle show ?thesis
    by (simp add: worker_turn_def handle_type1_error_def item_ext_view Let_def)
qed

end
