(* ===== verification/Epc_Sgw.thy ===== *)
theory Epc_Sgw
  imports Epc_Network
begin

section \<open>Serving Gateway (sgw.h, sgw.cpp)\<close>

text \<open>
  Class \<open>Sgw\<close>: three tables from a tunnel endpoint id to an IMSI (\<open>s11_id\<close>, \<open>s1_id\<close>, \<open>s5_id\<close>), the
  context table \<open>ue_ctx\<close> (IMSI to \<open>UeContext\<close>) and the handover table \<open>ho_ue_ctx\<close>, whose key is a
  32-bit integer: an IMSI indexes it by its low half. The PGW and the eNodeBs are behind sockets: a
  call to the PGW goes to a \<open>net\<close>, a function from the address, the message and the state of the
  world outside to an outcome; datagrams that need no answer are \<open>udp_out\<close> values.
\<close>

type_synonym 'w net = "sock_addr \<Rightarrow> u8 list \<Rightarrow> 'w \<Rightarrow> rx \<times> 'w"

subsection \<open>State\<close>

record sgw_ue =
  tai_s :: u64
  apn_in_use_s :: u64
  eps_bearer_id_s :: u8
  s1_uteid_ul_s :: u32
  s1_uteid_dl_s :: u32
  s5_uteid_ul_s :: u32
  s5_uteid_dl_s :: u32
  s11_cteid_mme_s :: u32
  s11_cteid_sgw_s :: u32
  s5_cteid_ul_s :: u32
  s5_cteid_dl_s :: u32
  pgw_s5_ip_addr_s :: string
  pgw_s5_port_s :: int
  enodeb_ip_addr_s :: string
  enodeb_port_s :: int

definition new_sgw_ue :: sgw_ue where
  "new_sgw_ue =
     \<lparr>tai_s = 0, apn_in_use_s = 0, eps_bearer_id_s = 0, s1_uteid_ul_s = 0, s1_uteid_dl_s = 0,
      s5_uteid_ul_s = 0, s5_uteid_dl_s = 0, s11_cteid_mme_s = 0, s11_cteid_sgw_s = 0,
      s5_cteid_ul_s = 0, s5_cteid_dl_s = 0, pgw_s5_ip_addr_s = '''', pgw_s5_port_s = 0,
      enodeb_ip_addr_s = '''', enodeb_port_s = 0\<rparr>"

definition sgw_ue_init ::
  "u64 \<Rightarrow> u64 \<Rightarrow> u8 \<Rightarrow> u32 \<Rightarrow> u32 \<Rightarrow> u32 \<Rightarrow> u32 \<Rightarrow> u32 \<Rightarrow> string \<Rightarrow> int \<Rightarrow> sgw_ue \<Rightarrow> sgw_ue" where
  "sgw_ue_init tai apn_in_use eps_bearer_id s1_ul s5_dl s11_mme s11_sgw s5_cdl pgw_ip pgw_port c =
     c\<lparr>tai_s := tai, apn_in_use_s := apn_in_use, eps_bearer_id_s := eps_bearer_id,
       s1_uteid_ul_s := s1_ul, s5_uteid_dl_s := s5_dl, s11_cteid_mme_s := s11_mme,
       s11_cteid_sgw_s := s11_sgw, s5_cteid_dl_s := s5_cdl, pgw_s5_ip_addr_s := pgw_ip,
       pgw_s5_port_s := pgw_port\<rparr>"

record sgw =
  s11_id :: "u32 \<rightharpoonup> u64"
  s1_id :: "u32 \<rightharpoonup> u64"
  s5_id :: "u32 \<rightharpoonup> u64"
  ue_ctx_s :: "u64 \<rightharpoonup> sgw_ue"
  ho_ue_ctx :: "u32 \<rightharpoonup> sgw_ue"

definition new_sgw :: sgw where
  "new_sgw = \<lparr>s11_id = Map.empty, s1_id = Map.empty, s5_id = Map.empty, ue_ctx_s = Map.empty,
              ho_ue_ctx = Map.empty\<rparr>"

definition sgw_ue_at :: "u64 \<Rightarrow> sgw \<Rightarrow> sgw_ue" where
  "sgw_ue_at imsi s = at_or new_sgw_ue (ue_ctx_s s) imsi"

definition upd_sgw_ue :: "u64 \<Rightarrow> (sgw_ue \<Rightarrow> sgw_ue) \<Rightarrow> sgw \<Rightarrow> sgw" where
  "upd_sgw_ue imsi f s = s\<lparr>ue_ctx_s := modify_at new_sgw_ue (ue_ctx_s s) imsi f\<rparr>"

subsection \<open>Tables\<close>

definition sgw_update_itfid :: "int \<Rightarrow> u32 \<Rightarrow> u64 \<Rightarrow> sgw \<Rightarrow> sgw res" where
  "sgw_update_itfid itf_id_no t imsi s =
     (if itf_id_no = 11 then Inr (s\<lparr>s11_id := (s11_id s)(t \<mapsto> imsi)\<rparr>)
      else if itf_id_no = 1 then Inr (s\<lparr>s1_id := (s1_id s)(t \<mapsto> imsi)\<rparr>)
      else if itf_id_no = 5 then Inr (s\<lparr>s5_id := (s5_id s)(t \<mapsto> imsi)\<rparr>)
      else Inl (Exit ''incorrect itf_id_no: sgw_updateitfid''))"

definition sgw_get_imsi :: "int \<Rightarrow> u32 \<Rightarrow> sgw \<Rightarrow> u64 res" where
  "sgw_get_imsi itf_id_no t s =
     (if itf_id_no = 11 then Inr (at_or 0 (s11_id s) t)
      else if itf_id_no = 1 then Inr (at_or 0 (s1_id s) t)
      else if itf_id_no = 5 then Inr (at_or 0 (s5_id s) t)
      else Inl (Exit ''incorrect itf_id_no: sgw_getimsi''))"

definition sgw_rem_itfid :: "int \<Rightarrow> u32 \<Rightarrow> sgw \<Rightarrow> sgw res" where
  "sgw_rem_itfid itf_id_no t s =
     (if itf_id_no = 11 then Inr (s\<lparr>s11_id := (s11_id s)(t := None)\<rparr>)
      else if itf_id_no = 1 then Inr (s\<lparr>s1_id := (s1_id s)(t := None)\<rparr>)
      else if itf_id_no = 5 then Inr (s\<lparr>s5_id := (s5_id s)(t := None)\<rparr>)
      else Inl (Exit ''incorrect itf_id_no: sgw_remitfid''))"

definition sgw_rem_uectx :: "u64 \<Rightarrow> sgw \<Rightarrow> sgw" where
  "sgw_rem_uectx imsi s = s\<lparr>ue_ctx_s := (ue_ctx_s s)(imsi := None)\<rparr>"

definition sgw_get_uplink_info :: "u64 \<Rightarrow> sgw \<Rightarrow> (u32 \<times> string \<times> int) option" where
  "sgw_get_uplink_info imsi s =
     (case ue_ctx_s s imsi of
        None \<Rightarrow> None
      | Some c \<Rightarrow> Some (s5_uteid_ul_s c, pgw_s5_ip_addr_s c, pgw_s5_port_s c))"

definition sgw_get_downlink_info :: "u64 \<Rightarrow> sgw \<Rightarrow> (u32 \<times> string \<times> int) option" where
  "sgw_get_downlink_info imsi s =
     (case ue_ctx_s s imsi of
        None \<Rightarrow> None
      | Some c \<Rightarrow> if enodeb_port_s c = 0 then None
                 else Some (s1_uteid_dl_s c, enodeb_ip_addr_s c, enodeb_port_s c))"

text \<open>The interfaces with an identification table are 11, 1 and 5; each satisfies the contract.\<close>

interpretation s11: id_table "sgw_update_itfid 11" "sgw_get_imsi 11" "sgw_rem_itfid 11"
  by unfold_locales (auto simp: sgw_update_itfid_def sgw_get_imsi_def sgw_rem_itfid_def at_or_def)

interpretation s1: id_table "sgw_update_itfid 1" "sgw_get_imsi 1" "sgw_rem_itfid 1"
  by unfold_locales (auto simp: sgw_update_itfid_def sgw_get_imsi_def sgw_rem_itfid_def at_or_def)

interpretation s5: id_table "sgw_update_itfid 5" "sgw_get_imsi 5" "sgw_rem_itfid 5"
  by unfold_locales (auto simp: sgw_update_itfid_def sgw_get_imsi_def sgw_rem_itfid_def at_or_def)

subsection \<open>Session management\<close>

definition sgw_handle_create_session ::
  "ext_lib \<Rightarrow> 'w net \<Rightarrow> sock_addr \<Rightarrow> packet \<Rightarrow> sgw \<Rightarrow> 'w \<Rightarrow> (udp_out list \<times> sgw \<times> 'w) res" where
  "sgw_handle_create_session X pgw src pkt s w =
     bindE (extract_u32 pkt) (\<lambda>(s11_mme, pkt).
     bindE (extract_u64 pkt) (\<lambda>(imsi, pkt).
     bindE (extract_u8 pkt) (\<lambda>(eps_bearer_id, pkt).
     bindE (extract_string pkt) (\<lambda>(pgw_ip, pkt).
     bindE (extract_int pkt) (\<lambda>(pgw_port, pkt).
     bindE (extract_u64 pkt) (\<lambda>(apn_in_use, pkt).
     bindE (extract_u64 pkt) (\<lambda>(tai, pkt).
     let s1_ul = s11_mme; s5_dl = s11_mme; s11_sgw = s11_mme; s5_cdl = s11_mme in
     bindE (sgw_update_itfid 11 s11_sgw imsi s) (\<lambda>s.
     bindE (sgw_update_itfid 1 s1_ul imsi s) (\<lambda>s.
     bindE (sgw_update_itfid 5 s5_dl imsi s) (\<lambda>s.
     let s = upd_sgw_ue imsi (sgw_ue_init tai apn_in_use eps_bearer_id s1_ul s5_dl s11_mme s11_sgw
               s5_cdl pgw_ip pgw_port) s;
         s = upd_sgw_ue imsi (\<lambda>c. c\<lparr>tai_s := tai\<rparr>) s in
     bindE (set_server X pgw_ip pgw_port) (\<lambda>dst.
     bindE (append_u32 s5_cdl (clear_pkt pkt)) (\<lambda>pkt.
     bindE (append_u64 imsi pkt) (\<lambda>pkt.
     bindE (append_u8 eps_bearer_id pkt) (\<lambda>pkt.
     bindE (append_u32 s5_dl pkt) (\<lambda>pkt.
     bindE (append_u64 apn_in_use pkt) (\<lambda>pkt.
     bindE (append_u64 tai pkt) (\<lambda>pkt.
     bindE (prepend_gtp_hdr 2 1 (len16 pkt) 0 pkt) (\<lambda>pkt.
     bindE (udp_snd pkt) (\<lambda>req.
     let (r, w) = pgw dst req w in
     bindE (udp_client_rcv r pkt) (\<lambda>pkt.
     bindE (extract_gtp_hdr pkt) (\<lambda>pkt.
     bindE (extract_u32 pkt) (\<lambda>(s5_cul, pkt).
     bindE (extract_u8 pkt) (\<lambda>(eps_bearer_id, pkt).
     bindE (extract_u32 pkt) (\<lambda>(s5_ul, pkt).
     bindE (extract_string pkt) (\<lambda>(ue_ip_addr, pkt).
     let s = upd_sgw_ue imsi (\<lambda>c. c\<lparr>s5_uteid_ul_s := s5_ul, s5_cteid_ul_s := s5_cul\<rparr>) s in
     bindE (append_u32 s11_sgw (clear_pkt pkt)) (\<lambda>pkt.
     bindE (append_string ue_ip_addr pkt) (\<lambda>pkt.
     bindE (append_u32 s1_ul pkt) (\<lambda>pkt.
     bindE (append_u32 s5_ul pkt) (\<lambda>pkt.
     bindE (append_u32 s5_dl pkt) (\<lambda>pkt.
     bindE (prepend_gtp_hdr 2 1 (len16 pkt) s11_mme pkt) (\<lambda>pkt.
     bindE (udp_snd pkt) (\<lambda>rsp.
     Inr ([Reply src rsp], s, w)))))))))))))))))))))))))))))))))"

definition sgw_handle_modify_bearer ::
  "sock_addr \<Rightarrow> packet \<Rightarrow> sgw \<Rightarrow> (udp_out list \<times> sgw) res" where
  "sgw_handle_modify_bearer src pkt s =
     bindE (sgw_get_imsi 11 (teid (gtp_hdr pkt)) s) (\<lambda>imsi.
     if imsi = 0 then Inl (Exit ''Zero imsi: sgw_handlemodifybearer'')
     else
       bindE (extract_u8 pkt) (\<lambda>(eps_bearer_id, pkt).
       bindE (extract_u32 pkt) (\<lambda>(s1_dl, pkt).
       bindE (extract_string pkt) (\<lambda>(enodeb_ip, pkt).
       bindE (extract_int pkt) (\<lambda>(enodeb_port, pkt).
       let s = upd_sgw_ue imsi (\<lambda>c. c\<lparr>s1_uteid_dl_s := s1_dl, enodeb_ip_addr_s := enodeb_ip,
                 enodeb_port_s := enodeb_port\<rparr>) s;
           s11_mme = s11_cteid_mme_s (sgw_ue_at imsi s) in
       bindE (append_bool True (clear_pkt pkt)) (\<lambda>pkt.
       bindE (prepend_gtp_hdr 2 2 (len16 pkt) s11_mme pkt) (\<lambda>pkt.
       bindE (udp_snd pkt) (\<lambda>rsp.
       Inr ([Reply src rsp], s)))))))))"

definition sgw_handle_detach ::
  "ext_lib \<Rightarrow> 'w net \<Rightarrow> sock_addr \<Rightarrow> packet \<Rightarrow> sgw \<Rightarrow> 'w \<Rightarrow> (udp_out list \<times> sgw \<times> 'w) res" where
  "sgw_handle_detach X pgw src pkt s w =
     bindE (sgw_get_imsi 11 (teid (gtp_hdr pkt)) s) (\<lambda>imsi.
     if imsi = 0 then Inl (Exit ''Zero imsi: sgw_handledetach'')
     else
       bindE (extract_u8 pkt) (\<lambda>(eps_bearer_id, pkt).
       bindE (extract_u64 pkt) (\<lambda>(tai, pkt).
       case ue_ctx_s s imsi of
         None \<Rightarrow> Inl (Exit ''No uectx: sgw_handledetach'')
       | Some c \<Rightarrow>
         bindE (set_server X (pgw_s5_ip_addr_s c) (pgw_s5_port_s c)) (\<lambda>dst.
         bindE (append_u8 eps_bearer_id (clear_pkt pkt)) (\<lambda>pkt.
         bindE (append_u64 tai pkt) (\<lambda>pkt.
         bindE (prepend_gtp_hdr 2 4 (len16 pkt) (s5_cteid_ul_s c) pkt) (\<lambda>pkt.
         bindE (udp_snd pkt) (\<lambda>req.
         let (r, w) = pgw dst req w in
         bindE (udp_client_rcv r pkt) (\<lambda>pkt.
         bindE (extract_gtp_hdr pkt) (\<lambda>pkt.
         bindE (extract_bool pkt) (\<lambda>(res, pkt).
         if \<not> res then Inr ([], s, w)
         else
           bindE (append_bool res (clear_pkt pkt)) (\<lambda>pkt.
           bindE (prepend_gtp_hdr 2 3 (len16 pkt) (s11_cteid_mme_s c) pkt) (\<lambda>pkt.
           bindE (udp_snd pkt) (\<lambda>rsp.
           bindE (sgw_rem_itfid 11 (s11_cteid_sgw_s c) s) (\<lambda>s.
           bindE (sgw_rem_itfid 1 (s1_uteid_ul_s c) s) (\<lambda>s.
           bindE (sgw_rem_itfid 5 (s5_uteid_dl_s c) s) (\<lambda>s.
           Inr ([Reply src rsp], sgw_rem_uectx imsi s, w))))))))))))))))))"

subsection \<open>User plane\<close>

definition sgw_handle_uplink_udata :: "ext_lib \<Rightarrow> packet \<Rightarrow> sgw \<Rightarrow> udp_out list res" where
  "sgw_handle_uplink_udata X pkt s =
     bindE (sgw_get_imsi 1 (teid (gtp_hdr pkt)) s) (\<lambda>imsi.
     if imsi = 0 then Inr []
     else
       case sgw_get_uplink_info imsi s of
         None \<Rightarrow> Inr []
       | Some (s5_ul, pgw_ip, pgw_port) \<Rightarrow>
         bindE (truncate_pkt pkt) (\<lambda>pkt.
         bindE (prepend_gtp_hdr 1 2 (len16 pkt) s5_ul pkt) (\<lambda>pkt.
         bindE (set_server X pgw_ip pgw_port) (\<lambda>dst.
         bindE (udp_snd pkt) (\<lambda>m.
         Inr [Forward dst m])))))"

definition sgw_handle_downlink_udata :: "ext_lib \<Rightarrow> packet \<Rightarrow> sgw \<Rightarrow> udp_out list res" where
  "sgw_handle_downlink_udata X pkt s =
     bindE (sgw_get_imsi 5 (teid (gtp_hdr pkt)) s) (\<lambda>imsi.
     if imsi = 0 then Inr []
     else
       case sgw_get_downlink_info imsi s of
         None \<Rightarrow> Inr []
       | Some (s1_dl, enodeb_ip, enodeb_port) \<Rightarrow>
         bindE (truncate_pkt pkt) (\<lambda>pkt.
         bindE (prepend_gtp_hdr 1 2 (len16 pkt) s1_dl pkt) (\<lambda>pkt.
         bindE (set_server X enodeb_ip enodeb_port) (\<lambda>dst.
         bindE (udp_snd pkt) (\<lambda>m.
         Inr [Forward dst m])))))"

subsection \<open>Handover\<close>

definition sgw_handle_indirect_tunnel_setup ::
  "sock_addr \<Rightarrow> packet \<Rightarrow> sgw \<Rightarrow> (udp_out list \<times> sgw) res" where
  "sgw_handle_indirect_tunnel_setup src pkt s =
     bindE (sgw_get_imsi 11 (teid (gtp_hdr pkt)) s) (\<lambda>imsi.
     bindE (extract_u32 pkt) (\<lambda>(s1_dl, pkt).
     let s = s\<lparr>ho_ue_ctx := modify_at new_sgw_ue (ho_ue_ctx s) (ucast imsi) (\<lambda>c. c\<lparr>s1_uteid_dl_s := s1_dl\<rparr>)\<rparr>;
         s11_mme = s11_cteid_mme_s (sgw_ue_at imsi s);
         s = upd_sgw_ue imsi (\<lambda>c. c) s;
         s1_ul = s11_mme + 1 in
     bindE (sgw_update_itfid 1 s1_ul imsi s) (\<lambda>s.
     bindE (append_bool True (clear_pkt pkt)) (\<lambda>pkt.
     bindE (append_u32 s1_ul pkt) (\<lambda>pkt.
     bindE (prepend_gtp_hdr 2 4 (len16 pkt) s11_mme pkt) (\<lambda>pkt.
     bindE (udp_snd pkt) (\<lambda>rsp.
     Inr ([Reply src rsp], s))))))))"

definition sgw_handle_handover_completion ::
  "sock_addr \<Rightarrow> packet \<Rightarrow> sgw \<Rightarrow> (udp_out list \<times> sgw) res" where
  "sgw_handle_handover_completion src pkt s =
     bindE (sgw_get_imsi 11 (teid (gtp_hdr pkt)) s) (\<lambda>imsi.
     let s1_dl = s1_uteid_dl_s (at_or new_sgw_ue (ho_ue_ctx s) (ucast imsi));
         s = s\<lparr>ho_ue_ctx := op_idx new_sgw_ue (ho_ue_ctx s) (ucast imsi)\<rparr>;
         s = upd_sgw_ue imsi (\<lambda>c. c\<lparr>s1_uteid_dl_s := s1_dl\<rparr>) s;
         s11_mme = s11_cteid_mme_s (sgw_ue_at imsi s);
         s = s\<lparr>ho_ue_ctx := (ho_ue_ctx s)(ucast imsi := None)\<rparr> in
     bindE (append_bool True (clear_pkt pkt)) (\<lambda>pkt.
     bindE (prepend_gtp_hdr 2 5 (len16 pkt) s11_mme pkt) (\<lambda>pkt.
     bindE (udp_snd pkt) (\<lambda>rsp.
     Inr ([Reply src rsp], s)))))"

definition sgw_handle_indirect_tunnel_teardown ::
  "sock_addr \<Rightarrow> packet \<Rightarrow> sgw \<Rightarrow> (udp_out list \<times> sgw) res" where
  "sgw_handle_indirect_tunnel_teardown src pkt s =
     bindE (sgw_get_imsi 11 (teid (gtp_hdr pkt)) s) (\<lambda>imsi.
     let s11_mme = s11_cteid_mme_s (sgw_ue_at imsi s); s = upd_sgw_ue imsi (\<lambda>c. c) s in
     bindE (extract_u32 pkt) (\<lambda>(s1_ul_indirect, pkt).
     bindE (sgw_rem_itfid 1 s1_ul_indirect s) (\<lambda>s.
     bindE (append_bool True (clear_pkt pkt)) (\<lambda>pkt.
     bindE (prepend_gtp_hdr 2 6 (len16 pkt) s11_mme pkt) (\<lambda>pkt.
     bindE (udp_snd pkt) (\<lambda>rsp.
     Inr ([Reply src rsp], s)))))))"

end
