(* ===== verification/Epc_Messages.thy ===== *)
theory Epc_Messages
  imports Epc_Network Epc_Sgw Epc_Mme
begin

section \<open>Message formats and contracts between the components\<close>

text \<open>
  The control messages of S11 and S5 as bytes: header, then the items in the order the sender appends
  them and the receiver extracts them. The sender and the receiver of each message are separate
  programs; that both follow the format is what the lemmas about them show.
\<close>

definition create_req11 ::
  "gtp \<Rightarrow> u32 \<Rightarrow> u64 \<Rightarrow> u8 \<Rightarrow> string \<Rightarrow> int \<Rightarrow> u64 \<Rightarrow> u64 \<Rightarrow> u8 list" where
  "create_req11 h t imsi b ip port apn tai =
     gtp_bytes h @ le_word 4 t @ le_word 8 imsi @ u8_bytes b @ string_bytes ip @ le_int port @
     le_word 8 apn @ le_word 8 tai"

definition create_rsp11 :: "gtp \<Rightarrow> u32 \<Rightarrow> string \<Rightarrow> u32 \<Rightarrow> u32 \<Rightarrow> u32 \<Rightarrow> u8 list" where
  "create_rsp11 h t ip s1_ul s5_ul s5_dl =
     gtp_bytes h @ le_word 4 t @ string_bytes ip @ le_word 4 s1_ul @ le_word 4 s5_ul @ le_word 4 s5_dl"

definition create_req5 :: "gtp \<Rightarrow> u32 \<Rightarrow> u64 \<Rightarrow> u8 \<Rightarrow> u32 \<Rightarrow> u64 \<Rightarrow> u64 \<Rightarrow> u8 list" where
  "create_req5 h t imsi b s5_dl apn tai =
     gtp_bytes h @ le_word 4 t @ le_word 8 imsi @ u8_bytes b @ le_word 4 s5_dl @ le_word 8 apn @ le_word 8 tai"

definition create_rsp5 :: "gtp \<Rightarrow> u32 \<Rightarrow> u8 \<Rightarrow> u32 \<Rightarrow> string \<Rightarrow> u8 list" where
  "create_rsp5 h t b s5_ul ip = gtp_bytes h @ le_word 4 t @ u8_bytes b @ le_word 4 s5_ul @ string_bytes ip"

definition modify_req :: "gtp \<Rightarrow> u8 \<Rightarrow> u32 \<Rightarrow> string \<Rightarrow> int \<Rightarrow> u8 list" where
  "modify_req h b s1_dl ip port = gtp_bytes h @ u8_bytes b @ le_word 4 s1_dl @ string_bytes ip @ le_int port"

text \<open>Detach on S11 and S5, and every response that carries one \<open>bool\<close>.\<close>

definition detach_req :: "gtp \<Rightarrow> u8 \<Rightarrow> u64 \<Rightarrow> u8 list" where
  "detach_req h b tai = gtp_bytes h @ u8_bytes b @ le_word 8 tai"

definition bool_rsp :: "gtp \<Rightarrow> bool \<Rightarrow> u8 list" where
  "bool_rsp h res = gtp_bytes h @ bool_bytes res"

definition teid_msg :: "gtp \<Rightarrow> u32 \<Rightarrow> u8 list" where
  "teid_msg h t = gtp_bytes h @ le_word 4 t"

definition tunnel_rsp :: "gtp \<Rightarrow> bool \<Rightarrow> u32 \<Rightarrow> u8 list" where
  "tunnel_rsp h res t = gtp_bytes h @ bool_bytes res @ le_word 4 t"

lemmas message_defs = create_req11_def create_rsp11_def create_req5_def create_rsp5_def
  modify_req_def detach_req_def bool_rsp_def teid_msg_def tunnel_rsp_def

text \<open>An address that fits everywhere: no NUL, at most 15 characters.\<close>

definition short_ip :: "string \<Rightarrow> bool" where
  "short_ip s \<longleftrightarrow> nul_free s \<and> length s \<le> 15"

lemma short_ipD: "short_ip s \<Longrightarrow> nul_free s" "short_ip s \<Longrightarrow> length s \<le> 15"
  by (simp_all add: short_ip_def)

subsection \<open>A process behind a socket\<close>

text \<open>
  A server with state \<open>s\<close> that handles one datagram per turn, seen by a client that waits for the
  answer: \<open>None\<close> is a process that has exited, and no answer is the receive timeout (result -1).
\<close>

fun replies :: "udp_out list \<Rightarrow> u8 list list" where
  "replies [] = []"
| "replies (Reply a m # os) = m # replies os"
| "replies (Forward a m # os) = replies os"

definition call_udp ::
  "(sock_addr \<times> rx \<Rightarrow> 's \<Rightarrow> (udp_out list \<times> 's) res) \<Rightarrow> sock_addr \<Rightarrow> u8 list \<Rightarrow> 's option \<Rightarrow> rx \<times> 's option" where
  "call_udp turn src req st =
     (case st of
        None \<Rightarrow> (Rx_fail [] (-1), None)
      | Some s \<Rightarrow>
          (case turn (src, Rx req) s of
             Inl _ \<Rightarrow> (Rx_fail [] (-1), None)
           | Inr (os, s) \<Rightarrow> (case replies os of [] \<Rightarrow> Rx_fail [] (-1) | m # _ \<Rightarrow> Rx m, Some s)))"

lemma call_udp_reply:
  "turn (src, Rx req) s = Inr ([Reply a m], s') \<Longrightarrow> call_udp turn src req (Some s) = (Rx m, Some s')"
  by (simp add: call_udp_def)

subsection \<open>What the SGW relies on in a PGW\<close>

text \<open>
  \<open>live w\<close>: the PGW runs and its tables are consistent; \<open>sess w\<close>: its sessions, from S5 endpoint
  id to IMSI; \<open>ip imsi w\<close>: the address it assigns. A client uses one endpoint id per IMSI.
\<close>

definition one_teid :: "(u32 \<rightharpoonup> u64) \<Rightarrow> u32 \<Rightarrow> u64 \<Rightarrow> bool" where
  "one_teid tab t imsi \<longleftrightarrow> (\<forall>t'. tab t' = Some imsi \<longrightarrow> t' = t)"

locale pgw_service =
  fixes pgw :: "'w net"
    and dst :: sock_addr
    and live :: "'w \<Rightarrow> bool"
    and sess :: "'w \<Rightarrow> (u32 \<rightharpoonup> u64)"
    and ip :: "u64 \<Rightarrow> 'w \<Rightarrow> string"
  assumes create: "live w \<Longrightarrow> imsi \<noteq> 0 \<Longrightarrow> short_ip (ip imsi w) \<Longrightarrow> one_teid (sess w) t imsi \<Longrightarrow>
      msg_type_g h = 1 \<Longrightarrow>
      \<exists>h' w'. pgw dst (create_req5 h t imsi b t apn tai) w = (Rx (create_rsp5 h' t b t (ip imsi w)), w') \<and>
        live w' \<and> sess w' = (sess w)(t \<mapsto> imsi) \<and> (\<forall>i. ip i w' = ip i w)"
    and detach: "live w \<Longrightarrow> sess w (teid h) = Some imsi \<Longrightarrow> msg_type_g h = 4 \<Longrightarrow>
      \<exists>h' w'. pgw dst (detach_req h b tai) w = (Rx (bool_rsp h' True), w') \<and>
        live w' \<and> sess w' = (sess w)(teid h := None) \<and> (\<forall>i. ip i w' = ip i w)"

subsection \<open>What the MME relies on in an SGW and in an HSS\<close>

locale session_gw =
  fixes sgw :: "'w peer"
    and live :: "'w \<Rightarrow> bool"
    and sess :: "'w \<Rightarrow> (u32 \<rightharpoonup> u64)"
    and ip :: "u64 \<Rightarrow> 'w \<Rightarrow> string"
  assumes create: "live w \<Longrightarrow> imsi \<noteq> 0 \<Longrightarrow> short_ip (ip imsi w) \<Longrightarrow> one_teid (sess w) t imsi \<Longrightarrow>
      msg_type_g h = 1 \<Longrightarrow>
      \<exists>h' w'. sgw (create_req11 h t imsi b g_pgw_s5_ip_addr g_pgw_s5_port apn tai) w =
          (Rx (create_rsp11 h' t (ip imsi w) t t t), w') \<and>
        live w' \<and> sess w' = (sess w)(t \<mapsto> imsi) \<and> (\<forall>i. ip i w' = ip i w)"
    and modify: "live w \<Longrightarrow> sess w (teid h) = Some imsi \<Longrightarrow> msg_type_g h = 2 \<Longrightarrow> short_ip enb_ip \<Longrightarrow>
      - (2 ^ 31) \<le> enb_port \<Longrightarrow> enb_port < 2 ^ 31 \<Longrightarrow>
      \<exists>h' w'. sgw (modify_req h b s1_dl enb_ip enb_port) w = (Rx (bool_rsp h' True), w') \<and>
        live w' \<and> sess w' = sess w \<and> (\<forall>i. ip i w' = ip i w)"
    and detach: "live w \<Longrightarrow> sess w (teid h) = Some imsi \<Longrightarrow> msg_type_g h = 3 \<Longrightarrow>
      \<exists>h' w'. sgw (detach_req h b tai) w = (Rx (bool_rsp h' True), w') \<and>
        live w' \<and> sess w' = (sess w)(teid h := None) \<and> (\<forall>i. ip i w' = ip i w)"

text \<open>\<open>prov imsi key rand w\<close>: the subscriber is provisioned with this key and random number.\<close>

locale auth_center =
  fixes hss :: "'w peer"
    and prov :: "u64 \<Rightarrow> u64 \<Rightarrow> u64 \<Rightarrow> 'w \<Rightarrow> bool"
  assumes vector: "prov imsi key rand_num w \<Longrightarrow> msg_type_d h = 1 \<Longrightarrow>
      \<exists>h'. hss (autn_req_bytes h imsi plmn n nw_type) w =
        (case autn_vector key rand_num plmn of (autn_num, xres, k_asme) \<Rightarrow>
           (Rx (autn_rsp_bytes h' autn_num rand_num xres k_asme), w))"

end
