(* ===== verification/Epc_Ran.thy ===== *)
theory Epc_Ran
  imports Epc_Telecom Epc_Security Epc_Network Epc_Hss
begin

section \<open>Radio access network (ran.h, ran.cpp, tun.cpp)\<close>

text \<open>
  Class \<open>Ran\<close> plays a UE with its eNodeB: the context \<open>RanContext\<close>, the addresses learned from the
  core, the packet it works on and the handover state. Class \<open>TrafficMonitor\<close> carries user data
  between the tunnel device and the SGW. The connection to the MME is a pair of functions on the
  state \<open>w\<close> of the world outside: \<open>snd m w\<close> sends a message, \<open>rcv w\<close> waits for one. The members that no
  constructor initialises are arguments of \<open>new_ran\<close>. Commands for the shell are strings.
\<close>

subsection \<open>State\<close>

record ran_ctx =
  emm_state_r :: int
  ecm_state_r :: int
  imsi_r :: u64
  guti_r :: u64
  ip_addr_r :: string
  enodeb_s1ap_ue_id_r :: u32
  mme_s1ap_ue_id_r :: u32
  tai_r :: u64
  tai_list_r :: "u64 list"
  tau_timer_r :: u64
  key_r :: u64
  k_asme_r :: u64
  ksi_asme_r :: u64
  k_nas_enc_r :: u64
  k_nas_int_r :: u64
  nas_enc_algo_r :: u64
  nas_int_algo_r :: u64
  count_r :: u64
  bearer_r :: u64
  dir_r :: u64
  apn_in_use_r :: u64
  eps_bearer_id_r :: u8
  e_rab_id_r :: u8
  s1_uteid_ul_r :: u32
  s1_uteid_dl_r :: u32
  mcc_r :: u16
  mnc_r :: u16
  plmn_id_r :: u16
  msisdn_r :: u64
  nw_capability_r :: u16
  eNodeB_id_r :: u16
  handover_target_eNodeB_id_r :: u16
  inHandover_r :: bool
  indirect_s1_uteid_ul_r :: u32

text \<open>The last four members of \<open>RanContext\<close> start with whatever memory holds.\<close>

definition new_ran_ctx :: "u16 \<times> u16 \<times> bool \<times> u32 \<Rightarrow> ran_ctx res" where
  "new_ran_ctx junk =
     (case junk of (enb, target, ho, indirect) \<Rightarrow>
     bindE (get_plmn_id 1 1) (\<lambda>plmn.
     Inr \<lparr>emm_state_r = 0, ecm_state_r = 0, imsi_r = 0, guti_r = 0, ip_addr_r = '''',
          enodeb_s1ap_ue_id_r = 0, mme_s1ap_ue_id_r = 0, tai_r = 1, tai_list_r = [],
          tau_timer_r = 0, key_r = 0, k_asme_r = 0, ksi_asme_r = 7, k_nas_enc_r = 0,
          k_nas_int_r = 0, nas_enc_algo_r = 0, nas_int_algo_r = 0, count_r = 1, bearer_r = 0,
          dir_r = 0, apn_in_use_r = 0, eps_bearer_id_r = 0, e_rab_id_r = 0, s1_uteid_ul_r = 0,
          s1_uteid_dl_r = 0, mcc_r = 1, mnc_r = 1, plmn_id_r = plmn, msisdn_r = 0,
          nw_capability_r = 1, eNodeB_id_r = enb, handover_target_eNodeB_id_r = target,
          inHandover_r = ho, indirect_s1_uteid_ul_r = indirect\<rparr>))"

definition ran_ctx_init :: "u32 \<Rightarrow> ran_ctx \<Rightarrow> ran_ctx res" where
  "ran_ctx_init arg c =
     (let c = c\<lparr>enodeb_s1ap_ue_id_r := arg, key_r := ucast arg, msisdn_r := 9000000000 + ucast arg\<rparr>
      in bindE (get_imsi (plmn_id_r c) (msisdn_r c)) (\<lambda>imsi. Inr (c\<lparr>imsi_r := imsi\<rparr>)))"

record epc_addrs =
  mme_port :: int
  sgw_s1_port :: int
  mme_ip_addr :: string
  sgw_s1_ip_addr :: string

definition new_epc_addrs :: epc_addrs where
  "new_epc_addrs = \<lparr>mme_port = g_mme_port, sgw_s1_port = 0, mme_ip_addr = g_mme_ip_addr,
                    sgw_s1_ip_addr = ''''\<rparr>"

record ran =
  epc_addrs_of :: epc_addrs
  pkt_of :: packet
  inHandover :: bool
  indirect_s1_uteid_ul :: u32
  eNodeB_id :: u16
  handover_target_eNodeB_id :: u16
  handover_state :: int
  ctx :: ran_ctx

type_synonym ran_junk = "(bool \<times> u32 \<times> u16 \<times> u16 \<times> int) \<times> (u16 \<times> u16 \<times> bool \<times> u32)"

definition new_ran :: "fresh_hdrs \<Rightarrow> ran_junk \<Rightarrow> ran res" where
  "new_ran fresh junk =
     (case junk of ((ho, indirect, enb, target, hs), cj) \<Rightarrow>
     bindE (local_packet fresh) (\<lambda>pkt.
     bindE (new_ran_ctx cj) (\<lambda>c.
     Inr \<lparr>epc_addrs_of = new_epc_addrs, pkt_of = pkt, inHandover = ho, indirect_s1_uteid_ul = indirect,
          eNodeB_id = enb, handover_target_eNodeB_id = target, handover_state = hs, ctx = c\<rparr>)))"

definition ran_init :: "int \<Rightarrow> ran \<Rightarrow> ran res" where
  "ran_init arg u = bindE (ran_ctx_init (word_of_int arg) (ctx u)) (\<lambda>c. Inr (u\<lparr>ctx := c\<rparr>))"

definition ran_conn_mme :: "ext_lib \<Rightarrow> ran \<Rightarrow> sock_addr res" where
  "ran_conn_mme X u =
     sctp_client_init X (mme_ip_addr (epc_addrs_of u)) (mme_port (epc_addrs_of u))"

subsection \<open>Traffic monitor\<close>

record uplink_info =
  s1_uteid_ul_u :: u32
  sgw_s1_ip_addr_u :: string
  sgw_s1_port_u :: int

type_synonym traf_mon = "string \<rightharpoonup> uplink_info"

definition update_uplink_info :: "string \<Rightarrow> u32 \<Rightarrow> string \<Rightarrow> int \<Rightarrow> traf_mon \<Rightarrow> traf_mon" where
  "update_uplink_info ip_addr s1_ul sgw_ip sgw_port tm =
     tm(ip_addr \<mapsto> \<lparr>s1_uteid_ul_u = s1_ul, sgw_s1_ip_addr_u = sgw_ip, sgw_s1_port_u = sgw_port\<rparr>)"

definition get_uplink_info :: "string \<Rightarrow> traf_mon \<Rightarrow> (u32 \<times> string \<times> int) option" where
  "get_uplink_info ip_addr tm =
     (case tm ip_addr of
        None \<Rightarrow> None
      | Some u \<Rightarrow> Some (s1_uteid_ul_u u, sgw_s1_ip_addr_u u, sgw_s1_port_u u))"

definition tun_rcv :: "rx \<Rightarrow> packet \<Rightarrow> packet res" where
  "tun_rcv r pkt =
     (let pkt = clear_pkt pkt in
      case r of
        Rx bs \<Rightarrow> bindE (buf_write (data pkt) 0 (take 1024 bs)) (\<lambda>b.
          Inr (pkt\<lparr>data := b, data_ptr := 0, len := int (length (take 1024 bs))\<rparr>))
      | Rx_fail _ _ \<Rightarrow> Inl (Exit ''tun read error: tun_rcv''))"

definition tun_snd :: "packet \<Rightarrow> u8 list res" where
  "tun_snd pkt = bindE (copy_pkt pkt) pkt_wire"

definition tm_handle_uplink_udata :: "ext_lib \<Rightarrow> fresh_hdrs \<Rightarrow> rx \<Rightarrow> traf_mon \<Rightarrow> udp_out list res" where
  "tm_handle_uplink_udata X fresh r tm =
     bindE (local_packet fresh) (\<lambda>pkt.
     bindE (tun_rcv r pkt) (\<lambda>pkt.
     bindE (get_src_ip_addr X pkt) (\<lambda>ip_addr.
     case get_uplink_info ip_addr tm of
       None \<Rightarrow> Inr []
     | Some (s1_ul, sgw_ip, sgw_port) \<Rightarrow>
       bindE (set_server X sgw_ip sgw_port) (\<lambda>dst.
       bindE (prepend_gtp_hdr 1 1 (len16 pkt) s1_ul pkt) (\<lambda>pkt.
       bindE (udp_snd pkt) (\<lambda>m.
       Inr [Forward dst m]))))))"

definition tm_handle_downlink_udata :: "fresh_hdrs \<Rightarrow> rx \<Rightarrow> u8 list res" where
  "tm_handle_downlink_udata fresh r =
     bindE (local_packet fresh) (\<lambda>pkt.
     bindE (udp_server_rcv r pkt) (\<lambda>pkt.
     bindE (extract_gtp_hdr pkt) (\<lambda>pkt.
     bindE (truncate_pkt pkt) (\<lambda>pkt.
     tun_snd pkt))))"

subsection \<open>Attach\<close>

type_synonym 'w conn = "(u8 list \<Rightarrow> 'w \<Rightarrow> 'w) \<times> ('w \<Rightarrow> rx \<times> 'w)"

definition ran_initial_attach :: "'w conn \<Rightarrow> ran \<Rightarrow> 'w \<Rightarrow> (ran \<times> 'w) res" where
  "ran_initial_attach mme u w =
     (let c = ctx u in
     bindE (append_u64 (imsi_r c) (clear_pkt (pkt_of u))) (\<lambda>pkt.
     bindE (append_u64 (tai_r c) pkt) (\<lambda>pkt.
     bindE (append_u64 (ksi_asme_r c) pkt) (\<lambda>pkt.
     bindE (append_u16 (nw_capability_r c) pkt) (\<lambda>pkt.
     bindE (prepend_s1ap_hdr 1 (len16 pkt) (enodeb_s1ap_ue_id_r c) 0 pkt) (\<lambda>pkt.
     bindE (sctp_snd pkt) (\<lambda>m.
     Inr (u\<lparr>pkt_of := pkt\<rparr>, fst mme m w))))))))"

definition ran_authenticate :: "'w conn \<Rightarrow> ran \<Rightarrow> 'w \<Rightarrow> (bool \<times> ran \<times> 'w) res" where
  "ran_authenticate mme u w =
     (let (r, w) = snd mme w in
     bindE (sctp_deliver r (pkt_of u)) (\<lambda>pkt.
     if len pkt \<le> 0 then Inr (False, u\<lparr>pkt_of := pkt\<rparr>, w)
     else
       bindE (extract_s1ap_hdr pkt) (\<lambda>pkt.
       let c = (ctx u)\<lparr>mme_s1ap_ue_id_r := mme_s1ap_ue_id (s1ap_hdr pkt)\<rparr> in
       bindE (extract_u64 pkt) (\<lambda>(xautn_num, pkt).
       bindE (extract_u64 pkt) (\<lambda>(rand_num, pkt).
       bindE (extract_u64 pkt) (\<lambda>(ksi, pkt).
       let c = c\<lparr>ksi_asme_r := ksi\<rparr>;
           sqn = rand_num + 1;
           res = key_r c + sqn + rand_num;
           autn_num = res + 1 in
       if autn_num \<noteq> xautn_num then Inr (False, u\<lparr>pkt_of := pkt, ctx := c\<rparr>, w)
       else
         let ck = res + 2; ik = res + 3;
             c = c\<lparr>k_asme_r := ck + ik + sqn + ucast (plmn_id_r c)\<rparr> in
         bindE (append_u64 res (clear_pkt pkt)) (\<lambda>pkt.
         bindE (prepend_s1ap_hdr 2 (len16 pkt) (enodeb_s1ap_ue_id_r c) (mme_s1ap_ue_id_r c) pkt) (\<lambda>pkt.
         bindE (sctp_snd pkt) (\<lambda>m.
         Inr (True, u\<lparr>pkt_of := pkt, ctx := c\<rparr>, fst mme m w))))))))))"

definition ran_set_crypt_context :: "ran_ctx \<Rightarrow> ran_ctx" where
  "ran_set_crypt_context c =
     c\<lparr>k_nas_enc_r := k_asme_r c + nas_enc_algo_r c + count_r c + bearer_r c + dir_r c + 1\<rparr>"

definition ran_set_integrity_context :: "ran_ctx \<Rightarrow> ran_ctx" where
  "ran_set_integrity_context c =
     c\<lparr>k_nas_int_r := k_asme_r c + nas_int_algo_r c + count_r c + bearer_r c + dir_r c + 1\<rparr>"

definition ran_set_security :: "ext_lib \<Rightarrow> 'w conn \<Rightarrow> ran \<Rightarrow> 'w \<Rightarrow> (bool \<times> ran \<times> 'w) res" where
  "ran_set_security X mme u w =
     (let (r, w) = snd mme w in
     bindE (sctp_deliver r (pkt_of u)) (\<lambda>pkt.
     if len pkt \<le> 0 then Inr (False, u\<lparr>pkt_of := pkt\<rparr>, w)
     else
       bindE (extract_s1ap_hdr pkt) (\<lambda>pkt.
       bindE (rem_hmac pkt) (\<lambda>(hmac_xres, pkt).
       bindE (extract_u64 pkt) (\<lambda>(ksi, pkt).
       bindE (extract_u16 pkt) (\<lambda>(nw_cap, pkt).
       bindE (extract_u64 pkt) (\<lambda>(enc_algo, pkt).
       bindE (extract_u64 pkt) (\<lambda>(int_algo, pkt).
       let c = (ctx u)\<lparr>ksi_asme_r := ksi, nw_capability_r := nw_cap, nas_enc_algo_r := enc_algo,
                 nas_int_algo_r := int_algo\<rparr>;
           c = ran_set_integrity_context (ran_set_crypt_context c) in
       bindE (get_hmac X (data pkt) (len pkt) (k_nas_int_r c)) (\<lambda>hmac_res.
       if \<not> cmp_hmacs hmac_res hmac_xres then Inl (Exit ''hmac error: ran_setsecurity'')
       else
         bindE (append_bool True (clear_pkt pkt)) (\<lambda>pkt.
         bindE (crypt_enc X (k_nas_enc_r c) pkt) (\<lambda>pkt.
         bindE (add_hmac X (k_nas_int_r c) pkt) (\<lambda>pkt.
         bindE (prepend_s1ap_hdr 3 (len16 pkt) (enodeb_s1ap_ue_id_r c) (mme_s1ap_ue_id_r c) pkt) (\<lambda>pkt.
         bindE (sctp_snd pkt) (\<lambda>m.
         Inr (True, u\<lparr>pkt_of := pkt, ctx := c\<rparr>, fst mme m w)))))))))))))))"

definition ran_set_eps_session ::
  "ext_lib \<Rightarrow> 'w conn \<Rightarrow> ran \<Rightarrow> traf_mon \<Rightarrow> 'w \<Rightarrow> (bool \<times> ran \<times> traf_mon \<times> 'w) res" where
  "ran_set_eps_session X mme u tm w =
     (let (r, w) = snd mme w; c = ctx u in
     bindE (sctp_deliver r (pkt_of u)) (\<lambda>pkt.
     if len pkt \<le> 0 then Inr (False, u\<lparr>pkt_of := pkt\<rparr>, tm, w)
     else
       bindE (extract_s1ap_hdr pkt) (\<lambda>pkt.
       bindE (hmac_check X (k_nas_int_r c) pkt) (\<lambda>(res, pkt).
       if \<not> res then Inl (Exit ''hmac error: ran_setepssession'')
       else
         bindE (crypt_dec X (k_nas_enc_r c) pkt) (\<lambda>pkt.
         bindE (extract_u64 pkt) (\<lambda>(guti, pkt).
         bindE (extract_u8 pkt) (\<lambda>(eps_bearer_id, pkt).
         bindE (extract_u8 pkt) (\<lambda>(e_rab_id, pkt).
         bindE (extract_u32 pkt) (\<lambda>(s1_ul, pkt).
         bindE (extract_u64 pkt) (\<lambda>(k_enodeb, pkt).
         bindE (extract_u16 pkt) (\<lambda>(nw_cap, pkt).
         bindE (extract_int pkt) (\<lambda>(tai_list_size, pkt).
         bindE (extract_u64s tai_list_size pkt) (\<lambda>(tais, pkt).
         bindE (extract_u64 pkt) (\<lambda>(tau_timer, pkt).
         bindE (extract_string pkt) (\<lambda>(ip_addr, pkt).
         bindE (extract_string pkt) (\<lambda>(sgw_ip, pkt).
         bindE (extract_int pkt) (\<lambda>(sgw_port, pkt).
         bindE (extract_bool pkt) (\<lambda>(res, pkt).
         let c = c\<lparr>guti_r := guti, eps_bearer_id_r := eps_bearer_id, e_rab_id_r := e_rab_id,
                   s1_uteid_ul_r := s1_ul, nw_capability_r := nw_cap,
                   tai_list_r := tais, tau_timer_r := tau_timer, ip_addr_r := ip_addr\<rparr>;
             u = u\<lparr>epc_addrs_of := (epc_addrs_of u)\<lparr>sgw_s1_ip_addr := sgw_ip, sgw_s1_port := sgw_port\<rparr>\<rparr> in
         if \<not> res then Inr (False, u\<lparr>pkt_of := pkt, ctx := c\<rparr>, tm, w)
         else
           let tm = update_uplink_info (ip_addr_r c) (s1_uteid_ul_r c) sgw_ip sgw_port tm;
               c = c\<lparr>s1_uteid_dl_r := s1_uteid_ul_r c\<rparr> in
           bindE (append_u8 (eps_bearer_id_r c) (clear_pkt pkt)) (\<lambda>pkt.
           bindE (append_u32 (s1_uteid_dl_r c) pkt) (\<lambda>pkt.
           bindE (crypt_enc X (k_nas_enc_r c) pkt) (\<lambda>pkt.
           bindE (add_hmac X (k_nas_int_r c) pkt) (\<lambda>pkt.
           bindE (prepend_s1ap_hdr 4 (len16 pkt) (enodeb_s1ap_ue_id_r c) (mme_s1ap_ue_id_r c) pkt) (\<lambda>pkt.
           bindE (sctp_snd pkt) (\<lambda>m.
           Inr (True, u\<lparr>pkt_of := pkt, ctx := c\<lparr>emm_state_r := 1, ecm_state_r := 1\<rparr>\<rparr>, tm,
                fst mme m w)))))))))))))))))))))))))"

subsection \<open>Data transfer\<close>

text \<open>The commands that \<open>transfer_data\<close> hands to \<open>system\<close>; the port is the \<open>int\<close> of a 64-bit sum.\<close>

definition int_to_string :: "int \<Rightarrow> string" where
  "int_to_string v = (if v < 0 then CHR ''-'' # to_string (nat (- v)) else to_string (nat v))"

definition add_itf :: "int \<Rightarrow> string \<Rightarrow> string" where
  "add_itf itf_no ip_addr_sp = ''sudo ifconfig eth0:'' @ int_to_string itf_no @ '' '' @ ip_addr_sp"

definition ran_transfer_data :: "int \<Rightarrow> ran \<Rightarrow> string list" where
  "ran_transfer_data arg_rate u =
     (let rate = '' -b '' @ int_to_string arg_rate @ ''M'';
          mtu = '' -M '' @ int_to_string DATA_SIZE;
          dur = '' -t 300'';
          redir_err = '' 2>&1'';
          server_ip_addr = ''172.16.0.2'';
          server_port = sint (ucast (key_r (ctx u) + 55000) :: u32)
      in [add_itf (sint (ucast (key_r (ctx u)) :: u32)) (ip_addr_r (ctx u) @ ''/8''),
          ''iperf3 -B '' @ ip_addr_r (ctx u) @ '' -c '' @ server_ip_addr @ '' -p '' @
          int_to_string server_port @ rate @ mtu @ dur @ redir_err])"

subsection \<open>Handover\<close>

definition ran_initiate_handover :: "'w conn \<Rightarrow> ran \<Rightarrow> 'w \<Rightarrow> (ran \<times> 'w) res" where
  "ran_initiate_handover mme u w =
     (let c = (ctx u)\<lparr>eNodeB_id_r := 1, handover_target_eNodeB_id_r := 2\<rparr>;
          u = u\<lparr>handover_state := 1, ctx := c\<rparr> in
     bindE (append_int 0 (clear_pkt (pkt_of u))) (\<lambda>pkt.
     bindE (append_u16 (eNodeB_id u) pkt) (\<lambda>pkt.
     bindE (append_u16 (handover_target_eNodeB_id_r c) pkt) (\<lambda>pkt.
     bindE (append_u32 (enodeb_s1ap_ue_id_r c) pkt) (\<lambda>pkt.
     bindE (append_u32 (mme_s1ap_ue_id_r c) pkt) (\<lambda>pkt.
     bindE (prepend_s1ap_hdr 7 (len16 pkt) (enodeb_s1ap_ue_id_r c) (mme_s1ap_ue_id_r c) pkt) (\<lambda>pkt.
     bindE (sctp_snd pkt) (\<lambda>m.
     Inr (u\<lparr>pkt_of := pkt\<rparr>, fst mme m w)))))))))"

text \<open>The parameter \<open>pkt\<close> hides the member of that name in the next two and in \<open>request_tear_down\<close>.\<close>

definition ran_handle_handover :: "ext_lib \<Rightarrow> 'w conn \<Rightarrow> packet \<Rightarrow> ran \<Rightarrow> 'w \<Rightarrow> (ran \<times> 'w) res" where
  "ran_handle_handover X mme pkt u w =
     (let u = u\<lparr>handover_state := 2\<rparr> in
     bindE (extract_u16 pkt) (\<lambda>(t_enb, pkt).
     bindE (extract_u32 pkt) (\<lambda>(enb_id, pkt).
     bindE (extract_u32 pkt) (\<lambda>(mme_id, pkt).
     bindE (extract_u32 pkt) (\<lambda>(s1_ul, pkt).
     let c = (ctx u)\<lparr>enodeb_s1ap_ue_id_r := enb_id, mme_s1ap_ue_id_r := mme_id, s1_uteid_ul_r := s1_ul\<rparr> in
     bindE (append_u32 (enodeb_s1ap_ue_id_r c) (clear_pkt pkt)) (\<lambda>pkt.
     bindE (prepend_s1ap_hdr 8 (len16 pkt) (enodeb_s1ap_ue_id_r c) (mme_s1ap_ue_id_r c) pkt) (\<lambda>pkt.
     bindE (ran_conn_mme X u) (\<lambda>_.
     bindE (sctp_snd pkt) (\<lambda>m.
     Inr (u\<lparr>handover_state := 3, ctx := c\<rparr>, fst mme m w))))))))))"

definition ran_indirect_tunnel_complete :: "packet \<Rightarrow> ran \<Rightarrow> ran res" where
  "ran_indirect_tunnel_complete pkt u =
     bindE (extract_u32 pkt) (\<lambda>(s1_ul, pkt).
     Inr (u\<lparr>handover_state := 4, ctx := (ctx u)\<lparr>indirect_s1_uteid_ul_r := s1_ul\<rparr>\<rparr>))"

definition ran_complete_handover :: "'w conn \<Rightarrow> ran \<Rightarrow> 'w \<Rightarrow> (ran \<times> 'w) res" where
  "ran_complete_handover mme u w =
     (let c = ctx u; pkt = clear_pkt (pkt_of u) in
     bindE (prepend_s1ap_hdr 9 (len16 pkt) (enodeb_s1ap_ue_id_r c) (mme_s1ap_ue_id_r c) pkt) (\<lambda>pkt.
     bindE (sctp_snd pkt) (\<lambda>m.
     Inr (u\<lparr>pkt_of := pkt\<rparr>, fst mme m w))))"

definition ran_request_tear_down :: "'w conn \<Rightarrow> packet \<Rightarrow> ran \<Rightarrow> 'w \<Rightarrow> (ran \<times> 'w) res" where
  "ran_request_tear_down mme pkt u w =
     (let c = (ctx u)\<lparr>s1_uteid_ul_r := 0\<rparr> in
     bindE (append_u32 (indirect_s1_uteid_ul_r c) (clear_pkt pkt)) (\<lambda>pkt.
     bindE (prepend_s1ap_hdr 10 (len16 pkt) (enodeb_s1ap_ue_id_r c) (mme_s1ap_ue_id_r c) pkt) (\<lambda>pkt.
     bindE (sctp_snd pkt) (\<lambda>m.
     Inr (u\<lparr>ctx := c\<rparr>, fst mme m w)))))"

subsection \<open>Detach\<close>

definition ran_detach :: "ext_lib \<Rightarrow> 'w conn \<Rightarrow> ran \<Rightarrow> 'w \<Rightarrow> (bool \<times> ran \<times> 'w) res" where
  "ran_detach X mme u w =
     (let c = ctx u in
     bindE (append_u64 (guti_r c) (clear_pkt (pkt_of u))) (\<lambda>pkt.
     bindE (append_u64 (ksi_asme_r c) pkt) (\<lambda>pkt.
     bindE (append_u64 1 pkt) (\<lambda>pkt.
     bindE (crypt_enc X (k_nas_enc_r c) pkt) (\<lambda>pkt.
     bindE (add_hmac X (k_nas_int_r c) pkt) (\<lambda>pkt.
     bindE (prepend_s1ap_hdr 5 (len16 pkt) (enodeb_s1ap_ue_id_r c) (mme_s1ap_ue_id_r c) pkt) (\<lambda>pkt.
     bindE (sctp_snd pkt) (\<lambda>m.
     let (r, w) = snd mme (fst mme m w) in
     bindE (sctp_deliver r pkt) (\<lambda>pkt.
     if len pkt \<le> 0 then Inr (False, u\<lparr>pkt_of := pkt\<rparr>, w)
     else
       bindE (extract_s1ap_hdr pkt) (\<lambda>pkt.
       bindE (hmac_check X (k_nas_int_r c) pkt) (\<lambda>(res, pkt).
       if \<not> res then Inl (Exit ''hmac error: ran_detach'')
       else
         bindE (crypt_dec X (k_nas_enc_r c) pkt) (\<lambda>pkt.
         bindE (extract_bool pkt) (\<lambda>(res, pkt).
         Inr (res, u\<lparr>pkt_of := pkt\<rparr>, w))))))))))))))"

end
