(* ===== verification/Epc_Nas.thy ===== *)
theory Epc_Nas
  imports Epc_Messages Epc_Ran Epc_Mme_Server
begin

section \<open>NAS messages between the RAN and the MME\<close>

text \<open>
  The S1AP messages as bytes. A protected message carries the MAC of the cipher text and the cipher
  text; the security mode command is authenticated but not encrypted.
\<close>

definition attach_req :: "s1ap \<Rightarrow> u64 \<Rightarrow> u64 \<Rightarrow> u64 \<Rightarrow> u16 \<Rightarrow> u8 list" where
  "attach_req h imsi tai ksi cap =
     s1ap_bytes h @ le_word 8 imsi @ le_word 8 tai @ le_word 8 ksi @ le_word 2 cap"

definition autn_challenge :: "s1ap \<Rightarrow> u64 \<Rightarrow> u64 \<Rightarrow> u64 \<Rightarrow> u8 list" where
  "autn_challenge h autn rand_num ksi = s1ap_bytes h @ le_word 8 autn @ le_word 8 rand_num @ le_word 8 ksi"

definition autn_response :: "s1ap \<Rightarrow> u64 \<Rightarrow> u8 list" where
  "autn_response h res = s1ap_bytes h @ le_word 8 res"

definition smc_body :: "u64 \<Rightarrow> u16 \<Rightarrow> u64 \<Rightarrow> u64 \<Rightarrow> u8 list" where
  "smc_body ksi cap enc_algo int_algo =
     le_word 8 ksi @ le_word 2 cap @ le_word 8 enc_algo @ le_word 8 int_algo"

definition smc_msg :: "ext_lib \<Rightarrow> s1ap \<Rightarrow> u8 list \<Rightarrow> u8 list" where
  "smc_msg X h body = s1ap_bytes h @ mac X body @ body"

definition nas_msg :: "ext_lib \<Rightarrow> s1ap \<Rightarrow> u8 list \<Rightarrow> u8 list" where
  "nas_msg X h body = s1ap_bytes h @ mac X (cipher X body) @ cipher X body"

definition accept_body ::
  "u64 \<Rightarrow> u8 \<Rightarrow> u8 \<Rightarrow> u32 \<Rightarrow> u64 \<Rightarrow> u16 \<Rightarrow> u64 list \<Rightarrow> u64 \<Rightarrow> string \<Rightarrow> string \<Rightarrow> int \<Rightarrow> bool \<Rightarrow> u8 list" where
  "accept_body guti b e s1_ul k_enodeb cap tais timer ip sgw_ip sgw_port res =
     le_word 8 guti @ u8_bytes b @ u8_bytes e @ le_word 4 s1_ul @ le_word 8 k_enodeb @ le_word 2 cap @
     le_int (int (length tais)) @ u64s_bytes tais @ le_word 8 timer @ string_bytes ip @
     string_bytes sgw_ip @ le_int sgw_port @ bool_bytes res"

definition complete_body :: "u8 \<Rightarrow> u32 \<Rightarrow> u8 list" where
  "complete_body b s1_dl = u8_bytes b @ le_word 4 s1_dl"

definition detach_body :: "u64 \<Rightarrow> u64 \<Rightarrow> u64 \<Rightarrow> u8 list" where
  "detach_body guti ksi detach_type = le_word 8 guti @ le_word 8 ksi @ le_word 8 detach_type"

lemmas nas_defs = attach_req_def autn_challenge_def autn_response_def smc_body_def smc_msg_def
  nas_msg_def accept_body_def complete_body_def detach_body_def

subsection \<open>Sealing and opening\<close>

declare length_cipher [simp del]

lemma length_cipher_le: "crypto_ok X \<Longrightarrow> length (cipher X m) \<le> length m + 16"
  by (simp add: length_cipher)

lemma seal_views:
  assumes "crypto_ok X" and "length m \<le> 900"
  shows "crypt_enc X ke (view g s d m []) = Inr (view g s d [] (cipher X m))"
    and "add_hmac X ki (view g s d [] (cipher X m)) = Inr (view g s d (mac X (cipher X m)) (cipher X m))"
    and "prepend_s1ap_hdr t l e i (view g s d (mac X (cipher X m)) (cipher X m)) =
      Inr (view g (s1ap_init t l e i s) d (s1ap_bytes (s1ap_init t l e i s) @ mac X (cipher X m)) (cipher X m))"
    and "sctp_snd (view g (s1ap_init t l e i s) d (s1ap_bytes (s1ap_init t l e i s) @ mac X (cipher X m)) (cipher X m)) =
      Inr (nas_msg X (s1ap_init t l e i s) m)"
    and "len16 (view g s d (mac X (cipher X m)) (cipher X m)) = of_nat (20 + length (cipher X m))"
  using assms length_cipher_le [of X m] by (simp_all add: nas_msg_def)

lemma open_views:
  assumes "crypto_ok X" and "length m \<le> 900"
  shows "sctp_deliver (Rx (nas_msg X h m)) p = Inr (view (gtp_hdr p) (s1ap_hdr p) (diameter_hdr p) [] (nas_msg X h m))"
    and "extract_s1ap_hdr (view g s d [] (nas_msg X h m)) =
      Inr (view g h d (s1ap_bytes h) (mac X (cipher X m) @ cipher X m))"
    and "copy_pkt (view g h d (s1ap_bytes h) (mac X (cipher X m) @ cipher X m)) =
      Inr (view g h d (s1ap_bytes h) (mac X (cipher X m) @ cipher X m))"
    and "hmac_check X ki (view g h d (s1ap_bytes h) (mac X (cipher X m) @ cipher X m)) =
      Inr (True, view g h d [] (cipher X m))"
    and "crypt_dec X ke (view g h d [] (cipher X m)) = Inr (view g h d [] m)"
  using assms length_cipher_le [of X m] by (simp_all add: nas_msg_def)

lemma open_or_exit_view:
  assumes "crypto_ok X" and "length m \<le> 900"
  shows "open_or_exit X who ke ki (view g h d (s1ap_bytes h) (mac X (cipher X m) @ cipher X m)) = Inr (view g h d [] m)"
  using open_views [OF assms] by (simp add: open_or_exit_def)

lemma nas_msg_nonempty: "crypto_ok X \<Longrightarrow> 0 < length (nas_msg X h m)"
  by (simp add: nas_msg_def)

text \<open>A message whose MAC is wrong stops the receiver.\<close>

lemma open_or_exit_forged:
  assumes "crypto_ok X" and "length tag = 20" and "length c \<le> 900" and "tag \<noteq> mac X c"
  shows "open_or_exit X who ke ki (view g h d (s1ap_bytes h) (tag @ c)) = Inl (Exit (''hmac failure: '' @ who))"
  using assms hmac_check_view [of X tag "s1ap_bytes h" c ki g h d] by (simp add: open_or_exit_def)

end
