(* ===== verification/Epc_Sgw_Server.thy ===== *)
theory Epc_Sgw_Server
  imports Epc_Sgw Epc_Hss
begin

section \<open>The SGW server (sgw_server.cpp)\<close>

text \<open>
  Three threads serve the S11, S1 and S5 sockets. A turn receives one datagram, strips the GTP header
  and dispatches on the message type; the handler works on a copy of the thread's packet. A thread
  is \<open>serve\<close> of its turn over the datagrams that arrive.
\<close>

definition sgw_s11_turn ::
  "ext_lib \<Rightarrow> 'w net \<Rightarrow> sock_addr \<times> rx \<Rightarrow> packet \<times> sgw \<times> 'w \<Rightarrow> (udp_out list \<times> packet \<times> sgw \<times> 'w) res" where
  "sgw_s11_turn X pgw m st =
     (case m of (src, r) \<Rightarrow> case st of (pkt, s, w) \<Rightarrow>
     bindE (udp_server_rcv r pkt) (\<lambda>pkt.
     bindE (extract_gtp_hdr pkt) (\<lambda>pkt.
     let msg_type = msg_type_g (gtp_hdr pkt) in
     if msg_type = 1 then
       bindE (copy_pkt pkt) (\<lambda>p.
       bindE (sgw_handle_create_session X pgw src p s w) (\<lambda>(o1, s, w). Inr (o1, pkt, s, w)))
     else if msg_type = 2 then
       bindE (copy_pkt pkt) (\<lambda>p.
       bindE (sgw_handle_modify_bearer src p s) (\<lambda>(o1, s). Inr (o1, pkt, s, w)))
     else if msg_type = 3 then
       bindE (copy_pkt pkt) (\<lambda>p.
       bindE (sgw_handle_detach X pgw src p s w) (\<lambda>(o1, s, w). Inr (o1, pkt, s, w)))
     else if msg_type = 4 then
       bindE (copy_pkt pkt) (\<lambda>p.
       bindE (sgw_handle_indirect_tunnel_setup src p s) (\<lambda>(o1, s). Inr (o1, pkt, s, w)))
     else if msg_type = 5 then
       bindE (copy_pkt pkt) (\<lambda>p.
       bindE (sgw_handle_handover_completion src p s) (\<lambda>(o1, s). Inr (o1, pkt, s, w)))
     else if msg_type = 6 then
       bindE (copy_pkt pkt) (\<lambda>p.
       bindE (sgw_handle_indirect_tunnel_teardown src p s) (\<lambda>(o1, s). Inr (o1, pkt, s, w)))
     else Inr ([], pkt, s, w))))"

definition sgw_handle_s11_traffic ::
  "ext_lib \<Rightarrow> 'w net \<Rightarrow> fresh_hdrs \<Rightarrow> (sock_addr \<times> rx) list \<Rightarrow> sgw \<Rightarrow> 'w \<Rightarrow>
   (udp_out list \<times> packet \<times> sgw \<times> 'w) res" where
  "sgw_handle_s11_traffic X pgw fresh ms s w =
     bindE (local_packet fresh) (\<lambda>pkt.
     bindE (set_client X g_sgw_s5_ip_addr) (\<lambda>_.
     serve (sgw_s11_turn X pgw) ms (pkt, s, w)))"

definition sgw_s1_turn ::
  "ext_lib \<Rightarrow> sock_addr \<times> rx \<Rightarrow> packet \<times> sgw \<Rightarrow> (udp_out list \<times> packet \<times> sgw) res" where
  "sgw_s1_turn X m st =
     (case m of (src, r) \<Rightarrow> case st of (pkt, s) \<Rightarrow>
     bindE (udp_server_rcv r pkt) (\<lambda>pkt.
     bindE (extract_gtp_hdr pkt) (\<lambda>pkt.
     if msg_type_g (gtp_hdr pkt) = 1 then
       bindE (copy_pkt pkt) (\<lambda>p.
       bindE (sgw_handle_uplink_udata X p s) (\<lambda>o1. Inr (o1, pkt, s)))
     else Inr ([], pkt, s))))"

definition sgw_handle_s1_traffic ::
  "ext_lib \<Rightarrow> fresh_hdrs \<Rightarrow> (sock_addr \<times> rx) list \<Rightarrow> sgw \<Rightarrow> (udp_out list \<times> packet \<times> sgw) res" where
  "sgw_handle_s1_traffic X fresh ms s =
     bindE (local_packet fresh) (\<lambda>pkt.
     bindE (set_client X g_sgw_s5_ip_addr) (\<lambda>_.
     serve (sgw_s1_turn X) ms (pkt, s)))"

definition sgw_s5_turn ::
  "ext_lib \<Rightarrow> sock_addr \<times> rx \<Rightarrow> packet \<times> sgw \<Rightarrow> (udp_out list \<times> packet \<times> sgw) res" where
  "sgw_s5_turn X m st =
     (case m of (src, r) \<Rightarrow> case st of (pkt, s) \<Rightarrow>
     bindE (udp_server_rcv r pkt) (\<lambda>pkt.
     bindE (extract_gtp_hdr pkt) (\<lambda>pkt.
     if msg_type_g (gtp_hdr pkt) = 3 then
       bindE (copy_pkt pkt) (\<lambda>p.
       bindE (sgw_handle_downlink_udata X p s) (\<lambda>o1. Inr (o1, pkt, s)))
     else Inr ([], pkt, s))))"

definition sgw_handle_s5_traffic ::
  "ext_lib \<Rightarrow> fresh_hdrs \<Rightarrow> (sock_addr \<times> rx) list \<Rightarrow> sgw \<Rightarrow> (udp_out list \<times> packet \<times> sgw) res" where
  "sgw_handle_s5_traffic X fresh ms s =
     bindE (local_packet fresh) (\<lambda>pkt.
     bindE (set_client X g_sgw_s1_ip_addr) (\<lambda>_.
     serve (sgw_s5_turn X) ms (pkt, s)))"

end
