(* ===== verification/Epc_Sgw_Session.thy ===== *)
theory Epc_Sgw_Session
  imports Epc_Sgw_Server Epc_Messages
begin

section \<open>The SGW: sessions, bearers, handover\<close>

text \<open>
  The effect of each S11 message on the SGW when the PGW answers, branch by branch; the invariant of
  the tables; and, over any PGW that keeps its contract, the contract of the SGW towards the MME.
\<close>

subsection \<open>Effect of the S11 messages\<close>

definition sgw_created :: "u32 \<Rightarrow> u64 \<Rightarrow> u8 \<Rightarrow> string \<Rightarrow> int \<Rightarrow> u64 \<Rightarrow> u64 \<Rightarrow> u32 \<Rightarrow> u32 \<Rightarrow> sgw \<Rightarrow> sgw" where
  "sgw_created t imsi b pgw_ip port apn tai s5_cul s5_ul s =
     s\<lparr>s11_id := (s11_id s)(t \<mapsto> imsi), s1_id := (s1_id s)(t \<mapsto> imsi), s5_id := (s5_id s)(t \<mapsto> imsi),
       ue_ctx_s := modify_at new_sgw_ue (ue_ctx_s s) imsi
         (\<lambda>c. (sgw_ue_init tai apn b t t t t t pgw_ip port c)\<lparr>tai_s := tai, s5_uteid_ul_s := s5_ul, s5_cteid_ul_s := s5_cul\<rparr>)\<rparr>"

lemma upd_sgw_ue_twice [simp]: "upd_sgw_ue i f (upd_sgw_ue i g s) = upd_sgw_ue i (f \<circ> g) s"
  by (simp add: upd_sgw_ue_def modify_at_def)

lemma sgw_create_turn:
  assumes "msg_type_g h = 1" and "short_ip pgw_ip" and "- (2 ^ 31) \<le> port" and "port < 2 ^ 31"
    and "set_inet_sock_addr X pgw_ip port = Inr a" and "short_ip ip"
    and "pgw a (create_req5 (gtp_with 2 1 33 0 h) t imsi b t apn tai) w = (Rx (create_rsp5 h' t' b' s5_ul ip), w')"
  shows "sgw_s11_turn X pgw (src, Rx (create_req11 h t imsi b pgw_ip port apn tai)) (pkt, s, w) =
    Inr ([Reply src (create_rsp11 (gtp_with 2 1 (of_nat (20 + length ip)) t h') t ip t s5_ul t)],
         view h (s1ap_hdr pkt) (diameter_hdr pkt) (gtp_bytes h)
           (drop 16 (create_req11 h t imsi b pgw_ip port apn tai)),
         sgw_created t imsi b pgw_ip port apn tai t' s5_ul s, w')"
  using assms
  by (simp add: sgw_s11_turn_def sgw_handle_create_session_def message_defs item_ext_view item_app_view
      Let_def short_ip_def sgw_update_itfid_def sgw_created_def set_server_def comp_def)
     (simp add: upd_sgw_ue_def modify_at_def sgw_ue_init_def)

definition sgw_modified :: "u64 \<Rightarrow> u32 \<Rightarrow> string \<Rightarrow> int \<Rightarrow> sgw \<Rightarrow> sgw" where
  "sgw_modified imsi s1_dl enb_ip enb_port =
     upd_sgw_ue imsi (\<lambda>c. c\<lparr>s1_uteid_dl_s := s1_dl, enodeb_ip_addr_s := enb_ip, enodeb_port_s := enb_port\<rparr>)"

lemma sgw_modify_turn:
  assumes "msg_type_g h = 2" and "s11_id s (teid h) = Some imsi" and "imsi \<noteq> 0" and "short_ip enb_ip"
    and "- (2 ^ 31) \<le> enb_port" and "enb_port < 2 ^ 31"
  shows "sgw_s11_turn X pgw (src, Rx (modify_req h b s1_dl enb_ip enb_port)) (pkt, s, w) =
    Inr ([Reply src (bool_rsp (gtp_with 2 2 1 (s11_cteid_mme_s (sgw_ue_at imsi s)) h) True)],
         view h (s1ap_hdr pkt) (diameter_hdr pkt) (gtp_bytes h) (drop 16 (modify_req h b s1_dl enb_ip enb_port)),
         sgw_modified imsi s1_dl enb_ip enb_port s, w)"
  using assms
  by (simp add: sgw_s11_turn_def sgw_handle_modify_bearer_def message_defs item_ext_view item_app_view
      Let_def short_ip_def sgw_get_imsi_def sgw_modified_def upd_sgw_ue_def sgw_ue_at_def)

definition sgw_detached :: "u64 \<Rightarrow> sgw \<Rightarrow> sgw" where
  "sgw_detached imsi s =
     (let c = sgw_ue_at imsi s
      in s\<lparr>s11_id := (s11_id s)(s11_cteid_sgw_s c := None), s1_id := (s1_id s)(s1_uteid_ul_s c := None),
           s5_id := (s5_id s)(s5_uteid_dl_s c := None), ue_ctx_s := (ue_ctx_s s)(imsi := None)\<rparr>)"

lemma sgw_detach_turn:
  assumes "msg_type_g h = 3" and "s11_id s (teid h) = Some imsi" and "imsi \<noteq> 0"
    and "ue_ctx_s s imsi = Some c"
    and "set_inet_sock_addr X (pgw_s5_ip_addr_s c) (pgw_s5_port_s c) = Inr a"
    and "pgw a (detach_req (gtp_with 2 4 9 (s5_cteid_ul_s c) h) b tai) w = (Rx (bool_rsp h' res), w')"
  shows "sgw_s11_turn X pgw (src, Rx (detach_req h b tai)) (pkt, s, w) =
    Inr (if res then [Reply src (bool_rsp (gtp_with 2 3 1 (s11_cteid_mme_s c) h') True)] else [],
         view h (s1ap_hdr pkt) (diameter_hdr pkt) (gtp_bytes h) (drop 16 (detach_req h b tai)),
         if res then sgw_detached imsi s else s, w')"
  using assms
  by (cases res)
    (simp_all add: sgw_s11_turn_def sgw_handle_detach_def message_defs item_ext_view item_app_view
      Let_def sgw_get_imsi_def sgw_rem_itfid_def sgw_rem_uectx_def sgw_detached_def sgw_ue_at_def set_server_def)

lemma sgw_unknown_teid:
  assumes "at_or 0 (s11_id s) (teid h) = 0"
  shows "msg_type_g h = 2 \<Longrightarrow> short_ip enb_ip \<Longrightarrow>
      sgw_s11_turn X pgw (src, Rx (modify_req h b s1_dl enb_ip enb_port)) (pkt, s, w) =
      Inl (Exit ''Zero imsi: sgw_handlemodifybearer'')"
    and "msg_type_g h = 3 \<Longrightarrow>
      sgw_s11_turn X pgw (src, Rx (detach_req h b tai)) (pkt, s, w) =
      Inl (Exit ''Zero imsi: sgw_handledetach'')"
  using assms
  by (simp_all add: sgw_s11_turn_def sgw_handle_modify_bearer_def sgw_handle_detach_def message_defs
      item_ext_view sgw_get_imsi_def Let_def short_ip_def)

subsection \<open>Handover messages\<close>

definition sgw_tunnelled :: "u64 \<Rightarrow> u32 \<Rightarrow> sgw \<Rightarrow> sgw" where
  "sgw_tunnelled imsi s1_dl s =
     s\<lparr>s1_id := (s1_id s)(s11_cteid_mme_s (sgw_ue_at imsi s) + 1 \<mapsto> imsi),
       ue_ctx_s := op_idx new_sgw_ue (ue_ctx_s s) imsi,
       ho_ue_ctx := modify_at new_sgw_ue (ho_ue_ctx s) (ucast imsi) (\<lambda>c. c\<lparr>s1_uteid_dl_s := s1_dl\<rparr>)\<rparr>"

lemma upd_sgw_ue_id: "upd_sgw_ue imsi (\<lambda>c. c) s = s\<lparr>ue_ctx_s := op_idx new_sgw_ue (ue_ctx_s s) imsi\<rparr>"
  by (simp add: upd_sgw_ue_def modify_at_def op_idx_def)

lemma sgw_tunnel_turn:
  assumes "msg_type_g h = 4" and "at_or 0 (s11_id s) (teid h) = imsi"
  defines "t \<equiv> s11_cteid_mme_s (sgw_ue_at imsi s)"
  shows "sgw_s11_turn X pgw (src, Rx (teid_msg h s1_dl)) (pkt, s, w) =
    Inr ([Reply src (tunnel_rsp (gtp_with 2 4 5 t h) True (t + 1))],
         view h (s1ap_hdr pkt) (diameter_hdr pkt) (gtp_bytes h) (le_word 4 s1_dl),
         sgw_tunnelled imsi s1_dl s, w)"
  using assms
  by (simp add: sgw_s11_turn_def sgw_handle_indirect_tunnel_setup_def message_defs item_ext_view item_app_view
      Let_def sgw_get_imsi_def sgw_update_itfid_def upd_sgw_ue_id sgw_tunnelled_def sgw_ue_at_def)

definition sgw_switched :: "u64 \<Rightarrow> sgw \<Rightarrow> sgw" where
  "sgw_switched imsi s =
     s\<lparr>ue_ctx_s := modify_at new_sgw_ue (ue_ctx_s s) imsi
         (\<lambda>c. c\<lparr>s1_uteid_dl_s := s1_uteid_dl_s (at_or new_sgw_ue (ho_ue_ctx s) (ucast imsi))\<rparr>),
       ho_ue_ctx := (ho_ue_ctx s)(ucast imsi := None)\<rparr>"

lemma sgw_switch_turn:
  assumes "msg_type_g h = 5" and "at_or 0 (s11_id s) (teid h) = imsi" and "length body \<le> 1000"
  shows "sgw_s11_turn X pgw (src, Rx (gtp_bytes h @ body)) (pkt, s, w) =
    Inr ([Reply src (bool_rsp (gtp_with 2 5 1 (s11_cteid_mme_s (sgw_ue_at imsi s)) h) True)],
         view h (s1ap_hdr pkt) (diameter_hdr pkt) (gtp_bytes h) body, sgw_switched imsi s, w)"
  using assms
  by (simp add: sgw_s11_turn_def sgw_handle_handover_completion_def message_defs item_app_view
      Let_def sgw_get_imsi_def sgw_switched_def sgw_ue_at_def upd_sgw_ue_def op_idx_def)

definition sgw_torn :: "u64 \<Rightarrow> u32 \<Rightarrow> sgw \<Rightarrow> sgw" where
  "sgw_torn imsi t s =
     s\<lparr>s1_id := (s1_id s)(t := None), ue_ctx_s := op_idx new_sgw_ue (ue_ctx_s s) imsi\<rparr>"

lemma sgw_teardown_turn:
  assumes "msg_type_g h = 6" and "at_or 0 (s11_id s) (teid h) = imsi"
  shows "sgw_s11_turn X pgw (src, Rx (teid_msg h t)) (pkt, s, w) =
    Inr ([Reply src (bool_rsp (gtp_with 2 6 1 (s11_cteid_mme_s (sgw_ue_at imsi s)) h) True)],
         view h (s1ap_hdr pkt) (diameter_hdr pkt) (gtp_bytes h) (le_word 4 t), sgw_torn imsi t s, w)"
  using assms
  by (simp add: sgw_s11_turn_def sgw_handle_indirect_tunnel_teardown_def message_defs item_ext_view item_app_view
      Let_def sgw_get_imsi_def sgw_rem_itfid_def upd_sgw_ue_id sgw_torn_def sgw_ue_at_def)

subsection \<open>User plane\<close>

lemma sgw_uplink_turn:
  assumes "msg_type_g h = 1" and "s1_id s (teid h) = Some imsi" and "imsi \<noteq> 0" and "ue_ctx_s s imsi = Some c"
    and "set_inet_sock_addr X (pgw_s5_ip_addr_s c) (pgw_s5_port_s c) = Inr a" and "length m \<le> 1008"
  shows "sgw_s1_turn X (src, Rx (gtp_bytes h @ m)) (pkt, s) =
    Inr ([Forward a (gtp_bytes (gtp_with 1 2 (of_nat (length m)) (s5_uteid_ul_s c) h) @ m)],
         view h (s1ap_hdr pkt) (diameter_hdr pkt) (gtp_bytes h) m, s)"
  using assms
  by (simp add: sgw_s1_turn_def sgw_handle_uplink_udata_def sgw_get_imsi_def sgw_get_uplink_info_def
      set_server_def)

lemma sgw_downlink_turn:
  assumes "msg_type_g h = 3" and "s5_id s (teid h) = Some imsi" and "imsi \<noteq> 0" and "ue_ctx_s s imsi = Some c"
    and "enodeb_port_s c \<noteq> 0"
    and "set_inet_sock_addr X (enodeb_ip_addr_s c) (enodeb_port_s c) = Inr a" and "length m \<le> 1008"
  shows "sgw_s5_turn X (src, Rx (gtp_bytes h @ m)) (pkt, s) =
    Inr ([Forward a (gtp_bytes (gtp_with 1 2 (of_nat (length m)) (s1_uteid_dl_s c) h) @ m)],
         view h (s1ap_hdr pkt) (diameter_hdr pkt) (gtp_bytes h) m, s)"
  using assms
  by (simp add: sgw_s5_turn_def sgw_handle_downlink_udata_def sgw_get_imsi_def sgw_get_downlink_info_def
      set_server_def)

text \<open>User data for an unknown endpoint or an idle bearer is dropped.\<close>

lemma sgw_uplink_dropped:
  assumes "msg_type_g h = 1" and "length m \<le> 1008"
    and "at_or 0 (s1_id s) (teid h) = 0 \<or> ue_ctx_s s (at_or 0 (s1_id s) (teid h)) = None"
  shows "\<exists>q. sgw_s1_turn X (src, Rx (gtp_bytes h @ m)) (pkt, s) = Inr ([], q, s)"
  using assms
  by (auto simp: sgw_s1_turn_def sgw_handle_uplink_udata_def sgw_get_imsi_def sgw_get_uplink_info_def)

subsection \<open>The invariant of the tables\<close>

text \<open>
  The S11 and S5 tables always agree, and each endpoint has the context of its subscriber, whose six
  endpoint ids are that endpoint. Outside handovers the S1 table agrees with them too: the handover
  messages add indirect tunnels to it and remove entries from it, but touch nothing else.
\<close>

definition sgw_ctx_ok :: "u32 \<Rightarrow> sgw_ue \<Rightarrow> bool" where
  "sgw_ctx_ok t c \<longleftrightarrow>
     s11_cteid_mme_s c = t \<and> s11_cteid_sgw_s c = t \<and> s1_uteid_ul_s c = t \<and> s5_uteid_dl_s c = t \<and>
     s5_uteid_ul_s c = t \<and> s5_cteid_ul_s c = t \<and>
     pgw_s5_ip_addr_s c = g_pgw_s5_ip_addr \<and> pgw_s5_port_s c = g_pgw_s5_port"

definition sgw_core :: "sgw \<Rightarrow> bool" where
  "sgw_core s \<longleftrightarrow>
     s5_id s = s11_id s \<and>
     (\<forall>t imsi. s11_id s t = Some imsi \<longrightarrow>
        imsi \<noteq> 0 \<and> (\<exists>c. ue_ctx_s s imsi = Some c \<and> sgw_ctx_ok t c))"

definition sgw_inv :: "sgw \<Rightarrow> bool" where
  "sgw_inv s \<longleftrightarrow> s1_id s = s11_id s \<and> sgw_core s"

lemma sgw_inv_core: "sgw_inv s \<Longrightarrow> sgw_core s"
  by (simp add: sgw_inv_def)

lemma sgw_coreE:
  assumes "sgw_core s" and "s11_id s t = Some imsi"
  obtains c where "imsi \<noteq> 0" "ue_ctx_s s imsi = Some c" "sgw_ctx_ok t c"
  using assms by (auto simp: sgw_core_def)

lemmas sgw_invE = sgw_coreE [OF sgw_inv_core]

lemma sgw_core_unique:
  "sgw_core s \<Longrightarrow> s11_id s t = Some imsi \<Longrightarrow> s11_id s t' = Some imsi \<Longrightarrow> t' = t"
  by (metis sgw_coreE sgw_ctx_ok_def option.inject)

lemma sgw_core_nonzero: "sgw_core s \<Longrightarrow> s11_id s t \<noteq> Some 0"
  by (auto simp: sgw_core_def)

lemma new_sgw_inv: "sgw_inv new_sgw"
  by (simp add: sgw_inv_def sgw_core_def new_sgw_def)

lemma sgw_created_core:
  assumes "sgw_core s" and "imsi \<noteq> 0" and "one_teid (s11_id s) t imsi"
  shows "sgw_core (sgw_created t imsi b g_pgw_s5_ip_addr g_pgw_s5_port apn tai t t s)"
  using assms
  by (auto simp: sgw_core_def sgw_created_def sgw_ctx_ok_def sgw_ue_init_def one_teid_def modify_at_def)

lemma sgw_created_inv:
  assumes "sgw_inv s" and "imsi \<noteq> 0" and "one_teid (s11_id s) t imsi"
  shows "sgw_inv (sgw_created t imsi b g_pgw_s5_ip_addr g_pgw_s5_port apn tai t t s)"
  using sgw_created_core [OF sgw_inv_core [OF assms(1)] assms(2,3)] assms(1)
  by (simp add: sgw_inv_def) (simp add: sgw_created_def)

lemma sgw_modified_tables [simp]:
  "s11_id (sgw_modified i d ip p s) = s11_id s" "s1_id (sgw_modified i d ip p s) = s1_id s"
  "s5_id (sgw_modified i d ip p s) = s5_id s"
  by (simp_all add: sgw_modified_def upd_sgw_ue_def)

lemma sgw_modified_core:
  "sgw_core s \<Longrightarrow> s11_id s t = Some imsi \<Longrightarrow> sgw_core (sgw_modified imsi d ip port s)"
  by (fastforce simp: sgw_core_def sgw_modified_def upd_sgw_ue_def sgw_ctx_ok_def modify_at_def)

lemma sgw_modified_inv:
  "sgw_inv s \<Longrightarrow> s11_id s t = Some imsi \<Longrightarrow> sgw_inv (sgw_modified imsi d ip port s)"
  using sgw_modified_core by (simp add: sgw_inv_def)

lemma sgw_detached_tables:
  assumes "sgw_core s" and "s11_id s t = Some imsi"
  shows "s11_id (sgw_detached imsi s) = (s11_id s)(t := None)"
    and "s1_id (sgw_detached imsi s) = (s1_id s)(t := None)"
    and "s5_id (sgw_detached imsi s) = (s5_id s)(t := None)"
    and "ue_ctx_s (sgw_detached imsi s) = (ue_ctx_s s)(imsi := None)"
proof -
  obtain c where "ue_ctx_s s imsi = Some c" and "sgw_ctx_ok t c"
    using assms by (rule sgw_coreE)
  then show "s11_id (sgw_detached imsi s) = (s11_id s)(t := None)"
    and "s1_id (sgw_detached imsi s) = (s1_id s)(t := None)"
    and "s5_id (sgw_detached imsi s) = (s5_id s)(t := None)"
    and "ue_ctx_s (sgw_detached imsi s) = (ue_ctx_s s)(imsi := None)"
    by (simp_all add: sgw_detached_def sgw_ue_at_def sgw_ctx_ok_def)
qed

lemma sgw_detached_core:
  assumes "sgw_core s" and "s11_id s t = Some imsi"
  shows "sgw_core (sgw_detached imsi s)"
  unfolding sgw_core_def sgw_detached_tables [OF assms]
proof (intro conjI allI impI)
  show "(s5_id s)(t := None) = (s11_id s)(t := None)"
    using assms(1) by (simp add: sgw_core_def)
next
  fix t' i
  assume "((s11_id s)(t := None)) t' = Some i"
  then have "t' \<noteq> t" and i: "s11_id s t' = Some i"
    by (auto split: if_splits)
  then show "i \<noteq> 0" and "\<exists>c. ((ue_ctx_s s)(imsi := None)) i = Some c \<and> sgw_ctx_ok t' c"
    using sgw_coreE [OF assms(1) i] sgw_core_unique [OF assms(1,2), of t'] by auto
qed

lemma sgw_detached_inv:
  assumes "sgw_inv s" and "s11_id s t = Some imsi"
  shows "sgw_inv (sgw_detached imsi s)"
  using sgw_detached_core [OF sgw_inv_core [OF assms(1)] assms(2)] assms(1)
    sgw_detached_tables(1,2) [OF sgw_inv_core [OF assms(1)] assms(2)]
  by (simp add: sgw_inv_def)

text \<open>
  The handover messages, for an endpoint in session and for an unknown one (whose IMSI reads as 0).
\<close>

lemma sgw_handover_tables [simp]:
  "s11_id (sgw_tunnelled i d s) = s11_id s" "s5_id (sgw_tunnelled i d s) = s5_id s"
  "s11_id (sgw_switched i s) = s11_id s" "s5_id (sgw_switched i s) = s5_id s" "s1_id (sgw_switched i s) = s1_id s"
  "s11_id (sgw_torn i t s) = s11_id s" "s5_id (sgw_torn i t s) = s5_id s" "s1_id (sgw_torn i t s) = (s1_id s)(t := None)"
  by (simp_all add: sgw_tunnelled_def sgw_switched_def sgw_torn_def)

lemma sgw_handover_core:
  assumes "sgw_core s"
  shows "sgw_core (sgw_tunnelled imsi d s)" and "sgw_core (sgw_switched imsi s)" and "sgw_core (sgw_torn imsi t s)"
  using assms
  by (fastforce simp: sgw_core_def sgw_tunnelled_def sgw_switched_def sgw_torn_def sgw_ctx_ok_def op_idx_def
      modify_at_def)+

subsection \<open>Over a PGW, the SGW serves the MME\<close>

type_synonym 'w sgw_proc = "(packet \<times> sgw \<times> 'w) option"

definition sgw_peer :: "ext_lib \<Rightarrow> 'w net \<Rightarrow> sock_addr \<Rightarrow> 'w sgw_proc peer" where
  "sgw_peer X pgw src req st = call_udp (sgw_s11_turn X pgw) src req st"

definition sgw_live ::
  "ext_lib \<Rightarrow> sock_addr \<Rightarrow> ('w \<Rightarrow> bool) \<Rightarrow> ('w \<Rightarrow> (u32 \<rightharpoonup> u64)) \<Rightarrow> 'w sgw_proc \<Rightarrow> bool" where
  "sgw_live X dst live sess st \<longleftrightarrow>
     set_inet_sock_addr X g_pgw_s5_ip_addr g_pgw_s5_port = Inr dst \<and>
     (\<exists>pkt s w. st = Some (pkt, s, w) \<and> live w \<and> sgw_inv s \<and> s11_id s = sess w)"

definition sgw_sess :: "'w sgw_proc \<Rightarrow> (u32 \<rightharpoonup> u64)" where
  "sgw_sess st = (case st of None \<Rightarrow> Map.empty | Some (pkt, s, w) \<Rightarrow> s11_id s)"

definition sgw_ip :: "(u64 \<Rightarrow> 'w \<Rightarrow> string) \<Rightarrow> u64 \<Rightarrow> 'w sgw_proc \<Rightarrow> string" where
  "sgw_ip ip imsi st = (case st of None \<Rightarrow> '''' | Some (pkt, s, w) \<Rightarrow> ip imsi w)"

lemma short_pgw_ip: "short_ip g_pgw_s5_ip_addr"
  by (simp add: short_ip_def g_pgw_s5_ip_addr_def nul_free_def)

context pgw_service begin

sublocale gw: session_gw "sgw_peer X pgw src" "sgw_live X dst live sess" sgw_sess "sgw_ip ip"
  for X src
proof (unfold_locales, goal_cases)
  case (1 w imsi t h b apn tai)
  then obtain pkt s v where w: "w = Some (pkt, s, v)" "live v" "sgw_inv s" "s11_id s = sess v"
    and a: "set_inet_sock_addr X g_pgw_s5_ip_addr g_pgw_s5_port = Inr dst"
    by (auto simp: sgw_live_def)
  with 1 obtain h' v' where c: "pgw dst (create_req5 (gtp_with 2 1 33 0 h) t imsi b t apn tai) v =
      (Rx (create_rsp5 h' t b t (ip imsi v)), v')"
      "live v'" "sess v' = (sess v)(t \<mapsto> imsi)" "\<forall>i. ip i v' = ip i v"
    using create [of v imsi t "gtp_with 2 1 33 0 h" b apn tai] by (auto simp: sgw_sess_def sgw_ip_def)
  let ?s = "sgw_created t imsi b g_pgw_s5_ip_addr g_pgw_s5_port apn tai t t s"
  have "sgw_inv ?s" and "s11_id ?s = (s11_id s)(t \<mapsto> imsi)"
    using 1 w sgw_created_inv [of s imsi t b apn tai] by (auto simp: sgw_sess_def sgw_created_def)
  with 1 w a c show ?case
    using sgw_create_turn [OF 1(5) short_pgw_ip _ _ a, of "ip imsi v" pgw t imsi b apn tai v h' t b t v' src pkt s]
    by (auto simp: sgw_peer_def call_udp_reply sgw_live_def sgw_sess_def sgw_ip_def g_pgw_s5_port_def)
next
  case (2 w h imsi enb_ip enb_port b s1_dl)
  then obtain pkt s v where w: "w = Some (pkt, s, v)" "live v" "sgw_inv s" "s11_id s = sess v"
    and a: "set_inet_sock_addr X g_pgw_s5_ip_addr g_pgw_s5_port = Inr dst"
    by (auto simp: sgw_live_def)
  with 2 have t: "s11_id s (teid h) = Some imsi" and "imsi \<noteq> 0"
    by (auto simp: sgw_sess_def sgw_inv_def sgw_core_def)
  with 2 w a show ?case
    using sgw_modify_turn [OF 2(3) t, of enb_ip enb_port X pgw src b s1_dl pkt v] sgw_modified_inv [OF w(3) t]
    by (auto simp: sgw_peer_def call_udp_reply sgw_live_def sgw_sess_def sgw_ip_def)
next
  case (3 w h imsi b tai)
  then obtain pkt s v where w: "w = Some (pkt, s, v)" "live v" "sgw_inv s" "s11_id s = sess v"
    and a: "set_inet_sock_addr X g_pgw_s5_ip_addr g_pgw_s5_port = Inr dst"
    by (auto simp: sgw_live_def)
  with 3 have t: "s11_id s (teid h) = Some imsi"
    by (auto simp: sgw_sess_def)
  obtain c where c: "imsi \<noteq> 0" "ue_ctx_s s imsi = Some c" "sgw_ctx_ok (teid h) c"
    using sgw_invE [OF w(3) t] by blast
  let ?h = "gtp_with 2 4 9 (s5_cteid_ul_s c) h"
  obtain h' v' where d: "pgw dst (detach_req ?h b tai) v = (Rx (bool_rsp h' True), v')"
      "live v'" "sess v' = (sess v)(teid h := None)" "\<forall>i. ip i v' = ip i v"
    using detach [of v ?h imsi b tai] w t c by (auto simp: sgw_ctx_ok_def)
  with 3 w a c t show ?case
    using sgw_detach_turn [where pgw = pgw and a = dst and w = v and w' = v' and res = True, OF 3(3) t c(1,2) _ d(1), of X src pkt] sgw_detached_inv [OF w(3) t]
      sgw_detached_tables [OF sgw_inv_core [OF w(3)] t]
    by (auto simp: sgw_peer_def call_udp_reply sgw_live_def sgw_sess_def sgw_ip_def sgw_ctx_ok_def)
qed

end

end
