(* ===== verification/Epc_Mme_Session.thy ===== *)
theory Epc_Mme_Session
  imports Epc_Mme_Server Epc_Nas Epc_Sgw_Session
begin

section \<open>The MME: attach, authentication, security, session, detach\<close>

text \<open>
  The network behind the MME is an HSS and an SGW that keep their contracts, on the same world. Under
  them each message of a UE has the effect stated here, on every branch of its handler.
\<close>

locale core_net =
  auth_center hss prov + session_gw sgw live sess ip
  for hss :: "'w peer" and prov :: "u64 \<Rightarrow> u64 \<Rightarrow> u64 \<Rightarrow> 'w \<Rightarrow> bool"
    and sgw :: "'w peer" and live :: "'w \<Rightarrow> bool" and sess :: "'w \<Rightarrow> (u32 \<rightharpoonup> u64)"
    and ip :: "u64 \<Rightarrow> 'w \<Rightarrow> string" +
  assumes stable: "sgw req w = (r, w') \<Longrightarrow> prov imsi key rand_num w' = prov imsi key rand_num w"

subsection \<open>Initial attach\<close>

definition mme_challenged ::
  "u64 \<Rightarrow> u64 \<Rightarrow> u32 \<Rightarrow> u64 \<Rightarrow> u16 \<Rightarrow> u64 \<Rightarrow> u64 \<Rightarrow> mme \<Rightarrow> mme" where
  "mme_challenged guti imsi enb tai cap xres k_asme m =
     (let mme_id = ucast (ue_count m + 1)
      in m\<lparr>ue_count := ue_count m + 1, s1mme_id := (s1mme_id m)(mme_id \<mapsto> guti),
           ue_ctx_m := modify_at new_mme_ue (ue_ctx_m m) guti
             (\<lambda>c. (mme_ue_init imsi enb mme_id tai cap c)
                    \<lparr>xres_m := xres, k_asme_m := k_asme, ksi_asme_m := 1\<rparr>)\<rparr>)"

context core_net begin

lemma attach_turn:
  assumes "prov imsi key rand_num w" and "get_guti (gummei (mme_ids_of m)) imsi = Inr guti"
    and "mme_s1ap_ue_id h = 0" and "msg_type_s h = 1"
  shows "mme_handle_ue X fresh hss sgw fd (Rx (attach_req h imsi tai ksi cap)) m w =
    (case autn_vector key rand_num (plmn_id (mme_ids_of m)) of (autn, xres, k_asme) \<Rightarrow>
       Inr (1, [Snd_conn fd (autn_challenge
              (s1ap_init 1 24 (enodeb_s1ap_ue_id h) (ucast (ue_count m + 1)) h) autn rand_num 1)],
            mme_challenged guti imsi (enodeb_s1ap_ue_id h) tai cap xres k_asme m, w))"
proof -
  obtain g s d where f: "fresh = (g, s, d)"
    by (cases fresh)
  obtain autn xres k_asme where v: "autn_vector key rand_num (plmn_id (mme_ids_of m)) = (autn, xres, k_asme)"
    by (cases "autn_vector key rand_num (plmn_id (mme_ids_of m))")
  obtain h' where r: "hss (autn_req_bytes (diameter_init 1 20 d) imsi (plmn_id (mme_ids_of m)) 1
      (nw_type_m (ue_at guti m))) w = (Rx (autn_rsp_bytes h' autn rand_num xres k_asme), w)"
    using vector [OF assms(1), of "diameter_init 1 20 d" "plmn_id (mme_ids_of m)" 1 "nw_type_m (ue_at guti m)"]
    by (auto simp: v diameter_init_def)
  have e: "autn_rsp_bytes h' autn rand_num xres k_asme =
      diameter_bytes h' @ le_word 8 autn @ le_word 8 rand_num @ le_word 8 xres @ le_word 8 k_asme"
    by (simp add: autn_rsp_bytes_def)
  show ?thesis
    using assms(2-4) r [unfolded autn_req_bytes_def e]
    by (simp add: v f nas_defs mme_handle_ue_def local_packet_def mme_handle_initial_attach_def item_ext_view
        item_app_view Let_def ue_at_def upd_ue_def mme_challenged_def mme_ue_init_def)
qed

end

subsection \<open>Authentication\<close>

lemma mme_get_guti_view [simp]: "mme_get_guti (view g h d a r) m = (case s1mme_id m (mme_s1ap_ue_id h) of None \<Rightarrow> 0 | Some guti \<Rightarrow> guti)"
  by (simp add: mme_get_guti_def)

definition mme_secured :: "u64 \<Rightarrow> mme \<Rightarrow> mme" where
  "mme_secured guti m = set_integrity_context guti (set_crypt_context guti m)"

definition mme_removed :: "u32 \<Rightarrow> u64 \<Rightarrow> mme \<Rightarrow> mme" where
  "mme_removed mme_id guti m =
     m\<lparr>s1mme_id := (s1mme_id m)(mme_id := None), ue_ctx_m := (ue_ctx_m m)(guti := None)\<rparr>"

lemma mme_autn_turn:
  assumes "crypto_ok X" and "msg_type_s h = 2" and "mme_s1ap_ue_id h \<noteq> 0"
    and "s1mme_id m (mme_s1ap_ue_id h) = Some guti" and "guti \<noteq> 0" and "ue_ctx_m m guti = Some c"
  shows "mme_handle_ue X fresh hss sgw fd (Rx (autn_response h res)) m w =
    (if res = xres_m c
     then Inr (1, [Snd_conn fd (smc_msg X (s1ap_init 2 46 (enodeb_s1ap_ue_id h) (mme_s1ap_ue_id h) h)
                      (smc_body (ksi_asme_m c) (nw_capability_m c) 1 1))], mme_secured guti m, w)
     else Inr (1, [], mme_removed (mme_s1ap_ue_id h) guti m, w))"
  using assms
  by (cases fresh)
    (simp add: nas_defs mme_handle_ue_def local_packet_def mme_handle_autn_def
      mme_handle_security_mode_cmd_def guti_or_exit_def item_ext_view item_app_view Let_def ue_at_def
      touch_ue_def rem_uectx_m_def rem_itfid_m_def mme_removed_def mme_secured_def set_crypt_context_def
      set_integrity_context_def upd_ue_def)

text \<open>The keys the MME derives. The RAN derives them with its own formula.\<close>

lemma mme_secured_ctx:
  assumes "ue_ctx_m m guti = Some c"
  shows "ue_ctx_m (mme_secured guti m) guti =
    Some (c\<lparr>nas_enc_algo_m := 1, nas_int_algo_m := 1,
            k_nas_enc_m := k_asme_m c + 1 + count_m c + bearer_m c + dir_m c,
            k_nas_int_m := k_asme_m c + 1 + count_m c + bearer_m c + dir_m c\<rparr>)"
    and "s1mme_id (mme_secured guti m) = s1mme_id m"
    and "mme_ids_of (mme_secured guti m) = mme_ids_of m" and "ue_count (mme_secured guti m) = ue_count m"
    and "g \<noteq> guti \<Longrightarrow> ue_ctx_m (mme_secured guti m) g = ue_ctx_m m g"
  using assms
  by (simp_all add: mme_secured_def set_crypt_context_def set_integrity_context_def upd_ue_def Let_def)

text \<open>Every protected handler exits on an unknown MME id.\<close>

lemma mme_unknown_id:
  assumes "mme_s1ap_ue_id h \<noteq> 0" and "msg_type_s h \<in> {2, 3, 4, 5}"
    and "case_option 0 id (s1mme_id m (mme_s1ap_ue_id h)) = 0" and "length body \<le> 1000"
  shows "\<exists>why. mme_handle_ue X fresh hss sgw fd (Rx (s1ap_bytes h @ body)) m w = Inl (Exit why)"
proof -
  have "(case s1mme_id m (mme_s1ap_ue_id h) of None \<Rightarrow> 0 | Some guti \<Rightarrow> guti) = 0"
    using assms(3) by (auto split: option.splits)
  with assms show ?thesis
    by (cases fresh)
      (auto simp: mme_handle_ue_def local_packet_def mme_handle_autn_def mme_handle_security_mode_complete_def
        mme_handle_attach_complete_def mme_handle_detach_def guti_or_exit_def)
qed

subsection \<open>Security mode complete: session creation\<close>

definition mme_session ::
  "u64 \<Rightarrow> u32 \<Rightarrow> string \<Rightarrow> u32 \<Rightarrow> u32 \<Rightarrow> u32 \<Rightarrow> u32 \<Rightarrow> mme \<Rightarrow> mme" where
  "mme_session guti t ip s11_sgw s1_ul s5_ul s5_dl m =
     m\<lparr>ue_ctx_m := modify_at new_mme_ue (ue_ctx_m m) guti
         (\<lambda>c. c\<lparr>pgw_s5_port_m := g_pgw_s5_port, pgw_s5_ip_addr_m := g_pgw_s5_ip_addr, s11_cteid_mme_m := t,
                eps_bearer_id_m := 5, ip_addr_m := ip, s11_cteid_sgw_m := s11_sgw, s1_uteid_ul_m := s1_ul,
                s5_uteid_ul_m := s5_ul, s5_uteid_dl_m := s5_dl, tai_list_m := [tai_m c], tau_timer_m := g_timer,
                e_rab_id_m := 5, k_enodeb_m := k_asme_m c\<rparr>)\<rparr>"

lemma short_sgw_ip: "short_ip g_sgw_s1_ip_addr"
  by (simp add: short_ip_def g_sgw_s1_ip_addr_def nul_free_def)

lemma short_trafmon_ip: "short_ip g_trafmon_ip_addr"
  by (simp add: short_ip_def g_trafmon_ip_addr_def nul_free_def)

text \<open>A protected message reaches its handlers authenticated, and on the same view each time.\<close>

lemma mme_dispatch_nas:
  fixes g :: gtp and d :: diameter
  assumes "crypto_ok X" and "length body \<le> 900" and "mme_s1ap_ue_id h \<noteq> 0"
  defines "v \<equiv> view g h d (s1ap_bytes h) (mac X (cipher X body) @ cipher X body)"
  shows "msg_type_s h = 3 \<Longrightarrow> mme_handle_ue X (g, s, d) hss sgw fd (Rx (nas_msg X h body)) m w =
      bindE (mme_handle_security_mode_complete X v m) (\<lambda>(res, m).
        if res then bindE (mme_handle_create_session X sgw fd v m w) (\<lambda>(o1, m, w). Inr (1, o1, m, w))
        else Inr (1, [], m, w))"
    and "msg_type_s h = 4 \<Longrightarrow> mme_handle_ue X (g, s, d) hss sgw fd (Rx (nas_msg X h body)) m w =
      bindE (mme_handle_attach_complete X v m) (\<lambda>m.
        bindE (mme_handle_modify_bearer sgw v m w) (\<lambda>(m, w). Inr (1, [], m, w)))"
    and "msg_type_s h = 5 \<Longrightarrow> mme_handle_ue X (g, s, d) hss sgw fd (Rx (nas_msg X h body)) m w =
      bindE (mme_handle_detach X sgw fd v m w) (\<lambda>(o1, m, w). Inr (1, o1, m, w))"
  using assms(3) open_views [OF assms(1,2)] nas_msg_nonempty [OF assms(1), of h body]
  by (simp_all add: mme_handle_ue_def local_packet_def v_def)
    (auto intro!: bindE_cong simp: v_def)

lemma mme_create_session_view:
  assumes X: "crypto_ok X"
    and "s1mme_id m (mme_s1ap_ue_id h) = Some guti" and "guti \<noteq> 0" and "ue_ctx_m m guti = Some c"
    and "get_s11cteidmme guti = Inr t" and "short_ip ip"
    and "sgw (create_req11 (gtp_with 2 1 50 0 g) t (imsi_m c) 5 g_pgw_s5_ip_addr g_pgw_s5_port
           (apn_in_use_m c) (tai_m c)) w = (Rx (create_rsp11 h' s11_sgw ip s1_ul s5_ul s5_dl), w')"
  defines "body \<equiv> accept_body guti 5 5 s1_ul (k_asme_m c) (nw_capability_m c) [tai_m c] g_timer ip
    g_sgw_s1_ip_addr g_sgw_s1_port True"
  shows "mme_handle_create_session X sgw fd (view g h d a r) m w =
    Inr ([Snd_conn fd (nas_msg X (s1ap_init 3 (of_nat (20 + length (cipher X body)))
               (enodeb_s1ap_ue_id h) (mme_s1ap_ue_id h) h) body)],
         mme_session guti t ip s11_sgw s1_ul s5_ul s5_dl m, w')"
proof -
  have ips: "nul_free g_pgw_s5_ip_addr" "length g_pgw_s5_ip_addr = 13" "nul_free g_sgw_s1_ip_addr"
      "length g_sgw_s1_ip_addr = 13"
    by (simp_all add: g_pgw_s5_ip_addr_def g_sgw_s1_ip_addr_def nul_free_def)
  have len: "length body \<le> 900"
    using assms(6) ips by (simp add: body_def accept_body_def short_ip_def)
  have body: "body = le_word 8 guti @ u8_bytes 5 @ u8_bytes 5 @ le_word 4 s1_ul @ le_word 8 (k_asme_m c) @
      le_word 2 (nw_capability_m c) @ le_int 1 @ le_word 8 (tai_m c) @ le_word 8 g_timer @ string_bytes ip @
      string_bytes g_sgw_s1_ip_addr @ le_int g_sgw_s1_port @ bool_bytes True"
    by (simp add: body_def accept_body_def u64s_bytes_def)
  show ?thesis
    using assms(2-7) ips seal_views [OF X len, unfolded body]
    by (simp add: mme_handle_create_session_def guti_or_exit_def set_pgw_info_def ue_at_def upd_ue_def
        message_defs item_ext_view item_app_view Let_def short_ip_def body mme_session_def)
qed

lemma mme_security_complete_view:
  assumes "crypto_ok X" and "s1mme_id m (mme_s1ap_ue_id h) = Some guti" and "guti \<noteq> 0" and "ue_ctx_m m guti = Some c"
  shows "mme_handle_security_mode_complete X
      (view g h d (s1ap_bytes h) (mac X (cipher X (bool_bytes b)) @ cipher X (bool_bytes b))) m = Inr (b, m)"
  using assms open_or_exit_view [OF assms(1), of "bool_bytes b"]
  by (simp add: mme_handle_security_mode_complete_def guti_or_exit_def Let_def touch_ue_def item_ext_view)

lemma mme_session_turn:
  assumes X: "crypto_ok X" and "msg_type_s h = 3" and "mme_s1ap_ue_id h \<noteq> 0"
    and m: "s1mme_id m (mme_s1ap_ue_id h) = Some guti" "guti \<noteq> 0" "ue_ctx_m m guti = Some c"
    and s: "get_s11cteidmme guti = Inr t" "short_ip ip"
      "sgw (create_req11 (gtp_with 2 1 50 0 (fst fresh)) t (imsi_m c) 5 g_pgw_s5_ip_addr g_pgw_s5_port
           (apn_in_use_m c) (tai_m c)) w = (Rx (create_rsp11 h' s11_sgw ip s1_ul s5_ul s5_dl), w')"
  defines "body \<equiv> accept_body guti 5 5 s1_ul (k_asme_m c) (nw_capability_m c) [tai_m c] g_timer ip
    g_sgw_s1_ip_addr g_sgw_s1_port True"
  shows "mme_handle_ue X fresh hss sgw fd (Rx (nas_msg X h (bool_bytes True))) m w =
    Inr (1, [Snd_conn fd (nas_msg X (s1ap_init 3 (of_nat (20 + length (cipher X body)))
               (enodeb_s1ap_ue_id h) (mme_s1ap_ue_id h) h) body)],
         mme_session guti t ip s11_sgw s1_ul s5_ul s5_dl m, w')"
proof -
  obtain g sh d where f: "fresh = (g, sh, d)"
    by (cases fresh)
  show ?thesis
    using mme_dispatch_nas(1) [OF X _ assms(3,2), of "bool_bytes True" g sh d hss sgw fd m w]
      mme_create_session_view [OF X m s(1,2), of sgw g w h' s11_sgw s1_ul s5_ul s5_dl w' fd d] s(3)
      mme_security_complete_view [OF X m, of g d True]
    by (simp add: f body_def)
qed

subsection \<open>Attach complete: bearer modification\<close>

definition mme_completed :: "u64 \<Rightarrow> u32 \<Rightarrow> bool \<Rightarrow> mme \<Rightarrow> mme" where
  "mme_completed guti s1_dl res m =
     m\<lparr>ue_ctx_m := modify_at new_mme_ue (ue_ctx_m m) guti
         (\<lambda>c. if res then c\<lparr>s1_uteid_dl_m := s1_dl, emm_state_m := 1, ecm_state_m := 1\<rparr>
              else c\<lparr>s1_uteid_dl_m := s1_dl, emm_state_m := 1\<rparr>)\<rparr>"

lemma mme_complete_turn:
  assumes X: "crypto_ok X" and "msg_type_s h = 4" and "mme_s1ap_ue_id h \<noteq> 0"
    and m: "s1mme_id m (mme_s1ap_ue_id h) = Some guti" "guti \<noteq> 0" "ue_ctx_m m guti = Some c"
    and s: "sgw (modify_req (gtp_with 2 2 26 (s11_cteid_sgw_m c) (fst fresh)) (eps_bearer_id_m c) s1_dl
        g_trafmon_ip_addr g_trafmon_port) w = (Rx (bool_rsp h' res), w')"
  shows "mme_handle_ue X fresh hss sgw fd (Rx (nas_msg X h (complete_body b s1_dl))) m w =
    Inr (1, [], mme_completed guti s1_dl res m, w')"
proof -
  obtain g sh d where f: "fresh = (g, sh, d)"
    by (cases fresh)
  let ?body = "complete_body b s1_dl"
  let ?v = "view g h d (s1ap_bytes h) (mac X (cipher X ?body) @ cipher X ?body)"
  have len: "length ?body \<le> 900"
    by (simp add: complete_body_def)
  let ?m = "m\<lparr>ue_ctx_m := modify_at new_mme_ue (ue_ctx_m m) guti (\<lambda>c. c\<lparr>s1_uteid_dl_m := s1_dl, emm_state_m := 1\<rparr>)\<rparr>"
  have 1: "mme_handle_attach_complete X ?v m = Inr ?m"
    using m open_or_exit_view [OF X len]
    by (simp add: mme_handle_attach_complete_def guti_or_exit_def Let_def touch_ue_def complete_body_def
        item_ext_view upd_ue_def)
  have 2: "mme_handle_modify_bearer sgw ?v ?m w = Inr (mme_completed guti s1_dl res m, w')"
    using m s f
    by (simp add: mme_handle_modify_bearer_def guti_or_exit_def Let_def touch_ue_def ue_at_def upd_ue_def
        message_defs item_ext_view item_app_view g_trafmon_ip_addr_def nul_free_def mme_completed_def)
  show ?thesis
    using mme_dispatch_nas(2) [OF X len assms(3,2), of g sh d hss sgw fd m w] 1 2 by (simp add: f)
qed

subsection \<open>Detach\<close>

lemma mme_detach_turn:
  assumes X: "crypto_ok X" and "msg_type_s h = 5" and "mme_s1ap_ue_id h \<noteq> 0"
    and m: "s1mme_id m (mme_s1ap_ue_id h) = Some guti" "guti \<noteq> 0" "ue_ctx_m m guti = Some c"
    and s: "sgw (detach_req (gtp_with 2 3 9 (s11_cteid_sgw_m c) (fst fresh)) (eps_bearer_id_m c) (tai_m c)) w =
      (Rx (bool_rsp h' res), w')"
  shows "mme_handle_ue X fresh hss sgw fd (Rx (nas_msg X h (detach_body guti' ksi dt))) m w =
    (if res then Inr (1, [Snd_conn fd (nas_msg X (s1ap_init 5 36 (enodeb_s1ap_ue_id h) (mme_s1ap_ue_id h) h)
               (bool_bytes True))], mme_removed (mme_s1ap_ue_id h) guti' m, w')
     else Inr (1, [], m, w'))"
proof -
  obtain g sh d where f: "fresh = (g, sh, d)"
    by (cases fresh)
  let ?body = "detach_body guti' ksi dt"
  let ?v = "view g h d (s1ap_bytes h) (mac X (cipher X ?body) @ cipher X ?body)"
  have len: "length ?body \<le> 900"
    by (simp add: detach_body_def)
  have c16: "length (cipher X (bool_bytes True)) = 16"
    by (simp add: length_cipher X)
  have "mme_handle_detach X sgw fd ?v m w =
    (if res then Inr ([Snd_conn fd (nas_msg X (s1ap_init 5 36 (enodeb_s1ap_ue_id h) (mme_s1ap_ue_id h) h)
               (bool_bytes True))], mme_removed (mme_s1ap_ue_id h) guti' m, w')
     else Inr ([], m, w'))"
    using m s f open_or_exit_view [OF X len] seal_views [OF X, of "bool_bytes True"]
    by (simp add: mme_handle_detach_def guti_or_exit_def Let_def touch_ue_def ue_at_def c16
        message_defs item_ext_view item_app_view detach_body_def mme_removed_def rem_uectx_m_def rem_itfid_m_def)
  then show ?thesis
    using mme_dispatch_nas(3) [OF X len assms(3,2), of g sh d hss sgw fd m w] by (simp add: f)
qed

end
