(* ===== verification/Epc_Simulator.thy ===== *)
theory Epc_Simulator
  imports Epc_Ran
begin

section \<open>The simulators (ran_simulator.cpp, ran_simulator_handover.cpp)\<close>

text \<open>
  \<open>simulate\<close>: one thread per UE attaches, transfers data and detaches until the requested time is
  over, and gives up at the first step that fails. \<open>turns\<close> is the number of time checks that pass;
  \<open>g_tot_regs\<close> counts completed rounds (the clock measurements are left out). In the handover
  simulator a server thread (\<open>handle_mme_conn\<close>) serves the MME while \<open>simulateHandover\<close> plays the
  source and target RAN; \<open>during\<close> is what that thread does while the other sleeps.
\<close>

fun simulate_loop ::
  "ext_lib \<Rightarrow> 'w conn \<Rightarrow> int \<Rightarrow> nat \<Rightarrow> ran \<times> traf_mon \<times> int \<times> string list \<times> 'w \<Rightarrow>
   (ran \<times> traf_mon \<times> int \<times> string list \<times> 'w) res" where
  "simulate_loop X mme rate 0 st = Inr st"
| "simulate_loop X mme rate (Suc turns) (u, tm, g_tot_regs, cmds, w) =
     bindE (ran_initial_attach mme u w) (\<lambda>(u, w).
     bindE (ran_authenticate mme u w) (\<lambda>(ok, u, w).
     if \<not> ok then Inr (u, tm, g_tot_regs, cmds, w)
     else
       bindE (ran_set_security X mme u w) (\<lambda>(ok, u, w).
       if \<not> ok then Inr (u, tm, g_tot_regs, cmds, w)
       else
         bindE (ran_set_eps_session X mme u tm w) (\<lambda>(ok, u, tm, w).
         if \<not> ok then Inr (u, tm, g_tot_regs, cmds, w)
         else
           let cmds = cmds @ ran_transfer_data rate u in
           bindE (ran_detach X mme u w) (\<lambda>(ok, u, w).
           if \<not> ok then Inr (u, tm, g_tot_regs, cmds, w)
           else simulate_loop X mme rate turns (u, tm, g_tot_regs + 1, cmds, w))))))"

definition simulate ::
  "ext_lib \<Rightarrow> 'w conn \<Rightarrow> fresh_hdrs \<Rightarrow> ran_junk \<Rightarrow> int \<Rightarrow> int \<Rightarrow> nat \<Rightarrow> traf_mon \<Rightarrow> 'w \<Rightarrow>
   (ran \<times> traf_mon \<times> int \<times> string list \<times> 'w) res" where
  "simulate X mme fresh junk arg rate turns tm w =
     bindE (new_ran fresh junk) (\<lambda>u.
     bindE (ran_init arg u) (\<lambda>u.
     bindE (ran_conn_mme X u) (\<lambda>_.
     simulate_loop X mme rate turns (u, tm, 0, [], w))))"

fun utraffic_monitor :: "ext_lib \<Rightarrow> fresh_hdrs \<Rightarrow> rx list \<Rightarrow> traf_mon \<Rightarrow> udp_out list res" where
  "utraffic_monitor X fresh [] tm = Inr []"
| "utraffic_monitor X fresh (r # rs) tm =
     bindE (tm_handle_uplink_udata X fresh r tm) (\<lambda>o1.
     bindE (utraffic_monitor X fresh rs tm) (\<lambda>o2. Inr (o1 @ o2)))"

fun dtraffic_monitor :: "fresh_hdrs \<Rightarrow> rx list \<Rightarrow> u8 list list res" where
  "dtraffic_monitor fresh [] = Inr []"
| "dtraffic_monitor fresh (r # rs) =
     bindE (tm_handle_downlink_udata fresh r) (\<lambda>m.
     bindE (dtraffic_monitor fresh rs) (\<lambda>ms. Inr (m # ms)))"

subsection \<open>Handover between two RANs\<close>

definition handle_mme_conn ::
  "ext_lib \<Rightarrow> 'w conn \<Rightarrow> 'w conn \<Rightarrow> fresh_hdrs \<Rightarrow> rx \<Rightarrow> ran \<times> ran \<times> 'w \<Rightarrow> (int \<times> ran \<times> ran \<times> 'w) res" where
  "handle_mme_conn X mmeS mmeT fresh r st =
     (case st of (ranS, ranT, w) \<Rightarrow>
     bindE (local_packet fresh) (\<lambda>pkt.
     bindE (sctp_deliver r pkt) (\<lambda>pkt.
     bindE (extract_s1ap_hdr pkt) (\<lambda>pkt.
     if mme_s1ap_ue_id (s1ap_hdr pkt) = 0 then Inr (1, ranS, ranT, w)
     else if msg_type_s (s1ap_hdr pkt) = 7 then
       bindE (copy_pkt pkt) (\<lambda>p.
       bindE (ran_handle_handover X mmeT p ranT w) (\<lambda>(ranT, w). Inr (1, ranS, ranT, w)))
     else if msg_type_s (s1ap_hdr pkt) = 8 then
       bindE (copy_pkt pkt) (\<lambda>p.
       bindE (ran_indirect_tunnel_complete p ranS) (\<lambda>ranS. Inr (1, ranS, ranT, w)))
     else if msg_type_s (s1ap_hdr pkt) = 9 then
       bindE (copy_pkt pkt) (\<lambda>p.
       bindE (ran_request_tear_down mmeS p ranS w) (\<lambda>(ranS, w). Inr (1, ranS, ranT, w)))
     else Inr (1, ranS, ranT, w)))))"

definition simulateHandover ::
  "ext_lib \<Rightarrow> 'w conn \<Rightarrow> 'w conn \<Rightarrow> (ran \<times> ran \<times> 'w \<Rightarrow> (ran \<times> ran \<times> 'w) res) \<Rightarrow>
   ran \<times> ran \<times> traf_mon \<times> 'w \<Rightarrow> (ran \<times> ran \<times> traf_mon \<times> 'w) res" where
  "simulateHandover X mmeS mmeT during st =
     (case st of (ranS, ranT, tm, w) \<Rightarrow>
     bindE (ran_init 1 (ranS\<lparr>handover_state := 0\<rparr>)) (\<lambda>ranS.
     bindE (ran_init 2 ranT) (\<lambda>ranT.
     bindE (ran_conn_mme X ranS) (\<lambda>_.
     bindE (ran_initial_attach mmeS ranS w) (\<lambda>(ranS, w).
     bindE (ran_authenticate mmeS ranS w) (\<lambda>(ok, ranS, w).
     bindE (ran_set_security X mmeS ranS w) (\<lambda>(ok, ranS, w).
     bindE (ran_set_eps_session X mmeS ranS tm w) (\<lambda>(ok, ranS, tm, w).
     bindE (ran_initiate_handover mmeS ranS w) (\<lambda>(ranS, w).
     bindE (during (ranS, ranT, w)) (\<lambda>(ranS, ranT, w).
     bindE (ran_complete_handover mmeT ranT w) (\<lambda>(ranT, w).
     Inr (ranS, ranT, tm, w))))))))))))"

end
