(* ===== verification/Epc_Ran_Session.thy ===== *)
theory Epc_Ran_Session
  imports Epc_Nas Epc_Simulator
begin

section \<open>The RAN side of attach, handover and detach\<close>

text \<open>
  What each method of \<open>Ran\<close> sends and keeps when the MME's message has its format, on every branch.
  \<open>pkt_of\<close>, the working packet, is cleared before every use; the lemmas leave it open.
\<close>

lemma ran_attach_sends:
  "\<exists>q. ran_initial_attach mme u w =
    Inr (u\<lparr>pkt_of := q\<rparr>,
         fst mme (attach_req (s1ap_init 1 26 (enodeb_s1ap_ue_id_r (ctx u)) 0 (s1ap_hdr (pkt_of u)))
           (imsi_r (ctx u)) (tai_r (ctx u)) (ksi_asme_r (ctx u)) (nw_capability_r (ctx u))) w)"
  by (rule exI) (simp add: ran_initial_attach_def item_app_view Let_def nas_defs)

subsection \<open>Mutual authentication\<close>

definition ran_authenticated :: "u32 \<Rightarrow> u64 \<Rightarrow> u64 \<Rightarrow> ran_ctx \<Rightarrow> ran_ctx" where
  "ran_authenticated mme_id ksi k_asme c =
     c\<lparr>mme_s1ap_ue_id_r := mme_id, ksi_asme_r := ksi, k_asme_r := k_asme\<rparr>"

lemma ran_authenticate_ok:
  assumes "snd mme w = (Rx (autn_challenge h autn rand_num ksi), v)"
    and "autn_vector (key_r (ctx u)) rand_num (plmn_id_r (ctx u)) = (autn, xres, k_asme)"
  shows "\<exists>q. ran_authenticate mme u w =
    Inr (True, u\<lparr>pkt_of := q, ctx := ran_authenticated (mme_s1ap_ue_id h) ksi k_asme (ctx u)\<rparr>,
         fst mme (autn_response (s1ap_init 2 8 (enodeb_s1ap_ue_id_r (ctx u)) (mme_s1ap_ue_id h) h) xres) v)"
  using assms
  by (intro exI) (auto simp: ran_authenticate_def item_ext_view item_app_view Let_def nas_defs autn_vector_def
      ran_authenticated_def ac_simps)

lemma ran_authenticate_bad:
  assumes "snd mme w = (Rx (autn_challenge h autn rand_num ksi), v)"
    and "fst (autn_vector (key_r (ctx u)) rand_num (plmn_id_r (ctx u))) \<noteq> autn"
  shows "\<exists>q. ran_authenticate mme u w =
    Inr (False, u\<lparr>pkt_of := q, ctx := (ctx u)\<lparr>mme_s1ap_ue_id_r := mme_s1ap_ue_id h, ksi_asme_r := ksi\<rparr>\<rparr>, v)"
  using assms
  by (intro exI) (auto simp: ran_authenticate_def item_ext_view Let_def nas_defs autn_vector_def)

text \<open>The vector of another key has another token, so the RAN accepts its own HSS only.\<close>

lemma autn_vector_inject:
  "fst (autn_vector key rand_num plmn) = fst (autn_vector key' rand_num plmn') \<longleftrightarrow> key = key'"
  by (simp add: autn_vector_def Let_def)

subsection \<open>Security mode command\<close>

definition ran_secured :: "u64 \<Rightarrow> u16 \<Rightarrow> u64 \<Rightarrow> u64 \<Rightarrow> ran_ctx \<Rightarrow> ran_ctx" where
  "ran_secured ksi cap enc_algo int_algo c =
     ran_set_integrity_context (ran_set_crypt_context
       (c\<lparr>ksi_asme_r := ksi, nw_capability_r := cap, nas_enc_algo_r := enc_algo, nas_int_algo_r := int_algo\<rparr>))"

lemma ran_secured_ids [simp]:
  "enodeb_s1ap_ue_id_r (ran_secured ksi cap e i c) = enodeb_s1ap_ue_id_r c"
  "mme_s1ap_ue_id_r (ran_secured ksi cap e i c) = mme_s1ap_ue_id_r c"
  by (simp_all add: ran_secured_def ran_set_integrity_context_def ran_set_crypt_context_def)

lemma ran_set_security_ok:
  assumes X: "crypto_ok X" and "snd mme w = (Rx (smc_msg X h (smc_body ksi cap enc_algo int_algo)), v)"
  shows "\<exists>q. ran_set_security X mme u w =
    Inr (True, u\<lparr>pkt_of := q, ctx := ran_secured ksi cap enc_algo int_algo (ctx u)\<rparr>,
         fst mme (nas_msg X (s1ap_init 3 36 (enodeb_s1ap_ue_id_r (ctx u)) (mme_s1ap_ue_id_r (ctx u)) h)
           (bool_bytes True)) v)"
  using assms(2) seal_views [OF X, of "bool_bytes True"] length_cipher [OF X, of "bool_bytes True"] X
  by (intro exI) (simp add: ran_set_security_def nas_defs rem_hmac_view item_ext_view item_app_view Let_def
      ran_secured_def ran_set_crypt_context_def ran_set_integrity_context_def)

text \<open>A security mode command with a wrong MAC stops the process.\<close>

lemma ran_set_security_forged:
  assumes "crypto_ok X" and "length tag = 20" and "tag \<noteq> mac X (smc_body ksi cap enc_algo int_algo)"
    and "snd mme w = (Rx (s1ap_bytes h @ tag @ smc_body ksi cap enc_algo int_algo), v)"
  shows "ran_set_security X mme u w = Inl (Exit ''hmac error: ran_setsecurity'')"
  using assms
  by (simp add: ran_set_security_def nas_defs rem_hmac_view item_ext_view Let_def cmp_hmacs_iff)

subsection \<open>Session\<close>

definition ran_session :: "u64 \<Rightarrow> u8 \<Rightarrow> u8 \<Rightarrow> u32 \<Rightarrow> u16 \<Rightarrow> u64 list \<Rightarrow> u64 \<Rightarrow> string \<Rightarrow> ran_ctx \<Rightarrow> ran_ctx" where
  "ran_session guti b e s1_ul cap tais timer ip c =
     c\<lparr>guti_r := guti, eps_bearer_id_r := b, e_rab_id_r := e, s1_uteid_ul_r := s1_ul,
       nw_capability_r := cap, tai_list_r := tais, tau_timer_r := timer, ip_addr_r := ip,
       s1_uteid_dl_r := s1_ul, emm_state_r := 1, ecm_state_r := 1\<rparr>"

lemma accept_body_le:
  "short_ip ip \<Longrightarrow> short_ip sgw_ip \<Longrightarrow> length tais \<le> 50 \<Longrightarrow>
   length (accept_body guti b e s1_ul k cap tais timer ip sgw_ip port res) \<le> 900"
  by (simp add: accept_body_def short_ip_def)

text \<open>
  The S1AP header field \<open>msg_len\<close> of a protected message is \<open>20 + length (cipher X m)\<close>; \<open>nas_len\<close>
  abbreviates it.
\<close>

definition nas_len :: "ext_lib \<Rightarrow> u8 list \<Rightarrow> u16" where
  "nas_len X m = of_nat (20 + length (cipher X m))"

lemma ran_set_eps_session_ok:
  assumes X: "crypto_ok X" and ips: "short_ip ip" "short_ip sgw_ip"
    and port: "- (2 ^ 31) \<le> port" "port < 2 ^ 31" and tais: "length tais \<le> 50"
    and rcv: "snd mme w =
      (Rx (nas_msg X h (accept_body guti b e s1_ul k_enodeb cap tais timer ip sgw_ip port True)), v)"
  shows "\<exists>q a. ran_set_eps_session X mme u tm w =
    Inr (True, u\<lparr>epc_addrs_of := a, pkt_of := q, ctx := ran_session guti b e s1_ul cap tais timer ip (ctx u)\<rparr>,
         update_uplink_info ip s1_ul sgw_ip port tm,
         fst mme (nas_msg X (s1ap_init 4 (nas_len X (complete_body b s1_ul)) (enodeb_s1ap_ue_id_r (ctx u))
           (mme_s1ap_ue_id_r (ctx u)) h) (complete_body b s1_ul)) v)"
proof -
  define body where "body = accept_body guti b e s1_ul k_enodeb cap tais timer ip sgw_ip port True"
  have len: "length body \<le> 900"
    unfolding body_def using ips tais by (rule accept_body_le)
  have "length (complete_body b s1_ul) \<le> 900"
    by (simp add: complete_body_def)
  note send = seal_views [OF X this, unfolded complete_body_def]
  have "nas_msg X h body \<noteq> []"
    using nas_msg_nonempty [OF X, of h body] by simp
  with ips port tais rcv [folded body_def] open_views [OF X len] send show ?thesis
    by (intro exI)
      (simp add: ran_set_eps_session_def item_ext_view item_app_view Let_def short_ip_def extract_u64s_view
        ran_session_def nas_len_def body_def accept_body_def complete_body_def)
qed

subsection \<open>Detach\<close>

lemma ran_detach_ok:
  assumes X: "crypto_ok X"
    and rcv: "snd mme (fst mme (nas_msg X (s1ap_init 5 52 (enodeb_s1ap_ue_id_r (ctx u))
        (mme_s1ap_ue_id_r (ctx u)) (s1ap_hdr (pkt_of u)))
        (detach_body (guti_r (ctx u)) (ksi_asme_r (ctx u)) 1)) w) = (Rx (nas_msg X h (bool_bytes res)), v)"
  shows "\<exists>q. ran_detach X mme u w = Inr (res, u\<lparr>pkt_of := q\<rparr>, v)"
proof -
  let ?b = "detach_body (guti_r (ctx u)) (ksi_asme_r (ctx u)) 1"
  have len: "length ?b \<le> 900" "length (bool_bytes res) \<le> 900"
    by (simp_all add: detach_body_def)
  have "length (cipher X ?b) = 32"
    by (simp add: length_cipher X detach_body_def)
  moreover have "nas_msg X h (bool_bytes res) \<noteq> []"
    using nas_msg_nonempty [OF X, of h "bool_bytes res"] by simp
  ultimately show ?thesis
    using rcv open_views [OF X len(2)] seal_views [OF X len(1), unfolded detach_body_def]
    by (intro exI) (simp add: ran_detach_def item_ext_view item_app_view Let_def detach_body_def)
qed

text \<open>A closed connection ends every method that waits for the MME with \<open>false\<close>.\<close>

lemma ran_eof:
  assumes "snd mme w = (Rx_fail [] 0, v)"
  shows "\<exists>q. ran_authenticate mme u w = Inr (False, u\<lparr>pkt_of := q\<rparr>, v)"
    and "\<exists>q. ran_set_security X mme u w = Inr (False, u\<lparr>pkt_of := q\<rparr>, v)"
    and "\<exists>q. ran_set_eps_session X mme u tm w = Inr (False, u\<lparr>pkt_of := q\<rparr>, tm, v)"
  using assms
  by (auto simp: ran_authenticate_def ran_set_security_def ran_set_eps_session_def)

end
