(* ===== verification/Epc_Pgw.thy ===== *)
theory Epc_Pgw
  imports Epc_Network Epc_Hss
begin

section \<open>Packet Data Network Gateway (pgw.h, pgw.cpp, pgw_server.cpp)\<close>

text \<open>
  Class \<open>Pgw\<close>: \<open>s5_id\<close> (S5 endpoint id to IMSI), \<open>sgi_id\<close> (address of the UE to IMSI), \<open>ue_ctx\<close>
  (IMSI to \<open>UeContext\<close>) and the address plan \<open>ip_addrs\<close> that the constructor fills for
  \<open>MAX_UE_COUNT\<close> subscribers. \<open>ip_addrs[imsi]\<close> of an IMSI outside the plan inserts the empty
  address. Two server threads: S5 (session control and uplink data from the SGW) and SGi (downlink
  data from the network).
\<close>

subsection \<open>State\<close>

record pgw_ue =
  ip_addr_p :: string
  tai_p :: u64
  apn_in_use_p :: u64
  eps_bearer_id_p :: u8
  s5_uteid_ul_p :: u32
  s5_uteid_dl_p :: u32
  s5_cteid_ul_p :: u32
  s5_cteid_dl_p :: u32

text \<open>The constructor leaves \<open>eps_bearer_id\<close> uninitialised; nothing reads it.\<close>

definition new_pgw_ue :: pgw_ue where
  "new_pgw_ue =
     \<lparr>ip_addr_p = '''', tai_p = 0, apn_in_use_p = 0, eps_bearer_id_p = 0, s5_uteid_ul_p = 0,
      s5_uteid_dl_p = 0, s5_cteid_ul_p = 0, s5_cteid_dl_p = 0\<rparr>"

definition pgw_ue_init ::
  "string \<Rightarrow> u64 \<Rightarrow> u64 \<Rightarrow> u8 \<Rightarrow> u32 \<Rightarrow> u32 \<Rightarrow> u32 \<Rightarrow> u32 \<Rightarrow> pgw_ue \<Rightarrow> pgw_ue" where
  "pgw_ue_init ip tai apn_in_use eps_bearer_id s5_ul s5_dl s5_cul s5_cdl c =
     c\<lparr>ip_addr_p := ip, tai_p := tai, apn_in_use_p := apn_in_use,
       eps_bearer_id_p := eps_bearer_id, s5_uteid_ul_p := s5_ul, s5_uteid_dl_p := s5_dl,
       s5_cteid_ul_p := s5_cul, s5_cteid_dl_p := s5_cdl\<rparr>"

record pgw =
  s5_id_p :: "u32 \<rightharpoonup> u64"
  sgi_id :: "string \<rightharpoonup> u64"
  ue_ctx_p :: "u64 \<rightharpoonup> pgw_ue"
  ip_addrs :: "u64 \<rightharpoonup> string"

subsection \<open>The address plan\<close>

text \<open>The loop of \<open>set_ip_addrs\<close>: \<open>n\<close> turns left, the counter \<open>i\<close>, the locals \<open>subnet\<close> and \<open>host\<close>.\<close>

fun set_ip_addrs_loop :: "nat \<Rightarrow> nat \<Rightarrow> nat \<Rightarrow> nat \<Rightarrow> (u64 \<rightharpoonup> string) \<Rightarrow> (u64 \<rightharpoonup> string)" where
  "set_ip_addrs_loop 0 i subnet host t = t"
| "set_ip_addrs_loop (Suc n) i subnet host t =
     (let imsi = 119000000000 + of_nat i;
          ip_addr = ''172.16.'' @ to_string subnet @ ''.'' @ to_string host;
          t = t(imsi \<mapsto> ip_addr)
      in if host = 254 then set_ip_addrs_loop n (i + 1) (subnet + 1) 3 t
         else set_ip_addrs_loop n (i + 1) subnet (host + 1) t)"

definition set_ip_addrs :: "(u64 \<rightharpoonup> string) \<Rightarrow> (u64 \<rightharpoonup> string)" where
  "set_ip_addrs t = set_ip_addrs_loop MAX_UE_COUNT 0 1 3 t"

definition new_pgw :: pgw where
  "new_pgw = \<lparr>s5_id_p = Map.empty, sgi_id = Map.empty, ue_ctx_p = Map.empty,
              ip_addrs = set_ip_addrs Map.empty\<rparr>"

subsection \<open>Tables\<close>

definition pgw_update_itfid :: "int \<Rightarrow> u32 \<Rightarrow> string \<Rightarrow> u64 \<Rightarrow> pgw \<Rightarrow> pgw res" where
  "pgw_update_itfid itf_id_no t ue_ip_addr imsi p =
     (if itf_id_no = 5 then Inr (p\<lparr>s5_id_p := (s5_id_p p)(t \<mapsto> imsi)\<rparr>)
      else if itf_id_no = 0 then Inr (p\<lparr>sgi_id := (sgi_id p)(ue_ip_addr \<mapsto> imsi)\<rparr>)
      else Inl (Exit ''incorrect itf_id_no: pgw_updateitfid''))"

definition pgw_get_imsi :: "int \<Rightarrow> u32 \<Rightarrow> string \<Rightarrow> pgw \<Rightarrow> u64 res" where
  "pgw_get_imsi itf_id_no t ue_ip_addr p =
     (if itf_id_no = 5 then Inr (at_or 0 (s5_id_p p) t)
      else if itf_id_no = 0 then Inr (at_or 0 (sgi_id p) ue_ip_addr)
      else Inl (Exit ''incorrect itf_id_no: pgw_getimsi''))"

definition pgw_rem_itfid :: "int \<Rightarrow> u32 \<Rightarrow> string \<Rightarrow> pgw \<Rightarrow> pgw res" where
  "pgw_rem_itfid itf_id_no t ue_ip_addr p =
     (if itf_id_no = 5 then Inr (p\<lparr>s5_id_p := (s5_id_p p)(t := None)\<rparr>)
      else if itf_id_no = 0 then Inr (p\<lparr>sgi_id := (sgi_id p)(ue_ip_addr := None)\<rparr>)
      else Inl (Exit ''incorrect itf_id_no: pgw_remitfid''))"

definition pgw_rem_uectx :: "u64 \<Rightarrow> pgw \<Rightarrow> pgw" where
  "pgw_rem_uectx imsi p = p\<lparr>ue_ctx_p := (ue_ctx_p p)(imsi := None)\<rparr>"

definition pgw_get_downlink_info :: "u64 \<Rightarrow> pgw \<Rightarrow> u32 option" where
  "pgw_get_downlink_info imsi p =
     (case ue_ctx_p p imsi of None \<Rightarrow> None | Some c \<Rightarrow> Some (s5_uteid_dl_p c))"

interpretation pgw_s5: id_table "\<lambda>t. pgw_update_itfid 5 t ''''" "\<lambda>t. pgw_get_imsi 5 t ''''"
  "\<lambda>t. pgw_rem_itfid 5 t ''''"
  by unfold_locales (auto simp: pgw_update_itfid_def pgw_get_imsi_def pgw_rem_itfid_def at_or_def)

interpretation pgw_sgi: id_table "pgw_update_itfid 0 0" "pgw_get_imsi 0 0" "pgw_rem_itfid 0 0"
  by unfold_locales (auto simp: pgw_update_itfid_def pgw_get_imsi_def pgw_rem_itfid_def at_or_def)

subsection \<open>Handlers\<close>

definition pgw_handle_create_session :: "sock_addr \<Rightarrow> packet \<Rightarrow> pgw \<Rightarrow> (udp_out list \<times> pgw) res" where
  "pgw_handle_create_session src pkt p =
     bindE (extract_u32 pkt) (\<lambda>(s5_cdl, pkt).
     bindE (extract_u64 pkt) (\<lambda>(imsi, pkt).
     bindE (extract_u8 pkt) (\<lambda>(eps_bearer_id, pkt).
     bindE (extract_u32 pkt) (\<lambda>(s5_dl, pkt).
     bindE (extract_u64 pkt) (\<lambda>(apn_in_use, pkt).
     bindE (extract_u64 pkt) (\<lambda>(tai, pkt).
     let s5_cul = s5_cdl; s5_ul = s5_cdl;
         ue_ip_addr = at_or '''' (ip_addrs p) imsi;
         p = p\<lparr>ip_addrs := op_idx '''' (ip_addrs p) imsi\<rparr> in
     bindE (pgw_update_itfid 5 s5_ul '''' imsi p) (\<lambda>p.
     bindE (pgw_update_itfid 0 0 ue_ip_addr imsi p) (\<lambda>p.
     let p = p\<lparr>ue_ctx_p := modify_at new_pgw_ue (ue_ctx_p p) imsi
               (pgw_ue_init ue_ip_addr tai apn_in_use eps_bearer_id s5_ul s5_dl s5_cul s5_cdl)\<rparr> in
     bindE (append_u32 s5_cul (clear_pkt pkt)) (\<lambda>pkt.
     bindE (append_u8 eps_bearer_id pkt) (\<lambda>pkt.
     bindE (append_u32 s5_ul pkt) (\<lambda>pkt.
     bindE (append_string ue_ip_addr pkt) (\<lambda>pkt.
     bindE (prepend_gtp_hdr 2 1 (len16 pkt) s5_cdl pkt) (\<lambda>pkt.
     bindE (udp_snd pkt) (\<lambda>rsp.
     Inr ([Reply src rsp], p)))))))))))))))"

definition pgw_handle_uplink_udata :: "ext_lib \<Rightarrow> packet \<Rightarrow> udp_out list res" where
  "pgw_handle_uplink_udata X pkt =
     bindE (truncate_pkt pkt) (\<lambda>pkt.
     bindE (set_server X g_sink_ip_addr g_sink_port) (\<lambda>dst.
     bindE (udp_snd pkt) (\<lambda>m.
     Inr [Forward dst m])))"

definition pgw_handle_downlink_udata :: "ext_lib \<Rightarrow> packet \<Rightarrow> pgw \<Rightarrow> udp_out list res" where
  "pgw_handle_downlink_udata X pkt p =
     bindE (get_dst_ip_addr X pkt) (\<lambda>ue_ip_addr.
     bindE (pgw_get_imsi 0 0 ue_ip_addr p) (\<lambda>imsi.
     if imsi = 0 then Inr []
     else
       case pgw_get_downlink_info imsi p of
         None \<Rightarrow> Inr []
       | Some s5_dl \<Rightarrow>
         bindE (prepend_gtp_hdr 1 3 (len16 pkt) s5_dl pkt) (\<lambda>pkt.
         bindE (set_server X g_sgw_s5_ip_addr g_sgw_s5_port) (\<lambda>dst.
         bindE (udp_snd pkt) (\<lambda>m.
         Inr [Forward dst m])))))"

definition pgw_handle_detach :: "sock_addr \<Rightarrow> packet \<Rightarrow> pgw \<Rightarrow> (udp_out list \<times> pgw) res" where
  "pgw_handle_detach src pkt p =
     bindE (pgw_get_imsi 5 (teid (gtp_hdr pkt)) '''' p) (\<lambda>imsi.
     if imsi = 0 then Inl (Exit ''Zero imsi: pgw_handledetach'')
     else
       bindE (extract_u8 pkt) (\<lambda>(eps_bearer_id, pkt).
       bindE (extract_u64 pkt) (\<lambda>(tai, pkt).
       let c = at_or new_pgw_ue (ue_ctx_p p) imsi;
           p = p\<lparr>ue_ctx_p := op_idx new_pgw_ue (ue_ctx_p p) imsi\<rparr> in
       bindE (append_bool True (clear_pkt pkt)) (\<lambda>pkt.
       bindE (prepend_gtp_hdr 2 4 (len16 pkt) (s5_cteid_dl_p c) pkt) (\<lambda>pkt.
       bindE (udp_snd pkt) (\<lambda>rsp.
       bindE (pgw_rem_itfid 5 (s5_cteid_ul_p c) '''' p) (\<lambda>p.
       bindE (pgw_rem_itfid 0 0 (ip_addr_p c) p) (\<lambda>p.
       Inr ([Reply src rsp], pgw_rem_uectx imsi p)))))))))"

subsection \<open>The server threads\<close>

definition pgw_s5_turn ::
  "ext_lib \<Rightarrow> sock_addr \<times> rx \<Rightarrow> packet \<times> pgw \<Rightarrow> (udp_out list \<times> packet \<times> pgw) res" where
  "pgw_s5_turn X m st =
     (case m of (src, r) \<Rightarrow> case st of (pkt, p) \<Rightarrow>
     bindE (udp_server_rcv r pkt) (\<lambda>pkt.
     bindE (extract_gtp_hdr pkt) (\<lambda>pkt.
     let msg_type = msg_type_g (gtp_hdr pkt) in
     if msg_type = 1 then
       bindE (copy_pkt pkt) (\<lambda>q.
       bindE (pgw_handle_create_session src q p) (\<lambda>(o1, p). Inr (o1, pkt, p)))
     else if msg_type = 2 then
       bindE (copy_pkt pkt) (\<lambda>q.
       bindE (pgw_handle_uplink_udata X q) (\<lambda>o1. Inr (o1, pkt, p)))
     else if msg_type = 4 then
       bindE (copy_pkt pkt) (\<lambda>q.
       bindE (pgw_handle_detach src q p) (\<lambda>(o1, p). Inr (o1, pkt, p)))
     else Inr ([], pkt, p))))"

definition pgw_handle_s5_traffic ::
  "ext_lib \<Rightarrow> fresh_hdrs \<Rightarrow> (sock_addr \<times> rx) list \<Rightarrow> pgw \<Rightarrow> (udp_out list \<times> packet \<times> pgw) res" where
  "pgw_handle_s5_traffic X fresh ms p =
     bindE (local_packet fresh) (\<lambda>pkt.
     bindE (set_client X g_pgw_sgi_ip_addr) (\<lambda>_.
     serve (pgw_s5_turn X) ms (pkt, p)))"

definition pgw_sgi_turn ::
  "ext_lib \<Rightarrow> sock_addr \<times> rx \<Rightarrow> packet \<times> pgw \<Rightarrow> (udp_out list \<times> packet \<times> pgw) res" where
  "pgw_sgi_turn X m st =
     (case m of (src, r) \<Rightarrow> case st of (pkt, p) \<Rightarrow>
     bindE (udp_server_rcv r pkt) (\<lambda>pkt.
     bindE (copy_pkt pkt) (\<lambda>q.
     bindE (pgw_handle_downlink_udata X q p) (\<lambda>o1. Inr (o1, pkt, p)))))"

definition pgw_handle_sgi_traffic ::
  "ext_lib \<Rightarrow> fresh_hdrs \<Rightarrow> (sock_addr \<times> rx) list \<Rightarrow> pgw \<Rightarrow> (udp_out list \<times> packet \<times> pgw) res" where
  "pgw_handle_sgi_traffic X fresh ms p =
     bindE (local_packet fresh) (\<lambda>pkt.
     bindE (set_client X g_pgw_s5_ip_addr) (\<lambda>_.
     serve (pgw_sgi_turn X) ms (pkt, p)))"

end
