(* ===== verification/Epc_Pgw_Session.thy ===== *)
theory Epc_Pgw_Session
  imports Epc_Pgw Epc_Sgw_Session
begin

section \<open>The PGW: address plan and sessions\<close>

text \<open>
  The closed form of the address plan and what follows from it, then the effect of each S5 and SGi
  message on the state, branch by branch, and the well-formedness that every turn keeps.
\<close>

subsection \<open>Address plan\<close>

definition plan_imsi :: "nat \<Rightarrow> u64" where
  "plan_imsi i = 119000000000 + of_nat i"

definition plan_ip :: "nat \<Rightarrow> string" where
  "plan_ip i = ''172.16.'' @ to_string (1 + i div 252) @ ''.'' @ to_string (3 + i mod 252)"

lemma unat_plan_imsi: "i < 2 ^ 60 \<Longrightarrow> unat (plan_imsi i) = 119000000000 + i"
proof -
  assume "i < 2 ^ 60"
  then have "(119000000000 + i) mod 2 ^ 64 = 119000000000 + i"
    by simp
  moreover have "plan_imsi i = of_nat (119000000000 + i)"
    by (simp add: plan_imsi_def)
  ultimately show ?thesis
    by (simp only: unat_of_nat) simp
qed

lemma plan_imsi_inject: "i < 2 ^ 60 \<Longrightarrow> j < 2 ^ 60 \<Longrightarrow> plan_imsi i = plan_imsi j \<longleftrightarrow> i = j"
  by (metis unat_plan_imsi add_left_cancel)

text \<open>The loop invariant: at turn \<open>i\<close> the locals are the digits of \<open>i\<close> in base 252.\<close>

lemma set_ip_addrs_loop_closed:
  assumes "i + n \<le> 2 ^ 60"
  shows "set_ip_addrs_loop n i (1 + i div 252) (3 + i mod 252) t =
    (\<lambda>imsi. if \<exists>k. i \<le> k \<and> k < i + n \<and> imsi = plan_imsi k
            then Some (plan_ip (unat imsi - 119000000000)) else t imsi)"
  using assms
proof (induction n arbitrary: i t)
  case 0
  then show ?case by (auto simp: fun_eq_iff)
next
  case (Suc n)
  define t' where "t' = t(plan_imsi i \<mapsto> plan_ip i)"
  have step: "set_ip_addrs_loop (Suc n) i (1 + i div 252) (3 + i mod 252) t =
      set_ip_addrs_loop n (Suc i) (1 + Suc i div 252) (3 + Suc i mod 252) t'"
  proof (cases "i mod 252 = 251")
    case True
    then have "Suc i mod 252 = 0" and "Suc i div 252 = Suc (i div 252)"
      by (simp_all add: mod_Suc div_Suc)
    with True show ?thesis
      by (simp add: t'_def plan_imsi_def plan_ip_def)
  next
    case False
    then have "Suc i mod 252 = Suc (i mod 252)" and "Suc i div 252 = i div 252"
      by (simp_all add: mod_Suc div_Suc)
    moreover have "3 + i mod 252 \<noteq> 254"
      using False by simp
    ultimately show ?thesis
      by (simp add: t'_def plan_imsi_def plan_ip_def)
  qed
  have IH: "set_ip_addrs_loop n (Suc i) (1 + Suc i div 252) (3 + Suc i mod 252) t' =
      (\<lambda>imsi. if \<exists>k. Suc i \<le> k \<and> k < Suc i + n \<and> imsi = plan_imsi k
              then Some (plan_ip (unat imsi - 119000000000)) else t' imsi)"
    using Suc.prems by (intro Suc.IH) simp
  have "unat (plan_imsi i) - 119000000000 = i"
    using Suc.prems by (simp add: unat_plan_imsi)
  moreover have "(\<exists>k. i \<le> k \<and> k < i + Suc n \<and> x = plan_imsi k) \<longleftrightarrow>
      x = plan_imsi i \<or> (\<exists>k. Suc i \<le> k \<and> k < Suc i + n \<and> x = plan_imsi k)" for x
    by (metis Suc_leD Suc_leI add_Suc_shift less_add_same_cancel1 le_neq_implies_less zero_less_Suc order_refl)
  ultimately show ?case
    unfolding step IH by (intro ext) (auto simp: t'_def)
qed

lemma set_ip_addrs_closed:
  "set_ip_addrs t = (\<lambda>imsi. if \<exists>k < 10000. imsi = plan_imsi k
     then Some (plan_ip (unat imsi - 119000000000)) else t imsi)"
  using set_ip_addrs_loop_closed [of 0 10000 t]
  by (simp add: set_ip_addrs_def MAX_UE_COUNT_def)

lemma new_pgw_ip:
  "i < 10000 \<Longrightarrow> ip_addrs new_pgw (plan_imsi i) = Some (plan_ip i)"
  by (auto simp: new_pgw_def set_ip_addrs_closed unat_plan_imsi)

text \<open>\<open>dotted\<close> of an address with two fixed bytes, so two subscribers never share one.\<close>

lemma plan_ip_dotted:
  assumes "i < 10000"
  shows "plan_ip i = dotted [172, 16, of_nat (1 + i div 252), of_nat (3 + i mod 252)]"
proof -
  have "unat (of_nat (1 + i div 252) :: u8) = 1 + i div 252" and "unat (of_nat (3 + i mod 252) :: u8) = 3 + i mod 252"
    using assms by (simp_all only: unat_of_nat_u8) simp_all
  moreover have "dotted [172, 16, a, b] = ''172.16.'' @ to_string (unat a) @ ''.'' @ to_string (unat b)" for a b
  proof -
    have "to_string (unat (172 :: u8)) = ''172''" and "to_string (unat (16 :: u8)) = ''16''"
      by code_simp+
    then show ?thesis
      by (simp add: dotted_def)
  qed
  ultimately show ?thesis
    by (simp only: plan_ip_def)
qed

subsection \<open>Session messages\<close>

definition ip_of :: "pgw \<Rightarrow> u64 \<Rightarrow> string" where
  "ip_of p imsi = at_or '''' (ip_addrs p) imsi"

definition pgw_created :: "u32 \<Rightarrow> u64 \<Rightarrow> u8 \<Rightarrow> u32 \<Rightarrow> u64 \<Rightarrow> u64 \<Rightarrow> pgw \<Rightarrow> pgw" where
  "pgw_created t imsi b s5_dl apn tai p =
     p\<lparr>s5_id_p := (s5_id_p p)(t \<mapsto> imsi), sgi_id := (sgi_id p)(ip_of p imsi \<mapsto> imsi),
       ue_ctx_p := modify_at new_pgw_ue (ue_ctx_p p) imsi
         (pgw_ue_init (ip_of p imsi) tai apn b t s5_dl t t),
       ip_addrs := op_idx '''' (ip_addrs p) imsi\<rparr>"

lemma pgw_create_turn:
  assumes "msg_type_g h = 1" and "short_ip (ip_of p imsi)"
  shows "pgw_s5_turn X (src, Rx (create_req5 h t imsi b s5_dl apn tai)) (pkt, p) =
    Inr ([Reply src (create_rsp5 (gtp_with 2 1 (of_nat (13 + length (ip_of p imsi))) t h) t b t (ip_of p imsi))],
         view h (s1ap_hdr pkt) (diameter_hdr pkt) (gtp_bytes h) (drop 16 (create_req5 h t imsi b s5_dl apn tai)),
         pgw_created t imsi b s5_dl apn tai p)"
  using assms
  by (simp add: pgw_s5_turn_def pgw_handle_create_session_def message_defs item_ext_view item_app_view
      Let_def ip_of_def [symmetric] short_ip_def pgw_update_itfid_def pgw_created_def ac_simps)

definition pgw_detached :: "u64 \<Rightarrow> pgw \<Rightarrow> pgw" where
  "pgw_detached imsi p =
     (let c = at_or new_pgw_ue (ue_ctx_p p) imsi
      in p\<lparr>s5_id_p := (s5_id_p p)(s5_cteid_ul_p c := None), sgi_id := (sgi_id p)(ip_addr_p c := None),
           ue_ctx_p := (ue_ctx_p p)(imsi := None)\<rparr>)"

lemma pgw_detach_turn:
  assumes "msg_type_g h = 4" and "s5_id_p p (teid h) = Some imsi" and "imsi \<noteq> 0"
  shows "pgw_s5_turn X (src, Rx (detach_req h b tai)) (pkt, p) =
    Inr ([Reply src (bool_rsp (gtp_with 2 4 1 (s5_cteid_dl_p (at_or new_pgw_ue (ue_ctx_p p) imsi)) h) True)],
         view h (s1ap_hdr pkt) (diameter_hdr pkt) (gtp_bytes h) (drop 16 (detach_req h b tai)),
         pgw_detached imsi p)"
  using assms
  by (simp add: pgw_s5_turn_def pgw_handle_detach_def message_defs item_ext_view item_app_view
      Let_def pgw_get_imsi_def pgw_rem_itfid_def pgw_rem_uectx_def pgw_detached_def op_idx_def)

lemma pgw_detach_unknown:
  assumes "msg_type_g h = 4" and "at_or 0 (s5_id_p p) (teid h) = 0"
  shows "pgw_s5_turn X (src, Rx (detach_req h b tai)) (pkt, p) = Inl (Exit ''Zero imsi: pgw_handledetach'')"
  using assms
  by (simp add: pgw_s5_turn_def pgw_handle_detach_def message_defs item_ext_view pgw_get_imsi_def)

subsection \<open>The contract\<close>

type_synonym pgw_proc = "(packet \<times> pgw) option"

definition pgw_addr :: "ext_lib \<Rightarrow> sock_addr res" where
  "pgw_addr X = set_inet_sock_addr X g_pgw_s5_ip_addr g_pgw_s5_port"

text \<open>A datagram to another address is lost.\<close>

definition pgw_net :: "ext_lib \<Rightarrow> sock_addr \<Rightarrow> pgw_proc net" where
  "pgw_net X src a req st =
     (if pgw_addr X = Inr a then call_udp (pgw_s5_turn X) src req st else (Rx_fail [] (-1), st))"

definition pgw_sess :: "pgw_proc \<Rightarrow> (u32 \<rightharpoonup> u64)" where
  "pgw_sess st = (case st of None \<Rightarrow> Map.empty | Some (pkt, p) \<Rightarrow> s5_id_p p)"

definition pgw_ip :: "u64 \<Rightarrow> pgw_proc \<Rightarrow> string" where
  "pgw_ip imsi st = (case st of None \<Rightarrow> '''' | Some (pkt, p) \<Rightarrow> ip_of p imsi)"

text \<open>Every registered endpoint has the context of its subscriber, which points back to it.\<close>

definition pgw_inv :: "pgw \<Rightarrow> bool" where
  "pgw_inv p \<longleftrightarrow>
     (\<forall>t imsi. s5_id_p p t = Some imsi \<longrightarrow>
        imsi \<noteq> 0 \<and> (\<exists>c. ue_ctx_p p imsi = Some c \<and> s5_cteid_ul_p c = t \<and> s5_uteid_dl_p c = t \<and>
                     ip_addr_p c = ip_of p imsi))"

definition pgw_live :: "ext_lib \<Rightarrow> sock_addr \<Rightarrow> pgw_proc \<Rightarrow> bool" where
  "pgw_live X a st \<longleftrightarrow> pgw_addr X = Inr a \<and> (\<exists>pkt p. st = Some (pkt, p) \<and> pgw_inv p)"

lemma ip_of_created [simp]: "ip_of (pgw_created t imsi b s5_dl apn tai p) i = ip_of p i"
  by (simp add: pgw_created_def ip_of_def)

lemma s5_id_created [simp]: "s5_id_p (pgw_created t imsi b s5_dl apn tai p) = (s5_id_p p)(t \<mapsto> imsi)"
  by (simp add: pgw_created_def)

lemma ip_of_detached [simp]: "ip_of (pgw_detached imsi p) i = ip_of p i"
  by (simp add: pgw_detached_def ip_of_def Let_def)

lemma pgw_created_inv:
  "pgw_inv p \<Longrightarrow> imsi \<noteq> 0 \<Longrightarrow> one_teid (s5_id_p p) t imsi \<Longrightarrow> pgw_inv (pgw_created t imsi b t apn tai p)"
  unfolding pgw_inv_def ip_of_created
  by (auto simp: pgw_created_def pgw_ue_init_def one_teid_def modify_at_def)

lemma pgw_detached_tables:
  assumes "pgw_inv p" and "s5_id_p p t = Some imsi"
  shows "s5_id_p (pgw_detached imsi p) = (s5_id_p p)(t := None)"
    and "ue_ctx_p (pgw_detached imsi p) = (ue_ctx_p p)(imsi := None)"
    and "sgi_id (pgw_detached imsi p) = (sgi_id p)(ip_of p imsi := None)"
proof -
  obtain c where "ue_ctx_p p imsi = Some c" "s5_cteid_ul_p c = t" "ip_addr_p c = ip_of p imsi"
    using assms by (auto simp: pgw_inv_def)
  then show "s5_id_p (pgw_detached imsi p) = (s5_id_p p)(t := None)"
    and "ue_ctx_p (pgw_detached imsi p) = (ue_ctx_p p)(imsi := None)"
    and "sgi_id (pgw_detached imsi p) = (sgi_id p)(ip_of p imsi := None)"
    by (simp_all add: pgw_detached_def Let_def)
qed

lemma pgw_detached_inv:
  assumes "pgw_inv p" and "s5_id_p p t = Some imsi"
  shows "pgw_inv (pgw_detached imsi p)"
  unfolding pgw_inv_def ip_of_detached pgw_detached_tables [OF assms]
proof (intro allI impI)
  fix t' i
  assume "((s5_id_p p)(t := None)) t' = Some i"
  then have "t' \<noteq> t" and i: "s5_id_p p t' = Some i"
    by (auto split: if_splits)
  then obtain c where c: "i \<noteq> 0" "ue_ctx_p p i = Some c" "s5_cteid_ul_p c = t'" "s5_uteid_dl_p c = t'" "ip_addr_p c = ip_of p i"
    using assms(1) by (auto simp: pgw_inv_def)
  moreover have "i \<noteq> imsi"
  proof
    assume "i = imsi"
    then obtain c' where "ue_ctx_p p i = Some c'" and "s5_cteid_ul_p c' = t"
      using assms unfolding pgw_inv_def by blast
    with c \<open>t' \<noteq> t\<close> show False
      by simp
  qed
  ultimately show "i \<noteq> 0 \<and> (\<exists>c. ((ue_ctx_p p)(imsi := None)) i = Some c \<and> s5_cteid_ul_p c = t' \<and>
      s5_uteid_dl_p c = t' \<and> ip_addr_p c = ip_of p i)"
    by auto
qed

interpretation pgw_model: pgw_service "pgw_net X src" a "pgw_live X a" pgw_sess pgw_ip
  for X src a
proof (unfold_locales, goal_cases)
  case (1 w imsi t h b apn tai)
  then obtain pkt p where w: "w = Some (pkt, p)" and inv: "pgw_inv p" and a: "pgw_addr X = Inr a"
    by (auto simp: pgw_live_def)
  with 1 show ?case
    using pgw_create_turn [of h p imsi X src t b t apn tai pkt] pgw_created_inv [of p imsi t b apn tai]
    by (auto simp: pgw_net_def call_udp_reply pgw_live_def pgw_sess_def pgw_ip_def)
next
  case (2 w h imsi b tai)
  then obtain pkt p where w: "w = Some (pkt, p)" and inv: "pgw_inv p" and a: "pgw_addr X = Inr a"
    by (auto simp: pgw_live_def)
  with 2 have t: "s5_id_p p (teid h) = Some imsi" and "imsi \<noteq> 0"
    by (auto simp: pgw_sess_def pgw_inv_def)
  with 2 w inv a show ?case
    using pgw_detach_turn [of h p imsi X src b tai pkt] pgw_detached_inv [OF inv t]
      pgw_detached_tables [OF inv t]
    by (auto simp: pgw_net_def call_udp_reply pgw_live_def pgw_sess_def pgw_ip_def)
qed

end
