(* ===== verification/Epc_System.thy ===== *)
theory Epc_System
  imports Epc_Mme_Session Epc_Ran_Session Epc_Pgw_Session
begin

section \<open>The network: RAN, MME, HSS, SGW, PGW together\<close>

text \<open>
  A UE's connection to the MME: \<open>mme_send\<close> runs \<open>handle_ue\<close> on the message and queues the answers
  for this connection; \<open>mme_recv\<close> takes the next one. The state is the queue, the MME (\<open>None\<close> once
  its process has exited, which closes the connection) and the world behind it.
\<close>

type_synonym 'w mme_link = "rx list \<times> mme option \<times> 'w"

fun conn_replies :: "int \<Rightarrow> out list \<Rightarrow> u8 list list" where
  "conn_replies fd [] = []"
| "conn_replies fd (Snd_conn fd' m # os) = (if fd' = fd then m # conn_replies fd os else conn_replies fd os)"
| "conn_replies fd (Snd_ran a m # os) = conn_replies fd os"

definition mme_send ::
  "ext_lib \<Rightarrow> fresh_hdrs \<Rightarrow> 'w peer \<Rightarrow> 'w peer \<Rightarrow> int \<Rightarrow> u8 list \<Rightarrow> 'w mme_link \<Rightarrow> 'w mme_link" where
  "mme_send X fresh hss sgw fd msg st =
     (case st of (inbox, mo, w) \<Rightarrow>
       case mo of
         None \<Rightarrow> (inbox, None, w)
       | Some m \<Rightarrow>
           (case mme_handle_ue X fresh hss sgw fd (Rx msg) m w of
              Inl _ \<Rightarrow> (inbox @ [Rx_fail [] 0], None, w)
            | Inr (status, os, m, w) \<Rightarrow> (inbox @ map Rx (conn_replies fd os), Some m, w)))"

definition mme_recv :: "'w mme_link \<Rightarrow> rx \<times> 'w mme_link" where
  "mme_recv st =
     (case st of (inbox, mo, w) \<Rightarrow>
       case inbox of [] \<Rightarrow> (Rx_fail [] 0, [], mo, w) | r # rs \<Rightarrow> (r, rs, mo, w))"

definition mme_conn :: "ext_lib \<Rightarrow> fresh_hdrs \<Rightarrow> 'w peer \<Rightarrow> 'w peer \<Rightarrow> int \<Rightarrow> 'w mme_link conn" where
  "mme_conn X fresh hss sgw fd = (mme_send X fresh hss sgw fd, mme_recv)"

lemma mme_send_ok:
  "mme_handle_ue X fresh hss sgw fd (Rx msg) m w = Inr (status, os, m', w') \<Longrightarrow>
   fst (mme_conn X fresh hss sgw fd) msg (inbox, Some m, w) =
     (inbox @ map Rx (conn_replies fd os), Some m', w')"
  by (simp add: mme_conn_def mme_send_def)

lemma mme_recv_Cons [simp]: "snd (mme_conn X fresh hss sgw fd) (r # rs, mo, w) = (r, rs, mo, w)"
  by (simp add: mme_conn_def mme_recv_def)

subsection \<open>The attach procedure, message by message\<close>

text \<open>The MME knows the UE by this id, under this GUTI, with this context.\<close>

definition knows :: "mme \<Rightarrow> u32 \<Rightarrow> u64 \<Rightarrow> mme_ue \<Rightarrow> bool" where
  "knows m mme_id guti c \<longleftrightarrow>
     mme_id \<noteq> 0 \<and> guti \<noteq> 0 \<and> s1mme_id m mme_id = Some guti \<and> ue_ctx_m m guti = Some c"

text \<open>The attach part of one round of \<open>simulate\<close>: the first step that fails ends it.\<close>

definition ran_attach :: "ext_lib \<Rightarrow> 'w conn \<Rightarrow> ran \<Rightarrow> traf_mon \<Rightarrow> 'w \<Rightarrow> (bool \<times> ran \<times> traf_mon \<times> 'w) res" where
  "ran_attach X mme u tm w =
     bindE (ran_initial_attach mme u w) (\<lambda>(u, w).
     bindE (ran_authenticate mme u w) (\<lambda>(ok, u, w).
     if \<not> ok then Inr (False, u, tm, w)
     else
       bindE (ran_set_security X mme u w) (\<lambda>(ok, u, w).
       if \<not> ok then Inr (False, u, tm, w)
       else ran_set_eps_session X mme u tm w)))"

text \<open>
  A UE that can attach: provisioned with its own key, in the network of this MME, with identifiers in
  range, an address, and no session under another endpoint. \<open>attached\<close>: both sides and the gateways
  agree on the session.
\<close>

definition ue_ready ::
  "(u64 \<Rightarrow> u64 \<Rightarrow> u64 \<Rightarrow> 'w \<Rightarrow> bool) \<Rightarrow> ('w \<Rightarrow> bool) \<Rightarrow> ('w \<Rightarrow> (u32 \<rightharpoonup> u64)) \<Rightarrow> (u64 \<Rightarrow> 'w \<Rightarrow> string) \<Rightarrow>
   ran \<Rightarrow> mme \<Rightarrow> 'w \<Rightarrow> u64 \<Rightarrow> u32 \<Rightarrow> u64 \<Rightarrow> bool" where
  "ue_ready prov live sess ip u m w guti t rand_num \<longleftrightarrow>
     prov (imsi_r (ctx u)) (key_r (ctx u)) rand_num w \<and> live w \<and>
     plmn_id (mme_ids_of m) = plmn_id_r (ctx u) \<and>
     get_guti (gummei (mme_ids_of m)) (imsi_r (ctx u)) = Inr guti \<and> guti \<noteq> 0 \<and>
     get_s11cteidmme guti = Inr t \<and> imsi_r (ctx u) \<noteq> 0 \<and> short_ip (ip (imsi_r (ctx u)) w) \<and>
     one_teid (sess w) t (imsi_r (ctx u))"

definition attached ::
  "('w \<Rightarrow> bool) \<Rightarrow> ('w \<Rightarrow> (u32 \<rightharpoonup> u64)) \<Rightarrow> (u64 \<Rightarrow> 'w \<Rightarrow> string) \<Rightarrow> ran \<Rightarrow> mme \<Rightarrow> 'w \<Rightarrow> u64 \<Rightarrow> u32 \<Rightarrow> bool" where
  "attached live sess ip u m w guti t \<longleftrightarrow>
     (\<exists>c. knows m (mme_s1ap_ue_id_r (ctx u)) guti c \<and> emm_state_m c = 1 \<and> ecm_state_m c = 1 \<and>
       imsi_m c = imsi_r (ctx u) \<and> ip_addr_m c = ip_addr_r (ctx u) \<and> k_asme_m c = k_asme_r (ctx u) \<and>
       s11_cteid_sgw_m c = t \<and> s1_uteid_ul_m c = t \<and> s1_uteid_dl_m c = t) \<and>
     s1_uteid_ul_r (ctx u) = t \<and> s1_uteid_dl_r (ctx u) = t \<and> ip_addr_r (ctx u) = ip (imsi_r (ctx u)) w \<and>
     emm_state_r (ctx u) = 1 \<and> ecm_state_r (ctx u) = 1 \<and> guti_r (ctx u) = guti \<and>
     live w \<and> sess w t = Some (imsi_r (ctx u))"

lemma ran_kept [simp]:
  "imsi_r (ran_authenticated i k ka c) = imsi_r c" "key_r (ran_authenticated i k ka c) = key_r c"
  "plmn_id_r (ran_authenticated i k ka c) = plmn_id_r c" "mme_s1ap_ue_id_r (ran_authenticated i k ka c) = i"
  "k_asme_r (ran_authenticated i k ka c) = ka"
  "imsi_r (ran_secured k cap e f c) = imsi_r c" "key_r (ran_secured k cap e f c) = key_r c"
  "plmn_id_r (ran_secured k cap e f c) = plmn_id_r c" "k_asme_r (ran_secured k cap e f c) = k_asme_r c"
  "imsi_r (ran_session g b e' t cap tais tim a c) = imsi_r c" "key_r (ran_session g b e' t cap tais tim a c) = key_r c"
  "plmn_id_r (ran_session g b e' t cap tais tim a c) = plmn_id_r c"
  "mme_s1ap_ue_id_r (ran_session g b e' t cap tais tim a c) = mme_s1ap_ue_id_r c"
  "k_asme_r (ran_session g b e' t cap tais tim a c) = k_asme_r c"
  "s1_uteid_ul_r (ran_session g b e' t cap tais tim a c) = t"
  "s1_uteid_dl_r (ran_session g b e' t cap tais tim a c) = t"
  "ip_addr_r (ran_session g b e' t cap tais tim a c) = a" "guti_r (ran_session g b e' t cap tais tim a c) = g"
  "emm_state_r (ran_session g b e' t cap tais tim a c) = 1" "ecm_state_r (ran_session g b e' t cap tais tim a c) = 1"
  by (simp_all add: ran_authenticated_def ran_secured_def ran_session_def ran_set_crypt_context_def
      ran_set_integrity_context_def)

context core_net begin

lemma recv1: "snd (mme_conn X fresh hss sgw fd) ([r], mo, w) = (r, [], mo, w)"
  by simp

abbreviation C :: "ext_lib \<Rightarrow> fresh_hdrs \<Rightarrow> int \<Rightarrow> 'w mme_link conn" where
  "C X fresh fd \<equiv> mme_conn X fresh hss sgw fd"

lemma step_attach:
  assumes "prov (imsi_r (ctx u)) key rand_num w" and "get_guti (gummei (mme_ids_of m)) (imsi_r (ctx u)) = Inr guti"
    and "guti \<noteq> 0" and id: "ucast (ue_count m + 1) = mme_id" "mme_id \<noteq> 0"
    and "autn_vector key rand_num (plmn_id (mme_ids_of m)) = (autn, xres, k_asme)"
  shows "\<exists>q h m' c. ran_initial_attach (C X fresh fd) u ([], Some m, w) =
      Inr (u\<lparr>pkt_of := q\<rparr>, [Rx (autn_challenge h autn rand_num 1)], Some m', w) \<and>
    mme_s1ap_ue_id h = mme_id \<and> knows m' mme_id guti c \<and> imsi_m c = imsi_r (ctx u) \<and>
    xres_m c = xres \<and> k_asme_m c = k_asme \<and> mme_ids_of m' = mme_ids_of m \<and> ue_count m' = ue_count m + 1"
proof -
  let ?c = "ctx u"
  let ?h = "s1ap_init 1 26 (enodeb_s1ap_ue_id_r ?c) 0 (s1ap_hdr (pkt_of u))"
  let ?m = "mme_challenged guti (imsi_r ?c) (enodeb_s1ap_ue_id_r ?c) (tai_r ?c) (nw_capability_r ?c) xres k_asme m"
  have "mme_handle_ue X fresh hss sgw fd
      (Rx (attach_req ?h (imsi_r ?c) (tai_r ?c) (ksi_asme_r ?c) (nw_capability_r ?c))) m w =
      Inr (1, [Snd_conn fd (autn_challenge (s1ap_init 1 24 (enodeb_s1ap_ue_id_r ?c) mme_id ?h) autn rand_num 1)], ?m, w)"
    using attach_turn [OF assms(1,2), of ?h] assms(6) id by simp
  from mme_send_ok [OF this, of "[]"] obtain q where
    "ran_initial_attach (C X fresh fd) u ([], Some m, w) = Inr (u\<lparr>pkt_of := q\<rparr>,
       [Rx (autn_challenge (s1ap_init 1 24 (enodeb_s1ap_ue_id_r ?c) mme_id ?h) autn rand_num 1)], Some ?m, w)"
    using ran_attach_sends [of "C X fresh fd" u "([], Some m, w)"] by auto
  moreover have "knows ?m mme_id guti (the (ue_ctx_m ?m guti))" and "imsi_m (the (ue_ctx_m ?m guti)) = imsi_r ?c"
      "xres_m (the (ue_ctx_m ?m guti)) = xres" "k_asme_m (the (ue_ctx_m ?m guti)) = k_asme"
      "mme_ids_of ?m = mme_ids_of m" "ue_count ?m = ue_count m + 1"
    using assms(3) id by (simp_all add: mme_challenged_def knows_def mme_ue_init_def Let_def)
  ultimately show ?thesis
    by (intro exI conjI) auto
qed

lemma step_authenticate:
  assumes "crypto_ok X" and "knows m (mme_s1ap_ue_id h) guti c"
    and "autn_vector (key_r (ctx u)) rand_num (plmn_id_r (ctx u)) = (autn, xres_m c, k_asme_m c)"
  shows "\<exists>q h' c'. ran_authenticate (C X fresh fd) u ([Rx (autn_challenge h autn rand_num ksi)], Some m, w) =
      Inr (True, u\<lparr>pkt_of := q, ctx := ran_authenticated (mme_s1ap_ue_id h) ksi (k_asme_m c) (ctx u)\<rparr>,
        [Rx (smc_msg X h' (smc_body (ksi_asme_m c) (nw_capability_m c) 1 1))], Some (mme_secured guti m), w) \<and>
    mme_s1ap_ue_id h' = mme_s1ap_ue_id h \<and> knows (mme_secured guti m) (mme_s1ap_ue_id h) guti c' \<and>
    imsi_m c' = imsi_m c \<and> k_asme_m c' = k_asme_m c"
proof -
  let ?h = "s1ap_init 2 8 (enodeb_s1ap_ue_id_r (ctx u)) (mme_s1ap_ue_id h) h"
  have "mme_handle_ue X fresh hss sgw fd (Rx (autn_response ?h (xres_m c))) m w =
      Inr (1, [Snd_conn fd (smc_msg X (s1ap_init 2 46 (enodeb_s1ap_ue_id_r (ctx u)) (mme_s1ap_ue_id h) ?h)
                 (smc_body (ksi_asme_m c) (nw_capability_m c) 1 1))], mme_secured guti m, w)"
    using mme_autn_turn [OF assms(1), of ?h m guti c fresh hss sgw fd "xres_m c" w] assms(2) by (simp add: knows_def)
  from mme_send_ok [OF this, of "[]"] obtain q where
    "ran_authenticate (C X fresh fd) u ([Rx (autn_challenge h autn rand_num ksi)], Some m, w) =
      Inr (True, u\<lparr>pkt_of := q, ctx := ran_authenticated (mme_s1ap_ue_id h) ksi (k_asme_m c) (ctx u)\<rparr>,
        [Rx (smc_msg X (s1ap_init 2 46 (enodeb_s1ap_ue_id_r (ctx u)) (mme_s1ap_ue_id h) ?h)
               (smc_body (ksi_asme_m c) (nw_capability_m c) 1 1))], Some (mme_secured guti m), w)"
    using ran_authenticate_ok [OF recv1 [where X = X and fresh = fresh and fd = fd and mo = "Some m" and w = w
        and r = "Rx (autn_challenge h autn rand_num ksi)"] assms(3)] by auto
  moreover obtain c' where "ue_ctx_m (mme_secured guti m) guti = Some c'" "imsi_m c' = imsi_m c" "k_asme_m c' = k_asme_m c"
    using mme_secured_ctx(1) [of m guti c] assms(2) by (auto simp: knows_def)
  moreover have "s1mme_id (mme_secured guti m) = s1mme_id m"
    using mme_secured_ctx(2) [of m guti c] assms(2) by (simp add: knows_def)
  ultimately show ?thesis
    using assms(2) by (intro exI conjI) (assumption | simp add: knows_def)+
qed

lemma step_security:
  assumes X: "crypto_ok X" and k: "knows m (mme_s1ap_ue_id_r (ctx u)) guti c" and t: "get_s11cteidmme guti = Inr t"
    and w: "live w" "imsi_m c \<noteq> 0" "short_ip (ip (imsi_m c) w)" "one_teid (sess w) t (imsi_m c)"
  shows "\<exists>q h' m' w' c' cap tais.
    ran_set_security X (C X fresh fd) u ([Rx (smc_msg X h (smc_body ksi cap0 1 1))], Some m, w) =
      Inr (True, u\<lparr>pkt_of := q, ctx := ran_secured ksi cap0 1 1 (ctx u)\<rparr>,
        [Rx (nas_msg X h' (accept_body guti 5 5 t (k_asme_m c) cap tais g_timer (ip (imsi_m c) w)
              g_sgw_s1_ip_addr g_sgw_s1_port True))], Some m', w') \<and> length tais \<le> 50 \<and>
    knows m' (mme_s1ap_ue_id_r (ctx u)) guti c' \<and> imsi_m c' = imsi_m c \<and> k_asme_m c' = k_asme_m c \<and>
    ip_addr_m c' = ip (imsi_m c) w \<and> s11_cteid_sgw_m c' = t \<and> s1_uteid_ul_m c' = t \<and>
    live w' \<and> sess w' = (sess w)(t \<mapsto> imsi_m c) \<and> (\<forall>i. ip i w' = ip i w) \<and>
    (\<forall>i k n. prov i k n w' = prov i k n w) \<and> mme_ids_of m' = mme_ids_of m \<and> ue_count m' = ue_count m"
proof -
  let ?id = "mme_s1ap_ue_id_r (ctx u)"
  let ?h = "s1ap_init 3 36 (enodeb_s1ap_ue_id_r (ctx u)) ?id h"
  let ?body = "accept_body guti 5 5 t (k_asme_m c) (nw_capability_m c) [tai_m c] g_timer (ip (imsi_m c) w)
    g_sgw_s1_ip_addr g_sgw_s1_port True"
  let ?m = "mme_session guti t (ip (imsi_m c) w) t t t t m"
  obtain h' w' where s: "sgw (create_req11 (gtp_with 2 1 50 0 (fst fresh)) t (imsi_m c) 5 g_pgw_s5_ip_addr
      g_pgw_s5_port (apn_in_use_m c) (tai_m c)) w = (Rx (create_rsp11 h' t (ip (imsi_m c) w) t t t), w')"
    and w': "live w'" "sess w' = (sess w)(t \<mapsto> imsi_m c)" "\<forall>i. ip i w' = ip i w"
    using create [OF w, of "gtp_with 2 1 50 0 (fst fresh)" 5 "apn_in_use_m c" "tai_m c"] by auto
  let ?h' = "s1ap_init 3 (of_nat (20 + length (cipher X ?body))) (enodeb_s1ap_ue_id_r (ctx u)) ?id ?h"
  have "mme_handle_ue X fresh hss sgw fd (Rx (nas_msg X ?h (bool_bytes True))) m w =
      Inr (1, [Snd_conn fd (nas_msg X ?h' ?body)], ?m, w')"
    using mme_session_turn [where sgw = sgw and w = w and w' = w' and h = ?h and m = m, OF X _ _ _ _ _ t w(3) s, of hss fd] k by (simp add: knows_def)
  from mme_send_ok [OF this, of "[]"] obtain q where
    "ran_set_security X (C X fresh fd) u ([Rx (smc_msg X h (smc_body ksi cap0 1 1))], Some m, w) =
      Inr (True, u\<lparr>pkt_of := q, ctx := ran_secured ksi cap0 1 1 (ctx u)\<rparr>, [Rx (nas_msg X ?h' ?body)], Some ?m, w')"
    using ran_set_security_ok [where u = u, OF X recv1 [where X = X and fresh = fresh and fd = fd and mo = "Some m" and w = w
        and r = "Rx (smc_msg X h (smc_body ksi cap0 1 1))"]] by auto
  moreover have "knows ?m ?id guti (the (ue_ctx_m ?m guti))" "imsi_m (the (ue_ctx_m ?m guti)) = imsi_m c"
      "k_asme_m (the (ue_ctx_m ?m guti)) = k_asme_m c" "ip_addr_m (the (ue_ctx_m ?m guti)) = ip (imsi_m c) w"
      "s11_cteid_sgw_m (the (ue_ctx_m ?m guti)) = t" "s1_uteid_ul_m (the (ue_ctx_m ?m guti)) = t"
    using k by (simp_all add: knows_def mme_session_def)
  moreover have "length [tai_m c] \<le> 50" "mme_ids_of ?m = mme_ids_of m" "ue_count ?m = ue_count m"
    by (simp_all add: mme_session_def)
  ultimately show ?thesis
    using w' stable [OF s] by blast
qed

lemma step_session:
  assumes X: "crypto_ok X" and k: "knows m (mme_s1ap_ue_id_r (ctx u)) guti c" and t: "s11_cteid_sgw_m c = t"
    and w: "live w" "sess w t = Some imsi" and ips: "short_ip ue_ip" and tais: "length tais \<le> 50"
  shows "\<exists>q a w'.
    ran_set_eps_session X (C X fresh fd) u tm ([Rx (nas_msg X h (accept_body guti 5 5 t k_enodeb cap tais timer
        ue_ip g_sgw_s1_ip_addr g_sgw_s1_port True))], Some m, w) =
      Inr (True, u\<lparr>epc_addrs_of := a, pkt_of := q, ctx := ran_session guti 5 5 t cap tais timer ue_ip (ctx u)\<rparr>,
        update_uplink_info ue_ip t g_sgw_s1_ip_addr g_sgw_s1_port tm, [], Some (mme_completed guti t True m), w') \<and>
    live w' \<and> sess w' = sess w \<and> (\<forall>i. ip i w' = ip i w) \<and> (\<forall>i k n. prov i k n w' = prov i k n w)"
proof -
  let ?r = "Rx (nas_msg X h (accept_body guti 5 5 t k_enodeb cap tais timer ue_ip g_sgw_s1_ip_addr
    g_sgw_s1_port True))"
  have port: "- (2 ^ 31) \<le> g_sgw_s1_port" "g_sgw_s1_port < 2 ^ 31"
    by (simp_all add: g_sgw_s1_port_def)
  let ?h = "s1ap_init 4 (nas_len X (complete_body 5 t)) (enodeb_s1ap_ue_id_r (ctx u)) (mme_s1ap_ue_id_r (ctx u)) h"
  obtain h' w' where s: "sgw (modify_req (gtp_with 2 2 26 (s11_cteid_sgw_m c) (fst fresh)) (eps_bearer_id_m c) t
        g_trafmon_ip_addr g_trafmon_port) w = (Rx (bool_rsp h' True), w')"
    and w': "live w'" "sess w' = sess w" "\<forall>i. ip i w' = ip i w"
    using modify [of w "gtp_with 2 2 26 t (fst fresh)" imsi g_trafmon_ip_addr g_trafmon_port "eps_bearer_id_m c" t]
      w t short_trafmon_ip by (auto simp: g_trafmon_port_def)
  have "mme_handle_ue X fresh hss sgw fd (Rx (nas_msg X ?h (complete_body 5 t))) m w =
      Inr (1, [], mme_completed guti t True m, w')"
    using mme_complete_turn [where sgw = sgw and w = w and w' = w' and h = ?h and m = m and c = c, OF X _ _ _ _ _ s] k
    by (simp add: knows_def)
  from mme_send_ok [OF this, of "[]"] obtain q a where
    "ran_set_eps_session X (C X fresh fd) u tm ([Rx (nas_msg X h (accept_body guti 5 5 t k_enodeb cap tais timer
        ue_ip g_sgw_s1_ip_addr g_sgw_s1_port True))], Some m, w) =
      Inr (True, u\<lparr>epc_addrs_of := a, pkt_of := q, ctx := ran_session guti 5 5 t cap tais timer ue_ip (ctx u)\<rparr>,
        update_uplink_info ue_ip t g_sgw_s1_ip_addr g_sgw_s1_port tm, [], Some (mme_completed guti t True m), w')"
    using ran_set_eps_session_ok [where u = u and tm = tm, OF X ips short_sgw_ip port tais
        recv1 [where X = X and fresh = fresh and fd = fd and mo = "Some m" and w = w and r = ?r]]
    by auto
  with w' stable [OF s] show ?thesis
    by blast
qed

lemma step_detach:
  assumes X: "crypto_ok X" and k: "knows m (mme_s1ap_ue_id_r (ctx u)) guti c" and t: "s11_cteid_sgw_m c = t"
    and w: "live w" "sess w t = Some imsi" and g: "guti_r (ctx u) = guti"
  shows "\<exists>q w'. ran_detach X (C X fresh fd) u ([], Some m, w) =
      Inr (True, u\<lparr>pkt_of := q\<rparr>, [], Some (mme_removed (mme_s1ap_ue_id_r (ctx u)) guti m), w') \<and>
    live w' \<and> sess w' = (sess w)(t := None) \<and> (\<forall>i. ip i w' = ip i w) \<and>
    (\<forall>i k n. prov i k n w' = prov i k n w)"
proof -
  let ?id = "mme_s1ap_ue_id_r (ctx u)" and ?e = "enodeb_s1ap_ue_id_r (ctx u)"
  let ?h = "s1ap_init 5 52 ?e ?id (s1ap_hdr (pkt_of u))"
  let ?b = "detach_body guti (ksi_asme_r (ctx u)) 1"
  obtain h' w' where s: "sgw (detach_req (gtp_with 2 3 9 (s11_cteid_sgw_m c) (fst fresh)) (eps_bearer_id_m c) (tai_m c)) w =
      (Rx (bool_rsp h' True), w')"
    and w': "live w'" "sess w' = (sess w)(t := None)" "\<forall>i. ip i w' = ip i w"
    using detach [of w "gtp_with 2 3 9 t (fst fresh)" imsi "eps_bearer_id_m c" "tai_m c"] w t by auto
  have "mme_handle_ue X fresh hss sgw fd (Rx (nas_msg X ?h ?b)) m w =
      Inr (1, [Snd_conn fd (nas_msg X (s1ap_init 5 36 ?e ?id ?h) (bool_bytes True))], mme_removed ?id guti m, w')"
    using mme_detach_turn [where sgw = sgw and w = w and w' = w' and h = ?h and m = m and c = c and res = True,
        OF X _ _ _ _ _ s] k
    by (simp add: knows_def)
  from mme_send_ok [OF this, of "[]"] obtain q where
    "ran_detach X (C X fresh fd) u ([], Some m, w) = Inr (True, u\<lparr>pkt_of := q\<rparr>, [], Some (mme_removed ?id guti m), w')"
    using ran_detach_ok [OF X, of "C X fresh fd" u "([], Some m, w)" "s1ap_init 5 36 ?e ?id ?h" True
        "([], Some (mme_removed ?id guti m), w')"] g by auto
  with w' stable [OF s] show ?thesis
    by blast
qed

lemma attach_ok:
  assumes X: "crypto_ok X" and r: "ue_ready prov live sess ip u m w guti t rand_num"
    and id: "ucast (ue_count m + 1) \<noteq> (0 :: u32)"
  shows "\<exists>u' m' w'. ran_attach X (C X fresh fd) u tm ([], Some m, w) =
      Inr (True, u', update_uplink_info (ip (imsi_r (ctx u)) w) t g_sgw_s1_ip_addr g_sgw_s1_port tm, [], Some m', w') \<and>
    attached live sess ip u' m' w' guti t \<and> imsi_r (ctx u') = imsi_r (ctx u) \<and> key_r (ctx u') = key_r (ctx u) \<and>
    plmn_id_r (ctx u') = plmn_id_r (ctx u) \<and> mme_ids_of m' = mme_ids_of m \<and> ue_count m' = ue_count m + 1 \<and>
    sess w' = (sess w)(t \<mapsto> imsi_r (ctx u)) \<and> (\<forall>i. ip i w' = ip i w) \<and> (\<forall>i k n. prov i k n w' = prov i k n w)"
proof -
  let ?i = "imsi_r (ctx u)"
  note r = r [unfolded ue_ready_def]
  obtain autn xres k_asme where v: "autn_vector (key_r (ctx u)) rand_num (plmn_id_r (ctx u)) = (autn, xres, k_asme)"
    by (cases "autn_vector (key_r (ctx u)) rand_num (plmn_id_r (ctx u))")
  obtain q1 h1 m1 c1 where 1: "ran_initial_attach (C X fresh fd) u ([], Some m, w) =
      Inr (u\<lparr>pkt_of := q1\<rparr>, [Rx (autn_challenge h1 autn rand_num 1)], Some m1, w)"
    and m1: "knows m1 (mme_s1ap_ue_id h1) guti c1" "imsi_m c1 = ?i" "xres_m c1 = xres" "k_asme_m c1 = k_asme"
      "mme_ids_of m1 = mme_ids_of m" "ue_count m1 = ue_count m + 1"
    using step_attach [OF _ _ _ refl id, of u "key_r (ctx u)" rand_num w guti autn xres k_asme X fresh fd] r v
    by auto
  define u1 where "u1 = u\<lparr>pkt_of := q1\<rparr>"
  obtain q2 h2 c2 where 2: "ran_authenticate (C X fresh fd) u1 ([Rx (autn_challenge h1 autn rand_num 1)], Some m1, w) =
      Inr (True, u1\<lparr>pkt_of := q2, ctx := ran_authenticated (mme_s1ap_ue_id h1) 1 k_asme (ctx u1)\<rparr>,
        [Rx (smc_msg X h2 (smc_body (ksi_asme_m c1) (nw_capability_m c1) 1 1))], Some (mme_secured guti m1), w)"
    and m2: "knows (mme_secured guti m1) (mme_s1ap_ue_id h1) guti c2" "imsi_m c2 = ?i" "k_asme_m c2 = k_asme"
    using step_authenticate [OF X m1(1), of u1 rand_num autn fresh fd 1 w] v m1 by (auto simp: u1_def)
  define u2 where "u2 = u1\<lparr>pkt_of := q2, ctx := ran_authenticated (mme_s1ap_ue_id h1) 1 k_asme (ctx u1)\<rparr>"
  obtain q3 h3 m3 w3 c3 cap tais where 3: "ran_set_security X (C X fresh fd) u2
      ([Rx (smc_msg X h2 (smc_body (ksi_asme_m c1) (nw_capability_m c1) 1 1))], Some (mme_secured guti m1), w) =
      Inr (True, u2\<lparr>pkt_of := q3, ctx := ran_secured (ksi_asme_m c1) (nw_capability_m c1) 1 1 (ctx u2)\<rparr>,
        [Rx (nas_msg X h3 (accept_body guti 5 5 t k_asme cap tais g_timer (ip ?i w) g_sgw_s1_ip_addr
           g_sgw_s1_port True))], Some m3, w3)" "length tais \<le> 50"
    and m3: "knows m3 (mme_s1ap_ue_id h1) guti c3" "imsi_m c3 = ?i" "k_asme_m c3 = k_asme"
      "ip_addr_m c3 = ip ?i w" "s11_cteid_sgw_m c3 = t" "s1_uteid_ul_m c3 = t"
      "mme_ids_of m3 = mme_ids_of m1" "ue_count m3 = ue_count m1"
    and w3: "live w3" "sess w3 = (sess w)(t \<mapsto> ?i)" "\<forall>i. ip i w3 = ip i w" "\<forall>i k n. prov i k n w3 = prov i k n w"
    using step_security [OF X, of "mme_secured guti m1" u2 guti c2 t w fresh fd h2 "ksi_asme_m c1" "nw_capability_m c1"]
      m2 r mme_secured_ctx(3,4) [of m1 guti c1] m1(1) by (auto simp: u2_def u1_def knows_def)
  define u3 where "u3 = u2\<lparr>pkt_of := q3, ctx := ran_secured (ksi_asme_m c1) (nw_capability_m c1) 1 1 (ctx u2)\<rparr>"
  have u3: "mme_s1ap_ue_id_r (ctx u3) = mme_s1ap_ue_id h1" "k_asme_r (ctx u3) = k_asme" "imsi_r (ctx u3) = ?i"
      "key_r (ctx u3) = key_r (ctx u)" "plmn_id_r (ctx u3) = plmn_id_r (ctx u)"
    by (simp_all add: u3_def u2_def u1_def)
  let ?tm = "update_uplink_info (ip ?i w) t g_sgw_s1_ip_addr g_sgw_s1_port tm"
  let ?c = "ran_session guti 5 5 t cap tais g_timer (ip ?i w) (ctx u3)"
  obtain q4 a w4 where 4: "ran_set_eps_session X (C X fresh fd) u3 tm ([Rx (nas_msg X h3 (accept_body guti 5 5 t k_asme
        cap tais g_timer (ip ?i w) g_sgw_s1_ip_addr g_sgw_s1_port True))], Some m3, w3) =
      Inr (True, u3\<lparr>epc_addrs_of := a, pkt_of := q4, ctx := ?c\<rparr>, ?tm, [], Some (mme_completed guti t True m3), w4)"
    and w4: "live w4" "sess w4 = sess w3" "\<forall>i. ip i w4 = ip i w3" "\<forall>i k n. prov i k n w4 = prov i k n w3"
    using step_session [OF X, of m3 u3 guti c3 t w3 ?i "ip ?i w" tais fresh fd tm h3 k_asme cap g_timer] m3 w3 r u3 3(2)
    by auto
  have "ran_attach X (C X fresh fd) u tm ([], Some m, w) =
      Inr (True, u3\<lparr>epc_addrs_of := a, pkt_of := q4, ctx := ?c\<rparr>, ?tm, [], Some (mme_completed guti t True m3), w4)"
    using 1 2 3(1) 4 by (simp add: ran_attach_def u1_def [symmetric] u2_def [symmetric] u3_def [symmetric])
  moreover have "attached live sess ip (u3\<lparr>epc_addrs_of := a, pkt_of := q4, ctx := ?c\<rparr>) (mme_completed guti t True m3) w4 guti t"
    using m3 w3 w4 u3 by (simp add: attached_def knows_def mme_completed_def)
  moreover have "mme_ids_of (mme_completed guti t True m3) = mme_ids_of m" "ue_count (mme_completed guti t True m3) = ue_count m + 1"
    using m3 m1 by (simp_all add: mme_completed_def)
  ultimately show ?thesis
    using w3 w4 u3 by (intro exI conjI) (assumption | simp)+
qed

lemma detach_ok:
  assumes X: "crypto_ok X" and a: "attached live sess ip u m w guti t"
  shows "\<exists>u' w'. ran_detach X (C X fresh fd) u ([], Some m, w) =
      Inr (True, u', [], Some (mme_removed (mme_s1ap_ue_id_r (ctx u)) guti m), w') \<and> ctx u' = ctx u \<and>
    live w' \<and> sess w' = (sess w)(t := None) \<and> (\<forall>i. ip i w' = ip i w) \<and> (\<forall>i k n. prov i k n w' = prov i k n w)"
proof -
  obtain c where "knows m (mme_s1ap_ue_id_r (ctx u)) guti c" and "s11_cteid_sgw_m c = t"
    using a by (auto simp: attached_def)
  from step_detach [OF X this, of w "imsi_r (ctx u)" fresh fd] a show ?thesis
    by (fastforce simp: attached_def)
qed

text \<open>\<open>n\<close> rounds of a simulator thread all succeed and leave no session behind.\<close>

lemma rounds_ok:
  assumes X: "crypto_ok X" and "ue_ready prov live sess ip u m w guti t rand_num"
    and "unat (ue_count m) + n < 2 ^ 32"
  shows "\<exists>u' tm' cmds' m' w'. simulate_loop X (C X fresh fd) rate n (u, tm, k, cmds, [], Some m, w) =
      Inr (u', tm', k + int n, cmds', [], Some m', w') \<and>
    ue_ready prov live sess ip u' m' w' guti t rand_num \<and>
    (n \<noteq> 0 \<longrightarrow> sess w' = (sess w)(t := None) \<and> ue_ctx_m m' guti = None)"
  using assms(2,3)
proof (induction n arbitrary: u tm k cmds m w)
  case 0
  then show ?case by simp
next
  case (Suc n)
  have "unat (ue_count m + 1) = unat (ue_count m) + 1"
    using Suc.prems(2) by (simp add: unat_add_lem [THEN iffD1])
  then have cnt: "unat (ue_count m + 1) + n < 2 ^ 32" and "unat (ue_count m + 1) \<noteq> 0"
    using Suc.prems(2) by simp_all
  then have "unat (ucast (ue_count m + 1) :: u32) \<noteq> 0"
    by (simp add: unsigned_ucast_eq take_bit_nat_eq_self)
  then have id: "ucast (ue_count m + 1) \<noteq> (0 :: u32)"
    by auto
  let ?i = "imsi_r (ctx u)"
  let ?tm = "update_uplink_info (ip ?i w) t g_sgw_s1_ip_addr g_sgw_s1_port tm"
  obtain u1 m1 w1 where 1: "ran_attach X (C X fresh fd) u tm ([], Some m, w) = Inr (True, u1, ?tm, [], Some m1, w1)"
    and a: "attached live sess ip u1 m1 w1 guti t" and u1: "imsi_r (ctx u1) = ?i" "key_r (ctx u1) = key_r (ctx u)"
      "plmn_id_r (ctx u1) = plmn_id_r (ctx u)" "mme_ids_of m1 = mme_ids_of m" "ue_count m1 = ue_count m + 1"
    and w1: "sess w1 = (sess w)(t \<mapsto> ?i)" "\<forall>i. ip i w1 = ip i w" "\<forall>i k n. prov i k n w1 = prov i k n w"
    using attach_ok [OF X Suc.prems(1) id, of fresh fd tm] by blast
  let ?m2 = "mme_removed (mme_s1ap_ue_id_r (ctx u1)) guti m1"
  obtain u2 w2 where 2: "ran_detach X (C X fresh fd) u1 ([], Some m1, w1) = Inr (True, u2, [], Some ?m2, w2)"
    and u2: "ctx u2 = ctx u1" and w2: "live w2" "sess w2 = (sess w1)(t := None)" "\<forall>i. ip i w2 = ip i w1"
      "\<forall>i k n. prov i k n w2 = prov i k n w1"
    using detach_ok [OF X a, of fresh fd] by blast
  have m2: "mme_ids_of ?m2 = mme_ids_of m1" "ue_count ?m2 = ue_count m + 1" "ue_ctx_m ?m2 guti = None"
    by (simp_all add: mme_removed_def u1)
  have s2: "sess w2 = (sess w)(t := None)"
    by (simp add: w2 w1)
  have "ue_ready prov live sess ip u2 ?m2 w2 guti t rand_num"
    using Suc.prems(1) u1 u2 w1 w2 m2(1) s2 by (simp add: ue_ready_def one_teid_def)
  moreover have "unat (ue_count ?m2) + n < 2 ^ 32"
    using cnt by (simp only: m2(2))
  ultimately obtain u' tm' cmds' m' w' where 3: "simulate_loop X (C X fresh fd) rate n
      (u2, ?tm, k + 1, cmds @ ran_transfer_data rate u1, [], Some ?m2, w2) = Inr (u', tm', k + 1 + int n, cmds', [], Some m', w')"
    and r: "ue_ready prov live sess ip u' m' w' guti t rand_num"
      "n \<noteq> 0 \<longrightarrow> sess w' = (sess w2)(t := None) \<and> ue_ctx_m m' guti = None"
    using Suc.IH [of u2 ?m2 w2 ?tm "k + 1" "cmds @ ran_transfer_data rate u1"] by blast
  have "simulate_loop X (C X fresh fd) rate (Suc n) (u, tm, k, cmds, [], Some m, w) =
      Inr (u', tm', k + int (Suc n), cmds', [], Some m', w')"
    using 1 2 3 by (auto simp: ran_attach_def bindE_eq_Inr add.assoc split: if_splits)
  moreover have "sess w' = (sess w)(t := None) \<and> ue_ctx_m m' guti = None"
    using r 3 s2 m2(3) by (cases n) auto
  ultimately show ?case
    using r by blast
qed

end

end
