(* ===== verification/Epc_Model.thy ===== *)
theory Epc_Model
  imports Epc_System
begin

section \<open>The deployed network\<close>

text \<open>
  The contracts of \<open>Epc_Messages\<close> on the code's own components: the HSS over any MySQL, the SGW over
  the PGW, and both behind one MME. The identifiers of this deployment in closed form connect the
  RAN's subscribers with the address plan of the PGW, which gives the end-to-end theorems.
\<close>

subsection \<open>Identifiers of this deployment\<close>

lemma ucast_of_nat_32: "ucast (of_nat n :: u64) = (of_nat n :: u32)"
  by (rule word_unat_eq_iff [THEN iffD2]) (simp add: unsigned_ucast_eq unsigned_of_nat)

lemma get_s11cteidmme_closed:
  assumes "10 ^ 15 \<le> unat guti" and "unat guti < 10 ^ 16"
  shows "get_s11cteidmme guti = Inr (of_nat (unat guti mod 10 ^ 9))"
proof -
  let ?s = "to_string (unat guti)"
  have len: "length ?s = 16"
    using length_to_string [of 15 "unat guti"] assms by simp
  have digits: "\<forall>c \<in> set (drop 7 ?s). is_digit c"
    using to_string_digits [of "unat guti"] by (auto dest: in_set_dropD)
  have v: "dec_val (drop 7 ?s) = unat guti mod 10 ^ 9"
    using dec_val_drop [OF to_string_digits, of 7 "unat guti"] len by simp
  have "unat guti mod 10 ^ 9 < 2 ^ 64"
    by (rule less_trans [of _ "10 ^ 9"]) simp_all
  then have "stoull (drop 7 ?s) = Inr (of_nat (unat guti mod 10 ^ 9))"
    using stoull_digits [OF _ digits] len v by simp
  moreover have "unat guti mod 10 ^ 9 < 2 ^ 32"
    by (rule less_trans [of _ "10 ^ 9"]) simp_all
  ultimately show ?thesis
    using len by (simp add: get_s11cteidmme_def substr_from_def ucast_of_nat_32)
qed

lemma plan_imsi12: "i < 10 ^ 10 \<Longrightarrow> imsi12 (plan_imsi i)"
  by (simp add: imsi12_def unat_plan_imsi)

text \<open>The GUTI of subscriber \<open>i\<close>; its S11 endpoint is \<open>i\<close>.\<close>

definition plan_guti :: "nat \<Rightarrow> u64" where
  "plan_guti i = 1111 * 10 ^ 12 + plan_imsi i"

lemma unat_plan_guti: "i < 10 ^ 10 \<Longrightarrow> unat (plan_guti i) = 1111119000000000 + i"
  using unat_guti_1111 [OF plan_imsi12, of i] by (simp add: plan_guti_def unat_plan_imsi)

lemma plan_endpoint: "i < 10 ^ 9 \<Longrightarrow> get_s11cteidmme (plan_guti i) = Inr (of_nat i)"
proof -
  assume i: "i < 10 ^ 9"
  have "(1111119000000000 + i) mod 1000000000 = i"
    using i mod_mult_self1 [of i 1111119 1000000000] by (simp add: add.commute)
  then show ?thesis
    using get_s11cteidmme_closed [of "plan_guti i"] i by (simp add: unat_plan_guti)
qed

lemma ran_imsi: "i < 10 ^ 9 \<Longrightarrow> get_imsi 11 (9000000000 + of_nat i) = Inr (plan_imsi i)"
proof -
  assume i: "i < 10 ^ 9"
  then have "unat (9000000000 + of_nat i :: u64) = 9000000000 + i"
    by (simp add: unat_word_ariths unat_of_nat)
  with i get_imsi_11 [of "9000000000 + of_nat i"] show ?thesis
    by (simp add: plan_imsi_def)
qed

subsection \<open>The world behind the MME\<close>

definition hss_peer :: "'db mysql \<Rightarrow> fresh_hdrs \<Rightarrow> u64 \<times> u64 \<Rightarrow> 'db option peer" where
  "hss_peer Q fresh kr req st =
     (case st of
        None \<Rightarrow> (Rx_fail [] 0, None)
      | Some db \<Rightarrow>
          (case hss_handle_mme Q fresh kr (Rx req) db of
             Inl _ \<Rightarrow> (Rx_fail [] 0, None)
           | Inr (status, reply, db) \<Rightarrow>
               (case reply of None \<Rightarrow> Rx_fail [] 0 | Some m \<Rightarrow> Rx m, Some db)))"

definition hss_prov :: "'db mysql \<Rightarrow> u64 \<Rightarrow> u64 \<Rightarrow> u64 \<Rightarrow> 'db option \<Rightarrow> bool" where
  "hss_prov Q imsi key rand_num st \<longleftrightarrow> (\<exists>db. st = Some db \<and> hss_db_ok Q imsi key rand_num db)"

interpretation hss_model: auth_center "hss_peer Q fresh kr" "hss_prov Q"
  for Q :: "'db mysql" and fresh kr
proof
  fix imsi key rand_num plmn n nw_type and h :: diameter and w :: "'db option"
  assume "hss_prov Q imsi key rand_num w" and "msg_type_d h = 1"
  then obtain db where "w = Some db" and "hss_db_ok Q imsi key rand_num db"
    by (auto simp: hss_prov_def)
  then show "\<exists>h'. hss_peer Q fresh kr (autn_req_bytes h imsi plmn n nw_type) w =
      (case autn_vector key rand_num plmn of (autn_num, xres, k_asme) \<Rightarrow>
         (Rx (autn_rsp_bytes h' autn_num rand_num xres k_asme), w))"
    using hss_autn_reply [of Q imsi key rand_num db h fresh kr plmn n nw_type] \<open>msg_type_d h = 1\<close>
    by (cases "autn_vector key rand_num plmn") (auto simp: hss_peer_def)
qed

type_synonym gw_proc = "pgw_proc sgw_proc"
type_synonym 'db epc_world = "'db option \<times> gw_proc"

definition on_fst :: "'a peer \<Rightarrow> ('a \<times> 'b) peer" where
  "on_fst p req st = (case p req (fst st) of (r, a) \<Rightarrow> (r, a, snd st))"

definition on_snd :: "'b peer \<Rightarrow> ('a \<times> 'b) peer" where
  "on_snd p req st = (case p req (snd st) of (r, b) \<Rightarrow> (r, fst st, b))"

definition epc_prov :: "'db mysql \<Rightarrow> u64 \<Rightarrow> u64 \<Rightarrow> u64 \<Rightarrow> 'db epc_world \<Rightarrow> bool" where
  "epc_prov Q imsi key rand_num w = hss_prov Q imsi key rand_num (fst w)"

definition epc_live :: "ext_lib \<Rightarrow> sock_addr \<Rightarrow> 'db epc_world \<Rightarrow> bool" where
  "epc_live X a w = sgw_live X a (pgw_live X a) pgw_sess (snd w)"

definition epc_sess :: "'db epc_world \<Rightarrow> (u32 \<rightharpoonup> u64)" where
  "epc_sess w = sgw_sess (snd w)"

definition epc_ip :: "u64 \<Rightarrow> 'db epc_world \<Rightarrow> string" where
  "epc_ip imsi w = sgw_ip pgw_ip imsi (snd w)"

definition epc_hss :: "'db mysql \<Rightarrow> fresh_hdrs \<Rightarrow> u64 \<times> u64 \<Rightarrow> 'db epc_world peer" where
  "epc_hss Q fresh kr = on_fst (hss_peer Q fresh kr)"

definition epc_sgw :: "ext_lib \<Rightarrow> sock_addr \<Rightarrow> sock_addr \<Rightarrow> 'db epc_world peer" where
  "epc_sgw X s5 s11 = on_snd (sgw_peer X (pgw_net X s5) s11)"

interpretation epc: core_net "epc_hss Q fresh kr" "epc_prov Q" "epc_sgw X s5 s11" "epc_live X a" epc_sess epc_ip
  for Q :: "'db mysql" and fresh kr X s5 s11 a
proof (unfold_locales, goal_cases)
  case (1 imsi key rand_num w h plmn n nw_type)
  then show ?case
    using hss_model.vector [of Q imsi key rand_num "fst w" h fresh kr plmn n nw_type]
    by (cases w; cases "autn_vector key rand_num plmn")
      (auto simp: epc_prov_def epc_hss_def on_fst_def)
next
  case (2 w imsi t h b apn tai)
  then show ?case
    using pgw_model.gw.create [where X = X and Xa = X and a = a and w = "snd w" and imsi = imsi and t = t and h = h
        and srca = s5 and src = s11 and b = b and apn = apn and tai = tai]
    by (cases w) (fastforce simp: epc_live_def epc_sess_def epc_ip_def epc_sgw_def on_snd_def)
next
  case (3 w h imsi enb_ip enb_port b s1_dl)
  then show ?case
    using pgw_model.gw.modify [where X = X and Xa = X and a = a and w = "snd w" and imsi = imsi and h = h
        and srca = s5 and src = s11 and b = b and enb_ip = enb_ip and enb_port = enb_port and s1_dl = s1_dl]
    by (cases w) (fastforce simp: epc_live_def epc_sess_def epc_ip_def epc_sgw_def on_snd_def)
next
  case (4 w h imsi b tai)
  then show ?case
    using pgw_model.gw.detach [where X = X and Xa = X and a = a and w = "snd w" and imsi = imsi and h = h
        and srca = s5 and src = s11 and b = b and tai = tai]
    by (cases w) (fastforce simp: epc_live_def epc_sess_def epc_ip_def epc_sgw_def on_snd_def)
next
  case (5 req w r w' imsi key rand_num)
  then show ?case
    by (cases w) (auto simp: epc_sgw_def on_snd_def epc_prov_def split: prod.splits)
qed

subsection \<open>A network that has just started\<close>

definition start_world :: "packet \<Rightarrow> packet \<Rightarrow> 'db \<Rightarrow> 'db epc_world" where
  "start_world p1 p2 db = (Some db, Some (p1, new_sgw, Some (p2, new_pgw)))"

definition start_mme :: mme where
  "start_mme =
     \<lparr>mme_ids_of = \<lparr>mcc = 1, mnc = 1, plmn_id = 11, mmegi = 1, mmec = 1, mmei = 11, gummei = 1111\<rparr>,
      ue_count = 0, s1mme_id = Map.empty, ue_ctx_m = Map.empty\<rparr>"

lemma new_mme_start: "new_mme = Inr start_mme"
  by (simp add: new_mme_def new_mme_ids_def get_plmn_id_1_1 get_mmei_1_1 get_gummei_11_11 start_mme_def)

text \<open>The addresses of the configuration are dotted decimals, so \<open>inet_aton\<close> accepts them.\<close>

definition epc_addr :: "u8 list" where
  "epc_addr = [10, 129, 26, 169]"

lemma epc_addr_dotted: "dotted epc_addr = ''10.129.26.169''"
  by code_simp

lemma inet_epc: "inet_ok X \<Longrightarrow> inet_aton X ''10.129.26.169'' = Some epc_addr"
proof -
  assume "inet_ok X"
  then have "inet_aton X (dotted epc_addr) = Some epc_addr"
    by (simp add: inet_ok_def epc_addr_def)
  then show ?thesis
    by (simp add: epc_addr_dotted)
qed

lemma pgw_addr_ok: "inet_ok X \<Longrightarrow> pgw_addr X = Inr (epc_addr, 8000)"
  by (simp add: pgw_addr_def set_inet_sock_addr_def g_pgw_s5_ip_addr_def g_pgw_s5_port_def inet_epc)

lemma start_live: "inet_ok X \<Longrightarrow> epc_live X (epc_addr, 8000) (start_world p1 p2 db)"
  using pgw_addr_ok [of X]
  by (simp add: epc_live_def start_world_def sgw_live_def pgw_live_def pgw_sess_def new_sgw_inv
      pgw_addr_def new_sgw_def [symmetric] pgw_inv_def new_pgw_def) (simp add: new_sgw_def)

lemma is_digit_code: "is_digit c \<Longrightarrow> c \<noteq> CHR 0x00"
  by (auto simp: is_digit_def)

lemma plan_ip_short: "i < 10000 \<Longrightarrow> short_ip (plan_ip i)"
proof -
  assume i: "i < 10000"
  have "length (to_string n) \<le> 3" if "n < 1000" for n
    using that by (subst to_string.simps, subst to_string.simps, subst to_string.simps) simp
  then have "length (to_string (1 + i div 252)) \<le> 3" and "length (to_string (3 + i mod 252)) \<le> 3"
    using i by simp_all
  moreover have "CHR 0x00 \<notin> set (to_string n)" for n
    using to_string_digits [of n] is_digit_code by blast
  ultimately show ?thesis
    by (simp add: short_ip_def plan_ip_def nul_free_def)
qed

lemma start_ip: "i < 10000 \<Longrightarrow> epc_ip (plan_imsi i) (start_world p1 p2 db) = plan_ip i"
  by (simp add: epc_ip_def start_world_def sgw_ip_def pgw_ip_def ip_of_def new_pgw_ip)

lemma start_sess: "epc_sess (start_world p1 p2 db) = Map.empty"
  by (simp add: epc_sess_def start_world_def sgw_sess_def new_sgw_def)

text \<open>Simulator thread \<open>i\<close>: its UE, and the network ready for it.\<close>

lemma start_ue:
  assumes "i < 10000"
  shows "\<exists>u. bindE (new_ran fresh junk) (ran_init (int i)) = Inr u \<and> imsi_r (ctx u) = plan_imsi i \<and>
    key_r (ctx u) = of_nat i \<and> plmn_id_r (ctx u) = 11 \<and> epc_addrs_of u = new_epc_addrs"
proof -
  obtain g s d where f: "fresh = (g, s, d)"
    by (cases fresh)
  obtain ho ind enb tg hs c1 c2 c3 c4 where j: "junk = ((ho, ind, enb, tg, hs), c1, c2, c3, c4)"
    by (metis prod.exhaust)
  have "ucast (word_of_int (int i) :: u32) = (of_nat i :: u64)"
    using assms
    by (intro word_unat_eq_iff [THEN iffD2])
      (simp add: unsigned_ucast_eq unsigned_of_nat take_bit_nat_eq_self)
  then show ?thesis
    using ran_imsi [of i] assms
    by (simp add: new_ran_def f j local_packet_def new_ran_ctx_def get_plmn_id_1_1 ran_init_def
        ran_ctx_init_def Let_def)
qed

lemma start_ready:
  assumes "i < 10000" and "inet_ok X" and "hss_db_ok Q (plan_imsi i) (of_nat i) rand_num db"
    and "imsi_r (ctx u) = plan_imsi i" "key_r (ctx u) = of_nat i" "plmn_id_r (ctx u) = 11"
  shows "ue_ready (epc_prov Q) (epc_live X (epc_addr, 8000)) epc_sess epc_ip u start_mme
    (start_world p1 p2 db) (plan_guti i) (of_nat i) rand_num"
proof -
  have "unat (plan_guti i) \<noteq> 0" and "unat (plan_imsi i) \<noteq> 0"
    using assms(1) by (simp_all add: unat_plan_guti unat_plan_imsi)
  then have "plan_guti i \<noteq> 0" and "plan_imsi i \<noteq> 0"
    by auto
  moreover have "get_guti 1111 (plan_imsi i) = Inr (plan_guti i)"
    using get_guti_1111 [OF plan_imsi12, of i] assms(1) by (simp add: plan_guti_def)
  ultimately show ?thesis
    using assms start_live [OF assms(2), of p1 p2 db] plan_endpoint [of i] plan_ip_short [of i]
    by (simp add: ue_ready_def start_ip start_sess one_teid_def epc_prov_def hss_prov_def start_mme_def)
      (simp add: start_world_def)
qed

end
