(* ===== verification/Epc_Gateway.thy ===== *)
theory Epc_Gateway
  imports Epc_Model
begin

section \<open>The gateways under any traffic\<close>

text \<open>
  SGW and PGW as a transition system. On S11 arrive well-formed messages of all six types that
  \<open>sgw_s11_turn\<close> dispatches on, and of any other type: create session for a subscriber of the plan
  under its own endpoint id (the ids the MME hands out), and all the others for any endpoint at all,
  in session or not. On the user plane arrive any bytes that do not stop the process (a datagram too long for the
  packet buffer would); on the PGW's S5 socket, which carries both, any message but the session
  messages, which come from the SGW. Order and number are free. Every reachable state is consistent: the S11 and S5 tables of the SGW and the table of the
  PGW hold the same sessions, the address table of the PGW holds exactly the addresses of the
  subscribers in session, and an S1 entry leads to the subscriber of that id or, once there were
  handovers, to the one of the id before it. The isolation of user data follows.
\<close>

subsection \<open>A planned subscriber's messages\<close>

definition gw_send :: "ext_lib \<Rightarrow> sock_addr \<Rightarrow> sock_addr \<Rightarrow> u8 list \<Rightarrow> gw_proc \<Rightarrow> rx \<times> gw_proc" where
  "gw_send X s5 s11 = sgw_peer X (pgw_net X s5) s11"

lemma gw_create_eq:
  assumes "msg_type_g h = 1" and "pgw_addr X = Inr a" and "short_ip (ip_of p imsi)"
  shows "\<exists>q q' h'. gw_send X s5 s11 (create_req11 h t imsi b g_pgw_s5_ip_addr g_pgw_s5_port apn tai)
      (Some (pkt, s, Some (pkt', p))) = (Rx (create_rsp11 h' t (ip_of p imsi) t t t),
        Some (q, sgw_created t imsi b g_pgw_s5_ip_addr g_pgw_s5_port apn tai t t s,
          Some (q', pgw_created t imsi b t apn tai p)))"
proof -
  obtain h' q' where c: "pgw_net X s5 a (create_req5 (gtp_with 2 1 33 0 h) t imsi b t apn tai) (Some (pkt', p)) =
      (Rx (create_rsp5 h' t b t (ip_of p imsi)), Some (q', pgw_created t imsi b t apn tai p))"
    using pgw_create_turn [of "gtp_with 2 1 33 0 h" p imsi X s5 t b t apn tai pkt'] assms
    by (auto simp: pgw_net_def call_udp_reply)
  show ?thesis
    using sgw_create_turn [where h = h and X = X and pgw_ip = g_pgw_s5_ip_addr and port = g_pgw_s5_port and a = a
        and pgw = "pgw_net X s5" and ip = "ip_of p imsi" and w = "Some (pkt', p)" and pkt = pkt and s = s
        and src = s11, OF assms(1) short_pgw_ip _ _ _ assms(3) c] assms(2)
    by (auto simp: g_pgw_s5_port_def pgw_addr_def gw_send_def sgw_peer_def call_udp_reply)
qed

lemma gw_modify_eq:
  assumes "msg_type_g h = 2" and "s11_id s (teid h) = Some imsi" and "imsi \<noteq> 0" and "short_ip enb_ip"
    and "- (2 ^ 31) \<le> enb_port" and "enb_port < 2 ^ 31"
  shows "\<exists>q h'. gw_send X s5 s11 (modify_req h b s1_dl enb_ip enb_port) (Some (pkt, s, w)) =
      (Rx (bool_rsp h' True), Some (q, sgw_modified imsi s1_dl enb_ip enb_port s, w))"
  using sgw_modify_turn [OF assms, of X "pgw_net X s5" s11 b s1_dl pkt w]
  by (auto simp: gw_send_def sgw_peer_def call_udp_reply)

lemma gw_detach_eq:
  assumes h: "msg_type_g h = 3" and a: "pgw_addr X = Inr a" and s: "sgw_core s" "s11_id s (teid h) = Some imsi"
    and p: "pgw_inv p" "s5_id_p p (teid h) = Some imsi"
  shows "\<exists>q q' h'. gw_send X s5 s11 (detach_req h b tai) (Some (pkt, s, Some (pkt', p))) =
      (Rx (bool_rsp h' True), Some (q, sgw_detached imsi s, Some (q', pgw_detached imsi p)))"
proof -
  obtain c where c: "imsi \<noteq> 0" "ue_ctx_s s imsi = Some c" "sgw_ctx_ok (teid h) c"
    using sgw_coreE [OF s] by blast
  let ?h = "gtp_with 2 4 9 (s5_cteid_ul_s c) h"
  have "teid ?h = teid h" and "msg_type_g ?h = 4"
    using c(3) by (simp_all add: sgw_ctx_ok_def)
  then obtain h' q' where d: "pgw_net X s5 a (detach_req ?h b tai) (Some (pkt', p)) =
      (Rx (bool_rsp h' True), Some (q', pgw_detached imsi p))"
    using pgw_detach_turn [of ?h p imsi X s5 b tai pkt'] p a c(1) by (auto simp: pgw_net_def call_udp_reply)
  show ?thesis
    using sgw_detach_turn [where pgw = "pgw_net X s5" and a = a and w = "Some (pkt', p)" and res = True,
        OF h s(2) c(1,2) _ d, of X s11 pkt] c(3) a
    by (auto simp: gw_send_def sgw_peer_def call_udp_reply sgw_ctx_ok_def pgw_addr_def)
qed

lemma gw_stray_eq:
  assumes "at_or 0 (s11_id s) (teid h) = 0"
  shows "msg_type_g h = 2 \<Longrightarrow> short_ip enb_ip \<Longrightarrow>
      gw_send X s5 s11 (modify_req h b s1_dl enb_ip enb_port) (Some (pkt, s, w)) = (Rx_fail [] (-1), None)"
    and "msg_type_g h = 3 \<Longrightarrow>
      gw_send X s5 s11 (detach_req h b tai) (Some (pkt, s, w)) = (Rx_fail [] (-1), None)"
  by (simp_all add: gw_send_def sgw_peer_def call_udp_def sgw_unknown_teid [OF assms])

text \<open>The handover messages, whose endpoint may be unknown: its IMSI then reads as 0.\<close>

lemma gw_handover_eq:
  fixes h s
  defines "imsi \<equiv> at_or 0 (s11_id s) (teid h)"
  shows "msg_type_g h = 4 \<Longrightarrow> \<exists>r q. gw_send X s5 s11 (teid_msg h d) (Some (pkt, s, w)) =
      (r, Some (q, sgw_tunnelled imsi d s, w))"
    and "msg_type_g h = 5 \<Longrightarrow> length body \<le> 1000 \<Longrightarrow>
      \<exists>r q. gw_send X s5 s11 (gtp_bytes h @ body) (Some (pkt, s, w)) = (r, Some (q, sgw_switched imsi s, w))"
    and "msg_type_g h = 6 \<Longrightarrow> \<exists>r q. gw_send X s5 s11 (teid_msg h t) (Some (pkt, s, w)) =
      (r, Some (q, sgw_torn imsi t s, w))"
    and "msg_type_g h \<notin> {1..6} \<Longrightarrow> length body \<le> 1000 \<Longrightarrow>
      \<exists>r q. gw_send X s5 s11 (gtp_bytes h @ body) (Some (pkt, s, w)) = (r, Some (q, s, w))"
proof -
  show "msg_type_g h = 4 \<Longrightarrow> \<exists>r q. gw_send X s5 s11 (teid_msg h d) (Some (pkt, s, w)) =
      (r, Some (q, sgw_tunnelled imsi d s, w))"
    using sgw_tunnel_turn [of h s imsi X "pgw_net X s5" s11 d pkt w]
    by (simp add: imsi_def gw_send_def sgw_peer_def call_udp_reply)
  show "msg_type_g h = 5 \<Longrightarrow> length body \<le> 1000 \<Longrightarrow>
      \<exists>r q. gw_send X s5 s11 (gtp_bytes h @ body) (Some (pkt, s, w)) = (r, Some (q, sgw_switched imsi s, w))"
    using sgw_switch_turn [of h s imsi body X "pgw_net X s5" s11 pkt w]
    by (simp add: imsi_def gw_send_def sgw_peer_def call_udp_reply)
  show "msg_type_g h = 6 \<Longrightarrow> \<exists>r q. gw_send X s5 s11 (teid_msg h t) (Some (pkt, s, w)) =
      (r, Some (q, sgw_torn imsi t s, w))"
    using sgw_teardown_turn [of h s imsi X "pgw_net X s5" s11 t pkt w]
    by (simp add: imsi_def gw_send_def sgw_peer_def call_udp_reply)
  show "msg_type_g h \<notin> {1..6} \<Longrightarrow> length body \<le> 1000 \<Longrightarrow>
      \<exists>r q. gw_send X s5 s11 (gtp_bytes h @ body) (Some (pkt, s, w)) = (r, Some (q, s, w))"
    by (auto simp: gw_send_def sgw_peer_def call_udp_def sgw_s11_turn_def Let_def)
qed

subsection \<open>Steps\<close>

text \<open>
  The label of a step says what kind of message it took: a session message (create session, and
  modify bearer and detach of an endpoint in session), a modify bearer or detach of an endpoint that
  is not, a handover message, or user data and messages of unknown types.
\<close>

datatype gw_event = Session | Stray | Handover | Data

inductive gw_step :: "ext_lib \<Rightarrow> gw_event \<Rightarrow> gw_proc \<Rightarrow> gw_proc \<Rightarrow> bool" for X :: ext_lib where
  create: "i < 10000 \<Longrightarrow> msg_type_g h = 1 \<Longrightarrow>
    gw_send X s5 s11 (create_req11 h (of_nat i) (plan_imsi i) b g_pgw_s5_ip_addr g_pgw_s5_port apn tai) w = (r, w') \<Longrightarrow>
    gw_step X Session w w'"
| modify: "msg_type_g h = 2 \<Longrightarrow> short_ip enb_ip \<Longrightarrow> - (2 ^ 31) \<le> enb_port \<Longrightarrow> enb_port < 2 ^ 31 \<Longrightarrow>
    l = (if sgw_sess w (teid h) = None then Stray else Session) \<Longrightarrow>
    gw_send X s5 s11 (modify_req h b s1_dl enb_ip enb_port) w = (r, w') \<Longrightarrow> gw_step X l w w'"
| detach: "msg_type_g h = 3 \<Longrightarrow> l = (if sgw_sess w (teid h) = None then Stray else Session) \<Longrightarrow>
    gw_send X s5 s11 (detach_req h b tai) w = (r, w') \<Longrightarrow> gw_step X l w w'"
| tunnel_setup: "msg_type_g h = 4 \<Longrightarrow> gw_send X s5 s11 (teid_msg h s1_dl) w = (r, w') \<Longrightarrow> gw_step X Handover w w'"
| completion: "msg_type_g h = 5 \<Longrightarrow> length body \<le> 1000 \<Longrightarrow>
    gw_send X s5 s11 (gtp_bytes h @ body) w = (r, w') \<Longrightarrow> gw_step X Handover w w'"
| tunnel_teardown: "msg_type_g h = 6 \<Longrightarrow> gw_send X s5 s11 (teid_msg h s1_ul) w = (r, w') \<Longrightarrow> gw_step X Handover w w'"
| other: "msg_type_g h \<notin> {1..6} \<Longrightarrow> length body \<le> 1000 \<Longrightarrow>
    gw_send X s5 s11 (gtp_bytes h @ body) w = (r, w') \<Longrightarrow> gw_step X Data w w'"
| uplink: "sgw_s1_turn X (src, Rx m) (pkt1, s) = Inr (out, q, s') \<Longrightarrow>
    gw_step X Data (Some (pkt, s, pw)) (Some (pkt, s', pw))"
| downlink: "sgw_s5_turn X (src, Rx m) (pkt1, s) = Inr (out, q, s') \<Longrightarrow>
    gw_step X Data (Some (pkt, s, pw)) (Some (pkt, s', pw))"
| arrival: "pgw_sgi_turn X (src, Rx m) (pkt1, p) = Inr (out, q, p') \<Longrightarrow>
    gw_step X Data (Some (pkt, s, Some (pkt', p))) (Some (pkt, s, Some (pkt', p')))"
| departure: "msg_type_g h \<noteq> 1 \<Longrightarrow> msg_type_g h \<noteq> 4 \<Longrightarrow> length body \<le> 1000 \<Longrightarrow>
    pgw_s5_turn X (src, Rx (gtp_bytes h @ body)) (pkt', p) = Inr (out, q, p') \<Longrightarrow>
    gw_step X Data (Some (pkt, s, Some (pkt', p))) (Some (pkt, s, Some (q, p')))"

definition gw_start :: "packet \<Rightarrow> packet \<Rightarrow> gw_proc" where
  "gw_start p1 p2 = Some (p1, new_sgw, Some (p2, new_pgw))"

inductive gw_trace :: "ext_lib \<Rightarrow> gw_event list \<Rightarrow> gw_proc \<Rightarrow> bool" for X :: ext_lib where
  start: "gw_trace X [] (gw_start p1 p2)"
| step: "gw_trace X ls w \<Longrightarrow> gw_step X l w w' \<Longrightarrow> gw_trace X (ls @ [l]) w'"

definition gw_reachable :: "ext_lib \<Rightarrow> gw_proc \<Rightarrow> bool" where
  "gw_reachable X w \<longleftrightarrow> (\<exists>ls. gw_trace X ls w)"

text \<open>User plane turns keep the tables, whatever they receive.\<close>

lemma user_plane_keeps:
  "sgw_s1_turn X m (pkt, s) = Inr (out, q, s') \<Longrightarrow> s' = s"
  "sgw_s5_turn X m (pkt, s) = Inr (out, q, s') \<Longrightarrow> s' = s"
  "pgw_sgi_turn X m (pkt, p) = Inr (out, q, p') \<Longrightarrow> p' = p"
  by (auto simp: sgw_s1_turn_def sgw_s5_turn_def pgw_sgi_turn_def bindE_eq_Inr split: prod.splits if_splits)

lemma departure_keeps:
  assumes "msg_type_g h \<noteq> 1" "msg_type_g h \<noteq> 4" "length body \<le> 1000"
    and "pgw_s5_turn X (src, Rx (gtp_bytes h @ body)) (pkt, p) = Inr (out, q, p')"
  shows "p' = p"
  using assms by (auto simp: pgw_s5_turn_def bindE_eq_Inr Let_def split: prod.splits if_splits)

text \<open>A program that has exited takes no further step.\<close>

lemma gw_step_None: "gw_step X l None w' \<Longrightarrow> w' = None"
  by (cases rule: gw_step.cases, assumption) (auto simp: gw_send_def sgw_peer_def call_udp_def)

subsection \<open>The invariant\<close>

lemma plan_ip_inject:
  assumes "i < 10000" and "j < 10000" and "plan_ip i = plan_ip j"
  shows "i = j"
proof -
  have "dotted [172, 16, of_nat (1 + i div 252), of_nat (3 + i mod 252)] =
      dotted [172, 16, of_nat (1 + j div 252), of_nat (3 + j mod 252)]"
    using assms(3) by (simp only: plan_ip_dotted [OF assms(1)] plan_ip_dotted [OF assms(2)])
  then have "[172, 16, of_nat (1 + i div 252), of_nat (3 + i mod 252) :: u8] =
      [172, 16, of_nat (1 + j div 252), of_nat (3 + j mod 252)]"
    using parse_dotted_dotted [of "[172, 16, of_nat (1 + i div 252), of_nat (3 + i mod 252)]"]
      parse_dotted_dotted [of "[172, 16, of_nat (1 + j div 252), of_nat (3 + j mod 252)]"] by simp
  then have "unat (of_nat (1 + i div 252) :: u8) = unat (of_nat (1 + j div 252) :: u8)"
    and "unat (of_nat (3 + i mod 252) :: u8) = unat (of_nat (3 + j mod 252) :: u8)"
    by simp_all
  then have "i div 252 = j div 252" and "i mod 252 = j mod 252"
    using assms(1,2) by (simp_all only: unat_of_nat_u8) simp_all
  then show ?thesis
    by (metis div_mult_mod_eq)
qed

definition planned :: "u32 \<Rightarrow> u64 \<Rightarrow> bool" where
  "planned t imsi \<longleftrightarrow> (\<exists>i < 10000. t = of_nat i \<and> imsi = plan_imsi i)"

definition gw_inv :: "gw_proc \<Rightarrow> bool" where
  "gw_inv w \<longleftrightarrow>
     (\<exists>pkt s pkt' p. w = Some (pkt, s, Some (pkt', p)) \<and> sgw_core s \<and> pgw_inv p \<and> s11_id s = s5_id_p p \<and>
        (\<forall>i < 10000. ip_of p (plan_imsi i) = plan_ip i) \<and>
        (\<forall>t imsi. s11_id s t = Some imsi \<longrightarrow> planned t imsi) \<and>
        (\<forall>i < 10000. sgi_id p (plan_ip i) = (if s11_id s (of_nat i) = None then None else Some (plan_imsi i))))"

text \<open>
  What handovers leave of the S1 table. The indirect tunnel of endpoint \<open>t\<close> is filed under \<open>t + 1\<close>,
  which is the uplink id of the next subscriber; that of an unknown endpoint is filed under 1, for
  IMSI 0, whose context is never initialised.
\<close>

definition uplink_ok :: "u32 \<Rightarrow> u64 \<Rightarrow> bool" where
  "uplink_ok t imsi \<longleftrightarrow> planned t imsi \<or> planned (t - 1) imsi \<or> t = 1 \<and> imsi = 0"

definition sgw_s1_ok :: "sgw \<Rightarrow> bool" where
  "sgw_s1_ok s \<longleftrightarrow>
     (\<forall>t imsi. s1_id s t = Some imsi \<longrightarrow> uplink_ok t imsi) \<and> s11_cteid_mme_s (sgw_ue_at 0 s) = 0"

definition gw_s1 :: "(sgw \<Rightarrow> bool) \<Rightarrow> gw_proc \<Rightarrow> bool" where
  "gw_s1 P w \<longleftrightarrow> (case w of None \<Rightarrow> False | Some (pkt, s, pw) \<Rightarrow> P s)"

abbreviation s1_equal :: "sgw \<Rightarrow> bool" where
  "s1_equal s \<equiv> s1_id s = s11_id s"

lemma planned_unique:
  assumes "planned t imsi" and "planned t' imsi"
  shows "t' = t"
  using assms plan_imsi_inject by (fastforce simp: planned_def)

lemma planned_endpoint:
  assumes "planned (of_nat i) imsi" and "i < 10000"
  shows "imsi = plan_imsi i"
proof -
  obtain j where j: "j < 10000" "(of_nat i :: u32) = of_nat j" "imsi = plan_imsi j"
    using assms(1) by (auto simp: planned_def)
  then have "unat (of_nat i :: u32) = unat (of_nat j :: u32)"
    by (simp only:)
  then have "i = j"
    using assms(2) j(1) by (simp add: unat_of_nat take_bit_nat_eq_self)
  with j(3) show ?thesis
    by simp
qed

lemma plan_index:
  assumes "i < 10000" and "j < 10000"
  shows "plan_ip j = plan_ip i \<longleftrightarrow> j = i" and "(of_nat j :: u32) = of_nat i \<longleftrightarrow> j = i"
  using assms plan_ip_inject [of j i] by (auto simp: word_unat_eq_iff unat_of_nat take_bit_nat_eq_self)

lemma planned_nonzero: "planned t imsi \<Longrightarrow> imsi \<noteq> 0"
proof -
  assume "planned t imsi"
  then obtain i where "i < 10000" "imsi = plan_imsi i"
    by (auto simp: planned_def)
  then have "unat imsi \<noteq> 0"
    by (simp add: unat_plan_imsi)
  then show "imsi \<noteq> 0"
    by auto
qed

lemma gw_start_inv: "gw_inv (gw_start p1 p2)" "gw_s1 sgw_s1_ok (gw_start p1 p2)" "gw_s1 s1_equal (gw_start p1 p2)"
proof -
  show "gw_inv (gw_start p1 p2)"
    using new_sgw_inv by (auto simp: gw_inv_def gw_start_def pgw_inv_def ip_of_def new_pgw_ip sgw_inv_def)
      (auto simp: new_sgw_def new_pgw_def)
  show "gw_s1 sgw_s1_ok (gw_start p1 p2)" and "gw_s1 s1_equal (gw_start p1 p2)"
    by (simp_all add: gw_s1_def gw_start_def sgw_s1_ok_def sgw_ue_at_def new_sgw_def new_sgw_ue_def)
qed

lemma gw_created_inv:
  assumes "gw_inv (Some (pkt, s, Some (pkt', p)))" and i: "i < 10000"
  shows "gw_inv (Some (q, sgw_created (of_nat i) (plan_imsi i) b g_pgw_s5_ip_addr g_pgw_s5_port apn tai (of_nat i) (of_nat i) s,
    Some (q', pgw_created (of_nat i) (plan_imsi i) b (of_nat i) apn tai p)))"
proof -
  note inv = assms(1) [unfolded gw_inv_def, simplified]
  have pl: "planned (of_nat i) (plan_imsi i)"
    using i by (auto simp: planned_def)
  note nz = planned_nonzero [OF pl]
  have one: "one_teid (s11_id s) (of_nat i) (plan_imsi i)" "one_teid (s5_id_p p) (of_nat i) (plan_imsi i)"
    using inv planned_unique [OF pl] by (auto simp: one_teid_def)
  note idx = plan_index [OF i]
  show ?thesis
    using inv sgw_created_core [OF _ nz one(1)] pgw_created_inv [OF _ nz one(2)] pl i
    by (simp add: gw_inv_def) (auto simp: sgw_created_def pgw_created_def idx)
qed

lemma gw_modified_inv:
  assumes "gw_inv (Some (pkt, s, w))" and "s11_id s t = Some imsi"
  shows "gw_inv (Some (q, sgw_modified imsi d ip port s, w))"
  using assms sgw_modified_core [OF _ assms(2)] by (auto simp: gw_inv_def)

lemma gw_detached_inv:
  assumes "gw_inv (Some (pkt, s, Some (pkt', p)))" and t: "s11_id s t = Some imsi"
  shows "gw_inv (Some (q, sgw_detached imsi s, Some (q', pgw_detached imsi p)))"
proof -
  note inv = assms(1) [unfolded gw_inv_def, simplified]
  have p: "s5_id_p p t = Some imsi"
    using inv t by simp
  obtain i where i: "i < 10000" "t = of_nat i" "imsi = plan_imsi i"
    using inv t unfolding planned_def by blast
  note idx = plan_index [OF i(1)]
  have "ip_of p imsi = plan_ip i"
    using inv i by simp
  then show ?thesis
    using inv sgw_detached_core [OF _ t] pgw_detached_inv [OF _ p] sgw_detached_tables [OF _ t]
      pgw_detached_tables [OF _ p] idx i(2)
    by (simp add: gw_inv_def)
qed

lemma gw_handover_inv:
  assumes "gw_inv (Some (pkt, s, w))"
  shows "gw_inv (Some (q, sgw_tunnelled imsi d s, w))" and "gw_inv (Some (q, sgw_switched imsi s, w))"
    and "gw_inv (Some (q, sgw_torn imsi t s, w))" and "gw_inv (Some (q, s, w))"
  using assms sgw_handover_core by (auto simp: gw_inv_def)

subsection \<open>The S1 table\<close>

lemma s1_created:
  assumes "sgw_s1_ok s" and "planned t imsi"
  shows "sgw_s1_ok (sgw_created t imsi b pip port apn tai cul ul s)"
  using assms planned_nonzero [OF assms(2)]
  by (auto simp: sgw_s1_ok_def sgw_created_def uplink_ok_def sgw_ue_at_def)

lemma s1_modified:
  assumes "sgw_s1_ok s"
  shows "sgw_s1_ok (sgw_modified imsi d ip port s)"
  using assms by (auto simp: sgw_s1_ok_def sgw_modified_def upd_sgw_ue_def sgw_ue_at_def)

lemma s1_detached:
  assumes "sgw_s1_ok s" and "sgw_core s" "s11_id s t = Some imsi"
  shows "sgw_s1_ok (sgw_detached imsi s)"
  using assms(1) sgw_coreE [OF assms(2,3)]
  by (auto simp: sgw_s1_ok_def sgw_detached_tables [OF assms(2,3)] sgw_ue_at_def at_or_def split: if_splits)

text \<open>The indirect tunnel goes under the id after the subscriber's own.\<close>

lemma s1_tunnelled:
  assumes "sgw_s1_ok s" and "sgw_core s" and pl: "\<forall>t imsi. s11_id s t = Some imsi \<longrightarrow> planned t imsi"
  shows "sgw_s1_ok (sgw_tunnelled (at_or 0 (s11_id s) t) d s)"
proof (cases "s11_id s t")
  case None
  then show ?thesis
    using assms(1) by (auto simp: sgw_s1_ok_def sgw_tunnelled_def uplink_ok_def sgw_ue_at_def)
next
  case (Some imsi)
  then obtain c where "ue_ctx_s s imsi = Some c" "sgw_ctx_ok t c"
    using sgw_coreE [OF assms(2)] by metis
  then have "s11_cteid_mme_s (sgw_ue_at imsi s) = t"
    by (simp add: sgw_ue_at_def sgw_ctx_ok_def)
  then show ?thesis
    using assms(1) pl Some by (auto simp: sgw_s1_ok_def sgw_tunnelled_def uplink_ok_def sgw_ue_at_def)
qed

lemma s1_switched:
  assumes "sgw_s1_ok s"
  shows "sgw_s1_ok (sgw_switched imsi s)" and "sgw_s1_ok (sgw_torn imsi t s)"
  using assms by (auto simp: sgw_s1_ok_def sgw_switched_def sgw_torn_def sgw_ue_at_def split: if_splits)

subsection \<open>Every step keeps the invariant\<close>

text \<open>
  A step ends the SGW only if it took a modify bearer or detach of an unknown endpoint; all others keep
  the invariant, and the S1 table stays equal to the S11 table except at a handover message.
\<close>

lemma gw_inv_step:
  assumes "pgw_addr X = Inr a" and "gw_step X l w w'" and inv: "gw_inv w" "gw_s1 sgw_s1_ok w"
  shows "l = Stray \<and> w' = None \<or>
    gw_inv w' \<and> gw_s1 sgw_s1_ok w' \<and> (l \<noteq> Handover \<longrightarrow> gw_s1 s1_equal w \<longrightarrow> gw_s1 s1_equal w')"
proof -
  obtain pkt s pkt' p where w: "w = Some (pkt, s, Some (pkt', p))" and core: "sgw_core s" "pgw_inv p"
      "s11_id s = s5_id_p p" and pl: "\<forall>t imsi. s11_id s t = Some imsi \<longrightarrow> planned t imsi" and s1: "sgw_s1_ok s"
    using inv by (auto simp: gw_inv_def gw_s1_def)
  note inv_w = inv(1) [unfolded w]
  note tabs = sgw_detached_tables [OF core(1)]
  show ?thesis
    using assms(2)
  proof (cases rule: gw_step.cases)
    case (create i h s5 s11 b apn tai r)
    have ip: "short_ip (ip_of p (plan_imsi i))"
      using inv_w plan_ip_short [OF create(2)] create(2) by (simp add: gw_inv_def)
    have "planned (of_nat i) (plan_imsi i)"
      using create(2) by (auto simp: planned_def)
    from gw_create_eq [OF create(3) assms(1) ip, of s5 s11 "of_nat i" b apn tai pkt s pkt'] create(4)
    show ?thesis
      using gw_created_inv [OF inv_w create(2)] s1_created [OF s1 \<open>planned _ _\<close>]
      by (auto simp: w gw_s1_def) (auto simp: sgw_created_def)
  next
    case (modify h enb_ip enb_port s5 s11 b s1_dl r)
    show ?thesis
    proof (cases "s11_id s (teid h)")
      case None
      with modify show ?thesis
        using gw_stray_eq(1) [of s h enb_ip X s5 s11 b s1_dl enb_port pkt "Some (pkt', p)"] by (simp add: w sgw_sess_def)
    next
      case (Some imsi)
      then have "imsi \<noteq> 0"
        using pl planned_nonzero by blast
      from gw_modify_eq [OF modify(1) Some this modify(2-4), of X s5 s11 b s1_dl pkt "Some (pkt', p)"] modify(6)
      show ?thesis
        using gw_modified_inv [OF inv_w Some] s1_modified [OF s1]
        by (auto simp: w gw_s1_def)
    qed
  next
    case (detach h s5 s11 b tai r)
    show ?thesis
    proof (cases "s11_id s (teid h)")
      case None
      with detach show ?thesis
        using gw_stray_eq(2) [of s h X s5 s11 b tai pkt "Some (pkt', p)"] by (simp add: w sgw_sess_def)
    next
      case (Some imsi)
      from gw_detach_eq [OF detach(1) assms(1) core(1) Some core(2), of s5 s11 b tai pkt pkt'] detach(3)
      show ?thesis
        using gw_detached_inv [OF inv_w Some] s1_detached [OF s1 core(1) Some] core(3) Some
        by (auto simp: w gw_s1_def tabs [OF Some])
    qed
  next
    case (tunnel_setup h s5 s11 s1_dl r)
    then show ?thesis
      using gw_handover_eq(1) [of h X s5 s11 s1_dl pkt s "Some (pkt', p)"] gw_handover_inv [OF inv_w]
        s1_tunnelled [OF s1 core(1) pl] by (auto simp: w gw_s1_def)
  next
    case (completion h body s5 s11 r)
    then show ?thesis
      using gw_handover_eq(2) [of h body X s5 s11 pkt s "Some (pkt', p)"] gw_handover_inv [OF inv_w]
        s1_switched [OF s1] by (auto simp: w gw_s1_def)
  next
    case (tunnel_teardown h s5 s11 s1_ul r)
    then show ?thesis
      using gw_handover_eq(3) [of h X s5 s11 s1_ul pkt s "Some (pkt', p)"] gw_handover_inv [OF inv_w]
        s1_switched [OF s1] by (auto simp: w gw_s1_def)
  next
    case (other h body s5 s11 r)
    then show ?thesis
      using gw_handover_eq(4) [of h body X s5 s11 pkt s "Some (pkt', p)"] gw_handover_inv [OF inv_w] s1
      by (auto simp: w gw_s1_def)
  next
    case (uplink src m pkt1 s0 out q s')
    then show ?thesis
      using inv user_plane_keeps(1) [of X "(src, Rx m)" pkt1 s0 out q s'] by (auto simp: gw_inv_def gw_s1_def)
  next
    case (downlink src m pkt1 s0 out q s')
    then show ?thesis
      using inv user_plane_keeps(2) [of X "(src, Rx m)" pkt1 s0 out q s'] by (auto simp: gw_inv_def gw_s1_def)
  next
    case (arrival src m pkt1 p0 out q p')
    then show ?thesis
      using inv user_plane_keeps(3) [of X "(src, Rx m)" pkt1 p0 out q p'] by (auto simp: gw_inv_def gw_s1_def)
  next
    case (departure h body src pkt0 p0 out q p')
    then show ?thesis
      using inv departure_keeps [OF departure(4-7)] by (auto simp: gw_inv_def gw_s1_def)
  qed
qed

theorem gw_trace_inv:
  assumes "pgw_addr X = Inr a" and "gw_trace X ls w"
  shows "Stray \<in> set ls \<and> w = None \<or>
    gw_inv w \<and> gw_s1 sgw_s1_ok w \<and> (Handover \<notin> set ls \<longrightarrow> gw_s1 s1_equal w)"
  using assms(2)
proof (induction rule: gw_trace.induct)
  case (start p1 p2)
  then show ?case
    by (simp add: gw_start_inv)
next
  case (step ls w l w')
  then show ?case
    using gw_step_None gw_inv_step [OF assms(1) step(2)] by (cases w) auto
qed

lemma gw_reachable_inv:
  assumes "pgw_addr X = Inr a" and "gw_reachable X w" and "w \<noteq> None"
  shows "gw_inv w"
  using gw_trace_inv [OF assms(1)] assms(2,3) by (auto simp: gw_reachable_def)

end
