(* ===== verification/Epc_Bearer.thy ===== *)
theory Epc_Bearer
  imports Epc_Gateway
begin

section \<open>User plane\<close>

text \<open>
  An IP packet through the whole path: uplink from the tunnel device through the traffic monitor,
  the SGW and the PGW to the sink, downlink from the SGi socket back to the tunnel device. GTP
  headers are added and removed on the way and the packet itself is unchanged.
\<close>

lemma ip_addr_view:
  assumes "20 \<le> length m" and "length m \<le> 1024"
  shows "get_src_ip_addr X (view g s d [] m) = Inr (inet_ntop X (take 4 (drop 12 m)))"
    and "get_dst_ip_addr X (view g s d [] m) = Inr (inet_ntop X (take 4 (drop 16 m)))"
proof -
  have "buf_read (data (view g s d [] m)) 0 20 = Inr (take 20 m)"
    using assms by (simp add: buf_read_def view_def)
  moreover have "take 4 (drop k (take 20 m)) = take 4 (drop k m)" if "k \<le> 16" for k
    using that by (simp add: drop_take min_def)
  ultimately show "get_src_ip_addr X (view g s d [] m) = Inr (inet_ntop X (take 4 (drop 12 m)))"
    and "get_dst_ip_addr X (view g s d [] m) = Inr (inet_ntop X (take 4 (drop 16 m)))"
    using assms
    by (simp_all add: get_src_ip_addr_def get_dst_ip_addr_def IP_HDR_LEN_def allocate_ip_hdr_mem_def drop_take)
qed

lemma tm_uplink:
  assumes "20 \<le> length m" and "length m \<le> 1008" and "inet_ntop X (take 4 (drop 12 m)) = ip"
    and "get_uplink_info ip tm = Some (t, sip, port)" and "set_inet_sock_addr X sip port = Inr a"
  shows "\<exists>h. tm_handle_uplink_udata X fresh (Rx m) tm = Inr [Forward a (gtp_bytes h @ m)] \<and>
    msg_type_g h = 1 \<and> teid h = t"
proof -
  obtain g s d where f: "fresh = (g, s, d)"
    by (cases fresh)
  have "tun_rcv (Rx m) (view g s d [] []) = Inr (view g s d [] m)"
    using assms(2) by (simp add: tun_rcv_def Let_def buf_write_zeros view_with_data [of m _ _ _ "[]" "[]"])
  then show ?thesis
    using assms ip_addr_view(1) [of m X g s d]
    by (intro exI [of _ "gtp_with 1 1 (of_nat (length m)) t g"])
      (simp add: tm_handle_uplink_udata_def f local_packet_def set_server_def)
qed

lemma tm_downlink:
  "length m \<le> 1008 \<Longrightarrow> tm_handle_downlink_udata fresh (Rx (gtp_bytes h @ m)) = Inr m"
  by (cases fresh) (simp add: tm_handle_downlink_udata_def local_packet_def tun_snd_def)

lemma pgw_uplink_turn:
  assumes "msg_type_g h = 2" and "length m \<le> 1008" and "set_inet_sock_addr X g_sink_ip_addr g_sink_port = Inr a"
  shows "pgw_s5_turn X (src, Rx (gtp_bytes h @ m)) (pkt, p) =
    Inr ([Forward a m], view h (s1ap_hdr pkt) (diameter_hdr pkt) (gtp_bytes h) m, p)"
  using assms by (simp add: pgw_s5_turn_def pgw_handle_uplink_udata_def set_server_def)

lemma pgw_downlink_turn:
  assumes "20 \<le> length m" and "length m \<le> 1008" and "inet_ntop X (take 4 (drop 16 m)) = ip"
    and "sgi_id p ip = Some imsi" and "imsi \<noteq> 0" and "ue_ctx_p p imsi = Some c"
    and "set_inet_sock_addr X g_sgw_s5_ip_addr g_sgw_s5_port = Inr a"
  shows "\<exists>h. pgw_sgi_turn X (src, Rx m) (pkt, p) =
      Inr ([Forward a (gtp_bytes h @ m)], view (gtp_hdr pkt) (s1ap_hdr pkt) (diameter_hdr pkt) [] m, p) \<and>
    msg_type_g h = 3 \<and> teid h = s5_uteid_dl_p c"
  using assms ip_addr_view(2) [of m X]
  by (intro exI [of _ "gtp_with 1 3 (of_nat (length m)) (s5_uteid_dl_p c) (gtp_hdr pkt)"])
    (simp add: pgw_sgi_turn_def pgw_handle_downlink_udata_def pgw_get_imsi_def pgw_get_downlink_info_def
      set_server_def)

lemma pgw_downlink_dropped:
  assumes "20 \<le> length m" and "length m \<le> 1008"
    and "sgi_id p (inet_ntop X (take 4 (drop 16 m))) = None"
  shows "pgw_sgi_turn X (src, Rx m) (pkt, p) =
    Inr ([], view (gtp_hdr pkt) (s1ap_hdr pkt) (diameter_hdr pkt) [] m, p)"
  using assms ip_addr_view(2) [of m X]
  by (simp add: pgw_sgi_turn_def pgw_handle_downlink_udata_def pgw_get_imsi_def)

subsection \<open>The paths\<close>

lemma uplink_path:
  assumes m: "20 \<le> length m" "length m \<le> 1008" "inet_ntop X (take 4 (drop 12 m)) = ip"
    and tm: "get_uplink_info ip tm = Some (t, sip, port)" "set_inet_sock_addr X sip port = Inr a1"
    and s: "sgw_inv s" "s11_id s t = Some imsi"
    and a: "pgw_addr X = Inr a2" "set_inet_sock_addr X g_sink_ip_addr g_sink_port = Inr a3"
  shows "\<exists>h1 h2 q1 q2. tm_handle_uplink_udata X fresh (Rx m) tm = Inr [Forward a1 (gtp_bytes h1 @ m)] \<and>
    sgw_s1_turn X (src1, Rx (gtp_bytes h1 @ m)) (pkt1, s) = Inr ([Forward a2 (gtp_bytes h2 @ m)], q1, s) \<and>
    pgw_s5_turn X (src2, Rx (gtp_bytes h2 @ m)) (pkt2, p) = Inr ([Forward a3 m], q2, p)"
proof -
  obtain h1 where 1: "tm_handle_uplink_udata X fresh (Rx m) tm = Inr [Forward a1 (gtp_bytes h1 @ m)]"
    "msg_type_g h1 = 1" "teid h1 = t"
    using tm_uplink [OF m tm] by blast
  obtain c where c: "imsi \<noteq> 0" "ue_ctx_s s imsi = Some c" "sgw_ctx_ok t c"
    using sgw_invE [OF s] by blast
  let ?h2 = "gtp_with 1 2 (of_nat (length m)) (s5_uteid_ul_s c) h1"
  have "s1_id s (teid h1) = Some imsi"
    using s 1(3) by (simp add: sgw_inv_def sgw_core_def)
  then have 2: "\<exists>q1. sgw_s1_turn X (src1, Rx (gtp_bytes h1 @ m)) (pkt1, s) = Inr ([Forward a2 (gtp_bytes ?h2 @ m)], q1, s)"
    using sgw_uplink_turn [OF 1(2) _ c(1,2) _ m(2)] a(1) c(3) by (simp add: pgw_addr_def sgw_ctx_ok_def)
  have 3: "\<exists>q2. pgw_s5_turn X (src2, Rx (gtp_bytes ?h2 @ m)) (pkt2, p) = Inr ([Forward a3 m], q2, p)"
    using pgw_uplink_turn [of ?h2 m X a3] m(2) a(2) by simp
  show ?thesis
    using 1(1) 2 3 by blast
qed

lemma downlink_path:
  assumes m: "20 \<le> length m" "length m \<le> 1008" "inet_ntop X (take 4 (drop 16 m)) = ip"
    and p: "sgi_id p ip = Some imsi" "imsi \<noteq> 0" "ue_ctx_p p imsi = Some cp" "s5_uteid_dl_p cp = t"
    and s: "s5_id s t = Some imsi" "ue_ctx_s s imsi = Some cs" "enodeb_port_s cs \<noteq> 0"
    and a: "set_inet_sock_addr X g_sgw_s5_ip_addr g_sgw_s5_port = Inr a1"
      "set_inet_sock_addr X (enodeb_ip_addr_s cs) (enodeb_port_s cs) = Inr a2"
  shows "\<exists>h1 h2 q1 q2. pgw_sgi_turn X (src1, Rx m) (pkt1, p) = Inr ([Forward a1 (gtp_bytes h1 @ m)], q1, p) \<and>
    sgw_s5_turn X (src2, Rx (gtp_bytes h1 @ m)) (pkt2, s) = Inr ([Forward a2 (gtp_bytes h2 @ m)], q2, s) \<and>
    teid h2 = s1_uteid_dl_s cs \<and> tm_handle_downlink_udata fresh (Rx (gtp_bytes h2 @ m)) = Inr m"
proof -
  obtain h1 q1 where 1: "pgw_sgi_turn X (src1, Rx m) (pkt1, p) = Inr ([Forward a1 (gtp_bytes h1 @ m)], q1, p)"
    "msg_type_g h1 = 3" "teid h1 = t"
    using pgw_downlink_turn [OF m p(1-3) a(1)] p(4) by blast
  let ?h2 = "gtp_with 1 2 (of_nat (length m)) (s1_uteid_dl_s cs) h1"
  have "\<exists>q2. sgw_s5_turn X (src2, Rx (gtp_bytes h1 @ m)) (pkt2, s) = Inr ([Forward a2 (gtp_bytes ?h2 @ m)], q2, s)"
    using sgw_downlink_turn [OF 1(2) _ p(2) s(2,3) a(2) m(2)] s(1) 1(3) by simp
  moreover have "tm_handle_downlink_udata fresh (Rx (gtp_bytes ?h2 @ m)) = Inr m"
    using m(2) by (rule tm_downlink)
  moreover have "teid ?h2 = s1_uteid_dl_s cs"
    by simp
  ultimately show ?thesis
    using 1(1) by blast
qed

text \<open>A session that the MME creates and whose bearer it modifies carries downlink data.\<close>

lemma downlink_after_setup:
  assumes live: "epc_live X a w" and i: "imsi \<noteq> 0" "short_ip (epc_ip imsi w)" "one_teid (epc_sess w) t imsi"
    and h: "msg_type_g h1 = 1" "msg_type_g h2 = 2" "teid h2 = t"
    and enb: "short_ip enb_ip" "0 < enb_port" "enb_port < 2 ^ 31" "set_inet_sock_addr X enb_ip enb_port = Inr a2"
    and 1: "epc_sgw X s5 s11 (create_req11 h1 t imsi b g_pgw_s5_ip_addr g_pgw_s5_port apn tai) w = (r1, w1)"
    and 2: "epc_sgw X s5 s11 (modify_req h2 b s1_dl enb_ip enb_port) w1 = (r2, w2)"
    and m: "20 \<le> length m" "length m \<le> 1008" "inet_ntop X (take 4 (drop 16 m)) = epc_ip imsi w"
    and a1: "set_inet_sock_addr X g_sgw_s5_ip_addr g_sgw_s5_port = Inr a1"
  shows "\<exists>db q s q' p h3 h4 p1 p2. w2 = (db, Some (q, s, Some (q', p))) \<and>
    pgw_sgi_turn X (src1, Rx m) (pkt1, p) = Inr ([Forward a1 (gtp_bytes h3 @ m)], p1, p) \<and>
    sgw_s5_turn X (src2, Rx (gtp_bytes h3 @ m)) (pkt2, s) = Inr ([Forward a2 (gtp_bytes h4 @ m)], p2, s) \<and>
    teid h4 = s1_dl \<and> tm_handle_downlink_udata fresh (Rx (gtp_bytes h4 @ m)) = Inr m"
proof -
  obtain db pkt s pkt' p where w: "w = (db, Some (pkt, s, Some (pkt', p)))" and inv: "sgw_inv s" "pgw_inv p"
    and a: "pgw_addr X = Inr a"
    using live by (cases w) (auto simp: epc_live_def sgw_live_def pgw_live_def)
  have ip: "epc_ip imsi w = ip_of p imsi"
    by (simp add: w epc_ip_def sgw_ip_def pgw_ip_def)
  let ?p = "pgw_created t imsi b t apn tai p"
  let ?s1 = "sgw_created t imsi b g_pgw_s5_ip_addr g_pgw_s5_port apn tai t t s"
  let ?s2 = "sgw_modified imsi s1_dl enb_ip enb_port ?s1"
  have S: "epc_sgw X s5 s11 req (d, st) = (case gw_send X s5 s11 req st of (r, st') \<Rightarrow> (r, d, st'))" for req d st
    by (simp add: epc_sgw_def on_snd_def gw_send_def)
  obtain q q' where w1: "w1 = (db, Some (q, ?s1, Some (q', ?p)))"
    using gw_create_eq [OF h(1) a, of p imsi s5 s11 t b apn tai pkt s pkt'] 1 i(2) ip by (auto simp: w S)
  have t: "s11_id ?s1 (teid h2) = Some imsi" and "- (2 ^ 31) \<le> enb_port"
    using enb(2) by (simp_all add: h sgw_created_def)
  then obtain q3 where w2: "w2 = (db, Some (q3, ?s2, Some (q', ?p)))"
    using gw_modify_eq [OF h(2) t i(1) enb(1) _ enb(3), of X s5 s11 b s1_dl q "Some (q', ?p)"] 2
    by (auto simp: w1 S)
  have sgw2: "s5_id ?s2 t = Some imsi" "\<exists>c. ue_ctx_s ?s2 imsi = Some c \<and> enodeb_port_s c = enb_port \<and>
      enodeb_ip_addr_s c = enb_ip \<and> s1_uteid_dl_s c = s1_dl"
    by (simp_all add: sgw_modified_def sgw_created_def upd_sgw_ue_def)
  have pgw2: "sgi_id ?p (ip_of p imsi) = Some imsi" "\<exists>c. ue_ctx_p ?p imsi = Some c \<and> s5_uteid_dl_p c = t"
    by (simp_all add: pgw_created_def pgw_ue_init_def)
  from sgw2 pgw2 obtain cs cp where c: "ue_ctx_s ?s2 imsi = Some cs" "enodeb_port_s cs = enb_port"
      "enodeb_ip_addr_s cs = enb_ip" "s1_uteid_dl_s cs = s1_dl" "ue_ctx_p ?p imsi = Some cp" "s5_uteid_dl_p cp = t"
    by blast
  have a2: "set_inet_sock_addr X (enodeb_ip_addr_s cs) (enodeb_port_s cs) = Inr a2" "enodeb_port_s cs \<noteq> 0"
    using c enb by simp_all
  show ?thesis
    using downlink_path [OF m(1,2) m(3) [unfolded ip] pgw2(1) i(1) c(5,6) sgw2(1) c(1) a2(2) a1 a2(1),
        of src1 pkt1 src2 pkt2 fresh] c(4)
    unfolding w2 by blast
qed

subsection \<open>Isolation\<close>

text \<open>
  Whatever the gateways did before, a packet for the address of subscriber \<open>i\<close> enters only that
  subscriber's tunnel, and is dropped when the subscriber has no session.
\<close>

lemma downlink_isolated:
  assumes a: "pgw_addr X = Inr a" and r: "gw_reachable X (Some (pkt, s, Some (pkt', p)))" and i: "i < 10000"
    and m: "20 \<le> length m" "length m \<le> 1008" "inet_ntop X (take 4 (drop 16 m)) = plan_ip i"
    and a1: "set_inet_sock_addr X g_sgw_s5_ip_addr g_sgw_s5_port = Inr a1"
  shows "\<exists>os q. pgw_sgi_turn X (src, Rx m) (pkt1, p) = Inr (os, q, p) \<and>
    (if s11_id s (of_nat i) = None then os = []
     else \<exists>h. os = [Forward a1 (gtp_bytes h @ m)] \<and> msg_type_g h = 3 \<and> teid h = of_nat i \<and>
            s5_id s (teid h) = Some (plan_imsi i))"
proof -
  have inv: "sgw_core s" "pgw_inv p" "s11_id s = s5_id_p p"
      "sgi_id p (plan_ip i) = (if s11_id s (of_nat i) = None then None else Some (plan_imsi i))"
      "\<forall>imsi. s11_id s (of_nat i) = Some imsi \<longrightarrow> imsi = plan_imsi i"
    using gw_reachable_inv [OF a r] i planned_endpoint [of i] by (auto simp: gw_inv_def)
  show ?thesis
  proof (cases "s11_id s (of_nat i)")
    case None
    then show ?thesis
      using pgw_downlink_dropped [OF m(1,2), of p X src pkt1] inv(4) m(3) by auto
  next
    case (Some imsi)
    then have s: "s11_id s (of_nat i) = Some (plan_imsi i)"
      using inv(5) by simp
    then obtain c where c: "plan_imsi i \<noteq> 0" "ue_ctx_p p (plan_imsi i) = Some c" "s5_uteid_dl_p c = of_nat i"
      using inv(2,3) unfolding pgw_inv_def by fastforce
    have "sgi_id p (plan_ip i) = Some (plan_imsi i)" and "s5_id s (of_nat i) = Some (plan_imsi i)"
      using s inv(1,4) by (simp_all add: sgw_core_def)
    with pgw_downlink_turn [OF m _ c(1,2) a1, of src pkt1] c(3) s show ?thesis
      by force
  qed
qed

end
