(* ===== verification/Epc_Samples.thy ===== *)
theory Epc_Samples
  imports Epc_Bearer
begin

section \<open>Samples for the witnesses\<close>

text \<open>
  A database with one subscriber, headers and packets with arbitrary content. Witnesses use them
  together with \<open>sample_lib\<close>.
\<close>

definition sample_db :: "u64 \<Rightarrow> u64 \<Rightarrow> unit mysql" where
  "sample_db key rand_num query db = Some ([[to_string (unat key), to_string (unat rand_num)]], db)"

lemma sample_db_ok: "hss_db_ok (sample_db key rand_num) imsi key rand_num ()"
  by (simp add: hss_db_ok_def sample_db_def)

definition sample_gtp :: "u8 \<Rightarrow> u32 \<Rightarrow> gtp" where
  "sample_gtp t i =
     \<lparr>flags_g = 0, pad1_g = 0, msg_len_g = 0, field_1 = 0, field_2 = 0, field_3 = 0, msg_type_g = t,
      pad2_g = 0, teid = i\<rparr>"

definition sample_s1ap :: "u8 \<Rightarrow> u32 \<Rightarrow> s1ap" where
  "sample_s1ap t i =
     \<lparr>msg_len_s = 0, msg_type_s = t, pad_s = 0, enodeb_s1ap_ue_id = 7, mme_s1ap_ue_id = i\<rparr>"

definition sample_diameter :: "u8 \<Rightarrow> diameter" where
  "sample_diameter t = \<lparr>msg_len_d = 0, msg_type_d = t, pad_d = 0\<rparr>"

definition sample_fresh :: fresh_hdrs where
  "sample_fresh = (sample_gtp 0 0, sample_s1ap 0 0, sample_diameter 0)"

definition sample_pkt :: packet where
  "sample_pkt = view (sample_gtp 0 0) (sample_s1ap 0 0) (sample_diameter 0) [] []"

definition sample_junk :: ran_junk where
  "sample_junk = ((False, 0, 0, 0, 0), 0, 0, False, 0)"

lemma sample_fields [simp]:
  "msg_type_g (sample_gtp t i) = t" "teid (sample_gtp t i) = i"
  "msg_type_s (sample_s1ap t i) = t" "mme_s1ap_ue_id (sample_s1ap t i) = i"
  "msg_type_d (sample_diameter t) = t"
  by (simp_all add: sample_gtp_def sample_s1ap_def sample_diameter_def)

end
