(* ===== verification/Epc2_Config.thy ===== *)
theory Epc2_Config
  imports Epc_Config
begin

section \<open>Version 2.0: build switches, addresses and ports\<close>

text \<open>
  Version 2.0 replicates the MME, the SGW and the PGW behind load balancers. Three macros of
  \<open>utils.h\<close> choose at build time how the replicas of a component share the state of a UE:
  \<open>UE_BINDING\<close> (through a data store after every message, after every session, or not at all),
  \<open>NOCACHE\<close> (whether the data plane reads the store for every packet) and \<open>REP\<close> (whether a replica
  sends copies to two others). They are the fields of \<open>build\<close>, an argument of the definitions that
  read them; \<open>build_default\<close> is what the file says.
\<close>

datatype ue_binding = STATE_LESS | SESSION_BASED | UE_BASED

record build =
  UE_BINDING :: ue_binding
  NOCACHE :: bool
  REP :: bool

definition build_default :: build where
  "build_default = \<lparr>UE_BINDING = SESSION_BASED, NOCACHE = False, REP = False\<rparr>"

definition INIT_VAL :: u64 where
  "INIT_VAL = 100000000"

text \<open>The addresses of \<open>utils.h\<close> and the names \<open>mme.cpp\<close>, \<open>sgw.cpp\<close> and \<open>pgw.cpp\<close> give them.\<close>

definition RAN_addr :: string where
  "RAN_addr = ''10.129.26.170''"

definition SGW_addr :: string where
  "SGW_addr = ''10.129.28.191''"

definition PGW1_addr :: string where
  "PGW1_addr = ''10.129.26.148''"

definition SGWLB_addr :: string where
  "SGWLB_addr = ''10.129.26.202''"

definition PGWLB_addr :: string where
  "PGWLB_addr = ''10.129.26.201''"

definition SINK_addr :: string where
  "SINK_addr = ''10.129.28.36''"

definition v2_g_trafmon_ip_addr :: string where
  "v2_g_trafmon_ip_addr = RAN_addr"

definition v2_g_sgw_s1_ip_addr :: string where
  "v2_g_sgw_s1_ip_addr = SGWLB_addr"

definition v2_g_pgw_s5_ip_addr :: string where
  "v2_g_pgw_s5_ip_addr = PGWLB_addr"

definition v2_g_sink_ip_addr :: string where
  "v2_g_sink_ip_addr = SINK_addr"

end
