(* ===== verification/Epc2_Store.thy ===== *)
theory Epc2_Store
  imports Epc_Prelude
begin

section \<open>The interface of the data store\<close>

text \<open>
  \<open>KVStore<Key, Val>\<close> of \<open>KVStoreHeader.h\<close>: a handle on one table of a data store outside the
  process. Each call gives a \<open>KVData\<close>: the error number \<open>ierr\<close> (0 when it succeeded) and, for
  \<open>get\<close>, the value; after an error the value is whatever a new object holds. \<open>'w\<close> is the state of
  the world outside, in which the store lies; a client that loses its connection exits.

  The locale is what the packet core relies on: in a world where the store works, the table is a
  map. A value goes through the store as a text; \<open>fits\<close> are the values whose text it can carry.
\<close>

text \<open>\<open>vector\<close>'s index operator does not check.\<close>

definition in_vector :: "nat \<Rightarrow> nat \<Rightarrow> unit res" where
  "in_vector i sz = (if i < sz then Inr () else Inl (Undefined ''vector: index out of range''))"

record 'v kvdata =
  ierr :: int
  kv_value :: 'v

record ('k, 'v, 'w) kvstore =
  ds_get :: "'k \<Rightarrow> 'w \<Rightarrow> ('v kvdata \<times> 'w) res"
  ds_put :: "'k \<Rightarrow> 'v \<Rightarrow> 'w \<Rightarrow> (int \<times> 'w) res"
  ds_del :: "'k \<Rightarrow> 'w \<Rightarrow> (int \<times> 'w) res"

locale kv_table =
  fixes S :: "('k, 'v, 'w) kvstore"
    and live :: "'w \<Rightarrow> bool"
    and tbl :: "'w \<Rightarrow> 'k \<rightharpoonup> 'v"
    and fits :: "'v \<Rightarrow> bool"
  assumes get_hit: "live w \<Longrightarrow> tbl w k = Some v \<Longrightarrow>
      \<exists>w'. ds_get S k w = Inr (\<lparr>ierr = 0, kv_value = v\<rparr>, w') \<and> live w' \<and> tbl w' = tbl w"
    and get_miss: "live w \<Longrightarrow> tbl w k = None \<Longrightarrow>
      \<exists>w' v. ds_get S k w = Inr (\<lparr>ierr = -1, kv_value = v\<rparr>, w') \<and> live w' \<and> tbl w' = tbl w"
    and put: "live w \<Longrightarrow> fits v \<Longrightarrow>
      \<exists>w'. ds_put S k v w = Inr (0, w') \<and> live w' \<and> tbl w' = (tbl w)(k \<mapsto> v)"
    and del: "live w \<Longrightarrow>
      \<exists>w'. ds_del S k w = Inr (0, w') \<and> live w' \<and> tbl w' = (tbl w)(k := None)"
begin

lemma get_after_put:
  assumes "live w" and "fits v"
  shows "\<exists>w'. bindE (ds_put S k v w) (\<lambda>(_, w). ds_get S k w) = Inr (\<lparr>ierr = 0, kv_value = v\<rparr>, w')"
proof -
  obtain w1 where p: "ds_put S k v w = Inr (0, w1)" "live w1" "tbl w1 = (tbl w)(k \<mapsto> v)"
    using put [OF assms] by blast
  then show ?thesis
    using get_hit [of w1 k v] by auto
qed

lemma get_after_del:
  assumes "live w"
  shows "\<exists>w' d. bindE (ds_del S k w) (\<lambda>(_, w). ds_get S k w) = Inr (\<lparr>ierr = -1, kv_value = d\<rparr>, w')"
proof -
  obtain w1 where p: "ds_del S k w = Inr (0, w1)" "live w1" "tbl w1 = (tbl w)(k := None)"
    using del [OF assms] by blast
  then show ?thesis
    using get_miss [of w1 k] by auto
qed

end

section \<open>Requests of several operations\<close>

text \<open>
  \<open>KVRequest\<close>: operations on any tables are queued and executed together; the results are the error
  numbers, in the order of the queue. \<open>kv_tables\<close> is the contract of the handles on a set of tables and
  one \<open>KVRequest\<close> in the same world, for the keys in \<open>keys\<close>.
\<close>

datatype ('k, 'v) kv_req =
    Put_req string 'k 'v
  | Del_req string 'k

type_synonym ('k, 'v, 'w) kvrequest = "('k, 'v) kv_req list \<Rightarrow> 'w \<Rightarrow> (int list \<times> 'w) res"

fun put_all :: "(string \<times> 'k \<times> 'v) list \<Rightarrow> (string \<Rightarrow> 'k \<rightharpoonup> 'v) \<Rightarrow> string \<Rightarrow> 'k \<rightharpoonup> 'v" where
  "put_all [] T = T"
| "put_all ((t, k, v) # ps) T = put_all ps (T(t := (T t)(k \<mapsto> v)))"

fun del_all :: "(string \<times> 'k) list \<Rightarrow> (string \<Rightarrow> 'k \<rightharpoonup> 'v) \<Rightarrow> string \<Rightarrow> 'k \<rightharpoonup> 'v" where
  "del_all [] T = T"
| "del_all ((t, k) # ps) T = del_all ps (T(t := (T t)(k := None)))"

locale kv_tables =
  fixes H :: "string \<Rightarrow> ('k, 'v, 'w) kvstore"
    and R :: "('k, 'v, 'w) kvrequest"
    and live :: "'w \<Rightarrow> bool"
    and tbl :: "'w \<Rightarrow> string \<Rightarrow> 'k \<rightharpoonup> 'v"
    and fits :: "'v \<Rightarrow> bool"
    and names :: "string set"
    and keys :: "'k set"
  assumes get_hit: "live w \<Longrightarrow> t \<in> names \<Longrightarrow> k \<in> keys \<Longrightarrow> tbl w t k = Some v \<Longrightarrow>
      \<exists>w'. ds_get (H t) k w = Inr (\<lparr>ierr = 0, kv_value = v\<rparr>, w') \<and> live w' \<and> tbl w' = tbl w"
    and get_miss: "live w \<Longrightarrow> t \<in> names \<Longrightarrow> k \<in> keys \<Longrightarrow> tbl w t k = None \<Longrightarrow>
      \<exists>w' v. ds_get (H t) k w = Inr (\<lparr>ierr = -1, kv_value = v\<rparr>, w') \<and> live w' \<and> tbl w' = tbl w"
    and execute_puts: "live w \<Longrightarrow> \<forall>(t, k, v) \<in> set ps. t \<in> names \<and> k \<in> keys \<and> fits v \<Longrightarrow> length ps \<le> 31 \<Longrightarrow>
      \<exists>w'. R (map (\<lambda>(t, k, v). Put_req t k v) ps) w = Inr (replicate (length ps) 0, w') \<and> live w' \<and>
        (\<forall>t \<in> names. tbl w' t = put_all ps (tbl w) t)"
    and execute_dels: "live w \<Longrightarrow> \<forall>(t, k) \<in> set ds. t \<in> names \<and> k \<in> keys \<Longrightarrow> length ds \<le> 31 \<Longrightarrow>
      \<exists>w'. R (map (\<lambda>(t, k). Del_req t k) ds) w = Inr (replicate (length ds) 0, w') \<and> live w' \<and>
        (\<forall>t \<in> names. tbl w' t = del_all ds (tbl w) t)"

end
