(* ===== verification/Epc2_Sgw.thy ===== *)
theory Epc2_Sgw
  imports Epc_Sgw_Server Epc2_Config Epc2_Store
begin

section \<open>SGW of version 2.0 (sgw.h, sgw.cpp)\<close>

text \<open>
  Tables and UE context are those of version 1.0 without the handover table, so the record \<open>sgw\<close> and the
  operations on it serve again. New are the data store with three tables of states, one per identifier
  of a UE, and the copies sent to two other replicas. \<open>pull_data_context\<close> files whatever \<open>get\<close> returned, also
  after an error; the value is then the one of a new \<open>Sgw_state\<close>, whose \<open>imsi\<close> is not initialised.

  A thread uses the handles with its own number. The handles exist for as many workers as there are S11
  threads, the clients of the replicas are connected for as many as there are S1 threads.
\<close>

subsection \<open>State and environment\<close>

record sgw_state =
  Sgw_state_uect :: sgw_ue
  imsi_of_s :: u64

record 'w sgw2_env =
  build_s :: build
  s11_threads :: nat
  s1_threads :: nat
  s5_threads :: nat
  ds_table_s :: "string \<Rightarrow> (u32, sgw_state, 'w) kvstore"
  ds_all_s :: "(u32, sgw_state, 'w) kvrequest"
  serial_s :: "sgw_state \<Rightarrow> string"
  parse_s :: "string \<Rightarrow> sgw_state res"

definition SGW11 :: string where
  "SGW11 = ''dsgw_s11_id''"

definition SGW1 :: string where
  "SGW1 = ''dsgw_s1_id''"

definition SGW5 :: string where
  "SGW5 = ''dsgw_s5_id''"

text \<open>The address of the server is set when the client is connected.\<close>

definition connected :: "nat \<Rightarrow> nat \<Rightarrow> unit res" where
  "connected i n = (if i < n then Inr () else Inl (Undefined ''UdpClient: uninitialised server address''))"

definition put_sgw_ue :: "u64 \<Rightarrow> sgw_ue \<Rightarrow> sgw \<Rightarrow> sgw" where
  "put_sgw_ue imsi c s = s\<lparr>ue_ctx_s := (ue_ctx_s s)(imsi \<mapsto> c)\<rparr>"

subsection \<open>The data store\<close>

definition sgw2_push_context :: "'w sgw2_env \<Rightarrow> u64 \<Rightarrow> sgw_ue \<Rightarrow> nat \<Rightarrow> 'w \<Rightarrow> 'w res" where
  "sgw2_push_context E imsi c worker_id w =
     bindE (in_vector worker_id (s11_threads E)) (\<lambda>_.
     let st = \<lparr>Sgw_state_uect = c, imsi_of_s = imsi\<rparr> in
     bindE (ds_all_s E
       [Put_req SGW11 (s11_cteid_sgw_s c) st, Put_req SGW1 (s1_uteid_ul_s c) st, Put_req SGW5 (s5_uteid_dl_s c) st] w)
       (\<lambda>(_, w). Inr w))"

definition sgw2_erase_context :: "'w sgw2_env \<Rightarrow> u32 \<Rightarrow> u32 \<Rightarrow> u32 \<Rightarrow> nat \<Rightarrow> 'w \<Rightarrow> 'w res" where
  "sgw2_erase_context E s11 s1 s5 worker_id w =
     bindE (in_vector worker_id (s11_threads E)) (\<lambda>_.
     bindE (ds_all_s E [Del_req SGW11 s11, Del_req SGW1 s1, Del_req SGW5 s5] w) (\<lambda>(_, w). Inr w))"

text \<open>\<open>itf_id_no\<close> is 11, 1 or 5 in all calls.\<close>

definition sgw2_pull_data_context ::
  "'w sgw2_env \<Rightarrow> int \<Rightarrow> packet \<Rightarrow> nat \<Rightarrow> sgw \<Rightarrow> 'w \<Rightarrow> (sgw \<times> 'w) res" where
  "sgw2_pull_data_context E itf_id_no pkt worker_id s w =
     (let t = teid (gtp_hdr pkt);
          known = (if itf_id_no = 11 then s11_id s t \<noteq> None
                   else if itf_id_no = 1 then s1_id s t \<noteq> None else s5_id s t \<noteq> None);
          table = (if itf_id_no = 11 then SGW11 else if itf_id_no = 1 then SGW1 else SGW5)
      in if \<not> NOCACHE (build_s E) \<and> known then Inr (s, w)
         else
           bindE (in_vector worker_id (s11_threads E)) (\<lambda>_.
           bindE (ds_get (ds_table_s E table) t w) (\<lambda>(rs, w).
           let imsi = imsi_of_s (kv_value rs);
               c = Sgw_state_uect (kv_value rs);
               s = put_sgw_ue imsi c s;
               s = (if itf_id_no = 1 then s\<lparr>s1_id := (s1_id s)(s1_uteid_ul_s c \<mapsto> imsi)\<rparr> else s);
               s = (if itf_id_no = 5 then s\<lparr>s5_id := (s5_id s)(s5_uteid_dl_s c \<mapsto> imsi)\<rparr> else s);
               s = (if itf_id_no = 11 then s\<lparr>s11_id := (s11_id s)(s11_cteid_sgw_s c \<mapsto> imsi)\<rparr> else s)
           in Inr (s, w))))"

subsection \<open>Replication\<close>

definition g_sgw_rep_port :: int where
  "g_sgw_rep_port = 9501"

definition g_sgw_rep1_ip :: string where
  "g_sgw_rep1_ip = ''10.129.28.224''"

definition g_sgw_rep2_ip :: string where
  "g_sgw_rep2_ip = ''10.129.26.140''"

definition sgw2_send_replication ::
  "ext_lib \<Rightarrow> 'w sgw2_env \<Rightarrow> fresh_hdrs \<Rightarrow> int \<Rightarrow> sgw_state \<Rightarrow> u32 \<Rightarrow> u32 \<Rightarrow> u32 \<Rightarrow> u64 \<Rightarrow> nat \<Rightarrow> udp_out list res" where
  "sgw2_send_replication X E fresh repType st s11 s1 s5 imsi worker_id =
     bindE (local_packet fresh) (\<lambda>pkt.
     bindE (append_int repType (clear_pkt pkt)) (\<lambda>pkt.
     bindE (append_u32 s11 pkt) (\<lambda>pkt.
     bindE (append_u32 s1 pkt) (\<lambda>pkt.
     bindE (append_u32 s5 pkt) (\<lambda>pkt.
     bindE (if repType \<noteq> 0 then append_string (serial_s E st) pkt else append_u64 imsi pkt) (\<lambda>pkt.
     bindE (in_vector worker_id (s5_threads E)) (\<lambda>_.
     bindE (connected worker_id (s1_threads E)) (\<lambda>_.
     bindE (set_inet_sock_addr X g_sgw_rep1_ip g_sgw_rep_port) (\<lambda>rep1.
     bindE (set_inet_sock_addr X g_sgw_rep2_ip g_sgw_rep_port) (\<lambda>rep2.
     bindE (udp_snd pkt) (\<lambda>m.
     Inr [Forward rep1 m, Forward rep2 m])))))))))))"

definition sgw2_receive_replication :: "'w sgw2_env \<Rightarrow> packet \<Rightarrow> sgw \<Rightarrow> sgw res" where
  "sgw2_receive_replication E pkt s =
     bindE (extract_int pkt) (\<lambda>(repType, pkt).
     bindE (extract_u32 pkt) (\<lambda>(s11, pkt).
     bindE (extract_u32 pkt) (\<lambda>(s1, pkt).
     bindE (extract_u32 pkt) (\<lambda>(s5, pkt).
     if repType \<noteq> 0 then
       bindE (extract_string pkt) (\<lambda>(boosted, pkt).
       bindE (parse_s E boosted) (\<lambda>st.
       let imsi = imsi_of_s st;
           s = put_sgw_ue imsi (Sgw_state_uect st) s
       in Inr (s\<lparr>s1_id := (s1_id s)(s1 \<mapsto> imsi), s5_id := (s5_id s)(s5 \<mapsto> imsi), s11_id := (s11_id s)(s11 \<mapsto> imsi)\<rparr>)))
     else
       bindE (extract_u64 pkt) (\<lambda>(imsi, pkt).
       bindE (sgw_rem_itfid 11 s11 s) (\<lambda>s.
       bindE (sgw_rem_itfid 1 s1 s) (\<lambda>s.
       bindE (sgw_rem_itfid 5 s5 s) (\<lambda>s.
       Inr (sgw_rem_uectx imsi s)))))))))"

subsection \<open>Session management\<close>

text \<open>A check of the endpoint id against the IMSI only prints.\<close>

definition sgw2_handle_create_session ::
  "ext_lib \<Rightarrow> 'w sgw2_env \<Rightarrow> 'w net \<Rightarrow> sock_addr \<Rightarrow> packet \<Rightarrow> nat \<Rightarrow> sgw \<Rightarrow> 'w \<Rightarrow> (udp_out list \<times> sgw \<times> 'w) res" where
  "sgw2_handle_create_session X E pgw src pkt worker_id s w =
     bindE (extract_u32 pkt) (\<lambda>(s11_mme, pkt).
     bindE (extract_u64 pkt) (\<lambda>(imsi, pkt).
     bindE (extract_u8 pkt) (\<lambda>(eps_bearer_id, pkt).
     bindE (extract_string pkt) (\<lambda>(pgw_ip, pkt).
     bindE (extract_int pkt) (\<lambda>(pgw_port, pkt).
     bindE (extract_u64 pkt) (\<lambda>(apn_in_use, pkt).
     bindE (extract_u64 pkt) (\<lambda>(tai, pkt).
     let s1_ul = s11_mme; s5_dl = s11_mme; s11_sgw = s11_mme; s5_cdl = s11_mme in
     bindE (sgw_update_itfid 11 s11_sgw imsi s) (\<lambda>s.
     bindE (sgw_update_itfid 1 s1_ul imsi s) (\<lambda>s.
     bindE (sgw_update_itfid 5 s5_dl imsi s) (\<lambda>s.
     let s = upd_sgw_ue imsi (sgw_ue_init tai apn_in_use eps_bearer_id s1_ul s5_dl s11_mme s11_sgw
               s5_cdl pgw_ip pgw_port) s;
         s = upd_sgw_ue imsi (\<lambda>c. c\<lparr>tai_s := tai\<rparr>) s in
     bindE (set_server X pgw_ip pgw_port) (\<lambda>dst.
     bindE (append_u32 s5_cdl (clear_pkt pkt)) (\<lambda>pkt.
     bindE (append_u64 imsi pkt) (\<lambda>pkt.
     bindE (append_u8 eps_bearer_id pkt) (\<lambda>pkt.
     bindE (append_u32 s5_dl pkt) (\<lambda>pkt.
     bindE (append_u64 apn_in_use pkt) (\<lambda>pkt.
     bindE (append_u64 tai pkt) (\<lambda>pkt.
     bindE (prepend_gtp_hdr 2 1 (len16 pkt) 0 pkt) (\<lambda>pkt.
     bindE (udp_snd pkt) (\<lambda>req.
     let (r, w) = pgw dst req w in
     bindE (udp_client_rcv r pkt) (\<lambda>pkt.
     bindE (extract_gtp_hdr pkt) (\<lambda>pkt.
     bindE (extract_u32 pkt) (\<lambda>(s5_cul, pkt).
     bindE (extract_u8 pkt) (\<lambda>(eps_bearer_id, pkt).
     bindE (extract_u32 pkt) (\<lambda>(s5_ul, pkt).
     bindE (extract_string pkt) (\<lambda>(ue_ip_addr, pkt).
     let s = upd_sgw_ue imsi (\<lambda>c. c\<lparr>s5_uteid_ul_s := s5_ul, s5_cteid_ul_s := s5_cul\<rparr>) s;
         c = sgw_ue_at imsi s in
     bindE (append_u32 s11_sgw (clear_pkt pkt)) (\<lambda>pkt.
     bindE (append_string ue_ip_addr pkt) (\<lambda>pkt.
     bindE (append_u32 s1_ul pkt) (\<lambda>pkt.
     bindE (append_u32 s5_ul pkt) (\<lambda>pkt.
     bindE (append_u32 s5_dl pkt) (\<lambda>pkt.
     bindE (prepend_gtp_hdr 2 1 (len16 pkt) s11_mme pkt) (\<lambda>pkt.
     bindE (if UE_BINDING (build_s E) = STATE_LESS then sgw2_push_context E imsi c worker_id w else Inr w) (\<lambda>w.
     bindE (udp_snd pkt) (\<lambda>rsp.
     Inr ([Reply src rsp], s, w))))))))))))))))))))))))))))))))))"

definition sgw2_handle_modify_bearer ::
  "ext_lib \<Rightarrow> 'w sgw2_env \<Rightarrow> fresh_hdrs \<Rightarrow> sock_addr \<Rightarrow> packet \<Rightarrow> nat \<Rightarrow> sgw \<Rightarrow> 'w \<Rightarrow> (udp_out list \<times> sgw \<times> 'w) res" where
  "sgw2_handle_modify_bearer X E fresh src pkt worker_id s w =
     bindE (if UE_BINDING (build_s E) = STATE_LESS then sgw2_pull_data_context E 11 pkt worker_id s w else Inr (s, w))
       (\<lambda>(s, w).
     bindE (sgw_get_imsi 11 (teid (gtp_hdr pkt)) s) (\<lambda>imsi.
     if imsi = 0 then Inr ([], s, w)
     else
       bindE (extract_u8 pkt) (\<lambda>(eps_bearer_id, pkt).
       bindE (extract_u32 pkt) (\<lambda>(s1_dl, pkt).
       bindE (extract_string pkt) (\<lambda>(enodeb_ip, pkt).
       bindE (extract_int pkt) (\<lambda>(enodeb_port, pkt).
       let s = upd_sgw_ue imsi (\<lambda>c. c\<lparr>s1_uteid_dl_s := s1_dl, enodeb_ip_addr_s := enodeb_ip,
                 enodeb_port_s := enodeb_port\<rparr>) s;
           c = sgw_ue_at imsi s in
       bindE (if UE_BINDING (build_s E) \<noteq> UE_BASED then sgw2_push_context E imsi c worker_id w else Inr w) (\<lambda>w.
       bindE (if REP (build_s E)
              then sgw2_send_replication X E fresh 1 \<lparr>Sgw_state_uect = c, imsi_of_s = imsi\<rparr>
                     (s11_cteid_sgw_s c) (s1_uteid_ul_s c) (s5_uteid_dl_s c) imsi worker_id
              else Inr []) (\<lambda>reps.
       bindE (if UE_BINDING (build_s E) \<noteq> UE_BASED
              then
                bindE (sgw_rem_itfid 11 (s11_cteid_sgw_s c) s) (\<lambda>s.
                bindE (sgw_rem_itfid 1 (s1_uteid_ul_s c) s) (\<lambda>s.
                sgw_rem_itfid 5 (s5_uteid_dl_s c) s))
              else Inr s) (\<lambda>s.
       bindE (append_bool True (clear_pkt pkt)) (\<lambda>pkt.
       bindE (prepend_gtp_hdr 2 2 (len16 pkt) (s11_cteid_mme_s c) pkt) (\<lambda>pkt.
       bindE (udp_snd pkt) (\<lambda>rsp.
       Inr (reps @ [Reply src rsp], s, w)))))))))))))"

text \<open>The replication message of an erasure does not contain the state; \<open>blank\<close> is the uninitialised one.\<close>

definition sgw2_handle_detach ::
  "ext_lib \<Rightarrow> 'w sgw2_env \<Rightarrow> 'w net \<Rightarrow> fresh_hdrs \<Rightarrow> sgw_state \<Rightarrow> sock_addr \<Rightarrow> packet \<Rightarrow> nat \<Rightarrow> sgw \<Rightarrow> 'w \<Rightarrow>
   (udp_out list \<times> sgw \<times> 'w) res" where
  "sgw2_handle_detach X E pgw fresh blank src pkt worker_id s w =
     bindE (if UE_BINDING (build_s E) \<noteq> UE_BASED then sgw2_pull_data_context E 11 pkt worker_id s w else Inr (s, w))
       (\<lambda>(s, w).
     bindE (sgw_get_imsi 11 (teid (gtp_hdr pkt)) s) (\<lambda>imsi.
     if imsi = 0 then Inr ([], s, w)
     else
       bindE (extract_u8 pkt) (\<lambda>(eps_bearer_id, pkt).
       bindE (extract_u64 pkt) (\<lambda>(tai, pkt).
       case ue_ctx_s s imsi of
         None \<Rightarrow> Inl (Exit ''No uectx: sgw_handledetach'')
       | Some c \<Rightarrow>
         bindE (set_server X (pgw_s5_ip_addr_s c) (pgw_s5_port_s c)) (\<lambda>dst.
         bindE (append_u8 eps_bearer_id (clear_pkt pkt)) (\<lambda>pkt.
         bindE (append_u64 tai pkt) (\<lambda>pkt.
         bindE (prepend_gtp_hdr 2 4 (len16 pkt) (s5_cteid_ul_s c) pkt) (\<lambda>pkt.
         bindE (udp_snd pkt) (\<lambda>req.
         let (r, w) = pgw dst req w in
         bindE (udp_client_rcv r pkt) (\<lambda>pkt.
         bindE (extract_gtp_hdr pkt) (\<lambda>pkt.
         bindE (extract_bool pkt) (\<lambda>(res, pkt).
         if \<not> res then Inr ([], s, w)
         else
           bindE (sgw_rem_itfid 11 (s11_cteid_sgw_s c) s) (\<lambda>s.
           bindE (sgw_rem_itfid 1 (s1_uteid_ul_s c) s) (\<lambda>s.
           bindE (sgw_rem_itfid 5 (s5_uteid_dl_s c) s) (\<lambda>s.
           let s = sgw_rem_uectx imsi s in
           bindE (if UE_BINDING (build_s E) \<noteq> UE_BASED
                  then sgw2_erase_context E (s11_cteid_sgw_s c) (s1_uteid_ul_s c) (s5_uteid_dl_s c) worker_id w
                  else Inr w) (\<lambda>w.
           bindE (if REP (build_s E)
                  then sgw2_send_replication X E fresh 0 blank
                         (s11_cteid_sgw_s c) (s1_uteid_ul_s c) (s5_uteid_dl_s c) imsi worker_id
                  else Inr []) (\<lambda>reps.
           bindE (append_bool res (clear_pkt pkt)) (\<lambda>pkt.
           bindE (prepend_gtp_hdr 2 3 (len16 pkt) (s11_cteid_mme_s c) pkt) (\<lambda>pkt.
           bindE (udp_snd pkt) (\<lambda>rsp.
           Inr (reps @ [Reply src rsp], s, w)))))))))))))))))))))"

subsection \<open>User plane\<close>

definition sgw2_handle_uplink_udata ::
  "ext_lib \<Rightarrow> 'w sgw2_env \<Rightarrow> packet \<Rightarrow> nat \<Rightarrow> sgw \<Rightarrow> 'w \<Rightarrow> (udp_out list \<times> sgw \<times> 'w) res" where
  "sgw2_handle_uplink_udata X E pkt worker_id s w =
     bindE (if NOCACHE (build_s E) then sgw2_pull_data_context E 1 pkt worker_id s w
            else if s1_id s (teid (gtp_hdr pkt)) = None then sgw2_pull_data_context E 1 pkt worker_id s w
            else Inr (s, w)) (\<lambda>(s, w).
     bindE (sgw_get_imsi 1 (teid (gtp_hdr pkt)) s) (\<lambda>imsi.
     if imsi = 0 then Inr ([], s, w)
     else
       case sgw_get_uplink_info imsi s of
         None \<Rightarrow> Inr ([], s, w)
       | Some (s5_ul, pgw_ip, pgw_port) \<Rightarrow>
         bindE (truncate_pkt pkt) (\<lambda>pkt.
         bindE (prepend_gtp_hdr 1 2 (len16 pkt) s5_ul pkt) (\<lambda>pkt.
         bindE (set_server X v2_g_pgw_s5_ip_addr g_pgw_s5_port) (\<lambda>dst.
         bindE (udp_snd pkt) (\<lambda>m.
         Inr ([Forward dst m], s, w)))))))"

definition sgw2_handle_downlink_udata ::
  "ext_lib \<Rightarrow> 'w sgw2_env \<Rightarrow> packet \<Rightarrow> nat \<Rightarrow> sgw \<Rightarrow> 'w \<Rightarrow> (udp_out list \<times> sgw \<times> 'w) res" where
  "sgw2_handle_downlink_udata X E pkt worker_id s w =
     bindE (get_dst_ip_addr X pkt) (\<lambda>ip.
     bindE (if NOCACHE (build_s E) then sgw2_pull_data_context E 5 pkt worker_id s w
            else if s5_id s (teid (gtp_hdr pkt)) = None then sgw2_pull_data_context E 5 pkt worker_id s w
            else Inr (s, w)) (\<lambda>(s, w).
     bindE (sgw_get_imsi 5 (teid (gtp_hdr pkt)) s) (\<lambda>imsi.
     if imsi = 0 then Inr ([], s, w)
     else
       case sgw_get_downlink_info imsi s of
         None \<Rightarrow> Inr ([], s, w)
       | Some (s1_dl, enodeb_ip, enodeb_port) \<Rightarrow>
         bindE (truncate_pkt pkt) (\<lambda>pkt.
         bindE (prepend_gtp_hdr 1 2 (len16 pkt) s1_dl pkt) (\<lambda>pkt.
         bindE (set_server X enodeb_ip enodeb_port) (\<lambda>dst.
         bindE (udp_snd pkt) (\<lambda>m.
         Inr ([Forward dst m], s, w))))))))"

end
