(* ===== verification/Epc2_Sgw_Server.thy ===== *)
theory Epc2_Sgw_Server
  imports Epc2_Sgw
begin

section \<open>The SGW server of version 2.0 (sgw_server.cpp)\<close>

text \<open>
  The threads of the S11, S1 and S5 sockets and of the replication socket. \<open>init\<close> and \<open>run\<close> size vectors with
  the thread counts of the command line and index them with other counts; \<open>sgw2_run_clients\<close> is the loop
  that connects the clients.
\<close>

fun sgw2_run_loop :: "nat \<Rightarrow> nat \<Rightarrow> nat \<Rightarrow> nat \<Rightarrow> unit res" where
  "sgw2_run_loop pgw_clients rep_clients 0 i = Inr ()"
| "sgw2_run_loop pgw_clients rep_clients (Suc n) i =
     bindE (in_vector i pgw_clients) (\<lambda>_.
     bindE (in_vector i rep_clients) (\<lambda>_.
     sgw2_run_loop pgw_clients rep_clients n (i + 1)))"

definition sgw2_run_clients :: "nat \<Rightarrow> nat \<Rightarrow> unit res" where
  "sgw2_run_clients n1 n5 = sgw2_run_loop n1 n5 n1 0"

text \<open>\<open>ip.substr(ip.find_last_of('.')+1, ip.size())\<close>, and the client that \<open>getIndex\<close> selects by it.\<close>

definition after_last_dot :: "string \<Rightarrow> string" where
  "after_last_dot ip = rev (takeWhile (\<lambda>c. c \<noteq> CHR ''.'') (rev ip))"

definition getIndex_pkt :: "ext_lib \<Rightarrow> nat \<Rightarrow> packet \<Rightarrow> int res" where
  "getIndex_pkt X sz pkt =
     bindE (copy_pkt pkt) (\<lambda>pkt.
     bindE (get_dst_ip_addr X pkt) (\<lambda>ip.
     bindE (stoi (after_last_dot ip)) (\<lambda>index.
     if sz = 0 then Inl (Undefined ''getIndex: division by zero'')
     else Inr (if index < 0 then - (- index mod int sz) else index mod int sz))))"

definition client_at :: "int \<Rightarrow> nat \<Rightarrow> unit res" where
  "client_at index sz =
     (if index < 0 \<or> int sz \<le> index then Inl (Undefined ''vector: index out of range'') else Inr ())"

definition sgw2_s11_turn ::
  "ext_lib \<Rightarrow> 'w sgw2_env \<Rightarrow> 'w net \<Rightarrow> fresh_hdrs \<Rightarrow> sgw_state \<Rightarrow> nat \<Rightarrow> sock_addr \<times> rx \<Rightarrow> packet \<times> sgw \<times> 'w \<Rightarrow>
   (udp_out list \<times> packet \<times> sgw \<times> 'w) res" where
  "sgw2_s11_turn X E pgw fresh_r blank worker_id m st =
     (case m of (src, r) \<Rightarrow> case st of (pkt, s, w) \<Rightarrow>
     bindE (udp_server_rcv r pkt) (\<lambda>pkt.
     bindE (extract_gtp_hdr pkt) (\<lambda>pkt.
     let msg_type = msg_type_g (gtp_hdr pkt) in
     if msg_type = 1 then
       bindE (copy_pkt pkt) (\<lambda>p.
       bindE (sgw2_handle_create_session X E pgw src p worker_id s w) (\<lambda>(o1, s, w). Inr (o1, pkt, s, w)))
     else if msg_type = 2 then
       bindE (copy_pkt pkt) (\<lambda>p.
       bindE (sgw2_handle_modify_bearer X E fresh_r src p worker_id s w) (\<lambda>(o1, s, w). Inr (o1, pkt, s, w)))
     else if msg_type = 3 then
       bindE (copy_pkt pkt) (\<lambda>p.
       bindE (sgw2_handle_detach X E pgw fresh_r blank src p worker_id s w) (\<lambda>(o1, s, w). Inr (o1, pkt, s, w)))
     else Inr ([], pkt, s, w))))"

definition sgw2_s1_turn ::
  "ext_lib \<Rightarrow> 'w sgw2_env \<Rightarrow> nat \<Rightarrow> sock_addr \<times> rx \<Rightarrow> packet \<times> sgw \<times> 'w \<Rightarrow> (udp_out list \<times> packet \<times> sgw \<times> 'w) res" where
  "sgw2_s1_turn X E worker_id m st =
     (case m of (src, r) \<Rightarrow> case st of (pkt, s, w) \<Rightarrow>
     bindE (udp_server_rcv r pkt) (\<lambda>pkt.
     bindE (extract_gtp_hdr pkt) (\<lambda>pkt.
     if msg_type_g (gtp_hdr pkt) = 1 then
       bindE (getIndex_pkt X (s5_threads E) pkt) (\<lambda>index.
       bindE (client_at index (s1_threads E)) (\<lambda>_.
       bindE (copy_pkt pkt) (\<lambda>p.
       bindE (sgw2_handle_uplink_udata X E p worker_id s w) (\<lambda>(o1, s, w). Inr (o1, pkt, s, w)))))
     else Inr ([], pkt, s, w))))"

definition sgw2_s5_turn ::
  "ext_lib \<Rightarrow> 'w sgw2_env \<Rightarrow> nat \<Rightarrow> sock_addr \<times> rx \<Rightarrow> packet \<times> sgw \<times> 'w \<Rightarrow> (udp_out list \<times> packet \<times> sgw \<times> 'w) res" where
  "sgw2_s5_turn X E worker_id m st =
     (case m of (src, r) \<Rightarrow> case st of (pkt, s, w) \<Rightarrow>
     bindE (udp_server_rcv r pkt) (\<lambda>pkt.
     bindE (extract_gtp_hdr pkt) (\<lambda>pkt.
     if msg_type_g (gtp_hdr pkt) = 3 then
       bindE (copy_pkt pkt) (\<lambda>p.
       bindE (sgw2_handle_downlink_udata X E p worker_id s w) (\<lambda>(o1, s, w). Inr (o1, pkt, s, w)))
     else Inr ([], pkt, s, w))))"

definition sgw2_replication_turn :: "'w sgw2_env \<Rightarrow> rx \<Rightarrow> packet \<times> sgw \<Rightarrow> (packet \<times> sgw) res" where
  "sgw2_replication_turn E r st =
     (case st of (pkt, s) \<Rightarrow>
     bindE (udp_server_rcv r pkt) (\<lambda>pkt.
     bindE (copy_pkt pkt) (\<lambda>p.
     bindE (sgw2_receive_replication E p s) (\<lambda>s.
     Inr (pkt, s)))))"

lemma last_octet:
  assumes "length b = 4"
  shows "stoi (after_last_dot (dotted b)) = Inr (int (unat (b ! 3)))"
proof -
  let ?l = "to_string (unat (b ! 3))"
  have "\<forall>c \<in> set (rev ?l). c \<noteq> CHR ''.''"
    using to_string_digits [of "unat (b ! 3)"] by (auto simp: is_digit_def)
  then have "takeWhile (\<lambda>c. c \<noteq> CHR ''.'') (rev ?l @ CHR ''.'' # r) = rev ?l" for r
    by (subst takeWhile_append2) auto
  then have "after_last_dot (dotted b) = ?l"
    by (simp add: after_last_dot_def dotted_def)
  moreover have "unat (b ! 3) < 2 ^ 31"
    using unsigned_less [where w = "b ! 3" and 'a = nat] by simp
  ultimately show ?thesis
    by (simp only: stoi_to_string)
qed

end
