(* ===== verification/Epc2_Pgw.thy ===== *)
theory Epc2_Pgw
  imports Epc_Pgw Epc2_Sgw_Server
begin

section \<open>PGW of version 2.0 (pgw.h, pgw.cpp, pgw_server.cpp)\<close>

text \<open>
  Record and table operations of version 1.0, the data store with a table of states by endpoint id and one
  by UE address, and replication. The state of an operation whose \<open>get\<close> failed is an uninitialised
  \<open>Pgw_state\<close>: \<open>unset_state\<close>. Keys of the store are of two types, so \<open>pgw_key\<close> is their sum.

  As in version 1.0 the table \<open>ip_addrs\<close> is read with the index operator, which adds an empty address for
  an unknown IMSI.
\<close>

subsection \<open>State and environment\<close>

record pgw_state =
  Pgw_state_uect :: pgw_ue
  imsi_of_p :: u64

datatype pgw_key = S5_key u32 | Sgi_key string

record 'w pgw2_env =
  build_p :: build
  p5_threads :: nat
  sgi_threads :: nat
  ds_table_p :: "string \<Rightarrow> (pgw_key, pgw_state, 'w) kvstore"
  ds_all_p :: "(pgw_key, pgw_state, 'w) kvrequest"
  serial_p :: "pgw_state \<Rightarrow> string"
  parse_p :: "string \<Rightarrow> pgw_state res"
  unset_state :: pgw_state

definition SGI_ID :: string where
  "SGI_ID = ''dsp_sgi_id''"

definition S5_ID :: string where
  "S5_ID = ''dsp_s5_id''"

definition put_pgw_ue :: "u64 \<Rightarrow> pgw_ue \<Rightarrow> pgw \<Rightarrow> pgw" where
  "put_pgw_ue imsi c p = p\<lparr>ue_ctx_p := (ue_ctx_p p)(imsi \<mapsto> c)\<rparr>"

subsection \<open>The data store\<close>

text \<open>The results of the two operations are read, but an error is only printed.\<close>

definition pgw2_push_context :: "'w pgw2_env \<Rightarrow> u64 \<Rightarrow> pgw_ue \<Rightarrow> nat \<Rightarrow> 'w \<Rightarrow> 'w res" where
  "pgw2_push_context E imsi c worker_id w =
     bindE (in_vector worker_id (p5_threads E)) (\<lambda>_.
     let st = \<lparr>Pgw_state_uect = c, imsi_of_p = imsi\<rparr> in
     bindE (ds_all_p E [Put_req S5_ID (S5_key (s5_uteid_ul_p c)) st, Put_req SGI_ID (Sgi_key (ip_addr_p c)) st] w)
       (\<lambda>(_, w). Inr w))"

definition pgw2_pull_context :: "'w pgw2_env \<Rightarrow> packet \<Rightarrow> nat \<Rightarrow> 'w \<Rightarrow> ((u64 \<times> pgw_ue) \<times> 'w) res" where
  "pgw2_pull_context E pkt worker_id w =
     bindE (in_vector worker_id (p5_threads E)) (\<lambda>_.
     bindE (ds_get (ds_table_p E S5_ID) (S5_key (teid (gtp_hdr pkt))) w) (\<lambda>(bundle, w).
     let st = (if ierr bundle < 0 then unset_state E else kv_value bundle)
     in Inr ((imsi_of_p st, Pgw_state_uect st), w)))"

definition pgw2_pull_data_context :: "'w pgw2_env \<Rightarrow> string \<Rightarrow> nat \<Rightarrow> pgw \<Rightarrow> 'w \<Rightarrow> (pgw \<times> 'w) res" where
  "pgw2_pull_data_context E ue_ip worker_id p w =
     bindE (in_vector worker_id (p5_threads E)) (\<lambda>_.
     bindE (ds_get (ds_table_p E SGI_ID) (Sgi_key ue_ip) w) (\<lambda>(bundle, w).
     let st = (if ierr bundle < 0 then unset_state E else kv_value bundle);
         imsi = imsi_of_p st;
         p = put_pgw_ue imsi (Pgw_state_uect st) p
     in Inr (p\<lparr>sgi_id := (sgi_id p)(ue_ip \<mapsto> imsi)\<rparr>, w)))"

definition pgw2_erase_context :: "'w pgw2_env \<Rightarrow> u32 \<Rightarrow> string \<Rightarrow> nat \<Rightarrow> 'w \<Rightarrow> 'w res" where
  "pgw2_erase_context E s5 ip_addr worker_id w =
     bindE (in_vector worker_id (p5_threads E)) (\<lambda>_.
     bindE (ds_all_p E [Del_req S5_ID (S5_key s5), Del_req SGI_ID (Sgi_key ip_addr)] w) (\<lambda>(_, w). Inr w))"

subsection \<open>Replication\<close>

definition g_pgw_rep_port :: int where
  "g_pgw_rep_port = 9501"

definition g_pgw_rep1_ip :: string where
  "g_pgw_rep1_ip = ''10.129.26.141''"

definition g_pgw_rep2_ip :: string where
  "g_pgw_rep2_ip = ''10.129.28.147''"

definition pgw2_send_replication ::
  "ext_lib \<Rightarrow> 'w pgw2_env \<Rightarrow> fresh_hdrs \<Rightarrow> int \<Rightarrow> pgw_state \<Rightarrow> u32 \<Rightarrow> string \<Rightarrow> u64 \<Rightarrow> nat \<Rightarrow> udp_out list res" where
  "pgw2_send_replication X E fresh repType st s5 ip_addr imsi worker_id =
     bindE (local_packet fresh) (\<lambda>pkt.
     bindE (append_int repType (clear_pkt pkt)) (\<lambda>pkt.
     bindE (append_u32 s5 pkt) (\<lambda>pkt.
     bindE (append_string ip_addr pkt) (\<lambda>pkt.
     bindE (if repType \<noteq> 0 then append_string (serial_p E st) pkt else append_u64 imsi pkt) (\<lambda>pkt.
     bindE (in_vector worker_id (p5_threads E)) (\<lambda>_.
     bindE (connected worker_id (sgi_threads E)) (\<lambda>_.
     bindE (set_inet_sock_addr X g_pgw_rep1_ip g_pgw_rep_port) (\<lambda>rep1.
     bindE (set_inet_sock_addr X g_pgw_rep2_ip g_pgw_rep_port) (\<lambda>rep2.
     bindE (udp_snd pkt) (\<lambda>m.
     Inr [Forward rep1 m, Forward rep2 m]))))))))))"

definition pgw2_receive_replication :: "'w pgw2_env \<Rightarrow> packet \<Rightarrow> pgw \<Rightarrow> pgw res" where
  "pgw2_receive_replication E pkt p =
     bindE (extract_int pkt) (\<lambda>(repType, pkt).
     bindE (extract_u32 pkt) (\<lambda>(s5, pkt).
     bindE (extract_string pkt) (\<lambda>(ip_addr, pkt).
     if repType \<noteq> 0 then
       bindE (extract_string pkt) (\<lambda>(boosted, pkt).
       bindE (parse_p E boosted) (\<lambda>st.
       let imsi = imsi_of_p st;
           p = put_pgw_ue imsi (Pgw_state_uect st) p
       in Inr (p\<lparr>sgi_id := (sgi_id p)(ip_addr \<mapsto> imsi), s5_id_p := (s5_id_p p)(s5 \<mapsto> imsi)\<rparr>)))
     else
       bindE (extract_u64 pkt) (\<lambda>(imsi, pkt).
       let p = pgw_rem_uectx imsi p in
       bindE (pgw_rem_itfid 5 s5 ip_addr p) (\<lambda>p.
       pgw_rem_itfid 0 s5 ip_addr p)))))"

subsection \<open>Handlers\<close>

definition pgw2_handle_create_session ::
  "ext_lib \<Rightarrow> 'w pgw2_env \<Rightarrow> fresh_hdrs \<Rightarrow> sock_addr \<Rightarrow> packet \<Rightarrow> nat \<Rightarrow> pgw \<Rightarrow> 'w \<Rightarrow> (udp_out list \<times> pgw \<times> 'w) res" where
  "pgw2_handle_create_session X E fresh src pkt worker_id p w =
     bindE (extract_u32 pkt) (\<lambda>(s5_cdl, pkt).
     bindE (extract_u64 pkt) (\<lambda>(imsi, pkt).
     bindE (extract_u8 pkt) (\<lambda>(eps_bearer_id, pkt).
     bindE (extract_u32 pkt) (\<lambda>(s5_dl, pkt).
     bindE (extract_u64 pkt) (\<lambda>(apn_in_use, pkt).
     bindE (extract_u64 pkt) (\<lambda>(tai, pkt).
     let s5_cul = s5_cdl; s5_ul = s5_cdl;
         ue_ip_addr = at_or '''' (ip_addrs p) imsi;
         p = p\<lparr>ip_addrs := op_idx '''' (ip_addrs p) imsi\<rparr>;
         c = pgw_ue_init ue_ip_addr tai apn_in_use eps_bearer_id s5_ul s5_dl s5_cul s5_cdl new_pgw_ue in
     bindE (pgw_update_itfid 5 s5_ul '''' imsi p) (\<lambda>p.
     bindE (pgw_update_itfid 0 0 ue_ip_addr imsi p) (\<lambda>p.
     let p = put_pgw_ue imsi c p in
     bindE (if UE_BINDING (build_p E) \<noteq> UE_BASED then pgw2_push_context E imsi c worker_id w else Inr w) (\<lambda>w.
     bindE (if REP (build_p E)
            then pgw2_send_replication X E fresh 1 \<lparr>Pgw_state_uect = c, imsi_of_p = imsi\<rparr>
                   (s5_uteid_ul_p c) (ip_addr_p c) imsi worker_id
            else Inr []) (\<lambda>reps.
     bindE (append_u32 s5_cul (clear_pkt pkt)) (\<lambda>pkt.
     bindE (append_u8 eps_bearer_id pkt) (\<lambda>pkt.
     bindE (append_u32 s5_ul pkt) (\<lambda>pkt.
     bindE (append_string ue_ip_addr pkt) (\<lambda>pkt.
     bindE (prepend_gtp_hdr 2 1 (len16 pkt) s5_cdl pkt) (\<lambda>pkt.
     bindE (udp_snd pkt) (\<lambda>rsp.
     Inr (reps @ [Reply src rsp], p, w)))))))))))))))))"

definition pgw2_handle_uplink_udata :: "ext_lib \<Rightarrow> packet \<Rightarrow> udp_out list res" where
  "pgw2_handle_uplink_udata X pkt =
     bindE (truncate_pkt pkt) (\<lambda>pkt.
     bindE (set_server X v2_g_sink_ip_addr g_sink_port) (\<lambda>dst.
     bindE (udp_snd pkt) (\<lambda>m.
     Inr [Forward dst m])))"

text \<open>The client of the SGW was connected by \<open>run\<close>.\<close>

definition pgw2_handle_downlink_udata ::
  "ext_lib \<Rightarrow> 'w pgw2_env \<Rightarrow> packet \<Rightarrow> nat \<Rightarrow> pgw \<Rightarrow> 'w \<Rightarrow> (udp_out list \<times> pgw \<times> 'w) res" where
  "pgw2_handle_downlink_udata X E pkt worker_id p w =
     bindE (get_dst_ip_addr X pkt) (\<lambda>ue_ip_addr.
     bindE (if NOCACHE (build_p E) then pgw2_pull_data_context E ue_ip_addr worker_id p w
            else if sgi_id p ue_ip_addr = None then pgw2_pull_data_context E ue_ip_addr worker_id p w
            else Inr (p, w)) (\<lambda>(p, w).
     bindE (pgw_get_imsi 0 0 ue_ip_addr p) (\<lambda>imsi.
     if imsi = 0 then Inr ([], p, w)
     else
       case pgw_get_downlink_info imsi p of
         None \<Rightarrow> Inr ([], p, w)
       | Some s5_dl \<Rightarrow>
         bindE (prepend_gtp_hdr 1 3 (len16 pkt) s5_dl pkt) (\<lambda>pkt.
         bindE (set_server X SGWLB_addr 7200) (\<lambda>dst.
         bindE (udp_snd pkt) (\<lambda>m.
         Inr ([Forward dst m], p, w)))))))"

text \<open>
  Without sharing the context is read with the index operator. The local tables keep the UE. The data store
  is asked to erase the entry of the uplink endpoint id under the control plane one; both are set to the same value.
\<close>

definition pgw2_handle_detach ::
  "ext_lib \<Rightarrow> 'w pgw2_env \<Rightarrow> fresh_hdrs \<Rightarrow> pgw_state \<Rightarrow> sock_addr \<Rightarrow> packet \<Rightarrow> nat \<Rightarrow> pgw \<Rightarrow> 'w \<Rightarrow>
   (udp_out list \<times> pgw \<times> 'w) res" where
  "pgw2_handle_detach X E fresh blank src pkt worker_id p w =
     bindE (if UE_BINDING (build_p E) \<noteq> UE_BASED
            then bindE (pgw2_pull_context E pkt worker_id w) (\<lambda>((imsi, c), w). Inr (imsi, c, p, w))
            else
              bindE (pgw_get_imsi 5 (teid (gtp_hdr pkt)) '''' p) (\<lambda>imsi.
              Inr (imsi, at_or new_pgw_ue (ue_ctx_p p) imsi, p\<lparr>ue_ctx_p := op_idx new_pgw_ue (ue_ctx_p p) imsi\<rparr>, w)))
       (\<lambda>(imsi, c, p, w).
     if imsi = 0 then Inl (Exit ''Zero imsi: pgw_handledetach'')
     else
       bindE (extract_u8 pkt) (\<lambda>(eps_bearer_id, pkt).
       bindE (extract_u64 pkt) (\<lambda>(tai, pkt).
       bindE (if UE_BINDING (build_p E) \<noteq> UE_BASED
              then pgw2_erase_context E (s5_cteid_ul_p c) (ip_addr_p c) worker_id w else Inr w) (\<lambda>w.
       bindE (if REP (build_p E)
              then pgw2_send_replication X E fresh 0 blank (s5_uteid_ul_p c) (ip_addr_p c) imsi worker_id
              else Inr []) (\<lambda>reps.
       bindE (append_bool True (clear_pkt pkt)) (\<lambda>pkt.
       bindE (prepend_gtp_hdr 2 4 (len16 pkt) (s5_cteid_dl_p c) pkt) (\<lambda>pkt.
       bindE (udp_snd pkt) (\<lambda>rsp.
       Inr (reps @ [Reply src rsp], p, w)))))))))"

subsection \<open>The server threads\<close>

text \<open>\<open>run\<close> connects as many clients as there are SGI threads, in vectors sized by the S5 threads.\<close>

fun pgw2_run_loop :: "nat \<Rightarrow> nat \<Rightarrow> nat \<Rightarrow> unit res" where
  "pgw2_run_loop clients 0 i = Inr ()"
| "pgw2_run_loop clients (Suc n) i = bindE (in_vector i clients) (\<lambda>_. pgw2_run_loop clients n (i + 1))"

definition pgw2_run_clients :: "nat \<Rightarrow> nat \<Rightarrow> unit res" where
  "pgw2_run_clients n5 ni = pgw2_run_loop n5 ni 0"

definition pgw2_s5_turn ::
  "ext_lib \<Rightarrow> 'w pgw2_env \<Rightarrow> fresh_hdrs \<Rightarrow> pgw_state \<Rightarrow> nat \<Rightarrow> sock_addr \<times> rx \<Rightarrow> packet \<times> pgw \<times> 'w \<Rightarrow>
   (udp_out list \<times> packet \<times> pgw \<times> 'w) res" where
  "pgw2_s5_turn X E fresh_r blank worker_id m st =
     (case m of (src, r) \<Rightarrow> case st of (pkt, p, w) \<Rightarrow>
     bindE (udp_server_rcv r pkt) (\<lambda>pkt.
     bindE (extract_gtp_hdr pkt) (\<lambda>pkt.
     let msg_type = msg_type_g (gtp_hdr pkt) in
     if msg_type = 1 then
       bindE (copy_pkt pkt) (\<lambda>q.
       bindE (pgw2_handle_create_session X E fresh_r src q worker_id p w) (\<lambda>(o1, p, w). Inr (o1, pkt, p, w)))
     else if msg_type = 2 then
       bindE (copy_pkt pkt) (\<lambda>q.
       bindE (pgw2_handle_uplink_udata X q) (\<lambda>o1. Inr (o1, pkt, p, w)))
     else if msg_type = 4 then
       bindE (copy_pkt pkt) (\<lambda>q.
       bindE (pgw2_handle_detach X E fresh_r blank src q worker_id p w) (\<lambda>(o1, p, w). Inr (o1, pkt, p, w)))
     else Inr ([], pkt, p, w))))"

definition pgw2_sgi_turn ::
  "ext_lib \<Rightarrow> 'w pgw2_env \<Rightarrow> nat \<Rightarrow> sock_addr \<times> rx \<Rightarrow> packet \<times> pgw \<times> 'w \<Rightarrow> (udp_out list \<times> packet \<times> pgw \<times> 'w) res" where
  "pgw2_sgi_turn X E worker_id m st =
     (case m of (src, r) \<Rightarrow> case st of (pkt, p, w) \<Rightarrow>
     bindE (udp_server_rcv r pkt) (\<lambda>pkt.
     bindE (getIndex_pkt X (p5_threads E) pkt) (\<lambda>index.
     bindE (client_at index (p5_threads E)) (\<lambda>_.
     bindE (connected (nat index) (sgi_threads E)) (\<lambda>_.
     bindE (copy_pkt pkt) (\<lambda>q.
     bindE (pgw2_handle_downlink_udata X E q worker_id p w) (\<lambda>(o1, p, w). Inr (o1, pkt, p, w))))))))"

definition pgw2_replication_turn :: "'w pgw2_env \<Rightarrow> rx \<Rightarrow> packet \<times> pgw \<Rightarrow> (packet \<times> pgw) res" where
  "pgw2_replication_turn E r st =
     (case st of (pkt, p) \<Rightarrow>
     bindE (udp_server_rcv r pkt) (\<lambda>pkt.
     bindE (copy_pkt pkt) (\<lambda>q.
     bindE (pgw2_receive_replication E q p) (\<lambda>p.
     Inr (pkt, p)))))"

end
