(* ===== verification/Epc2_Sgw_Session.thy ===== *)
theory Epc2_Sgw_Session
  imports Epc2_Sgw_Server Epc_Bearer
begin

section \<open>The SGW and its data store\<close>

text \<open>
  Over a store that keeps its contract: what a push stores, what a pull restores, and turns of the S11,
  S1 and S5 threads. A session that one replica stored is served by any other, and a detach at any of
  them removes it for all.
\<close>

lemma table_names [simp]: "SGW11 \<noteq> SGW1" "SGW11 \<noteq> SGW5" "SGW1 \<noteq> SGW5" "SGW1 \<noteq> SGW11" "SGW5 \<noteq> SGW11" "SGW5 \<noteq> SGW1"
  by (simp_all add: SGW11_def SGW1_def SGW5_def)

definition sgw_tables :: "string set" where
  "sgw_tables = {SGW11, SGW1, SGW5}"

text \<open>The context that is filed under the endpoint ids it contains.\<close>

definition stored_ok :: "('w \<Rightarrow> string \<Rightarrow> u32 \<rightharpoonup> sgw_state) \<Rightarrow> 'w \<Rightarrow> sgw_state \<Rightarrow> bool" where
  "stored_ok tbl w st \<longleftrightarrow>
     tbl w SGW11 (s11_cteid_sgw_s (Sgw_state_uect st)) = Some st \<and>
     tbl w SGW1 (s1_uteid_ul_s (Sgw_state_uect st)) = Some st \<and>
     tbl w SGW5 (s5_uteid_dl_s (Sgw_state_uect st)) = Some st"

text \<open>
  \<open>getIndex\<close> reads the address in the packet before the GTP header is gone, so it sees the first four bytes
  of the user's packet. \<open>index_ok\<close>: their text ends in a number, and the number modulo the S5 threads
  selects one of the clients.
\<close>

definition index_ok :: "ext_lib \<Rightarrow> 'w sgw2_env \<Rightarrow> u8 list \<Rightarrow> bool" where
  "index_ok X E m \<longleftrightarrow>
     (\<exists>n. stoi (after_last_dot (inet_ntop X (take 4 m))) = Inr (int n) \<and> 0 < s5_threads E \<and>
        n mod s5_threads E < s1_threads E)"

lemma index_okI:
  assumes "inet_ok X" and "4 \<le> length m" and "0 < s5_threads E" and "s5_threads E \<le> s1_threads E"
  shows "index_ok X E m"
proof -
  have "length (take 4 m) = 4"
    using assms(2) by simp
  then have "stoi (after_last_dot (inet_ntop X (take 4 m))) = Inr (int (unat (m ! 3)))"
    using assms(1) last_octet [of "take 4 m"] by (simp add: inet_ok_def)
  moreover have "unat (m ! 3) mod s5_threads E < s1_threads E"
    using mod_less_divisor [OF assms(3)] assms(4) by (rule less_le_trans)
  ultimately show ?thesis
    unfolding index_ok_def using assms(3) by blast
qed

lemma dst_under_gtp:
  assumes "4 \<le> length m" and "length m \<le> 1008"
  shows "get_dst_ip_addr X (view h g d (gtp_bytes h) m) = Inr (inet_ntop X (take 4 m))"
proof -
  have "buf_read (data (view h g d (gtp_bytes h) m)) 0 20 = Inr (gtp_bytes h @ take 4 m)"
    using assms by (simp add: buf_read_def view_def)
  with assms show ?thesis
    by (simp add: get_dst_ip_addr_def IP_HDR_LEN_def allocate_ip_hdr_mem_def)
qed

lemma index_turn:
  assumes "4 \<le> length m" and "length m \<le> 1008" and "index_ok X E m"
  shows "\<exists>j. getIndex_pkt X (s5_threads E) (view h g d (gtp_bytes h) m) = Inr j \<and> client_at j (s1_threads E) = Inr ()"
proof -
  obtain n where "stoi (after_last_dot (inet_ntop X (take 4 m))) = Inr (int n)" "0 < s5_threads E"
    "n mod s5_threads E < s1_threads E"
    using assms(3) by (auto simp: index_ok_def)
  with assms(1,2) dst_under_gtp [OF assms(1,2), of X h g d] show ?thesis
    by (intro exI [of _ "int (n mod s5_threads E)"]) (simp add: getIndex_pkt_def client_at_def zmod_int [symmetric])
qed

subsection \<open>Replication\<close>

text \<open>What a replica sends as an addition or as an erasure, another one files or removes.\<close>

definition sgw2_copied :: "sgw_state \<Rightarrow> u32 \<Rightarrow> u32 \<Rightarrow> u32 \<Rightarrow> sgw \<Rightarrow> sgw" where
  "sgw2_copied st s11 s1 s5 s =
     s\<lparr>s11_id := (s11_id s)(s11 \<mapsto> imsi_of_s st), s1_id := (s1_id s)(s1 \<mapsto> imsi_of_s st), s5_id := (s5_id s)(s5 \<mapsto> imsi_of_s st),
       ue_ctx_s := (ue_ctx_s s)(imsi_of_s st \<mapsto> Sgw_state_uect st)\<rparr>"

lemma sgw2_replicate:
  assumes "parse_s E (serial_s E st) = Inr st" and "nul_free (serial_s E st)" and "length (serial_s E st) \<le> 1000"
    and "i < s5_threads E" and "i < s1_threads E"
    and "set_inet_sock_addr X g_sgw_rep1_ip g_sgw_rep_port = Inr r1" and "set_inet_sock_addr X g_sgw_rep2_ip g_sgw_rep_port = Inr r2"
  shows "\<exists>m q. sgw2_send_replication X E fresh 1 st s11 s1 s5 imsi i = Inr [Forward r1 m, Forward r2 m] \<and>
    sgw2_replication_turn E (Rx m) (pkt, s) = Inr (q, sgw2_copied st s11 s1 s5 s)"
  using assms
  by (cases fresh) (simp add: sgw2_send_replication_def local_packet_def item_app_view in_vector_def connected_def
    sgw2_replication_turn_def sgw2_receive_replication_def item_ext_view Let_def put_sgw_ue_def sgw2_copied_def)

locale shared_sgw = kv_tables "ds_table_s E" "ds_all_s E" live tbl fits sgw_tables UNIV
  for E :: "'w sgw2_env" and live :: "'w \<Rightarrow> bool" and tbl :: "'w \<Rightarrow> string \<Rightarrow> u32 \<rightharpoonup> sgw_state"
    and fits :: "sgw_state \<Rightarrow> bool" and pgw :: "'w net" +
  assumes pgw_keeps: "pgw a req w = (r, w') \<Longrightarrow> live w \<Longrightarrow> live w' \<and> tbl w' = tbl w"
begin

lemma push_ok:
  assumes "live w" and "i < s11_threads E" and "fits \<lparr>Sgw_state_uect = c, imsi_of_s = imsi\<rparr>"
  shows "\<exists>w'. sgw2_push_context E imsi c i w = Inr w' \<and> live w' \<and> stored_ok tbl w' \<lparr>Sgw_state_uect = c, imsi_of_s = imsi\<rparr>"
proof -
  let ?st = "\<lparr>Sgw_state_uect = c, imsi_of_s = imsi\<rparr>"
  let ?ps = "[(SGW11, s11_cteid_sgw_s c, ?st), (SGW1, s1_uteid_ul_s c, ?st), (SGW5, s5_uteid_dl_s c, ?st)]"
  have "\<forall>(t, k, v) \<in> set ?ps. t \<in> sgw_tables \<and> k \<in> UNIV \<and> fits v"
    using assms(3) by (simp add: sgw_tables_def)
  from execute_puts [OF assms(1) this] obtain w' where
    "ds_all_s E (map (\<lambda>(t, k, v). Put_req t k v) ?ps) w = Inr (replicate 3 0, w')" "live w'"
    "\<forall>t \<in> sgw_tables. tbl w' t = put_all ?ps (tbl w) t"
    by (auto simp: numeral_3_eq_3)
  with assms(2) show ?thesis
    by (auto simp: sgw2_push_context_def in_vector_def stored_ok_def sgw_tables_def)
qed

lemma erase_ok:
  assumes "live w" and "i < s11_threads E"
  shows "\<exists>w'. sgw2_erase_context E s11 s1 s5 i w = Inr w' \<and> live w' \<and>
    tbl w' SGW11 = (tbl w SGW11)(s11 := None) \<and> tbl w' SGW1 = (tbl w SGW1)(s1 := None) \<and>
    tbl w' SGW5 = (tbl w SGW5)(s5 := None)"
proof -
  let ?ds = "[(SGW11, s11), (SGW1, s1), (SGW5, s5)]"
  have "\<forall>(t, k) \<in> set ?ds. t \<in> sgw_tables \<and> k \<in> UNIV"
    by (simp add: sgw_tables_def)
  from execute_dels [OF assms(1) this] obtain w' where
    "ds_all_s E (map (\<lambda>(t, k). Del_req t k) ?ds) w = Inr (replicate 3 0, w')" "live w'"
    "\<forall>t \<in> sgw_tables. tbl w' t = del_all ?ds (tbl w) t"
    by (auto simp: numeral_3_eq_3)
  with assms(2) show ?thesis
    by (auto simp: sgw2_erase_context_def in_vector_def sgw_tables_def)
qed

text \<open>A replica without an entry for the endpoint id, or one that does not look at it.\<close>

lemma pull_hit:
  assumes "live w" and "i < s11_threads E" and "stored_ok tbl w st"
    and "known = (if itf = 11 then s11_id s else if itf = 1 then s1_id s else s5_id s)"
    and "NOCACHE (build_s E) \<or> known (teid (gtp_hdr pkt)) = None" and "itf \<in> {11, 1, 5}"
    and "teid (gtp_hdr pkt) = (if itf = 11 then s11_cteid_sgw_s (Sgw_state_uect st)
      else if itf = 1 then s1_uteid_ul_s (Sgw_state_uect st) else s5_uteid_dl_s (Sgw_state_uect st))"
  shows "\<exists>s' w'. sgw2_pull_data_context E itf pkt i s w = Inr (s', w') \<and> live w' \<and> tbl w' = tbl w \<and>
    (if itf = 11 then s11_id s' else if itf = 1 then s1_id s' else s5_id s') (teid (gtp_hdr pkt)) = Some (imsi_of_s st) \<and>
    ue_ctx_s s' (imsi_of_s st) = Some (Sgw_state_uect st)"
proof -
  let ?t = "if itf = 11 then SGW11 else if itf = 1 then SGW1 else SGW5"
  have "tbl w ?t (teid (gtp_hdr pkt)) = Some st" and "?t \<in> sgw_tables"
    using assms(3,6,7) by (auto simp: stored_ok_def sgw_tables_def)
  from get_hit [OF assms(1) this(2) UNIV_I this(1)] obtain w' where
    "ds_get (ds_table_s E ?t) (teid (gtp_hdr pkt)) w = Inr (\<lparr>ierr = 0, kv_value = st\<rparr>, w')" "live w'" "tbl w' = tbl w"
    by blast
  with assms(2,4-7) show ?thesis
    by (auto simp: sgw2_pull_data_context_def in_vector_def put_sgw_ue_def Let_def)
qed

subsection \<open>Turns\<close>

lemma uplink_served:
  assumes "live w" and "i < s11_threads E" and "stored_ok tbl w st" and "imsi_of_s st \<noteq> 0"
    and "NOCACHE (build_s E) \<or> s1_id s (teid h) = None" and "teid h = s1_uteid_ul_s (Sgw_state_uect st)"
    and "msg_type_g h = 1" and "4 \<le> length m" and "length m \<le> 1008" and "index_ok X E m"
    and "set_inet_sock_addr X v2_g_pgw_s5_ip_addr g_pgw_s5_port = Inr a"
  shows "\<exists>q s' w'. sgw2_s1_turn X E i (src, Rx (gtp_bytes h @ m)) (pkt, s, w) =
    Inr ([Forward a (gtp_bytes (gtp_with 1 2 (of_nat (length m)) (s5_uteid_ul_s (Sgw_state_uect st)) h) @ m)], q, s', w') \<and>
    live w' \<and> tbl w' = tbl w"
proof -
  let ?p = "view h (s1ap_hdr pkt) (diameter_hdr pkt) (gtp_bytes h) m"
  obtain s' w' where p: "sgw2_pull_data_context E 1 ?p i s w = Inr (s', w')" "live w'" "tbl w' = tbl w"
    "s1_id s' (teid h) = Some (imsi_of_s st)" "ue_ctx_s s' (imsi_of_s st) = Some (Sgw_state_uect st)"
    using pull_hit [OF assms(1-3) refl, of 1 s ?p] assms(5,6) by auto
  have "sgw2_handle_uplink_udata X E ?p i s w =
    Inr ([Forward a (gtp_bytes (gtp_with 1 2 (of_nat (length m)) (s5_uteid_ul_s (Sgw_state_uect st)) h) @ m)], s', w')"
    using p assms(4,5,9,11)
    by (auto simp: sgw2_handle_uplink_udata_def sgw_get_imsi_def sgw_get_uplink_info_def set_server_def)
  with p(2,3) index_turn [OF assms(8-10), of h "s1ap_hdr pkt" "diameter_hdr pkt"] assms(7,9) show ?thesis
    by (auto simp: sgw2_s1_turn_def)
qed

lemma downlink_served:
  assumes "live w" and "i < s11_threads E" and "stored_ok tbl w st" and "imsi_of_s st \<noteq> 0"
    and "NOCACHE (build_s E) \<or> s5_id s (teid h) = None" and "teid h = s5_uteid_dl_s (Sgw_state_uect st)"
    and "msg_type_g h = 3" and "4 \<le> length m" and "length m \<le> 1008" and "enodeb_port_s (Sgw_state_uect st) \<noteq> 0"
    and "set_inet_sock_addr X (enodeb_ip_addr_s (Sgw_state_uect st)) (enodeb_port_s (Sgw_state_uect st)) = Inr a"
  shows "\<exists>q s' w'. sgw2_s5_turn X E i (src, Rx (gtp_bytes h @ m)) (pkt, s, w) =
    Inr ([Forward a (gtp_bytes (gtp_with 1 2 (of_nat (length m)) (s1_uteid_dl_s (Sgw_state_uect st)) h) @ m)], q, s', w') \<and>
    live w' \<and> tbl w' = tbl w"
proof -
  let ?p = "view h (s1ap_hdr pkt) (diameter_hdr pkt) (gtp_bytes h) m"
  obtain s' w' where p: "sgw2_pull_data_context E 5 ?p i s w = Inr (s', w')" "live w'" "tbl w' = tbl w"
    "s5_id s' (teid h) = Some (imsi_of_s st)" "ue_ctx_s s' (imsi_of_s st) = Some (Sgw_state_uect st)"
    using pull_hit [OF assms(1-3) refl, of 5 s ?p] assms(5,6) by auto
  have "sgw2_handle_downlink_udata X E ?p i s w =
    Inr ([Forward a (gtp_bytes (gtp_with 1 2 (of_nat (length m)) (s1_uteid_dl_s (Sgw_state_uect st)) h) @ m)], s', w')"
    using p assms(4,5,9-11) dst_under_gtp [OF assms(8,9)]
    by (auto simp: sgw2_handle_downlink_udata_def sgw_get_imsi_def sgw_get_downlink_info_def set_server_def)
  with p(2,3) assms(7,9) show ?thesis
    by (auto simp: sgw2_s5_turn_def)
qed

text \<open>Modify bearer ends the setup: the context is pushed and the replica forgets the endpoint ids.\<close>

lemma modify_stores:
  assumes "UE_BINDING (build_s E) = SESSION_BASED" and "\<not> REP (build_s E)" and "live w" and "i < s11_threads E"
    and "msg_type_g h = 2" and "s11_id s (teid h) = Some imsi" and "imsi \<noteq> 0" and "short_ip enb_ip"
    and "- (2 ^ 31) \<le> enb_port" and "enb_port < 2 ^ 31"
    and "c = (sgw_ue_at imsi s)\<lparr>s1_uteid_dl_s := s1_dl, enodeb_ip_addr_s := enb_ip, enodeb_port_s := enb_port\<rparr>"
    and "fits \<lparr>Sgw_state_uect = c, imsi_of_s = imsi\<rparr>"
  shows "\<exists>q s' w'. sgw2_s11_turn X E pgw fr blank i (src, Rx (modify_req h b s1_dl enb_ip enb_port)) (pkt, s, w) =
      Inr ([Reply src (bool_rsp (gtp_with 2 2 1 (s11_cteid_mme_s c) h) True)], q, s', w') \<and>
    live w' \<and> stored_ok tbl w' \<lparr>Sgw_state_uect = c, imsi_of_s = imsi\<rparr> \<and>
    s1_id s' (s1_uteid_ul_s c) = None \<and> s5_id s' (s5_uteid_dl_s c) = None \<and> s11_id s' (s11_cteid_sgw_s c) = None"
proof -
  obtain w' where w': "sgw2_push_context E imsi c i w = Inr w'" "live w'" "stored_ok tbl w' \<lparr>Sgw_state_uect = c, imsi_of_s = imsi\<rparr>"
    using push_ok [OF assms(3,4,12)] by blast
  have u: "sgw_ue_at imsi (upd_sgw_ue imsi f s) = f (sgw_ue_at imsi s)" for f
    by (simp add: upd_sgw_ue_def sgw_ue_at_def)
  have ids: "s11_cteid_mme_s (sgw_ue_at imsi s) = s11_cteid_mme_s c" "s11_cteid_sgw_s (sgw_ue_at imsi s) = s11_cteid_sgw_s c"
    "s1_uteid_ul_s (sgw_ue_at imsi s) = s1_uteid_ul_s c" "s5_uteid_dl_s (sgw_ue_at imsi s) = s5_uteid_dl_s c"
    by (simp_all add: assms(11))
  show ?thesis
    using assms(1,2,5-10) w' ids
    by (simp add: sgw2_s11_turn_def sgw2_handle_modify_bearer_def message_defs item_ext_view item_app_view
      Let_def short_ip_def sgw_get_imsi_def u assms(11) [symmetric] sgw_rem_itfid_def)
qed

text \<open>Detach at a replica that has no entry: the context is pulled, and erased everywhere after the PGW agreed.\<close>

lemma detach_erases:
  assumes "UE_BINDING (build_s E) \<noteq> UE_BASED" and "\<not> REP (build_s E)" and "live w" and "i < s11_threads E"
    and "stored_ok tbl w st" and "imsi_of_s st \<noteq> 0" and "NOCACHE (build_s E) \<or> s11_id s (teid h) = None"
    and "teid h = s11_cteid_sgw_s (Sgw_state_uect st)" and "msg_type_g h = 3" and "c = Sgw_state_uect st"
    and "set_inet_sock_addr X (pgw_s5_ip_addr_s c) (pgw_s5_port_s c) = Inr a"
    and "\<And>w1. live w1 \<Longrightarrow> tbl w1 = tbl w \<Longrightarrow>
      \<exists>w2. pgw a (detach_req (gtp_with 2 4 9 (s5_cteid_ul_s c) h) b tai) w1 = (Rx (bool_rsp h' True), w2)"
  shows "\<exists>q s' w'. sgw2_s11_turn X E pgw fr blank i (src, Rx (detach_req h b tai)) (pkt, s, w) =
      Inr ([Reply src (bool_rsp (gtp_with 2 3 1 (s11_cteid_mme_s c) h') True)], q, s', w') \<and> live w' \<and>
    s11_id s' (teid h) = None \<and> ue_ctx_s s' (imsi_of_s st) = None \<and>
    tbl w' SGW11 = (tbl w SGW11)(s11_cteid_sgw_s c := None) \<and> tbl w' SGW1 = (tbl w SGW1)(s1_uteid_ul_s c := None) \<and>
    tbl w' SGW5 = (tbl w SGW5)(s5_uteid_dl_s c := None)"
proof -
  let ?p = "view h (s1ap_hdr pkt) (diameter_hdr pkt) (gtp_bytes h) (drop 16 (detach_req h b tai))"
  obtain s1 w1 where p: "sgw2_pull_data_context E 11 ?p i s w = Inr (s1, w1)" "live w1" "tbl w1 = tbl w"
    "s11_id s1 (teid h) = Some (imsi_of_s st)" "ue_ctx_s s1 (imsi_of_s st) = Some c"
    using pull_hit [OF assms(3-5) refl, of 11 s ?p] assms(7,8,10) by auto
  obtain w2 where g: "pgw a (detach_req (gtp_with 2 4 9 (s5_cteid_ul_s c) h) b tai) w1 = (Rx (bool_rsp h' True), w2)"
    using assms(12) [OF p(2,3)] by blast
  have w2: "live w2" "tbl w2 = tbl w"
    using pgw_keeps [OF g p(2)] p(3) by simp_all
  obtain w3 where e: "sgw2_erase_context E (s11_cteid_sgw_s c) (s1_uteid_ul_s c) (s5_uteid_dl_s c) i w2 = Inr w3" "live w3"
    "tbl w3 SGW11 = (tbl w SGW11)(s11_cteid_sgw_s c := None)" "tbl w3 SGW1 = (tbl w SGW1)(s1_uteid_ul_s c := None)"
    "tbl w3 SGW5 = (tbl w SGW5)(s5_uteid_dl_s c := None)"
    using erase_ok [OF w2(1) assms(4), of "s11_cteid_sgw_s c" "s1_uteid_ul_s c" "s5_uteid_dl_s c"] w2(2) by metis
  show ?thesis
    using assms(1,2,6,8-11) p g e
    by (simp add: sgw2_s11_turn_def sgw2_handle_detach_def message_defs item_ext_view item_app_view
      Let_def sgw_get_imsi_def sgw_rem_itfid_def sgw_rem_uectx_def set_server_def)
qed

end

end
