(* ===== verification/Epc2_Pgw_Session.thy ===== *)
theory Epc2_Pgw_Session
  imports Epc2_Pgw Epc2_Sgw_Session
begin

section \<open>The PGW and its data store\<close>

text \<open>
  Over a store that keeps its contract: create session stores the UE under its endpoint id and its
  address, any replica serves the address, detach erases both entries. What the store does not repair:
  the tables of a replica keep a detached UE, and a packet for an address that the store does not know files
  an entry that hides the session created later.
\<close>

lemma pgw_table_names [simp]: "S5_ID \<noteq> SGI_ID" "SGI_ID \<noteq> S5_ID"
  by (simp_all add: S5_ID_def SGI_ID_def)

definition pgw_tables :: "string set" where
  "pgw_tables = {S5_ID, SGI_ID}"

definition pgw_keys :: "pgw_key set" where
  "pgw_keys = {k. \<forall>ip. k = Sgi_key ip \<longrightarrow> short_ip ip}"

lemma pgw_keys_simps [simp]: "S5_key t \<in> pgw_keys" "Sgi_key ip \<in> pgw_keys \<longleftrightarrow> short_ip ip"
  by (simp_all add: pgw_keys_def)

definition stored_ok_p :: "('w \<Rightarrow> string \<Rightarrow> pgw_key \<rightharpoonup> pgw_state) \<Rightarrow> 'w \<Rightarrow> pgw_state \<Rightarrow> bool" where
  "stored_ok_p tbl w st \<longleftrightarrow>
     tbl w S5_ID (S5_key (s5_uteid_ul_p (Pgw_state_uect st))) = Some st \<and>
     tbl w SGI_ID (Sgi_key (ip_addr_p (Pgw_state_uect st))) = Some st"

definition pgw2_ctx :: "u32 \<Rightarrow> u8 \<Rightarrow> u32 \<Rightarrow> u64 \<Rightarrow> u64 \<Rightarrow> string \<Rightarrow> pgw_ue" where
  "pgw2_ctx t b s5_dl apn tai ip = pgw_ue_init ip tai apn b t s5_dl t t new_pgw_ue"

text \<open>The client that \<open>getIndex\<close> selects by the last number of the destination address.\<close>

definition sgi_index_ok :: "ext_lib \<Rightarrow> 'w pgw2_env \<Rightarrow> string \<Rightarrow> bool" where
  "sgi_index_ok X E ip \<longleftrightarrow>
     (\<exists>n. stoi (after_last_dot ip) = Inr (int n) \<and> 0 < p5_threads E \<and> n mod p5_threads E < sgi_threads E)"

lemma sgi_index_okI:
  assumes "inet_ok X" and "20 \<le> length m" and "inet_ntop X (take 4 (drop 16 m)) = ip" and "0 < p5_threads E"
    and "p5_threads E \<le> sgi_threads E"
  shows "sgi_index_ok X E ip"
proof -
  have "length (take 4 (drop 16 m)) = 4"
    using assms(2) by simp
  then have "stoi (after_last_dot ip) = Inr (int (unat (take 4 (drop 16 m) ! 3)))"
    using assms(1,3) last_octet [of "take 4 (drop 16 m)"] by (auto simp: inet_ok_def)
  moreover have "unat (take 4 (drop 16 m) ! 3) mod p5_threads E < sgi_threads E"
    using mod_less_divisor [OF assms(4)] assms(5) by (rule less_le_trans)
  ultimately show ?thesis
    unfolding sgi_index_ok_def using assms(4) by blast
qed

lemma sgi_index:
  assumes "20 \<le> length m" and "length m \<le> 1008" and "inet_ntop X (take 4 (drop 16 m)) = ip" and "sgi_index_ok X E ip"
  shows "\<exists>j. getIndex_pkt X (p5_threads E) (view g s d [] m) = Inr j \<and> client_at j (p5_threads E) = Inr () \<and>
    connected (nat j) (sgi_threads E) = Inr ()"
proof -
  obtain n where "stoi (after_last_dot ip) = Inr (int n)" "0 < p5_threads E" "n mod p5_threads E < sgi_threads E"
    using assms(4) by (auto simp: sgi_index_ok_def)
  with assms(1-3) ip_addr_view(2) [of m X g s d] show ?thesis
    by (intro exI [of _ "int (n mod p5_threads E)"])
      (simp add: getIndex_pkt_def client_at_def connected_def zmod_int [symmetric] not_le)
qed

text \<open>A packet for an address with an entry in the tables, which is used without a look at the store.\<close>

lemma sgi_forward:
  assumes "\<not> NOCACHE (build_p E)" and "sgi_id p ip = Some imsi" and "imsi \<noteq> 0" and "ue_ctx_p p imsi = Some c"
    and "20 \<le> length m" and "length m \<le> 1008" and "inet_ntop X (take 4 (drop 16 m)) = ip" and "sgi_index_ok X E ip"
    and "set_inet_sock_addr X SGWLB_addr 7200 = Inr a"
  shows "\<exists>h q. pgw2_sgi_turn X E i (src, Rx m) (pkt, p, w) = Inr ([Forward a (gtp_bytes h @ m)], q, p, w) \<and>
    msg_type_g h = 3 \<and> teid h = s5_uteid_dl_p c"
  using assms(1-7,9) ip_addr_view(2) [of m X] sgi_index [OF assms(5-8), of "gtp_hdr pkt" "s1ap_hdr pkt" "diameter_hdr pkt"]
  by (intro exI [of _ "gtp_with 1 3 (of_nat (length m)) (s5_uteid_dl_p c) (gtp_hdr pkt)"])
    (auto simp: pgw2_sgi_turn_def pgw2_handle_downlink_udata_def pgw_get_imsi_def pgw_get_downlink_info_def set_server_def)

text \<open>The entry of a failed pull: any packet for the address is from then on sent under the id of \<open>unset_state\<close>.\<close>

lemma sgi_poisoned:
  assumes "\<not> NOCACHE (build_p E)" and "sgi_id p ip = None" and "i < p5_threads E"
    and "ds_get (ds_table_p E SGI_ID) (Sgi_key ip) w = Inr (r, w1)" and "ierr r < 0" and "imsi_of_p (unset_state E) \<noteq> 0"
    and "20 \<le> length m" and "length m \<le> 1008" and "inet_ntop X (take 4 (drop 16 m)) = ip" and "sgi_index_ok X E ip"
    and "set_inet_sock_addr X SGWLB_addr 7200 = Inr a"
  shows "\<exists>h q p1. pgw2_sgi_turn X E i (src, Rx m) (pkt, p, w) = Inr ([Forward a (gtp_bytes h @ m)], q, p1, w1) \<and>
    teid h = s5_uteid_dl_p (Pgw_state_uect (unset_state E)) \<and> sgi_id p1 ip = Some (imsi_of_p (unset_state E)) \<and>
    ue_ctx_p p1 (imsi_of_p (unset_state E)) = Some (Pgw_state_uect (unset_state E))"
  using assms(1-9,11) ip_addr_view(2) [of m X] sgi_index [OF assms(7-10), of "gtp_hdr pkt" "s1ap_hdr pkt" "diameter_hdr pkt"]
  by (intro exI [of _ "gtp_with 1 3 (of_nat (length m)) (s5_uteid_dl_p (Pgw_state_uect (unset_state E))) (gtp_hdr pkt)"])
    (auto simp: pgw2_sgi_turn_def pgw2_handle_downlink_udata_def pgw2_pull_data_context_def in_vector_def Let_def
      put_pgw_ue_def pgw_get_imsi_def pgw_get_downlink_info_def set_server_def)

text \<open>Detach without sharing: answered, and the tables are as before.\<close>

lemma detach_local:
  assumes "UE_BINDING (build_p E) = UE_BASED" and "\<not> REP (build_p E)"
    and "msg_type_g h = 4" and "s5_id_p p (teid h) = Some imsi" and "imsi \<noteq> 0" and "ue_ctx_p p imsi = Some c"
  shows "\<exists>q. pgw2_s5_turn X E fr blank i (src, Rx (detach_req h b tai)) (pkt, p, w) =
    Inr ([Reply src (bool_rsp (gtp_with 2 4 1 (s5_cteid_dl_p c) h) True)], q, p, w)"
proof -
  have "p\<lparr>ue_ctx_p := op_idx new_pgw_ue (ue_ctx_p p) imsi\<rparr> = p"
    using assms(6) by (simp add: op_idx_def at_or_def fun_upd_idem)
  with assms show ?thesis
    by (simp add: pgw2_s5_turn_def pgw2_handle_detach_def message_defs item_ext_view item_app_view Let_def
      pgw_get_imsi_def at_or_def)
qed

subsection \<open>Replication\<close>

definition pgw2_copied :: "pgw_state \<Rightarrow> u32 \<Rightarrow> string \<Rightarrow> pgw \<Rightarrow> pgw" where
  "pgw2_copied st s5 ip p =
     p\<lparr>s5_id_p := (s5_id_p p)(s5 \<mapsto> imsi_of_p st), sgi_id := (sgi_id p)(ip \<mapsto> imsi_of_p st),
       ue_ctx_p := (ue_ctx_p p)(imsi_of_p st \<mapsto> Pgw_state_uect st)\<rparr>"

lemma pgw2_replicate:
  assumes "parse_p E (serial_p E st) = Inr st" and "nul_free (serial_p E st)" and "length (serial_p E st) \<le> 900"
    and "i < p5_threads E" and "i < sgi_threads E" and "short_ip ip"
    and "set_inet_sock_addr X g_pgw_rep1_ip g_pgw_rep_port = Inr r1" and "set_inet_sock_addr X g_pgw_rep2_ip g_pgw_rep_port = Inr r2"
  shows "\<exists>m q. pgw2_send_replication X E fresh 1 st s5 ip imsi i = Inr [Forward r1 m, Forward r2 m] \<and>
    pgw2_replication_turn E (Rx m) (pkt, p) = Inr (q, pgw2_copied st s5 ip p)"
  using assms
  by (cases fresh) (simp add: pgw2_send_replication_def local_packet_def item_app_view in_vector_def connected_def short_ip_def
    pgw2_replication_turn_def pgw2_receive_replication_def item_ext_view Let_def put_pgw_ue_def pgw2_copied_def)

locale shared_pgw = kv_tables "ds_table_p E" "ds_all_p E" live tbl fits pgw_tables pgw_keys
  for E :: "'w pgw2_env" and live :: "'w \<Rightarrow> bool" and tbl :: "'w \<Rightarrow> string \<Rightarrow> pgw_key \<rightharpoonup> pgw_state"
    and fits :: "pgw_state \<Rightarrow> bool"
begin

lemma push_ok:
  assumes "live w" and "i < p5_threads E" and "fits \<lparr>Pgw_state_uect = c, imsi_of_p = imsi\<rparr>"
    and "short_ip (ip_addr_p c)"
  shows "\<exists>w'. pgw2_push_context E imsi c i w = Inr w' \<and> live w' \<and> stored_ok_p tbl w' \<lparr>Pgw_state_uect = c, imsi_of_p = imsi\<rparr>"
proof -
  let ?st = "\<lparr>Pgw_state_uect = c, imsi_of_p = imsi\<rparr>"
  let ?ps = "[(S5_ID, S5_key (s5_uteid_ul_p c), ?st), (SGI_ID, Sgi_key (ip_addr_p c), ?st)]"
  have "\<forall>(t, k, v) \<in> set ?ps. t \<in> pgw_tables \<and> k \<in> pgw_keys \<and> fits v"
    using assms(3,4) by (simp add: pgw_tables_def)
  from execute_puts [OF assms(1) this] obtain w' where
    "ds_all_p E (map (\<lambda>(t, k, v). Put_req t k v) ?ps) w = Inr (replicate 2 0, w')" "live w'"
    "\<forall>t \<in> pgw_tables. tbl w' t = put_all ?ps (tbl w) t"
    by (auto simp: numeral_2_eq_2)
  with assms(2) show ?thesis
    by (auto simp: pgw2_push_context_def in_vector_def stored_ok_p_def pgw_tables_def)
qed

lemma erase_ok:
  assumes "live w" and "i < p5_threads E" and "short_ip ip"
  shows "\<exists>w'. pgw2_erase_context E s5 ip i w = Inr w' \<and> live w' \<and>
    tbl w' S5_ID = (tbl w S5_ID)(S5_key s5 := None) \<and> tbl w' SGI_ID = (tbl w SGI_ID)(Sgi_key ip := None)"
proof -
  let ?ds = "[(S5_ID, S5_key s5), (SGI_ID, Sgi_key ip)]"
  have "\<forall>(t, k) \<in> set ?ds. t \<in> pgw_tables \<and> k \<in> pgw_keys"
    using assms(3) by (simp add: pgw_tables_def)
  from execute_dels [OF assms(1) this] obtain w' where
    "ds_all_p E (map (\<lambda>(t, k). Del_req t k) ?ds) w = Inr (replicate 2 0, w')" "live w'"
    "\<forall>t \<in> pgw_tables. tbl w' t = del_all ?ds (tbl w) t"
    by (auto simp: numeral_2_eq_2)
  with assms(2) show ?thesis
    by (auto simp: pgw2_erase_context_def in_vector_def pgw_tables_def)
qed

subsection \<open>Turns\<close>

lemma create_stores:
  assumes "UE_BINDING (build_p E) \<noteq> UE_BASED" and "\<not> REP (build_p E)" and "live w" and "i < p5_threads E"
    and "msg_type_g h = 1" and "ip = at_or '''' (ip_addrs p) imsi" and "short_ip ip"
    and "c = pgw2_ctx t b s5_dl apn tai ip" and "fits \<lparr>Pgw_state_uect = c, imsi_of_p = imsi\<rparr>"
  shows "\<exists>q p' w'. pgw2_s5_turn X E fr blank i (src, Rx (create_req5 h t imsi b s5_dl apn tai)) (pkt, p, w) =
      Inr ([Reply src (create_rsp5 (gtp_with 2 1 (of_nat (13 + length ip)) t h) t b t ip)], q, p', w') \<and>
    live w' \<and> stored_ok_p tbl w' \<lparr>Pgw_state_uect = c, imsi_of_p = imsi\<rparr> \<and>
    sgi_id p' ip = Some imsi \<and> ue_ctx_p p' imsi = Some c"
proof -
  have c: "pgw_ue_init ip tai apn b t s5_dl t t new_pgw_ue = c"
    using assms(8) by (simp add: pgw2_ctx_def)
  obtain w' where w': "pgw2_push_context E imsi c i w = Inr w'" "live w'"
    "stored_ok_p tbl w' \<lparr>Pgw_state_uect = c, imsi_of_p = imsi\<rparr>"
    using push_ok [OF assms(3,4,9)] assms(7,8) by (auto simp: pgw2_ctx_def pgw_ue_init_def)
  show ?thesis
    using assms(1,2,5,7) w' c
    by (simp add: pgw2_s5_turn_def pgw2_handle_create_session_def message_defs item_ext_view item_app_view Let_def
      short_ip_def assms(6) [symmetric] pgw_update_itfid_def put_pgw_ue_def)
qed

lemma downlink_served:
  assumes "live w" and "i < p5_threads E" and "stored_ok_p tbl w st" and "imsi_of_p st \<noteq> 0"
    and "NOCACHE (build_p E) \<or> sgi_id p ip = None" and "ip = ip_addr_p (Pgw_state_uect st)" and "short_ip ip"
    and "20 \<le> length m" and "length m \<le> 1008" and "inet_ntop X (take 4 (drop 16 m)) = ip" and "sgi_index_ok X E ip"
    and "set_inet_sock_addr X SGWLB_addr 7200 = Inr a"
  shows "\<exists>h q p' w'. pgw2_sgi_turn X E i (src, Rx m) (pkt, p, w) = Inr ([Forward a (gtp_bytes h @ m)], q, p', w') \<and>
    msg_type_g h = 3 \<and> teid h = s5_uteid_dl_p (Pgw_state_uect st) \<and> live w' \<and> tbl w' = tbl w"
proof -
  have "tbl w SGI_ID (Sgi_key ip) = Some st" and "SGI_ID \<in> pgw_tables"
    using assms(3,6) by (simp_all add: stored_ok_p_def pgw_tables_def)
  from get_hit [OF assms(1) this(2) _ this(1)] assms(7) obtain w' where
    g: "ds_get (ds_table_p E SGI_ID) (Sgi_key ip) w = Inr (\<lparr>ierr = 0, kv_value = st\<rparr>, w')" "live w'" "tbl w' = tbl w"
    by auto
  show ?thesis
    using assms(2,4,5,8-10,12) g ip_addr_view(2) [of m X]
      sgi_index [OF assms(8-11), of "gtp_hdr pkt" "s1ap_hdr pkt" "diameter_hdr pkt"]
    by (intro exI [of _ "gtp_with 1 3 (of_nat (length m)) (s5_uteid_dl_p (Pgw_state_uect st)) (gtp_hdr pkt)"])
      (auto simp: pgw2_sgi_turn_def pgw2_handle_downlink_udata_def pgw2_pull_data_context_def in_vector_def Let_def
        put_pgw_ue_def pgw_get_imsi_def pgw_get_downlink_info_def set_server_def)
qed

lemma detach_erases:
  assumes "UE_BINDING (build_p E) \<noteq> UE_BASED" and "\<not> REP (build_p E)" and "live w" and "i < p5_threads E"
    and "stored_ok_p tbl w st" and "imsi_of_p st \<noteq> 0" and "teid h = s5_uteid_ul_p (Pgw_state_uect st)"
    and "msg_type_g h = 4" and "c = Pgw_state_uect st" and "short_ip (ip_addr_p c)"
  shows "\<exists>q w'. pgw2_s5_turn X E fr blank i (src, Rx (detach_req h b tai)) (pkt, p, w) =
      Inr ([Reply src (bool_rsp (gtp_with 2 4 1 (s5_cteid_dl_p c) h) True)], q, p, w') \<and> live w' \<and>
    tbl w' S5_ID = (tbl w S5_ID)(S5_key (s5_cteid_ul_p c) := None) \<and>
    tbl w' SGI_ID = (tbl w SGI_ID)(Sgi_key (ip_addr_p c) := None)"
proof -
  have "tbl w S5_ID (S5_key (teid h)) = Some st" and "S5_ID \<in> pgw_tables"
    using assms(5,7) by (simp_all add: stored_ok_p_def pgw_tables_def)
  from get_hit [OF assms(3) this(2) pgw_keys_simps(1) this(1)] obtain w1 where
    g: "ds_get (ds_table_p E S5_ID) (S5_key (teid h)) w = Inr (\<lparr>ierr = 0, kv_value = st\<rparr>, w1)" "live w1" "tbl w1 = tbl w"
    by blast
  obtain w2 where e: "pgw2_erase_context E (s5_cteid_ul_p c) (ip_addr_p c) i w1 = Inr w2" "live w2"
    "tbl w2 S5_ID = (tbl w S5_ID)(S5_key (s5_cteid_ul_p c) := None)"
    "tbl w2 SGI_ID = (tbl w SGI_ID)(Sgi_key (ip_addr_p c) := None)"
    using erase_ok [OF g(2) assms(4,10), of "s5_cteid_ul_p c"] g(3) by metis
  show ?thesis
    using assms(1,2,4,6,8,9) g(1) e
    by (simp add: pgw2_s5_turn_def pgw2_handle_detach_def pgw2_pull_context_def in_vector_def message_defs
      item_ext_view item_app_view Let_def)
qed

end

end
