(* ===== verification/Epc2_Mme.thy ===== *)
theory Epc2_Mme
  imports Epc_Mme Epc2_Config Epc2_Store
begin

section \<open>MME of version 2.0: state sharing (mme.h, mme.cpp)\<close>

text \<open>
  The fields and the UE context of class \<open>Mme\<close> are those of version 1.0, so its record \<open>mme\<close> and
  the operations that did not change (\<open>ue_at\<close>, \<open>get_s11cteidmme\<close>, \<open>mme_get_guti\<close>, \<open>rem_itfid_m\<close>,
  \<open>rem_uectx_m\<close>) serve here as well. New are the data store, in which a replica puts the context of
  a UE under its MME S1AP id, and the copies sent to two other replicas.

  A handler works on a local copy of the context and writes it back with \<open>put_ue\<close>. \<open>serial\<close> and
  \<open>parse\<close> of \<open>mme2_env\<close> are \<open>toBoostString\<close> and \<open>toBoostObject\<close> on \<open>Mme_state\<close> (a text archive of
  Boost, which throws on text it cannot read). The clients of the SGW and of the HSS answer a request with an outcome or end the process (their
  \<open>conn_refresh\<close> exits when it cannot connect again). \<open>UdpClient::rcv\<close> of this version is declared
  to return an error code and has no \<open>return\<close>: the value its callers see is part of the outcome.
\<close>

subsection \<open>State and environment\<close>

record mme_state =
  Mme_state_uect :: mme_ue
  guti_of :: u64

datatype out2 =
    To_conn int "u8 list"
  | To_replicas "u8 list"

type_synonym 'w sctp_peer2 = "u8 list \<Rightarrow> 'w \<Rightarrow> (rx \<times> 'w) res"
type_synonym 'w udp_peer2 = "u8 list \<Rightarrow> 'w \<Rightarrow> ((rx \<times> int) \<times> 'w) res"

record 'w mme2_env =
  build_of :: build
  ds_mme_state :: "(u32, mme_state, 'w) kvstore"
  serial :: "mme_state \<Rightarrow> string"
  parse :: "string \<Rightarrow> mme_state res"
  hss_client :: "'w sctp_peer2"
  sgw_clients :: "'w udp_peer2 list"

definition new_mme2 :: "mme res" where
  "new_mme2 =
     bindE new_mme_ids (\<lambda>ids.
     Inr \<lparr>mme_ids_of = ids, ue_count = INIT_VAL, s1mme_id = Map.empty, ue_ctx_m = Map.empty\<rparr>)"

definition put_ue :: "u64 \<Rightarrow> mme_ue \<Rightarrow> mme \<Rightarrow> mme" where
  "put_ue guti c m = m\<lparr>ue_ctx_m := (ue_ctx_m m)(guti \<mapsto> c)\<rparr>"

definition put_id :: "u32 \<Rightarrow> u64 \<Rightarrow> mme \<Rightarrow> mme" where
  "put_id mme_id guti m = m\<lparr>s1mme_id := (s1mme_id m)(mme_id \<mapsto> guti)\<rparr>"

subsection \<open>The data store\<close>

definition mme2_push_context ::
  "'w mme2_env \<Rightarrow> u64 \<Rightarrow> mme_ue \<Rightarrow> u32 \<Rightarrow> 'w \<Rightarrow> 'w res" where
  "mme2_push_context E guti c mme_id w =
     bindE (ds_put (ds_mme_state E) mme_id \<lparr>Mme_state_uect = c, guti_of = guti\<rparr> w) (\<lambda>(err, w).
     if err < 0 then Inl (Exit ''datastore push error: push_context'') else Inr w)"

definition mme2_pull_context :: "'w mme2_env \<Rightarrow> packet \<Rightarrow> mme \<Rightarrow> 'w \<Rightarrow> (bool \<times> mme \<times> 'w) res" where
  "mme2_pull_context E pkt m w =
     (let mme_id = mme_s1ap_ue_id (s1ap_hdr pkt) in
     bindE (ds_get (ds_mme_state E) mme_id w) (\<lambda>(bundle, w).
     if ierr bundle < 0 then Inr (False, m, w)
     else
       let guti = guti_of (kv_value bundle);
           m = put_ue guti (Mme_state_uect (kv_value bundle)) m in
       Inr (True, put_id mme_id guti m, w)))"

text \<open>\<open>erase_context\<close> has an empty body.\<close>

definition mme2_erase_context :: "u32 \<Rightarrow> 'w \<Rightarrow> 'w" where
  "mme2_erase_context mme_id w = w"

subsection \<open>Replication\<close>

definition mme2_send_replication ::
  "'w mme2_env \<Rightarrow> fresh_hdrs \<Rightarrow> int \<Rightarrow> mme_state \<Rightarrow> u32 \<Rightarrow> u64 \<Rightarrow> out2 list res" where
  "mme2_send_replication E fresh repType st mme_id guti =
     bindE (local_packet fresh) (\<lambda>pkt.
     bindE (append_int repType (clear_pkt pkt)) (\<lambda>pkt.
     bindE (append_u32 mme_id pkt) (\<lambda>pkt.
     bindE (if repType \<noteq> 0 then append_string (serial E st) pkt else append_u64 guti pkt) (\<lambda>pkt.
     bindE (udp_snd pkt) (\<lambda>msg.
     Inr [To_replicas msg])))))"

definition mme2_receive_replication :: "'w mme2_env \<Rightarrow> packet \<Rightarrow> mme \<Rightarrow> mme res" where
  "mme2_receive_replication E pkt m =
     bindE (extract_int pkt) (\<lambda>(repType, pkt).
     bindE (extract_u32 pkt) (\<lambda>(mme_id, pkt).
     if repType \<noteq> 0 then
       bindE (extract_string pkt) (\<lambda>(boosted, pkt).
       bindE (parse E boosted) (\<lambda>st.
       let guti = guti_of st in
       Inr (put_id mme_id guti (put_ue guti (Mme_state_uect st) m))))
     else
       bindE (extract_u64 pkt) (\<lambda>(guti, pkt).
       Inr (rem_uectx_m guti (rem_itfid_m mme_id m)))))"

subsection \<open>The clients of the SGW\<close>

text \<open>
  \<open>getIndex\<close> takes the endpoint id as an \<open>int\<close>; the remainder of C++ has the sign of the dividend.
  The index selects a client of the vector and one of 50 mutexes.
\<close>

definition getIndex :: "int \<Rightarrow> int \<Rightarrow> int res" where
  "getIndex uniqueId sz =
     (if sz = 0 then Inl (Undefined ''getIndex: division by zero'')
      else Inr (if uniqueId < 0 then - (- uniqueId mod \<bar>sz\<bar>) else uniqueId mod \<bar>sz\<bar>))"

definition sgw_client_call ::
  "'w mme2_env \<Rightarrow> u32 \<Rightarrow> packet \<Rightarrow> 'w \<Rightarrow> ((rx \<times> int) \<times> 'w) res" where
  "sgw_client_call E s11_cteid_mme pkt w =
     bindE (getIndex (sint s11_cteid_mme) (int (length (sgw_clients E)))) (\<lambda>index.
     if index < 0 \<or> 50 \<le> index then Inl (Undefined ''thread_mux: index out of range'')
     else bindE (udp_snd pkt) (\<lambda>req. (sgw_clients E ! nat index) req w))"

text \<open>
  \<open>run2\<close> and \<open>run3\<close> of \<open>mme_server.cpp\<close> start and join 50 threads of a vector that \<open>init\<close> gave
  \<open>g_workers_count\<close> elements; the list is the threads started.
\<close>

fun mme2_run2_loop :: "nat \<Rightarrow> nat \<Rightarrow> nat \<Rightarrow> nat list res" where
  "mme2_run2_loop workers_count 0 i = Inr []"
| "mme2_run2_loop workers_count (Suc n) i =
     (if workers_count \<le> i then Inl (Undefined ''mme_rep_server_threads: index out of range'')
      else bindE (mme2_run2_loop workers_count n (i + 1)) (\<lambda>ts. Inr (i # ts)))"

definition mme2_run2 :: "nat \<Rightarrow> nat list res" where
  "mme2_run2 workers_count = mme2_run2_loop workers_count 50 0"

end
