(* ===== verification/Epc2_Mme_Handlers.thy ===== *)
theory Epc2_Mme_Handlers
  imports Epc2_Mme Epc_Mme_Handlers
begin

section \<open>MME of version 2.0: handlers (mme.cpp, mme_server.cpp)\<close>

text \<open>
  The handlers in the order of the source. A message under an unknown id is dropped (version 1.0
  ends the process). In the modes that share state a handler first pulls the context from the store and
  pushes it at the end. The clients of the SGW may report an error; the RAN gets an answer to
  attach complete.
\<close>

text \<open>\<open>set_crypt_context\<close> and \<open>set_integrity_context\<close> work on the local copy.\<close>

definition set_crypt_context2 :: "mme_ue \<Rightarrow> mme_ue" where
  "set_crypt_context2 c =
     (let c = c\<lparr>nas_enc_algo_m := 1\<rparr>
      in c\<lparr>k_nas_enc_m := k_asme_m c + nas_enc_algo_m c + count_m c + bearer_m c + dir_m c\<rparr>)"

definition set_integrity_context2 :: "mme_ue \<Rightarrow> mme_ue" where
  "set_integrity_context2 c =
     (let c = c\<lparr>nas_int_algo_m := 1\<rparr>
      in c\<lparr>k_nas_int_m := k_asme_m c + nas_int_algo_m c + count_m c + bearer_m c + dir_m c\<rparr>)"

definition set_pgw_info2 :: "u64 \<Rightarrow> mme \<Rightarrow> mme" where
  "set_pgw_info2 guti m =
     put_ue guti ((ue_at guti m)\<lparr>pgw_s5_port_m := g_pgw_s5_port, pgw_s5_ip_addr_m := v2_g_pgw_s5_ip_addr\<rparr>) m"

subsection \<open>Attach\<close>

definition mme2_handle_initial_attach ::
  "'w mme2_env \<Rightarrow> int \<Rightarrow> packet \<Rightarrow> mme \<Rightarrow> 'w \<Rightarrow> (out2 list \<times> mme \<times> 'w) res" where
  "mme2_handle_initial_attach E conn_fd pkt m w =
     bindE (extract_u64 pkt) (\<lambda>(imsi, pkt).
     bindE (extract_u64 pkt) (\<lambda>(tai, pkt).
     bindE (extract_u64 pkt) (\<lambda>(ksi_asme, pkt).
     bindE (extract_u16 pkt) (\<lambda>(nw_capability, pkt).
     let enb = enodeb_s1ap_ue_id (s1ap_hdr pkt) in
     bindE (get_guti (gummei (mme_ids_of m)) imsi) (\<lambda>guti.
     let m = m\<lparr>ue_count := ue_count m + 1\<rparr>;
         mme_id = ucast (ue_count m);
         m = put_id mme_id guti m;
         c = mme_ue_init imsi enb mme_id tai nw_capability new_mme_ue;
         nw_type = nw_type_m c in
     bindE (append_u64 imsi (clear_pkt pkt)) (\<lambda>pkt.
     bindE (append_u16 (plmn_id (mme_ids_of m)) pkt) (\<lambda>pkt.
     bindE (append_u64 1 pkt) (\<lambda>pkt.
     bindE (append_u16 nw_type pkt) (\<lambda>pkt.
     bindE (prepend_diameter_hdr 1 (len16 pkt) pkt) (\<lambda>pkt.
     bindE (sctp_snd pkt) (\<lambda>req.
     bindE (hss_client E req w) (\<lambda>(r, w).
     bindE (sctp_deliver r pkt) (\<lambda>pkt.
     bindE (extract_diameter_hdr pkt) (\<lambda>pkt.
     bindE (extract_u64 pkt) (\<lambda>(autn_num, pkt).
     bindE (extract_u64 pkt) (\<lambda>(rand_num, pkt).
     bindE (extract_u64 pkt) (\<lambda>(xres, pkt).
     bindE (extract_u64 pkt) (\<lambda>(k_asme, pkt).
     let c = c\<lparr>xres_m := xres, k_asme_m := k_asme, ksi_asme_m := 1\<rparr>;
         m = put_ue guti c m in
     bindE (if UE_BINDING (build_of E) = STATE_LESS
            then mme2_push_context E guti c (mme_s1ap_ue_id_m c) w else Inr w) (\<lambda>w.
     bindE (append_u64 autn_num (clear_pkt pkt)) (\<lambda>pkt.
     bindE (append_u64 rand_num pkt) (\<lambda>pkt.
     bindE (append_u64 (ksi_asme_m c) pkt) (\<lambda>pkt.
     bindE (prepend_s1ap_hdr 1 (len16 pkt) enb mme_id pkt) (\<lambda>pkt.
     bindE (sctp_snd pkt) (\<lambda>msg.
     Inr ([To_conn conn_fd msg], m, w)))))))))))))))))))))))))"

definition mme2_handle_autn :: "'w mme2_env \<Rightarrow> packet \<Rightarrow> mme \<Rightarrow> 'w \<Rightarrow> (bool \<times> mme \<times> 'w) res" where
  "mme2_handle_autn E pkt m w =
     bindE (if UE_BINDING (build_of E) = STATE_LESS then mme2_pull_context E pkt m w
            else Inr (True, m, w)) (\<lambda>(found, m, w).
     if \<not> found then Inr (False, m, w)
     else
       let guti = mme_get_guti pkt m in
       if guti = 0 then Inr (False, m, w)
       else
         bindE (extract_u64 pkt) (\<lambda>(res, pkt).
         let c = ue_at guti m; m = touch_ue guti m in
         if res = xres_m c then Inr (True, m, w)
         else Inr (False, rem_uectx_m guti (rem_itfid_m (mme_s1ap_ue_id (s1ap_hdr pkt)) m), w)))"

definition mme2_handle_security_mode_cmd ::
  "ext_lib \<Rightarrow> 'w mme2_env \<Rightarrow> int \<Rightarrow> packet \<Rightarrow> mme \<Rightarrow> 'w \<Rightarrow> (out2 list \<times> mme \<times> 'w) res" where
  "mme2_handle_security_mode_cmd X E conn_fd pkt m w =
     (let guti = mme_get_guti pkt m in
      if guti = 0 then Inr ([], m, w)
      else
        let c = set_integrity_context2 (set_crypt_context2 (ue_at guti m)); m = put_ue guti c m in
        bindE (if UE_BINDING (build_of E) = STATE_LESS
               then mme2_push_context E guti c (mme_s1ap_ue_id_m c) w else Inr w) (\<lambda>w.
        bindE (append_u64 (ksi_asme_m c) (clear_pkt pkt)) (\<lambda>pkt.
        bindE (append_u16 (nw_capability_m c) pkt) (\<lambda>pkt.
        bindE (append_u64 (nas_enc_algo_m c) pkt) (\<lambda>pkt.
        bindE (append_u64 (nas_int_algo_m c) pkt) (\<lambda>pkt.
        bindE (add_hmac X (k_nas_int_m c) pkt) (\<lambda>pkt.
        bindE (prepend_s1ap_hdr 2 (len16 pkt) (enodeb_s1ap_ue_id (s1ap_hdr pkt))
          (mme_s1ap_ue_id (s1ap_hdr pkt)) pkt) (\<lambda>pkt.
        bindE (sctp_snd pkt) (\<lambda>msg.
        Inr ([To_conn conn_fd msg], m, w))))))))))"

definition mme2_handle_security_mode_complete ::
  "ext_lib \<Rightarrow> 'w mme2_env \<Rightarrow> packet \<Rightarrow> mme \<Rightarrow> 'w \<Rightarrow> (bool \<times> mme \<times> 'w) res" where
  "mme2_handle_security_mode_complete X E pkt m w =
     bindE (if UE_BINDING (build_of E) = STATE_LESS then mme2_pull_context E pkt m w
            else Inr (True, m, w)) (\<lambda>(found, m, w).
     if \<not> found then Inr (False, m, w)
     else
       let guti = mme_get_guti pkt m in
       if guti = 0 then Inr (False, m, w)
       else
         let c = ue_at guti m; m = touch_ue guti m in
         bindE (open_or_exit X ''mme_handlesecuritymodecomplete'' (k_nas_enc_m c) (k_nas_int_m c) pkt) (\<lambda>pkt.
         bindE (extract_bool pkt) (\<lambda>(res, pkt).
         Inr (res, m, w))))"

text \<open>Not called by \<open>handle_ue\<close>.\<close>

definition mme2_handle_location_update ::
  "'w mme2_env \<Rightarrow> packet \<Rightarrow> mme \<Rightarrow> 'w \<Rightarrow> (mme \<times> 'w) res" where
  "mme2_handle_location_update E pkt m w =
     (let guti = mme_get_guti pkt m in
      if guti = 0 then Inr (m, w)
      else
        let c = ue_at guti m; m = touch_ue guti m in
        bindE (append_u64 (imsi_m c) (clear_pkt pkt)) (\<lambda>pkt.
        bindE (append_u32 (mmei (mme_ids_of m)) pkt) (\<lambda>pkt.
        bindE (prepend_diameter_hdr 2 (len16 pkt) pkt) (\<lambda>pkt.
        bindE (sctp_snd pkt) (\<lambda>req.
        bindE (hss_client E req w) (\<lambda>(r, w).
        bindE (sctp_deliver r pkt) (\<lambda>pkt.
        bindE (extract_diameter_hdr pkt) (\<lambda>pkt.
        bindE (extract_u64 pkt) (\<lambda>(default_apn, pkt).
        Inr (put_ue guti (c\<lparr>default_apn_m := default_apn, apn_in_use_m := default_apn\<rparr>) m, w))))))))))"

definition mme2_handle_create_session ::
  "ext_lib \<Rightarrow> 'w mme2_env \<Rightarrow> int \<Rightarrow> packet \<Rightarrow> mme \<Rightarrow> 'w \<Rightarrow> (out2 list \<times> mme \<times> 'w) res" where
  "mme2_handle_create_session X E conn_fd pkt m w =
     (let guti = mme_get_guti pkt m in
      if guti = 0 then Inr ([], m, w)
      else
        let m = set_pgw_info2 guti m in
        bindE (get_s11cteidmme guti) (\<lambda>s11.
        let c = (ue_at guti m)\<lparr>s11_cteid_mme_m := s11, eps_bearer_id_m := 5\<rparr> in
        bindE (append_u32 (s11_cteid_mme_m c) (clear_pkt pkt)) (\<lambda>pkt.
        bindE (append_u64 (imsi_m c) pkt) (\<lambda>pkt.
        bindE (append_u8 (eps_bearer_id_m c) pkt) (\<lambda>pkt.
        bindE (append_string (pgw_s5_ip_addr_m c) pkt) (\<lambda>pkt.
        bindE (append_int (pgw_s5_port_m c) pkt) (\<lambda>pkt.
        bindE (append_u64 (apn_in_use_m c) pkt) (\<lambda>pkt.
        bindE (append_u64 (tai_m c) pkt) (\<lambda>pkt.
        bindE (prepend_gtp_hdr 2 1 (len16 pkt) 0 pkt) (\<lambda>pkt.
        bindE (sgw_client_call E s11 pkt w) (\<lambda>((r, err_code), w).
        bindE (udp_client_rcv r pkt) (\<lambda>pkt.
        bindE (extract_gtp_hdr pkt) (\<lambda>pkt.
        bindE (extract_u32 pkt) (\<lambda>(s11_sgw, pkt).
        bindE (extract_string pkt) (\<lambda>(ue_ip_addr, pkt).
        bindE (extract_u32 pkt) (\<lambda>(s1_ul, pkt).
        bindE (extract_u32 pkt) (\<lambda>(s5_ul, pkt).
        bindE (extract_u32 pkt) (\<lambda>(s5_dl, pkt).
        let c = c\<lparr>ip_addr_m := ue_ip_addr, s11_cteid_sgw_m := s11_sgw, s1_uteid_ul_m := s1_ul,
                  s5_uteid_ul_m := s5_ul, s5_uteid_dl_m := s5_dl, tai_list_m := [tai_m c],
                  tau_timer_m := g_timer, e_rab_id_m := eps_bearer_id_m c, k_enodeb_m := k_asme_m c\<rparr>;
            m = put_ue guti c m;
            res = (0 \<le> err_code) in
        bindE (if UE_BINDING (build_of E) = STATE_LESS
               then mme2_push_context E guti c (mme_s1ap_ue_id_m c) w else Inr w) (\<lambda>w.
        bindE (append_u64 guti (clear_pkt pkt)) (\<lambda>pkt.
        bindE (append_u8 (eps_bearer_id_m c) pkt) (\<lambda>pkt.
        bindE (append_u8 (e_rab_id_m c) pkt) (\<lambda>pkt.
        bindE (append_u32 s1_ul pkt) (\<lambda>pkt.
        bindE (append_u64 (k_enodeb_m c) pkt) (\<lambda>pkt.
        bindE (append_u16 (nw_capability_m c) pkt) (\<lambda>pkt.
        bindE (append_int 1 pkt) (\<lambda>pkt.
        bindE (append_u64s (tai_list_m c) pkt) (\<lambda>pkt.
        bindE (append_u64 (tau_timer_m c) pkt) (\<lambda>pkt.
        bindE (append_string ue_ip_addr pkt) (\<lambda>pkt.
        bindE (append_string v2_g_sgw_s1_ip_addr pkt) (\<lambda>pkt.
        bindE (append_int g_sgw_s1_port pkt) (\<lambda>pkt.
        bindE (append_bool res pkt) (\<lambda>pkt.
        bindE (crypt_enc X (k_nas_enc_m c) pkt) (\<lambda>pkt.
        bindE (add_hmac X (k_nas_int_m c) pkt) (\<lambda>pkt.
        bindE (prepend_s1ap_hdr 3 (len16 pkt) (enodeb_s1ap_ue_id (s1ap_hdr pkt))
          (mme_s1ap_ue_id (s1ap_hdr pkt)) pkt) (\<lambda>pkt.
        bindE (sctp_snd pkt) (\<lambda>msg.
        Inr ([To_conn conn_fd msg], m, w)))))))))))))))))))))))))))))))))))))"

definition mme2_handle_attach_complete ::
  "ext_lib \<Rightarrow> 'w mme2_env \<Rightarrow> packet \<Rightarrow> mme \<Rightarrow> 'w \<Rightarrow> (mme \<times> 'w) res" where
  "mme2_handle_attach_complete X E pkt m w =
     bindE (if UE_BINDING (build_of E) = STATE_LESS then mme2_pull_context E pkt m w
            else Inr (True, m, w)) (\<lambda>(found, m, w).
     if \<not> found then Inr (m, w)
     else
       let guti = mme_get_guti pkt m in
       if guti = 0 then Inr (m, w)
       else
         let c = ue_at guti m; m = touch_ue guti m in
         bindE (open_or_exit X ''mme_handleattachcomplete'' (k_nas_enc_m c) (k_nas_int_m c) pkt) (\<lambda>pkt.
         bindE (extract_u8 pkt) (\<lambda>(eps_bearer_id, pkt).
         bindE (extract_u32 pkt) (\<lambda>(s1_uteid_dl, pkt).
         Inr (put_ue guti (c\<lparr>s1_uteid_dl_m := s1_uteid_dl, emm_state_m := 1\<rparr>) m, w)))))"

text \<open>The answer to the RAN is the text \<open>true\<close> or \<open>false\<close> without a header.\<close>

definition mme2_handle_modify_bearer ::
  "'w mme2_env \<Rightarrow> fresh_hdrs \<Rightarrow> int \<Rightarrow> packet \<Rightarrow> mme \<Rightarrow> 'w \<Rightarrow> (out2 list \<times> mme \<times> 'w) res" where
  "mme2_handle_modify_bearer E fresh conn_fd pkt m w =
     (let guti = mme_get_guti pkt m in
      if guti = 0 then Inr ([], m, w)
      else
        let c = ue_at guti m; m = touch_ue guti m in
        bindE (append_u8 (eps_bearer_id_m c) (clear_pkt pkt)) (\<lambda>pkt.
        bindE (append_u32 (s1_uteid_dl_m c) pkt) (\<lambda>pkt.
        bindE (append_string v2_g_trafmon_ip_addr pkt) (\<lambda>pkt.
        bindE (append_int g_trafmon_port pkt) (\<lambda>pkt.
        bindE (prepend_gtp_hdr 2 2 (len16 pkt) (s11_cteid_sgw_m c) pkt) (\<lambda>pkt.
        bindE (sgw_client_call E (s11_cteid_mme_m c) pkt w) (\<lambda>((r, err_code), w).
        bindE (udp_client_rcv r pkt) (\<lambda>pkt.
        bindE (extract_gtp_hdr pkt) (\<lambda>pkt.
        bindE (extract_bool pkt) (\<lambda>(res, pkt).
        if \<not> res \<or> err_code \<noteq> 0 then
          bindE (append_cstr ''false'' (clear_pkt pkt)) (\<lambda>pkt.
          bindE (sctp_snd pkt) (\<lambda>msg.
          Inr ([To_conn conn_fd msg], m, w)))
        else
          let c = c\<lparr>ecm_state_m := 1\<rparr>; m = put_ue guti c m in
          bindE (if UE_BINDING (build_of E) \<noteq> UE_BASED
                 then mme2_push_context E guti c (mme_s1ap_ue_id_m c) w else Inr w) (\<lambda>w.
          bindE (if REP (build_of E)
                 then mme2_send_replication E fresh 1 \<lparr>Mme_state_uect = c, guti_of = guti\<rparr>
                        (mme_s1ap_ue_id_m c) guti
                 else Inr []) (\<lambda>reps.
          bindE (append_cstr ''true'' (clear_pkt pkt)) (\<lambda>pkt.
          bindE (sctp_snd pkt) (\<lambda>msg.
          Inr (reps @ [To_conn conn_fd msg], m, w)))))))))))))))"

subsection \<open>Detach\<close>

text \<open>
  The replication message of an erasure does not contain the state, so the uninitialised
  \<open>Mme_state\<close> it is called with is arbitrary.
\<close>

definition mme2_handle_detach ::
  "ext_lib \<Rightarrow> 'w mme2_env \<Rightarrow> fresh_hdrs \<Rightarrow> mme_state \<Rightarrow> int \<Rightarrow> packet \<Rightarrow> mme \<Rightarrow> 'w \<Rightarrow>
   (out2 list \<times> mme \<times> 'w) res" where
  "mme2_handle_detach X E fresh blank conn_fd pkt m w =
     bindE (if UE_BINDING (build_of E) \<noteq> UE_BASED then mme2_pull_context E pkt m w
            else Inr (True, m, w)) (\<lambda>(found, m, w).
     if \<not> found then Inr ([], m, w)
     else
       let guti = mme_get_guti pkt m in
       if guti = 0 then Inr ([], m, w)
       else
         let c = ue_at guti m; m = touch_ue guti m in
         bindE (open_or_exit X ''mme_handledetach'' (k_nas_enc_m c) (k_nas_int_m c) pkt) (\<lambda>pkt.
         bindE (extract_u64 pkt) (\<lambda>(guti, pkt).
         bindE (extract_u64 pkt) (\<lambda>(ksi_asme, pkt).
         bindE (extract_u64 pkt) (\<lambda>(detach_type, pkt).
         bindE (append_u8 (eps_bearer_id_m c) (clear_pkt pkt)) (\<lambda>pkt.
         bindE (append_u64 (tai_m c) pkt) (\<lambda>pkt.
         bindE (prepend_gtp_hdr 2 3 (len16 pkt) (s11_cteid_sgw_m c) pkt) (\<lambda>pkt.
         bindE (sgw_client_call E (s11_cteid_mme_m c) pkt w) (\<lambda>((r, err_code), w).
         bindE (udp_client_rcv r pkt) (\<lambda>pkt.
         bindE (extract_gtp_hdr pkt) (\<lambda>pkt.
         bindE (extract_bool pkt) (\<lambda>(res, pkt).
         if \<not> res \<or> err_code \<noteq> 0 then Inr ([], m, w)
         else
           bindE (append_bool res (clear_pkt pkt)) (\<lambda>pkt.
           bindE (crypt_enc X (k_nas_enc_m c) pkt) (\<lambda>pkt.
           bindE (add_hmac X (k_nas_int_m c) pkt) (\<lambda>pkt.
           let mme_id = mme_s1ap_ue_id (s1ap_hdr pkt);
               m = rem_uectx_m guti (rem_itfid_m mme_id m);
               w = if UE_BINDING (build_of E) \<noteq> UE_BASED then mme2_erase_context (ucast guti) w else w in
           bindE (if REP (build_of E) then mme2_send_replication E fresh 0 blank mme_id guti
                  else Inr []) (\<lambda>reps.
           bindE (prepend_s1ap_hdr 5 (len16 pkt) (enodeb_s1ap_ue_id (s1ap_hdr pkt)) mme_id pkt) (\<lambda>pkt.
           bindE (sctp_snd pkt) (\<lambda>msg.
           Inr (reps @ [To_conn conn_fd msg], m, w)))))))))))))))))))"

subsection \<open>The servers\<close>

text \<open>
  \<open>handle_ue\<close>. \<open>fresh_r\<close> is the memory of the packet that a replication message is built in, \<open>blank\<close> of the
  uninitialised \<open>Mme_state\<close>.
\<close>

definition mme2_handle_ue ::
  "ext_lib \<Rightarrow> 'w mme2_env \<Rightarrow> fresh_hdrs \<Rightarrow> fresh_hdrs \<Rightarrow> mme_state \<Rightarrow> int \<Rightarrow> rx \<Rightarrow> mme \<Rightarrow> 'w \<Rightarrow>
   (int \<times> out2 list \<times> mme \<times> 'w) res" where
  "mme2_handle_ue X E fresh fresh_r blank conn_fd r m w =
     bindE (local_packet fresh) (\<lambda>pkt.
     bindE (sctp_deliver r pkt) (\<lambda>pkt.
     if len pkt \<le> 0 then Inr (0, [], m, w)
     else
       bindE (extract_s1ap_hdr pkt) (\<lambda>pkt.
       let mme_id = mme_s1ap_ue_id (s1ap_hdr pkt); msg_type = msg_type_s (s1ap_hdr pkt) in
       if mme_id = 0 then
         (if msg_type = 1 then
            bindE (copy_pkt pkt) (\<lambda>p.
            bindE (mme2_handle_initial_attach E conn_fd p m w) (\<lambda>(o1, m, w).
            Inr (1, o1, m, w)))
          else Inr (1, [], m, w))
       else if msg_type = 2 then
         bindE (copy_pkt pkt) (\<lambda>p.
         bindE (mme2_handle_autn E p m w) (\<lambda>(res, m, w).
         if res then
           bindE (copy_pkt pkt) (\<lambda>p.
           bindE (mme2_handle_security_mode_cmd X E conn_fd p m w) (\<lambda>(o1, m, w).
           Inr (1, o1, m, w)))
         else Inr (1, [], m, w)))
       else if msg_type = 3 then
         bindE (copy_pkt pkt) (\<lambda>p.
         bindE (mme2_handle_security_mode_complete X E p m w) (\<lambda>(res, m, w).
         if res then
           bindE (copy_pkt pkt) (\<lambda>p.
           bindE (mme2_handle_create_session X E conn_fd p m w) (\<lambda>(o1, m, w).
           Inr (1, o1, m, w)))
         else Inr (1, [], m, w)))
       else if msg_type = 4 then
         bindE (copy_pkt pkt) (\<lambda>p.
         bindE (mme2_handle_attach_complete X E p m w) (\<lambda>(m, w).
         bindE (copy_pkt pkt) (\<lambda>p.
         bindE (mme2_handle_modify_bearer E fresh_r conn_fd p m w) (\<lambda>(o1, m, w).
         Inr (1, o1, m, w)))))
       else if msg_type = 5 then
         bindE (copy_pkt pkt) (\<lambda>p.
         bindE (mme2_handle_detach X E fresh_r blank conn_fd p m w) (\<lambda>(o1, m, w).
         Inr (1, o1, m, w)))
       else Inr (1, [], m, w))))"

text \<open>The replication thread: one datagram of another replica.\<close>

definition mme2_replication_turn ::
  "'w mme2_env \<Rightarrow> rx \<Rightarrow> packet \<times> mme \<Rightarrow> (packet \<times> mme) res" where
  "mme2_replication_turn E r st =
     (case st of (pkt, m) \<Rightarrow>
     bindE (udp_server_rcv r pkt) (\<lambda>pkt.
     bindE (copy_pkt pkt) (\<lambda>p.
     bindE (mme2_receive_replication E p m) (\<lambda>m.
     Inr (pkt, m)))))"

end
