(* ===== verification/Epc2_Mme_Share.thy ===== *)
theory Epc2_Mme_Share
  imports Epc2_Mme_Handlers
begin

section \<open>Replicas that share the data store\<close>

text \<open>
  What makes a replica of the MME replaceable. Two replicas agree on a UE when both file the same
  context under its id; from then on the handlers send the same messages and leave the same store,
  whatever else the replicas hold. Pulling makes any two replicas agree.
\<close>

subsection \<open>Agreement\<close>

definition agree :: "u32 \<Rightarrow> u64 \<Rightarrow> mme \<Rightarrow> mme \<Rightarrow> bool" where
  "agree mme_id guti m m' \<longleftrightarrow>
     s1mme_id m mme_id = Some guti \<and> s1mme_id m' mme_id = Some guti \<and>
     (\<exists>c. ue_ctx_m m guti = Some c \<and> ue_ctx_m m' guti = Some c)"

text \<open>Both stop for the same reason, or both go on with related results.\<close>

definition same :: "('a \<Rightarrow> 'b \<Rightarrow> bool) \<Rightarrow> 'a res \<Rightarrow> 'b res \<Rightarrow> bool" where
  "same R = rel_sum (=) R"

lemma same_simps [simp]:
  "same R (Inr x) (Inr y) = R x y" "same R (Inl e) (Inl e') = (e = e')"
  "same R (Inl e) (Inr y) = False" "same R (Inr x) (Inl e) = False"
  by (simp_all add: same_def)

lemma same_bind:
  assumes "\<And>x. m = Inr x \<Longrightarrow> same R (f x) (g x)"
  shows "same R (bindE m f) (bindE m g)"
  using assms by (cases m) auto

lemma same_bind2:
  assumes "same Q m m'" and "\<And>x y. Q x y \<Longrightarrow> same R (f x) (g y)"
  shows "same R (bindE m f) (bindE m' g)"
  using assms by (cases m; cases m') auto

lemma agree_get_guti:
  assumes "agree (mme_s1ap_ue_id (s1ap_hdr pkt)) guti m m'"
  shows "mme_get_guti pkt m = guti" and "mme_get_guti pkt m' = guti"
  using assms by (auto simp: agree_def mme_get_guti_def)

lemma agree_ue_at: "agree i guti m m' \<Longrightarrow> ue_at guti m' = ue_at guti m"
  by (auto simp: agree_def ue_at_def)

lemma agree_touch: "agree i guti m m' \<Longrightarrow> agree i guti (touch_ue guti m) (touch_ue guti m')"
  by (auto simp: agree_def touch_ue_def)

lemma agree_put: "agree i guti m m' \<Longrightarrow> agree i guti (put_ue guti c m) (put_ue guti c m')"
  by (auto simp: agree_def put_ue_def)

lemma put_ue_at [simp]: "ue_at guti (put_ue guti c m) = c"
  by (simp add: ue_at_def put_ue_def)

text \<open>The outcome of a turn without the tables of the replica.\<close>

definition seen :: "out2 list \<times> mme \<times> 'w \<Rightarrow> out2 list \<times> mme \<times> 'w \<Rightarrow> bool" where
  "seen a b \<longleftrightarrow> fst a = fst b \<and> snd (snd a) = snd (snd b)"

lemma seen_simp [simp]: "seen (o1, m, w) (o2, m', w') \<longleftrightarrow> o1 = o2 \<and> w = w'"
  by (simp add: seen_def)

lemma pull_agree:
  assumes "ds_get (ds_mme_state E) (mme_s1ap_ue_id (s1ap_hdr pkt)) w = Inr (b, v)" and "\<not> ierr b < 0"
  shows "\<exists>m1 m1'. mme2_pull_context E pkt m w = Inr (True, m1, v) \<and> mme2_pull_context E pkt m' w = Inr (True, m1', v) \<and>
    agree (mme_s1ap_ue_id (s1ap_hdr pkt)) (guti_of (kv_value b)) m1 m1'"
  using assms by (simp add: mme2_pull_context_def Let_def agree_def put_ue_def put_id_def)

lemma smc2_same:
  assumes "agree (mme_s1ap_ue_id (s1ap_hdr pkt)) guti m m'"
  shows "same seen (mme2_handle_security_mode_cmd X E fd pkt m w) (mme2_handle_security_mode_cmd X E fd pkt m' w)"
  unfolding mme2_handle_security_mode_cmd_def Let_def agree_get_guti [OF assms] agree_ue_at [OF assms]
  by (auto intro!: same_bind)

lemma create2_same:
  assumes "agree (mme_s1ap_ue_id (s1ap_hdr pkt)) guti m m'"
  shows "same seen (mme2_handle_create_session X E fd pkt m w) (mme2_handle_create_session X E fd pkt m' w)"
  unfolding mme2_handle_create_session_def Let_def agree_get_guti [OF assms] set_pgw_info2_def
    agree_ue_at [OF assms] put_ue_at
  by (auto intro!: same_bind split: prod.splits)

lemma modify2_same:
  assumes "agree (mme_s1ap_ue_id (s1ap_hdr pkt)) guti m m'"
  shows "same seen (mme2_handle_modify_bearer E fr fd pkt m w) (mme2_handle_modify_bearer E fr fd pkt m' w)"
  unfolding mme2_handle_modify_bearer_def Let_def agree_get_guti [OF assms] agree_ue_at [OF assms]
  by (auto intro!: same_bind split: prod.splits)

subsection \<open>Handlers that pull\<close>

definition kept :: "u32 \<Rightarrow> bool \<times> mme \<times> 'w \<Rightarrow> bool \<times> mme \<times> 'w \<Rightarrow> bool" where
  "kept i a b \<longleftrightarrow> fst a = fst b \<and> snd (snd a) = snd (snd b) \<and>
     (fst a \<longrightarrow> (\<exists>guti. agree i guti (fst (snd a)) (fst (snd b))))"

lemma kept_simp [simp]:
  "kept i (r, m, w) (r', m', w') \<longleftrightarrow> r = r' \<and> w = w' \<and> (r \<longrightarrow> (\<exists>guti. agree i guti m m'))"
  by (auto simp: kept_def)

lemma pull_same: "same (kept (mme_s1ap_ue_id (s1ap_hdr pkt))) (mme2_pull_context E pkt m w) (mme2_pull_context E pkt m' w)"
  by (auto simp: mme2_pull_context_def Let_def agree_def put_ue_def put_id_def intro!: same_bind)

lemma extract_keeps_hdr: "extract_u64 pkt = Inr (v, q) \<Longrightarrow> s1ap_hdr q = s1ap_hdr pkt"
  by (auto simp: extract_u64_def extract_raw_def bindE_eq_Inr)

text \<open>The common start of the handlers: pull, then nothing for an unknown UE, else the body.\<close>

lemma same_pulled:
  assumes "\<And>m m' w. same R (none m w) (none m' w)" and "\<And>m m' w. same R (zero m w) (zero m' w)"
    and "\<And>guti m m' w. agree (mme_s1ap_ue_id (s1ap_hdr pkt)) guti m m' \<Longrightarrow> ue_at guti m' = ue_at guti m \<Longrightarrow>
      agree (mme_s1ap_ue_id (s1ap_hdr pkt)) guti (touch_ue guti m) (touch_ue guti m') \<Longrightarrow>
      same R (body guti m w) (body guti m' w)"
  shows "same R
    (bindE (mme2_pull_context E pkt m w) (\<lambda>(found, m, w). if \<not> found then none m w else
       let guti = mme_get_guti pkt m in if guti = 0 then zero m w else body guti m w))
    (bindE (mme2_pull_context E pkt m' w) (\<lambda>(found, m, w). if \<not> found then none m w else
       let guti = mme_get_guti pkt m in if guti = 0 then zero m w else body guti m w))"
proof (rule same_bind2 [OF pull_same])
  fix x y :: "bool \<times> mme \<times> 'a"
  obtain f m1 v f' m1' v' where xy: "x = (f, m1, v)" "y = (f', m1', v')"
    by (cases x; cases y)
  assume k: "kept (mme_s1ap_ue_id (s1ap_hdr pkt)) x y"
  show "same R
     (case x of (found, m, w) \<Rightarrow> if \<not> found then none m w else
       let guti = mme_get_guti pkt m in if guti = 0 then zero m w else body guti m w)
     (case y of (found, m, w) \<Rightarrow> if \<not> found then none m w else
       let guti = mme_get_guti pkt m in if guti = 0 then zero m w else body guti m w)"
  proof (cases f)
    case True
    with k obtain guti where a: "agree (mme_s1ap_ue_id (s1ap_hdr pkt)) guti m1 m1'"
      by (auto simp: xy)
    show ?thesis
      using k True assms(2) assms(3) [OF a agree_ue_at [OF a] agree_touch [OF a]]
      by (simp add: xy agree_get_guti [OF a])
  qed (use k assms(1) in \<open>simp add: xy\<close>)
qed

lemma autn2_same:
  assumes "UE_BINDING (build_of E) = STATE_LESS"
  shows "same (kept (mme_s1ap_ue_id (s1ap_hdr pkt))) (mme2_handle_autn E pkt m w) (mme2_handle_autn E pkt m' w)"
  unfolding mme2_handle_autn_def assms simp_thms if_True
  by (rule same_pulled) (auto simp: Let_def intro!: same_bind)

lemma smcomplete2_same:
  assumes "UE_BINDING (build_of E) = STATE_LESS"
  shows "same (kept (mme_s1ap_ue_id (s1ap_hdr pkt))) (mme2_handle_security_mode_complete X E pkt m w)
    (mme2_handle_security_mode_complete X E pkt m' w)"
  unfolding mme2_handle_security_mode_complete_def assms simp_thms if_True
  by (rule same_pulled) (auto simp: Let_def intro!: same_bind)

lemma detach2_same:
  assumes "UE_BINDING (build_of E) \<noteq> UE_BASED"
  shows "same seen (mme2_handle_detach X E fr blank fd pkt m w) (mme2_handle_detach X E fr blank fd pkt m' w)"
proof -
  have "UE_BINDING (build_of E) \<noteq> UE_BASED \<longleftrightarrow> True"
    using assms by simp
  then show ?thesis
    unfolding mme2_handle_detach_def by (simp only: if_True) (rule same_pulled; auto simp: Let_def intro!: same_bind)
qed

lemma complete2_same:
  assumes "UE_BINDING (build_of E) = STATE_LESS"
    and "\<And>b v. ds_get (ds_mme_state E) (mme_s1ap_ue_id (s1ap_hdr pkt)) w = Inr (b, v) \<Longrightarrow> 0 \<le> ierr b"
  shows "same (\<lambda>(m, w) (m', w'). w = w' \<and> (\<exists>guti. agree (mme_s1ap_ue_id (s1ap_hdr pkt)) guti m m'))
    (mme2_handle_attach_complete X E pkt m w) (mme2_handle_attach_complete X E pkt m' w)"
proof (cases "ds_get (ds_mme_state E) (mme_s1ap_ue_id (s1ap_hdr pkt)) w")
  case (Inl e)
  then show ?thesis
    by (simp add: mme2_handle_attach_complete_def assms(1) mme2_pull_context_def)
next
  case (Inr p)
  obtain b v where p: "ds_get (ds_mme_state E) (mme_s1ap_ue_id (s1ap_hdr pkt)) w = Inr (b, v)"
    using Inr by (cases p) auto
  obtain m1 m1' where pulled: "mme2_pull_context E pkt m w = Inr (True, m1, v)"
    "mme2_pull_context E pkt m' w = Inr (True, m1', v)"
    and a: "agree (mme_s1ap_ue_id (s1ap_hdr pkt)) (guti_of (kv_value b)) m1 m1'"
    using pull_agree [OF p, of m m'] assms(2) [OF p] by auto
  show ?thesis
    using a agree_put [OF agree_touch [OF a]]
    unfolding mme2_handle_attach_complete_def assms(1) simp_thms if_True pulled Let_def bindE_Inr prod.case
      not_True_eq_False if_False agree_get_guti [OF a] agree_ue_at [OF a]
    by (auto intro!: same_bind) blast
qed

subsection \<open>A whole turn\<close>

definition turn_seen :: "int \<times> out2 list \<times> mme \<times> 'w \<Rightarrow> int \<times> out2 list \<times> mme \<times> 'w \<Rightarrow> bool" where
  "turn_seen a b \<longleftrightarrow> fst a = fst b \<and> seen (snd a) (snd b)"

lemma turn_seen_simp [simp]: "turn_seen (st, x) (st', y) \<longleftrightarrow> st = st' \<and> seen x y"
  by (simp add: turn_seen_def)

text \<open>The second handler of a turn runs on replicas that the first one left in agreement.\<close>

lemma branch2_same:
  fixes E :: "'w mme2_env" and r3 r3' :: "(out2 list \<times> mme \<times> 'w) res"
  shows "same (kept (mme_s1ap_ue_id (s1ap_hdr p))) r1 r1' \<Longrightarrow> same turn_seen
      (bindE r1 (\<lambda>(res, m, w). if res then
         bindE (mme2_handle_security_mode_cmd X E fd p m w) (\<lambda>(os, m, w). Inr (1, os, m, w)) else Inr (1, [], m, w)))
      (bindE r1' (\<lambda>(res, m, w). if res then
         bindE (mme2_handle_security_mode_cmd X E fd p m w) (\<lambda>(os, m, w). Inr (1, os, m, w)) else Inr (1, [], m, w)))"
    and "same (kept (mme_s1ap_ue_id (s1ap_hdr p))) r1 r1' \<Longrightarrow> same turn_seen
      (bindE r1 (\<lambda>(res, m, w). if res then
         bindE (mme2_handle_create_session X E fd p m w) (\<lambda>(os, m, w). Inr (1, os, m, w)) else Inr (1, [], m, w)))
      (bindE r1' (\<lambda>(res, m, w). if res then
         bindE (mme2_handle_create_session X E fd p m w) (\<lambda>(os, m, w). Inr (1, os, m, w)) else Inr (1, [], m, w)))"
    and "same (\<lambda>(m, w) (m', w'). w = w' \<and> (\<exists>guti. agree (mme_s1ap_ue_id (s1ap_hdr p)) guti m m')) r2 r2' \<Longrightarrow> same turn_seen
      (bindE r2 (\<lambda>(m, w). bindE (mme2_handle_modify_bearer E fr fd p m w) (\<lambda>(os, m, w). Inr (1, os, m, w))))
      (bindE r2' (\<lambda>(m, w). bindE (mme2_handle_modify_bearer E fr fd p m w) (\<lambda>(os, m, w). Inr (1, os, m, w))))"
    and "same seen r3 r3' \<Longrightarrow> same turn_seen (bindE r3 (\<lambda>(os, m, w). Inr (1, os, m, w)))
      (bindE r3' (\<lambda>(os, m, w). Inr (1, os, m, w)))"
proof -
  have turn: "same turn_seen (bindE r (\<lambda>(os, m, w). Inr (1, os, m, w))) (bindE r' (\<lambda>(os, m, w). Inr (1, os, m, w)))"
    if "same seen r r'" for r r' :: "(out2 list \<times> mme \<times> 'w) res"
    by (rule same_bind2 [OF that]) auto
  note second = turn [OF smc2_same [where pkt = p]] turn [OF create2_same [where pkt = p]] turn [OF modify2_same [where pkt = p]]
  show "same (kept (mme_s1ap_ue_id (s1ap_hdr p))) r1 r1' \<Longrightarrow> same turn_seen
      (bindE r1 (\<lambda>(res, m, w). if res then
         bindE (mme2_handle_security_mode_cmd X E fd p m w) (\<lambda>(os, m, w). Inr (1, os, m, w)) else Inr (1, [], m, w)))
      (bindE r1' (\<lambda>(res, m, w). if res then
         bindE (mme2_handle_security_mode_cmd X E fd p m w) (\<lambda>(os, m, w). Inr (1, os, m, w)) else Inr (1, [], m, w)))"
    by (erule same_bind2) (auto intro: second)
  show "same (kept (mme_s1ap_ue_id (s1ap_hdr p))) r1 r1' \<Longrightarrow> same turn_seen
      (bindE r1 (\<lambda>(res, m, w). if res then
         bindE (mme2_handle_create_session X E fd p m w) (\<lambda>(os, m, w). Inr (1, os, m, w)) else Inr (1, [], m, w)))
      (bindE r1' (\<lambda>(res, m, w). if res then
         bindE (mme2_handle_create_session X E fd p m w) (\<lambda>(os, m, w). Inr (1, os, m, w)) else Inr (1, [], m, w)))"
    by (erule same_bind2) (auto intro: second)
  show "same (\<lambda>(m, w) (m', w'). w = w' \<and> (\<exists>guti. agree (mme_s1ap_ue_id (s1ap_hdr p)) guti m m')) r2 r2' \<Longrightarrow> same turn_seen
      (bindE r2 (\<lambda>(m, w). bindE (mme2_handle_modify_bearer E fr fd p m w) (\<lambda>(os, m, w). Inr (1, os, m, w))))
      (bindE r2' (\<lambda>(m, w). bindE (mme2_handle_modify_bearer E fr fd p m w) (\<lambda>(os, m, w). Inr (1, os, m, w))))"
    by (erule same_bind2) (auto intro: second)
  show "same seen r3 r3' \<Longrightarrow> same turn_seen (bindE r3 (\<lambda>(os, m, w). Inr (1, os, m, w)))
      (bindE r3' (\<lambda>(os, m, w). Inr (1, os, m, w)))"
    by (rule turn)
qed

text \<open>Any message of a UE that has an id.\<close>

lemma stateless_turn:
  assumes "UE_BINDING (build_of E) = STATE_LESS" and "mme_s1ap_ue_id h \<noteq> 0" and "length body \<le> 1000"
    and "\<And>b v. msg_type_s h = 4 \<Longrightarrow> ds_get (ds_mme_state E) (mme_s1ap_ue_id h) w = Inr (b, v) \<Longrightarrow> 0 \<le> ierr b"
  shows "same turn_seen
    (mme2_handle_ue X E fresh fr blank fd (Rx (s1ap_bytes h @ body)) m w)
    (mme2_handle_ue X E fresh fr blank fd (Rx (s1ap_bytes h @ body)) m' w)"
proof -
  obtain g s d where f: "fresh = (g, s, d)"
    by (cases fresh)
  let ?p = "view g h d (s1ap_bytes h) body"
  consider "msg_type_s h = 2" | "msg_type_s h = 3" | "msg_type_s h = 4" | "msg_type_s h = 5" | "msg_type_s h \<notin> {2, 3, 4, 5}"
    by blast
  then show ?thesis
  proof cases
    case 1
    with branch2_same(1) [OF autn2_same [OF assms(1), of ?p m w m']] assms(2,3) show ?thesis
      by (simp add: f mme2_handle_ue_def local_packet_def cong: if_cong)
  next
    case 2
    with branch2_same(2) [OF smcomplete2_same [OF assms(1), of ?p X m w m']] assms(2,3) show ?thesis
      by (simp add: f mme2_handle_ue_def local_packet_def cong: if_cong)
  next
    case 3
    with branch2_same(3) [OF complete2_same [OF assms(1), of ?p w X m m']] assms(2-4) show ?thesis
      by (simp add: f mme2_handle_ue_def local_packet_def cong: if_cong)
  next
    case 4
    with assms(1-3) branch2_same(4) [OF detach2_same [of E X fr blank fd ?p m w m']] show ?thesis
      by (simp add: f mme2_handle_ue_def local_packet_def cong: if_cong)
  qed (use assms(2,3) in \<open>simp add: f mme2_handle_ue_def local_packet_def cong: if_cong\<close>)
qed

end
