(* ===== verification/Epc2_Mme_Session.thy ===== *)
theory Epc2_Mme_Session
  imports Epc2_Mme_Share Epc_Mme_Session
begin

section \<open>Turns of the version 2.0 MME\<close>

text \<open>
  Unknown ids are dropped; replication makes two replicas agree; where no state is shared the
  handlers do what those of version 1.0 do; and the bounds under which the thread and client tables
  are used inside their range.
\<close>

subsection \<open>Unknown ids\<close>

lemma mme2_unknown:
  assumes "mme_s1ap_ue_id h \<noteq> 0" and "msg_type_s h \<in> {2, 3, 4, 5}"
    and "s1mme_id m (mme_s1ap_ue_id h) = None" and "length body \<le> 1000"
    and "UE_BINDING (build_of E) = UE_BASED \<or>
      (\<exists>b v. ds_get (ds_mme_state E) (mme_s1ap_ue_id h) w = Inr (b, v) \<and> ierr b < 0)"
  shows "\<exists>w'. mme2_handle_ue X E fresh fr blank fd (Rx (s1ap_bytes h @ body)) m w = Inr (1, [], m, w')"
  using assms
  by (cases fresh)
    (auto simp: mme2_handle_ue_def local_packet_def mme2_handle_autn_def mme2_handle_security_mode_complete_def
      mme2_handle_attach_complete_def mme2_handle_modify_bearer_def mme2_handle_detach_def mme2_pull_context_def Let_def)

subsection \<open>Replication\<close>

definition push_msg :: "'w mme2_env \<Rightarrow> u32 \<Rightarrow> mme_state \<Rightarrow> u8 list" where
  "push_msg E i st = le_int 1 @ le_word 4 i @ string_bytes (serial E st)"

definition erase_msg :: "u32 \<Rightarrow> u64 \<Rightarrow> u8 list" where
  "erase_msg i guti = le_int 0 @ le_word 4 i @ le_word 8 guti"

definition serial_ok :: "'w mme2_env \<Rightarrow> mme_state \<Rightarrow> bool" where
  "serial_ok E st \<longleftrightarrow> parse E (serial E st) = Inr st \<and> nul_free (serial E st) \<and> length (serial E st) \<le> 1000"

lemma send_push:
  assumes "serial_ok E st"
  shows "mme2_send_replication E fresh 1 st i guti = Inr [To_replicas (push_msg E i st)]"
  using assms
  by (cases fresh) (simp add: mme2_send_replication_def local_packet_def item_app_view push_msg_def serial_ok_def)

lemma send_erase: "mme2_send_replication E fresh 0 st i guti = Inr [To_replicas (erase_msg i guti)]"
  by (cases fresh) (simp add: mme2_send_replication_def local_packet_def item_app_view erase_msg_def)

lemma receive_push:
  assumes "serial_ok E st"
  shows "\<exists>q. mme2_replication_turn E (Rx (push_msg E i st)) (pkt, m) =
    Inr (q, put_id i (guti_of st) (put_ue (guti_of st) (Mme_state_uect st) m))"
  using assms
  by (simp add: mme2_replication_turn_def push_msg_def serial_ok_def mme2_receive_replication_def item_ext_view Let_def)

lemma receive_erase:
  "\<exists>q. mme2_replication_turn E (Rx (erase_msg i guti)) (pkt, m) = Inr (q, rem_uectx_m guti (rem_itfid_m i m))"
  by (simp add: mme2_replication_turn_def erase_msg_def mme2_receive_replication_def item_ext_view)

lemma detach2_agree:
  assumes "UE_BINDING (build_of E) = UE_BASED" and "agree (mme_s1ap_ue_id (s1ap_hdr pkt)) guti m m'"
  shows "same seen (mme2_handle_detach X E fr blank fd pkt m w) (mme2_handle_detach X E fr blank fd pkt m' w)"
  unfolding mme2_handle_detach_def assms(1) bindE_Inr Let_def agree_get_guti [OF assms(2)] agree_ue_at [OF assms(2)]
    simp_thms if_False prod.case not_True_eq_False
  by (auto intro!: same_bind)

subsection \<open>A replica takes over\<close>

lemma autn2_agree:
  assumes "UE_BINDING (build_of E) = UE_BASED" and "agree (mme_s1ap_ue_id (s1ap_hdr pkt)) guti m m'"
  shows "same (kept (mme_s1ap_ue_id (s1ap_hdr pkt))) (mme2_handle_autn E pkt m w) (mme2_handle_autn E pkt m' w)"
  unfolding mme2_handle_autn_def assms(1) ue_binding.simps bindE_Inr Let_def
  using assms(2) agree_touch [OF assms(2)] by (auto simp: agree_get_guti [OF assms(2)] agree_ue_at [OF assms(2)] intro!: same_bind)

lemma smcomplete2_agree:
  assumes "UE_BINDING (build_of E) = UE_BASED" and "agree (mme_s1ap_ue_id (s1ap_hdr pkt)) guti m m'"
  shows "same (kept (mme_s1ap_ue_id (s1ap_hdr pkt))) (mme2_handle_security_mode_complete X E pkt m w)
    (mme2_handle_security_mode_complete X E pkt m' w)"
  unfolding mme2_handle_security_mode_complete_def assms(1) ue_binding.simps bindE_Inr Let_def
  using assms(2) agree_touch [OF assms(2)] by (auto simp: agree_get_guti [OF assms(2)] agree_ue_at [OF assms(2)] intro!: same_bind)

lemma complete2_agree:
  assumes "UE_BINDING (build_of E) = UE_BASED" and "agree (mme_s1ap_ue_id (s1ap_hdr pkt)) guti m m'"
  shows "same (\<lambda>(m, w) (m', w'). w = w' \<and> (\<exists>guti. agree (mme_s1ap_ue_id (s1ap_hdr pkt)) guti m m'))
    (mme2_handle_attach_complete X E pkt m w) (mme2_handle_attach_complete X E pkt m' w)"
  unfolding mme2_handle_attach_complete_def assms(1) ue_binding.simps bindE_Inr Let_def
  using assms(2) agree_put [OF agree_touch [OF assms(2)]] by (auto simp: agree_get_guti [OF assms(2)] agree_ue_at [OF assms(2)] intro!: same_bind) blast

text \<open>In a build that shares nothing, replicas that agree on a UE answer any of its messages alike.\<close>

lemma agree_turn:
  assumes "UE_BINDING (build_of E) = UE_BASED" and "agree (mme_s1ap_ue_id h) guti m m'"
    and "mme_s1ap_ue_id h \<noteq> 0" and "length body \<le> 1000"
  shows "same turn_seen
    (mme2_handle_ue X E fresh fr blank fd (Rx (s1ap_bytes h @ body)) m w)
    (mme2_handle_ue X E fresh fr blank fd (Rx (s1ap_bytes h @ body)) m' w)"
proof -
  obtain g s d where f: "fresh = (g, s, d)"
    by (cases fresh)
  let ?p = "view g h d (s1ap_bytes h) body"
  have a: "agree (mme_s1ap_ue_id (s1ap_hdr ?p)) guti m m'"
    using assms(2) by simp
  consider "msg_type_s h = 2" | "msg_type_s h = 3" | "msg_type_s h = 4" | "msg_type_s h = 5" | "msg_type_s h \<notin> {2, 3, 4, 5}"
    by blast
  then show ?thesis
  proof cases
    case 1
    with branch2_same(1) [OF autn2_agree [OF assms(1) a]] assms(3,4) show ?thesis
      by (simp add: f mme2_handle_ue_def local_packet_def cong: if_cong)
  next
    case 2
    with branch2_same(2) [OF smcomplete2_agree [OF assms(1) a]] assms(3,4) show ?thesis
      by (simp add: f mme2_handle_ue_def local_packet_def cong: if_cong)
  next
    case 3
    with branch2_same(3) [OF complete2_agree [OF assms(1) a]] assms(3,4) show ?thesis
      by (simp add: f mme2_handle_ue_def local_packet_def cong: if_cong)
  next
    case 4
    with branch2_same(4) [OF detach2_agree [OF assms(1) a]] assms(3,4) show ?thesis
      by (simp add: f mme2_handle_ue_def local_packet_def cong: if_cong)
  qed (use assms(3,4) in \<open>simp add: f mme2_handle_ue_def local_packet_def cong: if_cong\<close>)
qed

subsection \<open>The bounds of the thread and client tables\<close>

lemma run2_loop_ok: "(\<exists>ts. mme2_run2_loop n k i = Inr ts) \<longleftrightarrow> k = 0 \<or> i + k \<le> n"
  by (induction n k i rule: mme2_run2_loop.induct) (auto simp: bindE_eq_Inr)

lemma run2_ok: "(\<exists>ts. mme2_run2 n = Inr ts) \<longleftrightarrow> 50 \<le> n"
  by (simp add: mme2_run2_def run2_loop_ok)

lemma sgw_client_call_ok:
  assumes "0 \<le> sint t" and "1 \<le> length (sgw_clients E)" and "length (sgw_clients E) \<le> 50"
  shows "sgw_client_call E t pkt w =
    bindE (udp_snd pkt) (\<lambda>req. (sgw_clients E ! nat (sint t mod int (length (sgw_clients E)))) req w)"
proof -
  have "0 < int (length (sgw_clients E))"
    using assms(2) by linarith
  then have "0 \<le> sint t mod int (length (sgw_clients E))" and "sint t mod int (length (sgw_clients E)) < int (length (sgw_clients E))"
    by (rule pos_mod_sign, rule pos_mod_bound)
  with assms show ?thesis
    by (auto simp: sgw_client_call_def getIndex_def)
qed

lemma sgw_client_call_over:
  assumes "50 < length (sgw_clients E)"
  shows "sgw_client_call E 50 pkt w = Inl (Undefined ''thread_mux: index out of range'')"
  using assms by (auto simp: sgw_client_call_def getIndex_def)

subsection \<open>The same handlers as in version 1.0\<close>

text \<open>\<open>sent\<close>: the same message to the same connection.\<close>

fun sent :: "out \<Rightarrow> out2 \<Rightarrow> bool" where
  "sent (Snd_conn fd b) (To_conn fd' b') \<longleftrightarrow> fd = fd' \<and> b = b'"
| "sent _ _ \<longleftrightarrow> False"

text \<open>An environment without sharing over the peers of version 1.0.\<close>

definition plain_env :: "nat \<Rightarrow> 'w peer \<Rightarrow> 'w peer \<Rightarrow> 'w mme2_env \<Rightarrow> 'w mme2_env" where
  "plain_env n hss sgw E =
     E\<lparr>build_of := \<lparr>UE_BINDING = UE_BASED, NOCACHE = False, REP = False\<rparr>,
       hss_client := (\<lambda>b w. Inr (hss b w)),
       sgw_clients := replicate n (\<lambda>b w. let (r, w') = sgw b w in Inr ((r, 0), w'))\<rparr>"

definition turn_sent :: "int \<times> out list \<times> mme \<times> 'w \<Rightarrow> int \<times> out2 list \<times> mme \<times> 'w \<Rightarrow> bool" where
  "turn_sent a b \<longleftrightarrow> fst a = fst b \<and> list_all2 sent (fst (snd a)) (fst (snd b)) \<and> snd (snd a) = snd (snd b)"

lemma turn_sent_simp [simp]:
  "turn_sent (st, os, x) (st', os', x') \<longleftrightarrow> st = st' \<and> list_all2 sent os os' \<and> x = x'"
  by (simp add: turn_sent_def)

lemma secured_eq:
  "put_ue guti (set_integrity_context2 (set_crypt_context2 (ue_at guti m))) m =
   set_integrity_context guti (set_crypt_context guti m)"
  by (simp add: put_ue_def set_integrity_context2_def set_crypt_context2_def set_integrity_context_def
      set_crypt_context_def upd_ue_def ue_at_def modify_at_def)

lemma autn_v1_v2:
  assumes "mme_s1ap_ue_id h \<noteq> 0" and "msg_type_s h = 2" and "s1mme_id m (mme_s1ap_ue_id h) = Some guti"
    and "guti \<noteq> 0" and "length body \<le> 1000"
  shows "same turn_sent (mme_handle_ue X fresh hss sgw fd (Rx (s1ap_bytes h @ body)) m w)
    (mme2_handle_ue X (plain_env n hss sgw E) fresh fr blank fd (Rx (s1ap_bytes h @ body)) m w)"
proof -
  obtain g s d where f: "fresh = (g, s, d)"
    by (cases fresh)
  have id: "s1mme_id (touch_ue guti m) (mme_s1ap_ue_id h) = Some guti"
    using assms(3) by (simp add: touch_ue_def)
  show ?thesis
    using assms id
    by (auto simp: f mme_handle_ue_def mme2_handle_ue_def local_packet_def mme_handle_autn_def mme2_handle_autn_def
        guti_or_exit_def Let_def plain_env_def mme_handle_security_mode_cmd_def mme2_handle_security_mode_cmd_def
        secured_eq [symmetric] bindE_assoc split_beta cong: if_cong intro!: same_bind)
qed

lemma plain_call:
  assumes "0 \<le> sint t" and "1 \<le> n" and "n \<le> 50"
  shows "sgw_client_call (plain_env n hss sgw E) t pkt w =
    bindE (udp_snd pkt) (\<lambda>req. let (r, w') = sgw req w in Inr ((r, 0), w'))"
proof -
  have "sint t mod int n < int n"
    using assms(2) by (intro pos_mod_bound) simp
  then have "nat (sint t mod int n) < n"
    using assms(2) by (simp add: nat_less_iff)
  with assms show ?thesis
    using sgw_client_call_ok [of t "plain_env n hss sgw E" pkt w] by (simp add: plain_env_def)
qed

lemma plain_env_simps [simp]:
  "UE_BINDING (build_of (plain_env n hss sgw E)) = UE_BASED" "\<not> REP (build_of (plain_env n hss sgw E))"
  "hss_client (plain_env n hss sgw E) b w = Inr (hss b w)"
  by (simp_all add: plain_env_def)

lemma prepend_s1ap_id: "prepend_s1ap_hdr t l e i p = Inr q \<Longrightarrow> mme_s1ap_ue_id (s1ap_hdr q) = i"
  by (auto simp: prepend_s1ap_hdr_def prepend_raw_def bindE_eq_Inr Let_def)

lemma detach_v1_v2:
  assumes "mme_s1ap_ue_id h \<noteq> 0" and "msg_type_s h = 5" and "s1mme_id m (mme_s1ap_ue_id h) = Some guti"
    and "guti \<noteq> 0" and "length body \<le> 1000" and "1 \<le> n" and "n \<le> 50" and "0 \<le> sint (s11_cteid_mme_m (ue_at guti m))"
  shows "same turn_sent (mme_handle_ue X fresh hss sgw fd (Rx (s1ap_bytes h @ body)) m w)
    (mme2_handle_ue X (plain_env n hss sgw E) fresh fr blank fd (Rx (s1ap_bytes h @ body)) m w)"
proof -
  obtain g s d where f: "fresh = (g, s, d)"
    by (cases fresh)
  show ?thesis
    using assms
    by (auto simp: f mme_handle_ue_def mme2_handle_ue_def local_packet_def mme_handle_detach_def mme2_handle_detach_def
        guti_or_exit_def Let_def plain_call bindE_assoc split_beta prepend_s1ap_id cong: if_cong intro!: same_bind)
qed

text \<open>Attach of a UE that has no context yet. The request to the HSS and its answer are arbitrary.\<close>

lemma attach_v1_v2:
  assumes "\<And>guti. ue_ctx_m m guti = None" and "mme_s1ap_ue_id h = 0" and "msg_type_s h = 1"  and "length body \<le> 1000"
  shows "same turn_sent (mme_handle_ue X fresh hss sgw fd (Rx (s1ap_bytes h @ body)) m w)
    (mme2_handle_ue X (plain_env n hss sgw E) fresh fr blank fd (Rx (s1ap_bytes h @ body)) m w)"
proof -
  obtain g s d where f: "fresh = (g, s, d)"
    by (cases fresh)
  show ?thesis
    using assms
    by (auto simp: f mme_handle_ue_def mme2_handle_ue_def local_packet_def mme_handle_initial_attach_def mme2_handle_initial_attach_def
        Let_def bindE_assoc split_beta upd_ue_def put_ue_def put_id_def modify_at_def at_or_def ue_at_def cong: if_cong intro!: same_bind)
qed

end
