(* ===== verification/Epc2_Kvs_Wire.thy ===== *)
theory Epc2_Kvs_Wire
  imports Epc_Packet
begin

section \<open>The data store client: messages (kvstore_client.cpp)\<close>

text \<open>
  Class \<open>KVStoreClient\<close>: a message is a vector of strings, sent as one byte with their number, and
  for each its length in four bytes, most significant first, and its characters. \<open>send\<close> repeats
  \<open>write\<close> and \<open>receive\<close> repeats \<open>read\<close>; what the system calls do is a list of events. Without a further event the
  caller waits for ever.

  \<open>batoi\<close> computes the length and has no \<open>return\<close>: \<open>ret\<close> is the value its caller gets when the
  function has computed \<open>i\<close>. What the protocol needs is \<open>ret i = i\<close> (\<open>falls_through\<close>), which the language does not promise.
\<close>

definition MAX_INPUT_SIZE :: nat where
  "MAX_INPUT_SIZE = 1048576"

definition falls_through :: "(u32 \<Rightarrow> u32) \<Rightarrow> bool" where
  "falls_through ret \<longleftrightarrow> (\<forall>i. ret i = i)"

definition itoba :: "u32 \<Rightarrow> u8 list" where
  "itoba i = [ucast (drop_bit 24 i), ucast (drop_bit 16 i), ucast (drop_bit 8 i), ucast i]"

definition batoi :: "(u32 \<Rightarrow> u32) \<Rightarrow> u8 list \<Rightarrow> u32" where
  "batoi ret ba =
     ret (or (or (or (push_bit 24 (ucast (ba ! 0))) (push_bit 16 (ucast (ba ! 1)))) (push_bit 8 (ucast (ba ! 2))))
       (ucast (ba ! 3)))"

subsection \<open>Sending\<close>

datatype kv_wr =
    Wrote nat
  | Wr_retry
  | Wr_fail

text \<open>\<open>strncpy(dst, s.c_str(), s.size())\<close> stops at a NUL and fills with zeros.\<close>

definition strncpy :: "string \<Rightarrow> u8 list" where
  "strncpy s = char_bytes (c_str s) @ replicate (length s - length (c_str s)) 0"

definition kv_message :: "string list \<Rightarrow> u8 list" where
  "kv_message v = of_nat (length v) # concat (map (\<lambda>s. itoba (of_nat (length s)) @ strncpy s) v)"

fun kv_write_loop :: "kv_wr list \<Rightarrow> u8 list \<Rightarrow> u8 list res" where
  "kv_write_loop ws [] = Inr []"
| "kv_write_loop [] d = Inr d"
| "kv_write_loop (Wrote n # ws) d = bindE (kv_write_loop ws (drop n d)) (\<lambda>sent. Inr (take n d @ sent))"
| "kv_write_loop (Wr_retry # ws) d = kv_write_loop ws d"
| "kv_write_loop (Wr_fail # ws) d = Inl (Exit ''ERROR writing to socket'')"

definition kv_send :: "kv_wr list \<Rightarrow> string list \<Rightarrow> u8 list res" where
  "kv_send ws v = kv_write_loop ws (kv_message v)"

subsection \<open>Receiving\<close>

datatype kv_rd =
    Rd "u8 list"
  | Rd_retry
  | Rd_fail

fun rd_size :: "kv_rd \<Rightarrow> nat" where
  "rd_size (Rd bs) = Suc (length bs)"
| "rd_size _ = 1"

text \<open>
  The loop \<open>while (sumn != sz)\<close> over \<open>inputbuf\<close>: the result of \<open>read\<close> is added to \<open>sumn\<close> before it is
  looked at, so an interrupted call takes one off.
\<close>

function kv_read_loop :: "int \<Rightarrow> int \<Rightarrow> u8 list \<Rightarrow> kv_rd list \<Rightarrow> (u8 list \<times> kv_rd list) res" where
  "kv_read_loop sz sumn buf evs =
     (if sumn = sz then Inr (buf, evs)
      else
        case evs of
          [] \<Rightarrow> Inl Blocked
        | Rd_retry # evs \<Rightarrow> kv_read_loop sz (sumn - 1) buf evs
        | Rd_fail # evs \<Rightarrow> Inl (Exit ''ERROR reading from socket'')
        | Rd bs # evs \<Rightarrow>
            let n = (if sz < sumn then length bs else min (length bs) (nat (sz - sumn))) in
            case buf_write buf sumn (take n bs) of
              Inl e \<Rightarrow> Inl e
            | Inr buf \<Rightarrow> kv_read_loop sz (sumn + int n) buf (if n < length bs then Rd (drop n bs) # evs else evs))"
  by pat_completeness auto
termination
  by (relation "measure (\<lambda>(_, _, _, evs). sum_list (map rd_size evs))") auto

declare kv_read_loop.simps [simp del]

definition kv_read_string ::
  "(u32 \<Rightarrow> u32) \<Rightarrow> u8 list \<Rightarrow> kv_rd list \<Rightarrow> (string \<times> u8 list \<times> kv_rd list) res" where
  "kv_read_string ret buf evs =
     bindE (kv_read_loop 4 0 buf evs) (\<lambda>(buf, evs).
     let sz = sint (batoi ret (take 4 buf)) in
     bindE (kv_read_loop sz 0 buf evs) (\<lambda>(buf, evs).
     if sz < 0 then Inl (Uncaught ''std::length_error: string'')
     else bindE (buf_read buf 0 sz) (\<lambda>bs. Inr (bytes_char bs, buf, evs))))"

fun kv_read_strings ::
  "(u32 \<Rightarrow> u32) \<Rightarrow> nat \<Rightarrow> u8 list \<Rightarrow> kv_rd list \<Rightarrow> (string list \<times> u8 list \<times> kv_rd list) res" where
  "kv_read_strings ret 0 buf evs = Inr ([], buf, evs)"
| "kv_read_strings ret (Suc n) buf evs =
     bindE (kv_read_string ret buf evs) (\<lambda>(s, buf, evs).
     bindE (kv_read_strings ret n buf evs) (\<lambda>(v, buf, evs).
     Inr (s # v, buf, evs)))"

text \<open>\<open>(int)inputbuf[0]\<close> reads a signed \<open>char\<close>.\<close>

definition kv_receive ::
  "(u32 \<Rightarrow> u32) \<Rightarrow> u8 list \<Rightarrow> kv_rd list \<Rightarrow> (string list \<times> u8 list \<times> kv_rd list) res" where
  "kv_receive ret buf evs =
     bindE (kv_read_loop 1 0 buf evs) (\<lambda>(buf, evs).
     let n = sint (buf ! 0) in
     if n < 0 then Inl (Uncaught ''std::length_error: vector'')
     else kv_read_strings ret (nat n) buf evs)"

subsection \<open>Writing\<close>

lemma write_loop_sends: "kv_write_loop ws d = Inr sent \<Longrightarrow> sent = d"
  by (induction ws d arbitrary: sent rule: kv_write_loop.induct) (auto simp: bindE_eq_Inr)

lemma write_loop_completes: "Wr_fail \<notin> set ws \<Longrightarrow> kv_write_loop ws d = Inr d"
  by (induction ws d rule: kv_write_loop.induct) auto

subsection \<open>Reading\<close>

definition rd_ok :: "kv_rd list \<Rightarrow> bool" where
  "rd_ok evs \<longleftrightarrow> (\<forall>e \<in> set evs. \<exists>bs. e = Rd bs)"

fun rd_bytes :: "kv_rd list \<Rightarrow> u8 list" where
  "rd_bytes [] = []"
| "rd_bytes (Rd bs # evs) = bs @ rd_bytes evs"
| "rd_bytes (_ # evs) = rd_bytes evs"

lemma read_loop_kvs:
  assumes "rd_ok evs" and "n \<le> length (rd_bytes evs)" and "k + n \<le> length buf"
  shows "\<exists>evs'. kv_read_loop (int (k + n)) (int k) buf evs =
      Inr (take k buf @ take n (rd_bytes evs) @ drop (k + n) buf, evs') \<and>
    rd_ok evs' \<and> rd_bytes evs' = drop n (rd_bytes evs)"
  using assms
proof (induction "sum_list (map rd_size evs)" arbitrary: evs n k buf rule: less_induct)
  case less
  show ?case
  proof (cases "n = 0")
    case True
    with less.prems show ?thesis
      by (simp add: kv_read_loop.simps [of "int k"])
  next
    case False
    then obtain bs evs1 where evs: "evs = Rd bs # evs1"
      using less.prems by (cases evs) (auto simp: rd_ok_def)
    define j where "j = min (length bs) n"
    define evs2 where "evs2 = (if j < length bs then Rd (drop j bs) # evs1 else evs1)"
    define buf2 where "buf2 = take k buf @ take j bs @ drop (k + j) buf"
    have w: "buf_write buf (int k) (take j bs) = Inr buf2"
      using less.prems(3) by (simp add: buf_write_def buf2_def j_def min_def)
    have b: "rd_bytes evs2 = drop j (rd_bytes evs)" "take j bs = take j (rd_bytes evs)"
      by (auto simp: evs2_def evs j_def min_def)
    have ok: "rd_ok evs2" "sum_list (map rd_size evs2) < sum_list (map rd_size evs)"
      using less.prems(1) False by (auto simp: evs2_def evs rd_ok_def j_def min_def)
    have "n - j \<le> length (rd_bytes evs2)" and "k + j + (n - j) \<le> length buf2"
      using less.prems(2,3) by (auto simp: b j_def buf2_def)
    from less.hyps [OF ok(2,1) this] obtain evs' where
      IH: "kv_read_loop (int (k + j + (n - j))) (int (k + j)) buf2 evs2 =
        (Inr (take (k + j) buf2 @ take (n - j) (rd_bytes evs2) @ drop (k + j + (n - j)) buf2, evs'))"
        "rd_ok evs'" "rd_bytes evs' = drop (n - j) (rd_bytes evs2)"
      by blast
    have j: "j \<le> n" "j \<le> length bs"
      by (simp_all add: j_def)
    have l: "length (take j bs) = j"
      using j by simp
    have "take (k + j) buf2 = take k buf @ take j (rd_bytes evs)"
      using less.prems(3) j l by (simp add: buf2_def b(2) [symmetric] min_absorb2)
    moreover have "drop (k + n) buf2 = drop (k + n) buf"
      using less.prems(3) j l by (simp add: buf2_def min_absorb2 add.commute)
    moreover have "take j (rd_bytes evs) @ take (n - j) (rd_bytes evs2) = take n (rd_bytes evs)"
      using j by (simp add: b(1)) (metis le_add_diff_inverse take_add)
    ultimately have "kv_read_loop (int (k + n)) (int (k + j)) buf2 evs2 =
        (Inr (take k buf @ take n (rd_bytes evs) @ drop (k + n) buf, evs'))"
      using IH(1) j by (metis append.assoc le_add_diff_inverse add.assoc)
    moreover have "kv_read_loop (int (k + n)) (int k) buf evs = kv_read_loop (int (k + n)) (int (k + j)) buf2 evs2"
      using False w by (simp add: kv_read_loop.simps [of "int k + int n" "int k"] evs Let_def j_def [symmetric] evs2_def)
    moreover have "rd_bytes evs' = drop n (rd_bytes evs)"
      using IH(3) b(1) j by simp
    ultimately show ?thesis
      using IH(2) by auto
  qed
qed

lemma batoi_itoba:
  assumes "falls_through ret"
  shows "batoi ret (itoba i) = i"
proof -
  have "or (or (or (push_bit 24 (ucast (ucast (drop_bit 24 i) :: u8))) (push_bit 16 (ucast (ucast (drop_bit 16 i) :: u8))))
      (push_bit 8 (ucast (ucast (drop_bit 8 i) :: u8)))) (ucast (ucast i :: u8)) = i"
  proof (rule bit_word_eqI)
    fix n
    assume "n < LENGTH(32)"
    then consider "n < 8" | "8 \<le> n" "n < 16" | "16 \<le> n" "n < 24" | "24 \<le> n" "n < 32"
      by fastforce
    then show "bit (or (or (or (push_bit 24 (ucast (ucast (drop_bit 24 i) :: u8))) (push_bit 16 (ucast (ucast (drop_bit 16 i) :: u8))))
      (push_bit 8 (ucast (ucast (drop_bit 8 i) :: u8)))) (ucast (ucast i :: u8)) :: u32) n = bit i n"
      by cases (auto simp: bit_simps)
  qed
  with assms show ?thesis
    by (simp add: batoi_def itoba_def falls_through_def)
qed

text \<open>A string that the buffer of the client can hold and that survives \<open>c_str\<close>.\<close>

definition kv_string_ok :: "string \<Rightarrow> bool" where
  "kv_string_ok s \<longleftrightarrow> nul_free s \<and> length s \<le> MAX_INPUT_SIZE"

lemma strncpy_ok [simp]: "nul_free s \<Longrightarrow> strncpy s = char_bytes s"
  by (simp add: strncpy_def)

lemma length_itoba [simp]: "length (itoba i) = 4"
  by (simp add: itoba_def)

lemma read_string_ok:
  assumes "falls_through ret" and "kv_string_ok s" and "rd_ok evs" and "length buf = MAX_INPUT_SIZE"
    and "rd_bytes evs = itoba (of_nat (length s)) @ strncpy s @ rest"
  shows "\<exists>buf' evs'. kv_read_string ret buf evs = Inr (s, buf', evs') \<and> length buf' = MAX_INPUT_SIZE \<and>
    rd_ok evs' \<and> rd_bytes evs' = rest"
proof -
  have s: "strncpy s = char_bytes s" "length s \<le> MAX_INPUT_SIZE"
    using assms(2) by (simp_all add: kv_string_ok_def)
  obtain evs1 where r1: "kv_read_loop 4 0 buf evs = Inr (itoba (of_nat (length s)) @ drop 4 buf, evs1)"
    "rd_ok evs1" "rd_bytes evs1 = char_bytes s @ rest"
    using read_loop_kvs [OF assms(3), of 4 0 buf] assms(4,5) s by (auto simp: MAX_INPUT_SIZE_def)
  let ?buf = "itoba (of_nat (length s)) @ drop 4 buf"
  obtain evs2 where r2: "kv_read_loop (int (length s)) 0 ?buf evs1 =
      Inr (char_bytes s @ drop (length s) ?buf, evs2)" "rd_ok evs2" "rd_bytes evs2 = rest"
    using read_loop_kvs [OF r1(2), of "length s" 0 ?buf] r1(3) assms(4) s by (auto simp: MAX_INPUT_SIZE_def)
  have "sint (of_nat (length s) :: u32) = int (length s)"
    using s(2) by (simp add: signed_of_nat signed_take_bit_int_eq_self MAX_INPUT_SIZE_def)
  then have z: "sint (batoi ret (itoba (of_nat (length s)))) = int (length s)"
    using batoi_itoba [OF assms(1), of "of_nat (length s)"] by simp
  have "buf_read (char_bytes s @ drop (length s) ?buf) 0 (int (length s)) = Inr (char_bytes s)"
    using s(2) assms(4) by (simp add: buf_read_def MAX_INPUT_SIZE_def)
  moreover have "length (char_bytes s @ drop (length s) ?buf) = MAX_INPUT_SIZE"
    using s(2) assms(4) by (simp add: MAX_INPUT_SIZE_def)
  ultimately show ?thesis
    using r1(1) r2 by (simp add: kv_read_string_def z Let_def del: drop_append length_append)
qed

lemma read_strings_ok:
  assumes "falls_through ret" and "\<forall>s \<in> set v. kv_string_ok s" and "rd_ok evs" and "length buf = MAX_INPUT_SIZE"
    and "rd_bytes evs = concat (map (\<lambda>s. itoba (of_nat (length s)) @ strncpy s) v) @ rest"
  shows "\<exists>buf' evs'. kv_read_strings ret (length v) buf evs = Inr (v, buf', evs') \<and> length buf' = MAX_INPUT_SIZE \<and>
    rd_ok evs' \<and> rd_bytes evs' = rest"
  using assms
proof (induction v arbitrary: buf evs)
  case (Cons s v)
  then have "kv_string_ok s" and "rd_bytes evs =
      itoba (of_nat (length s)) @ strncpy s @ (concat (map (\<lambda>s. itoba (of_nat (length s)) @ strncpy s) v) @ rest)"
    by simp_all
  from read_string_ok [OF Cons.prems(1) this(1) Cons.prems(3,4) this(2)] obtain buf1 evs1 where
    1: "kv_read_string ret buf evs = Inr (s, buf1, evs1)" "length buf1 = MAX_INPUT_SIZE" "rd_ok evs1"
      "rd_bytes evs1 = concat (map (\<lambda>s. itoba (of_nat (length s)) @ strncpy s) v) @ rest"
    by blast
  obtain buf2 evs2 where 2: "kv_read_strings ret (length v) buf1 evs1 = Inr (v, buf2, evs2)"
      "length buf2 = MAX_INPUT_SIZE" "rd_ok evs2" "rd_bytes evs2 = rest"
    using Cons.IH [OF Cons.prems(1) _ 1(3,2,4)] Cons.prems(2) by auto
  from 1(1) 2 show ?case
    by (simp add:)
qed (simp add:)

text \<open>A message of at most 127 strings arrives as it was sent, however \<open>write\<close> and \<open>read\<close> cut it.\<close>

lemma kv_receive_ok:
  assumes "falls_through ret" and "length v \<le> 127" and "\<forall>s \<in> set v. kv_string_ok s" and "rd_ok evs"
    and "length buf = MAX_INPUT_SIZE" and "rd_bytes evs = kv_message v @ rest"
  shows "\<exists>buf' evs'. kv_receive ret buf evs = Inr (v, buf', evs') \<and> length buf' = MAX_INPUT_SIZE \<and>
    rd_ok evs' \<and> rd_bytes evs' = rest"
proof -
  let ?m = "concat (map (\<lambda>s. itoba (of_nat (length s)) @ strncpy s) v)"
  obtain evs1 where r1: "kv_read_loop 1 0 buf evs = Inr (of_nat (length v) # drop 1 buf, evs1)" "rd_ok evs1"
      "rd_bytes evs1 = ?m @ rest"
    using read_loop_kvs [OF assms(4), of 1 0 buf] assms(5,6) by (auto simp: kv_message_def MAX_INPUT_SIZE_def)
  have "sint (of_nat (length v) :: u8) = int (length v)"
    using assms(2) by (simp add: signed_of_nat signed_take_bit_int_eq_self)
  moreover have "length (of_nat (length v) # drop 1 buf) = MAX_INPUT_SIZE"
    using assms(5) by (simp add: MAX_INPUT_SIZE_def)
  ultimately show ?thesis
    using read_strings_ok [OF assms(1,3) r1(2) _ r1(3)] by (simp add: kv_receive_def r1(1))
qed

text \<open>From 128 strings on, the number is read as a negative one.\<close>

lemma kv_receive_many:
  assumes "128 \<le> length v" and "length v \<le> 255" and "rd_ok evs" and "length buf = MAX_INPUT_SIZE"
    and "rd_bytes evs = kv_message v @ rest"
  shows "kv_receive ret buf evs = Inl (Uncaught ''std::length_error: vector'')"
proof -
  obtain evs1 where "kv_read_loop 1 0 buf evs = Inr (of_nat (length v) # drop 1 buf, evs1)"
    using read_loop_kvs [OF assms(3), of 1 0 buf] assms(4,5) by (auto simp: kv_message_def MAX_INPUT_SIZE_def)
  moreover have "sint (of_nat (length v) :: u8) < 0"
  proof -
    obtain k where k: "length v = 128 + k" "k < 128"
      using assms(1,2) le_Suc_ex by fastforce
    then have odd: "odd (int (length v) div 128)"
      by (simp add: div_add_self1)
    have "sint (of_nat (length v) :: u8) = int (length v) - 256"
      using assms(1,2) odd by (simp add: signed_of_nat signed_take_bit_eq_take_bit_minus take_bit_int_eq_self bit_iff_odd)
    with assms(2) show ?thesis by simp
  qed
  ultimately show ?thesis
    by (simp add: kv_receive_def)
qed

text \<open>An interrupted call at the start of a message makes the client write in front of its buffer.\<close>

lemma kv_receive_interrupted:
  assumes "bs \<noteq> []"
  shows "kv_receive ret buf (Rd_retry # Rd bs # evs) = Inl (Undefined ''memmove: write out of range'')"
  using assms
  by (cases bs) (simp_all add: kv_receive_def kv_read_loop.simps [of 1] buf_write_def Let_def)

end
