(* ===== verification/Epc2_Kvs_Server.thy ===== *)
theory Epc2_Kvs_Server
  imports Epc2_Kvs_Wire
begin

section \<open>The data store server (server.go, lmemdb_kvstore.go)\<close>

text \<open>
  The server of the LevelDB data store, a Go program: \<open>TableManager\<close> maps a table name to an open
  database, a client connection has a current table, and a request is one task or, after the word \<open>Multiple\<close>, a row of tasks
  whose results are concatenated. An index out of range ends the server (\<open>Uncaught\<close>). Messages are
  read whole: the server does not repeat a read that returns part of a count or a length, and that case
  is not modelled.

  LevelDB is not part of the repository: \<open>leveldb\<close> has its calls on a disk of any type, \<open>leveldb_ok\<close>
  says that a database is a map. A disk that is a map of maps is an instance.
\<close>

subsection \<open>LevelDB\<close>

record 'd leveldb =
  ldb_open :: "string \<Rightarrow> 'd \<Rightarrow> bool \<times> 'd"
  ldb_get :: "string \<Rightarrow> string \<Rightarrow> 'd \<Rightarrow> string + string"
  ldb_put :: "string \<Rightarrow> string \<Rightarrow> string \<Rightarrow> 'd \<Rightarrow> string option \<times> 'd"
  ldb_delete :: "string \<Rightarrow> string \<Rightarrow> 'd \<Rightarrow> string option \<times> 'd"
  ldb_renew :: "string \<Rightarrow> 'd \<Rightarrow> bool \<times> 'd"

definition leveldb_ok :: "'d leveldb \<Rightarrow> ('d \<Rightarrow> string \<Rightarrow> string \<rightharpoonup> string) \<Rightarrow> bool" where
  "leveldb_ok L V \<longleftrightarrow>
     (\<forall>t d. fst (ldb_open L t d) \<and> V (snd (ldb_open L t d)) = V d) \<and>
     (\<forall>t k d. ldb_get L t k d = (case V d t k of None \<Rightarrow> Inl ''leveldb: not found'' | Some v \<Rightarrow> Inr v)) \<and>
     (\<forall>t k v d. fst (ldb_put L t k v d) = None \<and> V (snd (ldb_put L t k v d)) = (V d)(t := (V d t)(k \<mapsto> v))) \<and>
     (\<forall>t k d. fst (ldb_delete L t k d) = None \<and> V (snd (ldb_delete L t k d)) = (V d)(t := (V d t)(k := None))) \<and>
     (\<forall>t d. fst (ldb_renew L t d) \<and> V (snd (ldb_renew L t d)) = (V d)(t := Map.empty))"

definition sample_leveldb :: "(string \<Rightarrow> string \<rightharpoonup> string) leveldb" where
  "sample_leveldb =
     \<lparr>ldb_open = (\<lambda>t d. (True, d)),
      ldb_get = (\<lambda>t k d. case d t k of None \<Rightarrow> Inl ''leveldb: not found'' | Some v \<Rightarrow> Inr v),
      ldb_put = (\<lambda>t k v d. (None, d(t := (d t)(k \<mapsto> v)))),
      ldb_delete = (\<lambda>t k d. (None, d(t := (d t)(k := None)))),
      ldb_renew = (\<lambda>t d. (True, d(t := Map.empty)))\<rparr>"

lemma leveldb_ok_sample: "leveldb_ok sample_leveldb (\<lambda>d. d)"
  by (simp add: leveldb_ok_def sample_leveldb_def)

subsection \<open>Tasks\<close>

record 'd kvs =
  tablemap :: "string set"
  disk :: 'd

type_synonym 'd kv_client = "string option \<times> 'd kvs"

definition kvs_create_table :: "'d leveldb \<Rightarrow> string \<Rightarrow> 'd kv_client \<Rightarrow> bool \<times> 'd kv_client" where
  "kvs_create_table L tablename c =
     (case c of (cur, s) \<Rightarrow>
      if tablename \<in> tablemap s then (True, Some tablename, s)
      else case ldb_open L tablename (disk s) of (ok, d) \<Rightarrow>
        if ok then (True, Some tablename, s\<lparr>tablemap := insert tablename (tablemap s), disk := d\<rparr>)
        else (False, cur, s\<lparr>disk := d\<rparr>))"

definition kvs_get :: "'d leveldb \<Rightarrow> string \<Rightarrow> 'd kv_client \<Rightarrow> string \<times> string \<times> int" where
  "kvs_get L key c =
     (case c of (None, s) \<Rightarrow> ('''', ''Can not access table'', -1)
      | (Some t, s) \<Rightarrow> case ldb_get L t key (disk s) of Inl err \<Rightarrow> ('''', err, -1) | Inr v \<Rightarrow> (v, '''', 0))"

definition kvs_put :: "'d leveldb \<Rightarrow> string \<Rightarrow> string \<Rightarrow> 'd kv_client \<Rightarrow> (string \<times> int) \<times> 'd kv_client" where
  "kvs_put L key val c =
     (case c of (None, s) \<Rightarrow> ((''Can not access table'', -1), c)
      | (Some t, s) \<Rightarrow> case ldb_put L t key val (disk s) of (err, d) \<Rightarrow>
          ((case err of None \<Rightarrow> ('''', 0) | Some e \<Rightarrow> (e, -1)), Some t, s\<lparr>disk := d\<rparr>))"

definition kvs_del :: "'d leveldb \<Rightarrow> string \<Rightarrow> 'd kv_client \<Rightarrow> (string \<times> int) \<times> 'd kv_client" where
  "kvs_del L key c =
     (case c of (None, s) \<Rightarrow> ((''Can not access table'', -1), c)
      | (Some t, s) \<Rightarrow> case ldb_delete L t key (disk s) of (err, d) \<Rightarrow>
          ((case err of None \<Rightarrow> ('''', 0) | Some e \<Rightarrow> (e, -1)), Some t, s\<lparr>disk := d\<rparr>))"

definition kvs_clear :: "'d leveldb \<Rightarrow> 'd kv_client \<Rightarrow> bool \<times> 'd kv_client" where
  "kvs_clear L c =
     (case c of (None, s) \<Rightarrow> (False, c)
      | (Some t, s) \<Rightarrow> case ldb_renew L t (disk s) of (ok, d) \<Rightarrow>
          (ok, Some t, s\<lparr>tablemap := (if ok then insert t (tablemap s) else tablemap s), disk := d\<rparr>))"

text \<open>\<open>strconv.Itoa\<close>, and an element of a slice.\<close>

definition Itoa :: "int \<Rightarrow> string" where
  "Itoa i = (if i < 0 then CHR ''-'' # to_string (nat (- i)) else to_string (nat i))"

definition slice_at :: "string list \<Rightarrow> nat \<Rightarrow> string res" where
  "slice_at v i = (if i < length v then Inr (v ! i) else Inl (Uncaught ''index out of range''))"

text \<open>
  \<open>performTask\<close>: the results and how many strings of the request it used. \<open>Clear\<close> closes the database,
  deletes its directory and opens it again; \<open>ldb_renew\<close> is these three calls.
\<close>

definition perform_task ::
  "'d leveldb \<Rightarrow> string list \<Rightarrow> 'd kv_client \<Rightarrow> ((string list \<times> nat) \<times> 'd kv_client) res" where
  "perform_task L v c =
     bindE (slice_at v 0) (\<lambda>opr.
     if opr = ''CreateTable'' then
       bindE (slice_at v 1) (\<lambda>t. Inr (([''true''], 2), snd (kvs_create_table L t c)))
     else if opr = ''Get'' then
       bindE (slice_at v 1) (\<lambda>k.
       case kvs_get L k c of (val, serr, ierr) \<Rightarrow> Inr (([val, serr, Itoa ierr], 2), c))
     else if opr = ''Put'' then
       bindE (slice_at v 1) (\<lambda>k.
       bindE (slice_at v 2) (\<lambda>val.
       case kvs_put L k val c of ((serr, ierr), c) \<Rightarrow> Inr (([[], serr, Itoa ierr], 3), c)))
     else if opr = ''Del'' then
       bindE (slice_at v 1) (\<lambda>k.
       case kvs_del L k c of ((serr, ierr), c) \<Rightarrow> Inr (([[], serr, Itoa ierr], 2), c))
     else if opr = ''Clear'' then Inr (([''true''], 1), snd (kvs_clear L c))
     else Inr (([[]], 1), c))"

lemma perform_task_uses: "perform_task L v c = Inr ((r, n), c') \<Longrightarrow> 0 < n \<and> v \<noteq> []"
  by (auto simp: perform_task_def slice_at_def bindE_eq_Inr split: if_splits prod.splits)

function perform_multiple ::
  "'d leveldb \<Rightarrow> string list \<Rightarrow> 'd kv_client \<Rightarrow> (string list \<times> 'd kv_client) res" where
  "perform_multiple L v c =
     (if v = [] then Inr ([], c)
      else
        bindE (perform_task L v c) (\<lambda>((r, n), c).
        bindE (perform_multiple L (drop n v) c) (\<lambda>(r', c).
        Inr (r @ r', c))))"
  by pat_completeness auto
termination
  by (relation "measure (\<lambda>(_, v, _). length v)") (auto dest: perform_task_uses)

declare perform_multiple.simps [simp del]

definition do_task :: "'d leveldb \<Rightarrow> string list \<Rightarrow> 'd kv_client \<Rightarrow> (string list \<times> 'd kv_client) res" where
  "do_task L v c =
     bindE (slice_at v 0) (\<lambda>opr.
     if opr = ''Multiple'' then perform_multiple L (tl v) c
     else bindE (perform_task L v c) (\<lambda>((r, n), c). Inr (r, c)))"

subsection \<open>Messages\<close>

definition write_strings :: "string list \<Rightarrow> u8 list" where
  "write_strings v = of_nat (length v) # concat (map (\<lambda>s. itoba (of_nat (length s)) @ char_bytes s) v)"

definition read_string :: "u8 list \<Rightarrow> (string \<times> u8 list) res" where
  "read_string bs =
     (if length bs < 4 then Inl Blocked
      else
        let n = unat (batoi (\<lambda>i. i) (take 4 bs)); r = drop 4 bs in
        if length r < n then Inl Blocked else Inr (bytes_char (take n r), drop n r))"

fun read_strings_loop :: "nat \<Rightarrow> u8 list \<Rightarrow> (string list \<times> u8 list) res" where
  "read_strings_loop 0 bs = Inr ([], bs)"
| "read_strings_loop (Suc n) bs =
     bindE (read_string bs) (\<lambda>(s, bs).
     bindE (read_strings_loop n bs) (\<lambda>(v, bs).
     Inr (s # v, bs)))"

definition read_strings :: "u8 list \<Rightarrow> (string list \<times> u8 list) res" where
  "read_strings bs = (case bs of [] \<Rightarrow> Inl Blocked | b # bs \<Rightarrow> read_strings_loop (unat b) bs)"

text \<open>One turn of \<open>handleClient\<close>.\<close>

definition handle_client :: "'d leveldb \<Rightarrow> u8 list \<Rightarrow> 'd kv_client \<Rightarrow> (u8 list \<times> 'd kv_client) res" where
  "handle_client L bs c =
     bindE (read_strings bs) (\<lambda>(v, _).
     bindE (do_task L v c) (\<lambda>(r, c).
     Inr (write_strings r, c)))"

subsection \<open>Messages arrive\<close>

lemma unat_length_u32: "length s < 2 ^ 32 \<Longrightarrow> unat (of_nat (length s) :: u32) = length s"
  by (simp add: unat_of_nat)

lemma read_string_message:
  assumes "length s < 2 ^ 32"
  shows "read_string (itoba (of_nat (length s)) @ char_bytes s @ r) = Inr (s, r)"
proof -
  have "batoi (\<lambda>i. i) (itoba (of_nat (length s))) = of_nat (length s)"
    by (rule batoi_itoba) (simp add: falls_through_def)
  with assms show ?thesis
    by (simp add: read_string_def unat_length_u32)
qed

lemma read_strings_loop_message:
  assumes "\<forall>s \<in> set v. length s < 2 ^ 32"
  shows "read_strings_loop (length v) (concat (map (\<lambda>s. itoba (of_nat (length s)) @ char_bytes s) v) @ r) = Inr (v, r)"
  using assms
proof (induction v)
  case (Cons s v)
  then show ?case
    using read_string_message [of s "concat (map (\<lambda>s. itoba (of_nat (length s)) @ char_bytes s) v) @ r"] by simp
qed simp

lemma kv_message_write: "\<forall>s \<in> set v. nul_free s \<Longrightarrow> kv_message v = write_strings v"
  by (simp add: kv_message_def write_strings_def cong: map_cong)

lemma read_strings_message:
  assumes "length v \<le> 255" and "\<forall>s \<in> set v. nul_free s \<and> length s < 2 ^ 32"
  shows "read_strings (kv_message v) = Inr (v, [])"
proof -
  have "unat (of_nat (length v) :: u8) = length v"
    using assms(1) by (simp add: unat_of_nat)
  with assms read_strings_loop_message [of v "[]"] show ?thesis
    by (simp add: kv_message_write write_strings_def read_strings_def)
qed

end
