(* ===== verification/Epc2_Kvs.thy ===== *)
theory Epc2_Kvs
  imports Epc2_Kvs_Server Epc2_Store
begin

section \<open>The data store library (KVImplLevelDB.cpp, KVStoreHeader.h, KVStoreHeader.cpp)\<close>

text \<open>
  \<open>KVImplHelper\<close> turns an operation into a message, waits for the answer and reads it; \<open>KVStore\<close> adds the
  conversion of keys and values to text, \<open>KVRequest\<close> collects operations and executes them in
  three messages. \<open>kv_net\<close> is the network: the events of the client's \<open>write\<close> and \<open>read\<close> calls and the value
  \<open>batoi\<close> leaves; \<open>boost\<close> is \<open>toBoostString\<close> and \<open>toBoostObject\<close> on the key and value types and the value of a new
  object. A connection is the client's buffer with the server's view of the client. The asynchronous
  operations have no caller in the packet core and are not modelled; \<open>serr\<close>, the error text, is only printed and left out.
\<close>

record kv_net =
  batoi_ret :: "u32 \<Rightarrow> u32"
  wr_events :: "kv_wr list"
  rd_events :: "u8 list \<Rightarrow> kv_rd list"

definition net_ok :: "kv_net \<Rightarrow> bool" where
  "net_ok N \<longleftrightarrow> falls_through (batoi_ret N) \<and> Wr_fail \<notin> set (wr_events N) \<and>
     (\<forall>bs. rd_ok (rd_events N bs) \<and> rd_bytes (rd_events N bs) = bs)"

type_synonym 'd kv_conn = "u8 list \<times> 'd kv_client"

subsection \<open>The LevelDB implementation\<close>

text \<open>A request and its answer: the client sends, the server serves, the client receives.\<close>

definition kv_call :: "kv_net \<Rightarrow> 'd leveldb \<Rightarrow> string list \<Rightarrow> 'd kv_conn \<Rightarrow> (string list \<times> 'd kv_conn) res" where
  "kv_call N L v cn =
     (case cn of (buf, c) \<Rightarrow>
     bindE (kv_send (wr_events N) v) (\<lambda>bs.
     bindE (handle_client L bs c) (\<lambda>(reply, c).
     bindE (kv_receive (batoi_ret N) buf (rd_events N reply)) (\<lambda>(r, buf, _).
     Inr (r, buf, c)))))"

definition vec_at :: "'a list \<Rightarrow> nat \<Rightarrow> 'a res" where
  "vec_at v i = (if i < length v then Inr (v ! i) else Inl (Undefined ''vector: index out of range''))"

definition impl_bind :: "kv_net \<Rightarrow> 'd leveldb \<Rightarrow> string \<Rightarrow> 'd kv_conn \<Rightarrow> (bool \<times> 'd kv_conn) res" where
  "impl_bind N L tablename cn =
     bindE (kv_call N L [''CreateTable'', tablename] cn) (\<lambda>(v, cn).
     bindE (vec_at v 0) (\<lambda>r. Inr (r = ''true'', cn)))"

definition impl_get :: "kv_net \<Rightarrow> 'd leveldb \<Rightarrow> string \<Rightarrow> string \<Rightarrow> 'd kv_conn \<Rightarrow> (string kvdata \<times> 'd kv_conn) res" where
  "impl_get N L tablename key cn =
     bindE (kv_call N L [''Multiple'', ''CreateTable'', tablename, ''Get'', key] cn) (\<lambda>(v, cn).
     bindE (vec_at v 2) (\<lambda>serr.
     bindE (bindE (vec_at v 3) stoi) (\<lambda>err.
     if err = 0 then bindE (vec_at v 1) (\<lambda>val. Inr (\<lparr>ierr = err, kv_value = val\<rparr>, cn))
     else Inr (\<lparr>ierr = err, kv_value = []\<rparr>, cn))))"

definition impl_put :: "kv_net \<Rightarrow> 'd leveldb \<Rightarrow> string \<Rightarrow> string \<Rightarrow> string \<Rightarrow> 'd kv_conn \<Rightarrow> (int \<times> 'd kv_conn) res" where
  "impl_put N L tablename key val cn =
     bindE (kv_call N L [''Multiple'', ''CreateTable'', tablename, ''Put'', key, val] cn) (\<lambda>(v, cn).
     bindE (vec_at v 2) (\<lambda>serr.
     bindE (bindE (vec_at v 3) stoi) (\<lambda>err.
     Inr (err, cn))))"

definition impl_del :: "kv_net \<Rightarrow> 'd leveldb \<Rightarrow> string \<Rightarrow> string \<Rightarrow> 'd kv_conn \<Rightarrow> (int \<times> 'd kv_conn) res" where
  "impl_del N L tablename key cn =
     bindE (kv_call N L [''Multiple'', ''CreateTable'', tablename, ''Del'', key] cn) (\<lambda>(v, cn).
     bindE (vec_at v 2) (\<lambda>serr.
     bindE (bindE (vec_at v 3) stoi) (\<lambda>err.
     Inr (err, cn))))"

text \<open>\<open>parseResults\<close>: \<open>n\<close> groups of four strings.\<close>

fun parse_results_loop :: "nat \<Rightarrow> string list \<Rightarrow> string kvdata list res" where
  "parse_results_loop 0 r = Inr []"
| "parse_results_loop (Suc n) r =
     bindE (bindE (vec_at r 3) stoi) (\<lambda>err.
     bindE (vec_at r 1) (\<lambda>val.
     bindE (parse_results_loop n (drop 4 r)) (\<lambda>ds.
     Inr (\<lparr>ierr = err, kv_value = (if err = 0 then val else [])\<rparr> # ds))))"

definition parse_results :: "string list \<Rightarrow> string kvdata list res" where
  "parse_results r = parse_results_loop (length r div 4) r"

text \<open>\<open>mget\<close> takes as many results as it has keys; \<open>mput\<close> and \<open>mdel\<close> take all that came.\<close>

definition impl_mget ::
  "kv_net \<Rightarrow> 'd leveldb \<Rightarrow> (string \<times> string) list \<Rightarrow> 'd kv_conn \<Rightarrow> (string kvdata list \<times> 'd kv_conn) res" where
  "impl_mget N L gets cn =
     bindE (kv_call N L (''Multiple'' # concat (map (\<lambda>(key, t). [''CreateTable'', t, ''Get'', key]) gets)) cn) (\<lambda>(v, cn).
     bindE (parse_results v) (\<lambda>ds.
     if length ds < length gets then Inl (Undefined ''vector: index out of range'')
     else Inr (take (length gets) ds, cn)))"

definition impl_mput ::
  "kv_net \<Rightarrow> 'd leveldb \<Rightarrow> (string \<times> string \<times> string) list \<Rightarrow> 'd kv_conn \<Rightarrow> (string kvdata list \<times> 'd kv_conn) res" where
  "impl_mput N L puts cn =
     bindE (kv_call N L (''Multiple'' # concat (map (\<lambda>(key, val, t). [''CreateTable'', t, ''Put'', key, val]) puts)) cn) (\<lambda>(v, cn).
     bindE (parse_results v) (\<lambda>ds. Inr (ds, cn)))"

definition impl_mdel ::
  "kv_net \<Rightarrow> 'd leveldb \<Rightarrow> (string \<times> string) list \<Rightarrow> 'd kv_conn \<Rightarrow> (string kvdata list \<times> 'd kv_conn) res" where
  "impl_mdel N L dels cn =
     bindE (kv_call N L (''Multiple'' # concat (map (\<lambda>(key, t). [''CreateTable'', t, ''Del'', key]) dels)) cn) (\<lambda>(v, cn).
     bindE (parse_results v) (\<lambda>ds. Inr (ds, cn)))"

subsection \<open>KVStore\<close>

record ('k, 'v) boost =
  key_text :: "'k \<Rightarrow> string"
  val_text :: "'v \<Rightarrow> string"
  text_val :: "string \<Rightarrow> 'v res"
  new_val :: 'v

definition store_get ::
  "kv_net \<Rightarrow> 'd leveldb \<Rightarrow> ('k, 'v) boost \<Rightarrow> string \<Rightarrow> 'k \<Rightarrow> 'd kv_conn \<Rightarrow> ('v kvdata \<times> 'd kv_conn) res" where
  "store_get N L B tablename key cn =
     bindE (impl_get N L tablename (key_text B key) cn) (\<lambda>(r, cn).
     if ierr r = 0 then bindE (text_val B (kv_value r)) (\<lambda>v. Inr (\<lparr>ierr = 0, kv_value = v\<rparr>, cn))
     else Inr (\<lparr>ierr = ierr r, kv_value = new_val B\<rparr>, cn))"

definition store_put ::
  "kv_net \<Rightarrow> 'd leveldb \<Rightarrow> ('k, 'v) boost \<Rightarrow> string \<Rightarrow> 'k \<Rightarrow> 'v \<Rightarrow> 'd kv_conn \<Rightarrow> (int \<times> 'd kv_conn) res" where
  "store_put N L B tablename key val cn = impl_put N L tablename (key_text B key) (val_text B val) cn"

definition store_del ::
  "kv_net \<Rightarrow> 'd leveldb \<Rightarrow> ('k, 'v) boost \<Rightarrow> string \<Rightarrow> 'k \<Rightarrow> 'd kv_conn \<Rightarrow> (int \<times> 'd kv_conn) res" where
  "store_del N L B tablename key cn = impl_del N L tablename (key_text B key) cn"

text \<open>A handle in a world that holds its connection and more.\<close>

definition kv_store :: "kv_net \<Rightarrow> 'd leveldb \<Rightarrow> ('k, 'v) boost \<Rightarrow> string \<Rightarrow> ('k, 'v, 'd kv_conn \<times> 'x) kvstore" where
  "kv_store N L B tablename =
     \<lparr>ds_get = (\<lambda>k (cn, x). bindE (store_get N L B tablename k cn) (\<lambda>(r, cn). Inr (r, cn, x))),
      ds_put = (\<lambda>k v (cn, x). bindE (store_put N L B tablename k v cn) (\<lambda>(r, cn). Inr (r, cn, x))),
      ds_del = (\<lambda>k (cn, x). bindE (store_del N L B tablename k cn) (\<lambda>(r, cn). Inr (r, cn, x)))\<rparr>"

subsection \<open>KVRequest\<close>

text \<open>The operations queued by \<open>get\<close>, \<open>put\<close> and \<open>del\<close>, in order; keys and values are texts already.\<close>

datatype kv_op =
    Get_op (op_key: string) (op_table: string)
  | Put_op (op_key: string) (op_val: string) (op_table: string)
  | Del_op (op_key: string) (op_table: string)

fun put_part :: "kv_op \<Rightarrow> (string \<times> string \<times> string) list" where
  "put_part (Put_op k v t) = [(k, v, t)]"
| "put_part _ = []"

fun get_part :: "kv_op \<Rightarrow> (string \<times> string) list" where
  "get_part (Get_op k t) = [(k, t)]"
| "get_part _ = []"

fun del_part :: "kv_op \<Rightarrow> (string \<times> string) list" where
  "del_part (Del_op k t) = [(k, t)]"
| "del_part _ = []"

text \<open>The loop of \<open>execute\<close> that brings the results into the order of the operations.\<close>

fun combine_results ::
  "kv_op list \<Rightarrow> string kvdata list \<Rightarrow> string kvdata list \<Rightarrow> string kvdata list \<Rightarrow> string kvdata list res" where
  "combine_results [] ps gs ds = Inr []"
| "combine_results (Put_op k v t # ops) ps gs ds =
     bindE (vec_at ps 0) (\<lambda>r. bindE (combine_results ops (tl ps) gs ds) (\<lambda>rs. Inr (r # rs)))"
| "combine_results (Get_op k t # ops) ps gs ds =
     bindE (vec_at gs 0) (\<lambda>r. bindE (combine_results ops ps (tl gs) ds) (\<lambda>rs. Inr (r # rs)))"
| "combine_results (Del_op k t # ops) ps gs ds =
     bindE (vec_at ds 0) (\<lambda>r. bindE (combine_results ops ps gs (tl ds)) (\<lambda>rs. Inr (r # rs)))"

definition request_execute ::
  "kv_net \<Rightarrow> 'd leveldb \<Rightarrow> kv_op list \<Rightarrow> 'd kv_conn \<Rightarrow> (string kvdata list \<times> 'd kv_conn) res" where
  "request_execute N L ops cn =
     bindE (impl_mput N L (concat (map put_part ops)) cn) (\<lambda>(ps, cn).
     bindE (impl_mget N L (concat (map get_part ops)) cn) (\<lambda>(gs, cn).
     bindE (impl_mdel N L (concat (map del_part ops)) cn) (\<lambda>(ds, cn).
     bindE (combine_results ops ps gs ds) (\<lambda>rs.
     Inr (rs, cn)))))"

text \<open>A request on keys and values, in a world that holds its connection and more.\<close>

fun req_op :: "('k, 'v) boost \<Rightarrow> ('k, 'v) kv_req \<Rightarrow> kv_op" where
  "req_op B (Put_req t k v) = Put_op (key_text B k) (val_text B v) t"
| "req_op B (Del_req t k) = Del_op (key_text B k) t"

definition kv_request :: "kv_net \<Rightarrow> 'd leveldb \<Rightarrow> ('k, 'v) boost \<Rightarrow> ('k, 'v, 'd kv_conn \<times> 'x) kvrequest" where
  "kv_request N L B reqs w =
     (case w of (cn, x) \<Rightarrow>
     bindE (request_execute N L (map (req_op B) reqs) cn) (\<lambda>(rs, cn). Inr (map ierr rs, cn, x)))"

end
