(* ===== verification/Epc2_Kvs_Table.thy ===== *)
theory Epc2_Kvs_Table
  imports Epc2_Kvs
begin

section \<open>The data store keeps its contract\<close>

text \<open>
  Client, wire and server together are a table: over a network that only cuts and joins, a LevelDB
  that is a map and a text archive that can be read back, \<open>KVStore\<close> satisfies \<open>kv_table\<close>. The
  values that fit are those whose text has no NUL and at most \<open>MAX_INPUT_SIZE\<close> characters.
\<close>

subsection \<open>A request and its answer\<close>

definition request_ok :: "string list \<Rightarrow> bool" where
  "request_ok v \<longleftrightarrow> length v \<le> 255 \<and> (\<forall>s \<in> set v. nul_free s \<and> length s < 2 ^ 32)"

definition answer_ok :: "string list \<Rightarrow> bool" where
  "answer_ok r \<longleftrightarrow> length r \<le> 127 \<and> (\<forall>s \<in> set r. kv_string_ok s)"

lemma kv_call_ok:
  assumes "net_ok N" and "request_ok v" and "do_task L v c = Inr (r, c')" and "answer_ok r"
    and "length buf = MAX_INPUT_SIZE"
  shows "\<exists>buf'. kv_call N L v (buf, c) = Inr (r, buf', c') \<and> length buf' = MAX_INPUT_SIZE"
proof -
  have "handle_client L (kv_message v) c = Inr (kv_message r, c')"
    using assms(2-4) read_strings_message [of v]
    by (simp add: handle_client_def request_ok_def answer_ok_def kv_string_ok_def kv_message_write)
  moreover obtain buf' evs' where
    "kv_receive (batoi_ret N) buf (rd_events N (kv_message r)) = Inr (r, buf', evs')" "length buf' = MAX_INPUT_SIZE"
    using kv_receive_ok [of "batoi_ret N" r "rd_events N (kv_message r)" buf "[]"] assms(1,4,5)
    by (auto simp: net_ok_def answer_ok_def)
  moreover have "kv_send (wr_events N) v = Inr (kv_message v)"
    using assms(1) by (simp add: kv_send_def net_ok_def write_loop_completes)
  ultimately show ?thesis
    by (simp add: kv_call_def)
qed

subsection \<open>Tasks of the server\<close>

lemma create_table_ok:
  assumes "leveldb_ok L V"
  shows "\<exists>s1. kvs_create_table L t (cur, s) = (True, Some t, s1) \<and> V (disk s1) = V (disk s)"
proof -
  obtain ok d where o: "ldb_open L t (disk s) = (ok, d)"
    by fastforce
  have "fst (ldb_open L t (disk s))" and "V (snd (ldb_open L t (disk s))) = V (disk s)"
    using assms by (simp_all add: leveldb_ok_def)
  with o show ?thesis
    by (simp add: kvs_create_table_def)
qed

lemma do_task_two:
  assumes "leveldb_ok L V"
  shows "\<exists>s1. V (disk s1) = V (disk s) \<and>
    (\<forall>v. do_task L (''Multiple'' # ''CreateTable'' # t # v) (cur, s) =
      bindE (perform_multiple L v (Some t, s1)) (\<lambda>(r, c). Inr (''true'' # r, c)))"
proof -
  obtain s1 where s1: "kvs_create_table L t (cur, s) = (True, Some t, s1)" "V (disk s1) = V (disk s)"
    using create_table_ok [OF assms] by blast
  have "do_task L (''Multiple'' # ''CreateTable'' # t # v) (cur, s) =
      bindE (perform_multiple L v (Some t, s1)) (\<lambda>(r, c). Inr (''true'' # r, c))" for v
    by (simp add: do_task_def slice_at_def perform_task_def s1(1) perform_multiple.simps [of _ "''CreateTable'' # t # v"]
        numeral_2_eq_2)
  with s1(2) show ?thesis
    by blast
qed

lemma Itoa_0 [simp]: "Itoa 0 = ''0''" and Itoa_m1 [simp]: "Itoa (-1) = ''-1''"
  by (simp_all add: Itoa_def to_string.simps digit_char_def char_of_def bit_Suc_0_iff)

lemma stoi_0 [simp]: "stoi ''0'' = Inr 0" and stoi_m1 [simp]: "stoi ''-1'' = Inr (-1)"
  by (simp_all add: stoi_def is_space_def is_digit_def dec_val_def digit_val_def)

lemma last_task:
  "perform_task L v c = Inr ((r, length v), c') \<Longrightarrow> v \<noteq> [] \<Longrightarrow> perform_multiple L v c = Inr (r, c')"
  by (simp add: perform_multiple.simps [of _ v] perform_multiple.simps [of _ "[]"])

lemma get_task:
  assumes "leveldb_ok L V"
  shows "perform_multiple L [''Get'', k] (Some t, s) =
    Inr (case V (disk s) t k of None \<Rightarrow> [[], ''leveldb: not found'', ''-1''] | Some v \<Rightarrow> [v, [], ''0''], Some t, s)"
  using assms
  by (intro last_task) (auto simp: perform_task_def slice_at_def kvs_get_def leveldb_ok_def split: option.splits)

lemma put_task:
  assumes "leveldb_ok L V"
  shows "\<exists>s1. perform_multiple L [''Put'', k, v] (Some t, s) = Inr ([[], [], ''0''], Some t, s1) \<and>
    V (disk s1) = (V (disk s))(t := (V (disk s) t)(k \<mapsto> v))"
proof -
  obtain e d where o: "ldb_put L t k v (disk s) = (e, d)"
    by fastforce
  have "fst (ldb_put L t k v (disk s)) = None"
    and "V (snd (ldb_put L t k v (disk s))) = (V (disk s))(t := (V (disk s) t)(k \<mapsto> v))"
    using assms by (simp_all add: leveldb_ok_def)
  with o have d: "ldb_put L t k v (disk s) = (None, d)" "V d = (V (disk s))(t := (V (disk s) t)(k \<mapsto> v))"
    by simp_all
  then have "perform_multiple L [''Put'', k, v] (Some t, s) = Inr ([[], [], ''0''], Some t, s\<lparr>disk := d\<rparr>)"
    by (intro last_task) (auto simp: perform_task_def slice_at_def kvs_put_def)
  with d(2) show ?thesis by auto
qed

lemma del_task:
  assumes "leveldb_ok L V"
  shows "\<exists>s1. perform_multiple L [''Del'', k] (Some t, s) = Inr ([[], [], ''0''], Some t, s1) \<and>
    V (disk s1) = (V (disk s))(t := (V (disk s) t)(k := None))"
proof -
  obtain e d where o: "ldb_delete L t k (disk s) = (e, d)"
    by fastforce
  have "fst (ldb_delete L t k (disk s)) = None"
    and "V (snd (ldb_delete L t k (disk s))) = (V (disk s))(t := (V (disk s) t)(k := None))"
    using assms by (simp_all add: leveldb_ok_def)
  with o have d: "ldb_delete L t k (disk s) = (None, d)" "V d = (V (disk s))(t := (V (disk s) t)(k := None))"
    by simp_all
  then have "perform_multiple L [''Del'', k] (Some t, s) = Inr ([[], [], ''0''], Some t, s\<lparr>disk := d\<rparr>)"
    by (intro last_task) (auto simp: perform_task_def slice_at_def kvs_del_def)
  with d(2) show ?thesis by auto
qed


subsection \<open>The client's calls\<close>

text \<open>Tables and keys are short enough for a request, and what is stored can be sent back.\<close>

definition store_ok :: "(string \<Rightarrow> string \<rightharpoonup> string) \<Rightarrow> string \<Rightarrow> bool" where
  "store_ok M t \<longleftrightarrow> kv_string_ok t \<and> (\<forall>k v. M t k = Some v \<longrightarrow> kv_string_ok v)"

lemma kv_string_short: "kv_string_ok s \<Longrightarrow> nul_free s \<and> length s < 2 ^ 32"
  by (simp add: kv_string_ok_def MAX_INPUT_SIZE_def)

lemma kv_string_lit [simp]:
  "kv_string_ok []" "kv_string_ok ''true''" "kv_string_ok ''0''" "kv_string_ok ''-1''" "kv_string_ok ''leveldb: not found''"
  "kv_string_ok ''Multiple''" "kv_string_ok ''CreateTable''" "kv_string_ok ''Get''" "kv_string_ok ''Put''" "kv_string_ok ''Del''"
  by (simp_all add: kv_string_ok_def nul_free_def MAX_INPUT_SIZE_def)

lemma request_okI: "length v \<le> 255 \<Longrightarrow> \<forall>s \<in> set v. kv_string_ok s \<Longrightarrow> request_ok v"
  using kv_string_short by (auto simp: request_ok_def)

lemma impl_get_ok:
  assumes "net_ok N" and "leveldb_ok L V" and "store_ok (V (disk s)) t" and "kv_string_ok k"
    and "length buf = MAX_INPUT_SIZE"
  shows "\<exists>buf' s'. impl_get N L t k (buf, cur, s) =
      Inr (case V (disk s) t k of None \<Rightarrow> \<lparr>ierr = -1, kv_value = []\<rparr> | Some v \<Rightarrow> \<lparr>ierr = 0, kv_value = v\<rparr>,
        buf', Some t, s') \<and> length buf' = MAX_INPUT_SIZE \<and> V (disk s') = V (disk s)"
proof -
  obtain s1 where s1: "V (disk s1) = V (disk s)"
    "\<And>v. do_task L (''Multiple'' # ''CreateTable'' # t # v) (cur, s) =
      bindE (perform_multiple L v (Some t, s1)) (\<lambda>(r, c). Inr (''true'' # r, c))"
    using do_task_two [OF assms(2)] by blast
  let ?r = "''true'' # (case V (disk s) t k of None \<Rightarrow> [[], ''leveldb: not found'', ''-1''] | Some v \<Rightarrow> [v, [], ''0''])"
  have d: "do_task L [''Multiple'', ''CreateTable'', t, ''Get'', k] (cur, s) = Inr (?r, Some t, s1)"
    by (simp add: s1 get_task [OF assms(2)])
  have "request_ok [''Multiple'', ''CreateTable'', t, ''Get'', k]"
    using assms(3,4) by (intro request_okI) (auto simp: store_ok_def)
  moreover have "answer_ok ?r"
    using assms(3) by (auto simp: answer_ok_def store_ok_def split: option.splits)
  ultimately obtain buf' where
    "kv_call N L [''Multiple'', ''CreateTable'', t, ''Get'', k] (buf, cur, s) = Inr (?r, buf', Some t, s1)"
    "length buf' = MAX_INPUT_SIZE"
    using kv_call_ok [OF assms(1) _ d _ assms(5)] by blast
  then show ?thesis
    using s1(1) by (auto simp: impl_get_def vec_at_def split: option.splits)
qed

lemma impl_put_ok:
  assumes "net_ok N" and "leveldb_ok L V" and "kv_string_ok t" and "kv_string_ok k" and "kv_string_ok v"
    and "length buf = MAX_INPUT_SIZE"
  shows "\<exists>buf' s'. impl_put N L t k v (buf, cur, s) = Inr (0, buf', Some t, s') \<and> length buf' = MAX_INPUT_SIZE \<and>
    V (disk s') = (V (disk s))(t := (V (disk s) t)(k \<mapsto> v))"
proof -
  obtain s1 where s1: "V (disk s1) = V (disk s)"
    "\<And>v. do_task L (''Multiple'' # ''CreateTable'' # t # v) (cur, s) =
      bindE (perform_multiple L v (Some t, s1)) (\<lambda>(r, c). Inr (''true'' # r, c))"
    using do_task_two [OF assms(2)] by blast
  obtain s2 where s2: "perform_multiple L [''Put'', k, v] (Some t, s1) = Inr ([[], [], ''0''], Some t, s2)"
    "V (disk s2) = (V (disk s))(t := (V (disk s) t)(k \<mapsto> v))"
    using put_task [OF assms(2)] s1(1) by metis
  have "do_task L [''Multiple'', ''CreateTable'', t, ''Put'', k, v] (cur, s) = Inr ([''true'', [], [], ''0''], Some t, s2)"
    by (simp add: s1(2) s2(1))
  moreover have "request_ok [''Multiple'', ''CreateTable'', t, ''Put'', k, v]"
    using assms(3-5) by (intro request_okI) auto
  moreover have "answer_ok [''true'', [], [], ''0'']"
    by (simp add: answer_ok_def)
  ultimately obtain buf' where
    "kv_call N L [''Multiple'', ''CreateTable'', t, ''Put'', k, v] (buf, cur, s) = Inr ([''true'', [], [], ''0''], buf', Some t, s2)"
    "length buf' = MAX_INPUT_SIZE"
    using kv_call_ok [OF assms(1) _ _ _ assms(6)] by blast
  then show ?thesis
    using s2(2) by (simp add: impl_put_def vec_at_def)
qed

lemma impl_del_ok:
  assumes "net_ok N" and "leveldb_ok L V" and "kv_string_ok t" and "kv_string_ok k" and "length buf = MAX_INPUT_SIZE"
  shows "\<exists>buf' s'. impl_del N L t k (buf, cur, s) = Inr (0, buf', Some t, s') \<and> length buf' = MAX_INPUT_SIZE \<and>
    V (disk s') = (V (disk s))(t := (V (disk s) t)(k := None))"
proof -
  obtain s1 where s1: "V (disk s1) = V (disk s)"
    "\<And>v. do_task L (''Multiple'' # ''CreateTable'' # t # v) (cur, s) =
      bindE (perform_multiple L v (Some t, s1)) (\<lambda>(r, c). Inr (''true'' # r, c))"
    using do_task_two [OF assms(2)] by blast
  obtain s2 where s2: "perform_multiple L [''Del'', k] (Some t, s1) = Inr ([[], [], ''0''], Some t, s2)"
    "V (disk s2) = (V (disk s))(t := (V (disk s) t)(k := None))"
    using del_task [OF assms(2)] s1(1) by metis
  have "do_task L [''Multiple'', ''CreateTable'', t, ''Del'', k] (cur, s) = Inr ([''true'', [], [], ''0''], Some t, s2)"
    by (simp add: s1(2) s2(1))
  moreover have "request_ok [''Multiple'', ''CreateTable'', t, ''Del'', k]"
    using assms(3,4) by (intro request_okI) auto
  moreover have "answer_ok [''true'', [], [], ''0'']"
    by (simp add: answer_ok_def)
  ultimately obtain buf' where
    "kv_call N L [''Multiple'', ''CreateTable'', t, ''Del'', k] (buf, cur, s) = Inr ([''true'', [], [], ''0''], buf', Some t, s2)"
    "length buf' = MAX_INPUT_SIZE"
    using kv_call_ok [OF assms(1) _ _ _ assms(5)] by blast
  then show ?thesis
    using s2(2) by (simp add: impl_del_def vec_at_def)
qed

subsection \<open>The table\<close>

text \<open>
  \<open>boost_ok\<close>: different keys have different texts. A key or value fits when its text can be sent; a value
  must also be readable from its text.
\<close>

definition boost_ok :: "('k, 'v) boost \<Rightarrow> bool" where
  "boost_ok B \<longleftrightarrow> inj (key_text B)"

definition key_fits :: "('k, 'v) boost \<Rightarrow> 'k \<Rightarrow> bool" where
  "key_fits B k \<longleftrightarrow> kv_string_ok (key_text B k)"

definition val_fits :: "('k, 'v) boost \<Rightarrow> 'v \<Rightarrow> bool" where
  "val_fits B v \<longleftrightarrow> kv_string_ok (val_text B v) \<and> text_val B (val_text B v) = Inr v"

text \<open>The table of a world, and the worlds in which it can be read.\<close>

definition kv_tbl ::
  "('d \<Rightarrow> string \<Rightarrow> string \<rightharpoonup> string) \<Rightarrow> ('k, 'v) boost \<Rightarrow> string \<Rightarrow> 'd kv_conn \<times> 'x \<Rightarrow> 'k \<rightharpoonup> 'v" where
  "kv_tbl V B t w k =
     (case w of ((buf, cur, s), x) \<Rightarrow>
      case V (disk s) t (key_text B k) of None \<Rightarrow> None
      | Some txt \<Rightarrow> (case text_val B txt of Inl e \<Rightarrow> None | Inr v \<Rightarrow> Some v))"

definition kv_ready ::
  "kv_net \<Rightarrow> 'd leveldb \<Rightarrow> ('d \<Rightarrow> string \<Rightarrow> string \<rightharpoonup> string) \<Rightarrow> ('k, 'v) boost \<Rightarrow> string \<Rightarrow> 'd kv_conn \<times> 'x \<Rightarrow> bool" where
  "kv_ready N L V B t w \<longleftrightarrow>
     (case w of ((buf, cur, s), x) \<Rightarrow>
      net_ok N \<and> leveldb_ok L V \<and> boost_ok B \<and> length buf = MAX_INPUT_SIZE \<and> store_ok (V (disk s)) t \<and>
      (\<forall>k s0. V (disk s) t (key_text B k) = Some s0 \<longrightarrow> (\<exists>v. text_val B s0 = Inr v)))"

definition kv_live ::
  "kv_net \<Rightarrow> 'd leveldb \<Rightarrow> ('d \<Rightarrow> string \<Rightarrow> string \<rightharpoonup> string) \<Rightarrow> ('k, 'v) boost \<Rightarrow> string \<Rightarrow> 'd kv_conn \<times> 'x \<Rightarrow> bool" where
  "kv_live N L V B t w \<longleftrightarrow> kv_ready N L V B t w \<and> (\<forall>k. key_fits B k)"

lemma key_inj: "boost_ok B \<Longrightarrow> key_text B k = key_text B k' \<longleftrightarrow> k = k'"
  by (auto simp: boost_ok_def inj_def)

lemma kv_get_effect:
  assumes l: "kv_ready N L V B t ((buf, cur, s), x)" and k: "key_fits B k"
  shows "\<exists>r buf' s'. ds_get (kv_store N L B t) k ((buf, cur, s), x) = Inr (r, (buf', Some t, s'), x) \<and>
    length buf' = MAX_INPUT_SIZE \<and> V (disk s') = V (disk s) \<and>
    (case kv_tbl V B t ((buf, cur, s), x) k of Some v \<Rightarrow> r = \<lparr>ierr = 0, kv_value = v\<rparr> | None \<Rightarrow> ierr r = -1)"
proof -
  have ok: "net_ok N" "leveldb_ok L V" "length buf = MAX_INPUT_SIZE" "store_ok (V (disk s)) t" "kv_string_ok (key_text B k)"
    using l k by (auto simp: kv_ready_def key_fits_def)
  obtain buf' s' where g: "impl_get N L t (key_text B k) (buf, cur, s) =
      Inr (case V (disk s) t (key_text B k) of None \<Rightarrow> \<lparr>ierr = -1, kv_value = []\<rparr> | Some v \<Rightarrow> \<lparr>ierr = 0, kv_value = v\<rparr>,
        buf', Some t, s')" and s': "length buf' = MAX_INPUT_SIZE" "V (disk s') = V (disk s)"
    using impl_get_ok [OF ok(1,2,4,5,3)] by blast
  show ?thesis
  proof (cases "V (disk s) t (key_text B k)")
    case None
    with g s' show ?thesis
      by (simp add: kv_store_def store_get_def kv_tbl_def)
  next
    case (Some v0)
    then obtain v where "text_val B v0 = Inr v"
      using l by (auto simp: kv_ready_def)
    with Some g s' show ?thesis
      by (simp add: kv_store_def store_get_def kv_tbl_def)
  qed
qed

interpretation kv: kv_table "kv_store N L B t" "kv_live N L V B t" "kv_tbl V B t" "val_fits B"
  for N L V B t
proof
  fix w k v
  assume l: "kv_live N L V B t w"
  obtain buf cur s x where w: "w = ((buf, cur, s), x)"
    by (metis prod.collapse)
  have ok: "net_ok N" "leveldb_ok L V" "boost_ok B" "length buf = MAX_INPUT_SIZE" "store_ok (V (disk s)) t"
    and k: "kv_string_ok (key_text B k)" "kv_string_ok t"
    using l by (auto simp: w kv_live_def kv_ready_def key_fits_def store_ok_def)
  have "kv_ready N L V B t ((buf, cur, s), x)" and "key_fits B k"
    using l by (simp_all add: w kv_live_def)
  from kv_get_effect [OF this] obtain r buf' s' where g: "ds_get (kv_store N L B t) k w = Inr (r, (buf', Some t, s'), x)"
    "length buf' = MAX_INPUT_SIZE" "V (disk s') = V (disk s)"
    "case kv_tbl V B t w k of Some v \<Rightarrow> r = \<lparr>ierr = 0, kv_value = v\<rparr> | None \<Rightarrow> ierr r = -1"
    unfolding w by blast
  have w': "kv_live N L V B t ((buf', Some t, s'), x)" "kv_tbl V B t ((buf', Some t, s'), x) = kv_tbl V B t w"
    using l g(2,3) by (auto simp: w kv_live_def kv_ready_def kv_tbl_def)
  show "kv_tbl V B t w k = Some v \<Longrightarrow>
    \<exists>w'. ds_get (kv_store N L B t) k w = Inr (\<lparr>ierr = 0, kv_value = v\<rparr>, w') \<and> kv_live N L V B t w' \<and> kv_tbl V B t w' = kv_tbl V B t w"
    using g w' by auto
  show "kv_tbl V B t w k = None \<Longrightarrow>
    \<exists>w' v. ds_get (kv_store N L B t) k w = Inr (\<lparr>ierr = -1, kv_value = v\<rparr>, w') \<and> kv_live N L V B t w' \<and> kv_tbl V B t w' = kv_tbl V B t w"
    using g w' by (cases r) auto
  show "\<exists>w'. ds_put (kv_store N L B t) k v w = Inr (0, w') \<and> kv_live N L V B t w' \<and> kv_tbl V B t w' = (kv_tbl V B t w)(k \<mapsto> v)"
    if "val_fits B v"
  proof -
    have v: "kv_string_ok (val_text B v)" "text_val B (val_text B v) = Inr v"
      using that by (auto simp: val_fits_def)
    obtain buf' s' where "impl_put N L t (key_text B k) (val_text B v) (buf, cur, s) = Inr (0, buf', Some t, s')"
      and p: "length buf' = MAX_INPUT_SIZE" "V (disk s') = (V (disk s))(t := (V (disk s) t)(key_text B k \<mapsto> val_text B v))"
      using impl_put_ok [OF ok(1,2) k(2,1) v(1) ok(4)] by blast
    then have "ds_put (kv_store N L B t) k v w = Inr (0, (buf', Some t, s'), x)"
      by (simp add: kv_store_def store_put_def w)
    moreover have "kv_live N L V B t ((buf', Some t, s'), x)"
      using l v by (auto simp: w p kv_live_def kv_ready_def store_ok_def split: if_splits)
    moreover have "kv_tbl V B t ((buf', Some t, s'), x) = (kv_tbl V B t w)(k \<mapsto> v)"
      using v(2) key_inj [OF ok(3)] by (auto simp: w p kv_tbl_def fun_eq_iff)
    ultimately show ?thesis by blast
  qed
  show "\<exists>w'. ds_del (kv_store N L B t) k w = Inr (0, w') \<and> kv_live N L V B t w' \<and> kv_tbl V B t w' = (kv_tbl V B t w)(k := None)"
  proof -
    obtain buf' s' where "impl_del N L t (key_text B k) (buf, cur, s) = Inr (0, buf', Some t, s')"
      and p: "length buf' = MAX_INPUT_SIZE" "V (disk s') = (V (disk s))(t := (V (disk s) t)(key_text B k := None))"
      using impl_del_ok [OF ok(1,2) k(2,1) ok(4)] by blast
    then have "ds_del (kv_store N L B t) k w = Inr (0, (buf', Some t, s'), x)"
      by (simp add: kv_store_def store_del_def w)
    moreover have "kv_live N L V B t ((buf', Some t, s'), x)"
      using l by (auto simp: w p kv_live_def kv_ready_def store_ok_def split: if_splits)
    moreover have "kv_tbl V B t ((buf', Some t, s'), x) = (kv_tbl V B t w)(k := None)"
      using key_inj [OF ok(3)] by (auto simp: w p kv_tbl_def fun_eq_iff)
    ultimately show ?thesis by blast
  qed
qed

subsection \<open>Requests of several operations\<close>

lemma put_tasks:
  assumes "leveldb_ok L V"
  shows "\<exists>cur' s'. perform_multiple L (concat (map (\<lambda>(t, k, v). [''CreateTable'', t, ''Put'', k, v]) ps)) (cur, s) =
      Inr (concat (map (\<lambda>_. [''true'', [], [], ''0'']) ps), cur', s') \<and> V (disk s') = put_all ps (V (disk s))"
proof (induction ps arbitrary: cur s)
  case Nil
  then show ?case by (simp add: perform_multiple.simps)
next
  case (Cons p ps)
  obtain t k v where p: "p = (t, k, v)"
    by (cases p)
  obtain s1 where s1: "kvs_create_table L t (cur, s) = (True, Some t, s1)" "V (disk s1) = V (disk s)"
    using create_table_ok [OF assms] by blast
  obtain e d where o: "ldb_put L t k v (disk s1) = (e, d)"
    by fastforce
  have "fst (ldb_put L t k v (disk s1)) = None"
    and "V (snd (ldb_put L t k v (disk s1))) = (V (disk s1))(t := (V (disk s1) t)(k \<mapsto> v))"
    using assms by (simp_all add: leveldb_ok_def)
  with o s1(2) have d: "ldb_put L t k v (disk s1) = (None, d)" "V d = (V (disk s))(t := (V (disk s) t)(k \<mapsto> v))"
    by simp_all
  let ?r = "concat (map (\<lambda>(t, k, v). [''CreateTable'', t, ''Put'', k, v]) ps)"
  obtain cur2 s2 where 2: "perform_multiple L ?r (Some t, s1\<lparr>disk := d\<rparr>) =
      Inr (concat (map (\<lambda>_. [''true'', [], [], ''0'']) ps), cur2, s2)" "V (disk s2) = put_all ps (V d)"
    using Cons.IH [of "Some t" "s1\<lparr>disk := d\<rparr>"] by auto
  have "perform_multiple L (''Put'' # k # v # ?r) (Some t, s1) =
      Inr ([[], [], ''0''] @ concat (map (\<lambda>_. [''true'', [], [], ''0'']) ps), cur2, s2)"
    using d(1) 2(1) by (simp add: perform_multiple.simps [of _ "''Put'' # _"] perform_task_def slice_at_def kvs_put_def numeral_3_eq_3)
  then have "perform_multiple L (''CreateTable'' # t # ''Put'' # k # v # ?r) (cur, s) =
      Inr ([''true'', [], [], ''0''] @ concat (map (\<lambda>_. [''true'', [], [], ''0'']) ps), cur2, s2)"
    using s1(1) by (simp add: perform_multiple.simps [of _ "''CreateTable'' # _"] perform_task_def slice_at_def numeral_2_eq_2)
  with 2(2) d(2) show ?case
    by (simp add: p)
qed

lemma del_tasks:
  assumes "leveldb_ok L V"
  shows "\<exists>cur' s'. perform_multiple L (concat (map (\<lambda>(k, t). [''CreateTable'', t, ''Del'', k]) ds)) (cur, s) =
      Inr (concat (map (\<lambda>_. [''true'', [], [], ''0'']) ds), cur', s') \<and>
      V (disk s') = del_all (map prod.swap ds) (V (disk s))"
proof (induction ds arbitrary: cur s)
  case Nil
  then show ?case by (simp add: perform_multiple.simps)
next
  case (Cons p ds)
  obtain t k where p: "p = (k, t)"
    by (cases p)
  obtain s1 where s1: "kvs_create_table L t (cur, s) = (True, Some t, s1)" "V (disk s1) = V (disk s)"
    using create_table_ok [OF assms] by blast
  obtain e d where o: "ldb_delete L t k (disk s1) = (e, d)"
    by fastforce
  have "fst (ldb_delete L t k (disk s1)) = None"
    and "V (snd (ldb_delete L t k (disk s1))) = (V (disk s1))(t := (V (disk s1) t)(k := None))"
    using assms by (simp_all add: leveldb_ok_def)
  with o s1(2) have d: "ldb_delete L t k (disk s1) = (None, d)" "V d = (V (disk s))(t := (V (disk s) t)(k := None))"
    by simp_all
  let ?r = "concat (map (\<lambda>(k, t). [''CreateTable'', t, ''Del'', k]) ds)"
  obtain cur2 s2 where 2: "perform_multiple L ?r (Some t, s1\<lparr>disk := d\<rparr>) =
      Inr (concat (map (\<lambda>_. [''true'', [], [], ''0'']) ds), cur2, s2)" "V (disk s2) = del_all (map prod.swap ds) (V d)"
    using Cons.IH [of "Some t" "s1\<lparr>disk := d\<rparr>"] by auto
  have "perform_multiple L (''Del'' # k # ?r) (Some t, s1) =
      Inr ([[], [], ''0''] @ concat (map (\<lambda>_. [''true'', [], [], ''0'']) ds), cur2, s2)"
    using d(1) 2(1) by (simp add: perform_multiple.simps [of _ "''Del'' # _"] perform_task_def slice_at_def kvs_del_def numeral_2_eq_2)
  then have "perform_multiple L (''CreateTable'' # t # ''Del'' # k # ?r) (cur, s) =
      Inr ([''true'', [], [], ''0''] @ concat (map (\<lambda>_. [''true'', [], [], ''0'']) ds), cur2, s2)"
    using s1(1) by (simp add: perform_multiple.simps [of _ "''CreateTable'' # _"] perform_task_def slice_at_def numeral_2_eq_2)
  with 2(2) d(2) show ?case
    by (simp add: p)
qed

lemma parse_groups:
  "parse_results (concat (map (\<lambda>_. [''true'', [], [], ''0'']) xs)) = Inr (map (\<lambda>_. \<lparr>ierr = 0, kv_value = []\<rparr>) xs)"
proof -
  have l: "parse_results_loop (length xs) (concat (map (\<lambda>_. [''true'', [], [], ''0'']) xs)) = Inr (map (\<lambda>_. \<lparr>ierr = 0, kv_value = []\<rparr>) xs)"
    by (induction xs) (simp_all add: vec_at_def)
  have "length (concat (map (\<lambda>_. [''true'', [], [], ''0'']) xs)) = 4 * length xs"
    by (induction xs) simp_all
  with l show ?thesis
    by (simp add: parse_results_def)
qed

lemma answer_groups: "length xs \<le> 31 \<Longrightarrow> answer_ok (concat (map (\<lambda>_. [''true'', [], [], ''0'']) xs))"
proof -
  have "length (concat (map (\<lambda>_. [''true'', [], [], ''0'']) xs)) = 4 * length xs"
    by (induction xs) simp_all
  then show "length xs \<le> 31 \<Longrightarrow> ?thesis"
    by (auto simp: answer_ok_def)
qed

lemma impl_mput_ok:
  assumes "net_ok N" and "leveldb_ok L V" and "length buf = MAX_INPUT_SIZE" and "length ps \<le> 31"
    and "\<forall>(t, k, v) \<in> set ps. kv_string_ok t \<and> kv_string_ok k \<and> kv_string_ok v"
  shows "\<exists>buf' cur' s'. impl_mput N L (map (\<lambda>(t, k, v). (k, v, t)) ps) (buf, cur, s) =
      Inr (map (\<lambda>_. \<lparr>ierr = 0, kv_value = []\<rparr>) ps, buf', cur', s') \<and> length buf' = MAX_INPUT_SIZE \<and>
      V (disk s') = put_all ps (V (disk s))"
proof -
  let ?v = "concat (map (\<lambda>(t, k, v). [''CreateTable'', t, ''Put'', k, v]) ps)"
  let ?r = "concat (map (\<lambda>_. [''true'', [], [], ''0'']) ps)"
  obtain cur' s' where t: "perform_multiple L ?v (cur, s) = Inr (?r, cur', s')" "V (disk s') = put_all ps (V (disk s))"
    using put_tasks [OF assms(2)] by blast
  then have d: "do_task L (''Multiple'' # ?v) (cur, s) = Inr (?r, cur', s')"
    by (simp add: do_task_def slice_at_def)
  have "length ?v = 5 * length ps"
    by (induction ps) auto
  then have "request_ok (''Multiple'' # ?v)"
    using assms(4,5) by (intro request_okI) auto
  from kv_call_ok [OF assms(1) this d answer_groups [OF assms(4)] assms(3)] obtain buf' where
    "kv_call N L (''Multiple'' # ?v) (buf, cur, s) = Inr (?r, buf', cur', s')" "length buf' = MAX_INPUT_SIZE"
    by blast
  moreover have "concat (map (\<lambda>(key, val, t). [''CreateTable'', t, ''Put'', key, val]) (map (\<lambda>(t, k, v). (k, v, t)) ps)) = ?v"
    by (induction ps) auto
  ultimately show ?thesis
    using t(2) by (simp add: impl_mput_def parse_groups)
qed

lemma impl_mdel_ok:
  assumes "net_ok N" and "leveldb_ok L V" and "length buf = MAX_INPUT_SIZE" and "length ds \<le> 31"
    and "\<forall>(t, k) \<in> set ds. kv_string_ok t \<and> kv_string_ok k"
  shows "\<exists>buf' cur' s'. impl_mdel N L (map prod.swap ds) (buf, cur, s) =
      Inr (map (\<lambda>_. \<lparr>ierr = 0, kv_value = []\<rparr>) ds, buf', cur', s') \<and> length buf' = MAX_INPUT_SIZE \<and>
      V (disk s') = del_all ds (V (disk s))"
proof -
  let ?v = "concat (map (\<lambda>(k, t). [''CreateTable'', t, ''Del'', k]) (map prod.swap ds))"
  let ?r = "concat (map (\<lambda>_. [''true'', [], [], ''0'']) ds)"
  obtain cur' s' where t: "perform_multiple L ?v (cur, s) = Inr (?r, cur', s')" "V (disk s') = del_all ds (V (disk s))"
    using del_tasks [OF assms(2), of "map prod.swap ds" cur s] by (auto simp: comp_def)
  then have d: "do_task L (''Multiple'' # ?v) (cur, s) = Inr (?r, cur', s')"
    by (simp add: do_task_def slice_at_def)
  have "length ?v = 4 * length ds"
    by (induction ds) auto
  then have "request_ok (''Multiple'' # ?v)"
    using assms(4,5) by (intro request_okI) auto
  from kv_call_ok [OF assms(1) this d answer_groups [OF assms(4)] assms(3)] obtain buf' where
    "kv_call N L (''Multiple'' # ?v) (buf, cur, s) = Inr (?r, buf', cur', s')" "length buf' = MAX_INPUT_SIZE"
    by blast
  with t(2) show ?thesis
    by (simp add: impl_mdel_def parse_groups)
qed


lemma multiple_empty:
  assumes "net_ok N" and "length buf = MAX_INPUT_SIZE"
  shows "\<exists>buf'. kv_call N L [''Multiple''] (buf, cur, s) = Inr ([], buf', cur, s) \<and> length buf' = MAX_INPUT_SIZE"
proof -
  have "do_task L [''Multiple''] (cur, s) = Inr ([], cur, s)"
    by (simp add: do_task_def slice_at_def perform_multiple.simps)
  moreover have "request_ok [''Multiple'']" and "answer_ok []"
    by (auto intro: request_okI simp: answer_ok_def)
  ultimately show ?thesis
    using kv_call_ok [OF assms(1) _ _ _ assms(2)] by blast
qed

lemma parse_nil: "parse_results [] = Inr []"
  by (simp add: parse_results_def)

lemma none_get:
  assumes "net_ok N" and "length buf = MAX_INPUT_SIZE"
  shows "\<exists>buf'. impl_mget N L [] (buf, cur, s) = Inr ([], buf', cur, s) \<and> length buf' = MAX_INPUT_SIZE"
    and "\<exists>buf'. impl_mput N L [] (buf, cur, s) = Inr ([], buf', cur, s) \<and> length buf' = MAX_INPUT_SIZE"
    and "\<exists>buf'. impl_mdel N L [] (buf, cur, s) = Inr ([], buf', cur, s) \<and> length buf' = MAX_INPUT_SIZE"
  using multiple_empty [OF assms, of L cur s] by (auto simp: impl_mget_def impl_mput_def impl_mdel_def parse_nil)

lemma combine_puts:
  "combine_results (map (\<lambda>(t, k, v). Put_op k v t) ps) (map f ps) gs ds = Inr (map f ps)"
  by (induction ps) (auto simp: vec_at_def)

lemma combine_dels:
  "combine_results (map (\<lambda>(t, k). Del_op k t) xs) ps gs (map f xs) = Inr (map f xs)"
  by (induction xs) (auto simp: vec_at_def)

lemma execute_puts_ok:
  assumes "net_ok N" and "leveldb_ok L V" and "length buf = MAX_INPUT_SIZE" and "length ps \<le> 31"
    and "\<forall>(t, k, v) \<in> set ps. kv_string_ok t \<and> kv_string_ok k \<and> kv_string_ok v"
  shows "\<exists>buf' cur' s'. request_execute N L (map (\<lambda>(t, k, v). Put_op k v t) ps) (buf, cur, s) =
      Inr (map (\<lambda>_. \<lparr>ierr = 0, kv_value = []\<rparr>) ps, buf', cur', s') \<and> length buf' = MAX_INPUT_SIZE \<and>
      V (disk s') = put_all ps (V (disk s))"
proof -
  let ?ops = "map (\<lambda>(t, k, v). Put_op k v t) ps"
  have parts: "concat (map put_part ?ops) = map (\<lambda>(t, k, v). (k, v, t)) ps" "concat (map get_part ?ops) = []"
    "concat (map del_part ?ops) = []"
    by (induction ps) auto
  obtain b1 c1 s1 where 1: "impl_mput N L (map (\<lambda>(t, k, v). (k, v, t)) ps) (buf, cur, s) =
      Inr (map (\<lambda>_. \<lparr>ierr = 0, kv_value = []\<rparr>) ps, b1, c1, s1)" "length b1 = MAX_INPUT_SIZE"
      "V (disk s1) = put_all ps (V (disk s))"
    using impl_mput_ok [OF assms] by blast
  obtain b2 where 2: "impl_mget N L [] (b1, c1, s1) = Inr ([], b2, c1, s1)" "length b2 = MAX_INPUT_SIZE"
    using none_get(1) [OF assms(1) 1(2)] by blast
  obtain b3 where 3: "impl_mdel N L [] (b2, c1, s1) = Inr ([], b3, c1, s1)" "length b3 = MAX_INPUT_SIZE"
    using none_get(3) [OF assms(1) 2(2)] by blast
  show ?thesis
    using 1 2(1) 3 by (simp add: request_execute_def parts combine_puts del: map_map)
qed

lemma execute_dels_ok:
  assumes "net_ok N" and "leveldb_ok L V" and "length buf = MAX_INPUT_SIZE" and "length ds \<le> 31"
    and "\<forall>(t, k) \<in> set ds. kv_string_ok t \<and> kv_string_ok k"
  shows "\<exists>buf' cur' s'. request_execute N L (map (\<lambda>(t, k). Del_op k t) ds) (buf, cur, s) =
      Inr (map (\<lambda>_. \<lparr>ierr = 0, kv_value = []\<rparr>) ds, buf', cur', s') \<and> length buf' = MAX_INPUT_SIZE \<and>
      V (disk s') = del_all ds (V (disk s))"
proof -
  let ?ops = "map (\<lambda>(t, k). Del_op k t) ds"
  have parts: "concat (map put_part ?ops) = []" "concat (map get_part ?ops) = []"
    "concat (map del_part ?ops) = map prod.swap ds"
    by (induction ds) auto
  obtain b1 where 1: "impl_mput N L [] (buf, cur, s) = Inr ([], b1, cur, s)" "length b1 = MAX_INPUT_SIZE"
    using none_get(2) [OF assms(1,3)] by blast
  obtain b2 where 2: "impl_mget N L [] (b1, cur, s) = Inr ([], b2, cur, s)" "length b2 = MAX_INPUT_SIZE"
    using none_get(1) [OF assms(1) 1(2)] by blast
  obtain b3 c3 s3 where 3: "impl_mdel N L (map prod.swap ds) (b2, cur, s) =
      Inr (map (\<lambda>_. \<lparr>ierr = 0, kv_value = []\<rparr>) ds, b3, c3, s3)" "length b3 = MAX_INPUT_SIZE"
      "V (disk s3) = del_all ds (V (disk s))"
    using impl_mdel_ok [OF assms(1,2) 2(2) assms(4,5)] by blast
  show ?thesis
    using 1(1) 2(1) 3 by (simp add: request_execute_def parts combine_dels del: map_map)
qed

subsection \<open>Several tables\<close>

definition kv_lives ::
  "kv_net \<Rightarrow> 'd leveldb \<Rightarrow> ('d \<Rightarrow> string \<Rightarrow> string \<rightharpoonup> string) \<Rightarrow> ('k, 'v) boost \<Rightarrow> string set \<Rightarrow> 'k set \<Rightarrow>
   'd kv_conn \<times> 'x \<Rightarrow> bool" where
  "kv_lives N L V B names keys w \<longleftrightarrow>
     net_ok N \<and> leveldb_ok L V \<and> boost_ok B \<and> (\<forall>k \<in> keys. key_fits B k) \<and> length (fst (fst w)) = MAX_INPUT_SIZE \<and>
     (\<forall>t \<in> names. kv_ready N L V B t w)"

definition text_put :: "('k, 'v) boost \<Rightarrow> string \<times> 'k \<times> 'v \<Rightarrow> string \<times> string \<times> string" where
  "text_put B p = (case p of (t, k, v) \<Rightarrow> (t, key_text B k, val_text B v))"

definition text_del :: "('k, 'v) boost \<Rightarrow> string \<times> 'k \<Rightarrow> string \<times> string" where
  "text_del B p = (case p of (t, k) \<Rightarrow> (t, key_text B k))"

text \<open>The disk holds a table of texts for a table of values: entry by entry, the text reads as the value.\<close>

definition entry_ok :: "('k, 'v) boost \<Rightarrow> string option \<Rightarrow> 'v option \<Rightarrow> bool" where
  "entry_ok B m v \<longleftrightarrow> (case m of None \<Rightarrow> v = None | Some s \<Rightarrow> (case text_val B s of Inl e \<Rightarrow> False | Inr x \<Rightarrow> v = Some x))"

definition holds :: "('k, 'v) boost \<Rightarrow> (string \<Rightarrow> string \<rightharpoonup> string) \<Rightarrow> (string \<Rightarrow> 'k \<rightharpoonup> 'v) \<Rightarrow> string set \<Rightarrow> bool" where
  "holds B M T names \<longleftrightarrow>
     (\<forall>t \<in> names. store_ok M t \<and> (\<forall>k. entry_ok B (M t (key_text B k)) (T t k)))"

lemma entry_value:
  "entry_ok B m v \<Longrightarrow> (case m of None \<Rightarrow> None | Some s \<Rightarrow> (case text_val B s of Inl e \<Rightarrow> None | Inr v \<Rightarrow> Some v)) = v"
  by (simp add: entry_ok_def split: option.splits sum.splits)

lemma entry_read: "entry_ok B m v \<Longrightarrow> m = Some s0 \<Longrightarrow> \<exists>x. text_val B s0 = Inr x"
  by (auto simp: entry_ok_def split: sum.splits)

lemma entry_self:
  "(\<And>s0. m = Some s0 \<Longrightarrow> \<exists>x. text_val B s0 = Inr x) \<Longrightarrow>
    entry_ok B m (case m of None \<Rightarrow> None | Some s \<Rightarrow> (case text_val B s of Inl e \<Rightarrow> None | Inr v \<Rightarrow> Some v))"
  by (fastforce simp: entry_ok_def split: option.splits sum.splits)

lemma holds_tbl:
  assumes "holds B (V (disk s)) T names" and "t \<in> names"
  shows "kv_tbl V B t ((buf, cur, s), x) = T t"
proof
  fix k
  have "entry_ok B (V (disk s) t (key_text B k)) (T t k)"
    using assms by (simp add: holds_def)
  from entry_value [OF this] show "kv_tbl V B t ((buf, cur, s), x) k = T t k"
    by (simp add: kv_tbl_def)
qed

lemma lives_holds:
  assumes "kv_lives N L V B names keys ((buf, cur, s), x)"
  shows "holds B (V (disk s)) (\<lambda>t. kv_tbl V B t ((buf, cur, s), x)) names"
  unfolding holds_def kv_tbl_def prod.case
proof (intro ballI conjI allI)
  fix t k
  assume "t \<in> names"
  with assms have l: "store_ok (V (disk s)) t"
    "\<And>k s0. V (disk s) t (key_text B k) = Some s0 \<Longrightarrow> \<exists>v. text_val B s0 = Inr v"
    by (simp_all add: kv_lives_def kv_ready_def)
  show "store_ok (V (disk s)) t"
    by (rule l(1))
  show "entry_ok B (V (disk s) t (key_text B k))
      (case V (disk s) t (key_text B k) of None \<Rightarrow> None
       | Some s \<Rightarrow> (case text_val B s of Inl e \<Rightarrow> None | Inr v \<Rightarrow> Some v))"
    using l(2) by (rule entry_self)
qed

lemma holds_lives:
  assumes "net_ok N" and "leveldb_ok L V" and "boost_ok B" and "\<forall>k \<in> keys. key_fits B k" and "length buf = MAX_INPUT_SIZE"
    and "holds B (V (disk s)) T names"
  shows "kv_lives N L V B names keys ((buf, cur, s), x)"
  using assms entry_read by (fastforce simp: kv_lives_def kv_ready_def holds_def)

lemma holds_put:
  assumes "boost_ok B" and "holds B M T names" and "val_fits B v"
  shows "holds B (M(t := (M t)(key_text B k \<mapsto> val_text B v))) (T(t := (T t)(k \<mapsto> v))) names"
  unfolding holds_def
proof (intro ballI conjI allI)
  fix t' k'
  assume t': "t' \<in> names"
  have v: "text_val B (val_text B v) = Inr v" "kv_string_ok (val_text B v)"
    using assms(3) by (simp_all add: val_fits_def)
  have h: "store_ok M t'" "entry_ok B (M t' (key_text B k')) (T t' k')"
    using assms(2) t' by (simp_all add: holds_def)
  show "store_ok (M(t := (M t)(key_text B k \<mapsto> val_text B v))) t'"
    using h(1) v(2) by (auto simp: store_ok_def)
  show "entry_ok B ((M(t := (M t)(key_text B k \<mapsto> val_text B v))) t' (key_text B k')) ((T(t := (T t)(k \<mapsto> v))) t' k')"
    using h(2) v(1) by (cases "k' = k"; cases "t' = t") (simp_all add: entry_ok_def key_inj [OF assms(1)] split: option.splits sum.splits)
qed

lemma holds_del:
  assumes "boost_ok B" and "holds B M T names"
  shows "holds B (M(t := (M t)(key_text B k := None))) (T(t := (T t)(k := None))) names"
  unfolding holds_def
proof (intro ballI conjI allI)
  fix t' k'
  assume t': "t' \<in> names"
  have h: "store_ok M t'" "entry_ok B (M t' (key_text B k')) (T t' k')"
    using assms(2) t' by (simp_all add: holds_def)
  show "store_ok (M(t := (M t)(key_text B k := None))) t'"
    using h(1) by (auto simp: store_ok_def)
  show "entry_ok B ((M(t := (M t)(key_text B k := None))) t' (key_text B k')) ((T(t := (T t)(k := None))) t' k')"
    using h(2) by (cases "k' = k"; cases "t' = t") (simp_all add: entry_ok_def key_inj [OF assms(1)] split: option.splits sum.splits)
qed

lemma holds_puts:
  assumes "boost_ok B" and "holds B M T names" and "\<forall>(t, k, v) \<in> set ps. val_fits B v"
  shows "holds B (put_all (map (text_put B) ps) M) (put_all ps T) names"
  using assms(2,3)
proof (induction ps arbitrary: M T)
  case (Cons p ps)
  obtain t k v where p: "p = (t, k, v)"
    by (cases p)
  with Cons holds_put [OF assms(1) Cons.prems(1), of v t k] show ?case
    by (simp add: text_put_def)
qed simp

lemma holds_dels:
  assumes "boost_ok B" and "holds B M T names"
  shows "holds B (del_all (map (text_del B) ds) M) (del_all ds T) names"
  using assms(2)
proof (induction ds arbitrary: M T)
  case (Cons p ds)
  obtain t k where p: "p = (t, k)"
    by (cases p)
  with Cons holds_del [OF assms(1) Cons.prems(1), of t k] show ?case
    by (simp add: text_del_def)
qed simp

lemma kv_puts:
  assumes l: "kv_lives N L V B names keys w" and ps: "\<forall>(t, k, v) \<in> set ps. t \<in> names \<and> k \<in> keys \<and> val_fits B v" and n: "length ps \<le> 31"
  shows "\<exists>w'. kv_request N L B (map (\<lambda>(t, k, v). Put_req t k v) ps) w = Inr (replicate (length ps) 0, w') \<and>
      kv_lives N L V B names keys w' \<and> (\<forall>t \<in> names. kv_tbl V B t w' = put_all ps (\<lambda>t. kv_tbl V B t w) t)"
proof -
  obtain buf cur s x where w: "w = ((buf, cur, s), x)"
    by (metis prod.collapse)
  have base: "net_ok N" "leveldb_ok L V" "boost_ok B" "\<forall>k \<in> keys. key_fits B k" "length buf = MAX_INPUT_SIZE"
    using l by (simp_all add: kv_lives_def w)
  have h: "holds B (V (disk s)) (\<lambda>t. kv_tbl V B t w) names"
    using lives_holds [OF l [unfolded w]] by (simp add: w)
  have "\<forall>(t, k, v) \<in> set (map (text_put B) ps). kv_string_ok t \<and> kv_string_ok k \<and> kv_string_ok v"
    using ps h base(4) by (auto simp: text_put_def holds_def store_ok_def key_fits_def val_fits_def)
  note texts = this
  have n': "length (map (text_put B) ps) \<le> 31"
    using n by simp
  from execute_puts_ok [OF base(1,2,5) n' texts] obtain buf' cur' s' where
    e: "request_execute N L (map (\<lambda>(t, k, v). Put_op k v t) (map (text_put B) ps)) (buf, cur, s) =
        Inr (map (\<lambda>_. \<lparr>ierr = 0, kv_value = []\<rparr>) (map (text_put B) ps), buf', cur', s')" "length buf' = MAX_INPUT_SIZE"
      "V (disk s') = put_all (map (text_put B) ps) (V (disk s))"
    by blast
  have ops: "map (req_op B) (map (\<lambda>(t, k, v). Put_req t k v) ps) = map (\<lambda>(t, k, v). Put_op k v t) (map (text_put B) ps)"
    by (auto simp: text_put_def)
  have "\<forall>(t, k, v) \<in> set ps. val_fits B v"
    using ps by auto
  from holds_puts [OF base(3) h this] have h': "holds B (V (disk s')) (put_all ps (\<lambda>t. kv_tbl V B t w)) names"
    by (simp add: e(3))
  have "kv_request N L B (map (\<lambda>(t, k, v). Put_req t k v) ps) w = Inr (replicate (length ps) 0, (buf', cur', s'), x)"
    using e(1) by (simp only: kv_request_def ops w) (simp add: map_replicate_const comp_def)
  then show ?thesis
    using holds_lives [OF base(1-4) e(2), of s', OF h'] holds_tbl [of B V s', OF h'] by (intro exI conjI ballI) simp_all
qed

lemma kv_dels:
  assumes l: "kv_lives N L V B names keys w" and ds: "\<forall>(t, k) \<in> set ds. t \<in> names \<and> k \<in> keys" and n: "length ds \<le> 31"
  shows "\<exists>w'. kv_request N L B (map (\<lambda>(t, k). Del_req t k) ds) w = Inr (replicate (length ds) 0, w') \<and>
      kv_lives N L V B names keys w' \<and> (\<forall>t \<in> names. kv_tbl V B t w' = del_all ds (\<lambda>t. kv_tbl V B t w) t)"
proof -
  obtain buf cur s x where w: "w = ((buf, cur, s), x)"
    by (metis prod.collapse)
  have base: "net_ok N" "leveldb_ok L V" "boost_ok B" "\<forall>k \<in> keys. key_fits B k" "length buf = MAX_INPUT_SIZE"
    using l by (simp_all add: kv_lives_def w)
  have h: "holds B (V (disk s)) (\<lambda>t. kv_tbl V B t w) names"
    using lives_holds [OF l [unfolded w]] by (simp add: w)
  have "\<forall>(t, k) \<in> set (map (text_del B) ds). kv_string_ok t \<and> kv_string_ok k"
    using ds h base(4) by (auto simp: text_del_def holds_def store_ok_def key_fits_def)
  note texts = this
  have n': "length (map (text_del B) ds) \<le> 31"
    using n by simp
  from execute_dels_ok [OF base(1,2,5) n' texts] obtain buf' cur' s' where
    e: "request_execute N L (map (\<lambda>(t, k). Del_op k t) (map (text_del B) ds)) (buf, cur, s) =
        Inr (map (\<lambda>_. \<lparr>ierr = 0, kv_value = []\<rparr>) (map (text_del B) ds), buf', cur', s')" "length buf' = MAX_INPUT_SIZE"
      "V (disk s') = del_all (map (text_del B) ds) (V (disk s))"
    by blast
  have ops: "map (req_op B) (map (\<lambda>(t, k). Del_req t k) ds) = map (\<lambda>(t, k). Del_op k t) (map (text_del B) ds)"
    by (auto simp: text_del_def)
  have h': "holds B (V (disk s')) (del_all ds (\<lambda>t. kv_tbl V B t w)) names"
    using holds_dels [OF base(3) h, of ds] by (simp add: e(3))
  have "kv_request N L B (map (\<lambda>(t, k). Del_req t k) ds) w = Inr (replicate (length ds) 0, (buf', cur', s'), x)"
    using e(1) by (simp only: kv_request_def ops w) (simp add: map_replicate_const comp_def)
  then show ?thesis
    using holds_lives [OF base(1-4) e(2), of s', OF h'] holds_tbl [of B V s', OF h'] by (intro exI conjI ballI) simp_all
qed

interpretation kvs: kv_tables "kv_store N L B" "kv_request N L B" "kv_lives N L V B names keys" "\<lambda>w t. kv_tbl V B t w"
    "val_fits B" names keys
  for N L V B names keys
proof
  fix w t k v
  assume l: "kv_lives N L V B names keys w" and t: "t \<in> names" and k: "k \<in> keys"
  obtain buf cur s x where w: "w = ((buf, cur, s), x)"
    by (metis prod.collapse)
  have base: "net_ok N" "leveldb_ok L V" "boost_ok B" "\<forall>k \<in> keys. key_fits B k"
    using l by (simp_all add: kv_lives_def)
  have h: "holds B (V (disk s)) (\<lambda>t. kv_tbl V B t w) names"
    using lives_holds [OF l [unfolded w]] by (simp add: w)
  have "kv_ready N L V B t ((buf, cur, s), x)" and "key_fits B k"
    using l t k by (simp_all add: w kv_lives_def)
  from kv_get_effect [OF this] obtain r buf' s' where
    g: "ds_get (kv_store N L B t) k w = Inr (r, (buf', Some t, s'), x)" "length buf' = MAX_INPUT_SIZE" "V (disk s') = V (disk s)"
      "case kv_tbl V B t w k of Some v \<Rightarrow> r = \<lparr>ierr = 0, kv_value = v\<rparr> | None \<Rightarrow> ierr r = -1"
    unfolding w by blast
  have w': "kv_lives N L V B names keys ((buf', Some t, s'), x)"
    using holds_lives [OF base g(2), of s'] h g(3) by simp
  have same: "(\<lambda>t'. kv_tbl V B t' ((buf', Some t, s'), x)) = (\<lambda>t'. kv_tbl V B t' w)"
    by (simp add: w kv_tbl_def g(3) fun_eq_iff)
  show "kv_tbl V B t w k = Some v \<Longrightarrow> \<exists>w'. ds_get (kv_store N L B t) k w = Inr (\<lparr>ierr = 0, kv_value = v\<rparr>, w') \<and>
      kv_lives N L V B names keys w' \<and> (\<lambda>t. kv_tbl V B t w') = (\<lambda>t. kv_tbl V B t w)"
    using g w' same by (intro exI [of _ "((buf', Some t, s'), x)"]) simp
  show "kv_tbl V B t w k = None \<Longrightarrow> \<exists>w' v. ds_get (kv_store N L B t) k w = Inr (\<lparr>ierr = -1, kv_value = v\<rparr>, w') \<and>
      kv_lives N L V B names keys w' \<and> (\<lambda>t. kv_tbl V B t w') = (\<lambda>t. kv_tbl V B t w)"
    using g w' same by (intro exI [of _ "((buf', Some t, s'), x)"] exI [of _ "kv_value r"]) (cases r, simp)
qed (rule kv_puts kv_dels; assumption)+

end
