(* ===== verification/Epc2_Mme_Store.thy ===== *)
theory Epc2_Mme_Store
  imports Epc2_Mme_Session Epc2_Kvs_Table
begin

section \<open>The MME and its data store\<close>

text \<open>
  Over a store that keeps its contract, and an HSS and SGW that do not touch it: what pulling
  restores, what a turn can do to the store, and that no turn ever removes a context, a detach included.
\<close>

locale shared_mme = kv_table "ds_mme_state E" live tbl fits
  for E :: "'w mme2_env" and live :: "'w \<Rightarrow> bool" and tbl :: "'w \<Rightarrow> u32 \<rightharpoonup> mme_state"
    and fits :: "mme_state \<Rightarrow> bool" +
  assumes hss_keeps: "hss_client E req w = Inr (r, w') \<Longrightarrow> live w \<Longrightarrow> live w' \<and> tbl w' = tbl w"
    and sgw_keeps: "c \<in> set (sgw_clients E) \<Longrightarrow> c req w = Inr (x, w') \<Longrightarrow> live w \<Longrightarrow> live w' \<and> tbl w' = tbl w"
begin

lemma push:
  assumes "live w" and "fits \<lparr>Mme_state_uect = c, guti_of = guti\<rparr>" and "mme2_push_context E guti c i w = Inr w'"
  shows "live w' \<and> tbl w' = (tbl w)(i \<mapsto> \<lparr>Mme_state_uect = c, guti_of = guti\<rparr>)"
  using put [OF assms(1,2), of i] assms(3)
  by (auto simp: mme2_push_context_def split: if_splits)

lemma pull:
  assumes "live w" and "mme2_pull_context E pkt m w = Inr (found, m', w')"
  shows "live w' \<and> tbl w' = tbl w \<and> found = (tbl w (mme_s1ap_ue_id (s1ap_hdr pkt)) \<noteq> None)"
proof (cases "tbl w (mme_s1ap_ue_id (s1ap_hdr pkt))")
  case None
  then show ?thesis
    using get_miss [OF assms(1) None] assms(2) by (auto simp: mme2_pull_context_def Let_def)
next
  case (Some st)
  then show ?thesis
    using get_hit [OF assms(1) Some] assms(2) by (auto simp: mme2_pull_context_def Let_def)
qed

text \<open>Pulling restores what was pushed last.\<close>

lemma pull_restores:
  assumes "live w" and "tbl w (mme_s1ap_ue_id (s1ap_hdr pkt)) = Some st"
  shows "\<exists>w'. mme2_pull_context E pkt m w =
      Inr (True, put_id (mme_s1ap_ue_id (s1ap_hdr pkt)) (guti_of st) (put_ue (guti_of st) (Mme_state_uect st) m), w') \<and>
    live w' \<and> tbl w' = tbl w"
  using get_hit [OF assms] by (auto simp: mme2_pull_context_def Let_def)

lemma call_keeps:
  assumes "sgw_client_call E t pkt w = Inr (x, w')" and "live w"
  shows "live w' \<and> tbl w' = tbl w"
proof (cases "sgw_clients E = []")
  case True
  with assms show ?thesis
    by (simp add: sgw_client_call_def getIndex_def)
next
  case False
  let ?n = "int (length (sgw_clients E))"
  obtain req index where i: "getIndex (sint t) ?n = Inr index" "\<not> index < 0"
    and c: "(sgw_clients E ! nat index) req w = Inr (x, w')"
    using assms(1) by (auto simp: sgw_client_call_def bindE_eq_Inr split: if_splits)
  have "0 < ?n"
    using False by simp
  then have "0 \<le> - sint t mod ?n" and "sint t mod ?n < ?n"
    by (rule pos_mod_sign, rule pos_mod_bound)
  moreover have "index = - (- sint t mod ?n) \<or> index = sint t mod ?n"
    using i(1) by (auto simp: getIndex_def split: if_splits)
  ultimately have "index < ?n"
    using \<open>0 < ?n\<close> by linarith
  then have "sgw_clients E ! nat index \<in> set (sgw_clients E)"
    using i(2) by (intro nth_mem) linarith
  from sgw_keeps [OF this c assms(2)] show ?thesis .
qed

text \<open>\<open>grows\<close>: every context stays in the store, possibly in a new version.\<close>

definition grows :: "'w \<Rightarrow> 'w \<Rightarrow> bool" where
  "grows w w' \<longleftrightarrow> live w' \<and> dom (tbl w) \<subseteq> dom (tbl w')"

lemma growsI: "live w' \<and> tbl w' = tbl w \<Longrightarrow> grows w w'"
  by (simp add: grows_def)

lemma grows_refl: "live w \<Longrightarrow> grows w w"
  by (simp add: grows_def)

lemma grows_trans: "grows w w1 \<Longrightarrow> grows w1 w2 \<Longrightarrow> grows w w2"
  by (auto simp: grows_def)

lemma grows_live: "grows w w' \<Longrightarrow> live w'"
  by (simp add: grows_def)

text \<open>The contexts of the replica fit into the store.\<close>

definition bounded :: "mme \<Rightarrow> bool" where
  "bounded m \<longleftrightarrow> (\<forall>guti. fits \<lparr>Mme_state_uect = ue_at guti m, guti_of = guti\<rparr>)"

lemma bounded_put: "bounded (put_ue guti c m) \<Longrightarrow> fits \<lparr>Mme_state_uect = c, guti_of = guti\<rparr>"
  unfolding bounded_def by (drule spec [of _ guti]) (simp add: ue_at_def put_ue_def)

lemma push_grows:
  assumes "mme2_push_context E guti c i w = Inr w'" and "live w" and "bounded (put_ue guti c m)"
  shows "grows w w'"
  using push [OF assms(2) bounded_put [OF assms(3)] assms(1)] by (auto simp: grows_def)

lemma pull_grows: "mme2_pull_context E pkt m w = Inr (found, m', w') \<Longrightarrow> live w \<Longrightarrow> grows w w'"
  using pull by (auto intro: growsI)

lemma call_grows: "sgw_client_call E t pkt w = Inr (x, w') \<Longrightarrow> live w \<Longrightarrow> grows w w'"
  by (rule growsI, rule call_keeps)

lemma hss_grows: "hss_client E req w = Inr (r, w') \<Longrightarrow> live w \<Longrightarrow> grows w w'"
  using hss_keeps by (auto intro: growsI)

lemmas grow_steps = push_grows pull_grows call_grows hss_grows

text \<open>Two steps in a row, by the liveness that the first one leaves.\<close>

lemma grows_then: "grows w w1 \<Longrightarrow> (live w1 \<Longrightarrow> grows w1 w2) \<Longrightarrow> grows w w2"
  using grows_trans grows_live by blast

lemma attach_grows:
  "mme2_handle_initial_attach E fd p m w = Inr (os, m', w') \<Longrightarrow> live w \<Longrightarrow> bounded m' \<Longrightarrow> grows w w'"
  by (auto simp: mme2_handle_initial_attach_def bindE_eq_Inr Let_def split: if_splits
      dest!: hss_grows intro: grows_then push_grows)

lemma autn_grows: "mme2_handle_autn E p m w = Inr (res, m', w') \<Longrightarrow> live w \<Longrightarrow> grows w w'"
  by (auto simp: mme2_handle_autn_def bindE_eq_Inr Let_def grows_refl split: if_splits dest: pull_grows)

lemma smc_grows: "mme2_handle_security_mode_cmd X E fd p m w = Inr (os, m', w') \<Longrightarrow> live w \<Longrightarrow> bounded m' \<Longrightarrow> grows w w'"
  by (auto simp: mme2_handle_security_mode_cmd_def bindE_eq_Inr Let_def grows_refl split: if_splits dest: push_grows)

lemma smcomplete_grows:
  "mme2_handle_security_mode_complete X E p m w = Inr (res, m', w') \<Longrightarrow> live w \<Longrightarrow> grows w w'"
  by (auto simp: mme2_handle_security_mode_complete_def bindE_eq_Inr Let_def grows_refl split: if_splits dest: pull_grows)

lemma create_grows:
  "mme2_handle_create_session X E fd p m w = Inr (os, m', w') \<Longrightarrow> live w \<Longrightarrow> bounded m' \<Longrightarrow> grows w w'"
  by (auto simp: mme2_handle_create_session_def bindE_eq_Inr Let_def grows_refl split: if_splits
      dest!: call_grows intro: grows_then push_grows)

lemma complete_grows:
  "mme2_handle_attach_complete X E p m w = Inr (m', w') \<Longrightarrow> live w \<Longrightarrow> grows w w'"
  by (auto simp: mme2_handle_attach_complete_def bindE_eq_Inr Let_def grows_refl split: if_splits dest: pull_grows)

lemma modify_grows:
  "mme2_handle_modify_bearer E fr fd p m w = Inr (os, m', w') \<Longrightarrow> live w \<Longrightarrow> bounded m' \<Longrightarrow> grows w w'"
  by (auto simp: mme2_handle_modify_bearer_def bindE_eq_Inr Let_def grows_refl split: if_splits
      dest!: call_grows intro: grows_then push_grows)

text \<open>Detach leaves the store exactly as it was: \<open>erase_context\<close> does nothing.\<close>

definition untouched :: "'w \<Rightarrow> 'w \<Rightarrow> bool" where
  "untouched w w' \<longleftrightarrow> live w' \<and> tbl w' = tbl w"

lemma untouched_refl: "live w \<Longrightarrow> untouched w w"
  by (simp add: untouched_def)

lemma untouched_then: "untouched w w1 \<Longrightarrow> (live w1 \<Longrightarrow> untouched w1 w2) \<Longrightarrow> untouched w w2"
  by (simp add: untouched_def)

lemma pull_untouched: "mme2_pull_context E pkt m w = Inr (found, m', w') \<Longrightarrow> live w \<Longrightarrow> untouched w w'"
  using pull by (simp add: untouched_def)

lemma call_untouched: "sgw_client_call E t pkt w = Inr (x, w') \<Longrightarrow> live w \<Longrightarrow> untouched w w'"
  unfolding untouched_def by (rule call_keeps)

lemma detach_untouched:
  assumes "mme2_handle_detach X E fr blank fd p m w = Inr (os, m', w')" and "live w"
  shows "untouched w w'"
proof -
  have start: "untouched w w1" if "(if UE_BINDING (build_of E) \<noteq> UE_BASED then mme2_pull_context E p m w
      else Inr (True, m, w)) = Inr (f, m1, w1)" for f m1 w1
    using that assms(2) by (auto split: if_splits intro: pull_untouched untouched_refl)
  obtain f m1 w1 where p: "(if UE_BINDING (build_of E) \<noteq> UE_BASED then mme2_pull_context E p m w
      else Inr (True, m, w)) = Inr (f, m1, w1)"
    using assms(1) by (auto simp: mme2_handle_detach_def bindE_eq_Inr)
  have "live w1 \<Longrightarrow> untouched w1 w'"
    using assms(1)
    by (auto simp: mme2_handle_detach_def p mme2_erase_context_def bindE_eq_Inr Let_def untouched_refl split: if_splits
        dest: call_untouched)
  with start [OF p] show ?thesis
    by (rule untouched_then)
qed

lemma detach_grows: "mme2_handle_detach X E fr blank fd p m w = Inr (os, m', w') \<Longrightarrow> live w \<Longrightarrow> grows w w'"
  using detach_untouched by (simp add: untouched_def growsI)

text \<open>
  A detach at any replica: the context is pulled, the session released at the SGW, the answer sent and the
  UE forgotten by the replica. The store keeps the context.
\<close>

lemma detach_answered:
  assumes X: "crypto_ok X" and b: "UE_BINDING (build_of E) \<noteq> UE_BASED" "\<not> REP (build_of E)"
    and "msg_type_s h = 5" and "mme_s1ap_ue_id h \<noteq> 0"
    and w: "live w" "tbl w (mme_s1ap_ue_id h) = Some st" "guti_of st \<noteq> 0" "c = Mme_state_uect st"
    and n: "0 \<le> sint (s11_cteid_mme_m c)" "1 \<le> length (sgw_clients E)" "length (sgw_clients E) \<le> 50"
    and s: "\<And>cl w1. cl \<in> set (sgw_clients E) \<Longrightarrow> live w1 \<Longrightarrow> tbl w1 = tbl w \<Longrightarrow>
      \<exists>w2. cl (detach_req (gtp_with 2 3 9 (s11_cteid_sgw_m c) (fst fresh)) (eps_bearer_id_m c) (tai_m c)) w1 =
        Inr ((Rx (bool_rsp h' True), 0), w2)"
  shows "\<exists>m' w'. mme2_handle_ue X E fresh fr blank fd (Rx (nas_msg X h (detach_body guti' ksi dt))) m w =
      Inr (1, [To_conn fd (nas_msg X (s1ap_init 5 36 (enodeb_s1ap_ue_id h) (mme_s1ap_ue_id h) h) (bool_bytes True))], m', w') \<and>
    s1mme_id m' (mme_s1ap_ue_id h) = None \<and> ue_ctx_m m' guti' = None \<and> live w' \<and> tbl w' = tbl w"
proof -
  obtain g sh d where f: "fresh = (g, sh, d)"
    by (cases fresh)
  let ?body = "detach_body guti' ksi dt"
  let ?v = "view g h d (s1ap_bytes h) (mac X (cipher X ?body) @ cipher X ?body)"
  have len: "length ?body \<le> 900"
    by (simp add: detach_body_def)
  have c16: "length (cipher X (bool_bytes True)) = 16"
    by (simp add: length_cipher X)
  let ?m1 = "put_id (mme_s1ap_ue_id h) (guti_of st) (put_ue (guti_of st) c m)"
  obtain w1 where p: "mme2_pull_context E ?v m w = Inr (True, ?m1, w1)" "live w1" "tbl w1 = tbl w"
    using pull_restores [OF w(1), of ?v st m] w(2,4) by auto
  let ?req = "detach_req (gtp_with 2 3 9 (s11_cteid_sgw_m c) g) (eps_bearer_id_m c) (tai_m c)"
  let ?j = "nat (sint (s11_cteid_mme_m c) mod int (length (sgw_clients E)))"
  have "?j < length (sgw_clients E)"
  proof -
    have pos: "0 < int (length (sgw_clients E))"
      using n(2) by linarith
    then have "0 \<le> sint (s11_cteid_mme_m c) mod int (length (sgw_clients E))"
      and "sint (s11_cteid_mme_m c) mod int (length (sgw_clients E)) < int (length (sgw_clients E))"
      by (rule pos_mod_sign, rule pos_mod_bound)
    then show ?thesis by linarith
  qed
  then have mem: "sgw_clients E ! ?j \<in> set (sgw_clients E)"
    by (rule nth_mem)
  obtain w2 where q: "(sgw_clients E ! ?j) ?req w1 = Inr ((Rx (bool_rsp h' True), 0), w2)"
    using s [OF mem p(2,3)] by (auto simp: f)
  have w2: "live w2" "tbl w2 = tbl w"
    using sgw_keeps [OF mem q p(2)] p(3) by simp_all
  have m1: "mme_get_guti ?v ?m1 = guti_of st" "ue_at (guti_of st) ?m1 = c" "touch_ue (guti_of st) ?m1 = ?m1"
    by (simp_all add: mme_get_guti_def put_id_def put_ue_def ue_at_def touch_ue_def op_idx_def at_or_def)
  have "mme2_handle_detach X E fr blank fd ?v m w =
    Inr ([To_conn fd (nas_msg X (s1ap_init 5 36 (enodeb_s1ap_ue_id h) (mme_s1ap_ue_id h) h) (bool_bytes True))],
      mme_removed (mme_s1ap_ue_id h) guti' ?m1, w2)"
    using b w(3) p(1) q m1 n open_or_exit_view [OF X len] seal_views [OF X, of "bool_bytes True"]
    by (simp add: mme2_handle_detach_def Let_def c16 sgw_client_call_ok mme2_erase_context_def
        message_defs item_ext_view item_app_view detach_body_def mme_removed_def rem_uectx_m_def rem_itfid_m_def)
  moreover have "length (mac X (cipher X ?body) @ cipher X ?body) \<le> 1000"
    using len by (simp add: length_cipher X length_mac)
  ultimately have "mme2_handle_ue X E fresh fr blank fd (Rx (nas_msg X h ?body)) m w =
    Inr (1, [To_conn fd (nas_msg X (s1ap_init 5 36 (enodeb_s1ap_ue_id h) (mme_s1ap_ue_id h) h) (bool_bytes True))],
      mme_removed (mme_s1ap_ue_id h) guti' ?m1, w2)"
    using assms(4,5) by (simp add: f mme2_handle_ue_def local_packet_def nas_msg_def cong: if_cong)
  with w2 show ?thesis
    by (simp add: mme_removed_def)
qed

text \<open>Whatever message arrives, no context leaves the store.\<close>

lemma turn_grows:
  assumes "mme2_handle_ue X E fresh fr blank fd r m w = Inr (st, os, m', w')" and "live w" and "bounded m'"
  shows "grows w w'"
  using assms
    by (auto simp: mme2_handle_ue_def bindE_eq_Inr Let_def grows_refl split: if_splits
        dest: attach_grows autn_grows smc_grows smcomplete_grows create_grows complete_grows modify_grows
        intro: grows_then detach_grows)

end


subsection \<open>The MME over the LevelDB store\<close>

text \<open>
  The environment of an MME whose store is reached over a connection and whose HSS and SGW live beside it:
  a world is the connection with the server behind it, and the rest. The rest answers without touching the
  store.
\<close>

definition beside :: "('x \<Rightarrow> ('a \<times> 'x) res) \<Rightarrow> 'c \<times> 'x \<Rightarrow> ('a \<times> 'c \<times> 'x) res" where
  "beside f w = (case w of (c, x) \<Rightarrow> bindE (f x) (\<lambda>(a, x). Inr (a, c, x)))"

definition kv_mme_env ::
  "build \<Rightarrow> kv_net \<Rightarrow> 'd leveldb \<Rightarrow> (u32, mme_state) boost \<Rightarrow> 'x sctp_peer2 \<Rightarrow> 'x udp_peer2 list \<Rightarrow>
   ('d kv_conn \<times> 'x) mme2_env" where
  "kv_mme_env b N L B hss sgws =
     \<lparr>build_of = b, ds_mme_state = kv_store N L B ''ds_mme_state'', serial = val_text B, parse = text_val B,
      hss_client = (\<lambda>req. beside (hss req)), sgw_clients = map (\<lambda>c req. beside (c req)) sgws\<rparr>"

lemma beside_live:
  assumes "beside f w = Inr (a, w')"
  shows "kv_live N L V B t w' = kv_live N L V B t w \<and> kv_tbl V B t w' = kv_tbl V B t w"
  using assms by (auto simp: beside_def kv_live_def kv_ready_def kv_tbl_def fun_eq_iff bindE_eq_Inr split: prod.splits)

interpretation kv_mme: shared_mme "kv_mme_env b N L B hss sgws" "kv_live N L V B ''ds_mme_state''"
    "kv_tbl V B ''ds_mme_state''" "val_fits B"
  for b N L V B hss sgws
proof (rule shared_mme.intro)
  show "kv_table (ds_mme_state (kv_mme_env b N L B hss sgws)) (kv_live N L V B ''ds_mme_state'')
      (kv_tbl V B ''ds_mme_state'') (val_fits B)"
    using kv.kv_table_axioms [of N L B "''ds_mme_state''" V] by (simp add: kv_mme_env_def)
  show "shared_mme_axioms (kv_mme_env b N L B hss sgws) (kv_live N L V B ''ds_mme_state'') (kv_tbl V B ''ds_mme_state'')"
    by unfold_locales (auto simp: kv_mme_env_def dest: beside_live)
qed

end
