(* ===== verification/Epc2_Gateway_Store.thy ===== *)
theory Epc2_Gateway_Store
  imports Epc2_Pgw_Session Epc2_Mme_Store
begin

section \<open>Gateways over the LevelDB store\<close>

text \<open>
  The environments of the SGW and the PGW whose handles and requests go to the LevelDB server: a world is the
  connection with the server behind it, and the rest, in which the PGW that the SGW calls lies. Both satisfy
  the contract, so what the locales prove holds for them.
\<close>

definition net_beside :: "'x net \<Rightarrow> ('c \<times> 'x) net" where
  "net_beside g a req w = (case w of (c, x) \<Rightarrow> case g a req x of (r, x) \<Rightarrow> (r, c, x))"

definition kv_sgw_env ::
  "build \<Rightarrow> nat \<Rightarrow> nat \<Rightarrow> nat \<Rightarrow> kv_net \<Rightarrow> 'd leveldb \<Rightarrow> (u32, sgw_state) boost \<Rightarrow> ('d kv_conn \<times> 'x) sgw2_env" where
  "kv_sgw_env b n11 n1 n5 N L B =
     \<lparr>build_s = b, s11_threads = n11, s1_threads = n1, s5_threads = n5, ds_table_s = kv_store N L B,
      ds_all_s = kv_request N L B, serial_s = val_text B, parse_s = text_val B\<rparr>"

definition kv_pgw_env ::
  "build \<Rightarrow> nat \<Rightarrow> nat \<Rightarrow> kv_net \<Rightarrow> 'd leveldb \<Rightarrow> (pgw_key, pgw_state) boost \<Rightarrow> pgw_state \<Rightarrow> ('d kv_conn \<times> 'x) pgw2_env" where
  "kv_pgw_env b n5 ni N L B j =
     \<lparr>build_p = b, p5_threads = n5, sgi_threads = ni, ds_table_p = kv_store N L B,
      ds_all_p = kv_request N L B, serial_p = val_text B, parse_p = text_val B, unset_state = j\<rparr>"

lemma net_beside_keeps:
  assumes "net_beside g a req w = (r, w')"
  shows "kv_lives N L V B names keys w' = kv_lives N L V B names keys w \<and> kv_tbl V B t w' = kv_tbl V B t w"
  using assms by (cases w; cases w') (auto simp: net_beside_def kv_lives_def kv_ready_def kv_tbl_def fun_eq_iff split: prod.splits)

interpretation kv_sgw: shared_sgw "kv_sgw_env b n11 n1 n5 N L B" "kv_lives N L V B sgw_tables UNIV" "\<lambda>w t. kv_tbl V B t w"
    "val_fits B" "net_beside g"
  for b n11 n1 n5 N L V B g
proof (rule shared_sgw.intro)
  show "kv_tables (ds_table_s (kv_sgw_env b n11 n1 n5 N L B)) (ds_all_s (kv_sgw_env b n11 n1 n5 N L B))
      (kv_lives N L V B sgw_tables UNIV) (\<lambda>w t. kv_tbl V B t w) (val_fits B) sgw_tables UNIV"
    using kvs.kv_tables_axioms [of N L B V sgw_tables UNIV] by (simp add: kv_sgw_env_def)
  show "shared_sgw_axioms (kv_lives N L V B sgw_tables UNIV) (\<lambda>w t. kv_tbl V B t w) (net_beside g)"
    by unfold_locales (simp add: net_beside_keeps)
qed

interpretation kv_pgw: shared_pgw "kv_pgw_env b n5 ni N L B j" "kv_lives N L V B pgw_tables pgw_keys" "\<lambda>w t. kv_tbl V B t w"
    "val_fits B"
  for b n5 ni N L V B j
  using kvs.kv_tables_axioms [of N L B V pgw_tables pgw_keys] by (simp add: kv_pgw_env_def shared_pgw_def)

end
