(* ===== verification/Epc2_Samples.thy ===== *)
theory Epc2_Samples
  imports Epc_Samples Epc2_Gateway_Store
begin

section \<open>A sample store\<close>

text \<open>
  An instance of everything that is a parameter of the data store: a network that delivers, LevelDB as a
  map of maps, and an archive that writes a value as a row of items, each with its length in front. A state whose
  port is not negative can be read back.
\<close>

definition sample_net :: kv_net where
  "sample_net = \<lparr>batoi_ret = (\<lambda>i. i), wr_events = [], rd_events = (\<lambda>bs. [Rd bs])\<rparr>"

lemma sample_net_ok: "net_ok sample_net"
  by (simp add: net_ok_def sample_net_def falls_through_def rd_ok_def)

subsection \<open>The archive\<close>

fun enc_items :: "string list \<Rightarrow> string" where
  "enc_items [] = []"
| "enc_items (s # v) = to_string (length s) @ '' '' @ s @ enc_items v"

fun dec_items :: "nat \<Rightarrow> string \<Rightarrow> string list" where
  "dec_items 0 s = []"
| "dec_items (Suc fuel) s =
     (if s = [] then []
      else
        let n = dec_val (takeWhile is_digit s); r = drop 1 (dropWhile is_digit s)
        in take n r # dec_items fuel (drop n r))"

lemma space_no_digit [simp]: "\<not> is_digit CHR '' ''"
  by (simp add: is_digit_def)

lemma digits_prefix:
  "takeWhile is_digit (to_string n @ '' '' @ r) = to_string n" "dropWhile is_digit (to_string n @ '' '' @ r) = '' '' @ r"
  using to_string_digits [of n] by (simp_all add: takeWhile_append2 dropWhile_append2)

lemma dec_enc: "length v \<le> fuel \<Longrightarrow> dec_items fuel (enc_items v) = v"
proof (induction v arbitrary: fuel)
  case Nil
  then show ?case by (cases fuel) simp_all
next
  case (Cons s v)
  then obtain k where "fuel = Suc k" "length v \<le> k"
    by (cases fuel) auto
  with Cons.IH show ?case
    using digits_prefix [of "length s" "s @ enc_items v"] by simp
qed

definition num :: "'a::len word \<Rightarrow> string" where
  "num w = to_string (unat w)"

definition numof :: "string \<Rightarrow> 'a::len word" where
  "numof s = of_nat (dec_val s)"

lemma numof_num [simp]: "numof (num w) = w"
  by (simp add: numof_def num_def)

definition sgw_items :: "sgw_state \<Rightarrow> string list" where
  "sgw_items st =
     (let c = Sgw_state_uect st in
      [num (tai_s c), num (apn_in_use_s c), num (eps_bearer_id_s c), num (s1_uteid_ul_s c), num (s1_uteid_dl_s c),
       num (s5_uteid_ul_s c), num (s5_uteid_dl_s c), num (s11_cteid_mme_s c), num (s11_cteid_sgw_s c),
       num (s5_cteid_ul_s c), num (s5_cteid_dl_s c), pgw_s5_ip_addr_s c, to_string (nat (pgw_s5_port_s c)),
       enodeb_ip_addr_s c, to_string (nat (enodeb_port_s c)), num (imsi_of_s st)])"

definition sgw_of_items :: "string list \<Rightarrow> sgw_state" where
  "sgw_of_items v =
     \<lparr>Sgw_state_uect =
        \<lparr>tai_s = numof (v ! 0), apn_in_use_s = numof (v ! 1), eps_bearer_id_s = numof (v ! 2), s1_uteid_ul_s = numof (v ! 3),
         s1_uteid_dl_s = numof (v ! 4), s5_uteid_ul_s = numof (v ! 5), s5_uteid_dl_s = numof (v ! 6),
         s11_cteid_mme_s = numof (v ! 7), s11_cteid_sgw_s = numof (v ! 8), s5_cteid_ul_s = numof (v ! 9),
         s5_cteid_dl_s = numof (v ! 10), pgw_s5_ip_addr_s = v ! 11, pgw_s5_port_s = int (dec_val (v ! 12)),
         enodeb_ip_addr_s = v ! 13, enodeb_port_s = int (dec_val (v ! 14))\<rparr>,
      imsi_of_s = numof (v ! 15)\<rparr>"

lemma sgw_of_items_items:
  "0 \<le> pgw_s5_port_s (Sgw_state_uect st) \<Longrightarrow> 0 \<le> enodeb_port_s (Sgw_state_uect st) \<Longrightarrow> sgw_of_items (sgw_items st) = st"
  by (simp add: sgw_of_items_def sgw_items_def Let_def)

definition pgw_items :: "pgw_state \<Rightarrow> string list" where
  "pgw_items st =
     (let c = Pgw_state_uect st in
      [ip_addr_p c, num (tai_p c), num (apn_in_use_p c), num (eps_bearer_id_p c), num (s5_uteid_ul_p c),
       num (s5_uteid_dl_p c), num (s5_cteid_ul_p c), num (s5_cteid_dl_p c), num (imsi_of_p st)])"

definition pgw_of_items :: "string list \<Rightarrow> pgw_state" where
  "pgw_of_items v =
     \<lparr>Pgw_state_uect =
        \<lparr>ip_addr_p = v ! 0, tai_p = numof (v ! 1), apn_in_use_p = numof (v ! 2), eps_bearer_id_p = numof (v ! 3),
         s5_uteid_ul_p = numof (v ! 4), s5_uteid_dl_p = numof (v ! 5), s5_cteid_ul_p = numof (v ! 6),
         s5_cteid_dl_p = numof (v ! 7)\<rparr>,
      imsi_of_p = numof (v ! 8)\<rparr>"

lemma pgw_of_items_items: "pgw_of_items (pgw_items st) = st"
  by (simp add: pgw_of_items_def pgw_items_def Let_def)

text \<open>An archive from a writer and a reader of items.\<close>

definition items_boost :: "('k \<Rightarrow> string) \<Rightarrow> ('v \<Rightarrow> string list) \<Rightarrow> (string list \<Rightarrow> 'v) \<Rightarrow> ('k, 'v) boost" where
  "items_boost kt wr rd =
     \<lparr>key_text = kt, val_text = (\<lambda>v. enc_items (wr v)), text_val = (\<lambda>s. Inr (rd (dec_items (length s) s))), new_val = rd (wr (rd []))\<rparr>"

fun pgw_key_text :: "pgw_key \<Rightarrow> string" where
  "pgw_key_text (S5_key t) = ''t'' @ num t"
| "pgw_key_text (Sgi_key ip) = ''a'' @ ip"

definition sgw_boost :: "(u32, sgw_state) boost" where
  "sgw_boost = items_boost num sgw_items sgw_of_items"

definition pgw_boost :: "(pgw_key, pgw_state) boost" where
  "pgw_boost = items_boost pgw_key_text pgw_items pgw_of_items"

lemma length_enc_items: "length v \<le> length (enc_items v)"
  by (induction v) simp_all

lemma items_boost_reads: "rd (wr v) = v \<Longrightarrow> text_val (items_boost kt wr rd) (val_text (items_boost kt wr rd) v) = Inr v"
  by (simp add: items_boost_def dec_enc length_enc_items)

lemma inj_num: "inj (num :: 'a::len word \<Rightarrow> string)"
  by (rule inj_on_inverseI [of _ numof]) simp

lemma inj_pgw_key_text: "inj pgw_key_text"
proof (rule injI)
  fix x y
  assume "pgw_key_text x = pgw_key_text y"
  then show "x = y"
    using injD [OF inj_num] by (cases x; cases y) auto
qed

lemma nul_free_to_string: "nul_free (to_string n)"
proof -
  have "CHR 0x00 \<notin> set (to_string n)"
    using to_string_digits [of n] by (auto simp: is_digit_def)
  then show ?thesis
    by (simp add: nul_free_def)
qed

lemma nul_free_enc: "\<forall>s \<in> set v. nul_free s \<Longrightarrow> nul_free (enc_items v)"
  using nul_free_to_string by (induction v) (auto simp: nul_free_def)

subsection \<open>Replicas, contexts and the server\<close>

definition sample_mme2 :: mme where
  "sample_mme2 = \<lparr>mme_ids_of = \<lparr>mcc = 1, mnc = 1, plmn_id = 11, mmegi = 1, mmec = 1, mmei = 11, gummei = 1111\<rparr>,
     ue_count = INIT_VAL, s1mme_id = Map.empty, ue_ctx_m = Map.empty\<rparr>"

definition sample_ctx :: mme_ue where
  "sample_ctx = new_mme_ue\<lparr>imsi_m := 119000000007, mme_s1ap_ue_id_m := 9, xres_m := 42, eps_bearer_id_m := 5,
     s11_cteid_mme_m := 7, s11_cteid_sgw_m := 7\<rparr>"

text \<open>A store with one entry, in memory.\<close>

definition one_store :: "(u32, mme_state, unit) kvstore" where
  "one_store =
     \<lparr>ds_get = (\<lambda>k w. Inr (\<lparr>ierr = (if k = 9 then 0 else -1), kv_value = \<lparr>Mme_state_uect = sample_ctx, guti_of = 77\<rparr>\<rparr>, w)),
      ds_put = (\<lambda>k v w. Inr (0, w)), ds_del = (\<lambda>k w. Inr (0, w))\<rparr>"

definition sample_mme2_env :: "ue_binding \<Rightarrow> unit mme2_env" where
  "sample_mme2_env b =
     \<lparr>build_of = \<lparr>UE_BINDING = b, NOCACHE = False, REP = False\<rparr>, ds_mme_state = one_store,
      serial = (\<lambda>_. ''state''), parse = (\<lambda>_. Inr \<lparr>Mme_state_uect = sample_ctx, guti_of = 77\<rparr>),
      hss_client = (\<lambda>_ w. Inr (Rx_fail [] (-1), w)),
      sgw_clients = [\<lambda>_ w. Inr ((Rx (bool_rsp (sample_gtp 3 7) True), 0), w)]\<rparr>"

definition sample_sgw_ctx :: sgw_ue where
  "sample_sgw_ctx = new_sgw_ue\<lparr>s1_uteid_ul_s := 7, s5_uteid_ul_s := 7, s5_uteid_dl_s := 7, s11_cteid_mme_s := 7,
     s11_cteid_sgw_s := 7, s5_cteid_ul_s := 7, s5_cteid_dl_s := 7, pgw_s5_ip_addr_s := PGWLB_addr, pgw_s5_port_s := 8000,
     s1_uteid_dl_s := 3, enodeb_ip_addr_s := RAN_addr, enodeb_port_s := 4000\<rparr>"

lemma short_num: "nul_free (num (t :: u32))" "length (num (t :: u32)) \<le> 10"
proof -
  have "unat t < 10 ^ 10"
    using unsigned_less [where w = t and 'a = nat] by simp
  then show "length (num t) \<le> 10"
    unfolding num_def by (rule length_to_string_le) simp
qed (simp add: num_def nul_free_to_string)

lemma short_keys: "kv_string_ok (num (t :: u32))"
  using short_num [of t] by (simp add: kv_string_ok_def MAX_INPUT_SIZE_def)

lemma sample_tables_ok: "t \<in> {SGW11, SGW1, SGW5, S5_ID, SGI_ID} \<Longrightarrow> kv_string_ok t"
  by (auto simp: SGW11_def SGW1_def SGW5_def S5_ID_def SGI_ID_def kv_string_ok_def nul_free_def MAX_INPUT_SIZE_def)

text \<open>A connection to a server with the content \<open>d\<close>.\<close>

definition sample_conn :: "(string \<Rightarrow> string \<rightharpoonup> string) \<Rightarrow> (string \<Rightarrow> string \<rightharpoonup> string) kv_conn" where
  "sample_conn d = (replicate MAX_INPUT_SIZE 0, None, \<lparr>tablemap = {}, disk = d\<rparr>)"

lemma sample_conn_lives:
  assumes "boost_ok B" and "\<forall>k \<in> keys. key_fits B k" and "\<forall>t \<in> names. kv_string_ok t"
    and "\<And>t k s. d t k = Some s \<Longrightarrow> kv_string_ok s \<and> (\<exists>v. text_val B s = Inr v)"
  shows "kv_lives sample_net sample_leveldb (\<lambda>d. d) B names keys (sample_conn d, x)"
  using assms sample_net_ok leveldb_ok_sample
  by (auto simp: kv_lives_def kv_ready_def sample_conn_def store_ok_def)

lemma kv_lives_live:
  "kv_lives N L V B names UNIV w \<Longrightarrow> t \<in> names \<Longrightarrow> kv_live N L V B t w"
  by (simp add: kv_lives_def kv_live_def)

lemma sgw_boost_ok: "boost_ok sgw_boost" "key_fits sgw_boost k"
  using inj_num [where 'a = 32] short_keys by (simp_all add: boost_ok_def sgw_boost_def items_boost_def key_fits_def)

lemma sgw_tables_ok: "\<forall>t \<in> sgw_tables. kv_string_ok t"
  using sample_tables_ok by (simp add: sgw_tables_def)

definition sample_kv_world :: "((string \<Rightarrow> string \<rightharpoonup> string) kv_conn) \<times> unit" where
  "sample_kv_world = (sample_conn (\<lambda>_. Map.empty), ())"

lemma sample_lives: "kv_lives sample_net sample_leveldb (\<lambda>d. d) sgw_boost sgw_tables UNIV sample_kv_world"
  unfolding sample_kv_world_def by (rule sample_conn_lives) (simp_all add: sgw_boost_ok sgw_tables_ok)

lemma short_items:
  assumes "\<forall>s \<in> set v. nul_free s \<and> length s \<le> 99" and "length v \<le> 1000"
  shows "kv_string_ok (enc_items v)"
proof -
  have "length (to_string n) \<le> 2" if "n \<le> 99" for n
    using length_to_string_le [of n 2] that by simp
  then have "length (enc_items v) \<le> 102 * length v"
    using assms(1) by (induction v) fastforce+
  then show ?thesis
    using assms nul_free_enc [of v] by (auto simp: kv_string_ok_def MAX_INPUT_SIZE_def)
qed

lemma num_short: "nul_free (num (w :: 'a::len word)) \<and> (LENGTH('a) \<le> 64 \<longrightarrow> length (num w) \<le> 99)"
proof -
  have "unat w < 10 ^ 99" if "LENGTH('a) \<le> 64"
  proof -
    have "unat w < 2 ^ LENGTH('a)"
      by (rule unsigned_less)
    also have "\<dots> \<le> 2 ^ 64"
      using that by (rule power_increasing) simp
    finally show ?thesis
      by simp
  qed
  then show ?thesis
    using length_to_string_le [of "unat w" 99] nul_free_to_string by (auto simp: num_def)
qed

lemma sgw_fits:
  assumes "short_ip (pgw_s5_ip_addr_s c)" and "short_ip (enodeb_ip_addr_s c)" and "0 \<le> pgw_s5_port_s c"
    and "0 \<le> enodeb_port_s c" and "pgw_s5_port_s c < 2 ^ 31" and "enodeb_port_s c < 2 ^ 31"
  shows "val_fits sgw_boost \<lparr>Sgw_state_uect = c, imsi_of_s = i\<rparr>"
proof -
  have p: "length (to_string (nat k)) \<le> 99 \<and> nul_free (to_string (nat k))" if "k < 2 ^ 31" for k
    using length_to_string_le [of "nat k" 99] nul_free_to_string that by auto
  have "kv_string_ok (enc_items (sgw_items \<lparr>Sgw_state_uect = c, imsi_of_s = i\<rparr>))"
    using assms(1,2) p [OF assms(5)] p [OF assms(6)] num_short [where 'a = 8] num_short [where 'a = 32] num_short [where 'a = 64]
    by (intro short_items) (auto simp: sgw_items_def Let_def short_ip_def)
  moreover have "sgw_of_items (sgw_items \<lparr>Sgw_state_uect = c, imsi_of_s = i\<rparr>) = \<lparr>Sgw_state_uect = c, imsi_of_s = i\<rparr>"
    using assms(3,4) by (simp add: sgw_of_items_items)
  ultimately show ?thesis
    using items_boost_reads [of sgw_of_items sgw_items "\<lparr>Sgw_state_uect = c, imsi_of_s = i\<rparr>" num]
    by (simp add: val_fits_def sgw_boost_def) (simp add: items_boost_def)
qed

lemma sample_sgw_fits: "val_fits sgw_boost \<lparr>Sgw_state_uect = sample_sgw_ctx, imsi_of_s = plan_imsi 7\<rparr>"
  by (rule sgw_fits) (simp_all add: sample_sgw_ctx_def new_sgw_ue_def PGWLB_addr_def RAN_addr_def short_ip_def nul_free_def)

lemma build_default_fields [simp]: "UE_BINDING build_default = SESSION_BASED" "\<not> NOCACHE build_default" "\<not> REP build_default"
  by (simp_all add: build_default_def)

definition sample_mme_boost :: "(u32, mme_state) boost" where
  "sample_mme_boost =
     \<lparr>key_text = num, val_text = (\<lambda>_. ''state''), text_val = (\<lambda>_. Inr \<lparr>Mme_state_uect = sample_ctx, guti_of = 77\<rparr>),
      new_val = \<lparr>Mme_state_uect = new_mme_ue, guti_of = 0\<rparr>\<rparr>"

definition sample_mme_world :: "(string \<Rightarrow> string \<rightharpoonup> string) kv_conn \<times> unit" where
  "sample_mme_world = (sample_conn (\<lambda>t. [num (9 :: u32) \<mapsto> ''state'']), ())"

lemma sample_mme_live: "kv_live sample_net sample_leveldb (\<lambda>d. d) sample_mme_boost ''ds_mme_state'' sample_mme_world"
  unfolding sample_mme_world_def using inj_num [where 'a = 32] short_keys
  by (intro kv_lives_live [of _ _ _ _ "{''ds_mme_state''}"] sample_conn_lives)
    (auto simp: boost_ok_def key_fits_def sample_mme_boost_def kv_string_ok_def nul_free_def MAX_INPUT_SIZE_def split: if_splits)

definition sample_sgw_env :: "((string \<Rightarrow> string \<rightharpoonup> string) kv_conn \<times> unit) sgw2_env" where
  "sample_sgw_env = kv_sgw_env build_default 4 4 4 sample_net sample_leveldb sgw_boost"

definition sample_sgw :: sgw where
  "sample_sgw = \<lparr>s11_id = [7 \<mapsto> plan_imsi 7], s1_id = [7 \<mapsto> plan_imsi 7], s5_id = [7 \<mapsto> plan_imsi 7],
     ue_ctx_s = [plan_imsi 7 \<mapsto> sample_sgw_ctx], ho_ue_ctx = Map.empty\<rparr>"

lemma sample_imsi_7: "plan_imsi 7 \<noteq> 0"
  by (simp add: plan_imsi_def)

lemma sample_addrs:
  "set_inet_sock_addr sample_lib v2_g_pgw_s5_ip_addr g_pgw_s5_port = Inr ([10, 129, 26, 201], word_of_int g_pgw_s5_port)"
  "set_inet_sock_addr sample_lib RAN_addr p = Inr ([10, 129, 26, 170], word_of_int p)"
  "set_inet_sock_addr sample_lib PGWLB_addr p = Inr ([10, 129, 26, 201], word_of_int p)"
  "set_inet_sock_addr sample_lib SGWLB_addr p = Inr ([10, 129, 26, 202], word_of_int p)"
proof -
  have "inet_aton sample_lib ''10.129.26.201'' = Some [10, 129, 26, 201]" "inet_aton sample_lib ''10.129.26.170'' = Some [10, 129, 26, 170]"
    "inet_aton sample_lib ''10.129.26.202'' = Some [10, 129, 26, 202]"
    by code_simp+
  then show "set_inet_sock_addr sample_lib v2_g_pgw_s5_ip_addr g_pgw_s5_port = Inr ([10, 129, 26, 201], word_of_int g_pgw_s5_port)"
    "set_inet_sock_addr sample_lib RAN_addr p = Inr ([10, 129, 26, 170], word_of_int p)"
    "set_inet_sock_addr sample_lib PGWLB_addr p = Inr ([10, 129, 26, 201], word_of_int p)"
    "set_inet_sock_addr sample_lib SGWLB_addr p = Inr ([10, 129, 26, 202], word_of_int p)"
    by (simp_all add: set_inet_sock_addr_def v2_g_pgw_s5_ip_addr_def PGWLB_addr_def RAN_addr_def SGWLB_addr_def)
qed

definition sample_data :: "u8 list" where
  "sample_data = [1, 2, 3, 4]"

lemma sample_sgw_values:
  "s11_cteid_mme_s sample_sgw_ctx = 7" "s11_cteid_sgw_s sample_sgw_ctx = 7" "s1_uteid_ul_s sample_sgw_ctx = 7"
  "s5_uteid_dl_s sample_sgw_ctx = 7" "s5_cteid_ul_s sample_sgw_ctx = 7" "s5_uteid_ul_s sample_sgw_ctx = 7"
  "pgw_s5_ip_addr_s sample_sgw_ctx = PGWLB_addr" "pgw_s5_port_s sample_sgw_ctx = 8000"
  "sgw_ue_at (plan_imsi 7) sample_sgw = sample_sgw_ctx" "s11_id sample_sgw 7 = Some (plan_imsi 7)"
  "s11_id new_sgw t = None" "s1_id new_sgw t = None" "s5_id new_sgw t = None" "short_ip RAN_addr" "short_ip PGWLB_addr"
  by (simp_all add: sample_sgw_ctx_def sample_sgw_def sgw_ue_at_def at_or_def new_sgw_def short_ip_def RAN_addr_def PGWLB_addr_def
    nul_free_def)

definition sample_sgw_disk :: "string \<Rightarrow> string \<rightharpoonup> string" where
  "sample_sgw_disk t = [num (7 :: u32) \<mapsto> val_text sgw_boost \<lparr>Sgw_state_uect = sample_sgw_ctx, imsi_of_s = plan_imsi 7\<rparr>]"

lemma sample_sgw_disk_lives:
  "kv_lives sample_net sample_leveldb (\<lambda>d. d) sgw_boost sgw_tables UNIV (sample_conn sample_sgw_disk, x)"
  using sample_sgw_fits
  by (intro sample_conn_lives) (auto simp: sgw_boost_ok sgw_tables_ok sample_sgw_disk_def val_fits_def split: if_splits)

lemma sample_sgw_stored:
  "stored_ok (\<lambda>w t. kv_tbl (\<lambda>d. d) sgw_boost t w) (sample_conn sample_sgw_disk, x) \<lparr>Sgw_state_uect = sample_sgw_ctx, imsi_of_s = plan_imsi 7\<rparr>"
proof -
  have "key_text sgw_boost 7 = num (7 :: u32)"
    by (simp add: sgw_boost_def items_boost_def)
  then show ?thesis
    using sample_sgw_fits by (simp add: stored_ok_def kv_tbl_def sample_conn_def sample_sgw_disk_def val_fits_def sample_sgw_values)
qed

text \<open>Samples: a PGW that plans the address 10.0.0.7 for a subscriber, and a packet to that address.\<close>

definition sample_ip :: string where
  "sample_ip = dotted [10, 0, 0, 7]"

definition sample_user_packet :: "u8 list" where
  "sample_user_packet = replicate 16 0 @ [10, 0, 0, 7]"

definition sample_pgw_ctx :: pgw_ue where
  "sample_pgw_ctx = pgw2_ctx 7 5 3 1 1 sample_ip"

definition no_pgw :: pgw where
  "no_pgw = \<lparr>s5_id_p = Map.empty, sgi_id = Map.empty, ue_ctx_p = Map.empty, ip_addrs = [plan_imsi 7 \<mapsto> sample_ip]\<rparr>"

definition sample_pgw :: pgw where
  "sample_pgw = no_pgw\<lparr>s5_id_p := [7 \<mapsto> plan_imsi 7], sgi_id := [sample_ip \<mapsto> plan_imsi 7], ue_ctx_p := [plan_imsi 7 \<mapsto> sample_pgw_ctx]\<rparr>"

definition sample_junk_state :: pgw_state where
  "sample_junk_state = \<lparr>Pgw_state_uect = new_pgw_ue, imsi_of_p = 3\<rparr>"

definition sample_pgw_env :: "build \<Rightarrow> ((string \<Rightarrow> string \<rightharpoonup> string) kv_conn \<times> unit) pgw2_env" where
  "sample_pgw_env b = kv_pgw_env b 4 4 sample_net sample_leveldb pgw_boost sample_junk_state"

lemma sample_pgw_values:
  "short_ip sample_ip" "sample_ip = at_or '''' (ip_addrs no_pgw) (plan_imsi 7)" "sgi_id no_pgw ip = None"
  "length sample_user_packet = 20" "inet_ntop sample_lib (drop 16 sample_user_packet) = sample_ip"
  "s5_id_p sample_pgw 7 = Some (plan_imsi 7)" "sgi_id sample_pgw sample_ip = Some (plan_imsi 7)"
  "ue_ctx_p sample_pgw (plan_imsi 7) = Some sample_pgw_ctx" "imsi_of_p sample_junk_state \<noteq> 0"
proof -
  have ip: "sample_ip = ''10.0.0.7''"
    by code_simp
  show "short_ip sample_ip"
    unfolding ip by (simp add: short_ip_def nul_free_def)
qed (simp_all add: no_pgw_def sample_pgw_def sample_user_packet_def sample_ip_def at_or_def sample_lib_def sample_junk_state_def)

lemma pgw_fits: "short_ip (ip_addr_p c) \<Longrightarrow> val_fits pgw_boost \<lparr>Pgw_state_uect = c, imsi_of_p = i\<rparr>"
proof -
  assume "short_ip (ip_addr_p c)"
  then have "kv_string_ok (enc_items (pgw_items \<lparr>Pgw_state_uect = c, imsi_of_p = i\<rparr>))"
    using num_short [where 'a = 8] num_short [where 'a = 32] num_short [where 'a = 64]
    by (intro short_items) (auto simp: pgw_items_def Let_def short_ip_def)
  then show ?thesis
    using items_boost_reads [of pgw_of_items pgw_items "\<lparr>Pgw_state_uect = c, imsi_of_p = i\<rparr>" pgw_key_text]
    by (simp add: val_fits_def pgw_boost_def pgw_of_items_items) (simp add: items_boost_def)
qed

lemma sample_pgw_fits: "val_fits pgw_boost \<lparr>Pgw_state_uect = sample_pgw_ctx, imsi_of_p = i\<rparr>"
  by (rule pgw_fits) (simp add: sample_pgw_ctx_def pgw2_ctx_def pgw_ue_init_def sample_pgw_values(1))

lemma pgw_boost_ok: "boost_ok pgw_boost" "\<forall>k \<in> pgw_keys. key_fits pgw_boost k"
proof -
  have "kv_string_ok (pgw_key_text k)" if "k \<in> pgw_keys" for k
  proof (cases k)
    case (S5_key t)
    then show ?thesis
      using short_num [of t] by (simp add: kv_string_ok_def nul_free_def MAX_INPUT_SIZE_def)
  next
    case (Sgi_key ip)
    with that show ?thesis
      by (simp add: kv_string_ok_def nul_free_def short_ip_def MAX_INPUT_SIZE_def)
  qed
  then show "boost_ok pgw_boost" "\<forall>k \<in> pgw_keys. key_fits pgw_boost k"
    using inj_pgw_key_text by (simp_all add: boost_ok_def key_fits_def pgw_boost_def items_boost_def)
qed

lemma sample_pgw_lives:
  "kv_lives sample_net sample_leveldb (\<lambda>d. d) pgw_boost pgw_tables pgw_keys (sample_conn (\<lambda>_. Map.empty), x)"
  using sample_tables_ok by (intro sample_conn_lives) (simp_all add: pgw_boost_ok pgw_tables_def)

lemma sample_conn_empty: "kv_tbl (\<lambda>d. d) B t (sample_conn (\<lambda>_. Map.empty), x) k = None"
  by (simp add: kv_tbl_def sample_conn_def)

end
