(* ===== verification/Epc2_Hss.thy ===== *)
theory Epc2_Hss
  imports Epc_Hss Epc2_Store
begin

section \<open>HSS of version 2.0 (hss.h, hss.cpp, hss_server.cpp)\<close>

text \<open>
  The HSS with the subscribers in the data store instead of MySQL. A worker uses the handles with its own
  number; \<open>workers_h\<close> is how many there are. The results of \<open>del\<close> and \<open>put\<close> are not looked at.
\<close>

record authinfo =
  key_id :: u64
  rand_num_of :: u64

record 'w hss2_env =
  workers_h :: nat
  ds_autn_infos :: "(u64, authinfo, 'w) kvstore"
  ds_loc_infos :: "(u64, u32, 'w) kvstore"

definition hss2_get_autn_info :: "'w hss2_env \<Rightarrow> u64 \<Rightarrow> nat \<Rightarrow> 'w \<Rightarrow> ((u64 \<times> u64) \<times> 'w) res" where
  "hss2_get_autn_info E imsi worker_id w =
     bindE (in_vector worker_id (workers_h E)) (\<lambda>_.
     bindE (ds_get (ds_autn_infos E) imsi w) (\<lambda>(bundle, w).
     if ierr bundle < 0 then Inl (Exit ''datastore retrieval error: hss_getautninfo'')
     else Inr ((key_id (kv_value bundle), rand_num_of (kv_value bundle)), w)))"

definition hss2_handle_autninfo_req :: "'w hss2_env \<Rightarrow> packet \<Rightarrow> nat \<Rightarrow> 'w \<Rightarrow> (u8 list \<times> 'w) res" where
  "hss2_handle_autninfo_req E pkt worker_id w =
     bindE (extract_u64 pkt) (\<lambda>(imsi, pkt).
     bindE (extract_u16 pkt) (\<lambda>(plmn_id, pkt).
     bindE (extract_u64 pkt) (\<lambda>(num_autn_vectors, pkt).
     bindE (extract_u16 pkt) (\<lambda>(nw_type, pkt).
     bindE (hss2_get_autn_info E imsi worker_id w) (\<lambda>((key, rand_num), w).
     let sqn = rand_num + 1;
         xres = key + sqn + rand_num;
         autn_num = xres + 1;
         ck = xres + 2;
         ik = xres + 3;
         k_asme = ck + ik + sqn + ucast plmn_id;
         pkt = clear_pkt pkt in
     bindE (append_u64 autn_num pkt) (\<lambda>pkt.
     bindE (append_u64 rand_num pkt) (\<lambda>pkt.
     bindE (append_u64 xres pkt) (\<lambda>pkt.
     bindE (append_u64 k_asme pkt) (\<lambda>pkt.
     bindE (prepend_diameter_hdr 1 (len16 pkt) pkt) (\<lambda>pkt.
     bindE (sctp_snd pkt) (\<lambda>m. Inr (m, w))))))))))))"

definition hss2_set_loc_info :: "'w hss2_env \<Rightarrow> u64 \<Rightarrow> u32 \<Rightarrow> nat \<Rightarrow> 'w \<Rightarrow> 'w res" where
  "hss2_set_loc_info E imsi mmei worker_id w =
     bindE (in_vector worker_id (workers_h E)) (\<lambda>_.
     bindE (ds_del (ds_loc_infos E) imsi w) (\<lambda>(_, w).
     bindE (ds_put (ds_loc_infos E) imsi mmei w) (\<lambda>(_, w).
     Inr w)))"

definition hss2_handle_location_update :: "'w hss2_env \<Rightarrow> packet \<Rightarrow> nat \<Rightarrow> 'w \<Rightarrow> (u8 list \<times> 'w) res" where
  "hss2_handle_location_update E pkt worker_id w =
     bindE (extract_u64 pkt) (\<lambda>(imsi, pkt).
     bindE (extract_u32 pkt) (\<lambda>(mmei, pkt).
     bindE (hss2_set_loc_info E imsi mmei worker_id w) (\<lambda>w.
     bindE (append_u64 1 (clear_pkt pkt)) (\<lambda>pkt.
     bindE (prepend_diameter_hdr 2 (len16 pkt) pkt) (\<lambda>pkt.
     bindE (sctp_snd pkt) (\<lambda>m. Inr (m, w)))))))"

definition hss2_handle_mme ::
  "'w hss2_env \<Rightarrow> fresh_hdrs \<Rightarrow> rx \<Rightarrow> nat \<Rightarrow> 'w \<Rightarrow> (int \<times> u8 list option \<times> 'w) res" where
  "hss2_handle_mme E fresh r worker_id w =
     bindE (local_packet fresh) (\<lambda>pkt.
     bindE (sctp_deliver r pkt) (\<lambda>pkt.
     if len pkt \<le> 0 then Inr (0, None, w)
     else bindE (extract_diameter_hdr pkt) (\<lambda>pkt.
       if msg_type_d (diameter_hdr pkt) = 1 then
         bindE (hss2_handle_autninfo_req E pkt worker_id w) (\<lambda>(m, w). Inr (1, Some m, w))
       else if msg_type_d (diameter_hdr pkt) = 2 then
         bindE (hss2_handle_location_update E pkt worker_id w) (\<lambda>(m, w). Inr (1, Some m, w))
       else Inr (1, None, w))))"

subsection \<open>The same answers as from MySQL\<close>

lemma hss2_same_answer:
  assumes "hss_db_ok Q imsi key rand_num db" and "i < workers_h E"
    and "ds_get (ds_autn_infos E) imsi w = Inr (\<lparr>ierr = 0, kv_value = \<lparr>key_id = key, rand_num_of = rand_num\<rparr>\<rparr>, w')"
    and "msg_type_d h = 1"
  shows "\<exists>m. hss_handle_mme Q fresh kr (Rx (autn_req_bytes h imsi plmn n nw)) db = Inr (1, Some m, db) \<and>
    hss2_handle_mme E fresh (Rx (autn_req_bytes h imsi plmn n nw)) i w = Inr (1, Some m, w')"
  using assms hss_get_autn_info_ok [OF assms(1), of kr]
  by (cases fresh) (simp add: hss_handle_mme_def hss2_handle_mme_def local_packet_def autn_req_bytes_def
    hss_handle_autninfo_req_def hss2_handle_autninfo_req_def hss2_get_autn_info_def in_vector_def
    autn_vector_def Let_def item_ext_view item_app_view)

end
