(* ===== verification/Epc2_Properties.thy ===== *)
theory Epc2_Properties
  imports Epc2_Samples Epc2_Hss
begin

section \<open>Properties of version 2.0\<close>

text \<open>
  What the data store buys and what it does not: after the initial attach the replicas of the MME are interchangeable, a session that one
  gateway stored is served by all, and where a detached or not yet known UE leaves something behind. The
  worlds of the store contain the connection of one client; every request names its table and overwrites
  the buffer, so that what other replicas sent over other connections makes no difference.
\<close>

subsection \<open>Replicas of the MME\<close>

text \<open>
  C17: in the mode that pushes after every message, the tables of an MME replica do not matter once the UE has its MME id. Any
  two replicas, whatever their tables, answer a message that carries an MME id and fits the packet buffer (a body of at most 1000
  bytes) with the same messages and leave the same world, or stop with the same error; for attach complete, provided
  that the store returns the context. The initial attach, which carries the id 0, is not covered: its answer contains
  the next value of the replica's own \<open>ue_count\<close>.
\<close>

theorem stateless_replicas:
  assumes "UE_BINDING (build_of E) = STATE_LESS" and "mme_s1ap_ue_id h \<noteq> 0" and "length body \<le> 1000"
    and "\<And>b v. msg_type_s h = 4 \<Longrightarrow> ds_get (ds_mme_state E) (mme_s1ap_ue_id h) w = Inr (b, v) \<Longrightarrow> 0 \<le> ierr b"
  shows "same turn_seen
    (mme2_handle_ue X E fresh fr blank fd (Rx (s1ap_bytes h @ body)) m w)
    (mme2_handle_ue X E fresh fr blank fd (Rx (s1ap_bytes h @ body)) m' w)"
  by (rule stateless_turn [OF assms])

theorem stateless_replicas_witness:
  "same turn_seen
    (mme2_handle_ue sample_lib (sample_mme2_env STATE_LESS) sample_fresh sample_fresh \<lparr>Mme_state_uect = sample_ctx, guti_of = 0\<rparr> 4
      (Rx (s1ap_bytes (sample_s1ap 4 9) @ replicate 20 0)) sample_mme2 ())
    (mme2_handle_ue sample_lib (sample_mme2_env STATE_LESS) sample_fresh sample_fresh \<lparr>Mme_state_uect = sample_ctx, guti_of = 0\<rparr> 4
      (Rx (s1ap_bytes (sample_s1ap 4 9) @ replicate 20 0)) (put_id 9 3 sample_mme2) ())"
  by (rule stateless_replicas) (auto simp: sample_mme2_env_def one_store_def)

text \<open>
  C18: replication. In the mode without a store, the copy of a context that a replica sends makes the receiver a
  full substitute: from then on both answer any message of that UE alike.
\<close>

theorem mme_replica_takes_over:
  assumes "UE_BINDING (build_of E) = UE_BASED" and "serial_ok E \<lparr>Mme_state_uect = c, guti_of = guti\<rparr>"
    and "s1mme_id m i = Some guti" and "ue_ctx_m m guti = Some c" and "i \<noteq> 0"
    and "mme_s1ap_ue_id h = i" and "length body \<le> 1000"
  shows "\<exists>msg q m1.
    mme2_send_replication E fresh 1 \<lparr>Mme_state_uect = c, guti_of = guti\<rparr> i guti = Inr [To_replicas msg] \<and>
    mme2_replication_turn E (Rx msg) (pkt, m') = Inr (q, m1) \<and>
    same turn_seen
      (mme2_handle_ue X E fresh fr blank fd (Rx (s1ap_bytes h @ body)) m w)
      (mme2_handle_ue X E fresh fr blank fd (Rx (s1ap_bytes h @ body)) m1 w)"
proof -
  let ?st = "\<lparr>Mme_state_uect = c, guti_of = guti\<rparr>"
  obtain q where r: "mme2_replication_turn E (Rx (push_msg E i ?st)) (pkt, m') = Inr (q, put_id i guti (put_ue guti c m'))"
    using receive_push [OF assms(2), of i pkt m'] by auto
  have "agree (mme_s1ap_ue_id h) guti m (put_id i guti (put_ue guti c m'))"
    using assms(3,4,6) by (simp add: agree_def put_id_def put_ue_def)
  from agree_turn [OF assms(1) this _ assms(7)] assms(5,6) r send_push [OF assms(2), of fresh i guti] show ?thesis
    by blast
qed

theorem mme_replica_takes_over_witness:
  "\<exists>msg q m1.
    mme2_send_replication (sample_mme2_env UE_BASED) sample_fresh 1 \<lparr>Mme_state_uect = sample_ctx, guti_of = 77\<rparr> 9 77 =
      Inr [To_replicas msg] \<and>
    mme2_replication_turn (sample_mme2_env UE_BASED) (Rx msg) (sample_pkt, sample_mme2) = Inr (q, m1) \<and>
    same turn_seen
      (mme2_handle_ue sample_lib (sample_mme2_env UE_BASED) sample_fresh sample_fresh \<lparr>Mme_state_uect = sample_ctx, guti_of = 0\<rparr> 4
        (Rx (s1ap_bytes (sample_s1ap 2 9) @ le_word 8 (42 :: u64))) (put_id 9 77 (put_ue 77 sample_ctx sample_mme2)) ())
      (mme2_handle_ue sample_lib (sample_mme2_env UE_BASED) sample_fresh sample_fresh \<lparr>Mme_state_uect = sample_ctx, guti_of = 0\<rparr> 4
        (Rx (s1ap_bytes (sample_s1ap 2 9) @ le_word 8 (42 :: u64))) m1 ())"
  by (rule mme_replica_takes_over)
    (simp_all add: sample_mme2_env_def serial_ok_def nul_free_def put_id_def put_ue_def)

text \<open>
  C19: version 2.0 without sharing and replication handles the authentication response and the detach
  of a known UE exactly as version 1.0 does, over any SGW and HSS.
\<close>

theorem mme_versions_agree:
  assumes "mme_s1ap_ue_id h \<noteq> 0" and "msg_type_s h \<in> {2, 5}" and "s1mme_id m (mme_s1ap_ue_id h) = Some guti"
    and "guti \<noteq> 0" and "length body \<le> 1000" and "1 \<le> n" and "n \<le> 50" and "0 \<le> sint (s11_cteid_mme_m (ue_at guti m))"
  shows "same turn_sent (mme_handle_ue X fresh hss sgw fd (Rx (s1ap_bytes h @ body)) m w)
    (mme2_handle_ue X (plain_env n hss sgw E) fresh fr blank fd (Rx (s1ap_bytes h @ body)) m w)"
proof (cases "msg_type_s h = 2")
  case True
  then show ?thesis
    by (rule autn_v1_v2 [OF assms(1) _ assms(3-5)])
next
  case False
  with assms(2) have "msg_type_s h = 5"
    by simp
  then show ?thesis
    by (rule detach_v1_v2 [OF assms(1) _ assms(3-8)])
qed

theorem mme_versions_agree_witness:
  "same turn_sent
    (mme_handle_ue sample_lib sample_fresh (\<lambda>_ w. (Rx_fail [] (-1), w)) (\<lambda>_ w. (Rx (bool_rsp (sample_gtp 3 7) True), w)) 4
      (Rx (s1ap_bytes (sample_s1ap 2 9) @ le_word 8 (42 :: u64))) (put_id 9 77 (put_ue 77 sample_ctx sample_mme2)) ())
    (mme2_handle_ue sample_lib (plain_env 3 (\<lambda>_ w. (Rx_fail [] (-1), w)) (\<lambda>_ w. (Rx (bool_rsp (sample_gtp 3 7) True), w))
        (sample_mme2_env UE_BASED)) sample_fresh sample_fresh \<lparr>Mme_state_uect = sample_ctx, guti_of = 0\<rparr> 4
      (Rx (s1ap_bytes (sample_s1ap 2 9) @ le_word 8 (42 :: u64))) (put_id 9 77 (put_ue 77 sample_ctx sample_mme2)) ())"
  by (rule mme_versions_agree [where guti = 77]) (simp_all add: put_id_def put_ue_def ue_at_def at_or_def sample_ctx_def)

subsection \<open>The store\<close>

text \<open>
  C20: \<open>KVStore\<close> over its wire protocol and the LevelDB server refines a map. After a put the table has the new entry
  and no other change, and a get of any key gives what the table has; after a del the entry is gone and a get
  reports an error.
\<close>

theorem store_is_a_table:
  assumes "kv_live N L V B t w" and "val_fits B v"
  shows "\<exists>w1 w2 w3 w4 d. ds_put (kv_store N L B t) k v w = Inr (0, w1) \<and> kv_tbl V B t w1 = (kv_tbl V B t w)(k \<mapsto> v) \<and>
    ds_get (kv_store N L B t) k w1 = Inr (\<lparr>ierr = 0, kv_value = v\<rparr>, w2) \<and> kv_tbl V B t w2 = kv_tbl V B t w1 \<and>
    ds_del (kv_store N L B t) k w2 = Inr (0, w3) \<and> kv_tbl V B t w3 = (kv_tbl V B t w)(k := None) \<and>
    ds_get (kv_store N L B t) k w3 = Inr (\<lparr>ierr = -1, kv_value = d\<rparr>, w4) \<and> kv_live N L V B t w4"
proof -
  obtain w1 where 1: "ds_put (kv_store N L B t) k v w = Inr (0, w1)" "kv_live N L V B t w1"
    "kv_tbl V B t w1 = (kv_tbl V B t w)(k \<mapsto> v)"
    using kv.put [OF assms] by blast
  obtain w2 where 2: "ds_get (kv_store N L B t) k w1 = Inr (\<lparr>ierr = 0, kv_value = v\<rparr>, w2)" "kv_live N L V B t w2"
    "kv_tbl V B t w2 = kv_tbl V B t w1"
    using kv.get_hit [OF 1(2), of k v] 1(3) by auto
  obtain w3 where 3: "ds_del (kv_store N L B t) k w2 = Inr (0, w3)" "kv_live N L V B t w3"
    "kv_tbl V B t w3 = (kv_tbl V B t w2)(k := None)"
    using kv.del [OF 2(2)] by blast
  have "kv_tbl V B t w3 = (kv_tbl V B t w)(k := None)"
    using 1(3) 2(3) 3(3) by simp
  moreover obtain w4 d where "ds_get (kv_store N L B t) k w3 = Inr (\<lparr>ierr = -1, kv_value = d\<rparr>, w4)" "kv_live N L V B t w4"
    using kv.get_miss [OF 3(2), of k] 3(3) by auto
  ultimately show ?thesis
    using 1(1,3) 2(1,3) 3(1) by blast
qed

theorem store_is_a_table_witness:
  "\<exists>w1 w2 w3 w4 d.
    ds_put (kv_store sample_net sample_leveldb sgw_boost SGW1) 7 \<lparr>Sgw_state_uect = sample_sgw_ctx, imsi_of_s = plan_imsi 7\<rparr> sample_kv_world = Inr (0, w1) \<and>
    ds_get (kv_store sample_net sample_leveldb sgw_boost SGW1) 7 w1 =
      Inr (\<lparr>ierr = 0, kv_value = \<lparr>Sgw_state_uect = sample_sgw_ctx, imsi_of_s = plan_imsi 7\<rparr>\<rparr>, w2) \<and>
    ds_del (kv_store sample_net sample_leveldb sgw_boost SGW1) 7 w2 = Inr (0, w3) \<and>
    ds_get (kv_store sample_net sample_leveldb sgw_boost SGW1) 7 w3 = Inr (\<lparr>ierr = -1, kv_value = d\<rparr>, w4)"
  using store_is_a_table [OF kv_lives_live [OF sample_lives] sample_sgw_fits, of SGW1 7] by (auto simp: sgw_tables_def)

text \<open>
  The limits of a message. Up to 127 strings arrive at the client as they were sent, however the network
  cuts them; from 128 strings on, which the server still reads, the client takes the number for a negative one and
  ends with an exception.
\<close>

theorem store_message_limits:
  assumes "falls_through ret" and "length v \<le> 255" and "\<forall>s \<in> set v. kv_string_ok s" and "rd_ok evs"
    and "length buf = MAX_INPUT_SIZE" and "rd_bytes evs = kv_message v @ rest"
  shows "if length v \<le> 127
    then \<exists>buf' evs'. kv_receive ret buf evs = Inr (v, buf', evs') \<and> rd_bytes evs' = rest
    else kv_receive ret buf evs = Inl (Uncaught ''std::length_error: vector'') \<and> read_strings (kv_message v) = Inr (v, [])"
proof (cases "length v \<le> 127")
  case True
  then show ?thesis
    using kv_receive_ok [OF assms(1) True assms(3-6)] by auto
next
  case False
  moreover have "\<forall>s \<in> set v. nul_free s \<and> length s < 2 ^ 32"
    using assms(3) kv_string_short by blast
  ultimately show ?thesis
    using kv_receive_many [OF _ assms(2,4-6)] read_strings_message [OF assms(2)] by simp
qed

theorem store_message_limits_witness:
  "(\<exists>buf' evs'. kv_receive (\<lambda>i. i) (replicate MAX_INPUT_SIZE 0) [Rd (kv_message [''Get'', ''7''])] = Inr ([''Get'', ''7''], buf', evs')) \<and>
   kv_receive (\<lambda>i. i) (replicate MAX_INPUT_SIZE 0) [Rd (kv_message (replicate 200 ''x''))] = Inl (Uncaught ''std::length_error: vector'')"
proof
  show "\<exists>buf' evs'. kv_receive (\<lambda>i. i) (replicate MAX_INPUT_SIZE 0) [Rd (kv_message [''Get'', ''7''])] = Inr ([''Get'', ''7''], buf', evs')"
    using store_message_limits [of "\<lambda>i. i" "[''Get'', ''7'']" "[Rd (kv_message [''Get'', ''7''])]" "replicate MAX_INPUT_SIZE 0" "[]"]
    by (auto simp: falls_through_def rd_ok_def kv_string_ok_def nul_free_def MAX_INPUT_SIZE_def)
  show "kv_receive (\<lambda>i. i) (replicate MAX_INPUT_SIZE 0) [Rd (kv_message (replicate 200 ''x''))] = Inl (Uncaught ''std::length_error: vector'')"
    using store_message_limits [of "\<lambda>i. i" "replicate 200 ''x''" "[Rd (kv_message (replicate 200 ''x''))]" "replicate MAX_INPUT_SIZE 0" "[]"]
    by (auto simp: falls_through_def rd_ok_def kv_string_ok_def nul_free_def MAX_INPUT_SIZE_def)
qed


subsection \<open>The MME over the store\<close>

text \<open>
  A detach is answered, the session released at the SGW and the UE forgotten by the replica that handles it, but not by
  the store, since \<open>erase_context\<close> does nothing: any replica that pulls for the id afterwards gets the old context
  back into its tables.
\<close>

theorem mme_detach_keeps_stored:
  assumes E: "E = kv_mme_env b N L B hss sgws" "UE_BINDING b \<noteq> UE_BASED" "\<not> REP b" and X: "crypto_ok X"
    and h: "msg_type_s h = 5" "mme_s1ap_ue_id h = i" "i \<noteq> 0"
    and w: "kv_live N L V B ''ds_mme_state'' w" "kv_tbl V B ''ds_mme_state'' w i = Some \<lparr>Mme_state_uect = c, guti_of = guti\<rparr>" "guti \<noteq> 0"
    and n: "0 \<le> sint (s11_cteid_mme_m c)" "1 \<le> length sgws" "length sgws \<le> 50"
    and s: "\<And>cl x. cl \<in> set sgws \<Longrightarrow>
      \<exists>x2. cl (detach_req (gtp_with 2 3 9 (s11_cteid_sgw_m c) (fst fresh)) (eps_bearer_id_m c) (tai_m c)) x =
        Inr ((Rx (bool_rsp h' True), 0), x2)"
    and p: "mme_s1ap_ue_id (s1ap_hdr pkt) = i"
  shows "\<exists>m' w' w2.
    mme2_handle_ue X E fresh fr blank fd (Rx (nas_msg X h (detach_body guti ksi dt))) m w =
      Inr (1, [To_conn fd (nas_msg X (s1ap_init 5 36 (enodeb_s1ap_ue_id h) i h) (bool_bytes True))], m', w') \<and>
    s1mme_id m' i = None \<and> ue_ctx_m m' guti = None \<and>
    kv_tbl V B ''ds_mme_state'' w' = kv_tbl V B ''ds_mme_state'' w \<and>
    mme2_pull_context E pkt m2 w' = Inr (True, put_id i guti (put_ue guti c m2), w2)"
proof -
  let ?st = "\<lparr>Mme_state_uect = c, guti_of = guti\<rparr>"
  have f: "build_of E = b" "sgw_clients E = map (\<lambda>c req. beside (c req)) sgws"
    by (simp_all add: E(1) kv_mme_env_def)
  have s2: "\<exists>w2. cl (detach_req (gtp_with 2 3 9 (s11_cteid_sgw_m c) (fst fresh)) (eps_bearer_id_m c) (tai_m c)) w1 =
    Inr ((Rx (bool_rsp h' True), 0), w2)" if "cl \<in> set (sgw_clients E)" for cl w1
  proof -
    obtain cx where cx: "cx \<in> set sgws" "cl = (\<lambda>req. beside (cx req))"
      using \<open>cl \<in> set (sgw_clients E)\<close> by (auto simp: f)
    from s [OF cx(1), of "snd w1"] show ?thesis
      by (auto simp: cx(2) beside_def split: prod.splits)
  qed
  have pre: "msg_type_s h = 5" "mme_s1ap_ue_id h \<noteq> 0" "kv_tbl V B ''ds_mme_state'' w (mme_s1ap_ue_id h) = Some ?st"
    "guti_of ?st \<noteq> 0" "c = Mme_state_uect ?st" "1 \<le> length (sgw_clients E)" "length (sgw_clients E) \<le> 50"
    using h w n by (simp_all add: f)
  obtain m' w' where 1:
    "mme2_handle_ue X E fresh fr blank fd (Rx (nas_msg X h (detach_body guti ksi dt))) m w =
      Inr (1, [To_conn fd (nas_msg X (s1ap_init 5 36 (enodeb_s1ap_ue_id h) (mme_s1ap_ue_id h) h) (bool_bytes True))], m', w')"
    "s1mme_id m' (mme_s1ap_ue_id h) = None" "ue_ctx_m m' guti = None" "kv_live N L V B ''ds_mme_state'' w'"
    "kv_tbl V B ''ds_mme_state'' w' = kv_tbl V B ''ds_mme_state'' w"
    using kv_mme.detach_answered [of X b N L B hss sgws h V w ?st c fresh h' fr blank fd guti ksi dt m, folded E(1),
        unfolded f(1), OF X E(2,3) pre(1,2) w(1) pre(3-5) n(1) pre(6,7)] s2 by blast
  have "kv_tbl V B ''ds_mme_state'' w' (mme_s1ap_ue_id (s1ap_hdr pkt)) = Some ?st"
    using 1(5) w(2) p by simp
  from kv_mme.pull_restores [of N L V B w' pkt ?st b hss sgws m2, folded E(1), OF 1(4) this]
  obtain w2 where "mme2_pull_context E pkt m2 w' = Inr (True, put_id i guti (put_ue guti c m2), w2)"
    by (auto simp: p)
  with 1 h(2) show ?thesis
    by blast
qed

theorem mme_detach_keeps_stored_witness:
  "\<exists>m' w' w2.
    mme2_handle_ue sample_lib (kv_mme_env build_default sample_net sample_leveldb sample_mme_boost (\<lambda>_ x. Inr (Rx_fail [] (-1), x))
        [\<lambda>_ x. Inr ((Rx (bool_rsp (sample_gtp 3 7) True), 0), x)]) sample_fresh sample_fresh
        \<lparr>Mme_state_uect = new_mme_ue, guti_of = 0\<rparr> 4 (Rx (nas_msg sample_lib (sample_s1ap 5 9) (detach_body 77 0 0))) sample_mme2 sample_mme_world =
      Inr (1, [To_conn 4 (nas_msg sample_lib (s1ap_init 5 36 (enodeb_s1ap_ue_id (sample_s1ap 5 9)) 9 (sample_s1ap 5 9)) (bool_bytes True))], m', w') \<and>
    s1mme_id m' 9 = None \<and> ue_ctx_m m' 77 = None \<and>
    kv_tbl (\<lambda>d. d) sample_mme_boost ''ds_mme_state'' w' = kv_tbl (\<lambda>d. d) sample_mme_boost ''ds_mme_state'' sample_mme_world \<and>
    mme2_pull_context (kv_mme_env build_default sample_net sample_leveldb sample_mme_boost (\<lambda>_ x. Inr (Rx_fail [] (-1), x))
        [\<lambda>_ x. Inr ((Rx (bool_rsp (sample_gtp 3 7) True), 0), x)]) (view (sample_gtp 0 0) (sample_s1ap 5 9) (sample_diameter 0) [] [])
        sample_mme2 w' = Inr (True, put_id 9 77 (put_ue 77 sample_ctx sample_mme2), w2)"
  by (rule mme_detach_keeps_stored [OF refl, where c = sample_ctx])
    (simp_all add: crypto_ok_sample sample_mme_live, simp_all add: sample_ctx_def sample_mme_boost_def sample_mme_world_def kv_tbl_def sample_conn_def)

subsection \<open>Replicas of the SGW\<close>

text \<open>
  C21: a session that a modify bearer at one replica has completed is served by replicas that have never seen the UE:
  its uplink packets go to the PGW and its downlink packets to the eNodeB that the modify bearer named, each
  under the TEID of the next hop.
\<close>

theorem sgw_any_replica_serves:
  assumes E: "E = kv_sgw_env b n11 n1 n5 N L B" "UE_BINDING b = SESSION_BASED" "\<not> REP b"
    and n: "0 < n5" "n5 \<le> n1" "i < n11" "j < n11" "k < n11" and X: "inet_ok X"
    and w: "kv_lives N L V B sgw_tables UNIV w"
    and A: "msg_type_g h = 2" "s11_id s (teid h) = Some imsi" "imsi \<noteq> 0" "short_ip enb_ip" "0 < enb_port" "enb_port < 2 ^ 31"
    and c: "c = (sgw_ue_at imsi s)\<lparr>s1_uteid_dl_s := s1_dl, enodeb_ip_addr_s := enb_ip, enodeb_port_s := enb_port\<rparr>"
      "val_fits B \<lparr>Sgw_state_uect = c, imsi_of_s = imsi\<rparr>"
    and U: "msg_type_g hu = 1" "teid hu = s1_uteid_ul_s c" "s1_id s2 (teid hu) = None" "4 \<le> length mu" "length mu \<le> 1008"
    and D: "msg_type_g hn = 3" "teid hn = s5_uteid_dl_s c" "s5_id s3 (teid hn) = None" "4 \<le> length md" "length md \<le> 1008"
    and a: "set_inet_sock_addr X v2_g_pgw_s5_ip_addr g_pgw_s5_port = Inr pa" "set_inet_sock_addr X enb_ip enb_port = Inr ea"
  shows "\<exists>q1 s1 w1 q2 s2' w2 q3 s3' w3.
    sgw2_s11_turn X E (net_beside g) fr blank i (src, Rx (modify_req h eb s1_dl enb_ip enb_port)) (pkt1, s, w) =
      Inr ([Reply src (bool_rsp (gtp_with 2 2 1 (s11_cteid_mme_s c) h) True)], q1, s1, w1) \<and>
    sgw2_s1_turn X E j (srcu, Rx (gtp_bytes hu @ mu)) (pkt2, s2, w1) =
      Inr ([Forward pa (gtp_bytes (gtp_with 1 2 (of_nat (length mu)) (s5_uteid_ul_s c) hu) @ mu)], q2, s2', w2) \<and>
    sgw2_s5_turn X E k (srcd, Rx (gtp_bytes hn @ md)) (pkt3, s3, w2) =
      Inr ([Forward ea (gtp_bytes (gtp_with 1 2 (of_nat (length md)) s1_dl hn) @ md)], q3, s3', w3)"
proof -
  let ?st = "\<lparr>Sgw_state_uect = c, imsi_of_s = imsi\<rparr>"
  have f: "build_s E = b" "s11_threads E = n11" "s1_threads E = n1" "s5_threads E = n5"
    by (simp_all add: E(1) kv_sgw_env_def)
  have "- (2 ^ 31) \<le> enb_port"
    using A(5) by simp
  note m = kv_sgw.modify_stores [of b n11 n1 n5 N L B V w i h s imsi enb_ip enb_port c s1_dl X g fr blank src eb pkt1,
      folded E(1), unfolded f, OF E(2,3) w n(3) A(1-4) this A(6) c]
  then obtain q1 s1 w1 where 1:
    "sgw2_s11_turn X E (net_beside g) fr blank i (src, Rx (modify_req h eb s1_dl enb_ip enb_port)) (pkt1, s, w) =
      Inr ([Reply src (bool_rsp (gtp_with 2 2 1 (s11_cteid_mme_s c) h) True)], q1, s1, w1)"
    "kv_lives N L V B sgw_tables UNIV w1" "stored_ok (\<lambda>w t. kv_tbl V B t w) w1 ?st"
    by blast
  have ix: "index_ok X E mu"
    using X U(4) n(1,2) by (intro index_okI) (simp_all add: f)
  obtain q2 s2' w2 where 2:
    "sgw2_s1_turn X E j (srcu, Rx (gtp_bytes hu @ mu)) (pkt2, s2, w1) =
      Inr ([Forward pa (gtp_bytes (gtp_with 1 2 (of_nat (length mu)) (s5_uteid_ul_s c) hu) @ mu)], q2, s2', w2)"
    "kv_lives N L V B sgw_tables UNIV w2" "(\<lambda>t. kv_tbl V B t w2) = (\<lambda>t. kv_tbl V B t w1)"
    using kv_sgw.uplink_served [of N L V B w1 j b n11 n1 n5 ?st s2 hu mu X pa srcu pkt2, folded E(1), unfolded f]
      1(2,3) n(4) A(3) U ix a(1) by auto
  have "stored_ok (\<lambda>w t. kv_tbl V B t w) w2 ?st"
    using 1(3) 2(3) by (simp add: stored_ok_def fun_eq_iff)
  with kv_sgw.downlink_served [of N L V B w2 k b n11 n1 n5 ?st s3 hn md X ea srcd pkt3, folded E(1), unfolded f]
  obtain q3 s3' w3 where
    "sgw2_s5_turn X E k (srcd, Rx (gtp_bytes hn @ md)) (pkt3, s3, w2) =
      Inr ([Forward ea (gtp_bytes (gtp_with 1 2 (of_nat (length md)) s1_dl hn) @ md)], q3, s3', w3)"
    using 2(2) n(5) A(3,5) D a(2) c(1) by auto
  with 1(1) 2(1) show ?thesis
    by blast
qed


theorem sgw_any_replica_serves_witness:
  "\<exists>q1 s1 w1 q2 s2' w2 q3 s3' w3.
    sgw2_s11_turn sample_lib sample_sgw_env (net_beside (\<lambda>_ _ x. (Rx_fail [] (-1), x))) sample_fresh
      \<lparr>Sgw_state_uect = new_sgw_ue, imsi_of_s = 0\<rparr> 0
      (([], 0), Rx (modify_req (sample_gtp 2 7) 5 3 RAN_addr 4000)) (sample_pkt, sample_sgw, sample_kv_world) =
      Inr ([Reply ([], 0) (bool_rsp (gtp_with 2 2 1 (s11_cteid_mme_s sample_sgw_ctx) (sample_gtp 2 7)) True)], q1, s1, w1) \<and>
    sgw2_s1_turn sample_lib sample_sgw_env 1 (([], 0), Rx (gtp_bytes (sample_gtp 1 7) @ sample_data)) (sample_pkt, new_sgw, w1) =
      Inr ([Forward ([10, 129, 26, 201], word_of_int g_pgw_s5_port)
        (gtp_bytes (gtp_with 1 2 (of_nat (length sample_data)) (s5_uteid_ul_s sample_sgw_ctx) (sample_gtp 1 7)) @ sample_data)],
        q2, s2', w2) \<and>
    sgw2_s5_turn sample_lib sample_sgw_env 2 (([], 0), Rx (gtp_bytes (sample_gtp 3 7) @ sample_data)) (sample_pkt, new_sgw, w2) =
      Inr ([Forward ([10, 129, 26, 170], word_of_int 4000)
        (gtp_bytes (gtp_with 1 2 (of_nat (length sample_data)) 3 (sample_gtp 3 7)) @ sample_data)], q3, s3', w3)"
proof (rule sgw_any_replica_serves [OF sample_sgw_env_def, where i = 0 and j = 1 and k = 2 and enb_ip = RAN_addr and enb_port = 4000
    and c = sample_sgw_ctx and imsi = "plan_imsi 7"])
  show "kv_lives sample_net sample_leveldb (\<lambda>d. d) sgw_boost sgw_tables UNIV sample_kv_world"
    by (rule sample_lives)
  show "sample_sgw_ctx = (sgw_ue_at (plan_imsi 7) sample_sgw)\<lparr>s1_uteid_dl_s := 3, enodeb_ip_addr_s := RAN_addr, enodeb_port_s := 4000\<rparr>"
    by (simp add: sample_sgw_values) (simp add: sample_sgw_ctx_def)
qed (simp_all add: sample_sgw_values inet_ok_sample sample_imsi_7 sample_sgw_fits sample_addrs sample_data_def)

text \<open>
  A detach at a replica that has never seen the UE pulls its context, has the PGW release the session, answers the
  MME and removes exactly the three entries of this UE from the store, so that no replica can pull it any more.
\<close>

theorem sgw_detach_everywhere:
  assumes E: "E = kv_sgw_env b n11 n1 n5 N L B" "UE_BINDING b \<noteq> UE_BASED" "\<not> REP b" and "i < n11"
    and w: "kv_lives N L V B sgw_tables UNIV w" "stored_ok (\<lambda>w t. kv_tbl V B t w) w \<lparr>Sgw_state_uect = c, imsi_of_s = imsi\<rparr>"
    and h: "imsi \<noteq> 0" "s11_id s (teid h) = None" "teid h = s11_cteid_sgw_s c" "msg_type_g h = 3"
    and pgw: "set_inet_sock_addr X (pgw_s5_ip_addr_s c) (pgw_s5_port_s c) = Inr a"
      "\<And>x. \<exists>x2. g a (detach_req (gtp_with 2 4 9 (s5_cteid_ul_s c) h) eb tai) x = (Rx (bool_rsp h' True), x2)"
  shows "\<exists>q s' w'.
    sgw2_s11_turn X E (net_beside g) fr blank i (src, Rx (detach_req h eb tai)) (pkt, s, w) =
      Inr ([Reply src (bool_rsp (gtp_with 2 3 1 (s11_cteid_mme_s c) h') True)], q, s', w') \<and>
    s11_id s' (teid h) = None \<and> ue_ctx_s s' imsi = None \<and>
    kv_tbl V B SGW11 w' = (kv_tbl V B SGW11 w)(s11_cteid_sgw_s c := None) \<and>
    kv_tbl V B SGW1 w' = (kv_tbl V B SGW1 w)(s1_uteid_ul_s c := None) \<and>
    kv_tbl V B SGW5 w' = (kv_tbl V B SGW5 w)(s5_uteid_dl_s c := None)"
proof -
  have f: "build_s E = b" "s11_threads E = n11"
    by (simp_all add: E(1) kv_sgw_env_def)
  have "\<exists>w2. net_beside g a (detach_req (gtp_with 2 4 9 (s5_cteid_ul_s c) h) eb tai) w1 = (Rx (bool_rsp h' True), w2)" for w1
    using pgw(2) [of "snd w1"] by (auto simp: net_beside_def split: prod.splits)
  then show ?thesis
    using kv_sgw.detach_erases [of b n11 n1 n5 N L B V w i "\<lparr>Sgw_state_uect = c, imsi_of_s = imsi\<rparr>" s h c X a g eb tai h' fr blank src pkt,
        folded E(1), unfolded f] E(2,3) assms(4) w h pgw(1)
    by (simp del: split_paired_Ex) blast
qed

theorem sgw_detach_everywhere_witness:
  "\<exists>q s' w'.
    sgw2_s11_turn sample_lib sample_sgw_env (net_beside (\<lambda>_ _ x. (Rx (bool_rsp (sample_gtp 4 7) True), x))) sample_fresh
      \<lparr>Sgw_state_uect = new_sgw_ue, imsi_of_s = 0\<rparr> 2
      (([], 0), Rx (detach_req (sample_gtp 3 7) 5 0)) (sample_pkt, new_sgw, (sample_conn sample_sgw_disk, ())) =
      Inr ([Reply ([], 0) (bool_rsp (gtp_with 2 3 1 (s11_cteid_mme_s sample_sgw_ctx) (sample_gtp 4 7)) True)], q, s', w') \<and>
    s11_id s' (teid (sample_gtp 3 7)) = None \<and> ue_ctx_s s' (plan_imsi 7) = None \<and>
    kv_tbl (\<lambda>d. d) sgw_boost SGW11 w' = (kv_tbl (\<lambda>d. d) sgw_boost SGW11 (sample_conn sample_sgw_disk, ()))(s11_cteid_sgw_s sample_sgw_ctx := None) \<and>
    kv_tbl (\<lambda>d. d) sgw_boost SGW1 w' = (kv_tbl (\<lambda>d. d) sgw_boost SGW1 (sample_conn sample_sgw_disk, ()))(s1_uteid_ul_s sample_sgw_ctx := None) \<and>
    kv_tbl (\<lambda>d. d) sgw_boost SGW5 w' = (kv_tbl (\<lambda>d. d) sgw_boost SGW5 (sample_conn sample_sgw_disk, ()))(s5_uteid_dl_s sample_sgw_ctx := None)"
  by (rule sgw_detach_everywhere [OF sample_sgw_env_def])
    (simp_all add: sample_sgw_disk_lives sample_sgw_stored sample_sgw_values sample_imsi_7 sample_addrs)


subsection \<open>Replicas of the PGW\<close>

text \<open>
  C22: a session that one replica of the PGW created is complete for all: another one forwards the packets of the UE's
  address to the SGW under its TEID, and a third one detaches the UE, after which neither the TEID nor the address is
  in the store.
\<close>

theorem pgw_session_everywhere:
  assumes E: "E = kv_pgw_env b n5 ni N L B jk" "UE_BINDING b \<noteq> UE_BASED" "\<not> REP b" and X: "inet_ok X"
    and n: "n5 \<le> ni" "i < n5" "j < n5" "k < n5" and w: "kv_lives N L V B pgw_tables pgw_keys w"
    and A: "msg_type_g h = 1" "ip = at_or '''' (ip_addrs p) imsi" "short_ip ip" "imsi \<noteq> 0"
    and c: "c = pgw2_ctx t eb s5_dl apn tai ip" "val_fits B \<lparr>Pgw_state_uect = c, imsi_of_p = imsi\<rparr>"
    and D: "sgi_id p2 ip = None" "20 \<le> length m" "length m \<le> 1008" "inet_ntop X (take 4 (drop 16 m)) = ip"
    and a: "set_inet_sock_addr X SGWLB_addr 7200 = Inr a" and T: "msg_type_g ht = 4" "teid ht = t"
  shows "\<exists>q1 p1 w1 q2 p2' w2 q3 w3 hg.
    pgw2_s5_turn X E fr blank i (src, Rx (create_req5 h t imsi eb s5_dl apn tai)) (pkt1, p, w) =
      Inr ([Reply src (create_rsp5 (gtp_with 2 1 (of_nat (13 + length ip)) t h) t eb t ip)], q1, p1, w1) \<and>
    pgw2_sgi_turn X E j (src2, Rx m) (pkt2, p2, w1) = Inr ([Forward a (gtp_bytes hg @ m)], q2, p2', w2) \<and>
    msg_type_g hg = 3 \<and> teid hg = s5_dl \<and>
    pgw2_s5_turn X E fr blank k (src3, Rx (detach_req ht eb' tai')) (pkt3, p3, w2) =
      Inr ([Reply src3 (bool_rsp (gtp_with 2 4 1 t ht) True)], q3, p3, w3) \<and>
    kv_tbl V B S5_ID w3 (S5_key t) = None \<and> kv_tbl V B SGI_ID w3 (Sgi_key ip) = None"
proof -
  let ?st = "\<lparr>Pgw_state_uect = c, imsi_of_p = imsi\<rparr>"
  have f: "build_p E = b" "p5_threads E = n5" "sgi_threads E = ni"
    by (simp_all add: E(1) kv_pgw_env_def)
  have cs: "ip_addr_p c = ip" "s5_uteid_ul_p c = t" "s5_uteid_dl_p c = s5_dl" "s5_cteid_ul_p c = t" "s5_cteid_dl_p c = t"
    by (simp_all add: c(1) pgw2_ctx_def pgw_ue_init_def)
  obtain q1 p1 w1 where 1:
    "pgw2_s5_turn X E fr blank i (src, Rx (create_req5 h t imsi eb s5_dl apn tai)) (pkt1, p, w) =
      Inr ([Reply src (create_rsp5 (gtp_with 2 1 (of_nat (13 + length ip)) t h) t eb t ip)], q1, p1, w1)"
    "kv_lives N L V B pgw_tables pgw_keys w1" "stored_ok_p (\<lambda>w t. kv_tbl V B t w) w1 ?st"
    using kv_pgw.create_stores [of b n5 ni N L B jk V w i h ip p imsi c t eb s5_dl apn tai X fr blank src pkt1,
        folded E(1), unfolded f, OF E(2,3) w n(2) A(1-3) c] by blast
  have st: "imsi_of_p ?st \<noteq> 0" "ip = ip_addr_p (Pgw_state_uect ?st)" "s5_uteid_dl_p (Pgw_state_uect ?st) = s5_dl"
    "teid ht = s5_uteid_ul_p (Pgw_state_uect ?st)" "c = Pgw_state_uect ?st" "short_ip (ip_addr_p c)"
    using A(3,4) T(2) by (simp_all add: cs)
  have ix: "sgi_index_ok X E ip"
    using X D(2,4) n by (intro sgi_index_okI) (simp_all add: f)
  obtain hg q2 p2' w2 where 2: "pgw2_sgi_turn X E j (src2, Rx m) (pkt2, p2, w1) = Inr ([Forward a (gtp_bytes hg @ m)], q2, p2', w2)"
    "msg_type_g hg = 3" "teid hg = s5_dl" "kv_lives N L V B pgw_tables pgw_keys w2"
    "(\<lambda>t. kv_tbl V B t w2) = (\<lambda>t. kv_tbl V B t w1)"
    using kv_pgw.downlink_served [of N L V B w1 j b n5 ni jk ?st p2 ip m X a src2 pkt2, folded E(1), unfolded f,
        OF 1(2) n(3) 1(3) st(1) disjI2 [OF D(1)] st(2) A(3) D(2-4) ix a, unfolded st(3)] by blast
  have "stored_ok_p (\<lambda>w t. kv_tbl V B t w) w2 ?st"
    using 1(3) 2(5) by (simp add: stored_ok_p_def fun_eq_iff)
  from kv_pgw.detach_erases [of b n5 ni N L B jk V w2 k ?st ht c X fr blank src3 eb' tai' pkt3 p3, folded E(1), unfolded f,
      OF E(2,3) 2(4) n(4) this st(1,4) T(1) st(5,6), unfolded cs]
  obtain q3 w3 where
    "pgw2_s5_turn X E fr blank k (src3, Rx (detach_req ht eb' tai')) (pkt3, p3, w2) =
      Inr ([Reply src3 (bool_rsp (gtp_with 2 4 1 t ht) True)], q3, p3, w3)"
    "kv_tbl V B S5_ID w3 = (kv_tbl V B S5_ID w2)(S5_key t := None)" "kv_tbl V B SGI_ID w3 = (kv_tbl V B SGI_ID w2)(Sgi_key ip := None)"
    by blast
  moreover from this(2,3) have "kv_tbl V B S5_ID w3 (S5_key t) = None" "kv_tbl V B SGI_ID w3 (Sgi_key ip) = None"
    by simp_all
  ultimately show ?thesis
    using 1(1) 2(1-3) by blast
qed

text \<open>
  C23: what goes wrong when a packet for an address arrives before its session. The PGW pulls without success, files what
  the uninitialised answer contains for the address, and sends this packet under the TEID of that. The session that is
  then created, at another replica, is in the store, but this replica does not look there again: the packets of
  the UE keep the wrong TEID.
\<close>

theorem pgw_early_packet_hides_session:
  assumes E: "E = kv_pgw_env b n5 ni N L B jk" "UE_BINDING b \<noteq> UE_BASED" "\<not> REP b" "\<not> NOCACHE b" and X: "inet_ok X"
    and n: "n5 \<le> ni" "i < n5" "j < n5" and w: "kv_lives N L V B pgw_tables pgw_keys w" "kv_tbl V B SGI_ID w (Sgi_key ip) = None"
    and jk: "imsi_of_p jk \<noteq> 0"
    and A: "msg_type_g h = 1" "ip = at_or '''' (ip_addrs p) imsi" "short_ip ip"
    and c: "c = pgw2_ctx t eb s5_dl apn tai ip" "val_fits B \<lparr>Pgw_state_uect = c, imsi_of_p = imsi\<rparr>"
    and D: "sgi_id p2 ip = None" "20 \<le> length m" "length m \<le> 1008" "inet_ntop X (take 4 (drop 16 m)) = ip"
    and a: "set_inet_sock_addr X SGWLB_addr 7200 = Inr a"
  shows "\<exists>h1 q1 p2' w1 q2 p' w2 h3 q3.
    pgw2_sgi_turn X E j (src2, Rx m) (pkt2, p2, w) = Inr ([Forward a (gtp_bytes h1 @ m)], q1, p2', w1) \<and>
    teid h1 = s5_uteid_dl_p (Pgw_state_uect jk) \<and>
    pgw2_s5_turn X E fr blank i (src, Rx (create_req5 h t imsi eb s5_dl apn tai)) (pkt1, p, w1) =
      Inr ([Reply src (create_rsp5 (gtp_with 2 1 (of_nat (13 + length ip)) t h) t eb t ip)], q2, p', w2) \<and>
    kv_tbl V B SGI_ID w2 (Sgi_key ip) = Some \<lparr>Pgw_state_uect = c, imsi_of_p = imsi\<rparr> \<and>
    pgw2_sgi_turn X E j (src2, Rx m) (q1, p2', w2) = Inr ([Forward a (gtp_bytes h3 @ m)], q3, p2', w2) \<and>
    teid h3 = s5_uteid_dl_p (Pgw_state_uect jk)"
proof -
  have f: "build_p E = b" "p5_threads E = n5" "sgi_threads E = ni" "unset_state E = jk" "ds_table_p E = kv_store N L B"
    by (simp_all add: E(1) kv_pgw_env_def)
  have ix: "sgi_index_ok X E ip"
    using X D(2,4) n by (intro sgi_index_okI) (simp_all add: f)
  obtain r w1 where g: "ds_get (kv_store N L B SGI_ID) (Sgi_key ip) w = Inr (r, w1)" "ierr r < 0"
    "kv_lives N L V B pgw_tables pgw_keys w1"
    using kvs.get_miss [OF w(1) _ _ w(2)] A(3) by (fastforce simp: pgw_tables_def)
  obtain h1 q1 p2' where 1: "pgw2_sgi_turn X E j (src2, Rx m) (pkt2, p2, w) = Inr ([Forward a (gtp_bytes h1 @ m)], q1, p2', w1)"
    "teid h1 = s5_uteid_dl_p (Pgw_state_uect jk)" "sgi_id p2' ip = Some (imsi_of_p jk)" "ue_ctx_p p2' (imsi_of_p jk) = Some (Pgw_state_uect jk)"
    using sgi_poisoned [of E p2 ip j w r w1 m X a src2 pkt2] E(4) D n(3) g(1,2) jk ix a by (auto simp: f)
  obtain q2 p' w2 where 2:
    "pgw2_s5_turn X E fr blank i (src, Rx (create_req5 h t imsi eb s5_dl apn tai)) (pkt1, p, w1) =
      Inr ([Reply src (create_rsp5 (gtp_with 2 1 (of_nat (13 + length ip)) t h) t eb t ip)], q2, p', w2)"
    "stored_ok_p (\<lambda>w t. kv_tbl V B t w) w2 \<lparr>Pgw_state_uect = c, imsi_of_p = imsi\<rparr>"
    using kv_pgw.create_stores [of b n5 ni N L B jk V w1 i h ip p imsi c t eb s5_dl apn tai X fr blank src pkt1,
        folded E(1), unfolded f, OF E(2,3) g(3) n(2) A c] by blast
  have "kv_tbl V B SGI_ID w2 (Sgi_key ip) = Some \<lparr>Pgw_state_uect = c, imsi_of_p = imsi\<rparr>"
    using 2(2) by (simp add: stored_ok_p_def c(1) pgw2_ctx_def pgw_ue_init_def)
  moreover obtain h3 q3 where "pgw2_sgi_turn X E j (src2, Rx m) (q1, p2', w2) = Inr ([Forward a (gtp_bytes h3 @ m)], q3, p2', w2)"
    "teid h3 = s5_uteid_dl_p (Pgw_state_uect jk)"
    using sgi_forward [of E p2' ip "imsi_of_p jk" "Pgw_state_uect jk" m X a j src2 q1 w2] E(4) 1(3,4) jk D(2-4) ix a
    by (auto simp: f)
  ultimately show ?thesis
    using 1(1,2) 2(1) by blast
qed

text \<open>
  Without sharing, a detach at the PGW is answered but does not touch the tables: the packets that arrive for the
  address afterwards still leave in the tunnel of the detached UE.
\<close>

theorem pgw_detach_leaves_tables:
  assumes E: "UE_BINDING (build_p E) = UE_BASED" "\<not> REP (build_p E)" "\<not> NOCACHE (build_p E)" and X: "inet_ok X"
    and n: "0 < p5_threads E" "p5_threads E \<le> sgi_threads E"
    and p: "s5_id_p p (teid h) = Some imsi" "sgi_id p ip = Some imsi" "imsi \<noteq> 0" "ue_ctx_p p imsi = Some c"
    and h: "msg_type_g h = 4" and D: "20 \<le> length m" "length m \<le> 1008" "inet_ntop X (take 4 (drop 16 m)) = ip"
    and a: "set_inet_sock_addr X SGWLB_addr 7200 = Inr a"
  shows "\<exists>q1 hg q2.
    pgw2_s5_turn X E fr blank i (src, Rx (detach_req h eb tai)) (pkt1, p, w) =
      Inr ([Reply src (bool_rsp (gtp_with 2 4 1 (s5_cteid_dl_p c) h) True)], q1, p, w) \<and>
    pgw2_sgi_turn X E j (src2, Rx m) (pkt2, p, w) = Inr ([Forward a (gtp_bytes hg @ m)], q2, p, w) \<and>
    msg_type_g hg = 3 \<and> teid hg = s5_uteid_dl_p c"
proof -
  have "sgi_index_ok X E ip"
    by (rule sgi_index_okI [OF X D(1,3) n])
  then show ?thesis
    using detach_local [OF E(1,2) h p(1,3,4), of X fr blank i src eb tai pkt1 w]
      sgi_forward [OF E(3) p(2-4) D, of a j src2 pkt2 w] a by blast
qed


theorem pgw_session_everywhere_witness:
  "\<exists>q1 p1 w1 q2 p2' w2 q3 w3 hg.
    pgw2_s5_turn sample_lib (sample_pgw_env build_default) sample_fresh sample_junk_state 0
        (([], 0), Rx (create_req5 (sample_gtp 1 0) 7 (plan_imsi 7) 5 3 1 1)) (sample_pkt, no_pgw, (sample_conn (\<lambda>_. Map.empty), ())) =
      Inr ([Reply ([], 0) (create_rsp5 (gtp_with 2 1 (of_nat (13 + length sample_ip)) 7 (sample_gtp 1 0)) 7 5 7 sample_ip)], q1, p1, w1) \<and>
    pgw2_sgi_turn sample_lib (sample_pgw_env build_default) 1 (([], 0), Rx sample_user_packet) (sample_pkt, no_pgw, w1) =
      Inr ([Forward ([10, 129, 26, 202], word_of_int 7200) (gtp_bytes hg @ sample_user_packet)], q2, p2', w2) \<and>
    msg_type_g hg = 3 \<and> teid hg = 3 \<and>
    pgw2_s5_turn sample_lib (sample_pgw_env build_default) sample_fresh sample_junk_state 2
        (([], 0), Rx (detach_req (sample_gtp 4 7) 5 0)) (sample_pkt, no_pgw, w2) =
      Inr ([Reply ([], 0) (bool_rsp (gtp_with 2 4 1 7 (sample_gtp 4 7)) True)], q3, no_pgw, w3) \<and>
    kv_tbl (\<lambda>d. d) pgw_boost S5_ID w3 (S5_key 7) = None \<and> kv_tbl (\<lambda>d. d) pgw_boost SGI_ID w3 (Sgi_key sample_ip) = None"
  by (rule pgw_session_everywhere [OF sample_pgw_env_def, where c = sample_pgw_ctx])
    (simp_all add: sample_pgw_values(1,3-) sample_pgw_values(2) [symmetric] sample_pgw_lives sample_pgw_ctx_def [symmetric]
      sample_pgw_fits sample_imsi_7 sample_addrs inet_ok_sample)

theorem pgw_early_packet_hides_session_witness:
  "\<exists>h1 q1 p2' w1 q2 p' w2 h3 q3.
    pgw2_sgi_turn sample_lib (sample_pgw_env build_default) 1 (([], 0), Rx sample_user_packet)
        (sample_pkt, no_pgw, (sample_conn (\<lambda>_. Map.empty), ())) =
      Inr ([Forward ([10, 129, 26, 202], word_of_int 7200) (gtp_bytes h1 @ sample_user_packet)], q1, p2', w1) \<and>
    teid h1 = s5_uteid_dl_p (Pgw_state_uect sample_junk_state) \<and>
    pgw2_s5_turn sample_lib (sample_pgw_env build_default) sample_fresh sample_junk_state 0
        (([], 0), Rx (create_req5 (sample_gtp 1 0) 7 (plan_imsi 7) 5 3 1 1)) (sample_pkt, no_pgw, w1) =
      Inr ([Reply ([], 0) (create_rsp5 (gtp_with 2 1 (of_nat (13 + length sample_ip)) 7 (sample_gtp 1 0)) 7 5 7 sample_ip)], q2, p', w2) \<and>
    kv_tbl (\<lambda>d. d) pgw_boost SGI_ID w2 (Sgi_key sample_ip) = Some \<lparr>Pgw_state_uect = sample_pgw_ctx, imsi_of_p = plan_imsi 7\<rparr> \<and>
    pgw2_sgi_turn sample_lib (sample_pgw_env build_default) 1 (([], 0), Rx sample_user_packet) (q1, p2', w2) =
      Inr ([Forward ([10, 129, 26, 202], word_of_int 7200) (gtp_bytes h3 @ sample_user_packet)], q3, p2', w2) \<and>
    teid h3 = s5_uteid_dl_p (Pgw_state_uect sample_junk_state)"
  by (rule pgw_early_packet_hides_session [OF sample_pgw_env_def])
    (simp_all add: sample_pgw_values(1,3-) sample_pgw_values(2) [symmetric] sample_pgw_lives sample_pgw_ctx_def
      sample_pgw_fits [unfolded sample_pgw_ctx_def] sample_imsi_7 sample_addrs inet_ok_sample sample_conn_empty)

theorem pgw_detach_leaves_tables_witness:
  "\<exists>q1 hg q2.
    pgw2_s5_turn sample_lib (sample_pgw_env (build_default\<lparr>UE_BINDING := UE_BASED\<rparr>)) sample_fresh sample_junk_state 0
        (([], 0), Rx (detach_req (sample_gtp 4 7) 5 0)) (sample_pkt, sample_pgw, (sample_conn (\<lambda>_. Map.empty), ())) =
      Inr ([Reply ([], 0) (bool_rsp (gtp_with 2 4 1 (s5_cteid_dl_p sample_pgw_ctx) (sample_gtp 4 7)) True)], q1, sample_pgw,
        (sample_conn (\<lambda>_. Map.empty), ())) \<and>
    pgw2_sgi_turn sample_lib (sample_pgw_env (build_default\<lparr>UE_BINDING := UE_BASED\<rparr>)) 1 (([], 0), Rx sample_user_packet)
        (sample_pkt, sample_pgw, (sample_conn (\<lambda>_. Map.empty), ())) =
      Inr ([Forward ([10, 129, 26, 202], word_of_int 7200) (gtp_bytes hg @ sample_user_packet)], q2, sample_pgw,
        (sample_conn (\<lambda>_. Map.empty), ())) \<and>
    msg_type_g hg = 3 \<and> teid hg = s5_uteid_dl_p sample_pgw_ctx"
  by (rule pgw_detach_leaves_tables [where imsi = "plan_imsi 7" and ip = sample_ip])
    (simp_all add: sample_pgw_env_def kv_pgw_env_def sample_pgw_values(1,3-) sample_addrs inet_ok_sample sample_imsi_7)

end
