(* ===== verification/Epc3_Config.thy ===== *)
theory Epc3_Config
  imports Epc_Config
begin

section \<open>Configuration of version 3.0 (defport.h, kby_mme.h, kby_sgw.h, kby_pgw.h)\<close>

text \<open>
  The addresses and ports of the control plane of version 3.0. All programs include \<open>defport.h\<close>;
  \<open>kby_mme.h\<close> has port numbers of its own, of which the MME sends \<open>g_trafmon_port\<close>,
  \<open>g_sgw_s1_port\<close> and \<open>g_pgw_s5_port\<close> in messages.
\<close>

definition hss_ip3 :: string where
  "hss_ip3 = ''169.254.9.88''"

definition ran_ip3 :: string where
  "ran_ip3 = ''169.254.9.103''"

definition mme_ip3 :: string where
  "mme_ip3 = ''169.254.9.73''"

definition sgw_ip3 :: string where
  "sgw_ip3 = ''169.254.9.101''"

definition pgw_ip3 :: string where
  "pgw_ip3 = ''169.254.9.102''"

definition mme_my_port :: int where
  "mme_my_port = 3000"

definition hss_my_port :: int where
  "hss_my_port = 4000"

definition sgw_s11_portnum :: int where
  "sgw_s11_portnum = 7000"

definition pgw_s5_portnum :: int where
  "pgw_s5_portnum = 8000"

definition v3_g_trafmon_ip_addr :: string where
  "v3_g_trafmon_ip_addr = ran_ip3"

definition v3_g_sgw_s1_ip_addr :: string where
  "v3_g_sgw_s1_ip_addr = sgw_ip3"

definition v3_g_pgw_s5_ip_addr :: string where
  "v3_g_pgw_s5_ip_addr = pgw_ip3"

definition v3_g_trafmon_port :: int where
  "v3_g_trafmon_port = 4000"

definition v3_g_sgw_s1_port :: int where
  "v3_g_sgw_s1_port = 7100"

definition v3_g_pgw_s5_port :: int where
  "v3_g_pgw_s5_port = 8000"

definition v3_g_timer :: u64 where
  "v3_g_timer = 100"

definition MAXCONN :: int where
  "MAXCONN = 500"

lemmas config3_defs = hss_ip3_def ran_ip3_def mme_ip3_def sgw_ip3_def pgw_ip3_def mme_my_port_def
  hss_my_port_def sgw_s11_portnum_def pgw_s5_portnum_def v3_g_trafmon_ip_addr_def
  v3_g_sgw_s1_ip_addr_def v3_g_pgw_s5_ip_addr_def v3_g_trafmon_port_def v3_g_sgw_s1_port_def
  v3_g_pgw_s5_port_def v3_g_timer_def MAXCONN_def

end
