(* ===== verification/Epc3_Mtcp.thy ===== *)
theory Epc3_Mtcp
  imports Epc3_Config Epc_Network
begin

section \<open>The event loop of version 3.0 over mTCP\<close>

text \<open>
  MME, SGW and PGW of version 3.0 are single-threaded programs that wait for events of the user-level
  TCP stack mTCP. The stack is a library: its calls are the fields of a record over a world of
  arbitrary type, with the results the code looks at. \<open>inet_addr\<close> and \<open>htons\<close> of an address are
  part of \<open>m_connect\<close> and \<open>m_bind\<close>.

  Everything an event handler reads or writes beside the world is state of the loop: the map \<open>fdmap\<close>
  from a descriptor to its \<open>mdata\<close>, the one receive buffer \<open>data\<close> and the one packet \<open>pkt\<close> that all
  events share. Each program extends this record by its tables and by the variables of \<open>run\<close> whose
  values survive an event.
\<close>

subsection \<open>The interface of mTCP\<close>

datatype errno = EAGAIN | EWOULDBLOCK | EINPROGRESS | Other_errno

datatype interest = EPOLLIN | EPOLLOUT

datatype ctl = Ctl_add interest | Ctl_mod interest | Ctl_del

text \<open>
  \<open>m_read\<close>: \<open>None\<close> is a negative result, \<open>Some bs\<close> the bytes stored at the start of the buffer and the
  result \<open>length bs\<close>. \<open>m_accept\<close> and \<open>m_connect\<close>: \<open>Inl\<close> is a negative result with its \<open>errno\<close>.
\<close>

record 'w mtcp =
  m_socket :: "'w \<Rightarrow> int \<times> 'w"
  m_nonblock :: "int \<Rightarrow> 'w \<Rightarrow> int \<times> 'w"
  m_bind :: "int \<Rightarrow> string \<Rightarrow> int \<Rightarrow> 'w \<Rightarrow> int \<times> 'w"
  m_listen :: "int \<Rightarrow> int \<Rightarrow> 'w \<Rightarrow> int \<times> 'w"
  m_epoll_create :: "'w \<Rightarrow> int \<times> 'w"
  m_connect :: "int \<Rightarrow> string \<Rightarrow> int \<Rightarrow> 'w \<Rightarrow> (errno + int) \<times> 'w"
  m_accept :: "int \<Rightarrow> 'w \<Rightarrow> (errno + int) \<times> 'w"
  m_read :: "int \<Rightarrow> 'w \<Rightarrow> u8 list option \<times> 'w"
  m_write :: "int \<Rightarrow> u8 list \<Rightarrow> 'w \<Rightarrow> int \<times> 'w"
  m_ctl :: "ctl \<Rightarrow> int \<Rightarrow> 'w \<Rightarrow> int \<times> 'w"
  m_close :: "int \<Rightarrow> 'w \<Rightarrow> 'w"
  sys_close :: "int \<Rightarrow> 'w \<Rightarrow> 'w"

text \<open>One entry of \<open>return_events\<close>, and what one call of \<open>mtcp_epoll_wait\<close> yields.\<close>

record event =
  ev_fd :: int
  ev_in :: bool
  ev_out :: bool
  ev_err :: bool
  ev_hup :: bool

datatype batch = Wait_error | Events "event list"

subsection \<open>The state of the loop\<close>

record mdata =
  act :: int
  initial_fd :: int
  mbuf :: "u8 list"
  buflen :: int

definition zero_buf :: "u8 list" where
  "zero_buf = replicate 500 0"

record ('w, 'm) loop =
  world :: 'w
  fdmap :: "int \<rightharpoonup> 'm"
  rbuf :: "u8 list"
  rpkt :: packet

text \<open>\<open>fdmap.insert\<close> leaves an entry that is already there; \<open>fdmap.erase\<close> removes it.\<close>

definition fd_insert :: "int \<Rightarrow> 'm \<Rightarrow> ('w, 'm, 'z) loop_scheme \<Rightarrow> ('w, 'm, 'z) loop_scheme" where
  "fd_insert fd m s =
     (case fdmap s fd of None \<Rightarrow> s\<lparr>fdmap := (fdmap s)(fd \<mapsto> m)\<rparr> | Some _ \<Rightarrow> s)"

definition fd_erase :: "int \<Rightarrow> ('w, 'm, 'z) loop_scheme \<Rightarrow> ('w, 'm, 'z) loop_scheme" where
  "fd_erase fd s = s\<lparr>fdmap := (fdmap s)(fd := None)\<rparr>"

text \<open>The key of a UE that is shared by MME, SGW and PGW: the digits of the GUTI behind the seventh.\<close>

definition gettid :: "u64 \<Rightarrow> u32 res" where
  "gettid v =
     bindE (substr_from 7 (to_string (unat v))) (\<lambda>tem.
     bindE (stoull tem) (\<lambda>n. Inr (ucast n)))"

subsection \<open>Calls and their checks\<close>

text \<open>
  Most calls are followed by a test of the result that exits. Some sites test \<open>< 0\<close>, others
  \<open>== -1\<close>; the test is an argument.
\<close>

definition neg :: "int \<Rightarrow> bool" where
  "neg r \<longleftrightarrow> r < 0"

definition minus1 :: "int \<Rightarrow> bool" where
  "minus1 r \<longleftrightarrow> r = -1"

definition ctl_or_exit ::
  "'w mtcp \<Rightarrow> (int \<Rightarrow> bool) \<Rightarrow> ctl \<Rightarrow> int \<Rightarrow> string \<Rightarrow> ('w, 'm, 'z) loop_scheme \<Rightarrow> ('w, 'm, 'z) loop_scheme res" where
  "ctl_or_exit M bad c fd msg s =
     (case m_ctl M c fd (world s) of (r, w) \<Rightarrow>
      if bad r then Inl (Exit msg) else Inr (s\<lparr>world := w\<rparr>))"

definition write_or_exit ::
  "'w mtcp \<Rightarrow> int \<Rightarrow> u8 list \<Rightarrow> string \<Rightarrow> ('w, 'm, 'z) loop_scheme \<Rightarrow> ('w, 'm, 'z) loop_scheme res" where
  "write_or_exit M fd bs msg s =
     (case m_write M fd bs (world s) of (r, w) \<Rightarrow>
      if r < 0 then Inl (Exit msg) else Inr (s\<lparr>world := w\<rparr>))"

definition nonblock_or_exit ::
  "'w mtcp \<Rightarrow> int \<Rightarrow> string \<Rightarrow> ('w, 'm, 'z) loop_scheme \<Rightarrow> ('w, 'm, 'z) loop_scheme res" where
  "nonblock_or_exit M fd msg s =
     (case m_nonblock M fd (world s) of (r, w) \<Rightarrow>
      if r < 0 then Inl (Exit msg) else Inr (s\<lparr>world := w\<rparr>))"

definition socket_or_exit ::
  "'w mtcp \<Rightarrow> string \<Rightarrow> ('w, 'm, 'z) loop_scheme \<Rightarrow> (int \<times> ('w, 'm, 'z) loop_scheme) res" where
  "socket_or_exit M msg s =
     (case m_socket M (world s) of (fd, w) \<Rightarrow>
      if fd < 0 then Inl (Exit msg) else Inr (fd, s\<lparr>world := w\<rparr>))"

definition close_fd :: "'w mtcp \<Rightarrow> int \<Rightarrow> ('w, 'm, 'z) loop_scheme \<Rightarrow> ('w, 'm, 'z) loop_scheme" where
  "close_fd M fd s = s\<lparr>world := m_close M fd (world s)\<rparr>"

definition write_pkt ::
  "'w mtcp \<Rightarrow> int \<Rightarrow> packet \<Rightarrow> string \<Rightarrow> ('w, 'm, 'z) loop_scheme \<Rightarrow> ('w, 'm, 'z) loop_scheme res" where
  "write_pkt M fd pkt msg s = bindE (pkt_wire pkt) (\<lambda>m. write_or_exit M fd m msg s)"

subsection \<open>Receiving a packet\<close>

text \<open>
  The descriptor leaves the epoll set, the packet is cleared (its headers stay), one \<open>mtcp_read\<close>
  fills \<open>data\<close> from its start, and \<open>pkt_len\<close> bytes behind the length prefix are copied to the packet;
  \<open>pkt_len\<close> is whatever the first four bytes of \<open>data\<close> say. The handlers of requests test for a
  negative result of \<open>mtcp_read\<close> only, so with \<open>eof_ok\<close> an end of stream leaves \<open>data\<close> as the last
  message of any descriptor left it.
\<close>

definition load_pkt :: "('w, 'm, 'z) loop_scheme \<Rightarrow> ('w, 'm, 'z) loop_scheme res" where
  "load_pkt s =
     bindE (buf_read (rbuf s) 0 4) (\<lambda>h.
     let pkt_len = int_le h in
     bindE (buf_read (rbuf s) 4 pkt_len) (\<lambda>m.
     bindE (buf_write (data (rpkt s)) 0 m) (\<lambda>d.
     Inr (s\<lparr>rpkt := (rpkt s)\<lparr>data := d, data_ptr := 0, len := pkt_len\<rparr>\<rparr>))))"

definition recv_pkt ::
  "'w mtcp \<Rightarrow> bool \<Rightarrow> int \<Rightarrow> string \<Rightarrow> string \<Rightarrow> ('w, 'm, 'z) loop_scheme \<Rightarrow> ('w, 'm, 'z) loop_scheme res" where
  "recv_pkt M eof_ok fd del_msg read_msg s =
     bindE (ctl_or_exit M neg Ctl_del fd del_msg s) (\<lambda>s.
     let s = s\<lparr>rpkt := clear_pkt (rpkt s)\<rparr> in
     case m_read M fd (world s) of
       (None, w) \<Rightarrow> Inl (Exit read_msg)
     | (Some bs, w) \<Rightarrow>
         if bs = [] \<and> \<not> eof_ok then Inl (Exit read_msg)
         else bindE (buf_write (rbuf s) 0 bs) (\<lambda>d. load_pkt (s\<lparr>rbuf := d, world := w\<rparr>)))"

subsection \<open>Accepting connections\<close>

text \<open>
  \<open>while (1)\<close>: every pending connection is put into the epoll set and into \<open>fdmap\<close>, until
  \<open>mtcp_accept\<close> would block. A stack that never says so keeps the loop from returning: \<open>None\<close>, which
  the handler turns into \<open>Blocked\<close>.
\<close>

definition register_fd ::
  "'w mtcp \<Rightarrow> int \<Rightarrow> 'm \<Rightarrow> string \<Rightarrow> ('w, 'm, 'z) loop_scheme \<Rightarrow> ('w, 'm, 'z) loop_scheme res" where
  "register_fd M fd m msg s =
     (let s = s\<lparr>world := snd (m_nonblock M fd (world s))\<rparr> in
      bindE (ctl_or_exit M neg (Ctl_add EPOLLIN) fd msg s) (\<lambda>s. Inr (fd_insert fd m s)))"

partial_function (option) accept_loop ::
  "'w mtcp \<Rightarrow> int \<Rightarrow> 'm \<Rightarrow> string \<Rightarrow> ('w, 'm, 'z) loop_scheme \<Rightarrow> ('w, 'm, 'z) loop_scheme res option" where
  "accept_loop M lfd m msg s =
     (case m_accept M lfd (world s) of
        (Inl e, w) \<Rightarrow>
          if e = EAGAIN \<or> e = EWOULDBLOCK then Some (Inr (s\<lparr>world := w\<rparr>))
          else Some (Inl (Exit ''Error on accept''))
      | (Inr fd, w) \<Rightarrow>
          (case register_fd M fd m msg (s\<lparr>world := w\<rparr>) of
             Inl e \<Rightarrow> Some (Inl e)
           | Inr s \<Rightarrow> accept_loop M lfd m msg s))"

definition accept_all ::
  "'w mtcp \<Rightarrow> int \<Rightarrow> 'm \<Rightarrow> string \<Rightarrow> ('w, 'm, 'z) loop_scheme \<Rightarrow> ('w, 'm, 'z) loop_scheme res" where
  "accept_all M lfd m msg s = (case accept_loop M lfd m msg s of None \<Rightarrow> Inl Blocked | Some r \<Rightarrow> r)"

subsection \<open>Opening a connection\<close>

text \<open>
  A non-blocking connect has to answer \<open>EINPROGRESS\<close>; then the descriptor waits for \<open>EPOLLOUT\<close>. A
  connection that succeeds at once ends the program, like an error.
\<close>

definition open_conn ::
  "'w mtcp \<Rightarrow> string \<Rightarrow> int \<Rightarrow> string \<Rightarrow> ('w, 'm, 'z) loop_scheme \<Rightarrow> (int \<times> ('w, 'm, 'z) loop_scheme) res" where
  "open_conn M ip port who s =
     bindE (socket_or_exit M (who @ '' new socket fd error'') s) (\<lambda>(fd, s).
     bindE (nonblock_or_exit M fd (who @ '' create nonblock'') s) (\<lambda>s.
     case m_connect M fd ip port (world s) of
       (Inl e, w) \<Rightarrow>
         if e = EINPROGRESS then
           bindE (ctl_or_exit M minus1 (Ctl_add EPOLLOUT) fd (who @ '' epoll add'') (s\<lparr>world := w\<rparr>))
             (\<lambda>s. Inr (fd, s))
         else Inl (Exit (who @ '' connect error''))
     | (Inr _, w) \<Rightarrow> Inl (Exit (who @ '' connection immediately''))))"

text \<open>
  When the connection is there, the stored message goes out and the descriptor waits for the answer.
\<close>

definition send_stored ::
  "'w mtcp \<Rightarrow> int \<Rightarrow> u8 list \<Rightarrow> int \<Rightarrow> string \<Rightarrow> ('w, 'm, 'z) loop_scheme \<Rightarrow> ('w, 'm, 'z) loop_scheme res" where
  "send_stored M fd buf n who s =
     bindE (buf_read buf 0 n) (\<lambda>bs.
     bindE (write_or_exit M fd bs (who @ '' write after connect'') s) (\<lambda>s.
     ctl_or_exit M minus1 (Ctl_mod EPOLLIN) fd (who @ '' mod error'') s))"

subsection \<open>Startup\<close>

definition listen_on :: "'w mtcp \<Rightarrow> string \<Rightarrow> int \<Rightarrow> 'w \<Rightarrow> (int \<times> 'w) res" where
  "listen_on M ip port w =
     (case m_socket M w of (lfd, w) \<Rightarrow>
      if lfd < 0 then Inl (Exit ''listen socket call'')
      else case m_nonblock M lfd w of (r, w) \<Rightarrow>
      if r < 0 then Inl (Exit ''mtcp make nonblock'')
      else case m_bind M lfd ip port w of (r, w) \<Rightarrow>
      if r < 0 then Inl (Exit ''mtcp listenfd bind call'')
      else case m_listen M lfd MAXCONN w of (r, w) \<Rightarrow>
      if r < 0 then Inl (Exit ''mtcp listen'')
      else case m_epoll_create M w of (r, w) \<Rightarrow>
      if r = -1 then Inl (Exit ''mtcp epoll_create'')
      else case m_ctl M (Ctl_add EPOLLIN) lfd w of (r, w) \<Rightarrow>
      if r = -1 then Inl (Exit ''mtcp epoll_ctl_add'')
      else Inr (lfd, w))"

subsection \<open>Dispatching events\<close>

text \<open>
  The string of an \<open>Exit\<close> in the theories of version 3.0 is a label of the place where the code calls
  \<open>exit(-1)\<close>; it is not always the text that is printed there.

  An event with \<open>EPOLLERR\<close> or \<open>EPOLLHUP\<close> only closes the descriptor, with \<open>close\<close> and not
  \<open>mtcp_close\<close>; its entry in \<open>fdmap\<close> stays. Any other descriptor than the listening one is looked up
  with \<open>fdmap[cur_fd]\<close>, which inserts a zeroed entry when there is none.
\<close>

definition on_event ::
  "'w mtcp \<Rightarrow> int \<Rightarrow> (('w, 'm, 'z) loop_scheme \<Rightarrow> ('w, 'm, 'z) loop_scheme res) \<Rightarrow> 'm \<Rightarrow>
   (event \<Rightarrow> 'm \<Rightarrow> ('w, 'm, 'z) loop_scheme \<Rightarrow> ('w, 'm, 'z) loop_scheme res) \<Rightarrow> event \<Rightarrow>
   ('w, 'm, 'z) loop_scheme \<Rightarrow> ('w, 'm, 'z) loop_scheme res" where
  "on_event M lfd accept_h zero handle ev s =
     (if ev_err ev \<or> ev_hup ev then Inr (s\<lparr>world := sys_close M (ev_fd ev) (world s)\<rparr>)
      else if ev_fd ev = lfd then accept_h s
      else handle ev (at_or zero (fdmap s) (ev_fd ev)) (s\<lparr>fdmap := op_idx zero (fdmap s) (ev_fd ev)\<rparr>))"

fun on_events :: "(event \<Rightarrow> 's \<Rightarrow> 's res) \<Rightarrow> event list \<Rightarrow> 's \<Rightarrow> 's res" where
  "on_events step [] s = Inr s"
| "on_events step (e # es) s = bindE (step e s) (on_events step es)"

definition on_batch :: "(event \<Rightarrow> 's \<Rightarrow> 's res) \<Rightarrow> batch \<Rightarrow> 's \<Rightarrow> 's res" where
  "on_batch step b s =
     (case b of Wait_error \<Rightarrow> Inl (Exit ''mtcp wait'') | Events es \<Rightarrow> on_events step es s)"

text \<open>The \<open>while (1)\<close> of \<open>run\<close> on the batches that arrive.\<close>

fun main_loop :: "(event \<Rightarrow> 's \<Rightarrow> 's res) \<Rightarrow> batch list \<Rightarrow> 's \<Rightarrow> 's res" where
  "main_loop step [] s = Inr s"
| "main_loop step (b # bs) s = bindE (on_batch step b s) (main_loop step bs)"

subsection \<open>Invariants of the loop\<close>

locale loop_invariant =
  fixes step :: "event \<Rightarrow> 's \<Rightarrow> 's res"
    and inv :: "'s \<Rightarrow> bool"
  assumes step_inv: "inv s \<Longrightarrow> step e s = Inr s' \<Longrightarrow> inv s'"
begin

lemma events_inv: "inv s \<Longrightarrow> on_events step es s = Inr s' \<Longrightarrow> inv s'"
  by (induction es arbitrary: s) (auto simp: bindE_eq_Inr intro: step_inv)

lemma batch_inv: "inv s \<Longrightarrow> on_batch step b s = Inr s' \<Longrightarrow> inv s'"
  by (auto simp: on_batch_def intro: events_inv split: batch.splits)

lemma loop_inv: "inv s \<Longrightarrow> main_loop step bs s = Inr s' \<Longrightarrow> inv s'"
  by (induction bs arbitrary: s) (auto simp: bindE_eq_Inr intro: batch_inv)

end

text \<open>The contract of a program: what it keeps on accept and on a dispatched event, it keeps forever.\<close>

locale event_program =
  fixes M :: "'w mtcp"
    and lfd :: int
    and accept_h :: "('w, 'm, 'z) loop_scheme \<Rightarrow> ('w, 'm, 'z) loop_scheme res"
    and zero :: 'm
    and handle :: "event \<Rightarrow> 'm \<Rightarrow> ('w, 'm, 'z) loop_scheme \<Rightarrow> ('w, 'm, 'z) loop_scheme res"
    and inv :: "('w, 'm, 'z) loop_scheme \<Rightarrow> bool"
  assumes world_inv: "inv s \<Longrightarrow> inv (s\<lparr>world := w\<rparr>)"
    and accept_inv: "inv s \<Longrightarrow> accept_h s = Inr s' \<Longrightarrow> inv s'"
    and zero_inv: "inv s \<Longrightarrow> inv (s\<lparr>fdmap := op_idx zero (fdmap s) fd\<rparr>)"
    and handle_inv: "inv s \<Longrightarrow> fdmap s (ev_fd ev) = Some m \<Longrightarrow> handle ev m s = Inr s' \<Longrightarrow> inv s'"

sublocale event_program \<subseteq> loop_invariant "on_event M lfd accept_h zero handle" inv
proof
  fix s e s'
  assume "inv s" and "on_event M lfd accept_h zero handle e s = Inr s'"
  then show "inv s'"
    using handle_inv [OF zero_inv, of s "ev_fd e" e "at_or zero (fdmap s) (ev_fd e)" s']
    by (auto simp: on_event_def split: if_splits intro: world_inv accept_inv)
qed

text \<open>The accept loop keeps what a change of the world and a new entry keep.\<close>

lemma accept_loop_inv:
  assumes "accept_loop M lfd m msg s = Some r"
    and "\<forall>s w. P s \<longrightarrow> P (s\<lparr>world := w\<rparr>)" and "\<forall>s fd. P s \<longrightarrow> P (fd_insert fd m s)"
    and "P s" and "r = Inr s'"
  shows "P s'"
  using assms
proof (induction M lfd m msg s r
    rule: accept_loop.raw_induct [rotated, consumes 1, case_names step])
  case (step loop M lfd m msg s r)
  then show ?case
    by (auto simp: register_fd_def ctl_or_exit_def Let_def bindE_eq_Inr
        split: prod.splits sum.splits if_splits)
qed

lemma accept_all_inv:
  assumes "accept_all M lfd m msg s = Inr s'" and "P s"
    and "\<And>s w. P s \<Longrightarrow> P (s\<lparr>world := w\<rparr>)" and "\<And>s fd. P s \<Longrightarrow> P (fd_insert fd m s)"
  shows "P s'"
  using assms accept_loop_inv [of M lfd m msg s "Inr s'" P s']
  by (auto simp: accept_all_def split: option.splits)

subsection \<open>Expected calls\<close>

text \<open>
  \<open>plays M cs w = Some w'\<close>: executed from the world \<open>w\<close>, the calls of the list have the outcomes it
  describes and leave the world \<open>w'\<close>. The hypotheses of the functional lemmas are of this form: if
  the stack answers the calls of the list like this, the handler makes exactly these calls, in this
  order and with these bytes.
\<close>

datatype call =
    Ctl ctl int
  | Read int "u8 list"
  | Write int "u8 list"
  | Socket int
  | Nonblock int
  | Connect int string int
  | Accepted int int
  | No_more int
  | Close int

fun play :: "'w mtcp \<Rightarrow> call \<Rightarrow> 'w \<Rightarrow> 'w option" where
  "play M (Ctl c fd) w = (case m_ctl M c fd w of (r, w) \<Rightarrow> if r = 0 then Some w else None)"
| "play M (Read fd bs) w = (case m_read M fd w of (r, w) \<Rightarrow> if r = Some bs then Some w else None)"
| "play M (Write fd bs) w = (case m_write M fd bs w of (r, w) \<Rightarrow> if 0 \<le> r then Some w else None)"
| "play M (Socket fd) w = (case m_socket M w of (r, w) \<Rightarrow> if r = fd \<and> 0 \<le> r then Some w else None)"
| "play M (Nonblock fd) w = (case m_nonblock M fd w of (r, w) \<Rightarrow> if 0 \<le> r then Some w else None)"
| "play M (Connect fd ip port) w =
     (case m_connect M fd ip port w of (r, w) \<Rightarrow> if r = Inl EINPROGRESS then Some w else None)"
| "play M (Accepted lfd fd) w = (case m_accept M lfd w of (r, w) \<Rightarrow> if r = Inr fd then Some w else None)"
| "play M (No_more lfd) w = (case m_accept M lfd w of (r, w) \<Rightarrow> if r = Inl EAGAIN then Some w else None)"
| "play M (Close fd) w = Some (m_close M fd w)"

fun plays :: "'w mtcp \<Rightarrow> call list \<Rightarrow> 'w \<Rightarrow> 'w option" where
  "plays M [] w = Some w"
| "plays M (c # cs) w = (case play M c w of None \<Rightarrow> None | Some w \<Rightarrow> plays M cs w)"

declare play.simps [simp del]

lemma plays_ConsE:
  assumes "plays M (c # cs) w = Some w'"
  obtains w1 where "play M c w = Some w1" and "plays M cs w1 = Some w'"
  using assms by (auto split: option.splits)

lemma plays_append:
  "plays M (cs @ ds) w = (case plays M cs w of None \<Rightarrow> None | Some w \<Rightarrow> plays M ds w)"
  by (induction cs arbitrary: w) (auto split: option.splits)

lemma plays_appendE:
  assumes "plays M (cs @ ds) w = Some w'"
  obtains w1 where "plays M cs w = Some w1" and "plays M ds w1 = Some w'"
  using assms by (auto simp: plays_append split: option.splits)

text \<open>Each wrapper executes its call.\<close>

named_theorems call_simps \<open>calls that have the expected outcome\<close>

lemma play_ctl [call_simps]:
  "play M (Ctl c fd) (world s) = Some w \<Longrightarrow> \<not> bad 0 \<Longrightarrow> ctl_or_exit M bad c fd msg s = Inr (s\<lparr>world := w\<rparr>)"
  by (auto simp: play.simps ctl_or_exit_def split: prod.splits if_splits)

lemma neg_minus1_0 [simp]: "\<not> neg 0" "\<not> minus1 0"
  by (simp_all add: neg_def minus1_def)

lemma play_write [call_simps]:
  "play M (Write fd bs) (world s) = Some w \<Longrightarrow> write_or_exit M fd bs msg s = Inr (s\<lparr>world := w\<rparr>)"
  by (auto simp: play.simps write_or_exit_def split: prod.splits if_splits)

lemma play_nonblock [call_simps]:
  "play M (Nonblock fd) (world s) = Some w \<Longrightarrow> nonblock_or_exit M fd msg s = Inr (s\<lparr>world := w\<rparr>)"
  by (auto simp: play.simps nonblock_or_exit_def split: prod.splits if_splits)

lemma play_nonblock_snd: "play M (Nonblock fd) w = Some w' \<Longrightarrow> snd (m_nonblock M fd w) = w'"
  by (auto simp: play.simps split: prod.splits if_splits)

lemma play_socket [call_simps]:
  "play M (Socket fd) (world s) = Some w \<Longrightarrow> socket_or_exit M msg s = Inr (fd, s\<lparr>world := w\<rparr>)"
  by (auto simp: play.simps socket_or_exit_def split: prod.splits if_splits)

lemma play_connect: "play M (Connect fd ip port) w = Some w' \<Longrightarrow> m_connect M fd ip port w = (Inl EINPROGRESS, w')"
  by (auto simp: play.simps split: prod.splits if_splits)

lemma play_read: "play M (Read fd bs) w = Some w' \<Longrightarrow> m_read M fd w = (Some bs, w')"
  by (auto simp: play.simps split: prod.splits if_splits)

lemma play_accept:
  "play M (Accepted lfd fd) w = Some w' \<Longrightarrow> m_accept M lfd w = (Inr fd, w')"
  "play M (No_more lfd) w = Some w' \<Longrightarrow> m_accept M lfd w = (Inl EAGAIN, w')"
  by (auto simp: play.simps split: prod.splits if_splits)

lemma play_close [call_simps]: "play M (Close fd) (world s) = Some w \<Longrightarrow> close_fd M fd s = s\<lparr>world := w\<rparr>"
  by (auto simp: play.simps close_fd_def)

subsection \<open>Framed messages\<close>

text \<open>\<open>frame m\<close> is the message behind its length, as \<open>prepend_len\<close> makes it.\<close>

lemma length_frame [simp]: "length (frame m) = 4 + length m"
  by (simp add: frame_def)

lemma prepend_len_view [simp, pkt_simps]:
  "length a + length r \<le> 1020 \<Longrightarrow>
   prepend_len (view g s d a r) = Inr (view g s d (le_int (int (length a + length r)) @ a) r)"
  by (simp add: prepend_len_def)

lemma load_frame:
  assumes "length m \<le> 1020" and "rbuf s = frame m @ t" and "rpkt s = view g sh d [] []"
  shows "load_pkt s = Inr (s\<lparr>rpkt := view g sh d [] m\<rparr>)"
proof -
  have "buf_read (rbuf s) 0 4 = Inr (le_int (int (length m)))"
    using assms by (simp add: buf_read_def frame_def)
  moreover have "buf_read (rbuf s) 4 (int (length m)) = Inr m"
    using assms by (simp add: buf_read_def frame_def)
  moreover have "data (rpkt s) = zeros"
    using assms by (simp add: view_def zeros_def)
  ultimately show ?thesis
    using assms by (simp add: load_pkt_def Let_def buf_write_zeros) (simp add: view_def)
qed

lemma recv_frame:
  assumes "play M (Ctl Ctl_del fd) (world s) = Some w1" and "play M (Read fd (frame m)) w1 = Some w2"
    and "length m \<le> 1020" and "length (rbuf s) = 1024"
  shows "recv_pkt M b fd msg1 msg2 s =
    Inr (s\<lparr>rbuf := frame m @ drop (4 + length m) (rbuf s), world := w2,
           rpkt := view (gtp_hdr (rpkt s)) (s1ap_hdr (rpkt s)) (diameter_hdr (rpkt s)) [] m\<rparr>)"
proof -
  have "frame m \<noteq> []"
    using length_frame [of m] by fastforce
  moreover have "buf_write (rbuf s) 0 (frame m) = Inr (frame m @ drop (4 + length m) (rbuf s))"
    using assms by (simp add: buf_write_def)
  ultimately show ?thesis
    using assms by (simp add: recv_pkt_def call_simps play_read load_frame)
qed

lemma recv_stale:
  assumes "play M (Ctl Ctl_del fd) (world s) = Some w1" and "play M (Read fd []) w1 = Some w2"
    and "length m \<le> 1020" and "rbuf s = frame m @ t"
  shows "recv_pkt M True fd msg1 msg2 s =
    Inr (s\<lparr>rbuf := rbuf s, world := w2,
           rpkt := view (gtp_hdr (rpkt s)) (s1ap_hdr (rpkt s)) (diameter_hdr (rpkt s)) [] m\<rparr>)"
  using assms by (simp add: recv_pkt_def call_simps play_read buf_write_def load_frame)

lemma recv_failures:
  "m_ctl M Ctl_del fd (world s) = (r, w) \<Longrightarrow> r < 0 \<Longrightarrow> recv_pkt M b fd msg1 msg2 s = Inl (Exit msg1)"
  "play M (Ctl Ctl_del fd) (world s) = Some w1 \<Longrightarrow> m_read M fd w1 = (None, w2) \<Longrightarrow>
   recv_pkt M b fd msg1 msg2 s = Inl (Exit msg2)"
  "play M (Ctl Ctl_del fd) (world s) = Some w1 \<Longrightarrow> m_read M fd w1 = (Some [], w2) \<Longrightarrow>
   recv_pkt M False fd msg1 msg2 s = Inl (Exit msg2)"
  by (simp add: recv_pkt_def ctl_or_exit_def neg_def) (simp_all add: recv_pkt_def call_simps)

text \<open>A length prefix above the buffer is followed: the copy leaves the 1024 bytes of \<open>data\<close>.\<close>

lemma recv_long_frame:
  assumes "play M (Ctl Ctl_del fd) (world s) = Some w1" and "play M (Read fd bs) w1 = Some w2"
    and "4 \<le> length bs" and "length bs \<le> 1024" and "length (rbuf s) = 1024"
    and "int_le (take 4 bs) < 0 \<or> 1020 < int_le (take 4 bs)"
  shows "recv_pkt M b fd msg1 msg2 s = Inl (Undefined ''memmove: read out of range'')"
proof -
  have "bs \<noteq> []"
    using assms(3) by auto
  moreover have "buf_write (rbuf s) 0 bs = Inr (bs @ drop (length bs) (rbuf s))"
    using assms by (simp add: buf_write_def)
  moreover have "load_pkt s' = Inl (Undefined ''memmove: read out of range'')"
    if "rbuf s' = bs @ drop (length bs) (rbuf s)" for s' :: "('a, 'b, 'c) loop_scheme"
    using assms that by (auto simp: load_pkt_def buf_read_def)
  ultimately show ?thesis
    using assms by (simp add: recv_pkt_def call_simps play_read)
qed

text \<open>A \<open>bool\<close> that is extracted into an eight-byte variable: the byte and the zeros behind the message.\<close>

lemma word_le_bool: "word_le (1 # replicate 7 0) = (1 :: u64)" "word_le (0 # replicate 7 0) = (0 :: u64)"
  by code_simp+

lemma extract_u64_bool:
  "length a \<le> 1000 \<Longrightarrow>
   extract_u64 (view g s d a (bool_bytes b)) =
     Inr (if b then 1 else 0, view g s d a (bool_bytes b)\<lparr>data_ptr := int (length a) + 8\<rparr>)"
  by (simp add: extract_u64_def extract_raw_def view_def bool_bytes_def buf_read_def word_le_bool)

lemma clear_moved [simp]: "clear_pkt (view g s d a r\<lparr>data_ptr := n\<rparr>) = view g s d [] []"
  by (simp add: clear_pkt_def view_def zeros_def)

lemma hdrs_moved [simp]:
  "s1ap_hdr (view g s d a r\<lparr>data_ptr := n\<rparr>) = s" "gtp_hdr (view g s d a r\<lparr>data_ptr := n\<rparr>) = g"
  by simp_all

lemma open_conn_plays:
  assumes "plays M [Socket fd, Nonblock fd, Connect fd ip port, Ctl (Ctl_add EPOLLOUT) fd] (world s) = Some w"
  shows "open_conn M ip port who s = Inr (fd, s\<lparr>world := w\<rparr>)"
  using assms
  by (auto simp: open_conn_def call_simps play_connect split: option.splits)

lemma send_stored_plays:
  assumes "plays M [Write fd bs, Ctl (Ctl_mod EPOLLIN) fd] (world s) = Some w"
    and "buf = bs @ t" and "n = int (length bs)"
  shows "send_stored M fd buf n who s = Inr (s\<lparr>world := w\<rparr>)"
  using assms by (auto simp: send_stored_def call_simps buf_read_prefix split: option.splits)

lemma accept_one:
  assumes "plays M [Accepted lfd fd, Nonblock fd, Ctl (Ctl_add EPOLLIN) fd, No_more lfd] (world s) = Some w"
  shows "accept_all M lfd m msg s = Inr (fd_insert fd m (s\<lparr>world := w\<rparr>))"
proof -
  obtain w1 w2 w3 where calls: "play M (Accepted lfd fd) (world s) = Some w1"
      "play M (Nonblock fd) w1 = Some w2" "play M (Ctl (Ctl_add EPOLLIN) fd) w2 = Some w3"
      "play M (No_more lfd) w3 = Some w"
    using assms by (auto split: option.splits)
  have "register_fd M fd m msg (s\<lparr>world := w1\<rparr>) = Inr (fd_insert fd m (s\<lparr>world := w3\<rparr>))"
    using calls by (simp add: register_fd_def Let_def play_nonblock_snd call_simps)
  moreover have "world (fd_insert fd m (s\<lparr>world := w3\<rparr>)) = w3"
    "fd_insert fd m (s\<lparr>world := w3\<rparr>)\<lparr>world := w\<rparr> = fd_insert fd m (s\<lparr>world := w\<rparr>)"
    by (simp_all add: fd_insert_def split: option.splits)
  ultimately have "accept_loop M lfd m msg s = Some (Inr (fd_insert fd m (s\<lparr>world := w\<rparr>)))"
    by (simp add: accept_loop.simps [of M lfd m msg] play_accept(1) [OF calls(1)]
        play_accept(2) [OF calls(4)])
  then show ?thesis
    by (simp add: accept_all_def)
qed

subsection \<open>Building blocks of sessions\<close>

text \<open>An event that only says that a descriptor is readable, or that it is writable.\<close>

definition readable :: "int \<Rightarrow> event" where
  "readable fd = \<lparr>ev_fd = fd, ev_in = True, ev_out = False, ev_err = False, ev_hup = False\<rparr>"

definition writable :: "int \<Rightarrow> event" where
  "writable fd = \<lparr>ev_fd = fd, ev_in = False, ev_out = True, ev_err = False, ev_hup = False\<rparr>"

lemma event_sels [simp]:
  "ev_fd (readable fd) = fd" "ev_fd (writable fd) = fd" "ev_out (writable fd)" "\<not> ev_out (readable fd)"
  "ev_in (readable fd)" "\<not> ev_in (writable fd)"
  "\<not> ev_err (readable fd)" "\<not> ev_err (writable fd)" "\<not> ev_hup (readable fd)" "\<not> ev_hup (writable fd)"
  by (simp_all add: readable_def writable_def)

lemma on_event_known:
  assumes "\<not> ev_err e" and "\<not> ev_hup e" and "ev_fd e \<noteq> lfd" and "fdmap s (ev_fd e) = Some m"
  shows "on_event M lfd A z H e s = H e m s"
proof -
  have "op_idx z (fdmap s) (ev_fd e) = fdmap s" and "at_or z (fdmap s) (ev_fd e) = m"
    using assms(4) by (simp_all add: op_idx_def at_or_def fun_upd_idem)
  then show ?thesis
    using assms by (simp add: on_event_def)
qed

lemma main_loop_append:
  "main_loop step (bs @ cs) s = bindE (main_loop step bs s) (main_loop step cs)"
  by (induction bs arbitrary: s) (auto simp: bindE_def split: sum.splits)

lemma on_batch_single [simp]: "on_batch step (Events [e]) s = step e s"
  by (simp add: on_batch_def bindE_def split: sum.splits)

lemma write_frame [call_simps]:
  "play M (Write fd (frame (a @ r))) (world s) = Some w \<Longrightarrow> n = int (length a + length r) \<Longrightarrow>
   write_pkt M fd (view g sh d (le_int n @ a) r) msg s = Inr (s\<lparr>world := w\<rparr>)"
  by (simp add: write_pkt_def frame_def call_simps)

lemma fd_simps [simp]:
  "world (fd_insert fd m s) = world s" "rbuf (fd_insert fd m s) = rbuf s" "rpkt (fd_insert fd m s) = rpkt s"
  "world (fd_erase fd s) = world s" "rbuf (fd_erase fd s) = rbuf s" "rpkt (fd_erase fd s) = rpkt s"
  "fdmap (fd_erase fd s) = (fdmap s)(fd := None)"
  "fdmap (fd_insert fd m s) = (case fdmap s fd of None \<Rightarrow> (fdmap s)(fd \<mapsto> m) | Some _ \<Rightarrow> fdmap s)"
  by (simp_all add: fd_insert_def fd_erase_def split: option.splits)

text \<open>\<open>stored msg m\<close>: the entry keeps the message \<open>msg\<close> until its connection is open.\<close>

definition stored :: "u8 list \<Rightarrow> 'z mdata_scheme \<Rightarrow> 'z mdata_scheme" where
  "stored msg m = m\<lparr>mbuf := msg @ drop (length msg) (mbuf m), buflen := int (length msg)\<rparr>"

lemma buf_write_stored:
  "length b = 500 \<Longrightarrow> length msg \<le> 500 \<Longrightarrow> buf_write b 0 msg = Inr (msg @ drop (length msg) b)"
  by (simp add: buf_write_def)

text \<open>Receive, open a connection, send the stored request: the first two events towards a peer.\<close>

definition ask_calls :: "int \<Rightarrow> int \<Rightarrow> string \<Rightarrow> int \<Rightarrow> u8 list \<Rightarrow> u8 list \<Rightarrow> call list" where
  "ask_calls fd pfd ip port req msg =
     [Ctl Ctl_del fd, Read fd (frame req), Socket pfd, Nonblock pfd, Connect pfd ip port,
      Ctl (Ctl_add EPOLLOUT) pfd, Write pfd (frame msg), Ctl (Ctl_mod EPOLLIN) pfd]"

text \<open>Read from one descriptor, write to another and wait there.\<close>

definition relay_calls :: "int \<Rightarrow> int \<Rightarrow> u8 list \<Rightarrow> u8 list \<Rightarrow> call list" where
  "relay_calls from to msg msg' =
     [Ctl Ctl_del from, Read from (frame msg), Write to (frame msg'), Ctl (Ctl_add EPOLLIN) to]"

lemmas calls_defs = ask_calls_def relay_calls_def

subsection \<open>A scripted stack\<close>

text \<open>
  A stack whose world is the list of the calls it will answer: a call that is next is answered as the
  list says, any other call fails. It plays every script that only uses real descriptors.
\<close>

definition script_ctl :: "ctl \<Rightarrow> int \<Rightarrow> call list \<Rightarrow> int \<times> call list" where
  "script_ctl c fd w = (case w of Ctl c' fd' # w' \<Rightarrow> if c' = c \<and> fd' = fd then (0, w') else (-1, w) | _ \<Rightarrow> (-1, w))"

definition script_read :: "int \<Rightarrow> call list \<Rightarrow> u8 list option \<times> call list" where
  "script_read fd w = (case w of Read fd' bs # w' \<Rightarrow> if fd' = fd then (Some bs, w') else (None, w) | _ \<Rightarrow> (None, w))"

definition script_write :: "int \<Rightarrow> u8 list \<Rightarrow> call list \<Rightarrow> int \<times> call list" where
  "script_write fd bs w =
     (case w of Write fd' bs' # w' \<Rightarrow> if fd' = fd \<and> bs' = bs then (int (length bs), w') else (-1, w) | _ \<Rightarrow> (-1, w))"

definition script_socket :: "call list \<Rightarrow> int \<times> call list" where
  "script_socket w = (case w of Socket fd # w' \<Rightarrow> (fd, w') | _ \<Rightarrow> (-1, w))"

definition script_nonblock :: "int \<Rightarrow> call list \<Rightarrow> int \<times> call list" where
  "script_nonblock fd w = (case w of Nonblock fd' # w' \<Rightarrow> if fd' = fd then (0, w') else (-1, w) | _ \<Rightarrow> (-1, w))"

definition script_connect :: "int \<Rightarrow> string \<Rightarrow> int \<Rightarrow> call list \<Rightarrow> (errno + int) \<times> call list" where
  "script_connect fd ip port w =
     (case w of Connect fd' ip' port' # w' \<Rightarrow>
        if fd' = fd \<and> ip' = ip \<and> port' = port then (Inl EINPROGRESS, w') else (Inl Other_errno, w)
      | _ \<Rightarrow> (Inl Other_errno, w))"

definition script_accept :: "int \<Rightarrow> call list \<Rightarrow> (errno + int) \<times> call list" where
  "script_accept lfd w =
     (case w of Accepted lfd' fd # w' \<Rightarrow> if lfd' = lfd then (Inr fd, w') else (Inl Other_errno, w)
      | No_more lfd' # w' \<Rightarrow> if lfd' = lfd then (Inl EAGAIN, w') else (Inl Other_errno, w)
      | _ \<Rightarrow> (Inl Other_errno, w))"

definition script_close :: "int \<Rightarrow> call list \<Rightarrow> call list" where
  "script_close fd w = (case w of Close fd' # w' \<Rightarrow> if fd' = fd then w' else w | _ \<Rightarrow> w)"

definition scripted :: "call list mtcp" where
  "scripted =
     \<lparr>m_socket = script_socket, m_nonblock = script_nonblock, m_bind = (\<lambda>_ _ _ w. (0, w)),
      m_listen = (\<lambda>_ _ w. (0, w)), m_epoll_create = (\<lambda>w. (0, w)), m_connect = script_connect,
      m_accept = script_accept, m_read = script_read, m_write = script_write, m_ctl = script_ctl,
      m_close = script_close, sys_close = (\<lambda>_ w. w)\<rparr>"

definition real_call :: "call \<Rightarrow> bool" where
  "real_call c = (case c of Socket fd \<Rightarrow> 0 \<le> fd | _ \<Rightarrow> True)"

lemma play_scripted: "real_call c \<Longrightarrow> play scripted c (c # w) = Some w"
  by (cases c)
    (simp_all add: play.simps scripted_def script_ctl_def script_read_def script_write_def
      script_socket_def script_nonblock_def script_connect_def script_accept_def script_close_def
      real_call_def)

lemma plays_scripted: "list_all real_call cs \<Longrightarrow> plays scripted cs (cs @ w) = Some w"
  by (induction cs) (simp_all add: play_scripted)

subsection \<open>Well-formed loop states\<close>

text \<open>
  \<open>loop_ok ok s\<close>: the receive buffer has its size and every entry of \<open>fdmap\<close> satisfies \<open>ok\<close>. Each
  wrapper changes nothing but the fields it is about.
\<close>

definition loop_ok :: "('m \<Rightarrow> bool) \<Rightarrow> ('w, 'm, 'z) loop_scheme \<Rightarrow> bool" where
  "loop_ok ok s \<longleftrightarrow> length (rbuf s) = 1024 \<and> (\<forall>fd m. fdmap s fd = Some m \<longrightarrow> ok m)"

definition mdata_ok :: "int set \<Rightarrow> 'z mdata_scheme \<Rightarrow> bool" where
  "mdata_ok acts m \<longleftrightarrow> act m \<in> acts \<and> length (mbuf m) = 500 \<and> 0 \<le> buflen m \<and> buflen m \<le> 500"

named_theorems loop_inv_simps \<open>well-formedness of loop states under updates\<close>

lemma op_idx_erase [simp]: "(op_idx d m k)(k := v) = m(k := v)"
  by (simp add: op_idx_def)

lemma loop_ok_updates [loop_inv_simps]:
  "loop_ok ok (s\<lparr>world := w\<rparr>) = loop_ok ok s" "loop_ok ok (s\<lparr>rpkt := p\<rparr>) = loop_ok ok s"
  "length d = length (rbuf s) \<Longrightarrow> loop_ok ok (s\<lparr>rbuf := d\<rparr>) = loop_ok ok s"
  by (simp_all add: loop_ok_def)

lemma loop_ok_fd [loop_inv_simps]:
  "loop_ok ok s \<Longrightarrow> ok m \<Longrightarrow> loop_ok ok (fd_insert fd m s)"
  "loop_ok ok s \<Longrightarrow> loop_ok ok (fd_erase fd s)"
  "loop_ok ok s \<Longrightarrow> ok zero \<Longrightarrow> loop_ok ok (s\<lparr>fdmap := op_idx zero (fdmap s) fd\<rparr>)"
  by (auto simp: loop_ok_def fd_insert_def fd_erase_def op_idx_def at_or_def split: option.splits if_splits)

lemma ctl_or_exitE:
  assumes "ctl_or_exit M bad c fd msg s = Inr s'" obtains w where "s' = s\<lparr>world := w\<rparr>"
  using assms by (auto simp: ctl_or_exit_def split: prod.splits if_splits)

lemma write_or_exitE:
  assumes "write_or_exit M fd bs msg s = Inr s'" obtains w where "s' = s\<lparr>world := w\<rparr>"
  using assms by (auto simp: write_or_exit_def split: prod.splits if_splits)

lemma nonblock_or_exitE:
  assumes "nonblock_or_exit M fd msg s = Inr s'" obtains w where "s' = s\<lparr>world := w\<rparr>"
  using assms by (auto simp: nonblock_or_exit_def split: prod.splits if_splits)

lemma socket_or_exitE:
  assumes "socket_or_exit M msg s = Inr (fd, s')" obtains w where "s' = s\<lparr>world := w\<rparr>" and "0 \<le> fd"
  using assms by (auto simp: socket_or_exit_def split: prod.splits if_splits)

lemma bindE_InrE:
  assumes "bindE m f = Inr y" obtains x where "m = Inr x" and "f x = Inr y"
  using assms by (auto simp: bindE_eq_Inr)

lemma write_pktE:
  assumes "write_pkt M fd pkt msg s = Inr s'" obtains w where "s' = s\<lparr>world := w\<rparr>"
  using assms unfolding write_pkt_def by (auto elim!: bindE_InrE write_or_exitE)

lemma open_connE:
  assumes "open_conn M ip port who s = Inr (fd, s')" obtains w where "s' = s\<lparr>world := w\<rparr>"
proof -
  obtain s1 s2 w' where 1: "socket_or_exit M (who @ '' new socket fd error'') s = Inr (fd, s1)"
      "nonblock_or_exit M fd (who @ '' create nonblock'') s1 = Inr s2"
      "ctl_or_exit M minus1 (Ctl_add EPOLLOUT) fd (who @ '' epoll add'') (s2\<lparr>world := w'\<rparr>) = Inr s'"
    using assms unfolding open_conn_def
    by (auto elim!: bindE_InrE split: prod.splits sum.splits if_splits)
  from 1(1) show ?thesis
  proof (rule socket_or_exitE)
    fix w assume "s1 = s\<lparr>world := w\<rparr>"
    with 1(2,3) show ?thesis
      by (auto elim!: nonblock_or_exitE ctl_or_exitE intro: that)
  qed
qed

lemma send_storedE:
  assumes "send_stored M fd buf n who s = Inr s'" obtains w where "s' = s\<lparr>world := w\<rparr>"
  using assms unfolding send_stored_def by (auto elim!: bindE_InrE write_or_exitE ctl_or_exitE)

lemma length_buf_write: "buf_write d p bs = Inr d' \<Longrightarrow> length d' = length d"
  by (auto simp: buf_write_def split: if_splits)

lemma load_pktE:
  assumes "load_pkt s = Inr s'" obtains p where "s' = s\<lparr>rpkt := p\<rparr>"
  using assms unfolding load_pkt_def Let_def by (auto elim!: bindE_InrE)

lemma recv_pktE:
  assumes "recv_pkt M b fd msg1 msg2 s = Inr s'"
  obtains d w p where "s' = s\<lparr>rbuf := d, world := w, rpkt := p\<rparr>" and "length d = length (rbuf s)"
  using assms unfolding recv_pkt_def Let_def
  by (auto elim!: bindE_InrE ctl_or_exitE load_pktE dest!: length_buf_write intro: that
      split: prod.splits option.splits if_splits)

lemmas loop_elims = ctl_or_exitE write_or_exitE write_pktE open_connE send_storedE recv_pktE

end
