(* ===== verification/Epc3_Mme.thy ===== *)
theory Epc3_Mme
  imports Epc3_Mtcp Epc_Mme_Handlers
begin

section \<open>Mobility Management Entity of version 3.0 (kby_mme.h, kby_mme.cpp)\<close>

text \<open>
  The event-driven MME. Its tables are those of version 1.0 (\<open>mme\<close>, \<open>mme_ue\<close>), but the handlers of
  version 1.0 that wait for a peer are cut at the waiting points, and what the second half needs is
  stored in the entry of the descriptor that it waits on. The state of a connection is \<open>act\<close>:
  1, a message of the RAN; 2 and 3, the connection to the HSS is being opened, its answer is awaited;
  4 and 5, the same for the SGW and a create session; 6, the answer to a modify bearer; 7, the answer
  to a detach. While the RAN waits, its connection has no entry.

  Four variables of \<open>run\<close> are read by some handler before it writes them, so their values survive an
  event: \<open>guti\<close> (cases 3, 6 and 7, when the UE is unknown), \<open>eps_bearer_id\<close> (case 5), \<open>k_nas_enc\<close> and
  \<open>k_nas_int\<close> (case 7, on a negative answer). The headers of \<open>pkt\<close> survive as well.
\<close>

record mme_mdata = mdata +
  md_msui :: u32

definition zero_mme_mdata :: mme_mdata where
  "zero_mme_mdata = \<lparr>act = 0, initial_fd = 0, mbuf = zero_buf, buflen = 0, md_msui = 0\<rparr>"

record 'w mme3 = "('w, mme_mdata) loop" +
  mme_tabs :: mme
  v_guti :: u64
  v_eps_bearer_id :: u8
  v_k_nas_enc :: u64
  v_k_nas_int :: u64

text \<open>The first values of the variables, of the buffer and of the headers are arguments.\<close>

definition new_mme3 :: "mme_ids \<Rightarrow> 'w \<Rightarrow> u8 list \<Rightarrow> packet \<Rightarrow> u64 \<Rightarrow> u8 \<Rightarrow> u64 \<Rightarrow> u64 \<Rightarrow> 'w mme3" where
  "new_mme3 ids w d p g e ke ki =
     \<lparr>world = w, fdmap = Map.empty, rbuf = d, rpkt = p,
      mme_tabs = \<lparr>mme_ids_of = ids, ue_count = 0, s1mme_id = Map.empty, ue_ctx_m = Map.empty\<rparr>,
      v_guti = g, v_eps_bearer_id = e, v_k_nas_enc = ke, v_k_nas_int = ki\<rparr>"

definition handle_ran_accept :: "'w mtcp \<Rightarrow> int \<Rightarrow> 'w mme3 \<Rightarrow> 'w mme3 res" where
  "handle_ran_accept M lfd s =
     accept_all M lfd \<lparr>act = 1, initial_fd = 0, mbuf = zero_buf, buflen = 0, md_msui = 0\<rparr>
       ''Error adding ran accept to epoll'' s"

subsection \<open>Helpers\<close>

text \<open>\<open>U\<close> is what an uninitialised local \<open>struct mdata\<close> holds.\<close>

definition handle_hss_connect ::
  "'w mtcp \<Rightarrow> mme_mdata \<Rightarrow> int \<Rightarrow> packet \<Rightarrow> u32 \<Rightarrow> 'w mme3 \<Rightarrow> 'w mme3 res" where
  "handle_hss_connect M U cur_fd pkt msui s =
     bindE (open_conn M hss_ip3 hss_my_port ''hss'' s) (\<lambda>(hss_fd, s).
     let s = fd_erase cur_fd s in
     bindE (pkt_wire pkt) (\<lambda>m.
     bindE (buf_write (mbuf U) 0 m) (\<lambda>b.
     Inr (fd_insert hss_fd (U\<lparr>act := 2, initial_fd := cur_fd, md_msui := msui, mbuf := b, buflen := len pkt\<rparr>) s))))"

definition send_request_hss :: "'w mtcp \<Rightarrow> int \<Rightarrow> mme_mdata \<Rightarrow> 'w mme3 \<Rightarrow> 'w mme3 res" where
  "send_request_hss M cur_fd fddata s =
     bindE (send_stored M cur_fd (mbuf fddata) (buflen fddata) ''hss'' s) (\<lambda>s.
     Inr (fd_insert cur_fd (fddata\<lparr>act := 3, buflen := 0, mbuf := zero_buf\<rparr>) (fd_erase cur_fd s)))"

definition send_ran_attach_one :: "'w mtcp \<Rightarrow> int \<Rightarrow> packet \<Rightarrow> 'w mme3 \<Rightarrow> 'w mme3 res" where
  "send_ran_attach_one M cur_fd pkt s =
     bindE (write_pkt M cur_fd pkt ''Error MME write back to RAN'' s) (\<lambda>s.
     bindE (ctl_or_exit M neg (Ctl_add EPOLLIN) cur_fd ''Error adding ran to epoll'' (fd_erase cur_fd s)) (\<lambda>s.
     Inr (fd_insert cur_fd \<lparr>act = 1, initial_fd = 0, mbuf = zero_buf, buflen = 0, md_msui = 0\<rparr> s)))"

definition send_ran_attach_two :: "'w mtcp \<Rightarrow> mme_mdata \<Rightarrow> int \<Rightarrow> packet \<Rightarrow> 'w mme3 \<Rightarrow> 'w mme3 res" where
  "send_ran_attach_two M U cur_fd pkt s =
     bindE (write_pkt M cur_fd pkt ''Error MME write back to RAN'' s) (\<lambda>s.
     bindE (ctl_or_exit M neg (Ctl_add EPOLLIN) cur_fd ''Error adding ran to epoll'' s) (\<lambda>s.
     Inr (fd_insert cur_fd (U\<lparr>act := 1, buflen := 0, mbuf := zero_buf\<rparr>) s)))"

definition handle_sgw_connect ::
  "'w mtcp \<Rightarrow> mme_mdata \<Rightarrow> int \<Rightarrow> packet \<Rightarrow> u32 \<Rightarrow> 'w mme3 \<Rightarrow> 'w mme3 res" where
  "handle_sgw_connect M U cur_fd pkt msui s =
     bindE (open_conn M sgw_ip3 sgw_s11_portnum ''sgw'' s) (\<lambda>(sgw_fd, s).
     let s = fd_erase cur_fd s in
     bindE (pkt_wire pkt) (\<lambda>m.
     bindE (buf_write (mbuf U) 0 m) (\<lambda>b.
     Inr (fd_insert sgw_fd (U\<lparr>act := 4, initial_fd := cur_fd, md_msui := msui, mbuf := b, buflen := len pkt\<rparr>) s))))"

definition send_request_sgw_athree :: "'w mtcp \<Rightarrow> int \<Rightarrow> mme_mdata \<Rightarrow> 'w mme3 \<Rightarrow> 'w mme3 res" where
  "send_request_sgw_athree M cur_fd fddata s =
     bindE (send_stored M cur_fd (mbuf fddata) (buflen fddata) ''sgw'' s) (\<lambda>s.
     Inr (fd_insert cur_fd (fddata\<lparr>act := 5, buflen := 0, mbuf := zero_buf\<rparr>) (fd_erase cur_fd s)))"

definition send_sgw_afour :: "'w mtcp \<Rightarrow> int \<Rightarrow> mme_mdata \<Rightarrow> packet \<Rightarrow> 'w mme3 \<Rightarrow> 'w mme3 res" where
  "send_sgw_afour M cur_fd fddata pkt s =
     (let sgw_fd = initial_fd fddata in
      bindE (write_pkt M sgw_fd pkt ''Error: sgw write attach four'' s) (\<lambda>s.
      bindE (ctl_or_exit M minus1 (Ctl_add EPOLLIN) sgw_fd ''Error: sgw add mtcp error'' s) (\<lambda>s.
      Inr (fd_insert sgw_fd (fddata\<lparr>act := 6, buflen := 0, mbuf := zero_buf, initial_fd := cur_fd\<rparr>)
            (fd_erase cur_fd s)))))"

definition send_sgw_detach :: "'w mtcp \<Rightarrow> int \<Rightarrow> mme_mdata \<Rightarrow> packet \<Rightarrow> 'w mme3 \<Rightarrow> 'w mme3 res" where
  "send_sgw_detach M cur_fd fddata pkt s =
     (let sgw_fd = initial_fd fddata in
      bindE (write_pkt M sgw_fd pkt ''Error: sgw write detach'' s) (\<lambda>s.
      bindE (ctl_or_exit M minus1 (Ctl_add EPOLLIN) sgw_fd ''Error: sgw add mtcp error'' s) (\<lambda>s.
      Inr (fd_insert sgw_fd (fddata\<lparr>act := 7, buflen := 0, mbuf := zero_buf, initial_fd := cur_fd\<rparr>)
            (fd_erase cur_fd s)))))"

subsection \<open>Messages of the RAN: case 1\<close>

text \<open>A message with MME id 0 is a first attach: ask the HSS for an authentication vector.\<close>

definition mme3_initial_attach :: "'w mtcp \<Rightarrow> mme_mdata \<Rightarrow> int \<Rightarrow> 'w mme3 \<Rightarrow> 'w mme3 res" where
  "mme3_initial_attach M U cur_fd s =
     bindE (extract_u64 (rpkt s)) (\<lambda>(imsi, pkt).
     bindE (extract_u64 pkt) (\<lambda>(tai, pkt).
     bindE (extract_u64 pkt) (\<lambda>(ksi_asme, pkt).
     bindE (extract_u16 pkt) (\<lambda>(nw_capability, pkt).
     let m = mme_tabs s; enb = enodeb_s1ap_ue_id (s1ap_hdr pkt) in
     bindE (get_guti (gummei (mme_ids_of m)) imsi) (\<lambda>guti.
     let m = m\<lparr>ue_count := ue_count m + 1\<rparr>;
         msui = ucast (ue_count m);
         m = m\<lparr>s1mme_id := (s1mme_id m)(msui \<mapsto> guti)\<rparr>;
         m = upd_ue guti (mme_ue_init imsi enb msui tai nw_capability) m;
         nw_type = nw_type_m (ue_at guti m) in
     bindE (append_u64 imsi (clear_pkt pkt)) (\<lambda>pkt.
     bindE (append_u16 (plmn_id (mme_ids_of m)) pkt) (\<lambda>pkt.
     bindE (append_u64 1 pkt) (\<lambda>pkt.
     bindE (append_u16 nw_type pkt) (\<lambda>pkt.
     bindE (prepend_diameter_hdr 1 (len16 pkt) pkt) (\<lambda>pkt.
     bindE (prepend_len pkt) (\<lambda>pkt.
     bindE (copy_pkt pkt) (\<lambda>arg.
     handle_hss_connect M U cur_fd arg msui (s\<lparr>rpkt := pkt, mme_tabs := m, v_guti := guti\<rparr>)))))))))))))"

text \<open>Type 2, the authentication response. A wrong response ends the program.\<close>

definition mme3_autn :: "'w mtcp \<Rightarrow> ext_lib \<Rightarrow> mme_mdata \<Rightarrow> int \<Rightarrow> 'w mme3 \<Rightarrow> 'w mme3 res" where
  "mme3_autn M X U cur_fd s =
     (let guti = mme_get_guti (rpkt s) (mme_tabs s) in
      if guti = 0 then Inl (Exit ''Error: guti 0'')
      else
        bindE (extract_u64 (rpkt s)) (\<lambda>(res, pkt).
        if res \<noteq> xres_m (ue_at guti (mme_tabs s)) then Inl (Exit ''Failed to authenticate'')
        else
          let m = set_crypt_context guti (mme_tabs s); c = ue_at guti m in
          bindE (append_u64 (ksi_asme_m c) (clear_pkt pkt)) (\<lambda>pkt.
          bindE (append_u16 (nw_capability_m c) pkt) (\<lambda>pkt.
          bindE (append_u64 (nas_enc_algo_m c) pkt) (\<lambda>pkt.
          bindE (append_u64 (nas_int_algo_m c) pkt) (\<lambda>pkt.
          bindE (add_hmac X (k_nas_int_m c) pkt) (\<lambda>pkt.
          bindE (prepend_s1ap_hdr 2 (len16 pkt) (enodeb_s1ap_ue_id (s1ap_hdr pkt))
            (mme_s1ap_ue_id (s1ap_hdr pkt)) pkt) (\<lambda>pkt.
          bindE (prepend_len pkt) (\<lambda>pkt.
          bindE (copy_pkt pkt) (\<lambda>arg.
          send_ran_attach_two M U cur_fd arg
            (s\<lparr>rpkt := pkt, mme_tabs := m, v_guti := guti, v_k_nas_enc := k_nas_enc_m c,
               v_k_nas_int := k_nas_int_m c\<rparr>)))))))))))"

text \<open>The lookup of types 3, 4 and 5: an unknown id ends the program.\<close>

definition known_guti :: "packet \<Rightarrow> mme \<Rightarrow> u64 res" where
  "known_guti pkt m =
     (case s1mme_id m (mme_s1ap_ue_id (s1ap_hdr pkt)) of
        None \<Rightarrow> Inl (Exit ''Error finding s1apid'')
      | Some guti \<Rightarrow> Inr guti)"

text \<open>
  Type 3, the third attach message: security mode complete, then a create session. The result is
  extracted as a \<open>uint64_t\<close> although the RAN sends a \<open>bool\<close>.
\<close>

definition mme3_security_mode_complete ::
  "'w mtcp \<Rightarrow> ext_lib \<Rightarrow> mme_mdata \<Rightarrow> int \<Rightarrow> 'w mme3 \<Rightarrow> 'w mme3 res" where
  "mme3_security_mode_complete M X U cur_fd s =
     bindE (known_guti (rpkt s) (mme_tabs s)) (\<lambda>guti.
     let msui = mme_s1ap_ue_id (s1ap_hdr (rpkt s)); c = ue_at guti (mme_tabs s) in
     bindE (open_or_exit X ''mme_handlesecuritymodecomplete'' (k_nas_enc_m c) (k_nas_int_m c) (rpkt s)) (\<lambda>pkt.
     bindE (extract_u64 pkt) (\<lambda>(res, pkt).
     if res = 0 then Inl (Exit ''security mode complete failure'')
     else
       let m = upd_ue guti (\<lambda>c. c\<lparr>pgw_s5_port_m := v3_g_pgw_s5_port, pgw_s5_ip_addr_m := v3_g_pgw_s5_ip_addr\<rparr>)
                 (mme_tabs s) in
       bindE (gettid guti) (\<lambda>s11_cteid_mme.
       let m = upd_ue guti (\<lambda>c. c\<lparr>s11_cteid_mme_m := s11_cteid_mme, eps_bearer_id_m := 5, apn_in_use_m := 0\<rparr>) m;
           c = ue_at guti m in
       bindE (append_u32 s11_cteid_mme (clear_pkt pkt)) (\<lambda>pkt.
       bindE (append_u64 (imsi_m c) pkt) (\<lambda>pkt.
       bindE (append_u8 (eps_bearer_id_m c) pkt) (\<lambda>pkt.
       bindE (append_string (pgw_s5_ip_addr_m c) pkt) (\<lambda>pkt.
       bindE (append_int (pgw_s5_port_m c) pkt) (\<lambda>pkt.
       bindE (append_u64 (apn_in_use_m c) pkt) (\<lambda>pkt.
       bindE (append_u64 (tai_m c) pkt) (\<lambda>pkt.
       bindE (prepend_gtp_hdr 2 1 (len16 pkt) 0 pkt) (\<lambda>pkt.
       bindE (prepend_len pkt) (\<lambda>pkt.
       bindE (copy_pkt pkt) (\<lambda>arg.
       handle_sgw_connect M U cur_fd arg msui
         (s\<lparr>rpkt := pkt, mme_tabs := m, v_guti := guti, v_eps_bearer_id := eps_bearer_id_m c,
            v_k_nas_enc := k_nas_enc_m c, v_k_nas_int := k_nas_int_m c\<rparr>)))))))))))))))"

text \<open>Type 4, the fourth attach message: attach complete, then a modify bearer.\<close>

definition mme3_attach_complete ::
  "'w mtcp \<Rightarrow> ext_lib \<Rightarrow> int \<Rightarrow> mme_mdata \<Rightarrow> 'w mme3 \<Rightarrow> 'w mme3 res" where
  "mme3_attach_complete M X cur_fd fddata s =
     bindE (known_guti (rpkt s) (mme_tabs s)) (\<lambda>guti.
     let msui = mme_s1ap_ue_id (s1ap_hdr (rpkt s)); c = ue_at guti (mme_tabs s) in
     bindE (open_or_exit X ''mme_handlesecuritymodecomplete'' (k_nas_enc_m c) (k_nas_int_m c) (rpkt s)) (\<lambda>pkt.
     bindE (extract_u8 pkt) (\<lambda>(eps_bearer_id, pkt).
     bindE (extract_u32 pkt) (\<lambda>(s1_uteid_dl, pkt).
     let m = upd_ue guti (\<lambda>c. c\<lparr>s1_uteid_dl_m := s1_uteid_dl, emm_state_m := 1\<rparr>) (mme_tabs s);
         c = ue_at guti m in
     bindE (append_u8 (eps_bearer_id_m c) (clear_pkt pkt)) (\<lambda>pkt.
     bindE (append_u32 (s1_uteid_dl_m c) pkt) (\<lambda>pkt.
     bindE (append_string v3_g_trafmon_ip_addr pkt) (\<lambda>pkt.
     bindE (append_int v3_g_trafmon_port pkt) (\<lambda>pkt.
     bindE (prepend_gtp_hdr 2 2 (len16 pkt) (s11_cteid_sgw_m c) pkt) (\<lambda>pkt.
     bindE (prepend_len pkt) (\<lambda>pkt.
     bindE (copy_pkt pkt) (\<lambda>arg.
     send_sgw_afour M cur_fd (fddata\<lparr>md_msui := msui\<rparr>) arg
       (s\<lparr>rpkt := pkt, mme_tabs := m, v_guti := guti, v_eps_bearer_id := eps_bearer_id_m c,
          v_k_nas_enc := k_nas_enc_m c, v_k_nas_int := k_nas_int_m c\<rparr>))))))))))))"

text \<open>Type 5, detach. The variable \<open>guti\<close> ends with the GUTI that the message carries.\<close>

definition mme3_detach :: "'w mtcp \<Rightarrow> ext_lib \<Rightarrow> int \<Rightarrow> mme_mdata \<Rightarrow> 'w mme3 \<Rightarrow> 'w mme3 res" where
  "mme3_detach M X cur_fd fddata s =
     bindE (known_guti (rpkt s) (mme_tabs s)) (\<lambda>guti.
     let msui = mme_s1ap_ue_id (s1ap_hdr (rpkt s)); c = ue_at guti (mme_tabs s);
         m = touch_ue guti (mme_tabs s) in
     bindE (open_or_exit X ''mme_handlesecuritymodecomplete'' (k_nas_enc_m c) (k_nas_int_m c) (rpkt s)) (\<lambda>pkt.
     bindE (extract_u64 pkt) (\<lambda>(guti, pkt).
     bindE (extract_u64 pkt) (\<lambda>(ksi_asme, pkt).
     bindE (extract_u64 pkt) (\<lambda>(detach_type, pkt).
     bindE (append_u8 (eps_bearer_id_m c) (clear_pkt pkt)) (\<lambda>pkt.
     bindE (append_u64 (tai_m c) pkt) (\<lambda>pkt.
     bindE (prepend_gtp_hdr 2 3 (len16 pkt) (s11_cteid_sgw_m c) pkt) (\<lambda>pkt.
     bindE (prepend_len pkt) (\<lambda>pkt.
     bindE (copy_pkt pkt) (\<lambda>arg.
     send_sgw_detach M cur_fd (fddata\<lparr>md_msui := msui\<rparr>) arg
       (s\<lparr>rpkt := pkt, mme_tabs := m, v_guti := guti, v_eps_bearer_id := eps_bearer_id_m c,
          v_k_nas_enc := k_nas_enc_m c, v_k_nas_int := k_nas_int_m c\<rparr>)))))))))))"

definition mme3_request ::
  "'w mtcp \<Rightarrow> ext_lib \<Rightarrow> mme_mdata \<Rightarrow> int \<Rightarrow> mme_mdata \<Rightarrow> 'w mme3 \<Rightarrow> 'w mme3 res" where
  "mme3_request M X U cur_fd fddata s =
     bindE (recv_pkt M True cur_fd ''Error ran epoll read delete from epoll'' ''ERROR: read packet from ran'' s) (\<lambda>s.
     bindE (extract_s1ap_hdr (rpkt s)) (\<lambda>pkt.
     let s = s\<lparr>rpkt := pkt\<rparr>; msg_type = msg_type_s (s1ap_hdr pkt) in
     if mme_s1ap_ue_id (s1ap_hdr pkt) = 0 then mme3_initial_attach M U cur_fd s
     else if msg_type = 2 then mme3_autn M X U cur_fd s
     else if msg_type = 3 then mme3_security_mode_complete M X U cur_fd s
     else if msg_type = 4 then mme3_attach_complete M X cur_fd fddata s
     else if msg_type = 5 then mme3_detach M X cur_fd fddata s
     else Inl (Exit ''Wrong packet header'')))"

subsection \<open>Answers of the HSS and of the SGW: cases 2 to 7\<close>

definition mme3_hss_connected :: "'w mtcp \<Rightarrow> event \<Rightarrow> mme_mdata \<Rightarrow> 'w mme3 \<Rightarrow> 'w mme3 res" where
  "mme3_hss_connected M ev fddata s =
     (if ev_out ev then send_request_hss M (ev_fd ev) fddata s
      else Inl (Exit ''Error: Case 2 hss connect Wrong Event''))"

text \<open>The variable \<open>guti\<close> after the lookup of cases 3, 6 and 7: unchanged for an unknown id.\<close>

definition guti_or_old :: "u32 \<Rightarrow> 'w mme3 \<Rightarrow> u64" where
  "guti_or_old msui s = (case s1mme_id (mme_tabs s) msui of None \<Rightarrow> v_guti s | Some guti \<Rightarrow> guti)"

definition mme3_hss_reply :: "'w mtcp \<Rightarrow> int \<Rightarrow> mme_mdata \<Rightarrow> 'w mme3 \<Rightarrow> 'w mme3 res" where
  "mme3_hss_reply M cur_fd fddata s =
     bindE (recv_pkt M False cur_fd ''Error hss epoll read delete from epoll'' ''Error: hss read packet'' s) (\<lambda>s.
     let s = close_fd M cur_fd s in
     bindE (extract_diameter_hdr (rpkt s)) (\<lambda>pkt.
     bindE (extract_u64 pkt) (\<lambda>(autn_num, pkt).
     bindE (extract_u64 pkt) (\<lambda>(rand_num, pkt).
     bindE (extract_u64 pkt) (\<lambda>(xres, pkt).
     bindE (extract_u64 pkt) (\<lambda>(k_asme, pkt).
     let msui = md_msui fddata; guti = guti_or_old msui s;
         m = upd_ue guti (\<lambda>c. c\<lparr>xres_m := xres, k_asme_m := k_asme, ksi_asme_m := 1\<rparr>) (mme_tabs s);
         c = ue_at guti m in
     bindE (append_u64 autn_num (clear_pkt pkt)) (\<lambda>pkt.
     bindE (append_u64 rand_num pkt) (\<lambda>pkt.
     bindE (append_u64 (ksi_asme_m c) pkt) (\<lambda>pkt.
     bindE (prepend_s1ap_hdr 1 (len16 pkt) (enodeb_s1ap_ue_id_m c) msui pkt) (\<lambda>pkt.
     bindE (prepend_len pkt) (\<lambda>pkt.
     bindE (copy_pkt pkt) (\<lambda>arg.
     send_ran_attach_one M (initial_fd fddata) arg
       (fd_erase cur_fd (s\<lparr>rpkt := pkt, mme_tabs := m, v_guti := guti\<rparr>))))))))))))))"

definition mme3_sgw_connected :: "'w mtcp \<Rightarrow> event \<Rightarrow> mme_mdata \<Rightarrow> 'w mme3 \<Rightarrow> 'w mme3 res" where
  "mme3_sgw_connected M ev fddata s =
     (if ev_out ev then send_request_sgw_athree M (ev_fd ev) fddata s
      else Inl (Exit ''Error: Case 4 sgw connect Wrong Event''))"

text \<open>
  The attach accept. The S1AP header of the answer takes its two ids from \<open>pkt.s1ap_hdr\<close>, which the
  message of the SGW does not set.
\<close>

definition mme3_create_reply :: "'w mtcp \<Rightarrow> ext_lib \<Rightarrow> int \<Rightarrow> mme_mdata \<Rightarrow> 'w mme3 \<Rightarrow> 'w mme3 res" where
  "mme3_create_reply M X cur_fd fddata s =
     bindE (recv_pkt M False cur_fd ''Error sgw epoll read delete from epoll'' ''Error: sgw read packet'' s) (\<lambda>s.
     let ran_fd = initial_fd fddata; msui = md_msui fddata in
     case s1mme_id (mme_tabs s) msui of
       None \<Rightarrow> Inl (Exit ''Error A3 response'')
     | Some guti \<Rightarrow>
       bindE (extract_gtp_hdr (rpkt s)) (\<lambda>pkt.
       bindE (extract_u32 pkt) (\<lambda>(s11_cteid_sgw, pkt).
       bindE (extract_string pkt) (\<lambda>(ue_ip_addr, pkt).
       bindE (extract_u32 pkt) (\<lambda>(s1_uteid_ul, pkt).
       bindE (extract_u32 pkt) (\<lambda>(s5_uteid_ul, pkt).
       bindE (extract_u32 pkt) (\<lambda>(s5_uteid_dl, pkt).
       bindE (gettid guti) (\<lambda>tid.
       if tid \<noteq> s11_cteid_sgw then Inl (Exit ''GUTI not equal A3response'')
       else
         let m = upd_ue guti (\<lambda>c. c\<lparr>ip_addr_m := ue_ip_addr, s11_cteid_sgw_m := s11_cteid_sgw,
                   s1_uteid_ul_m := s1_uteid_ul, s5_uteid_ul_m := s5_uteid_ul, s5_uteid_dl_m := s5_uteid_dl,
                   tai_list_m := [tai_m c], tau_timer_m := v3_g_timer, e_rab_id_m := eps_bearer_id_m c,
                   k_enodeb_m := k_asme_m c\<rparr>) (mme_tabs s);
             c = ue_at guti m in
         bindE (append_u64 guti (clear_pkt pkt)) (\<lambda>pkt.
         bindE (append_u8 (v_eps_bearer_id s) pkt) (\<lambda>pkt.
         bindE (append_u8 (e_rab_id_m c) pkt) (\<lambda>pkt.
         bindE (append_u32 s1_uteid_ul pkt) (\<lambda>pkt.
         bindE (append_u64 (k_enodeb_m c) pkt) (\<lambda>pkt.
         bindE (append_u16 (nw_capability_m c) pkt) (\<lambda>pkt.
         bindE (append_int 1 pkt) (\<lambda>pkt.
         bindE (append_u64s (tai_list_m c) pkt) (\<lambda>pkt.
         bindE (append_u64 (tau_timer_m c) pkt) (\<lambda>pkt.
         bindE (append_string ue_ip_addr pkt) (\<lambda>pkt.
         bindE (append_string v3_g_sgw_s1_ip_addr pkt) (\<lambda>pkt.
         bindE (append_int v3_g_sgw_s1_port pkt) (\<lambda>pkt.
         bindE (append_bool True pkt) (\<lambda>pkt.
         bindE (crypt_enc X (k_nas_enc_m c) pkt) (\<lambda>pkt.
         bindE (add_hmac X (k_nas_int_m c) pkt) (\<lambda>pkt.
         bindE (prepend_s1ap_hdr 3 (len16 pkt) (enodeb_s1ap_ue_id (s1ap_hdr pkt))
           (mme_s1ap_ue_id (s1ap_hdr pkt)) pkt) (\<lambda>pkt.
         bindE (prepend_len pkt) (\<lambda>pkt.
         bindE (write_pkt M ran_fd pkt ''Error: Cant send to RAN'' (s\<lparr>rpkt := pkt, mme_tabs := m, v_guti := guti,
           v_k_nas_enc := k_nas_enc_m c, v_k_nas_int := k_nas_int_m c\<rparr>)) (\<lambda>s.
         bindE (ctl_or_exit M minus1 (Ctl_add EPOLLIN) ran_fd ''Error: ran add mtcp error'' (fd_erase cur_fd s)) (\<lambda>s.
         Inr (fd_insert ran_fd
           (fddata\<lparr>act := 1, initial_fd := cur_fd, mbuf := zero_buf, md_msui := 0, buflen := 0\<rparr>) s))))))))))))))))))))))))))))"

text \<open>The answer to the modify bearer; its \<open>bool\<close> is extracted as a \<open>uint64_t\<close>.\<close>

definition mme3_modify_reply :: "'w mtcp \<Rightarrow> ext_lib \<Rightarrow> int \<Rightarrow> mme_mdata \<Rightarrow> 'w mme3 \<Rightarrow> 'w mme3 res" where
  "mme3_modify_reply M X cur_fd fddata s =
     bindE (recv_pkt M False cur_fd ''Error sgw epoll read delete from epoll'' ''Error: sgw read packet'' s) (\<lambda>s.
     let ran_fd = initial_fd fddata; guti = guti_or_old (md_msui fddata) s in
     bindE (extract_gtp_hdr (rpkt s)) (\<lambda>pkt.
     bindE (extract_u64 pkt) (\<lambda>(res, pkt).
     if res = 0 then Inl (Exit ''modify bearer failure'')
     else
       let m = upd_ue guti (\<lambda>c. c\<lparr>ecm_state_m := 1\<rparr>) (mme_tabs s); c = ue_at guti m in
       bindE (append_bool True (clear_pkt pkt)) (\<lambda>pkt.
       bindE (append_u64 guti pkt) (\<lambda>pkt.
       bindE (append_u16 (nw_capability_m c) pkt) (\<lambda>pkt.
       bindE (crypt_enc X (k_nas_enc_m c) pkt) (\<lambda>pkt.
       bindE (add_hmac X (k_nas_int_m c) pkt) (\<lambda>pkt.
       bindE (prepend_s1ap_hdr 4 (len16 pkt) (enodeb_s1ap_ue_id (s1ap_hdr pkt))
         (mme_s1ap_ue_id (s1ap_hdr pkt)) pkt) (\<lambda>pkt.
       bindE (prepend_len pkt) (\<lambda>pkt.
       bindE (write_pkt M ran_fd pkt ''Error: Cant send to RAN'' (s\<lparr>rpkt := pkt, mme_tabs := m, v_guti := guti,
         v_k_nas_enc := k_nas_enc_m c, v_k_nas_int := k_nas_int_m c\<rparr>)) (\<lambda>s.
       bindE (ctl_or_exit M minus1 (Ctl_add EPOLLIN) ran_fd ''Error: ran add mtcp error'' s) (\<lambda>s.
       Inr (fd_insert ran_fd
         (fddata\<lparr>act := 1, initial_fd := cur_fd, mbuf := zero_buf, md_msui := 0, buflen := 0\<rparr>)
         (fd_erase cur_fd s))))))))))))))"

text \<open>
  The answer to the detach. Whatever the SGW answers, the RAN is told that the detach succeeded; on a
  negative answer the keys are the ones that the last event left.
\<close>

definition mme3_detach_reply :: "'w mtcp \<Rightarrow> ext_lib \<Rightarrow> int \<Rightarrow> mme_mdata \<Rightarrow> 'w mme3 \<Rightarrow> 'w mme3 res" where
  "mme3_detach_reply M X cur_fd fddata s =
     bindE (recv_pkt M False cur_fd ''Error sgw epoll read delete from epoll'' ''Error: sgw detach read packet'' s) (\<lambda>s.
     let ran_fd = initial_fd fddata; msui = md_msui fddata; guti = guti_or_old msui s in
     bindE (extract_gtp_hdr (rpkt s)) (\<lambda>pkt.
     bindE (extract_u64 pkt) (\<lambda>(res, pkt).
     let c = ue_at guti (mme_tabs s);
         m = (if res = 0 then mme_tabs s else touch_ue guti (mme_tabs s));
         ke = (if res = 0 then v_k_nas_enc s else k_nas_enc_m c);
         ki = (if res = 0 then v_k_nas_int s else k_nas_int_m c) in
     bindE (append_bool True (clear_pkt pkt)) (\<lambda>pkt.
     bindE (crypt_enc X ke pkt) (\<lambda>pkt.
     bindE (add_hmac X ki pkt) (\<lambda>pkt.
     bindE (prepend_s1ap_hdr 5 (len16 pkt) (enodeb_s1ap_ue_id (s1ap_hdr pkt))
       (mme_s1ap_ue_id (s1ap_hdr pkt)) pkt) (\<lambda>pkt.
     bindE (prepend_len pkt) (\<lambda>pkt.
     bindE (write_pkt M ran_fd pkt ''Error: Cant send to RAN''
       (s\<lparr>rpkt := pkt, v_guti := guti, v_k_nas_enc := ke, v_k_nas_int := ki\<rparr>)) (\<lambda>s.
     let s = close_fd M cur_fd s;
         m = rem_uectx_m guti (rem_itfid_m msui m);
         s = fd_erase ran_fd (fd_erase cur_fd (s\<lparr>mme_tabs := m\<rparr>)) in
     bindE (ctl_or_exit M minus1 Ctl_del ran_fd ''Error: ran delete mtcp error'' s) (\<lambda>s.
     Inr (close_fd M ran_fd s)))))))))))"

subsection \<open>The event loop\<close>

definition mme3_handle ::
  "'w mtcp \<Rightarrow> ext_lib \<Rightarrow> mme_mdata \<Rightarrow> event \<Rightarrow> mme_mdata \<Rightarrow> 'w mme3 \<Rightarrow> 'w mme3 res" where
  "mme3_handle M X U ev fddata s =
     (if act fddata = 1 then mme3_request M X U (ev_fd ev) fddata s
      else if act fddata = 2 then mme3_hss_connected M ev fddata s
      else if act fddata = 3 then mme3_hss_reply M (ev_fd ev) fddata s
      else if act fddata = 4 then mme3_sgw_connected M ev fddata s
      else if act fddata = 5 then mme3_create_reply M X (ev_fd ev) fddata s
      else if act fddata = 6 then mme3_modify_reply M X (ev_fd ev) fddata s
      else if act fddata = 7 then mme3_detach_reply M X (ev_fd ev) fddata s
      else Inr s)"

definition mme3_event :: "'w mtcp \<Rightarrow> ext_lib \<Rightarrow> mme_mdata \<Rightarrow> int \<Rightarrow> event \<Rightarrow> 'w mme3 \<Rightarrow> 'w mme3 res" where
  "mme3_event M X U lfd = on_event M lfd (handle_ran_accept M lfd) zero_mme_mdata (mme3_handle M X U)"

definition mme3_run :: "'w mtcp \<Rightarrow> ext_lib \<Rightarrow> mme_mdata \<Rightarrow> int \<Rightarrow> batch list \<Rightarrow> 'w mme3 \<Rightarrow> 'w mme3 res" where
  "mme3_run M X U lfd = main_loop (mme3_event M X U lfd)"

definition mme3_main ::
  "'w mtcp \<Rightarrow> ext_lib \<Rightarrow> mme_mdata \<Rightarrow> batch list \<Rightarrow> 'w \<Rightarrow> u8 list \<Rightarrow> packet \<Rightarrow> u64 \<Rightarrow> u8 \<Rightarrow> u64 \<Rightarrow> u64 \<Rightarrow>
   'w mme3 res" where
  "mme3_main M X U bs w d p g e ke ki =
     bindE new_mme_ids (\<lambda>ids.
     bindE (listen_on M mme_ip3 mme_my_port w) (\<lambda>(lfd, w).
     mme3_run M X U lfd bs (new_mme3 ids w d p g e ke ki)))"

subsection \<open>Invariant\<close>

text \<open>
  In every state of the loop: entries of \<open>fdmap\<close> are well-formed with a state between 0 and 7, and
  in every context the EMM and ECM states are 0 or 1, the counters of the key derivation have their
  initial values, and the integrity key and its algorithm are 0: nothing ever derives them.
\<close>

definition mme_ue_ok :: "mme_ue \<Rightarrow> bool" where
  "mme_ue_ok c \<longleftrightarrow>
     emm_state_m c \<in> {0, 1} \<and> ecm_state_m c \<in> {0, 1} \<and> nas_enc_algo_m c \<in> {0, 1} \<and>
     count_m c = 1 \<and> bearer_m c = 0 \<and> dir_m c = 1 \<and> nas_int_algo_m c = 0 \<and> k_nas_int_m c = 0"

definition mme_tabs_ok :: "mme \<Rightarrow> bool" where
  "mme_tabs_ok m \<longleftrightarrow> (\<forall>guti c. ue_ctx_m m guti = Some c \<longrightarrow> mme_ue_ok c)"

definition mme3_inv :: "'w mme3 \<Rightarrow> bool" where
  "mme3_inv s \<longleftrightarrow> loop_ok (mdata_ok {0 .. 7}) s \<and> mme_tabs_ok (mme_tabs s)"

lemma mme3_frame [simp, loop_inv_simps]:
  "loop_ok ok (s\<lparr>mme_tabs := t\<rparr>) = loop_ok ok s" "loop_ok ok (s\<lparr>v_guti := g\<rparr>) = loop_ok ok s"
  "loop_ok ok (s\<lparr>v_eps_bearer_id := e\<rparr>) = loop_ok ok s" "loop_ok ok (s\<lparr>v_k_nas_enc := k\<rparr>) = loop_ok ok s"
  "loop_ok ok (s\<lparr>v_k_nas_int := k\<rparr>) = loop_ok ok s"
  "mme_tabs (fd_erase fd s) = mme_tabs s" "mme_tabs (fd_insert fd m s) = mme_tabs s"
  "mme_tabs (close_fd M fd s) = mme_tabs s" "loop_ok ok (close_fd M fd s) = loop_ok ok s"
  by (simp_all add: loop_ok_def fd_erase_def fd_insert_def close_fd_def split: option.splits)

lemma mme_ue_ok_upd [simp]:
  "mme_ue_ok (c\<lparr>ip_addr_m := x1\<rparr>) = mme_ue_ok c" "mme_ue_ok (c\<lparr>s11_cteid_sgw_m := x2\<rparr>) = mme_ue_ok c"
  "mme_ue_ok (c\<lparr>s11_cteid_mme_m := x3\<rparr>) = mme_ue_ok c" "mme_ue_ok (c\<lparr>s1_uteid_ul_m := x4\<rparr>) = mme_ue_ok c"
  "mme_ue_ok (c\<lparr>s1_uteid_dl_m := x5\<rparr>) = mme_ue_ok c" "mme_ue_ok (c\<lparr>s5_uteid_ul_m := x6\<rparr>) = mme_ue_ok c"
  "mme_ue_ok (c\<lparr>s5_uteid_dl_m := x7\<rparr>) = mme_ue_ok c" "mme_ue_ok (c\<lparr>tai_list_m := x8\<rparr>) = mme_ue_ok c"
  "mme_ue_ok (c\<lparr>tau_timer_m := x9\<rparr>) = mme_ue_ok c" "mme_ue_ok (c\<lparr>e_rab_id_m := x10\<rparr>) = mme_ue_ok c"
  "mme_ue_ok (c\<lparr>k_enodeb_m := x11\<rparr>) = mme_ue_ok c" "mme_ue_ok (c\<lparr>xres_m := x12\<rparr>) = mme_ue_ok c"
  "mme_ue_ok (c\<lparr>k_asme_m := x13\<rparr>) = mme_ue_ok c" "mme_ue_ok (c\<lparr>ksi_asme_m := x14\<rparr>) = mme_ue_ok c"
  "mme_ue_ok (c\<lparr>pgw_s5_port_m := x15\<rparr>) = mme_ue_ok c" "mme_ue_ok (c\<lparr>pgw_s5_ip_addr_m := x16\<rparr>) = mme_ue_ok c"
  "mme_ue_ok (c\<lparr>eps_bearer_id_m := x17\<rparr>) = mme_ue_ok c" "mme_ue_ok (c\<lparr>apn_in_use_m := x18\<rparr>) = mme_ue_ok c"
  "mme_ue_ok (c\<lparr>imsi_m := x19\<rparr>) = mme_ue_ok c" "mme_ue_ok (c\<lparr>enodeb_s1ap_ue_id_m := x20\<rparr>) = mme_ue_ok c"
  "mme_ue_ok (c\<lparr>mme_s1ap_ue_id_m := x21\<rparr>) = mme_ue_ok c" "mme_ue_ok (c\<lparr>tai_m := x22\<rparr>) = mme_ue_ok c"
  "mme_ue_ok (c\<lparr>nw_capability_m := x23\<rparr>) = mme_ue_ok c"
  "mme_ue_ok c \<Longrightarrow> mme_ue_ok (c\<lparr>emm_state_m := 1\<rparr>)" "mme_ue_ok c \<Longrightarrow> mme_ue_ok (c\<lparr>ecm_state_m := 1\<rparr>)"
  by (simp_all add: mme_ue_ok_def)

lemma mme_tabs_ok_upd:
  "mme_tabs_ok m \<Longrightarrow> (\<And>c. mme_ue_ok c \<Longrightarrow> mme_ue_ok (f c)) \<Longrightarrow> mme_tabs_ok (upd_ue guti f m)"
  by (auto simp: mme_tabs_ok_def upd_ue_def modify_at_def at_or_def new_mme_ue_def mme_ue_ok_def split: option.splits if_splits)

lemma mme_tabs_ok_simps:
  "mme_tabs_ok m \<Longrightarrow> mme_tabs_ok (touch_ue guti m)"
  "mme_tabs_ok m \<Longrightarrow> mme_tabs_ok (rem_uectx_m guti (rem_itfid_m i m))"
  "mme_tabs_ok m \<Longrightarrow> mme_tabs_ok (m\<lparr>ue_count := n, s1mme_id := t\<rparr>)"
  "mme_tabs_ok m \<Longrightarrow> mme_tabs_ok (set_crypt_context guti m)"
  by (auto simp: touch_ue_def op_idx_def at_or_def mme_tabs_ok_def new_mme_ue_def mme_ue_ok_def
      rem_uectx_m_def rem_itfid_m_def set_crypt_context_def upd_ue_def modify_at_def
      split: option.splits if_splits)

lemmas mme3_inv_simps = mme3_inv_def loop_inv_simps mme_tabs_ok_upd mme_tabs_ok_simps mdata_ok_def zero_buf_def

lemma mme3_connect_inv:
  "mme3_inv s \<Longrightarrow> length (mbuf U) = 500 \<Longrightarrow> handle_hss_connect M U fd pkt i s = Inr s' \<Longrightarrow> mme3_inv s'"
  "mme3_inv s \<Longrightarrow> length (mbuf U) = 500 \<Longrightarrow> handle_sgw_connect M U fd pkt i s = Inr s' \<Longrightarrow> mme3_inv s'"
  unfolding handle_hss_connect_def handle_sgw_connect_def Let_def
  by (auto elim!: bindE_InrE loop_elims
      simp: mme3_inv_simps pkt_wire_def buf_read_def buf_write_def split: if_splits)

lemma mme3_send_inv:
  "mme3_inv s \<Longrightarrow> send_ran_attach_one M fd pkt s = Inr s' \<Longrightarrow> mme3_inv s'"
  "mme3_inv s \<Longrightarrow> send_ran_attach_two M U fd pkt s = Inr s' \<Longrightarrow> mme3_inv s'"
  "mme3_inv s \<Longrightarrow> send_sgw_afour M fd fddata pkt s = Inr s' \<Longrightarrow> mme3_inv s'"
  "mme3_inv s \<Longrightarrow> send_sgw_detach M fd fddata pkt s = Inr s' \<Longrightarrow> mme3_inv s'"
  "mme3_inv s \<Longrightarrow> send_request_hss M fd fddata s = Inr s' \<Longrightarrow> mme3_inv s'"
  "mme3_inv s \<Longrightarrow> send_request_sgw_athree M fd fddata s = Inr s' \<Longrightarrow> mme3_inv s'"
  unfolding send_ran_attach_one_def send_ran_attach_two_def send_sgw_afour_def send_sgw_detach_def
    send_request_hss_def send_request_sgw_athree_def Let_def
  by (auto elim!: bindE_InrE loop_elims simp: mme3_inv_simps)

lemma mme3_inv_upd:
  "mme3_inv s \<Longrightarrow> mme_tabs_ok m \<Longrightarrow> mme3_inv (s\<lparr>rpkt := p, mme_tabs := m, v_guti := g\<rparr>)"
  "mme3_inv s \<Longrightarrow> mme_tabs_ok m \<Longrightarrow>
   mme3_inv (s\<lparr>rpkt := p, mme_tabs := m, v_guti := g, v_k_nas_enc := ke, v_k_nas_int := ki\<rparr>)"
  "mme3_inv s \<Longrightarrow> mme_tabs_ok m \<Longrightarrow>
   mme3_inv (s\<lparr>rpkt := p, mme_tabs := m, v_guti := g, v_eps_bearer_id := e, v_k_nas_enc := ke, v_k_nas_int := ki\<rparr>)"
  by (simp_all add: mme3_inv_def loop_inv_simps)

lemma mme3_inv_tabs: "mme3_inv s \<Longrightarrow> mme_tabs_ok (mme_tabs s)"
  by (simp add: mme3_inv_def)

text \<open>Each branch of case 1 ends in a helper called on an updated state.\<close>

lemma mme3_initial_attach_inv:
  assumes "mme3_inv s" and "length (mbuf U) = 500" and "mme3_initial_attach M U fd s = Inr s'"
  shows "mme3_inv s'"
proof -
  obtain p m g q i where run: "handle_hss_connect M U fd q i (s\<lparr>rpkt := p, mme_tabs := m, v_guti := g\<rparr>) = Inr s'"
      and "mme_tabs_ok m"
    using assms(3) mme3_inv_tabs [OF assms(1)] unfolding mme3_initial_attach_def Let_def
    by (auto elim!: bindE_InrE simp: mme_ue_init_def mme_tabs_ok_upd mme_tabs_ok_simps split: prod.splits)
  then show ?thesis
    using assms by (intro mme3_connect_inv(1) [OF _ _ run] mme3_inv_upd) simp_all
qed

lemma mme3_autn_inv:
  assumes "mme3_inv s" and "mme3_autn M X U fd s = Inr s'"
  shows "mme3_inv s'"
proof -
  obtain p m g ke ki q where run: "send_ran_attach_two M U fd q
      (s\<lparr>rpkt := p, mme_tabs := m, v_guti := g, v_k_nas_enc := ke, v_k_nas_int := ki\<rparr>) = Inr s'"
      and "mme_tabs_ok m"
    using assms(2) mme3_inv_tabs [OF assms(1)] unfolding mme3_autn_def Let_def
    by (auto elim!: bindE_InrE simp: mme_tabs_ok_simps split: prod.splits if_splits)
  then show ?thesis
    using assms by (intro mme3_send_inv(2) [OF _ run] mme3_inv_upd) simp_all
qed

lemma mme3_smc_inv:
  assumes "mme3_inv s" and "length (mbuf U) = 500" and "mme3_security_mode_complete M X U fd s = Inr s'"
  shows "mme3_inv s'"
proof -
  obtain p m g e ke ki q i where run: "handle_sgw_connect M U fd q i
      (s\<lparr>rpkt := p, mme_tabs := m, v_guti := g, v_eps_bearer_id := e, v_k_nas_enc := ke, v_k_nas_int := ki\<rparr>) = Inr s'"
      and "mme_tabs_ok m"
    using assms(3) mme3_inv_tabs [OF assms(1)] unfolding mme3_security_mode_complete_def Let_def
    by (auto elim!: bindE_InrE simp: mme_tabs_ok_upd split: prod.splits if_splits)
  then show ?thesis
    using assms by (intro mme3_connect_inv(2) [OF _ _ run] mme3_inv_upd) simp_all
qed

lemma mme3_complete_inv:
  assumes "mme3_inv s" and "mme3_attach_complete M X fd fddata s = Inr s'"
  shows "mme3_inv s'"
proof -
  obtain p m g e ke ki q d where run: "send_sgw_afour M fd d q
      (s\<lparr>rpkt := p, mme_tabs := m, v_guti := g, v_eps_bearer_id := e, v_k_nas_enc := ke, v_k_nas_int := ki\<rparr>) = Inr s'"
      and "mme_tabs_ok m"
    using assms(2) mme3_inv_tabs [OF assms(1)] unfolding mme3_attach_complete_def Let_def
    by (auto elim!: bindE_InrE simp: mme_tabs_ok_upd split: prod.splits)
  then show ?thesis
    using assms by (intro mme3_send_inv(3) [OF _ run] mme3_inv_upd) simp_all
qed

lemma mme3_detach_inv:
  assumes "mme3_inv s" and "mme3_detach M X fd fddata s = Inr s'"
  shows "mme3_inv s'"
proof -
  obtain p m g e ke ki q d where run: "send_sgw_detach M fd d q
      (s\<lparr>rpkt := p, mme_tabs := m, v_guti := g, v_eps_bearer_id := e, v_k_nas_enc := ke, v_k_nas_int := ki\<rparr>) = Inr s'"
      and "mme_tabs_ok m"
    using assms(2) mme3_inv_tabs [OF assms(1)] unfolding mme3_detach_def Let_def
    by (auto elim!: bindE_InrE simp: mme_tabs_ok_simps split: prod.splits)
  then show ?thesis
    using assms by (intro mme3_send_inv(4) [OF _ run] mme3_inv_upd) simp_all
qed

lemma mme3_inv_recv:
  "mme3_inv s \<Longrightarrow> length d = length (rbuf s) \<Longrightarrow> mme3_inv (s\<lparr>rbuf := d, world := w, rpkt := p\<rparr>)"
  by (simp add: mme3_inv_def loop_ok_def)

lemma mme3_request_inv:
  "mme3_inv s \<Longrightarrow> length (mbuf U) = 500 \<Longrightarrow> mme3_request M X U fd fddata s = Inr s' \<Longrightarrow> mme3_inv s'"
  unfolding mme3_request_def Let_def
  by (auto elim!: bindE_InrE recv_pktE split: if_splits
      intro: mme3_initial_attach_inv [OF mme3_inv_recv] mme3_autn_inv [OF mme3_inv_recv]
        mme3_smc_inv [OF mme3_inv_recv] mme3_complete_inv [OF mme3_inv_recv] mme3_detach_inv [OF mme3_inv_recv])

lemma mme3_connected_inv:
  "mme3_inv s \<Longrightarrow> mme3_hss_connected M ev fddata s = Inr s' \<Longrightarrow> mme3_inv s'"
  "mme3_inv s \<Longrightarrow> mme3_sgw_connected M ev fddata s = Inr s' \<Longrightarrow> mme3_inv s'"
  by (auto simp: mme3_hss_connected_def mme3_sgw_connected_def split: if_splits intro: mme3_send_inv)

lemma mme3_hss_reply_inv:
  assumes "mme3_inv s" and "mme3_hss_reply M fd fddata s = Inr s'"
  shows "mme3_inv s'"
proof -
  obtain s1 q where run: "send_ran_attach_one M (initial_fd fddata) q s1 = Inr s'" and "mme3_inv s1"
    using assms unfolding mme3_hss_reply_def Let_def
    by (auto elim!: bindE_InrE loop_elims simp: mme3_inv_simps split: prod.splits)
  then show ?thesis
    by (intro mme3_send_inv(1) [OF _ run])
qed

lemma mme3_reply_inv:
  "mme3_inv s \<Longrightarrow> mme3_create_reply M X fd fddata s = Inr s' \<Longrightarrow> mme3_inv s'"
  "mme3_inv s \<Longrightarrow> mme3_modify_reply M X fd fddata s = Inr s' \<Longrightarrow> mme3_inv s'"
  "mme3_inv s \<Longrightarrow> mme3_detach_reply M X fd fddata s = Inr s' \<Longrightarrow> mme3_inv s'"
  unfolding mme3_create_reply_def mme3_modify_reply_def mme3_detach_reply_def Let_def
  by (auto elim!: bindE_InrE loop_elims simp: mme3_inv_simps
      split: prod.splits option.splits if_splits)

text \<open>The loop of the MME keeps its invariant, whatever the stack answers and whatever arrives.\<close>

interpretation mme3: event_program M lfd "handle_ran_accept M lfd" zero_mme_mdata "mme3_handle M X U"
  "\<lambda>s. length (mbuf U) = 500 \<longrightarrow> mme3_inv s"
proof
  fix s s' :: "'a mme3" and w fd ev m
  show "length (mbuf U) = 500 \<longrightarrow> mme3_inv s \<Longrightarrow> length (mbuf U) = 500 \<longrightarrow> mme3_inv (s\<lparr>world := w\<rparr>)"
    by (simp add: mme3_inv_def loop_inv_simps)
  have "mme3_inv s \<Longrightarrow> handle_ran_accept M lfd s = Inr s' \<Longrightarrow> mme3_inv s'"
    unfolding handle_ran_accept_def
    by (erule accept_all_inv) (auto simp: mme3_inv_simps)
  then show "length (mbuf U) = 500 \<longrightarrow> mme3_inv s \<Longrightarrow> handle_ran_accept M lfd s = Inr s' \<Longrightarrow>
      length (mbuf U) = 500 \<longrightarrow> mme3_inv s'"
    by blast
  show "length (mbuf U) = 500 \<longrightarrow> mme3_inv s \<Longrightarrow>
      length (mbuf U) = 500 \<longrightarrow> mme3_inv (s\<lparr>fdmap := op_idx zero_mme_mdata (fdmap s) fd\<rparr>)"
    by (auto simp: mme3_inv_def mdata_ok_def zero_mme_mdata_def zero_buf_def intro: loop_inv_simps)
  show "length (mbuf U) = 500 \<longrightarrow> mme3_inv s \<Longrightarrow> fdmap s (ev_fd ev) = Some m \<Longrightarrow>
      mme3_handle M X U ev m s = Inr s' \<Longrightarrow> length (mbuf U) = 500 \<longrightarrow> mme3_inv s'"
    by (auto simp: mme3_handle_def split: if_splits
        intro: mme3_request_inv mme3_connected_inv mme3_hss_reply_inv mme3_reply_inv)
qed

lemma new_mme3_inv: "length d = 1024 \<Longrightarrow> mme3_inv (new_mme3 ids w d p g e ke ki)"
  by (simp add: mme3_inv_def new_mme3_def loop_ok_def mme_tabs_ok_def)

lemma mme3_run_inv:
  "length (mbuf U) = 500 \<Longrightarrow> mme3_inv s \<Longrightarrow> mme3_run M X U lfd bs s = Inr s' \<Longrightarrow> mme3_inv s'"
  unfolding mme3_run_def mme3_event_def using mme3.loop_inv [of U s M lfd X bs s'] by blast

end
