(* ===== verification/Epc3_Mme_Session.thy ===== *)
theory Epc3_Mme_Session
  imports Epc3_Mme Epc_Mme_Session
begin

section \<open>Attach and detach at the MME of version 3.0\<close>

text \<open>
  What each event of the MME does when the stack answers its calls: the calls, with the bytes that are
  written, and the tables it leaves. The messages are those of version 1.0 behind a length prefix,
  except for the values that version 3.0 fills in differently.
\<close>

lemma mme3_sels [simp]:
  "v_guti (fd_insert fd m s) = v_guti s" "v_guti (fd_erase fd s) = v_guti s" "v_guti (close_fd M fd s) = v_guti s"
  "v_eps_bearer_id (fd_insert fd m s) = v_eps_bearer_id s" "v_eps_bearer_id (fd_erase fd s) = v_eps_bearer_id s"
  by (simp_all add: fd_insert_def fd_erase_def close_fd_def split: option.splits)

lemma v3_addrs:
  "nul_free v3_g_pgw_s5_ip_addr" "length v3_g_pgw_s5_ip_addr = 13" "nul_free v3_g_sgw_s1_ip_addr"
  "length v3_g_sgw_s1_ip_addr = 13" "nul_free v3_g_trafmon_ip_addr" "length v3_g_trafmon_ip_addr = 13"
  by (simp_all add: config3_defs nul_free_def)

subsection \<open>Initial attach\<close>

definition mme3_registered :: "u64 \<Rightarrow> u64 \<Rightarrow> u32 \<Rightarrow> u64 \<Rightarrow> u16 \<Rightarrow> mme \<Rightarrow> mme" where
  "mme3_registered guti imsi enb tai cap m =
     (let mme_id = ucast (ue_count m + 1)
      in m\<lparr>ue_count := ue_count m + 1, s1mme_id := (s1mme_id m)(mme_id \<mapsto> guti),
           ue_ctx_m := modify_at new_mme_ue (ue_ctx_m m) guti (mme_ue_init imsi enb mme_id tai cap)\<rparr>)"

definition mme3_vector :: "u64 \<Rightarrow> u64 \<Rightarrow> u64 \<Rightarrow> mme \<Rightarrow> mme" where
  "mme3_vector guti xres k_asme = upd_ue guti (\<lambda>c. c\<lparr>xres_m := xres, k_asme_m := k_asme, ksi_asme_m := 1\<rparr>)"

lemma mme3_vector_registered:
  "mme3_vector guti xres k_asme (mme3_registered guti imsi enb tai cap m) =
   mme_challenged guti imsi enb tai cap xres k_asme m"
  by (simp add: mme3_vector_def mme3_registered_def mme_challenged_def upd_ue_def modify_at_def Let_def)

lemma mme3_registered_others:
  "i \<noteq> ucast (ue_count m + 1) \<Longrightarrow> s1mme_id (mme3_registered guti imsi enb tai cap m) i = s1mme_id m i"
  "g \<noteq> guti \<Longrightarrow> ue_ctx_m (mme3_registered guti imsi enb tai cap m) g = ue_ctx_m m g"
  by (simp_all add: mme3_registered_def Let_def modify_at_def)

definition autn_req3 :: "'w mme3 \<Rightarrow> u64 \<Rightarrow> u64 \<Rightarrow> u8 list" where
  "autn_req3 s guti imsi =
     autn_req_bytes (diameter_init 1 20 (diameter_hdr (rpkt s))) imsi (plmn_id (mme_ids_of (mme_tabs s))) 1
       (nw_type_m (ue_at guti (mme_tabs s)))"

lemma mme3_attach_event:
  assumes "mme_s1ap_ue_id h = 0" and "get_guti (gummei (mme_ids_of (mme_tabs s))) imsi = Inr guti"
    and "length (rbuf s) = 1024" and "length (mbuf U) = 500" and "((fdmap s)(fd := None)) hfd = None"
    and "plays M
      [Ctl Ctl_del fd, Read fd (frame (attach_req h imsi tai ksi cap)), Socket hfd, Nonblock hfd,
       Connect hfd hss_ip3 hss_my_port, Ctl (Ctl_add EPOLLOUT) hfd] (world s) = Some w"
  shows "\<exists>s'. mme3_request M X U fd m s = Inr s' \<and> world s' = w \<and> length (rbuf s') = 1024 \<and>
    s1ap_hdr (rpkt s') = h \<and> gtp_hdr (rpkt s') = gtp_hdr (rpkt s) \<and> v_eps_bearer_id s' = v_eps_bearer_id s \<and>
    fdmap s' = (fdmap s)(fd := None, hfd \<mapsto> stored (frame (autn_req3 s guti imsi))
      (U\<lparr>act := 2, initial_fd := fd, md_msui := ucast (ue_count (mme_tabs s) + 1)\<rparr>)) \<and>
    mme_tabs s' = mme3_registered guti imsi (enodeb_s1ap_ue_id h) tai cap (mme_tabs s)"
proof -
  obtain w1 w2 where calls: "play M (Ctl Ctl_del fd) (world s) = Some w1"
      "play M (Read fd (frame (attach_req h imsi tai ksi cap))) w1 = Some w2"
      "plays M [Socket hfd, Nonblock hfd, Connect hfd hss_ip3 hss_my_port, Ctl (Ctl_add EPOLLOUT) hfd] w2 = Some w"
    using assms(6) by (auto split: option.splits)
  have len: "length (attach_req h imsi tai ksi cap) \<le> 1020"
    by (simp add: attach_req_def)
  have conn: "open_conn M hss_ip3 hss_my_port who s0 = Inr (hfd, s0\<lparr>world := w\<rparr>)" if "world s0 = w2" for who s0
    by (rule open_conn_plays) (use calls(3) that in simp)
  show ?thesis
    using assms(1-5)
    by (simp add: mme3_request_def recv_frame [OF calls(1,2) len] Let_def)
      (simp add: attach_req_def mme3_initial_attach_def item_ext_view item_app_view Let_def handle_hss_connect_def
        conn buf_write_stored stored_def frame_def mme3_registered_def autn_req3_def autn_req_bytes_def upd_ue_def
        ue_at_def mme_ue_init_def modify_at_def)
qed

text \<open>The connection to the HSS is open.\<close>

lemma mme3_hss_connected_event:
  assumes "ev_out ev" and "length msg \<le> 500"
    and "plays M [Write (ev_fd ev) msg, Ctl (Ctl_mod EPOLLIN) (ev_fd ev)] (world s) = Some w"
  shows "\<exists>s'. mme3_hss_connected M ev (stored msg m) s = Inr s' \<and> world s' = w \<and> rbuf s' = rbuf s \<and>
    rpkt s' = rpkt s \<and> fdmap s' = (fdmap s)(ev_fd ev \<mapsto> m\<lparr>act := 3, buflen := 0, mbuf := zero_buf\<rparr>) \<and>
    mme_tabs s' = mme_tabs s"
proof -
  have "send_stored M (ev_fd ev) (mbuf (stored msg m)) (buflen (stored msg m)) who s = Inr (s\<lparr>world := w\<rparr>)" for who
    by (rule send_stored_plays [OF assms(3)]) (simp_all add: stored_def)
  moreover have "stored msg m\<lparr>act := 3, buflen := 0, mbuf := zero_buf\<rparr> = m\<lparr>act := 3, buflen := 0, mbuf := zero_buf\<rparr>"
    by (simp add: stored_def)
  ultimately show ?thesis
    using assms(1) by (simp add: mme3_hss_connected_def send_request_hss_def)
qed

text \<open>The vector of the HSS is stored and the challenge goes to the RAN, with the ids of the context.\<close>

definition challenge3 :: "'w mme3 \<Rightarrow> u64 \<Rightarrow> u32 \<Rightarrow> u64 \<Rightarrow> u64 \<Rightarrow> u8 list" where
  "challenge3 s guti msui autn rand_num =
     autn_challenge (s1ap_init 1 24 (enodeb_s1ap_ue_id_m (ue_at guti (mme_tabs s))) msui (s1ap_hdr (rpkt s)))
       autn rand_num 1"

lemma mme3_hss_reply_event:
  assumes "s1mme_id (mme_tabs s) (md_msui m) = Some guti" and "length (rbuf s) = 1024"
    and "plays M
      [Ctl Ctl_del hfd, Read hfd (frame (autn_rsp_bytes h' autn rand_num xres k_asme)), Close hfd,
       Write (initial_fd m) (frame (challenge3 s guti (md_msui m) autn rand_num)),
       Ctl (Ctl_add EPOLLIN) (initial_fd m)] (world s) = Some w"
  shows "\<exists>s'. mme3_hss_reply M hfd m s = Inr s' \<and> world s' = w \<and> length (rbuf s') = 1024 \<and>
    gtp_hdr (rpkt s') = gtp_hdr (rpkt s) \<and>
    fdmap s' = (fdmap s)(hfd := None, initial_fd m \<mapsto>
      \<lparr>act = 1, initial_fd = 0, mbuf = zero_buf, buflen = 0, md_msui = 0\<rparr>) \<and>
    mme_tabs s' = mme3_vector guti xres k_asme (mme_tabs s)"
proof -
  obtain w1 w2 w3 w4 where calls: "play M (Ctl Ctl_del hfd) (world s) = Some w1"
      "play M (Read hfd (frame (autn_rsp_bytes h' autn rand_num xres k_asme))) w1 = Some w2"
      "play M (Close hfd) w2 = Some w3"
      "play M (Write (initial_fd m) (frame (challenge3 s guti (md_msui m) autn rand_num))) w3 = Some w4"
      "play M (Ctl (Ctl_add EPOLLIN) (initial_fd m)) w4 = Some w"
    using assms(3) by (auto split: option.splits)
  have len: "length (autn_rsp_bytes h' autn rand_num xres k_asme) \<le> 1020"
    by (simp add: autn_rsp_bytes_def)
  show ?thesis
    using assms(1,2) calls(3-5)
    by (simp add: mme3_hss_reply_def recv_frame [OF calls(1,2) len] Let_def)
      (simp add: autn_rsp_bytes_def item_ext_view item_app_view Let_def guti_or_old_def send_ran_attach_one_def
        challenge3_def autn_challenge_def upd_ue_def ue_at_def call_simps mme3_vector_def)
qed

subsection \<open>Authentication\<close>

text \<open>The security mode command: the integrity algorithm in it is 0.\<close>

definition smc3 :: "ext_lib \<Rightarrow> s1ap \<Rightarrow> mme_ue \<Rightarrow> u8 list" where
  "smc3 X h c =
     smc_msg X (s1ap_init 2 46 (enodeb_s1ap_ue_id h) (mme_s1ap_ue_id h) h)
       (smc_body (ksi_asme_m c) (nw_capability_m c) 1 (nas_int_algo_m c))"

lemma mme3_autn_event:
  assumes "crypto_ok X" and "msg_type_s h = 2" and "mme_s1ap_ue_id h \<noteq> 0"
    and "s1mme_id (mme_tabs s) (mme_s1ap_ue_id h) = Some guti" and "guti \<noteq> 0"
    and "ue_ctx_m (mme_tabs s) guti = Some c" and "length (rbuf s) = 1024"
    and "plays M
      [Ctl Ctl_del fd, Read fd (frame (autn_response h (xres_m c))), Write fd (frame (smc3 X h c)),
       Ctl (Ctl_add EPOLLIN) fd] (world s) = Some w"
    and "fdmap s fd = Some m"
  shows "\<exists>s'. mme3_request M X U fd m s = Inr s' \<and> world s' = w \<and> length (rbuf s') = 1024 \<and>
    gtp_hdr (rpkt s') = gtp_hdr (rpkt s) \<and> fdmap s' = fdmap s \<and>
    mme_tabs s' = set_crypt_context guti (mme_tabs s)"
proof -
  obtain w1 w2 w3 where calls: "play M (Ctl Ctl_del fd) (world s) = Some w1"
      "play M (Read fd (frame (autn_response h (xres_m c)))) w1 = Some w2"
      "play M (Write fd (frame (smc3 X h c))) w2 = Some w3" "play M (Ctl (Ctl_add EPOLLIN) fd) w3 = Some w"
    using assms(8) by (auto split: option.splits)
  have len: "length (autn_response h (xres_m c)) \<le> 1020"
    by (simp add: autn_response_def)
  show ?thesis
    using assms(1-7,9) calls(4) calls(3)
    by (simp add: mme3_request_def recv_frame [OF calls(1,2) len] Let_def)
      (simp add: smc3_def nas_defs mme3_autn_def item_ext_view item_app_view Let_def send_ran_attach_two_def
        ue_at_def upd_ue_def set_crypt_context_def call_simps)
qed

text \<open>A wrong response ends the process; version 1.0 only forgets the UE.\<close>

lemma mme3_autn_wrong:
  assumes "msg_type_s h = 2" and "mme_s1ap_ue_id h \<noteq> 0"
    and "s1mme_id (mme_tabs s) (mme_s1ap_ue_id h) = Some guti" and "guti \<noteq> 0"
    and "ue_ctx_m (mme_tabs s) guti = Some c" and "res \<noteq> xres_m c" and "length (rbuf s) = 1024"
    and "plays M [Ctl Ctl_del fd, Read fd (frame (autn_response h res))] (world s) = Some w"
  shows "mme3_request M X U fd m s = Inl (Exit ''Failed to authenticate'')"
proof -
  obtain w1 where calls: "play M (Ctl Ctl_del fd) (world s) = Some w1"
      "play M (Read fd (frame (autn_response h res))) w1 = Some w"
    using assms(8) by (auto split: option.splits)
  have len: "length (autn_response h res) \<le> 1020"
    by (simp add: autn_response_def)
  show ?thesis
    using assms(1-7)
    by (simp add: mme3_request_def recv_frame [OF calls(1,2) len] Let_def)
      (simp add: nas_defs mme3_autn_def item_ext_view Let_def ue_at_def)
qed

subsection \<open>Security mode complete and create session\<close>

definition mme3_opened :: "u64 \<Rightarrow> u32 \<Rightarrow> mme \<Rightarrow> mme" where
  "mme3_opened guti t =
     upd_ue guti (\<lambda>c. c\<lparr>pgw_s5_port_m := v3_g_pgw_s5_port, pgw_s5_ip_addr_m := v3_g_pgw_s5_ip_addr,
       s11_cteid_mme_m := t, eps_bearer_id_m := 5, apn_in_use_m := 0\<rparr>)"

definition create3 :: "gtp \<Rightarrow> u32 \<Rightarrow> mme_ue \<Rightarrow> u8 list" where
  "create3 g t c =
     create_req11 (gtp_with 2 1 50 0 g) t (imsi_m c) 5 v3_g_pgw_s5_ip_addr v3_g_pgw_s5_port 0 (tai_m c)"

lemma mme3_opened_event:
  assumes X: "crypto_ok X" and "msg_type_s h = 3" and "mme_s1ap_ue_id h \<noteq> 0"
    and "s1mme_id (mme_tabs s) (mme_s1ap_ue_id h) = Some guti"
    and "ue_ctx_m (mme_tabs s) guti = Some c" and "gettid guti = Inr t"
    and "length (rbuf s) = 1024" and "length (mbuf U) = 500" and "((fdmap s)(fd := None)) sfd = None"
    and "plays M
      [Ctl Ctl_del fd, Read fd (frame (nas_msg X h (bool_bytes True))), Socket sfd, Nonblock sfd,
       Connect sfd sgw_ip3 sgw_s11_portnum, Ctl (Ctl_add EPOLLOUT) sfd] (world s) = Some w"
  shows "\<exists>s'. mme3_request M X U fd m s = Inr s' \<and> world s' = w \<and> length (rbuf s') = 1024 \<and>
    s1ap_hdr (rpkt s') = h \<and> v_eps_bearer_id s' = 5 \<and>
    fdmap s' = (fdmap s)(fd := None, sfd \<mapsto> stored (frame (create3 (gtp_hdr (rpkt s)) t c))
      (U\<lparr>act := 4, initial_fd := fd, md_msui := mme_s1ap_ue_id h\<rparr>)) \<and>
    mme_tabs s' = mme3_opened guti t (mme_tabs s)"
proof -
  let ?b = "bool_bytes True"
  obtain w1 w2 where calls: "play M (Ctl Ctl_del fd) (world s) = Some w1"
      "play M (Read fd (frame (nas_msg X h ?b))) w1 = Some w2"
      "plays M [Socket sfd, Nonblock sfd, Connect sfd sgw_ip3 sgw_s11_portnum, Ctl (Ctl_add EPOLLOUT) sfd] w2 = Some w"
    using assms(10) by (auto split: option.splits)
  have l: "length ?b \<le> 900"
    by simp
  have len: "length (nas_msg X h ?b) \<le> 1020"
    using length_cipher_le [OF X, of ?b] by (simp add: nas_msg_def X)
  have conn: "open_conn M sgw_ip3 sgw_s11_portnum who s0 = Inr (sfd, s0\<lparr>world := w\<rparr>)" if "world s0 = w2" for who s0
    by (rule open_conn_plays) (use calls(3) that in simp)
  show ?thesis
    using assms(2-9)
    by (simp add: mme3_request_def recv_frame [OF calls(1,2) len] open_views(2) [OF X l] Let_def)
      (simp add: mme3_security_mode_complete_def known_guti_def open_or_exit_view [OF X l] extract_u64_bool
        item_app_view Let_def handle_sgw_connect_def conn buf_write_stored stored_def frame_def mme3_opened_def
        create3_def create_req11_def upd_ue_def ue_at_def modify_at_def v3_addrs v3_g_pgw_s5_port_def len)
qed

text \<open>The connection to the SGW is open.\<close>

lemma mme3_sgw_connected_event:
  assumes "ev_out ev" and "length msg \<le> 500"
    and "plays M [Write (ev_fd ev) msg, Ctl (Ctl_mod EPOLLIN) (ev_fd ev)] (world s) = Some w"
  shows "\<exists>s'. mme3_sgw_connected M ev (stored msg m) s = Inr s' \<and> world s' = w \<and> rbuf s' = rbuf s \<and>
    rpkt s' = rpkt s \<and> v_eps_bearer_id s' = v_eps_bearer_id s \<and>
    fdmap s' = (fdmap s)(ev_fd ev \<mapsto> m\<lparr>act := 5, buflen := 0, mbuf := zero_buf\<rparr>) \<and> mme_tabs s' = mme_tabs s"
proof -
  have "send_stored M (ev_fd ev) (mbuf (stored msg m)) (buflen (stored msg m)) who s = Inr (s\<lparr>world := w\<rparr>)" for who
    by (rule send_stored_plays [OF assms(3)]) (simp_all add: stored_def)
  moreover have "stored msg m\<lparr>act := 5, buflen := 0, mbuf := zero_buf\<rparr> = m\<lparr>act := 5, buflen := 0, mbuf := zero_buf\<rparr>"
    by (simp add: stored_def)
  ultimately show ?thesis
    using assms(1) by (simp add: mme3_sgw_connected_def send_request_sgw_athree_def)
qed

definition mme3_accepted :: "u64 \<Rightarrow> u32 \<Rightarrow> string \<Rightarrow> u32 \<Rightarrow> u32 \<Rightarrow> u32 \<Rightarrow> mme \<Rightarrow> mme" where
  "mme3_accepted guti t ip s1_ul s5_ul s5_dl =
     upd_ue guti (\<lambda>c. c\<lparr>ip_addr_m := ip, s11_cteid_sgw_m := t, s1_uteid_ul_m := s1_ul, s5_uteid_ul_m := s5_ul,
       s5_uteid_dl_m := s5_dl, tai_list_m := [tai_m c], tau_timer_m := v3_g_timer,
       e_rab_id_m := eps_bearer_id_m c, k_enodeb_m := k_asme_m c\<rparr>)"

text \<open>The attach accept. \<open>h\<close> is the S1AP header that the last message of any RAN left in the packet.\<close>

definition accept3 :: "ext_lib \<Rightarrow> s1ap \<Rightarrow> u64 \<Rightarrow> u8 \<Rightarrow> mme_ue \<Rightarrow> u32 \<Rightarrow> string \<Rightarrow> u8 list" where
  "accept3 X h guti b c s1_ul ip =
     (let body = accept_body guti b (eps_bearer_id_m c) s1_ul (k_asme_m c) (nw_capability_m c) [tai_m c]
        v3_g_timer ip v3_g_sgw_s1_ip_addr v3_g_sgw_s1_port True
      in nas_msg X (s1ap_init 3 (of_nat (20 + length (cipher X body)))
           (enodeb_s1ap_ue_id h) (mme_s1ap_ue_id h) h) body)"

lemma mme3_create_reply_event:
  assumes X: "crypto_ok X" and "s1mme_id (mme_tabs s) (md_msui m) = Some guti"
    and "ue_ctx_m (mme_tabs s) guti = Some c" and "gettid guti = Inr t" and "short_ip ip"
    and "length (rbuf s) = 1024" and "((fdmap s)(sfd := None)) (initial_fd m) = None"
    and "plays M
      [Ctl Ctl_del sfd, Read sfd (frame (create_rsp11 h' t ip s1_ul s5_ul s5_dl)),
       Write (initial_fd m) (frame (accept3 X (s1ap_hdr (rpkt s)) guti (v_eps_bearer_id s) c s1_ul ip)),
       Ctl (Ctl_add EPOLLIN) (initial_fd m)] (world s) = Some w"
  shows "\<exists>s'. mme3_create_reply M X sfd m s = Inr s' \<and> world s' = w \<and> length (rbuf s') = 1024 \<and>
    gtp_hdr (rpkt s') = h' \<and>
    fdmap s' = (fdmap s)(sfd := None, initial_fd m \<mapsto>
      m\<lparr>act := 1, initial_fd := sfd, mbuf := zero_buf, md_msui := 0, buflen := 0\<rparr>) \<and>
    mme_tabs s' = mme3_accepted guti t ip s1_ul s5_ul s5_dl (mme_tabs s)"
proof -
  let ?h = "s1ap_hdr (rpkt s)"
  let ?body = "accept_body guti (v_eps_bearer_id s) (eps_bearer_id_m c) s1_ul (k_asme_m c) (nw_capability_m c) [tai_m c]
        v3_g_timer ip v3_g_sgw_s1_ip_addr v3_g_sgw_s1_port True"
  obtain w1 w2 w3 where calls: "play M (Ctl Ctl_del sfd) (world s) = Some w1"
      "play M (Read sfd (frame (create_rsp11 h' t ip s1_ul s5_ul s5_dl))) w1 = Some w2"
      "play M (Write (initial_fd m) (frame (accept3 X ?h guti (v_eps_bearer_id s) c s1_ul ip))) w2 = Some w3"
      "play M (Ctl (Ctl_add EPOLLIN) (initial_fd m)) w3 = Some w"
    using assms(8) by (auto split: option.splits)
  have len: "length (create_rsp11 h' t ip s1_ul s5_ul s5_dl) \<le> 1020"
    using assms(5) by (simp add: create_rsp11_def short_ip_def)
  have blen: "length ?body \<le> 900"
    using assms(5) by (simp add: accept_body_def short_ip_def v3_addrs)
  have body: "?body = le_word 8 guti @ u8_bytes (v_eps_bearer_id s) @ u8_bytes (eps_bearer_id_m c) @ le_word 4 s1_ul @
      le_word 8 (k_asme_m c) @ le_word 2 (nw_capability_m c) @ le_int 1 @ le_word 8 (tai_m c) @
      le_word 8 v3_g_timer @ string_bytes ip @ string_bytes v3_g_sgw_s1_ip_addr @ le_int v3_g_sgw_s1_port @
      bool_bytes True"
    by (simp add: accept_body_def u64s_bytes_def)
  note seal = seal_views(1-3,5) [OF X blen, unfolded body]
  have clen: "length (cipher X ?body) \<le> 916"
    using length_cipher_le [OF X, of ?body] blen by simp
  show ?thesis
    using assms(2-7) calls(4) calls(3) clen
    by (simp add: mme3_create_reply_def recv_frame [OF calls(1,2) len] Let_def)
      (simp add: create_rsp11_def item_ext_view item_app_view Let_def short_ip_def v3_addrs
        upd_ue_def ue_at_def modify_at_def call_simps mme3_accepted_def accept3_def nas_msg_def body seal X)
qed

subsection \<open>Attach complete and modify bearer\<close>

definition mme3_active :: "u64 \<Rightarrow> u32 \<Rightarrow> mme \<Rightarrow> mme" where
  "mme3_active guti s1_dl = upd_ue guti (\<lambda>c. c\<lparr>s1_uteid_dl_m := s1_dl, emm_state_m := 1\<rparr>)"

definition modify3 :: "gtp \<Rightarrow> u32 \<Rightarrow> mme_ue \<Rightarrow> u8 list" where
  "modify3 g s1_dl c =
     modify_req (gtp_with 2 2 26 (s11_cteid_sgw_m c) g) (eps_bearer_id_m c) s1_dl v3_g_trafmon_ip_addr v3_g_trafmon_port"

lemma length_nas_msg: "crypto_ok X \<Longrightarrow> length m \<le> 900 \<Longrightarrow> length (nas_msg X h m) \<le> 1020"
  using length_cipher_le [of X m] by (simp add: nas_msg_def)

lemma mme3_complete_event:
  assumes X: "crypto_ok X" and "msg_type_s h = 4" and "mme_s1ap_ue_id h \<noteq> 0"
    and "s1mme_id (mme_tabs s) (mme_s1ap_ue_id h) = Some guti" and "ue_ctx_m (mme_tabs s) guti = Some c"
    and "length (rbuf s) = 1024" and "((fdmap s)(fd := None)) (initial_fd m) = None"
    and "plays M
      [Ctl Ctl_del fd, Read fd (frame (nas_msg X h (complete_body b s1_dl))),
       Write (initial_fd m) (frame (modify3 (gtp_hdr (rpkt s)) s1_dl c)),
       Ctl (Ctl_add EPOLLIN) (initial_fd m)] (world s) = Some w"
  shows "\<exists>s'. mme3_request M X U fd m s = Inr s' \<and> world s' = w \<and> length (rbuf s') = 1024 \<and> s1ap_hdr (rpkt s') = h \<and>
    fdmap s' = (fdmap s)(fd := None, initial_fd m \<mapsto>
      m\<lparr>md_msui := mme_s1ap_ue_id h, act := 6, buflen := 0, mbuf := zero_buf, initial_fd := fd\<rparr>) \<and>
    mme_tabs s' = mme3_active guti s1_dl (mme_tabs s)"
proof -
  let ?b = "complete_body b s1_dl"
  obtain w1 w2 w3 where calls: "play M (Ctl Ctl_del fd) (world s) = Some w1"
      "play M (Read fd (frame (nas_msg X h ?b))) w1 = Some w2"
      "play M (Write (initial_fd m) (frame (modify3 (gtp_hdr (rpkt s)) s1_dl c))) w2 = Some w3"
      "play M (Ctl (Ctl_add EPOLLIN) (initial_fd m)) w3 = Some w"
    using assms(8) by (auto split: option.splits)
  have l: "length ?b \<le> 900"
    by (simp add: complete_body_def)
  note len = length_nas_msg [OF X l, of h]
  note body = open_or_exit_view [OF X l, unfolded complete_body_def]
  show ?thesis
    using assms(2-7) calls(4) calls(3)
    by (simp add: mme3_request_def recv_frame [OF calls(1,2) len] open_views(2) [OF X l] Let_def)
      (simp add: mme3_attach_complete_def known_guti_def complete_body_def body item_ext_view item_app_view Let_def
        send_sgw_afour_def mme3_active_def modify3_def modify_req_def upd_ue_def ue_at_def modify_at_def
        v3_addrs v3_g_trafmon_port_def call_simps len [unfolded complete_body_def])
qed

definition mme3_connected :: "u64 \<Rightarrow> mme \<Rightarrow> mme" where
  "mme3_connected guti = upd_ue guti (\<lambda>c. c\<lparr>ecm_state_m := 1\<rparr>)"

definition confirm3 :: "ext_lib \<Rightarrow> s1ap \<Rightarrow> u64 \<Rightarrow> mme_ue \<Rightarrow> u8 list" where
  "confirm3 X h guti c =
     nas_msg X (s1ap_init 4 36 (enodeb_s1ap_ue_id h) (mme_s1ap_ue_id h) h)
       (bool_bytes True @ le_word 8 guti @ le_word 2 (nw_capability_m c))"

lemma mme3_modify_reply_event:
  assumes X: "crypto_ok X" and "s1mme_id (mme_tabs s) (md_msui m) = Some guti"
    and "ue_ctx_m (mme_tabs s) guti = Some c" and "length (rbuf s) = 1024"
    and "((fdmap s)(sfd := None)) (initial_fd m) = None"
    and "plays M
      [Ctl Ctl_del sfd, Read sfd (frame (bool_rsp h' True)),
       Write (initial_fd m) (frame (confirm3 X (s1ap_hdr (rpkt s)) guti c)),
       Ctl (Ctl_add EPOLLIN) (initial_fd m)] (world s) = Some w"
  shows "\<exists>s'. mme3_modify_reply M X sfd m s = Inr s' \<and> world s' = w \<and> length (rbuf s') = 1024 \<and>
    gtp_hdr (rpkt s') = h' \<and>
    fdmap s' = (fdmap s)(sfd := None, initial_fd m \<mapsto>
      m\<lparr>act := 1, initial_fd := sfd, mbuf := zero_buf, md_msui := 0, buflen := 0\<rparr>) \<and>
    mme_tabs s' = mme3_connected guti (mme_tabs s)"
proof -
  let ?body = "bool_bytes True @ le_word 8 guti @ le_word 2 (nw_capability_m c)"
  obtain w1 w2 w3 where calls: "play M (Ctl Ctl_del sfd) (world s) = Some w1"
      "play M (Read sfd (frame (bool_rsp h' True))) w1 = Some w2"
      "play M (Write (initial_fd m) (frame (confirm3 X (s1ap_hdr (rpkt s)) guti c))) w2 = Some w3"
      "play M (Ctl (Ctl_add EPOLLIN) (initial_fd m)) w3 = Some w"
    using assms(6) by (auto split: option.splits)
  have len: "length (bool_rsp h' True) \<le> 1020"
    by (simp add: bool_rsp_def)
  have blen: "length ?body \<le> 900"
    by simp
  have clen: "length (cipher X ?body) = 16"
    by (simp add: length_cipher X)
  note seal = seal_views(1-3,5) [OF X blen]
  show ?thesis
    using assms(2-5) calls(4) calls(3)
    by (simp add: mme3_modify_reply_def recv_frame [OF calls(1,2) len] Let_def)
      (simp add: bool_rsp_def extract_u64_bool item_app_view Let_def guti_or_old_def upd_ue_def ue_at_def
        modify_at_def call_simps mme3_connected_def confirm3_def nas_msg_def seal clen X)
qed

subsection \<open>Detach\<close>

definition detach3 :: "gtp \<Rightarrow> mme_ue \<Rightarrow> u8 list" where
  "detach3 g c = detach_req (gtp_with 2 3 9 (s11_cteid_sgw_m c) g) (eps_bearer_id_m c) (tai_m c)"

lemma mme3_detach_event:
  assumes X: "crypto_ok X" and "msg_type_s h = 5" and "mme_s1ap_ue_id h \<noteq> 0"
    and "s1mme_id (mme_tabs s) (mme_s1ap_ue_id h) = Some guti" and "ue_ctx_m (mme_tabs s) guti = Some c"
    and "length (rbuf s) = 1024" and "((fdmap s)(fd := None)) (initial_fd m) = None"
    and "plays M
      [Ctl Ctl_del fd, Read fd (frame (nas_msg X h (detach_body guti' ksi dt))),
       Write (initial_fd m) (frame (detach3 (gtp_hdr (rpkt s)) c)),
       Ctl (Ctl_add EPOLLIN) (initial_fd m)] (world s) = Some w"
  shows "\<exists>s'. mme3_request M X U fd m s = Inr s' \<and> world s' = w \<and> length (rbuf s') = 1024 \<and> s1ap_hdr (rpkt s') = h \<and>
    fdmap s' = (fdmap s)(fd := None, initial_fd m \<mapsto>
      m\<lparr>md_msui := mme_s1ap_ue_id h, act := 7, buflen := 0, mbuf := zero_buf, initial_fd := fd\<rparr>) \<and>
    mme_tabs s' = mme_tabs s"
proof -
  let ?b = "detach_body guti' ksi dt"
  obtain w1 w2 w3 where calls: "play M (Ctl Ctl_del fd) (world s) = Some w1"
      "play M (Read fd (frame (nas_msg X h ?b))) w1 = Some w2"
      "play M (Write (initial_fd m) (frame (detach3 (gtp_hdr (rpkt s)) c))) w2 = Some w3"
      "play M (Ctl (Ctl_add EPOLLIN) (initial_fd m)) w3 = Some w"
    using assms(8) by (auto split: option.splits)
  have l: "length ?b \<le> 900"
    by (simp add: detach_body_def)
  note len = length_nas_msg [OF X l, of h]
  note body = open_or_exit_view [OF X l, unfolded detach_body_def]
  show ?thesis
    using assms(2-7) calls(4) calls(3)
    by (simp add: mme3_request_def recv_frame [OF calls(1,2) len] open_views(2) [OF X l] Let_def)
      (simp add: mme3_detach_def known_guti_def detach_body_def body item_ext_view item_app_view Let_def
        send_sgw_detach_def detach3_def detach_req_def touch_ue_def ue_at_def call_simps len [unfolded detach_body_def])
qed

definition farewell3 :: "ext_lib \<Rightarrow> s1ap \<Rightarrow> u8 list" where
  "farewell3 X h = nas_msg X (s1ap_init 5 36 (enodeb_s1ap_ue_id h) (mme_s1ap_ue_id h) h) (bool_bytes True)"

lemma mme3_detach_reply_event:
  assumes X: "crypto_ok X" and "s1mme_id (mme_tabs s) (md_msui m) = Some guti"
    and "ue_ctx_m (mme_tabs s) guti = Some c" and "length (rbuf s) = 1024"
    and "plays M
      [Ctl Ctl_del sfd, Read sfd (frame (bool_rsp h' True)),
       Write (initial_fd m) (frame (farewell3 X (s1ap_hdr (rpkt s)))), Close sfd,
       Ctl Ctl_del (initial_fd m), Close (initial_fd m)] (world s) = Some w"
  shows "\<exists>s'. mme3_detach_reply M X sfd m s = Inr s' \<and> world s' = w \<and> length (rbuf s') = 1024 \<and>
    fdmap s' = (fdmap s)(sfd := None, initial_fd m := None) \<and> mme_tabs s' = mme_removed (md_msui m) guti (mme_tabs s)"
proof -
  obtain w1 w2 w3 w4 w5 where calls: "play M (Ctl Ctl_del sfd) (world s) = Some w1"
      "play M (Read sfd (frame (bool_rsp h' True))) w1 = Some w2"
      "play M (Write (initial_fd m) (frame (farewell3 X (s1ap_hdr (rpkt s))))) w2 = Some w3"
      "play M (Close sfd) w3 = Some w4" "play M (Ctl Ctl_del (initial_fd m)) w4 = Some w5"
      "play M (Close (initial_fd m)) w5 = Some w"
    using assms(5) by (auto split: option.splits)
  have len: "length (bool_rsp h' True) \<le> 1020"
    by (simp add: bool_rsp_def)
  have blen: "length (bool_bytes True) \<le> 900"
    by simp
  have clen: "length (cipher X (bool_bytes True)) = 16"
    by (simp add: length_cipher X)
  note seal = seal_views(1-3,5) [OF X blen]
  show ?thesis
    using assms(2-4) calls(3-6)
    by (simp add: mme3_detach_reply_def recv_frame [OF calls(1,2) len] Let_def)
      (simp add: bool_rsp_def extract_u64_bool item_app_view Let_def guti_or_old_def touch_ue_def ue_at_def
        call_simps mme_removed_def rem_uectx_m_def rem_itfid_m_def farewell3_def nas_msg_def seal clen X)
qed

subsection \<open>Phases of the procedures as runs of the loop\<close>

lemma mme3_event_known:
  "\<not> ev_err e \<Longrightarrow> \<not> ev_hup e \<Longrightarrow> ev_fd e \<noteq> lfd \<Longrightarrow> fdmap s (ev_fd e) = Some m \<Longrightarrow>
   mme3_event M X U lfd e s = mme3_handle M X U e m s"
  unfolding mme3_event_def by (rule on_event_known)

lemma mme3_run_append:
  "mme3_run M X U lfd (bs @ cs) s = bindE (mme3_run M X U lfd bs s) (mme3_run M X U lfd cs)"
  unfolding mme3_run_def by (rule main_loop_append)

text \<open>The answer of the HSS: its connection is closed before the challenge goes out.\<close>

definition challenge_calls :: "int \<Rightarrow> int \<Rightarrow> u8 list \<Rightarrow> u8 list \<Rightarrow> call list" where
  "challenge_calls fd hfd rsp msg =
     [Ctl Ctl_del hfd, Read hfd (frame rsp), Close hfd, Write fd (frame msg), Ctl (Ctl_add EPOLLIN) fd]"

lemma mme3_attach_phase:
  assumes "fdmap s fd = Some m" and "act m = 1" and "fd \<noteq> lfd" and "hfd \<noteq> lfd"
    and "((fdmap s)(fd := None)) hfd = None" and "length (rbuf s) = 1024" and "length (mbuf U) = 500"
    and "mme_s1ap_ue_id h = 0" and "get_guti (gummei (mme_ids_of (mme_tabs s))) imsi = Inr guti"
    and "plays M
      (ask_calls fd hfd hss_ip3 hss_my_port (attach_req h imsi tai ksi cap) (autn_req3 s guti imsi) @
       challenge_calls fd hfd (autn_rsp_bytes h' autn rand_num xres k_asme)
         (autn_challenge (s1ap_init 1 24 (enodeb_s1ap_ue_id h) (ucast (ue_count (mme_tabs s) + 1)) h) autn rand_num 1))
      (world s) = Some w"
  shows "\<exists>s'. mme3_run M X U lfd [Events [readable fd], Events [writable hfd], Events [readable hfd]] s = Inr s' \<and>
    world s' = w \<and> length (rbuf s') = 1024 \<and> gtp_hdr (rpkt s') = gtp_hdr (rpkt s) \<and>
    fdmap s' = (fdmap s)(hfd := None, fd \<mapsto>
      \<lparr>act = 1, initial_fd = 0, mbuf = zero_buf, buflen = 0, md_msui = 0\<rparr>) \<and>
    mme_tabs s' = mme_challenged guti imsi (enodeb_s1ap_ue_id h) tai cap xres k_asme (mme_tabs s)"
proof -
  let ?id = "ucast (ue_count (mme_tabs s) + 1) :: u32"
  let ?req = "frame (autn_req3 s guti imsi)" and ?m = "U\<lparr>act := 2, initial_fd := fd, md_msui := ?id\<rparr>"
  let ?m' = "?m\<lparr>act := 3, buflen := 0, mbuf := zero_buf\<rparr>"
  obtain w1 w2 where calls: "plays M
      [Ctl Ctl_del fd, Read fd (frame (attach_req h imsi tai ksi cap)), Socket hfd, Nonblock hfd,
       Connect hfd hss_ip3 hss_my_port, Ctl (Ctl_add EPOLLOUT) hfd] (world s) = Some w1"
    "plays M [Write hfd ?req, Ctl (Ctl_mod EPOLLIN) hfd] w1 = Some w2"
    "plays M (challenge_calls fd hfd (autn_rsp_bytes h' autn rand_num xres k_asme)
         (autn_challenge (s1ap_init 1 24 (enodeb_s1ap_ue_id h) ?id h) autn rand_num 1)) w2 = Some w"
    using assms(10) by (auto simp: calls_defs challenge_calls_def split: option.splits)
  obtain s1 where s1: "mme3_request M X U fd m s = Inr s1" "world s1 = w1" "length (rbuf s1) = 1024"
      "s1ap_hdr (rpkt s1) = h" "gtp_hdr (rpkt s1) = gtp_hdr (rpkt s)"
      "fdmap s1 = (fdmap s)(fd := None, hfd \<mapsto> stored ?req ?m)"
      "mme_tabs s1 = mme3_registered guti imsi (enodeb_s1ap_ue_id h) tai cap (mme_tabs s)"
    using mme3_attach_event [OF assms(8,9,6,7,5) calls(1)] by blast
  have "length ?req \<le> 500"
    by (simp add: autn_req3_def autn_req_bytes_def)
  then obtain s2 where s2: "mme3_hss_connected M (writable hfd) (stored ?req ?m) s1 = Inr s2" "world s2 = w2"
      "rbuf s2 = rbuf s1" "rpkt s2 = rpkt s1" "fdmap s2 = (fdmap s1)(hfd \<mapsto> ?m')" "mme_tabs s2 = mme_tabs s1"
    using mme3_hss_connected_event [of "writable hfd" ?req M s1 w2 ?m] calls(2) s1(2) by auto
  have "s1mme_id (mme_tabs s2) (md_msui ?m') = Some guti"
    and "challenge3 s2 guti (md_msui ?m') autn rand_num =
      autn_challenge (s1ap_init 1 24 (enodeb_s1ap_ue_id h) ?id h) autn rand_num 1"
    using s1 s2 by (simp_all add: mme3_registered_def challenge3_def Let_def ue_at_def modify_at_def mme_ue_init_def)
  then obtain s3 where s3: "mme3_hss_reply M hfd ?m' s2 = Inr s3" "world s3 = w" "length (rbuf s3) = 1024"
      "gtp_hdr (rpkt s3) = gtp_hdr (rpkt s2)"
      "fdmap s3 = (fdmap s2)(hfd := None, fd \<mapsto> \<lparr>act = 1, initial_fd = 0, mbuf = zero_buf, buflen = 0, md_msui = 0\<rparr>)"
      "mme_tabs s3 = mme3_vector guti xres k_asme (mme_tabs s2)"
    using mme3_hss_reply_event [of s2 ?m' guti M hfd h' autn rand_num xres k_asme w] calls(3) s1 s2
    by (auto simp: challenge_calls_def)
  have "mme3_event M X U lfd (readable fd) s = Inr s1" "mme3_event M X U lfd (writable hfd) s1 = Inr s2"
      "mme3_event M X U lfd (readable hfd) s2 = Inr s3"
    using assms(1-4) s1 s2 s3(1) by (simp_all add: mme3_event_known mme3_handle_def stored_def)
  then show ?thesis
    using s1 s2 s3 by (simp add: mme3_run_def mme3_vector_registered fun_upd_twist)
qed

text \<open>Authentication response to security mode command: one event.\<close>

lemma mme3_autn_phase:
  assumes "fdmap s fd = Some m" and "act m = 1" and "fd \<noteq> lfd" and "length (rbuf s) = 1024" and "crypto_ok X"
    and "msg_type_s h = 2" and "mme_s1ap_ue_id h \<noteq> 0" and "s1mme_id (mme_tabs s) (mme_s1ap_ue_id h) = Some guti"
    and "guti \<noteq> 0" and "ue_ctx_m (mme_tabs s) guti = Some c"
    and "plays M (relay_calls fd fd (autn_response h (xres_m c)) (smc3 X h c)) (world s) = Some w"
  shows "\<exists>s'. mme3_run M X U lfd [Events [readable fd]] s = Inr s' \<and> world s' = w \<and> length (rbuf s') = 1024 \<and>
    gtp_hdr (rpkt s') = gtp_hdr (rpkt s) \<and> fdmap s' = fdmap s \<and> mme_tabs s' = set_crypt_context guti (mme_tabs s)"
  using mme3_autn_event [OF assms(5-10,4) _ assms(1), of M w U] assms
  by (auto simp: calls_defs mme3_run_def mme3_event_known mme3_handle_def)

text \<open>From the third attach message to the request that is sent to the SGW.\<close>

lemma mme3_session_request:
  assumes X: "crypto_ok X"
    and "fdmap s fd = Some m" and "act m = 1" and "fd \<noteq> lfd" and "sfd \<noteq> lfd"
    and "((fdmap s)(fd := None)) sfd = None" and "length (rbuf s) = 1024" and "length (mbuf U) = 500"
    and "msg_type_s h = 3" and "mme_s1ap_ue_id h \<noteq> 0" and "s1mme_id (mme_tabs s) (mme_s1ap_ue_id h) = Some guti"
    and "ue_ctx_m (mme_tabs s) guti = Some c" and "gettid guti = Inr t"
    and "plays M (ask_calls fd sfd sgw_ip3 sgw_s11_portnum (nas_msg X h (bool_bytes True))
        (create3 (gtp_hdr (rpkt s)) t c)) (world s) = Some w"
  shows "\<exists>s'. mme3_run M X U lfd [Events [readable fd], Events [writable sfd]] s = Inr s' \<and> world s' = w \<and>
    length (rbuf s') = 1024 \<and> s1ap_hdr (rpkt s') = h \<and> v_eps_bearer_id s' = 5 \<and>
    fdmap s' = (fdmap s)(fd := None, sfd \<mapsto>
      U\<lparr>act := 5, initial_fd := fd, mbuf := zero_buf, buflen := 0, md_msui := mme_s1ap_ue_id h\<rparr>) \<and>
    mme_tabs s' = mme3_opened guti t (mme_tabs s)"
proof -
  let ?req = "frame (create3 (gtp_hdr (rpkt s)) t c)"
  let ?m = "U\<lparr>act := 4, initial_fd := fd, md_msui := mme_s1ap_ue_id h\<rparr>"
  let ?m' = "U\<lparr>act := 5, initial_fd := fd, mbuf := zero_buf, buflen := 0, md_msui := mme_s1ap_ue_id h\<rparr>"
  obtain w1 where calls: "plays M
      [Ctl Ctl_del fd, Read fd (frame (nas_msg X h (bool_bytes True))), Socket sfd, Nonblock sfd,
       Connect sfd sgw_ip3 sgw_s11_portnum, Ctl (Ctl_add EPOLLOUT) sfd] (world s) = Some w1"
    "plays M [Write sfd ?req, Ctl (Ctl_mod EPOLLIN) sfd] w1 = Some w"
    using assms(14) by (auto simp: calls_defs split: option.splits)
  obtain s1 where s1: "mme3_request M X U fd m s = Inr s1" "world s1 = w1" "length (rbuf s1) = 1024"
      "s1ap_hdr (rpkt s1) = h" "v_eps_bearer_id s1 = 5" "fdmap s1 = (fdmap s)(fd := None, sfd \<mapsto> stored ?req ?m)"
      "mme_tabs s1 = mme3_opened guti t (mme_tabs s)"
    using mme3_opened_event [OF X assms(9-13,7,8,6) calls(1)] by blast
  have m': "?m\<lparr>act := 5, buflen := 0, mbuf := zero_buf\<rparr> = ?m'"
    by simp
  have "length ?req \<le> 500"
    by (simp add: create3_def create_req11_def v3_addrs)
  then obtain s2 where s2: "mme3_sgw_connected M (writable sfd) (stored ?req ?m) s1 = Inr s2" "world s2 = w"
      "rbuf s2 = rbuf s1" "rpkt s2 = rpkt s1" "v_eps_bearer_id s2 = v_eps_bearer_id s1"
      "fdmap s2 = (fdmap s1)(sfd \<mapsto> ?m')" "mme_tabs s2 = mme_tabs s1"
    using mme3_sgw_connected_event [of "writable sfd" ?req M s1 w ?m] calls(2) s1(2) unfolding m' by auto
  have "mme3_event M X U lfd (readable fd) s = Inr s1" "mme3_event M X U lfd (writable sfd) s1 = Inr s2"
    using assms(2-5) s1 s2(1) by (simp_all add: mme3_event_known mme3_handle_def stored_def)
  then show ?thesis
    using s1 s2 by (simp add: mme3_run_def)
qed

lemma mme3_session_answer:
  assumes "crypto_ok X" and "fdmap s sfd = Some m" and "act m = 5" and "sfd \<noteq> lfd"
    and "((fdmap s)(sfd := None)) (initial_fd m) = None" and "length (rbuf s) = 1024"
    and "s1mme_id (mme_tabs s) (md_msui m) = Some guti" and "ue_ctx_m (mme_tabs s) guti = Some c"
    and "gettid guti = Inr t" and "short_ip ip"
    and "plays M (relay_calls sfd (initial_fd m) (create_rsp11 h' t ip s1_ul s5_ul s5_dl)
        (accept3 X (s1ap_hdr (rpkt s)) guti (v_eps_bearer_id s) c s1_ul ip)) (world s) = Some w"
  shows "\<exists>s'. mme3_run M X U lfd [Events [readable sfd]] s = Inr s' \<and> world s' = w \<and> length (rbuf s') = 1024 \<and>
    gtp_hdr (rpkt s') = h' \<and>
    fdmap s' = (fdmap s)(sfd := None, initial_fd m \<mapsto>
      m\<lparr>act := 1, initial_fd := sfd, mbuf := zero_buf, md_msui := 0, buflen := 0\<rparr>) \<and>
    mme_tabs s' = mme3_accepted guti t ip s1_ul s5_ul s5_dl (mme_tabs s)"
  using mme3_create_reply_event [OF assms(1,7-10,6,5), of M h' s1_ul s5_ul s5_dl w] assms
  by (auto simp: calls_defs mme3_run_def mme3_event_known mme3_handle_def)

lemma mme3_opened_ctx:
  "ue_ctx_m m guti = Some c \<Longrightarrow> ue_ctx_m (mme3_opened guti t m) guti =
     Some (c\<lparr>pgw_s5_port_m := v3_g_pgw_s5_port, pgw_s5_ip_addr_m := v3_g_pgw_s5_ip_addr,
       s11_cteid_mme_m := t, eps_bearer_id_m := 5, apn_in_use_m := 0\<rparr>)"
  "s1mme_id (mme3_opened guti t m) = s1mme_id m" "ue_count (mme3_opened guti t m) = ue_count m"
  "mme_ids_of (mme3_opened guti t m) = mme_ids_of m"
  by (simp_all add: mme3_opened_def upd_ue_def modify_at_def)

text \<open>What version 3.0 leaves in the context after the session is created.\<close>

definition mme3_session :: "u64 \<Rightarrow> u32 \<Rightarrow> string \<Rightarrow> u32 \<Rightarrow> u32 \<Rightarrow> u32 \<Rightarrow> mme \<Rightarrow> mme" where
  "mme3_session guti t ip s1_ul s5_ul s5_dl =
     upd_ue guti (\<lambda>c. c\<lparr>pgw_s5_port_m := v3_g_pgw_s5_port, pgw_s5_ip_addr_m := v3_g_pgw_s5_ip_addr,
       s11_cteid_mme_m := t, eps_bearer_id_m := 5, apn_in_use_m := 0, ip_addr_m := ip, s11_cteid_sgw_m := t,
       s1_uteid_ul_m := s1_ul, s5_uteid_ul_m := s5_ul, s5_uteid_dl_m := s5_dl, tai_list_m := [tai_m c],
       tau_timer_m := v3_g_timer, e_rab_id_m := 5, k_enodeb_m := k_asme_m c\<rparr>)"

lemma mme3_accepted_opened:
  "mme3_accepted guti t ip s1_ul s5_ul s5_dl (mme3_opened guti t m) = mme3_session guti t ip s1_ul s5_ul s5_dl m"
  by (simp add: mme3_accepted_def mme3_opened_def mme3_session_def upd_ue_def modify_at_def)

lemma mme3_session_phase:
  assumes X: "crypto_ok X"
    and "fdmap s fd = Some m" and "act m = 1" and "fd \<noteq> lfd" and "sfd \<noteq> lfd"
    and "((fdmap s)(fd := None)) sfd = None" and "length (rbuf s) = 1024" and "length (mbuf U) = 500"
    and "msg_type_s h = 3" and "mme_s1ap_ue_id h \<noteq> 0" and "s1mme_id (mme_tabs s) (mme_s1ap_ue_id h) = Some guti"
    and "ue_ctx_m (mme_tabs s) guti = Some c" and "gettid guti = Inr t" and "short_ip ip"
    and "plays M
      (ask_calls fd sfd sgw_ip3 sgw_s11_portnum (nas_msg X h (bool_bytes True)) (create3 (gtp_hdr (rpkt s)) t c) @
       relay_calls sfd fd (create_rsp11 h' t ip s1_ul s5_ul s5_dl)
         (accept3 X h guti 5 (c\<lparr>eps_bearer_id_m := 5\<rparr>) s1_ul ip)) (world s) = Some w"
  shows "\<exists>s'. mme3_run M X U lfd [Events [readable fd], Events [writable sfd], Events [readable sfd]] s = Inr s' \<and>
    world s' = w \<and> length (rbuf s') = 1024 \<and> gtp_hdr (rpkt s') = h' \<and>
    fdmap s' = (fdmap s)(sfd := None, fd \<mapsto>
      U\<lparr>act := 1, initial_fd := sfd, mbuf := zero_buf, md_msui := 0, buflen := 0\<rparr>) \<and>
    mme_tabs s' = mme3_session guti t ip s1_ul s5_ul s5_dl (mme_tabs s)"
proof -
  let ?m = "U\<lparr>act := 5, initial_fd := fd, mbuf := zero_buf, buflen := 0, md_msui := mme_s1ap_ue_id h\<rparr>"
  let ?c = "c\<lparr>pgw_s5_port_m := v3_g_pgw_s5_port, pgw_s5_ip_addr_m := v3_g_pgw_s5_ip_addr,
       s11_cteid_mme_m := t, eps_bearer_id_m := 5, apn_in_use_m := 0\<rparr>"
  obtain w1 where calls: "plays M (ask_calls fd sfd sgw_ip3 sgw_s11_portnum (nas_msg X h (bool_bytes True))
        (create3 (gtp_hdr (rpkt s)) t c)) (world s) = Some w1"
      "plays M (relay_calls sfd fd (create_rsp11 h' t ip s1_ul s5_ul s5_dl)
         (accept3 X h guti 5 (c\<lparr>eps_bearer_id_m := 5\<rparr>) s1_ul ip)) w1 = Some w"
    using assms(15) by (auto simp: plays_append split: option.splits)
  obtain s1 where s1: "mme3_run M X U lfd [Events [readable fd], Events [writable sfd]] s = Inr s1" "world s1 = w1"
      "length (rbuf s1) = 1024" "s1ap_hdr (rpkt s1) = h" "v_eps_bearer_id s1 = 5"
      "fdmap s1 = (fdmap s)(fd := None, sfd \<mapsto> ?m)" "mme_tabs s1 = mme3_opened guti t (mme_tabs s)"
    using mme3_session_request [OF assms(1-13) calls(1)] by blast
  have none: "((fdmap s1)(sfd := None)) (initial_fd ?m) = None" and known: "fdmap s1 sfd = Some ?m"
    using s1(6) by simp_all
  have id: "s1mme_id (mme_tabs s1) (md_msui ?m) = Some guti" and ctx: "ue_ctx_m (mme_tabs s1) guti = Some ?c"
    using s1(7) mme3_opened_ctx assms(11,12) by simp_all
  have "accept3 X h guti 5 (c\<lparr>eps_bearer_id_m := 5\<rparr>) s1_ul ip = accept3 X h guti 5 ?c s1_ul ip"
    by (simp add: accept3_def)
  then obtain s2 where s2: "mme3_run M X U lfd [Events [readable sfd]] s1 = Inr s2" "world s2 = w"
      "length (rbuf s2) = 1024" "gtp_hdr (rpkt s2) = h'"
      "fdmap s2 = (fdmap s1)(sfd := None, fd \<mapsto>
         ?m\<lparr>act := 1, initial_fd := sfd, mbuf := zero_buf, md_msui := 0, buflen := 0\<rparr>)"
      "mme_tabs s2 = mme3_accepted guti t ip s1_ul s5_ul s5_dl (mme_tabs s1)"
    using mme3_session_answer [OF X known _ assms(5) none s1(3) id ctx assms(13,14), of M h' s1_ul s5_ul s5_dl w U]
      calls(2) s1(2,4,5) by auto
  then show ?thesis
    using s1(1,6,7) mme3_run_append [of M X U lfd "[Events [readable fd], Events [writable sfd]]" "[Events [readable sfd]]" s]
    by (auto simp: mme3_accepted_opened fun_upd_twist)
qed

text \<open>
  A first attach of another UE between the request to the SGW and its answer: the attach accept of the
  first UE carries the ids of the other one, and the MME id 0.
\<close>

lemma mme3_session_interleaved:
  assumes X: "crypto_ok X"
    and "fdmap s fd = Some m" and "act m = 1" and "fdmap s fd' = Some m'" and "act m' = 1"
    and "distinct [lfd, fd, fd', sfd, hfd]" and "fdmap s sfd = None" and "fdmap s hfd = None"
    and "length (rbuf s) = 1024" and "length (mbuf U) = 500"
    and "msg_type_s h = 3" and "mme_s1ap_ue_id h \<noteq> 0" and "s1mme_id (mme_tabs s) (mme_s1ap_ue_id h) = Some guti"
    and "ue_ctx_m (mme_tabs s) guti = Some c" and "gettid guti = Inr t" and "short_ip ip"
    and "mme_s1ap_ue_id h' = 0" and "get_guti (gummei (mme_ids_of (mme_tabs s))) imsi = Inr guti'" and "guti' \<noteq> guti"
    and "mme_s1ap_ue_id h \<noteq> ucast (ue_count (mme_tabs s) + 1)"
    and "plays M
      (ask_calls fd sfd sgw_ip3 sgw_s11_portnum (nas_msg X h (bool_bytes True)) (create3 (gtp_hdr (rpkt s)) t c) @
       [Ctl Ctl_del fd', Read fd' (frame (attach_req h' imsi tai ksi cap)), Socket hfd, Nonblock hfd,
        Connect hfd hss_ip3 hss_my_port, Ctl (Ctl_add EPOLLOUT) hfd] @
       relay_calls sfd fd (create_rsp11 h'' t ip s1_ul s5_ul s5_dl)
         (accept3 X h' guti 5 (c\<lparr>eps_bearer_id_m := 5\<rparr>) s1_ul ip)) (world s) = Some w"
  shows "\<exists>s'. mme3_run M X U lfd [Events [readable fd], Events [writable sfd], Events [readable fd'],
      Events [readable sfd]] s = Inr s' \<and> world s' = w"
proof -
  let ?m = "U\<lparr>act := 5, initial_fd := fd, mbuf := zero_buf, buflen := 0, md_msui := mme_s1ap_ue_id h\<rparr>"
  let ?c = "c\<lparr>pgw_s5_port_m := v3_g_pgw_s5_port, pgw_s5_ip_addr_m := v3_g_pgw_s5_ip_addr,
       s11_cteid_mme_m := t, eps_bearer_id_m := 5, apn_in_use_m := 0\<rparr>"
  let ?es = "[Events [readable fd], Events [writable sfd]]"
  have neq: "fd \<noteq> lfd" "sfd \<noteq> lfd" "fd' \<noteq> lfd" "fd' \<noteq> fd" "sfd \<noteq> fd" "sfd \<noteq> fd'" "hfd \<noteq> sfd" "hfd \<noteq> fd" "hfd \<noteq> fd'"
    using assms(6) by auto
  obtain w1 w2 where calls: "plays M (ask_calls fd sfd sgw_ip3 sgw_s11_portnum (nas_msg X h (bool_bytes True))
        (create3 (gtp_hdr (rpkt s)) t c)) (world s) = Some w1"
      "plays M [Ctl Ctl_del fd', Read fd' (frame (attach_req h' imsi tai ksi cap)), Socket hfd, Nonblock hfd,
        Connect hfd hss_ip3 hss_my_port, Ctl (Ctl_add EPOLLOUT) hfd] w1 = Some w2"
      "plays M (relay_calls sfd fd (create_rsp11 h'' t ip s1_ul s5_ul s5_dl)
         (accept3 X h' guti 5 (c\<lparr>eps_bearer_id_m := 5\<rparr>) s1_ul ip)) w2 = Some w"
    using assms(21) by (elim plays_appendE)
  have none: "((fdmap s)(fd := None)) sfd = None"
    using assms(7) by simp
  obtain s1 where s1: "mme3_run M X U lfd ?es s = Inr s1" "world s1 = w1"
      "length (rbuf s1) = 1024" "v_eps_bearer_id s1 = 5" "fdmap s1 = (fdmap s)(fd := None, sfd \<mapsto> ?m)"
      "mme_tabs s1 = mme3_opened guti t (mme_tabs s)"
    using mme3_session_request [OF X assms(2,3) neq(1,2) none assms(9-15) calls(1)] by blast
  have none': "((fdmap s1)(fd' := None)) hfd = None" and known': "fdmap s1 fd' = Some m'"
    using s1(5) neq assms(4,8) by simp_all
  have gum: "get_guti (gummei (mme_ids_of (mme_tabs s1))) imsi = Inr guti'"
    using s1(6) assms(18) by (simp add: mme3_opened_def upd_ue_def)
  obtain s2 where s2: "mme3_request M X U fd' m' s1 = Inr s2" "world s2 = w2" "length (rbuf s2) = 1024"
      "s1ap_hdr (rpkt s2) = h'" "v_eps_bearer_id s2 = 5"
      "fdmap s2 = (fdmap s1)(fd' := None, hfd \<mapsto> stored (frame (autn_req3 s1 guti' imsi))
        (U\<lparr>act := 2, initial_fd := fd', md_msui := ucast (ue_count (mme_tabs s1) + 1)\<rparr>))"
      "mme_tabs s2 = mme3_registered guti' imsi (enodeb_s1ap_ue_id h') tai cap (mme_tabs s1)"
    using mme3_attach_event [OF assms(17) gum s1(3) assms(10) none' calls(2) [folded s1(2)], of X m'] s1(4) by auto
  have known: "fdmap s2 sfd = Some ?m" and none'': "((fdmap s2)(sfd := None)) (initial_fd ?m) = None"
    using s1(5) s2(6) neq by simp_all
  have id: "s1mme_id (mme_tabs s2) (md_msui ?m) = Some guti" and ctx: "ue_ctx_m (mme_tabs s2) guti = Some ?c"
    using s1(6) s2(7) mme3_opened_ctx assms(13,14,19,20) by (simp_all add: mme3_registered_others)
  have "plays M (relay_calls sfd (initial_fd ?m) (create_rsp11 h'' t ip s1_ul s5_ul s5_dl)
      (accept3 X (s1ap_hdr (rpkt s2)) guti (v_eps_bearer_id s2) ?c s1_ul ip)) (world s2) = Some w"
    using calls(3) s2(2,4,5) by (simp add: accept3_def)
  then obtain s3 where s3: "mme3_run M X U lfd [Events [readable sfd]] s2 = Inr s3" "world s3 = w"
    using mme3_session_answer [OF X known _ neq(2) none'' s2(3) id ctx assms(15,16), of M h'' s1_ul s5_ul s5_dl w U] by auto
  have "mme3_run M X U lfd [Events [readable fd']] s1 = Inr s2"
    using known' neq(3) assms(5) s2(1) by (simp add: mme3_run_def mme3_event_known mme3_handle_def)
  then show ?thesis
    using s1(1) s3 mme3_run_append [of M X U lfd ?es "[Events [readable fd'], Events [readable sfd]]" s]
      mme3_run_append [of M X U lfd "[Events [readable fd']]" "[Events [readable sfd]]" s1] by auto
qed

text \<open>Attach complete: the modify bearer goes to the SGW and its answer becomes the confirmation.\<close>

lemma mme3_complete_phase:
  assumes X: "crypto_ok X"
    and "fdmap s fd = Some m" and "act m = 1" and "initial_fd m = sfd" and "fd \<noteq> lfd" and "sfd \<noteq> lfd"
    and "((fdmap s)(fd := None)) sfd = None" and "length (rbuf s) = 1024"
    and "msg_type_s h = 4" and "mme_s1ap_ue_id h \<noteq> 0" and "s1mme_id (mme_tabs s) (mme_s1ap_ue_id h) = Some guti"
    and "ue_ctx_m (mme_tabs s) guti = Some c"
    and "plays M
      (relay_calls fd sfd (nas_msg X h (complete_body b s1_dl)) (modify3 (gtp_hdr (rpkt s)) s1_dl c) @
       relay_calls sfd fd (bool_rsp h' True) (confirm3 X h guti c)) (world s) = Some w"
  shows "\<exists>s'. mme3_run M X U lfd [Events [readable fd], Events [readable sfd]] s = Inr s' \<and> world s' = w \<and>
    length (rbuf s') = 1024 \<and> gtp_hdr (rpkt s') = h' \<and>
    fdmap s' = (fdmap s)(sfd := None, fd \<mapsto>
      m\<lparr>act := 1, initial_fd := sfd, mbuf := zero_buf, md_msui := 0, buflen := 0\<rparr>) \<and>
    mme_tabs s' = mme3_connected guti (mme3_active guti s1_dl (mme_tabs s))"
proof -
  let ?m = "m\<lparr>md_msui := mme_s1ap_ue_id h, act := 6, buflen := 0, mbuf := zero_buf, initial_fd := fd\<rparr>"
  let ?c = "c\<lparr>s1_uteid_dl_m := s1_dl, emm_state_m := 1\<rparr>"
  obtain w1 where calls: "plays M (relay_calls fd sfd (nas_msg X h (complete_body b s1_dl))
        (modify3 (gtp_hdr (rpkt s)) s1_dl c)) (world s) = Some w1"
      "plays M (relay_calls sfd fd (bool_rsp h' True) (confirm3 X h guti c)) w1 = Some w"
    using assms(13) by (elim plays_appendE)
  obtain s1 where s1: "mme3_request M X U fd m s = Inr s1" "world s1 = w1" "length (rbuf s1) = 1024"
      "s1ap_hdr (rpkt s1) = h" "fdmap s1 = (fdmap s)(fd := None, sfd \<mapsto> ?m)"
      "mme_tabs s1 = mme3_active guti s1_dl (mme_tabs s)"
    using mme3_complete_event [OF X assms(9-12,8), of fd m M b s1_dl w1 U] calls(1) assms(4,7)
    by (auto simp: calls_defs)
  have ctx: "ue_ctx_m (mme_tabs s1) guti = Some ?c" and id: "s1mme_id (mme_tabs s1) (md_msui ?m) = Some guti"
    and none: "((fdmap s1)(sfd := None)) (initial_fd ?m) = None" and conf: "confirm3 X h guti ?c = confirm3 X h guti c"
    using s1(5,6) assms(11,12) by (simp_all add: mme3_active_def upd_ue_def modify_at_def confirm3_def)
  obtain s2 where s2: "mme3_modify_reply M X sfd ?m s1 = Inr s2" "world s2 = w" "length (rbuf s2) = 1024"
      "gtp_hdr (rpkt s2) = h'" "fdmap s2 = (fdmap s1)(sfd := None, fd \<mapsto>
         ?m\<lparr>act := 1, initial_fd := sfd, mbuf := zero_buf, md_msui := 0, buflen := 0\<rparr>)"
      "mme_tabs s2 = mme3_connected guti (mme_tabs s1)"
    using mme3_modify_reply_event [OF X id ctx s1(3) none, of M h' w] calls(2) s1(2,4) conf
    by (auto simp: calls_defs)
  have "mme3_event M X U lfd (readable fd) s = Inr s1" "mme3_event M X U lfd (readable sfd) s1 = Inr s2"
    using assms(2,3,5,6) s1 s2(1) by (simp_all add: mme3_event_known mme3_handle_def)
  then show ?thesis
    using s1 s2 by (simp add: mme3_run_def fun_upd_twist)
qed

definition mme3_detach_calls :: "int \<Rightarrow> int \<Rightarrow> u8 list \<Rightarrow> u8 list \<Rightarrow> u8 list \<Rightarrow> u8 list \<Rightarrow> call list" where
  "mme3_detach_calls fd sfd req req11 rsp11 msg =
     relay_calls fd sfd req req11 @
     [Ctl Ctl_del sfd, Read sfd (frame rsp11), Write fd (frame msg), Close sfd, Ctl Ctl_del fd, Close fd]"

lemma mme3_detach_phase:
  assumes X: "crypto_ok X"
    and "fdmap s fd = Some m" and "act m = 1" and "initial_fd m = sfd" and "fd \<noteq> lfd" and "sfd \<noteq> lfd"
    and "((fdmap s)(fd := None)) sfd = None" and "length (rbuf s) = 1024"
    and "msg_type_s h = 5" and "mme_s1ap_ue_id h \<noteq> 0" and "s1mme_id (mme_tabs s) (mme_s1ap_ue_id h) = Some guti"
    and "ue_ctx_m (mme_tabs s) guti = Some c"
    and "plays M (mme3_detach_calls fd sfd (nas_msg X h (detach_body guti' ksi dt)) (detach3 (gtp_hdr (rpkt s)) c)
        (bool_rsp h' True) (farewell3 X h)) (world s) = Some w"
  shows "\<exists>s'. mme3_run M X U lfd [Events [readable fd], Events [readable sfd]] s = Inr s' \<and> world s' = w \<and>
    length (rbuf s') = 1024 \<and> fdmap s' = (fdmap s)(fd := None, sfd := None) \<and>
    mme_tabs s' = mme_removed (mme_s1ap_ue_id h) guti (mme_tabs s)"
proof -
  let ?m = "m\<lparr>md_msui := mme_s1ap_ue_id h, act := 7, buflen := 0, mbuf := zero_buf, initial_fd := fd\<rparr>"
  obtain w1 where calls: "plays M (relay_calls fd sfd (nas_msg X h (detach_body guti' ksi dt))
        (detach3 (gtp_hdr (rpkt s)) c)) (world s) = Some w1"
      "plays M [Ctl Ctl_del sfd, Read sfd (frame (bool_rsp h' True)), Write fd (frame (farewell3 X h)), Close sfd,
        Ctl Ctl_del fd, Close fd] w1 = Some w"
    using assms(13) unfolding mme3_detach_calls_def by (elim plays_appendE)
  obtain s1 where s1: "mme3_request M X U fd m s = Inr s1" "world s1 = w1" "length (rbuf s1) = 1024"
      "s1ap_hdr (rpkt s1) = h" "fdmap s1 = (fdmap s)(fd := None, sfd \<mapsto> ?m)" "mme_tabs s1 = mme_tabs s"
    using mme3_detach_event [OF X assms(9-12,8), of fd m M guti' ksi dt w1 U] calls(1) assms(4,7)
    by (auto simp: calls_defs)
  obtain s2 where s2: "mme3_detach_reply M X sfd ?m s1 = Inr s2" "world s2 = w" "length (rbuf s2) = 1024"
      "fdmap s2 = (fdmap s1)(sfd := None, fd := None)"
      "mme_tabs s2 = mme_removed (mme_s1ap_ue_id h) guti (mme_tabs s1)"
    using mme3_detach_reply_event [OF X, of s1 ?m guti c M sfd h' w] calls(2) s1(2-4,6) assms(11,12) by auto
  have "mme3_event M X U lfd (readable fd) s = Inr s1" "mme3_event M X U lfd (readable sfd) s1 = Inr s2"
    using assms(2,3,5,6) s1 s2(1) by (simp_all add: mme3_event_known mme3_handle_def)
  then show ?thesis
    using s1 s2 by (simp add: mme3_run_def fun_upd_twist)
qed

subsection \<open>The whole attach\<close>

text \<open>
  The context of a UE after each phase, from its context \<open>c\<close> before (\<open>new_mme_ue\<close> at first).
\<close>

definition ctx_challenged :: "u64 \<Rightarrow> u32 \<Rightarrow> u32 \<Rightarrow> u64 \<Rightarrow> u16 \<Rightarrow> u64 \<Rightarrow> u64 \<Rightarrow> mme_ue \<Rightarrow> mme_ue" where
  "ctx_challenged imsi enb mme_id tai cap xres k_asme c =
     (mme_ue_init imsi enb mme_id tai cap c)\<lparr>xres_m := xres, k_asme_m := k_asme, ksi_asme_m := 1\<rparr>"

definition ctx_crypt :: "mme_ue \<Rightarrow> mme_ue" where
  "ctx_crypt c = c\<lparr>nas_enc_algo_m := 1, k_nas_enc_m := k_asme_m c + 1 + count_m c + bearer_m c + dir_m c\<rparr>"

definition ctx_session :: "u32 \<Rightarrow> string \<Rightarrow> u32 \<Rightarrow> u32 \<Rightarrow> u32 \<Rightarrow> mme_ue \<Rightarrow> mme_ue" where
  "ctx_session t ip s1_ul s5_ul s5_dl c =
     c\<lparr>pgw_s5_port_m := v3_g_pgw_s5_port, pgw_s5_ip_addr_m := v3_g_pgw_s5_ip_addr, s11_cteid_mme_m := t,
       eps_bearer_id_m := 5, apn_in_use_m := 0, ip_addr_m := ip, s11_cteid_sgw_m := t,
       s1_uteid_ul_m := s1_ul, s5_uteid_ul_m := s5_ul, s5_uteid_dl_m := s5_dl, tai_list_m := [tai_m c],
       tau_timer_m := v3_g_timer, e_rab_id_m := 5, k_enodeb_m := k_asme_m c\<rparr>"

lemma phase_contexts:
  "ue_ctx_m (mme_challenged guti imsi enb tai cap xres k_asme m) guti =
     Some (ctx_challenged imsi enb (ucast (ue_count m + 1)) tai cap xres k_asme (ue_at guti m))"
  "s1mme_id (mme_challenged guti imsi enb tai cap xres k_asme m) (ucast (ue_count m + 1)) = Some guti"
  "ue_ctx_m m guti = Some c \<Longrightarrow> ue_ctx_m (set_crypt_context guti m) guti = Some (ctx_crypt c)"
  "ue_ctx_m m guti = Some c \<Longrightarrow>
   ue_ctx_m (mme3_session guti t ip s1_ul s5_ul s5_dl m) guti = Some (ctx_session t ip s1_ul s5_ul s5_dl c)"
  "ue_ctx_m m guti = Some c \<Longrightarrow> ue_ctx_m (mme3_connected guti (mme3_active guti s1_dl m)) guti =
     Some (c\<lparr>s1_uteid_dl_m := s1_dl, emm_state_m := 1, ecm_state_m := 1\<rparr>)"
  "s1mme_id (set_crypt_context guti m) = s1mme_id m"
  "s1mme_id (mme3_session guti t ip s1_ul s5_ul s5_dl m) = s1mme_id m"
  "s1mme_id (mme3_connected guti (mme3_active guti s1_dl m)) = s1mme_id m"
  by (simp_all add: mme_challenged_def Let_def set_crypt_context_def mme3_session_def mme3_connected_def
      mme3_active_def upd_ue_def modify_at_def ue_at_def ctx_challenged_def ctx_crypt_def ctx_session_def)

lemma attach_phase_ctx:
  "xres_m (ctx_challenged imsi enb i tai cap xres k_asme c) = xres"
  by (simp add: ctx_challenged_def)

text \<open>Everything that the four messages of the UE make the MME read and write, in order.\<close>

definition mme3_attach_calls ::
  "ext_lib \<Rightarrow> int \<Rightarrow> int \<Rightarrow> int \<Rightarrow> 'w mme3 \<Rightarrow> u64 \<Rightarrow> u32 \<Rightarrow> s1ap \<Rightarrow> s1ap \<Rightarrow> s1ap \<Rightarrow> s1ap \<Rightarrow> u64 \<Rightarrow> u64 \<Rightarrow> u64 \<Rightarrow> u16 \<Rightarrow>
   diameter \<Rightarrow> u64 \<Rightarrow> u64 \<Rightarrow> u64 \<Rightarrow> u64 \<Rightarrow> gtp \<Rightarrow> string \<Rightarrow> u32 \<Rightarrow> u32 \<Rightarrow> u32 \<Rightarrow> u8 \<Rightarrow> u32 \<Rightarrow> gtp \<Rightarrow> call list" where
  "mme3_attach_calls X fd hfd sfd s guti t h1 h2 h3 h4 imsi tai ksi cap dh autn rand_num xres k_asme g5 ip s1_ul s5_ul s5_dl
     b s1_dl g6 =
     (let i = ucast (ue_count (mme_tabs s) + 1);
          c1 = ctx_challenged imsi (enodeb_s1ap_ue_id h1) i tai cap xres k_asme (ue_at guti (mme_tabs s));
          c2 = ctx_crypt c1; c3 = ctx_session t ip s1_ul s5_ul s5_dl c2 in
      (ask_calls fd hfd hss_ip3 hss_my_port (attach_req h1 imsi tai ksi cap) (autn_req3 s guti imsi) @
       challenge_calls fd hfd (autn_rsp_bytes dh autn rand_num xres k_asme)
         (autn_challenge (s1ap_init 1 24 (enodeb_s1ap_ue_id h1) i h1) autn rand_num 1)) @
      relay_calls fd fd (autn_response h2 xres) (smc3 X h2 c1) @
      (ask_calls fd sfd sgw_ip3 sgw_s11_portnum (nas_msg X h3 (bool_bytes True)) (create3 (gtp_hdr (rpkt s)) t c2) @
       relay_calls sfd fd (create_rsp11 g5 t ip s1_ul s5_ul s5_dl)
         (accept3 X h3 guti 5 (c2\<lparr>eps_bearer_id_m := 5\<rparr>) s1_ul ip)) @
      (relay_calls fd sfd (nas_msg X h4 (complete_body b s1_dl)) (modify3 g5 s1_dl c3) @
       relay_calls sfd fd (bool_rsp g6 True) (confirm3 X h4 guti c3)))"

definition mme3_attach_events :: "int \<Rightarrow> int \<Rightarrow> int \<Rightarrow> batch list" where
  "mme3_attach_events fd hfd sfd =
     [Events [readable fd], Events [writable hfd], Events [readable hfd]] @ [Events [readable fd]] @
     [Events [readable fd], Events [writable sfd], Events [readable sfd]] @ [Events [readable fd], Events [readable sfd]]"

lemma plays_append4E:
  assumes "plays M (a @ b @ c @ d) w = Some w'"
  obtains w1 w2 w3 where "plays M a w = Some w1" and "plays M b w1 = Some w2" and "plays M c w2 = Some w3"
    and "plays M d w3 = Some w'"
  using assms by (elim plays_appendE) (rule that)

text \<open>
  The UE ends registered and connected, with the identifiers of the SGW and the address of the PGW in
  its context, and its connection waits for the next message.
\<close>

lemma mme3_attach_procedure:
  assumes X: "crypto_ok X"
    and "fdmap s fd = Some m" and "act m = 1" and "distinct [lfd, fd, hfd, sfd]"
    and "fdmap s hfd = None" and "fdmap s sfd = None" and "length (rbuf s) = 1024" and "length (mbuf U) = 500"
    and "get_guti (gummei (mme_ids_of (mme_tabs s))) imsi = Inr guti" and "guti \<noteq> 0" and "gettid guti = Inr t"
    and "short_ip ip"
    and "mme_s1ap_ue_id h1 = 0" and "ucast (ue_count (mme_tabs s) + 1) = i" and "i \<noteq> 0"
    and "msg_type_s h2 = 2" and "mme_s1ap_ue_id h2 = i" and "msg_type_s h3 = 3" and "mme_s1ap_ue_id h3 = i"
    and "msg_type_s h4 = 4" and "mme_s1ap_ue_id h4 = i"
    and "plays M (mme3_attach_calls X fd hfd sfd s guti t h1 h2 h3 h4 imsi tai ksi cap dh autn rand_num xres k_asme
      g5 ip s1_ul s5_ul s5_dl b s1_dl g6) (world s) = Some w"
  shows "\<exists>s' c. mme3_run M X U lfd (mme3_attach_events fd hfd sfd) s = Inr s' \<and> world s' = w \<and>
    s1mme_id (mme_tabs s') i = Some guti \<and> ue_ctx_m (mme_tabs s') guti = Some c \<and>
    emm_state_m c = 1 \<and> ecm_state_m c = 1 \<and> imsi_m c = imsi \<and> ip_addr_m c = ip \<and> s11_cteid_sgw_m c = t \<and>
    s1_uteid_ul_m c = s1_ul \<and> s1_uteid_dl_m c = s1_dl \<and>
    (\<exists>m'. fdmap s' fd = Some m' \<and> act m' = 1 \<and> initial_fd m' = sfd)"
proof -
  let ?c1 = "ctx_challenged imsi (enodeb_s1ap_ue_id h1) i tai cap xres k_asme (ue_at guti (mme_tabs s))"
  let ?c2 = "ctx_crypt ?c1"
  let ?c3 = "ctx_session t ip s1_ul s5_ul s5_dl ?c2"
  have neq: "fd \<noteq> lfd" "hfd \<noteq> lfd" "sfd \<noteq> lfd" "hfd \<noteq> fd" "sfd \<noteq> fd" "sfd \<noteq> hfd"
    using assms(4) by auto
  obtain w1 w2 w3 where calls:
      "plays M (ask_calls fd hfd hss_ip3 hss_my_port (attach_req h1 imsi tai ksi cap) (autn_req3 s guti imsi) @
         challenge_calls fd hfd (autn_rsp_bytes dh autn rand_num xres k_asme)
           (autn_challenge (s1ap_init 1 24 (enodeb_s1ap_ue_id h1) i h1) autn rand_num 1)) (world s) = Some w1"
      "plays M (relay_calls fd fd (autn_response h2 xres) (smc3 X h2 ?c1)) w1 = Some w2"
      "plays M (ask_calls fd sfd sgw_ip3 sgw_s11_portnum (nas_msg X h3 (bool_bytes True))
           (create3 (gtp_hdr (rpkt s)) t ?c2) @
         relay_calls sfd fd (create_rsp11 g5 t ip s1_ul s5_ul s5_dl)
           (accept3 X h3 guti 5 (?c2\<lparr>eps_bearer_id_m := 5\<rparr>) s1_ul ip)) w2 = Some w3"
      "plays M (relay_calls fd sfd (nas_msg X h4 (complete_body b s1_dl)) (modify3 g5 s1_dl ?c3) @
         relay_calls sfd fd (bool_rsp g6 True) (confirm3 X h4 guti ?c3)) w3 = Some w"
    using assms(22) unfolding mme3_attach_calls_def Let_def assms(14) by (rule plays_append4E)
  have none: "((fdmap s)(fd := None)) hfd = None"
    using assms(5) by simp
  obtain s1 where s1: "mme3_run M X U lfd [Events [readable fd], Events [writable hfd], Events [readable hfd]] s = Inr s1"
      "world s1 = w1" "length (rbuf s1) = 1024" "gtp_hdr (rpkt s1) = gtp_hdr (rpkt s)"
      "fdmap s1 = (fdmap s)(hfd := None, fd \<mapsto>
         \<lparr>act = 1, initial_fd = 0, mbuf = zero_buf, buflen = 0, md_msui = 0\<rparr>)"
      "mme_tabs s1 = mme_challenged guti imsi (enodeb_s1ap_ue_id h1) tai cap xres k_asme (mme_tabs s)"
    using mme3_attach_phase [OF assms(2,3) neq(1,2) none assms(7,8,13,9), of M tai ksi cap dh autn rand_num xres k_asme w1 X]
      calls(1) assms(14) by auto
  have id1: "s1mme_id (mme_tabs s1) i = Some guti" and c1: "ue_ctx_m (mme_tabs s1) guti = Some ?c1"
    using phase_contexts(1,2) s1(6) assms(14) by auto
  let ?m1 = "\<lparr>act = 1, initial_fd = 0, mbuf = zero_buf, buflen = 0, md_msui = 0\<rparr>"
  have known1: "fdmap s1 fd = Some ?m1" and "act ?m1 = 1" and id2: "mme_s1ap_ue_id h2 \<noteq> 0"
    "s1mme_id (mme_tabs s1) (mme_s1ap_ue_id h2) = Some guti"
    using s1(5) id1 assms(15,17) by simp_all
  then obtain s2 where s2: "mme3_run M X U lfd [Events [readable fd]] s1 = Inr s2" "world s2 = w2" "length (rbuf s2) = 1024"
      "gtp_hdr (rpkt s2) = gtp_hdr (rpkt s1)" "fdmap s2 = fdmap s1" "mme_tabs s2 = set_crypt_context guti (mme_tabs s1)"
    using mme3_autn_phase [OF known1 _ neq(1) s1(3) X assms(16) id2 assms(10) c1, of M w2 U] calls(2) s1(2)
    by (auto simp: attach_phase_ctx)
  have known2: "fdmap s2 fd = Some ?m1" and id3: "mme_s1ap_ue_id h3 \<noteq> 0"
    "s1mme_id (mme_tabs s2) (mme_s1ap_ue_id h3) = Some guti" and c2: "ue_ctx_m (mme_tabs s2) guti = Some ?c2"
    and none2: "((fdmap s2)(fd := None)) sfd = None"
    using known1 s2(5,6) id1 c1 assms(6,15,19) s1(5) neq by (simp_all add: phase_contexts)
  let ?m3 = "U\<lparr>act := 1, initial_fd := sfd, mbuf := zero_buf, md_msui := 0, buflen := 0\<rparr>"
  obtain s3 where s3: "mme3_run M X U lfd [Events [readable fd], Events [writable sfd], Events [readable sfd]] s2 = Inr s3"
      "world s3 = w3" "length (rbuf s3) = 1024" "gtp_hdr (rpkt s3) = g5"
      "fdmap s3 = (fdmap s2)(sfd := None, fd \<mapsto> ?m3)"
      "mme_tabs s3 = mme3_session guti t ip s1_ul s5_ul s5_dl (mme_tabs s2)"
    using mme3_session_phase [OF X known2 _ neq(1,3) none2 s2(3) assms(8,18) id3 c2 assms(11,12),
        of M g5 s1_ul s5_ul s5_dl w3] calls(3) s2(2,4) s1(4) by auto
  have known3: "fdmap s3 fd = Some ?m3" and id4: "mme_s1ap_ue_id h4 \<noteq> 0"
    "s1mme_id (mme_tabs s3) (mme_s1ap_ue_id h4) = Some guti" and c3: "ue_ctx_m (mme_tabs s3) guti = Some ?c3"
    and none3: "((fdmap s3)(fd := None)) sfd = None"
    using s3(5,6) id3 c2 assms(15,19,21) neq by (simp_all add: phase_contexts)
  let ?m4 = "?m3\<lparr>act := 1, initial_fd := sfd, mbuf := zero_buf, md_msui := 0, buflen := 0\<rparr>"
  obtain s4 where s4: "mme3_run M X U lfd [Events [readable fd], Events [readable sfd]] s3 = Inr s4" "world s4 = w"
      "fdmap s4 = (fdmap s3)(sfd := None, fd \<mapsto> ?m4)"
      "mme_tabs s4 = mme3_connected guti (mme3_active guti s1_dl (mme_tabs s3))"
    using mme3_complete_phase [OF X known3 _ _ neq(1,3) none3 s3(3) assms(20) id4 c3, of M b s1_dl g6 w U]
      calls(4) s3(2,4) by auto
  have "mme3_run M X U lfd (mme3_attach_events fd hfd sfd) s = Inr s4"
    using s1(1) s2(1) s3(1) s4(1) by (simp add: mme3_attach_events_def mme3_run_append del: append_Cons append_Nil)
  moreover have "s1mme_id (mme_tabs s4) i = Some guti"
    using s4(4) id4(2) assms(21) by (simp add: phase_contexts)
  moreover have "ue_ctx_m (mme_tabs s4) guti = Some (?c3\<lparr>s1_uteid_dl_m := s1_dl, emm_state_m := 1, ecm_state_m := 1\<rparr>)"
    using s4(4) c3 by (simp add: phase_contexts)
  moreover have "fdmap s4 fd = Some ?m4"
    using s4(3) by simp
  ultimately show ?thesis
    using s4(2) by (simp add: ctx_session_def ctx_crypt_def ctx_challenged_def mme_ue_init_def)
qed

end
