(* ===== verification/Epc3_Pgw.thy ===== *)
theory Epc3_Pgw
  imports Epc3_Mtcp Epc_Pgw
begin

section \<open>Packet Data Network Gateway of version 3.0 (kby_pgw.h, kby_pgw.cpp)\<close>

text \<open>
  The event-driven PGW. The tables are those of version 1.0 (\<open>pgw\<close>, \<open>pgw_ue\<close>) but local variables of
  \<open>run\<close>, without locks. A connection has one state, 1: a request of the SGW, create session or
  detach. All other variables of \<open>run\<close> are written by a handler before it reads them.
\<close>

record pgw_mdata = mdata +
  md_idfr :: u32

definition zero_pgw_mdata :: pgw_mdata where
  "zero_pgw_mdata = \<lparr>act = 0, initial_fd = 0, mbuf = zero_buf, buflen = 0, md_idfr = 0\<rparr>"

record 'w pgw3 = "('w, pgw_mdata) loop" +
  pgw_tabs :: pgw

definition set_ip_addrs3 :: "u64 \<rightharpoonup> string" where
  "set_ip_addrs3 = set_ip_addrs_loop 2000 0 1 3 Map.empty"

definition new_pgw3 :: "'w \<Rightarrow> u8 list \<Rightarrow> packet \<Rightarrow> 'w pgw3" where
  "new_pgw3 w d p =
     \<lparr>world = w, fdmap = Map.empty, rbuf = d, rpkt = p,
      pgw_tabs = \<lparr>s5_id_p = Map.empty, sgi_id = Map.empty, ue_ctx_p = Map.empty, ip_addrs = set_ip_addrs3\<rparr>\<rparr>"

definition handle_pgw_accept :: "'w mtcp \<Rightarrow> int \<Rightarrow> 'w pgw3 \<Rightarrow> 'w pgw3 res" where
  "handle_pgw_accept M lfd s =
     accept_all M lfd \<lparr>act = 1, initial_fd = 0, mbuf = zero_buf, buflen = 0, md_idfr = 0\<rparr>
       ''Error adding sgw accept to epoll'' s"

definition pgw_send_a3 :: "'w mtcp \<Rightarrow> int \<Rightarrow> packet \<Rightarrow> 'w pgw3 \<Rightarrow> 'w pgw3 res" where
  "pgw_send_a3 M cur_fd pkt s =
     bindE (write_pkt M cur_fd pkt ''Error PGW write back to SGW'' s) (\<lambda>s.
     ctl_or_exit M neg (Ctl_add EPOLLIN) cur_fd ''Error adding to epoll'' s)"

text \<open>The branch \<open>msg_type == 1\<close> of \<open>case 1\<close>, behind the header.\<close>

definition pgw3_create :: "'w mtcp \<Rightarrow> int \<Rightarrow> 'w pgw3 \<Rightarrow> 'w pgw3 res" where
  "pgw3_create M cur_fd s =
     bindE (extract_u32 (rpkt s)) (\<lambda>(s5_cteid_dl, pkt).
     bindE (extract_u64 pkt) (\<lambda>(imsi, pkt).
     bindE (extract_u8 pkt) (\<lambda>(eps_bearer_id, pkt).
     bindE (extract_u32 pkt) (\<lambda>(s5_uteid_dl, pkt).
     bindE (extract_u64 pkt) (\<lambda>(apn_in_use, pkt).
     bindE (extract_u64 pkt) (\<lambda>(tai, pkt).
     let t = pgw_tabs s; s5_cteid_ul = s5_cteid_dl; s5_uteid_ul = s5_cteid_dl;
         ue_ip_addr = at_or '''' (ip_addrs t) imsi;
         t = t\<lparr>ip_addrs := op_idx '''' (ip_addrs t) imsi\<rparr>;
         t = t\<lparr>s5_id_p := (s5_id_p t)(s5_uteid_ul \<mapsto> imsi)\<rparr>;
         t = t\<lparr>sgi_id := (sgi_id t)(ue_ip_addr \<mapsto> imsi)\<rparr>;
         t = t\<lparr>ue_ctx_p := modify_at new_pgw_ue (ue_ctx_p t) imsi (pgw_ue_init ue_ip_addr tai
               apn_in_use eps_bearer_id s5_uteid_ul s5_uteid_dl s5_cteid_ul s5_cteid_dl)\<rparr> in
     bindE (append_u32 s5_cteid_ul (clear_pkt pkt)) (\<lambda>pkt.
     bindE (append_u8 eps_bearer_id pkt) (\<lambda>pkt.
     bindE (append_u32 s5_uteid_ul pkt) (\<lambda>pkt.
     bindE (append_string ue_ip_addr pkt) (\<lambda>pkt.
     bindE (prepend_gtp_hdr 2 1 (len16 pkt) s5_cteid_dl pkt) (\<lambda>pkt.
     bindE (prepend_len pkt) (\<lambda>pkt.
     bindE (copy_pkt pkt) (\<lambda>arg.
     pgw_send_a3 M cur_fd arg (s\<lparr>rpkt := pkt, pgw_tabs := t\<rparr>))))))))))))))"

text \<open>The branch \<open>msg_type == 4\<close>.\<close>

definition pgw3_detach :: "'w mtcp \<Rightarrow> int \<Rightarrow> 'w pgw3 \<Rightarrow> 'w pgw3 res" where
  "pgw3_detach M cur_fd s =
     (let pkt = rpkt s; t = pgw_tabs s in
      case s5_id_p t (teid (gtp_hdr pkt)) of
        None \<Rightarrow> Inl (Exit ''Error: imsi not found in detach'')
      | Some imsi \<Rightarrow>
        bindE (extract_u8 pkt) (\<lambda>(eps_bearer_id, pkt).
        bindE (extract_u64 pkt) (\<lambda>(tai, pkt).
        bindE (gettid imsi) (\<lambda>tid.
        if tid \<noteq> teid (gtp_hdr pkt) then Inl (Exit ''GUTI not equal Detach'')
        else
          let c = at_or new_pgw_ue (ue_ctx_p t) imsi;
              t = t\<lparr>ue_ctx_p := op_idx new_pgw_ue (ue_ctx_p t) imsi\<rparr> in
          bindE (append_bool True (clear_pkt pkt)) (\<lambda>pkt.
          bindE (prepend_gtp_hdr 2 4 (len16 pkt) (s5_cteid_dl_p c) pkt) (\<lambda>pkt.
          bindE (prepend_len pkt) (\<lambda>pkt.
          let t = t\<lparr>s5_id_p := (s5_id_p t)(s5_cteid_ul_p c := None)\<rparr>;
              t = t\<lparr>sgi_id := (sgi_id t)(ip_addr_p c := None)\<rparr>;
              t = t\<lparr>ue_ctx_p := (ue_ctx_p t)(imsi := None)\<rparr> in
          bindE (write_pkt M cur_fd pkt ''Error PGW write back to SGW detach'' (s\<lparr>rpkt := pkt, pgw_tabs := t\<rparr>)) (\<lambda>s.
          Inr (close_fd M cur_fd (fd_erase cur_fd s))))))))))"

definition pgw3_request :: "'w mtcp \<Rightarrow> int \<Rightarrow> 'w pgw3 \<Rightarrow> 'w pgw3 res" where
  "pgw3_request M cur_fd s =
     bindE (recv_pkt M True cur_fd ''Error pgw epoll read delete from epoll'' ''ERROR: read packet from SGW'' s) (\<lambda>s.
     bindE (extract_gtp_hdr (rpkt s)) (\<lambda>pkt.
     let s = s\<lparr>rpkt := pkt\<rparr> in
     if msg_type_g (gtp_hdr pkt) = 1 then pgw3_create M cur_fd s
     else if msg_type_g (gtp_hdr pkt) = 4 then pgw3_detach M cur_fd s
     else Inr s))"

text \<open>The \<open>switch\<close> has no default.\<close>

definition pgw3_handle :: "'w mtcp \<Rightarrow> event \<Rightarrow> pgw_mdata \<Rightarrow> 'w pgw3 \<Rightarrow> 'w pgw3 res" where
  "pgw3_handle M ev fddata s = (if act fddata = 1 then pgw3_request M (ev_fd ev) s else Inr s)"

definition pgw3_event :: "'w mtcp \<Rightarrow> int \<Rightarrow> event \<Rightarrow> 'w pgw3 \<Rightarrow> 'w pgw3 res" where
  "pgw3_event M lfd = on_event M lfd (handle_pgw_accept M lfd) zero_pgw_mdata (pgw3_handle M)"

definition pgw3_run :: "'w mtcp \<Rightarrow> int \<Rightarrow> batch list \<Rightarrow> 'w pgw3 \<Rightarrow> 'w pgw3 res" where
  "pgw3_run M lfd = main_loop (pgw3_event M lfd)"

definition pgw3_main :: "'w mtcp \<Rightarrow> batch list \<Rightarrow> 'w \<Rightarrow> u8 list \<Rightarrow> packet \<Rightarrow> 'w pgw3 res" where
  "pgw3_main M bs w d p =
     bindE (listen_on M pgw_ip3 pgw_s5_portnum w) (\<lambda>(lfd, w). pgw3_run M lfd bs (new_pgw3 w d p))"

subsection \<open>Invariant\<close>

text \<open>
  In every state of the loop: entries of \<open>fdmap\<close> are well-formed and in state 1 (or 0, an entry
  that \<open>fdmap[cur_fd]\<close> inserted); the address plan keeps its entries; an address in \<open>sgi_id\<close> is the
  one the plan gives to that subscriber; a context holds the address of its subscriber and one
  identifier for all its tunnel ends.
\<close>

definition pgw_tabs_ok :: "pgw \<Rightarrow> bool" where
  "pgw_tabs_ok t \<longleftrightarrow>
     (\<forall>imsi ip. set_ip_addrs3 imsi = Some ip \<longrightarrow> ip_addrs t imsi = Some ip) \<and>
     (\<forall>ip imsi. sgi_id t ip = Some imsi \<longrightarrow> at_or '''' (ip_addrs t) imsi = ip) \<and>
     (\<forall>imsi c. ue_ctx_p t imsi = Some c \<longrightarrow>
        ip_addr_p c = at_or '''' (ip_addrs t) imsi \<and>
        s5_uteid_ul_p c = s5_cteid_ul_p c \<and> s5_cteid_dl_p c = s5_cteid_ul_p c)"

definition pgw3_inv :: "'w pgw3 \<Rightarrow> bool" where
  "pgw3_inv s \<longleftrightarrow> loop_ok (mdata_ok {0, 1}) s \<and> pgw_tabs_ok (pgw_tabs s)"

lemma pgw3_frame [simp, loop_inv_simps]:
  "loop_ok ok (s\<lparr>pgw_tabs := t\<rparr>) = loop_ok ok s"
  "pgw_tabs (fd_erase fd s) = pgw_tabs s" "pgw_tabs (fd_insert fd m s) = pgw_tabs s"
  "pgw_tabs (close_fd M fd s) = pgw_tabs s" "loop_ok ok (close_fd M fd s) = loop_ok ok s"
  by (simp_all add: loop_ok_def fd_erase_def fd_insert_def close_fd_def split: option.splits)

lemma pgw_tabs_ok_created:
  assumes "pgw_tabs_ok t"
  shows "pgw_tabs_ok
    (t\<lparr>ip_addrs := op_idx '''' (ip_addrs t) imsi, s5_id_p := a, sgi_id := (sgi_id t)(at_or '''' (ip_addrs t) imsi \<mapsto> imsi),
       ue_ctx_p := modify_at new_pgw_ue (ue_ctx_p t) imsi (pgw_ue_init (at_or '''' (ip_addrs t) imsi) tai apn b i d i i)\<rparr>)"
  using assms by (auto simp: pgw_tabs_ok_def modify_at_def pgw_ue_init_def op_idx_def at_or_def)

lemma pgw_tabs_ok_detached:
  assumes "pgw_tabs_ok t"
  shows "pgw_tabs_ok (t\<lparr>s5_id_p := a, sgi_id := (sgi_id t)(ip := None), ue_ctx_p := (ue_ctx_p t)(imsi := None)\<rparr>)"
  using assms by (auto simp: pgw_tabs_ok_def split: if_splits)

lemma pgw3_create_inv: "pgw3_inv s \<Longrightarrow> pgw3_create M fd s = Inr s' \<Longrightarrow> pgw3_inv s'"
  unfolding pgw3_create_def pgw_send_a3_def pgw3_inv_def Let_def
  by (auto elim!: bindE_InrE loop_elims simp: loop_inv_simps split: prod.splits
      intro: pgw_tabs_ok_created [simplified])

lemma pgw3_detach_inv: "pgw3_inv s \<Longrightarrow> pgw3_detach M fd s = Inr s' \<Longrightarrow> pgw3_inv s'"
  unfolding pgw3_detach_def pgw3_inv_def Let_def
  by (auto elim!: bindE_InrE loop_elims simp: loop_inv_simps pgw_tabs_ok_detached
      split: prod.splits option.splits if_splits)

lemma pgw3_inv_recv:
  "pgw3_inv s \<Longrightarrow> length d = length (rbuf s) \<Longrightarrow> pgw3_inv (s\<lparr>rbuf := d, world := w, rpkt := p\<rparr>)"
  by (simp add: pgw3_inv_def loop_ok_def)

lemma pgw3_request_inv: "pgw3_inv s \<Longrightarrow> pgw3_request M fd s = Inr s' \<Longrightarrow> pgw3_inv s'"
  unfolding pgw3_request_def Let_def
  by (auto elim!: bindE_InrE recv_pktE split: if_splits
      intro: pgw3_inv_recv pgw3_create_inv [OF pgw3_inv_recv] pgw3_detach_inv [OF pgw3_inv_recv])

text \<open>The loop of the PGW keeps its invariant, whatever the stack answers and whatever arrives.\<close>

interpretation pgw3: event_program M lfd "handle_pgw_accept M lfd" zero_pgw_mdata "pgw3_handle M" pgw3_inv
proof
  fix s s' :: "'a pgw3" and w fd ev m
  show "pgw3_inv s \<Longrightarrow> pgw3_inv (s\<lparr>world := w\<rparr>)"
    by (simp add: pgw3_inv_def loop_inv_simps)
  show "pgw3_inv s \<Longrightarrow> handle_pgw_accept M lfd s = Inr s' \<Longrightarrow> pgw3_inv s'"
    unfolding handle_pgw_accept_def
    by (erule accept_all_inv) (auto simp: pgw3_inv_def loop_inv_simps mdata_ok_def zero_buf_def)
  show "pgw3_inv s \<Longrightarrow> pgw3_inv (s\<lparr>fdmap := op_idx zero_pgw_mdata (fdmap s) fd\<rparr>)"
    by (auto simp: pgw3_inv_def mdata_ok_def zero_pgw_mdata_def zero_buf_def intro: loop_inv_simps)
  show "pgw3_inv s \<Longrightarrow> fdmap s (ev_fd ev) = Some m \<Longrightarrow> pgw3_handle M ev m s = Inr s' \<Longrightarrow> pgw3_inv s'"
    by (auto simp: pgw3_handle_def split: if_splits intro: pgw3_request_inv)
qed

lemma new_pgw3_inv: "length d = 1024 \<Longrightarrow> pgw3_inv (new_pgw3 w d p)"
  by (simp add: pgw3_inv_def new_pgw3_def loop_ok_def pgw_tabs_ok_def)

lemma pgw3_run_inv: "pgw3_inv s \<Longrightarrow> pgw3_run M lfd bs s = Inr s' \<Longrightarrow> pgw3_inv s'"
  unfolding pgw3_run_def pgw3_event_def by (rule pgw3.loop_inv)

end
