(* ===== verification/Epc3_Sgw.thy ===== *)
theory Epc3_Sgw
  imports Epc3_Mtcp Epc_Sgw
begin

section \<open>Serving Gateway of version 3.0 (kby_sgw.h, kby_sgw.cpp)\<close>

text \<open>
  The event-driven SGW. The tables are those of version 1.0 (\<open>sgw\<close>, \<open>sgw_ue\<close>; the handover table
  stays empty). The state of a connection is \<open>act\<close>: 1, a request of the MME; 2, the connection to
  the PGW is being opened; 3, the answer to a create session is awaited from the PGW; 4, the answer to
  a detach. While an MME waits, its connection is in no entry of \<open>fdmap\<close>; the entry of the
  connection to the PGW holds its descriptor.

  Of the variables of \<open>run\<close>, \<open>s11_cteid_mme\<close> and \<open>s5_uteid_dl\<close> survive an event: \<open>case 3\<close> reads what
  the last request left there. The others are written by each handler before it reads them.
\<close>

record sgw_mdata = mdata +
  md_tid :: u32
  md_guti :: u64

definition zero_sgw_mdata :: sgw_mdata where
  "zero_sgw_mdata = \<lparr>act = 0, initial_fd = 0, mbuf = zero_buf, buflen = 0, md_tid = 0, md_guti = 0\<rparr>"

record 'w sgw3 = "('w, sgw_mdata) loop" +
  sgw_tabs :: sgw
  v_s11_cteid_mme :: u32
  v_s5_uteid_dl :: u32

text \<open>The locals are uninitialised at first: arguments, as are the buffer and the headers.\<close>

definition new_sgw3 :: "'w \<Rightarrow> u8 list \<Rightarrow> packet \<Rightarrow> u32 \<Rightarrow> u32 \<Rightarrow> 'w sgw3" where
  "new_sgw3 w d p a b =
     \<lparr>world = w, fdmap = Map.empty, rbuf = d, rpkt = p, sgw_tabs = new_sgw, v_s11_cteid_mme = a, v_s5_uteid_dl = b\<rparr>"

text \<open>\<open>fddata.guti\<close> is not set here: \<open>g\<close> is what the local variable holds.\<close>

definition handle_sgw_accept :: "'w mtcp \<Rightarrow> u64 \<Rightarrow> int \<Rightarrow> 'w sgw3 \<Rightarrow> 'w sgw3 res" where
  "handle_sgw_accept M g lfd s =
     accept_all M lfd \<lparr>act = 1, initial_fd = 0, mbuf = zero_buf, buflen = 0, md_tid = 0, md_guti = g\<rparr>
       ''Error adding ran accept to epoll'' s"

subsection \<open>Helpers\<close>

definition handle_pgw_connect ::
  "'w mtcp \<Rightarrow> int \<Rightarrow> packet \<Rightarrow> sgw_mdata \<Rightarrow> string \<Rightarrow> int \<Rightarrow> 'w sgw3 \<Rightarrow> 'w sgw3 res" where
  "handle_pgw_connect M cur_fd pkt fddata pgw_s5_ip_addr pgw_s5_port s =
     bindE (open_conn M pgw_s5_ip_addr pgw_s5_port ''pgw'' s) (\<lambda>(pgw_fd, s).
     let s = fd_erase cur_fd s in
     bindE (pkt_wire pkt) (\<lambda>m.
     bindE (buf_write (mbuf fddata) 0 m) (\<lambda>b.
     Inr (fd_insert pgw_fd (fddata\<lparr>act := 2, initial_fd := cur_fd, mbuf := b, buflen := len pkt\<rparr>) s))))"

definition send_request_pgw :: "'w mtcp \<Rightarrow> int \<Rightarrow> sgw_mdata \<Rightarrow> 'w sgw3 \<Rightarrow> 'w sgw3 res" where
  "send_request_pgw M cur_fd fddata s =
     bindE (send_stored M cur_fd (mbuf fddata) (buflen fddata) ''pgw'' s) (\<lambda>s.
     Inr (fd_insert cur_fd (fddata\<lparr>act := 3, buflen := 0, mbuf := zero_buf\<rparr>) (fd_erase cur_fd s)))"

definition send_attach_four :: "'w mtcp \<Rightarrow> int \<Rightarrow> packet \<Rightarrow> 'w sgw3 \<Rightarrow> 'w sgw3 res" where
  "send_attach_four M cur_fd pkt s =
     bindE (write_pkt M cur_fd pkt ''Error MME write back to RAN'' s) (\<lambda>s.
     ctl_or_exit M neg (Ctl_add EPOLLIN) cur_fd ''Error adding to epoll'' s)"

definition send_pgw_detach :: "'w mtcp \<Rightarrow> int \<Rightarrow> sgw_mdata \<Rightarrow> packet \<Rightarrow> 'w sgw3 \<Rightarrow> 'w sgw3 res" where
  "send_pgw_detach M sgw_fd fddata pkt s =
     (let pgw_fd = initial_fd fddata in
      bindE (write_pkt M pgw_fd pkt ''Error: pgw write detach'' s) (\<lambda>s.
      bindE (ctl_or_exit M minus1 (Ctl_add EPOLLIN) pgw_fd ''Error: pgw read after detach epoll'' s) (\<lambda>s.
      Inr (fd_insert pgw_fd (fddata\<lparr>act := 4, buflen := 0, initial_fd := sgw_fd, mbuf := zero_buf\<rparr>)
            (fd_erase sgw_fd s)))))"

subsection \<open>Requests of the MME: case 1\<close>

text \<open>Message type 1, the third attach message: create session.\<close>

definition sgw3_create :: "'w mtcp \<Rightarrow> int \<Rightarrow> sgw_mdata \<Rightarrow> 'w sgw3 \<Rightarrow> 'w sgw3 res" where
  "sgw3_create M cur_fd fddata s =
     bindE (extract_u32 (rpkt s)) (\<lambda>(s11_cteid_mme, pkt).
     bindE (extract_u64 pkt) (\<lambda>(imsi, pkt).
     bindE (extract_u8 pkt) (\<lambda>(eps_bearer_id, pkt).
     bindE (extract_string pkt) (\<lambda>(pgw_s5_ip_addr, pkt).
     bindE (extract_int pkt) (\<lambda>(pgw_s5_port, pkt).
     bindE (extract_u64 pkt) (\<lambda>(apn_in_use, pkt).
     bindE (extract_u64 pkt) (\<lambda>(tai, pkt).
     let s1_uteid_ul = s11_cteid_mme; s5_uteid_dl = s11_cteid_mme; s11_cteid_sgw = s11_cteid_mme;
         s5_cteid_dl = s11_cteid_mme; t = sgw_tabs s;
         t = t\<lparr>s11_id := (s11_id t)(s11_cteid_sgw \<mapsto> imsi)\<rparr>;
         t = t\<lparr>s1_id := (s1_id t)(s1_uteid_ul \<mapsto> imsi)\<rparr>;
         t = t\<lparr>s5_id := (s5_id t)(s5_uteid_dl \<mapsto> imsi)\<rparr>;
         t = upd_sgw_ue imsi (sgw_ue_init tai apn_in_use eps_bearer_id s1_uteid_ul s5_uteid_dl
               s11_cteid_mme s11_cteid_sgw s5_cteid_dl pgw_s5_ip_addr pgw_s5_port) t;
         t = upd_sgw_ue imsi (\<lambda>c. c\<lparr>tai_s := tai\<rparr>) t in
     bindE (append_u32 s5_cteid_dl (clear_pkt pkt)) (\<lambda>pkt.
     bindE (append_u64 imsi pkt) (\<lambda>pkt.
     bindE (append_u8 eps_bearer_id pkt) (\<lambda>pkt.
     bindE (append_u32 s5_uteid_dl pkt) (\<lambda>pkt.
     bindE (append_u64 apn_in_use pkt) (\<lambda>pkt.
     bindE (append_u64 tai pkt) (\<lambda>pkt.
     bindE (prepend_gtp_hdr 2 1 (len16 pkt) 0 pkt) (\<lambda>pkt.
     bindE (prepend_len pkt) (\<lambda>pkt.
     bindE (copy_pkt pkt) (\<lambda>arg.
     handle_pgw_connect M cur_fd arg (fddata\<lparr>md_tid := s11_cteid_mme, md_guti := imsi\<rparr>)
       pgw_s5_ip_addr pgw_s5_port
       (s\<lparr>rpkt := pkt, sgw_tabs := t, v_s11_cteid_mme := s11_cteid_mme, v_s5_uteid_dl := s5_uteid_dl\<rparr>)))))))))))))))))"

text \<open>Message type 2, the fourth attach message: modify bearer.\<close>

definition sgw3_modify :: "'w mtcp \<Rightarrow> int \<Rightarrow> 'w sgw3 \<Rightarrow> 'w sgw3 res" where
  "sgw3_modify M cur_fd s =
     (case s11_id (sgw_tabs s) (teid (gtp_hdr (rpkt s))) of
        None \<Rightarrow> Inl (Exit ''IMSI error'')
      | Some imsi \<Rightarrow>
        if imsi = 0 then Inl (Exit ''zero imsi'')
        else
          bindE (extract_u8 (rpkt s)) (\<lambda>(eps_bearer_id, pkt).
          bindE (extract_u32 pkt) (\<lambda>(s1_uteid_dl, pkt).
          bindE (extract_string pkt) (\<lambda>(enodeb_ip_addr, pkt).
          bindE (extract_int pkt) (\<lambda>(enodeb_port, pkt).
          let t = upd_sgw_ue imsi (\<lambda>c. c\<lparr>s1_uteid_dl_s := s1_uteid_dl, enodeb_ip_addr_s := enodeb_ip_addr,
                    enodeb_port_s := enodeb_port\<rparr>) (sgw_tabs s);
              s11_cteid_mme = s11_cteid_mme_s (sgw_ue_at imsi t) in
          bindE (append_bool True (clear_pkt pkt)) (\<lambda>pkt.
          bindE (prepend_gtp_hdr 2 2 (len16 pkt) s11_cteid_mme pkt) (\<lambda>pkt.
          bindE (prepend_len pkt) (\<lambda>pkt.
          bindE (copy_pkt pkt) (\<lambda>arg.
          send_attach_four M cur_fd arg
            (s\<lparr>rpkt := pkt, sgw_tabs := t, v_s11_cteid_mme := s11_cteid_mme\<rparr>))))))))))"

text \<open>Message type 3: detach.\<close>

definition sgw3_detach :: "'w mtcp \<Rightarrow> int \<Rightarrow> sgw_mdata \<Rightarrow> 'w sgw3 \<Rightarrow> 'w sgw3 res" where
  "sgw3_detach M cur_fd fddata s =
     (case s11_id (sgw_tabs s) (teid (gtp_hdr (rpkt s))) of
        None \<Rightarrow> Inl (Exit ''IMSI error'')
      | Some imsi \<Rightarrow>
        bindE (extract_u8 (rpkt s)) (\<lambda>(eps_bearer_id, pkt).
        bindE (extract_u64 pkt) (\<lambda>(tai, pkt).
        case ue_ctx_s (sgw_tabs s) imsi of
          None \<Rightarrow> Inl (Exit ''no uectx'')
        | Some c \<Rightarrow>
          bindE (gettid imsi) (\<lambda>tid.
          if tid \<noteq> teid (gtp_hdr pkt) then Inl (Exit ''GUTI not equal Detach acc'')
          else
            bindE (append_u8 eps_bearer_id (clear_pkt pkt)) (\<lambda>pkt.
            bindE (append_u64 tai pkt) (\<lambda>pkt.
            bindE (prepend_gtp_hdr 2 4 (len16 pkt) (s5_cteid_ul_s c) pkt) (\<lambda>pkt.
            bindE (prepend_len pkt) (\<lambda>pkt.
            bindE (copy_pkt pkt) (\<lambda>arg.
            send_pgw_detach M cur_fd (fddata\<lparr>md_tid := s11_cteid_mme_s c, md_guti := imsi\<rparr>) arg
              (s\<lparr>rpkt := pkt, v_s11_cteid_mme := s11_cteid_mme_s c, v_s5_uteid_dl := s5_uteid_dl_s c\<rparr>))))))))))"

definition sgw3_request :: "'w mtcp \<Rightarrow> int \<Rightarrow> sgw_mdata \<Rightarrow> 'w sgw3 \<Rightarrow> 'w sgw3 res" where
  "sgw3_request M cur_fd fddata s =
     bindE (recv_pkt M True cur_fd ''Error mme epoll read delete from epoll'' ''ERROR: read packet from MME'' s) (\<lambda>s.
     bindE (extract_gtp_hdr (rpkt s)) (\<lambda>pkt.
     let s = s\<lparr>rpkt := pkt\<rparr>; msg_type = msg_type_g (gtp_hdr pkt) in
     if msg_type = 1 then sgw3_create M cur_fd fddata s
     else if msg_type = 2 then sgw3_modify M cur_fd s
     else if msg_type = 3 then sgw3_detach M cur_fd fddata s
     else Inr s))"

subsection \<open>Answers of the PGW: cases 2, 3 and 4\<close>

definition sgw3_connected :: "'w mtcp \<Rightarrow> event \<Rightarrow> sgw_mdata \<Rightarrow> 'w sgw3 \<Rightarrow> 'w sgw3 res" where
  "sgw3_connected M ev fddata s =
     (if ev_out ev then send_request_pgw M (ev_fd ev) fddata s
      else Inl (Exit ''Error: Case 2 pgw connect Wrong Event''))"

definition sgw3_created :: "'w mtcp \<Rightarrow> int \<Rightarrow> sgw_mdata \<Rightarrow> 'w sgw3 \<Rightarrow> 'w sgw3 res" where
  "sgw3_created M cur_fd fddata s =
     bindE (recv_pkt M False cur_fd ''Error pgw epoll read delete from epoll'' ''Error: pgw read packet'' s) (\<lambda>s.
     let imsi = md_guti fddata in
     bindE (extract_gtp_hdr (rpkt s)) (\<lambda>pkt.
     bindE (extract_u32 pkt) (\<lambda>(s5_cteid_ul, pkt).
     bindE (extract_u8 pkt) (\<lambda>(eps_bearer_id, pkt).
     bindE (extract_u32 pkt) (\<lambda>(s5_uteid_ul, pkt).
     bindE (extract_string pkt) (\<lambda>(ue_ip_addr, pkt).
     let t = upd_sgw_ue imsi (\<lambda>c. c\<lparr>s5_uteid_ul_s := s5_uteid_ul\<rparr>) (sgw_tabs s);
         t = upd_sgw_ue imsi (\<lambda>c. c\<lparr>s5_cteid_ul_s := s5_cteid_ul\<rparr>) t;
         s1_uteid_ul = md_tid fddata; s11_cteid_sgw = md_tid fddata in
     bindE (append_u32 s11_cteid_sgw (clear_pkt pkt)) (\<lambda>pkt.
     bindE (append_string ue_ip_addr pkt) (\<lambda>pkt.
     bindE (append_u32 s1_uteid_ul pkt) (\<lambda>pkt.
     bindE (append_u32 s5_uteid_ul pkt) (\<lambda>pkt.
     bindE (append_u32 (v_s5_uteid_dl s) pkt) (\<lambda>pkt.
     bindE (prepend_gtp_hdr 2 1 (len16 pkt) (v_s11_cteid_mme s) pkt) (\<lambda>pkt.
     bindE (prepend_len pkt) (\<lambda>pkt.
     let mme_fd = initial_fd fddata in
     bindE (write_pkt M mme_fd pkt ''Error: Cant send to mme A3'' (s\<lparr>rpkt := pkt, sgw_tabs := t\<rparr>)) (\<lambda>s.
     bindE (ctl_or_exit M minus1 (Ctl_add EPOLLIN) mme_fd ''Error: ran after detach add'' (fd_erase cur_fd s)) (\<lambda>s.
     Inr (fd_insert mme_fd (fddata\<lparr>act := 1, initial_fd := cur_fd, mbuf := zero_buf, buflen := 0,
           md_tid := 0, md_guti := 0\<rparr>) s))))))))))))))))"

definition sgw3_detached :: "'w mtcp \<Rightarrow> int \<Rightarrow> sgw_mdata \<Rightarrow> 'w sgw3 \<Rightarrow> 'w sgw3 res" where
  "sgw3_detached M cur_fd fddata s =
     bindE (recv_pkt M False cur_fd ''Error pgw epoll read delete from epoll'' ''Error: pgw read packet'' s) (\<lambda>s.
     bindE (extract_gtp_hdr (rpkt s)) (\<lambda>pkt.
     bindE (extract_bool pkt) (\<lambda>(res, pkt).
     if \<not> res then Inl (Exit ''pgw detach failure'')
     else
       let s11_cteid_mme = md_tid fddata in
       bindE (append_bool res (clear_pkt pkt)) (\<lambda>pkt.
       bindE (prepend_gtp_hdr 2 3 (len16 pkt) s11_cteid_mme pkt) (\<lambda>pkt.
       bindE (prepend_len pkt) (\<lambda>pkt.
       let t = sgw_tabs s in
       case s11_id t s11_cteid_mme of
         None \<Rightarrow> Inl (Exit ''Detach imsi not found'')
       | Some imsi \<Rightarrow>
         let t = t\<lparr>s11_id := (s11_id t)(s11_cteid_mme := None)\<rparr>;
             t = t\<lparr>s1_id := (s1_id t)(s11_cteid_mme := None)\<rparr>;
             t = t\<lparr>s5_id := (s5_id t)(s11_cteid_mme := None)\<rparr>;
             t = t\<lparr>ue_ctx_s := (ue_ctx_s t)(imsi := None)\<rparr>;
             mme_fd = initial_fd fddata;
             s = close_fd M cur_fd (fd_erase cur_fd (s\<lparr>rpkt := pkt, sgw_tabs := t, v_s11_cteid_mme := s11_cteid_mme\<rparr>)) in
         bindE (write_pkt M mme_fd pkt ''Error: Cant send to MME detach'' s) (\<lambda>s.
         Inr (close_fd M mme_fd (fd_erase mme_fd s)))))))))"

subsection \<open>The event loop\<close>

definition sgw3_handle :: "'w mtcp \<Rightarrow> event \<Rightarrow> sgw_mdata \<Rightarrow> 'w sgw3 \<Rightarrow> 'w sgw3 res" where
  "sgw3_handle M ev fddata s =
     (if act fddata = 1 then sgw3_request M (ev_fd ev) fddata s
      else if act fddata = 2 then sgw3_connected M ev fddata s
      else if act fddata = 3 then sgw3_created M (ev_fd ev) fddata s
      else if act fddata = 4 then sgw3_detached M (ev_fd ev) fddata s
      else Inr s)"

definition sgw3_event :: "'w mtcp \<Rightarrow> u64 \<Rightarrow> int \<Rightarrow> event \<Rightarrow> 'w sgw3 \<Rightarrow> 'w sgw3 res" where
  "sgw3_event M g lfd = on_event M lfd (handle_sgw_accept M g lfd) zero_sgw_mdata (sgw3_handle M)"

definition sgw3_run :: "'w mtcp \<Rightarrow> u64 \<Rightarrow> int \<Rightarrow> batch list \<Rightarrow> 'w sgw3 \<Rightarrow> 'w sgw3 res" where
  "sgw3_run M g lfd = main_loop (sgw3_event M g lfd)"

definition sgw3_main ::
  "'w mtcp \<Rightarrow> u64 \<Rightarrow> batch list \<Rightarrow> 'w \<Rightarrow> u8 list \<Rightarrow> packet \<Rightarrow> u32 \<Rightarrow> u32 \<Rightarrow> 'w sgw3 res" where
  "sgw3_main M g bs w d p a b =
     bindE (listen_on M sgw_ip3 sgw_s11_portnum w) (\<lambda>(lfd, w). sgw3_run M g lfd bs (new_sgw3 w d p a b))"

subsection \<open>Invariant\<close>

text \<open>
  In every state of the loop: entries of \<open>fdmap\<close> are well-formed with a state between 0 and 4, the
  three tables of tunnel identifiers are equal, the handover table is empty, and a context holds one
  identifier for the five tunnel ends that the SGW hands out.
\<close>

definition sgw_tabs_ok :: "sgw \<Rightarrow> bool" where
  "sgw_tabs_ok t \<longleftrightarrow>
     s1_id t = s11_id t \<and> s5_id t = s11_id t \<and> ho_ue_ctx t = Map.empty \<and>
     (\<forall>imsi c. ue_ctx_s t imsi = Some c \<longrightarrow>
        s1_uteid_ul_s c = s11_cteid_mme_s c \<and> s5_uteid_dl_s c = s11_cteid_mme_s c \<and>
        s11_cteid_sgw_s c = s11_cteid_mme_s c \<and> s5_cteid_dl_s c = s11_cteid_mme_s c)"

definition sgw3_inv :: "'w sgw3 \<Rightarrow> bool" where
  "sgw3_inv s \<longleftrightarrow> loop_ok (mdata_ok {0 .. 4}) s \<and> sgw_tabs_ok (sgw_tabs s)"

lemma sgw3_frame [simp, loop_inv_simps]:
  "loop_ok ok (s\<lparr>sgw_tabs := t\<rparr>) = loop_ok ok s"
  "loop_ok ok (s\<lparr>v_s11_cteid_mme := a\<rparr>) = loop_ok ok s" "loop_ok ok (s\<lparr>v_s5_uteid_dl := a\<rparr>) = loop_ok ok s"
  "sgw_tabs (fd_erase fd s) = sgw_tabs s" "sgw_tabs (fd_insert fd m s) = sgw_tabs s"
  "sgw_tabs (close_fd M fd s) = sgw_tabs s" "loop_ok ok (close_fd M fd s) = loop_ok ok s"
  by (simp_all add: loop_ok_def fd_erase_def fd_insert_def close_fd_def split: option.splits)

lemma sgw_tabs_ok_upd:
  assumes "sgw_tabs_ok t"
    and "\<And>c. s1_uteid_ul_s c = s11_cteid_mme_s c \<and> s5_uteid_dl_s c = s11_cteid_mme_s c \<and>
        s11_cteid_sgw_s c = s11_cteid_mme_s c \<and> s5_cteid_dl_s c = s11_cteid_mme_s c \<Longrightarrow>
      s1_uteid_ul_s (f c) = s11_cteid_mme_s (f c) \<and> s5_uteid_dl_s (f c) = s11_cteid_mme_s (f c) \<and>
      s11_cteid_sgw_s (f c) = s11_cteid_mme_s (f c) \<and> s5_cteid_dl_s (f c) = s11_cteid_mme_s (f c)"
  shows "sgw_tabs_ok (upd_sgw_ue imsi f t)"
  using assms
  by (auto simp: sgw_tabs_ok_def upd_sgw_ue_def modify_at_def at_or_def new_sgw_ue_def split: option.splits)

lemma sgw_tabs_ok_ids:
  "sgw_tabs_ok t \<Longrightarrow>
   sgw_tabs_ok (t\<lparr>s11_id := (s11_id t)(i := v), s1_id := (s1_id t)(i := v), s5_id := (s5_id t)(i := v)\<rparr>)"
  "sgw_tabs_ok t \<Longrightarrow>
   sgw_tabs_ok (t\<lparr>s11_id := (s11_id t)(i := v), s1_id := (s1_id t)(i := v), s5_id := (s5_id t)(i := v),
     ue_ctx_s := (ue_ctx_s t)(imsi := None)\<rparr>)"
  by (auto simp: sgw_tabs_ok_def split: if_splits)

lemma handle_pgw_connect_inv:
  "sgw3_inv s \<Longrightarrow> length (mbuf fddata) = 500 \<Longrightarrow> handle_pgw_connect M fd pkt fddata ip port s = Inr s' \<Longrightarrow> sgw3_inv s'"
  unfolding handle_pgw_connect_def Let_def
  by (auto elim!: bindE_InrE loop_elims
      simp: sgw3_inv_def loop_inv_simps mdata_ok_def pkt_wire_def buf_read_def buf_write_def split: if_splits)

lemma sgw3_inv_upd:
  "sgw3_inv s \<Longrightarrow> sgw_tabs_ok t \<Longrightarrow>
   sgw3_inv (s\<lparr>rpkt := p, sgw_tabs := t, v_s11_cteid_mme := a, v_s5_uteid_dl := b\<rparr>)"
  by (simp add: sgw3_inv_def loop_inv_simps)

lemma sgw3_inv_tabs: "sgw3_inv s \<Longrightarrow> sgw_tabs_ok (sgw_tabs s)"
  by (simp add: sgw3_inv_def)

lemma sgw3_create_inv:
  assumes "sgw3_inv s" and "length (mbuf fddata) = 500" and "sgw3_create M fd fddata s = Inr s'"
  shows "sgw3_inv s'"
proof -
  obtain p t a b q ip port m g where run: "handle_pgw_connect M fd q (fddata\<lparr>md_tid := m, md_guti := g\<rparr>) ip port
      (s\<lparr>rpkt := p, sgw_tabs := t, v_s11_cteid_mme := a, v_s5_uteid_dl := b\<rparr>) = Inr s'" and "sgw_tabs_ok t"
    using assms(3) sgw3_inv_tabs [OF assms(1)] unfolding sgw3_create_def Let_def
    by (auto elim!: bindE_InrE simp: sgw_ue_init_def sgw_tabs_ok_upd sgw_tabs_ok_ids split: prod.splits)
  then show ?thesis
    using assms by (intro handle_pgw_connect_inv [OF _ _ run] sgw3_inv_upd) simp_all
qed

lemma sgw3_modify_inv: "sgw3_inv s \<Longrightarrow> sgw3_modify M fd s = Inr s' \<Longrightarrow> sgw3_inv s'"
  unfolding sgw3_modify_def send_attach_four_def Let_def
  by (auto elim!: bindE_InrE loop_elims simp: sgw3_inv_def loop_inv_simps sgw_tabs_ok_upd
      split: prod.splits option.splits if_splits)

lemma sgw3_detach_inv:
  "sgw3_inv s \<Longrightarrow> sgw3_detach M fd fddata s = Inr s' \<Longrightarrow> sgw3_inv s'"
  unfolding sgw3_detach_def send_pgw_detach_def Let_def
  by (auto elim!: bindE_InrE loop_elims simp: sgw3_inv_def loop_inv_simps mdata_ok_def zero_buf_def
      split: prod.splits option.splits if_splits)

lemma sgw3_inv_recv:
  "sgw3_inv s \<Longrightarrow> length d = length (rbuf s) \<Longrightarrow> sgw3_inv (s\<lparr>rbuf := d, world := w, rpkt := p\<rparr>)"
  by (simp add: sgw3_inv_def loop_ok_def)

lemma sgw3_request_inv:
  "sgw3_inv s \<Longrightarrow> length (mbuf fddata) = 500 \<Longrightarrow> sgw3_request M fd fddata s = Inr s' \<Longrightarrow> sgw3_inv s'"
  unfolding sgw3_request_def Let_def
  by (auto elim!: bindE_InrE recv_pktE split: if_splits
      intro: sgw3_inv_recv sgw3_create_inv [OF sgw3_inv_recv] sgw3_modify_inv [OF sgw3_inv_recv]
        sgw3_detach_inv [OF sgw3_inv_recv])

lemma sgw3_connected_inv:
  "sgw3_inv s \<Longrightarrow> sgw3_connected M ev fddata s = Inr s' \<Longrightarrow> sgw3_inv s'"
  unfolding sgw3_connected_def send_request_pgw_def
  by (auto elim!: bindE_InrE loop_elims simp: sgw3_inv_def loop_inv_simps mdata_ok_def zero_buf_def
      split: if_splits)

lemma sgw3_answer_inv:
  "sgw3_inv s \<Longrightarrow> sgw3_created M fd fddata s = Inr s' \<Longrightarrow> sgw3_inv s'"
  "sgw3_inv s \<Longrightarrow> sgw3_detached M fd fddata s = Inr s' \<Longrightarrow> sgw3_inv s'"
  unfolding sgw3_created_def sgw3_detached_def Let_def
  by (auto elim!: bindE_InrE loop_elims simp: sgw3_inv_def loop_inv_simps mdata_ok_def zero_buf_def
      sgw_tabs_ok_upd sgw_tabs_ok_ids split: prod.splits option.splits if_splits)

lemma sgw3_handle_inv:
  assumes "sgw3_inv s" and "fdmap s (ev_fd ev) = Some m" and "sgw3_handle M ev m s = Inr s'"
  shows "sgw3_inv s'"
proof -
  have "length (mbuf m) = 500"
    using assms(1,2) by (auto simp: sgw3_inv_def loop_ok_def mdata_ok_def)
  with assms show ?thesis
    by (auto simp: sgw3_handle_def split: if_splits
        intro: sgw3_request_inv sgw3_connected_inv sgw3_answer_inv)
qed

interpretation sgw3: event_program M lfd "handle_sgw_accept M g lfd" zero_sgw_mdata "sgw3_handle M" sgw3_inv
proof
  fix s s' :: "'a sgw3" and w fd ev m
  show "sgw3_inv s \<Longrightarrow> sgw3_inv (s\<lparr>world := w\<rparr>)"
    by (simp add: sgw3_inv_def loop_inv_simps)
  show "sgw3_inv s \<Longrightarrow> handle_sgw_accept M g lfd s = Inr s' \<Longrightarrow> sgw3_inv s'"
    unfolding handle_sgw_accept_def
    by (erule accept_all_inv) (auto simp: sgw3_inv_def loop_inv_simps mdata_ok_def zero_buf_def)
  show "sgw3_inv s \<Longrightarrow> sgw3_inv (s\<lparr>fdmap := op_idx zero_sgw_mdata (fdmap s) fd\<rparr>)"
    by (auto simp: sgw3_inv_def mdata_ok_def zero_sgw_mdata_def zero_buf_def intro: loop_inv_simps)
  show "sgw3_inv s \<Longrightarrow> fdmap s (ev_fd ev) = Some m \<Longrightarrow> sgw3_handle M ev m s = Inr s' \<Longrightarrow> sgw3_inv s'"
    by (rule sgw3_handle_inv)
qed

lemma new_sgw3_inv: "length d = 1024 \<Longrightarrow> sgw3_inv (new_sgw3 w d p a b)"
  by (simp add: sgw3_inv_def new_sgw3_def loop_ok_def sgw_tabs_ok_def new_sgw_def)

lemma sgw3_run_inv: "sgw3_inv s \<Longrightarrow> sgw3_run M g lfd bs s = Inr s' \<Longrightarrow> sgw3_inv s'"
  unfolding sgw3_run_def sgw3_event_def by (rule sgw3.loop_inv)

end
