(* ===== verification/Epc3_Gateway_Session.thy ===== *)
theory Epc3_Gateway_Session
  imports Epc3_Pgw Epc3_Sgw Epc_Pgw_Session Epc_Model
begin

section \<open>Sessions at the gateways of version 3.0\<close>

text \<open>
  What each event of SGW and PGW does when the stack answers its calls: the calls it makes, with the
  bytes it writes, and the tables it leaves. The messages are those of version 1.0 behind a length
  prefix, and the tables change as the handlers of version 1.0 change them.
\<close>

lemma gettid_v1: "gettid = get_s11cteidmme"
  by (simp add: fun_eq_iff gettid_def get_s11cteidmme_def)

text \<open>
  MME and gateways derive the tunnel identifier of a UE with the same function, the MME from the GUTI of sixteen
  digits, the gateways, when they check a detach, from the IMSI of twelve. It drops seven digits, so that the two agree
  for the first 100000 subscribers only.
\<close>

lemma gettid_closed:
  assumes "10 ^ k \<le> unat v" and "unat v < 10 ^ Suc k" and "7 \<le> k" and "k \<le> 15"
  shows "gettid v = Inr (ucast (of_nat (unat v mod 10 ^ (k - 6)) :: u64))"
proof -
  let ?s = "to_string (unat v)"
  have len: "length ?s = Suc k"
    using length_to_string assms(1,2) by blast
  have digits: "\<forall>c \<in> set (drop 7 ?s). is_digit c"
    using to_string_digits [of "unat v"] by (auto dest: in_set_dropD)
  have v: "dec_val (drop 7 ?s) = unat v mod 10 ^ (k - 6)"
    using dec_val_drop [OF to_string_digits, of 7 "unat v"] len assms(3) by simp
  have "unat v mod 10 ^ (k - 6) < 10 ^ (k - 6)"
    by simp
  also have "\<dots> \<le> (10 :: nat) ^ 9"
    by (rule power_increasing) (use assms(4) in auto)
  finally have "unat v mod 10 ^ (k - 6) < 2 ^ 64"
    by simp
  then have "stoull (drop 7 ?s) = Inr (of_nat (unat v mod 10 ^ (k - 6)))"
    using stoull_digits [OF _ digits] len v assms(3) by simp
  then show ?thesis
    using len assms(3) by (simp add: gettid_def substr_from_def)
qed

lemma gettid_plan:
  assumes "i < 10 ^ 9"
  shows "gettid (plan_guti i) = Inr (of_nat i)" and "gettid (plan_imsi i) = Inr (of_nat (i mod 10 ^ 5))"
proof -
  show "gettid (plan_guti i) = Inr (of_nat i)"
    using assms by (simp add: gettid_v1 plan_endpoint)
  have v: "unat (plan_imsi i) = 119000000000 + i"
    using assms by (intro unat_plan_imsi) simp
  have "(119000000000 + i) mod 10 ^ 5 = i mod 10 ^ 5"
    using mod_mult_self4 [of "10 ^ 5" 1190000 i] by simp
  then show "gettid (plan_imsi i) = Inr (of_nat (i mod 10 ^ 5))"
    using gettid_closed [of 11 "plan_imsi i"] assms by (simp add: v ucast_of_nat_32)
qed

subsection \<open>The PGW\<close>

lemma pgw_created_order:
  "t\<lparr>ip_addrs := op_idx '''' (ip_addrs t) imsi, s5_id_p := (s5_id_p t)(i \<mapsto> imsi),
     sgi_id := (sgi_id t)(ip_of t imsi \<mapsto> imsi),
     ue_ctx_p := modify_at new_pgw_ue (ue_ctx_p t) imsi (pgw_ue_init (ip_of t imsi) tai apn b i d i i)\<rparr> =
   pgw_created i imsi b d apn tai t"
  by (rule pgw.equality) (simp_all add: pgw_created_def)

lemma pgw3_create_event:
  assumes "msg_type_g h = 1" and "short_ip (ip_of (pgw_tabs s) imsi)" and "length (rbuf s) = 1024"
    and "plays M
      [Ctl Ctl_del fd, Read fd (frame (create_req5 h t imsi b s5_dl apn tai)),
       Write fd (frame (create_rsp5 (gtp_with 2 1 (of_nat (13 + length (ip_of (pgw_tabs s) imsi))) t h)
         t b t (ip_of (pgw_tabs s) imsi))), Ctl (Ctl_add EPOLLIN) fd] (world s) = Some w"
  shows "\<exists>s'. pgw3_request M fd s = Inr s' \<and> world s' = w \<and> fdmap s' = fdmap s \<and> length (rbuf s') = 1024 \<and>
    (\<exists>r. rbuf s' = frame (create_req5 h t imsi b s5_dl apn tai) @ r) \<and>
    pgw_tabs s' = pgw_created t imsi b s5_dl apn tai (pgw_tabs s)"
proof -
  obtain w1 w2 w3 where calls: "play M (Ctl Ctl_del fd) (world s) = Some w1"
      "play M (Read fd (frame (create_req5 h t imsi b s5_dl apn tai))) w1 = Some w2"
      "play M (Write fd (frame (create_rsp5 (gtp_with 2 1 (of_nat (13 + length (ip_of (pgw_tabs s) imsi))) t h)
         t b t (ip_of (pgw_tabs s) imsi)))) w2 = Some w3"
      "play M (Ctl (Ctl_add EPOLLIN) fd) w3 = Some w"
    using assms(4) by (auto split: option.splits)
  have len: "length (create_req5 h t imsi b s5_dl apn tai) \<le> 1020"
    by (simp add: create_req5_def)
  show ?thesis
    using assms(1-3) calls(4) calls(3)
    by (simp add: pgw3_request_def recv_frame [OF calls(1,2) len] Let_def)
      (simp add: message_defs pgw3_create_def item_ext_view item_app_view Let_def short_ip_def
        ip_of_def [symmetric] pgw_send_a3_def call_simps pgw_created_order)
qed

text \<open>
  An end of stream on a connection is not noticed: the request that is still in the buffer, of whatever
  connection, is executed again and answered on this one.
\<close>

lemma pgw3_replay_event:
  assumes "msg_type_g h = 1" and "short_ip (ip_of (pgw_tabs s) imsi)"
    and "rbuf s = frame (create_req5 h t imsi b s5_dl apn tai) @ r"
    and "plays M
      [Ctl Ctl_del fd, Read fd [],
       Write fd (frame (create_rsp5 (gtp_with 2 1 (of_nat (13 + length (ip_of (pgw_tabs s) imsi))) t h)
         t b t (ip_of (pgw_tabs s) imsi))), Ctl (Ctl_add EPOLLIN) fd] (world s) = Some w"
  shows "\<exists>s'. pgw3_request M fd s = Inr s' \<and> world s' = w \<and> fdmap s' = fdmap s \<and>
    pgw_tabs s' = pgw_created t imsi b s5_dl apn tai (pgw_tabs s)"
proof -
  obtain w1 w2 w3 where calls: "play M (Ctl Ctl_del fd) (world s) = Some w1" "play M (Read fd []) w1 = Some w2"
      "play M (Write fd (frame (create_rsp5 (gtp_with 2 1 (of_nat (13 + length (ip_of (pgw_tabs s) imsi))) t h)
         t b t (ip_of (pgw_tabs s) imsi)))) w2 = Some w3"
      "play M (Ctl (Ctl_add EPOLLIN) fd) w3 = Some w"
    using assms(4) by (auto split: option.splits)
  have len: "length (create_req5 h t imsi b s5_dl apn tai) \<le> 1020"
    by (simp add: create_req5_def)
  show ?thesis
    using assms(1,2) calls(4) calls(3)
    by (simp add: pgw3_request_def recv_stale [OF calls(1,2) len assms(3)] Let_def)
      (simp add: message_defs pgw3_create_def item_ext_view item_app_view Let_def short_ip_def
        ip_of_def [symmetric] pgw_send_a3_def call_simps pgw_created_order)
qed

lemma pgw3_detach_event:
  assumes "msg_type_g h = 4" and "s5_id_p (pgw_tabs s) (teid h) = Some imsi" and "gettid imsi = Inr (teid h)"
    and "ue_ctx_p (pgw_tabs s) imsi = Some c" and "length (rbuf s) = 1024"
    and "plays M
      [Ctl Ctl_del fd, Read fd (frame (detach_req h b tai)),
       Write fd (frame (bool_rsp (gtp_with 2 4 1 (s5_cteid_dl_p c) h) True)), Close fd] (world s) = Some w"
  shows "\<exists>s'. pgw3_request M fd s = Inr s' \<and> world s' = w \<and> fdmap s' = (fdmap s)(fd := None) \<and>
    length (rbuf s') = 1024 \<and> pgw_tabs s' = pgw_detached imsi (pgw_tabs s)"
proof -
  obtain w1 w2 w3 where calls: "play M (Ctl Ctl_del fd) (world s) = Some w1"
      "play M (Read fd (frame (detach_req h b tai))) w1 = Some w2"
      "play M (Write fd (frame (bool_rsp (gtp_with 2 4 1 (s5_cteid_dl_p c) h) True))) w2 = Some w3"
      "play M (Close fd) w3 = Some w"
    using assms(6) by (auto split: option.splits)
  have len: "length (detach_req h b tai) \<le> 1020"
    by (simp add: detach_req_def)
  show ?thesis
    using assms(1-5) calls(4) calls(3)
    by (simp add: pgw3_request_def recv_frame [OF calls(1,2) len] Let_def)
      (simp add: message_defs pgw3_detach_def item_ext_view item_app_view Let_def call_simps pgw_detached_def)
qed

lemma pgw3_unknown_teid:
  assumes "msg_type_g h = 4" and "s5_id_p (pgw_tabs s) (teid h) = None" and "length (rbuf s) = 1024"
    and "plays M [Ctl Ctl_del fd, Read fd (frame (detach_req h b tai))] (world s) = Some w"
  shows "pgw3_request M fd s = Inl (Exit ''Error: imsi not found in detach'')"
proof -
  obtain w1 where calls: "play M (Ctl Ctl_del fd) (world s) = Some w1"
      "play M (Read fd (frame (detach_req h b tai))) w1 = Some w"
    using assms(4) by (auto split: option.splits)
  have len: "length (detach_req h b tai) \<le> 1020"
    by (simp add: detach_req_def)
  show ?thesis
    using assms(1-3)
    by (simp add: pgw3_request_def recv_frame [OF calls(1,2) len] Let_def)
      (simp add: message_defs pgw3_detach_def item_ext_view)
qed

subsection \<open>The SGW: create session\<close>

lemma sgw3_sels [simp]:
  "v_s11_cteid_mme (fd_insert fd m s) = v_s11_cteid_mme s" "v_s5_uteid_dl (fd_insert fd m s) = v_s5_uteid_dl s"
  "v_s11_cteid_mme (fd_erase fd s) = v_s11_cteid_mme s" "v_s5_uteid_dl (fd_erase fd s) = v_s5_uteid_dl s"
  by (simp_all add: fd_insert_def fd_erase_def split: option.splits)

text \<open>The tables between the request of the MME and the answer of the PGW.\<close>

definition sgw3_requested :: "u32 \<Rightarrow> u64 \<Rightarrow> u8 \<Rightarrow> string \<Rightarrow> int \<Rightarrow> u64 \<Rightarrow> u64 \<Rightarrow> sgw \<Rightarrow> sgw" where
  "sgw3_requested t imsi b ip port apn tai s =
     s\<lparr>s11_id := (s11_id s)(t \<mapsto> imsi), s1_id := (s1_id s)(t \<mapsto> imsi), s5_id := (s5_id s)(t \<mapsto> imsi),
       ue_ctx_s := modify_at new_sgw_ue (ue_ctx_s s) imsi
         (\<lambda>c. (sgw_ue_init tai apn b t t t t t ip port c)\<lparr>tai_s := tai\<rparr>)\<rparr>"

definition sgw3_answered :: "u64 \<Rightarrow> u32 \<Rightarrow> u32 \<Rightarrow> sgw \<Rightarrow> sgw" where
  "sgw3_answered imsi s5_cul s5_ul = upd_sgw_ue imsi (\<lambda>c. c\<lparr>s5_uteid_ul_s := s5_ul, s5_cteid_ul_s := s5_cul\<rparr>)"

lemma sgw3_answered_comp:
  "upd_sgw_ue imsi (s5_cteid_ul_s_update (\<lambda>_. s5_cul) \<circ> s5_uteid_ul_s_update (\<lambda>_. s5_ul)) =
   sgw3_answered imsi s5_cul s5_ul"
  by (simp add: sgw3_answered_def comp_def)

lemma sgw3_answered_requested:
  "sgw3_answered imsi s5_cul s5_ul (sgw3_requested t imsi b ip port apn tai s) =
   sgw_created t imsi b ip port apn tai s5_cul s5_ul s"
  by (simp add: sgw3_answered_def sgw3_requested_def sgw_created_def upd_sgw_ue_def modify_at_def)

lemma sgw3_create_event:
  assumes "msg_type_g h = 1" and "short_ip ip" and "- (2 ^ 31) \<le> port" and "port < 2 ^ 31"
    and "length (rbuf s) = 1024" and "length (mbuf m) = 500" and "((fdmap s)(fd := None)) pfd = None"
    and "plays M
      [Ctl Ctl_del fd, Read fd (frame (create_req11 h t imsi b ip port apn tai)), Socket pfd, Nonblock pfd,
       Connect pfd ip port, Ctl (Ctl_add EPOLLOUT) pfd] (world s) = Some w"
  shows "\<exists>s'. sgw3_request M fd m s = Inr s' \<and> world s' = w \<and> length (rbuf s') = 1024 \<and>
    fdmap s' = (fdmap s)(fd := None, pfd \<mapsto>
      stored (frame (create_req5 (gtp_with 2 1 33 0 h) t imsi b t apn tai))
        (m\<lparr>md_tid := t, md_guti := imsi, act := 2, initial_fd := fd\<rparr>)) \<and>
    sgw_tabs s' = sgw3_requested t imsi b ip port apn tai (sgw_tabs s) \<and>
    v_s11_cteid_mme s' = t \<and> v_s5_uteid_dl s' = t"
proof -
  obtain w1 w2 where calls: "play M (Ctl Ctl_del fd) (world s) = Some w1"
      "play M (Read fd (frame (create_req11 h t imsi b ip port apn tai))) w1 = Some w2"
      "plays M [Socket pfd, Nonblock pfd, Connect pfd ip port, Ctl (Ctl_add EPOLLOUT) pfd] w2 = Some w"
    using assms(8) by (auto split: option.splits)
  have len: "length (create_req11 h t imsi b ip port apn tai) \<le> 1020"
    using assms(2) by (simp add: create_req11_def short_ip_def)
  let ?m = "gtp_bytes (gtp_with 2 1 33 0 h) @ le_word 4 t @ le_word 8 imsi @ u8_bytes b @ le_word 4 t @
      le_word 8 apn @ le_word 8 tai"
  have conn: "open_conn M ip port who s0 = Inr (pfd, s0\<lparr>world := w\<rparr>)" if "world s0 = w2" for who s0
    by (rule open_conn_plays) (use calls(3) that in simp)
  show ?thesis
    using assms(1-7)
    by (simp add: sgw3_request_def recv_frame [OF calls(1,2) len] Let_def)
      (simp add: message_defs sgw3_create_def item_ext_view item_app_view Let_def short_ip_def
        handle_pgw_connect_def conn buf_write_stored stored_def frame_def sgw3_requested_def upd_sgw_ue_def
        modify_at_def comp_def split: option.splits)
qed

text \<open>The connection to the PGW is open: the stored request goes out.\<close>

lemma sgw3_connected_event:
  assumes "ev_out ev" and "length msg \<le> 500"
    and "plays M [Write (ev_fd ev) msg, Ctl (Ctl_mod EPOLLIN) (ev_fd ev)] (world s) = Some w"
  shows "\<exists>s'. sgw3_connected M ev (stored msg m) s = Inr s' \<and> world s' = w \<and> rbuf s' = rbuf s \<and>
    fdmap s' = (fdmap s)(ev_fd ev \<mapsto> m\<lparr>act := 3, mbuf := zero_buf, buflen := 0\<rparr>) \<and>
    sgw_tabs s' = sgw_tabs s \<and> v_s11_cteid_mme s' = v_s11_cteid_mme s \<and> v_s5_uteid_dl s' = v_s5_uteid_dl s"
proof -
  have "send_stored M (ev_fd ev) (mbuf (stored msg m)) (buflen (stored msg m)) who s = Inr (s\<lparr>world := w\<rparr>)" for who
    by (rule send_stored_plays [OF assms(3)]) (simp_all add: stored_def)
  moreover have "stored msg m\<lparr>act := 3, buflen := 0, mbuf := zero_buf\<rparr> = m\<lparr>act := 3, mbuf := zero_buf, buflen := 0\<rparr>"
    by (simp add: stored_def)
  ultimately show ?thesis
    using assms(1) by (simp add: sgw3_connected_def send_request_pgw_def)
qed

text \<open>
  The answer of the PGW. Tunnel ends of the MME and of the downlink are taken from the variables the
  last request left.
\<close>

lemma sgw3_created_event:
  assumes "short_ip ip" and "length (rbuf s) = 1024" and "((fdmap s)(fd := None)) (initial_fd m) = None"
    and "plays M
      [Ctl Ctl_del fd, Read fd (frame (create_rsp5 h s5_cul b s5_ul ip)),
       Write (initial_fd m) (frame (create_rsp11 (gtp_with 2 1 (of_nat (20 + length ip)) (v_s11_cteid_mme s) h)
         (md_tid m) ip (md_tid m) s5_ul (v_s5_uteid_dl s))),
       Ctl (Ctl_add EPOLLIN) (initial_fd m)] (world s) = Some w"
  shows "\<exists>s'. sgw3_created M fd m s = Inr s' \<and> world s' = w \<and> length (rbuf s') = 1024 \<and>
    fdmap s' = (fdmap s)(fd := None, initial_fd m \<mapsto>
      m\<lparr>act := 1, initial_fd := fd, mbuf := zero_buf, buflen := 0, md_tid := 0, md_guti := 0\<rparr>) \<and>
    sgw_tabs s' = sgw3_answered (md_guti m) s5_cul s5_ul (sgw_tabs s) \<and>
    v_s11_cteid_mme s' = v_s11_cteid_mme s \<and> v_s5_uteid_dl s' = v_s5_uteid_dl s"
proof -
  obtain w1 w2 w3 where calls: "play M (Ctl Ctl_del fd) (world s) = Some w1"
      "play M (Read fd (frame (create_rsp5 h s5_cul b s5_ul ip))) w1 = Some w2"
      "play M (Write (initial_fd m) (frame (create_rsp11
         (gtp_with 2 1 (of_nat (20 + length ip)) (v_s11_cteid_mme s) h)
         (md_tid m) ip (md_tid m) s5_ul (v_s5_uteid_dl s)))) w2 = Some w3"
      "play M (Ctl (Ctl_add EPOLLIN) (initial_fd m)) w3 = Some w"
    using assms(4) by (auto split: option.splits)
  have len: "length (create_rsp5 h s5_cul b s5_ul ip) \<le> 1020"
    using assms(1) by (simp add: create_rsp5_def short_ip_def)
  show ?thesis
    using assms(1-3) calls(4) calls(3)
    by (simp add: sgw3_created_def recv_frame [OF calls(1,2) len] Let_def)
      (simp add: message_defs item_ext_view item_app_view Let_def short_ip_def call_simps sgw3_answered_comp)
qed

subsection \<open>The SGW: modify bearer and detach\<close>

lemma sgw3_modify_event:
  assumes "msg_type_g h = 2" and "s11_id (sgw_tabs s) (teid h) = Some imsi" and "imsi \<noteq> 0" and "short_ip enb_ip"
    and "- (2 ^ 31) \<le> enb_port" and "enb_port < 2 ^ 31" and "length (rbuf s) = 1024"
    and "plays M
      [Ctl Ctl_del fd, Read fd (frame (modify_req h b s1_dl enb_ip enb_port)),
       Write fd (frame (bool_rsp (gtp_with 2 2 1 (s11_cteid_mme_s (sgw_ue_at imsi (sgw_tabs s))) h) True)),
       Ctl (Ctl_add EPOLLIN) fd] (world s) = Some w"
  shows "\<exists>s'. sgw3_request M fd m s = Inr s' \<and> world s' = w \<and> length (rbuf s') = 1024 \<and> fdmap s' = fdmap s \<and>
    sgw_tabs s' = sgw_modified imsi s1_dl enb_ip enb_port (sgw_tabs s)"
proof -
  obtain w1 w2 w3 where calls: "play M (Ctl Ctl_del fd) (world s) = Some w1"
      "play M (Read fd (frame (modify_req h b s1_dl enb_ip enb_port))) w1 = Some w2"
      "play M (Write fd (frame (bool_rsp
         (gtp_with 2 2 1 (s11_cteid_mme_s (sgw_ue_at imsi (sgw_tabs s))) h) True))) w2 = Some w3"
      "play M (Ctl (Ctl_add EPOLLIN) fd) w3 = Some w"
    using assms(8) by (auto split: option.splits)
  have len: "length (modify_req h b s1_dl enb_ip enb_port) \<le> 1020"
    using assms(4) by (simp add: modify_req_def short_ip_def)
  show ?thesis
    using assms(1-7) calls(4) calls(3)
    by (simp add: sgw3_request_def recv_frame [OF calls(1,2) len] Let_def)
      (simp add: message_defs sgw3_modify_def item_ext_view item_app_view Let_def short_ip_def send_attach_four_def
        call_simps sgw_modified_def upd_sgw_ue_def sgw_ue_at_def)
qed

text \<open>Detach: the request goes to the PGW on the connection the create session opened.\<close>

lemma sgw3_detach_event:
  assumes "msg_type_g h = 3" and "s11_id (sgw_tabs s) (teid h) = Some imsi" and "gettid imsi = Inr (teid h)"
    and "ue_ctx_s (sgw_tabs s) imsi = Some c" and "length (rbuf s) = 1024"
    and "((fdmap s)(fd := None)) (initial_fd m) = None"
    and "plays M
      [Ctl Ctl_del fd, Read fd (frame (detach_req h b tai)),
       Write (initial_fd m) (frame (detach_req (gtp_with 2 4 9 (s5_cteid_ul_s c) h) b tai)),
       Ctl (Ctl_add EPOLLIN) (initial_fd m)] (world s) = Some w"
  shows "\<exists>s'. sgw3_request M fd m s = Inr s' \<and> world s' = w \<and> length (rbuf s') = 1024 \<and>
    fdmap s' = (fdmap s)(fd := None, initial_fd m \<mapsto>
      m\<lparr>md_tid := s11_cteid_mme_s c, md_guti := imsi, act := 4, buflen := 0, initial_fd := fd, mbuf := zero_buf\<rparr>) \<and>
    sgw_tabs s' = sgw_tabs s"
proof -
  obtain w1 w2 w3 where calls: "play M (Ctl Ctl_del fd) (world s) = Some w1"
      "play M (Read fd (frame (detach_req h b tai))) w1 = Some w2"
      "play M (Write (initial_fd m) (frame (detach_req (gtp_with 2 4 9 (s5_cteid_ul_s c) h) b tai))) w2 = Some w3"
      "play M (Ctl (Ctl_add EPOLLIN) (initial_fd m)) w3 = Some w"
    using assms(7) by (auto split: option.splits)
  have len: "length (detach_req h b tai) \<le> 1020"
    by (simp add: detach_req_def)
  show ?thesis
    using assms(1-6) calls(4) calls(3)
    by (simp add: sgw3_request_def recv_frame [OF calls(1,2) len] Let_def)
      (simp add: message_defs sgw3_detach_def item_ext_view item_app_view Let_def send_pgw_detach_def call_simps)
qed

text \<open>The answer of the PGW removes the identifier it was asked about from the three tables.\<close>

definition sgw3_removed :: "u32 \<Rightarrow> u64 \<Rightarrow> sgw \<Rightarrow> sgw" where
  "sgw3_removed t imsi s =
     s\<lparr>s11_id := (s11_id s)(t := None), s1_id := (s1_id s)(t := None), s5_id := (s5_id s)(t := None),
       ue_ctx_s := (ue_ctx_s s)(imsi := None)\<rparr>"

lemma sgw3_detached_event:
  assumes "s11_id (sgw_tabs s) (md_tid m) = Some imsi" and "length (rbuf s) = 1024"
    and "plays M
      [Ctl Ctl_del fd, Read fd (frame (bool_rsp h True)), Close fd,
       Write (initial_fd m) (frame (bool_rsp (gtp_with 2 3 1 (md_tid m) h) True)), Close (initial_fd m)] (world s) =
      Some w"
  shows "\<exists>s'. sgw3_detached M fd m s = Inr s' \<and> world s' = w \<and> length (rbuf s') = 1024 \<and>
    fdmap s' = (fdmap s)(fd := None, initial_fd m := None) \<and> sgw_tabs s' = sgw3_removed (md_tid m) imsi (sgw_tabs s)"
proof -
  obtain w1 w2 w3 w4 where calls: "play M (Ctl Ctl_del fd) (world s) = Some w1"
      "play M (Read fd (frame (bool_rsp h True))) w1 = Some w2" "play M (Close fd) w2 = Some w3"
      "play M (Write (initial_fd m) (frame (bool_rsp (gtp_with 2 3 1 (md_tid m) h) True))) w3 = Some w4"
      "play M (Close (initial_fd m)) w4 = Some w"
    using assms(3) by (auto split: option.splits)
  have len: "length (bool_rsp h True) \<le> 1020"
    by (simp add: bool_rsp_def)
  show ?thesis
    using assms(1,2) calls(3-5)
    by (simp add: sgw3_detached_def recv_frame [OF calls(1,2) len] Let_def)
      (simp add: message_defs item_ext_view item_app_view Let_def call_simps sgw3_removed_def)
qed

text \<open>The PGW refuses: the process ends.\<close>

lemma sgw3_detach_refused:
  assumes "length (rbuf s) = 1024"
    and "plays M [Ctl Ctl_del fd, Read fd (frame (bool_rsp h False))] (world s) = Some w"
  shows "sgw3_detached M fd m s = Inl (Exit ''pgw detach failure'')"
proof -
  obtain w1 where calls: "play M (Ctl Ctl_del fd) (world s) = Some w1"
      "play M (Read fd (frame (bool_rsp h False))) w1 = Some w"
    using assms(2) by (auto split: option.splits)
  have len: "length (bool_rsp h False) \<le> 1020"
    by (simp add: bool_rsp_def)
  show ?thesis
    using assms(1)
    by (simp add: sgw3_detached_def recv_frame [OF calls(1,2) len]) (simp add: message_defs item_ext_view)
qed

subsection \<open>A whole create session at the SGW\<close>

lemma sgw3_event_known:
  "\<not> ev_err e \<Longrightarrow> \<not> ev_hup e \<Longrightarrow> ev_fd e \<noteq> lfd \<Longrightarrow> fdmap s (ev_fd e) = Some m \<Longrightarrow>
   sgw3_event M g lfd e s = sgw3_handle M e m s"
  unfolding sgw3_event_def by (rule on_event_known)

text \<open>From the request of the MME to the request that is sent to the PGW.\<close>

lemma sgw3_create_request:
  assumes "fdmap s fd = Some m" and "act m = 1" and "length (mbuf m) = 500" and "fd \<noteq> lfd" and "pfd \<noteq> lfd"
    and "((fdmap s)(fd := None)) pfd = None" and "length (rbuf s) = 1024"
    and "msg_type_g h = 1" and "short_ip ip" and "- (2 ^ 31) \<le> port" and "port < 2 ^ 31"
    and "plays M (ask_calls fd pfd ip port (create_req11 h t imsi b ip port apn tai)
        (create_req5 (gtp_with 2 1 33 0 h) t imsi b t apn tai)) (world s) = Some w"
  shows "\<exists>s'. sgw3_run M g lfd [Events [readable fd], Events [writable pfd]] s = Inr s' \<and> world s' = w \<and>
    length (rbuf s') = 1024 \<and>
    fdmap s' = (fdmap s)(fd := None, pfd \<mapsto>
      m\<lparr>md_tid := t, md_guti := imsi, initial_fd := fd, act := 3, mbuf := zero_buf, buflen := 0\<rparr>) \<and>
    sgw_tabs s' = sgw3_requested t imsi b ip port apn tai (sgw_tabs s) \<and>
    v_s11_cteid_mme s' = t \<and> v_s5_uteid_dl s' = t"
proof -
  let ?req5 = "frame (create_req5 (gtp_with 2 1 33 0 h) t imsi b t apn tai)"
  let ?m = "m\<lparr>md_tid := t, md_guti := imsi, act := 2, initial_fd := fd\<rparr>"
  obtain w1 where calls: "plays M
      [Ctl Ctl_del fd, Read fd (frame (create_req11 h t imsi b ip port apn tai)), Socket pfd, Nonblock pfd,
       Connect pfd ip port, Ctl (Ctl_add EPOLLOUT) pfd] (world s) = Some w1"
    "plays M [Write pfd ?req5, Ctl (Ctl_mod EPOLLIN) pfd] w1 = Some w"
    using assms(12) by (auto simp: calls_defs split: option.splits)
  obtain s1 where s1: "sgw3_request M fd m s = Inr s1" "world s1 = w1" "length (rbuf s1) = 1024"
      "fdmap s1 = (fdmap s)(fd := None, pfd \<mapsto> stored ?req5 ?m)"
      "sgw_tabs s1 = sgw3_requested t imsi b ip port apn tai (sgw_tabs s)"
      "v_s11_cteid_mme s1 = t" "v_s5_uteid_dl s1 = t"
    using sgw3_create_event [OF assms(8-11,7,3,6) calls(1)] by blast
  have "length ?req5 \<le> 500"
    by (simp add: create_req5_def)
  then obtain s2 where s2: "sgw3_connected M (writable pfd) (stored ?req5 ?m) s1 = Inr s2" "world s2 = w"
      "rbuf s2 = rbuf s1" "fdmap s2 = (fdmap s1)(pfd \<mapsto> ?m\<lparr>act := 3, mbuf := zero_buf, buflen := 0\<rparr>)"
      "sgw_tabs s2 = sgw_tabs s1" "v_s11_cteid_mme s2 = v_s11_cteid_mme s1" "v_s5_uteid_dl s2 = v_s5_uteid_dl s1"
    using sgw3_connected_event [of "writable pfd" ?req5 M s1 w ?m] calls(2) s1(2) by auto
  have "sgw3_event M g lfd (readable fd) s = Inr s1" "sgw3_event M g lfd (writable pfd) s1 = Inr s2"
    using assms(1,2,4,5) s1 s2(1) by (simp_all add: sgw3_event_known sgw3_handle_def stored_def)
  then show ?thesis
    using s1 s2 by (simp add: sgw3_run_def)
qed

lemma sgw3_create_answer:
  assumes "fdmap s pfd = Some m" and "act m = 3" and "pfd \<noteq> lfd"
    and "((fdmap s)(pfd := None)) (initial_fd m) = None" and "length (rbuf s) = 1024" and "short_ip ue_ip"
    and "plays M (relay_calls pfd (initial_fd m) (create_rsp5 h s5_cul b s5_ul ue_ip)
        (create_rsp11 (gtp_with 2 1 (of_nat (20 + length ue_ip)) (v_s11_cteid_mme s) h)
        (md_tid m) ue_ip (md_tid m) s5_ul (v_s5_uteid_dl s))) (world s) = Some w"
  shows "\<exists>s'. sgw3_run M g lfd [Events [readable pfd]] s = Inr s' \<and> world s' = w \<and> length (rbuf s') = 1024 \<and>
    fdmap s' = (fdmap s)(pfd := None, initial_fd m \<mapsto>
      m\<lparr>act := 1, initial_fd := pfd, mbuf := zero_buf, buflen := 0, md_tid := 0, md_guti := 0\<rparr>) \<and>
    sgw_tabs s' = sgw3_answered (md_guti m) s5_cul s5_ul (sgw_tabs s)"
  using sgw3_created_event [OF assms(6,5,4), of M h s5_cul b s5_ul w] assms
  by (auto simp: calls_defs sgw3_run_def sgw3_event_known sgw3_handle_def)

lemma sgw3_run_append:
  "sgw3_run M g lfd (bs @ cs) s = bindE (sgw3_run M g lfd bs s) (sgw3_run M g lfd cs)"
  unfolding sgw3_run_def by (rule main_loop_append)

text \<open>Nothing between the request and the answer: the MME gets its own identifiers back.\<close>

lemma sgw3_create_session:
  assumes "fdmap s fd = Some m" and "act m = 1" and "length (mbuf m) = 500" and "fd \<noteq> lfd" and "pfd \<noteq> lfd"
    and "((fdmap s)(fd := None)) pfd = None" and "length (rbuf s) = 1024"
    and "msg_type_g h = 1" and "short_ip ip" and "- (2 ^ 31) \<le> port" and "port < 2 ^ 31" and "short_ip ue_ip"
    and "plays M
      (ask_calls fd pfd ip port (create_req11 h t imsi b ip port apn tai)
        (create_req5 (gtp_with 2 1 33 0 h) t imsi b t apn tai) @
       relay_calls pfd fd (create_rsp5 h' s5_cul b' s5_ul ue_ip)
        (create_rsp11 (gtp_with 2 1 (of_nat (20 + length ue_ip)) t h') t ue_ip t s5_ul t)) (world s) = Some w"
  shows "\<exists>s'. sgw3_run M g lfd [Events [readable fd], Events [writable pfd], Events [readable pfd]] s = Inr s' \<and>
    world s' = w \<and> length (rbuf s') = 1024 \<and>
    fdmap s' = (fdmap s)(pfd := None, fd \<mapsto>
      m\<lparr>act := 1, initial_fd := pfd, mbuf := zero_buf, buflen := 0, md_tid := 0, md_guti := 0\<rparr>) \<and>
    sgw_tabs s' = sgw_created t imsi b ip port apn tai s5_cul s5_ul (sgw_tabs s)"
proof -
  obtain w1 where calls: "plays M (ask_calls fd pfd ip port (create_req11 h t imsi b ip port apn tai)
        (create_req5 (gtp_with 2 1 33 0 h) t imsi b t apn tai))
        (world s) = Some w1"
      "plays M (relay_calls pfd fd (create_rsp5 h' s5_cul b' s5_ul ue_ip)
        (create_rsp11 (gtp_with 2 1 (of_nat (20 + length ue_ip)) t h') t ue_ip t s5_ul t)) w1 = Some w"
    using assms(13) by (auto simp: plays_append split: option.splits)
  let ?m = "m\<lparr>md_tid := t, md_guti := imsi, initial_fd := fd, act := 3, mbuf := zero_buf, buflen := 0\<rparr>"
  obtain s1 where s1: "sgw3_run M g lfd [Events [readable fd], Events [writable pfd]] s = Inr s1"
      "world s1 = w1" "length (rbuf s1) = 1024" "fdmap s1 = (fdmap s)(fd := None, pfd \<mapsto> ?m)"
      "sgw_tabs s1 = sgw3_requested t imsi b ip port apn tai (sgw_tabs s)" "v_s11_cteid_mme s1 = t"
      "v_s5_uteid_dl s1 = t"
    using sgw3_create_request [OF assms(1-11) calls(1)] by auto
  have "((fdmap s1)(pfd := None)) (initial_fd ?m) = None"
    using s1(4) by simp
  with s1 calls(2) assms(5,12) show ?thesis
    using sgw3_create_answer [of s1 pfd ?m lfd ue_ip M h' s5_cul b' s5_ul w g]
      sgw3_run_append [of M g lfd "[Events [readable fd], Events [writable pfd]]" "[Events [readable pfd]]" s]
    by (auto simp: sgw3_answered_requested fun_upd_twist)
qed

text \<open>
  A second request between the request and the answer of a first: the first MME gets the tunnel
  identifiers of the second as its own identifier and as downlink end.
\<close>

lemma sgw3_create_interleaved:
  assumes "fdmap s fd = Some m" and "act m = 1" and "length (mbuf m) = 500"
    and "fdmap s fd' = Some m'" and "act m' = 1" and "length (mbuf m') = 500"
    and "distinct [lfd, fd, fd', pfd, pfd']" and "fdmap s pfd = None" and "fdmap s pfd' = None"
    and "length (rbuf s) = 1024" and "msg_type_g h = 1" and "msg_type_g h' = 1" and "short_ip ip"
    and "- (2 ^ 31) \<le> port" and "port < 2 ^ 31" and "short_ip ue_ip"
    and "plays M
      (ask_calls fd pfd ip port (create_req11 h t imsi b ip port apn tai)
        (create_req5 (gtp_with 2 1 33 0 h) t imsi b t apn tai) @
       ask_calls fd' pfd' ip port (create_req11 h' t' imsi' b' ip port apn' tai')
        (create_req5 (gtp_with 2 1 33 0 h') t' imsi' b' t' apn' tai') @
       relay_calls pfd fd (create_rsp5 h'' s5_cul b'' s5_ul ue_ip)
        (create_rsp11 (gtp_with 2 1 (of_nat (20 + length ue_ip)) t' h'') t ue_ip t s5_ul t')) (world s) = Some w"
  shows "\<exists>s'. sgw3_run M g lfd [Events [readable fd], Events [writable pfd], Events [readable fd'],
      Events [writable pfd'], Events [readable pfd]] s = Inr s' \<and> world s' = w"
proof -
  have neq: "fd \<noteq> lfd" "pfd \<noteq> lfd" "fd' \<noteq> lfd" "pfd' \<noteq> lfd" "fd' \<noteq> fd" "pfd \<noteq> fd'" "pfd' \<noteq> pfd" "pfd' \<noteq> fd"
    using assms(7) by auto
  have none: "((fdmap s)(fd := None)) pfd = None"
    using assms(8) by simp
  obtain w1 w2 where calls: "plays M (ask_calls fd pfd ip port (create_req11 h t imsi b ip port apn tai)
        (create_req5 (gtp_with 2 1 33 0 h) t imsi b t apn tai))
        (world s) = Some w1"
      "plays M (ask_calls fd' pfd' ip port (create_req11 h' t' imsi' b' ip port apn' tai')
        (create_req5 (gtp_with 2 1 33 0 h') t' imsi' b' t' apn' tai')) w1 = Some w2"
      "plays M (relay_calls pfd fd (create_rsp5 h'' s5_cul b'' s5_ul ue_ip)
        (create_rsp11 (gtp_with 2 1 (of_nat (20 + length ue_ip)) t' h'') t ue_ip t s5_ul t')) w2 = Some w"
    using assms(17) by (auto simp: plays_append split: option.splits)
  let ?m = "m\<lparr>md_tid := t, md_guti := imsi, initial_fd := fd, act := 3, mbuf := zero_buf, buflen := 0\<rparr>"
  let ?m' = "m'\<lparr>md_tid := t', md_guti := imsi', initial_fd := fd', act := 3, mbuf := zero_buf, buflen := 0\<rparr>"
  let ?es = "[Events [readable fd], Events [writable pfd]]" and ?es' = "[Events [readable fd'], Events [writable pfd']]"
  obtain s1 where s1: "sgw3_run M g lfd ?es s = Inr s1"
      "world s1 = w1" "length (rbuf s1) = 1024" "fdmap s1 = (fdmap s)(fd := None, pfd \<mapsto> ?m)"
    using sgw3_create_request [OF assms(1-3) neq(1,2) none assms(10,11,13-15) calls(1), of g] by blast
  have known: "fdmap s1 fd' = Some m'" and none': "((fdmap s1)(fd' := None)) pfd' = None"
    using s1(4) assms(4,9) neq(5-8) by simp_all
  obtain s2 where s2: "sgw3_run M g lfd ?es' s1 = Inr s2" "world s2 = w2" "length (rbuf s2) = 1024"
      "fdmap s2 = (fdmap s1)(fd' := None, pfd' \<mapsto> ?m')" "v_s11_cteid_mme s2 = t'" "v_s5_uteid_dl s2 = t'"
    using sgw3_create_request [OF known assms(5,6) neq(3,4) none' s1(3) assms(12-15), of M t' imsi' b' apn' tai' w2 g]
      calls(2) s1(2) by blast
  have waiting: "fdmap s2 pfd = Some ?m" and none'': "((fdmap s2)(pfd := None)) (initial_fd ?m) = None"
    using s1(4) s2(4) neq(6-8) by simp_all
  have "\<exists>s'. sgw3_run M g lfd [Events [readable pfd]] s2 = Inr s' \<and> world s' = w"
    using sgw3_create_answer [OF waiting _ neq(2) none'' s2(3) assms(16), of M h'' s5_cul b'' s5_ul w g]
      calls(3) s2(2,5,6) by auto
  then show ?thesis
    using s1(1) s2(1) sgw3_run_append [of M g lfd ?es "?es' @ [Events [readable pfd]]" s]
      sgw3_run_append [of M g lfd ?es' "[Events [readable pfd]]" s1] by auto
qed

subsection \<open>A whole detach at the SGW\<close>

definition sgw3_detach_calls :: "int \<Rightarrow> int \<Rightarrow> u8 list \<Rightarrow> u8 list \<Rightarrow> u8 list \<Rightarrow> u8 list \<Rightarrow> call list" where
  "sgw3_detach_calls fd pfd req11 req5 rsp5 rsp11 =
     [Ctl Ctl_del fd, Read fd (frame req11), Write pfd (frame req5), Ctl (Ctl_add EPOLLIN) pfd,
      Ctl Ctl_del pfd, Read pfd (frame rsp5), Close pfd, Write fd (frame rsp11), Close fd]"

text \<open>With one identifier per context this removes what version 1.0 removes.\<close>

lemma sgw3_removed_detached:
  "sgw_tabs_ok t \<Longrightarrow> ue_ctx_s t imsi = Some c \<Longrightarrow> sgw3_removed (s11_cteid_mme_s c) imsi t = sgw_detached imsi t"
  by (simp add: sgw3_removed_def sgw_detached_def sgw_tabs_ok_def sgw_ue_at_def at_or_def)

lemma sgw3_detach_session:
  assumes "fdmap s fd = Some m" and "act m = 1" and "initial_fd m = pfd" and "fd \<noteq> lfd" and "pfd \<noteq> lfd"
    and "((fdmap s)(fd := None)) pfd = None" and "length (rbuf s) = 1024" and "sgw_tabs_ok (sgw_tabs s)"
    and "msg_type_g h = 3" and "s11_id (sgw_tabs s) (teid h) = Some imsi" and "gettid imsi = Inr (teid h)"
    and "ue_ctx_s (sgw_tabs s) imsi = Some c" and "s11_id (sgw_tabs s) (s11_cteid_mme_s c) = Some imsi"
    and "plays M (sgw3_detach_calls fd pfd (detach_req h b tai) (detach_req (gtp_with 2 4 9 (s5_cteid_ul_s c) h) b tai)
      (bool_rsp h' True) (bool_rsp (gtp_with 2 3 1 (s11_cteid_mme_s c) h') True)) (world s) = Some w"
  shows "\<exists>s'. sgw3_run M g lfd [Events [readable fd], Events [readable pfd]] s = Inr s' \<and> world s' = w \<and>
    length (rbuf s') = 1024 \<and> fdmap s' = (fdmap s)(fd := None, pfd := None) \<and>
    sgw_tabs s' = sgw_detached imsi (sgw_tabs s)"
proof -
  let ?m = "m\<lparr>md_tid := s11_cteid_mme_s c, md_guti := imsi, act := 4, buflen := 0, initial_fd := fd, mbuf := zero_buf\<rparr>"
  obtain w1 where calls: "plays M [Ctl Ctl_del fd, Read fd (frame (detach_req h b tai)),
        Write (initial_fd m) (frame (detach_req (gtp_with 2 4 9 (s5_cteid_ul_s c) h) b tai)),
        Ctl (Ctl_add EPOLLIN) (initial_fd m)] (world s) = Some w1"
      "plays M [Ctl Ctl_del pfd, Read pfd (frame (bool_rsp h' True)), Close pfd,
        Write fd (frame (bool_rsp (gtp_with 2 3 1 (s11_cteid_mme_s c) h') True)), Close fd] w1 = Some w"
    using assms(3,14) by (auto simp: sgw3_detach_calls_def split: option.splits)
  obtain s1 where s1: "sgw3_request M fd m s = Inr s1" "world s1 = w1" "length (rbuf s1) = 1024"
      "fdmap s1 = (fdmap s)(fd := None, pfd \<mapsto> ?m)" "sgw_tabs s1 = sgw_tabs s"
    using sgw3_detach_event [OF assms(9-12,7) _ calls(1)] assms(3,6) by auto
  obtain s2 where s2: "sgw3_detached M pfd ?m s1 = Inr s2" "world s2 = w" "length (rbuf s2) = 1024"
      "fdmap s2 = (fdmap s1)(pfd := None, fd := None)"
      "sgw_tabs s2 = sgw3_removed (s11_cteid_mme_s c) imsi (sgw_tabs s)"
    using sgw3_detached_event [of s1 ?m imsi M pfd h' w] calls(2) s1 assms(13) by auto
  have "sgw3_event M g lfd (readable fd) s = Inr s1" "sgw3_event M g lfd (readable pfd) s1 = Inr s2"
    using assms(1,2,4,5) s1 s2(1) by (simp_all add: sgw3_event_known sgw3_handle_def)
  then show ?thesis
    using s1(4) s2 sgw3_removed_detached [OF assms(8,12)] by (simp add: sgw3_run_def fun_upd_twist)
qed

subsection \<open>Runs of the PGW\<close>

definition pgw3_detach_calls :: "int \<Rightarrow> u8 list \<Rightarrow> u8 list \<Rightarrow> call list" where
  "pgw3_detach_calls fd req5 rsp5 = [Ctl Ctl_del fd, Read fd (frame req5), Write fd (frame rsp5), Close fd]"

lemma pgw3_event_known:
  "\<not> ev_err e \<Longrightarrow> \<not> ev_hup e \<Longrightarrow> ev_fd e \<noteq> lfd \<Longrightarrow> fdmap s (ev_fd e) = Some m \<Longrightarrow>
   pgw3_event M lfd e s = pgw3_handle M e m s"
  unfolding pgw3_event_def by (rule on_event_known)

lemma pgw3_create_session:
  assumes "fdmap s fd = Some m" and "act m = 1" and "fd \<noteq> lfd" and "length (rbuf s) = 1024"
    and "msg_type_g h = 1" and "short_ip (ip_of (pgw_tabs s) imsi)"
    and "plays M (relay_calls fd fd (create_req5 h t imsi b s5_dl apn tai)
        (create_rsp5 (gtp_with 2 1 (of_nat (13 + length (ip_of (pgw_tabs s) imsi))) t h) t b t
        (ip_of (pgw_tabs s) imsi))) (world s) = Some w"
  shows "\<exists>s'. pgw3_run M lfd [Events [readable fd]] s = Inr s' \<and> world s' = w \<and> fdmap s' = fdmap s \<and>
    length (rbuf s') = 1024 \<and> (\<exists>r. rbuf s' = frame (create_req5 h t imsi b s5_dl apn tai) @ r) \<and>
    pgw_tabs s' = pgw_created t imsi b s5_dl apn tai (pgw_tabs s)"
  using pgw3_create_event [OF assms(5,6,4), of M fd t b s5_dl apn tai w] assms
  by (auto simp: calls_defs pgw3_run_def pgw3_event_known pgw3_handle_def)

lemma pgw3_detach_session:
  assumes "fdmap s fd = Some m" and "act m = 1" and "fd \<noteq> lfd" and "length (rbuf s) = 1024"
    and "msg_type_g h = 4" and "s5_id_p (pgw_tabs s) (teid h) = Some imsi" and "gettid imsi = Inr (teid h)"
    and "ue_ctx_p (pgw_tabs s) imsi = Some c"
    and "plays M (pgw3_detach_calls fd (detach_req h b tai) (bool_rsp (gtp_with 2 4 1 (s5_cteid_dl_p c) h) True))
      (world s) = Some w"
  shows "\<exists>s'. pgw3_run M lfd [Events [readable fd]] s = Inr s' \<and> world s' = w \<and>
    fdmap s' = (fdmap s)(fd := None) \<and> length (rbuf s') = 1024 \<and> pgw_tabs s' = pgw_detached imsi (pgw_tabs s)"
  using pgw3_detach_event [OF assms(5-8,4), of M fd b tai w] assms
  by (auto simp: pgw3_detach_calls_def pgw3_run_def pgw3_event_known pgw3_handle_def)

lemma pgw3_replay_session:
  assumes "fdmap s fd = Some m" and "act m = 1" and "fd \<noteq> lfd" and "fdmap s fd' = Some m'" and "act m' = 1"
    and "fd' \<noteq> lfd" and "length (rbuf s) = 1024" and "msg_type_g h = 1" and "short_ip (ip_of (pgw_tabs s) imsi)"
    and rsp: "rsp = create_rsp5 (gtp_with 2 1 (of_nat (13 + length (ip_of (pgw_tabs s) imsi))) t h) t b t
      (ip_of (pgw_tabs s) imsi)"
    and "plays M
      (relay_calls fd fd (create_req5 h t imsi b s5_dl apn tai) rsp @
       [Ctl Ctl_del fd', Read fd' [], Write fd' (frame rsp), Ctl (Ctl_add EPOLLIN) fd']) (world s) = Some w"
  shows "\<exists>s'. pgw3_run M lfd [Events [readable fd], Events [readable fd']] s = Inr s' \<and> world s' = w"
proof -
  obtain w1 where calls: "plays M (relay_calls fd fd (create_req5 h t imsi b s5_dl apn tai) rsp) (world s) = Some w1"
      "plays M [Ctl Ctl_del fd', Read fd' [], Write fd' (frame rsp), Ctl (Ctl_add EPOLLIN) fd'] w1 = Some w"
    using assms(11) by (elim plays_appendE)
  obtain s1 r where s1: "pgw3_request M fd s = Inr s1" "world s1 = w1" "fdmap s1 = fdmap s"
      "rbuf s1 = frame (create_req5 h t imsi b s5_dl apn tai) @ r"
      "pgw_tabs s1 = pgw_created t imsi b s5_dl apn tai (pgw_tabs s)"
    using pgw3_create_event [OF assms(8,9,7), of M fd t b s5_dl apn tai w1] calls(1)
    unfolding rsp relay_calls_def by auto
  have "short_ip (ip_of (pgw_tabs s1) imsi)"
    and "plays M [Ctl Ctl_del fd', Read fd' [], Write fd' (frame (create_rsp5
       (gtp_with 2 1 (of_nat (13 + length (ip_of (pgw_tabs s1) imsi))) t h) t b t
      (ip_of (pgw_tabs s1) imsi))), Ctl (Ctl_add EPOLLIN) fd'] (world s1) = Some w"
    using s1(2,5) assms(9) calls(2) unfolding rsp by auto
  then obtain s2 where s2: "pgw3_request M fd' s1 = Inr s2" "world s2 = w"
    using pgw3_replay_event [OF assms(8) _ s1(4)] by blast
  have "pgw3_event M lfd (readable fd) s = Inr s1" "pgw3_event M lfd (readable fd') s1 = Inr s2"
    using assms(1-6) s1(1,3) s2(1) by (simp_all add: pgw3_event_known pgw3_handle_def)
  then show ?thesis
    using s2(2) by (simp add: pgw3_run_def)
qed

end
