(* ===== verification/Epc3_Samples.thy ===== *)
theory Epc3_Samples
  imports Epc3_Mme_Session Epc3_Gateway_Session Epc_Samples
begin

section \<open>Concrete states of version 3.0\<close>

text \<open>
  Loops of the three programs with connections 5 and 6, on a scripted stack: its world is the list of the
  calls that it answers. The listening descriptor is 1.
\<close>

lemma scripted_calls: "list_all real_call cs \<Longrightarrow> plays scripted cs cs = Some []"
  using plays_scripted [of cs "[]"] by simp

lemma real_calls [simp]:
  "list_all real_call (ask_calls fd pfd ip port a b) \<longleftrightarrow> 0 \<le> pfd"
  "list_all real_call (relay_calls fd fd' a b)"
  "list_all real_call (challenge_calls fd fd' a b)"
  "list_all real_call (mme3_detach_calls fd sfd a b c d)"
  "list_all real_call (sgw3_detach_calls fd sfd a b c d)"
  "list_all real_call (pgw3_detach_calls fd a b)"
  by (simp_all add: calls_defs challenge_calls_def mme3_detach_calls_def sgw3_detach_calls_def pgw3_detach_calls_def
      real_call_def)

definition sample_mdata :: "int \<Rightarrow> mme_mdata" where
  "sample_mdata ini = \<lparr>act = 1, initial_fd = ini, mbuf = zero_buf, buflen = 0, md_msui = 0\<rparr>"

definition sample_mme_tabs :: mme where
  "sample_mme_tabs =
     \<lparr>mme_ids_of = \<lparr>mcc = 1, mnc = 1, plmn_id = 11, mmegi = 1, mmec = 1, mmei = 11, gummei = 1111\<rparr>,
      ue_count = 0, s1mme_id = [9 \<mapsto> plan_guti 7],
      ue_ctx_m = [plan_guti 7 \<mapsto> new_mme_ue\<lparr>imsi_m := plan_imsi 7, eps_bearer_id_m := 5, s11_cteid_sgw_m := 7\<rparr>]\<rparr>"

text \<open>Connection 5 has its SGW connection at 8, connection 6 has none.\<close>

definition sample_mme3 :: "call list \<Rightarrow> call list mme3" where
  "sample_mme3 cs =
     \<lparr>world = cs, fdmap = [5 \<mapsto> sample_mdata 8, 6 \<mapsto> sample_mdata 0], rbuf = replicate 1024 0, rpkt = sample_pkt,
      mme_tabs = sample_mme_tabs, v_guti = 0, v_eps_bearer_id = 0, v_k_nas_enc = 0, v_k_nas_int = 0\<rparr>"

definition sample_sgw_tabs :: sgw where
  "sample_sgw_tabs = \<lparr>s11_id = [7 \<mapsto> plan_imsi 7], s1_id = [7 \<mapsto> plan_imsi 7], s5_id = [7 \<mapsto> plan_imsi 7],
     ue_ctx_s = [plan_imsi 7 \<mapsto> new_sgw_ue\<lparr>s1_uteid_ul_s := 7, s5_uteid_ul_s := 7, s5_uteid_dl_s := 7,
       s11_cteid_mme_s := 7, s11_cteid_sgw_s := 7, s5_cteid_ul_s := 7, s5_cteid_dl_s := 7,
       pgw_s5_ip_addr_s := v3_g_pgw_s5_ip_addr, pgw_s5_port_s := v3_g_pgw_s5_port\<rparr>], ho_ue_ctx = Map.empty\<rparr>"

definition sample_sgw_mdata :: "int \<Rightarrow> sgw_mdata" where
  "sample_sgw_mdata ini = \<lparr>act = 1, initial_fd = ini, mbuf = zero_buf, buflen = 0, md_tid = 0, md_guti = 0\<rparr>"

definition sample_sgw3 :: "call list \<Rightarrow> call list sgw3" where
  "sample_sgw3 cs =
     \<lparr>world = cs, fdmap = [5 \<mapsto> sample_sgw_mdata 8, 6 \<mapsto> sample_sgw_mdata 0], rbuf = replicate 1024 0,
      rpkt = sample_pkt, sgw_tabs = sample_sgw_tabs, v_s11_cteid_mme = 0, v_s5_uteid_dl = 0\<rparr>"

definition sample_pgw_tabs :: pgw where
  "sample_pgw_tabs = \<lparr>s5_id_p = [7 \<mapsto> plan_imsi 7], sgi_id = [''172.16.0.9'' \<mapsto> plan_imsi 7],
     ue_ctx_p = [plan_imsi 7 \<mapsto> new_pgw_ue\<lparr>ip_addr_p := ''172.16.0.9'', s5_cteid_ul_p := 7, s5_cteid_dl_p := 7\<rparr>],
     ip_addrs = [plan_imsi 7 \<mapsto> ''172.16.0.9'', plan_imsi 8 \<mapsto> ''172.16.0.10'']\<rparr>"

definition sample_pgw_mdata :: pgw_mdata where
  "sample_pgw_mdata = \<lparr>act = 1, initial_fd = 0, mbuf = zero_buf, buflen = 0, md_idfr = 0\<rparr>"

definition sample_pgw3 :: "call list \<Rightarrow> call list pgw3" where
  "sample_pgw3 cs =
     \<lparr>world = cs, fdmap = [5 \<mapsto> sample_pgw_mdata, 6 \<mapsto> sample_pgw_mdata], rbuf = replicate 1024 0,
      rpkt = sample_pkt, pgw_tabs = sample_pgw_tabs\<rparr>"

lemma sample3_sels [simp]:
  "world (sample_mme3 cs) = cs" "fdmap (sample_mme3 cs) = [5 \<mapsto> sample_mdata 8, 6 \<mapsto> sample_mdata 0]"
  "rbuf (sample_mme3 cs) = replicate 1024 0" "rpkt (sample_mme3 cs) = sample_pkt" "mme_tabs (sample_mme3 cs) = sample_mme_tabs"
  "world (sample_sgw3 cs) = cs" "fdmap (sample_sgw3 cs) = [5 \<mapsto> sample_sgw_mdata 8, 6 \<mapsto> sample_sgw_mdata 0]"
  "rbuf (sample_sgw3 cs) = replicate 1024 0" "sgw_tabs (sample_sgw3 cs) = sample_sgw_tabs"
  "world (sample_pgw3 cs) = cs" "fdmap (sample_pgw3 cs) = [5 \<mapsto> sample_pgw_mdata, 6 \<mapsto> sample_pgw_mdata]"
  "rbuf (sample_pgw3 cs) = replicate 1024 0" "pgw_tabs (sample_pgw3 cs) = sample_pgw_tabs"
  "act (sample_mdata i) = 1" "initial_fd (sample_mdata i) = i" "mbuf (sample_mdata i) = zero_buf"
  "act (sample_sgw_mdata i) = 1" "initial_fd (sample_sgw_mdata i) = i" "mbuf (sample_sgw_mdata i) = zero_buf"
  "act sample_pgw_mdata = 1" "length zero_buf = 500"
  "gummei (mme_ids_of sample_mme_tabs) = 1111" "ue_count sample_mme_tabs = 0"
  by (simp_all add: sample_mme3_def sample_sgw3_def sample_pgw3_def sample_mdata_def sample_sgw_mdata_def
      sample_pgw_mdata_def zero_buf_def sample_mme_tabs_def)

lemma sample_pkt_gtp [simp]: "gtp_hdr sample_pkt = sample_gtp 0 0"
  by (simp add: sample_pkt_def)

text \<open>The calls of an attach do not depend on the world that answers them.\<close>

lemma sample_attach_calls:
  "mme3_attach_calls X fd hfd sfd (sample_mme3 cs) = mme3_attach_calls X fd hfd sfd (sample_mme3 [])"
  "0 \<le> hfd \<Longrightarrow> 0 \<le> sfd \<Longrightarrow> list_all real_call
     (mme3_attach_calls X fd hfd sfd s guti t h1 h2 h3 h4 imsi tai ksi cap dh autn rand_num xres k_asme
       g5 ip s1_ul s5_ul s5_dl b s1_dl g6)"
  by (simp_all add: fun_eq_iff mme3_attach_calls_def Let_def autn_req3_def)

lemma sample_ids:
  "i < 10 ^ 9 \<Longrightarrow> get_guti 1111 (plan_imsi i) = Inr (plan_guti i)"
  "i < 10 ^ 9 \<Longrightarrow> gettid (plan_guti i) = Inr (of_nat i)"
  "gettid (plan_imsi 7) = Inr 7"
  "i < 10 ^ 9 \<Longrightarrow> plan_guti i \<noteq> 0" "plan_imsi 7 \<noteq> 0" "plan_guti 8 \<noteq> plan_guti 7"
proof -
  show "i < 10 ^ 9 \<Longrightarrow> get_guti 1111 (plan_imsi i) = Inr (plan_guti i)"
    using get_guti_1111 [OF plan_imsi12, of i] by (simp add: plan_guti_def)
  show "i < 10 ^ 9 \<Longrightarrow> gettid (plan_guti i) = Inr (of_nat i)"
    by (rule gettid_plan)
  show "gettid (plan_imsi 7) = Inr 7"
    using gettid_plan(2) [of 7] by simp
  show "plan_guti i \<noteq> 0" if "i < 10 ^ 9"
  proof -
    have "unat (plan_guti i) \<noteq> 0"
      using that by (simp add: unat_plan_guti)
    then show ?thesis by auto
  qed
  show "plan_imsi 7 \<noteq> 0" "plan_guti 8 \<noteq> plan_guti 7"
    by (simp_all add: plan_imsi_def plan_guti_def)
qed

lemma sample_ctx3:
  "s1mme_id sample_mme_tabs 9 = Some (plan_guti 7)"
  "ue_ctx_m sample_mme_tabs (plan_guti 7) =
     Some (new_mme_ue\<lparr>imsi_m := plan_imsi 7, eps_bearer_id_m := 5, s11_cteid_sgw_m := 7\<rparr>)"
  by (simp_all add: sample_mme_tabs_def)

lemma sample_pgw_ip: "ip_of sample_pgw_tabs (plan_imsi 8) = ''172.16.0.10''" "short_ip ''172.16.0.10''"
  by (simp_all add: ip_of_def sample_pgw_tabs_def plan_imsi_def short_ip_def nul_free_def)

lemma sample_pgw_addr:
  "short_ip v3_g_pgw_s5_ip_addr"
  "set_inet_sock_addr sample_lib v3_g_pgw_s5_ip_addr port = Inr ([169, 254, 9, 102], word_of_int port)"
proof -
  show "short_ip v3_g_pgw_s5_ip_addr"
    by (simp add: short_ip_def v3_addrs)
  have "inet_aton sample_lib ''169.254.9.102'' = Some [169, 254, 9, 102]"
    by code_simp
  then show "set_inet_sock_addr sample_lib v3_g_pgw_s5_ip_addr port = Inr ([169, 254, 9, 102], word_of_int port)"
    by (simp add: config3_defs set_inet_sock_addr_def)
qed

definition sample_sgw_ue :: sgw_ue where
  "sample_sgw_ue = new_sgw_ue\<lparr>s1_uteid_ul_s := 7, s5_uteid_ul_s := 7, s5_uteid_dl_s := 7,
     s11_cteid_mme_s := 7, s11_cteid_sgw_s := 7, s5_cteid_ul_s := 7, s5_cteid_dl_s := 7,
     pgw_s5_ip_addr_s := v3_g_pgw_s5_ip_addr, pgw_s5_port_s := v3_g_pgw_s5_port\<rparr>"

definition sample_pgw_ue :: pgw_ue where
  "sample_pgw_ue = new_pgw_ue\<lparr>ip_addr_p := ''172.16.0.9'', s5_cteid_ul_p := 7, s5_cteid_dl_p := 7\<rparr>"

lemma sample_gateway_tabs:
  "s11_id sample_sgw_tabs 7 = Some (plan_imsi 7)" "ue_ctx_s sample_sgw_tabs (plan_imsi 7) = Some sample_sgw_ue"
  "s5_id_p sample_pgw_tabs 7 = Some (plan_imsi 7)" "ue_ctx_p sample_pgw_tabs (plan_imsi 7) = Some sample_pgw_ue"
  "s11_cteid_mme_s sample_sgw_ue = 7" "s5_cteid_ul_s sample_sgw_ue = 7" "pgw_s5_ip_addr_s sample_sgw_ue = v3_g_pgw_s5_ip_addr"
  "pgw_s5_port_s sample_sgw_ue = v3_g_pgw_s5_port" "s5_cteid_dl_p sample_pgw_ue = 7" "sgw_tabs_ok sample_sgw_tabs"
  "sgw_detached (plan_imsi 7) sample_sgw_tabs = new_sgw"
  by (simp_all add: sample_sgw_tabs_def sample_pgw_tabs_def sample_sgw_ue_def sample_pgw_ue_def sgw_tabs_ok_def
      sgw_detached_def sgw_ue_at_def new_sgw_def)

text \<open>From the start of a program: one connection is accepted, then a session is set up on it.\<close>

definition accept_calls :: "call list" where
  "accept_calls = [Accepted 1 5, Nonblock 5, Ctl (Ctl_add EPOLLIN) 5, No_more 1]"

lemma sample_accept:
  "world s = accept_calls @ cs \<Longrightarrow> accept_all scripted 1 m msg s = Inr (fd_insert 5 m (s\<lparr>world := cs\<rparr>))"
  using plays_scripted [of accept_calls cs]
  by (intro accept_one) (simp add: accept_calls_def real_call_def del: plays.simps)

definition sample_attach3 :: "call list" where
  "sample_attach3 =
     ask_calls 5 10 hss_ip3 hss_my_port (attach_req (sample_s1ap 1 0) (plan_imsi 8) 1 7 0)
       (autn_req_bytes (diameter_init 1 20 (sample_diameter 0)) (plan_imsi 8) 11 1 (nw_type_m new_mme_ue)) @
     challenge_calls 5 10 (autn_rsp_bytes (sample_diameter 1) 21 22 23 24)
       (autn_challenge (s1ap_init 1 24 7 1 (sample_s1ap 1 0)) 21 22 1)"

definition sample_new_mme3 :: "call list mme3" where
  "sample_new_mme3 =
     new_mme3 (mme_ids_of sample_mme_tabs) (accept_calls @ sample_attach3) (replicate 1024 0) sample_pkt 0 0 0 0"

definition sample_mme3_events :: "batch list" where
  "sample_mme3_events = [Events [readable 1]] @ [Events [readable 5], Events [writable 10], Events [readable 10]]"

lemma sample_mme3_reachable:
  "\<exists>s c. mme3_run scripted sample_lib (sample_mdata 0) 1 sample_mme3_events sample_new_mme3 = Inr s \<and>
     ue_ctx_m (mme_tabs s) (plan_guti 8) = Some c"
proof -
  let ?s = "fd_insert 5 (sample_mdata 0) (sample_new_mme3\<lparr>world := sample_attach3\<rparr>)"
  have 1: "mme3_run scripted sample_lib (sample_mdata 0) 1 [Events [readable 1]] sample_new_mme3 = Inr ?s"
    by (simp add: mme3_run_def mme3_event_def on_event_def handle_ran_accept_def sample_accept sample_new_mme3_def
        new_mme3_def sample_mdata_def)
  have s: "fdmap ?s 5 = Some (sample_mdata 0)" "fdmap ?s 10 = None" "mme_tabs ?s =
      \<lparr>mme_ids_of = mme_ids_of sample_mme_tabs, ue_count = 0, s1mme_id = Map.empty, ue_ctx_m = Map.empty\<rparr>"
      "rpkt ?s = sample_pkt" "world ?s = sample_attach3" "length (rbuf ?s) = 1024"
    by (simp_all add: sample_new_mme3_def new_mme3_def)
  have p: "plays scripted sample_attach3 sample_attach3 = Some []"
    by (rule scripted_calls) (simp add: sample_attach3_def)
  obtain s' where "mme3_run scripted sample_lib (sample_mdata 0) 1
        [Events [readable 5], Events [writable 10], Events [readable 10]] ?s = Inr s'"
      "mme_tabs s' = mme_challenged (plan_guti 8) (plan_imsi 8) 7 1 0 23 24 (mme_tabs ?s)"
    using mme3_attach_phase [where s = ?s and fd = 5 and m = "sample_mdata 0" and lfd = 1 and hfd = 10
        and U = "sample_mdata 0" and h = "sample_s1ap 1 0" and imsi = "plan_imsi 8" and guti = "plan_guti 8"
        and M = scripted and tai = 1 and ksi = 7 and cap = 0 and h' = "sample_diameter 1" and autn = 21
        and rand_num = 22 and xres = 23 and k_asme = 24 and w = "[]" and X = sample_lib] s p
    by (auto simp: sample_ids sample_attach3_def autn_req3_def ue_at_def at_or_def sample_pkt_def sample_s1ap_def sample_mme_tabs_def)
  then show ?thesis
    using 1 unfolding sample_mme3_events_def mme3_run_append by (auto simp: phase_contexts)
qed

definition sample_create3 :: "call list" where
  "sample_create3 =
     (let h = sample_gtp 1 0; g5 = gtp_with 2 1 33 0 h; g6 = gtp_with 2 1 24 8 g5; ip = v3_g_pgw_s5_ip_addr in
      ask_calls 5 11 ip 8000 (create_req11 h 8 (plan_imsi 8) 5 ip 8000 0 1) (create_req5 g5 8 (plan_imsi 8) 5 8 0 1) @
      relay_calls 11 5 (create_rsp5 g6 8 5 8 ''172.16.0.10'')
        (create_rsp11 (gtp_with 2 1 31 8 g6) 8 ''172.16.0.10'' 8 8 8))"

definition sample_new_sgw3 :: "call list sgw3" where
  "sample_new_sgw3 = new_sgw3 (accept_calls @ sample_create3) (replicate 1024 0) sample_pkt 0 0"

definition sample_sgw3_events :: "batch list" where
  "sample_sgw3_events = [Events [readable 1]] @ [Events [readable 5], Events [writable 11], Events [readable 11]]"

lemma sample_sgw3_reachable:
  "\<exists>s. sgw3_run scripted 0 1 sample_sgw3_events sample_new_sgw3 = Inr s \<and> s11_id (sgw_tabs s) 8 = Some (plan_imsi 8)"
proof -
  let ?s = "fd_insert 5 (sample_sgw_mdata 0) (sample_new_sgw3\<lparr>world := sample_create3\<rparr>)"
  have 1: "sgw3_run scripted 0 1 [Events [readable 1]] sample_new_sgw3 = Inr ?s"
    by (simp add: sgw3_run_def sgw3_event_def on_event_def handle_sgw_accept_def sample_accept sample_new_sgw3_def
        new_sgw3_def sample_sgw_mdata_def)
  have s: "fdmap ?s 5 = Some (sample_sgw_mdata 0)" "fdmap ?s 11 = None" "world ?s = sample_create3" "length (rbuf ?s) = 1024"
    by (simp_all add: sample_new_sgw3_def new_sgw3_def)
  have p: "plays scripted sample_create3 sample_create3 = Some []"
    by (rule scripted_calls) (simp add: sample_create3_def Let_def)
  obtain s' where "sgw3_run scripted 0 1 [Events [readable 5], Events [writable 11], Events [readable 11]] ?s = Inr s'"
      "sgw_tabs s' = sgw_created 8 (plan_imsi 8) 5 v3_g_pgw_s5_ip_addr 8000 0 1 8 8 (sgw_tabs ?s)"
    using sgw3_create_session [where s = ?s and fd = 5 and m = "sample_sgw_mdata 0" and lfd = 1 and pfd = 11
        and h = "sample_gtp 1 0" and ip = v3_g_pgw_s5_ip_addr and port = 8000 and ue_ip = "''172.16.0.10''"
        and M = scripted and t = 8 and imsi = "plan_imsi 8" and b = 5 and apn = 0 and tai = 1
        and h' = "gtp_with 2 1 24 8 (gtp_with 2 1 33 0 (sample_gtp 1 0))" and s5_cul = 8 and b' = 5 and s5_ul = 8
        and w = "[]" and g = 0] s p sample_pgw_addr(1) sample_pgw_ip(2)
    by (auto simp: sample_create3_def Let_def)
  then show ?thesis
    using 1 unfolding sample_sgw3_events_def sgw3_run_append by (auto simp: sgw_created_def)
qed

end
