(* ===== verification/Epc3_Properties.thy ===== *)
theory Epc3_Properties
  imports Epc3_Samples
begin

section \<open>Properties of version 3.0\<close>

text \<open>
  The event-driven programs run the same procedures as version 1.0 when every answer arrives before the
  next message of another UE (C24 to C26); in all reachable states their tables and buffers are well-formed
  (C27 and C28); what they share between connections mixes up UEs (C29). The hypotheses
  \<open>plays\<close> say that the stack answers the listed calls; the conclusions, that the program makes them.
\<close>

subsection \<open>The procedures\<close>

text \<open>
  C24: the attach procedure. The four messages of a UE and the answers of HSS and SGW, over nine events of the
  loop: the MME makes exactly the listed calls, with the challenge, the security mode command, the attach accept
  and the confirmation in the frames it writes, and the UE ends registered and connected, with the address and the
  tunnel ends that the gateways chose, its connection waiting for the next message.
\<close>

theorem mme3_attach:
  assumes "crypto_ok X"
    and "fdmap s fd = Some m" and "act m = 1" and "distinct [lfd, fd, hfd, sfd]"
    and "fdmap s hfd = None" and "fdmap s sfd = None" and "length (rbuf s) = 1024" and "length (mbuf U) = 500"
    and "get_guti (gummei (mme_ids_of (mme_tabs s))) imsi = Inr guti" and "guti \<noteq> 0" and "gettid guti = Inr t"
    and "short_ip ip"
    and "mme_s1ap_ue_id h1 = 0" and "ucast (ue_count (mme_tabs s) + 1) = i" and "i \<noteq> 0"
    and "msg_type_s h2 = 2" and "mme_s1ap_ue_id h2 = i" and "msg_type_s h3 = 3" and "mme_s1ap_ue_id h3 = i"
    and "msg_type_s h4 = 4" and "mme_s1ap_ue_id h4 = i"
    and "plays M (mme3_attach_calls X fd hfd sfd s guti t h1 h2 h3 h4 imsi tai ksi cap dh autn rand_num xres k_asme
      g5 ip s1_ul s5_ul s5_dl b s1_dl g6) (world s) = Some w"
  shows "\<exists>s' c. mme3_run M X U lfd (mme3_attach_events fd hfd sfd) s = Inr s' \<and> world s' = w \<and>
    s1mme_id (mme_tabs s') i = Some guti \<and> ue_ctx_m (mme_tabs s') guti = Some c \<and>
    emm_state_m c = 1 \<and> ecm_state_m c = 1 \<and> imsi_m c = imsi \<and> ip_addr_m c = ip \<and> s11_cteid_sgw_m c = t \<and>
    s1_uteid_ul_m c = s1_ul \<and> s1_uteid_dl_m c = s1_dl \<and>
    (\<exists>m'. fdmap s' fd = Some m' \<and> act m' = 1 \<and> initial_fd m' = sfd)"
  by (rule mme3_attach_procedure [OF assms])

theorem mme3_attach_witness:
  "let h = sample_s1ap; cs = mme3_attach_calls sample_lib 5 10 11 (sample_mme3 []) (plan_guti 8) 8 (h 1 0) (h 2 1)
     (h 3 1) (h 4 1) (plan_imsi 8) 1 7 0 (sample_diameter 1) 21 22 23 24 (sample_gtp 1 8) ''172.16.0.10'' 8 8 8 5 77
     (sample_gtp 2 8)
   in \<exists>s' c. mme3_run scripted sample_lib (sample_mdata 0) 1 (mme3_attach_events 5 10 11) (sample_mme3 cs) = Inr s' \<and>
    world s' = [] \<and> s1mme_id (mme_tabs s') 1 = Some (plan_guti 8) \<and> ue_ctx_m (mme_tabs s') (plan_guti 8) = Some c \<and>
    emm_state_m c = 1 \<and> ecm_state_m c = 1 \<and> imsi_m c = plan_imsi 8 \<and> ip_addr_m c = ''172.16.0.10'' \<and>
    s11_cteid_sgw_m c = 8 \<and> s1_uteid_ul_m c = 8 \<and> s1_uteid_dl_m c = 77 \<and>
    (\<exists>m'. fdmap s' 5 = Some m' \<and> act m' = 1 \<and> initial_fd m' = 11)"
proof -
  let ?h = sample_s1ap
  let ?cs = "mme3_attach_calls sample_lib 5 10 11 (sample_mme3 []) (plan_guti 8) 8 (?h 1 0) (?h 2 1)
     (?h 3 1) (?h 4 1) (plan_imsi 8) 1 7 0 (sample_diameter 1) 21 22 23 24 (sample_gtp 1 8) ''172.16.0.10'' 8 8 8 5 77
     (sample_gtp 2 8)"
  have run: "plays scripted (mme3_attach_calls sample_lib 5 10 11 (sample_mme3 ?cs) (plan_guti 8) 8 (?h 1 0) (?h 2 1)
     (?h 3 1) (?h 4 1) (plan_imsi 8) 1 7 0 (sample_diameter 1) 21 22 23 24 (sample_gtp 1 8) ''172.16.0.10'' 8 8 8 5 77
     (sample_gtp 2 8)) (world (sample_mme3 ?cs)) = Some []"
    by (simp add: sample_attach_calls(1) [of _ _ _ _ ?cs] scripted_calls sample_attach_calls(2))
  show ?thesis
    unfolding Let_def
    by (rule mme3_attach [where m = "sample_mdata 8", OF crypto_ok_sample _ _ _ _ _ _ _ _ _ _ _ _ _ _ _ _ _ _ _ _ run])
      (simp_all add: sample_ids sample_ids(2) [of 8, simplified] short_ip_def nul_free_def)
qed

text \<open>
  C25: the detach. The request goes to the SGW on the connection that the attach opened; after its answer the UE
  is told, both connections are closed and have left the map, and the tables lose exactly the id and the context of
  the UE.
\<close>

theorem mme3_detach_completes:
  assumes "crypto_ok X"
    and "fdmap s fd = Some m" and "act m = 1" and "initial_fd m = sfd" and "fd \<noteq> lfd" and "sfd \<noteq> lfd"
    and "((fdmap s)(fd := None)) sfd = None" and "length (rbuf s) = 1024"
    and "msg_type_s h = 5" and "mme_s1ap_ue_id h \<noteq> 0" and "s1mme_id (mme_tabs s) (mme_s1ap_ue_id h) = Some guti"
    and "ue_ctx_m (mme_tabs s) guti = Some c"
    and "plays M (mme3_detach_calls fd sfd (nas_msg X h (detach_body guti' ksi dt)) (detach3 (gtp_hdr (rpkt s)) c)
        (bool_rsp h' True) (farewell3 X h)) (world s) = Some w"
  shows "\<exists>s'. mme3_run M X U lfd [Events [readable fd], Events [readable sfd]] s = Inr s' \<and> world s' = w \<and>
    fdmap s' = (fdmap s)(fd := None, sfd := None) \<and>
    s1mme_id (mme_tabs s') = (s1mme_id (mme_tabs s))(mme_s1ap_ue_id h := None) \<and>
    ue_ctx_m (mme_tabs s') = (ue_ctx_m (mme_tabs s))(guti := None)"
  using mme3_detach_phase [OF assms, of U] by (auto simp: mme_removed_def)

theorem mme3_detach_completes_witness:
  "let h = sample_s1ap 5 9;
     c = new_mme_ue\<lparr>imsi_m := plan_imsi 7, eps_bearer_id_m := 5, s11_cteid_sgw_m := 7\<rparr>;
     cs = mme3_detach_calls 5 8 (nas_msg sample_lib h (detach_body (plan_guti 7) 7 1)) (detach3 (sample_gtp 0 0) c)
       (bool_rsp (sample_gtp 3 7) True) (farewell3 sample_lib h)
   in \<exists>s'. mme3_run scripted sample_lib (sample_mdata 0) 1 [Events [readable 5], Events [readable 8]] (sample_mme3 cs) = Inr s' \<and>
    world s' = [] \<and> fdmap s' = [6 \<mapsto> sample_mdata 0] \<and> s1mme_id (mme_tabs s') = Map.empty \<and>
    ue_ctx_m (mme_tabs s') = Map.empty"
proof -
  let ?h = "sample_s1ap 5 9"
  let ?c = "new_mme_ue\<lparr>imsi_m := plan_imsi 7, eps_bearer_id_m := 5, s11_cteid_sgw_m := 7\<rparr>"
  let ?cs = "mme3_detach_calls 5 8 (nas_msg sample_lib ?h (detach_body (plan_guti 7) 7 1)) (detach3 (sample_gtp 0 0) ?c)
       (bool_rsp (sample_gtp 3 7) True) (farewell3 sample_lib ?h)"
  have "\<exists>s'. mme3_run scripted sample_lib (sample_mdata 0) 1 [Events [readable 5], Events [readable 8]] (sample_mme3 ?cs) = Inr s' \<and>
    world s' = [] \<and> fdmap s' = (fdmap (sample_mme3 ?cs))(5 := None, 8 := None) \<and>
    s1mme_id (mme_tabs s') = (s1mme_id (mme_tabs (sample_mme3 ?cs)))(mme_s1ap_ue_id ?h := None) \<and>
    ue_ctx_m (mme_tabs s') = (ue_ctx_m (mme_tabs (sample_mme3 ?cs)))(plan_guti 7 := None)"
    by (rule mme3_detach_completes [OF crypto_ok_sample, where m = "sample_mdata 8" and c = ?c and guti' = "plan_guti 7"
          and ksi = 7 and dt = 1 and h' = "sample_gtp 3 7"]) (simp_all add: sample_ctx3 scripted_calls)
  then show ?thesis
    by (simp add: Let_def sample_mme_tabs_def fun_upd_twist)
qed

text \<open>
  C26: create session. SGW and PGW of version 3.0, each with its own stack and the SGW's frames delivered to the
  PGW and back, answer the request of the MME with the bytes with which SGW and PGW of version 1.0 answer it, and
  leave the same tables.
\<close>

theorem gateways3_create_as_v1:
  assumes sgw: "fdmap s fd = Some m" "act m = 1" "length (mbuf m) = 500" "fd \<noteq> lfd" "pfd \<noteq> lfd"
      "((fdmap s)(fd := None)) pfd = None" "length (rbuf s) = 1024"
    and pgw: "fdmap p qfd = Some n" "act n = 1" "qfd \<noteq> plfd" "length (rbuf p) = 1024"
    and msg: "msg_type_g h = 1" "short_ip ip" "- (2 ^ 31) \<le> port" "port < 2 ^ 31"
      "set_inet_sock_addr X ip port = Inr a" "short_ip (ip_of (pgw_tabs p) imsi)"
    and bytes: "req = create_req11 h t imsi b ip port apn tai" "req5 = create_req5 (gtp_with 2 1 33 0 h) t imsi b t apn tai"
      "rsp5 = create_rsp5 (gtp_with 2 1 (of_nat (13 + length (ip_of (pgw_tabs p) imsi))) t (gtp_with 2 1 33 0 h)) t b t
        (ip_of (pgw_tabs p) imsi)"
    and calls: "plays N (relay_calls qfd qfd req5 rsp5) (world p) = Some v"
      "plays M (ask_calls fd pfd ip port req req5 @ relay_calls pfd fd rsp5 rsp) (world s) = Some w"
    and v1: "sgw_s11_turn X (\<lambda>_. call_udp (pgw_s5_turn X) me) (mme, Rx req)
        (k, sgw_tabs s, Some (k', pgw_tabs p)) = Inr ([Reply mme rsp], k1, S, Some (k1', P))"
  shows "\<exists>s' p'. sgw3_run M g lfd [Events [readable fd], Events [writable pfd], Events [readable pfd]] s = Inr s' \<and>
    pgw3_run N plfd [Events [readable qfd]] p = Inr p' \<and> sgw_tabs s' = S \<and> pgw_tabs p' = P"
proof -
  let ?ue = "ip_of (pgw_tabs p) imsi" and ?g = "gtp_with 2 1 33 0 h"
  let ?g' = "gtp_with 2 1 (of_nat (13 + length ?ue)) t ?g"
  have g: "msg_type_g ?g = 1"
    by (simp add: gtp_with_def)
  have turn: "call_udp (pgw_s5_turn X) me req5 (Some (k', pgw_tabs p)) =
      (Rx rsp5, Some (view ?g (s1ap_hdr k') (diameter_hdr k') (gtp_bytes ?g) (drop 16 req5),
        pgw_created t imsi b t apn tai (pgw_tabs p)))"
    unfolding bytes(2,3) by (simp add: call_udp_def pgw_create_turn [OF g msg(6)])
  have "[Reply mme rsp] = [Reply mme (create_rsp11 (gtp_with 2 1 (of_nat (20 + length ?ue)) t ?g') t ?ue t t t)] \<and>
      S = sgw_created t imsi b ip port apn tai t t (sgw_tabs s) \<and> P = pgw_created t imsi b t apn tai (pgw_tabs p)"
    using v1 sgw_create_turn [where pgw = "\<lambda>_. call_udp (pgw_s5_turn X) me", OF msg(1-6) turn [unfolded bytes(2,3)]] unfolding bytes(1) by auto
  then show ?thesis
    using sgw3_create_session [OF sgw msg(1-4,6), of M t imsi b apn tai ?g' t b t w g]
      pgw3_create_session [OF pgw g msg(6), of N t b t apn tai v] calls bytes by auto
qed

theorem gateways3_create_as_v1_witness:
  "let h = sample_gtp 1 0; g5 = gtp_with 2 1 33 0 h; ip = v3_g_pgw_s5_ip_addr; ue = ''172.16.0.10'';
     req = create_req11 h 8 (plan_imsi 8) 5 ip 8000 0 1; req5 = create_req5 g5 8 (plan_imsi 8) 5 8 0 1;
     rsp5 = create_rsp5 (gtp_with 2 1 24 8 g5) 8 5 8 ue;
     rsp = create_rsp11 (gtp_with 2 1 31 8 (gtp_with 2 1 24 8 g5)) 8 ue 8 8 8;
     s = sample_sgw3 (ask_calls 5 11 ip 8000 req req5 @ relay_calls 11 5 rsp5 rsp);
     p = sample_pgw3 (relay_calls 6 6 req5 rsp5)
   in \<exists>s' p'. sgw3_run scripted 0 1 [Events [readable 5], Events [writable 11], Events [readable 11]] s = Inr s' \<and>
    pgw3_run scripted 1 [Events [readable 6]] p = Inr p' \<and>
    sgw_tabs s' = sgw_created 8 (plan_imsi 8) 5 ip 8000 0 1 8 8 sample_sgw_tabs \<and>
    pgw_tabs p' = pgw_created 8 (plan_imsi 8) 5 8 0 1 sample_pgw_tabs"
proof -
  let ?h = "sample_gtp 1 0" and ?ip = v3_g_pgw_s5_ip_addr and ?ue = "''172.16.0.10''"
  let ?g5 = "gtp_with 2 1 33 0 ?h"
  let ?g6 = "gtp_with 2 1 24 8 ?g5"
  let ?req = "create_req11 ?h 8 (plan_imsi 8) 5 ?ip 8000 0 1" and ?req5 = "create_req5 ?g5 8 (plan_imsi 8) 5 8 0 1"
  let ?rsp5 = "create_rsp5 ?g6 8 5 8 ?ue" and ?rsp = "create_rsp11 (gtp_with 2 1 31 8 ?g6) 8 ?ue 8 8 8"
  let ?net = "\<lambda>_ :: sock_addr. call_udp (pgw_s5_turn sample_lib) ([10, 0, 0, 1], 1)"
  have g: "msg_type_g ?h = 1" "msg_type_g ?g5 = 1"
    by (simp_all add: gtp_with_def)
  have turn: "call_udp (pgw_s5_turn sample_lib) ([10, 0, 0, 1], 1) ?req5 (Some (sample_pkt, sample_pgw_tabs)) =
      (Rx ?rsp5, Some (view ?g5 (s1ap_hdr sample_pkt) (diameter_hdr sample_pkt) (gtp_bytes ?g5) (drop 16 ?req5),
        pgw_created 8 (plan_imsi 8) 5 8 0 1 sample_pgw_tabs))"
    using pgw_create_turn [OF g(2), of sample_pgw_tabs "plan_imsi 8" sample_lib "([10, 0, 0, 1], 1)" 8 5 8 0 1 sample_pkt]
    by (simp add: call_udp_def sample_pgw_ip)
  have v1: "sgw_s11_turn sample_lib ?net (([10, 0, 0, 2], 2), Rx ?req) (sample_pkt, sample_sgw_tabs, Some (sample_pkt, sample_pgw_tabs)) =
      Inr ([Reply ([10, 0, 0, 2], 2) ?rsp],
        view ?h (s1ap_hdr sample_pkt) (diameter_hdr sample_pkt) (gtp_bytes ?h) (drop 16 ?req),
        sgw_created 8 (plan_imsi 8) 5 ?ip 8000 0 1 8 8 sample_sgw_tabs,
        Some (view ?g5 (s1ap_hdr sample_pkt) (diameter_hdr sample_pkt) (gtp_bytes ?g5) (drop 16 ?req5),
          pgw_created 8 (plan_imsi 8) 5 8 0 1 sample_pgw_tabs))"
    using sgw_create_turn [where pgw = ?net and src = "([10, 0, 0, 2], 2)" and pkt = sample_pkt and s = sample_sgw_tabs,
        OF g(1) sample_pgw_addr(1) _ _ sample_pgw_addr(2) [of 8000] sample_pgw_ip(2) turn] by simp
  show ?thesis
    unfolding Let_def
    by (rule gateways3_create_as_v1 [where m = "sample_sgw_mdata 8" and n = sample_pgw_mdata and h = ?h and ip = ?ip
          and port = 8000 and X = sample_lib and me = "([10, 0, 0, 1], 1)" and mme = "([10, 0, 0, 2], 2)"
          and k = sample_pkt and k' = sample_pkt and imsi = "plan_imsi 8" and t = 8 and b = 5 and apn = 0 and tai = 1
          and req = ?req and ?req5.0 = ?req5 and ?rsp5.0 = ?rsp5 and rsp = ?rsp])
      (simp_all add: sample_pgw_ip sample_pgw_addr scripted_calls v1)
qed

text \<open>
  Detach. The same for the detach of a subscriber whose tables are consistent: the same answers and the same
  tables as version 1.0, and the connections of the session are closed at both gateways.
\<close>

theorem gateways3_detach_as_v1:
  assumes sgw: "fdmap s fd = Some m" "act m = 1" "initial_fd m = pfd" "fd \<noteq> lfd" "pfd \<noteq> lfd"
      "((fdmap s)(fd := None)) pfd = None" "length (rbuf s) = 1024" "sgw_tabs_ok (sgw_tabs s)"
    and pgw: "fdmap p qfd = Some n" "act n = 1" "qfd \<noteq> plfd" "length (rbuf p) = 1024"
    and ue: "msg_type_g h = 3" "s11_id (sgw_tabs s) (teid h) = Some imsi" "gettid imsi = Inr (teid h)"
      "ue_ctx_s (sgw_tabs s) imsi = Some c" "s11_id (sgw_tabs s) (s11_cteid_mme_s c) = Some imsi" "imsi \<noteq> 0"
      "set_inet_sock_addr X (pgw_s5_ip_addr_s c) (pgw_s5_port_s c) = Inr a"
      "s5_id_p (pgw_tabs p) (s5_cteid_ul_s c) = Some imsi" "gettid imsi = Inr (s5_cteid_ul_s c)"
      "ue_ctx_p (pgw_tabs p) imsi = Some cp"
    and bytes: "req = detach_req h b tai" "req5 = detach_req (gtp_with 2 4 9 (s5_cteid_ul_s c) h) b tai"
      "h5 = gtp_with 2 4 1 (s5_cteid_dl_p cp) (gtp_with 2 4 9 (s5_cteid_ul_s c) h)" "rsp5 = bool_rsp h5 True"
    and calls: "plays N (pgw3_detach_calls qfd req5 rsp5) (world p) = Some v"
      "plays M (sgw3_detach_calls fd pfd req req5 rsp5 rsp) (world s) = Some w"
    and v1: "sgw_s11_turn X (\<lambda>_. call_udp (pgw_s5_turn X) me) (mme, Rx req)
        (k, sgw_tabs s, Some (k', pgw_tabs p)) = Inr ([Reply mme rsp], k1, S, Some (k1', P))"
  shows "\<exists>s' p'. sgw3_run M g lfd [Events [readable fd], Events [readable pfd]] s = Inr s' \<and>
    pgw3_run N plfd [Events [readable qfd]] p = Inr p' \<and> sgw_tabs s' = S \<and> pgw_tabs p' = P \<and>
    fdmap s' = (fdmap s)(fd := None, pfd := None) \<and> fdmap p' = (fdmap p)(qfd := None)"
proof -
  let ?g = "gtp_with 2 4 9 (s5_cteid_ul_s c) h"
  have g: "msg_type_g ?g = 4" and t: "teid ?g = s5_cteid_ul_s c"
    by (simp_all add: gtp_with_def)
  have turn: "call_udp (pgw_s5_turn X) me req5 (Some (k', pgw_tabs p)) =
      (Rx (bool_rsp h5 True), Some (view ?g (s1ap_hdr k') (diameter_hdr k') (gtp_bytes ?g) (drop 16 req5),
        pgw_detached imsi (pgw_tabs p)))"
    using pgw_detach_turn [OF g _ ue(6), of "pgw_tabs p" X me b tai k'] ue(8,10)
    by (simp add: call_udp_def bytes(2,3) t)
  have "[Reply mme rsp] = [Reply mme (bool_rsp (gtp_with 2 3 1 (s11_cteid_mme_s c) h5) True)] \<and>
      S = sgw_detached imsi (sgw_tabs s) \<and> P = pgw_detached imsi (pgw_tabs p)"
    using v1 sgw_detach_turn [where pgw = "\<lambda>_. call_udp (pgw_s5_turn X) me", OF ue(1,2,6,4,7) turn [unfolded bytes(2)]]
    unfolding bytes(1) by auto
  then show ?thesis
    using sgw3_detach_session [OF sgw ue(1-5), of M b tai h5 w g]
      pgw3_detach_session [OF pgw g, of imsi cp N b tai v] ue(8-10) calls unfolding bytes(1,2,4) t bytes(3) by auto
qed

theorem gateways3_detach_as_v1_witness:
  "let h = sample_gtp 3 7; g5 = gtp_with 2 4 9 7 h; h5 = gtp_with 2 4 1 7 g5; req = detach_req h 5 1;
     req5 = detach_req g5 5 1; rsp5 = bool_rsp h5 True; rsp = bool_rsp (gtp_with 2 3 1 7 h5) True;
     s = sample_sgw3 (sgw3_detach_calls 5 8 req req5 rsp5 rsp); p = sample_pgw3 (pgw3_detach_calls 6 req5 rsp5)
   in \<exists>s' p'. sgw3_run scripted 0 1 [Events [readable 5], Events [readable 8]] s = Inr s' \<and>
    pgw3_run scripted 1 [Events [readable 6]] p = Inr p' \<and> sgw_tabs s' = new_sgw \<and>
    pgw_tabs p' = pgw_detached (plan_imsi 7) sample_pgw_tabs \<and>
    fdmap s' = (fdmap s)(5 := None, 8 := None) \<and> fdmap p' = (fdmap p)(6 := None)"
proof -
  let ?h = "sample_gtp 3 7"
  let ?g5 = "gtp_with 2 4 9 7 ?h"
  let ?h5 = "gtp_with 2 4 1 7 ?g5"
  let ?req = "detach_req ?h 5 1" and ?req5 = "detach_req ?g5 5 1"
  let ?rsp5 = "bool_rsp ?h5 True" and ?rsp = "bool_rsp (gtp_with 2 3 1 7 ?h5) True"
  let ?net = "\<lambda>_ :: sock_addr. call_udp (pgw_s5_turn sample_lib) ([10, 0, 0, 1], 1)"
  have g: "msg_type_g ?h = 3" "msg_type_g ?g5 = 4" "teid ?g5 = 7" "teid ?h = 7"
    by (simp_all add: gtp_with_def)
  have turn: "call_udp (pgw_s5_turn sample_lib) ([10, 0, 0, 1], 1) ?req5 (Some (sample_pkt, sample_pgw_tabs)) =
      (Rx ?rsp5, Some (view ?g5 (s1ap_hdr sample_pkt) (diameter_hdr sample_pkt) (gtp_bytes ?g5) (drop 16 ?req5),
        pgw_detached (plan_imsi 7) sample_pgw_tabs))"
    using pgw_detach_turn [OF g(2) _ sample_ids(5), of sample_pgw_tabs sample_lib "([10, 0, 0, 1], 1)" 5 1 sample_pkt]
    by (simp add: call_udp_def g sample_gateway_tabs)
  have v1: "sgw_s11_turn sample_lib ?net (([10, 0, 0, 2], 2), Rx ?req) (sample_pkt, sample_sgw_tabs, Some (sample_pkt, sample_pgw_tabs)) =
      Inr ([Reply ([10, 0, 0, 2], 2) ?rsp],
        view ?h (s1ap_hdr sample_pkt) (diameter_hdr sample_pkt) (gtp_bytes ?h) (drop 16 ?req), new_sgw,
        Some (view ?g5 (s1ap_hdr sample_pkt) (diameter_hdr sample_pkt) (gtp_bytes ?g5) (drop 16 ?req5),
          pgw_detached (plan_imsi 7) sample_pgw_tabs))"
    using sgw_detach_turn [where pgw = ?net and src = "([10, 0, 0, 2], 2)" and pkt = sample_pkt and s = sample_sgw_tabs
        and X = sample_lib and b = 5 and tai = 1 and h = ?h and c = sample_sgw_ue and imsi = "plan_imsi 7" and res = True
        and w = "Some (sample_pkt, sample_pgw_tabs)", OF g(1) _ sample_ids(5)] turn
    by (simp add: g sample_gateway_tabs sample_pgw_addr)
  show ?thesis
    unfolding Let_def
    by (rule gateways3_detach_as_v1 [where m = "sample_sgw_mdata 8" and n = sample_pgw_mdata and h = ?h and c = sample_sgw_ue
          and cp = sample_pgw_ue and X = sample_lib and me = "([10, 0, 0, 1], 1)" and mme = "([10, 0, 0, 2], 2)"
          and k = sample_pkt and k' = sample_pkt and imsi = "plan_imsi 7" and b = 5 and tai = 1
          and req = ?req and ?req5.0 = ?req5 and ?rsp5.0 = ?rsp5 and rsp = ?rsp and ?h5.0 = ?h5])
      (simp_all add: sample_gateway_tabs sample_pgw_addr sample_ids scripted_calls v1 g)
qed

subsection \<open>All reachable states\<close>

text \<open>
  C27: types of the MME's state. Whatever the stack answers and whatever messages arrive, every entry of
  \<open>fdmap\<close> is in one of the eight states of the dispatcher, its message fits the 500 bytes of its buffer, the receive buffer
  keeps its size, and the EMM and ECM states of every context are 0 or 1.
\<close>

theorem mme3_state_well_formed:
  assumes "length d = 1024" and "length (mbuf U) = 500"
    and "mme3_run M X U lfd bs (new_mme3 ids w d p g0 e0 ke0 ki0) = Inr s"
  shows "length (rbuf s) = 1024 \<and>
    (\<forall>fd m. fdmap s fd = Some m \<longrightarrow> act m \<in> {0 .. 7} \<and> length (mbuf m) = 500 \<and> 0 \<le> buflen m \<and> buflen m \<le> 500) \<and>
    (\<forall>guti c. ue_ctx_m (mme_tabs s) guti = Some c \<longrightarrow> emm_state_m c \<in> {0, 1} \<and> ecm_state_m c \<in> {0, 1})"
  using mme3_run_inv [OF assms(2) new_mme3_inv [OF assms(1)] assms(3)]
  by (auto simp: mme3_inv_def loop_ok_def mdata_ok_def mme_tabs_ok_def mme_ue_ok_def)

theorem mme3_state_well_formed_witness:
  "\<exists>s. mme3_run scripted sample_lib (sample_mdata 0) 1 sample_mme3_events sample_new_mme3 = Inr s \<and>
    length (rbuf s) = 1024 \<and>
    (\<forall>fd m. fdmap s fd = Some m \<longrightarrow> act m \<in> {0 .. 7} \<and> length (mbuf m) = 500 \<and> 0 \<le> buflen m \<and> buflen m \<le> 500) \<and>
    (\<forall>guti c. ue_ctx_m (mme_tabs s) guti = Some c \<longrightarrow> emm_state_m c \<in> {0, 1} \<and> ecm_state_m c \<in> {0, 1})"
  using sample_mme3_reachable mme3_state_well_formed [OF _ _ , of "replicate 1024 0" "sample_mdata 0" scripted sample_lib 1
      sample_mme3_events "mme_ids_of sample_mme_tabs" "accept_calls @ sample_attach3" sample_pkt 0 0 0 0]
  unfolding sample_new_mme3_def by fastforce

text \<open>
  C28: integrity protection is never set up. In every reachable state of the MME the integrity algorithm of every
  context is still 0 and so is its integrity key, registered or not.
\<close>

theorem mme3_integrity_key_zero:
  assumes "length d = 1024" and "length (mbuf U) = 500"
    and "mme3_run M X U lfd bs (new_mme3 ids w d p g0 e0 ke0 ki0) = Inr s" and "ue_ctx_m (mme_tabs s) guti = Some c"
  shows "nas_int_algo_m c = 0 \<and> k_nas_int_m c = 0"
  using mme3_run_inv [OF assms(2) new_mme3_inv [OF assms(1)] assms(3)] assms(4)
  by (simp add: mme3_inv_def mme_tabs_ok_def mme_ue_ok_def)

theorem mme3_integrity_key_zero_witness:
  "\<exists>s c. mme3_run scripted sample_lib (sample_mdata 0) 1 sample_mme3_events sample_new_mme3 = Inr s \<and>
    ue_ctx_m (mme_tabs s) (plan_guti 8) = Some c \<and> nas_int_algo_m c = 0 \<and> k_nas_int_m c = 0"
  using sample_mme3_reachable mme3_integrity_key_zero [of "replicate 1024 0" "sample_mdata 0" scripted sample_lib 1
      sample_mme3_events "mme_ids_of sample_mme_tabs" "accept_calls @ sample_attach3" sample_pkt 0 0 0 0]
  unfolding sample_new_mme3_def by fastforce

text \<open>
  The tables of the SGW. In every reachable state the three tables of tunnel ends are the same table, and
  every context has one identifier for the five tunnel ends that the SGW hands out.
\<close>

theorem sgw3_tables_agree:
  assumes "length d = 1024" and "sgw3_run M g lfd bs (new_sgw3 w d p a0 b0) = Inr s"
  shows "s1_id (sgw_tabs s) = s11_id (sgw_tabs s) \<and> s5_id (sgw_tabs s) = s11_id (sgw_tabs s) \<and>
    (\<forall>imsi c. ue_ctx_s (sgw_tabs s) imsi = Some c \<longrightarrow>
       s1_uteid_ul_s c = s11_cteid_mme_s c \<and> s5_uteid_dl_s c = s11_cteid_mme_s c \<and>
       s11_cteid_sgw_s c = s11_cteid_mme_s c \<and> s5_cteid_dl_s c = s11_cteid_mme_s c)"
  using sgw3_run_inv [OF new_sgw3_inv [OF assms(1)] assms(2)]
  by (auto simp: sgw3_inv_def sgw_tabs_ok_def)

theorem sgw3_tables_agree_witness:
  "\<exists>s. sgw3_run scripted 0 1 sample_sgw3_events sample_new_sgw3 = Inr s \<and>
    s11_id (sgw_tabs s) 8 = Some (plan_imsi 8) \<and> s1_id (sgw_tabs s) = s11_id (sgw_tabs s) \<and>
    s5_id (sgw_tabs s) = s11_id (sgw_tabs s)"
  using sample_sgw3_reachable sgw3_tables_agree [of "replicate 1024 0" scripted 0 1 sample_sgw3_events
      "accept_calls @ sample_create3" sample_pkt 0 0]
  unfolding sample_new_sgw3_def by fastforce

subsection \<open>What connections share\<close>

text \<open>
  C29: two sessions at the SGW. When the MME's request for a second subscriber arrives before the PGW has answered
  the first, the answer to the first MME connection carries the tunnel identifier \<open>t'\<close> of the second subscriber, in its
  header and as the downlink end.
\<close>

theorem sgw3_mixes_sessions:
  assumes "fdmap s fd = Some m" and "act m = 1" and "length (mbuf m) = 500"
    and "fdmap s fd' = Some m'" and "act m' = 1" and "length (mbuf m') = 500"
    and "distinct [lfd, fd, fd', pfd, pfd']" and "fdmap s pfd = None" and "fdmap s pfd' = None"
    and "length (rbuf s) = 1024" and "msg_type_g h = 1" and "msg_type_g h' = 1" and "short_ip ip"
    and "- (2 ^ 31) \<le> port" and "port < 2 ^ 31" and "short_ip ue_ip"
    and "plays M
      (ask_calls fd pfd ip port (create_req11 h t imsi b ip port apn tai)
         (create_req5 (gtp_with 2 1 33 0 h) t imsi b t apn tai) @
       ask_calls fd' pfd' ip port (create_req11 h' t' imsi' b' ip port apn' tai')
         (create_req5 (gtp_with 2 1 33 0 h') t' imsi' b' t' apn' tai') @
       relay_calls pfd fd (create_rsp5 h'' s5_cul b'' s5_ul ue_ip)
         (create_rsp11 (gtp_with 2 1 (of_nat (20 + length ue_ip)) t' h'') t ue_ip t s5_ul t')) (world s) = Some w"
  shows "\<exists>s'. sgw3_run M g lfd [Events [readable fd], Events [writable pfd], Events [readable fd'],
      Events [writable pfd'], Events [readable pfd]] s = Inr s' \<and> world s' = w"
  by (rule sgw3_create_interleaved [OF assms])

theorem sgw3_mixes_sessions_witness:
  "let h = sample_gtp 1 0; g5 = gtp_with 2 1 33 0 h; ip = v3_g_pgw_s5_ip_addr; ue = ''172.16.0.10'';
     cs = ask_calls 5 11 ip 8000 (create_req11 h 8 (plan_imsi 8) 5 ip 8000 0 1) (create_req5 g5 8 (plan_imsi 8) 5 8 0 1) @
       ask_calls 6 12 ip 8000 (create_req11 h 9 (plan_imsi 9) 5 ip 8000 0 1) (create_req5 g5 9 (plan_imsi 9) 5 9 0 1) @
       relay_calls 11 5 (create_rsp5 g5 8 5 8 ue) (create_rsp11 (gtp_with 2 1 31 9 g5) 8 ue 8 8 9)
   in \<exists>s'. sgw3_run scripted 0 1 [Events [readable 5], Events [writable 11], Events [readable 6], Events [writable 12],
      Events [readable 11]] (sample_sgw3 cs) = Inr s' \<and> world s' = []"
  unfolding Let_def
  by (rule sgw3_mixes_sessions [where m = "sample_sgw_mdata 8" and m' = "sample_sgw_mdata 0" and h = "sample_gtp 1 0"
        and h' = "sample_gtp 1 0" and h'' = "gtp_with 2 1 33 0 (sample_gtp 1 0)" and ip = v3_g_pgw_s5_ip_addr
        and port = 8000 and ue_ip = "''172.16.0.10''" and fd = 5 and fd' = 6 and pfd = 11 and pfd' = 12
        and t = 8 and t' = 9 and imsi = "plan_imsi 8" and imsi' = "plan_imsi 9" and b = 5 and b' = 5 and b'' = 5
        and apn = 0 and apn' = 0 and tai = 1 and tai' = 1 and s5_cul = 8 and s5_ul = 8])
    (simp_all add: sample_pgw_addr(1) sample_pgw_ip scripted_calls del: plays.simps)

text \<open>
  Two UEs at the MME. When a first attach arrives on another connection while the SGW works on the session of a
  UE, the attach accept of that UE is written with the ids of the S1AP header of the other message: the
  eNodeB id of the other UE and the MME id 0.
\<close>

theorem mme3_mixes_ues:
  assumes "crypto_ok X"
    and "fdmap s fd = Some m" and "act m = 1" and "fdmap s fd' = Some m'" and "act m' = 1"
    and "distinct [lfd, fd, fd', sfd, hfd]" and "fdmap s sfd = None" and "fdmap s hfd = None"
    and "length (rbuf s) = 1024" and "length (mbuf U) = 500"
    and "msg_type_s h = 3" and "mme_s1ap_ue_id h \<noteq> 0" and "s1mme_id (mme_tabs s) (mme_s1ap_ue_id h) = Some guti"
    and "ue_ctx_m (mme_tabs s) guti = Some c" and "gettid guti = Inr t" and "short_ip ip"
    and "mme_s1ap_ue_id h' = 0" and "get_guti (gummei (mme_ids_of (mme_tabs s))) imsi = Inr guti'" and "guti' \<noteq> guti"
    and "mme_s1ap_ue_id h \<noteq> ucast (ue_count (mme_tabs s) + 1)"
    and "plays M
      (ask_calls fd sfd sgw_ip3 sgw_s11_portnum (nas_msg X h (bool_bytes True)) (create3 (gtp_hdr (rpkt s)) t c) @
       [Ctl Ctl_del fd', Read fd' (frame (attach_req h' imsi tai ksi cap)), Socket hfd, Nonblock hfd,
        Connect hfd hss_ip3 hss_my_port, Ctl (Ctl_add EPOLLOUT) hfd] @
       relay_calls sfd fd (create_rsp11 h'' t ip s1_ul s5_ul s5_dl)
         (accept3 X h' guti 5 (c\<lparr>eps_bearer_id_m := 5\<rparr>) s1_ul ip)) (world s) = Some w"
  shows "\<exists>s'. mme3_run M X U lfd [Events [readable fd], Events [writable sfd], Events [readable fd'],
      Events [readable sfd]] s = Inr s' \<and> world s' = w"
  by (rule mme3_session_interleaved [OF assms])

theorem mme3_mixes_ues_witness:
  "let h = sample_s1ap 3 9; h' = sample_s1ap 1 0;
     c = new_mme_ue\<lparr>imsi_m := plan_imsi 7, eps_bearer_id_m := 5, s11_cteid_sgw_m := 7\<rparr>;
     cs = ask_calls 5 11 sgw_ip3 sgw_s11_portnum (nas_msg sample_lib h (bool_bytes True)) (create3 (sample_gtp 0 0) 7 c) @
       [Ctl Ctl_del 6, Read 6 (frame (attach_req h' (plan_imsi 8) 1 7 0)), Socket 10, Nonblock 10,
        Connect 10 hss_ip3 hss_my_port, Ctl (Ctl_add EPOLLOUT) 10] @
       relay_calls 11 5 (create_rsp11 (sample_gtp 1 7) 7 ''172.16.0.10'' 7 7 7)
         (accept3 sample_lib h' (plan_guti 7) 5 (c\<lparr>eps_bearer_id_m := 5\<rparr>) 7 ''172.16.0.10'')
   in \<exists>s'. mme3_run scripted sample_lib (sample_mdata 0) 1 [Events [readable 5], Events [writable 11], Events [readable 6],
      Events [readable 11]] (sample_mme3 cs) = Inr s' \<and> world s' = []"
  unfolding Let_def
  by (rule mme3_mixes_ues [where m = "sample_mdata 8" and m' = "sample_mdata 0" and h = "sample_s1ap 3 9"
        and h' = "sample_s1ap 1 0" and h'' = "sample_gtp 1 7" and fd = 5 and fd' = 6 and sfd = 11 and hfd = 10
        and c = "new_mme_ue\<lparr>imsi_m := plan_imsi 7, eps_bearer_id_m := 5, s11_cteid_sgw_m := 7\<rparr>" and t = 7
        and guti = "plan_guti 7" and guti' = "plan_guti 8" and imsi = "plan_imsi 8" and ip = "''172.16.0.10''"
        and tai = 1 and ksi = 7 and cap = 0 and s1_ul = 7 and s5_ul = 7 and s5_dl = 7, OF crypto_ok_sample])
    (simp_all add: sample_ids sample_ids(2) [of 7, simplified] sample_ctx3 sample_pgw_ip(2) scripted_calls real_call_def
      del: plays.simps append_Cons append_Nil)

text \<open>
  An end of stream is taken for a message. When one SGW connection has sent a create session request and
  another one is closed by its peer, the PGW executes the request a second time and writes the answer, with the tunnel
  ids of the first subscriber, to the closed connection.
\<close>

theorem pgw3_replays_request:
  assumes "fdmap s fd = Some m" and "act m = 1" and "fd \<noteq> lfd" and "fdmap s fd' = Some m'" and "act m' = 1"
    and "fd' \<noteq> lfd" and "length (rbuf s) = 1024" and "msg_type_g h = 1" and "short_ip (ip_of (pgw_tabs s) imsi)"
    and "rsp = create_rsp5 (gtp_with 2 1 (of_nat (13 + length (ip_of (pgw_tabs s) imsi))) t h) t b t
      (ip_of (pgw_tabs s) imsi)"
    and "plays M
      (relay_calls fd fd (create_req5 h t imsi b s5_dl apn tai) rsp @
       [Ctl Ctl_del fd', Read fd' [], Write fd' (frame rsp), Ctl (Ctl_add EPOLLIN) fd']) (world s) = Some w"
  shows "\<exists>s'. pgw3_run M lfd [Events [readable fd], Events [readable fd']] s = Inr s' \<and> world s' = w"
  by (rule pgw3_replay_session [OF assms])

theorem pgw3_replays_request_witness:
  "let h = sample_gtp 1 0; rsp = create_rsp5 (gtp_with 2 1 24 8 h) 8 5 8 ''172.16.0.10'';
     cs = relay_calls 5 5 (create_req5 h 8 (plan_imsi 8) 5 8 0 1) rsp @
       [Ctl Ctl_del 6, Read 6 [], Write 6 (frame rsp), Ctl (Ctl_add EPOLLIN) 6]
   in \<exists>s'. pgw3_run scripted 1 [Events [readable 5], Events [readable 6]] (sample_pgw3 cs) = Inr s' \<and> world s' = []"
  unfolding Let_def
  by (rule pgw3_replays_request [where m = sample_pgw_mdata and m' = sample_pgw_mdata and h = "sample_gtp 1 0"
        and imsi = "plan_imsi 8" and rsp = "create_rsp5 (gtp_with 2 1 24 8 (sample_gtp 1 0)) 8 5 8 ''172.16.0.10''"
        and t = 8 and b = 5 and s5_dl = 8 and apn = 0 and tai = 1])
    (simp_all add: sample_pgw_ip scripted_calls real_call_def del: plays.simps append_Cons append_Nil)

end
