(* ===== verification/Epc3_Threads.thy ===== *)
theory Epc3_Threads
  imports Epc_Prelude
begin

section \<open>Threads that share tables under mutexes\<close>

text \<open>
  MME, SGW and PGW of the directory \<open>EPC over kernel bypass\<close> run one event loop on each core. Beside
  their own variables the loops use global tables, each guarded by a mutex. A thread is a value of type
  \<open>prog\<close>: it ends with a result, it stops the process, or it waits for a mutex and executes a critical section, a
  function on the shared state, which decides how the thread goes on. What a thread does between two sections
  concerns only its own variables and its own network stack, so it needs no step of its own.
\<close>

datatype mutex = S1mmeid_mux | S11id_mux | S1id_mux | S5id_mux | Sgiid_mux | Uectx_mux | No_mux

datatype ('g, 'a) prog =
    Ret 'a
  | Stop epc_error
  | Sect mutex "'g \<Rightarrow> 'g \<times> ('g, 'a) prog"

text \<open>
  \<open>No_mux\<close> is an access to a global table without any mutex. As a single step of the thread it makes sense only when it
  reads what no section changes: where the code may insert into a table without a mutex, the model is \<open>Stop\<close> with
  \<open>Undefined\<close>, and \<open>guarded\<close> below demands that a section under \<open>No_mux\<close> changes nothing.
\<close>

primrec bindP :: "('g, 'a) prog \<Rightarrow> ('a \<Rightarrow> ('g, 'b) prog) \<Rightarrow> ('g, 'b) prog" where
  "bindP (Ret a) f = f a"
| "bindP (Stop e) f = Stop e"
| "bindP (Sect m h) f = Sect m (map_prod id (\<lambda>p. bindP p f) \<circ> h)"

text \<open>A local computation, a section that always succeeds, and one that may exit.\<close>

definition localP :: "'a res \<Rightarrow> ('a \<Rightarrow> ('g, 'b) prog) \<Rightarrow> ('g, 'b) prog" where
  "localP r f = (case r of Inl e \<Rightarrow> Stop e | Inr a \<Rightarrow> f a)"

definition sect :: "mutex \<Rightarrow> ('g \<Rightarrow> 'g \<times> 'a) \<Rightarrow> ('a \<Rightarrow> ('g, 'b) prog) \<Rightarrow> ('g, 'b) prog" where
  "sect m h f = Sect m (\<lambda>g. case h g of (g, a) \<Rightarrow> (g, f a))"

definition sect_or_stop ::
  "mutex \<Rightarrow> ('g \<Rightarrow> 'g \<times> 'a res) \<Rightarrow> ('a \<Rightarrow> ('g, 'b) prog) \<Rightarrow> ('g, 'b) prog" where
  "sect_or_stop m h f = Sect m (\<lambda>g. case h g of (g, r) \<Rightarrow> (g, localP r f))"

lemma localP_simps [simp]: "localP (Inl e) f = Stop e" "localP (Inr a) f = f a"
  by (simp_all add: localP_def)

lemma bindP_localP [simp]: "bindP (localP r f) k = localP r (\<lambda>a. bindP (f a) k)"
  by (cases r) simp_all

lemma bindP_sect [simp]: "bindP (sect m h f) k = sect m h (\<lambda>a. bindP (f a) k)"
  by (auto simp: sect_def split: prod.splits)

lemma bindP_sect_or_stop [simp]: "bindP (sect_or_stop m h f) k = sect_or_stop m h (\<lambda>a. bindP (f a) k)"
  by (auto simp: sect_or_stop_def split: prod.splits)

subsection \<open>Running alone and running together\<close>

primrec run_prog :: "('g, 'a) prog \<Rightarrow> 'g \<Rightarrow> ('a \<times> 'g) res" where
  "run_prog (Ret a) = (\<lambda>g. Inr (a, g))"
| "run_prog (Stop e) = (\<lambda>g. Inl e)"
| "run_prog (Sect m h) = (\<lambda>g. case map_prod id run_prog (h g) of (g, r) \<Rightarrow> r g)"

fun run_all :: "('g, 'a) prog list \<Rightarrow> 'g \<Rightarrow> ('a list \<times> 'g) res" where
  "run_all [] g = Inr ([], g)"
| "run_all (p # ps) g =
     bindE (run_prog p g) (\<lambda>(a, g). bindE (run_all ps g) (\<lambda>(as, g). Inr (a # as, g)))"

text \<open>
  A turn: the core \<open>i\<close> executes its next section. When a core has stopped, the process is gone and nothing
  happens any more.
\<close>

definition stopped :: "('g, 'a) prog list \<Rightarrow> bool" where
  "stopped ps = list_ex (\<lambda>p. case p of Stop _ \<Rightarrow> True | _ \<Rightarrow> False) ps"

definition turn :: "nat \<Rightarrow> 'g \<times> ('g, 'a) prog list \<Rightarrow> 'g \<times> ('g, 'a) prog list" where
  "turn i s =
     (case s of (g, ps) \<Rightarrow>
      if i < length ps \<and> \<not> stopped ps then
        (case ps ! i of Sect m h \<Rightarrow> (case h g of (g, p) \<Rightarrow> (g, ps[i := p])) | _ \<Rightarrow> s)
      else s)"

fun turns :: "nat list \<Rightarrow> 'g \<times> ('g, 'a) prog list \<Rightarrow> 'g \<times> ('g, 'a) prog list" where
  "turns [] s = s"
| "turns (i # is) s = turns is (turn i s)"

lemma prog_induct [case_names Ret Stop Sect]:
  assumes "\<And>a. P (Ret a)" and "\<And>e. P (Stop e)" and "\<And>m h. (\<And>g. P (snd (h g))) \<Longrightarrow> P (Sect m h)"
  shows "P p"
proof (rule prog.induct)
  fix m and h :: "'b \<Rightarrow> 'b \<times> ('b, 'a) prog"
  assume "\<And>x p. x \<in> range h \<Longrightarrow> p \<in> Basic_BNFs.snds x \<Longrightarrow> P p"
  then show "P (Sect m h)"
    by (intro assms(3)) (auto simp: prod_set_defs)
qed (fact assms)+

lemma run_prog_Sect [simp]: "run_prog (Sect m h) g = run_prog (snd (h g)) (fst (h g))"
  by (simp add: map_prod_def split: prod.splits)

declare run_prog.simps(3) [simp del]

lemma run_prog_simps [simp]:
  "run_prog (localP r f) g = bindE r (\<lambda>a. run_prog (f a) g)"
  "run_prog (sect m h f) g = (case h g of (g, a) \<Rightarrow> run_prog (f a) g)"
  "run_prog (sect_or_stop m k f) g = (case k g of (g, r) \<Rightarrow> bindE r (\<lambda>a. run_prog (f a) g))"
  by (cases r; simp add: sect_def sect_or_stop_def localP_def bindE_def split: prod.splits sum.splits)+

lemma bindP_Sect [simp]: "bindP (Sect m h) f = Sect m (\<lambda>g. (fst (h g), bindP (snd (h g)) f))"
  by (auto simp: fun_eq_iff map_prod_def split: prod.splits)

declare bindP.simps(3) [simp del]

lemma run_prog_bindP: "run_prog (bindP p f) g = bindE (run_prog p g) (\<lambda>(a, g). run_prog (f a) g)"
  by (induction p arbitrary: g rule: prog_induct) auto

text \<open>How many sections a thread executes when it runs alone.\<close>

primrec sections :: "('g, 'a) prog \<Rightarrow> 'g \<Rightarrow> nat" where
  "sections (Ret a) = (\<lambda>g. 0)"
| "sections (Stop e) = (\<lambda>g. 0)"
| "sections (Sect m h) = (\<lambda>g. case map_prod id sections (h g) of (g, n) \<Rightarrow> Suc (n g))"

lemma sections_Sect [simp]: "sections (Sect m h) g = Suc (sections (snd (h g)) (fst (h g)))"
  by (simp add: map_prod_def split: prod.splits)

declare sections.simps(3) [simp del]

lemma sections_simps [simp]:
  "sections (sect m h f) g = (case h g of (g, a) \<Rightarrow> Suc (sections (f a) g))"
  "sections (sect_or_stop m k f) g = (case k g of (g, r) \<Rightarrow> Suc (sections (localP r f) g))"
  by (simp_all add: sect_def sect_or_stop_def split: prod.splits)

lemma turn_cases [consumes 1, case_names idle step]:
  assumes "turn i (g, ps) = s'"
    and "s' = (g, ps) \<Longrightarrow> P"
    and "\<And>m h. i < length ps \<Longrightarrow> ps ! i = Sect m h \<Longrightarrow> s' = (fst (h g), ps[i := snd (h g)]) \<Longrightarrow> P"
  shows P
  using assms by (auto simp: turn_def split: if_splits prog.splits prod.splits)

lemma length_turn [simp]: "length (snd (turn i s)) = length (snd s)"
  by (auto simp: turn_def split: prod.splits prog.splits)

lemma length_turns [simp]: "length (snd (turns is s)) = length (snd s)"
  by (induction "is" arbitrary: s) auto

subsection \<open>What every interleaving keeps\<close>

text \<open>
  \<open>safe C L T p g\<close>: from the state \<open>g\<close> every section of \<open>p\<close> makes a step of the relation \<open>T\<close>, whatever steps of \<open>T\<close>
  the other threads make between its sections. Only sections that start in \<open>C\<close> and end within the limits \<open>L\<close> are
  considered; steps of \<open>T\<close> within the limits stay in \<open>C\<close>.
\<close>

primrec safe ::
  "('g \<Rightarrow> bool) \<Rightarrow> ('g \<Rightarrow> bool) \<Rightarrow> ('g \<Rightarrow> 'g \<Rightarrow> bool) \<Rightarrow> ('g, 'a) prog \<Rightarrow> 'g \<Rightarrow> bool" where
  "safe C L T (Ret a) = (\<lambda>g. True)"
| "safe C L T (Stop e) = (\<lambda>g. True)"
| "safe C L T (Sect m h) = (\<lambda>g. \<forall>g'. T g g' \<longrightarrow> C g' \<longrightarrow> L (fst (h g')) \<longrightarrow>
     (case map_prod id (safe C L T) (h g') of (g1, k) \<Rightarrow> T g' g1 \<and> k g1))"

lemma safe_Sect [simp]:
  "safe C L T (Sect m h) g \<longleftrightarrow>
     (\<forall>g'. T g g' \<longrightarrow> C g' \<longrightarrow> L (fst (h g')) \<longrightarrow> T g' (fst (h g')) \<and> safe C L T (snd (h g')) (fst (h g')))"
  by (simp add: map_prod_def split_beta)

declare safe.simps(3) [simp del]

locale thread_relation =
  fixes C L :: "'g \<Rightarrow> bool" and T :: "'g \<Rightarrow> 'g \<Rightarrow> bool"
  assumes T_refl: "T g g"
    and T_trans: "T g g' \<Longrightarrow> T g' g'' \<Longrightarrow> T g g''"
    and C_step: "C g \<Longrightarrow> T g g' \<Longrightarrow> L g' \<Longrightarrow> C g'"
begin

lemma safe_stable: "safe C L T p g \<Longrightarrow> T g g' \<Longrightarrow> safe C L T p g'"
  by (induction p rule: prog_induct) (auto intro: T_trans)

lemma safe_localP [simp]: "safe C L T (localP r f) g \<longleftrightarrow> (\<forall>a. r = Inr a \<longrightarrow> safe C L T (f a) g)"
  by (cases r) simp_all

lemma safe_sectI:
  "(\<And>g' g1 a. T g g' \<Longrightarrow> C g' \<Longrightarrow> L g1 \<Longrightarrow> h g' = (g1, a) \<Longrightarrow> T g' g1 \<and> safe C L T (f a) g1) \<Longrightarrow>
   safe C L T (sect m h f) g"
  by (auto simp: sect_def split_beta) (metis prod.collapse)+

lemma safe_sect_or_stopI:
  "(\<And>g' g1 r. T g g' \<Longrightarrow> C g' \<Longrightarrow> L g1 \<Longrightarrow> h g' = (g1, r) \<Longrightarrow>
     T g' g1 \<and> (\<forall>a. r = Inr a \<longrightarrow> safe C L T (f a) g1)) \<Longrightarrow>
   safe C L T (sect_or_stop m h f) g"
  by (auto simp: sect_or_stop_def split_beta) (metis prod.collapse)+

lemma safe_bindP:
  "safe C L T p g \<Longrightarrow> (\<And>a g'. T g g' \<Longrightarrow> safe C L T (f a) g') \<Longrightarrow> safe C L T (bindP p f) g"
proof (induction p arbitrary: g rule: prog_induct)
  case (Sect m h)
  have "safe C L T (bindP (snd (h g')) f) (fst (h g'))"
    if "T g g'" and "C g'" and "L (fst (h g'))" for g'
  proof (rule Sect.IH)
    show "safe C L T (snd (h g')) (fst (h g'))"
      using Sect.prems(1) that by simp
    have "T g (fst (h g'))"
      using Sect.prems(1) that by (auto intro: T_trans)
    then show "safe C L T (f a) g''" if "T (fst (h g')) g''" for a g''
      using that by (intro Sect.prems(2)) (rule T_trans)
  qed
  with Sect.prems(1) show ?case
    by simp
qed (auto intro: T_refl)

lemma turn_safe:
  assumes "turn i (g, ps) = (g', ps')" and "\<forall>p \<in> set ps. safe C L T p g" and "C g" and "L g'"
  shows "T g g' \<and> (\<forall>p \<in> set ps'. safe C L T p g')"
  using assms(1)
proof (cases rule: turn_cases)
  case idle
  then show ?thesis
    using assms(2) T_refl by simp
next
  case (step m h)
  then have "safe C L T (Sect m h) g"
    using assms(2) nth_mem by metis
  with step assms(3,4) have "T g g'" and "safe C L T (snd (h g)) g'"
    by (auto intro: T_refl)
  then show ?thesis
    using step assms(2) safe_stable by (auto dest!: subsetD [OF set_update_subset_insert])
qed

end

text \<open>All states on the way lie within the limits.\<close>

fun visits :: "('g \<Rightarrow> bool) \<Rightarrow> nat list \<Rightarrow> 'g \<times> ('g, 'a) prog list \<Rightarrow> bool" where
  "visits L [] s = L (fst s)"
| "visits L (i # is) s = (L (fst s) \<and> visits L is (turn i s))"

lemma visits_start: "visits L is s \<Longrightarrow> L (fst s)"
  by (cases "is") auto

context thread_relation begin

lemma turns_safe:
  assumes "visits L is (g, ps)" and "C g" and "\<forall>p \<in> set ps. safe C L T p g"
  shows "T g (fst (turns is (g, ps)))"
  using assms
proof (induction "is" arbitrary: g ps)
  case Nil
  then show ?case
    by (simp add: T_refl)
next
  case (Cons i "is")
  obtain g' ps' where t: "turn i (g, ps) = (g', ps')"
    by (cases "turn i (g, ps)")
  have v: "visits L is (g', ps')"
    using Cons.prems(1) by (simp add: t)
  then have l: "L g'"
    using visits_start by fastforce
  have step: "T g g' \<and> (\<forall>p \<in> set ps'. safe C L T p g')"
    by (rule turn_safe [OF t Cons.prems(3,2) l])
  then have "C g'"
    using Cons.prems(2) l C_step by blast
  with step show ?case
    using Cons.IH [OF v] by (auto simp: t intro: T_trans)
qed

end

subsection \<open>Threads that use different entries of the tables\<close>

text \<open>
  The shared state seen as a map from keys: \<open>part g k\<close> is what the tables hold for the key \<open>k\<close>. A thread owns
  the keys \<open>K\<close> when, from the current values of these keys on, all its sections depend on them only and change nothing
  else.
\<close>

definition agree_on :: "('g \<Rightarrow> 'k \<Rightarrow> 'v) \<Rightarrow> 'k set \<Rightarrow> 'g \<Rightarrow> 'g \<Rightarrow> bool" where
  "agree_on part K g g' \<longleftrightarrow> (\<forall>k \<in> K. part g k = part g' k)"

primrec owns :: "('g \<Rightarrow> 'k \<Rightarrow> 'v) \<Rightarrow> 'k set \<Rightarrow> ('g, 'a) prog \<Rightarrow> 'g \<Rightarrow> bool" where
  "owns part K (Ret a) = (\<lambda>g. True)"
| "owns part K (Stop e) = (\<lambda>g. True)"
| "owns part K (Sect m h) = (\<lambda>g. \<forall>g'. agree_on part K g g' \<longrightarrow>
     snd (h g') = snd (h g) \<and> agree_on part K (fst (h g')) (fst (h g)) \<and> agree_on part (- K) (fst (h g')) g' \<and>
     (case map_prod id (owns part K) (h g) of (g1, k) \<Rightarrow> k g1))"

lemma owns_Sect [simp]:
  "owns part K (Sect m h) g \<longleftrightarrow> (\<forall>g'. agree_on part K g g' \<longrightarrow>
     snd (h g') = snd (h g) \<and> agree_on part K (fst (h g')) (fst (h g)) \<and> agree_on part (- K) (fst (h g')) g' \<and>
     owns part K (snd (h g)) (fst (h g)))"
  by (simp add: map_prod_def split_beta)

declare owns.simps(3) [simp del]

lemma agree_refl [simp]: "agree_on part K g g"
  by (simp add: agree_on_def)

lemma agree_sym: "agree_on part K g g' \<Longrightarrow> agree_on part K g' g"
  by (simp add: agree_on_def)

lemma agree_trans: "agree_on part K g g' \<Longrightarrow> agree_on part K g' g'' \<Longrightarrow> agree_on part K g g''"
  by (simp add: agree_on_def)

lemma agree_outside: "agree_on part (- K) g g' \<Longrightarrow> K \<inter> L = {} \<Longrightarrow> agree_on part L g g'"
  by (auto simp: agree_on_def)

lemma owns_step:
  assumes "owns part K (Sect m h) g"
  shows "agree_on part (- K) (fst (h g)) g" and "owns part K (snd (h g)) (fst (h g))"
    and "agree_on part K g g' \<Longrightarrow> snd (h g') = snd (h g)"
    and "agree_on part K g g' \<Longrightarrow> agree_on part K (fst (h g')) (fst (h g))"
    and "agree_on part K g g' \<Longrightarrow> agree_on part (- K) (fst (h g')) g'"
proof -
  have own: "agree_on part K g g' \<Longrightarrow> snd (h g') = snd (h g) \<and> agree_on part K (fst (h g')) (fst (h g)) \<and>
      agree_on part (- K) (fst (h g')) g' \<and> owns part K (snd (h g)) (fst (h g))" for g'
    using assms by (rule owns_Sect [THEN iffD1, THEN spec, THEN mp])
  show "agree_on part (- K) (fst (h g)) g"
    by (rule own [OF agree_refl, THEN conjunct2, THEN conjunct2, THEN conjunct1])
  show "owns part K (snd (h g)) (fst (h g))"
    by (rule own [OF agree_refl, THEN conjunct2, THEN conjunct2, THEN conjunct2])
  assume "agree_on part K g g'"
  note a = own [OF this]
  show "snd (h g') = snd (h g)"
    by (rule a [THEN conjunct1])
  show "agree_on part K (fst (h g')) (fst (h g))"
    by (rule a [THEN conjunct2, THEN conjunct1])
  show "agree_on part (- K) (fst (h g')) g'"
    by (rule a [THEN conjunct2, THEN conjunct2, THEN conjunct1])
qed

lemma owns_stable: "owns part K p g \<Longrightarrow> agree_on part K g g' \<Longrightarrow> owns part K p g'"
proof (induction p arbitrary: g g' rule: prog_induct)
  case (Sect m h)
  note step = owns_step [OF Sect.prems(1)]
  show ?case
    unfolding owns_Sect
  proof (intro allI impI conjI)
    fix g''
    assume "agree_on part K g' g''"
    then have g'': "agree_on part K g g''"
      by (rule agree_trans [OF Sect.prems(2)])
    show "snd (h g'') = snd (h g')"
      unfolding step(3) [OF g''] step(3) [OF Sect.prems(2)] ..
    show "agree_on part K (fst (h g'')) (fst (h g'))"
      by (rule agree_trans [OF step(4) [OF g''] agree_sym [OF step(4) [OF Sect.prems(2)]]])
    show "agree_on part (- K) (fst (h g'')) g''"
      by (rule step(5) [OF g''])
    show "owns part K (snd (h g')) (fst (h g'))"
      using Sect.IH [OF step(2) agree_sym [OF step(4) [OF Sect.prems(2)]]]
      unfolding step(3) [OF Sect.prems(2)] .
  qed
qed simp_all

lemma run_owns:
  "owns part K p g \<Longrightarrow> agree_on part K g g' \<Longrightarrow>
   (case run_prog p g of
      Inl e \<Rightarrow> run_prog p g' = Inl e
    | Inr (a, g1) \<Rightarrow> \<exists>g1'. run_prog p g' = Inr (a, g1') \<and> agree_on part K g1 g1' \<and>
        agree_on part (- K) g1 g \<and> agree_on part (- K) g1' g')"
proof (induction p arbitrary: g g' rule: prog_induct)
  case (Sect m h)
  note step = owns_step [OF Sect.prems(1)]
  note IH = Sect.IH [OF step(2) agree_sym [OF step(4) [OF Sect.prems(2)]]]
  have r: "run_prog (Sect m h) g' = run_prog (snd (h g)) (fst (h g'))"
    unfolding run_prog_Sect step(3) [OF Sect.prems(2)] ..
  show ?case
    using IH agree_trans [OF _ step(1)] agree_trans [OF _ step(5) [OF Sect.prems(2)]]
    unfolding r run_prog_Sect [of m h g] by (fastforce split: sum.splits)
qed (simp_all only: run_prog.simps sum.case prod.case, auto)

locale keyed_state =
  fixes part :: "'g \<Rightarrow> 'k \<Rightarrow> 'v"
  assumes part_inject: "(\<And>k. part g k = part g' k) \<Longrightarrow> g = g'"
begin

lemma section_past_run:
  assumes p: "owns part K p g" and s: "owns part L (Sect m h) g" and KL: "K \<inter> L = {}"
  shows "case run_prog p g of
      Inl e \<Rightarrow> run_prog p (fst (h g)) = Inl e
    | Inr (a, g1) \<Rightarrow> run_prog p (fst (h g)) = Inr (a, fst (h g1)) \<and> snd (h g1) = snd (h g) \<and>
        agree_on part (- K) g1 g"
proof -
  note step = owns_step [OF s]
  have LK: "L \<inter> K = {}"
    using KL by blast
  have gK: "agree_on part K g (fst (h g))"
    by (rule agree_sym [OF agree_outside [OF step(1) LK]])
  note run = run_owns [OF p gK]
  show ?thesis
  proof (cases "run_prog p g")
    case (Inl e)
    then show ?thesis
      using run by (simp only: sum.case)
  next
    case (Inr r)
    obtain a g1 where "r = (a, g1)"
      by (cases r)
    then have r: "run_prog p g = Inr (a, g1)"
      using Inr by (simp only:)
    obtain g2 where r2: "run_prog p (fst (h g)) = Inr (a, g2)" and K2: "agree_on part K g1 g2"
        and o1: "agree_on part (- K) g1 g" and o2: "agree_on part (- K) g2 (fst (h g))"
      using run unfolding r by (simp only: sum.case prod.case) blast
    have L1: "agree_on part L g g1"
      by (rule agree_sym [OF agree_outside [OF o1 KL]])
    have "g2 = fst (h g1)"
    proof (rule part_inject)
      fix k
      show "part g2 k = part (fst (h g1)) k"
        using K2 o1 o2 step(1) step(4,5) [OF L1] KL unfolding agree_on_def by (metis ComplI disjoint_iff)
    qed
    then show ?thesis
      using r r2 step(3) [OF L1] o1 by (simp only: sum.case prod.case)
  qed
qed

end

text \<open>The rules for the building blocks of handlers.\<close>

lemma owns_localP [simp]: "owns part K (localP r f) g \<longleftrightarrow> (\<forall>a. r = Inr a \<longrightarrow> owns part K (f a) g)"
  by (cases r) simp_all

lemma owns_sectI:
  assumes "\<And>g'. agree_on part K g g' \<Longrightarrow> snd (h g') = snd (h g) \<and> agree_on part K (fst (h g')) (fst (h g)) \<and>
      agree_on part (- K) (fst (h g')) g'"
    and "owns part K (f (snd (h g))) (fst (h g))"
  shows "owns part K (sect m h f) g"
  unfolding sect_def owns_Sect split_beta fst_conv snd_conv using assms(2) assms(1) by metis

lemma owns_sect_or_stopI:
  assumes "\<And>g'. agree_on part K g g' \<Longrightarrow> snd (h g') = snd (h g) \<and> agree_on part K (fst (h g')) (fst (h g)) \<and>
      agree_on part (- K) (fst (h g')) g'"
    and "\<And>a. snd (h g) = Inr a \<Longrightarrow> owns part K (f a) (fst (h g))"
  shows "owns part K (sect_or_stop m h f) g"
  unfolding sect_or_stop_def owns_Sect split_beta fst_conv snd_conv owns_localP
  using assms(2) assms(1) by metis

text \<open>
  The cores' runs are serializable: when each core owns keys of its own, a turn changes nothing in what running
  the cores to their end one after the other gives.
\<close>

definition disjoint_owners :: "('g \<Rightarrow> 'k \<Rightarrow> 'v) \<Rightarrow> 'k set list \<Rightarrow> ('g, 'a) prog list \<Rightarrow> 'g \<Rightarrow> bool" where
  "disjoint_owners part Ks ps g \<longleftrightarrow>
     list_all2 (\<lambda>K p. owns part K p g) Ks ps \<and> sorted_wrt (\<lambda>K L. K \<inter> L = {}) Ks"

lemma disjoint_owners_agree:
  assumes "disjoint_owners part Ks ps g" and "agree_on part (- K) g' g" and "\<forall>L \<in> set Ks. K \<inter> L = {}"
  shows "disjoint_owners part Ks ps g'"
proof -
  have "owns part (Ks ! i) (ps ! i) g'" if "i < length Ks" for i
  proof (rule owns_stable)
    show "owns part (Ks ! i) (ps ! i) g"
      using assms(1) that by (auto simp: disjoint_owners_def list_all2_conv_all_nth)
    have "K \<inter> Ks ! i = {}"
      using assms(3) that by simp
    then show "agree_on part (Ks ! i) g g'"
      by (rule agree_sym [OF agree_outside [OF assms(2)]])
  qed
  then show ?thesis
    using assms(1) by (auto simp: disjoint_owners_def list_all2_conv_all_nth)
qed

lemma disjoint_owners_step:
  assumes "disjoint_owners part Ks ps g" and "i < length ps" and "ps ! i = Sect m h"
  shows "disjoint_owners part Ks (ps[i := snd (h g)]) (fst (h g))"
proof -
  have own: "owns part (Ks ! j) (ps ! j) g" if "j < length Ks" for j
    using assms(1) that by (auto simp: disjoint_owners_def list_all2_conv_all_nth)
  have len: "length Ks = length ps"
    using assms(1) by (auto simp: disjoint_owners_def list_all2_lengthD)
  have dis: "Ks ! i \<inter> Ks ! j = {}" if "j < length Ks" and "j \<noteq> i" for j
    using assms(1,2) that len unfolding disjoint_owners_def
    by (cases j i rule: linorder_cases) (auto simp: sorted_wrt_iff_nth_less)
  have s: "owns part (Ks ! i) (Sect m h) g"
    using own [of i] assms(2,3) len by (simp only:)
  have "owns part (Ks ! j) (ps[i := snd (h g)] ! j) (fst (h g))" if "j < length Ks" for j
  proof (cases "j = i")
    case True
    then show ?thesis
      using owns_step(2) [OF s] assms(2) by (simp only: nth_list_update_eq)
  next
    case False
    have "agree_on part (Ks ! j) g (fst (h g))"
      by (rule agree_sym [OF agree_outside [OF owns_step(1) [OF s] dis [OF that False]]])
    then have "owns part (Ks ! j) (ps ! j) (fst (h g))"
      by (rule owns_stable [OF own [OF that]])
    then show ?thesis
      using False by (simp only: nth_list_update_neq not_sym)
  qed
  then show ?thesis
    using assms(1) by (simp only: disjoint_owners_def list_all2_conv_all_nth length_list_update) blast
qed

context keyed_state begin

lemma step_run_all:
  "disjoint_owners part Ks ps g \<Longrightarrow> i < length ps \<Longrightarrow> ps ! i = Sect m h \<Longrightarrow>
   run_all (ps[i := snd (h g)]) (fst (h g)) = run_all ps g"
proof (induction ps arbitrary: Ks g i)
  case (Cons p ps)
  obtain K Ks' where Ks: "Ks = K # Ks'" and p: "owns part K p g" and rest: "disjoint_owners part Ks' ps g"
      and dis: "\<forall>L \<in> set Ks'. K \<inter> L = {}"
    using Cons.prems(1) by (cases Ks) (auto simp: disjoint_owners_def)
  show ?case
  proof (cases i)
    case 0
    then show ?thesis
      using Cons.prems(3) by simp
  next
    case (Suc j)
    then have j: "j < length ps" and sj: "ps ! j = Sect m h"
      using Cons.prems by simp_all
    have len: "length Ks' = length ps"
      using rest by (auto simp: disjoint_owners_def list_all2_lengthD)
    have s: "owns part (Ks' ! j) (Sect m h) g"
      using rest j len unfolding sj [symmetric] by (auto simp: disjoint_owners_def list_all2_conv_all_nth)
    have KL: "K \<inter> Ks' ! j = {}"
      using dis j len by simp
    show ?thesis
    proof (cases "run_prog p g")
      case (Inl e)
      then show ?thesis
        using section_past_run [OF p s KL] Suc by simp
    next
      case (Inr r)
      then obtain a g1 where r: "run_prog p g = Inr (a, g1)"
        by (cases r) auto
      have past: "run_prog p (fst (h g)) = Inr (a, fst (h g1))" "snd (h g1) = snd (h g)"
          and g1: "agree_on part (- K) g1 g"
        using section_past_run [OF p s KL] unfolding r by simp_all
      have "run_all (ps[j := snd (h g1)]) (fst (h g1)) = run_all ps g1"
        by (rule Cons.IH [OF disjoint_owners_agree [OF rest g1 dis] j sj])
      then show ?thesis
        using past Suc by (simp add: r)
    qed
  qed
qed simp

lemma turn_run_all:
  assumes "disjoint_owners part Ks ps g" and "turn i (g, ps) = (g', ps')"
  shows "run_all ps' g' = run_all ps g \<and> disjoint_owners part Ks ps' g'"
  using assms(2)
proof (cases rule: turn_cases)
  case idle
  then show ?thesis
    using assms(1) by simp
next
  case (step m h)
  then show ?thesis
    using step_run_all [OF assms(1) step(1,2)] disjoint_owners_step [OF assms(1) step(1,2)] by simp
qed

lemma turns_run_all:
  "disjoint_owners part Ks ps g \<Longrightarrow> turns is (g, ps) = (g', ps') \<Longrightarrow> run_all ps' g' = run_all ps g"
proof (induction "is" arbitrary: g ps)
  case (Cons i "is")
  obtain g1 ps1 where t: "turn i (g, ps) = (g1, ps1)"
    by (cases "turn i (g, ps)")
  show ?case
    using turn_run_all [OF Cons.prems(1) t] Cons.IH [of ps1 g1] Cons.prems(2) by (simp add: t)
qed simp

lemma run_all_Ret: "run_all (map Ret as) g = Inr (as, g)"
  by (induction "as") simp_all

lemma run_all_not_stopped: "run_all ps g = Inr (as, g') \<Longrightarrow> \<not> stopped ps"
proof (induction ps arbitrary: g "as")
  case (Cons p ps)
  then obtain a g1 bs where p: "run_prog p g = Inr (a, g1)" and "run_all ps g1 = Inr (bs, g')"
    by (auto simp: bindE_eq_Inr)
  then have "\<not> stopped ps"
    by (intro Cons.IH)
  then show ?case
    using p by (cases p) (auto simp: stopped_def)
qed (simp add: stopped_def)

lemma run_all_no_sections:
  "run_all ps g = Inr (as, g') \<Longrightarrow> \<forall>p \<in> set ps. sections p g = 0 \<Longrightarrow> g = g' \<and> ps = map Ret as"
proof (induction ps arbitrary: "as")
  case (Cons p ps)
  then show ?case
    by (cases p) (auto simp: bindE_eq_Inr)
qed simp

lemma sections_owns: "owns part K p g \<Longrightarrow> agree_on part K g g' \<Longrightarrow> sections p g' = sections p g"
proof (induction p arbitrary: g g' rule: prog_induct)
  case (Sect m h)
  note step = owns_step [OF Sect.prems(1)]
  show ?case
    using Sect.IH [OF step(2) agree_sym [OF step(4) [OF Sect.prems(2)]]]
    unfolding sections_Sect step(3) [OF Sect.prems(2)] by (rule arg_cong)
qed simp_all

lemma sections_step:
  assumes "disjoint_owners part Ks ps g" and "i < length ps" and "ps ! i = Sect m h" and "j < length ps" and "j \<noteq> i"
  shows "sections (ps ! j) (fst (h g)) = sections (ps ! j) g"
proof -
  have own: "owns part (Ks ! j) (ps ! j) g" "owns part (Ks ! i) (Sect m h) g" and len: "length Ks = length ps"
    using assms unfolding assms(3) [symmetric]
    by (auto simp: disjoint_owners_def list_all2_conv_all_nth)
  have "Ks ! i \<inter> Ks ! j = {}"
    using assms len unfolding disjoint_owners_def
    by (cases j i rule: linorder_cases) (auto simp: sorted_wrt_iff_nth_less)
  then have "agree_on part (Ks ! j) g (fst (h g))"
    by (rule agree_sym [OF agree_outside [OF owns_step(1) [OF own(2)]]])
  then show ?thesis
    by (rule sections_owns [OF own(1)])
qed

text \<open>Every schedule that gives each core enough turns completes, as the cores one after the other do.\<close>

lemma turns_complete:
  "disjoint_owners part Ks ps g \<Longrightarrow> run_all ps g = Inr (as, g') \<Longrightarrow>
   (\<And>i. i < length ps \<Longrightarrow> sections (ps ! i) g \<le> count_list is i) \<Longrightarrow> turns is (g, ps) = (g', map Ret as)"
proof (induction "is" arbitrary: g ps)
  case Nil
  then show ?case
    by (simp add: run_all_no_sections all_set_conv_all_nth)
next
  case (Cons i "is")
  have ns: "\<not> stopped ps"
    by (rule run_all_not_stopped [OF Cons.prems(2)])
  show ?case
  proof (cases "i < length ps \<and> (\<exists>m h. ps ! i = Sect m h)")
    case False
    then have "turn i (g, ps) = (g, ps)" and "i < length ps \<Longrightarrow> sections (ps ! i) g = 0"
      by (auto simp: turn_def split: prog.splits) (metis prog.exhaust sections.simps(1,2))
    moreover have "turns is (g, ps) = (g', map Ret as)"
    proof (rule Cons.IH [OF Cons.prems(1,2)])
      fix j
      assume "j < length ps"
      then show "sections (ps ! j) g \<le> count_list is j"
        using Cons.prems(3) [of j] \<open>i < length ps \<Longrightarrow> sections (ps ! i) g = 0\<close> by (cases "j = i") auto
    qed
    ultimately show ?thesis
      by simp
  next
    case True
    then obtain m h where i: "i < length ps" "ps ! i = Sect m h"
      by blast
    have t: "turn i (g, ps) = (fst (h g), ps[i := snd (h g)])"
      using i ns by (simp add: turn_def split_beta)
    have "turns is (fst (h g), ps[i := snd (h g)]) = (g', map Ret as)"
    proof (rule Cons.IH [OF disjoint_owners_step [OF Cons.prems(1) i]])
      show "run_all (ps[i := snd (h g)]) (fst (h g)) = Inr (as, g')"
        unfolding step_run_all [OF Cons.prems(1) i] by (rule Cons.prems(2))
      fix j
      assume "j < length (ps[i := snd (h g)])"
      then have j: "j < length ps"
        by simp
      show "sections (ps[i := snd (h g)] ! j) (fst (h g)) \<le> count_list is j"
        using Cons.prems(3) [OF j] sections_step [OF Cons.prems(1) i j] i by (cases "j = i") auto
    qed
    then show ?thesis
      by (simp add: t)
  qed
qed

lemma turns_ended: "disjoint_owners part Ks ps g \<Longrightarrow> turns is (g, ps) = (g', map Ret as) \<Longrightarrow> run_all ps g = Inr (as, g')"
  using turns_run_all run_all_Ret by metis

theorem serializable:
  assumes "disjoint_owners part Ks ps g" and "\<And>i. i < length ps \<Longrightarrow> sections (ps ! i) g \<le> count_list is i"
  shows "turns is (g, ps) = (g', map Ret as) \<longleftrightarrow> run_all ps g = Inr (as, g')"
proof
  assume "turns is (g, ps) = (g', map Ret as)"
  then show "run_all ps g = Inr (as, g')"
    by (rule turns_ended [OF assms(1)])
next
  assume "run_all ps g = Inr (as, g')"
  then show "turns is (g, ps) = (g', map Ret as)"
    by (rule turns_complete [OF assms(1) _ assms(2)])
qed

end

subsection \<open>Every table under its mutex\<close>

text \<open>
  \<open>guarded part guard p\<close>: each section of the thread depends on, and changes, only keys that the mutex it holds
  guards, and a section without mutex changes nothing at all.
\<close>

primrec guarded :: "('g \<Rightarrow> 'k \<Rightarrow> 'v) \<Rightarrow> ('k \<Rightarrow> mutex) \<Rightarrow> ('g, 'a) prog \<Rightarrow> bool" where
  "guarded part guard (Ret a) \<longleftrightarrow> True"
| "guarded part guard (Stop e) \<longleftrightarrow> True"
| "guarded part guard (Sect m h) \<longleftrightarrow>
     (\<forall>g. agree_on part {k. guard k \<noteq> m} (fst (h g)) g \<and> snd (map_prod id (guarded part guard) (h g))) \<and>
     (\<forall>g g'. agree_on part {k. guard k = m} g g' \<longrightarrow>
        snd (h g) = snd (h g') \<and> agree_on part {k. guard k = m} (fst (h g)) (fst (h g'))) \<and>
     (m = No_mux \<longrightarrow> (\<forall>g. fst (h g) = g))"

lemma guarded_Sect [simp]:
  "guarded part guard (Sect m h) \<longleftrightarrow>
     (\<forall>g. agree_on part {k. guard k \<noteq> m} (fst (h g)) g \<and> guarded part guard (snd (h g))) \<and>
     (\<forall>g g'. agree_on part {k. guard k = m} g g' \<longrightarrow>
        snd (h g) = snd (h g') \<and> agree_on part {k. guard k = m} (fst (h g)) (fst (h g'))) \<and>
     (m = No_mux \<longrightarrow> (\<forall>g. fst (h g) = g))"
  by (simp add: map_prod_def split_beta)

declare guarded.simps(3) [simp del]

lemma guarded_localP [simp]: "guarded part guard (localP r f) \<longleftrightarrow> (\<forall>a. r = Inr a \<longrightarrow> guarded part guard (f a))"
  by (cases r) simp_all

lemma guarded_sectI:
  assumes "\<And>g. agree_on part {k. guard k \<noteq> m} (fst (h g)) g"
    and "\<And>g g'. agree_on part {k. guard k = m} g g' \<Longrightarrow>
      snd (h g) = snd (h g') \<and> agree_on part {k. guard k = m} (fst (h g)) (fst (h g'))"
    and "\<And>g. m = No_mux \<Longrightarrow> fst (h g) = g"
    and "\<And>a. guarded part guard (f a)"
  shows "guarded part guard (sect m h f)"
  unfolding sect_def guarded_Sect
  using assms(1,3,4) assms(2) by (simp add: split_beta)

lemma guarded_sect_or_stopI:
  assumes "\<And>g. agree_on part {k. guard k \<noteq> m} (fst (h g)) g"
    and "\<And>g g'. agree_on part {k. guard k = m} g g' \<Longrightarrow>
      snd (h g) = snd (h g') \<and> agree_on part {k. guard k = m} (fst (h g)) (fst (h g'))"
    and "\<And>g. m = No_mux \<Longrightarrow> fst (h g) = g"
    and "\<And>a. guarded part guard (f a)"
  shows "guarded part guard (sect_or_stop m h f)"
  unfolding sect_or_stop_def guarded_Sect
  using assms(1,3,4) assms(2) by (simp add: split_beta)

lemma guarded_bindP:
  "guarded part guard p \<Longrightarrow> (\<And>a. guarded part guard (f a)) \<Longrightarrow> guarded part guard (bindP p f)"
proof (induction p rule: prog_induct)
  case (Sect m h)
  have "guarded part guard (bindP (snd (h g)) f)" for g
    using Sect.prems(1) by (intro Sect.IH Sect.prems(2)) (unfold guarded_Sect, iprover)
  then show ?case
    using Sect.prems(1) by (simp only: bindP_Sect guarded_Sect fst_conv snd_conv) metis
qed simp_all

text \<open>
  Why this makes it right to execute a section as one step. Take two cores that both stand at a section, at any moment
  of any schedule. Either both sections need the same mutex, which keeps them apart, or the order of
  the two makes no difference: neither to the tables nor to how the two threads go on.
\<close>

definition commute_at :: "('g \<Rightarrow> 'g \<times> 'p) \<Rightarrow> ('g \<Rightarrow> 'g \<times> 'q) \<Rightarrow> 'g \<Rightarrow> bool" where
  "commute_at h h' g \<longleftrightarrow>
     fst (h' (fst (h g))) = fst (h (fst (h' g))) \<and> snd (h (fst (h' g))) = snd (h g) \<and> snd (h' (fst (h g))) = snd (h' g)"

definition race_free :: "'g \<times> ('g, 'a) prog list \<Rightarrow> bool" where
  "race_free s \<longleftrightarrow>
     (case s of (g, ps) \<Rightarrow> \<forall>i < length ps. \<forall>j < length ps. \<forall>m h m' h'.
        i \<noteq> j \<and> ps ! i = Sect m h \<and> ps ! j = Sect m' h' \<longrightarrow> m = m' \<and> m \<noteq> No_mux \<or> commute_at h h' g)"

lemma guarded_turn:
  assumes "\<forall>p \<in> set ps. guarded part guard p" and "turn i (g, ps) = (g', ps')"
  shows "\<forall>p \<in> set ps'. guarded part guard p"
  using assms(2)
proof (cases rule: turn_cases)
  case (step m h)
  then have "guarded part guard (Sect m h)"
    using assms(1) nth_mem by metis
  then have "guarded part guard (snd (h g))"
    unfolding guarded_Sect by blast
  with step assms(1) show ?thesis
    by (auto dest!: subsetD [OF set_update_subset_insert])
qed (use assms(1) in simp)

lemma guarded_turns:
  "\<forall>p \<in> set ps. guarded part guard p \<Longrightarrow> \<forall>p \<in> set (snd (turns is (g, ps))). guarded part guard p"
proof (induction "is" arbitrary: g ps)
  case (Cons i "is")
  obtain g' ps' where t: "turn i (g, ps) = (g', ps')"
    by (cases "turn i (g, ps)")
  show ?case
    unfolding turns.simps(2) t by (rule Cons.IH [OF guarded_turn [OF Cons.prems t]])
qed simp

text \<open>What no mutex guards keeps its value in every schedule.\<close>

lemma guarded_unlocked:
  "\<forall>p \<in> set ps. guarded part guard p \<Longrightarrow> agree_on part {k. guard k = No_mux} (fst (turns is (g, ps))) g"
proof (induction "is" arbitrary: g ps)
  case (Cons i "is")
  obtain g' ps' where t: "turn i (g, ps) = (g', ps')"
    by (cases "turn i (g, ps)")
  then have "agree_on part {k. guard k = No_mux} g' g"
  proof (cases rule: turn_cases)
    case (step m h)
    then have "guarded part guard (Sect m h)"
      using Cons.prems nth_mem by metis
    then have "agree_on part {k. guard k \<noteq> m} (fst (h g)) g" and "m = No_mux \<longrightarrow> fst (h g) = g"
      unfolding guarded_Sect by blast+
    with step show ?thesis
      by (auto simp: agree_on_def)
  qed simp
  then show ?case
    unfolding turns.simps(2) t using Cons.IH [OF guarded_turn [OF Cons.prems t]] by (blast intro: agree_trans)
qed simp

context keyed_state begin

lemma guarded_commute:
  assumes p: "guarded part guard (Sect m h)" and q: "guarded part guard (Sect m' h')"
    and other: "m \<noteq> m' \<or> m = No_mux"
  shows "commute_at h h' g"
proof (cases "m = m'")
  case True
  then have "fst (h g) = g" and "fst (h' g) = g"
    using p q other unfolding guarded_Sect by blast+
  then show ?thesis
    by (simp add: commute_at_def)
next
  case False
  have out: "agree_on part {k. guard k \<noteq> m} (fst (h x)) x" "agree_on part {k. guard k \<noteq> m'} (fst (h' x)) x" for x
    using p q unfolding guarded_Sect by blast+
  have on: "agree_on part {k. guard k = m} x y \<Longrightarrow> snd (h x) = snd (h y) \<and> agree_on part {k. guard k = m} (fst (h x)) (fst (h y))"
    and on': "agree_on part {k. guard k = m'} x y \<Longrightarrow> snd (h' x) = snd (h' y) \<and> agree_on part {k. guard k = m'} (fst (h' x)) (fst (h' y))"
    for x y
    using p q unfolding guarded_Sect by blast+
  have a: "agree_on part {k. guard k = m} (fst (h' g)) g" and b: "agree_on part {k. guard k = m'} (fst (h g)) g"
    using out False by (auto simp: agree_on_def)
  have "fst (h' (fst (h g))) = fst (h (fst (h' g)))"
  proof (rule part_inject)
    fix k
    consider "guard k = m" | "guard k = m'" | "guard k \<noteq> m" "guard k \<noteq> m'"
      by blast
    then show "part (fst (h' (fst (h g)))) k = part (fst (h (fst (h' g)))) k"
    proof cases
      case 1
      then have "part (fst (h' (fst (h g)))) k = part (fst (h g)) k"
        using out(2) [of "fst (h g)"] False by (simp add: agree_on_def)
      then show ?thesis
        using on [OF a] 1 by (simp add: agree_on_def)
    next
      case 2
      then have "part (fst (h (fst (h' g)))) k = part (fst (h' g)) k"
        using out(1) [of "fst (h' g)"] False by (simp add: agree_on_def)
      then show ?thesis
        using on' [OF b] 2 by (simp add: agree_on_def)
    next
      case 3
      then show ?thesis
        using out(1) [of g] out(1) [of "fst (h' g)"] out(2) [of g] out(2) [of "fst (h g)"] by (simp add: agree_on_def)
    qed
  qed
  with on [OF a] on' [OF b] show ?thesis
    by (simp add: commute_at_def)
qed

theorem guarded_race_free:
  assumes "\<forall>p \<in> set ps. guarded part guard p"
  shows "race_free (turns is (g, ps))"
proof -
  obtain g' ps' where t: "turns is (g, ps) = (g', ps')"
    by (cases "turns is (g, ps)")
  have "\<forall>p \<in> set ps'. guarded part guard p"
    using guarded_turns [OF assms, of "is" g] by (simp add: t)
  then have "m = m' \<and> m \<noteq> No_mux \<or> commute_at h h' g'"
    if "i < length ps'" "j < length ps'" "ps' ! i = Sect m h" "ps' ! j = Sect m' h'" for i j m h m' h'
    using guarded_commute that nth_mem by metis
  then show ?thesis
    unfolding t race_free_def by (simp only: prod.case) blast
qed

end

text \<open>The same for a destructed pair, a test, a local computation, an end, and a section whose continuation is good for every
  answer.\<close>

lemma guarded_end: "guarded part guard (Ret a)" "guarded part guard (Stop e)"
  by simp_all

lemma guarded_split:
  "(\<And>a b. r = (a, b) \<Longrightarrow> guarded part guard (f a b)) \<Longrightarrow> guarded part guard (case r of (a, b) \<Rightarrow> f a b)"
  "(P \<Longrightarrow> guarded part guard p) \<Longrightarrow> (\<not> P \<Longrightarrow> guarded part guard q) \<Longrightarrow> guarded part guard (if P then p else q)"
  by (cases r; simp) (cases P; simp)

lemma guarded_localI: "(\<And>a. guarded part guard (f a)) \<Longrightarrow> guarded part guard (localP r f)"
  by simp

lemma owns_split:
  "(\<And>a b. r = (a, b) \<Longrightarrow> owns part K (f a b) m) \<Longrightarrow> owns part K (case r of (a, b) \<Rightarrow> f a b) m"
  "(P \<Longrightarrow> owns part K p m) \<Longrightarrow> (\<not> P \<Longrightarrow> owns part K q m) \<Longrightarrow> owns part K (if P then p else q) m"
  by (cases r; simp) (cases P; simp)

lemma owns_localI: "(\<And>a. r = Inr a \<Longrightarrow> owns part K (f a) m) \<Longrightarrow> owns part K (localP r f) m"
  by simp

lemma owns_end: "owns part K (Ret a) m" "owns part K (Stop e) m"
  by simp_all

lemma owns_any:
  assumes "\<And>g g'. agree_on part K g g' \<Longrightarrow> snd (h g') = snd (h g) \<and> agree_on part K (fst (h g')) (fst (h g)) \<and>
      agree_on part (- K) (fst (h g')) g'"
    and "\<And>a g. owns part K (f a) g"
  shows "owns part K (sect m h f) g"
  by (rule owns_sectI) (fact assms)+

lemma owns_any_stop:
  assumes "\<And>g g'. agree_on part K g g' \<Longrightarrow> snd (h g') = snd (h g) \<and> agree_on part K (fst (h g')) (fst (h g)) \<and>
      agree_on part (- K) (fst (h g')) g'"
    and "\<And>a g. owns part K (f a) g"
  shows "owns part K (sect_or_stop m h f) g"
  by (rule owns_sect_or_stopI) (fact assms(1), rule assms(2))

subsection \<open>What a number of turns can do\<close>

text \<open>\<open>each_section R p\<close>: every section of the thread makes a step of \<open>R\<close>, in every state.\<close>

primrec each_section :: "('g \<Rightarrow> 'g \<Rightarrow> bool) \<Rightarrow> ('g, 'a) prog \<Rightarrow> bool" where
  "each_section R (Ret a) \<longleftrightarrow> True"
| "each_section R (Stop e) \<longleftrightarrow> True"
| "each_section R (Sect m h) \<longleftrightarrow> (\<forall>g. R g (fst (h g)) \<and> snd (map_prod id (each_section R) (h g)))"

lemma each_section_Sect [simp]:
  "each_section R (Sect m h) \<longleftrightarrow> (\<forall>g. R g (fst (h g)) \<and> each_section R (snd (h g)))"
  by (simp add: map_prod_def split_beta)

declare each_section.simps(3) [simp del]

lemma each_section_bindP: "each_section R p \<Longrightarrow> (\<And>a. each_section R (f a)) \<Longrightarrow> each_section R (bindP p f)"
  by (induction p rule: prog_induct) auto

lemma each_section_end: "each_section R (Ret a)" "each_section R (Stop e)"
  by simp_all

lemma each_section_split:
  "(\<And>a b. r = (a, b) \<Longrightarrow> each_section R (f a b)) \<Longrightarrow> each_section R (case r of (a, b) \<Rightarrow> f a b)"
  "(P \<Longrightarrow> each_section R p) \<Longrightarrow> (\<not> P \<Longrightarrow> each_section R q) \<Longrightarrow> each_section R (if P then p else q)"
  by (cases r; simp) (cases P; simp)

lemma each_section_localI: "(\<And>a. each_section R (f a)) \<Longrightarrow> each_section R (localP r f)"
  by (cases r) simp_all

lemma each_section_sectI:
  "(\<And>g. R g (fst (h g))) \<Longrightarrow> (\<And>a. each_section R (f a)) \<Longrightarrow> each_section R (sect m h f)"
  by (simp add: sect_def split_beta)

lemma each_section_sect_or_stopI:
  "(\<And>g. R g (fst (k g))) \<Longrightarrow> (\<And>a. each_section R (f a)) \<Longrightarrow> each_section R (sect_or_stop m k f)"
  by (simp add: sect_or_stop_def split_beta each_section_localI)

lemmas each_section_rules = each_section_end each_section_split each_section_localI each_section_sectI
  each_section_sect_or_stopI

text \<open>A measure that no section raises by more than one is bounded by the number of turns.\<close>

lemma turn_each_section:
  assumes "\<forall>p \<in> set ps. each_section (\<lambda>g g'. f g' \<le> Suc (f g)) p" and "turn i (g, ps) = (g', ps')"
  shows "f g' \<le> Suc (f g) \<and> (\<forall>p \<in> set ps'. each_section (\<lambda>g g'. f g' \<le> Suc (f g)) p)"
  using assms(2)
proof (cases rule: turn_cases)
  case idle
  then show ?thesis
    using assms(1) by simp
next
  case (step m h)
  then have "each_section (\<lambda>g g'. f g' \<le> Suc (f g)) (Sect m h)"
    using assms(1) nth_mem by metis
  then show ?thesis
    using step assms(1) by (auto dest!: subsetD [OF set_update_subset_insert])
qed

lemma visits_bounded:
  fixes f :: "'g \<Rightarrow> nat"
  shows "\<forall>p \<in> set ps. each_section (\<lambda>g g'. f g' \<le> Suc (f g)) p \<Longrightarrow> f g + length is < n \<Longrightarrow>
    visits (\<lambda>g. f g < n) is (g, ps)"
proof (induction "is" arbitrary: g ps)
  case (Cons i "is")
  obtain g' ps' where t: "turn i (g, ps) = (g', ps')"
    by (cases "turn i (g, ps)")
  then show ?case
    using turn_each_section [OF Cons.prems(1) t] Cons.prems(2) Cons.IH [of ps' g'] by simp
qed simp

end
