(* ===== verification/Epc3_Mkb.thy ===== *)
theory Epc3_Mkb
  imports Epc3_Mtcp Epc3_Threads
begin

section \<open>The multi-core event loop (EPC over kernel bypass)\<close>

text \<open>
  What \<open>mkb_mme.cpp\<close>, \<open>mkb_sgw.cpp\<close> and \<open>mkb_pgw.cpp\<close> have in common. Every core runs \<open>run\<close> with a stack,
  an epoll set and an \<open>fdmap\<close> of its own, so the state of a core is a \<open>loop\<close> as in the single-core programs,
  without the tables. An event is handled by a \<open>prog\<close> over the shared tables that ends with the new
  state of the core.
\<close>

definition mkb_gettid :: "u64 \<Rightarrow> u32" where
  "mkb_gettid guti = ucast (guti mod 100000)"

subsection \<open>Calls\<close>

text \<open>
  The answer to a request. The handlers of requests distinguish the end of the stream, the result 0 of
  \<open>mtcp_read\<close>, from a message: the first component of the result.
\<close>

definition mkb_recv ::
  "'w mtcp \<Rightarrow> int \<Rightarrow> string \<Rightarrow> string \<Rightarrow> ('w, 'm, 'z) loop_scheme \<Rightarrow> (bool \<times> ('w, 'm, 'z) loop_scheme) res" where
  "mkb_recv M fd del_msg read_msg s =
     bindE (ctl_or_exit M neg Ctl_del fd del_msg s) (\<lambda>s.
     let s = s\<lparr>rpkt := clear_pkt (rpkt s)\<rparr> in
     case m_read M fd (world s) of
       (None, w) \<Rightarrow> Inl (Exit read_msg)
     | (Some bs, w) \<Rightarrow>
         if bs = [] then Inr (True, s\<lparr>world := w\<rparr>)
         else bindE (buf_write (rbuf s) 0 bs) (\<lambda>d.
              bindE (load_pkt (s\<lparr>rbuf := d, world := w\<rparr>)) (\<lambda>s. Inr (False, s))))"

text \<open>The connection is closed, and with it the one that was opened for it.\<close>

definition mkb_closed :: "'w mtcp \<Rightarrow> int \<Rightarrow> 'y mdata_scheme \<Rightarrow> ('w, 'm, 'z) loop_scheme \<Rightarrow> ('w, 'm, 'z) loop_scheme" where
  "mkb_closed M cur_fd fddata s =
     (let s = (if initial_fd fddata \<noteq> -1 then close_fd M (initial_fd fddata) s else s)
      in fd_erase cur_fd (close_fd M cur_fd s))"

definition mkb_connect ::
  "'w mtcp \<Rightarrow> int \<Rightarrow> string \<Rightarrow> int \<Rightarrow> string \<Rightarrow> ('w, 'm, 'z) loop_scheme \<Rightarrow> ('w, 'm, 'z) loop_scheme res" where
  "mkb_connect M fd ip port who s =
     (case m_connect M fd ip port (world s) of
        (Inl e, w) \<Rightarrow>
          if e = EINPROGRESS then
            ctl_or_exit M neg (Ctl_add EPOLLOUT) fd (''Error: epoll add '' @ who) (s\<lparr>world := w\<rparr>)
          else Inl (Exit (''connect error '' @ who))
      | (Inr _, w) \<Rightarrow> Inl (Exit (''connected immediately '' @ who)))"

definition mkb_open ::
  "'w mtcp \<Rightarrow> string \<Rightarrow> int \<Rightarrow> string \<Rightarrow> ('w, 'm, 'z) loop_scheme \<Rightarrow> (int \<times> ('w, 'm, 'z) loop_scheme) res" where
  "mkb_open M ip port who s =
     bindE (socket_or_exit M (''Error: new socket fd '' @ who) s) (\<lambda>(fd, s).
     bindE (nonblock_or_exit M fd (''Error: create nonblock '' @ who) s) (\<lambda>s.
     bindE (mkb_connect M fd ip port who s) (\<lambda>s. Inr (fd, s))))"

text \<open>The stored message of a connection that is now open.\<close>

definition mkb_send_stored ::
  "'w mtcp \<Rightarrow> int \<Rightarrow> 'z mdata_scheme \<Rightarrow> string \<Rightarrow> ('w, 'm, 'y) loop_scheme \<Rightarrow> ('w, 'm, 'y) loop_scheme res" where
  "mkb_send_stored M fd fddata who s =
     bindE (buf_read (mbuf fddata) 0 (buflen fddata)) (\<lambda>bs.
     bindE (write_or_exit M fd bs (''Error: write data '' @ who) s) (\<lambda>s.
     ctl_or_exit M neg (Ctl_mod EPOLLIN) fd (''Error mod epoll '' @ who) s))"

subsection \<open>Startup\<close>

definition mkb_listen :: "'w mtcp \<Rightarrow> string \<Rightarrow> int \<Rightarrow> int \<Rightarrow> 'w \<Rightarrow> (int \<times> 'w) res" where
  "mkb_listen M ip port maxconn w =
     (case m_socket M w of (lfd, w) \<Rightarrow>
      if lfd < 0 then Inl (Exit ''listen socket call'')
      else case m_nonblock M lfd w of (r, w) \<Rightarrow>
      if r < 0 then Inl (Exit ''mtcp make nonblock'')
      else case m_bind M lfd ip port w of (r, w) \<Rightarrow>
      if r < 0 then Inl (Exit ''mtcp bind call'')
      else case m_listen M lfd maxconn w of (r, w) \<Rightarrow>
      if r < 0 then Inl (Exit ''mtcp listen'')
      else case m_epoll_create M w of (r, w) \<Rightarrow>
      if r = -1 then Inl (Exit ''mtcp epoll_create'')
      else case m_ctl M (Ctl_add EPOLLIN) lfd w of (r, w) \<Rightarrow>
      if r = -1 then Inl (Exit ''mtcp epoll_ctl_add'')
      else Inr (lfd, w))"

subsection \<open>Dispatching events\<close>

text \<open>The loop of a core on the batches that arrive until \<open>done\<close> is set.\<close>

definition mkb_event ::
  "'w mtcp \<Rightarrow> int \<Rightarrow> (('w, 'm, 'z) loop_scheme \<Rightarrow> ('w, 'm, 'z) loop_scheme res) \<Rightarrow> 'm \<Rightarrow>
   (event \<Rightarrow> 'm \<Rightarrow> ('w, 'm, 'z) loop_scheme \<Rightarrow> ('g, ('w, 'm, 'z) loop_scheme) prog) \<Rightarrow> event \<Rightarrow>
   ('w, 'm, 'z) loop_scheme \<Rightarrow> ('g, ('w, 'm, 'z) loop_scheme) prog" where
  "mkb_event M lfd accept_h zero handle ev s =
     (if ev_err ev \<or> ev_hup ev then Ret (s\<lparr>world := sys_close M (ev_fd ev) (world s)\<rparr>)
      else if ev_fd ev = lfd then localP (accept_h s) Ret
      else handle ev (at_or zero (fdmap s) (ev_fd ev)) (s\<lparr>fdmap := op_idx zero (fdmap s) (ev_fd ev)\<rparr>))"

fun mkb_events :: "(event \<Rightarrow> 's \<Rightarrow> ('g, 's) prog) \<Rightarrow> event list \<Rightarrow> 's \<Rightarrow> ('g, 's) prog" where
  "mkb_events step [] s = Ret s"
| "mkb_events step (e # es) s = bindP (step e s) (mkb_events step es)"

definition mkb_batch :: "(event \<Rightarrow> 's \<Rightarrow> ('g, 's) prog) \<Rightarrow> batch \<Rightarrow> 's \<Rightarrow> ('g, 's) prog" where
  "mkb_batch step b s =
     (case b of Wait_error \<Rightarrow> Stop (Exit ''mtcp wait'') | Events es \<Rightarrow> mkb_events step es s)"

fun mkb_loop :: "(event \<Rightarrow> 's \<Rightarrow> ('g, 's) prog) \<Rightarrow> batch list \<Rightarrow> 's \<Rightarrow> ('g, 's) prog" where
  "mkb_loop step [] s = Ret s"
| "mkb_loop step (b # bs) s = bindP (mkb_batch step b s) (mkb_loop step bs)"

text \<open>What holds of the program of every event holds of the program of a core.\<close>

lemma mkb_loop_guarded:
  assumes "\<And>e s. guarded part guard (step e s)"
  shows "guarded part guard (mkb_loop step bs s)"
proof -
  have ev: "guarded part guard (mkb_events step es s)" for es s
    by (induction es arbitrary: s) (auto intro: guarded_bindP assms)
  have "guarded part guard (mkb_batch step b s)" for b s
    by (cases b) (simp_all add: mkb_batch_def ev)
  then show ?thesis
    by (induction bs arbitrary: s) (auto intro: guarded_bindP)
qed

lemma mkb_loop_each_section:
  assumes "\<And>e s. each_section R (step e s)"
  shows "each_section R (mkb_loop step bs s)"
proof -
  have ev: "each_section R (mkb_events step es s)" for es s
    by (induction es arbitrary: s) (auto intro: each_section_bindP assms)
  have "each_section R (mkb_batch step b s)" for b s
    by (cases b) (simp_all add: mkb_batch_def ev)
  then show ?thesis
    by (induction bs arbitrary: s) (auto intro: each_section_bindP)
qed

context thread_relation begin

lemma mkb_loop_safe:
  assumes "\<And>e s g. safe C L T (step e s) g"
  shows "safe C L T (mkb_loop step bs s) g"
proof -
  have ev: "safe C L T (mkb_events step es s) g" for es s g
    by (induction es arbitrary: s g) (auto intro: safe_bindP assms)
  have "safe C L T (mkb_batch step b s) g" for b s g
    by (cases b) (simp_all add: mkb_batch_def ev)
  then show ?thesis
    by (induction bs arbitrary: s g) (auto intro: safe_bindP)
qed

end

end
