(* ===== verification/Epc3_Mkb_Mme.thy ===== *)
theory Epc3_Mkb_Mme
  imports Epc3_Mkb Epc3_Mme
begin

section \<open>The multi-core MME (mkb_mme.h, mkb_mme.cpp)\<close>

text \<open>
  The tables \<open>s1mme_id\<close> and \<open>ue_ctx\<close> and the counter \<open>ue_count\<close> are global; the type \<open>mme\<close> of version 1.0 holds them
  (its field \<open>mme_ids_of\<close> is not used here, every core has \<open>MmeIds\<close> of its own). The states of a connection are those
  of \<open>kby_mme.cpp\<close>. New are the mutexes, the pool of source addresses for connections to the SGW, whose current
  entries \<open>srcaddrmap\<close> records, and that a closed connection is noticed.

  The variables of \<open>run\<close> that an event may read before writing them are fields, as in \<open>Epc3_Mme\<close>.
\<close>

record 'w addr_pool =
  p_fetch :: "'w \<Rightarrow> sock_addr option \<times> 'w"
  p_bind :: "int \<Rightarrow> sock_addr \<Rightarrow> 'w \<Rightarrow> int \<times> 'w"
  p_free :: "sock_addr \<Rightarrow> 'w \<Rightarrow> 'w"

record 'w mkb_mme = "('w, mme_mdata) loop" +
  c_ids :: mme_ids
  c_guti :: u64
  c_eps_bearer_id :: u8
  c_k_nas_enc :: u64
  c_k_nas_int :: u64
  srcaddrmap :: "int \<rightharpoonup> sock_addr"

text \<open>\<open>to_string(guti).substr(7, -1)\<close> inside the critical section is \<open>gettid\<close> of \<open>Epc3_Mtcp\<close>.\<close>

definition mkb_maxconn_mme :: int where
  "mkb_maxconn_mme = 1000"

definition mkb_accept :: "'w mtcp \<Rightarrow> int \<Rightarrow> 'w mkb_mme \<Rightarrow> 'w mkb_mme res" where
  "mkb_accept M lfd s =
     accept_all M lfd \<lparr>act = 1, initial_fd = -1, mbuf = zero_buf, buflen = 0, md_msui = -1\<rparr>
       ''Ran accept epoll add error'' s"

text \<open>An entry that waits for the next message of the RAN.\<close>

definition mkb_wait_ran :: "int \<Rightarrow> mme_mdata \<Rightarrow> mme_mdata" where
  "mkb_wait_ran fd fddata = fddata\<lparr>act := 1, buflen := 0, initial_fd := fd, md_msui := 0, mbuf := zero_buf\<rparr>"

subsection \<open>Messages of the RAN: case 1\<close>

definition mkb_first_attach :: "'w mtcp \<Rightarrow> int \<Rightarrow> mme_mdata \<Rightarrow> 'w mkb_mme \<Rightarrow> (mme, 'w mkb_mme) prog" where
  "mkb_first_attach M cur_fd fddata s =
     localP (extract_u64 (rpkt s)) (\<lambda>(imsi, pkt).
     localP (extract_u64 pkt) (\<lambda>(tai, pkt).
     localP (extract_u64 pkt) (\<lambda>(ksi_asme, pkt).
     localP (extract_u16 pkt) (\<lambda>(nw_capability, pkt).
     let enb = enodeb_s1ap_ue_id (s1ap_hdr pkt) in
     localP (get_guti (gummei (c_ids s)) imsi) (\<lambda>guti.
     sect Uectx_mux (\<lambda>m.
       let m = m\<lparr>ue_count := ue_count m + 1\<rparr>;
           msui = ucast (ue_count m);
           m = upd_ue guti (mme_ue_init imsi enb msui tai nw_capability) m
       in (m, (msui, nw_type_m (ue_at guti m)))) (\<lambda>(msui, nw_type).
     sect S1mmeid_mux (\<lambda>m. (m\<lparr>s1mme_id := (s1mme_id m)(msui \<mapsto> guti)\<rparr>, ())) (\<lambda>_.
     localP (append_u64 imsi (clear_pkt pkt)) (\<lambda>pkt.
     localP (append_u16 (plmn_id (c_ids s)) pkt) (\<lambda>pkt.
     localP (append_u64 1 pkt) (\<lambda>pkt.
     localP (append_u16 nw_type pkt) (\<lambda>pkt.
     localP (prepend_diameter_hdr 1 (len16 pkt) pkt) (\<lambda>pkt.
     localP (prepend_len pkt) (\<lambda>pkt.
     localP (mkb_open M hss_ip3 hss_my_port ''hss'' (s\<lparr>rpkt := pkt, c_guti := guti\<rparr>)) (\<lambda>(hss_fd, s).
     localP (pkt_wire pkt) (\<lambda>msg.
     localP (buf_write (mbuf fddata) 0 msg) (\<lambda>b.
     Ret (fd_insert hss_fd
       (fddata\<lparr>act := 2, initial_fd := cur_fd, md_msui := msui, mbuf := b, buflen := len pkt\<rparr>)
       (fd_erase cur_fd s))))))))))))))))))"

text \<open>The lookups: \<open>guti\<close> stays 0 for an unknown id (type 2), or the process exits inside the section.\<close>

definition mkb_find_guti :: "u32 \<Rightarrow> u64 \<Rightarrow> (u64 \<Rightarrow> (mme, 'a) prog) \<Rightarrow> (mme, 'a) prog" where
  "mkb_find_guti msui old =
     sect S1mmeid_mux (\<lambda>m. (m, case s1mme_id m msui of None \<Rightarrow> old | Some guti \<Rightarrow> guti))"

definition mkb_known_guti :: "u32 \<Rightarrow> string \<Rightarrow> (u64 \<Rightarrow> (mme, 'a) prog) \<Rightarrow> (mme, 'a) prog" where
  "mkb_known_guti msui msg =
     sect_or_stop S1mmeid_mux (\<lambda>m. (m, case s1mme_id m msui of None \<Rightarrow> Inl (Exit msg) | Some guti \<Rightarrow> Inr guti))"

text \<open>A section that reads the context of a UE, with \<open>operator[]\<close>, and one that changes it.\<close>

definition mkb_read_ue :: "u64 \<Rightarrow> (mme_ue \<Rightarrow> (mme, 'a) prog) \<Rightarrow> (mme, 'a) prog" where
  "mkb_read_ue guti = sect Uectx_mux (\<lambda>m. (touch_ue guti m, ue_at guti m))"

definition mkb_upd_ue :: "u64 \<Rightarrow> (mme_ue \<Rightarrow> mme_ue) \<Rightarrow> (mme_ue \<Rightarrow> (mme, 'a) prog) \<Rightarrow> (mme, 'a) prog" where
  "mkb_upd_ue guti f = sect Uectx_mux (\<lambda>m. let m = upd_ue guti f m in (m, ue_at guti m))"

definition mkb_autn :: "'w mtcp \<Rightarrow> ext_lib \<Rightarrow> int \<Rightarrow> mme_mdata \<Rightarrow> 'w mkb_mme \<Rightarrow> (mme, 'w mkb_mme) prog" where
  "mkb_autn M X cur_fd fddata s =
     (let msui = mme_s1ap_ue_id (s1ap_hdr (rpkt s)) in
      mkb_find_guti msui 0 (\<lambda>guti.
      if guti = 0 then Stop (Exit ''Error: guti 0'')
      else
        localP (extract_u64 (rpkt s)) (\<lambda>(res, pkt).
        mkb_read_ue guti (\<lambda>c.
        if res \<noteq> xres_m c then Stop (Exit ''Failed to authenticate'')
        else
          mkb_upd_ue guti (\<lambda>c. let c = c\<lparr>nas_enc_algo_m := 1\<rparr> in
            c\<lparr>k_nas_enc_m := k_asme_m c + nas_enc_algo_m c + count_m c + bearer_m c + dir_m c\<rparr>) (\<lambda>c.
          localP (append_u64 (ksi_asme_m c) (clear_pkt pkt)) (\<lambda>pkt.
          localP (append_u16 (nw_capability_m c) pkt) (\<lambda>pkt.
          localP (append_u64 (nas_enc_algo_m c) pkt) (\<lambda>pkt.
          localP (append_u64 (nas_int_algo_m c) pkt) (\<lambda>pkt.
          localP (add_hmac X (k_nas_int_m c) pkt) (\<lambda>pkt.
          localP (prepend_s1ap_hdr 2 (len16 pkt) (enodeb_s1ap_ue_id (s1ap_hdr pkt))
            (mme_s1ap_ue_id (s1ap_hdr pkt)) pkt) (\<lambda>pkt.
          localP (prepend_len pkt) (\<lambda>pkt.
          localP (write_pkt M cur_fd pkt ''Error MME write back to RAN A2''
            (s\<lparr>rpkt := pkt, c_guti := guti, c_k_nas_enc := k_nas_enc_m c, c_k_nas_int := k_nas_int_m c\<rparr>)) (\<lambda>s.
          let s = fd_insert cur_fd (mkb_wait_ran (-1) fddata) (fd_erase cur_fd s) in
          localP (ctl_or_exit M neg (Ctl_add EPOLLIN) cur_fd ''Error adding ran for attach 2 to epoll'' s) Ret)))))))))))))"

definition mkb_security_mode_complete ::
  "'w mtcp \<Rightarrow> 'w addr_pool \<Rightarrow> ext_lib \<Rightarrow> int \<Rightarrow> mme_mdata \<Rightarrow> 'w mkb_mme \<Rightarrow> (mme, 'w mkb_mme) prog" where
  "mkb_security_mode_complete M A X cur_fd fddata s =
     (let msui = mme_s1ap_ue_id (s1ap_hdr (rpkt s)) in
      mkb_known_guti msui ''Error finding s1apid'' (\<lambda>guti.
      mkb_read_ue guti (\<lambda>c.
      localP (open_or_exit X ''mme_handlesecuritymodecomplete'' (k_nas_enc_m c) (k_nas_int_m c) (rpkt s)) (\<lambda>pkt.
      localP (extract_u64 pkt) (\<lambda>(res, pkt).
      if res = 0 then Stop (Exit ''security mode complete failure'')
      else
        sect_or_stop Uectx_mux (\<lambda>m.
          let m = upd_ue guti (\<lambda>c. c\<lparr>pgw_s5_port_m := v3_g_pgw_s5_port, pgw_s5_ip_addr_m := v3_g_pgw_s5_ip_addr\<rparr>) m in
          case gettid guti of
            Inl e \<Rightarrow> (m, Inl e)
          | Inr s11_cteid_mme \<Rightarrow>
              let m = upd_ue guti (\<lambda>c. c\<lparr>s11_cteid_mme_m := s11_cteid_mme, eps_bearer_id_m := 5, apn_in_use_m := 0\<rparr>) m
              in (m, Inr (s11_cteid_mme, ue_at guti m))) (\<lambda>(s11_cteid_mme, d).
        localP (append_u32 s11_cteid_mme (clear_pkt pkt)) (\<lambda>pkt.
        localP (append_u64 (imsi_m d) pkt) (\<lambda>pkt.
        localP (append_u8 (eps_bearer_id_m d) pkt) (\<lambda>pkt.
        localP (append_string (pgw_s5_ip_addr_m d) pkt) (\<lambda>pkt.
        localP (append_int (pgw_s5_port_m d) pkt) (\<lambda>pkt.
        localP (append_u64 (apn_in_use_m d) pkt) (\<lambda>pkt.
        localP (append_u64 (tai_m d) pkt) (\<lambda>pkt.
        localP (prepend_gtp_hdr 2 1 (len16 pkt) 0 pkt) (\<lambda>pkt.
        localP (prepend_len pkt) (\<lambda>pkt.
        localP (case p_fetch A (world s) of (None, w) \<Rightarrow> Inl (Exit ''FetchAddressPerCore error'')
                | (Some a, w) \<Rightarrow> Inr (a, s\<lparr>rpkt := pkt, world := w, c_guti := guti,
                    c_eps_bearer_id := eps_bearer_id_m d, c_k_nas_enc := k_nas_enc_m c,
                    c_k_nas_int := k_nas_int_m c\<rparr>)) (\<lambda>(a, s).
        localP (socket_or_exit M ''Error: sgw new socket fd error'' s) (\<lambda>(sgw_fd, s).
        let s = s\<lparr>srcaddrmap := (srcaddrmap s)(sgw_fd \<mapsto> a)\<rparr> in
        localP (nonblock_or_exit M sgw_fd ''Error: create sgw nonblock'' s) (\<lambda>s.
        localP (case p_bind A sgw_fd a (world s) of (r, w) \<Rightarrow>
                  if r < 0 then Inl (Exit ''Error failed binding'') else Inr (s\<lparr>world := w\<rparr>)) (\<lambda>s.
        localP (mkb_connect M sgw_fd sgw_ip3 sgw_s11_portnum ''sgw'' s) (\<lambda>s.
        localP (pkt_wire pkt) (\<lambda>msg.
        localP (buf_write (mbuf fddata) 0 msg) (\<lambda>b.
        Ret (fd_insert sgw_fd
          (fddata\<lparr>act := 4, initial_fd := cur_fd, md_msui := msui, mbuf := b, buflen := len pkt\<rparr>)
          (fd_erase cur_fd s))))))))))))))))))))))))"

text \<open>Both answers to the SGW end alike: the message goes out and the answer is awaited.\<close>

definition mkb_attach_complete :: "'w mtcp \<Rightarrow> ext_lib \<Rightarrow> int \<Rightarrow> mme_mdata \<Rightarrow> 'w mkb_mme \<Rightarrow> (mme, 'w mkb_mme) prog" where
  "mkb_attach_complete M X cur_fd fddata s =
     (let msui = mme_s1ap_ue_id (s1ap_hdr (rpkt s)) in
      mkb_known_guti msui ''s1mme mme  s1ueid not found'' (\<lambda>guti.
      mkb_read_ue guti (\<lambda>c.
      localP (open_or_exit X ''mme_handlesecuritymodecomplete'' (k_nas_enc_m c) (k_nas_int_m c) (rpkt s)) (\<lambda>pkt.
      localP (extract_u8 pkt) (\<lambda>(eps_bearer_id, pkt).
      localP (extract_u32 pkt) (\<lambda>(s1_uteid_dl, pkt).
      mkb_upd_ue guti (\<lambda>c. c\<lparr>s1_uteid_dl_m := s1_uteid_dl, emm_state_m := 1\<rparr>) (\<lambda>d.
      localP (append_u8 (eps_bearer_id_m d) (clear_pkt pkt)) (\<lambda>pkt.
      localP (append_u32 (s1_uteid_dl_m d) pkt) (\<lambda>pkt.
      localP (append_string v3_g_trafmon_ip_addr pkt) (\<lambda>pkt.
      localP (append_int v3_g_trafmon_port pkt) (\<lambda>pkt.
      localP (prepend_gtp_hdr 2 2 (len16 pkt) (s11_cteid_sgw_m d) pkt) (\<lambda>pkt.
      localP (prepend_len pkt) (\<lambda>pkt.
      let sgw_fd = initial_fd fddata in
      localP (write_pkt M sgw_fd pkt ''Error: sgw write attach four''
        (s\<lparr>rpkt := pkt, c_guti := guti, c_eps_bearer_id := eps_bearer_id_m d, c_k_nas_enc := k_nas_enc_m c,
           c_k_nas_int := k_nas_int_m c\<rparr>)) (\<lambda>s.
      localP (ctl_or_exit M minus1 (Ctl_add EPOLLIN) sgw_fd ''Error: sgw add a4 mtcp error'' s) (\<lambda>s.
      Ret (fd_insert sgw_fd
        (fddata\<lparr>act := 6, md_msui := msui, buflen := 0, mbuf := zero_buf, initial_fd := cur_fd\<rparr>)
        (fd_erase cur_fd s)))))))))))))))))"

definition mkb_detach :: "'w mtcp \<Rightarrow> ext_lib \<Rightarrow> int \<Rightarrow> mme_mdata \<Rightarrow> 'w mkb_mme \<Rightarrow> (mme, 'w mkb_mme) prog" where
  "mkb_detach M X cur_fd fddata s =
     (let msui = mme_s1ap_ue_id (s1ap_hdr (rpkt s)) in
      mkb_known_guti msui ''s1mme mme  s1ueid not found'' (\<lambda>guti.
      mkb_read_ue guti (\<lambda>c.
      localP (open_or_exit X ''mme_handlesecuritymodecomplete'' (k_nas_enc_m c) (k_nas_int_m c) (rpkt s)) (\<lambda>pkt.
      localP (extract_u64 pkt) (\<lambda>(guti, pkt).
      localP (extract_u64 pkt) (\<lambda>(ksi_asme, pkt).
      localP (extract_u64 pkt) (\<lambda>(detach_type, pkt).
      localP (append_u8 (eps_bearer_id_m c) (clear_pkt pkt)) (\<lambda>pkt.
      localP (append_u64 (tai_m c) pkt) (\<lambda>pkt.
      localP (prepend_gtp_hdr 2 3 (len16 pkt) (s11_cteid_sgw_m c) pkt) (\<lambda>pkt.
      localP (prepend_len pkt) (\<lambda>pkt.
      let sgw_fd = initial_fd fddata in
      localP (write_pkt M sgw_fd pkt ''Error: sgw write detach''
        (s\<lparr>rpkt := pkt, c_guti := guti, c_eps_bearer_id := eps_bearer_id_m c, c_k_nas_enc := k_nas_enc_m c,
           c_k_nas_int := k_nas_int_m c\<rparr>)) (\<lambda>s.
      localP (ctl_or_exit M minus1 (Ctl_add EPOLLIN) sgw_fd ''Error: sgw add detach mtcp error'' s) (\<lambda>s.
      Ret (fd_insert sgw_fd
        (fddata\<lparr>act := 7, md_msui := msui, buflen := 0, mbuf := zero_buf, initial_fd := cur_fd\<rparr>)
        (fd_erase cur_fd s)))))))))))))))"

text \<open>An event other than \<open>EPOLLIN\<close> is reported and ignored.\<close>

definition mkb_request ::
  "'w mtcp \<Rightarrow> 'w addr_pool \<Rightarrow> ext_lib \<Rightarrow> event \<Rightarrow> mme_mdata \<Rightarrow> 'w mkb_mme \<Rightarrow> (mme, 'w mkb_mme) prog" where
  "mkb_request M A X ev fddata s =
     (let cur_fd = ev_fd ev in
      if \<not> ev_in ev then Ret s
      else
        localP (mkb_recv M cur_fd ''Error ran epoll read delete from epoll'' ''Error: Ran read data case 1'' s) (\<lambda>(eof, s).
        if eof then Ret (mkb_closed M cur_fd fddata s)
        else
          localP (extract_s1ap_hdr (rpkt s)) (\<lambda>pkt.
          let s = s\<lparr>rpkt := pkt\<rparr>; msg_type = msg_type_s (s1ap_hdr pkt) in
          if mme_s1ap_ue_id (s1ap_hdr pkt) = 0 then mkb_first_attach M cur_fd fddata s
          else if msg_type = 2 then mkb_autn M X cur_fd fddata s
          else if msg_type = 3 then mkb_security_mode_complete M A X cur_fd fddata s
          else if msg_type = 4 then mkb_attach_complete M X cur_fd fddata s
          else if msg_type = 5 then mkb_detach M X cur_fd fddata s
          else Stop (Exit ''Error ran pkt Wrong Header''))))"

subsection \<open>Answers of the HSS and of the SGW: cases 2 to 7\<close>

definition mkb_hss_connected :: "'w mtcp \<Rightarrow> event \<Rightarrow> mme_mdata \<Rightarrow> 'w mkb_mme \<Rightarrow> (mme, 'w mkb_mme) prog" where
  "mkb_hss_connected M ev fddata s =
     (if ev_out ev then
        localP (mkb_send_stored M (ev_fd ev) fddata ''hss'' s) (\<lambda>s.
        Ret (fd_insert (ev_fd ev) (fddata\<lparr>act := 3, buflen := 0, mbuf := zero_buf\<rparr>) (fd_erase (ev_fd ev) s)))
      else Stop (Exit ''Wrong event at case 2''))"

definition mkb_sgw_connected :: "'w mtcp \<Rightarrow> event \<Rightarrow> mme_mdata \<Rightarrow> 'w mkb_mme \<Rightarrow> (mme, 'w mkb_mme) prog" where
  "mkb_sgw_connected M ev fddata s =
     (if ev_out ev then
        localP (mkb_send_stored M (ev_fd ev) fddata ''sgw'' s) (\<lambda>s.
        Ret (fd_insert (ev_fd ev) (fddata\<lparr>act := 5, buflen := 0, mbuf := zero_buf\<rparr>) (fd_erase (ev_fd ev) s)))
      else Stop (Exit ''Wrong event at case 4''))"

text \<open>
  Case 3. A context whose IMSI is 0 gets the last twelve digits of the GUTI as its IMSI.
\<close>

definition mkb_hss_reply :: "'w mtcp \<Rightarrow> event \<Rightarrow> mme_mdata \<Rightarrow> 'w mkb_mme \<Rightarrow> (mme, 'w mkb_mme) prog" where
  "mkb_hss_reply M ev fddata s =
     (let cur_fd = ev_fd ev in
      if \<not> ev_in ev then Stop (Exit ''Wrong event at case 3'')
      else
        localP (recv_pkt M True cur_fd ''Error hss epoll reply delete'' ''Error hss read data'' s) (\<lambda>s.
        let s = close_fd M cur_fd s in
        localP (extract_diameter_hdr (rpkt s)) (\<lambda>pkt.
        localP (extract_u64 pkt) (\<lambda>(autn_num, pkt).
        localP (extract_u64 pkt) (\<lambda>(rand_num, pkt).
        localP (extract_u64 pkt) (\<lambda>(xres, pkt).
        localP (extract_u64 pkt) (\<lambda>(k_asme, pkt).
        let msui = md_msui fddata in
        mkb_find_guti msui (c_guti s) (\<lambda>guti.
        mkb_upd_ue guti (\<lambda>c. let c = c\<lparr>xres_m := xres, k_asme_m := k_asme, ksi_asme_m := 1\<rparr> in
          if imsi_m c = 0 then c\<lparr>imsi_m := guti mod 1000000000000\<rparr> else c) (\<lambda>c.
        localP (append_u64 autn_num (clear_pkt pkt)) (\<lambda>pkt.
        localP (append_u64 rand_num pkt) (\<lambda>pkt.
        localP (append_u64 (ksi_asme_m c) pkt) (\<lambda>pkt.
        localP (prepend_s1ap_hdr 1 (len16 pkt) (enodeb_s1ap_ue_id_m c) msui pkt) (\<lambda>pkt.
        localP (prepend_len pkt) (\<lambda>pkt.
        let ran_fd = initial_fd fddata in
        localP (write_pkt M ran_fd pkt ''Error: Ran send attach 1 error'' (s\<lparr>rpkt := pkt, c_guti := guti\<rparr>)) (\<lambda>s.
        let s = fd_insert ran_fd (mkb_wait_ran (-1) fddata) (fd_erase cur_fd s) in
        localP (ctl_or_exit M neg (Ctl_add EPOLLIN) ran_fd ''Error adding ran for attach 2 to epoll'' s) Ret)))))))))))))))"

definition mkb_create_reply ::
  "'w mtcp \<Rightarrow> ext_lib \<Rightarrow> event \<Rightarrow> mme_mdata \<Rightarrow> 'w mkb_mme \<Rightarrow> (mme, 'w mkb_mme) prog" where
  "mkb_create_reply M X ev fddata s =
     (let cur_fd = ev_fd ev in
      if \<not> ev_in ev then Stop (Exit ''Wrong event at case 5'')
      else
        localP (recv_pkt M True cur_fd ''Error sgw epoll reply delete'' ''Error sgw read data'' s) (\<lambda>s.
        let ran_fd = initial_fd fddata in
        mkb_known_guti (md_msui fddata) ''Error A3 response'' (\<lambda>guti.
        localP (extract_gtp_hdr (rpkt s)) (\<lambda>pkt.
        localP (extract_u32 pkt) (\<lambda>(s11_cteid_sgw, pkt).
        localP (extract_string pkt) (\<lambda>(ue_ip_addr, pkt).
        localP (extract_u32 pkt) (\<lambda>(s1_uteid_ul, pkt).
        localP (extract_u32 pkt) (\<lambda>(s5_uteid_ul, pkt).
        localP (extract_u32 pkt) (\<lambda>(s5_uteid_dl, pkt).
        if mkb_gettid guti \<noteq> s11_cteid_sgw then Stop (Exit ''GUTI not equal A3response'')
        else
          mkb_upd_ue guti (\<lambda>c. c\<lparr>ip_addr_m := ue_ip_addr, s11_cteid_sgw_m := s11_cteid_sgw,
            s1_uteid_ul_m := s1_uteid_ul, s5_uteid_ul_m := s5_uteid_ul, s5_uteid_dl_m := s5_uteid_dl,
            tai_list_m := [tai_m c], tau_timer_m := v3_g_timer, e_rab_id_m := eps_bearer_id_m c,
            k_enodeb_m := k_asme_m c\<rparr>) (\<lambda>c.
          localP (append_u64 guti (clear_pkt pkt)) (\<lambda>pkt.
          localP (append_u8 (c_eps_bearer_id s) pkt) (\<lambda>pkt.
          localP (append_u8 (e_rab_id_m c) pkt) (\<lambda>pkt.
          localP (append_u32 s1_uteid_ul pkt) (\<lambda>pkt.
          localP (append_u64 (k_enodeb_m c) pkt) (\<lambda>pkt.
          localP (append_u16 (nw_capability_m c) pkt) (\<lambda>pkt.
          localP (append_int 1 pkt) (\<lambda>pkt.
          localP (append_u64s (tai_list_m c) pkt) (\<lambda>pkt.
          localP (append_u64 (tau_timer_m c) pkt) (\<lambda>pkt.
          localP (append_string ue_ip_addr pkt) (\<lambda>pkt.
          localP (append_string v3_g_sgw_s1_ip_addr pkt) (\<lambda>pkt.
          localP (append_int v3_g_sgw_s1_port pkt) (\<lambda>pkt.
          localP (append_bool True pkt) (\<lambda>pkt.
          localP (crypt_enc X (k_nas_enc_m c) pkt) (\<lambda>pkt.
          localP (add_hmac X (k_nas_int_m c) pkt) (\<lambda>pkt.
          localP (prepend_s1ap_hdr 3 (len16 pkt) (enodeb_s1ap_ue_id (s1ap_hdr pkt))
            (mme_s1ap_ue_id (s1ap_hdr pkt)) pkt) (\<lambda>pkt.
          localP (prepend_len pkt) (\<lambda>pkt.
          localP (write_pkt M ran_fd pkt ''Error: Ran send attach 3 error'' (s\<lparr>rpkt := pkt, c_guti := guti,
            c_k_nas_enc := k_nas_enc_m c, c_k_nas_int := k_nas_int_m c\<rparr>)) (\<lambda>s.
          let s = fd_insert ran_fd (mkb_wait_ran cur_fd fddata) (fd_erase cur_fd s) in
          localP (ctl_or_exit M neg (Ctl_add EPOLLIN) ran_fd ''Error adding ran after attach 3 to epoll'' s) Ret))))))))))))))))))))))))))))"

definition mkb_modify_reply ::
  "'w mtcp \<Rightarrow> ext_lib \<Rightarrow> event \<Rightarrow> mme_mdata \<Rightarrow> 'w mkb_mme \<Rightarrow> (mme, 'w mkb_mme) prog" where
  "mkb_modify_reply M X ev fddata s =
     (let cur_fd = ev_fd ev in
      if \<not> ev_in ev then Stop (Exit ''Wrong event at case 6'')
      else
        localP (recv_pkt M True cur_fd ''Error sgw epoll reply delete'' ''Error sgw read data'' s) (\<lambda>s.
        let ran_fd = initial_fd fddata in
        mkb_known_guti (md_msui fddata) ''Error A4 response'' (\<lambda>guti.
        localP (extract_gtp_hdr (rpkt s)) (\<lambda>pkt.
        localP (extract_u64 pkt) (\<lambda>(res, pkt).
        if res = 0 then Stop (Exit ''modify bearer failure'')
        else
          mkb_upd_ue guti (\<lambda>c. c\<lparr>ecm_state_m := 1\<rparr>) (\<lambda>c.
          localP (append_bool True (clear_pkt pkt)) (\<lambda>pkt.
          localP (append_u64 guti pkt) (\<lambda>pkt.
          localP (append_u16 (nw_capability_m c) pkt) (\<lambda>pkt.
          localP (crypt_enc X (k_nas_enc_m c) pkt) (\<lambda>pkt.
          localP (add_hmac X (k_nas_int_m c) pkt) (\<lambda>pkt.
          localP (prepend_s1ap_hdr 4 (len16 pkt) (enodeb_s1ap_ue_id (s1ap_hdr pkt))
            (mme_s1ap_ue_id (s1ap_hdr pkt)) pkt) (\<lambda>pkt.
          localP (prepend_len pkt) (\<lambda>pkt.
          localP (write_pkt M ran_fd pkt ''Error: Cant send to RAN A4'' (s\<lparr>rpkt := pkt, c_guti := guti,
            c_k_nas_enc := k_nas_enc_m c, c_k_nas_int := k_nas_int_m c\<rparr>)) (\<lambda>s.
          let s = fd_insert ran_fd (mkb_wait_ran cur_fd fddata) (fd_erase cur_fd s) in
          localP (ctl_or_exit M neg (Ctl_add EPOLLIN) ran_fd ''Error adding ran after attach 4 to epoll'' s) Ret))))))))))))))"

text \<open>
  Case 7. On a negative answer the keys of the last event serve. The source address of the connection
  goes back to the pool; then id and context are removed, in two sections.
\<close>

definition mkb_reply_keys :: "u64 \<Rightarrow> u64 \<Rightarrow> u64 \<Rightarrow> u64 \<Rightarrow> (u64 \<times> u64 \<Rightarrow> (mme, 'a) prog) \<Rightarrow> (mme, 'a) prog" where
  "mkb_reply_keys res guti ke ki k =
     (if res = 0 then k (ke, ki) else mkb_read_ue guti (\<lambda>c. k (k_nas_enc_m c, k_nas_int_m c)))"

definition mkb_detach_reply ::
  "'w mtcp \<Rightarrow> 'w addr_pool \<Rightarrow> ext_lib \<Rightarrow> event \<Rightarrow> mme_mdata \<Rightarrow> 'w mkb_mme \<Rightarrow> (mme, 'w mkb_mme) prog" where
  "mkb_detach_reply M A X ev fddata s =
     (let cur_fd = ev_fd ev in
      if \<not> ev_in ev then Stop (Exit ''Wrong event at case 6'')
      else
        localP (recv_pkt M True cur_fd ''Error sgw epoll reply delete'' ''Error sgw read data'' s) (\<lambda>s.
        let ran_fd = initial_fd fddata; msui = md_msui fddata in
        mkb_known_guti msui ''Error detach response'' (\<lambda>guti.
        localP (extract_gtp_hdr (rpkt s)) (\<lambda>pkt.
        localP (extract_u64 pkt) (\<lambda>(res, pkt).
        mkb_reply_keys res guti (c_k_nas_enc s) (c_k_nas_int s) (\<lambda>(ke, ki).
        localP (append_bool True (clear_pkt pkt)) (\<lambda>pkt.
        localP (crypt_enc X ke pkt) (\<lambda>pkt.
        localP (add_hmac X ki pkt) (\<lambda>pkt.
        localP (prepend_s1ap_hdr 5 (len16 pkt) (enodeb_s1ap_ue_id (s1ap_hdr pkt))
          (mme_s1ap_ue_id (s1ap_hdr pkt)) pkt) (\<lambda>pkt.
        localP (prepend_len pkt) (\<lambda>pkt.
        localP (write_pkt M ran_fd pkt ''Error: Cant send to RAN detach''
          (s\<lparr>rpkt := pkt, c_guti := guti, c_k_nas_enc := ke, c_k_nas_int := ki\<rparr>)) (\<lambda>s.
        let s = close_fd M ran_fd (close_fd M cur_fd (fd_erase ran_fd (fd_erase cur_fd s))) in
        localP (case srcaddrmap s cur_fd of
            None \<Rightarrow> Inl (Exit ''Address to free not found'')
          | Some a \<Rightarrow> Inr (s\<lparr>world := p_free A a (world s), srcaddrmap := (srcaddrmap s)(cur_fd := None)\<rparr>)) (\<lambda>s.
        sect S1mmeid_mux (\<lambda>m. (rem_itfid_m msui m, ())) (\<lambda>_.
        sect Uectx_mux (\<lambda>m. (rem_uectx_m guti m, ())) (\<lambda>_.
        Ret s)))))))))))))))"

subsection \<open>The event loop of a core\<close>

text \<open>An unknown state is reported and the event is dropped.\<close>

definition mkb_handle ::
  "'w mtcp \<Rightarrow> 'w addr_pool \<Rightarrow> ext_lib \<Rightarrow> event \<Rightarrow> mme_mdata \<Rightarrow> 'w mkb_mme \<Rightarrow> (mme, 'w mkb_mme) prog" where
  "mkb_handle M A X ev fddata s =
     (if act fddata = 1 then mkb_request M A X ev fddata s
      else if act fddata = 2 then mkb_hss_connected M ev fddata s
      else if act fddata = 3 then mkb_hss_reply M ev fddata s
      else if act fddata = 4 then mkb_sgw_connected M ev fddata s
      else if act fddata = 5 then mkb_create_reply M X ev fddata s
      else if act fddata = 6 then mkb_modify_reply M X ev fddata s
      else if act fddata = 7 then mkb_detach_reply M A X ev fddata s
      else Ret s)"

definition mkb_mme_event ::
  "'w mtcp \<Rightarrow> 'w addr_pool \<Rightarrow> ext_lib \<Rightarrow> int \<Rightarrow> event \<Rightarrow> 'w mkb_mme \<Rightarrow> (mme, 'w mkb_mme) prog" where
  "mkb_mme_event M A X lfd = mkb_event M lfd (mkb_accept M lfd) zero_mme_mdata (mkb_handle M A X)"

text \<open>
  \<open>run\<close> on one core, from its start; the first values of variables, buffer and packet are arguments. The \<open>MmeIds\<close> are
  constructed before the listening socket.
\<close>

definition mkb_mme_core ::
  "'w mtcp \<Rightarrow> 'w addr_pool \<Rightarrow> ext_lib \<Rightarrow> batch list \<Rightarrow> 'w \<Rightarrow> u8 list \<Rightarrow> packet \<Rightarrow> u64 \<Rightarrow> u8 \<Rightarrow> u64 \<Rightarrow> u64 \<Rightarrow>
   (mme, 'w mkb_mme) prog" where
  "mkb_mme_core M A X bs w d p g e ke ki =
     localP new_mme_ids (\<lambda>ids.
     localP (mkb_listen M mme_ip3 mme_my_port mkb_maxconn_mme w) (\<lambda>(lfd, w).
     mkb_loop (mkb_mme_event M A X lfd) bs
       \<lparr>world = w, fdmap = Map.empty, rbuf = d, rpkt = p, c_ids = ids, c_guti = g, c_eps_bearer_id = e,
        c_k_nas_enc = ke, c_k_nas_int = ki, srcaddrmap = Map.empty\<rparr>))"

text \<open>\<open>main\<close> clears the tables and the counter.\<close>

definition new_mkb_tabs :: "mme_ids \<Rightarrow> mme" where
  "new_mkb_tabs ids = \<lparr>mme_ids_of = ids, ue_count = 0, s1mme_id = Map.empty, ue_ctx_m = Map.empty\<rparr>"

end
