(* ===== verification/Epc3_Mkb_Mme_Cores.thy ===== *)
theory Epc3_Mkb_Mme_Cores
  imports Epc3_Mkb_Mme
begin

section \<open>The cores of the multi-core MME together\<close>

text \<open>
  The tables as a map from keys; which mutex guards which key; that every access of every core
  holds the right mutex; that ids stay unique under any interleaving; and which keys the handler of a
  message owns.
\<close>

datatype mme_key = Key_ids | Key_count | Key_id u32 | Key_ue u64

datatype mme_entry = Entry_ids mme_ids | Entry_count u64 | Entry_id "u64 option" | Entry_ue "mme_ue option"

fun mme_part :: "mme \<Rightarrow> mme_key \<Rightarrow> mme_entry" where
  "mme_part m Key_ids = Entry_ids (mme_ids_of m)"
| "mme_part m Key_count = Entry_count (ue_count m)"
| "mme_part m (Key_id i) = Entry_id (s1mme_id m i)"
| "mme_part m (Key_ue guti) = Entry_ue (ue_ctx_m m guti)"

text \<open>
  The mutex that the code takes for each entry. The counter \<open>ue_count\<close> is changed and read only under \<open>uectx_mux\<close>
  (mkb_mme.cpp, lines 360 to 368), as the comment at its declaration says (line 17); the comment in mkb_mme.h (line 70),
  which gives it to \<open>s1mmeid_mux\<close>, does not describe this code. The ids of the MME itself are constants.
\<close>

fun mme_guard :: "mme_key \<Rightarrow> mutex" where
  "mme_guard Key_ids = No_mux"
| "mme_guard Key_count = Uectx_mux"
| "mme_guard (Key_id i) = S1mmeid_mux"
| "mme_guard (Key_ue guti) = Uectx_mux"

interpretation mme_keys: keyed_state mme_part
proof
  fix m m' :: mme
  assume "\<And>k. mme_part m k = mme_part m' k"
  from this [of Key_ids] this [of Key_count] this [of "Key_id i" for i] this [of "Key_ue u" for u]
  show "m = m'"
    by (intro mme.equality) auto
qed

subsection \<open>Every access under its mutex\<close>

lemma mme_agree_uectx:
  "agree_on mme_part {k. mme_guard k = Uectx_mux} m m' \<longleftrightarrow> ue_count m = ue_count m' \<and> ue_ctx_m m = ue_ctx_m m'"
proof
  assume a: "agree_on mme_part {k. mme_guard k = Uectx_mux} m m'"
  show "ue_count m = ue_count m' \<and> ue_ctx_m m = ue_ctx_m m'"
    using a [unfolded agree_on_def, THEN bspec, of Key_count] a [unfolded agree_on_def, THEN bspec, of "Key_ue u" for u]
    by (auto simp: fun_eq_iff)
next
  assume "ue_count m = ue_count m' \<and> ue_ctx_m m = ue_ctx_m m'"
  then show "agree_on mme_part {k. mme_guard k = Uectx_mux} m m'"
    unfolding agree_on_def by (auto elim!: mme_guard.elims)
qed

lemma mme_agree_s1mme:
  "agree_on mme_part {k. mme_guard k = S1mmeid_mux} m m' \<longleftrightarrow> s1mme_id m = s1mme_id m'"
proof
  assume a: "agree_on mme_part {k. mme_guard k = S1mmeid_mux} m m'"
  show "s1mme_id m = s1mme_id m'"
    using a [unfolded agree_on_def, THEN bspec, of "Key_id i" for i] by (auto simp: fun_eq_iff)
next
  assume "s1mme_id m = s1mme_id m'"
  then show "agree_on mme_part {k. mme_guard k = S1mmeid_mux} m m'"
    unfolding agree_on_def by (auto elim!: mme_guard.elims)
qed

lemma mme_agree_other:
  "mme_ids_of m = mme_ids_of m' \<Longrightarrow> s1mme_id m = s1mme_id m' \<Longrightarrow> agree_on mme_part {k. mme_guard k \<noteq> Uectx_mux} m m'"
  "mme_ids_of m = mme_ids_of m' \<Longrightarrow> ue_count m = ue_count m' \<Longrightarrow> ue_ctx_m m = ue_ctx_m m' \<Longrightarrow>
   agree_on mme_part {k. mme_guard k \<noteq> S1mmeid_mux} m m'"
  unfolding agree_on_def by (safe, case_tac k; simp)+

lemma mme_fields [simp]:
  "mme_ids_of (upd_ue u f m) = mme_ids_of m" "s1mme_id (upd_ue u f m) = s1mme_id m"
  "ue_count (upd_ue u f m) = ue_count m"
  "mme_ids_of (touch_ue u m) = mme_ids_of m" "s1mme_id (touch_ue u m) = s1mme_id m"
  "ue_count (touch_ue u m) = ue_count m"
  "mme_ids_of (rem_uectx_m u m) = mme_ids_of m" "s1mme_id (rem_uectx_m u m) = s1mme_id m"
  "ue_count (rem_uectx_m u m) = ue_count m"
  "mme_ids_of (rem_itfid_m i m) = mme_ids_of m" "ue_ctx_m (rem_itfid_m i m) = ue_ctx_m m"
  "ue_count (rem_itfid_m i m) = ue_count m"
  by (simp_all add: upd_ue_def touch_ue_def rem_uectx_m_def rem_itfid_m_def)

lemma guarded_uectx:
  assumes "\<And>m. mme_ids_of (fst (h m)) = mme_ids_of m \<and> s1mme_id (fst (h m)) = s1mme_id m"
    and "\<And>m m'. ue_count m = ue_count m' \<Longrightarrow> ue_ctx_m m = ue_ctx_m m' \<Longrightarrow>
      snd (h m) = snd (h m') \<and> ue_count (fst (h m)) = ue_count (fst (h m')) \<and>
      ue_ctx_m (fst (h m)) = ue_ctx_m (fst (h m'))"
    and "\<And>a. guarded mme_part mme_guard (k a)"
  shows "guarded mme_part mme_guard (sect Uectx_mux h k)"
proof (rule guarded_sectI)
  fix m m' a
  show "agree_on mme_part {k. mme_guard k \<noteq> Uectx_mux} (fst (h m)) m"
    using assms(1) [of m] by (intro mme_agree_other(1)) iprover+
  show "agree_on mme_part {k. mme_guard k = Uectx_mux} m m' \<Longrightarrow>
      snd (h m) = snd (h m') \<and> agree_on mme_part {k. mme_guard k = Uectx_mux} (fst (h m)) (fst (h m'))"
    unfolding mme_agree_uectx using assms(2) [of m m'] by iprover
  show "guarded mme_part mme_guard (k a)"
    by (rule assms(3))
qed simp

lemma guarded_s1mme:
  assumes "\<And>m. mme_ids_of (fst (h m)) = mme_ids_of m \<and> ue_count (fst (h m)) = ue_count m \<and>
      ue_ctx_m (fst (h m)) = ue_ctx_m m"
    and "\<And>m m'. s1mme_id m = s1mme_id m' \<Longrightarrow>
      snd (h m) = snd (h m') \<and> s1mme_id (fst (h m)) = s1mme_id (fst (h m'))"
    and "\<And>a. guarded mme_part mme_guard (k a)"
  shows "guarded mme_part mme_guard (sect S1mmeid_mux h k)"
proof (rule guarded_sectI)
  fix m m' a
  show "agree_on mme_part {k. mme_guard k \<noteq> S1mmeid_mux} (fst (h m)) m"
    using assms(1) [of m] by (intro mme_agree_other(2)) iprover+
  show "agree_on mme_part {k. mme_guard k = S1mmeid_mux} m m' \<Longrightarrow>
      snd (h m) = snd (h m') \<and> agree_on mme_part {k. mme_guard k = S1mmeid_mux} (fst (h m)) (fst (h m'))"
    unfolding mme_agree_s1mme using assms(2) [of m m'] by iprover
  show "guarded mme_part mme_guard (k a)"
    by (rule assms(3))
qed simp

lemma guarded_uectx_stop:
  assumes "\<And>m. mme_ids_of (fst (h m)) = mme_ids_of m \<and> s1mme_id (fst (h m)) = s1mme_id m"
    and "\<And>m m'. ue_count m = ue_count m' \<Longrightarrow> ue_ctx_m m = ue_ctx_m m' \<Longrightarrow>
      snd (h m) = snd (h m') \<and> ue_count (fst (h m)) = ue_count (fst (h m')) \<and>
      ue_ctx_m (fst (h m)) = ue_ctx_m (fst (h m'))"
    and "\<And>a. guarded mme_part mme_guard (k a)"
  shows "guarded mme_part mme_guard (sect_or_stop Uectx_mux h k)"
proof (rule guarded_sect_or_stopI)
  fix m m' a
  show "agree_on mme_part {k. mme_guard k \<noteq> Uectx_mux} (fst (h m)) m"
    using assms(1) [of m] by (intro mme_agree_other(1)) iprover+
  show "agree_on mme_part {k. mme_guard k = Uectx_mux} m m' \<Longrightarrow>
      snd (h m) = snd (h m') \<and> agree_on mme_part {k. mme_guard k = Uectx_mux} (fst (h m)) (fst (h m'))"
    unfolding mme_agree_uectx using assms(2) [of m m'] by iprover
  show "guarded mme_part mme_guard (k a)"
    by (rule assms(3))
qed simp

lemma guarded_ue:
  assumes "\<And>c. guarded mme_part mme_guard (k c)"
  shows "guarded mme_part mme_guard (mkb_read_ue guti k)"
    and "guarded mme_part mme_guard (mkb_upd_ue guti f k)"
  unfolding mkb_read_ue_def mkb_upd_ue_def Let_def
  by (rule guarded_uectx; simp add: assms ue_at_def touch_ue_def upd_ue_def)+

lemma guarded_guti:
  assumes "\<And>guti. guarded mme_part mme_guard (k guti)"
  shows "guarded mme_part mme_guard (mkb_find_guti i old k)"
    and "guarded mme_part mme_guard (mkb_known_guti i msg k)"
proof -
  show "guarded mme_part mme_guard (mkb_find_guti i old k)"
    unfolding mkb_find_guti_def by (rule guarded_s1mme) (simp_all add: assms)
  show "guarded mme_part mme_guard (mkb_known_guti i msg k)"
    unfolding mkb_known_guti_def
    by (rule guarded_sect_or_stopI) (simp_all add: assms mme_agree_s1mme)
qed

lemmas guarded_intros = guarded_ue guarded_guti guarded_uectx guarded_s1mme

lemmas guarded_rules = guarded_intros guarded_split guarded_localI guarded_end

lemma guarded_first_attach: "guarded mme_part mme_guard (mkb_first_attach M fd d s)"
  unfolding mkb_first_attach_def Let_def
  by (intro guarded_rules; simp add: ue_at_def upd_ue_def)

lemma guarded_autn: "guarded mme_part mme_guard (mkb_autn M X fd d s)"
  unfolding mkb_autn_def Let_def by (intro guarded_rules)

lemma guarded_attach_complete: "guarded mme_part mme_guard (mkb_attach_complete M X fd d s)"
  unfolding mkb_attach_complete_def Let_def by (intro guarded_rules)

lemma guarded_detach: "guarded mme_part mme_guard (mkb_detach M X fd d s)"
  unfolding mkb_detach_def Let_def by (intro guarded_rules)

lemma guarded_hss_reply: "guarded mme_part mme_guard (mkb_hss_reply M ev d s)"
  unfolding mkb_hss_reply_def Let_def by (intro guarded_rules)

lemma guarded_create_reply: "guarded mme_part mme_guard (mkb_create_reply M X ev d s)"
  unfolding mkb_create_reply_def Let_def by (intro guarded_rules)

lemma guarded_modify_reply: "guarded mme_part mme_guard (mkb_modify_reply M X ev d s)"
  unfolding mkb_modify_reply_def Let_def by (intro guarded_rules)

lemma guarded_detach_reply: "guarded mme_part mme_guard (mkb_detach_reply M A X ev d s)"
  unfolding mkb_detach_reply_def mkb_reply_keys_def Let_def
  by (intro guarded_rules; simp add: rem_uectx_m_def rem_itfid_m_def)

lemma guarded_security_mode_complete: "guarded mme_part mme_guard (mkb_security_mode_complete M A X fd d s)"
  unfolding mkb_security_mode_complete_def Let_def
  by (intro guarded_rules guarded_uectx_stop; simp add: upd_ue_def ue_at_def split: sum.splits)

lemma guarded_request: "guarded mme_part mme_guard (mkb_request M A X ev d s)"
  unfolding mkb_request_def Let_def
  by (intro guarded_rules guarded_first_attach guarded_autn guarded_security_mode_complete
      guarded_attach_complete guarded_detach)

lemma guarded_connected:
  "guarded mme_part mme_guard (mkb_hss_connected M ev d s)"
  "guarded mme_part mme_guard (mkb_sgw_connected M ev d s)"
  unfolding mkb_hss_connected_def mkb_sgw_connected_def by (intro guarded_rules)+

lemma guarded_mme_event: "guarded mme_part mme_guard (mkb_mme_event M A X lfd ev s)"
  unfolding mkb_mme_event_def mkb_event_def mkb_handle_def Let_def
  by (intro guarded_rules guarded_request guarded_connected guarded_hss_reply guarded_create_reply
      guarded_modify_reply guarded_detach_reply)

lemma guarded_mme_core: "guarded mme_part mme_guard (mkb_mme_core M A X bs w d p g e ke ki)"
  unfolding mkb_mme_core_def by (intro guarded_rules mkb_loop_guarded guarded_mme_event)

subsection \<open>The keys of a message\<close>

text \<open>
  The MME id that the handler of an event looks up, if it looks one up: that of the S1AP header for a message of
  the RAN, that of \<open>fddata\<close> for an answer.
\<close>

definition mkb_subject :: "'w mtcp \<Rightarrow> int \<Rightarrow> event \<Rightarrow> 'w mkb_mme \<Rightarrow> u32 option" where
  "mkb_subject M lfd ev s =
     (if ev_err ev \<or> ev_hup ev \<or> ev_fd ev = lfd \<or> \<not> ev_in ev then None
      else
        let fddata = at_or zero_mme_mdata (fdmap s) (ev_fd ev);
            s = s\<lparr>fdmap := op_idx zero_mme_mdata (fdmap s) (ev_fd ev)\<rparr> in
        if act fddata = 1 then
          (case mkb_recv M (ev_fd ev) ''Error ran epoll read delete from epoll'' ''Error: Ran read data case 1'' s of
             Inl e \<Rightarrow> None
           | Inr (eof, s) \<Rightarrow>
               if eof then None
               else (case extract_s1ap_hdr (rpkt s) of
                       Inl e \<Rightarrow> None | Inr pkt \<Rightarrow> Some (mme_s1ap_ue_id (s1ap_hdr pkt))))
        else if act fddata \<in> {3, 5, 6, 7} then Some (md_msui fddata)
        else None)"

definition ue_keys :: "u32 \<Rightarrow> u64 \<Rightarrow> mme_key set" where
  "ue_keys i guti = {Key_id i, Key_ue guti}"

lemma ue_agree:
  "agree_on mme_part (ue_keys i guti) m m' \<longleftrightarrow> s1mme_id m i = s1mme_id m' i \<and> ue_ctx_m m guti = ue_ctx_m m' guti"
  by (auto simp: agree_on_def ue_keys_def)

lemma ue_agree_outside:
  assumes "mme_ids_of m = mme_ids_of m'" and "ue_count m = ue_count m'"
    and "\<And>j. j \<noteq> i \<Longrightarrow> s1mme_id m j = s1mme_id m' j" and "\<And>u. u \<noteq> guti \<Longrightarrow> ue_ctx_m m u = ue_ctx_m m' u"
  shows "agree_on mme_part (- ue_keys i guti) m m'"
  unfolding agree_on_def
proof
  fix k
  assume "k \<in> - ue_keys i guti"
  then show "mme_part m k = mme_part m' k"
    using assms by (cases k) (auto simp: ue_keys_def)
qed

lemma own_section:
  assumes "\<And>m'. s1mme_id m i = s1mme_id m' i \<Longrightarrow> ue_ctx_m m guti = ue_ctx_m m' guti \<Longrightarrow>
      snd (h m') = snd (h m) \<and> s1mme_id (fst (h m')) i = s1mme_id (fst (h m)) i \<and>
      ue_ctx_m (fst (h m')) guti = ue_ctx_m (fst (h m)) guti"
    and "\<And>m. mme_ids_of (fst (h m)) = mme_ids_of m \<and> ue_count (fst (h m)) = ue_count m \<and>
      (\<forall>j. j \<noteq> i \<longrightarrow> s1mme_id (fst (h m)) j = s1mme_id m j) \<and>
      (\<forall>u. u \<noteq> guti \<longrightarrow> ue_ctx_m (fst (h m)) u = ue_ctx_m m u)"
    and "owns mme_part (ue_keys i guti) (k (snd (h m))) (fst (h m))"
  shows "owns mme_part (ue_keys i guti) (sect mx h k) m"
proof (rule owns_sectI)
  fix m'
  assume "agree_on mme_part (ue_keys i guti) m m'"
  then have a: "s1mme_id m i = s1mme_id m' i" "ue_ctx_m m guti = ue_ctx_m m' guti"
    unfolding ue_agree by iprover+
  have "agree_on mme_part (- ue_keys i guti) (fst (h m')) m'"
    using assms(2) [of m'] by (intro ue_agree_outside) iprover+
  then show "snd (h m') = snd (h m) \<and> agree_on mme_part (ue_keys i guti) (fst (h m')) (fst (h m)) \<and>
      agree_on mme_part (- ue_keys i guti) (fst (h m')) m'"
    unfolding ue_agree using assms(1) [OF a] by iprover
qed (rule assms(3))

lemma own_section_stop:
  assumes "\<And>m'. s1mme_id m i = s1mme_id m' i \<Longrightarrow> ue_ctx_m m guti = ue_ctx_m m' guti \<Longrightarrow>
      snd (h m') = snd (h m) \<and> s1mme_id (fst (h m')) i = s1mme_id (fst (h m)) i \<and>
      ue_ctx_m (fst (h m')) guti = ue_ctx_m (fst (h m)) guti"
    and "\<And>m. mme_ids_of (fst (h m)) = mme_ids_of m \<and> ue_count (fst (h m)) = ue_count m \<and>
      (\<forall>j. j \<noteq> i \<longrightarrow> s1mme_id (fst (h m)) j = s1mme_id m j) \<and>
      (\<forall>u. u \<noteq> guti \<longrightarrow> ue_ctx_m (fst (h m)) u = ue_ctx_m m u)"
    and "\<And>a. snd (h m) = Inr a \<Longrightarrow> owns mme_part (ue_keys i guti) (k a) (fst (h m))"
  shows "owns mme_part (ue_keys i guti) (sect_or_stop mx h k) m"
proof (rule owns_sect_or_stopI)
  fix m'
  assume "agree_on mme_part (ue_keys i guti) m m'"
  then have a: "s1mme_id m i = s1mme_id m' i" "ue_ctx_m m guti = ue_ctx_m m' guti"
    unfolding ue_agree by iprover+
  have "agree_on mme_part (- ue_keys i guti) (fst (h m')) m'"
    using assms(2) [of m'] by (intro ue_agree_outside) iprover+
  then show "snd (h m') = snd (h m) \<and> agree_on mme_part (ue_keys i guti) (fst (h m')) (fst (h m)) \<and>
      agree_on mme_part (- ue_keys i guti) (fst (h m')) m'"
    unfolding ue_agree using assms(1) [OF a] by iprover
qed (rule assms(3))

lemma own_guti:
  assumes "s1mme_id m i = Some guti" and "owns mme_part (ue_keys i guti) (k guti) m"
  shows "owns mme_part (ue_keys i guti) (mkb_find_guti i old k) m"
    and "owns mme_part (ue_keys i guti) (mkb_known_guti i msg k) m"
  unfolding mkb_find_guti_def mkb_known_guti_def
  by (rule own_section; use assms in simp) (rule own_section_stop; use assms in simp)

lemma own_ue:
  assumes "s1mme_id m i = Some guti"
    and "\<And>c m'. s1mme_id m' i = Some guti \<Longrightarrow> owns mme_part (ue_keys i guti) (k c) m'"
  shows "owns mme_part (ue_keys i guti) (mkb_read_ue guti k) m"
    and "owns mme_part (ue_keys i guti) (mkb_upd_ue guti f k) m"
  unfolding mkb_read_ue_def mkb_upd_ue_def Let_def
proof -
  note d = ue_at_def touch_ue_def upd_ue_def op_idx_def modify_at_def at_or_def
  show "owns mme_part (ue_keys i guti) (sect Uectx_mux (\<lambda>m. (touch_ue guti m, ue_at guti m)) k) m"
  proof (rule own_section)
    show "owns mme_part (ue_keys i guti) (k (snd (touch_ue guti m, ue_at guti m))) (fst (touch_ue guti m, ue_at guti m))"
      by (rule assms(2)) (simp add: assms(1))
  qed (simp_all add: d)
  show "owns mme_part (ue_keys i guti) (sect Uectx_mux (\<lambda>m. (upd_ue guti f m, ue_at guti (upd_ue guti f m))) k) m"
  proof (rule own_section)
    show "owns mme_part (ue_keys i guti) (k (snd (upd_ue guti f m, ue_at guti (upd_ue guti f m))))
        (fst (upd_ue guti f m, ue_at guti (upd_ue guti f m)))"
      by (rule assms(2)) (simp add: assms(1))
  qed (simp_all add: d)
qed

lemmas own_rules = own_guti own_ue

lemmas owns_rules = owns_split owns_localI owns_end

lemma own_autn:
  "s1mme_id m (mme_s1ap_ue_id (s1ap_hdr (rpkt s))) = Some guti \<Longrightarrow>
   owns mme_part (ue_keys (mme_s1ap_ue_id (s1ap_hdr (rpkt s))) guti) (mkb_autn M X fd d s) m"
  unfolding mkb_autn_def Let_def by (intro owns_rules own_rules)

lemma own_attach_complete:
  "s1mme_id m (mme_s1ap_ue_id (s1ap_hdr (rpkt s))) = Some guti \<Longrightarrow>
   owns mme_part (ue_keys (mme_s1ap_ue_id (s1ap_hdr (rpkt s))) guti) (mkb_attach_complete M X fd d s) m"
  unfolding mkb_attach_complete_def Let_def by (intro owns_rules own_rules)

lemma own_detach:
  "s1mme_id m (mme_s1ap_ue_id (s1ap_hdr (rpkt s))) = Some guti \<Longrightarrow>
   owns mme_part (ue_keys (mme_s1ap_ue_id (s1ap_hdr (rpkt s))) guti) (mkb_detach M X fd d s) m"
  unfolding mkb_detach_def Let_def by (intro owns_rules own_rules)

lemma own_hss_reply:
  "s1mme_id m (md_msui d) = Some guti \<Longrightarrow>
   owns mme_part (ue_keys (md_msui d) guti) (mkb_hss_reply M ev d s) m"
  unfolding mkb_hss_reply_def Let_def by (intro owns_rules own_rules)

lemma own_create_reply:
  "s1mme_id m (md_msui d) = Some guti \<Longrightarrow>
   owns mme_part (ue_keys (md_msui d) guti) (mkb_create_reply M X ev d s) m"
  unfolding mkb_create_reply_def Let_def by (intro owns_rules own_rules)

lemma own_modify_reply:
  "s1mme_id m (md_msui d) = Some guti \<Longrightarrow>
   owns mme_part (ue_keys (md_msui d) guti) (mkb_modify_reply M X ev d s) m"
  unfolding mkb_modify_reply_def Let_def by (intro owns_rules own_rules)

lemma own_removal:
  "owns mme_part (ue_keys i guti)
     (sect S1mmeid_mux (\<lambda>m. (rem_itfid_m i m, ())) (\<lambda>_. sect Uectx_mux (\<lambda>m. (rem_uectx_m guti m, ())) (\<lambda>_. Ret s))) m"
  by (intro own_section owns_end) (simp_all add: rem_uectx_m_def rem_itfid_m_def)

lemma own_detach_reply:
  "s1mme_id m (md_msui d) = Some guti \<Longrightarrow>
   owns mme_part (ue_keys (md_msui d) guti) (mkb_detach_reply M A X ev d s) m"
  unfolding mkb_detach_reply_def mkb_reply_keys_def Let_def
  by (intro owns_rules own_rules own_removal)

lemma own_smc:
  "s1mme_id m (mme_s1ap_ue_id (s1ap_hdr (rpkt s))) = Some guti \<Longrightarrow>
   owns mme_part (ue_keys (mme_s1ap_ue_id (s1ap_hdr (rpkt s))) guti) (mkb_security_mode_complete M A X fd d s) m"
  unfolding mkb_security_mode_complete_def Let_def
  by (intro owns_rules own_rules own_section_stop;
      simp add: upd_ue_def ue_at_def modify_at_def at_or_def split: sum.splits)

text \<open>The keys of the handler of an event, when its subject is a known UE.\<close>

definition event_keys :: "mme \<Rightarrow> u32 option \<Rightarrow> mme_key set" where
  "event_keys m subj =
     (case subj of None \<Rightarrow> {} | Some i \<Rightarrow> (case s1mme_id m i of None \<Rightarrow> {} | Some guti \<Rightarrow> ue_keys i guti))"

lemma own_event:
  assumes "\<And>i. mkb_subject M lfd ev s = Some i \<Longrightarrow> i \<noteq> 0 \<and> s1mme_id m i \<noteq> None"
  shows "owns mme_part (event_keys m (mkb_subject M lfd ev s)) (mkb_mme_event M A X lfd ev s) m"
proof (cases "ev_err ev \<or> ev_hup ev \<or> ev_fd ev = lfd")
  case True
  then show ?thesis
    by (auto simp: mkb_mme_event_def mkb_event_def)
next
  case False
  define d where "d = at_or zero_mme_mdata (fdmap s) (ev_fd ev)"
  define s1 where "s1 = s\<lparr>fdmap := op_idx zero_mme_mdata (fdmap s) (ev_fd ev)\<rparr>"
  have run: "mkb_mme_event M A X lfd ev s = mkb_handle M A X ev d s1"
    using False by (simp add: mkb_mme_event_def mkb_event_def d_def s1_def)
  consider (stored) "act d \<in> {3, 5, 6, 7}" "ev_in ev" | (request) "act d = 1" "ev_in ev"
    | (silent) "act d \<notin> {1, 3, 5, 6, 7} \<or> \<not> ev_in ev"
    by auto
  then show ?thesis
  proof cases
    case stored
    then have sub: "mkb_subject M lfd ev s = Some (md_msui d)"
      using False by (auto simp: mkb_subject_def d_def Let_def)
    then obtain guti where g: "s1mme_id m (md_msui d) = Some guti"
      using assms by auto
    then have "owns mme_part (ue_keys (md_msui d) guti) (mkb_handle M A X ev d s1) m"
      using stored own_hss_reply [OF g] own_create_reply [OF g] own_modify_reply [OF g] own_detach_reply [OF g]
      by (auto simp: mkb_handle_def)
    then show ?thesis
      by (simp add: run sub event_keys_def g)
  next
    case silent
    then show ?thesis
      by (auto simp: run mkb_handle_def mkb_request_def mkb_hss_connected_def mkb_sgw_connected_def
          mkb_hss_reply_def mkb_create_reply_def mkb_modify_reply_def mkb_detach_reply_def)
  next
    case request
    show ?thesis
    proof (cases "mkb_recv M (ev_fd ev) ''Error ran epoll read delete from epoll'' ''Error: Ran read data case 1'' s1")
      case (Inl e)
      then show ?thesis
        using request by (simp add: run mkb_handle_def mkb_request_def)
    next
      case (Inr r)
      then obtain eof s2 where r: "mkb_recv M (ev_fd ev) ''Error ran epoll read delete from epoll''
          ''Error: Ran read data case 1'' s1 = Inr (eof, s2)"
        by (cases r) auto
      show ?thesis
      proof (cases "eof \<or> (\<exists>e. extract_s1ap_hdr (rpkt s2) = Inl e)")
        case True
        then show ?thesis
          using request r by (auto simp: run mkb_handle_def mkb_request_def Let_def)
      next
        case False
        then obtain pkt where p: "extract_s1ap_hdr (rpkt s2) = Inr pkt" and e: "\<not> eof"
          by (cases "extract_s1ap_hdr (rpkt s2)") auto
        let ?i = "mme_s1ap_ue_id (s1ap_hdr pkt)"
        have sub: "mkb_subject M lfd ev s = Some ?i"
          using request r p e \<open>\<not> (ev_err ev \<or> ev_hup ev \<or> ev_fd ev = lfd)\<close>
          by (simp add: mkb_subject_def Let_def d_def s1_def)
        then obtain guti where i: "?i \<noteq> 0" and g: "s1mme_id m ?i = Some guti"
          using assms by auto
        have g': "s1mme_id m (mme_s1ap_ue_id (s1ap_hdr (rpkt (s2\<lparr>rpkt := pkt\<rparr>)))) = Some guti"
          using g by simp
        have "owns mme_part (ue_keys ?i guti) (mkb_handle M A X ev d s1) m"
          using request i own_autn [OF g'] own_smc [OF g'] own_attach_complete [OF g'] own_detach [OF g']
          by (simp add: mkb_handle_def mkb_request_def r p e Let_def)
        then show ?thesis
          by (simp add: run sub event_keys_def g)
      qed
    qed
  qed
qed

text \<open>Events whose subjects are different UEs.\<close>

definition other_subjects :: "mme \<Rightarrow> u32 option \<Rightarrow> u32 option \<Rightarrow> bool" where
  "other_subjects m a b \<longleftrightarrow>
     (case (a, b) of (Some i, Some j) \<Rightarrow> i \<noteq> j \<and> s1mme_id m i \<noteq> s1mme_id m j | _ \<Rightarrow> True)"

lemma other_subjects_disjoint: "other_subjects m a b \<Longrightarrow> event_keys m a \<inter> event_keys m b = {}"
  by (auto simp: other_subjects_def event_keys_def ue_keys_def split: option.splits)

lemma disjoint_events:
  assumes "\<And>ev s i. (ev, s) \<in> set cores \<Longrightarrow> mkb_subject M lfd ev s = Some i \<Longrightarrow> i \<noteq> 0 \<and> s1mme_id m i \<noteq> None"
    and "sorted_wrt (other_subjects m) (map (\<lambda>(ev, s). mkb_subject M lfd ev s) cores)"
  shows "disjoint_owners mme_part (map (\<lambda>(ev, s). event_keys m (mkb_subject M lfd ev s)) cores)
    (map (\<lambda>(ev, s). mkb_mme_event M A X lfd ev s) cores) m"
  unfolding disjoint_owners_def
proof
  show "list_all2 (\<lambda>K p. owns mme_part K p m) (map (\<lambda>(ev, s). event_keys m (mkb_subject M lfd ev s)) cores)
      (map (\<lambda>(ev, s). mkb_mme_event M A X lfd ev s) cores)"
    using assms(1) by (auto simp: list_all2_conv_all_nth split: prod.splits intro!: own_event) (metis nth_mem)+
  show "sorted_wrt (\<lambda>K L. K \<inter> L = {}) (map (\<lambda>(ev, s). event_keys m (mkb_subject M lfd ev s)) cores)"
    using assms(2) other_subjects_disjoint by (auto simp: sorted_wrt_map case_prod_beta elim!: sorted_wrt_mono_rel [rotated])
qed

subsection \<open>Unique ids under any interleaving\<close>

definition only_under :: "mme \<Rightarrow> u32 \<Rightarrow> u64 \<Rightarrow> bool" where
  "only_under m i guti \<longleftrightarrow> (\<forall>u c. ue_ctx_m m u = Some c \<longrightarrow> mme_s1ap_ue_id_m c = i \<longrightarrow> u = guti)"

definition mme_ids_ok :: "mme \<Rightarrow> bool" where
  "mme_ids_ok m \<longleftrightarrow>
     (\<forall>u c. ue_ctx_m m u = Some c \<longrightarrow>
        unat (mme_s1ap_ue_id_m c) \<le> unat (ue_count m) \<and>
        (mme_s1ap_ue_id_m c \<noteq> 0 \<longrightarrow> only_under m (mme_s1ap_ue_id_m c) u)) \<and>
     (\<forall>i u. s1mme_id m i = Some u \<longrightarrow> i \<noteq> 0 \<and> unat i \<le> unat (ue_count m) \<and> only_under m i u)"

definition mme_shared_ok :: "mme \<Rightarrow> bool" where
  "mme_shared_ok m \<longleftrightarrow> mme_ids_ok m \<and> mme_tabs_ok m"

text \<open>
  A step of any core: the counter does not go back, an id that has been given to a UE stays with it, and the
  tables stay well-formed.
\<close>

definition mme_step :: "mme \<Rightarrow> mme \<Rightarrow> bool" where
  "mme_step m m' \<longleftrightarrow> unat (ue_count m) \<le> unat (ue_count m') \<and>
     (\<forall>i u. i \<noteq> 0 \<longrightarrow> unat i \<le> unat (ue_count m) \<longrightarrow> only_under m i u \<longrightarrow> only_under m' i u) \<and>
     (mme_shared_ok m \<longrightarrow> mme_shared_ok m')"

definition few_attaches :: "mme \<Rightarrow> bool" where
  "few_attaches m \<longleftrightarrow> unat (ue_count m) < 2 ^ 32"

interpretation mme_cores: thread_relation "\<lambda>m. few_attaches m \<and> mme_shared_ok m" few_attaches mme_step
  by unfold_locales (auto simp: mme_step_def intro: le_trans)

lemma mme_step_upd:
  assumes "\<And>c. mme_s1ap_ue_id_m (f c) = mme_s1ap_ue_id_m c" and "\<And>c. mme_ue_ok c \<Longrightarrow> mme_ue_ok (f c)"
  shows "mme_step m (upd_ue guti f m)"
proof -
  have ctx: "(\<exists>c0. mme_s1ap_ue_id_m c = mme_s1ap_ue_id_m c0 \<and> ue_ctx_m m u = Some c0) \<or> mme_s1ap_ue_id_m c = 0"
    if "ue_ctx_m (upd_ue guti f m) u = Some c" for u c
    using that assms(1)
    by (cases "u = guti"; cases "ue_ctx_m m guti")
      (auto simp: upd_ue_def modify_at_def new_mme_ue_def)
  have only: "only_under (upd_ue guti f m) i u" if "only_under m i u" and "i \<noteq> 0" for i u
    using that ctx unfolding only_under_def by metis
  have "mme_ids_ok (upd_ue guti f m)" if ok: "mme_ids_ok m"
    unfolding mme_ids_ok_def mme_fields
  proof (intro conjI allI impI)
    fix u c
    assume "ue_ctx_m (upd_ue guti f m) u = Some c"
    from ctx [OF this] show "unat (mme_s1ap_ue_id_m c) \<le> unat (ue_count m)"
      using ok unfolding mme_ids_ok_def by auto
    assume "mme_s1ap_ue_id_m c \<noteq> 0"
    with ctx [OF \<open>ue_ctx_m (upd_ue guti f m) u = Some c\<close>] show "only_under (upd_ue guti f m) (mme_s1ap_ue_id_m c) u"
      using ok only unfolding mme_ids_ok_def by fastforce
  next
    fix i u
    assume "s1mme_id m i = Some u"
    with ok show "i \<noteq> 0" and "unat i \<le> unat (ue_count m)" and "only_under (upd_ue guti f m) i u"
      using only unfolding mme_ids_ok_def by auto
  qed
  then show ?thesis
    using only mme_tabs_ok_upd [OF _ assms(2)] by (auto simp: mme_step_def mme_shared_ok_def)
qed

lemma touch_as_upd: "touch_ue guti m = upd_ue guti (\<lambda>c. c) m"
  by (simp add: touch_ue_def upd_ue_def op_idx_def modify_at_def)

lemma mme_step_touch: "mme_step m (touch_ue guti m)"
  unfolding touch_as_upd by (rule mme_step_upd) simp_all

lemma mme_step_rem: "mme_step m (rem_uectx_m guti m)" "mme_step m (rem_itfid_m i m)"
  unfolding mme_step_def mme_shared_ok_def mme_ids_ok_def only_under_def mme_tabs_ok_def rem_uectx_m_def
    rem_itfid_m_def
  by (auto split: if_splits)

lemma mme_step_insert:
  assumes "i \<noteq> 0" and "unat i \<le> unat (ue_count m)" and "only_under m i guti"
  shows "mme_step m (m\<lparr>s1mme_id := (s1mme_id m)(i \<mapsto> guti)\<rparr>)"
  using assms unfolding mme_step_def mme_shared_ok_def mme_ids_ok_def only_under_def mme_tabs_ok_def
  by (auto split: if_splits)

text \<open>The critical section of the first attach: the id is fresh.\<close>

lemma mme_step_attach:
  fixes m :: mme and imsi :: u64 and enb :: u32 and guti tai :: u64 and nw :: u16
  defines "m' \<equiv> upd_ue guti (mme_ue_init imsi enb (ucast (ue_count m + 1)) tai nw) (m\<lparr>ue_count := ue_count m + 1\<rparr>)"
  assumes few: "few_attaches m" "few_attaches m'" and ok: "mme_shared_ok m"
  shows "mme_step m m'" and "(ucast (ue_count m + 1) :: u32) \<noteq> 0"
    and "unat (ucast (ue_count m + 1) :: u32) \<le> unat (ue_count m')"
    and "only_under m' (ucast (ue_count m + 1)) guti"
proof -
  let ?i = "ucast (ue_count m + 1) :: u32"
  have m'_count: "ue_count m' = ue_count m + 1" and ids: "s1mme_id m' = s1mme_id m"
    by (simp_all add: m'_def)
  have cnt: "unat (ue_count m + 1) = unat (ue_count m) + 1"
    using few(1) by (simp add: few_attaches_def unat_word_ariths)
  then have i: "unat ?i = unat (ue_count m) + 1"
    using few(2) cnt by (simp add: unsigned_ucast_eq take_bit_nat_eq_self_iff few_attaches_def m'_count)
  then show "?i \<noteq> 0"
    by (auto simp del: unat_eq_0 intro: notI)
  show "unat ?i \<le> unat (ue_count m')"
    using i cnt m'_count by simp
  have ctx: "ue_ctx_m m' u = (if u = guti then Some (mme_ue_init imsi enb ?i tai nw (at_or new_mme_ue (ue_ctx_m m) guti))
      else ue_ctx_m m u)" for u
    by (simp add: m'_def upd_ue_def modify_at_def)
  have le: "unat (mme_s1ap_ue_id_m c) \<le> unat (ue_count m)" if "ue_ctx_m m u = Some c" for u c
    using ok that by (auto simp: mme_shared_ok_def mme_ids_ok_def)
  have fresh: "mme_s1ap_ue_id_m c \<noteq> ?i" if "ue_ctx_m m u = Some c" for u c
    using le [OF that] i by auto
  show under: "only_under m' ?i guti"
    using fresh by (auto simp: only_under_def ctx split: if_splits)
  have only: "only_under m' j u" if "only_under m j u" and "unat j \<le> unat (ue_count m)" for j u
    using that i by (auto simp: only_under_def ctx mme_ue_init_def split: if_splits)
  have "mme_ids_ok m'"
    unfolding mme_ids_ok_def ids m'_count
  proof (intro conjI allI impI)
    fix u c
    assume c: "ue_ctx_m m' u = Some c"
    show "unat (mme_s1ap_ue_id_m c) \<le> unat (ue_count m + 1)"
    proof (cases "u = guti")
      case True
      then have "mme_s1ap_ue_id_m c = ?i"
        using c by (auto simp: ctx mme_ue_init_def)
      then show ?thesis
        using i cnt by simp
    next
      case False
      then show ?thesis
        using c le [of u c] cnt by (simp add: ctx)
    qed
    show "only_under m' (mme_s1ap_ue_id_m c) u" if "mme_s1ap_ue_id_m c \<noteq> 0"
    proof (cases "u = guti")
      case True
      then have "mme_s1ap_ue_id_m c = ?i"
        using c by (auto simp: ctx mme_ue_init_def)
      then show ?thesis
        using True under by simp
    next
      case False
      then show ?thesis
        using c ok that le [of u c] only by (auto simp: ctx mme_shared_ok_def mme_ids_ok_def)
    qed
  next
    fix j u
    assume "s1mme_id m j = Some u"
    then have "j \<noteq> 0 \<and> unat j \<le> unat (ue_count m) \<and> only_under m j u"
      using ok by (auto simp: mme_shared_ok_def mme_ids_ok_def)
    then show "j \<noteq> 0" and "unat j \<le> unat (ue_count m + 1)" and "only_under m' j u"
      using only cnt by auto
  qed
  moreover have "mme_tabs_ok m'"
    unfolding m'_def
  proof (rule mme_tabs_ok_upd)
    show "mme_tabs_ok (m\<lparr>ue_count := ue_count m + 1\<rparr>)"
      using ok by (simp add: mme_shared_ok_def mme_tabs_ok_def)
  qed (simp add: mme_ue_init_def)
  ultimately show "mme_step m m'"
    using only cnt by (auto simp: mme_step_def mme_shared_ok_def m'_count)
qed

abbreviation mme_safe :: "(mme, 'a) prog \<Rightarrow> mme \<Rightarrow> bool" where
  "mme_safe \<equiv> safe (\<lambda>m. few_attaches m \<and> mme_shared_ok m) few_attaches mme_step"

lemma safe_section:
  assumes "\<And>m. mme_step m (fst (h m))" and "\<And>a m. mme_safe (k a) m"
  shows "mme_safe (sect mx h k) m"
proof (rule mme_cores.safe_sectI)
  fix m' m1 a
  assume "h m' = (m1, a)"
  then show "mme_step m' m1 \<and> mme_safe (k a) m1"
    using assms(1) [of m'] assms(2) by simp
qed

lemma safe_section_stop:
  assumes "\<And>m. mme_step m (fst (h m))" and "\<And>a m. mme_safe (k a) m"
  shows "mme_safe (sect_or_stop mx h k) m"
proof (rule mme_cores.safe_sect_or_stopI)
  fix m' m1 r
  assume "h m' = (m1, r)"
  then show "mme_step m' m1 \<and> (\<forall>a. r = Inr a \<longrightarrow> mme_safe (k a) m1)"
    using assms(1) [of m'] assms(2) by simp
qed

lemma safe_guti:
  assumes "\<And>guti m. mme_safe (k guti) m"
  shows "mme_safe (mkb_find_guti i old k) m" and "mme_safe (mkb_known_guti i msg k) m"
  unfolding mkb_find_guti_def mkb_known_guti_def
  by (rule safe_section; simp add: assms mme_cores.T_refl)
    (rule safe_section_stop; simp add: assms mme_cores.T_refl)

lemma safe_read_ue: "(\<And>c m. mme_safe (k c) m) \<Longrightarrow> mme_safe (mkb_read_ue guti k) m"
  unfolding mkb_read_ue_def by (rule safe_section) (simp_all add: mme_step_touch)

lemma safe_upd_ue:
  "(\<And>c. mme_s1ap_ue_id_m (f c) = mme_s1ap_ue_id_m c) \<Longrightarrow> (\<And>c. mme_ue_ok c \<Longrightarrow> mme_ue_ok (f c)) \<Longrightarrow>
   (\<And>c m. mme_safe (k c) m) \<Longrightarrow> mme_safe (mkb_upd_ue guti f k) m"
  unfolding mkb_upd_ue_def Let_def by (rule safe_section) (simp_all add: mme_step_upd)

lemma safe_split:
  "(\<And>a b. r = (a, b) \<Longrightarrow> mme_safe (f a b) m) \<Longrightarrow> mme_safe (case r of (a, b) \<Rightarrow> f a b) m"
  "(P \<Longrightarrow> mme_safe p m) \<Longrightarrow> (\<not> P \<Longrightarrow> mme_safe q m) \<Longrightarrow> mme_safe (if P then p else q) m"
  by (cases r; simp) (cases P; simp)

lemma safe_localI: "(\<And>a. r = Inr a \<Longrightarrow> mme_safe (f a) m) \<Longrightarrow> mme_safe (localP r f) m"
  by simp

lemma safe_end: "mme_safe (Ret a) m" "mme_safe (Stop e) m"
  by simp_all

lemmas safe_rules = safe_guti safe_read_ue safe_upd_ue safe_split safe_localI safe_end

lemma safe_autn: "mme_safe (mkb_autn M X fd d s) m"
  unfolding mkb_autn_def Let_def by (intro safe_rules; simp add: mme_ue_ok_def)

lemma safe_attach_complete: "mme_safe (mkb_attach_complete M X fd d s) m"
  unfolding mkb_attach_complete_def Let_def by (intro safe_rules; simp)

lemma safe_detach: "mme_safe (mkb_detach M X fd d s) m"
  unfolding mkb_detach_def Let_def by (intro safe_rules)

lemma safe_hss_reply: "mme_safe (mkb_hss_reply M ev d s) m"
  unfolding mkb_hss_reply_def Let_def by (intro safe_rules; simp)

lemma safe_create_reply: "mme_safe (mkb_create_reply M X ev d s) m"
  unfolding mkb_create_reply_def Let_def by (intro safe_rules; simp)

lemma safe_modify_reply: "mme_safe (mkb_modify_reply M X ev d s) m"
  unfolding mkb_modify_reply_def Let_def by (intro safe_rules; simp)

lemma safe_detach_reply: "mme_safe (mkb_detach_reply M A X ev d s) m"
  unfolding mkb_detach_reply_def mkb_reply_keys_def Let_def
  by (intro safe_rules safe_section; simp add: mme_step_rem)

lemma mme_step_smc:
  "mme_step m (fst (case gettid guti of
      Inl e \<Rightarrow> (upd_ue guti (\<lambda>c. c\<lparr>pgw_s5_port_m := p, pgw_s5_ip_addr_m := a\<rparr>) m, Inl e)
    | Inr t \<Rightarrow> (upd_ue guti (\<lambda>c. c\<lparr>s11_cteid_mme_m := t, eps_bearer_id_m := 5, apn_in_use_m := 0\<rparr>)
        (upd_ue guti (\<lambda>c. c\<lparr>pgw_s5_port_m := p, pgw_s5_ip_addr_m := a\<rparr>) m), Inr (k t m))))"
  by (cases "gettid guti") (simp_all add: mme_step_upd mme_cores.T_trans [OF mme_step_upd mme_step_upd])

lemma safe_smc: "mme_safe (mkb_security_mode_complete M A X fd d s) m"
  unfolding mkb_security_mode_complete_def Let_def
  by (intro safe_rules safe_section_stop mme_step_smc)

text \<open>The two sections of the first attach: what the second one files is still true when it comes.\<close>

lemma safe_new_id:
  assumes "\<And>i t m. mme_safe (k i t) m"
  shows "mme_safe (sect Uectx_mux (\<lambda>m.
      let m = m\<lparr>ue_count := ue_count m + 1\<rparr>;
          i = ucast (ue_count m);
          m = upd_ue guti (mme_ue_init imsi enb i tai nw) m
      in (m, (i, nw_type_m (ue_at guti m)))) (\<lambda>(i, t).
    sect S1mmeid_mux (\<lambda>m. (m\<lparr>s1mme_id := (s1mme_id m)(i \<mapsto> guti)\<rparr>, ())) (\<lambda>_. k i t))) m"
proof (rule mme_cores.safe_sectI)
  fix m' m1 :: mme and a
  let ?i = "ucast (ue_count m' + 1) :: u32"
  assume C: "few_attaches m' \<and> mme_shared_ok m'" and L: "few_attaches m1"
    and run: "(let m = m'\<lparr>ue_count := ue_count m' + 1\<rparr>; i = ucast (ue_count m);
          m = upd_ue guti (mme_ue_init imsi enb i tai nw) m in (m, (i, nw_type_m (ue_at guti m)))) = (m1, a)"
  obtain t where m1: "m1 = upd_ue guti (mme_ue_init imsi enb ?i tai nw) (m'\<lparr>ue_count := ue_count m' + 1\<rparr>)"
      and a: "a = (?i, t)"
    using run by (auto simp: Let_def)
  note new = mme_step_attach [OF conjunct1 [OF C] L [unfolded m1] conjunct2 [OF C], folded m1]
  have "mme_safe (sect S1mmeid_mux (\<lambda>m. (m\<lparr>s1mme_id := (s1mme_id m)(?i \<mapsto> guti)\<rparr>, ())) (\<lambda>_. k ?i t)) m1"
  proof (rule mme_cores.safe_sectI)
    fix m2 m3 u
    assume T: "mme_step m1 m2" and "(m2\<lparr>s1mme_id := (s1mme_id m2)(?i \<mapsto> guti)\<rparr>, ()) = (m3, u)"
    then have m3: "m3 = m2\<lparr>s1mme_id := (s1mme_id m2)(?i \<mapsto> guti)\<rparr>"
      by simp
    have "unat ?i \<le> unat (ue_count m2)" and "only_under m2 ?i guti"
      using T new(2,3,4) unfolding mme_step_def by (auto intro: le_trans)
    then show "mme_step m2 m3 \<and> mme_safe (k ?i t) m3"
      unfolding m3 using new(2) assms by (simp add: mme_step_insert)
  qed
  then show "mme_step m' m1 \<and> mme_safe (case a of (i, t) \<Rightarrow>
      sect S1mmeid_mux (\<lambda>m. (m\<lparr>s1mme_id := (s1mme_id m)(i \<mapsto> guti)\<rparr>, ())) (\<lambda>_. k i t)) m1"
    using new(1) by (simp add: a)
qed

lemma safe_first_attach: "mme_safe (mkb_first_attach M fd d s) m"
  unfolding mkb_first_attach_def Let_def [of "enodeb_s1ap_ue_id _"]
  by (intro safe_new_id safe_split safe_localI safe_end)

lemma safe_request: "mme_safe (mkb_request M A X ev d s) m"
  unfolding mkb_request_def Let_def
  by (intro safe_rules safe_first_attach safe_autn safe_smc safe_attach_complete safe_detach)

lemma safe_connected:
  "mme_safe (mkb_hss_connected M ev d s) m" "mme_safe (mkb_sgw_connected M ev d s) m"
  unfolding mkb_hss_connected_def mkb_sgw_connected_def by (intro safe_rules)+

lemma safe_mme_event: "mme_safe (mkb_mme_event M A X lfd ev s) m"
  unfolding mkb_mme_event_def mkb_event_def mkb_handle_def Let_def
  by (intro safe_rules safe_request safe_connected safe_hss_reply safe_create_reply safe_modify_reply
      safe_detach_reply)

lemma safe_mme_core: "mme_safe (mkb_mme_core M A X bs w d p g e ke ki) m"
  unfolding mkb_mme_core_def
  by (intro safe_rules mme_cores.mkb_loop_safe safe_mme_event)

text \<open>All cores, any interleaving.\<close>

text \<open>No section gives out more than one id, so that the number of turns bounds the counter.\<close>

abbreviation mme_counts :: "(mme, 'a) prog \<Rightarrow> bool" where
  "mme_counts \<equiv> each_section (\<lambda>m m'. unat (ue_count m') \<le> Suc (unat (ue_count m)))"

lemma counts_ue:
  assumes "\<And>c. mme_counts (k c)"
  shows "mme_counts (mkb_read_ue guti k)" and "mme_counts (mkb_upd_ue guti f k)"
  unfolding mkb_read_ue_def mkb_upd_ue_def Let_def by (intro each_section_rules; simp add: assms)+

lemma counts_guti:
  assumes "\<And>guti. mme_counts (k guti)"
  shows "mme_counts (mkb_find_guti i old k)" and "mme_counts (mkb_known_guti i msg k)"
  unfolding mkb_find_guti_def mkb_known_guti_def by (intro each_section_rules; simp add: assms)+

lemmas counts_rules = counts_ue counts_guti each_section_rules

lemma counts_first_attach: "mme_counts (mkb_first_attach M fd d s)"
  unfolding mkb_first_attach_def Let_def
  by (intro counts_rules) (simp_all add: unat_word_ariths mod_less_eq_dividend)

lemma counts_requests:
  "mme_counts (mkb_autn M X fd d s)" "mme_counts (mkb_attach_complete M X fd d s)" "mme_counts (mkb_detach M X fd d s)"
  unfolding mkb_autn_def mkb_attach_complete_def mkb_detach_def Let_def by (intro counts_rules)+

lemma counts_security_mode_complete: "mme_counts (mkb_security_mode_complete M A X fd d s)"
  unfolding mkb_security_mode_complete_def Let_def by (intro counts_rules; simp split: sum.split)

lemma counts_replies:
  "mme_counts (mkb_hss_connected M ev d s)" "mme_counts (mkb_sgw_connected M ev d s)"
  "mme_counts (mkb_hss_reply M ev d s)" "mme_counts (mkb_create_reply M X ev d s)"
  "mme_counts (mkb_modify_reply M X ev d s)"
  unfolding mkb_hss_connected_def mkb_sgw_connected_def mkb_hss_reply_def mkb_create_reply_def mkb_modify_reply_def Let_def
  by (intro counts_rules)+

lemma counts_detach_reply: "mme_counts (mkb_detach_reply M A X ev d s)"
  unfolding mkb_detach_reply_def mkb_reply_keys_def Let_def by (intro counts_rules; simp)

lemma counts_mme_event: "mme_counts (mkb_mme_event M A X lfd ev s)"
  unfolding mkb_mme_event_def mkb_event_def mkb_handle_def mkb_request_def Let_def
  by (intro counts_rules counts_first_attach counts_requests counts_security_mode_complete counts_replies
      counts_detach_reply)

lemma counts_mme_core: "mme_counts (mkb_mme_core M A X bs w d p g e ke ki)"
  unfolding mkb_mme_core_def by (intro counts_rules mkb_loop_each_section counts_mme_event)

definition mme_core_program :: "(mme, 'w mkb_mme) prog \<Rightarrow> bool" where
  "mme_core_program q \<longleftrightarrow> (\<exists>M A X bs w d p g e ke ki. q = mkb_mme_core M A X bs w d p g e ke ki)"

lemma new_mkb_tabs_ok: "few_attaches (new_mkb_tabs ids) \<and> mme_shared_ok (new_mkb_tabs ids)"
  by (simp add: few_attaches_def new_mkb_tabs_def mme_shared_ok_def mme_ids_ok_def mme_tabs_ok_def)

lemma mme_cores_ok:
  assumes "length is < 2 ^ 32" and "\<forall>q \<in> set ps. mme_core_program q"
  shows "mme_shared_ok (fst (turns is (new_mkb_tabs ids, ps)))"
proof -
  have safe: "\<forall>q \<in> set ps. mme_safe q (new_mkb_tabs ids)"
    using assms(2) unfolding mme_core_program_def by (metis safe_mme_core)
  have counts: "\<forall>q \<in> set ps. mme_counts q"
  proof
    fix q
    assume "q \<in> set ps"
    with assms(2) have "mme_core_program q"
      by (rule bspec)
    then show "mme_counts q"
      unfolding mme_core_program_def by (elim exE) (simp only: counts_mme_core)
  qed
  have "visits few_attaches is (new_mkb_tabs ids, ps)"
    unfolding few_attaches_def by (rule visits_bounded [OF counts]) (use assms(1) in \<open>simp add: new_mkb_tabs_def\<close>)
  then have "mme_step (new_mkb_tabs ids) (fst (turns is (new_mkb_tabs ids, ps)))"
    using new_mkb_tabs_ok safe by (intro mme_cores.turns_safe)
  then show ?thesis
    using new_mkb_tabs_ok by (auto simp: mme_step_def)
qed

end
