(* ===== verification/Epc3_Mkb_Gateways.thy ===== *)
theory Epc3_Mkb_Gateways
  imports Epc3_Mkb Epc3_Sgw Epc3_Pgw
begin

section \<open>The multi-core gateways (mkb_sgw.h, mkb_sgw.cpp, mkb_pgw.h, mkb_pgw.cpp)\<close>

text \<open>
  The tables are global and have the types of version 1.0. The states of a connection are those of the
  single-core programs. What a core keeps between events, beside its \<open>loop\<close>: at the SGW the variables
  \<open>s11_cteid_mme\<close> and \<open>s5_uteid_dl\<close>, which \<open>case 3\<close> reads, and \<open>tid\<close> and \<open>guti\<close> of the variable \<open>fddata\<close>, which a new
  connection inherits.
\<close>

definition mkb_maxconn_gw :: int where
  "mkb_maxconn_gw = 1500"

subsection \<open>SGW\<close>

record 'w mkb_sgw = "('w, sgw_mdata) loop" +
  c_s11_cteid_mme :: u32
  c_s5_uteid_dl :: u32
  c_tid :: u32
  c_imsi :: u64

definition mkb_sgw_accept :: "'w mtcp \<Rightarrow> int \<Rightarrow> 'w mkb_sgw \<Rightarrow> 'w mkb_sgw res" where
  "mkb_sgw_accept M lfd s =
     accept_all M lfd
       \<lparr>act = 1, initial_fd = -1, mbuf = zero_buf, buflen = 0, md_tid = c_tid s, md_guti = c_imsi s\<rparr>
       ''MME accept epoll add error'' s"

text \<open>An entry is stored: the variable \<open>fddata\<close> keeps what was stored last.\<close>

definition mkb_store :: "int \<Rightarrow> sgw_mdata \<Rightarrow> 'w mkb_sgw \<Rightarrow> 'w mkb_sgw" where
  "mkb_store fd d s = fd_insert fd d (s\<lparr>c_tid := md_tid d, c_imsi := md_guti d\<rparr>)"

text \<open>Message type 1, the third attach message: create session.\<close>

definition mkb_sgw_create :: "'w mtcp \<Rightarrow> int \<Rightarrow> sgw_mdata \<Rightarrow> 'w mkb_sgw \<Rightarrow> (sgw, 'w mkb_sgw) prog" where
  "mkb_sgw_create M cur_fd fddata s =
     localP (extract_u32 (rpkt s)) (\<lambda>(tid, pkt).
     localP (extract_u64 pkt) (\<lambda>(imsi, pkt).
     localP (extract_u8 pkt) (\<lambda>(eps_bearer_id, pkt).
     localP (extract_string pkt) (\<lambda>(pgw_s5_ip_addr, pkt).
     localP (extract_int pkt) (\<lambda>(pgw_s5_port, pkt).
     localP (extract_u64 pkt) (\<lambda>(apn_in_use, pkt).
     localP (extract_u64 pkt) (\<lambda>(tai, pkt).
     sect S11id_mux (\<lambda>t. (t\<lparr>s11_id := (s11_id t)(tid \<mapsto> imsi)\<rparr>, ())) (\<lambda>_.
     sect S1id_mux (\<lambda>t. (t\<lparr>s1_id := (s1_id t)(tid \<mapsto> imsi)\<rparr>, ())) (\<lambda>_.
     sect S5id_mux (\<lambda>t. (t\<lparr>s5_id := (s5_id t)(tid \<mapsto> imsi)\<rparr>, ())) (\<lambda>_.
     sect Uectx_mux (\<lambda>t. (upd_sgw_ue imsi (\<lambda>c. c\<lparr>tai_s := tai\<rparr>)
       (upd_sgw_ue imsi (sgw_ue_init tai apn_in_use eps_bearer_id tid tid tid tid tid pgw_s5_ip_addr pgw_s5_port) t), ())) (\<lambda>_.
     localP (append_u32 tid (clear_pkt pkt)) (\<lambda>pkt.
     localP (append_u64 imsi pkt) (\<lambda>pkt.
     localP (append_u8 eps_bearer_id pkt) (\<lambda>pkt.
     localP (append_u32 tid pkt) (\<lambda>pkt.
     localP (append_u64 apn_in_use pkt) (\<lambda>pkt.
     localP (append_u64 tai pkt) (\<lambda>pkt.
     localP (prepend_gtp_hdr 2 1 (len16 pkt) 0 pkt) (\<lambda>pkt.
     localP (prepend_len pkt) (\<lambda>pkt.
     localP (mkb_open M pgw_s5_ip_addr pgw_s5_port ''pgw''
       (s\<lparr>rpkt := pkt, c_s11_cteid_mme := tid, c_s5_uteid_dl := tid\<rparr>)) (\<lambda>(pgw_fd, s).
     localP (pkt_wire pkt) (\<lambda>msg.
     localP (buf_write (mbuf fddata) 0 msg) (\<lambda>b.
     Ret (mkb_store pgw_fd
       (fddata\<lparr>act := 2, initial_fd := cur_fd, md_tid := tid, md_guti := imsi, mbuf := b, buflen := len pkt\<rparr>)
       (fd_erase cur_fd s))))))))))))))))))))))))"

definition mkb_sgw_imsi :: "u32 \<Rightarrow> string \<Rightarrow> (u64 \<Rightarrow> (sgw, 'a) prog) \<Rightarrow> (sgw, 'a) prog" where
  "mkb_sgw_imsi tid msg =
     sect_or_stop S11id_mux (\<lambda>t. (t, case s11_id t tid of None \<Rightarrow> Inl (Exit msg) | Some imsi \<Rightarrow> Inr imsi))"

text \<open>Message type 2, modify bearer.\<close>

definition mkb_sgw_modify :: "'w mtcp \<Rightarrow> int \<Rightarrow> 'w mkb_sgw \<Rightarrow> (sgw, 'w mkb_sgw) prog" where
  "mkb_sgw_modify M cur_fd s =
     mkb_sgw_imsi (teid (gtp_hdr (rpkt s))) ''IMSI not found error'' (\<lambda>imsi.
     if imsi = 0 then Stop (Exit ''zero imsi'')
     else
       localP (extract_u8 (rpkt s)) (\<lambda>(eps_bearer_id, pkt).
       localP (extract_u32 pkt) (\<lambda>(s1_uteid_dl, pkt).
       localP (extract_string pkt) (\<lambda>(enodeb_ip_addr, pkt).
       localP (extract_int pkt) (\<lambda>(enodeb_port, pkt).
       sect Uectx_mux (\<lambda>t.
         let t = upd_sgw_ue imsi (\<lambda>c. c\<lparr>s1_uteid_dl_s := s1_uteid_dl, enodeb_ip_addr_s := enodeb_ip_addr,
                   enodeb_port_s := enodeb_port\<rparr>) t
         in (t, s11_cteid_mme_s (sgw_ue_at imsi t))) (\<lambda>s11_cteid_mme.
       localP (append_bool True (clear_pkt pkt)) (\<lambda>pkt.
       localP (prepend_gtp_hdr 2 2 (len16 pkt) s11_cteid_mme pkt) (\<lambda>pkt.
       localP (prepend_len pkt) (\<lambda>pkt.
       localP (write_pkt M cur_fd pkt ''Error MME write back to RAN A2''
         (s\<lparr>rpkt := pkt, c_s11_cteid_mme := s11_cteid_mme\<rparr>)) (\<lambda>s.
       localP (ctl_or_exit M neg (Ctl_add EPOLLIN) cur_fd ''Error adding mme fd for attach 4 to epoll'' s) Ret))))))))))"

text \<open>Message type 3, detach. The context is looked for in one section and read in another.\<close>

definition mkb_sgw_detach :: "'w mtcp \<Rightarrow> int \<Rightarrow> sgw_mdata \<Rightarrow> 'w mkb_sgw \<Rightarrow> (sgw, 'w mkb_sgw) prog" where
  "mkb_sgw_detach M cur_fd fddata s =
     mkb_sgw_imsi (teid (gtp_hdr (rpkt s))) ''IMSI not detach error'' (\<lambda>imsi.
     localP (extract_u8 (rpkt s)) (\<lambda>(eps_bearer_id, pkt).
     localP (extract_u64 pkt) (\<lambda>(tai, pkt).
     sect_or_stop Uectx_mux (\<lambda>t. (t, case ue_ctx_s t imsi of None \<Rightarrow> Inl (Exit ''no uectx'') | Some _ \<Rightarrow> Inr ())) (\<lambda>_.
     if mkb_gettid imsi \<noteq> teid (gtp_hdr pkt) then Stop (Exit ''GUTI not equal Detach acc'')
     else
       sect Uectx_mux (\<lambda>t. (t\<lparr>ue_ctx_s := op_idx new_sgw_ue (ue_ctx_s t) imsi\<rparr>, sgw_ue_at imsi t)) (\<lambda>c.
       localP (append_u8 eps_bearer_id (clear_pkt pkt)) (\<lambda>pkt.
       localP (append_u64 tai pkt) (\<lambda>pkt.
       localP (prepend_gtp_hdr 2 4 (len16 pkt) (s5_cteid_ul_s c) pkt) (\<lambda>pkt.
       localP (prepend_len pkt) (\<lambda>pkt.
       let pgw_fd = initial_fd fddata in
       localP (write_pkt M pgw_fd pkt ''Error: pgw write detach''
         (s\<lparr>rpkt := pkt, c_s11_cteid_mme := s11_cteid_mme_s c, c_s5_uteid_dl := s5_uteid_dl_s c\<rparr>)) (\<lambda>s.
       localP (ctl_or_exit M minus1 (Ctl_add EPOLLIN) pgw_fd ''Error: pgw read after detach epoll'' s) (\<lambda>s.
       Ret (mkb_store pgw_fd
         (fddata\<lparr>act := 4, md_tid := s11_cteid_mme_s c, md_guti := imsi, buflen := 0, initial_fd := cur_fd,
            mbuf := zero_buf\<rparr>)
         (fd_erase cur_fd s)))))))))))))"

text \<open>An unknown message is reported; its connection has left the epoll set for good.\<close>

definition mkb_sgw_request :: "'w mtcp \<Rightarrow> event \<Rightarrow> sgw_mdata \<Rightarrow> 'w mkb_sgw \<Rightarrow> (sgw, 'w mkb_sgw) prog" where
  "mkb_sgw_request M ev fddata s =
     (let cur_fd = ev_fd ev in
      if \<not> ev_in ev then Ret s
      else
        localP (mkb_recv M cur_fd ''Error mme epoll read delete from epoll'' ''Error: Ran read data case 1'' s) (\<lambda>(eof, s).
        if eof then Ret (mkb_closed M cur_fd fddata s)
        else
          localP (extract_gtp_hdr (rpkt s)) (\<lambda>pkt.
          let s = s\<lparr>rpkt := pkt\<rparr>; msg_type = msg_type_g (gtp_hdr pkt) in
          if msg_type = 1 then mkb_sgw_create M cur_fd fddata s
          else if msg_type = 2 then mkb_sgw_modify M cur_fd s
          else if msg_type = 3 then mkb_sgw_detach M cur_fd fddata s
          else Ret s)))"

definition mkb_pgw_connected :: "'w mtcp \<Rightarrow> event \<Rightarrow> sgw_mdata \<Rightarrow> 'w mkb_sgw \<Rightarrow> (sgw, 'w mkb_sgw) prog" where
  "mkb_pgw_connected M ev fddata s =
     (if ev_out ev then
        localP (mkb_send_stored M (ev_fd ev) fddata ''pgw'' s) (\<lambda>s.
        Ret (mkb_store (ev_fd ev) (fddata\<lparr>act := 3, buflen := 0, mbuf := zero_buf\<rparr>) (fd_erase (ev_fd ev) s)))
      else Stop (Exit ''Wrong event at case 2''))"

definition mkb_sgw_created :: "'w mtcp \<Rightarrow> event \<Rightarrow> sgw_mdata \<Rightarrow> 'w mkb_sgw \<Rightarrow> (sgw, 'w mkb_sgw) prog" where
  "mkb_sgw_created M ev fddata s =
     (let cur_fd = ev_fd ev in
      if \<not> ev_in ev then Stop (Exit ''Wrong event at case 3'')
      else
        localP (recv_pkt M True cur_fd ''Error pgw epoll reply delete'' ''Error pgw read data'' s) (\<lambda>s.
        let imsi = md_guti fddata in
        localP (extract_gtp_hdr (rpkt s)) (\<lambda>pkt.
        localP (extract_u32 pkt) (\<lambda>(s5_cteid_ul, pkt).
        localP (extract_u8 pkt) (\<lambda>(eps_bearer_id, pkt).
        localP (extract_u32 pkt) (\<lambda>(s5_uteid_ul, pkt).
        localP (extract_string pkt) (\<lambda>(ue_ip_addr, pkt).
        sect Uectx_mux (\<lambda>t. (upd_sgw_ue imsi (\<lambda>c. c\<lparr>s5_uteid_ul_s := s5_uteid_ul, s5_cteid_ul_s := s5_cteid_ul\<rparr>) t, ())) (\<lambda>_.
        localP (append_u32 (md_tid fddata) (clear_pkt pkt)) (\<lambda>pkt.
        localP (append_string ue_ip_addr pkt) (\<lambda>pkt.
        localP (append_u32 (md_tid fddata) pkt) (\<lambda>pkt.
        localP (append_u32 s5_uteid_ul pkt) (\<lambda>pkt.
        localP (append_u32 (c_s5_uteid_dl s) pkt) (\<lambda>pkt.
        localP (prepend_gtp_hdr 2 1 (len16 pkt) (c_s11_cteid_mme s) pkt) (\<lambda>pkt.
        localP (prepend_len pkt) (\<lambda>pkt.
        let mme_fd = initial_fd fddata in
        localP (write_pkt M mme_fd pkt ''Error: Cant send to mme A3'' (s\<lparr>rpkt := pkt\<rparr>)) (\<lambda>s.
        let s = mkb_store mme_fd (fddata\<lparr>act := 1, buflen := 0, initial_fd := cur_fd, mbuf := zero_buf,
                  md_tid := 0, md_guti := 0\<rparr>) (fd_erase cur_fd s) in
        localP (ctl_or_exit M neg (Ctl_add EPOLLIN) mme_fd ''Error adding mme fd for attach 3 to epoll'' s) Ret))))))))))))))))"

definition mkb_sgw_detached :: "'w mtcp \<Rightarrow> event \<Rightarrow> sgw_mdata \<Rightarrow> 'w mkb_sgw \<Rightarrow> (sgw, 'w mkb_sgw) prog" where
  "mkb_sgw_detached M ev fddata s =
     (let cur_fd = ev_fd ev in
      if \<not> ev_in ev then Stop (Exit ''Wrong event at case 4'')
      else
        localP (recv_pkt M True cur_fd ''Error pgw epoll reply delete'' ''Error pgw read data'' s) (\<lambda>s.
        localP (extract_gtp_hdr (rpkt s)) (\<lambda>pkt.
        localP (extract_bool pkt) (\<lambda>(res, pkt).
        if \<not> res then Stop (Exit ''pgw detach failure'')
        else
          let tid = md_tid fddata in
          localP (append_bool res (clear_pkt pkt)) (\<lambda>pkt.
          localP (prepend_gtp_hdr 2 3 (len16 pkt) tid pkt) (\<lambda>pkt.
          localP (prepend_len pkt) (\<lambda>pkt.
          sect_or_stop S11id_mux (\<lambda>t.
            case s11_id t tid of
              None \<Rightarrow> (t, Inl (Exit ''Detach imsi not found''))
            | Some imsi \<Rightarrow> (t\<lparr>s11_id := (s11_id t)(tid := None)\<rparr>, Inr imsi)) (\<lambda>imsi.
          sect S1id_mux (\<lambda>t. (t\<lparr>s1_id := (s1_id t)(tid := None)\<rparr>, ())) (\<lambda>_.
          sect S5id_mux (\<lambda>t. (t\<lparr>s5_id := (s5_id t)(tid := None)\<rparr>, ())) (\<lambda>_.
          sect Uectx_mux (\<lambda>t. (t\<lparr>ue_ctx_s := (ue_ctx_s t)(imsi := None)\<rparr>, ())) (\<lambda>_.
          let mme_fd = initial_fd fddata in
          localP (write_pkt M mme_fd pkt ''Error: Cant send to MME detach''
            (s\<lparr>rpkt := pkt, c_s11_cteid_mme := tid\<rparr>)) (\<lambda>s.
          Ret (close_fd M mme_fd (close_fd M cur_fd (fd_erase cur_fd s)))))))))))))))"

definition mkb_sgw_handle :: "'w mtcp \<Rightarrow> event \<Rightarrow> sgw_mdata \<Rightarrow> 'w mkb_sgw \<Rightarrow> (sgw, 'w mkb_sgw) prog" where
  "mkb_sgw_handle M ev fddata s =
     (let s = s\<lparr>c_tid := md_tid fddata, c_imsi := md_guti fddata\<rparr> in
      if act fddata = 1 then mkb_sgw_request M ev fddata s
      else if act fddata = 2 then mkb_pgw_connected M ev fddata s
      else if act fddata = 3 then mkb_sgw_created M ev fddata s
      else if act fddata = 4 then mkb_sgw_detached M ev fddata s
      else Ret s)"

definition mkb_sgw_event :: "'w mtcp \<Rightarrow> int \<Rightarrow> event \<Rightarrow> 'w mkb_sgw \<Rightarrow> (sgw, 'w mkb_sgw) prog" where
  "mkb_sgw_event M lfd = mkb_event M lfd (mkb_sgw_accept M lfd) zero_sgw_mdata (mkb_sgw_handle M)"

definition mkb_sgw_core ::
  "'w mtcp \<Rightarrow> batch list \<Rightarrow> 'w \<Rightarrow> u8 list \<Rightarrow> packet \<Rightarrow> u32 \<Rightarrow> u32 \<Rightarrow> u32 \<Rightarrow> u64 \<Rightarrow> (sgw, 'w mkb_sgw) prog" where
  "mkb_sgw_core M bs w d p a b t g =
     localP (mkb_listen M sgw_ip3 sgw_s11_portnum mkb_maxconn_gw w) (\<lambda>(lfd, w).
     mkb_loop (mkb_sgw_event M lfd) bs
       \<lparr>world = w, fdmap = Map.empty, rbuf = d, rpkt = p, c_s11_cteid_mme = a, c_s5_uteid_dl = b, c_tid = t,
        c_imsi = g\<rparr>)"

subsection \<open>PGW\<close>

text \<open>\<open>idfr\<close> is never set nor read: \<open>x\<close> is what the variable \<open>fddata\<close> holds.\<close>

type_synonym 'w mkb_pgw = "('w, pgw_mdata) loop"

definition mkb_pgw_accept :: "'w mtcp \<Rightarrow> u32 \<Rightarrow> int \<Rightarrow> 'w mkb_pgw \<Rightarrow> 'w mkb_pgw res" where
  "mkb_pgw_accept M x lfd s =
     accept_all M lfd \<lparr>act = 1, initial_fd = -1, mbuf = zero_buf, buflen = 0, md_idfr = x\<rparr>
       ''SGW accept epoll add error'' s"

text \<open>
  Message type 1. The address is read from \<open>ip_addrs\<close> through \<open>operator[]\<close> without a mutex (``locks not needed, read
  only''). For an IMSI of the address plan that is a read of a table that nobody writes. For any other IMSI \<open>operator[]\<close>
  inserts an entry while the other cores may use the table, a data race, whose behaviour C++ leaves undefined: the model
  stops there with \<open>Undefined\<close>, also when by luck no other core was at the table.
\<close>

definition mkb_pgw_create :: "'w mtcp \<Rightarrow> int \<Rightarrow> 'w mkb_pgw \<Rightarrow> (pgw, 'w mkb_pgw) prog" where
  "mkb_pgw_create M cur_fd s =
     localP (extract_u32 (rpkt s)) (\<lambda>(s5_cteid_dl, pkt).
     localP (extract_u64 pkt) (\<lambda>(imsi, pkt).
     localP (extract_u8 pkt) (\<lambda>(eps_bearer_id, pkt).
     localP (extract_u32 pkt) (\<lambda>(s5_uteid_dl, pkt).
     localP (extract_u64 pkt) (\<lambda>(apn_in_use, pkt).
     localP (extract_u64 pkt) (\<lambda>(tai, pkt).
     sect_or_stop No_mux (\<lambda>t. (t, case ip_addrs t imsi of
         None \<Rightarrow> Inl (Undefined ''ip_addrs: insertion without a mutex'') | Some a \<Rightarrow> Inr a)) (\<lambda>ue_ip_addr.
     sect S5id_mux (\<lambda>t. (t\<lparr>s5_id_p := (s5_id_p t)(s5_cteid_dl \<mapsto> imsi)\<rparr>, ())) (\<lambda>_.
     sect Sgiid_mux (\<lambda>t. (t\<lparr>sgi_id := (sgi_id t)(ue_ip_addr \<mapsto> imsi)\<rparr>, ())) (\<lambda>_.
     sect Uectx_mux (\<lambda>t. (t\<lparr>ue_ctx_p := modify_at new_pgw_ue (ue_ctx_p t) imsi (pgw_ue_init ue_ip_addr tai
       apn_in_use eps_bearer_id s5_cteid_dl s5_uteid_dl s5_cteid_dl s5_cteid_dl)\<rparr>, ())) (\<lambda>_.
     localP (append_u32 s5_cteid_dl (clear_pkt pkt)) (\<lambda>pkt.
     localP (append_u8 eps_bearer_id pkt) (\<lambda>pkt.
     localP (append_u32 s5_cteid_dl pkt) (\<lambda>pkt.
     localP (append_string ue_ip_addr pkt) (\<lambda>pkt.
     localP (prepend_gtp_hdr 2 1 (len16 pkt) s5_cteid_dl pkt) (\<lambda>pkt.
     localP (prepend_len pkt) (\<lambda>pkt.
     localP (write_pkt M cur_fd pkt ''Error MME write back to RAN A2'' (s\<lparr>rpkt := pkt\<rparr>)) (\<lambda>s.
     localP (ctl_or_exit M neg (Ctl_add EPOLLIN) cur_fd ''Error adding sgw fd after a3 to epoll'' s) Ret)))))))))))))))))"

text \<open>Message type 4. The context is read and erased in one section.\<close>

definition mkb_pgw_detach :: "'w mtcp \<Rightarrow> int \<Rightarrow> 'w mkb_pgw \<Rightarrow> (pgw, 'w mkb_pgw) prog" where
  "mkb_pgw_detach M cur_fd s =
     (let tid = teid (gtp_hdr (rpkt s)) in
      sect_or_stop S5id_mux (\<lambda>t. (t, case s5_id_p t tid of
          None \<Rightarrow> Inl (Exit ''Error: imsi not found in detach'') | Some imsi \<Rightarrow> Inr imsi)) (\<lambda>imsi.
      localP (extract_u8 (rpkt s)) (\<lambda>(eps_bearer_id, pkt).
      localP (extract_u64 pkt) (\<lambda>(tai, pkt).
      if mkb_gettid imsi \<noteq> tid then Stop (Exit ''GUTI not equal Detach'')
      else
        sect Uectx_mux (\<lambda>t. (t\<lparr>ue_ctx_p := (ue_ctx_p t)(imsi := None)\<rparr>, at_or new_pgw_ue (ue_ctx_p t) imsi)) (\<lambda>c.
        sect Sgiid_mux (\<lambda>t. (t\<lparr>sgi_id := (sgi_id t)(ip_addr_p c := None)\<rparr>, ())) (\<lambda>_.
        sect S5id_mux (\<lambda>t. (t\<lparr>s5_id_p := (s5_id_p t)(s5_cteid_ul_p c := None)\<rparr>, ())) (\<lambda>_.
        localP (append_bool True (clear_pkt pkt)) (\<lambda>pkt.
        localP (prepend_gtp_hdr 2 4 (len16 pkt) (s5_cteid_dl_p c) pkt) (\<lambda>pkt.
        localP (prepend_len pkt) (\<lambda>pkt.
        localP (write_pkt M cur_fd pkt ''Error PGW write back to SGW detach'' (s\<lparr>rpkt := pkt\<rparr>)) (\<lambda>s.
        Ret (close_fd M cur_fd (fd_erase cur_fd s)))))))))))))"

definition mkb_pgw_request :: "'w mtcp \<Rightarrow> event \<Rightarrow> 'w mkb_pgw \<Rightarrow> (pgw, 'w mkb_pgw) prog" where
  "mkb_pgw_request M ev s =
     (let cur_fd = ev_fd ev in
      if \<not> ev_in ev then Ret s
      else
        localP (mkb_recv M cur_fd ''Error sgw epoll read delete from epoll'' ''Error: SGW read data case 1'' s) (\<lambda>(eof, s).
        if eof then Ret (fd_erase cur_fd (close_fd M cur_fd s))
        else
          localP (extract_gtp_hdr (rpkt s)) (\<lambda>pkt.
          let s = s\<lparr>rpkt := pkt\<rparr> in
          if msg_type_g (gtp_hdr pkt) = 1 then mkb_pgw_create M cur_fd s
          else if msg_type_g (gtp_hdr pkt) = 4 then mkb_pgw_detach M cur_fd s
          else Ret s)))"

definition mkb_pgw_handle :: "'w mtcp \<Rightarrow> event \<Rightarrow> pgw_mdata \<Rightarrow> 'w mkb_pgw \<Rightarrow> (pgw, 'w mkb_pgw) prog" where
  "mkb_pgw_handle M ev fddata s = (if act fddata = 1 then mkb_pgw_request M ev s else Ret s)"

definition mkb_pgw_event :: "'w mtcp \<Rightarrow> u32 \<Rightarrow> int \<Rightarrow> event \<Rightarrow> 'w mkb_pgw \<Rightarrow> (pgw, 'w mkb_pgw) prog" where
  "mkb_pgw_event M x lfd = mkb_event M lfd (mkb_pgw_accept M x lfd) zero_pgw_mdata (mkb_pgw_handle M)"

definition mkb_pgw_core :: "'w mtcp \<Rightarrow> u32 \<Rightarrow> batch list \<Rightarrow> 'w \<Rightarrow> u8 list \<Rightarrow> packet \<Rightarrow> (pgw, 'w mkb_pgw) prog" where
  "mkb_pgw_core M x bs w d p =
     localP (mkb_listen M pgw_ip3 pgw_s5_portnum mkb_maxconn_gw w) (\<lambda>(lfd, w).
     mkb_loop (mkb_pgw_event M x lfd) bs \<lparr>world = w, fdmap = Map.empty, rbuf = d, rpkt = p\<rparr>)"

text \<open>\<open>main\<close> clears the tables and fills the address plan.\<close>

definition new_mkb_pgw :: pgw where
  "new_mkb_pgw =
     \<lparr>s5_id_p = Map.empty, sgi_id = Map.empty, ue_ctx_p = Map.empty, ip_addrs = set_ip_addrs Map.empty\<rparr>"

end
