(* ===== verification/Epc3_Mkb_Gateways_Cores.thy ===== *)
theory Epc3_Mkb_Gateways_Cores
  imports Epc3_Mkb_Gateways
begin

section \<open>The cores of the multi-core gateways together\<close>

text \<open>
  The tables as maps from keys, the mutexes that guard them, and the keys that the handler of a message owns: those of one tunnel
  id, one subscriber and, at the PGW, one address.
\<close>

subsection \<open>SGW\<close>

datatype sgw_key = Sk_s11 u32 | Sk_s1 u32 | Sk_s5 u32 | Sk_ue u64 | Sk_ho u32

datatype sgw_entry = Se_imsi "u64 option" | Se_ue "sgw_ue option"

fun sgw_part :: "sgw \<Rightarrow> sgw_key \<Rightarrow> sgw_entry" where
  "sgw_part t (Sk_s11 i) = Se_imsi (s11_id t i)"
| "sgw_part t (Sk_s1 i) = Se_imsi (s1_id t i)"
| "sgw_part t (Sk_s5 i) = Se_imsi (s5_id t i)"
| "sgw_part t (Sk_ue imsi) = Se_ue (ue_ctx_s t imsi)"
| "sgw_part t (Sk_ho i) = Se_ue (ho_ue_ctx t i)"

text \<open>The mutex that the code takes for each table; the handover contexts are not used.\<close>

fun sgw_guard :: "sgw_key \<Rightarrow> mutex" where
  "sgw_guard (Sk_s11 i) = S11id_mux"
| "sgw_guard (Sk_s1 i) = S1id_mux"
| "sgw_guard (Sk_s5 i) = S5id_mux"
| "sgw_guard (Sk_ue imsi) = Uectx_mux"
| "sgw_guard (Sk_ho i) = No_mux"

interpretation sgw_keys: keyed_state sgw_part
proof
  fix t t' :: sgw
  assume "\<And>k. sgw_part t k = sgw_part t' k"
  from this [of "Sk_s11 i" for i] this [of "Sk_s1 i" for i] this [of "Sk_s5 i" for i]
    this [of "Sk_ue i" for i] this [of "Sk_ho i" for i]
  show "t = t'"
    by (intro sgw.equality) auto
qed

lemma all_sgw_keys:
  "(\<forall>k. P k) \<longleftrightarrow> (\<forall>i. P (Sk_s11 i)) \<and> (\<forall>i. P (Sk_s1 i)) \<and> (\<forall>i. P (Sk_s5 i)) \<and> (\<forall>i. P (Sk_ue i)) \<and> (\<forall>i. P (Sk_ho i))"
  by (metis sgw_key.exhaust)

lemma sgw_agree:
  "agree_on sgw_part K t t' \<longleftrightarrow>
     (\<forall>i. Sk_s11 i \<in> K \<longrightarrow> s11_id t i = s11_id t' i) \<and> (\<forall>i. Sk_s1 i \<in> K \<longrightarrow> s1_id t i = s1_id t' i) \<and>
     (\<forall>i. Sk_s5 i \<in> K \<longrightarrow> s5_id t i = s5_id t' i) \<and> (\<forall>i. Sk_ue i \<in> K \<longrightarrow> ue_ctx_s t i = ue_ctx_s t' i) \<and>
     (\<forall>i. Sk_ho i \<in> K \<longrightarrow> ho_ue_ctx t i = ho_ue_ctx t' i)"
  unfolding agree_on_def Ball_def all_sgw_keys by simp

lemmas gateway_guarded_rules = guarded_split guarded_localI guarded_end guarded_sectI guarded_sect_or_stopI

lemmas sgw_section_defs = upd_sgw_ue_def sgw_ue_at_def op_idx_def modify_at_def at_or_def

lemma guarded_sgw_request: "guarded sgw_part sgw_guard (mkb_sgw_request M ev d s)"
  unfolding mkb_sgw_request_def mkb_sgw_create_def mkb_sgw_modify_def mkb_sgw_detach_def mkb_sgw_imsi_def Let_def
  by (intro gateway_guarded_rules; simp add: sgw_agree sgw_section_defs split: option.splits)

lemma guarded_sgw_reply:
  "guarded sgw_part sgw_guard (mkb_pgw_connected M ev d s)"
  "guarded sgw_part sgw_guard (mkb_sgw_created M ev d s)"
  "guarded sgw_part sgw_guard (mkb_sgw_detached M ev d s)"
  unfolding mkb_pgw_connected_def mkb_sgw_created_def mkb_sgw_detached_def Let_def
  by (intro gateway_guarded_rules; simp add: sgw_agree sgw_section_defs split: option.splits)+

lemma guarded_sgw_event: "guarded sgw_part sgw_guard (mkb_sgw_event M lfd ev s)"
  unfolding mkb_sgw_event_def mkb_event_def mkb_sgw_handle_def Let_def
  by (intro guarded_split guarded_localI guarded_end guarded_sgw_request guarded_sgw_reply)

lemma guarded_sgw_core: "guarded sgw_part sgw_guard (mkb_sgw_core M bs w d p a b t g)"
  unfolding mkb_sgw_core_def by (intro guarded_split guarded_localI mkb_loop_guarded guarded_sgw_event)

text \<open>The keys of an event.\<close>

definition sgw_ue_keys :: "u32 \<Rightarrow> u64 \<Rightarrow> sgw_key set" where
  "sgw_ue_keys tid imsi = {Sk_s11 tid, Sk_s1 tid, Sk_s5 tid, Sk_ue imsi}"

definition sgw_known_keys :: "sgw \<Rightarrow> u32 \<Rightarrow> sgw_key set" where
  "sgw_known_keys t tid = (case s11_id t tid of None \<Rightarrow> {Sk_s11 tid} | Some imsi \<Rightarrow> sgw_ue_keys tid imsi)"

definition sgw_packet_keys :: "sgw \<Rightarrow> packet \<Rightarrow> sgw_key set" where
  "sgw_packet_keys t pkt =
     (if msg_type_g (gtp_hdr pkt) = 1 then
        (case bindE (extract_u32 pkt) (\<lambda>(tid, pkt). bindE (extract_u64 pkt) (\<lambda>(imsi, pkt). Inr (tid, imsi))) of
           Inl e \<Rightarrow> {} | Inr (tid, imsi) \<Rightarrow> sgw_ue_keys tid imsi)
      else sgw_known_keys t (teid (gtp_hdr pkt)))"

definition sgw_event_keys :: "'w mtcp \<Rightarrow> int \<Rightarrow> event \<Rightarrow> 'w mkb_sgw \<Rightarrow> sgw \<Rightarrow> sgw_key set" where
  "sgw_event_keys M lfd ev s t =
     (if ev_err ev \<or> ev_hup ev \<or> ev_fd ev = lfd \<or> \<not> ev_in ev then {}
      else
        let fddata = at_or zero_sgw_mdata (fdmap s) (ev_fd ev);
            s = s\<lparr>fdmap := op_idx zero_sgw_mdata (fdmap s) (ev_fd ev), c_tid := md_tid fddata,
                  c_imsi := md_guti fddata\<rparr> in
        if act fddata = 1 then
          (case mkb_recv M (ev_fd ev) ''Error mme epoll read delete from epoll'' ''Error: Ran read data case 1'' s of
             Inl e \<Rightarrow> {}
           | Inr (eof, s) \<Rightarrow>
               if eof then {}
               else (case extract_gtp_hdr (rpkt s) of Inl e \<Rightarrow> {} | Inr pkt \<Rightarrow> sgw_packet_keys t pkt))
        else if act fddata = 3 then {Sk_ue (md_guti fddata)}
        else if act fddata = 4 then sgw_known_keys t (md_tid fddata)
        else {})"

lemmas gateway_owns_rules = owns_split owns_localI owns_end owns_any owns_any_stop

lemma own_sgw_imsi:
  assumes "\<And>imsi. s11_id t tid = Some imsi \<Longrightarrow> owns sgw_part (sgw_ue_keys tid imsi) (k imsi) t"
  shows "owns sgw_part (sgw_known_keys t tid) (mkb_sgw_imsi tid msg k) t"
  unfolding mkb_sgw_imsi_def
proof (rule owns_sect_or_stopI)
  fix imsi
  assume "snd (t, case s11_id t tid of None \<Rightarrow> Inl (Exit msg) | Some imsi \<Rightarrow> Inr imsi) = Inr imsi"
  then have "s11_id t tid = Some imsi"
    by (simp split: option.splits)
  then show "owns sgw_part (sgw_known_keys t tid) (k imsi)
      (fst (t, case s11_id t tid of None \<Rightarrow> Inl (Exit msg) | Some imsi \<Rightarrow> Inr imsi))"
    using assms by (simp add: sgw_known_keys_def)
next
  fix t'
  assume "agree_on sgw_part (sgw_known_keys t tid) t t'"
  then have "s11_id t tid = s11_id t' tid"
    by (auto simp: sgw_agree sgw_known_keys_def sgw_ue_keys_def split: option.splits)
  then show "snd (t', case s11_id t' tid of None \<Rightarrow> Inl (Exit msg) | Some imsi \<Rightarrow> Inr imsi) =
      snd (t, case s11_id t tid of None \<Rightarrow> Inl (Exit msg) | Some imsi \<Rightarrow> Inr imsi) \<and>
      agree_on sgw_part (sgw_known_keys t tid) (fst (t', case s11_id t' tid of None \<Rightarrow> Inl (Exit msg) | Some imsi \<Rightarrow> Inr imsi))
        (fst (t, case s11_id t tid of None \<Rightarrow> Inl (Exit msg) | Some imsi \<Rightarrow> Inr imsi)) \<and>
      agree_on sgw_part (- sgw_known_keys t tid)
        (fst (t', case s11_id t' tid of None \<Rightarrow> Inl (Exit msg) | Some imsi \<Rightarrow> Inr imsi)) t'"
    using \<open>agree_on sgw_part (sgw_known_keys t tid) t t'\<close> by (auto intro: agree_sym)
qed

lemma own_sgw_modify:
  "owns sgw_part (sgw_known_keys t (teid (gtp_hdr (rpkt s)))) (mkb_sgw_modify M fd s) t"
  unfolding mkb_sgw_modify_def Let_def
  by (rule own_sgw_imsi, intro gateway_owns_rules) (auto simp: sgw_agree sgw_ue_keys_def sgw_section_defs)

lemma own_sgw_detach:
  "owns sgw_part (sgw_known_keys t (teid (gtp_hdr (rpkt s)))) (mkb_sgw_detach M fd d s) t"
  unfolding mkb_sgw_detach_def Let_def
  by (rule own_sgw_imsi, intro gateway_owns_rules) (auto simp: sgw_agree sgw_ue_keys_def sgw_section_defs)

lemma own_sgw_create:
  assumes "msg_type_g (gtp_hdr (rpkt s)) = 1"
  shows "owns sgw_part (sgw_packet_keys t (rpkt s)) (mkb_sgw_create M fd d s) t"
proof (cases "bindE (extract_u32 (rpkt s)) (\<lambda>(tid, pkt). bindE (extract_u64 pkt) (\<lambda>(imsi, pkt). Inr (tid, imsi)))")
  case (Inl e)
  then show ?thesis
    by (auto simp: mkb_sgw_create_def bindE_eq_Inl split: prod.splits)
next
  case (Inr r)
  then obtain tid pkt imsi pkt' where x: "extract_u32 (rpkt s) = Inr (tid, pkt)" "extract_u64 pkt = Inr (imsi, pkt')"
    by (auto simp: bindE_eq_Inr split: prod.splits)
  have K: "sgw_packet_keys t (rpkt s) = sgw_ue_keys tid imsi"
    using assms by (simp add: sgw_packet_keys_def x)
  show ?thesis
    unfolding mkb_sgw_create_def K x localP_simps prod.case
    by (intro gateway_owns_rules) (auto simp: sgw_agree sgw_ue_keys_def sgw_section_defs)
qed

lemma own_sgw_created: "owns sgw_part {Sk_ue (md_guti d)} (mkb_sgw_created M ev d s) t"
  unfolding mkb_sgw_created_def Let_def
  by (intro gateway_owns_rules) (auto simp: sgw_agree sgw_section_defs)

text \<open>The section of case 4 that looks the subscriber up and erases the entry.\<close>

lemma own_sgw_take:
  assumes "\<And>imsi t'. s11_id t tid = Some imsi \<Longrightarrow> owns sgw_part (sgw_ue_keys tid imsi) (k imsi) t'"
  shows "owns sgw_part (sgw_known_keys t tid) (sect_or_stop S11id_mux (\<lambda>t.
      case s11_id t tid of
        None \<Rightarrow> (t, Inl e)
      | Some imsi \<Rightarrow> (t\<lparr>s11_id := (s11_id t)(tid := None)\<rparr>, Inr imsi)) k) t"
proof (rule owns_sect_or_stopI)
  fix imsi
  assume "snd (case s11_id t tid of None \<Rightarrow> (t, Inl e)
      | Some imsi \<Rightarrow> (t\<lparr>s11_id := (s11_id t)(tid := None)\<rparr>, Inr imsi)) = Inr imsi"
  then have "s11_id t tid = Some imsi"
    by (simp split: option.splits)
  then show "owns sgw_part (sgw_known_keys t tid) (k imsi) (fst (case s11_id t tid of None \<Rightarrow> (t, Inl e)
      | Some imsi \<Rightarrow> (t\<lparr>s11_id := (s11_id t)(tid := None)\<rparr>, Inr imsi)))"
    using assms by (simp add: sgw_known_keys_def)
next
  fix t'
  assume a: "agree_on sgw_part (sgw_known_keys t tid) t t'"
  then have "s11_id t tid = s11_id t' tid"
    by (auto simp: sgw_agree sgw_known_keys_def sgw_ue_keys_def split: option.splits)
  then show "snd (case s11_id t' tid of None \<Rightarrow> (t', Inl e)
      | Some imsi \<Rightarrow> (t'\<lparr>s11_id := (s11_id t')(tid := None)\<rparr>, Inr imsi)) =
      snd (case s11_id t tid of None \<Rightarrow> (t, Inl e)
      | Some imsi \<Rightarrow> (t\<lparr>s11_id := (s11_id t)(tid := None)\<rparr>, Inr imsi)) \<and>
      agree_on sgw_part (sgw_known_keys t tid) (fst (case s11_id t' tid of None \<Rightarrow> (t', Inl e)
      | Some imsi \<Rightarrow> (t'\<lparr>s11_id := (s11_id t')(tid := None)\<rparr>, Inr imsi)))
        (fst (case s11_id t tid of None \<Rightarrow> (t, Inl e)
      | Some imsi \<Rightarrow> (t\<lparr>s11_id := (s11_id t)(tid := None)\<rparr>, Inr imsi))) \<and>
      agree_on sgw_part (- sgw_known_keys t tid) (fst (case s11_id t' tid of None \<Rightarrow> (t', Inl e)
      | Some imsi \<Rightarrow> (t'\<lparr>s11_id := (s11_id t')(tid := None)\<rparr>, Inr imsi))) t'"
    using a by (cases "s11_id t' tid")
      (auto simp: sgw_agree sgw_known_keys_def sgw_ue_keys_def)
qed

lemma own_sgw_detached: "owns sgw_part (sgw_known_keys t (md_tid d)) (mkb_sgw_detached M ev d s) t"
  unfolding mkb_sgw_detached_def Let_def
  by (intro owns_split owns_localI owns_end own_sgw_take owns_any) (auto simp: sgw_agree sgw_ue_keys_def)

text \<open>The handler of an event owns these keys, whatever the message is.\<close>

lemma own_sgw_event: "owns sgw_part (sgw_event_keys M lfd ev s t) (mkb_sgw_event M lfd ev s) t"
proof (cases "ev_err ev \<or> ev_hup ev \<or> ev_fd ev = lfd")
  case True
  then show ?thesis
    by (auto simp: mkb_sgw_event_def mkb_event_def)
next
  case False
  define d where "d = at_or zero_sgw_mdata (fdmap s) (ev_fd ev)"
  define s1 where "s1 = s\<lparr>fdmap := op_idx zero_sgw_mdata (fdmap s) (ev_fd ev), c_tid := md_tid d, c_imsi := md_guti d\<rparr>"
  have run: "mkb_sgw_event M lfd ev s =
      (if act d = 1 then mkb_sgw_request M ev d s1 else if act d = 2 then mkb_pgw_connected M ev d s1
       else if act d = 3 then mkb_sgw_created M ev d s1 else if act d = 4 then mkb_sgw_detached M ev d s1 else Ret s1)"
    using False by (simp add: mkb_sgw_event_def mkb_event_def mkb_sgw_handle_def d_def s1_def)
  have keys: "sgw_event_keys M lfd ev s t =
      (if \<not> ev_in ev then {}
       else if act d = 1 then
         (case mkb_recv M (ev_fd ev) ''Error mme epoll read delete from epoll'' ''Error: Ran read data case 1'' s1 of
            Inl e \<Rightarrow> {}
          | Inr (eof, s) \<Rightarrow>
              if eof then {}
              else (case extract_gtp_hdr (rpkt s) of Inl e \<Rightarrow> {} | Inr pkt \<Rightarrow> sgw_packet_keys t pkt))
       else if act d = 3 then {Sk_ue (md_guti d)}
       else if act d = 4 then sgw_known_keys t (md_tid d)
       else {})"
    using False by (simp add: sgw_event_keys_def d_def s1_def Let_def)
  show ?thesis
  proof (cases "act d = 1 \<and> ev_in ev")
    case False
    then show ?thesis
      unfolding run keys
      by (auto simp: mkb_sgw_request_def mkb_pgw_connected_def own_sgw_created own_sgw_detached)
        (auto simp: mkb_sgw_created_def mkb_sgw_detached_def)
  next
    case req: True
    show ?thesis
    proof (cases "mkb_recv M (ev_fd ev) ''Error mme epoll read delete from epoll'' ''Error: Ran read data case 1'' s1")
      case (Inl e)
      then show ?thesis
        using req by (simp add: run mkb_sgw_request_def)
    next
      case (Inr r)
      then obtain eof s2 where r: "mkb_recv M (ev_fd ev) ''Error mme epoll read delete from epoll''
          ''Error: Ran read data case 1'' s1 = Inr (eof, s2)"
        by (cases r) auto
      have req_run: "mkb_sgw_request M ev d s1 = (if eof then Ret (mkb_closed M (ev_fd ev) d s2) else
          localP (extract_gtp_hdr (rpkt s2)) (\<lambda>pkt. let s = s2\<lparr>rpkt := pkt\<rparr>; msg_type = msg_type_g (gtp_hdr pkt) in
            if msg_type = 1 then mkb_sgw_create M (ev_fd ev) d s
            else if msg_type = 2 then mkb_sgw_modify M (ev_fd ev) s
            else if msg_type = 3 then mkb_sgw_detach M (ev_fd ev) d s else Ret s))"
        using req by (simp add: mkb_sgw_request_def r) (simp add: Let_def)
      show ?thesis
      proof (cases "extract_gtp_hdr (rpkt s2)")
        case (Inl e)
        then show ?thesis
          using req by (simp add: run req_run)
      next
        case (Inr pkt)
        have known: "msg_type_g (gtp_hdr pkt) \<noteq> 1 \<Longrightarrow> sgw_packet_keys t pkt = sgw_known_keys t (teid (gtp_hdr pkt))"
          by (simp add: sgw_packet_keys_def)
        show ?thesis
          using req own_sgw_create [of "s2\<lparr>rpkt := pkt\<rparr>" t M "ev_fd ev" d]
            own_sgw_modify [of t "s2\<lparr>rpkt := pkt\<rparr>" M "ev_fd ev"] own_sgw_detach [of t "s2\<lparr>rpkt := pkt\<rparr>" M "ev_fd ev" d]
          unfolding run keys req_run
          by (simp add: r Inr Let_def known)
      qed
    qed
  qed
qed

lemma disjoint_sgw_events:
  assumes "sorted_wrt (\<lambda>K L. K \<inter> L = {}) (map (\<lambda>(ev, s). sgw_event_keys M lfd ev s t) cores)"
  shows "disjoint_owners sgw_part (map (\<lambda>(ev, s). sgw_event_keys M lfd ev s t) cores)
    (map (\<lambda>(ev, s). mkb_sgw_event M lfd ev s) cores) t"
  using assms by (auto simp: disjoint_owners_def list_all2_conv_all_nth split: prod.splits intro!: own_sgw_event)

subsection \<open>PGW\<close>

datatype pgw_slot = Pk_s5 u32 | Pk_sgi string | Pk_ue u64 | Pk_addr u64

datatype pgw_entry = Pe_imsi "u64 option" | Pe_ue "pgw_ue option" | Pe_addr "string option"

fun pgw_part :: "pgw \<Rightarrow> pgw_slot \<Rightarrow> pgw_entry" where
  "pgw_part t (Pk_s5 i) = Pe_imsi (s5_id_p t i)"
| "pgw_part t (Pk_sgi a) = Pe_imsi (sgi_id t a)"
| "pgw_part t (Pk_ue imsi) = Pe_ue (ue_ctx_p t imsi)"
| "pgw_part t (Pk_addr imsi) = Pe_addr (ip_addrs t imsi)"

text \<open>
  The mutex that the code takes for each table. The address plan has none: it is written before the cores start, and no
  section changes it (\<open>pgw_plan_kept\<close>).
\<close>

fun pgw_guard :: "pgw_slot \<Rightarrow> mutex" where
  "pgw_guard (Pk_s5 i) = S5id_mux"
| "pgw_guard (Pk_sgi a) = Sgiid_mux"
| "pgw_guard (Pk_ue imsi) = Uectx_mux"
| "pgw_guard (Pk_addr imsi) = No_mux"

interpretation pgw_slots: keyed_state pgw_part
proof
  fix t t' :: pgw
  assume "\<And>k. pgw_part t k = pgw_part t' k"
  from this [of "Pk_s5 i" for i] this [of "Pk_sgi i" for i] this [of "Pk_ue i" for i] this [of "Pk_addr i" for i]
  show "t = t'"
    by (intro pgw.equality) auto
qed

lemma all_pgw_keys:
  "(\<forall>k. P k) \<longleftrightarrow> (\<forall>i. P (Pk_s5 i)) \<and> (\<forall>i. P (Pk_sgi i)) \<and> (\<forall>i. P (Pk_ue i)) \<and> (\<forall>i. P (Pk_addr i))"
  by (metis pgw_slot.exhaust)

lemma pgw_agree:
  "agree_on pgw_part K t t' \<longleftrightarrow>
     (\<forall>i. Pk_s5 i \<in> K \<longrightarrow> s5_id_p t i = s5_id_p t' i) \<and> (\<forall>i. Pk_sgi i \<in> K \<longrightarrow> sgi_id t i = sgi_id t' i) \<and>
     (\<forall>i. Pk_ue i \<in> K \<longrightarrow> ue_ctx_p t i = ue_ctx_p t' i) \<and> (\<forall>i. Pk_addr i \<in> K \<longrightarrow> ip_addrs t i = ip_addrs t' i)"
  unfolding agree_on_def Ball_def all_pgw_keys by simp

lemma guarded_pgw_request: "guarded pgw_part pgw_guard (mkb_pgw_request M ev s)"
  unfolding mkb_pgw_request_def mkb_pgw_create_def mkb_pgw_detach_def Let_def
  by (intro gateway_guarded_rules; simp add: pgw_agree op_idx_def modify_at_def at_or_def split: option.splits)

lemma guarded_pgw_event: "guarded pgw_part pgw_guard (mkb_pgw_event M x lfd ev s)"
  unfolding mkb_pgw_event_def mkb_event_def mkb_pgw_handle_def
  by (intro guarded_split guarded_localI guarded_end guarded_pgw_request)

lemma guarded_pgw_core: "guarded pgw_part pgw_guard (mkb_pgw_core M x bs w d p)"
  unfolding mkb_pgw_core_def by (intro guarded_split guarded_localI mkb_loop_guarded guarded_pgw_event)

text \<open>The address plan keeps its entries: no section inserts into it.\<close>

lemma pgw_plan_kept:
  assumes "\<forall>p \<in> set ps. guarded pgw_part pgw_guard p"
  shows "ip_addrs (fst (turns is (t, ps))) = ip_addrs t"
proof
  fix imsi
  show "ip_addrs (fst (turns is (t, ps))) imsi = ip_addrs t imsi"
    using guarded_unlocked [OF assms, of "is" t] by (simp add: pgw_agree)
qed

definition pgw_packet_keys :: "pgw \<Rightarrow> packet \<Rightarrow> pgw_slot set" where
  "pgw_packet_keys t pkt =
     (if msg_type_g (gtp_hdr pkt) = 1 then
        (case bindE (extract_u32 pkt) (\<lambda>(tid, pkt). bindE (extract_u64 pkt) (\<lambda>(imsi, pkt). Inr (tid, imsi))) of
           Inl e \<Rightarrow> {}
         | Inr (tid, imsi) \<Rightarrow> {Pk_s5 tid, Pk_ue imsi, Pk_addr imsi, Pk_sgi (at_or '''' (ip_addrs t) imsi)})
      else
        (let tid = teid (gtp_hdr pkt) in
         case s5_id_p t tid of
           None \<Rightarrow> {Pk_s5 tid}
         | Some imsi \<Rightarrow>
             (let c = at_or new_pgw_ue (ue_ctx_p t) imsi
              in {Pk_s5 tid, Pk_ue imsi, Pk_sgi (ip_addr_p c), Pk_s5 (s5_cteid_ul_p c)})))"

definition pgw_event_keys :: "'w mtcp \<Rightarrow> int \<Rightarrow> event \<Rightarrow> 'w mkb_pgw \<Rightarrow> pgw \<Rightarrow> pgw_slot set" where
  "pgw_event_keys M lfd ev s t =
     (if ev_err ev \<or> ev_hup ev \<or> ev_fd ev = lfd \<or> \<not> ev_in ev \<or>
         act (at_or zero_pgw_mdata (fdmap s) (ev_fd ev)) \<noteq> 1 then {}
      else
        case mkb_recv M (ev_fd ev) ''Error sgw epoll read delete from epoll'' ''Error: SGW read data case 1''
               (s\<lparr>fdmap := op_idx zero_pgw_mdata (fdmap s) (ev_fd ev)\<rparr>) of
          Inl e \<Rightarrow> {}
        | Inr (eof, s) \<Rightarrow>
            if eof then {}
            else (case extract_gtp_hdr (rpkt s) of Inl e \<Rightarrow> {} | Inr pkt \<Rightarrow> pgw_packet_keys t pkt))"

lemma own_pgw_create:
  assumes "msg_type_g (gtp_hdr (rpkt s)) = 1"
  shows "owns pgw_part (pgw_packet_keys t (rpkt s)) (mkb_pgw_create M fd s) t"
proof (cases "bindE (extract_u32 (rpkt s)) (\<lambda>(tid, pkt). bindE (extract_u64 pkt) (\<lambda>(imsi, pkt). Inr (tid, imsi)))")
  case (Inl e)
  then show ?thesis
    by (auto simp: mkb_pgw_create_def bindE_eq_Inl split: prod.splits)
next
  case (Inr r)
  then obtain tid pkt imsi pkt' where x: "extract_u32 (rpkt s) = Inr (tid, pkt)" "extract_u64 pkt = Inr (imsi, pkt')"
    by (auto simp: bindE_eq_Inr split: prod.splits)
  have K: "pgw_packet_keys t (rpkt s) = {Pk_s5 tid, Pk_ue imsi, Pk_addr imsi, Pk_sgi (at_or '''' (ip_addrs t) imsi)}"
    using assms by (simp add: pgw_packet_keys_def x)
  show ?thesis
    unfolding mkb_pgw_create_def K x localP_simps prod.case
    apply (intro owns_split owns_localI owns_end)
    apply (rule owns_sect_or_stopI)
     apply (auto simp: pgw_agree) []
    apply (simp only: fst_conv snd_conv)
    apply (intro gateway_owns_rules)
    apply (auto simp: pgw_agree modify_at_def at_or_def split: option.splits)
    done
qed

lemma own_pgw_detach:
  assumes "msg_type_g (gtp_hdr (rpkt s)) \<noteq> 1"
  shows "owns pgw_part (pgw_packet_keys t (rpkt s)) (mkb_pgw_detach M fd s) t"
proof -
  let ?tid = "teid (gtp_hdr (rpkt s))"
  show ?thesis
  proof (cases "s5_id_p t ?tid")
    case None
    have K: "pgw_packet_keys t (rpkt s) = {Pk_s5 ?tid}"
      using assms None by (simp add: pgw_packet_keys_def)
    show ?thesis
      unfolding mkb_pgw_detach_def Let_def K
      by (rule owns_sect_or_stopI) (auto simp: pgw_agree None)
  next
    case (Some imsi)
    let ?c = "at_or new_pgw_ue (ue_ctx_p t) imsi"
    have K: "pgw_packet_keys t (rpkt s) = {Pk_s5 ?tid, Pk_ue imsi, Pk_sgi (ip_addr_p ?c), Pk_s5 (s5_cteid_ul_p ?c)}"
      using assms Some by (simp add: pgw_packet_keys_def Let_def)
    show ?thesis
      unfolding mkb_pgw_detach_def Let_def K
      apply (rule owns_sect_or_stopI)
       apply (auto simp: pgw_agree Some) []
      apply (simp only: fst_conv snd_conv Some option.case sum.inject)
      apply (erule subst)
      apply (intro owns_split owns_localI owns_end)
      apply (rule owns_sectI)
       apply (auto simp: pgw_agree at_or_def split: option.splits) []
      apply (simp only: fst_conv snd_conv)
      apply (intro gateway_owns_rules)
       apply (auto simp: pgw_agree)
      done
  qed
qed

lemma own_pgw_event: "owns pgw_part (pgw_event_keys M lfd ev s t) (mkb_pgw_event M x lfd ev s) t"
proof (cases "ev_err ev \<or> ev_hup ev \<or> ev_fd ev = lfd \<or> \<not> ev_in ev \<or>
    act (at_or zero_pgw_mdata (fdmap s) (ev_fd ev)) \<noteq> 1")
  case True
  then show ?thesis
    by (auto simp: mkb_pgw_event_def mkb_event_def mkb_pgw_handle_def mkb_pgw_request_def Let_def)
next
  case False
  define s1 where "s1 = s\<lparr>fdmap := op_idx zero_pgw_mdata (fdmap s) (ev_fd ev)\<rparr>"
  have run: "mkb_pgw_event M x lfd ev s = mkb_pgw_request M ev s1"
    using False by (simp add: mkb_pgw_event_def mkb_event_def mkb_pgw_handle_def s1_def)
  have keys: "pgw_event_keys M lfd ev s t =
      (case mkb_recv M (ev_fd ev) ''Error sgw epoll read delete from epoll'' ''Error: SGW read data case 1'' s1 of
          Inl e \<Rightarrow> {}
        | Inr (eof, s) \<Rightarrow>
            if eof then {}
            else (case extract_gtp_hdr (rpkt s) of Inl e \<Rightarrow> {} | Inr pkt \<Rightarrow> pgw_packet_keys t pkt))"
    using False by (simp add: pgw_event_keys_def s1_def)
  show ?thesis
  proof (cases "mkb_recv M (ev_fd ev) ''Error sgw epoll read delete from epoll'' ''Error: SGW read data case 1'' s1")
    case (Inl e)
    then show ?thesis
      using False by (simp add: run mkb_pgw_request_def)
  next
    case (Inr r)
    then obtain eof s2 where r: "mkb_recv M (ev_fd ev) ''Error sgw epoll read delete from epoll''
        ''Error: SGW read data case 1'' s1 = Inr (eof, s2)"
      by (cases r) auto
    have req: "mkb_pgw_request M ev s1 = (if eof then Ret (fd_erase (ev_fd ev) (close_fd M (ev_fd ev) s2)) else
        localP (extract_gtp_hdr (rpkt s2)) (\<lambda>pkt. let s = s2\<lparr>rpkt := pkt\<rparr> in
          if msg_type_g (gtp_hdr pkt) = 1 then mkb_pgw_create M (ev_fd ev) s
          else if msg_type_g (gtp_hdr pkt) = 4 then mkb_pgw_detach M (ev_fd ev) s else Ret s))"
      using False by (simp add: mkb_pgw_request_def r) (simp add: Let_def)
    show ?thesis
    proof (cases "extract_gtp_hdr (rpkt s2)")
      case (Inl e)
      then show ?thesis
        by (simp add: run req)
    next
      case (Inr pkt)
      show ?thesis
        using own_pgw_create [of "s2\<lparr>rpkt := pkt\<rparr>" t M "ev_fd ev"] own_pgw_detach [of "s2\<lparr>rpkt := pkt\<rparr>" t M "ev_fd ev"]
        unfolding run keys req by (simp add: r Inr Let_def)
    qed
  qed
qed

lemma disjoint_pgw_events:
  assumes "sorted_wrt (\<lambda>K L. K \<inter> L = {}) (map (\<lambda>(ev, s). pgw_event_keys M lfd ev s t) cores)"
  shows "disjoint_owners pgw_part (map (\<lambda>(ev, s). pgw_event_keys M lfd ev s t) cores)
    (map (\<lambda>(ev, s). mkb_pgw_event M x lfd ev s) cores) t"
  using assms by (auto simp: disjoint_owners_def list_all2_conv_all_nth split: prod.splits intro!: own_pgw_event)

end
