(* ===== verification/Epc3_Mkb_Pgw_Serial.thy ===== *)
theory Epc3_Mkb_Pgw_Serial
  imports Epc3_Mkb_Gateways_Cores Epc3_Gateway_Session
begin

section \<open>The multi-core PGW and the single-core one\<close>

text \<open>
  What a core of \<open>mkb_pgw.cpp\<close> does with a request, alone, is what \<open>kby_pgw.cpp\<close> does with it. With the cores
  serializable, any interleaving of requests for different sessions ends as the single-core PGW
  does when it handles them one after the other.
\<close>

definition with_tabs :: "'w mkb_pgw \<Rightarrow> pgw \<Rightarrow> 'w pgw3" where
  "with_tabs s t = \<lparr>world = world s, fdmap = fdmap s, rbuf = rbuf s, rpkt = rpkt s, pgw_tabs = t\<rparr>"

definition without_tabs :: "'w pgw3 \<Rightarrow> 'w mkb_pgw" where
  "without_tabs s = \<lparr>world = world s, fdmap = fdmap s, rbuf = rbuf s, rpkt = rpkt s\<rparr>"

text \<open>The single-core PGW on the events of the cores, one after the other.\<close>

fun pgw3_in_turn :: "'w mtcp \<Rightarrow> int \<Rightarrow> (event \<times> 'w mkb_pgw) list \<Rightarrow> pgw \<Rightarrow> ('w mkb_pgw list \<times> pgw) res" where
  "pgw3_in_turn M lfd [] t = Inr ([], t)"
| "pgw3_in_turn M lfd ((ev, s) # cores) t =
     bindE (pgw3_event M lfd ev (with_tabs s t)) (\<lambda>s'.
     bindE (pgw3_in_turn M lfd cores (pgw_tabs s')) (\<lambda>(ss, t). Inr (without_tabs s' # ss, t)))"

lemma with_tabs_simps [simp]:
  "world (with_tabs s t) = world s" "fdmap (with_tabs s t) = fdmap s" "rbuf (with_tabs s t) = rbuf s"
  "rpkt (with_tabs s t) = rpkt s" "pgw_tabs (with_tabs s t) = t" "without_tabs (with_tabs s t) = s"
  "(with_tabs s t)\<lparr>rpkt := p\<rparr> = with_tabs (s\<lparr>rpkt := p\<rparr>) t" "(with_tabs s t)\<lparr>pgw_tabs := t'\<rparr> = with_tabs s t'"
  "(with_tabs s t)\<lparr>world := w\<rparr> = with_tabs (s\<lparr>world := w\<rparr>) t" "(with_tabs s t)\<lparr>rbuf := b\<rparr> = with_tabs (s\<lparr>rbuf := b\<rparr>) t"
  "(with_tabs s t)\<lparr>fdmap := f\<rparr> = with_tabs (s\<lparr>fdmap := f\<rparr>) t"
  "close_fd M fd (with_tabs s t) = with_tabs (close_fd M fd s) t"
  "fd_erase fd (with_tabs s t) = with_tabs (fd_erase fd s) t"
  by (simp_all add: with_tabs_def without_tabs_def close_fd_def fd_erase_def)

lemma ctl_with_tabs:
  "ctl_or_exit M bad c fd msg s = Inr s' \<Longrightarrow> ctl_or_exit M bad c fd msg' (with_tabs s t) = Inr (with_tabs s' t)"
  by (auto simp: ctl_or_exit_def split: prod.splits if_splits)

lemma write_with_tabs:
  "write_pkt M fd p msg s = Inr s' \<Longrightarrow> pkt_wire q = pkt_wire p \<Longrightarrow>
   write_pkt M fd q msg' (with_tabs s t) = Inr (with_tabs s' t)"
  by (auto simp: write_pkt_def write_or_exit_def bindE_eq_Inr split: prod.splits if_splits)

lemma load_with_tabs: "load_pkt s = Inr s' \<Longrightarrow> load_pkt (with_tabs s t) = Inr (with_tabs s' t)"
  by (auto simp: load_pkt_def bindE_eq_Inr Let_def)

lemma recv_with_tabs:
  assumes "mkb_recv M fd msg1 msg2 s = Inr (False, s')"
  shows "recv_pkt M True fd msg3 msg4 (with_tabs s t) = Inr (with_tabs s' t)"
proof -
  obtain s1 where c: "ctl_or_exit M neg Ctl_del fd msg1 s = Inr s1"
    using assms unfolding mkb_recv_def by (cases "ctl_or_exit M neg Ctl_del fd msg1 s") auto
  obtain x w where x: "m_read M fd (world s1) = (x, w)"
    by (cases "m_read M fd (world s1)")
  obtain bs d where r: "x = Some bs" "buf_write (rbuf s1) 0 bs = Inr d"
      and l: "load_pkt (s1\<lparr>rpkt := clear_pkt (rpkt s1), rbuf := d, world := w\<rparr>) = Inr s'"
    using assms unfolding mkb_recv_def c bindE_Inr Let_def
    by (cases x) (auto simp: x bindE_eq_Inr split: if_splits)
  show ?thesis
    unfolding recv_pkt_def ctl_with_tabs [OF c] using x r load_with_tabs [OF l] by simp
qed

text \<open>Behind \<open>prepend_len\<close> a packet fits its buffer: the copy that the single-core PGW sends has its bytes.\<close>

lemma copy_prepended:
  assumes "prepend_len p = Inr q"
  obtains a where "copy_pkt q = Inr a" and "pkt_wire a = pkt_wire q"
proof -
  have q: "length (data q) = 1024" "0 \<le> len q" "len q \<le> 1024"
    using assms
    by (auto simp: prepend_len_def prepend_raw_def bindE_eq_Inr allocate_uint8_mem_def buf_write_def buf_read_def
        BUF_SIZE_def split: if_splits)
  define a where "a = q\<lparr>data := take (nat (len q)) (data q) @ drop (nat (len q)) (replicate 1024 0)\<rparr>"
  have "copy_pkt q = Inr a" and "pkt_wire a = pkt_wire q"
    using q by (simp_all add: a_def copy_pkt_def pkt_wire_def allocate_uint8_mem_def buf_write_def buf_read_def
        BUF_SIZE_def min_absorb2 nat_le_iff)
  then show thesis
    by (rule that)
qed

lemma send_copied: "prepend_len p = Inr q \<Longrightarrow> bindE (copy_pkt q) (\<lambda>a. pgw_send_a3 M fd a s) = pgw_send_a3 M fd q s"
  by (erule copy_prepended) (simp add: pgw_send_a3_def write_pkt_def)

text \<open>One request at one core.\<close>

lemma create_with_tabs:
  assumes "run_prog (mkb_pgw_create M fd s) t = Inr (s', t')"
  shows "pgw3_create M fd (with_tabs s t) = Inr (with_tabs s' t')"
  using assms unfolding mkb_pgw_create_def pgw3_create_def Let_def
  by (auto elim!: bindE_InrE simp: send_copied split: prod.splits option.splits)
    (simp add: pgw_send_a3_def write_with_tabs ctl_with_tabs)

lemma extract_keeps_gtp:
  "extract_u8 p = Inr (a, q) \<Longrightarrow> gtp_hdr q = gtp_hdr p" "extract_u64 p = Inr (b, q) \<Longrightarrow> gtp_hdr q = gtp_hdr p"
  by (auto simp: extract_u8_def extract_u64_def extract_raw_def elim!: bindE_InrE)

lemma detach_with_tabs:
  assumes "run_prog (mkb_pgw_detach M fd s) t = Inr (s', t')"
    and "\<And>imsi. s5_id_p t (teid (gtp_hdr (rpkt s))) = Some imsi \<Longrightarrow> gettid imsi = Inr (mkb_gettid imsi)"
  shows "pgw3_detach M fd (with_tabs s t) = Inr (with_tabs s' t')"
  using assms unfolding mkb_pgw_detach_def pgw3_detach_def Let_def
  by (auto elim!: bindE_InrE simp: extract_keeps_gtp write_with_tabs split: prod.splits option.splits if_splits)


text \<open>A request, not a new connection nor the end of one; IMSIs of twelve digits, on which the two ways to
  compute a tunnel id agree.\<close>

definition pgw_asks :: "'w mtcp \<Rightarrow> int \<Rightarrow> event \<Rightarrow> 'w mkb_pgw \<Rightarrow> bool" where
  "pgw_asks M lfd ev s \<longleftrightarrow> ev_fd ev \<noteq> lfd \<and> ev_in ev \<and>
     fst (m_read M (ev_fd ev) (snd (m_ctl M Ctl_del (ev_fd ev) (world s)))) \<noteq> Some []"

definition twelve_digits :: "u64 \<Rightarrow> bool" where
  "twelve_digits imsi \<longleftrightarrow> 10 ^ 11 \<le> unat imsi \<and> unat imsi < 10 ^ 12"

lemma gettid_twelve: "twelve_digits imsi \<Longrightarrow> gettid imsi = Inr (mkb_gettid imsi)"
proof -
  assume "twelve_digits imsi"
  moreover have "(of_nat (unat imsi mod 100000) :: u64) = imsi mod 100000"
    using word_unat_eq_iff [of "of_nat (unat imsi mod 100000)" "imsi mod 100000"]
    by (simp add: unat_mod unsigned_of_nat take_bit_nat_eq_self_iff less_le_trans [OF mod_less_divisor])
  ultimately show ?thesis
    using gettid_closed [of 11 imsi] by (simp add: twelve_digits_def mkb_gettid_def)
qed

lemma mkb_recv_asks: "pgw_asks M lfd ev s \<Longrightarrow> mkb_recv M (ev_fd ev) a b s \<noteq> Inr (True, s')"
  by (auto simp: pgw_asks_def mkb_recv_def ctl_or_exit_def bindE_eq_Inr Let_def split: prod.splits option.splits if_splits)

lemma event_with_tabs:
  assumes run: "run_prog (mkb_pgw_event M x lfd ev s) t = Inr (s', t')" and asks: "pgw_asks M lfd ev s"
    and ids: "\<And>tid imsi. Pk_s5 tid \<in> pgw_event_keys M lfd ev s t \<Longrightarrow> s5_id_p t tid = Some imsi \<Longrightarrow> twelve_digits imsi"
  shows "pgw3_event M lfd ev (with_tabs s t) = Inr (with_tabs s' t')"
proof (cases "ev_err ev \<or> ev_hup ev")
  case True
  then show ?thesis
    using run by (auto simp: mkb_pgw_event_def mkb_event_def pgw3_event_def on_event_def)
next
  case up: False
  define s1 where "s1 = s\<lparr>fdmap := op_idx zero_pgw_mdata (fdmap s) (ev_fd ev)\<rparr>"
  have fd: "ev_fd ev \<noteq> lfd" and "ev_in ev" and asks1: "pgw_asks M lfd ev s1"
    using asks by (simp_all add: pgw_asks_def s1_def)
  show ?thesis
  proof (cases "act (at_or zero_pgw_mdata (fdmap s) (ev_fd ev)) = 1")
    case False
    then show ?thesis
      using run up fd by (auto simp: mkb_pgw_event_def mkb_event_def pgw3_event_def on_event_def mkb_pgw_handle_def
          pgw3_handle_def)
  next
    case True
    have "run_prog (mkb_pgw_request M ev s1) t = Inr (s', t')"
      using run up fd True by (simp add: mkb_pgw_event_def mkb_event_def mkb_pgw_handle_def s1_def)
    then obtain s2 pkt where r: "mkb_recv M (ev_fd ev) ''Error sgw epoll read delete from epoll''
          ''Error: SGW read data case 1'' s1 = Inr (False, s2)" and p: "extract_gtp_hdr (rpkt s2) = Inr pkt"
        and go: "run_prog (if msg_type_g (gtp_hdr pkt) = 1 then mkb_pgw_create M (ev_fd ev) (s2\<lparr>rpkt := pkt\<rparr>)
          else if msg_type_g (gtp_hdr pkt) = 4 then mkb_pgw_detach M (ev_fd ev) (s2\<lparr>rpkt := pkt\<rparr>)
          else Ret (s2\<lparr>rpkt := pkt\<rparr>)) t = Inr (s', t')"
      using \<open>ev_in ev\<close> mkb_recv_asks [OF asks1] unfolding mkb_pgw_request_def Let_def
      by (auto elim!: bindE_InrE split: prod.splits if_splits)
    have keys: "pgw_event_keys M lfd ev s t = pgw_packet_keys t pkt"
      using up fd \<open>ev_in ev\<close> True r p by (simp add: pgw_event_keys_def s1_def)
    have "msg_type_g (gtp_hdr pkt) \<noteq> 1 \<Longrightarrow> s5_id_p t (teid (gtp_hdr pkt)) = Some imsi \<Longrightarrow>
        gettid imsi = Inr (mkb_gettid imsi)" for imsi
      using ids [unfolded keys, of "teid (gtp_hdr pkt)" imsi]
      by (intro gettid_twelve) (simp add: pgw_packet_keys_def Let_def)
    then have "pgw3_request M (ev_fd ev) (with_tabs s1 t) = Inr (with_tabs s' t')"
      using go create_with_tabs [of M "ev_fd ev" "s2\<lparr>rpkt := pkt\<rparr>"] detach_with_tabs [of M "ev_fd ev" "s2\<lparr>rpkt := pkt\<rparr>"]
      unfolding pgw3_request_def recv_with_tabs [OF r] by (simp add: p Let_def split: if_splits)
    then show ?thesis
      using up fd True by (simp add: pgw3_event_def on_event_def pgw3_handle_def s1_def)
  qed
qed

text \<open>The keys of an event are the same in every state that agrees on them.\<close>

lemma pgw_packet_keys_agree:
  assumes "agree_on pgw_part (pgw_packet_keys t pkt) t t'"
  shows "pgw_packet_keys t' pkt = pgw_packet_keys t pkt"
proof (cases "msg_type_g (gtp_hdr pkt) = 1")
  case True
  let ?ids = "bindE (extract_u32 pkt) (\<lambda>(tid, pkt). bindE (extract_u64 pkt) (\<lambda>(imsi, pkt). Inr (tid, imsi)))"
  show ?thesis
  proof (cases ?ids)
    case (Inl e)
    then show ?thesis
      unfolding pgw_packet_keys_def Inl using True by simp
  next
    case (Inr r)
    obtain tid imsi where r: "?ids = Inr (tid, imsi)"
      using Inr by (cases r) simp
    have "ip_addrs t imsi = ip_addrs t' imsi"
      using assms unfolding pgw_packet_keys_def r by (simp add: True pgw_agree)
    then show ?thesis
      unfolding pgw_packet_keys_def r by (simp add: True at_or_def)
  qed
next
  case False
  let ?tid = "teid (gtp_hdr pkt)"
  show ?thesis
  proof (cases "s5_id_p t ?tid")
    case None
    then have "s5_id_p t' ?tid = None"
      using assms False by (simp add: pgw_agree pgw_packet_keys_def)
    then show ?thesis
      using None False by (simp add: pgw_packet_keys_def)
  next
    case (Some imsi)
    then have "s5_id_p t' ?tid = Some imsi" and "ue_ctx_p t' imsi = ue_ctx_p t imsi"
      using assms False by (simp_all add: pgw_agree pgw_packet_keys_def Let_def)
    then show ?thesis
      using Some False by (simp add: pgw_packet_keys_def Let_def at_or_def)
  qed
qed

lemma pgw_event_keys_agree:
  assumes "agree_on pgw_part (pgw_event_keys M lfd ev s t) t t'"
  shows "pgw_event_keys M lfd ev s t' = pgw_event_keys M lfd ev s t"
proof (cases "ev_err ev \<or> ev_hup ev \<or> ev_fd ev = lfd \<or> \<not> ev_in ev \<or>
    act (at_or zero_pgw_mdata (fdmap s) (ev_fd ev)) \<noteq> 1")
  case True
  then show ?thesis
    by (simp add: pgw_event_keys_def)
next
  case False
  define r where "r = mkb_recv M (ev_fd ev) ''Error sgw epoll read delete from epoll'' ''Error: SGW read data case 1''
      (s\<lparr>fdmap := op_idx zero_pgw_mdata (fdmap s) (ev_fd ev)\<rparr>)"
  have keys: "pgw_event_keys M lfd ev s t = (case r of Inl e \<Rightarrow> {} | Inr (eof, s) \<Rightarrow> if eof then {}
      else (case extract_gtp_hdr (rpkt s) of Inl e \<Rightarrow> {} | Inr pkt \<Rightarrow> pgw_packet_keys t pkt))" for t
    unfolding pgw_event_keys_def r_def using False by simp
  show ?thesis
    using assms unfolding keys by (auto simp: pgw_packet_keys_agree split: sum.splits prod.splits if_splits)
qed

lemma run_all_in_turn:
  assumes "sorted_wrt (\<lambda>K L. K \<inter> L = {}) (map (\<lambda>(ev, s). pgw_event_keys M lfd ev s t) cores)"
    and "\<And>ev s. (ev, s) \<in> set cores \<Longrightarrow> pgw_asks M lfd ev s"
    and "\<And>ev s tid imsi. (ev, s) \<in> set cores \<Longrightarrow> Pk_s5 tid \<in> pgw_event_keys M lfd ev s t \<Longrightarrow>
      s5_id_p t tid = Some imsi \<Longrightarrow> twelve_digits imsi"
    and "run_all (map (\<lambda>(ev, s). mkb_pgw_event M x lfd ev s) cores) t = Inr (ss, t')"
  shows "pgw3_in_turn M lfd cores t = Inr (ss, t')"
  using assms
proof (induction cores arbitrary: t ss)
  case (Cons core cores)
  obtain ev s where core: "core = (ev, s)"
    by (cases core)
  obtain s1 t1 ss' where run: "run_prog (mkb_pgw_event M x lfd ev s) t = Inr (s1, t1)" and ss: "ss = s1 # ss'"
      and rest: "run_all (map (\<lambda>(ev, s). mkb_pgw_event M x lfd ev s) cores) t1 = Inr (ss', t')"
    using Cons.prems(4) unfolding core by (auto elim!: bindE_InrE split: prod.splits)
  have own: "agree_on pgw_part (- pgw_event_keys M lfd ev s t) t1 t"
    using run_owns [OF own_pgw_event [of M lfd ev s t x] agree_refl] by (simp add: run)
  have same: "agree_on pgw_part (pgw_event_keys M lfd e u t) t t1" if "(e, u) \<in> set cores" for e u
  proof -
    have "pgw_event_keys M lfd ev s t \<inter> pgw_event_keys M lfd e u t = {}"
      using Cons.prems(1) that by (auto simp: core)
    then show ?thesis
      by (rule agree_sym [OF agree_outside [OF own]])
  qed
  have keys: "pgw_event_keys M lfd e u t1 = pgw_event_keys M lfd e u t" if "(e, u) \<in> set cores" for e u
    by (rule pgw_event_keys_agree [OF same [OF that]])
  have keys': "map (\<lambda>(e, u). pgw_event_keys M lfd e u t1) cores = map (\<lambda>(e, u). pgw_event_keys M lfd e u t) cores"
    using keys by auto
  have "pgw3_in_turn M lfd cores t1 = Inr (ss', t')"
  proof (rule Cons.IH [OF _ _ _ rest])
    show "sorted_wrt (\<lambda>K L. K \<inter> L = {}) (map (\<lambda>(ev, s). pgw_event_keys M lfd ev s t1) cores)"
      unfolding keys' using Cons.prems(1) by (simp add: core)
    show "pgw_asks M lfd e u" if "(e, u) \<in> set cores" for e u
      using Cons.prems(2) that by simp
    show "twelve_digits imsi" if "(e, u) \<in> set cores" "Pk_s5 tid \<in> pgw_event_keys M lfd e u t1" "s5_id_p t1 tid = Some imsi"
      for e u tid imsi
    proof (rule Cons.prems(3))
      show "(e, u) \<in> set (core # cores)" and k: "Pk_s5 tid \<in> pgw_event_keys M lfd e u t"
        using that keys [OF that(1)] by simp_all
      show "s5_id_p t tid = Some imsi"
        using same [OF that(1)] k that(3) by (simp add: pgw_agree)
    qed
  qed
  moreover have "pgw3_event M lfd ev (with_tabs s t) = Inr (with_tabs s1 t1)"
    by (rule event_with_tabs [OF run Cons.prems(2) Cons.prems(3)]) (simp_all add: core)
  ultimately show ?case
    by (simp add: core ss)
qed simp

lemma interleaved_in_turn:
  assumes "sorted_wrt (\<lambda>K L. K \<inter> L = {}) (map (\<lambda>(ev, s). pgw_event_keys M lfd ev s t) cores)"
    and "\<And>ev s. (ev, s) \<in> set cores \<Longrightarrow> pgw_asks M lfd ev s"
    and "\<And>tid imsi. s5_id_p t tid = Some imsi \<Longrightarrow> twelve_digits imsi"
    and "turns is (t, map (\<lambda>(ev, s). mkb_pgw_event M x lfd ev s) cores) = (t', map Ret ss)"
  shows "pgw3_in_turn M lfd cores t = Inr (ss, t')"
  by (rule run_all_in_turn [OF assms(1,2) assms(3) pgw_slots.turns_ended [OF disjoint_pgw_events [OF assms(1)] assms(4)]])

end
