(* ===== verification/Epc3_Mkb_Session.thy ===== *)
theory Epc3_Mkb_Session
  imports Epc3_Mkb_Mme_Cores Epc3_Mkb_Pgw_Serial Epc3_Mme_Session
begin

section \<open>Messages at one core\<close>

text \<open>
  What the handlers of the cores do when the stack answers their calls. They write the frames of the single-core
  programs and leave the same tables.
\<close>

lemma mkb_recv_frame:
  assumes "play M (Ctl Ctl_del fd) (world s) = Some w1" and "play M (Read fd (frame m)) w1 = Some w2"
    and "length m \<le> 1020" and "length (rbuf s) = 1024"
  shows "mkb_recv M fd msg1 msg2 s =
    Inr (False, s\<lparr>rbuf := frame m @ drop (4 + length m) (rbuf s), world := w2,
           rpkt := view (gtp_hdr (rpkt s)) (s1ap_hdr (rpkt s)) (diameter_hdr (rpkt s)) [] m\<rparr>)"
proof -
  have "frame m \<noteq> []"
    using length_frame [of m] by fastforce
  moreover have "buf_write (rbuf s) 0 (frame m) = Inr (frame m @ drop (4 + length m) (rbuf s))"
    using assms by (simp add: buf_write_def)
  ultimately show ?thesis
    using assms by (simp add: mkb_recv_def call_simps play_read load_frame)
qed

lemma mkb_open_plays:
  assumes "plays M [Socket fd, Nonblock fd, Connect fd ip port, Ctl (Ctl_add EPOLLOUT) fd] (world s) = Some w"
  shows "mkb_open M ip port who s = Inr (fd, s\<lparr>world := w\<rparr>)"
  using assms by (auto simp: mkb_open_def mkb_connect_def call_simps play_connect split: option.splits)

lemma mkb_event_known:
  assumes "\<not> ev_err e" and "\<not> ev_hup e" and "ev_fd e \<noteq> lfd" and "fdmap s (ev_fd e) = Some m"
  shows "mkb_event M lfd acc z handle e s = handle e m s"
proof -
  have "op_idx z (fdmap s) (ev_fd e) = fdmap s" and "at_or z (fdmap s) (ev_fd e) = m"
    using assms(4) by (simp_all add: op_idx_def at_or_def fun_upd_idem)
  then show ?thesis
    using assms by (simp add: mkb_event_def)
qed

text \<open>MME: the vector of the HSS.\<close>

lemma mkb_hss_reply_run:
  assumes "ev_in ev" and "s1mme_id m (md_msui d) = Some guti" and "ue_ctx_m m guti = Some c" and "imsi_m c \<noteq> 0"
    and "length (rbuf s) = 1024"
    and "plays M
      [Ctl Ctl_del (ev_fd ev), Read (ev_fd ev) (frame (autn_rsp_bytes h autn rand_num xres k_asme)), Close (ev_fd ev),
       Write (initial_fd d) (frame (autn_challenge
         (s1ap_init 1 24 (enodeb_s1ap_ue_id_m c) (md_msui d) (s1ap_hdr (rpkt s))) autn rand_num 1)),
       Ctl (Ctl_add EPOLLIN) (initial_fd d)] (world s) = Some w"
  shows "\<exists>s'. run_prog (mkb_hss_reply M ev d s) m = Inr (s', mme3_vector guti xres k_asme m) \<and>
    sections (mkb_hss_reply M ev d s) m = 2"
proof -
  obtain w1 w2 w3 w4 where calls: "play M (Ctl Ctl_del (ev_fd ev)) (world s) = Some w1"
      "play M (Read (ev_fd ev) (frame (autn_rsp_bytes h autn rand_num xres k_asme))) w1 = Some w2"
      "play M (Close (ev_fd ev)) w2 = Some w3"
      "play M (Write (initial_fd d) (frame (autn_challenge
         (s1ap_init 1 24 (enodeb_s1ap_ue_id_m c) (md_msui d) (s1ap_hdr (rpkt s))) autn rand_num 1))) w3 = Some w4"
      "play M (Ctl (Ctl_add EPOLLIN) (initial_fd d)) w4 = Some w"
    using assms(6) by (auto split: option.splits)
  have len: "length (autn_rsp_bytes h autn rand_num xres k_asme) \<le> 1020"
    by (simp add: autn_rsp_bytes_def)
  show ?thesis
    using assms(1-5) calls(3-5)
    by (simp add: mkb_hss_reply_def recv_frame [OF calls(1,2) len] Let_def)
      (simp add: autn_rsp_bytes_def item_ext_view item_app_view Let_def mkb_find_guti_def mkb_upd_ue_def
        autn_challenge_def upd_ue_def ue_at_def call_simps mme3_vector_def modify_at_def at_or_def)
qed

text \<open>SGW: modify bearer.\<close>

lemma mkb_sgw_modify_run:
  assumes "ev_in ev" and "msg_type_g h = 2" and "s11_id t (teid h) = Some imsi" and "imsi \<noteq> 0" and "short_ip enb_ip"
    and "- (2 ^ 31) \<le> enb_port" and "enb_port < 2 ^ 31" and "length (rbuf s) = 1024"
    and "plays M
      [Ctl Ctl_del (ev_fd ev), Read (ev_fd ev) (frame (modify_req h b s1_dl enb_ip enb_port)),
       Write (ev_fd ev) (frame (bool_rsp (gtp_with 2 2 1 (s11_cteid_mme_s (sgw_ue_at imsi t)) h) True)),
       Ctl (Ctl_add EPOLLIN) (ev_fd ev)] (world s) = Some w"
  shows "\<exists>s'. run_prog (mkb_sgw_request M ev d s) t = Inr (s', sgw_modified imsi s1_dl enb_ip enb_port t) \<and>
    sections (mkb_sgw_request M ev d s) t = 2"
proof -
  obtain w1 w2 w3 where calls: "play M (Ctl Ctl_del (ev_fd ev)) (world s) = Some w1"
      "play M (Read (ev_fd ev) (frame (modify_req h b s1_dl enb_ip enb_port))) w1 = Some w2"
      "play M (Write (ev_fd ev) (frame (bool_rsp (gtp_with 2 2 1 (s11_cteid_mme_s (sgw_ue_at imsi t)) h) True))) w2 = Some w3"
      "play M (Ctl (Ctl_add EPOLLIN) (ev_fd ev)) w3 = Some w"
    using assms(9) by (auto split: option.splits)
  have len: "length (modify_req h b s1_dl enb_ip enb_port) \<le> 1020"
    using assms(5) by (simp add: modify_req_def short_ip_def)
  show ?thesis
    using assms(1-8) calls(4) calls(3)
    by (simp add: mkb_sgw_request_def mkb_recv_frame [OF calls(1,2) len] Let_def)
      (simp add: message_defs mkb_sgw_modify_def mkb_sgw_imsi_def item_ext_view item_app_view Let_def short_ip_def
        call_simps sgw_modified_def upd_sgw_ue_def sgw_ue_at_def)
qed

text \<open>PGW: create session.\<close>

lemma mkb_pgw_create_run:
  assumes "ev_in ev" and "msg_type_g h = 1" and "ip_addrs t imsi = Some ip" and "short_ip ip" and "length (rbuf s) = 1024"
    and "plays M
      [Ctl Ctl_del (ev_fd ev), Read (ev_fd ev) (frame (create_req5 h i imsi b s5_dl apn tai)),
       Write (ev_fd ev) (frame (create_rsp5 (gtp_with 2 1 (of_nat (13 + length ip)) i h)
         i b i ip)), Ctl (Ctl_add EPOLLIN) (ev_fd ev)] (world s) = Some w"
  shows "\<exists>s'. run_prog (mkb_pgw_request M ev s) t = Inr (s', pgw_created i imsi b s5_dl apn tai t) \<and>
    sections (mkb_pgw_request M ev s) t = 4"
proof -
  obtain w1 w2 w3 where calls: "play M (Ctl Ctl_del (ev_fd ev)) (world s) = Some w1"
      "play M (Read (ev_fd ev) (frame (create_req5 h i imsi b s5_dl apn tai))) w1 = Some w2"
      "play M (Write (ev_fd ev) (frame (create_rsp5 (gtp_with 2 1 (of_nat (13 + length ip)) i h)
         i b i ip))) w2 = Some w3"
      "play M (Ctl (Ctl_add EPOLLIN) (ev_fd ev)) w3 = Some w"
    using assms(6) by (auto split: option.splits)
  have len: "length (create_req5 h i imsi b s5_dl apn tai) \<le> 1020"
    by (simp add: create_req5_def)
  have created: "t\<lparr>s5_id_p := (s5_id_p t)(i \<mapsto> imsi), sgi_id := (sgi_id t)(ip \<mapsto> imsi),
      ue_ctx_p := modify_at new_pgw_ue (ue_ctx_p t) imsi (pgw_ue_init ip tai apn b i s5_dl i i)\<rparr> =
    pgw_created i imsi b s5_dl apn tai t"
    using assms(3) by (intro pgw.equality) (simp_all add: pgw_created_def ip_of_def)
  show ?thesis
    using assms(1-5) calls(4) calls(3)
    by (simp add: mkb_pgw_request_def mkb_recv_frame [OF calls(1,2) len] Let_def)
      (simp add: message_defs mkb_pgw_create_def item_ext_view item_app_view Let_def short_ip_def
        call_simps created)
qed

end
