(* ===== verification/Epc3_Mkb_Samples.thy ===== *)
theory Epc3_Mkb_Samples
  imports Epc3_Mkb_Session Epc3_Samples
begin

section \<open>Cores with scripted stacks\<close>

text \<open>The first attach at one core, as a program: two sections, then the request to the HSS waits for its connection.\<close>

definition new_id :: "u64 \<Rightarrow> u64 \<Rightarrow> u32 \<Rightarrow> u64 \<Rightarrow> u16 \<Rightarrow> mme \<Rightarrow> mme \<times> u32 \<times> u16" where
  "new_id guti imsi enb tai cap m =
     (let m = m\<lparr>ue_count := ue_count m + 1\<rparr>; i = ucast (ue_count m); m = upd_ue guti (mme_ue_init imsi enb i tai cap) m
      in (m, i, nw_type_m (ue_at guti m)))"

lemma mkb_first_attach_prog:
  assumes "ev_in ev" and "mme_s1ap_ue_id h = 0" and "get_guti (gummei (c_ids s)) imsi = Inr guti"
    and "length (rbuf s) = 1024" and "length (mbuf d) = 500"
    and "plays M
      [Ctl Ctl_del (ev_fd ev), Read (ev_fd ev) (frame (attach_req h imsi tai ksi cap)), Socket hfd, Nonblock hfd,
       Connect hfd hss_ip3 hss_my_port, Ctl (Ctl_add EPOLLOUT) hfd] (world s) = Some w"
  shows "\<exists>k. mkb_request M A X ev d s =
    sect Uectx_mux (new_id guti imsi (enodeb_s1ap_ue_id h) tai cap) (\<lambda>(i, t).
    sect S1mmeid_mux (\<lambda>m. (m\<lparr>s1mme_id := (s1mme_id m)(i \<mapsto> guti)\<rparr>, ())) (\<lambda>_. Ret (k i t)))"
proof -
  obtain w1 w2 where calls: "play M (Ctl Ctl_del (ev_fd ev)) (world s) = Some w1"
      "play M (Read (ev_fd ev) (frame (attach_req h imsi tai ksi cap))) w1 = Some w2"
      "plays M [Socket hfd, Nonblock hfd, Connect hfd hss_ip3 hss_my_port, Ctl (Ctl_add EPOLLOUT) hfd] w2 = Some w"
    using assms(6) by (auto split: option.splits)
  have len: "length (attach_req h imsi tai ksi cap) \<le> 1020"
    by (simp add: attach_req_def)
  have conn: "mkb_open M hss_ip3 hss_my_port who s0 = Inr (hfd, s0\<lparr>world := w\<rparr>)" if "world s0 = w2" for who and s0 :: "'a mkb_mme"
    by (rule mkb_open_plays) (use calls(3) that in simp)
  show ?thesis
    using assms(1-5)
    by (simp add: mkb_request_def mkb_recv_frame [OF calls(1,2) len] Let_def)
      (simp add: attach_req_def mkb_first_attach_def item_ext_view item_app_view Let_def conn buf_write_stored frame_def
        new_id_def [abs_def], rule exI, rule refl)
qed

text \<open>The MME with two cores: each accepts a connection and gets a first attach, of subscriber 7 and of subscriber 8.\<close>

definition sample_pool :: "'w addr_pool" where
  "sample_pool = \<lparr>p_fetch = (\<lambda>w. (None, w)), p_bind = (\<lambda>_ _ w. (0, w)), p_free = (\<lambda>_ w. w)\<rparr>"

definition sample_attach_core :: "nat \<Rightarrow> call list" where
  "sample_attach_core i =
     [Socket 1, Nonblock 1, Ctl (Ctl_add EPOLLIN) 1] @ accept_calls @
     [Ctl Ctl_del 5, Read 5 (frame (attach_req (sample_s1ap 1 0) (plan_imsi i) 1 7 0)), Socket 10, Nonblock 10,
      Connect 10 hss_ip3 hss_my_port, Ctl (Ctl_add EPOLLOUT) 10]"

definition sample_core :: "nat \<Rightarrow> call list mtcp \<times> call list addr_pool \<times> ext_lib \<times> batch list \<times> call list \<times>
    u8 list \<times> packet \<times> u64 \<times> u8 \<times> u64 \<times> u64" where
  "sample_core i = (scripted, sample_pool, sample_lib, [Events [readable 1], Events [readable 5]], sample_attach_core i,
     replicate 1024 0, sample_pkt, 0, 0, 0, 0)"

definition sample_mme_ids :: mme_ids where
  "sample_mme_ids = mme_ids_of sample_mme_tabs"

lemma new_sample_ids: "new_mme_ids = Inr sample_mme_ids"
  by (simp add: new_mme_ids_def sample_mme_ids_def sample_mme_tabs_def get_plmn_id_1_1 get_mmei_1_1 get_gummei_11_11)

lemma scripted_listen:
  "mkb_listen scripted ip port n (Socket 1 # Nonblock 1 # Ctl (Ctl_add EPOLLIN) 1 # cs) = Inr (1, cs)"
  by (simp add: mkb_listen_def scripted_def script_socket_def script_nonblock_def script_ctl_def)

definition sample_md :: mme_mdata where
  "sample_md = \<lparr>act = 1, initial_fd = -1, mbuf = zero_buf, buflen = 0, md_msui = -1\<rparr>"

definition sample_first_calls :: "nat \<Rightarrow> call list" where
  "sample_first_calls i =
     [Ctl Ctl_del 5, Read 5 (frame (attach_req (sample_s1ap 1 0) (plan_imsi i) 1 7 0)), Socket 10, Nonblock 10,
      Connect 10 hss_ip3 hss_my_port, Ctl (Ctl_add EPOLLOUT) 10]"

definition sample_core_state :: "call list \<Rightarrow> (int \<rightharpoonup> mme_mdata) \<Rightarrow> call list mkb_mme" where
  "sample_core_state cs f =
     \<lparr>world = cs, fdmap = f, rbuf = replicate 1024 0, rpkt = sample_pkt, c_ids = sample_mme_ids, c_guti = 0,
      c_eps_bearer_id = 0, c_k_nas_enc = 0, c_k_nas_int = 0, srcaddrmap = Map.empty\<rparr>"

lemma sample_core_state_sels [simp]:
  "world (sample_core_state cs f) = cs" "fdmap (sample_core_state cs f) = f"
  "rbuf (sample_core_state cs f) = replicate 1024 0" "rpkt (sample_core_state cs f) = sample_pkt"
  "c_ids (sample_core_state cs f) = sample_mme_ids"
  by (simp_all add: sample_core_state_def)

lemma sample_core_accept:
  "mkb_mme_event scripted A X 1 (readable 1) (sample_core_state (accept_calls @ cs) Map.empty) =
   Ret (sample_core_state cs [5 \<mapsto> sample_md])"
proof -
  have "mkb_accept scripted 1 (sample_core_state (accept_calls @ cs) Map.empty) =
      Inr (fd_insert 5 sample_md (sample_core_state (accept_calls @ cs) Map.empty\<lparr>world := cs\<rparr>))"
    unfolding mkb_accept_def sample_md_def by (rule sample_accept) simp
  also have "fd_insert 5 sample_md (sample_core_state (accept_calls @ cs) Map.empty\<lparr>world := cs\<rparr>) =
      sample_core_state cs [5 \<mapsto> sample_md]"
    by (simp add: fd_insert_def sample_core_state_def)
  finally show ?thesis
    by (simp add: mkb_mme_event_def mkb_event_def readable_def)
qed

lemma sample_core_request:
  assumes "i < 10 ^ 9"
  shows "\<exists>k. mkb_mme_event scripted A X 1 (readable 5) (sample_core_state (sample_first_calls i) [5 \<mapsto> sample_md]) =
    sect Uectx_mux (new_id (plan_guti i) (plan_imsi i) 7 1 0) (\<lambda>(j, t).
    sect S1mmeid_mux (\<lambda>m. (m\<lparr>s1mme_id := (s1mme_id m)(j \<mapsto> plan_guti i)\<rparr>, ())) (\<lambda>_. Ret (k j t)))"
proof -
  have p: "plays scripted (sample_first_calls i) (sample_first_calls i) = Some []"
    by (rule scripted_calls) (simp add: sample_first_calls_def real_call_def)
  have "mkb_mme_event scripted A X 1 (readable 5) (sample_core_state (sample_first_calls i) [5 \<mapsto> sample_md]) =
      mkb_request scripted A X (readable 5) sample_md (sample_core_state (sample_first_calls i) [5 \<mapsto> sample_md])"
    unfolding mkb_mme_event_def
    by (subst mkb_event_known [where m = sample_md]) (simp_all add: readable_def mkb_handle_def sample_md_def)
  then show ?thesis
    using mkb_first_attach_prog [where M = scripted and ev = "readable 5" and d = sample_md and h = "sample_s1ap 1 0"
        and s = "sample_core_state (sample_first_calls i) [5 \<mapsto> sample_md]" and imsi = "plan_imsi i" and guti = "plan_guti i"
        and tai = 1 and ksi = 7 and cap = 0 and hfd = 10 and w = "[]" and A = A and X = X] assms
      p [unfolded sample_first_calls_def [of i]]
    by (simp add: sample_ids sample_mme_ids_def readable_def sample_s1ap_def sample_md_def sample_first_calls_def)
qed

lemma sample_core_prog:
  assumes "i < 10 ^ 9"
  shows "\<exists>k. (case sample_core i of (M, A, X, bs, w, d, p, g, e, ke, ki) \<Rightarrow> mkb_mme_core M A X bs w d p g e ke ki) =
    sect Uectx_mux (new_id (plan_guti i) (plan_imsi i) 7 1 0) (\<lambda>(j, t).
    sect S1mmeid_mux (\<lambda>m. (m\<lparr>s1mme_id := (s1mme_id m)(j \<mapsto> plan_guti i)\<rparr>, ())) (\<lambda>_. Ret (k j t)))"
proof -
  obtain k where k: "mkb_mme_event scripted sample_pool sample_lib 1 (readable 5)
      (sample_core_state (sample_first_calls i) [5 \<mapsto> sample_md]) =
    sect Uectx_mux (new_id (plan_guti i) (plan_imsi i) 7 1 0) (\<lambda>(j, t).
    sect S1mmeid_mux (\<lambda>m. (m\<lparr>s1mme_id := (s1mme_id m)(j \<mapsto> plan_guti i)\<rparr>, ())) (\<lambda>_. Ret (k j t)))"
    using sample_core_request [OF assms, of sample_pool sample_lib] by blast
  have core: "(case sample_core i of (M, A, X, bs, w, d, p, g, e, ke, ki) \<Rightarrow> mkb_mme_core M A X bs w d p g e ke ki) =
      mkb_loop (mkb_mme_event scripted sample_pool sample_lib 1) [Events [readable 1], Events [readable 5]]
        (sample_core_state (accept_calls @ sample_first_calls i) Map.empty)"
    by (simp add: sample_core_def mkb_mme_core_def new_sample_ids sample_attach_core_def scripted_listen
        sample_core_state_def sample_first_calls_def)
  show ?thesis
    unfolding core by (intro exI [of _ k]) (simp add: mkb_batch_def sample_core_accept k case_prod_unfold)
qed

subsection \<open>Cores that wait for the HSS\<close>

definition sample_vector_calls :: "u32 \<Rightarrow> call list" where
  "sample_vector_calls i =
     [Ctl Ctl_del 10, Read 10 (frame (autn_rsp_bytes (sample_diameter 1) 21 22 23 24)), Close 10,
      Write 5 (frame (autn_challenge (s1ap_init 1 24 7 i (sample_s1ap 0 0)) 21 22 1)), Ctl (Ctl_add EPOLLIN) 5]"

definition sample_waiting :: "u32 \<Rightarrow> call list mkb_mme" where
  "sample_waiting i =
     sample_core_state (sample_vector_calls i) [10 \<mapsto> \<lparr>act = 3, initial_fd = 5, mbuf = zero_buf, buflen = 0, md_msui = i\<rparr>]"

definition sample_mme_two :: mme where
  "sample_mme_two =
     \<lparr>mme_ids_of = sample_mme_ids, ue_count = 2, s1mme_id = [1 \<mapsto> plan_guti 7, 2 \<mapsto> plan_guti 8],
      ue_ctx_m = [plan_guti 7 \<mapsto> mme_ue_init (plan_imsi 7) 7 1 1 0 new_mme_ue,
                  plan_guti 8 \<mapsto> mme_ue_init (plan_imsi 8) 7 2 1 0 new_mme_ue]\<rparr>"

lemma sample_vector_run:
  assumes "s1mme_id m i = Some guti" and "ue_ctx_m m guti = Some c" and "imsi_m c \<noteq> 0" and "enodeb_s1ap_ue_id_m c = 7"
  shows "\<exists>s'. run_prog (mkb_mme_event scripted A X 1 (readable 10) (sample_waiting i)) m =
      Inr (s', mme3_vector guti 23 24 m) \<and>
    sections (mkb_mme_event scripted A X 1 (readable 10) (sample_waiting i)) m = 2"
proof -
  let ?d = "\<lparr>act = 3, initial_fd = 5, mbuf = zero_buf, buflen = 0, md_msui = i\<rparr> :: mme_mdata"
  have p: "plays scripted (sample_vector_calls i) (sample_vector_calls i) = Some []"
    by (rule scripted_calls) (simp add: sample_vector_calls_def real_call_def)
  have "mkb_mme_event scripted A X 1 (readable 10) (sample_waiting i) =
      mkb_hss_reply scripted (readable 10) ?d (sample_waiting i)"
    unfolding mkb_mme_event_def
    by (subst mkb_event_known [where m = ?d]) (simp_all add: readable_def mkb_handle_def sample_waiting_def)
  then show ?thesis
    using mkb_hss_reply_run [of "readable 10" m ?d guti c "sample_waiting i" scripted "sample_diameter 1" 21 22 23 24 "[]"]
      assms p [unfolded sample_vector_calls_def [of i]]
    by (simp add: readable_def sample_waiting_def sample_vector_calls_def sample_pkt_def)
qed

lemma sample_waiting_subject: "mkb_subject scripted 1 (readable 10) (sample_waiting i) = Some i"
  by (simp add: mkb_subject_def readable_def sample_waiting_def at_or_def)

subsection \<open>Cores of the SGW with a modify bearer\<close>

definition sample_modify_calls :: "u32 \<Rightarrow> call list" where
  "sample_modify_calls i =
     [Ctl Ctl_del 5, Read 5 (frame (modify_req (sample_gtp 2 i) 5 77 ''10.0.0.1'' 5000)),
      Write 5 (frame (bool_rsp (gtp_with 2 2 1 i (sample_gtp 2 i)) True)), Ctl (Ctl_add EPOLLIN) 5]"

definition sample_modifying :: "u32 \<Rightarrow> call list mkb_sgw" where
  "sample_modifying i =
     \<lparr>world = sample_modify_calls i, fdmap = [5 \<mapsto> sample_sgw_mdata 8], rbuf = replicate 1024 0, rpkt = sample_pkt,
      c_s11_cteid_mme = 0, c_s5_uteid_dl = 0, c_tid = 0, c_imsi = 0\<rparr>"

definition sample_sgw_two :: sgw where
  "sample_sgw_two =
     (let ids = [7 \<mapsto> plan_imsi 7, 8 \<mapsto> plan_imsi 8] in
      \<lparr>s11_id = ids, s1_id = ids, s5_id = ids,
       ue_ctx_s = [plan_imsi 7 \<mapsto> new_sgw_ue\<lparr>s11_cteid_mme_s := 7\<rparr>, plan_imsi 8 \<mapsto> new_sgw_ue\<lparr>s11_cteid_mme_s := 8\<rparr>],
       ho_ue_ctx = Map.empty\<rparr>)"

lemma sample_modify_run:
  assumes "s11_id t i = Some imsi" and "imsi \<noteq> 0" and "s11_cteid_mme_s (sgw_ue_at imsi t) = i"
  shows "\<exists>s'. run_prog (mkb_sgw_event scripted 1 (readable 5) (sample_modifying i)) t =
      Inr (s', sgw_modified imsi 77 ''10.0.0.1'' 5000 t) \<and>
    sections (mkb_sgw_event scripted 1 (readable 5) (sample_modifying i)) t = 2"
proof -
  let ?s = "sample_modifying i\<lparr>c_tid := md_tid (sample_sgw_mdata 8), c_imsi := md_guti (sample_sgw_mdata 8)\<rparr>"
  have p: "plays scripted (sample_modify_calls i) (sample_modify_calls i) = Some []"
    by (rule scripted_calls) (simp add: sample_modify_calls_def real_call_def)
  have "mkb_sgw_event scripted 1 (readable 5) (sample_modifying i) =
      mkb_sgw_request scripted (readable 5) (sample_sgw_mdata 8) ?s"
    unfolding mkb_sgw_event_def
    by (subst mkb_event_known [where m = "sample_sgw_mdata 8"])
      (simp_all add: readable_def mkb_sgw_handle_def sample_modifying_def)
  then show ?thesis
    using mkb_sgw_modify_run [of "readable 5" "sample_gtp 2 i" t imsi "''10.0.0.1''" 5000 ?s scripted 5 77 "[]"
        "sample_sgw_mdata 8"] assms p [unfolded sample_modify_calls_def [of i]]
    by (simp add: readable_def sample_modifying_def sample_modify_calls_def short_ip_def nul_free_def)
qed

lemma sample_modifying_keys:
  "sgw_event_keys scripted 1 (readable 5) (sample_modifying i) t = sgw_known_keys t i"
proof -
  let ?s = "sample_modifying i\<lparr>c_tid := md_tid (sample_sgw_mdata 8), c_imsi := md_guti (sample_sgw_mdata 8)\<rparr>"
  have "plays scripted (sample_modify_calls i) (sample_modify_calls i) = Some []"
    by (rule scripted_calls) (simp add: sample_modify_calls_def real_call_def)
  then obtain w1 w2 where calls: "play scripted (Ctl Ctl_del 5) (world ?s) = Some w1"
      "play scripted (Read 5 (frame (modify_req (sample_gtp 2 i) 5 77 ''10.0.0.1'' 5000))) w1 = Some w2"
    by (auto simp: sample_modify_calls_def sample_modifying_def split: option.splits)
  have str: "length (string_bytes ''10.0.0.1'') = 12"
    by (simp add: string_bytes_def nul_free_def)
  have len: "length (modify_req (sample_gtp 2 i) 5 77 ''10.0.0.1'' 5000) \<le> 1020" "length (rbuf ?s) = 1024"
    by (simp_all add: modify_req_def sample_modifying_def str)
  have f: "fdmap (sample_modifying i) 5 = Some (sample_sgw_mdata 8)"
    by (simp add: sample_modifying_def)
  have s: "sample_modifying i\<lparr>fdmap := op_idx zero_sgw_mdata (fdmap (sample_modifying i)) 5,
      c_tid := md_tid (sample_sgw_mdata 8), c_imsi := md_guti (sample_sgw_mdata 8)\<rparr> = ?s"
    by (simp add: sample_modifying_def op_idx_def fun_upd_idem)
  show ?thesis
    using mkb_recv_frame [OF calls len]
    by (simp add: sgw_event_keys_def Let_def readable_def f at_or_def s [simplified f at_or_def])
      (simp add: modify_req_def str sgw_packet_keys_def)
qed

subsection \<open>Cores of the PGW with a create session\<close>

definition sample_pgw_two :: pgw where
  "sample_pgw_two = sample_pgw_tabs\<lparr>ip_addrs := [plan_imsi 7 \<mapsto> ''172.16.0.9'', plan_imsi 8 \<mapsto> ''172.16.0.10'',
     plan_imsi 9 \<mapsto> ''172.16.0.11'']\<rparr>"

definition sample_create_calls :: "u32 \<Rightarrow> u64 \<Rightarrow> string \<Rightarrow> call list" where
  "sample_create_calls i imsi ip =
     [Ctl Ctl_del 5, Read 5 (frame (create_req5 (sample_gtp 1 0) i imsi 5 i 0 1)),
      Write 5 (frame (create_rsp5 (gtp_with 2 1 (of_nat (13 + length ip)) i (sample_gtp 1 0)) i 5 i ip)),
      Ctl (Ctl_add EPOLLIN) 5]"

definition sample_creating :: "u32 \<Rightarrow> u64 \<Rightarrow> string \<Rightarrow> call list mkb_pgw" where
  "sample_creating i imsi ip =
     \<lparr>world = sample_create_calls i imsi ip, fdmap = [5 \<mapsto> sample_pgw_mdata], rbuf = replicate 1024 0, rpkt = sample_pkt\<rparr>"

lemma sample_create_plays: "plays scripted (sample_create_calls i imsi ip) (sample_create_calls i imsi ip) = Some []"
  by (rule scripted_calls) (simp add: sample_create_calls_def real_call_def)

lemma sample_create_run:
  assumes "ip_addrs t imsi = Some ip" and "short_ip ip"
  shows "\<exists>s'. run_prog (mkb_pgw_event scripted x 1 (readable 5) (sample_creating i imsi ip)) t =
      Inr (s', pgw_created i imsi 5 i 0 1 t) \<and>
    sections (mkb_pgw_event scripted x 1 (readable 5) (sample_creating i imsi ip)) t = 4"
proof -
  have "mkb_pgw_event scripted x 1 (readable 5) (sample_creating i imsi ip) =
      mkb_pgw_request scripted (readable 5) (sample_creating i imsi ip)"
    unfolding mkb_pgw_event_def
    by (subst mkb_event_known [where m = sample_pgw_mdata])
      (simp_all add: readable_def mkb_pgw_handle_def sample_creating_def)
  then show ?thesis
    using mkb_pgw_create_run [of "readable 5" "sample_gtp 1 0" t imsi ip "sample_creating i imsi ip" scripted i 5 i 0 1 "[]"]
      assms sample_create_plays [of i imsi ip, unfolded sample_create_calls_def]
    by (simp add: readable_def sample_creating_def sample_create_calls_def)
qed

lemma sample_creating_keys:
  "pgw_event_keys scripted 1 (readable 5) (sample_creating i imsi ip) t =
   {Pk_s5 i, Pk_ue imsi, Pk_addr imsi, Pk_sgi (at_or '''' (ip_addrs t) imsi)}"
proof -
  let ?s = "sample_creating i imsi ip"
  obtain w1 w2 where calls: "play scripted (Ctl Ctl_del 5) (world ?s) = Some w1"
      "play scripted (Read 5 (frame (create_req5 (sample_gtp 1 0) i imsi 5 i 0 1))) w1 = Some w2"
    using sample_create_plays [of i imsi ip]
    by (auto simp: sample_create_calls_def sample_creating_def split: option.splits)
  have len: "length (create_req5 (sample_gtp 1 0) i imsi 5 i 0 1) \<le> 1020" "length (rbuf ?s) = 1024"
    by (simp_all add: create_req5_def sample_creating_def)
  have f: "fdmap ?s 5 = Some sample_pgw_mdata"
    by (simp add: sample_creating_def)
  have s: "?s\<lparr>fdmap := op_idx zero_pgw_mdata (fdmap ?s) 5\<rparr> = ?s"
    by (simp add: sample_creating_def op_idx_def fun_upd_idem)
  show ?thesis
    using mkb_recv_frame [OF calls len]
    by (simp add: pgw_event_keys_def readable_def f at_or_def s)
      (simp add: create_req5_def item_ext_view pgw_packet_keys_def at_or_def)
qed

lemma sample_creating_asks: "pgw_asks scripted 1 (readable 5) (sample_creating i imsi ip)"
  by (simp add: pgw_asks_def readable_def sample_creating_def sample_create_calls_def scripted_def script_ctl_def
      script_read_def frame_def create_req5_def)

end
