(* ===== verification/Epc3_Mkb_Properties.thy ===== *)
theory Epc3_Mkb_Properties
  imports Epc3_Mkb_Samples
begin

section \<open>Properties of the multi-core programs\<close>

text \<open>
  The cores of MME, SGW and PGW share tables under mutexes. A schedule is a list of core numbers: each turn executes the
  next critical section of a core. What is proved holds for every schedule.
\<close>

subsection \<open>Ids\<close>

text \<open>
  C30: MME ids under any interleaving. Any number of cores run their loops on any events; within fewer than
  2^32 turns the ids in \<open>s1mme_id\<close> are non-zero and bounded by the counter, a context that carries a filed id is
  the context of the GUTI that the id leads to, and no two contexts carry the same id.
\<close>

theorem mkb_mme_ids_unique:
  assumes "length is < 2 ^ 32"
    and "turns is (new_mkb_tabs ids, map (\<lambda>(M, A, X, bs, w, d, p, g, e, ke, ki).
      mkb_mme_core M A X bs w d p g e ke ki) cores) = (m, ps)"
  shows "(\<forall>i u. s1mme_id m i = Some u \<longrightarrow> i \<noteq> 0 \<and> unat i \<le> unat (ue_count m)) \<and>
    (\<forall>i u v c. s1mme_id m i = Some u \<and> ue_ctx_m m v = Some c \<and> mme_s1ap_ue_id_m c = i \<longrightarrow> v = u) \<and>
    (\<forall>u v c c'. ue_ctx_m m u = Some c \<and> ue_ctx_m m v = Some c' \<and> mme_s1ap_ue_id_m c \<noteq> 0 \<and>
       mme_s1ap_ue_id_m c = mme_s1ap_ue_id_m c' \<longrightarrow> u = v)"
proof -
  let ?ps = "map (\<lambda>(M, A, X, bs, w, d, p, g, e, ke, ki). mkb_mme_core M A X bs w d p g e ke ki) cores"
  have "\<forall>q \<in> set ?ps. mme_core_program q"
    unfolding mme_core_program_def by (auto, blast)
  from mme_cores_ok [OF assms(1) this, of ids] have "mme_ids_ok m"
    by (simp add: assms(2) mme_shared_ok_def)
  then show ?thesis
    unfolding mme_ids_ok_def only_under_def by metis
qed

theorem mkb_mme_ids_unique_witness:
  "\<exists>m ps. turns [0, 1, 1, 0] (new_mkb_tabs sample_mme_ids, map (\<lambda>(M, A, X, bs, w, d, p, g, e, ke, ki).
      mkb_mme_core M A X bs w d p g e ke ki) [sample_core 7, sample_core 8]) = (m, ps) \<and>
    s1mme_id m 1 = Some (plan_guti 7) \<and> s1mme_id m 2 = Some (plan_guti 8) \<and>
    (\<forall>u v c c'. ue_ctx_m m u = Some c \<and> ue_ctx_m m v = Some c' \<and> mme_s1ap_ue_id_m c \<noteq> 0 \<and>
       mme_s1ap_ue_id_m c = mme_s1ap_ue_id_m c' \<longrightarrow> u = v)"
proof -
  let ?ps = "map (\<lambda>(M, A, X, bs, w, d, p, g, e, ke, ki). mkb_mme_core M A X bs w d p g e ke ki) [sample_core 7, sample_core 8]"
  obtain k where k: "(case sample_core 7 of (M, A, X, bs, w, d, p, g, e, ke, ki) \<Rightarrow> mkb_mme_core M A X bs w d p g e ke ki) =
    sect Uectx_mux (new_id (plan_guti 7) (plan_imsi 7) 7 1 0) (\<lambda>(j, t).
    sect S1mmeid_mux (\<lambda>m. (m\<lparr>s1mme_id := (s1mme_id m)(j \<mapsto> plan_guti 7)\<rparr>, ())) (\<lambda>_. Ret (k j t)))"
    using sample_core_prog [of 7] by auto
  obtain l where l: "(case sample_core 8 of (M, A, X, bs, w, d, p, g, e, ke, ki) \<Rightarrow> mkb_mme_core M A X bs w d p g e ke ki) =
    sect Uectx_mux (new_id (plan_guti 8) (plan_imsi 8) 7 1 0) (\<lambda>(j, t).
    sect S1mmeid_mux (\<lambda>m. (m\<lparr>s1mme_id := (s1mme_id m)(j \<mapsto> plan_guti 8)\<rparr>, ())) (\<lambda>_. Ret (l j t)))"
    using sample_core_prog [of 8] by auto
  obtain m ps where run: "turns [0, 1, 1, 0] (new_mkb_tabs sample_mme_ids, ?ps) = (m, ps)"
    by (cases "turns [0, 1, 1, 0] (new_mkb_tabs sample_mme_ids, ?ps)")
  then have "s1mme_id m 1 = Some (plan_guti 7) \<and> s1mme_id m 2 = Some (plan_guti 8)"
    by (auto simp: k l sect_def turn_def stopped_def new_id_def new_mkb_tabs_def Let_def)
  then show ?thesis
    using mkb_mme_ids_unique [OF _ run] run by (intro exI [of _ m] exI [of _ ps]) simp
qed

subsection \<open>Mutexes\<close>

text \<open>
  C31: no data race on the global tables. Whatever events any number of cores handle and however they are scheduled, at each
  moment any two cores that stand at an access to a table either need the same mutex for it, or their two accesses
  commute: in both orders the tables and the two cores end up the same. The reason is that every access of the
  three programs keeps to the mutex that the code takes for the entry: \<open>s1mme_id\<close> under \<open>s1mmeid_mux\<close>, \<open>ue_ctx\<close> and
  \<open>ue_count\<close> under \<open>uectx_mux\<close> (one of two comments in the source gives \<open>ue_count\<close> to the other mutex), each table of tunnel
  ids under its own; and that an access without a mutex changes nothing. The only such access reads the
  PGW's \<open>ip_addrs\<close>; where \<open>operator[]\<close> would insert into it (an IMSI without a planned address) there is a race in the code,
  and the model stops with \<open>Undefined\<close>: nothing is claimed about the program from there on.
\<close>

theorem mkb_tables_guarded:
  "race_free (turns is (m, map (\<lambda>(M, A, X, bs, w, d, p, g, e, ke, ki). mkb_mme_core M A X bs w d p g e ke ki) mme_cores)) \<and>
   race_free (turns is' (s, map (\<lambda>(M, bs, w, d, p, a, b, t, g). mkb_sgw_core M bs w d p a b t g) sgw_cores)) \<and>
   race_free (turns is'' (t, map (\<lambda>(M, x, bs, w, d, p). mkb_pgw_core M x bs w d p) pgw_cores)) \<and>
   guarded mme_part mme_guard (mkb_mme_core M1 A1 X1 bs1 w1 d1 p1 g1 e1 ke1 ki1) \<and>
   guarded sgw_part sgw_guard (mkb_sgw_core M2 bs2 w2 d2 p2 a2 b2 t2 g2) \<and>
   guarded pgw_part pgw_guard (mkb_pgw_core M3 x3 bs3 w3 d3 p3)"
  by (intro conjI guarded_mme_core guarded_sgw_core guarded_pgw_core
      mme_keys.guarded_race_free [where guard = mme_guard] sgw_keys.guarded_race_free [where guard = sgw_guard]
      pgw_slots.guarded_race_free [where guard = pgw_guard])
    (auto intro: guarded_mme_core guarded_sgw_core guarded_pgw_core)

subsection \<open>Serializability\<close>

text \<open>
  C32: messages of different UEs at the cores of the MME. When the UEs are known, every schedule that gives each core enough
  turns ends with the states and tables that the cores reach one after the other, and only with those.
\<close>

theorem mkb_mme_serializable:
  assumes "\<And>ev s i. (ev, s) \<in> set cores \<Longrightarrow> mkb_subject M lfd ev s = Some i \<Longrightarrow> i \<noteq> 0 \<and> s1mme_id m i \<noteq> None"
    and "sorted_wrt (other_subjects m) (map (\<lambda>(ev, s). mkb_subject M lfd ev s) cores)"
    and "\<And>n. n < length cores \<Longrightarrow>
      sections (map (\<lambda>(ev, s). mkb_mme_event M A X lfd ev s) cores ! n) m \<le> count_list is n"
  shows "turns is (m, map (\<lambda>(ev, s). mkb_mme_event M A X lfd ev s) cores) = (m', map Ret ss) \<longleftrightarrow>
    run_all (map (\<lambda>(ev, s). mkb_mme_event M A X lfd ev s) cores) m = Inr (ss, m')"
  by (rule mme_keys.serializable [OF disjoint_events [OF assms(1,2)]]) (use assms(3) in simp_all)

theorem mkb_mme_serializable_witness:
  "\<exists>ss. turns [0, 1, 1, 0] (sample_mme_two, map (\<lambda>(ev, s). mkb_mme_event scripted sample_pool sample_lib 1 ev s)
      [(readable 10, sample_waiting 1), (readable 10, sample_waiting 2)]) =
    (mme3_vector (plan_guti 8) 23 24 (mme3_vector (plan_guti 7) 23 24 sample_mme_two), map Ret ss)"
proof -
  let ?ev = "\<lambda>i. mkb_mme_event scripted sample_pool sample_lib 1 (readable 10) (sample_waiting i)"
  let ?cores = "[(readable 10, sample_waiting 1), (readable 10, sample_waiting 2)]"
  let ?m = "mme3_vector (plan_guti 7) 23 24 sample_mme_two"
  have ue: "s1mme_id sample_mme_two 1 = Some (plan_guti 7)" "s1mme_id sample_mme_two 2 = Some (plan_guti 8)"
      "ue_ctx_m sample_mme_two (plan_guti 7) = Some (mme_ue_init (plan_imsi 7) 7 1 1 0 new_mme_ue)"
      "ue_ctx_m sample_mme_two (plan_guti 8) = Some (mme_ue_init (plan_imsi 8) 7 2 1 0 new_mme_ue)"
      "s1mme_id ?m 2 = Some (plan_guti 8)"
      "ue_ctx_m ?m (plan_guti 8) = Some (mme_ue_init (plan_imsi 8) 7 2 1 0 new_mme_ue)"
    using sample_ids(6) sample_ids(6) [symmetric] by (simp_all add: sample_mme_two_def mme3_vector_def upd_ue_def modify_at_def not_sym)
  have imsi: "plan_imsi 7 \<noteq> 0" "plan_imsi 8 \<noteq> 0"
    by (simp_all add: plan_imsi_def)
  obtain s1 where 1: "run_prog (?ev 1) sample_mme_two = Inr (s1, ?m)" "sections (?ev 1) sample_mme_two = 2"
    using sample_vector_run [OF ue(1,3), of sample_pool sample_lib] imsi by (auto simp: mme_ue_init_def)
  obtain s2 where 2: "run_prog (?ev 2) ?m = Inr (s2, mme3_vector (plan_guti 8) 23 24 ?m)"
    using sample_vector_run [OF ue(5,6), of sample_pool sample_lib] imsi by (auto simp: mme_ue_init_def)
  have 3: "sections (?ev 2) sample_mme_two = 2"
    using sample_vector_run [OF ue(2,4), of sample_pool sample_lib] imsi by (auto simp: mme_ue_init_def)
  have "turns [0, 1, 1, 0] (sample_mme_two, map (\<lambda>(ev, s). mkb_mme_event scripted sample_pool sample_lib 1 ev s) ?cores) =
      (mme3_vector (plan_guti 8) 23 24 ?m, map Ret [s1, s2]) \<longleftrightarrow>
    run_all (map (\<lambda>(ev, s). mkb_mme_event scripted sample_pool sample_lib 1 ev s) ?cores) sample_mme_two =
      Inr ([s1, s2], mme3_vector (plan_guti 8) 23 24 ?m)"
  proof (rule mkb_mme_serializable)
    show "i \<noteq> 0 \<and> s1mme_id sample_mme_two i \<noteq> None" if "(ev, s) \<in> set ?cores" "mkb_subject scripted 1 ev s = Some i" for ev s i
      using that ue by (auto simp: sample_waiting_subject)
    show "sorted_wrt (other_subjects sample_mme_two) (map (\<lambda>(ev, s). mkb_subject scripted 1 ev s) ?cores)"
      using sample_ids(6) by (simp add: sample_waiting_subject other_subjects_def ue not_sym)
    show "sections (map (\<lambda>(ev, s). mkb_mme_event scripted sample_pool sample_lib 1 ev s) ?cores ! n) sample_mme_two \<le>
        count_list [0, 1, 1, 0] n" if "n < length ?cores" for n
      using that 1 3 by (cases n) (auto simp: less_Suc_eq)
  qed
  then show ?thesis
    using 1 2 by (intro exI [of _ "[s1, s2]"]) simp
qed

text \<open>
  C33: messages of different sessions at the cores of the SGW, with the same conclusion.
\<close>

theorem mkb_sgw_serializable:
  assumes "sorted_wrt (\<lambda>K L. K \<inter> L = {}) (map (\<lambda>(ev, s). sgw_event_keys M lfd ev s t) cores)"
    and "\<And>n. n < length cores \<Longrightarrow>
      sections (map (\<lambda>(ev, s). mkb_sgw_event M lfd ev s) cores ! n) t \<le> count_list is n"
  shows "turns is (t, map (\<lambda>(ev, s). mkb_sgw_event M lfd ev s) cores) = (t', map Ret ss) \<longleftrightarrow>
    run_all (map (\<lambda>(ev, s). mkb_sgw_event M lfd ev s) cores) t = Inr (ss, t')"
  by (rule sgw_keys.serializable [OF disjoint_sgw_events [OF assms(1)]]) (use assms(2) in simp_all)

theorem mkb_sgw_serializable_witness:
  "\<exists>ss. turns [0, 1, 0, 1] (sample_sgw_two, map (\<lambda>(ev, s). mkb_sgw_event scripted 1 ev s)
      [(readable 5, sample_modifying 7), (readable 5, sample_modifying 8)]) =
    (sgw_modified (plan_imsi 8) 77 ''10.0.0.1'' 5000 (sgw_modified (plan_imsi 7) 77 ''10.0.0.1'' 5000 sample_sgw_two),
     map Ret ss)"
proof -
  let ?ev = "\<lambda>i. mkb_sgw_event scripted 1 (readable 5) (sample_modifying i)"
  let ?cores = "[(readable 5, sample_modifying 7), (readable 5, sample_modifying 8)]"
  let ?mod = "\<lambda>imsi. sgw_modified imsi 77 ''10.0.0.1'' 5000"
  let ?t = "?mod (plan_imsi 7) sample_sgw_two"
  have imsi: "plan_imsi 7 \<noteq> 0" "plan_imsi 8 \<noteq> 0" "plan_imsi 8 \<noteq> plan_imsi 7"
    by (simp_all add: plan_imsi_def)
  have ids: "s11_id sample_sgw_two 7 = Some (plan_imsi 7)" "s11_id sample_sgw_two 8 = Some (plan_imsi 8)"
      "s11_id ?t 8 = Some (plan_imsi 8)" "s11_cteid_mme_s (sgw_ue_at (plan_imsi 7) sample_sgw_two) = 7"
      "s11_cteid_mme_s (sgw_ue_at (plan_imsi 8) sample_sgw_two) = 8" "s11_cteid_mme_s (sgw_ue_at (plan_imsi 8) ?t) = 8"
    using imsi by (simp_all add: sample_sgw_two_def Let_def sgw_modified_def upd_sgw_ue_def sgw_ue_at_def at_or_def
        modify_at_def)
  obtain s1 where 1: "run_prog (?ev 7) sample_sgw_two = Inr (s1, ?t)" "sections (?ev 7) sample_sgw_two = 2"
    using sample_modify_run [OF ids(1) imsi(1) ids(4)] by blast
  obtain s2 where 2: "run_prog (?ev 8) ?t = Inr (s2, ?mod (plan_imsi 8) ?t)"
    using sample_modify_run [OF ids(3) imsi(2) ids(6)] by blast
  have 3: "sections (?ev 8) sample_sgw_two = 2"
    using sample_modify_run [OF ids(2) imsi(2) ids(5)] by blast
  have "turns [0, 1, 0, 1] (sample_sgw_two, map (\<lambda>(ev, s). mkb_sgw_event scripted 1 ev s) ?cores) =
      (?mod (plan_imsi 8) ?t, map Ret [s1, s2]) \<longleftrightarrow>
    run_all (map (\<lambda>(ev, s). mkb_sgw_event scripted 1 ev s) ?cores) sample_sgw_two = Inr ([s1, s2], ?mod (plan_imsi 8) ?t)"
  proof (rule mkb_sgw_serializable)
    show "sorted_wrt (\<lambda>K L. K \<inter> L = {}) (map (\<lambda>(ev, s). sgw_event_keys scripted 1 ev s sample_sgw_two) ?cores)"
      using imsi by (simp add: sample_modifying_keys sgw_known_keys_def sgw_ue_keys_def ids)
    show "sections (map (\<lambda>(ev, s). mkb_sgw_event scripted 1 ev s) ?cores ! n) sample_sgw_two \<le>
        count_list [0, 1, 0, 1] n" if "n < length ?cores" for n
      using that 1 3 by (cases n) (auto simp: less_Suc_eq)
  qed
  then show ?thesis
    using 1 2 by (intro exI [of _ "[s1, s2]"]) simp
qed

text \<open>
  C34: the multi-core PGW against the single-core one. When cores handle requests for different sessions, every create session for an
  IMSI of the address plan (the last hypothesis; for any other the unlocked insertion into \<open>ip_addrs\<close> is a data race, and the
  model of the core stops), and all end, in whatever interleaving, then the PGW of \<open>kby_pgw.cpp\<close> handles the requests
  one after the other with the same answers, and ends with the same tables; the address plan is as before.
\<close>

theorem mkb_pgw_refines_single_core:
  assumes "sorted_wrt (\<lambda>K L. K \<inter> L = {}) (map (\<lambda>(ev, s). pgw_event_keys M lfd ev s t) cores)"
    and "\<And>ev s. (ev, s) \<in> set cores \<Longrightarrow> pgw_asks M lfd ev s"
    and "\<And>tid imsi. s5_id_p t tid = Some imsi \<Longrightarrow> twelve_digits imsi"
    and "turns is (t, map (\<lambda>(ev, s). mkb_pgw_event M x lfd ev s) cores) = (t', map Ret ss)"
    and "\<And>ev s imsi. (ev, s) \<in> set cores \<Longrightarrow> Pk_addr imsi \<in> pgw_event_keys M lfd ev s t \<Longrightarrow> imsi \<in> dom (ip_addrs t)"
  shows "pgw3_in_turn M lfd cores t = Inr (ss, t') \<and> ip_addrs t' = ip_addrs t"
proof
  show "pgw3_in_turn M lfd cores t = Inr (ss, t')"
    by (rule interleaved_in_turn [OF assms(1-4)])
  have "\<forall>p \<in> set (map (\<lambda>(ev, s). mkb_pgw_event M x lfd ev s) cores). guarded pgw_part pgw_guard p"
    by (auto intro: guarded_pgw_event)
  from pgw_plan_kept [OF this, of "is" t] show "ip_addrs t' = ip_addrs t"
    by (simp add: assms(4))
qed

theorem mkb_pgw_refines_single_core_witness:
  "\<exists>ss. pgw3_in_turn scripted 1 [(readable 5, sample_creating 8 (plan_imsi 8) ''172.16.0.10''),
      (readable 5, sample_creating 9 (plan_imsi 9) ''172.16.0.11'')] sample_pgw_two =
    Inr (ss, pgw_created 9 (plan_imsi 9) 5 9 0 1 (pgw_created 8 (plan_imsi 8) 5 8 0 1 sample_pgw_two))"
proof -
  let ?a = "''172.16.0.10''" and ?b = "''172.16.0.11''"
  let ?cores = "[(readable 5, sample_creating 8 (plan_imsi 8) ?a), (readable 5, sample_creating 9 (plan_imsi 9) ?b)]"
  let ?ps = "map (\<lambda>(ev, s). mkb_pgw_event scripted 0 1 ev s) ?cores"
  let ?t = "pgw_created 8 (plan_imsi 8) 5 8 0 1 sample_pgw_two"
  let ?t' = "pgw_created 9 (plan_imsi 9) 5 9 0 1 ?t"
  have imsi: "plan_imsi 7 \<noteq> plan_imsi 8" "plan_imsi 7 \<noteq> plan_imsi 9" "plan_imsi 8 \<noteq> plan_imsi 9"
    by (simp_all add: plan_imsi_def)
  have ip: "ip_addrs sample_pgw_two (plan_imsi 8) = Some ?a" "ip_addrs sample_pgw_two (plan_imsi 9) = Some ?b"
      "short_ip ?a" "short_ip ?b"
    using imsi by (simp_all add: sample_pgw_two_def short_ip_def nul_free_def)
  have ip': "ip_addrs ?t (plan_imsi 9) = Some ?b"
    using ip imsi by (simp add: pgw_created_def)
  obtain s1 where 1: "run_prog (?ps ! 0) sample_pgw_two = Inr (s1, ?t)" "sections (?ps ! 0) sample_pgw_two = 4"
    using sample_create_run [OF ip(1) ip(3), of 0 8] by auto
  obtain s2 where 2: "run_prog (?ps ! 1) ?t = Inr (s2, ?t')"
    using sample_create_run [OF ip' ip(4), of 0 9] by auto
  have 3: "sections (?ps ! 1) sample_pgw_two = 4"
    using sample_create_run [OF ip(2) ip(4), of 0 9] by auto
  have keys: "sorted_wrt (\<lambda>K L. K \<inter> L = {}) (map (\<lambda>(ev, s). pgw_event_keys scripted 1 ev s sample_pgw_two) ?cores)"
    using imsi by (simp add: sample_creating_keys at_or_def ip)
  have run: "turns [0, 1, 0, 1, 0, 1, 0, 1] (sample_pgw_two, ?ps) = (?t', map Ret [s1, s2])"
    using 1 2 3 by (intro pgw_slots.turns_complete [OF disjoint_pgw_events [OF keys]]) (auto simp: less_Suc_eq)
  have "twelve_digits imsi" if "s5_id_p sample_pgw_two tid = Some imsi" for tid imsi
    using that unat_plan_imsi [of 7]
    by (auto simp: sample_pgw_two_def sample_pgw_tabs_def twelve_digits_def split: if_splits)
  then have "pgw3_in_turn scripted 1 ?cores sample_pgw_two = Inr ([s1, s2], ?t') \<and> ip_addrs ?t' = ip_addrs sample_pgw_two"
    by (intro mkb_pgw_refines_single_core [OF keys _ _ run]) (auto simp: sample_creating_asks sample_creating_keys ip)
  then show ?thesis
    by blast
qed

end
