(* ===== verification/Epc3_Ran.thy ===== *)
theory Epc3_Ran
  imports Epc3_Mtcp Epc_Ran
begin

section \<open>RAN of the data plane of version 3.0 (kby_ran.h, kby_ran.cpp)\<close>

text \<open>
  The load generator of the data plane attaches its UEs together. It opens one connection for each UE and then
  works in phases: every UE sends a message, then the answers of all UEs are collected in the order in which they
  arrive, and only when all are there does the next phase begin. \<open>main\<close> counts down \<open>x\<close> to know when that is.

  \<open>fdmap\<close> maps a connection to its UE, \<open>fdmap1\<close> (here \<open>bufmap\<close>) to the last message on it; \<open>data\<close>, the receive
  buffer of 1448 bytes, is \<open>rbuf\<close>; \<open>rpkt\<close> is the local \<open>packet\<close> of the iteration. \<open>RanContext\<close> is that of version
  1.0. The batches that \<open>mtcp_epoll_wait\<close> returns are an input, which the phases consume one after the other.
\<close>

definition no_of_connections :: nat where
  "no_of_connections = 5"

definition packet_size :: nat where
  "packet_size = 1448"

definition ran_my_port :: int where
  "ran_my_port = 2000"

definition sink_ip3 :: string where
  "sink_ip3 = ''10.129.41.57''"

definition sink_portnum :: int where
  "sink_portnum = 8500"

subsection \<open>State\<close>

record kran =
  inHandover_k :: bool
  indirect_s1_uteid_ul_k :: u32
  eNodeB_id_k :: u16
  handover_target_eNodeB_id_k :: u16
  handover_state_k :: int
  ran_ctx_k :: ran_ctx
  pkt_k :: packet

text \<open>A \<open>Ran\<close>: the members that no constructor initialises are arguments.\<close>

definition new_kran :: "fresh_hdrs \<Rightarrow> ran_junk \<Rightarrow> kran res" where
  "new_kran fresh junk =
     (case junk of ((ho, indirect, enb, target, hs), cj) \<Rightarrow>
     bindE (new_ran_ctx cj) (\<lambda>c.
     bindE (local_packet fresh) (\<lambda>pkt.
     Inr \<lparr>inHandover_k = ho, indirect_s1_uteid_ul_k = indirect, eNodeB_id_k = enb,
          handover_target_eNodeB_id_k = target, handover_state_k = hs, ran_ctx_k = c, pkt_k = pkt\<rparr>)))"

definition copy_kran :: "kran \<Rightarrow> kran res" where
  "copy_kran r = bindE (copy_pkt (pkt_k r)) (\<lambda>pkt. Inr (r\<lparr>pkt_k := pkt\<rparr>))"

text \<open>What \<open>fdmap[fd]\<close> inserts when there is no entry.\<close>

definition zero_kran :: "fresh_hdrs \<Rightarrow> kran res" where
  "zero_kran fresh = new_kran fresh ((False, 0, 0, 0, 0), (0, 0, False, 0))"

record msgbuf =
  fbuf :: "u8 list"
  flen :: int

definition zero_msgbuf :: msgbuf where
  "zero_msgbuf = \<lparr>fbuf = zero_buf, flen = 0\<rparr>"

record 'w ran3 = "('w, kran) loop" +
  bufmap :: "int \<rightharpoonup> msgbuf"
  v_fddata :: msgbuf
  v_x :: int

definition new_ran3 :: "'w \<Rightarrow> u8 list \<Rightarrow> packet \<Rightarrow> msgbuf \<Rightarrow> 'w ran3" where
  "new_ran3 w d p f =
     \<lparr>world = w, fdmap = Map.empty, rbuf = d, rpkt = p, bufmap = Map.empty, v_fddata = f,
      v_x = int no_of_connections\<rparr>"

definition buf_insert :: "int \<Rightarrow> msgbuf \<Rightarrow> 'w ran3 \<Rightarrow> 'w ran3" where
  "buf_insert fd d s = (case bufmap s fd of None \<Rightarrow> s\<lparr>bufmap := (bufmap s)(fd \<mapsto> d)\<rparr> | Some _ \<Rightarrow> s)"

definition buf_erase :: "int \<Rightarrow> 'w ran3 \<Rightarrow> 'w ran3" where
  "buf_erase fd s = s\<lparr>bufmap := (bufmap s)(fd := None)\<rparr>"

text \<open>\<open>fdmap.erase\<close> and \<open>fdmap.insert\<close> of a copy.\<close>

definition put_kran :: "int \<Rightarrow> kran \<Rightarrow> 'w ran3 \<Rightarrow> 'w ran3 res" where
  "put_kran fd u s = bindE (copy_kran u) (\<lambda>u. Inr (fd_insert fd u (fd_erase fd s)))"

text \<open>Calls whose result is ignored.\<close>

definition ctl_any :: "'w mtcp \<Rightarrow> ctl \<Rightarrow> int \<Rightarrow> ('w, 'm, 'z) loop_scheme \<Rightarrow> ('w, 'm, 'z) loop_scheme" where
  "ctl_any M c fd s = s\<lparr>world := snd (m_ctl M c fd (world s))\<rparr>"

definition nonblock_any :: "'w mtcp \<Rightarrow> int \<Rightarrow> ('w, 'm, 'z) loop_scheme \<Rightarrow> ('w, 'm, 'z) loop_scheme" where
  "nonblock_any M fd s = s\<lparr>world := snd (m_nonblock M fd (world s))\<rparr>"

subsection \<open>Connecting\<close>

text \<open>A connection that is there at once is registered for input and counted; the count is then overwritten.\<close>

definition ran3_start ::
  "'w mtcp \<Rightarrow> int \<Rightarrow> string \<Rightarrow> int \<Rightarrow> 'w ran3 \<Rightarrow> (bool \<times> 'w ran3) res" where
  "ran3_start M fd ip port s =
     (case m_connect M fd ip port (world s) of
        (Inl e, w) \<Rightarrow>
          if e = EINPROGRESS then
            bindE (ctl_or_exit M minus1 (Ctl_add EPOLLOUT) fd ''Error: epoll connection add'' (s\<lparr>world := w\<rparr>))
              (\<lambda>s. Inr (False, s))
          else Inl (Exit ''mtcp_connect'')
      | (Inr _, w) \<Rightarrow> Inr (True, ctl_any M (Ctl_add EPOLLIN) fd (s\<lparr>world := w\<rparr>)))"

definition ran3_connect :: "'w mtcp \<Rightarrow> nat \<Rightarrow> 'w ran3 \<Rightarrow> (int \<times> 'w ran3) res" where
  "ran3_connect M k s =
     bindE (socket_or_exit M ''Failed to create listening socket!'' s) (\<lambda>(fd, s).
     let s = nonblock_any M fd s in
     case m_bind M fd ran_ip3 (ran_my_port + int k) (world s) of
       (r, w) \<Rightarrow>
         if r < 0 then Inl (Exit ''Failed to bind to the socket!'')
         else bindE (ran3_start M fd mme_ip3 mme_my_port (s\<lparr>world := w\<rparr>)) (\<lambda>(at_once, s).
              Inr (fd, if at_once then s\<lparr>v_x := v_x s - 1\<rparr> else s)))"

fun ran3_connects :: "'w mtcp \<Rightarrow> nat list \<Rightarrow> 'w ran3 \<Rightarrow> (int list \<times> 'w ran3) res" where
  "ran3_connects M [] s = Inr ([], s)"
| "ran3_connects M (k # ks) s =
     bindE (ran3_connect M k s) (\<lambda>(fd, s).
     bindE (ran3_connects M ks s) (\<lambda>(fds, s). Inr (fd # fds, s)))"

text \<open>
  Waiting until the connections are open: every event with \<open>EPOLLOUT\<close> counts. A failed wait ends the loop like
  the last connection. The list of batches that are still to come is part of the result; without a further batch
  the program waits forever.
\<close>

definition count_open :: "event \<Rightarrow> 'w ran3 \<Rightarrow> 'w ran3" where
  "count_open ev s = (if ev_out ev then s\<lparr>v_x := v_x s - 1\<rparr> else s)"

fun await_connects :: "batch list \<Rightarrow> 'w ran3 \<Rightarrow> (batch list \<times> 'w ran3) res" where
  "await_connects [] s = Inl Blocked"
| "await_connects (Wait_error # bs) s = Inr (bs, s)"
| "await_connects (Events es # bs) s =
     (let s = fold count_open es s in if v_x s = 0 then Inr (bs, s) else await_connects bs s)"

subsection \<open>Sending the attach requests\<close>

definition ran3_send_attach ::
  "'w mtcp \<Rightarrow> fresh_hdrs \<Rightarrow> ran_junk \<Rightarrow> nat \<Rightarrow> int \<Rightarrow> 'w ran3 \<Rightarrow> 'w ran3 res" where
  "ran3_send_attach M fresh junk i fd s =
     bindE (new_kran fresh junk) (\<lambda>ran.
     bindE (ran_ctx_init (of_nat i) (ran_ctx_k ran)) (\<lambda>c.
     bindE (append_u64 (imsi_r c) (clear_pkt (pkt_k ran))) (\<lambda>pkt.
     bindE (append_u64 (tai_r c) pkt) (\<lambda>pkt.
     bindE (append_u64 (ksi_asme_r c) pkt) (\<lambda>pkt.
     bindE (append_u16 (nw_capability_r c) pkt) (\<lambda>pkt.
     bindE (prepend_s1ap_hdr 1 (len16 pkt) (enodeb_s1ap_ue_id_r c) 0 pkt) (\<lambda>pkt.
     bindE (prepend_len pkt) (\<lambda>pkt.
     bindE (write_pkt M fd pkt ''Error: Cant send to RAN'' s) (\<lambda>s.
     let s = ctl_any M (Ctl_add EPOLLIN) fd (ctl_any M Ctl_del fd s) in
     bindE (pkt_wire pkt) (\<lambda>m.
     bindE (buf_write (fbuf (v_fddata s)) 0 m) (\<lambda>b.
     let d = \<lparr>fbuf = b, flen = len pkt\<rparr> in
     bindE (copy_kran (ran\<lparr>ran_ctx_k := c, pkt_k := pkt\<rparr>)) (\<lambda>ran.
     Inr (buf_insert fd d (fd_insert fd ran (s\<lparr>v_fddata := d\<rparr>)))))))))))))))"

fun ran3_send_attaches ::
  "'w mtcp \<Rightarrow> fresh_hdrs \<Rightarrow> ran_junk \<Rightarrow> nat \<Rightarrow> int list \<Rightarrow> 'w ran3 \<Rightarrow> 'w ran3 res" where
  "ran3_send_attaches M fresh junk i [] s = Inr s"
| "ran3_send_attaches M fresh junk i (fd # fds) s =
     bindE (ran3_send_attach M fresh junk i fd s) (ran3_send_attaches M fresh junk (Suc i) fds)"

subsection \<open>Collecting the answers\<close>

text \<open>
  The loops that collect the answers are three copies of the same code. \<open>pkt_len\<close> is whatever the first four bytes of \<open>data\<close> say; the end
  of a stream leaves \<open>data\<close> as it was and counts as an answer; an event with \<open>EPOLLERR\<close> or \<open>EPOLLHUP\<close> closes the
  connection and does not count.
\<close>

definition ran3_receive :: "'w mtcp \<Rightarrow> fresh_hdrs \<Rightarrow> event \<Rightarrow> 'w ran3 \<Rightarrow> 'w ran3 res" where
  "ran3_receive M fresh ev s =
     (let cur_fd = ev_fd ev in
      if ev_err ev \<or> ev_hup ev then Inr (close_fd M cur_fd s)
      else if ev_in ev then
        bindE (local_packet fresh) (\<lambda>packet.
        bindE (zero_kran fresh) (\<lambda>zero.
        let ran = at_or zero (fdmap s) cur_fd;
            s = s\<lparr>fdmap := op_idx zero (fdmap s) cur_fd, rpkt := clear_pkt packet\<rparr> in
        case m_read M cur_fd (world s) of
          (None, w) \<Rightarrow> Inl (Exit ''ERROR: read packet from ran'')
        | (Some bs, w) \<Rightarrow>
            bindE (buf_write (rbuf s) 0 (take 500 bs)) (\<lambda>d.
            bindE (load_pkt (s\<lparr>rbuf := d, world := w\<rparr>)) (\<lambda>s.
            bindE (extract_s1ap_hdr (rpkt s)) (\<lambda>packet.
            bindE (pkt_wire packet) (\<lambda>m.
            bindE (buf_write (fbuf (v_fddata s)) 0 m) (\<lambda>b.
            let f = \<lparr>fbuf = b, flen = len packet\<rparr>;
                s = s\<lparr>rpkt := packet, v_fddata := f\<rparr> in
            bindE (put_kran cur_fd ran s) (\<lambda>s.
            let s = buf_insert cur_fd f (buf_erase cur_fd s) in
            Inr (s\<lparr>v_x := v_x s - 1\<rparr>))))))))) 
      else Inr s)"

text \<open>\<open>nevents < 0\<close> is tested inside the loop over the events, which a failed wait never enters.\<close>

fun await_replies :: "(event \<Rightarrow> 'w ran3 \<Rightarrow> 'w ran3 res) \<Rightarrow> batch list \<Rightarrow> 'w ran3 \<Rightarrow> (batch list \<times> 'w ran3) res" where
  "await_replies step [] s = Inl Blocked"
| "await_replies step (b # bs) s =
     bindE (case b of Wait_error \<Rightarrow> Inr s | Events es \<Rightarrow> on_events step es s) (\<lambda>s.
     if v_x s = 0 then Inr (bs, s) else await_replies step bs s)"

text \<open>The message of a connection as a fresh packet, and its UE.\<close>

definition ran3_load ::
  "fresh_hdrs \<Rightarrow> int \<Rightarrow> 'w ran3 \<Rightarrow> (kran \<times> packet \<times> 'w ran3) res" where
  "ran3_load fresh fd s =
     bindE (zero_kran fresh) (\<lambda>zero.
     bindE (local_packet fresh) (\<lambda>pkt.
     let ran = at_or zero (fdmap s) fd;
         f = at_or zero_msgbuf (bufmap s) fd;
         s = s\<lparr>fdmap := op_idx zero (fdmap s) fd, bufmap := op_idx zero_msgbuf (bufmap s) fd, v_fddata := f\<rparr> in
     bindE (buf_read (fbuf f) 0 (flen f)) (\<lambda>m.
     bindE (buf_write (data pkt) 0 m) (\<lambda>d.
     Inr (ran, pkt\<lparr>data := d, len := flen f\<rparr>, s)))))"

subsection \<open>Authentication, security mode, attach accept\<close>

text \<open>The bodies of the loops between the collecting phases, for one UE. \<open>return false\<close> leaves \<open>main\<close>.\<close>

definition ran3_authenticate :: "'w mtcp \<Rightarrow> fresh_hdrs \<Rightarrow> int \<Rightarrow> 'w ran3 \<Rightarrow> 'w ran3 res" where
  "ran3_authenticate M fresh fd s =
     bindE (ran3_load fresh fd s) (\<lambda>(ran, pkt, s).
     bindE (extract_s1ap_hdr pkt) (\<lambda>pkt.
     let c = (ran_ctx_k ran)\<lparr>mme_s1ap_ue_id_r := mme_s1ap_ue_id (s1ap_hdr pkt)\<rparr> in
     bindE (extract_u64 pkt) (\<lambda>(xautn_num, pkt).
     bindE (extract_u64 pkt) (\<lambda>(rand_num, pkt).
     bindE (extract_u64 pkt) (\<lambda>(ksi, pkt).
     let c = c\<lparr>ksi_asme_r := ksi\<rparr>;
         sqn = rand_num + 1;
         res = key_r c + sqn + rand_num;
         autn_num = res + 1 in
     if autn_num \<noteq> xautn_num then Inl (Exit ''ran_authenticate: authentication of MME failure'')
     else
       let ck = res + 2; ik = res + 3;
           c = c\<lparr>k_asme_r := ck + ik + sqn + ucast (plmn_id_r c)\<rparr> in
       bindE (append_u64 res (clear_pkt pkt)) (\<lambda>pkt.
       bindE (prepend_s1ap_hdr 2 (len16 pkt) (enodeb_s1ap_ue_id_r c) (mme_s1ap_ue_id_r c) pkt) (\<lambda>pkt.
       bindE (prepend_len pkt) (\<lambda>pkt.
       bindE (write_pkt M fd pkt ''Error: Cant send to RAN'' s) (\<lambda>s.
       put_kran fd (ran\<lparr>ran_ctx_k := c\<rparr>) s)))))))))"

text \<open>The test for an empty message only traces here.\<close>

definition ran3_set_security :: "ext_lib \<Rightarrow> 'w mtcp \<Rightarrow> fresh_hdrs \<Rightarrow> int \<Rightarrow> 'w ran3 \<Rightarrow> 'w ran3 res" where
  "ran3_set_security X M fresh fd s =
     bindE (ran3_load fresh fd s) (\<lambda>(ran, pkt, s).
     bindE (extract_s1ap_hdr pkt) (\<lambda>pkt.
     bindE (rem_hmac pkt) (\<lambda>(hmac_xres, pkt).
     let c = (ran_ctx_k ran)\<lparr>mme_s1ap_ue_id_r := mme_s1ap_ue_id (s1ap_hdr pkt)\<rparr> in
     bindE (extract_u64 pkt) (\<lambda>(ksi, pkt).
     bindE (extract_u16 pkt) (\<lambda>(nw_cap, pkt).
     bindE (extract_u64 pkt) (\<lambda>(enc_algo, pkt).
     bindE (extract_u64 pkt) (\<lambda>(int_algo, pkt).
     let c = c\<lparr>ksi_asme_r := ksi, nw_capability_r := nw_cap, nas_enc_algo_r := enc_algo, nas_int_algo_r := int_algo\<rparr>;
         c = c\<lparr>k_nas_enc_r := k_asme_r c + nas_enc_algo_r c + count_r c + bearer_r c + dir_r c + 1\<rparr>;
         c = c\<lparr>k_nas_int_r := k_asme_r c + nas_int_algo_r c + count_r c + bearer_r c + dir_r c + 1\<rparr> in
     bindE (get_hmac X (data pkt) (len pkt) (k_nas_int_r c)) (\<lambda>hmac_res.
     if \<not> cmp_hmacs hmac_res hmac_xres then Inl (Exit ''hmac error: ran_setsecurity'')
     else
       bindE (append_bool True (clear_pkt pkt)) (\<lambda>pkt.
       bindE (crypt_enc X (k_nas_enc_r c) pkt) (\<lambda>pkt.
       bindE (add_hmac X (k_nas_int_r c) pkt) (\<lambda>pkt.
       bindE (prepend_s1ap_hdr 3 (len16 pkt) (enodeb_s1ap_ue_id_r c) (mme_s1ap_ue_id_r c) pkt) (\<lambda>pkt.
       bindE (prepend_len pkt) (\<lambda>pkt.
       bindE (write_pkt M fd pkt ''Error: Cant send to RAN'' s) (\<lambda>s.
       put_kran fd (ran\<lparr>ran_ctx_k := c\<rparr>) s))))))))))))))"

text \<open>
  The last item of the attach accept is a \<open>bool\<close>, one byte; \<open>res\<close>, into which it is extracted here, is the
  \<open>uint64_t\<close> that \<open>main\<close> declares, so eight bytes are read.
\<close>

definition ran3_set_eps_session :: "ext_lib \<Rightarrow> 'w mtcp \<Rightarrow> fresh_hdrs \<Rightarrow> int \<Rightarrow> 'w ran3 \<Rightarrow> 'w ran3 res" where
  "ran3_set_eps_session X M fresh fd s =
     bindE (ran3_load fresh fd s) (\<lambda>(ran, pkt, s).
     let c = ran_ctx_k ran in
     if len pkt \<le> 0 then Inl (Exit ''ran_setepssession: no message'')
     else
       bindE (extract_s1ap_hdr pkt) (\<lambda>pkt.
       bindE (hmac_check X (k_nas_int_r c) pkt) (\<lambda>(res, pkt).
       if \<not> res then Inl (Exit ''hmac error: ran_setepssession'')
       else
         bindE (crypt_dec X (k_nas_enc_r c) pkt) (\<lambda>pkt.
         bindE (extract_u64 pkt) (\<lambda>(guti, pkt).
         bindE (extract_u8 pkt) (\<lambda>(eps_bearer_id, pkt).
         bindE (extract_u8 pkt) (\<lambda>(e_rab_id, pkt).
         bindE (extract_u32 pkt) (\<lambda>(s1_ul, pkt).
         bindE (extract_u64 pkt) (\<lambda>(k_enodeb, pkt).
         bindE (extract_u16 pkt) (\<lambda>(nw_cap, pkt).
         bindE (extract_int pkt) (\<lambda>(tai_list_size, pkt).
         bindE (extract_u64s tai_list_size pkt) (\<lambda>(tais, pkt).
         bindE (extract_u64 pkt) (\<lambda>(tau_timer, pkt).
         bindE (extract_string pkt) (\<lambda>(ip_addr, pkt).
         bindE (extract_string pkt) (\<lambda>(sgw_s1_ip, pkt).
         bindE (extract_int pkt) (\<lambda>(sgw_s1_port, pkt).
         bindE (extract_u64 pkt) (\<lambda>(res, pkt).
         let c = c\<lparr>guti_r := guti, eps_bearer_id_r := eps_bearer_id, e_rab_id_r := e_rab_id,
                   s1_uteid_ul_r := s1_ul, nw_capability_r := nw_cap,
                   tai_list_r := tais, tau_timer_r := tau_timer, ip_addr_r := ip_addr\<rparr> in
         if res = 0 then Inl (Exit ''ran_setepssession: attach request failure'')
         else
           let c = c\<lparr>s1_uteid_dl_r := s1_uteid_ul_r c\<rparr> in
           bindE (append_u8 (eps_bearer_id_r c) (clear_pkt pkt)) (\<lambda>pkt.
           bindE (append_u32 (s1_uteid_dl_r c) pkt) (\<lambda>pkt.
           bindE (crypt_enc X (k_nas_enc_r c) pkt) (\<lambda>pkt.
           bindE (add_hmac X (k_nas_int_r c) pkt) (\<lambda>pkt.
           bindE (prepend_s1ap_hdr 4 (len16 pkt) (enodeb_s1ap_ue_id_r c) (mme_s1ap_ue_id_r c) pkt) (\<lambda>pkt.
           bindE (prepend_len pkt) (\<lambda>pkt.
           bindE (write_pkt M fd pkt ''Error: Cant send to RAN'' s) (\<lambda>s.
           put_kran fd (ran\<lparr>ran_ctx_k := c\<lparr>emm_state_r := 1, ecm_state_r := 1\<rparr>\<rparr>) s))))))))))))))))))))))))"

text \<open>A loop over the connections in the order in which they were opened.\<close>

fun for_fds :: "(int \<Rightarrow> 's \<Rightarrow> 's res) \<Rightarrow> int list \<Rightarrow> 's \<Rightarrow> 's res" where
  "for_fds f [] s = Inr s"
| "for_fds f (fd # fds) s = bindE (f fd s) (for_fds f fds)"

text \<open>From the attach requests to the attach completes. There is one descriptor in \<open>sock_store\<close> for each UE.\<close>

definition ran3_attach ::
  "ext_lib \<Rightarrow> 'w mtcp \<Rightarrow> fresh_hdrs \<Rightarrow> ran_junk \<Rightarrow> int list \<Rightarrow> batch list \<Rightarrow> 'w ran3 \<Rightarrow> (batch list \<times> 'w ran3) res" where
  "ran3_attach X M fresh junk sock_store bs s =
     (let n = int (length sock_store); collect = (\<lambda>bs s. await_replies (ran3_receive M fresh) bs (s\<lparr>v_x := n\<rparr>)) in
     bindE (ran3_send_attaches M fresh junk 0 sock_store s) (\<lambda>s.
     bindE (collect bs s) (\<lambda>(bs, s).
     bindE (for_fds (ran3_authenticate M fresh) sock_store s) (\<lambda>s.
     bindE (collect bs s) (\<lambda>(bs, s).
     bindE (for_fds (ran3_set_security X M fresh) sock_store s) (\<lambda>s.
     bindE (collect bs s) (\<lambda>(bs, s).
     bindE (for_fds (ran3_set_eps_session X M fresh) sock_store s) (\<lambda>s.
     Inr (bs, s)))))))))"

subsection \<open>Sending data\<close>

definition ran3_sink_connect :: "'w mtcp \<Rightarrow> 'w ran3 \<Rightarrow> (int \<times> 'w ran3) res" where
  "ran3_sink_connect M s =
     bindE (socket_or_exit M ''Failed to create listening socket!'' s) (\<lambda>(fd, s).
     bindE (ran3_start M fd sink_ip3 sink_portnum (nonblock_any M fd s)) (\<lambda>(_, s). Inr (fd, s)))"

fun ran3_sink_connects :: "'w mtcp \<Rightarrow> nat \<Rightarrow> 'w ran3 \<Rightarrow> (int list \<times> 'w ran3) res" where
  "ran3_sink_connects M 0 s = Inr ([], s)"
| "ran3_sink_connects M (Suc n) s =
     bindE (ran3_sink_connect M s) (\<lambda>(fd, s).
     bindE (ran3_sink_connects M n s) (\<lambda>(fds, s). Inr (fd # fds, s)))"

text \<open>
  Every writable connection gets another block. Each wait comes with the answer of the clock: whether the
  transfer time is over. The counter \<open>sentpkts\<close> is a second component of the state.
\<close>

definition data_block :: "u8 list" where
  "data_block = replicate packet_size 49"

definition ran3_send_block :: "'w mtcp \<Rightarrow> event \<Rightarrow> int \<times> 'w ran3 \<Rightarrow> int \<times> 'w ran3" where
  "ran3_send_block M ev ns =
     (case ns of (sentpkts, s) \<Rightarrow>
      if ev_err ev \<or> ev_hup ev then (sentpkts, close_fd M (ev_fd ev) s)
      else if ev_out ev then (sentpkts + 1, s\<lparr>world := snd (m_write M (ev_fd ev) data_block (world s))\<rparr>)
      else (sentpkts, s))"

fun ran3_transfer :: "'w mtcp \<Rightarrow> (batch \<times> bool) list \<Rightarrow> int \<times> 'w ran3 \<Rightarrow> (int \<times> 'w ran3) res" where
  "ran3_transfer M [] ns = Inl Blocked"
| "ran3_transfer M ((Wait_error, time_over) # bs) ns = Inr ns"
| "ran3_transfer M ((Events es, time_over) # bs) ns =
     (let ns = fold (ran3_send_block M) es ns in if time_over then Inr ns else ran3_transfer M bs ns)"

definition close_all :: "'w mtcp \<Rightarrow> int list \<Rightarrow> ('w, 'm, 'z) loop_scheme \<Rightarrow> ('w, 'm, 'z) loop_scheme" where
  "close_all M fds s = fold (\<lambda>fd s. close_fd M fd (ctl_any M Ctl_del fd s)) fds s"

definition ran3_main ::
  "ext_lib \<Rightarrow> 'w mtcp \<Rightarrow> fresh_hdrs \<Rightarrow> ran_junk \<Rightarrow> batch list \<Rightarrow> (batch \<times> bool) list \<Rightarrow> 'w ran3 \<Rightarrow> (int \<times> 'w ran3) res" where
  "ran3_main X M fresh junk bs ts s =
     bindE (ran3_connects M [0..<no_of_connections] s) (\<lambda>(sock_store, s).
     bindE (await_connects bs (s\<lparr>v_x := int no_of_connections\<rparr>)) (\<lambda>(bs, s).
     bindE (ran3_attach X M fresh junk sock_store bs s) (\<lambda>(bs, s).
     bindE (ran3_sink_connects M no_of_connections (close_all M sock_store s)) (\<lambda>(sock_sink, s).
     bindE (ran3_transfer M ts (0, s)) (\<lambda>(sentpkts, s).
     Inr (sentpkts, close_all M sock_sink s))))))"

end
