(* ===== verification/Epc3_Ran_Session.thy ===== *)
theory Epc3_Ran_Session
  imports Epc3_Ran Epc_Ran_Session Epc_Model
begin

section \<open>The phases of the RAN of version 3.0\<close>

subsection \<open>When a collecting phase ends\<close>

text \<open>
  A phase counts events, not connections: it ends at the first end of a batch where the number of readable events
  is the number of connections, and never when that number has been missed.
\<close>

definition answer_event :: "event \<Rightarrow> bool" where
  "answer_event e \<longleftrightarrow> ev_in e \<and> \<not> ev_err e \<and> \<not> ev_hup e"

definition arrivals :: "batch list \<Rightarrow> event list" where
  "arrivals bs = concat (map (\<lambda>b. case b of Wait_error \<Rightarrow> [] | Events es \<Rightarrow> es) bs)"

definition answers :: "batch list \<Rightarrow> int" where
  "answers bs = int (length (filter answer_event (arrivals bs)))"

lemma arrivals_simps [simp]:
  "arrivals [] = []" "arrivals (Wait_error # bs) = arrivals bs" "arrivals (Events es # bs) = es @ arrivals bs"
  by (simp_all add: arrivals_def)

lemma answers_nonneg: "0 \<le> answers bs"
  by (simp add: answers_def)

lemma answers_append: "answers (bs @ cs) = answers bs + answers cs"
  by (simp add: answers_def arrivals_def)

lemma load_pkt_x: "load_pkt s = Inr s' \<Longrightarrow> v_x s' = v_x s"
  by (auto simp: load_pkt_def bindE_eq_Inr Let_def)

lemma put_kran_x: "put_kran fd u s = Inr s' \<Longrightarrow> v_x s' = v_x s"
  by (auto simp: put_kran_def bindE_eq_Inr fd_insert_def fd_erase_def split: option.splits)

lemma buf_simps [simp]:
  "v_x (buf_insert fd f s) = v_x s" "v_x (buf_erase fd s) = v_x s"
  "fdmap (buf_insert fd f s) = fdmap s" "fdmap (buf_erase fd s) = fdmap s"
  "world (buf_insert fd f s) = world s" "world (buf_erase fd s) = world s"
  "rbuf (buf_insert fd f s) = rbuf s" "rbuf (buf_erase fd s) = rbuf s"
  "v_fddata (buf_insert fd f s) = v_fddata s" "v_fddata (buf_erase fd s) = v_fddata s"
  "bufmap (buf_erase fd s) = (bufmap s)(fd := None)"
  "bufmap (buf_insert fd f s) = (case bufmap s fd of None \<Rightarrow> (bufmap s)(fd \<mapsto> f) | Some _ \<Rightarrow> bufmap s)"
  by (auto simp: buf_insert_def buf_erase_def split: option.splits)

lemma ran3_receive_x:
  assumes "ran3_receive M fresh e s = Inr s'"
  shows "v_x s' = v_x s - (if answer_event e then 1 else 0)"
  using assms
  by (cases "m_read M (ev_fd e) (world s)", cases "fst (m_read M (ev_fd e) (world s))")
    (auto simp: ran3_receive_def answer_event_def Let_def close_fd_def bindE_eq_Inr
      split: if_splits dest!: load_pkt_x put_kran_x)

lemma ran3_events_x:
  assumes "on_events (ran3_receive M fresh) es s = Inr s'"
  shows "v_x s' = v_x s - int (length (filter answer_event es))"
  using assms
proof (induction es arbitrary: s)
  case Nil
  then show ?case by simp
next
  case (Cons e es)
  then show ?case
    by (auto simp: bindE_eq_Inr dest!: ran3_receive_x)
qed

text \<open>The batches that a phase has used hold as many answers as \<open>x\<close> said.\<close>

lemma await_replies_exact:
  assumes "await_replies (ran3_receive M fresh) bs s = Inr (rest, s')"
  shows "\<exists>used. bs = used @ rest \<and> used \<noteq> [] \<and> answers used = v_x s"
  using assms
proof (induction bs arbitrary: s)
  case Nil
  then show ?case by simp
next
  case (Cons b bs)
  from Cons.prems obtain t where t: "v_x t = v_x s - answers [b]"
      and k: "(if v_x t = 0 then Inr (bs, t) else await_replies (ran3_receive M fresh) bs t) = Inr (rest, s')"
    by (auto simp: bindE_eq_Inr answers_def split: batch.splits dest!: ran3_events_x)
  show ?case
  proof (cases "v_x t = 0")
    case True
    with k t show ?thesis
      by (intro exI [of _ "[b]"]) simp
  next
    case False
    with k Cons.IH [of t] obtain used where "bs = used @ rest" "answers used = v_x t"
      by auto
    with t show ?thesis
      using answers_append [of "[b]" used] by (intro exI [of _ "b # used"]) simp
  qed
qed

lemma await_connects_exact:
  assumes "await_connects bs s = Inr (rest, s')" and "Wait_error \<notin> set bs"
  shows "\<exists>used. bs = used @ rest \<and> used \<noteq> [] \<and> int (length (filter ev_out (arrivals used))) = v_x s"
  using assms
proof (induction bs s rule: await_connects.induct)
  case (3 es bs s)
  have x: "v_x (fold count_open es s) = v_x s - int (length (filter ev_out es))" for s :: "'a ran3"
    by (induction es arbitrary: s) (simp_all add: count_open_def)
  show ?case
  proof (cases "v_x (fold count_open es s) = 0")
    case True
    with 3 x show ?thesis
      by (intro exI [of _ "[Events es]"]) (auto simp: Let_def)
  next
    case False
    with 3 obtain used where "bs = used @ rest"
        "int (length (filter ev_out (arrivals used))) = v_x (fold count_open es s)"
      by (auto simp: Let_def)
    with x show ?thesis
      by (intro exI [of _ "Events es # used"]) simp
  qed
qed simp_all

text \<open>Once the count is below zero the phase does not end.\<close>

lemma await_replies_missed:
  "v_x s < 0 \<Longrightarrow> await_replies (ran3_receive M fresh) bs s \<noteq> Inr (rest, s')"
  by (metis await_replies_exact answers_nonneg not_le)

subsection \<open>The tables\<close>

text \<open>
  What the phases keep: buffers have their sizes. \<open>kran_at fd c s\<close>: the UE of the connection has the context \<open>c\<close>;
  \<open>msg_at fd m s\<close>: the last message of the connection is \<open>m\<close>.
\<close>

definition ran3_ok :: "'w ran3 \<Rightarrow> bool" where
  "ran3_ok s \<longleftrightarrow> length (rbuf s) = 1448 \<and> length (fbuf (v_fddata s)) = 500 \<and>
     (\<forall>fd f. bufmap s fd = Some f \<longrightarrow> length (fbuf f) = 500)"

definition kran_at :: "int \<Rightarrow> ran_ctx \<Rightarrow> 'w ran3 \<Rightarrow> bool" where
  "kran_at fd c s \<longleftrightarrow> (\<exists>u. fdmap s fd = Some u \<and> ran_ctx_k u = c \<and> copy_pkt (pkt_k u) = Inr (pkt_k u))"

definition msg_at :: "int \<Rightarrow> u8 list \<Rightarrow> 'w ran3 \<Rightarrow> bool" where
  "msg_at fd m s \<longleftrightarrow> (\<exists>f t. bufmap s fd = Some f \<and> flen f = int (length m) \<and> fbuf f = m @ t)"

lemma zero_kran_ok [simp]: "\<exists>z. zero_kran fresh = Inr z"
  using get_plmn_id_1_1
  by (cases fresh) (auto simp: zero_kran_def new_kran_def new_ran_ctx_def local_packet_def)

lemma put_kran_good:
  "copy_pkt (pkt_k u) = Inr (pkt_k u) \<Longrightarrow> put_kran fd u s = Inr (s\<lparr>fdmap := (fdmap s)(fd \<mapsto> u)\<rparr>)"
  by (simp add: put_kran_def copy_kran_def fd_insert_def fd_erase_def)

lemma local_packet_view [simp]:
  "local_packet fresh = Inr (view (fst fresh) (fst (snd fresh)) (snd (snd fresh)) [] [])"
  by (cases fresh) (simp add: local_packet_def)

text \<open>A message with a header that fits into the buffer of a connection behind its length.\<close>

definition fits :: "u8 list \<Rightarrow> bool" where
  "fits m \<longleftrightarrow> (\<exists>h b. m = s1ap_bytes h @ b) \<and> length m \<le> 496"

lemma ran3_receive_loaded:
  assumes ok: "ran3_ok s" and u: "kran_at fd c s" and "fits m" and r: "m_read M fd (world s) = (Some bs, w)"
    and d: "buf_write (rbuf s) 0 (take 500 bs) = Inr (frame m @ t)"
  shows "\<exists>s'. ran3_receive M fresh (readable fd) s = Inr s' \<and> ran3_ok s' \<and> world s' = w \<and> v_x s' = v_x s - 1 \<and>
    fdmap s' = fdmap s \<and> msg_at fd m s' \<and> rbuf s' = frame m @ t \<and> (\<forall>fd'. fd' \<noteq> fd \<longrightarrow> bufmap s' fd' = bufmap s fd')"
proof -
  from \<open>fits m\<close> obtain h b where m: "m = s1ap_bytes h @ b" and "length m \<le> 496"
    by (auto simp: fits_def)
  obtain z where z: "zero_kran fresh = Inr z"
    using zero_kran_ok by blast
  obtain v where v: "fdmap s fd = Some v" "copy_pkt (pkt_k v) = Inr (pkt_k v)"
    using u by (auto simp: kran_at_def)
  have len: "length (frame m @ t) = 1448"
    using buf_write_length [OF d] ok by (simp add: ran3_ok_def)
  define q where "q = s\<lparr>rpkt := view (fst fresh) (fst (snd fresh)) (snd (snd fresh)) [] [],
    rbuf := frame m @ t, world := w\<rparr>"
  have l: "load_pkt q = Inr (q\<lparr>rpkt := view (fst fresh) (fst (snd fresh)) (snd (snd fresh)) [] m\<rparr>)"
    using \<open>length m \<le> 496\<close> by (intro load_frame) (simp_all add: q_def)
  have f: "buf_write (fbuf (v_fddata s)) 0 m = Inr (m @ drop (length m) (fbuf (v_fddata s)))"
    using ok \<open>length m \<le> 496\<close> by (simp add: ran3_ok_def buf_write_def)
  have o: "op_idx z (fdmap s) fd = fdmap s" "at_or z (fdmap s) fd = v"
    using v(1) by (simp_all add: op_idx_def at_or_def fun_upd_idem)
  have "length (s1ap_bytes h @ b) \<le> 496"
    using \<open>length m \<le> 496\<close> m by simp
  then show ?thesis
    using ok z v d l [unfolded q_def] f o r len
    by (simp add: ran3_receive_def Let_def m put_kran_good ran3_ok_def msg_at_def fun_upd_idem)
qed

lemma ran3_receive_frame:
  assumes "ran3_ok s" and "kran_at fd c s" and "fits m" and "play M (Read fd (frame m)) (world s) = Some w"
  shows "\<exists>s' t. ran3_receive M fresh (readable fd) s = Inr s' \<and> ran3_ok s' \<and> world s' = w \<and> v_x s' = v_x s - 1 \<and>
    fdmap s' = fdmap s \<and> msg_at fd m s' \<and> rbuf s' = frame m @ t \<and> (\<forall>fd'. fd' \<noteq> fd \<longrightarrow> bufmap s' fd' = bufmap s fd')"
proof -
  have "buf_write (rbuf s) 0 (take 500 (frame m)) = Inr (frame m @ drop (4 + length m) (rbuf s))"
    using assms(1,3) by (simp add: ran3_ok_def fits_def buf_write_def)
  from ran3_receive_loaded [OF assms(1-3) play_read [OF assms(4)] this] show ?thesis
    by blast
qed

text \<open>At the end of a stream the message that is still in the buffer, of whatever connection, is taken again.\<close>

lemma ran3_receive_eof:
  assumes "ran3_ok s" and "kran_at fd c s" and "fits m" and "rbuf s = frame m @ t"
    and "play M (Read fd []) (world s) = Some w"
  shows "\<exists>s'. ran3_receive M fresh (readable fd) s = Inr s' \<and> ran3_ok s' \<and> world s' = w \<and> v_x s' = v_x s - 1 \<and>
    fdmap s' = fdmap s \<and> msg_at fd m s'"
proof -
  have "buf_write (rbuf s) 0 (take 500 []) = Inr (frame m @ t)"
    using assms(4) by (simp add: buf_write_def)
  from ran3_receive_loaded [OF assms(1-3) play_read [OF assms(5)] this] show ?thesis
    by blast
qed

text \<open>The order of arrival is free: the messages lie with their connections afterwards.\<close>

lemma ran3_receive_all:
  assumes "ran3_ok s" and "\<forall>fd\<in>set es. kran_at fd (c fd) s" and "\<forall>fd\<in>set es. fits (m fd)"
    and "plays M (map (\<lambda>fd. Read fd (frame (m fd))) es) (world s) = Some w"
  shows "\<exists>s'. on_events (ran3_receive M fresh) (map readable es) s = Inr s' \<and> ran3_ok s' \<and> world s' = w \<and>
    v_x s' = v_x s - int (length es) \<and> fdmap s' = fdmap s \<and> (\<forall>fd\<in>set es. msg_at fd (m fd) s') \<and>
    (\<forall>fd. fd \<notin> set es \<longrightarrow> bufmap s' fd = bufmap s fd)"
  using assms
proof (induction es arbitrary: s)
  case Nil
  then show ?case by simp
next
  case (Cons fd es)
  from Cons.prems(4) obtain w1 where r: "play M (Read fd (frame (m fd))) (world s) = Some w1"
      and p: "plays M (map (\<lambda>fd. Read fd (frame (m fd))) es) w1 = Some w"
    by (auto split: option.splits)
  obtain s1 where s1: "ran3_receive M fresh (readable fd) s = Inr s1" "ran3_ok s1" "world s1 = w1"
      "v_x s1 = v_x s - 1" "fdmap s1 = fdmap s" "msg_at fd (m fd) s1"
      "\<And>fd'. fd' \<noteq> fd \<Longrightarrow> bufmap s1 fd' = bufmap s fd'"
    using ran3_receive_frame [OF Cons.prems(1) _ _ r, of "c fd" fresh] Cons.prems(2,3) by force
  have "\<forall>fd\<in>set es. kran_at fd (c fd) s1"
    using Cons.prems(2) s1(5) by (simp add: kran_at_def)
  with Cons.IH [OF s1(2)] Cons.prems(3) p s1(3) obtain s' where
    s': "on_events (ran3_receive M fresh) (map readable es) s1 = Inr s'" "ran3_ok s'" "world s' = w"
      "v_x s' = v_x s1 - int (length es)" "fdmap s' = fdmap s1" "\<forall>fd\<in>set es. msg_at fd (m fd) s'"
      "\<And>fd. fd \<notin> set es \<Longrightarrow> bufmap s' fd = bufmap s1 fd"
    by auto
  have "msg_at fd (m fd) s'"
    using s'(6) s'(7) [of fd] s1(6) by (cases "fd \<in> set es") (auto simp: msg_at_def)
  with s1 s' show ?case
    by simp
qed

lemma on_events_append:
  "on_events step (es @ fs) s = bindE (on_events step es s) (on_events step fs)"
  by (induction es arbitrary: s) (auto simp: bindE_def split: sum.splits)

text \<open>However the answers are spread over batches, the phase ends with the batch that brings the last one.\<close>

lemma await_replies_batches:
  assumes "on_events (ran3_receive M fresh) (arrivals bs) s = Inr s'" and "\<forall>e\<in>set (arrivals bs). answer_event e"
    and "v_x s = answers bs" and "bs \<noteq> []" and "arrivals [last bs] \<noteq> []"
  shows "await_replies (ran3_receive M fresh) (bs @ rest) s = Inr (rest, s')"
  using assms
proof (induction bs arbitrary: s)
  case Nil
  then show ?case by simp
next
  case (Cons b bs)
  have split: "arrivals (b # bs) = arrivals [b] @ arrivals bs"
    by (simp add: arrivals_def)
  then obtain t where t: "on_events (ran3_receive M fresh) (arrivals [b]) s = Inr t"
      and k: "on_events (ran3_receive M fresh) (arrivals bs) t = Inr s'"
    using Cons.prems(1) by (auto simp: on_events_append bindE_eq_Inr)
  have step: "(case b of Wait_error \<Rightarrow> Inr s | Events es \<Rightarrow> on_events (ran3_receive M fresh) es s) = Inr t"
    using t by (cases b) simp_all
  have x: "v_x t = answers bs"
    using Cons.prems(3) ran3_events_x [OF t] by (simp add: answers_def split)
  show ?case
  proof (cases "bs = []")
    case True
    with k x step show ?thesis
      by (simp add: answers_def)
  next
    case False
    then have "arrivals [last bs] \<noteq> []"
      using Cons.prems(5) by simp
    moreover have "filter answer_event (arrivals [last bs]) = arrivals [last bs]"
      using Cons.prems(2) False by (intro filter_True) (auto simp: arrivals_def split: batch.splits dest: last_in_set)
    moreover have "arrivals bs = arrivals (butlast bs) @ arrivals [last bs]"
      using arg_cong [OF append_butlast_last_id [OF False, symmetric], of arrivals] by (simp add: arrivals_def)
    ultimately have "answers bs > 0"
      by (cases "arrivals [last bs]") (simp_all add: answers_def)
    with Cons.IH [OF k _ x False] Cons.prems(2) \<open>arrivals [last bs] \<noteq> []\<close> step x show ?thesis
      by (simp add: split)
  qed
qed

text \<open>
  Exactly when a phase ends, with which batches left and in which state: with the first batch at whose end the answers
  add up to \<open>x\<close>. A number that is passed in the middle of a batch is missed.
\<close>

definition first_total :: "int \<Rightarrow> batch list \<Rightarrow> bool" where
  "first_total x bs \<longleftrightarrow> bs \<noteq> [] \<and> answers bs = x \<and> list_all (\<lambda>n. answers (take n bs) \<noteq> x) [1..<length bs]"

lemma answers_Cons: "answers (b # bs) = answers [b] + answers bs"
  using answers_append [of "[b]" bs] by simp

lemma first_total_Cons:
  "first_total x (b # bs) \<longleftrightarrow> (if answers [b] = x then bs = [] else first_total (x - answers [b]) bs)"
proof -
  have "list_all (\<lambda>n. answers (take n (b # bs)) \<noteq> x) [1..<length (b # bs)] \<longleftrightarrow>
      (bs \<noteq> [] \<longrightarrow> answers [b] \<noteq> x) \<and> list_all (\<lambda>n. answers (take n bs) \<noteq> x - answers [b]) [1..<length bs]"
  proof (cases "bs = []")
    case False
    then have e: "[1..<length (b # bs)] = 1 # map Suc [1..<length bs]"
      by (cases bs) (simp_all add: upt_conv_Cons map_Suc_upt del: upt_Suc)
    moreover have "answers (take (Suc n) (b # bs)) \<noteq> x \<longleftrightarrow> answers (take n bs) \<noteq> x - answers [b]" for n
      using answers_Cons [of b "take n bs"] by auto
    ultimately show ?thesis
      using False unfolding e by (simp add: list.pred_map comp_def del: upt_Suc)
  qed simp
  moreover have "answers (b # bs) = x \<longleftrightarrow> answers bs = x - answers [b]"
    using answers_Cons [of b bs] by auto
  ultimately show ?thesis
    by (cases "bs = []") (auto simp: first_total_def answers_def)
qed

lemma await_step:
  "await_replies R (b # bs) s =
     bindE (on_events R (arrivals [b]) s) (\<lambda>t. if v_x t = 0 then Inr (bs, t) else await_replies R bs t)"
  by (cases b) simp_all

lemma await_replies_iff:
  "await_replies (ran3_receive M fresh) bs s = Inr (rest, s') \<longleftrightarrow>
     (\<exists>used. bs = used @ rest \<and> first_total (v_x s) used \<and> on_events (ran3_receive M fresh) (arrivals used) s = Inr s')"
proof (induction bs arbitrary: s)
  case Nil
  then show ?case
    by (simp add: first_total_def)
next
  case (Cons b bs)
  let ?R = "ran3_receive M fresh"
  define g where "g = on_events ?R (arrivals [b]) s"
  have step: "await_replies ?R (b # bs) s = bindE g (\<lambda>t. if v_x t = 0 then Inr (bs, t) else await_replies ?R bs t)"
    by (simp only: await_step g_def)
  have run: "on_events ?R (arrivals (b # u)) s = bindE g (on_events ?R (arrivals u))" for u
  proof -
    have "arrivals (b # u) = arrivals [b] @ arrivals u"
      by (simp add: arrivals_def)
    then show ?thesis
      by (simp only: on_events_append g_def)
  qed
  have used: "(\<exists>used. b # bs = used @ rest \<and> P used) \<longleftrightarrow> P [] \<and> rest = b # bs \<or> (\<exists>u. bs = u @ rest \<and> P (b # u))" for P
    by (auto simp: Cons_eq_append_conv)
  have none: "\<not> first_total x []" for x
    by (simp add: first_total_def)
  show ?case
  proof (cases g)
    case (Inl e)
    then show ?thesis
      unfolding used run step by (simp add: none)
  next
    case (Inr t)
    have x: "v_x t = v_x s - answers [b]"
      using ran3_events_x [of M fresh "arrivals [b]" s t] Inr by (simp add: answers_def g_def)
    show ?thesis
    proof (cases "v_x t = 0")
      case True
      then have "answers [b] = v_x s"
        using x by simp
      then show ?thesis
        unfolding used run step Inr bindE_Inr first_total_Cons using True none by auto
    next
      case False
      then have "answers [b] \<noteq> v_x s"
        using x by simp
      then show ?thesis
        unfolding used run step Inr bindE_Inr first_total_Cons using False none by (simp add: Cons.IH [of t] x)
    qed
  qed
qed

lemma await_replies_blocked:
  assumes "on_events (ran3_receive M fresh) (arrivals bs) s = Inr t"
    and "list_all (\<lambda>n. answers (take n bs) \<noteq> v_x s) [1..<Suc (length bs)]"
  shows "await_replies (ran3_receive M fresh) bs s = Inl Blocked"
  using assms
proof (induction bs arbitrary: s)
  case (Cons b bs)
  have split: "arrivals (b # bs) = arrivals [b] @ arrivals bs"
    by (simp add: arrivals_def)
  then obtain u where u: "on_events (ran3_receive M fresh) (arrivals [b]) s = Inr u"
      and k: "on_events (ran3_receive M fresh) (arrivals bs) u = Inr t"
    using Cons.prems(1) by (auto simp: on_events_append bindE_eq_Inr)
  have x: "v_x u = v_x s - answers [b]"
    using ran3_events_x [OF u] by (simp add: answers_def)
  have other: "answers (take n (b # bs)) \<noteq> v_x s" if "1 \<le> n" "n \<le> Suc (length bs)" for n
    using Cons.prems(2) that by (simp add: list_all_iff del: upt_Suc)
  have "v_x u \<noteq> 0"
    using other [of 1] x by simp
  moreover have "answers (take n bs) \<noteq> v_x u" if "1 \<le> n" "n \<le> length bs" for n
    using other [of "Suc n"] that x answers_Cons [of b "take n bs"] by auto
  then have "list_all (\<lambda>n. answers (take n bs) \<noteq> v_x u) [1..<Suc (length bs)]"
    by (simp add: list_all_iff del: upt_Suc)
  ultimately show ?case
    unfolding await_step u bindE_Inr using Cons.IH [OF k] by simp
qed simp

subsection \<open>One message of every UE\<close>

text \<open>
  The contract of a sending phase: when the UE of the connection has the context \<open>c fd\<close> and \<open>ok fd\<close> holds, the
  body of the loop takes the message \<open>m fd\<close>, writes \<open>out fd\<close> and leaves the context \<open>c' fd\<close>. Then the loop over all
  connections does this for every UE.
\<close>

definition phase_step :: "int \<Rightarrow> ran_ctx \<Rightarrow> 'w \<Rightarrow> 'w ran3 \<Rightarrow> 'w ran3 \<Rightarrow> bool" where
  "phase_step fd c w s s' \<longleftrightarrow> ran3_ok s' \<and> world s' = w \<and> kran_at fd c s' \<and>
     (\<forall>fd'. fd' \<noteq> fd \<longrightarrow> fdmap s' fd' = fdmap s fd') \<and> bufmap s' = bufmap s"

locale ran_phase =
  fixes M :: "'w mtcp"
    and body :: "int \<Rightarrow> 'w ran3 \<Rightarrow> 'w ran3 res"
    and ok :: "int \<Rightarrow> bool"
    and c c' :: "int \<Rightarrow> ran_ctx"
    and m out :: "int \<Rightarrow> u8 list"
  assumes step: "ran3_ok s \<Longrightarrow> kran_at fd (c fd) s \<Longrightarrow> msg_at fd (m fd) s \<Longrightarrow> ok fd \<Longrightarrow>
      play M (Write fd (frame (out fd))) (world s) = Some w \<Longrightarrow>
      \<exists>s'. body fd s = Inr s' \<and> phase_step fd (c' fd) w s s'"
begin

lemma all_steps:
  assumes "distinct fds" and "ran3_ok s" and "\<forall>fd\<in>set fds. kran_at fd (c fd) s \<and> msg_at fd (m fd) s \<and> ok fd"
    and "plays M (map (\<lambda>fd. Write fd (frame (out fd))) fds) (world s) = Some w"
  shows "\<exists>s'. for_fds body fds s = Inr s' \<and> ran3_ok s' \<and> world s' = w \<and> (\<forall>fd\<in>set fds. kran_at fd (c' fd) s') \<and>
    (\<forall>fd. fd \<notin> set fds \<longrightarrow> fdmap s' fd = fdmap s fd)"
  using assms
proof (induction fds arbitrary: s)
  case Nil
  then show ?case by simp
next
  case (Cons fd fds)
  from Cons.prems(4) obtain w1 where r: "play M (Write fd (frame (out fd))) (world s) = Some w1"
      and p: "plays M (map (\<lambda>fd. Write fd (frame (out fd))) fds) w1 = Some w"
    by (auto split: option.splits)
  obtain s1 where s1: "body fd s = Inr s1" "ran3_ok s1" "world s1 = w1" "kran_at fd (c' fd) s1"
      "\<And>fd'. fd' \<noteq> fd \<Longrightarrow> fdmap s1 fd' = fdmap s fd'" "bufmap s1 = bufmap s"
    using step [OF Cons.prems(2) _ _ _ r] Cons.prems(3) by (auto simp: phase_step_def)
  have "\<forall>fd\<in>set fds. kran_at fd (c fd) s1 \<and> msg_at fd (m fd) s1 \<and> ok fd"
  proof
    fix fd'
    assume "fd' \<in> set fds"
    with Cons.prems(1) s1(5) [of fd'] have "fdmap s1 fd' = fdmap s fd'"
      by auto
    with Cons.prems(3) s1(6) \<open>fd' \<in> set fds\<close>
    show "kran_at fd' (c fd') s1 \<and> msg_at fd' (m fd') s1 \<and> ok fd'"
      by (simp add: kran_at_def msg_at_def)
  qed
  with Cons.IH [OF _ s1(2)] Cons.prems(1) p s1(3) obtain s' where
    s': "for_fds body fds s1 = Inr s'" "ran3_ok s'" "world s' = w" "\<forall>fd\<in>set fds. kran_at fd (c' fd) s'"
      "\<And>fd. fd \<notin> set fds \<Longrightarrow> fdmap s' fd = fdmap s1 fd"
    by auto
  have "kran_at fd (c' fd) s'"
    using s'(5) [of fd] s1(4) Cons.prems(1) by (simp add: kran_at_def)
  with s1 s' show ?case
    by simp
qed

end

text \<open>Every phase loads the message into a fresh packet.\<close>

lemma ran3_load_at:
  assumes "ran3_ok s" and "kran_at fd c s" and "msg_at fd m s" and "length m \<le> 500"
  shows "\<exists>u g h d f. fdmap s fd = Some u \<and> ran_ctx_k u = c \<and> copy_pkt (pkt_k u) = Inr (pkt_k u) \<and>
    length (fbuf f) = 500 \<and> ran3_load fresh fd s = Inr (u, view g h d [] m, s\<lparr>v_fddata := f\<rparr>)"
proof -
  obtain u where u: "fdmap s fd = Some u" "ran_ctx_k u = c" "copy_pkt (pkt_k u) = Inr (pkt_k u)"
    using assms(2) by (auto simp: kran_at_def)
  obtain f t where f: "bufmap s fd = Some f" "flen f = int (length m)" "fbuf f = m @ t"
    using assms(3) by (auto simp: msg_at_def)
  have "length (fbuf f) = 500"
    using assms(1) f(1) by (auto simp: ran3_ok_def)
  obtain z where z: "zero_kran fresh = Inr z"
    using zero_kran_ok by blast
  have o: "op_idx z (fdmap s) fd = fdmap s" "at_or z (fdmap s) fd = u"
    "op_idx zero_msgbuf (bufmap s) fd = bufmap s" "at_or zero_msgbuf (bufmap s) fd = f"
    using u f by (simp_all add: op_idx_def at_or_def fun_upd_idem)
  have b: "data (view g h d [] []) = zeros" for g h d
    by (simp add: view_def zeros_def)
  have v: "view g h d [] []\<lparr>data := m @ replicate (1024 - length m) 0, len := int (length m)\<rparr> = view g h d [] m" for g h d
    using assms(4) by (simp add: view_def)
  have "s\<lparr>fdmap := fdmap s, bufmap := bufmap s, v_fddata := f\<rparr> = s\<lparr>v_fddata := f\<rparr>"
    by simp
  then show ?thesis
    using u f z \<open>length (fbuf f) = 500\<close>
    by (intro exI [of _ u] exI [of _ "fst fresh"] exI [of _ "fst (snd fresh)"] exI [of _ "snd (snd fresh)"] exI [of _ f])
      (simp add: ran3_load_def Let_def o buf_read_prefix b buf_write_zeros v assms(4) order_trans [OF assms(4)])
qed

lemma put_kran_step:
  assumes "ran3_ok s" and "copy_pkt (pkt_k u) = Inr (pkt_k u)" and "ran_ctx_k u = c" and "length (fbuf f) = 500"
  shows "\<exists>s'. put_kran fd u (s\<lparr>v_fddata := f, world := w\<rparr>) = Inr s' \<and> phase_step fd c w s s'"
  using assms by (simp add: put_kran_good phase_step_def ran3_ok_def kran_at_def)

subsection \<open>The conversation of one UE\<close>

text \<open>What the MME tells a UE: its challenge, its security mode command, its attach accept.\<close>

record talk =
  t_h1 :: s1ap
  t_autn :: u64
  t_rand :: u64
  t_ksi :: u64
  t_h2 :: s1ap
  t_smc_ksi :: u64
  t_smc_cap :: u16
  t_enc_algo :: u64
  t_int_algo :: u64
  t_h3 :: s1ap
  t_guti :: u64
  t_bearer :: u8
  t_rab :: u8
  t_ul :: u32
  t_k_enodeb :: u64
  t_cap :: u16
  t_tais :: "u64 list"
  t_timer :: u64
  t_ip :: string
  t_sgw_ip :: string
  t_sgw_port :: int

definition talk_challenge :: "talk \<Rightarrow> u8 list" where
  "talk_challenge T = autn_challenge (t_h1 T) (t_autn T) (t_rand T) (t_ksi T)"

definition talk_command :: "ext_lib \<Rightarrow> talk \<Rightarrow> u8 list" where
  "talk_command X T = smc_msg X (t_h2 T) (smc_body (t_smc_ksi T) (t_smc_cap T) (t_enc_algo T) (t_int_algo T))"

definition talk_accept :: "ext_lib \<Rightarrow> talk \<Rightarrow> u8 list" where
  "talk_accept X T = nas_msg X (t_h3 T) (accept_body (t_guti T) (t_bearer T) (t_rab T) (t_ul T) (t_k_enodeb T) (t_cap T)
     (t_tais T) (t_timer T) (t_ip T) (t_sgw_ip T) (t_sgw_port T) True)"

text \<open>The contexts of the UE after each of them, and what it answers.\<close>

definition talk_ctx1 :: "talk \<Rightarrow> ran_ctx \<Rightarrow> ran_ctx" where
  "talk_ctx1 T c = ran_authenticated (mme_s1ap_ue_id (t_h1 T)) (t_ksi T)
     (snd (snd (autn_vector (key_r c) (t_rand T) (plmn_id_r c)))) c"

definition talk_response :: "talk \<Rightarrow> ran_ctx \<Rightarrow> u8 list" where
  "talk_response T c = autn_response (s1ap_init 2 8 (enodeb_s1ap_ue_id_r c) (mme_s1ap_ue_id (t_h1 T)) (t_h1 T))
     (fst (snd (autn_vector (key_r c) (t_rand T) (plmn_id_r c))))"

definition talk_ctx2 :: "talk \<Rightarrow> ran_ctx \<Rightarrow> ran_ctx" where
  "talk_ctx2 T c = ran_secured (t_smc_ksi T) (t_smc_cap T) (t_enc_algo T) (t_int_algo T)
     (c\<lparr>mme_s1ap_ue_id_r := mme_s1ap_ue_id (t_h2 T)\<rparr>)"

definition talk_secured :: "ext_lib \<Rightarrow> talk \<Rightarrow> ran_ctx \<Rightarrow> u8 list" where
  "talk_secured X T c = nas_msg X (s1ap_init 3 36 (enodeb_s1ap_ue_id_r c) (mme_s1ap_ue_id (t_h2 T)) (t_h2 T))
     (bool_bytes True)"

definition talk_ctx3 :: "talk \<Rightarrow> ran_ctx \<Rightarrow> ran_ctx" where
  "talk_ctx3 T c = ran_session (t_guti T) (t_bearer T) (t_rab T) (t_ul T) (t_cap T) (t_tais T) (t_timer T) (t_ip T) c"

definition talk_complete :: "ext_lib \<Rightarrow> talk \<Rightarrow> ran_ctx \<Rightarrow> u8 list" where
  "talk_complete X T c = nas_msg X (s1ap_init 4 (nas_len X (complete_body (t_bearer T) (t_ul T))) (enodeb_s1ap_ue_id_r c)
     (mme_s1ap_ue_id_r c) (t_h3 T)) (complete_body (t_bearer T) (t_ul T))"

definition talk_ok :: "talk \<Rightarrow> ran_ctx \<Rightarrow> bool" where
  "talk_ok T c \<longleftrightarrow> fst (autn_vector (key_r c) (t_rand T) (plmn_id_r c)) = t_autn T \<and> short_ip (t_ip T) \<and>
     short_ip (t_sgw_ip T) \<and> - (2 ^ 31) \<le> t_sgw_port T \<and> t_sgw_port T < 2 ^ 31 \<and> length (t_tais T) \<le> 30"

lemma talk_fits:
  "fits (talk_challenge T)"
  "crypto_ok X \<Longrightarrow> fits (talk_command X T)"
  "crypto_ok X \<Longrightarrow> talk_ok T c \<Longrightarrow> fits (talk_accept X T)"
proof -
  show "fits (talk_challenge T)"
    by (auto simp: fits_def talk_challenge_def autn_challenge_def)
  show "crypto_ok X \<Longrightarrow> fits (talk_command X T)"
    by (auto simp: fits_def talk_command_def smc_msg_def smc_body_def)
  assume X: "crypto_ok X" and ok: "talk_ok T c"
  let ?b = "accept_body (t_guti T) (t_bearer T) (t_rab T) (t_ul T) (t_k_enodeb T) (t_cap T)
     (t_tais T) (t_timer T) (t_ip T) (t_sgw_ip T) (t_sgw_port T) True"
  have "length ?b \<le> 400"
    using ok by (simp add: accept_body_def talk_ok_def short_ip_def)
  then have "length (cipher X ?b) \<le> 416"
    using length_cipher_le [OF X, of ?b] by simp
  with X show "fits (talk_accept X T)"
    by (auto simp: fits_def talk_accept_def nas_msg_def)
qed

lemma fits_length: "fits m \<Longrightarrow> length m \<le> 500"
  by (simp add: fits_def)

lemma write_whole:
  "play M (Write fd (frame a)) (world s) = Some w \<Longrightarrow> n = int (length a) \<Longrightarrow>
   write_pkt M fd (view g sh d (le_int n @ a) []) msg s = Inr (s\<lparr>world := w\<rparr>)"
  using write_frame [where a = a and r = "[]"] by simp

lemma write_sealed:
  "play M (Write fd (frame (nas_msg X h m))) (world s) = Some w \<Longrightarrow>
   n = int (length (s1ap_bytes h) + length (mac X (cipher X m)) + length (cipher X m)) \<Longrightarrow>
   write_pkt M fd (view g sh d (le_int n @ s1ap_bytes h @ mac X (cipher X m)) (cipher X m)) msg s = Inr (s\<lparr>world := w\<rparr>)"
  using write_frame [where a = "s1ap_bytes h @ mac X (cipher X m)" and r = "cipher X m"]
  by (simp add: nas_msg_def)

text \<open>Authentication.\<close>

lemma ran3_authenticate_at:
  assumes ok: "ran3_ok s" and at: "kran_at fd c s" "msg_at fd (talk_challenge T) s" and T: "talk_ok T c"
    and w: "play M (Write fd (frame (talk_response T c))) (world s) = Some w"
  shows "\<exists>s'. ran3_authenticate M fresh fd s = Inr s' \<and> phase_step fd (talk_ctx1 T c) w s s'"
proof -
  obtain u g h d f where u: "ran_ctx_k u = c" "copy_pkt (pkt_k u) = Inr (pkt_k u)" "length (fbuf f) = 500"
      and l: "ran3_load fresh fd s = Inr (u, view g h d [] (talk_challenge T), s\<lparr>v_fddata := f\<rparr>)"
    using ran3_load_at [OF ok at fits_length [OF talk_fits(1)]] by blast
  obtain xres k where v: "autn_vector (key_r c) (t_rand T) (plmn_id_r c) = (t_autn T, xres, k)"
    using T by (cases "autn_vector (key_r c) (t_rand T) (plmn_id_r c)") (auto simp: talk_ok_def)
  let ?c = "talk_ctx1 T c"
  have w': "play M (Write fd (frame (s1ap_bytes (s1ap_init 2 8 (enodeb_s1ap_ue_id_r c) (mme_s1ap_ue_id (t_h1 T)) (t_h1 T)) @ le_word 8 xres)))
      (world (s\<lparr>v_fddata := f\<rparr>)) = Some w"
    using w by (simp add: talk_response_def autn_response_def v)
  have c: "ran_ctx_k (u\<lparr>ran_ctx_k := ?c\<rparr>) = ?c" "copy_pkt (pkt_k (u\<lparr>ran_ctx_k := ?c\<rparr>)) = Inr (pkt_k (u\<lparr>ran_ctx_k := ?c\<rparr>))"
    using u by simp_all
  show ?thesis
    using v put_kran_step [OF ok c(2,1) u(3), of fd w] write_whole [OF w', where msg = "''Error: Cant send to RAN''"]
    by (auto simp: ran3_authenticate_def l talk_challenge_def autn_challenge_def item_ext_view item_app_view Let_def u
        talk_ctx1_def autn_vector_def ran_authenticated_def ac_simps)
qed

text \<open>Security mode.\<close>

lemma ran3_set_security_at:
  assumes X: "crypto_ok X" and ok: "ran3_ok s" and at: "kran_at fd c s" "msg_at fd (talk_command X T) s"
    and w: "play M (Write fd (frame (talk_secured X T c))) (world s) = Some w"
  shows "\<exists>s'. ran3_set_security X M fresh fd s = Inr s' \<and> phase_step fd (talk_ctx2 T c) w s s'"
proof -
  obtain u g h d f where u: "ran_ctx_k u = c" "copy_pkt (pkt_k u) = Inr (pkt_k u)" "length (fbuf f) = 500"
      and l: "ran3_load fresh fd s = Inr (u, view g h d [] (talk_command X T), s\<lparr>v_fddata := f\<rparr>)"
    using ran3_load_at [OF ok at fits_length [OF talk_fits(2) [OF X]]] by blast
  let ?c = "talk_ctx2 T c"
  have w': "play M (Write fd (frame (nas_msg X (s1ap_init 3 36 (enodeb_s1ap_ue_id_r c) (mme_s1ap_ue_id (t_h2 T)) (t_h2 T))
      (bool_bytes True)))) (world (s\<lparr>v_fddata := f\<rparr>)) = Some w"
    using w by (simp add: talk_secured_def)
  have c: "ran_ctx_k (u\<lparr>ran_ctx_k := ?c\<rparr>) = ?c" "copy_pkt (pkt_k (u\<lparr>ran_ctx_k := ?c\<rparr>)) = Inr (pkt_k (u\<lparr>ran_ctx_k := ?c\<rparr>))"
    using u by simp_all
  show ?thesis
    using put_kran_step [OF ok c(2,1) u(3), of fd w] write_sealed [OF w', where msg = "''Error: Cant send to RAN''"]
      seal_views [OF X, of "bool_bytes True"] length_cipher [OF X, of "bool_bytes True"] X
    by (auto simp: ran3_set_security_def l talk_command_def smc_msg_def smc_body_def rem_hmac_view item_ext_view
        item_app_view Let_def u talk_ctx2_def ran_secured_def ran_set_crypt_context_def ran_set_integrity_context_def)
qed

text \<open>Session.\<close>

lemma ran3_set_eps_session_at:
  assumes X: "crypto_ok X" and ok: "ran3_ok s" and at: "kran_at fd c s" "msg_at fd (talk_accept X T) s"
    and T: "talk_ok T c0" and w: "play M (Write fd (frame (talk_complete X T c))) (world s) = Some w"
  shows "\<exists>s'. ran3_set_eps_session X M fresh fd s = Inr s' \<and> phase_step fd (talk_ctx3 T c) w s s'"
proof -
  obtain u g h d f where u: "ran_ctx_k u = c" "copy_pkt (pkt_k u) = Inr (pkt_k u)" "length (fbuf f) = 500"
      and l: "ran3_load fresh fd s = Inr (u, view g h d [] (talk_accept X T), s\<lparr>v_fddata := f\<rparr>)"
    using ran3_load_at [OF ok at fits_length [OF talk_fits(3) [OF X T]]] by blast
  define body where "body = accept_body (t_guti T) (t_bearer T) (t_rab T) (t_ul T) (t_k_enodeb T) (t_cap T)
     (t_tais T) (t_timer T) (t_ip T) (t_sgw_ip T) (t_sgw_port T) True"
  have len: "length body \<le> 900"
    unfolding body_def using T by (intro accept_body_le) (simp_all add: talk_ok_def)
  have "length (complete_body (t_bearer T) (t_ul T)) \<le> 900"
    by (simp add: complete_body_def)
  note send = seal_views [OF X this, unfolded complete_body_def]
  let ?c = "talk_ctx3 T c"
  have w': "play M (Write fd (frame (nas_msg X (s1ap_init 4 (nas_len X (complete_body (t_bearer T) (t_ul T)))
      (enodeb_s1ap_ue_id_r c) (mme_s1ap_ue_id_r c) (t_h3 T)) (complete_body (t_bearer T) (t_ul T)))))
      (world (s\<lparr>v_fddata := f\<rparr>)) = Some w"
    using w by (simp add: talk_complete_def)
  have c: "ran_ctx_k (u\<lparr>ran_ctx_k := ?c\<rparr>) = ?c" "copy_pkt (pkt_k (u\<lparr>ran_ctx_k := ?c\<rparr>)) = Inr (pkt_k (u\<lparr>ran_ctx_k := ?c\<rparr>))"
    using u by simp_all
  define pre where "pre = le_word 8 (t_guti T) @ u8_bytes (t_bearer T) @ u8_bytes (t_rab T) @ le_word 4 (t_ul T) @
    le_word 8 (t_k_enodeb T) @ le_word 2 (t_cap T) @ le_int (int (length (t_tais T))) @ u64s_bytes (t_tais T) @
    le_word 8 (t_timer T) @ string_bytes (t_ip T) @ string_bytes (t_sgw_ip T) @ le_int (t_sgw_port T)"
  have "length pre \<le> 1000"
    using T by (simp add: pre_def talk_ok_def short_ip_def)
  note last = extract_u64_bool [OF this, of g "t_h3 T" d True, unfolded pre_def]
  have "nas_msg X (t_h3 T) body \<noteq> []"
    using nas_msg_nonempty [OF X, of "t_h3 T" body] by simp
  moreover obtain s' where "put_kran fd (u\<lparr>ran_ctx_k := ?c\<rparr>) (s\<lparr>v_fddata := f, world := w\<rparr>) = Inr s'"
      "phase_step fd ?c w s s'"
    using put_kran_step [OF ok c(2,1) u(3)] by blast
  ultimately have "ran3_set_eps_session X M fresh fd s = Inr s' \<and> phase_step fd ?c w s s'"
    using T last open_views [OF X len] send X
      length_cipher [OF X, of "u8_bytes (t_bearer T) @ le_word 4 (t_ul T)"] write_sealed [OF w', where msg = "''Error: Cant send to RAN''"]
    by (simp add: ran3_set_eps_session_def l talk_accept_def talk_ok_def item_ext_view item_app_view Let_def short_ip_def
        extract_u64s_view u talk_ctx3_def ran_session_def nas_len_def body_def accept_body_def complete_body_def)
  then show ?thesis
    by blast
qed

text \<open>The three phases fulfil the contract, whatever the MME has said to the other UEs.\<close>

interpretation authentication: ran_phase M "ran3_authenticate M fresh" "\<lambda>fd. talk_ok (T fd) (c fd)" c
  "\<lambda>fd. talk_ctx1 (T fd) (c fd)" "\<lambda>fd. talk_challenge (T fd)" "\<lambda>fd. talk_response (T fd) (c fd)"
  by unfold_locales (rule ran3_authenticate_at)

interpretation security: ran_phase M "ran3_set_security X M fresh" "\<lambda>_. crypto_ok X" c
  "\<lambda>fd. talk_ctx2 (T fd) (c fd)" "\<lambda>fd. talk_command X (T fd)" "\<lambda>fd. talk_secured X (T fd) (c fd)"
  by unfold_locales (rule ran3_set_security_at)

interpretation session: ran_phase M "ran3_set_eps_session X M fresh" "\<lambda>fd. crypto_ok X \<and> talk_ok (T fd) (c0 fd)" c
  "\<lambda>fd. talk_ctx3 (T fd) (c fd)" "\<lambda>fd. talk_accept X (T fd)" "\<lambda>fd. talk_complete X (T fd) (c fd)"
  by unfold_locales (auto intro: ran3_set_eps_session_at)

subsection \<open>The attach of all UEs\<close>

text \<open>The context of the UE with number \<open>i\<close> when it starts.\<close>

definition planned_ctx :: "u16 \<times> u16 \<times> bool \<times> u32 \<Rightarrow> nat \<Rightarrow> ran_ctx" where
  "planned_ctx cj i = projr (bindE (new_ran_ctx cj) (ran_ctx_init (of_nat i)))"

lemma planned_ctx_fields:
  assumes "i < 10000"
  shows "bindE (new_ran_ctx cj) (ran_ctx_init (of_nat i)) = Inr (planned_ctx cj i)"
    and "imsi_r (planned_ctx cj i) = plan_imsi i" "key_r (planned_ctx cj i) = of_nat i"
    and "enodeb_s1ap_ue_id_r (planned_ctx cj i) = of_nat i" "plmn_id_r (planned_ctx cj i) = 11"
    and "tai_r (planned_ctx cj i) = 1" "ksi_asme_r (planned_ctx cj i) = 7" "nw_capability_r (planned_ctx cj i) = 1"
proof -
  have "ucast (of_nat i :: u32) = (of_nat i :: u64)"
    using assms
    by (intro word_unat_eq_iff [THEN iffD2]) (simp add: unsigned_ucast_eq unsigned_of_nat take_bit_nat_eq_self)
  then have "\<exists>c. bindE (new_ran_ctx cj) (ran_ctx_init (of_nat i)) = Inr c \<and> imsi_r c = plan_imsi i \<and> key_r c = of_nat i \<and>
      enodeb_s1ap_ue_id_r c = of_nat i \<and> plmn_id_r c = 11 \<and> tai_r c = 1 \<and> ksi_asme_r c = 7 \<and> nw_capability_r c = 1"
    using ran_imsi [of i] assms
    by (cases cj) (simp add: new_ran_ctx_def get_plmn_id_1_1 ran_ctx_init_def Let_def)
  then show "bindE (new_ran_ctx cj) (ran_ctx_init (of_nat i)) = Inr (planned_ctx cj i)"
    and "imsi_r (planned_ctx cj i) = plan_imsi i" "key_r (planned_ctx cj i) = of_nat i"
    and "enodeb_s1ap_ue_id_r (planned_ctx cj i) = of_nat i" "plmn_id_r (planned_ctx cj i) = 11"
    and "tai_r (planned_ctx cj i) = 1" "ksi_asme_r (planned_ctx cj i) = 7" "nw_capability_r (planned_ctx cj i) = 1"
    by (auto simp: planned_ctx_def)
qed

definition planned_req :: "fresh_hdrs \<Rightarrow> nat \<Rightarrow> u8 list" where
  "planned_req fresh i = attach_req (s1ap_init 1 26 (of_nat i) 0 (fst (snd fresh))) (plan_imsi i) 1 7 1"

definition send_calls :: "fresh_hdrs \<Rightarrow> int \<Rightarrow> nat \<Rightarrow> call list" where
  "send_calls fresh fd i = [Write fd (frame (planned_req fresh i)), Ctl Ctl_del fd, Ctl (Ctl_add EPOLLIN) fd]"

lemma play_ctl_any:
  "play M (Ctl c fd) (world s) = Some w \<Longrightarrow> ctl_any M c fd s = s\<lparr>world := w\<rparr>"
  by (auto simp: play.simps ctl_any_def split: prod.splits if_splits)

lemma ran3_send_attach_at:
  assumes "ran3_ok s" and "fdmap s fd = None" and "i < 10000" and "plays M (send_calls fresh fd i) (world s) = Some w"
  shows "\<exists>s'. ran3_send_attach M fresh (kj, cj) i fd s = Inr s' \<and> ran3_ok s' \<and> world s' = w \<and>
    kran_at fd (planned_ctx cj i) s' \<and> (\<forall>fd'. fd' \<noteq> fd \<longrightarrow> fdmap s' fd' = fdmap s fd')"
proof -
  obtain w1 w2 where w: "play M (Write fd (frame (planned_req fresh i))) (world s) = Some w1"
      "play M (Ctl Ctl_del fd) w1 = Some w2" "play M (Ctl (Ctl_add EPOLLIN) fd) w2 = Some w"
    using assms(4) by (auto simp: send_calls_def split: option.splits)
  obtain c0 where c0: "new_ran_ctx cj = Inr c0" "ran_ctx_init (of_nat i) c0 = Inr (planned_ctx cj i)"
    using planned_ctx_fields(1) [OF assms(3), of cj] by (auto simp: bindE_eq_Inr)
  obtain g h d where f: "fresh = (g, h, d)"
    by (cases fresh)
  obtain ho ind enb tg hs where j: "kj = (ho, ind, enb, tg, hs)"
    by (metis prod.exhaust)
  have b: "buf_write (fbuf (v_fddata s)) 0 (frame (planned_req fresh i)) =
      Inr (frame (planned_req fresh i) @ drop 42 (fbuf (v_fddata s)))"
    using assms(1) by (simp add: ran3_ok_def buf_write_def planned_req_def attach_req_def)
  have "play M (Write fd (frame (s1ap_bytes (s1ap_init 1 26 (of_nat i) 0 h) @ le_word 8 (plan_imsi i) @ le_word 8 (1 :: u64) @
      le_word 8 (7 :: u64) @ le_word 2 (1 :: u16)))) (world s) = Some w1"
    using w(1) by (simp add: planned_req_def attach_req_def f)
  note w1 = write_whole [OF this]
  show ?thesis
    using assms(1,2) planned_ctx_fields(2-) [OF assms(3), of cj] b w(2,3)
    by (simp add: ran3_send_attach_def new_kran_def j c0 f item_app_view Let_def w1 play_ctl_any copy_kran_def
        planned_req_def attach_req_def frame_def ran3_ok_def kran_at_def fd_insert_def)
      (auto split: option.splits if_splits)
qed

lemma ran3_send_attaches_at:
  assumes "ran3_ok s" and "distinct fds" and "\<forall>fd\<in>set fds. fdmap s fd = None" and "i + length fds \<le> 10000"
    and "\<forall>k<length fds. num (fds ! k) = i + k"
    and "plays M (concat (map (\<lambda>fd. send_calls fresh fd (num fd)) fds)) (world s) = Some w"
  shows "\<exists>s'. ran3_send_attaches M fresh (kj, cj) i fds s = Inr s' \<and> ran3_ok s' \<and> world s' = w \<and>
    (\<forall>fd\<in>set fds. kran_at fd (planned_ctx cj (num fd)) s') \<and> (\<forall>fd. fd \<notin> set fds \<longrightarrow> fdmap s' fd = fdmap s fd)"
  using assms
proof (induction fds arbitrary: i s)
  case Nil
  then show ?case by simp
next
  case (Cons fd fds)
  have i: "num fd = i"
    using Cons.prems(5) by fastforce
  have num: "\<forall>k<length fds. num (fds ! k) = Suc i + k"
    using Cons.prems(5) by fastforce
  from Cons.prems(6) obtain w1 where w1: "plays M (send_calls fresh fd i) (world s) = Some w1"
      and p: "plays M (concat (map (\<lambda>fd. send_calls fresh fd (num fd)) fds)) w1 = Some w"
    unfolding list.map concat.simps i by (rule plays_appendE)
  obtain s1 where s1: "ran3_send_attach M fresh (kj, cj) i fd s = Inr s1" "ran3_ok s1" "world s1 = w1"
      "kran_at fd (planned_ctx cj i) s1" "\<And>fd'. fd' \<noteq> fd \<Longrightarrow> fdmap s1 fd' = fdmap s fd'"
    using ran3_send_attach_at [OF Cons.prems(1) _ _ w1, of kj cj] Cons.prems(3,4) by auto
  have "\<forall>fd\<in>set fds. fdmap s1 fd = None"
    using Cons.prems(2,3) s1(5) by fastforce
  with Cons.IH [OF s1(2) _ _ _ num] Cons.prems(2,4) p s1(3) obtain s' where
    s': "ran3_send_attaches M fresh (kj, cj) (Suc i) fds s1 = Inr s'" "ran3_ok s'" "world s' = w"
      "\<forall>fd\<in>set fds. kran_at fd (planned_ctx cj (num fd)) s'" "\<And>fd. fd \<notin> set fds \<Longrightarrow> fdmap s' fd = fdmap s1 fd"
    by auto
  have "kran_at fd (planned_ctx cj (num fd)) s'"
    using s'(5) [of fd] s1(4) Cons.prems(2) by (simp add: kran_at_def i)
  with s1 s' show ?case
    by simp
qed

text \<open>A collecting phase in which every UE is answered once, in the order \<open>es\<close>, spread over the batches \<open>bs\<close>.\<close>

definition collects :: "int list \<Rightarrow> batch list \<Rightarrow> int list \<Rightarrow> bool" where
  "collects socks bs es \<longleftrightarrow> arrivals bs = map readable es \<and> bs \<noteq> [] \<and> arrivals [last bs] \<noteq> [] \<and>
     distinct es \<and> set es = set socks"

lemma collect_phase:
  assumes c: "collects socks bs es" and "distinct socks" and "ran3_ok s" and "\<forall>fd\<in>set socks. kran_at fd (c fd) s"
    and "\<forall>fd\<in>set socks. fits (m fd)" and "plays M (map (\<lambda>fd. Read fd (frame (m fd))) es) (world s) = Some w"
  shows "\<exists>s'. await_replies (ran3_receive M fresh) (bs @ rest) (s\<lparr>v_x := int (length socks)\<rparr>) = Inr (rest, s') \<and>
    ran3_ok s' \<and> world s' = w \<and> (\<forall>fd\<in>set socks. kran_at fd (c fd) s' \<and> msg_at fd (m fd) s')"
proof -
  let ?s = "s\<lparr>v_x := int (length socks)\<rparr>"
  have len: "length es = length socks"
    using c \<open>distinct socks\<close> by (metis collects_def distinct_card)
  obtain s' where s': "on_events (ran3_receive M fresh) (map readable es) ?s = Inr s'" "ran3_ok s'" "world s' = w"
      "fdmap s' = fdmap s" "\<forall>fd\<in>set es. msg_at fd (m fd) s'"
    using ran3_receive_all [of ?s es c m M w fresh] assms by (auto simp: collects_def ran3_ok_def kran_at_def)
  have a: "\<forall>e\<in>set (arrivals bs). answer_event e"
    using c by (auto simp: collects_def answer_event_def)
  then have "answers bs = int (length socks)"
    using c len by (simp add: answers_def collects_def comp_def answer_event_def)
  then have "await_replies (ran3_receive M fresh) (bs @ rest) ?s = Inr (rest, s')"
    using await_replies_batches [OF _ a, of M fresh ?s s' rest] c s'(1) by (simp add: collects_def)
  with s' c assms(4) show ?thesis
    by (auto simp: collects_def kran_at_def)
qed

text \<open>
  The calls of the whole attach: the UEs send in the order of their connections, and are answered in the orders
  \<open>es1\<close>, \<open>es2\<close>, \<open>es3\<close>. \<open>num fd\<close> is the number of the UE of a connection, \<open>T fd\<close> what the MME tells it.
\<close>

definition ran3_attach_calls ::
  "ext_lib \<Rightarrow> fresh_hdrs \<Rightarrow> u16 \<times> u16 \<times> bool \<times> u32 \<Rightarrow> (int \<Rightarrow> nat) \<Rightarrow> (int \<Rightarrow> talk) \<Rightarrow> int list \<Rightarrow>
   int list \<Rightarrow> int list \<Rightarrow> int list \<Rightarrow> call list" where
  "ran3_attach_calls X fresh cj num T socks es1 es2 es3 =
     (let c0 = (\<lambda>fd. planned_ctx cj (num fd)); c1 = (\<lambda>fd. talk_ctx1 (T fd) (c0 fd)); c2 = (\<lambda>fd. talk_ctx2 (T fd) (c1 fd)) in
      concat (map (\<lambda>fd. send_calls fresh fd (num fd)) socks) @
      map (\<lambda>fd. Read fd (frame (talk_challenge (T fd)))) es1 @
      map (\<lambda>fd. Write fd (frame (talk_response (T fd) (c0 fd)))) socks @
      map (\<lambda>fd. Read fd (frame (talk_command X (T fd)))) es2 @
      map (\<lambda>fd. Write fd (frame (talk_secured X (T fd) (c1 fd)))) socks @
      map (\<lambda>fd. Read fd (frame (talk_accept X (T fd)))) es3 @
      map (\<lambda>fd. Write fd (frame (talk_complete X (T fd) (c2 fd)))) socks)"

definition attached_ctx :: "u16 \<times> u16 \<times> bool \<times> u32 \<Rightarrow> nat \<Rightarrow> talk \<Rightarrow> ran_ctx" where
  "attached_ctx cj i T = talk_ctx3 T (talk_ctx2 T (talk_ctx1 T (planned_ctx cj i)))"

lemma ran3_attach_procedure:
  assumes X: "crypto_ok X" and ok: "ran3_ok s" and new: "\<forall>fd\<in>set socks. fdmap s fd = None"
    and few: "length socks \<le> 10000" and num: "\<forall>i<length socks. num (socks ! i) = i"
    and T: "\<forall>fd\<in>set socks. talk_ok (T fd) (planned_ctx cj (num fd))"
    and c1: "collects socks bs1 es1" and c2: "collects socks bs2 es2" and c3: "collects socks bs3 es3"
    and p: "plays M (ran3_attach_calls X fresh cj num T socks es1 es2 es3) (world s) = Some w"
  shows "\<exists>s'. ran3_attach X M fresh (kj, cj) socks (bs1 @ bs2 @ bs3 @ rest) s = Inr (rest, s') \<and> world s' = w \<and>
    (\<forall>fd\<in>set socks. kran_at fd (attached_ctx cj (num fd) (T fd)) s')"
proof -
  have dist: "distinct socks"
    using num by (metis distinct_conv_nth)
  obtain w1 w2 w3 w4 w5 w6 where w:
      "plays M (concat (map (\<lambda>fd. send_calls fresh fd (num fd)) socks)) (world s) = Some w1"
      "plays M (map (\<lambda>fd. Read fd (frame (talk_challenge (T fd)))) es1) w1 = Some w2"
      "plays M (map (\<lambda>fd. Write fd (frame (talk_response (T fd) (planned_ctx cj (num fd))))) socks) w2 = Some w3"
      "plays M (map (\<lambda>fd. Read fd (frame (talk_command X (T fd)))) es2) w3 = Some w4"
      "plays M (map (\<lambda>fd. Write fd (frame (talk_secured X (T fd) (talk_ctx1 (T fd) (planned_ctx cj (num fd)))))) socks) w4 = Some w5"
      "plays M (map (\<lambda>fd. Read fd (frame (talk_accept X (T fd)))) es3) w5 = Some w6"
      "plays M (map (\<lambda>fd. Write fd (frame (talk_complete X (T fd)
         (talk_ctx2 (T fd) (talk_ctx1 (T fd) (planned_ctx cj (num fd))))))) socks) w6 = Some w"
    using p unfolding ran3_attach_calls_def Let_def by (elim plays_appendE) rule
  obtain s1 where s1: "ran3_send_attaches M fresh (kj, cj) 0 socks s = Inr s1" "ran3_ok s1" "world s1 = w1"
      "\<forall>fd\<in>set socks. kran_at fd (planned_ctx cj (num fd)) s1"
    using ran3_send_attaches_at [OF ok dist new, of 0 num M fresh w1 kj cj] few num w(1) by auto
  obtain s2 where s2: "await_replies (ran3_receive M fresh) (bs1 @ bs2 @ bs3 @ rest) (s1\<lparr>v_x := int (length socks)\<rparr>) = Inr (bs2 @ bs3 @ rest, s2)"
      "ran3_ok s2" "world s2 = w2" "\<forall>fd\<in>set socks. kran_at fd (planned_ctx cj (num fd)) s2 \<and> msg_at fd (talk_challenge (T fd)) s2"
    using collect_phase [OF c1 dist s1(2,4), of "\<lambda>fd. talk_challenge (T fd)" M w2 fresh "bs2 @ bs3 @ rest"] talk_fits(1) w(2) s1(3)
    by auto
  obtain s3 where s3: "for_fds (ran3_authenticate M fresh) socks s2 = Inr s3" "ran3_ok s3" "world s3 = w3"
      "\<forall>fd\<in>set socks. kran_at fd (talk_ctx1 (T fd) (planned_ctx cj (num fd))) s3"
    using authentication.all_steps [OF dist s2(2), of "\<lambda>fd. planned_ctx cj (num fd)" T M w3 fresh] s2(3,4) T w(3) by auto
  obtain s4 where s4: "await_replies (ran3_receive M fresh) (bs2 @ bs3 @ rest) (s3\<lparr>v_x := int (length socks)\<rparr>) = Inr (bs3 @ rest, s4)"
      "ran3_ok s4" "world s4 = w4"
      "\<forall>fd\<in>set socks. kran_at fd (talk_ctx1 (T fd) (planned_ctx cj (num fd))) s4 \<and> msg_at fd (talk_command X (T fd)) s4"
    using collect_phase [OF c2 dist s3(2,4), of "\<lambda>fd. talk_command X (T fd)" M w4 fresh "bs3 @ rest"] talk_fits(2) [OF X] w(4) s3(3)
    by auto
  obtain s5 where s5: "for_fds (ran3_set_security X M fresh) socks s4 = Inr s5" "ran3_ok s5" "world s5 = w5"
      "\<forall>fd\<in>set socks. kran_at fd (talk_ctx2 (T fd) (talk_ctx1 (T fd) (planned_ctx cj (num fd)))) s5"
    using security.all_steps [OF dist s4(2), of "\<lambda>fd. talk_ctx1 (T fd) (planned_ctx cj (num fd))" X T M w5 fresh] s4(3,4) X w(5)
    by auto
  obtain s6 where s6: "await_replies (ran3_receive M fresh) (bs3 @ rest) (s5\<lparr>v_x := int (length socks)\<rparr>) = Inr (rest, s6)"
      "ran3_ok s6" "world s6 = w6"
      "\<forall>fd\<in>set socks. kran_at fd (talk_ctx2 (T fd) (talk_ctx1 (T fd) (planned_ctx cj (num fd)))) s6 \<and> msg_at fd (talk_accept X (T fd)) s6"
    using collect_phase [OF c3 dist s5(2,4), of "\<lambda>fd. talk_accept X (T fd)" M w6 fresh rest] talk_fits(3) [OF X] T w(6) s5(3)
    by auto
  obtain s7 where s7: "for_fds (ran3_set_eps_session X M fresh) socks s6 = Inr s7" "world s7 = w"
      "\<forall>fd\<in>set socks. kran_at fd (attached_ctx cj (num fd) (T fd)) s7"
    using session.all_steps [OF dist s6(2), of "\<lambda>fd. talk_ctx2 (T fd) (talk_ctx1 (T fd) (planned_ctx cj (num fd)))" X T
        "\<lambda>fd. planned_ctx cj (num fd)" M w fresh] s6(3,4) X T w(7)
    by (auto simp: attached_ctx_def)
  show ?thesis
    using s1(1) s2(1) s3(1) s4(1) s5(1) s6(1) s7 by (simp add: ran3_attach_def Let_def)
qed

subsection \<open>A connection that is closed\<close>

text \<open>A challenge for another key is refused, and with it the attach of all UEs.\<close>

lemma ran3_authenticate_foreign:
  assumes ok: "ran3_ok s" and at: "kran_at fd c s" "msg_at fd (talk_challenge T) s"
    and "fst (autn_vector (key_r c) (t_rand T) (plmn_id_r c)) \<noteq> t_autn T"
  shows "ran3_authenticate M fresh fd s = Inl (Exit ''ran_authenticate: authentication of MME failure'')"
proof -
  obtain u g h d f where u: "ran_ctx_k u = c"
      and l: "ran3_load fresh fd s = Inr (u, view g h d [] (talk_challenge T), s\<lparr>v_fddata := f\<rparr>)"
    using ran3_load_at [OF ok at fits_length [OF talk_fits(1)]] by blast
  show ?thesis
    using assms(4)
    by (simp add: ran3_authenticate_def l talk_challenge_def autn_challenge_def item_ext_view Let_def u autn_vector_def
        ac_simps)
qed

text \<open>
  The MME closes the connection of one UE after it has sent another its challenge: the challenge of the other is
  handed to the first, too.
\<close>

lemma ran3_closed_connection:
  assumes ok: "ran3_ok s" and at: "kran_at fd c s" "kran_at fd' c' s" and "fd \<noteq> fd'" and key: "key_r c \<noteq> key_r c'"
    and T: "talk_ok T c"
    and r: "plays M [Read fd (frame (talk_challenge T)), Read fd' []] (world s) = Some w"
  shows "\<exists>s'. on_events (ran3_receive M fresh) [readable fd, readable fd'] s = Inr s' \<and> v_x s' = v_x s - 2 \<and>
    ran3_authenticate M fresh fd' s' = Inl (Exit ''ran_authenticate: authentication of MME failure'')"
proof -
  obtain w1 where r1: "play M (Read fd (frame (talk_challenge T))) (world s) = Some w1"
      and r2: "play M (Read fd' []) w1 = Some w"
    using r by (auto split: option.splits)
  obtain s1 t where s1: "ran3_receive M fresh (readable fd) s = Inr s1" "ran3_ok s1" "world s1 = w1" "v_x s1 = v_x s - 1"
      "fdmap s1 = fdmap s" "rbuf s1 = frame (talk_challenge T) @ t"
    using ran3_receive_frame [OF ok at(1) talk_fits(1) r1] by blast
  have at1: "kran_at fd' c' s1"
    using at(2) s1(5) by (simp add: kran_at_def)
  obtain s2 where s2: "ran3_receive M fresh (readable fd') s1 = Inr s2" "ran3_ok s2" "v_x s2 = v_x s1 - 1"
      "fdmap s2 = fdmap s1" "msg_at fd' (talk_challenge T) s2"
    using ran3_receive_eof [OF s1(2) at1 talk_fits(1) s1(6), of M w fresh] r2 s1(3) by auto
  have "kran_at fd' c' s2"
    using at1 s2(4) by (simp add: kran_at_def)
  moreover have "fst (autn_vector (key_r c') (t_rand T) (plmn_id_r c')) \<noteq> t_autn T"
    using T key autn_vector_inject [of "key_r c" "t_rand T" "plmn_id_r c" "key_r c'" "plmn_id_r c'"]
    by (simp add: talk_ok_def)
  ultimately have "ran3_authenticate M fresh fd' s2 = Inl (Exit ''ran_authenticate: authentication of MME failure'')"
    using ran3_authenticate_foreign [OF s2(2) _ s2(5)] by blast
  with s1 s2 show ?thesis
    by simp
qed

end
