(* ===== verification/Epc3_Sink.thy ===== *)
theory Epc3_Sink
  imports Epc3_Ran
begin

section \<open>Sink of the data plane of version 3.0 (kby_sink.cpp)\<close>

text \<open>
  The sink accepts connections and counts the blocks that arrive. \<open>x\<close> is the number of connections, \<open>sock_sink\<close> the array
  of \<open>no_of_connections\<close> descriptors they are kept in, \<open>j\<close> the count from which the throughput is computed when the
  process is stopped. Startup differs from that of the other programs: nothing that fails stops it.
\<close>

record 'w sink3 =
  sink_world :: 'w
  sink_x :: nat
  sock_sink :: "int list"
  sink_j :: int
  sink_data :: "u8 list"

definition new_sink3 :: "'w \<Rightarrow> 'w sink3" where
  "new_sink3 w = \<lparr>sink_world = w, sink_x = 0, sock_sink = replicate no_of_connections 0, sink_j = 0,
     sink_data = replicate packet_size 0\<rparr>"

definition sink3_listen :: "'w mtcp \<Rightarrow> 'w \<Rightarrow> int \<times> 'w" where
  "sink3_listen M w =
     (let w = snd (m_epoll_create M w); (fd, w) = m_socket M w;
          w = snd (m_nonblock M fd w);
          w = snd (m_bind M fd sink_ip3 sink_portnum w);
          w = snd (m_listen M fd 1000 w);
          w = snd (m_ctl M (Ctl_add EPOLLIN) fd w)
      in (fd, w))"

text \<open>An error of \<open>mtcp_accept\<close> is the descriptor -1. The array is written without a test of its bound.\<close>

definition sink3_accept :: "'w mtcp \<Rightarrow> int \<Rightarrow> 'w sink3 \<Rightarrow> 'w sink3 res" where
  "sink3_accept M listener s =
     (case m_accept M listener (sink_world s) of (r, w) \<Rightarrow>
      let newsockfd = (case r of Inl _ \<Rightarrow> -1 | Inr fd \<Rightarrow> fd) in
      if sink_x s < length (sock_sink s) then
        let w = snd (m_nonblock M newsockfd w);
            w = snd (m_ctl M (Ctl_add EPOLLIN) newsockfd w)
        in Inr (s\<lparr>sink_world := w, sock_sink := (sock_sink s)[sink_x s := newsockfd], sink_x := sink_x s + 1\<rparr>)
      else Inl (Undefined ''sock_sink: write out of range''))"

text \<open>Whatever \<open>mtcp_read\<close> returns, a block or the end of the stream or an error, is counted.\<close>

definition sink3_event :: "'w mtcp \<Rightarrow> int \<Rightarrow> event \<Rightarrow> 'w sink3 \<Rightarrow> 'w sink3 res" where
  "sink3_event M listener ev s =
     (if ev_err ev \<or> ev_hup ev then Inr (s\<lparr>sink_world := m_close M (ev_fd ev) (sink_world s)\<rparr>)
      else if ev_fd ev = listener then sink3_accept M listener s
      else if ev_in ev then
        case m_read M (ev_fd ev) (sink_world s) of (r, w) \<Rightarrow>
        bindE (buf_write (sink_data s) 0 (case r of None \<Rightarrow> [] | Some bs \<Rightarrow> take packet_size bs)) (\<lambda>d.
        Inr (s\<lparr>sink_world := w, sink_data := d, sink_j := sink_j s + 1\<rparr>))
      else Inr s)"

text \<open>A failed wait ends the loop and with it the program.\<close>

fun sink3_run :: "'w mtcp \<Rightarrow> int \<Rightarrow> batch list \<Rightarrow> 'w sink3 \<Rightarrow> 'w sink3 res" where
  "sink3_run M listener [] s = Inr s"
| "sink3_run M listener (Wait_error # bs) s = Inr s"
| "sink3_run M listener (Events es # bs) s =
     bindE (on_events (sink3_event M listener) es s) (sink3_run M listener bs)"

definition sink3_main :: "'w mtcp \<Rightarrow> batch list \<Rightarrow> 'w \<Rightarrow> 'w sink3 res" where
  "sink3_main M bs w = (case sink3_listen M w of (fd, w) \<Rightarrow> sink3_run M fd bs (new_sink3 w))"

text \<open>\<open>CloseConnection\<close>: all five entries of the array are closed, however many connections there are.\<close>

definition sink3_close :: "'w mtcp \<Rightarrow> int \<Rightarrow> 'w sink3 \<Rightarrow> 'w sink3" where
  "sink3_close M listener s =
     (let w = fold (\<lambda>fd w. m_close M fd (snd (m_ctl M Ctl_del fd w))) (sock_sink s) (sink_world s)
      in s\<lparr>sink_world := m_close M listener w\<rparr>)"

subsection \<open>What is counted\<close>

definition sink_block :: "int \<Rightarrow> event \<Rightarrow> bool" where
  "sink_block listener e \<longleftrightarrow> ev_in e \<and> \<not> ev_err e \<and> \<not> ev_hup e \<and> ev_fd e \<noteq> listener"

definition sink_open :: "int \<Rightarrow> event \<Rightarrow> bool" where
  "sink_open listener e \<longleftrightarrow> \<not> ev_err e \<and> \<not> ev_hup e \<and> ev_fd e = listener"

definition sink_ok :: "'w sink3 \<Rightarrow> bool" where
  "sink_ok s \<longleftrightarrow> length (sock_sink s) = no_of_connections \<and> length (sink_data s) = packet_size \<and> sink_x s \<le> no_of_connections"

lemma sink3_event_counts:
  assumes "sink_ok s" and "sink3_event M listener e s = Inr s'"
  shows "sink_ok s' \<and> sink_j s' = sink_j s + (if sink_block listener e then 1 else 0) \<and>
    sink_x s' = sink_x s + (if sink_open listener e then 1 else 0)"
  using assms
  by (auto simp: sink3_event_def sink3_accept_def sink_ok_def sink_block_def sink_open_def Let_def bindE_eq_Inr
      split: if_splits prod.splits dest: buf_write_length)

lemma sink3_events_count:
  assumes "sink_ok s" and "on_events (sink3_event M listener) es s = Inr s'"
  shows "sink_ok s' \<and> sink_j s' = sink_j s + int (length (filter (sink_block listener) es)) \<and>
    sink_x s' = sink_x s + length (filter (sink_open listener) es)"
  using assms
proof (induction es arbitrary: s)
  case Nil
  then show ?case by simp
next
  case (Cons e es)
  then obtain t where t: "sink3_event M listener e s = Inr t" "on_events (sink3_event M listener) es t = Inr s'"
    by (auto simp: bindE_eq_Inr)
  with sink3_event_counts [OF Cons.prems(1) t(1)] Cons.IH [of t] show ?case
    by auto
qed

text \<open>The only way for a step to fail is the array: a sixth connection.\<close>

lemma sink3_event_stops:
  assumes "sink_ok s"
  shows "(\<exists>s'. sink3_event M listener e s = Inr s') \<longleftrightarrow> \<not> (sink_open listener e \<and> sink_x s = no_of_connections)"
proof -
  have "\<exists>d. buf_write (sink_data s) 0 (case r of None \<Rightarrow> [] | Some bs \<Rightarrow> take packet_size bs) = Inr d" for r
    using assms by (auto simp: sink_ok_def buf_write_def split: option.splits)
  with assms show ?thesis
    by (auto simp: sink3_event_def sink3_accept_def sink_ok_def sink_open_def Let_def bindE_eq_Inr
        split: prod.splits)
qed

lemma sink3_events_return:
  assumes "sink_ok s"
  shows "(\<exists>s'. on_events (sink3_event M listener) es s = Inr s') \<longleftrightarrow>
    sink_x s + length (filter (sink_open listener) es) \<le> no_of_connections"
  using assms
proof (induction es arbitrary: s)
  case Nil
  then show ?case by (simp add: sink_ok_def)
next
  case (Cons e es)
  show ?case
  proof (cases "\<exists>t. sink3_event M listener e s = Inr t")
    case True
    then obtain t where t: "sink3_event M listener e s = Inr t"
      by blast
    with sink3_event_counts [OF Cons.prems t] Cons.IH [of t] show ?thesis
      by simp
  next
    case False
    then have "sink_open listener e" "sink_x s = no_of_connections"
      using sink3_event_stops [OF Cons.prems] by blast+
    with False show ?thesis
      by (auto simp: bindE_eq_Inr)
  qed
qed

end
