(* ===== verification/Epc3_Data_Plane.thy ===== *)
theory Epc3_Data_Plane
  imports Epc3_Mme Epc3_Sgw Epc3_Pgw
begin

section \<open>MME, SGW and PGW of the data plane of version 3.0\<close>

text \<open>
  The data plane has copies of the three programs in which a UE attaches and is then gone for the control plane:
  connections are closed where the control plane waits for a detach. What differs from \<open>Epc3_Mme\<close>, \<open>Epc3_Sgw\<close> and
  \<open>Epc3_Pgw\<close> is defined here; all other handlers and calls are the same code.
\<close>

subsection \<open>MME (kby_mme.cpp)\<close>

text \<open>\<open>case 6\<close>: when the attach is confirmed, the connections to the SGW and to the RAN are closed.\<close>

definition mme3d_modify_reply :: "'w mtcp \<Rightarrow> ext_lib \<Rightarrow> int \<Rightarrow> mme_mdata \<Rightarrow> 'w mme3 \<Rightarrow> 'w mme3 res" where
  "mme3d_modify_reply M X cur_fd fddata s =
     bindE (recv_pkt M False cur_fd ''Error ran epoll read delete from epoll'' ''Error: hsss read packet'' s) (\<lambda>s.
     let ran_fd = initial_fd fddata; guti = guti_or_old (md_msui fddata) s in
     bindE (extract_gtp_hdr (rpkt s)) (\<lambda>pkt.
     bindE (extract_u64 pkt) (\<lambda>(res, pkt).
     if res = 0 then Inl (Exit ''modify bearer failure'')
     else
       let m = upd_ue guti (\<lambda>c. c\<lparr>ecm_state_m := 1\<rparr>) (mme_tabs s); c = ue_at guti m in
       bindE (append_bool True (clear_pkt pkt)) (\<lambda>pkt.
       bindE (append_u64 guti pkt) (\<lambda>pkt.
       bindE (append_u16 (nw_capability_m c) pkt) (\<lambda>pkt.
       bindE (crypt_enc X (k_nas_enc_m c) pkt) (\<lambda>pkt.
       bindE (add_hmac X (k_nas_int_m c) pkt) (\<lambda>pkt.
       bindE (prepend_s1ap_hdr 4 (len16 pkt) (enodeb_s1ap_ue_id (s1ap_hdr pkt))
         (mme_s1ap_ue_id (s1ap_hdr pkt)) pkt) (\<lambda>pkt.
       bindE (prepend_len pkt) (\<lambda>pkt.
       bindE (write_pkt M ran_fd pkt ''Error: Cant send to RAN'' (s\<lparr>rpkt := pkt, mme_tabs := m, v_guti := guti,
         v_k_nas_enc := k_nas_enc_m c, v_k_nas_int := k_nas_int_m c\<rparr>)) (\<lambda>s.
       Inr (close_fd M ran_fd (fd_erase ran_fd (fd_erase cur_fd (close_fd M cur_fd s)))))))))))))))"

definition mme3d_handle ::
  "'w mtcp \<Rightarrow> ext_lib \<Rightarrow> mme_mdata \<Rightarrow> event \<Rightarrow> mme_mdata \<Rightarrow> 'w mme3 \<Rightarrow> 'w mme3 res" where
  "mme3d_handle M X U ev fddata s =
     (if act fddata = 1 then mme3_request M X U (ev_fd ev) fddata s
      else if act fddata = 2 then mme3_hss_connected M ev fddata s
      else if act fddata = 3 then mme3_hss_reply M (ev_fd ev) fddata s
      else if act fddata = 4 then mme3_sgw_connected M ev fddata s
      else if act fddata = 5 then mme3_create_reply M X (ev_fd ev) fddata s
      else if act fddata = 6 then mme3d_modify_reply M X (ev_fd ev) fddata s
      else if act fddata = 7 then mme3_detach_reply M X (ev_fd ev) fddata s
      else Inr s)"

definition mme3d_event :: "'w mtcp \<Rightarrow> ext_lib \<Rightarrow> mme_mdata \<Rightarrow> int \<Rightarrow> event \<Rightarrow> 'w mme3 \<Rightarrow> 'w mme3 res" where
  "mme3d_event M X U lfd = on_event M lfd (handle_ran_accept M lfd) zero_mme_mdata (mme3d_handle M X U)"

definition mme3d_run :: "'w mtcp \<Rightarrow> ext_lib \<Rightarrow> mme_mdata \<Rightarrow> int \<Rightarrow> batch list \<Rightarrow> 'w mme3 \<Rightarrow> 'w mme3 res" where
  "mme3d_run M X U lfd = main_loop (mme3d_event M X U lfd)"

definition mme3d_main ::
  "'w mtcp \<Rightarrow> ext_lib \<Rightarrow> mme_mdata \<Rightarrow> batch list \<Rightarrow> 'w \<Rightarrow> u8 list \<Rightarrow> packet \<Rightarrow> u64 \<Rightarrow> u8 \<Rightarrow> u64 \<Rightarrow> u64 \<Rightarrow>
   'w mme3 res" where
  "mme3d_main M X U bs w d p g e ke ki =
     bindE new_mme_ids (\<lambda>ids.
     bindE (listen_on M mme_ip3 mme_my_port w) (\<lambda>(lfd, w).
     mme3d_run M X U lfd bs (new_mme3 ids w d p g e ke ki)))"

subsection \<open>SGW (kby_sgw.cpp)\<close>

text \<open>The answer to a modify bearer request ends the connection of the MME.\<close>

definition send_attach_four_d :: "'w mtcp \<Rightarrow> int \<Rightarrow> packet \<Rightarrow> 'w sgw3 \<Rightarrow> 'w sgw3 res" where
  "send_attach_four_d M cur_fd pkt s =
     bindE (write_pkt M cur_fd pkt ''Error MME write back to RAN'' s) (\<lambda>s.
     Inr (close_fd M cur_fd (fd_erase cur_fd s)))"

definition sgw3d_modify :: "'w mtcp \<Rightarrow> int \<Rightarrow> 'w sgw3 \<Rightarrow> 'w sgw3 res" where
  "sgw3d_modify M cur_fd s =
     (case s11_id (sgw_tabs s) (teid (gtp_hdr (rpkt s))) of
        None \<Rightarrow> Inl (Exit ''IMSI error'')
      | Some imsi \<Rightarrow>
        if imsi = 0 then Inl (Exit ''zero imsi'')
        else
          bindE (extract_u8 (rpkt s)) (\<lambda>(eps_bearer_id, pkt).
          bindE (extract_u32 pkt) (\<lambda>(s1_uteid_dl, pkt).
          bindE (extract_string pkt) (\<lambda>(enodeb_ip_addr, pkt).
          bindE (extract_int pkt) (\<lambda>(enodeb_port, pkt).
          let t = upd_sgw_ue imsi (\<lambda>c. c\<lparr>s1_uteid_dl_s := s1_uteid_dl, enodeb_ip_addr_s := enodeb_ip_addr,
                    enodeb_port_s := enodeb_port\<rparr>) (sgw_tabs s);
              s11_cteid_mme = s11_cteid_mme_s (sgw_ue_at imsi t) in
          bindE (append_bool True (clear_pkt pkt)) (\<lambda>pkt.
          bindE (prepend_gtp_hdr 2 2 (len16 pkt) s11_cteid_mme pkt) (\<lambda>pkt.
          bindE (prepend_len pkt) (\<lambda>pkt.
          bindE (copy_pkt pkt) (\<lambda>arg.
          send_attach_four_d M cur_fd arg
            (s\<lparr>rpkt := pkt, sgw_tabs := t, v_s11_cteid_mme := s11_cteid_mme\<rparr>))))))))))"

definition sgw3d_request :: "'w mtcp \<Rightarrow> int \<Rightarrow> sgw_mdata \<Rightarrow> 'w sgw3 \<Rightarrow> 'w sgw3 res" where
  "sgw3d_request M cur_fd fddata s =
     bindE (recv_pkt M True cur_fd ''Error mme epoll read delete from epoll'' ''ERROR: read packet from MME'' s) (\<lambda>s.
     bindE (extract_gtp_hdr (rpkt s)) (\<lambda>pkt.
     let s = s\<lparr>rpkt := pkt\<rparr>; msg_type = msg_type_g (gtp_hdr pkt) in
     if msg_type = 1 then sgw3_create M cur_fd fddata s
     else if msg_type = 2 then sgw3d_modify M cur_fd s
     else if msg_type = 3 then sgw3_detach M cur_fd fddata s
     else Inr s))"

text \<open>
  \<open>case 3\<close>: the lines that were added for the data plane repeat the call that puts the connection of the MME back into the
  epoll set, with its test.
\<close>

definition sgw3d_created :: "'w mtcp \<Rightarrow> int \<Rightarrow> sgw_mdata \<Rightarrow> 'w sgw3 \<Rightarrow> 'w sgw3 res" where
  "sgw3d_created M cur_fd fddata s =
     bindE (recv_pkt M False cur_fd ''Error pgw epoll read delete from epoll'' ''Error: pgw read packet'' s) (\<lambda>s.
     let imsi = md_guti fddata in
     bindE (extract_gtp_hdr (rpkt s)) (\<lambda>pkt.
     bindE (extract_u32 pkt) (\<lambda>(s5_cteid_ul, pkt).
     bindE (extract_u8 pkt) (\<lambda>(eps_bearer_id, pkt).
     bindE (extract_u32 pkt) (\<lambda>(s5_uteid_ul, pkt).
     bindE (extract_string pkt) (\<lambda>(ue_ip_addr, pkt).
     let t = upd_sgw_ue imsi (\<lambda>c. c\<lparr>s5_uteid_ul_s := s5_uteid_ul\<rparr>) (sgw_tabs s);
         t = upd_sgw_ue imsi (\<lambda>c. c\<lparr>s5_cteid_ul_s := s5_cteid_ul\<rparr>) t;
         s1_uteid_ul = md_tid fddata; s11_cteid_sgw = md_tid fddata in
     bindE (append_u32 s11_cteid_sgw (clear_pkt pkt)) (\<lambda>pkt.
     bindE (append_string ue_ip_addr pkt) (\<lambda>pkt.
     bindE (append_u32 s1_uteid_ul pkt) (\<lambda>pkt.
     bindE (append_u32 s5_uteid_ul pkt) (\<lambda>pkt.
     bindE (append_u32 (v_s5_uteid_dl s) pkt) (\<lambda>pkt.
     bindE (prepend_gtp_hdr 2 1 (len16 pkt) (v_s11_cteid_mme s) pkt) (\<lambda>pkt.
     bindE (prepend_len pkt) (\<lambda>pkt.
     let mme_fd = initial_fd fddata in
     bindE (write_pkt M mme_fd pkt ''Error: Cant send to mme A3'' (s\<lparr>rpkt := pkt, sgw_tabs := t\<rparr>)) (\<lambda>s.
     bindE (ctl_or_exit M minus1 (Ctl_add EPOLLIN) mme_fd ''Error: ran after detach add'' (fd_erase cur_fd s)) (\<lambda>s.
     bindE (ctl_or_exit M minus1 (Ctl_add EPOLLIN) mme_fd ''Error: ran after detach add'' (fd_erase cur_fd s)) (\<lambda>s.
     Inr (close_fd M cur_fd (fd_insert mme_fd (fddata\<lparr>act := 1, initial_fd := cur_fd, mbuf := zero_buf, buflen := 0,
           md_tid := 0, md_guti := 0\<rparr>) s))))))))))))))))))"

definition sgw3d_handle :: "'w mtcp \<Rightarrow> event \<Rightarrow> sgw_mdata \<Rightarrow> 'w sgw3 \<Rightarrow> 'w sgw3 res" where
  "sgw3d_handle M ev fddata s =
     (if act fddata = 1 then sgw3d_request M (ev_fd ev) fddata s
      else if act fddata = 2 then sgw3_connected M ev fddata s
      else if act fddata = 3 then sgw3d_created M (ev_fd ev) fddata s
      else if act fddata = 4 then sgw3_detached M (ev_fd ev) fddata s
      else Inr s)"

definition sgw3d_event :: "'w mtcp \<Rightarrow> u64 \<Rightarrow> int \<Rightarrow> event \<Rightarrow> 'w sgw3 \<Rightarrow> 'w sgw3 res" where
  "sgw3d_event M g lfd = on_event M lfd (handle_sgw_accept M g lfd) zero_sgw_mdata (sgw3d_handle M)"

definition sgw3d_run :: "'w mtcp \<Rightarrow> u64 \<Rightarrow> int \<Rightarrow> batch list \<Rightarrow> 'w sgw3 \<Rightarrow> 'w sgw3 res" where
  "sgw3d_run M g lfd = main_loop (sgw3d_event M g lfd)"

definition sgw3d_main ::
  "'w mtcp \<Rightarrow> u64 \<Rightarrow> batch list \<Rightarrow> 'w \<Rightarrow> u8 list \<Rightarrow> packet \<Rightarrow> u32 \<Rightarrow> u32 \<Rightarrow> 'w sgw3 res" where
  "sgw3d_main M g bs w d p a b =
     bindE (listen_on M sgw_ip3 sgw_s11_portnum w) (\<lambda>(lfd, w). sgw3d_run M g lfd bs (new_sgw3 w d p a b))"

subsection \<open>PGW (kby_pgw.cpp)\<close>

text \<open>The answer to a create session request ends the connection of the SGW.\<close>

definition pgw_send_a3_d :: "'w mtcp \<Rightarrow> int \<Rightarrow> packet \<Rightarrow> 'w pgw3 \<Rightarrow> 'w pgw3 res" where
  "pgw_send_a3_d M cur_fd pkt s =
     bindE (write_pkt M cur_fd pkt ''Error PGW write back to SGW'' s) (\<lambda>s.
     Inr (close_fd M cur_fd (fd_erase cur_fd s)))"

definition pgw3d_create :: "'w mtcp \<Rightarrow> int \<Rightarrow> 'w pgw3 \<Rightarrow> 'w pgw3 res" where
  "pgw3d_create M cur_fd s =
     bindE (extract_u32 (rpkt s)) (\<lambda>(s5_cteid_dl, pkt).
     bindE (extract_u64 pkt) (\<lambda>(imsi, pkt).
     bindE (extract_u8 pkt) (\<lambda>(eps_bearer_id, pkt).
     bindE (extract_u32 pkt) (\<lambda>(s5_uteid_dl, pkt).
     bindE (extract_u64 pkt) (\<lambda>(apn_in_use, pkt).
     bindE (extract_u64 pkt) (\<lambda>(tai, pkt).
     let t = pgw_tabs s; s5_cteid_ul = s5_cteid_dl; s5_uteid_ul = s5_cteid_dl;
         ue_ip_addr = at_or '''' (ip_addrs t) imsi;
         t = t\<lparr>ip_addrs := op_idx '''' (ip_addrs t) imsi\<rparr>;
         t = t\<lparr>s5_id_p := (s5_id_p t)(s5_uteid_ul \<mapsto> imsi)\<rparr>;
         t = t\<lparr>sgi_id := (sgi_id t)(ue_ip_addr \<mapsto> imsi)\<rparr>;
         t = t\<lparr>ue_ctx_p := modify_at new_pgw_ue (ue_ctx_p t) imsi (pgw_ue_init ue_ip_addr tai
               apn_in_use eps_bearer_id s5_uteid_ul s5_uteid_dl s5_cteid_ul s5_cteid_dl)\<rparr> in
     bindE (append_u32 s5_cteid_ul (clear_pkt pkt)) (\<lambda>pkt.
     bindE (append_u8 eps_bearer_id pkt) (\<lambda>pkt.
     bindE (append_u32 s5_uteid_ul pkt) (\<lambda>pkt.
     bindE (append_string ue_ip_addr pkt) (\<lambda>pkt.
     bindE (prepend_gtp_hdr 2 1 (len16 pkt) s5_cteid_dl pkt) (\<lambda>pkt.
     bindE (prepend_len pkt) (\<lambda>pkt.
     bindE (copy_pkt pkt) (\<lambda>arg.
     pgw_send_a3_d M cur_fd arg (s\<lparr>rpkt := pkt, pgw_tabs := t\<rparr>))))))))))))))"

definition pgw3d_request :: "'w mtcp \<Rightarrow> int \<Rightarrow> 'w pgw3 \<Rightarrow> 'w pgw3 res" where
  "pgw3d_request M cur_fd s =
     bindE (recv_pkt M True cur_fd ''Error pgw epoll read delete from epoll'' ''ERROR: read packet from SGW'' s) (\<lambda>s.
     bindE (extract_gtp_hdr (rpkt s)) (\<lambda>pkt.
     let s = s\<lparr>rpkt := pkt\<rparr> in
     if msg_type_g (gtp_hdr pkt) = 1 then pgw3d_create M cur_fd s
     else if msg_type_g (gtp_hdr pkt) = 4 then pgw3_detach M cur_fd s
     else Inr s))"

definition pgw3d_handle :: "'w mtcp \<Rightarrow> event \<Rightarrow> pgw_mdata \<Rightarrow> 'w pgw3 \<Rightarrow> 'w pgw3 res" where
  "pgw3d_handle M ev fddata s = (if act fddata = 1 then pgw3d_request M (ev_fd ev) s else Inr s)"

definition pgw3d_event :: "'w mtcp \<Rightarrow> int \<Rightarrow> event \<Rightarrow> 'w pgw3 \<Rightarrow> 'w pgw3 res" where
  "pgw3d_event M lfd = on_event M lfd (handle_pgw_accept M lfd) zero_pgw_mdata (pgw3d_handle M)"

definition pgw3d_run :: "'w mtcp \<Rightarrow> int \<Rightarrow> batch list \<Rightarrow> 'w pgw3 \<Rightarrow> 'w pgw3 res" where
  "pgw3d_run M lfd = main_loop (pgw3d_event M lfd)"

definition pgw3d_main :: "'w mtcp \<Rightarrow> batch list \<Rightarrow> 'w \<Rightarrow> u8 list \<Rightarrow> packet \<Rightarrow> 'w pgw3 res" where
  "pgw3d_main M bs w d p =
     bindE (listen_on M pgw_ip3 pgw_s5_portnum w) (\<lambda>(lfd, w). pgw3d_run M lfd bs (new_pgw3 w d p))"

subsection \<open>Invariants\<close>

text \<open>The programs of the data plane keep the invariants of the control plane.\<close>

lemma mme3d_modify_inv:
  "mme3_inv s \<Longrightarrow> mme3d_modify_reply M X fd fddata s = Inr s' \<Longrightarrow> mme3_inv s'"
  unfolding mme3d_modify_reply_def Let_def
  by (auto elim!: bindE_InrE loop_elims simp: mme3_inv_simps split: prod.splits option.splits if_splits)

interpretation mme3d: event_program M lfd "handle_ran_accept M lfd" zero_mme_mdata "mme3d_handle M X U"
  "\<lambda>s. length (mbuf U) = 500 \<longrightarrow> mme3_inv s"
proof
  fix s s' :: "'a mme3" and w fd ev m
  show "length (mbuf U) = 500 \<longrightarrow> mme3_inv s \<Longrightarrow> length (mbuf U) = 500 \<longrightarrow> mme3_inv (s\<lparr>world := w\<rparr>)"
    by (rule mme3.world_inv)
  show "length (mbuf U) = 500 \<longrightarrow> mme3_inv s \<Longrightarrow> handle_ran_accept M lfd s = Inr s' \<Longrightarrow>
      length (mbuf U) = 500 \<longrightarrow> mme3_inv s'"
    by (rule mme3.accept_inv)
  show "length (mbuf U) = 500 \<longrightarrow> mme3_inv s \<Longrightarrow>
      length (mbuf U) = 500 \<longrightarrow> mme3_inv (s\<lparr>fdmap := op_idx zero_mme_mdata (fdmap s) fd\<rparr>)"
    by (rule mme3.zero_inv)
  show "length (mbuf U) = 500 \<longrightarrow> mme3_inv s \<Longrightarrow> fdmap s (ev_fd ev) = Some m \<Longrightarrow>
      mme3d_handle M X U ev m s = Inr s' \<Longrightarrow> length (mbuf U) = 500 \<longrightarrow> mme3_inv s'"
    by (auto simp: mme3d_handle_def split: if_splits
        intro: mme3_request_inv mme3_connected_inv mme3_hss_reply_inv mme3_reply_inv mme3d_modify_inv)
qed

lemma sgw3d_modify_inv: "sgw3_inv s \<Longrightarrow> sgw3d_modify M fd s = Inr s' \<Longrightarrow> sgw3_inv s'"
  unfolding sgw3d_modify_def send_attach_four_d_def Let_def
  by (auto elim!: bindE_InrE loop_elims simp: sgw3_inv_def loop_inv_simps sgw_tabs_ok_upd
      split: prod.splits option.splits if_splits)

lemma sgw3d_request_inv:
  "sgw3_inv s \<Longrightarrow> length (mbuf fddata) = 500 \<Longrightarrow> sgw3d_request M fd fddata s = Inr s' \<Longrightarrow> sgw3_inv s'"
  unfolding sgw3d_request_def Let_def
  by (auto elim!: bindE_InrE recv_pktE split: if_splits
      intro: sgw3_inv_recv sgw3_create_inv [OF sgw3_inv_recv] sgw3d_modify_inv [OF sgw3_inv_recv]
        sgw3_detach_inv [OF sgw3_inv_recv])

lemma sgw3d_created_inv:
  "sgw3_inv s \<Longrightarrow> sgw3d_created M fd fddata s = Inr s' \<Longrightarrow> sgw3_inv s'"
  unfolding sgw3d_created_def Let_def
  by (auto elim!: bindE_InrE loop_elims simp: sgw3_inv_def loop_inv_simps mdata_ok_def zero_buf_def
      sgw_tabs_ok_upd sgw_tabs_ok_ids split: prod.splits option.splits if_splits)

interpretation sgw3d: event_program M lfd "handle_sgw_accept M g lfd" zero_sgw_mdata "sgw3d_handle M" sgw3_inv
proof
  fix s s' :: "'a sgw3" and w fd ev m
  show "sgw3_inv s \<Longrightarrow> sgw3_inv (s\<lparr>world := w\<rparr>)"
    by (rule sgw3.world_inv)
  show "sgw3_inv s \<Longrightarrow> handle_sgw_accept M g lfd s = Inr s' \<Longrightarrow> sgw3_inv s'"
    by (rule sgw3.accept_inv)
  show "sgw3_inv s \<Longrightarrow> sgw3_inv (s\<lparr>fdmap := op_idx zero_sgw_mdata (fdmap s) fd\<rparr>)"
    by (rule sgw3.zero_inv)
  assume "sgw3_inv s" and "fdmap s (ev_fd ev) = Some m" and "sgw3d_handle M ev m s = Inr s'"
  moreover from this have "length (mbuf m) = 500"
    by (auto simp: sgw3_inv_def loop_ok_def mdata_ok_def)
  ultimately show "sgw3_inv s'"
    by (auto simp: sgw3d_handle_def split: if_splits
        intro: sgw3d_request_inv sgw3_connected_inv sgw3d_created_inv sgw3_answer_inv)
qed

lemma pgw3d_create_inv: "pgw3_inv s \<Longrightarrow> pgw3d_create M fd s = Inr s' \<Longrightarrow> pgw3_inv s'"
  unfolding pgw3d_create_def pgw_send_a3_d_def pgw3_inv_def Let_def
  by (auto elim!: bindE_InrE loop_elims simp: loop_inv_simps split: prod.splits
      intro: pgw_tabs_ok_created [simplified])

lemma pgw3d_request_inv: "pgw3_inv s \<Longrightarrow> pgw3d_request M fd s = Inr s' \<Longrightarrow> pgw3_inv s'"
  unfolding pgw3d_request_def Let_def
  by (auto elim!: bindE_InrE recv_pktE split: if_splits
      intro: pgw3_inv_recv pgw3d_create_inv [OF pgw3_inv_recv] pgw3_detach_inv [OF pgw3_inv_recv])

interpretation pgw3d: event_program M lfd "handle_pgw_accept M lfd" zero_pgw_mdata "pgw3d_handle M" pgw3_inv
proof
  fix s s' :: "'a pgw3" and w fd ev m
  show "pgw3_inv s \<Longrightarrow> pgw3_inv (s\<lparr>world := w\<rparr>)"
    by (rule pgw3.world_inv)
  show "pgw3_inv s \<Longrightarrow> handle_pgw_accept M lfd s = Inr s' \<Longrightarrow> pgw3_inv s'"
    by (rule pgw3.accept_inv)
  show "pgw3_inv s \<Longrightarrow> pgw3_inv (s\<lparr>fdmap := op_idx zero_pgw_mdata (fdmap s) fd\<rparr>)"
    by (rule pgw3.zero_inv)
  show "pgw3_inv s \<Longrightarrow> fdmap s (ev_fd ev) = Some m \<Longrightarrow> pgw3d_handle M ev m s = Inr s' \<Longrightarrow> pgw3_inv s'"
    by (auto simp: pgw3d_handle_def split: if_splits intro: pgw3d_request_inv)
qed

subsection \<open>Agreement with the control plane\<close>

text \<open>
  Where the control plane handles an event, the MME and the PGW of the data plane handle it too and leave the same
  tables.
\<close>

lemma recv_pkt_labels:
  "recv_pkt M b fd x y s = Inr u \<Longrightarrow> recv_pkt M b fd x' y' s = Inr u"
  by (cases "m_ctl M Ctl_del fd (world s)", cases "m_read M fd (snd (m_ctl M Ctl_del fd (world s)))")
    (auto simp: recv_pkt_def ctl_or_exit_def bindE_eq_Inr Let_def split: option.splits if_splits)

lemma mme3d_modify_agrees:
  assumes "mme3_modify_reply M X fd fddata s = Inr t"
  shows "\<exists>t'. mme3d_modify_reply M X fd fddata s = Inr t' \<and> mme_tabs t' = mme_tabs t"
proof -
  obtain u where "recv_pkt M False fd ''Error sgw epoll read delete from epoll'' ''Error: sgw read packet'' s = Inr u"
    using assms unfolding mme3_modify_reply_def by (auto elim!: bindE_InrE)
  note this [simp] recv_pkt_labels [OF this, simp]
  from assms show ?thesis
    unfolding mme3_modify_reply_def Let_def
    by (auto elim!: bindE_InrE ctl_or_exitE split: prod.splits if_splits simp: mme3d_modify_reply_def Let_def)
qed

lemma pgw3d_create_agrees:
  assumes "pgw3_create M fd s = Inr t"
  shows "\<exists>t'. pgw3d_create M fd s = Inr t' \<and> pgw_tabs t' = pgw_tabs t"
  using assms unfolding pgw3_create_def pgw_send_a3_def Let_def
  by (auto elim!: bindE_InrE ctl_or_exitE split: prod.splits simp: pgw3d_create_def pgw_send_a3_d_def Let_def)

lemma sgw3d_modify_agrees:
  assumes "sgw3_modify M fd s = Inr t"
  shows "\<exists>t'. sgw3d_modify M fd s = Inr t' \<and> sgw_tabs t' = sgw_tabs t"
  using assms unfolding sgw3_modify_def send_attach_four_def Let_def
  by (auto elim!: bindE_InrE ctl_or_exitE split: prod.splits option.splits if_splits
      simp: sgw3d_modify_def send_attach_four_d_def Let_def)

text \<open>So do the programs, event by event.\<close>

lemma mme3d_event_agrees:
  assumes "mme3_event M X U lfd e s = Inr t"
  shows "\<exists>t'. mme3d_event M X U lfd e s = Inr t' \<and> mme_tabs t' = mme_tabs t"
  using assms
  by (auto simp: mme3_event_def mme3d_event_def on_event_def mme3_handle_def mme3d_handle_def
      split: if_splits dest: mme3d_modify_agrees)

lemma pgw3d_request_agrees:
  assumes "pgw3_request M fd s = Inr t"
  shows "\<exists>t'. pgw3d_request M fd s = Inr t' \<and> pgw_tabs t' = pgw_tabs t"
  using assms
  unfolding pgw3_request_def Let_def
  by (elim bindE_InrE) (auto simp: pgw3d_request_def Let_def split: if_splits dest: pgw3d_create_agrees)

lemma pgw3d_event_agrees:
  assumes "pgw3_event M lfd e s = Inr t"
  shows "\<exists>t'. pgw3d_event M lfd e s = Inr t' \<and> pgw_tabs t' = pgw_tabs t"
  using assms pgw3d_request_agrees
  by (auto simp: pgw3_event_def pgw3d_event_def on_event_def pgw3_handle_def pgw3d_handle_def split: if_splits)

text \<open>
  The SGW does not get that far. A stack does not add a descriptor to an epoll set that it is already in (\<open>EEXIST\<close>), so
  where the SGW of the control plane has answered a create session request, that of the data plane exits.
\<close>

definition adds_once :: "'w mtcp \<Rightarrow> bool" where
  "adds_once M \<longleftrightarrow> (\<forall>fd w r w'. m_ctl M (Ctl_add EPOLLIN) fd w = (r, w') \<and> r \<noteq> -1 \<longrightarrow>
     fst (m_ctl M (Ctl_add EPOLLIN) fd w') = -1)"

lemma second_add_exits:
  assumes "adds_once M" and "ctl_or_exit M minus1 (Ctl_add EPOLLIN) fd msg s = Inr s'" and "world s'' = world s'"
  shows "ctl_or_exit M minus1 (Ctl_add EPOLLIN) fd msg' s'' = Inl (Exit msg')"
proof (cases "m_ctl M (Ctl_add EPOLLIN) fd (world s)")
  case (Pair r w)
  then have "r \<noteq> -1" and w: "world s' = w"
    using assms(2) by (auto simp: ctl_or_exit_def minus1_def split: if_splits)
  then have "fst (m_ctl M (Ctl_add EPOLLIN) fd w) = -1"
    using Pair assms(1) by (auto simp: adds_once_def)
  then show ?thesis
    using w assms(3) by (auto simp: ctl_or_exit_def minus1_def split: prod.splits)
qed

lemma sgw3d_created_exits:
  assumes "adds_once M" and "sgw3_created M fd m s = Inr t"
  shows "sgw3d_created M fd m s = Inl (Exit ''Error: ran after detach add'')"
proof -
  have again: "ctl_or_exit M minus1 (Ctl_add EPOLLIN) (initial_fd m) ''Error: ran after detach add'' (fd_erase fd u') =
      Inl (Exit ''Error: ran after detach add'')"
    if "ctl_or_exit M minus1 (Ctl_add EPOLLIN) (initial_fd m) ''Error: ran after detach add'' (fd_erase fd u) = Inr u'"
    for u u' :: "'a sgw3"
    by (rule second_add_exits [OF assms(1) that]) simp
  from assms(2) show ?thesis
    unfolding sgw3_created_def Let_def
    by (elim bindE_InrE) (auto split: prod.splits elim!: bindE_InrE simp: sgw3d_created_def Let_def again)
qed

lemma sgw3d_event_exits:
  assumes "adds_once M" and "\<not> ev_err e" and "\<not> ev_hup e" and "ev_fd e \<noteq> lfd" and "fdmap s (ev_fd e) = Some m"
    and "act m = 3" and "sgw3_event M g lfd e s = Inr t"
  shows "sgw3d_event M g lfd e s = Inl (Exit ''Error: ran after detach add'')"
  using assms(7) sgw3d_created_exits [OF assms(1), of "ev_fd e" m] on_event_known [OF assms(2-5)] assms(6)
  by (simp add: sgw3_event_def sgw3d_event_def sgw3_handle_def sgw3d_handle_def)

end
