(* ===== verification/Epc3_Data_Properties.thy ===== *)
theory Epc3_Data_Properties
  imports Epc3_Ran_Session Epc3_Sink Epc3_Data_Plane Epc3_Samples
begin

section \<open>Properties of the data plane of version 3.0\<close>

subsection \<open>Concrete states\<close>

text \<open>
  Two UEs, 0 on descriptor 5 and 1 on descriptor 6. The MME challenges them with vectors of their keys and gives them the
  addresses of the plan.
\<close>

definition sample_talk :: "int \<Rightarrow> talk" where
  "sample_talk fd =
     \<lparr>t_h1 = sample_s1ap 1 9, t_autn = fst (autn_vector (of_nat (nat (fd - 5))) 42 11), t_rand = 42, t_ksi = 1,
      t_h2 = sample_s1ap 2 9, t_smc_ksi = 1, t_smc_cap = 1, t_enc_algo = 1, t_int_algo = 1,
      t_h3 = sample_s1ap 3 9, t_guti = plan_guti 7, t_bearer = 5, t_rab = 5, t_ul = 7, t_k_enodeb = 1, t_cap = 1, t_tais = [1],
      t_timer = 100, t_ip = ''172.16.0.10'', t_sgw_ip = ''172.16.0.10'', t_sgw_port = 7100\<rparr>"

definition sample_cj :: "u16 \<times> u16 \<times> bool \<times> u32" where
  "sample_cj = (0, 0, False, 0)"

definition sample_attach_calls3 :: "call list" where
  "sample_attach_calls3 =
     ran3_attach_calls sample_lib sample_fresh sample_cj (\<lambda>fd. nat (fd - 5)) sample_talk [5, 6] [6, 5] [5, 6] [6, 5]"

definition sample_new_ran3 :: "call list \<Rightarrow> call list ran3" where
  "sample_new_ran3 cs = new_ran3 cs (replicate 1448 0) sample_pkt zero_msgbuf"

definition sample_kran :: "nat \<Rightarrow> kran" where
  "sample_kran i = \<lparr>inHandover_k = False, indirect_s1_uteid_ul_k = 0, eNodeB_id_k = 0, handover_target_eNodeB_id_k = 0,
     handover_state_k = 0, ran_ctx_k = planned_ctx sample_cj i, pkt_k = sample_pkt\<rparr>"

text \<open>Both UEs have sent their attach requests.\<close>

definition sample_ran3 :: "call list \<Rightarrow> call list ran3" where
  "sample_ran3 cs = (sample_new_ran3 cs)\<lparr>fdmap := [5 \<mapsto> sample_kran 0, 6 \<mapsto> sample_kran 1], v_x := 2\<rparr>"

lemma sample_ran3_facts:
  "ran3_ok (sample_new_ran3 cs)" "ran3_ok (sample_ran3 cs)" "world (sample_ran3 cs) = cs" "v_x (sample_ran3 cs) = 2"
  "kran_at 5 (planned_ctx sample_cj 0) (sample_ran3 cs)" "kran_at 6 (planned_ctx sample_cj 1) (sample_ran3 cs)"
  by (simp_all add: ran3_ok_def sample_new_ran3_def sample_ran3_def new_ran3_def zero_msgbuf_def zero_buf_def kran_at_def
      sample_kran_def sample_pkt_def)

lemma sample_talk_ok: "fd = 5 \<or> fd = 6 \<Longrightarrow> talk_ok (sample_talk fd) (planned_ctx sample_cj (nat (fd - 5)))"
  using planned_ctx_fields(3,5) [of "nat (fd - 5)" sample_cj]
  by (auto simp: talk_ok_def sample_talk_def short_ip_def nul_free_def)

lemma sample_attach_real: "list_all real_call sample_attach_calls3"
  by (simp add: sample_attach_calls3_def ran3_attach_calls_def send_calls_def real_call_def Let_def)

text \<open>A stack that only knows which descriptors are in the epoll set and which bytes the next read yields.\<close>

definition epoll_stack :: "(int list \<times> u8 list) mtcp" where
  "epoll_stack =
     \<lparr>m_socket = (\<lambda>w. (7, w)), m_nonblock = (\<lambda>_ w. (0, w)), m_bind = (\<lambda>_ _ _ w. (0, w)), m_listen = (\<lambda>_ _ w. (0, w)),
      m_epoll_create = (\<lambda>w. (0, w)), m_connect = (\<lambda>_ _ _ w. (Inl EINPROGRESS, w)), m_accept = (\<lambda>_ w. (Inl EAGAIN, w)),
      m_read = (\<lambda>_ w. (Some (snd w), w)), m_write = (\<lambda>_ bs w. (int (length bs), w)),
      m_ctl = (\<lambda>c fd w. case c of
          Ctl_add _ \<Rightarrow> if fd \<in> set (fst w) then (-1, w) else (0, fd # fst w, snd w)
        | Ctl_mod _ \<Rightarrow> (if fd \<in> set (fst w) then 0 else -1, w)
        | Ctl_del \<Rightarrow> if fd \<in> set (fst w) then (0, removeAll fd (fst w), snd w) else (-1, w)),
      m_close = (\<lambda>_ w. w), sys_close = (\<lambda>_ w. w)\<rparr>"

lemma epoll_stack_adds_once: "adds_once epoll_stack"
  by (auto simp: adds_once_def epoll_stack_def split: if_splits)

definition sample_pgw_answer :: "u8 list" where
  "sample_pgw_answer = create_rsp5 (sample_gtp 1 0) 8 5 8 ''172.16.0.10''"

text \<open>The SGW awaits the answer of the PGW on descriptor 11, for the MME on descriptor 5.\<close>

definition sample_awaiting :: "(int list \<times> u8 list) sgw3" where
  "sample_awaiting =
     \<lparr>world = ([11, 1], frame sample_pgw_answer),
      fdmap = [11 \<mapsto> \<lparr>act = 3, initial_fd = 5, mbuf = zero_buf, buflen = 0, md_tid = 8, md_guti = plan_imsi 8\<rparr>],
      rbuf = replicate 1024 0, rpkt = sample_pkt, sgw_tabs = new_sgw, v_s11_cteid_mme = 8, v_s5_uteid_dl = 8\<rparr>"

subsection \<open>The attach of the RAN\<close>

text \<open>
  C35: batch attach. The RAN attaches any number of UEs together: if the stack answers the calls, each UE sends its
  requests in the order of the connections and is answered once in every phase, in any order and spread over any batches, then every UE
  ends registered with the keys of its own challenge and with its own address and GUTI.
\<close>

theorem ran3_attach_all:
  assumes "crypto_ok X" and "ran3_ok s" and "\<forall>fd\<in>set socks. fdmap s fd = None"
    and "length socks \<le> 10000" and "\<forall>i<length socks. num (socks ! i) = i"
    and "\<forall>fd\<in>set socks. talk_ok (T fd) (planned_ctx cj (num fd))"
    and "collects socks bs1 es1" and "collects socks bs2 es2" and "collects socks bs3 es3"
    and "plays M (ran3_attach_calls X fresh cj num T socks es1 es2 es3) (world s) = Some w"
  shows "\<exists>s'. ran3_attach X M fresh (kj, cj) socks (bs1 @ bs2 @ bs3 @ rest) s = Inr (rest, s') \<and> world s' = w \<and>
    (\<forall>fd\<in>set socks. \<exists>u. fdmap s' fd = Some u \<and> ran_ctx_k u = attached_ctx cj (num fd) (T fd) \<and>
       emm_state_r (ran_ctx_k u) = 1 \<and> guti_r (ran_ctx_k u) = t_guti (T fd) \<and> ip_addr_r (ran_ctx_k u) = t_ip (T fd) \<and>
       k_asme_r (ran_ctx_k u) = snd (snd (autn_vector (of_nat (num fd)) (t_rand (T fd)) 11)))"
proof -
  have key: "key_r (planned_ctx cj (num fd)) = of_nat (num fd)" "plmn_id_r (planned_ctx cj (num fd)) = 11"
    if "fd \<in> set socks" for fd
  proof -
    have "num fd < 10000"
      using that assms(4,5) by (metis in_set_conv_nth less_le_trans)
    then show "key_r (planned_ctx cj (num fd)) = of_nat (num fd)" "plmn_id_r (planned_ctx cj (num fd)) = 11"
      by (rule planned_ctx_fields)+
  qed
  obtain s' where "ran3_attach X M fresh (kj, cj) socks (bs1 @ bs2 @ bs3 @ rest) s = Inr (rest, s')" "world s' = w"
      "\<forall>fd\<in>set socks. kran_at fd (attached_ctx cj (num fd) (T fd)) s'"
    using ran3_attach_procedure [OF assms] by blast
  moreover have "emm_state_r (attached_ctx cj i t) = 1" "guti_r (attached_ctx cj i t) = t_guti t"
      "ip_addr_r (attached_ctx cj i t) = t_ip t" "k_asme_r (attached_ctx cj i t) =
        snd (snd (autn_vector (key_r (planned_ctx cj i)) (t_rand t) (plmn_id_r (planned_ctx cj i))))" for i t
    by (simp_all add: attached_ctx_def talk_ctx3_def talk_ctx2_def talk_ctx1_def ran_session_def ran_secured_def
        ran_set_crypt_context_def ran_set_integrity_context_def ran_authenticated_def)
  ultimately show ?thesis
    using key by (auto simp: kran_at_def)
qed

theorem ran3_attach_all_witness:
  "\<exists>s'. ran3_attach sample_lib scripted sample_fresh ((False, 0, 0, 0, 0), sample_cj) [5, 6]
      ([Events [readable 6], Wait_error, Events [readable 5]] @ [Events [readable 5, readable 6]] @
       [Events [], Events [readable 6], Events [readable 5]] @ []) (sample_new_ran3 sample_attach_calls3) = Inr ([], s') \<and>
    world s' = [] \<and> (\<exists>u. fdmap s' 6 = Some u \<and> emm_state_r (ran_ctx_k u) = 1 \<and> ip_addr_r (ran_ctx_k u) = ''172.16.0.10'')"
proof -
  let ?s = "sample_new_ran3 sample_attach_calls3"
  have num: "\<forall>i<length [5, 6::int]. (\<lambda>fd. nat (fd - 5)) ([5, 6] ! i) = i"
    by (auto simp: less_Suc_eq)
  have p: "plays scripted (ran3_attach_calls sample_lib sample_fresh sample_cj (\<lambda>fd. nat (fd - 5)) sample_talk
      [5, 6] [6, 5] [5, 6] [6, 5]) (world ?s) = Some []"
    using scripted_calls [OF sample_attach_real] by (simp add: sample_attach_calls3_def sample_new_ran3_def new_ran3_def)
  have new: "\<forall>fd\<in>set [5, 6]. fdmap ?s fd = None" "length [5, 6::int] \<le> 10000"
    by (simp_all add: sample_new_ran3_def new_ran3_def)
  have talk: "\<forall>fd\<in>set [5, 6]. talk_ok (sample_talk fd) (planned_ctx sample_cj (nat (fd - 5)))"
    using sample_talk_ok [of 5] sample_talk_ok [of 6] by simp
  have c: "collects [5, 6] [Events [readable 6], Wait_error, Events [readable 5]] [6, 5]"
      "collects [5, 6] [Events [readable 5, readable 6]] [5, 6]"
      "collects [5, 6] [Events [], Events [readable 6], Events [readable 5]] [6, 5]"
    by (auto simp: collects_def)
  from ran3_attach_all [OF crypto_ok_sample sample_ran3_facts(1) new num talk c p, of "(False, 0, 0, 0, 0)" "[]"]
  show ?thesis
    by (auto simp: sample_talk_def)
qed

text \<open>
  C36: counting. A collecting phase that waits for \<open>x\<close> answers ends with the first batch at whose end the readable events
  received so far are exactly \<open>x\<close>, whichever connections they were for, in the state that the events up to there lead to, with the
  later batches untouched; and only then. If no batch ends at exactly \<open>x\<close> (there were too few, or the number was passed
  in the middle of a batch), the phase goes on waiting when the batches are used up.
\<close>

theorem ran3_counts_events:
  "(await_replies (ran3_receive M fresh) bs s = Inr (rest, s') \<longleftrightarrow>
     (\<exists>used. bs = used @ rest \<and> first_total (v_x s) used \<and>
        on_events (ran3_receive M fresh) (arrivals used) s = Inr s')) \<and>
   (on_events (ran3_receive M fresh) (arrivals bs) s = Inr t \<and>
      list_all (\<lambda>n. answers (take n bs) \<noteq> v_x s) [1..<Suc (length bs)] \<longrightarrow>
      await_replies (ran3_receive M fresh) bs s = Inl Blocked)"
  using await_replies_iff await_replies_blocked by blast

text \<open>
  Two UEs are waited for. UE 0 is answered twice, UE 1 not at all, and the phase is over; with three events in one batch it
  waits for ever.
\<close>

theorem ran3_counts_events_witness:
  "let m = frame (talk_challenge (sample_talk 5))
   in (\<exists>s'. await_replies (ran3_receive scripted sample_fresh) [Events [readable 5, readable 5]]
          (sample_ran3 [Read 5 m, Read 5 m]) = Inr ([], s') \<and> bufmap s' 6 = None) \<and>
      await_replies (ran3_receive scripted sample_fresh) [Events [readable 5, readable 5, readable 5]]
        (sample_ran3 [Read 5 m, Read 5 m, Read 5 m]) = Inl Blocked"
proof -
  let ?m = "talk_challenge (sample_talk 5)"
  let ?s = "\<lambda>n. sample_ran3 (replicate n (Read 5 (frame ?m)))"
  have p: "plays scripted (map (\<lambda>fd. Read fd (frame ?m)) (replicate n 5)) (world (?s n)) = Some []" for n
    using scripted_calls [of "replicate n (Read 5 (frame ?m))"] by (simp add: sample_ran3_facts real_call_def list_all_iff)
  have run: "\<exists>s'. on_events (ran3_receive scripted sample_fresh) (map readable (replicate n 5)) (?s n) = Inr s' \<and>
      bufmap s' 6 = bufmap (?s n) 6" for n
    using ran3_receive_all [of "?s n" "replicate n 5" "\<lambda>_. planned_ctx sample_cj 0" "\<lambda>_. ?m" scripted "[]" sample_fresh] p [of n]
    by (auto simp: sample_ran3_facts talk_fits)
  obtain s' where s': "on_events (ran3_receive scripted sample_fresh) [readable 5, readable 5] (?s 2) = Inr s'"
      "bufmap s' 6 = bufmap (?s 2) 6"
    using run [of 2] by (auto simp: numeral_2_eq_2)
  obtain t where t: "on_events (ran3_receive scripted sample_fresh) [readable 5, readable 5, readable 5] (?s 3) = Inr t"
    using run [of 3] by (auto simp: numeral_3_eq_3)
  have "first_total 2 [Events [readable 5, readable 5]]"
    by (simp add: first_total_def answers_def answer_event_def readable_def)
  then have "await_replies (ran3_receive scripted sample_fresh) [Events [readable 5, readable 5]] (?s 2) = Inr ([], s')"
    using s'(1) by (intro ran3_counts_events [THEN conjunct1, THEN iffD2] exI [of _ "[Events [readable 5, readable 5]]"])
      (simp add: sample_ran3_facts)
  moreover have "bufmap s' 6 = None"
    using s'(2) by (simp add: sample_ran3_def sample_new_ran3_def new_ran3_def)
  moreover have "await_replies (ran3_receive scripted sample_fresh) [Events [readable 5, readable 5, readable 5]] (?s 3) = Inl Blocked"
    using t by (intro ran3_counts_events [THEN conjunct2, THEN mp])
      (simp add: sample_ran3_facts answers_def answer_event_def readable_def)
  ultimately show ?thesis
    by (simp add: numeral_2_eq_2 numeral_3_eq_3)
qed

text \<open>
  C37: a closed connection. The MME has sent one UE its challenge and closes the connection of another, whose key is
  different. The end of the stream is counted as an answer, the buffer still holds the challenge of the first UE, the
  second UE is authenticated with it and fails, and the program leaves \<open>main\<close>.
\<close>

theorem ran3_closed_connection_stops:
  assumes "ran3_ok s" and "kran_at fd c s" and "kran_at fd' c' s" and "fd \<noteq> fd'" and "key_r c \<noteq> key_r c'"
    and "talk_ok T c" and "plays M [Read fd (frame (talk_challenge T)), Read fd' []] (world s) = Some w"
    and "v_x s = 2"
  shows "\<exists>s'. await_replies (ran3_receive M fresh) (Events [readable fd, readable fd'] # rest) s = Inr (rest, s') \<and>
    ran3_authenticate M fresh fd' s' = Inl (Exit ''ran_authenticate: authentication of MME failure'')"
proof -
  obtain s' where "on_events (ran3_receive M fresh) [readable fd, readable fd'] s = Inr s'" and "v_x s' = v_x s - 2"
    and "ran3_authenticate M fresh fd' s' = Inl (Exit ''ran_authenticate: authentication of MME failure'')"
    using ran3_closed_connection [OF assms(1-7)] by blast
  then show ?thesis
    using assms(8) by (simp del: on_events.simps)
qed

theorem ran3_closed_connection_stops_witness:
  "\<exists>s'. await_replies (ran3_receive scripted sample_fresh) [Events [readable 5, readable 6]]
      (sample_ran3 [Read 5 (frame (talk_challenge (sample_talk 5))), Read 6 []]) = Inr ([], s') \<and>
    ran3_authenticate scripted sample_fresh 6 s' = Inl (Exit ''ran_authenticate: authentication of MME failure'')"
proof (rule ran3_closed_connection_stops [where T = "sample_talk 5" and w = "[]"])
  let ?cs = "[Read 5 (frame (talk_challenge (sample_talk 5))), Read 6 []]"
  show "talk_ok (sample_talk 5) (planned_ctx sample_cj 0)"
    using sample_talk_ok [of 5] by simp
  show "key_r (planned_ctx sample_cj 0) \<noteq> key_r (planned_ctx sample_cj 1)"
    by (simp add: planned_ctx_fields)
  show "plays scripted ?cs (world (sample_ran3 ?cs)) = Some []"
    using scripted_calls [of ?cs] by (simp add: sample_ran3_facts real_call_def)
qed (simp_all add: sample_ran3_facts [simplified])

subsection \<open>MME, SGW and PGW\<close>

text \<open>
  C38: tables. Closing connections instead of keeping them does not change what the MME and the PGW record: wherever
  the program of the control plane handles an event, that of the data plane handles it and leaves the same tables.
\<close>

theorem data_plane_tables:
  shows "(mme3_event M X U lfd e s = Inr t \<longrightarrow>
      (\<exists>t'. mme3d_event M X U lfd e s = Inr t' \<and> mme_tabs t' = mme_tabs t)) \<and>
    (pgw3_event N lfd' e' p = Inr q \<longrightarrow>
      (\<exists>q'. pgw3d_event N lfd' e' p = Inr q' \<and> pgw_tabs q' = pgw_tabs q))"
  by (auto intro: mme3d_event_agrees pgw3d_event_agrees)

text \<open>The modify bearer response at the MME, the create session request at the PGW.\<close>

definition sample_mme_confirming :: "call list mme3" where
  "sample_mme_confirming = (sample_mme3
     [Ctl Ctl_del 8, Read 8 (frame (bool_rsp (sample_gtp 2 7) True)),
      Write 5 (frame (confirm3 sample_lib (s1ap_hdr sample_pkt) (plan_guti 7)
        (new_mme_ue\<lparr>imsi_m := plan_imsi 7, eps_bearer_id_m := 5, s11_cteid_sgw_m := 7\<rparr>))),
      Ctl (Ctl_add EPOLLIN) 5])\<lparr>fdmap := [8 \<mapsto> (sample_mdata 5)\<lparr>act := 6, md_msui := 9\<rparr>]\<rparr>"

definition sample_pgw_creating :: "call list pgw3" where
  "sample_pgw_creating = sample_pgw3 (relay_calls 6 6 (create_req5 (sample_gtp 1 0) 8 (plan_imsi 8) 5 8 0 1)
     (create_rsp5 (gtp_with 2 1 24 8 (sample_gtp 1 0)) 8 5 8 ''172.16.0.10''))"

lemma sample_mme_confirming_event:
  "\<exists>t. mme3_event scripted sample_lib (sample_mdata 0) 1 (readable 8) sample_mme_confirming = Inr t \<and>
     mme_tabs t = mme3_connected (plan_guti 7) sample_mme_tabs"
proof -
  let ?m = "(sample_mdata 5)\<lparr>act := 6, md_msui := 9\<rparr>"
  let ?cs = "[Ctl Ctl_del 8, Read 8 (frame (bool_rsp (sample_gtp 2 7) True)),
      Write 5 (frame (confirm3 sample_lib (s1ap_hdr sample_pkt) (plan_guti 7)
        (new_mme_ue\<lparr>imsi_m := plan_imsi 7, eps_bearer_id_m := 5, s11_cteid_sgw_m := 7\<rparr>))),
      Ctl (Ctl_add EPOLLIN) 5]"
  have "plays scripted ?cs ?cs = Some []"
    by (rule scripted_calls) (simp add: real_call_def)
  then have "\<exists>t. mme3_modify_reply scripted sample_lib 8 ?m sample_mme_confirming = Inr t \<and>
      mme_tabs t = mme3_connected (plan_guti 7) sample_mme_tabs"
    using mme3_modify_reply_event [OF crypto_ok_sample, of sample_mme_confirming ?m "plan_guti 7"
        "new_mme_ue\<lparr>imsi_m := plan_imsi 7, eps_bearer_id_m := 5, s11_cteid_sgw_m := 7\<rparr>" 8 scripted "sample_gtp 2 7" "[]"]
    by (auto simp: sample_mme_confirming_def sample_ctx3)
  then show ?thesis
    by (simp add: mme3_event_def on_event_known [of _ _ _ ?m] sample_mme_confirming_def mme3_handle_def)
qed

lemma sample_pgw_creating_event:
  "\<exists>t. pgw3_event scripted 1 (readable 6) sample_pgw_creating = Inr t \<and>
     pgw_tabs t = pgw_created 8 (plan_imsi 8) 5 8 0 1 sample_pgw_tabs"
  using pgw3_create_session [of sample_pgw_creating 6 sample_pgw_mdata 1 "sample_gtp 1 0" "plan_imsi 8" scripted 8 5 8 0 1 "[]"]
  by (auto simp: sample_pgw_creating_def sample_pgw_ip scripted_calls pgw3_run_def bindE_eq_Inr)

theorem data_plane_tables_witness:
  "(\<exists>t. mme3d_event scripted sample_lib (sample_mdata 0) 1 (readable 8) sample_mme_confirming = Inr t \<and>
     mme_tabs t = mme3_connected (plan_guti 7) sample_mme_tabs) \<and>
   (\<exists>q. pgw3d_event scripted 1 (readable 6) sample_pgw_creating = Inr q \<and>
     pgw_tabs q = pgw_created 8 (plan_imsi 8) 5 8 0 1 sample_pgw_tabs)"
proof -
  obtain t q where "mme3_event scripted sample_lib (sample_mdata 0) 1 (readable 8) sample_mme_confirming = Inr t"
      "mme_tabs t = mme3_connected (plan_guti 7) sample_mme_tabs"
      "pgw3_event scripted 1 (readable 6) sample_pgw_creating = Inr q"
      "pgw_tabs q = pgw_created 8 (plan_imsi 8) 5 8 0 1 sample_pgw_tabs"
    using sample_mme_confirming_event sample_pgw_creating_event by blast
  then show ?thesis
    using data_plane_tables [of scripted sample_lib "sample_mdata 0" 1 "readable 8" sample_mme_confirming t
        scripted 1 "readable 6" sample_pgw_creating q] by auto
qed

text \<open>
  C39: no session. The SGW puts the connection of the MME into the epoll set twice, and exits when the second call
  fails. On a stack that refuses to add a descriptor twice, every event in which the SGW of the control plane would
  have completed a create session ends the SGW of the data plane.
\<close>

theorem sgw3d_exits:
  assumes "adds_once M" and "\<not> ev_err e" and "\<not> ev_hup e" and "ev_fd e \<noteq> lfd" and "fdmap s (ev_fd e) = Some m"
    and "act m = 3" and "sgw3_event M g lfd e s = Inr t"
  shows "sgw3d_event M g lfd e s = Inl (Exit ''Error: ran after detach add'')"
  using assms by (rule sgw3d_event_exits)

theorem sgw3d_exits_witness:
  "(\<exists>t. sgw3_event epoll_stack 0 1 (readable 11) sample_awaiting = Inr t) \<and>
   sgw3d_event epoll_stack 0 1 (readable 11) sample_awaiting = Inl (Exit ''Error: ran after detach add'')"
proof -
  let ?m = "\<lparr>act = 3, initial_fd = 5, mbuf = zero_buf, buflen = 0, md_tid = 8, md_guti = plan_imsi 8\<rparr>"
  let ?w = "([5, 1], frame sample_pgw_answer)"
  let ?ip = "''172.16.0.10''"
  have p: "plays epoll_stack
      [Ctl Ctl_del 11, Read 11 (frame sample_pgw_answer),
       Write 5 (frame (create_rsp11 (gtp_with 2 1 (of_nat (20 + length ?ip)) 8 (sample_gtp 1 0)) 8 ?ip 8 8 8)),
       Ctl (Ctl_add EPOLLIN) 5] (world sample_awaiting) = Some ?w"
    by (simp add: epoll_stack_def sample_awaiting_def play.simps)
  have "\<exists>t. sgw3_created epoll_stack 11 ?m sample_awaiting = Inr t"
    using sgw3_created_event [of ?ip sample_awaiting 11 ?m epoll_stack "sample_gtp 1 0" 8 5 8 ?w] p sample_pgw_ip(2)
    by (simp add: sample_awaiting_def sample_pgw_answer_def del: plays.simps) blast
  then obtain t where t: "sgw3_event epoll_stack 0 1 (readable 11) sample_awaiting = Inr t"
    by (auto simp: sgw3_event_known [of _ _ _ ?m] sample_awaiting_def sgw3_handle_def)
  with sgw3d_exits [OF epoll_stack_adds_once _ _ _ _ _ t, of ?m] show ?thesis
    by (simp add: sample_awaiting_def)
qed

subsection \<open>The sink\<close>

lemma sink3_run_arrivals:
  "Wait_error \<notin> set bs \<Longrightarrow> sink3_run M listener bs s = on_events (sink3_event M listener) (arrivals bs) s"
proof (induction bs arbitrary: s)
  case Nil
  then show ?case by simp
next
  case (Cons b bs)
  then have "sink3_run M listener bs = on_events (sink3_event M listener) (arrivals bs)"
    by auto
  with Cons.prems show ?case
    by (cases b) (simp_all add: on_events_append)
qed

text \<open>
  C40: the sink. As long as no wait fails, the sink works as long as at most five connections are opened; the
  sixth is written behind the array \<open>sock_sink\<close>. If it works, then \<open>j\<close> is the number of readable events on
  connections, ends of streams and failed reads among them.
\<close>

theorem sink3_counts:
  assumes "Wait_error \<notin> set bs"
  shows "if length (filter (sink_open lfd) (arrivals bs)) \<le> 5
    then \<exists>s. sink3_run M lfd bs (new_sink3 w) = Inr s \<and> sink_j s = int (length (filter (sink_block lfd) (arrivals bs))) \<and>
      sink_x s = length (filter (sink_open lfd) (arrivals bs))
    else \<exists>e. sink3_run M lfd bs (new_sink3 w) = Inl e"
proof -
  have ok: "sink_ok (new_sink3 w)" "sink_x (new_sink3 w) = 0" "sink_j (new_sink3 w) = 0"
    by (simp_all add: sink_ok_def new_sink3_def no_of_connections_def)
  show ?thesis
    unfolding sink3_run_arrivals [OF assms]
    using sink3_events_return [OF ok(1), of M lfd "arrivals bs"] sink3_events_count [OF ok(1), of M lfd "arrivals bs"]
    by (cases "on_events (sink3_event M lfd) (arrivals bs) (new_sink3 w)") (auto simp: ok no_of_connections_def)
qed

text \<open>One connection that sends a block and is closed counts two; six connections are too many.\<close>

theorem sink3_counts_witness:
  "(\<exists>s. sink3_run epoll_stack 1 [Events [readable 1], Events [readable 5, readable 5]] (new_sink3 ([1], [])) = Inr s \<and>
     sink_j s = 2 \<and> sink_x s = 1) \<and>
   (\<exists>e. sink3_run epoll_stack 1 [Events (replicate 6 (readable 1))] (new_sink3 ([1], [])) = Inl e)"
  using sink3_counts [of "[Events [readable 1], Events [readable 5, readable 5]]" 1 epoll_stack "([1], [])"]
    sink3_counts [of "[Events (replicate 6 (readable 1))]" 1 epoll_stack "([1], [])"]
  by (simp add: sink_open_def sink_block_def numeral_eq_Suc del: sink3_run.simps)

end
