(* ===== verification/Spec2Isabelle.thy ===== *)
theory Spec2Isabelle
  imports Epc_Mme_Safety Epc_Sctp_Server Epc2_Properties Epc3_Properties Epc3_Mkb_Properties Epc3_Data_Properties
begin

text \<open>
  A virtual LTE packet core and its radio side, \<open>src/NFV_LTE_EPC-1.0/src\<close>; its versions 2.0 and 3.0 follow below. Five kinds of programs
  exchange messages over sockets: the RAN simulator (UEs with their eNodeBs), the MME, the HSS, the
  SGW and the PGW. A UE attaches through the MME: authentication against the HSS, NAS security, a
  session through SGW and PGW, bearer modification. Then its IP packets travel in GTP tunnels between
  the RAN's traffic monitor, the SGW, the PGW and a sink, until it detaches; an S1 handover moves
  the downlink tunnel to another eNodeB in between.

  \<^bold>\<open>Theories and code\<close>

  \<^item> \<open>Epc_Prelude\<close>: \<open>res\<close> (a value, or why the process stops: \<open>Exit\<close> is \<open>handle_type1_error\<close>,
    \<open>Undefined\<close> undefined behaviour of C++, \<open>Uncaught\<close> a standard exception), byte buffers,
    little-endian integers, decimal strings, \<open>unordered_map\<close> with its inserting \<open>operator[]\<close>; the
    locale \<open>id_table\<close> for identification tables.
  \<^item> \<open>Epc_Utils\<close>, \<open>Epc_Config\<close>: \<open>utils.cpp\<close> and the configuration constants at the top of each
    program.
  \<^item> \<open>Epc_Headers\<close> (\<open>gtp.cpp\<close>, \<open>s1ap.cpp\<close>, \<open>diameter.cpp\<close>), \<open>Epc_Packet\<close> (\<open>packet.cpp\<close>): header
    records with their memory image and class \<open>Packet\<close>, the 1024-byte buffer with a cursor. The
    locale \<open>item_codec\<close> states that what is appended is extracted.
  \<^item> \<open>Epc_Extern\<close>: the parameters for OpenSSL and the address functions of libc, with the laws the
    code relies on (\<open>crypto_ok\<close>, \<open>inet_ok\<close>) and a concrete instance that satisfies them.
  \<^item> \<open>Epc_Security\<close> (\<open>security.cpp\<close>), \<open>Epc_Telecom\<close> (\<open>telecom.cpp\<close>), \<open>Epc_Network\<close>
    (\<open>network.cpp\<close>, \<open>sctp_client.cpp\<close>, \<open>udp_client.cpp\<close>, \<open>udp_server.cpp\<close>): protection of messages,
    identifiers, framing over a byte stream with partial reads and writes, datagrams.
  \<^item> \<open>Epc_Hss\<close> (\<open>hss.cpp\<close>, \<open>hss_server.cpp\<close>, \<open>mysql.cpp\<close>), \<open>Epc_Mme\<close>, \<open>Epc_Mme_Handlers\<close>,
    \<open>Epc_Mme_Server\<close> (\<open>mme.cpp\<close>, \<open>mme_server.cpp\<close>), \<open>Epc_Sgw\<close>, \<open>Epc_Sgw_Server\<close> (\<open>sgw.cpp\<close>,
    \<open>sgw_server.cpp\<close>), \<open>Epc_Pgw\<close> (\<open>pgw.cpp\<close>, \<open>pgw_server.cpp\<close>), \<open>Epc_Ran\<close>, \<open>Epc_Simulator\<close>
    (\<open>ran.cpp\<close>, \<open>ran_simulator.cpp\<close>, \<open>ran_simulator_handover.cpp\<close>), \<open>Epc_Sctp_Server\<close>
    (\<open>sctp_server.cpp\<close>): one definition per method, in the order of the source, with a record for the
    state of each class.
  \<^item> \<open>Epc_Messages\<close>, \<open>Epc_Nas\<close>: the messages between the programs as bytes, and the contracts
    (locales) one program relies on: \<open>pgw_service\<close> (what the SGW asks of the PGW), \<open>session_gw\<close> (what
    the MME asks of the SGW), \<open>auth_center\<close> (what the MME asks of the HSS).
  \<^item> \<open>Epc_Sgw_Session\<close>, \<open>Epc_Pgw_Session\<close>, \<open>Epc_Mme_Session\<close>, \<open>Epc_Ran_Session\<close>: what each program
    does with each message; the SGW over any PGW that keeps \<open>pgw_service\<close> keeps \<open>session_gw\<close>, the PGW
    keeps \<open>pgw_service\<close>, and in \<open>core_net\<close> the MME's handlers have their effect over any HSS and SGW
    that keep their contracts.
  \<^item> \<open>Epc_System\<close>, \<open>Epc_Model\<close>: the RAN against the MME, and the contracts discharged for the code's own HSS,
    SGW and PGW (\<open>epc\<close>).
  \<^item> \<open>Epc_Gateway\<close>, \<open>Epc_Bearer\<close>, \<open>Epc_Mme_Safety\<close>: transition systems of the gateways and of the MME
    with their reachable states, and the path of a packet.

  \<^bold>\<open>Version 2.0\<close> (\<open>src/NFV_LTE_EPC-2.0\<close>) runs the same protocol on replicas behind load balancers. A macro of \<open>utils.h\<close>
  (\<open>UE_BINDING\<close>) chooses whether the replicas of a component share the state of a UE through a data store after every
  message, after every session, or not at all; another one (\<open>REP\<close>) has them send copies to each other.

  \<^item> \<open>Epc2_Config\<close>: the build switches and addresses. \<open>Epc2_Store\<close>: a handle of the data store and a request of several
    operations, with the contracts \<open>kv_table\<close> and \<open>kv_tables\<close> (locales): the store is a map.
  \<^item> \<open>Epc2_Kvs_Wire\<close> (\<open>kvstore_client.cpp\<close>), \<open>Epc2_Kvs\<close> (\<open>KVImplLevelDB.cpp\<close>, \<open>KVStoreHeader.h\<close>, \<open>KVStoreHeader.cpp\<close>),
    \<open>Epc2_Kvs_Server\<close> (\<open>server.go\<close>, \<open>lmemdb_kvstore.go\<close>): messages of strings over a byte stream, the operations of the library,
    and the server over LevelDB. LevelDB, the network's segments and the text archives of Boost are parameters
    with laws (\<open>leveldb_ok\<close>, \<open>net_ok\<close>, \<open>boost_ok\<close>). \<open>Epc2_Kvs_Table\<close> proves the two contracts for this code.
  \<^item> \<open>Epc2_Mme\<close>, \<open>Epc2_Mme_Handlers\<close> (\<open>mme.cpp\<close>, \<open>mme_server.cpp\<close>), \<open>Epc2_Sgw\<close>, \<open>Epc2_Sgw_Server\<close> (\<open>sgw.cpp\<close>,
    \<open>sgw_server.cpp\<close>), \<open>Epc2_Pgw\<close> (\<open>pgw.cpp\<close>, \<open>pgw_server.cpp\<close>), \<open>Epc2_Hss\<close> (\<open>hss.cpp\<close>, \<open>hss_server.cpp\<close>): the components, with the
    records and the unchanged operations of version 1.0.
  \<^item> \<open>Epc2_Mme_Share\<close>, \<open>Epc2_Mme_Session\<close>: what a turn of the MME depends on, and its agreement with version 1.0.
    \<open>Epc2_Mme_Store\<close>, \<open>Epc2_Sgw_Session\<close>, \<open>Epc2_Pgw_Session\<close>: the components over any store that keeps its contract
    (locales \<open>shared_mme\<close>, \<open>shared_sgw\<close>, \<open>shared_pgw\<close>); \<open>Epc2_Gateway_Store\<close> and the end of \<open>Epc2_Mme_Store\<close> interpret them on
    the LevelDB store. \<open>Epc2_Samples\<close> instantiates every parameter; \<open>Epc2_Properties\<close> holds the properties.

  \<^bold>\<open>Version 3.0\<close> (\<open>src/NFV_LTE_EPC-3.0/EPC 3.0 Control Plane\<close>) rewrites MME, SGW and PGW as single-threaded programs that wait for
  events of the user-level TCP stack mTCP. A handler that would block on another program is cut into parts, one for each
  event; \<open>fdmap\<close> remembers for each descriptor which part is next and what it needs.

  \<^item> \<open>Epc3_Config\<close> (\<open>defport.h\<close>, \<open>kby_mme.h\<close>). \<open>Epc3_Mtcp\<close>: the calls of mTCP as the fields of a record over any world, the state of the
    loop, and the code the three programs repeat: accept, connect, read and write of a frame, dispatch. The locale \<open>event_program\<close>
    carries an invariant of the handlers to all reachable states; \<open>scripted\<close> is a stack whose world is the list of the calls to
    come, so that a run on it also says which calls were made.
  \<^item> \<open>Epc3_Mme\<close> (\<open>kby_mme.cpp\<close>), \<open>Epc3_Sgw\<close> (\<open>kby_sgw.cpp\<close>), \<open>Epc3_Pgw\<close> (\<open>kby_pgw.cpp\<close>): one definition for each \<open>case\<close> of the
    dispatcher and for each function it calls, with the variables of \<open>run\<close> that survive an event in the state.
  \<^item> \<open>Epc3_Mme_Session\<close>, \<open>Epc3_Gateway_Session\<close>: what each event does, and procedures as runs over several events, with
    foreign events in between where the code tolerates them. \<open>Epc3_Samples\<close> has concrete states; \<open>Epc3_Properties\<close> the properties.

  \<^bold>\<open>The multi-core programs\<close> (\<open>src/NFV_LTE_EPC-3.0/EPC over kernel bypass\<close>) run one such loop on every core; the tables are
  global and guarded by mutexes, which a handler takes and gives back several times.

  \<^item> \<open>Epc3_Threads\<close>: a handler as a program (\<open>prog\<close>) that ends, stops the process, or waits for a mutex and executes a critical
    section on the shared tables. \<open>turns\<close> executes the sections of several programs in the order of a schedule,
    \<open>run_all\<close> the programs one after the other. What holds of every interleaving: the locale \<open>thread_relation\<close> (rely and
    guarantee in one relation on the tables), the locale \<open>keyed_state\<close> (programs that own different keys of the tables are
    serializable), \<open>guarded\<close> (a section touches only what its mutex guards, and changes nothing without one), which makes schedules
    \<open>race_free\<close>, and \<open>each_section\<close>.
  \<^item> \<open>Epc3_Mkb\<close>: what the loops share. \<open>Epc3_Mkb_Mme\<close> (\<open>mkb_mme.cpp\<close>), \<open>Epc3_Mkb_Gateways\<close> (\<open>mkb_sgw.cpp\<close>, \<open>mkb_pgw.cpp\<close>): one
    program for each \<open>case\<close> of the dispatchers, a section for every pair of \<open>mlock\<close> and \<open>munlock\<close>.
  \<^item> \<open>Epc3_Mkb_Mme_Cores\<close>, \<open>Epc3_Mkb_Gateways_Cores\<close>: the keys, the mutexes and what each message owns; the locales
    interpreted on the tables. \<open>Epc3_Mkb_Pgw_Serial\<close>: the PGW on several cores against the one of \<open>Epc3_Pgw\<close>.
    \<open>Epc3_Mkb_Session\<close>, \<open>Epc3_Mkb_Samples\<close>: messages at one core, and cores with scripted stacks; \<open>Epc3_Mkb_Properties\<close> the
    properties.

  \<^bold>\<open>The data plane\<close> (\<open>src/NFV_LTE_EPC-3.0/EPC v3.0 Data Plane\<close>) has a RAN on mTCP that attaches its UEs together and then sends
  blocks of data to a sink; its MME, SGW and PGW end their connections after the attach.

  \<^item> \<open>Epc3_Ran\<close> (\<open>kby_ran.cpp\<close>, \<open>kby_ran.h\<close>): the loops of \<open>main\<close>, one after the other, for a list of connections; the batches of
    events are consumed from a list, and a wait without a further batch is the error \<open>Blocked\<close>. \<open>Epc3_Sink\<close> (\<open>kby_sink.cpp\<close>).
    \<open>Epc3_Data_Plane\<close> (\<open>kby_mme.cpp\<close>, \<open>kby_sgw.cpp\<close>, \<open>kby_pgw.cpp\<close>): what differs from the control plane, and where the two agree.
  \<^item> \<open>Epc3_Ran_Session\<close>: when a phase ends, and the effect of a phase on all UEs (locale \<open>ran_phase\<close>, interpreted on
    authentication, security mode and attach accept). \<open>Epc3_Data_Properties\<close> holds samples and properties.

  \<^bold>\<open>How effects are modelled\<close>

  A handler is one function from the message and the state to the messages that leave and the new state, in
  the order of the source. A call to another program (\<open>snd\<close> then \<open>rcv\<close>) is a \<open>peer\<close>: a function
  from the bytes sent and the rest of the world to an outcome (\<open>rx\<close>: bytes, or a failure) and a new
  world. The mutexes make table accesses atomic; in versions 1.0 and 2.0 a whole handler is one step, so
  interleavings inside a handler are modelled for the multi-core programs only. Integers have the width of their C++ type and wrap; \<open>int\<close>
  locals that cannot leave their range are integers. Contents of uninitialised memory are arguments
  (\<open>fresh_hdrs\<close>, \<open>ran_junk\<close>). Server loops (\<open>serve\<close>, \<open>worker_func\<close>, \<open>simulate_loop\<close>) run over the finite
  list of events or the number of rounds they are given; the clock of \<open>time_check\<close> is that number. Loops of the code that
  end are total functions with a measure (\<open>read_loop\<close>, \<open>write_loop\<close>, \<open>serve_loop\<close>,
  \<open>cmp_hmacs_loop\<close>), so nothing rests on fuel.

  \<^bold>\<open>What is shown\<close>

  The properties C1 to C40 below: end-to-end attach, data transfer and detach over the code of all
  programs (C1, C2, C3, C9, C10); invariants of every reachable state of the gateways (creates for subscribers of the plan under their
  own ids, all other messages of S11 for any endpoint, handover included) and of the MME, with isolation
  of downlink data and authenticated registration (C4 to C7); the gateways as a session table (C8);
  the protection of messages (C11, C12); framing and buffer bounds (C13 to C15); handover (C16).
  Lemmas beside them: both sides of authentication (\<open>ran_accepts_own_key\<close>, \<open>mme_checks_response\<close>), the address plan
  (\<open>address_plan\<close>), detach on the session table (\<open>detach_contract\<close>), the connection server (\<open>worker_watches_all\<close>), the keys
  of RAN and MME agree (\<open>nas_keys_agree\<close>), codecs (\<open>string_roundtrip\<close>), identifiers, accepted connections, the HSS's answers,
  unknown users and ids.

  Version 2.0, in \<open>Epc2_Properties\<close>: after the initial attach replicas of the MME are interchangeable, with the store (C17) or by copies (C18), and without
  either the MME is that of version 1.0 (C19); the store is a map (C20); sessions of the SGW and PGW at any replica (C21, C22,
  \<open>sgw_detach_everywhere\<close>); a packet that comes too early (C23). A detach leaves the context of the MME in the store
  (\<open>mme_detach_keeps_stored\<close>).

  Version 3.0, in \<open>Epc3_Properties\<close>: attach and detach at the MME (C24, C25), the gateways answer and change their tables like
  those of version 1.0 (C26, \<open>gateways3_detach_as_v1\<close>), the types and tables of reachable states (C27, C28,
  \<open>sgw3_tables_agree\<close>), and what connections share mixes up their UEs (C29, \<open>mme3_mixes_ues\<close>).

  The multi-core programs, in \<open>Epc3_Mkb_Properties\<close>: unique ids under every schedule (C30), two accesses of different cores need
  the same mutex or commute (C31), messages of different UEs or sessions are serializable (C32, C33), and the PGW refines the single-core one (C34).

  The data plane, in \<open>Epc3_Data_Properties\<close>: the RAN attaches any number of UEs with answers in any order (C35); what it counts
  (C36) and what a closed connection does to the others (C37); the tables of MME and PGW are those of the control plane (C38),
  the SGW never completes a session (C39); what the sink counts and how many connections it bears (C40).

  \<^bold>\<open>Not modelled\<close>

  Process start-up (\<open>main\<close>, \<open>init\<close>, \<open>run\<close>, argument checks, thread creation), \<open>sync.cpp\<close> (pthread
  wrappers), socket options, the ioctl on the tunnel device, shell commands other than their text,
  and printing.

  Of version 2.0: its RAN, sink and socket classes, the asynchronous operations of the data store library and its other back
  ends (Redis, Memcached, RAMCloud). A world of the store contains the connection of one client; interleavings of several
  clients inside one request are not modelled. The sink of version 1.0 (\<open>sink.cpp\<close>). Of version 3.0: its
  copies of the RAN, the HSS and the library of version 1.0, and the throughput that RAN and sink of the data plane compute. Of the
  multi-core programs: the memory model of C++ below the mutexes. Sections are single steps; C31 shows that this is right where two cores need the same mutex or
  commute, and that these are all cases but one: the PGW's \<open>ip_addrs\<close> is accessed without a mutex, and where that access inserts (an IMSI
  outside the address plan) the code has a data race and the model stops with \<open>Undefined\<close>, so nothing is claimed of such runs.
  The number of cores and their affinity.

\<close>

section \<open>A UE that is ready\<close>

lemma start_count: "ucast (ue_count start_mme + 1) \<noteq> (0 :: u32)"
  by (simp add: start_mme_def)

lemma sample_ready:
  "\<exists>u. imsi_r (ctx u) = plan_imsi 7 \<and>
    ue_ready (epc_prov (sample_db 7 42)) (epc_live sample_lib (epc_addr, 8000)) epc_sess epc_ip u start_mme
      (start_world sample_pkt sample_pkt ()) (plan_guti 7) 7 42"
proof -
  have less: "7 < (10000 :: nat)"
    by simp
  obtain u :: ran where u: "imsi_r (ctx u) = plan_imsi 7" "key_r (ctx u) = of_nat 7" "plmn_id_r (ctx u) = 11"
    using start_ue [OF less, of sample_fresh sample_junk] by blast
  show ?thesis
    using start_ready [OF _ inet_ok_sample sample_db_ok u, of 42 sample_pkt sample_pkt] u(1) by auto
qed

section \<open>The network\<close>

text \<open>
  C1: on a network that has just started, simulator thread \<open>i\<close> of the RAN completes every round:
  \<open>n\<close> attach and detach procedures against the real message handlers of the MME, the HSS, the SGW
  and the PGW all succeed, the MME is alive at the end, the registration counter is \<open>n\<close>, and no
  session is left in the gateways.
\<close>

theorem simulation_completes:
  assumes "crypto_ok X" and "inet_ok X" and "i < 10000" and "n < 2 ^ 32"
    and "hss_db_ok Q (plan_imsi i) (of_nat i) rand_num db"
  shows "\<exists>u tm' cmds m w.
    simulate X (mme_conn X fresh (epc_hss Q fresh_h kr) (epc_sgw X s5 s11) fd) fresh_r junk (int i) rate n tm
      ([], Some start_mme, start_world p1 p2 db) = Inr (u, tm', int n, cmds, [], Some m, w) \<and>
    epc_sess w (of_nat i) = None \<and> ue_ctx_m m (plan_guti i) = None"
proof -
  obtain u where u: "bindE (new_ran fresh_r junk) (ran_init (int i)) = Inr u" "imsi_r (ctx u) = plan_imsi i"
    "key_r (ctx u) = of_nat i" "plmn_id_r (ctx u) = 11" "epc_addrs_of u = new_epc_addrs"
    using start_ue [OF assms(3)] by blast
  have conn: "\<exists>v. ran_conn_mme X u = Inr v"
    using inet_epc [OF assms(2)] u(5)
    by (simp add: ran_conn_mme_def new_epc_addrs_def sctp_client_init_def set_inet_sock_addr_def g_mme_ip_addr_def)
  let ?w = "start_world p1 p2 db"
  have sim: "simulate X mme fresh_r junk (int i) rate n tm v = simulate_loop X mme rate n (u, tm, 0, [], v)" for mme v
    using u(1) conn by (auto simp: simulate_def bindE_eq_Inr)
  have "unat (ue_count start_mme) + n < 2 ^ 32" and "epc_sess ?w (of_nat i) = None"
    and "ue_ctx_m start_mme (plan_guti i) = None"
    using assms(4) by (simp_all add: start_mme_def start_sess)
  moreover note epc.rounds_ok [OF assms(1) start_ready [OF assms(3,2,5) u(2-4), of p1 p2], of n fresh fresh_h kr s5 s11
      fd rate tm 0 "[]"]
  ultimately show ?thesis
    unfolding sim by (cases "n = 0") fastforce+
qed

theorem simulation_completes_witness:
  "\<exists>u tm' cmds m w.
    simulate sample_lib (mme_conn sample_lib sample_fresh (epc_hss (sample_db 7 42) sample_fresh (0, 0))
        (epc_sgw sample_lib ([1], 1) ([2], 2)) 4) sample_fresh sample_junk 7 10 3 Map.empty
      ([], Some start_mme, start_world sample_pkt sample_pkt ()) = Inr (u, tm', 3, cmds, [], Some m, w) \<and>
    epc_sess w 7 = None \<and> ue_ctx_m m (plan_guti 7) = None"
  using simulation_completes [OF crypto_ok_sample inet_ok_sample _ _ sample_db_ok, of 7 3] by simp

text \<open>
  C2: attach. For a UE that is ready (provisioned, identifiers in range, no session under another
  endpoint), the RAN's attach procedure over the network succeeds. Afterwards the RAN, the MME and
  the gateways agree: same session key, same GUTI, the endpoint id \<open>t\<close> derived from it on every
  interface, the address the PGW assigned, both sides registered and connected, and the traffic
  monitor has the uplink entry.
\<close>

theorem attach_succeeds:
  assumes "crypto_ok X" and "ue_ready (epc_prov Q) (epc_live X a) epc_sess epc_ip u m w guti t rand_num"
    and "ucast (ue_count m + 1) \<noteq> (0 :: u32)"
  shows "\<exists>u' m' w'.
    ran_attach X (mme_conn X fresh (epc_hss Q fresh_h kr) (epc_sgw X s5 s11) fd) u tm ([], Some m, w) =
      Inr (True, u', update_uplink_info (epc_ip (imsi_r (ctx u)) w) t g_sgw_s1_ip_addr g_sgw_s1_port tm,
           [], Some m', w') \<and>
    attached (epc_live X a) epc_sess epc_ip u' m' w' guti t \<and>
    ue_count m' = ue_count m + 1 \<and> epc_sess w' = (epc_sess w)(t \<mapsto> imsi_r (ctx u))"
  using epc.attach_ok [OF assms] by fast

theorem attach_succeeds_witness:
  "\<exists>u u' m' w'. imsi_r (ctx u) = plan_imsi 7 \<and>
    ran_attach sample_lib (mme_conn sample_lib sample_fresh (epc_hss (sample_db 7 42) sample_fresh (0, 0))
        (epc_sgw sample_lib ([1], 1) ([2], 2)) 4) u Map.empty ([], Some start_mme, start_world sample_pkt sample_pkt ()) =
      Inr (True, u', update_uplink_info (epc_ip (imsi_r (ctx u)) (start_world sample_pkt sample_pkt ())) 7
        g_sgw_s1_ip_addr g_sgw_s1_port Map.empty, [], Some m', w') \<and>
    attached (epc_live sample_lib (epc_addr, 8000)) epc_sess epc_ip u' m' w' (plan_guti 7) 7"
proof -
  obtain u where u: "imsi_r (ctx u) = plan_imsi 7" "ue_ready (epc_prov (sample_db 7 42))
      (epc_live sample_lib (epc_addr, 8000)) epc_sess epc_ip u start_mme (start_world sample_pkt sample_pkt ()) (plan_guti 7) 7 42"
    using sample_ready by blast
  show ?thesis
    using attach_succeeds [OF crypto_ok_sample u(2) start_count] u(1) by blast
qed

text \<open>
  C3: detach. An attached UE detaches: the MME answers, forgets its id and its context, and the
  gateways drop its session and no other.
\<close>

theorem detach_releases:
  assumes "crypto_ok X" and "attached (epc_live X a) epc_sess epc_ip u m w guti t"
  shows "\<exists>u' w'.
    ran_detach X (mme_conn X fresh (epc_hss Q fresh_h kr) (epc_sgw X s5 s11) fd) u ([], Some m, w) =
      Inr (True, u', [], Some (mme_removed (mme_s1ap_ue_id_r (ctx u)) guti m), w') \<and>
    epc_live X a w' \<and> epc_sess w' = (epc_sess w)(t := None)"
  using epc.detach_ok [OF assms] by fast

theorem detach_releases_witness:
  "\<exists>u m w u' w'.
    ran_detach sample_lib (mme_conn sample_lib sample_fresh (epc_hss (sample_db 7 42) sample_fresh (0, 0))
        (epc_sgw sample_lib ([1], 1) ([2], 2)) 4) u ([], Some m, w) =
      Inr (True, u', [], Some (mme_removed (mme_s1ap_ue_id_r (ctx u)) (plan_guti 7) m), w') \<and>
    epc_live sample_lib (epc_addr, 8000) w' \<and> epc_sess w' = (epc_sess w)(7 := None)"
proof -
  obtain u where u: "ue_ready (epc_prov (sample_db 7 42))
      (epc_live sample_lib (epc_addr, 8000)) epc_sess epc_ip u start_mme (start_world sample_pkt sample_pkt ()) (plan_guti 7) 7 42"
    using sample_ready by blast
  have "\<exists>u' m (w :: unit epc_world). attached (epc_live sample_lib (epc_addr, 8000)) epc_sess epc_ip u' m w (plan_guti 7) 7"
    using epc.attach_ok [OF crypto_ok_sample u start_count] by fast
  then obtain u' m and w :: "unit epc_world" where
    "attached (epc_live sample_lib (epc_addr, 8000)) epc_sess epc_ip u' m w (plan_guti 7) 7"
    by blast
  from detach_releases [OF crypto_ok_sample this] show ?thesis
    by blast
qed

section \<open>The gateways\<close>

lemma gw_addr_sample: "pgw_addr sample_lib = Inr (epc_addr, 8000)"
  by (rule pgw_addr_ok [OF inet_ok_sample])

definition gw_sample :: gw_proc where
  "gw_sample = snd (gw_send sample_lib ([1], 1) ([2], 2)
     (create_req11 (sample_gtp 1 0) (of_nat 7) (plan_imsi 7) 5 g_pgw_s5_ip_addr g_pgw_s5_port 0 1)
     (gw_start sample_pkt sample_pkt))"

lemma gw_sample_trace: "gw_trace sample_lib [Session] gw_sample"
proof -
  have "gw_step sample_lib Session (gw_start sample_pkt sample_pkt) gw_sample"
    unfolding gw_sample_def by (rule gw_step.create [OF _ _ prod.collapse [symmetric]]) simp_all
  from gw_trace.step [OF gw_trace.start this] show ?thesis
    by simp
qed

lemma gw_sample_reachable: "gw_reachable sample_lib gw_sample"
  using gw_sample_trace by (auto simp: gw_reachable_def)

lemma gw_sample_eq:
  "\<exists>q q'. gw_sample = Some (q, sgw_created 7 (plan_imsi 7) 5 g_pgw_s5_ip_addr g_pgw_s5_port 0 1 7 7 new_sgw,
     Some (q', pgw_created 7 (plan_imsi 7) 5 7 0 1 new_pgw))"
proof -
  have "short_ip (ip_of new_pgw (plan_imsi 7))"
    using plan_ip_short [of 7] new_pgw_ip [of 7] by (simp add: ip_of_def)
  from gw_create_eq [OF _ gw_addr_sample this, of "sample_gtp 1 0" "([1], 1)" "([2], 2)" 7 5 0 1 sample_pkt new_sgw sample_pkt]
  show ?thesis
    by (auto simp: gw_sample_def gw_start_def)
qed

lemma gw_sample_state:
  "\<exists>q s q' p. gw_sample = Some (q, s, Some (q', p)) \<and> s11_id s = [7 \<mapsto> plan_imsi 7]"
proof -
  have "s11_id (sgw_created 7 (plan_imsi 7) 5 g_pgw_s5_ip_addr g_pgw_s5_port 0 1 7 7 new_sgw) = [7 \<mapsto> plan_imsi 7]"
    by (simp add: sgw_created_def) (simp add: new_sgw_def)
  with gw_sample_eq show ?thesis
    by blast
qed

lemma gw_sample_inv:
  assumes "gw_sample = Some (q, s, pw)"
  shows "sgw_inv s"
proof -
  have "planned 7 (plan_imsi 7)"
    unfolding planned_def by (intro exI [of _ 7]) simp
  then have "sgw_inv (sgw_created 7 (plan_imsi 7) 5 g_pgw_s5_ip_addr g_pgw_s5_port 0 1 7 7 new_sgw)"
    using planned_nonzero by (intro sgw_created_inv [OF new_sgw_inv]) (auto simp: one_teid_def new_sgw_def)
  with gw_sample_eq show ?thesis
    unfolding assms by blast
qed

text \<open>
  Subscribers 7 and 8 in session, and an indirect tunnel for 7: its uplink id 8 is the uplink id of
  subscriber 8.
\<close>

lemma indirect_tunnel_overwrites:
  "\<exists>q s pw. gw_trace sample_lib [Session, Session, Handover] (Some (q, s, pw)) \<and>
    s11_id s = [7 \<mapsto> plan_imsi 7, 8 \<mapsto> plan_imsi 8] \<and> s1_id s = [7 \<mapsto> plan_imsi 7, 8 \<mapsto> plan_imsi 7]"
proof -
  let ?s = "sgw_created 7 (plan_imsi 7) 5 g_pgw_s5_ip_addr g_pgw_s5_port 0 1 7 7 new_sgw"
  let ?p = "pgw_created 7 (plan_imsi 7) 5 7 0 1 new_pgw"
  let ?s2 = "sgw_created 8 (plan_imsi 8) 5 g_pgw_s5_ip_addr g_pgw_s5_port 0 1 8 8 ?s"
  obtain q q' where g: "gw_sample = Some (q, ?s, Some (q', ?p))"
    using gw_sample_eq by blast
  have "short_ip (ip_of ?p (plan_imsi 8))"
    using plan_ip_short [of 8] new_pgw_ip [of 8] by (simp add: ip_of_def pgw_created_def)
  from gw_create_eq [OF _ gw_addr_sample this, of "sample_gtp 1 0" "([1], 1)" "([2], 2)" 8 5 0 1 q ?s q']
  obtain r q2 pw where c: "gw_send sample_lib ([1], 1) ([2], 2)
      (create_req11 (sample_gtp 1 0) (of_nat 8) (plan_imsi 8) 5 g_pgw_s5_ip_addr g_pgw_s5_port 0 1) gw_sample =
        (r, Some (q2, ?s2, pw))"
    by (auto simp: g)
  have "gw_trace sample_lib [Session, Session] (Some (q2, ?s2, pw))"
    using gw_trace.step [OF gw_sample_trace gw_step.create [of 8, OF _ _ c]] by simp
  moreover have tab: "s11_id ?s2 = [7 \<mapsto> plan_imsi 7, 8 \<mapsto> plan_imsi 8]" "s1_id ?s2 = [7 \<mapsto> plan_imsi 7, 8 \<mapsto> plan_imsi 8]"
    by (simp_all add: sgw_created_def) (simp_all add: new_sgw_def)
  have "plan_imsi 7 \<noteq> plan_imsi 8"
    using plan_imsi_inject [of 7 8] by auto
  then have id: "s11_cteid_mme_s (sgw_ue_at (plan_imsi 7) ?s2) = 7"
    by (simp add: sgw_created_def sgw_ue_at_def sgw_ue_init_def)
  obtain r q3 where t: "gw_send sample_lib ([1], 1) ([2], 2) (teid_msg (sample_gtp 4 7) 77) (Some (q2, ?s2, pw)) =
      (r, Some (q3, sgw_tunnelled (plan_imsi 7) 77 ?s2, pw))"
    using gw_handover_eq(1) [of "sample_gtp 4 7" sample_lib "([1], 1)" "([2], 2)" 77 q2 ?s2 pw] tab(1) by auto
  ultimately have "gw_trace sample_lib [Session, Session, Handover] (Some (q3, sgw_tunnelled (plan_imsi 7) 77 ?s2, pw))"
    using gw_trace.step [OF _ gw_step.tunnel_setup [OF _ t], of "[Session, Session]"] by simp
  moreover have "s1_id (sgw_tunnelled (plan_imsi 7) 77 ?s2) = [7 \<mapsto> plan_imsi 7, 8 \<mapsto> plan_imsi 7]"
    by (simp add: sgw_tunnelled_def id tab)
  ultimately show ?thesis
    using tab(1) by (metis sgw_handover_tables(1))
qed

text \<open>
  C4: consistency of the gateways. Take any messages in any order: on S11 well-formed messages of every
  type, create session for planned subscribers under their own endpoint ids and all others for any
  endpoint; on the user plane any bytes that a turn survives. If the SGW stopped, it had received a modify bearer
  or detach for an endpoint without a session. Otherwise both processes are up, the S11 and S5 tables of
  the SGW and the table of the PGW hold the same sessions, each session is that of a planned subscriber
  under its own endpoint id, and both contexts point back to it. The S1 table equals them as long as no
  handover message came; after that, an uplink id leads to its own subscriber, to the one of the id
  before it (whose indirect tunnel took the id), or, id 1, to IMSI 0 and is dropped.
\<close>

theorem gateways_consistent:
  assumes "inet_ok X" and "gw_trace X ls w"
  shows "Stray \<in> set ls \<and> w = None \<or>
    (\<exists>pkt s pkt' p. w = Some (pkt, s, Some (pkt', p)) \<and> s5_id s = s11_id s \<and> s5_id_p p = s11_id s \<and>
      (\<forall>t imsi. s11_id s t = Some imsi \<longrightarrow> planned t imsi \<and>
        (\<exists>c cp. ue_ctx_s s imsi = Some c \<and> sgw_ctx_ok t c \<and>
           ue_ctx_p p imsi = Some cp \<and> s5_cteid_ul_p cp = t \<and> s5_uteid_dl_p cp = t \<and> ip_addr_p cp = ip_of p imsi)) \<and>
      (Handover \<notin> set ls \<longrightarrow> s1_id s = s11_id s) \<and>
      (\<forall>t imsi. s1_id s t = Some imsi \<longrightarrow> planned t imsi \<or> planned (t - 1) imsi \<or> t = 1 \<and> imsi = 0))"
proof -
  note inv = gw_trace_inv [OF pgw_addr_ok [OF assms(1)] assms(2)]
  show ?thesis
  proof (cases "Stray \<in> set ls \<and> w = None")
    case False
    with inv obtain pkt s pkt' p where w: "w = Some (pkt, s, Some (pkt', p))" and core: "sgw_core s" "pgw_inv p"
        "s11_id s = s5_id_p p" "\<forall>t imsi. s11_id s t = Some imsi \<longrightarrow> planned t imsi"
      and s1: "sgw_s1_ok s" "Handover \<notin> set ls \<longrightarrow> s1_id s = s11_id s"
      by (auto simp: gw_inv_def gw_s1_def)
    then show ?thesis
      unfolding sgw_core_def pgw_inv_def sgw_s1_ok_def uplink_ok_def
      by (intro disjI2 exI conjI) (auto; metis)+
  qed blast
qed

theorem gateways_consistent_witness:
  "(\<exists>pkt s pkt' p. gw_sample = Some (pkt, s, Some (pkt', p)) \<and> s1_id s = s11_id s \<and> s5_id_p p = s11_id s) \<and>
   (\<exists>ls pkt s pkt' p. gw_trace sample_lib ls (Some (pkt, s, Some (pkt', p))) \<and> s5_id_p p = s11_id s \<and>
      s11_id s 8 = Some (plan_imsi 8) \<and> s1_id s 8 = Some (plan_imsi 7))"
proof
  show "\<exists>pkt s pkt' p. gw_sample = Some (pkt, s, Some (pkt', p)) \<and> s1_id s = s11_id s \<and> s5_id_p p = s11_id s"
    using gateways_consistent [OF inet_ok_sample gw_sample_trace] by auto
  obtain q s pw where t: "gw_trace sample_lib [Session, Session, Handover] (Some (q, s, pw))"
      "s11_id s 8 = Some (plan_imsi 8)" "s1_id s 8 = Some (plan_imsi 7)"
    using indirect_tunnel_overwrites by fastforce
  from gateways_consistent [OF inet_ok_sample t(1)]
  show "\<exists>ls pkt s pkt' p. gw_trace sample_lib ls (Some (pkt, s, Some (pkt', p))) \<and> s5_id_p p = s11_id s \<and>
      s11_id s 8 = Some (plan_imsi 8) \<and> s1_id s 8 = Some (plan_imsi 7)"
    using t by (metis (no_types, lifting) option.inject prod.inject option.distinct(1))
qed

text \<open>
  C5: isolation of downlink data. In every reachable state of the gateways, a packet for the address of
  subscriber \<open>i\<close> leaves the PGW in exactly one datagram, with the endpoint id of that subscriber's own
  session, when there is one, and is dropped otherwise. It never enters another tunnel.
\<close>

theorem downlink_reaches_owner:
  assumes "inet_ok X" and "gw_reachable X (Some (pkt, s, Some (pkt', p)))" and "i < 10000"
    and "20 \<le> length m" "length m \<le> 1008" "inet_ntop X (take 4 (drop 16 m)) = plan_ip i"
    and "set_inet_sock_addr X g_sgw_s5_ip_addr g_sgw_s5_port = Inr a"
  shows "\<exists>os q. pgw_sgi_turn X (src, Rx m) (pkt1, p) = Inr (os, q, p) \<and>
    (if s11_id s (of_nat i) = None then os = []
     else \<exists>h. os = [Forward a (gtp_bytes h @ m)] \<and> msg_type_g h = 3 \<and> teid h = of_nat i \<and>
            s5_id s (teid h) = Some (plan_imsi i))"
  by (rule downlink_isolated [OF pgw_addr_ok [OF assms(1)] assms(2-)])

definition sample_packet :: "u8 list" where
  "sample_packet = replicate 16 0 @ [172, 16, 1, 10]"

lemma sample_packet_addr: "inet_ntop sample_lib (take 4 (drop 16 sample_packet)) = plan_ip 7"
  using plan_ip_dotted [of 7] by (simp add: sample_lib_def sample_packet_def)

lemma sample_packet_length [simp]: "length sample_packet = 20"
  by (simp add: sample_packet_def)

theorem downlink_reaches_owner_witness:
  "\<exists>q s q' p a os h q1. gw_sample = Some (q, s, Some (q', p)) \<and>
    pgw_sgi_turn sample_lib (([3], 3), Rx sample_packet) (sample_pkt, p) =
      Inr ([Forward a (gtp_bytes h @ sample_packet)], q1, p) \<and> teid h = 7"
proof -
  obtain q s q' p where g: "gw_sample = Some (q, s, Some (q', p))" and s: "s11_id s = [7 \<mapsto> plan_imsi 7]"
    using gw_sample_state by blast
  obtain a where a: "set_inet_sock_addr sample_lib g_sgw_s5_ip_addr g_sgw_s5_port = Inr a"
    using inet_epc [OF inet_ok_sample] by (simp add: set_inet_sock_addr_def g_sgw_s5_ip_addr_def)
  from downlink_reaches_owner [OF inet_ok_sample gw_sample_reachable [unfolded g] _ _ _ sample_packet_addr a]
  show ?thesis
    using g s by fastforce
qed

section \<open>The MME\<close>

definition sample_hss :: "unit epc_world peer" where
  "sample_hss = epc_hss (sample_db 7 42) sample_fresh (0, 0)"

definition sample_sgw :: "unit epc_world peer" where
  "sample_sgw = epc_sgw sample_lib ([1], 1) ([2], 2)"

abbreviation sample_world :: "unit epc_world" where
  "sample_world \<equiv> start_world sample_pkt sample_pkt ()"

definition sample_mme :: mme where
  "sample_mme = (case autn_vector 7 42 11 of (autn, xres, k_asme) \<Rightarrow>
     mme_challenged (plan_guti 7) (plan_imsi 7) 7 1 1 xres k_asme start_mme)"

lemma sample_guti: "get_guti 1111 (plan_imsi 7) = Inr (plan_guti 7)" "plan_guti 7 \<noteq> 0"
proof -
  have "unat (plan_guti 7) \<noteq> 0"
    by (simp add: unat_plan_guti)
  then show "plan_guti 7 \<noteq> 0"
    by auto
  show "get_guti 1111 (plan_imsi 7) = Inr (plan_guti 7)"
    using get_guti_1111 [OF plan_imsi12, of 7] by (simp add: plan_guti_def)
qed

lemma sample_attach:
  "\<exists>out. mme_handle_ue sample_lib sample_fresh sample_hss sample_sgw 4
     (Rx (attach_req (sample_s1ap 1 0) (plan_imsi 7) 1 0 1)) start_mme sample_world = Inr (1, out, sample_mme, sample_world)"
proof -
  have "epc_prov (sample_db 7 42) (plan_imsi 7) 7 42 sample_world"
    using sample_db_ok [of 7 42 "plan_imsi 7"] by (simp add: epc_prov_def hss_prov_def start_world_def)
  moreover have "get_guti (gummei (mme_ids_of start_mme)) (plan_imsi 7) = Inr (plan_guti 7)"
    using sample_guti by (simp add: start_mme_def)
  moreover have "plmn_id (mme_ids_of start_mme) = 11" and "enodeb_s1ap_ue_id (sample_s1ap 1 0) = 7"
    by (simp_all add: start_mme_def sample_s1ap_def)
  ultimately show ?thesis
    unfolding sample_hss_def sample_sgw_def sample_mme_def
    using epc.attach_turn [of "sample_db 7 42" "plan_imsi 7" 7 42 sample_world start_mme "plan_guti 7" "sample_s1ap 1 0"]
    by (cases "autn_vector 7 42 11") simp
qed

lemma sample_mme_fields:
  "s1mme_id sample_mme = [1 \<mapsto> plan_guti 7]" "ue_count sample_mme = 1"
  "\<exists>c. ue_ctx_m sample_mme (plan_guti 7) = Some c \<and> emm_state_m c = 0 \<and> count_m c = 1 \<and> bearer_m c = 0 \<and>
     dir_m c = 1 \<and> Inr (xres_m c, k_asme_m c) = Inr (snd (autn_vector 7 42 11))"
  by (cases "autn_vector 7 42 11";
      simp add: sample_mme_def mme_challenged_def start_mme_def Let_def modify_at_def mme_ue_init_def new_mme_ue_def)+

lemma sample_mme_reachable: "mme_reachable sample_lib sample_hss sample_sgw sample_mme"
proof -
  obtain out where "mme_handle_ue sample_lib sample_fresh sample_hss sample_sgw 4
     (Rx (attach_req (sample_s1ap 1 0) (plan_imsi 7) 1 0 1)) start_mme sample_world = Inr (1, out, sample_mme, sample_world)"
    using sample_attach by blast
  then show ?thesis
    by (rule mme_reachable.turn [OF mme_reachable.start [OF new_mme_start], rotated]) (simp add: start_mme_def)
qed

text \<open>
  C6: identifiers of the MME. After any messages on any connections, and whatever the HSS and the SGW
  answered, every MME id in use is non-zero and at most the number of attaches, the id of the next
  attach is unused, every id leads to a GUTI of this network, and a context that carries an IMSI is
  filed under the GUTI of that IMSI.
\<close>

theorem mme_identifiers:
  assumes "mme_reachable X hss sgw m"
  shows "(\<forall>i g. s1mme_id m i = Some g \<longrightarrow>
      i \<noteq> 0 \<and> unat i \<le> unat (ue_count m) \<and> (\<exists>imsi. get_guti (gummei (mme_ids_of m)) imsi = Inr g)) \<and>
    (unat (ue_count m) + 1 < 2 ^ 32 \<longrightarrow> s1mme_id m (ucast (ue_count m + 1)) = None) \<and>
    (\<forall>g c. ue_ctx_m m g = Some c \<and> imsi_m c \<noteq> 0 \<longrightarrow> get_guti (gummei (mme_ids_of m)) (imsi_m c) = Inr g)"
proof -
  have "mme_inv m"
    using assms by (rule mme_reachable_inv)
  moreover from this have "get_guti (gummei (mme_ids_of m)) (imsi_m c) = Inr g"
    if "ue_ctx_m m g = Some c" "imsi_m c \<noteq> 0" for g c
    using that by (auto simp: mme_inv_def ue_at_def at_or_def dest: spec [of _ g])
  ultimately show ?thesis
    using attach_id_unused [of m] unfolding mme_inv_def by blast
qed

theorem mme_identifiers_witness: "s1mme_id sample_mme 2 = None"
  using mme_identifiers [OF sample_mme_reachable] by (simp add: sample_mme_fields)

text \<open>
  C7: registration needs a MAC. Whatever one message does to the MME, a UE that was not registered is
  registered afterwards only when the message carries the id of that UE and its MAC verifies under
  the UE's integrity key.
\<close>

theorem registration_is_authenticated:
  assumes "mme_handle_ue X fresh hss sgw fd r m w = Inr (status, os, m', w')"
    and "emm_state_m (ue_at guti m) = 0" and "emm_state_m (ue_at guti m') \<noteq> 0"
  shows "\<exists>p q. mme_received fresh r = Inr p \<and> mme_get_guti p m = guti \<and> guti \<noteq> 0 \<and>
    hmac_check X (k_nas_int_m (ue_at guti m)) p = Inr (True, q)"
  by (rule registration_needs_mac [OF assms])

abbreviation modify_ok :: "unit epc_world peer" where
  "modify_ok \<equiv> \<lambda>req w. (Rx (bool_rsp (sample_gtp 2 1) True), w)"

lemma sample_complete:
  "mme_handle_ue sample_lib sample_fresh sample_hss modify_ok 4
     (Rx (nas_msg sample_lib (sample_s1ap 4 1) (complete_body 5 7))) sample_mme sample_world =
   Inr (1, [], mme_completed (plan_guti 7) 7 True sample_mme, sample_world)"
proof -
  obtain c where "ue_ctx_m sample_mme (plan_guti 7) = Some c"
    using sample_mme_fields(3) by auto
  moreover have "s1mme_id sample_mme (mme_s1ap_ue_id (sample_s1ap 4 1)) = Some (plan_guti 7)"
    by (simp add: sample_mme_fields)
  ultimately show ?thesis
    using mme_complete_turn [OF crypto_ok_sample _ _ _ sample_guti(2), where h = "sample_s1ap 4 1" and m = sample_mme
        and c = c and sgw = modify_ok and w = sample_world and res = True and w' = sample_world] by simp
qed

lemma sample_completed: "emm_state_m (ue_at (plan_guti 7) (mme_completed (plan_guti 7) 7 True sample_mme)) = 1"
  by (simp add: mme_completed_def ue_at_def)

theorem registration_is_authenticated_witness:
  "\<exists>p q. mme_received sample_fresh (Rx (nas_msg sample_lib (sample_s1ap 4 1) (complete_body 5 7))) = Inr p \<and>
    hmac_check sample_lib (k_nas_int_m (ue_at (plan_guti 7) sample_mme)) p = Inr (True, q)"
proof -
  have "emm_state_m (ue_at (plan_guti 7) sample_mme) = 0"
    using sample_mme_fields(3) by (auto simp: ue_at_def)
  from registration_is_authenticated [OF sample_complete this] sample_completed show ?thesis
    by auto
qed

section \<open>Contracts of the gateways\<close>

text \<open>
  C8: create session. The SGW over the PGW keeps the contract that the MME relies on: for a
  subscriber with an address and no session under another endpoint, create session answers with
  that address and the endpoint id on all interfaces, and the abstract session table gains exactly
  this entry.
\<close>

theorem create_session_contract:
  assumes "sgw_live X a (pgw_live X a) pgw_sess w" and "imsi \<noteq> 0" and "short_ip (sgw_ip pgw_ip imsi w)"
    and "one_teid (sgw_sess w) t imsi" and "msg_type_g h = 1"
  shows "\<exists>h' w'. sgw_peer X (pgw_net X s5) s11
      (create_req11 h t imsi b g_pgw_s5_ip_addr g_pgw_s5_port apn tai) w =
      (Rx (create_rsp11 h' t (sgw_ip pgw_ip imsi w) t t t), w') \<and>
    sgw_live X a (pgw_live X a) pgw_sess w' \<and> sgw_sess w' = (sgw_sess w)(t \<mapsto> imsi) \<and>
    (\<forall>i. sgw_ip pgw_ip i w' = sgw_ip pgw_ip i w)"
  by (rule pgw_model.gw.create [OF assms])

lemma gw_start_live: "sgw_live sample_lib (epc_addr, 8000) (pgw_live sample_lib (epc_addr, 8000)) pgw_sess
    (gw_start sample_pkt sample_pkt)"
  using start_live [OF inet_ok_sample, of sample_pkt sample_pkt "()"]
  by (simp add: epc_live_def start_world_def gw_start_def)

lemma sample_imsi: "plan_imsi 7 \<noteq> 0"
proof -
  have "unat (plan_imsi 7) \<noteq> 0"
    by (simp add: unat_plan_imsi)
  then show ?thesis by auto
qed

theorem create_session_contract_witness:
  "\<exists>h' w'. sgw_peer sample_lib (pgw_net sample_lib ([1], 1)) ([2], 2)
      (create_req11 (sample_gtp 1 0) 7 (plan_imsi 7) 5 g_pgw_s5_ip_addr g_pgw_s5_port 0 1) (gw_start sample_pkt sample_pkt) =
      (Rx (create_rsp11 h' 7 (plan_ip 7) 7 7 7), w') \<and> sgw_sess w' 7 = Some (plan_imsi 7)"
proof -
  have ip: "sgw_ip pgw_ip (plan_imsi 7) (gw_start sample_pkt sample_pkt) = plan_ip 7"
    using new_pgw_ip [of 7] by (simp add: gw_start_def sgw_ip_def pgw_ip_def ip_of_def)
  have one: "one_teid (sgw_sess (gw_start sample_pkt sample_pkt)) 7 (plan_imsi 7)"
    by (simp add: one_teid_def gw_start_def sgw_sess_def new_sgw_def)
  show ?thesis
    using create_session_contract [OF gw_start_live sample_imsi _ one, of "sample_gtp 1 0" "([1], 1)" "([2], 2)" 5 0 1]
      plan_ip_short [of 7]
    by (auto simp: ip)
qed

text \<open>
  Detach. For an endpoint with a session, the detach request makes SGW and PGW drop exactly that
  session and answer \<open>true\<close>.
\<close>

theorem detach_contract:
  assumes "sgw_live X a (pgw_live X a) pgw_sess w" and "sgw_sess w (teid h) = Some imsi" and "msg_type_g h = 3"
  shows "\<exists>h' w'. sgw_peer X (pgw_net X s5) s11 (detach_req h b tai) w = (Rx (bool_rsp h' True), w') \<and>
    sgw_live X a (pgw_live X a) pgw_sess w' \<and> sgw_sess w' = (sgw_sess w)(teid h := None) \<and>
    (\<forall>i. sgw_ip pgw_ip i w' = sgw_ip pgw_ip i w)"
  by (rule pgw_model.gw.detach [OF assms])

lemma gw_sample_live:
  "sgw_live sample_lib (epc_addr, 8000) (pgw_live sample_lib (epc_addr, 8000)) pgw_sess gw_sample"
proof -
  obtain pkt s pkt' p where g: "gw_sample = Some (pkt, s, Some (pkt', p))" "sgw_core s" "pgw_inv p" "s11_id s = s5_id_p p"
    using gw_reachable_inv [OF gw_addr_sample gw_sample_reachable] gw_sample_state unfolding gw_inv_def by force
  then show ?thesis
    using gw_addr_sample gw_sample_inv [OF g(1)] by (simp add: g(1) sgw_live_def pgw_live_def pgw_addr_def pgw_sess_def)
qed

theorem detach_contract_witness:
  "\<exists>h' w'. sgw_peer sample_lib (pgw_net sample_lib ([1], 1)) ([2], 2) (detach_req (sample_gtp 3 7) 5 1) gw_sample =
      (Rx (bool_rsp h' True), w') \<and> sgw_sess w' 7 = None"
proof -
  obtain q s q' p where g: "gw_sample = Some (q, s, Some (q', p))" and "s11_id s = [7 \<mapsto> plan_imsi 7]"
    using gw_sample_state by blast
  then have "sgw_sess gw_sample (teid (sample_gtp 3 7)) = Some (plan_imsi 7)"
    by (simp add: sgw_sess_def g)
  from detach_contract [OF gw_sample_live this, of "([1], 1)" "([2], 2)" 5 1] show ?thesis
    by auto
qed

section \<open>User data\<close>

text \<open>
  C9: the uplink path. A packet from the address of an attached UE is tunnelled by the traffic monitor,
  re-tunnelled by the SGW and delivered by the PGW to the sink, byte for byte; no state changes.
\<close>

theorem uplink_delivered:
  assumes "20 \<le> length m" "length m \<le> 1008" "inet_ntop X (take 4 (drop 12 m)) = ip"
    and "get_uplink_info ip tm = Some (t, sip, port)" "set_inet_sock_addr X sip port = Inr a1"
    and "sgw_inv s" "s11_id s t = Some imsi"
    and "pgw_addr X = Inr a2" "set_inet_sock_addr X g_sink_ip_addr g_sink_port = Inr a3"
  shows "\<exists>h1 h2 q1 q2. tm_handle_uplink_udata X fresh (Rx m) tm = Inr [Forward a1 (gtp_bytes h1 @ m)] \<and>
    sgw_s1_turn X (src1, Rx (gtp_bytes h1 @ m)) (pkt1, s) = Inr ([Forward a2 (gtp_bytes h2 @ m)], q1, s) \<and>
    pgw_s5_turn X (src2, Rx (gtp_bytes h2 @ m)) (pkt2, p) = Inr ([Forward a3 m], q2, p)"
  by (rule uplink_path [OF assms])

definition sample_uplink :: "u8 list" where
  "sample_uplink = replicate 12 0 @ [172, 16, 1, 10] @ replicate 4 0"

theorem uplink_delivered_witness:
  "\<exists>s h1 h2 q1 q2 a1 a2 a3. s11_id s 7 = Some (plan_imsi 7) \<and>
    tm_handle_uplink_udata sample_lib sample_fresh (Rx sample_uplink)
      (update_uplink_info (plan_ip 7) 7 g_sgw_s1_ip_addr g_sgw_s1_port Map.empty) =
      Inr [Forward a1 (gtp_bytes h1 @ sample_uplink)] \<and>
    sgw_s1_turn sample_lib (([1], 1), Rx (gtp_bytes h1 @ sample_uplink)) (sample_pkt, s) =
      Inr ([Forward a2 (gtp_bytes h2 @ sample_uplink)], q1, s) \<and>
    pgw_s5_turn sample_lib (([1], 1), Rx (gtp_bytes h2 @ sample_uplink)) (sample_pkt, new_pgw) =
      Inr ([Forward a3 sample_uplink], q2, new_pgw)"
proof -
  obtain q s q' p where g: "gw_sample = Some (q, s, Some (q', p))" and s: "s11_id s 7 = Some (plan_imsi 7)"
    using gw_sample_state by auto
  have inv: "sgw_inv s"
    by (rule gw_sample_inv [OF g])
  have ip: "inet_ntop sample_lib (take 4 (drop 12 sample_uplink)) = plan_ip 7"
    using plan_ip_dotted [of 7] by (simp add: sample_lib_def sample_uplink_def)
  have m: "20 \<le> length sample_uplink" "length sample_uplink \<le> 1008"
    by (simp_all add: sample_uplink_def)
  have tm: "get_uplink_info (plan_ip 7) (update_uplink_info (plan_ip 7) 7 g_sgw_s1_ip_addr g_sgw_s1_port Map.empty) =
      Some (7, g_sgw_s1_ip_addr, g_sgw_s1_port)"
    by (simp add: get_uplink_info_def update_uplink_info_def)
  obtain a1 a3 where a: "set_inet_sock_addr sample_lib g_sgw_s1_ip_addr g_sgw_s1_port = Inr a1"
      "set_inet_sock_addr sample_lib g_sink_ip_addr g_sink_port = Inr a3"
    using inet_epc [OF inet_ok_sample] by (simp add: set_inet_sock_addr_def g_sgw_s1_ip_addr_def g_sink_ip_addr_def)
  from uplink_delivered [OF m ip tm a(1) inv s gw_addr_sample a(2), of sample_fresh "([1], 1)" sample_pkt "([1], 1)"
      sample_pkt new_pgw] s
  show ?thesis
    by blast
qed

text \<open>
  C10: the downlink path after session setup. The MME creates a session and modifies its bearer to the
  tunnel id and address of a traffic monitor; from then on a packet for the subscriber's address is
  tunnelled by the PGW, re-tunnelled by the SGW to that monitor under that tunnel id, and the monitor
  hands the unchanged packet to its tunnel device.
\<close>

theorem downlink_delivered:
  assumes "epc_live X a w" "imsi \<noteq> 0" "short_ip (epc_ip imsi w)" "one_teid (epc_sess w) t imsi"
    and "msg_type_g h1 = 1" "msg_type_g h2 = 2" "teid h2 = t"
    and "short_ip enb_ip" "0 < enb_port" "enb_port < 2 ^ 31" "set_inet_sock_addr X enb_ip enb_port = Inr a2"
    and "epc_sgw X s5 s11 (create_req11 h1 t imsi b g_pgw_s5_ip_addr g_pgw_s5_port apn tai) w = (r1, w1)"
    and "epc_sgw X s5 s11 (modify_req h2 b s1_dl enb_ip enb_port) w1 = (r2, w2)"
    and "20 \<le> length m" "length m \<le> 1008" "inet_ntop X (take 4 (drop 16 m)) = epc_ip imsi w"
    and "set_inet_sock_addr X g_sgw_s5_ip_addr g_sgw_s5_port = Inr a1"
  shows "\<exists>db q s q' p h3 h4 p1 p2. w2 = (db, Some (q, s, Some (q', p))) \<and>
    pgw_sgi_turn X (src1, Rx m) (pkt1, p) = Inr ([Forward a1 (gtp_bytes h3 @ m)], p1, p) \<and>
    sgw_s5_turn X (src2, Rx (gtp_bytes h3 @ m)) (pkt2, s) = Inr ([Forward a2 (gtp_bytes h4 @ m)], p2, s) \<and>
    teid h4 = s1_dl \<and> tm_handle_downlink_udata fresh (Rx (gtp_bytes h4 @ m)) = Inr m"
  by (rule downlink_after_setup [OF assms])

lemma sample_world_ip: "epc_ip (plan_imsi 7) sample_world = plan_ip 7"
  using start_ip [of 7] by simp

theorem downlink_delivered_witness:
  "\<exists>r1 r2 w1 w2 db q s q' p a1 a2 h3 h4 p1 p2.
    sample_sgw (create_req11 (sample_gtp 1 0) 7 (plan_imsi 7) 5 g_pgw_s5_ip_addr g_pgw_s5_port 0 1) sample_world = (r1, w1) \<and>
    sample_sgw (modify_req (sample_gtp 2 7) 5 7 g_trafmon_ip_addr g_trafmon_port) w1 = (r2, w2) \<and>
    w2 = (db, Some (q, s, Some (q', p))) \<and>
    pgw_sgi_turn sample_lib (([3], 3), Rx sample_packet) (sample_pkt, p) =
      Inr ([Forward a1 (gtp_bytes h3 @ sample_packet)], p1, p) \<and>
    sgw_s5_turn sample_lib (([3], 3), Rx (gtp_bytes h3 @ sample_packet)) (sample_pkt, s) =
      Inr ([Forward a2 (gtp_bytes h4 @ sample_packet)], p2, s) \<and>
    tm_handle_downlink_udata sample_fresh (Rx (gtp_bytes h4 @ sample_packet)) = Inr sample_packet"
proof -
  obtain r1 w1 where 1: "epc_sgw sample_lib ([1], 1) ([2], 2)
      (create_req11 (sample_gtp 1 0) 7 (plan_imsi 7) 5 g_pgw_s5_ip_addr g_pgw_s5_port 0 1) sample_world = (r1, w1)"
    by (rule prod.exhaust)
  obtain r2 w2 where 2: "epc_sgw sample_lib ([1], 1) ([2], 2)
      (modify_req (sample_gtp 2 7) 5 7 g_trafmon_ip_addr g_trafmon_port) w1 = (r2, w2)"
    by (rule prod.exhaust)
  have live: "epc_live sample_lib (epc_addr, 8000) sample_world"
    by (rule start_live [OF inet_ok_sample])
  have ip: "short_ip (epc_ip (plan_imsi 7) sample_world)"
    using plan_ip_short [of 7] by (simp add: sample_world_ip)
  have one: "one_teid (epc_sess sample_world) 7 (plan_imsi 7)"
    by (simp add: one_teid_def start_sess)
  obtain a1 a2 where a: "set_inet_sock_addr sample_lib g_sgw_s5_ip_addr g_sgw_s5_port = Inr a1"
      "set_inet_sock_addr sample_lib g_trafmon_ip_addr g_trafmon_port = Inr a2"
    using inet_epc [OF inet_ok_sample] by (simp add: set_inet_sock_addr_def g_sgw_s5_ip_addr_def g_trafmon_ip_addr_def)
  have port: "0 < g_trafmon_port" "g_trafmon_port < 2 ^ 31"
    by (simp_all add: g_trafmon_port_def)
  have m: "20 \<le> length sample_packet" "length sample_packet \<le> 1008"
      "inet_ntop sample_lib (take 4 (drop 16 sample_packet)) = epc_ip (plan_imsi 7) sample_world"
    by (simp_all add: sample_packet_addr sample_world_ip del: take_all_iff take_all)
  have h: "msg_type_g (sample_gtp 1 0) = 1" "msg_type_g (sample_gtp 2 7) = 2" "teid (sample_gtp 2 7) = 7"
    by simp_all
  from downlink_delivered [OF live sample_imsi ip one h short_trafmon_ip port a(2) 1 2 m a(1), of "([3], 3)" sample_pkt
      "([3], 3)" sample_pkt sample_fresh] 1 2
  show ?thesis
    unfolding sample_sgw_def by blast
qed

text \<open>
  User data without a session. The SGW drops an uplink packet whose endpoint id is unknown or whose
  subscriber has no context, and the PGW drops a packet for an address nobody holds; neither state
  changes.
\<close>

theorem unknown_user_data_dropped:
  assumes "msg_type_g h = 1" and "length m \<le> 1008" and "20 \<le> length m"
    and "at_or 0 (s1_id s) (teid h) = 0 \<or> ue_ctx_s s (at_or 0 (s1_id s) (teid h)) = None"
    and "sgi_id p (inet_ntop X (take 4 (drop 16 m))) = None"
  shows "(\<exists>q. sgw_s1_turn X (src, Rx (gtp_bytes h @ m)) (pkt, s) = Inr ([], q, s)) \<and>
    (\<exists>q. pgw_sgi_turn X (src, Rx m) (pkt, p) = Inr ([], q, p))"
  using sgw_uplink_dropped [OF assms(1,2,4)] pgw_downlink_dropped [OF assms(3,2,5)] by blast

theorem unknown_user_data_dropped_witness:
  "(\<exists>q. sgw_s1_turn sample_lib (([3], 3), Rx (gtp_bytes (sample_gtp 1 9) @ sample_packet)) (sample_pkt, new_sgw) =
      Inr ([], q, new_sgw)) \<and>
   (\<exists>q. pgw_sgi_turn sample_lib (([3], 3), Rx sample_packet) (sample_pkt, new_pgw) = Inr ([], q, new_pgw))"
  by (rule unknown_user_data_dropped) (simp_all add: new_sgw_def new_pgw_def at_or_def)

section \<open>Authentication and protection\<close>

text \<open>
  Mutual authentication, the RAN's side. Faced with a challenge that an HSS computed from \<open>key\<close>,
  the RAN accepts exactly when that is its own key; then it answers with the expected response and
  takes over the session key of the vector.
\<close>

theorem ran_accepts_own_key:
  assumes "snd mme w = (Rx (autn_challenge h autn rand_num ksi), v)"
    and "autn_vector key rand_num (plmn_id_r (ctx u)) = (autn, xres, k_asme)"
  shows "\<exists>q. ran_authenticate mme u w =
    (if key = key_r (ctx u)
     then Inr (True, u\<lparr>pkt_of := q, ctx := ran_authenticated (mme_s1ap_ue_id h) ksi k_asme (ctx u)\<rparr>,
            fst mme (autn_response (s1ap_init 2 8 (enodeb_s1ap_ue_id_r (ctx u)) (mme_s1ap_ue_id h) h) xres) v)
     else Inr (False, u\<lparr>pkt_of := q, ctx := (ctx u)\<lparr>mme_s1ap_ue_id_r := mme_s1ap_ue_id h, ksi_asme_r := ksi\<rparr>\<rparr>, v))"
proof (cases "key = key_r (ctx u)")
  case True
  then show ?thesis
    using ran_authenticate_ok [OF assms(1), of u xres k_asme] assms(2) by simp
next
  case False
  then have "fst (autn_vector (key_r (ctx u)) rand_num (plmn_id_r (ctx u))) \<noteq> autn"
    using autn_vector_inject [of "key_r (ctx u)" rand_num "plmn_id_r (ctx u)" key "plmn_id_r (ctx u)"] assms(2) by auto
  from ran_authenticate_bad [OF assms(1) this] False show ?thesis
    by simp
qed

definition sample_conn :: "u8 list \<Rightarrow> u8 list list conn" where
  "sample_conn m = (\<lambda>out w. w @ [out], \<lambda>w. (Rx m, w))"

theorem ran_accepts_own_key_witness:
  "\<exists>u u' w'. key_r (ctx u) = 7 \<and>
     ran_authenticate (sample_conn (autn_challenge (sample_s1ap 1 3) (fst (autn_vector 8 42 (plmn_id_r (ctx u)))) 42 1)) u [] =
       Inr (False, u', w')"
proof -
  obtain u :: ran where u: "key_r (ctx u) = 7"
    using start_ue [of 7 sample_fresh sample_junk] by fastforce
  let ?v = "autn_vector 8 42 (plmn_id_r (ctx u))"
  obtain autn xres k_asme where v: "?v = (autn, xres, k_asme)"
    by (cases ?v)
  have "snd (sample_conn (autn_challenge (sample_s1ap 1 3) autn 42 1)) [] =
      (Rx (autn_challenge (sample_s1ap 1 3) autn 42 1), [])"
    by (simp add: sample_conn_def)
  from ran_accepts_own_key [OF this v] u v show ?thesis
    by fastforce
qed

text \<open>
  Mutual authentication, the MME's side. For a challenged UE, the right response leads to the
  security mode command with the keys derived from the session key, and a wrong one makes the MME
  forget the UE, with no answer.
\<close>

theorem mme_checks_response:
  assumes "crypto_ok X" and "msg_type_s h = 2" and "mme_s1ap_ue_id h \<noteq> 0"
    and "s1mme_id m (mme_s1ap_ue_id h) = Some guti" and "guti \<noteq> 0" and "ue_ctx_m m guti = Some c"
  shows "mme_handle_ue X fresh hss sgw fd (Rx (autn_response h res)) m w =
    (if res = xres_m c
     then Inr (1, [Snd_conn fd (smc_msg X (s1ap_init 2 46 (enodeb_s1ap_ue_id h) (mme_s1ap_ue_id h) h)
                      (smc_body (ksi_asme_m c) (nw_capability_m c) 1 1))], mme_secured guti m, w)
     else Inr (1, [], mme_removed (mme_s1ap_ue_id h) guti m, w))"
  by (rule mme_autn_turn [OF assms])

theorem mme_checks_response_witness:
  "\<exists>res. mme_handle_ue sample_lib sample_fresh sample_hss sample_sgw 4 (Rx (autn_response (sample_s1ap 2 1) res))
      sample_mme sample_world = Inr (1, [], mme_removed 1 (plan_guti 7) sample_mme, sample_world)"
proof -
  obtain c where c: "ue_ctx_m sample_mme (plan_guti 7) = Some c"
    using sample_mme_fields(3) by auto
  have "mme_handle_ue sample_lib sample_fresh sample_hss sample_sgw 4 (Rx (autn_response (sample_s1ap 2 1) (xres_m c + 1)))
      sample_mme sample_world = Inr (1, [], mme_removed 1 (plan_guti 7) sample_mme, sample_world)"
    by (subst mme_checks_response [OF crypto_ok_sample _ _ _ sample_guti(2) c]) (simp_all add: sample_mme_fields(1))
  then show ?thesis ..
qed

text \<open>
  NAS key agreement. The RAN and the MME derive the NAS keys with different formulas, the RAN with a
  direction of 0 and a constant 1, the MME with a direction of 1. With the same counter and bearer
  both keys agree exactly when the session keys do.
\<close>

theorem nas_keys_agree:
  assumes "ue_ctx_m m guti = Some c" and "count_r rc = count_m c" and "bearer_r rc = bearer_m c"
    and "dir_r rc = 0" and "dir_m c = 1"
  shows "(k_nas_enc_r (ran_secured ksi cap 1 1 rc) = k_nas_enc_m (ue_at guti (mme_secured guti m)) \<longleftrightarrow>
      k_asme_r rc = k_asme_m c) \<and>
    (k_nas_int_r (ran_secured ksi cap 1 1 rc) = k_nas_int_m (ue_at guti (mme_secured guti m)) \<longleftrightarrow>
      k_asme_r rc = k_asme_m c)"
  using assms mme_secured_ctx(1) [OF assms(1)]
  by (simp add: ue_at_def ran_secured_def ran_set_crypt_context_def ran_set_integrity_context_def algebra_simps)

theorem nas_keys_agree_witness:
  "\<exists>rc. k_nas_int_r (ran_secured 1 1 1 1 (rc\<lparr>k_asme_r := snd (snd (autn_vector 7 42 11))\<rparr>)) =
     k_nas_int_m (ue_at (plan_guti 7) (mme_secured (plan_guti 7) sample_mme))"
proof -
  obtain rc where rc: "new_ran_ctx (0, 0, False, 0) = Inr rc"
    by (simp add: new_ran_ctx_def get_plmn_id_1_1)
  then have f: "count_r rc = 1" "bearer_r rc = 0" "dir_r rc = 0"
    by (auto simp: new_ran_ctx_def get_plmn_id_1_1)
  obtain c where c: "ue_ctx_m sample_mme (plan_guti 7) = Some c" and "count_m c = 1" "bearer_m c = 0" "dir_m c = 1"
    "k_asme_m c = snd (snd (autn_vector 7 42 11))"
    using sample_mme_fields(3) by (auto simp: prod_eq_iff)
  then show ?thesis
    using nas_keys_agree [OF c, of "rc\<lparr>k_asme_r := snd (snd (autn_vector 7 42 11))\<rparr>" 1 1] f by auto
qed

text \<open>
  C11: protection round trip. A message of up to 950 bytes that the sender encrypts and authenticates
  is checked and decrypted by the receiver to the same message.
\<close>

theorem protection_roundtrip:
  assumes "crypto_ok X" and "length m \<le> 950"
  shows "bindE (protect X k_enc k_int (view g s d m [])) (\<lambda>p.
    bindE (pkt_wire p) (\<lambda>bytes. unprotect X k_enc k_int (view g' s' d' [] bytes))) = Inr (True, view g' s' d' [] m)"
proof -
  have "length (mac X (cipher X m) @ cipher X m) \<le> 1024"
    using assms length_cipher_le [of X m] by simp
  then show ?thesis
    using assms by (simp add: protect_view unprotect_view)
qed

theorem protection_roundtrip_witness:
  "bindE (protect sample_lib 1 2 (view (sample_gtp 0 0) (sample_s1ap 0 0) (sample_diameter 0) [1, 2, 3] [])) (\<lambda>p.
    bindE (pkt_wire p) (\<lambda>bytes. unprotect sample_lib 1 2
      (view (sample_gtp 0 0) (sample_s1ap 0 0) (sample_diameter 0) [] bytes))) =
   Inr (True, view (sample_gtp 0 0) (sample_s1ap 0 0) (sample_diameter 0) [] [1, 2, 3])"
  by (rule protection_roundtrip [OF crypto_ok_sample]) simp

text \<open>
  C12: forged messages. A protected message (security mode complete, attach complete or detach) of a
  known UE whose MAC is not the MAC of its cipher text is never acted on: the MME exits.
\<close>

theorem forged_message_stops_mme:
  assumes "crypto_ok X" and "mme_s1ap_ue_id h \<noteq> 0" and "msg_type_s h \<in> {3, 4, 5}"
    and "s1mme_id m (mme_s1ap_ue_id h) = Some guti" and "guti \<noteq> 0"
    and "length tag = 20" and "length c \<le> 900" and "tag \<noteq> mac X c"
  shows "\<exists>who. mme_handle_ue X fresh hss sgw fd (Rx (s1ap_bytes h @ tag @ c)) m w = Inl (Exit (''hmac failure: '' @ who))"
  using assms open_or_exit_forged [OF assms(1,6,7,8)]
  by (cases fresh)
    (auto simp: mme_handle_ue_def local_packet_def mme_handle_security_mode_complete_def
      mme_handle_attach_complete_def mme_handle_detach_def guti_or_exit_def Let_def)

theorem forged_message_stops_mme_witness:
  "\<exists>who. mme_handle_ue sample_lib sample_fresh sample_hss sample_sgw 4
     (Rx (s1ap_bytes (sample_s1ap 5 1) @ replicate 20 9 @ [1, 2, 3])) sample_mme sample_world =
     Inl (Exit (''hmac failure: '' @ who))"
proof -
  have "sum_list integrity_key + sum_list [1, 2, 3] \<noteq> (9 :: u8)"
    by code_simp
  then have "replicate 20 9 \<noteq> mac sample_lib [1, 2, 3]"
    by (simp add: mac_def sample_lib_def digest20_def)
  then show ?thesis
    by (intro forged_message_stops_mme [OF crypto_ok_sample _ _ _ sample_guti(2)]) (simp_all add: sample_mme_fields(1))
qed

section \<open>Transport\<close>

text \<open>
  C13: framing under any segmentation. Whatever the partial writes of the sender and whatever segments
  the receiver's reads return, a non-empty message of up to 1020 bytes that goes through
  \<open>write_sctp_pkt\<close> and \<open>read_sctp_pkt\<close> arrives as the same message, the reads stop at its end, and
  what follows it on the stream is left for the next read: the byte stream refines the message
  interface that the handlers are modelled over.
\<close>

theorem stream_carries_messages:
  assumes "0 \<le> fd" and "length (a @ r) \<le> 1020" and "a @ r \<noteq> []" and "\<forall>w \<in> set ws. 0 < w"
    and "write_sctp_pkt fd (view g s d a r) ws = Inr (n, wire)"
    and "good_stream t" and "stream_bytes t = wire @ rest"
  shows "\<exists>m q t'. sctp_snd (view g s d a r) = Inr m \<and> sctp_deliver (Rx m) p = Inr q \<and>
    read_sctp_pkt fd (clear_pkt p) t = Inr (int (length m), q, t') \<and> stream_bytes t' = rest"
  by (rule stream_refines_messages [OF assms])

theorem stream_carries_messages_witness:
  "\<exists>n wire m q t'. write_sctp_pkt 4 (view (sample_gtp 0 0) (sample_s1ap 0 0) (sample_diameter 0) [8] [1, 2]) [2, 1, 3] = Inr (n, wire) \<and>
    wire = [3, 0, 0, 0, 8, 1, 2] \<and>
    read_sctp_pkt 4 (clear_pkt sample_pkt) [Seg [3, 0], Seg [0, 0, 8], Seg [1], Seg [2, 77]] = Inr (int (length m), q, t') \<and>
    m = [8, 1, 2] \<and> stream_bytes t' = [77]"
proof -
  let ?v = "view (sample_gtp 0 0) (sample_s1ap 0 0) (sample_diameter 0) [8] [1, 2]"
  have f: "frame [8, 1, 2] = [3, 0, 0, 0, 8, 1, 2]"
    by code_simp
  have w: "write_sctp_pkt 4 ?v [2, 1, 3] = Inr (7, [3, 0, 0, 0, 8, 1, 2])"
    using write_sctp_pkt_view [of 4 "[8]" "[1, 2]" "[2, 1, 3]"] by (simp add: f)
  have "sctp_snd ?v = Inr [8, 1, 2]"
    by simp
  with stream_carries_messages [OF _ _ _ _ w, of "[Seg [3, 0], Seg [0, 0, 8], Seg [1], Seg [2, 77]]" "[77]" sample_pkt]
  show ?thesis
    using w by auto
qed

text \<open>
  C14: the length prefix is trusted. When the peer announces more than the 1024 bytes of the buffer and
  sends them, the read loop writes past the buffer.
\<close>

theorem long_frame_overflows:
  assumes "0 \<le> fd" and "good_stream s" and "stream_bytes s = le_int n @ m"
    and "1024 < n" and "n \<le> int (length m)" and "n < 2 ^ 31"
  shows "read_sctp_pkt fd (view g h d a r) s = Inl (Undefined ''memmove: write out of range'')"
  by (rule read_sctp_pkt_overflow [OF assms])

theorem long_frame_overflows_witness:
  "read_sctp_pkt 4 (view (sample_gtp 0 0) (sample_s1ap 0 0) (sample_diameter 0) [] [])
     [Seg (le_int 2000 @ replicate 2000 65)] = Inl (Undefined ''memmove: write out of range'')"
proof -
  have "le_int 2000 @ replicate 2000 65 \<noteq> ([] :: u8 list)"
    by (simp add: le_int_def)
  then show ?thesis
    by (intro long_frame_overflows [where m = "replicate 2000 65" and n = 2000]) simp_all
qed

text \<open>
  C15: writes complete. With any non-empty packet and any positive partial writes, \<open>write_sctp_pkt\<close>
  returns the full length and the bytes on the wire are the length prefix and the message.
\<close>

theorem write_completes:
  assumes "0 \<le> fd" and "length a + length r \<le> 1020" and "\<forall>w \<in> set ws. 0 < w"
  shows "write_sctp_pkt fd (view g s d a r) ws = Inr (int (4 + length a + length r), le_int (int (length a + length r)) @ a @ r)"
  using write_sctp_pkt_view [OF assms] by (simp add: frame_def)

theorem write_completes_witness:
  "write_sctp_pkt 4 (view (sample_gtp 0 0) (sample_s1ap 0 0) (sample_diameter 0) [8] [1, 2]) [1, 1, 2] =
     Inr (int (4 + length [8 :: u8] + length [1, 2 :: u8]), le_int (int (length [8 :: u8] + length [1, 2 :: u8])) @ [8] @ [1, 2])"
  by (rule write_completes) simp_all

section \<open>Packets\<close>

text \<open>
  Strings on the wire. Appending a NUL-free string to a packet succeeds exactly when its length
  field and its bytes fit into the 1024-byte buffer; then the receiver extracts the same string and
  the read pointer stands behind it, whatever follows.
\<close>

theorem string_roundtrip:
  assumes "nul_free v" and "length a \<le> 1024"
  shows "((\<exists>p. append_string v (view g s d a []) = Inr p) \<longleftrightarrow> length a + 4 + length v \<le> 1024) \<and>
    (length a + 4 + length v \<le> 1024 \<longrightarrow>
      bindE (append_string v (view g s d a [])) (\<lambda>p.
      bindE (pkt_wire p) (\<lambda>m. extract_string (view g' s' d' a (drop (length a) m)))) =
      Inr (v, view g' s' d' (a @ string_bytes v) []))"
  using assms string_codec.app_defined_iff [OF assms(2), of v g s d] string_codec.app_then_ext [OF assms(1), of a]
  by (simp add: add.assoc)

theorem string_roundtrip_witness:
  "bindE (append_string ''172.16.1.10'' (view (sample_gtp 0 0) (sample_s1ap 0 0) (sample_diameter 0) [5] [])) (\<lambda>p.
   bindE (pkt_wire p) (\<lambda>m. extract_string (view (sample_gtp 0 0) (sample_s1ap 0 0) (sample_diameter 0) [5] (drop 1 m)))) =
   Inr (''172.16.1.10'', view (sample_gtp 0 0) (sample_s1ap 0 0) (sample_diameter 0) ([5] @ string_bytes ''172.16.1.10'') [])"
proof -
  have "nul_free ''172.16.1.10''"
    by (simp add: nul_free_def)
  from string_roundtrip [OF this, of "[5]"] show ?thesis
    by simp
qed

text \<open>
  Two numbers in a row. A 64-bit and a 32-bit item appended one after the other and sent come back
  in the same order, for all values.
\<close>

theorem items_keep_order:
  "bindE (bindE (append_u64 x (view g s d [] [])) (append_u32 y)) (\<lambda>p.
   bindE (pkt_wire p) (\<lambda>m.
   bindE (extract_u64 (view g' s' d' [] m)) (\<lambda>(x, p). bindE (extract_u32 p) (\<lambda>(y, p). Inr (x, y))))) = Inr (x, y)"
  by (simp add: item_app_view item_ext_view)

text \<open>
  GTP headers. \<open>Gtp::init\<close> fails exactly for a protocol other than 1 and 2. Otherwise the version
  is in the top three flag bits, a GTPv2 header has the TEID flag exactly when the endpoint id is not
  zero, type, length and endpoint id are the arguments, and a receiver that extracts the header of the
  packet it was prepended to gets it back.
\<close>

theorem gtp_header:
  "((\<exists>e. gtp_init p t l i h = Inl e) \<longleftrightarrow> p \<noteq> 1 \<and> p \<noteq> 2) \<and>
   (gtp_init p t l i h = Inr h' \<longrightarrow>
     unat (flags_g h') div 32 = unat p \<and> (p = 2 \<longrightarrow> (unat (flags_g h') div 8) mod 2 = (if i = 0 then 0 else 1)) \<and>
     msg_type_g h' = t \<and> msg_len_g h' = l \<and> teid h' = i \<and>
     (length m \<le> 1000 \<longrightarrow>
       bindE (prepend_gtp_hdr p t l i (view h s d m [])) (\<lambda>q.
       bindE (pkt_wire q) (\<lambda>bytes. extract_gtp_hdr (view g' s' d' [] bytes))) =
       Inr (view h' s' d' (gtp_bytes h') m)))"
proof (intro conjI impI)
  show "(\<exists>e. gtp_init p t l i h = Inl e) \<longleftrightarrow> p \<noteq> 1 \<and> p \<noteq> 2"
    by (rule gtp_init_error_iff)
next
  assume h': "gtp_init p t l i h = Inr h'"
  then show "unat (flags_g h') div 32 = unat p" and "msg_type_g h' = t" and "msg_len_g h' = l" and "teid h' = i"
    using gtp_init_version gtp_init_fields by blast+
  show "(unat (flags_g h') div 8) mod 2 = (if i = 0 then 0 else 1)" if "p = 2"
    using h' unfolding that by (rule gtp_init_teid_flag)
  assume m: "length m \<le> 1000"
  then have "prepend_gtp_hdr p t l i (view h s d m []) = Inr (view h' s d (gtp_bytes h' @ m) [])"
    using h' by (simp add: prepend_gtp_hdr_def)
  then show "bindE (prepend_gtp_hdr p t l i (view h s d m [])) (\<lambda>q.
      bindE (pkt_wire q) (\<lambda>bytes. extract_gtp_hdr (view g' s' d' [] bytes))) = Inr (view h' s' d' (gtp_bytes h') m)"
    using m by simp
qed

theorem gtp_header_witness:
  "\<exists>h'. gtp_init 2 1 33 7 (sample_gtp 0 0) = Inr h' \<and> unat (flags_g h') div 32 = unat (2 :: u8) \<and> teid h' = 7"
proof -
  obtain h' where "gtp_init 2 1 33 7 (sample_gtp 0 0) = Inr h'"
    by simp
  then show ?thesis
    using gtp_header [of 2 1 33 7 "sample_gtp 0 0" h'] by blast
qed

section \<open>Identifiers and addresses\<close>

text \<open>
  The identifiers of a subscriber. For UE number \<open>i\<close> below \<open>10 ^ 9\<close>, the RAN builds the IMSI
  \<open>plan_imsi i\<close> from its MSISDN, the MME files it under the GUTI \<open>plan_guti i\<close>, and the S11 endpoint
  id that it derives from the GUTI is \<open>i\<close>: so different UEs never share an endpoint.
\<close>

theorem subscriber_identifiers:
  assumes "i < 10 ^ 9"
  shows "get_imsi 11 (9000000000 + of_nat i) = Inr (plan_imsi i) \<and>
    get_guti 1111 (plan_imsi i) = Inr (plan_guti i) \<and> get_s11cteidmme (plan_guti i) = Inr (of_nat i)"
  using assms ran_imsi [OF assms] plan_endpoint [OF assms] get_guti_1111 [OF plan_imsi12, of i]
  by (simp add: plan_guti_def)

theorem subscriber_identifiers_witness:
  "get_imsi 11 (9000000000 + of_nat 4711) = Inr (plan_imsi 4711) \<and>
   get_guti 1111 (plan_imsi 4711) = Inr (plan_guti 4711) \<and> get_s11cteidmme (plan_guti 4711) = Inr (of_nat 4711)"
  by (rule subscriber_identifiers) simp

text \<open>
  The address plan of the PGW. \<open>set_ip_addrs\<close> gives the subscribers 0 to 9999 the address
  172.16.x.y with the index in base 252, no two of them the same address, and leaves every other
  entry as it was.
\<close>

theorem address_plan:
  shows "(\<forall>i < 10000. set_ip_addrs tab (plan_imsi i) =
      Some (''172.16.'' @ to_string (1 + i div 252) @ ''.'' @ to_string (3 + i mod 252))) \<and>
    (\<forall>i < 10000. \<forall>j < 10000. i \<noteq> j \<longrightarrow> set_ip_addrs tab (plan_imsi i) \<noteq> set_ip_addrs tab (plan_imsi j)) \<and>
    (\<forall>imsi. (\<forall>i < 10000. imsi \<noteq> plan_imsi i) \<longrightarrow> set_ip_addrs tab imsi = tab imsi)"
proof -
  have *: "set_ip_addrs tab (plan_imsi i) = Some (plan_ip i)" if "i < 10000" for i
    using that by (auto simp: set_ip_addrs_closed unat_plan_imsi)
  show ?thesis
  proof (intro conjI allI impI)
    fix i :: nat assume "i < 10000"
    then show "set_ip_addrs tab (plan_imsi i) =
        Some (''172.16.'' @ to_string (1 + i div 252) @ ''.'' @ to_string (3 + i mod 252))"
      using * by (simp only: plan_ip_def)
  next
    fix i j :: nat assume "i < 10000" "j < 10000" "i \<noteq> j"
    then show "set_ip_addrs tab (plan_imsi i) \<noteq> set_ip_addrs tab (plan_imsi j)"
      using plan_ip_inject [of i j] by (simp only: * option.inject) blast
  next
    fix imsi assume "\<forall>i < 10000. imsi \<noteq> plan_imsi i"
    then show "set_ip_addrs tab imsi = tab imsi"
      unfolding set_ip_addrs_closed by auto
  qed
qed

theorem address_plan_witness: "set_ip_addrs Map.empty (plan_imsi 0) \<noteq> set_ip_addrs Map.empty (plan_imsi 252)"
proof -
  have "(0 :: nat) < 10000" "(252 :: nat) < 10000" "(0 :: nat) \<noteq> 252"
    by simp_all
  then show ?thesis
    using address_plan [of Map.empty] by blast
qed

section \<open>The SCTP server\<close>

text \<open>
  Round robin. The accepting thread hands connection number \<open>i\<close> to worker \<open>i mod n\<close> and writes its
  descriptor to that worker's pipe, for any number of connections.
\<close>

theorem accept_round_robin:
  assumes "0 < n" and "\<forall>fd \<in> set fds. 0 \<le> fd \<and> fd < 2 ^ 31"
  shows "accept_clients fresh n fds = Inr (map (\<lambda>i. (i mod n, le_int (fds ! i))) [0..<length fds])"
  using accept_clients_loop_view [OF assms] by (cases fresh) (simp add: accept_clients_def local_packet_def)

theorem accept_round_robin_witness:
  "accept_clients sample_fresh 2 [5, 6, 7] = Inr [(0, le_int 5), (1, le_int 6), (0, le_int 7)]"
  using accept_round_robin [of 2 "[5, 6, 7]" sample_fresh] by (simp add: upt_rec)

text \<open>
  A worker watches every connection. After any number of turns, with connections joining, being
  served and being closed in any order, the highest descriptor given to \<open>select\<close> is at least the
  pipe and every connection of the worker.
\<close>

theorem worker_watches_all:
  assumes "new_worker fresh pipe_fd = Inr k" and "worker_func sc pipe_fd evs (k, t, w) = Inr (k', t', w')"
  shows "pipe_fd \<le> max_fd k' \<and> (\<forall>fd \<in> set (conn_fds k'). fd \<le> max_fd k')"
proof -
  have "worker_ok pipe_fd k"
    using assms(1) by (auto simp: new_worker_def bindE_eq_Inr worker_ok_def)
  from worker_func_ok [OF this assms(2)] show ?thesis
    by (simp add: worker_ok_def)
qed

theorem worker_watches_all_witness:
  "\<exists>k t. worker_func (\<lambda>fd w. Inr (0, w)) 3 [(1, \<lambda>fd. fd = 3)]
     (\<lparr>conn_fds = [], max_fd = 3, pkt_w = sample_pkt\<rparr>, [Seg [4, 0, 0, 0, 5, 0, 0, 0]], ()) = Inr (k, t, ()) \<and>
     5 \<in> set (conn_fds k) \<and> 5 \<le> max_fd k"
proof -
  let ?k = "\<lparr>conn_fds = [], max_fd = 3, pkt_w = sample_pkt\<rparr>"
  have n: "new_worker sample_fresh 3 = Inr ?k"
    by (simp add: new_worker_def local_packet_def sample_fresh_def sample_pkt_def)
  have f: "frame (le_int 5) = [4, 0, 0, 0, 5, 0, 0, 0]"
    by code_simp
  obtain k t where t: "worker_turn (\<lambda>fd w. Inr (0, w)) 3 (1, \<lambda>fd. fd = 3) (?k, [Seg [4, 0, 0, 0, 5, 0, 0, 0]], ()) = Inr (k, t, ())"
    and k: "conn_fds k = [5]"
    using worker_takes [where pipe_fd = 3 and t = "[Seg [4, 0, 0, 0, 5, 0, 0, 0]]" and fd = 5 and rest = "[]"
        and status = 1 and g = "sample_gtp 0 0" and s = "sample_s1ap 0 0"
        and d = "sample_diameter 0" and a = "[]" and r = "[]" and ready = "\<lambda>fd. fd = 3" and w = "()" and sc = "\<lambda>fd w. Inr (0, w)" and k = ?k]
    by (auto simp: f sample_pkt_def)
  have r: "worker_func (\<lambda>fd w. Inr (0, w)) 3 [(1, \<lambda>fd. fd = 3)] (?k, [Seg [4, 0, 0, 0, 5, 0, 0, 0]], ()) = Inr (k, t, ())"
    using t by simp
  from worker_watches_all [OF n r] k r show ?thesis
    by auto
qed

text \<open>
  A new connection reaches its worker. When the pipe is ready and holds the descriptor that the
  accepting thread wrote, in any segments, the turn adds exactly this descriptor to the worker's
  connections, and the rest of the pipe waits for the next turn.
\<close>

theorem worker_takes_connection:
  assumes "0 \<le> pipe_fd" and "good_stream t" and "stream_bytes t = frame (le_int fd) @ rest"
    and "0 \<le> fd" and "fd < 2 ^ 31" and "0 \<le> status" and "pkt_w k = view g s d a r"
    and "\<forall>c \<in> set (conn_fds k). \<not> ready c" and "ready pipe_fd"
  shows "\<exists>k' t'. worker_turn sc pipe_fd (status, ready) (k, t, w) = Inr (k', t', w) \<and>
    conn_fds k' = conn_fds k @ [fd] \<and> stream_bytes t' = rest"
  by (rule worker_takes [OF assms])

theorem worker_takes_connection_witness:
  "\<exists>k' t'. worker_turn (\<lambda>fd w. Inr (0, w)) 3 (1, \<lambda>fd. fd = 3)
     (\<lparr>conn_fds = [4, 9], max_fd = 9, pkt_w = sample_pkt\<rparr>, [Seg [4, 0], Seg [0, 0, 5, 0, 0, 0]], ()) = Inr (k', t', ()) \<and>
     conn_fds k' = [4, 9, 5]"
proof -
  have f: "frame (le_int 5) = [4, 0, 0, 0, 5, 0, 0, 0]"
    by code_simp
  show ?thesis
    using worker_takes_connection [where pipe_fd = 3 and t = "[Seg [4, 0], Seg [0, 0, 5, 0, 0, 0]]" and fd = 5 and rest = "[]"
        and status = 1 and g = "sample_gtp 0 0" and s = "sample_s1ap 0 0"
        and d = "sample_diameter 0" and a = "[]" and r = "[]" and ready = "\<lambda>fd. fd = 3" and w = "()" and sc = "\<lambda>fd w. Inr (0, w)"
        and k = "\<lparr>conn_fds = [4, 9], max_fd = 9, pkt_w = sample_pkt\<rparr>"]
    by (auto simp: f sample_pkt_def)
qed

section \<open>The HSS\<close>

text \<open>
  Authentication data. For a provisioned subscriber, the HSS answers an authentication request of
  the MME with the vector of the subscriber's key and the stored random number, in one message, and
  the database is unchanged.
\<close>

theorem hss_answers:
  assumes "hss_db_ok Q imsi key rand_num db" and "msg_type_d h = 1"
  shows "hss_handle_mme Q fresh kr (Rx (autn_req_bytes h imsi plmn n nw_type)) db =
    (let xres = key + (rand_num + 1) + rand_num
     in Inr (1, Some (autn_rsp_bytes (diameter_init 1 32 h) (xres + 1) rand_num xres
          ((xres + 2) + (xres + 3) + (rand_num + 1) + ucast plmn)), db))"
  unfolding hss_autn_reply [OF assms] autn_vector_def Let_def prod.case ..

theorem hss_answers_witness:
  "hss_handle_mme (sample_db 7 42) sample_fresh (0, 0) (Rx (autn_req_bytes (sample_diameter 1) 119000000007 11 1 0)) () =
    Inr (1, Some (autn_rsp_bytes (diameter_init 1 32 (sample_diameter 1)) 93 42 92 243), ())"
  by (subst hss_answers [OF sample_db_ok]) (simp_all add: Let_def)

text \<open>
  An unknown subscriber. When the database has no row for the IMSI, the whole HSS process ends.
\<close>

theorem hss_exits_on_unknown:
  assumes "Q (''select key_id, rand_num from autn_info where imsi = '' @ to_string (unat imsi)) db = Some ([], db)"
    and "msg_type_d h = 1"
  shows "hss_handle_mme Q fresh kr (Rx (autn_req_bytes h imsi plmn n nw_type)) db =
    Inl (Exit ''mysql_fetch_row error: hss_getautninfo'')"
  using assms by (rule hss_unknown_subscriber_exits)

theorem hss_exits_on_unknown_witness:
  "hss_handle_mme (\<lambda>query db. Some ([], db)) sample_fresh (0, 0) (Rx (autn_req_bytes (sample_diameter 1) 5 11 1 0)) () =
    Inl (Exit ''mysql_fetch_row error: hss_getautninfo'')"
  by (rule hss_exits_on_unknown) simp_all

section \<open>Errors and handover\<close>

text \<open>
  Unknown ids at the MME. Any message of type 2 to 5 under an id that the MME does not know ends
  the MME process, whatever the rest of the message is.
\<close>

theorem mme_exits_on_unknown_id:
  assumes "mme_s1ap_ue_id h \<noteq> 0" and "msg_type_s h \<in> {2, 3, 4, 5}"
    and "s1mme_id m (mme_s1ap_ue_id h) = None" and "length body \<le> 1000"
  shows "\<exists>why. mme_handle_ue X fresh hss sgw fd (Rx (s1ap_bytes h @ body)) m w = Inl (Exit why)"
  using mme_unknown_id [OF assms(1,2) _ assms(4), of m X fresh hss sgw fd w] assms(3) by simp

theorem mme_exits_on_unknown_id_witness:
  "\<exists>why. mme_handle_ue sample_lib sample_fresh sample_hss sample_sgw 4 (Rx (s1ap_bytes (sample_s1ap 5 2) @ [])) sample_mme
     sample_world = Inl (Exit why)"
  by (rule mme_exits_on_unknown_id) (simp_all add: sample_mme_fields(1))

text \<open>
  Unknown endpoints at the SGW. A modify bearer or detach request for an endpoint id without a
  session ends the SGW process.
\<close>

theorem sgw_exits_on_unknown_teid:
  assumes "s11_id s (teid h) = None" and "short_ip enb_ip"
  shows "(msg_type_g h = 2 \<longrightarrow> (\<exists>why. sgw_s11_turn X pgw (src, Rx (modify_req h b s1_dl enb_ip enb_port)) (pkt, s, w) =
      Inl (Exit why))) \<and>
    (msg_type_g h = 3 \<longrightarrow> (\<exists>why. sgw_s11_turn X pgw (src, Rx (detach_req h b tai)) (pkt, s, w) = Inl (Exit why)))"
  using sgw_unknown_teid(1) [of s h enb_ip X pgw src b s1_dl enb_port pkt w]
    sgw_unknown_teid(2) [of s h X pgw src b tai pkt w] assms
  by (simp add: at_or_def)

theorem sgw_exits_on_unknown_teid_witness:
  "\<exists>why. sgw_s11_turn sample_lib (pgw_net sample_lib ([1], 1)) (([2], 2), Rx (detach_req (sample_gtp 3 9) 5 1))
     (sample_pkt, new_sgw, None) = Inl (Exit why)"
  using sgw_exits_on_unknown_teid [of new_sgw "sample_gtp 3 9" g_trafmon_ip_addr sample_lib "pgw_net sample_lib ([1], 1)"
      "([2], 2)" 5 0 0 sample_pkt None 1] short_trafmon_ip
  by (simp add: new_sgw_def)

text \<open>
  C16: switching the downlink. Indirect tunnel setup followed by handover completion moves the
  subscriber's downlink to the tunnel id of the target, and touches nothing else of the context.
\<close>

theorem handover_switches_downlink:
  assumes "msg_type_g h1 = 4" and "msg_type_g h2 = 5" and "teid h1 = t" and "teid h2 = t"
    and "sgw_inv s" and "s11_id s t = Some imsi" and "ue_ctx_s s imsi = Some c" and "length body \<le> 1000"
  shows "\<exists>q1 s1 r1 q2 s2 r2. sgw_s11_turn X pgw (src, Rx (teid_msg h1 target_dl)) (pkt, s, w) =
      Inr ([Reply src (tunnel_rsp r1 True (t + 1))], q1, s1, w) \<and>
    sgw_s11_turn X pgw (src, Rx (gtp_bytes h2 @ body)) (pkt2, s1, w) = Inr ([Reply src (bool_rsp r2 True)], q2, s2, w) \<and>
    ue_ctx_s s2 imsi = Some (c\<lparr>s1_uteid_dl_s := target_dl\<rparr>)"
proof -
  have c: "s11_cteid_mme_s (sgw_ue_at imsi s) = t"
    using sgw_invE [OF assms(5,6)] assms(7) by (auto simp: sgw_ctx_ok_def sgw_ue_at_def)
  have t1: "at_or 0 (s11_id s) (teid h1) = imsi"
    using assms(3,6) by (simp add: at_or_def)
  let ?s1 = "sgw_tunnelled imsi target_dl s"
  have t2: "at_or 0 (s11_id ?s1) (teid h2) = imsi"
    using assms(4,6) by (simp add: at_or_def sgw_tunnelled_def)
  have "ue_ctx_s (sgw_switched imsi ?s1) imsi = Some (c\<lparr>s1_uteid_dl_s := target_dl\<rparr>)"
    using assms(7) by (simp add: sgw_switched_def sgw_tunnelled_def op_idx_def modify_at_def at_or_def)
  then show ?thesis
    using sgw_tunnel_turn [OF assms(1) t1, of X pgw src target_dl pkt w] sgw_switch_turn [OF assms(2) t2 assms(8), of X pgw src pkt2 w]
    by (auto simp: c)
qed

theorem handover_switches_downlink_witness:
  "\<exists>q s q' p q1 s1 r1 q2 s2 r2 c. gw_sample = Some (q, s, Some (q', p)) \<and>
    sgw_s11_turn sample_lib (pgw_net sample_lib ([1], 1)) (([2], 2), Rx (teid_msg (sample_gtp 4 7) 77)) (sample_pkt, s, None) =
      Inr ([Reply ([2], 2) (tunnel_rsp r1 True 8)], q1, s1, None) \<and>
    sgw_s11_turn sample_lib (pgw_net sample_lib ([1], 1)) (([2], 2), Rx (gtp_bytes (sample_gtp 5 7) @ le_int 1)) (sample_pkt, s1, None) =
      Inr ([Reply ([2], 2) (bool_rsp r2 True)], q2, s2, None) \<and>
    ue_ctx_s s2 (plan_imsi 7) = Some c \<and> s1_uteid_dl_s c = 77"
proof -
  obtain q s q' p where g: "gw_sample = Some (q, s, Some (q', p))" and "s11_id s = [7 \<mapsto> plan_imsi 7]"
    using gw_sample_state by blast
  then have s: "s11_id s 7 = Some (plan_imsi 7)"
    by simp
  have inv: "sgw_inv s"
    by (rule gw_sample_inv [OF g])
  obtain c where c: "ue_ctx_s s (plan_imsi 7) = Some c"
    using sgw_invE [OF inv s] by blast
  have h: "msg_type_g (sample_gtp 4 7) = 4" "msg_type_g (sample_gtp 5 7) = 5" "teid (sample_gtp 4 7) = 7" "teid (sample_gtp 5 7) = 7"
      "length (le_int 1) \<le> 1000"
    by simp_all
  from handover_switches_downlink [OF h(1-4) inv s c h(5), of sample_lib "pgw_net sample_lib ([1], 1)" "([2], 2)" 77 sample_pkt
      None sample_pkt] g
  show ?thesis
    by fastforce
qed

end
